(* ===== verification/Js_Prelude.thy ===== *)
theory Js_Prelude
  imports Main "HOL-Library.AList" "HOL-Library.Product_Lexorder" "HOL-Library.Char_ord"
    "HOL-Library.List_Lexorder"
begin

text \<open>
  What every component of the model shares: the ambient inputs of an operation (the clock and the
  identifiers drawn with \<open>randomUUID\<close>), failures as values, and the JavaScript array and map idioms
  of the repository (\<open>find\<close>, \<open>findLast\<close>, mutation of the object a search returned, numeric defaults
  and clamps, a stable \<open>sort\<close> followed by \<open>slice\<close>) with the lemmas the component proofs rest on.

  Conventions. A JavaScript string is a \<open>string\<close>, one \<open>char\<close> per code unit. An instant is the
  number of milliseconds since the epoch, so \<open>Date.parse (d.toISOString())\<close> is the identity on it
  and the comparison of two ISO strings is the comparison of the two numbers. A field that may be
  \<open>null\<close> or \<open>undefined\<close> is an \<open>option\<close>.
\<close>

type_synonym ident = string
type_synonym instant = int

section \<open>The environment of an operation\<close>

text \<open>
  \<open>clock\<close> is the value of \<open>Date.now()\<close> during the operation and \<open>uuid i\<close> the identifier drawn at
  the \<open>i\<close>-th place of the operation where the source calls \<open>randomUUID()\<close>.
\<close>

record env =
  clock :: instant
  uuid :: "nat \<Rightarrow> ident"

text \<open>The environment after the first \<open>n\<close> identifiers have been drawn.\<close>

definition env_from :: "nat \<Rightarrow> env \<Rightarrow> env" where
  "env_from n e = e\<lparr>uuid := \<lambda>k. uuid e (n + k)\<rparr>"

section \<open>Failures\<close>

text \<open>
  A thrown \<open>TypeError\<close>, a plain \<open>Error\<close>, and an \<open>Error\<close> that carries a \<open>code\<close> and possibly a
  \<open>statusCode\<close>.
\<close>

datatype failure = TypeError string | PlainError string | CodedError string "int option"

section \<open>Collections of facts\<close>

named_theorems store_simps \<open>rewriting of searches and updates in the stores\<close>
named_theorems store_defs \<open>definitions of the repository operations\<close>
named_theorems inv_intros \<open>preservation of the invariants, one rule per operation\<close>

section \<open>Defaults and numeric clamps\<close>

definition or_else :: "'a option \<Rightarrow> 'a \<Rightarrow> 'a" where
  "or_else x d = (case x of None \<Rightarrow> d | Some v \<Rightarrow> v)"

definition or_opt :: "'a option \<Rightarrow> 'a option \<Rightarrow> 'a option" where
  "or_opt x y = (case x of None \<Rightarrow> y | Some v \<Rightarrow> Some v)"

lemma or_else_simps [simp]: "or_else None d = d" "or_else (Some v) d = v"
  by (simp_all add: or_else_def)

lemma or_opt_simps [simp]: "or_opt None y = y" "or_opt (Some v) y = Some v" "or_opt x None = x"
  by (simp_all add: or_opt_def split: option.splits)

text \<open>\<open>Number(x) || d\<close>: absent, not a number and zero all give the default.\<close>

definition num_or :: "int option \<Rightarrow> int \<Rightarrow> int" where
  "num_or x d = (case x of None \<Rightarrow> d | Some n \<Rightarrow> if n = 0 then d else n)"

text \<open>\<open>Math.max(lo, Math.min(Number(x) || d, hi))\<close>.\<close>

definition clamp_num :: "int \<Rightarrow> int \<Rightarrow> int \<Rightarrow> int option \<Rightarrow> int" where
  "clamp_num lo hi d x = max lo (min (num_or x d) hi)"

lemma clamp_num_bounds: "lo \<le> hi \<Longrightarrow> lo \<le> clamp_num lo hi d x \<and> clamp_num lo hi d x \<le> hi"
  by (simp add: clamp_num_def)

lemma clamp_num_lower: "lo \<le> clamp_num lo hi d x"
  by (simp add: clamp_num_def)

section \<open>Arrays of objects\<close>

text \<open>\<open>xs.find(p)\<close> is \<open>List.find p xs\<close>; \<open>xs.findLast(p)\<close> searches from the end.\<close>

definition find_last :: "('a \<Rightarrow> bool) \<Rightarrow> 'a list \<Rightarrow> 'a option" where
  "find_last p xs = List.find p (rev xs)"

text \<open>
  \<open>Object.assign(xs.find(p), \<dots>)\<close>: the object found is updated in place, so the array holds the
  updated object at the same position.
\<close>

primrec upd_first :: "('a \<Rightarrow> bool) \<Rightarrow> ('a \<Rightarrow> 'a) \<Rightarrow> 'a list \<Rightarrow> 'a list" where
  "upd_first p f [] = []"
| "upd_first p f (x # xs) = (if p x then f x # xs else x # upd_first p f xs)"

definition upd_last :: "('a \<Rightarrow> bool) \<Rightarrow> ('a \<Rightarrow> 'a) \<Rightarrow> 'a list \<Rightarrow> 'a list" where
  "upd_last p f xs = rev (upd_first p f (rev xs))"

text \<open>\<open>xs.splice(xs.findIndex(p), 1)\<close>, with nothing removed when there is no such index.\<close>

primrec remove_first :: "('a \<Rightarrow> bool) \<Rightarrow> 'a list \<Rightarrow> 'a list" where
  "remove_first p [] = []"
| "remove_first p (x # xs) = (if p x then xs else x # remove_first p xs)"

text \<open>\<open>for (const x of xs.filter(p)) Object.assign(x, \<dots>)\<close>.\<close>

definition upd_all :: "('a \<Rightarrow> bool) \<Rightarrow> ('a \<Rightarrow> 'a) \<Rightarrow> 'a list \<Rightarrow> 'a list" where
  "upd_all p f xs = map (\<lambda>x. if p x then f x else x) xs"

lemma find_Some_mem: "List.find p xs = Some x \<Longrightarrow> x \<in> set xs \<and> p x"
  by (auto simp: find_Some_iff)

lemma find_None_all: "List.find p xs = None \<longleftrightarrow> (\<forall>x\<in>set xs. \<not> p x)"
  by (auto simp: find_None_iff)

lemma find_ex: "x \<in> set xs \<Longrightarrow> p x \<Longrightarrow> \<exists>y. List.find p xs = Some y"
  by (metis find_None_all not_None_eq)

lemma find_append:
  "List.find p (xs @ ys) = (case List.find p xs of None \<Rightarrow> List.find p ys | Some x \<Rightarrow> Some x)"
  by (induction xs) auto

lemma find_last_Some_mem: "find_last p xs = Some x \<Longrightarrow> x \<in> set xs \<and> p x"
  by (auto simp: find_last_def dest: find_Some_mem)

lemma find_cong_key:
  assumes "distinct (map k xs)" and "x \<in> set xs"
  shows "List.find (\<lambda>y. k y = k x) xs = Some x"
  using assms by (induction xs) (auto simp: image_iff)

lemma find_unique:
  assumes "distinct (map k xs)" and "x \<in> set xs" and "p x"
    and "\<And>y. y \<in> set xs \<Longrightarrow> p y \<Longrightarrow> k y = k x"
  shows "List.find p xs = Some x"
proof -
  from assms(2,3) obtain y where y: "List.find p xs = Some y" using find_ex by metis
  then have "y \<in> set xs" and "p y" by (auto dest: find_Some_mem)
  with assms have "y = x" by (metis (no_types, lifting) distinct_map inj_onD)
  with y show ?thesis by simp
qed

lemma length_upd_first [simp]: "length (upd_first p f xs) = length xs"
  by (induction xs) auto

lemma length_upd_all [simp]: "length (upd_all p f xs) = length xs"
  by (simp add: upd_all_def)

lemma map_upd_first [store_simps]: "(\<And>x. p x \<Longrightarrow> k (f x) = k x) \<Longrightarrow> map k (upd_first p f xs) = map k xs"
  by (induction xs) auto

lemma map_upd_all [store_simps]: "(\<And>x. p x \<Longrightarrow> k (f x) = k x) \<Longrightarrow> map k (upd_all p f xs) = map k xs"
  by (simp add: upd_all_def)

lemma upd_first_none: "\<forall>x\<in>set xs. \<not> p x \<Longrightarrow> upd_first p f xs = xs"
  by (induction xs) auto

lemma set_upd_first_subset: "set (upd_first p f xs) \<subseteq> set xs \<union> f ` {x \<in> set xs. p x}"
  by (induction xs) auto

lemma set_upd_firstE:
  assumes "y \<in> set (upd_first p f xs)"
  obtains "y \<in> set xs" | x where "List.find p xs = Some x" "y = f x"
  using assms by (induction xs) (auto split: if_splits)

lemma mem_upd_first: "List.find p xs = Some x \<Longrightarrow> f x \<in> set (upd_first p f xs)"
  by (induction xs) (auto split: if_splits)

lemma mem_upd_first_other: "y \<in> set xs \<Longrightarrow> \<not> p y \<Longrightarrow> y \<in> set (upd_first p f xs)"
  by (induction xs) auto

lemma find_upd_first_same:
  "(\<And>x. p x \<Longrightarrow> p (f x)) \<Longrightarrow> List.find p (upd_first p f xs) = map_option f (List.find p xs)"
  by (induction xs) auto

lemma find_upd_first_other:
  "(\<And>x. p x \<Longrightarrow> \<not> q x) \<Longrightarrow> (\<And>x. p x \<Longrightarrow> \<not> q (f x)) \<Longrightarrow>
    List.find q (upd_first p f xs) = List.find q xs"
  by (induction xs) auto

lemma set_remove_first: "set (remove_first p xs) \<subseteq> set xs"
  by (induction xs) auto

lemma distinct_map_remove_first: "distinct (map k xs) \<Longrightarrow> distinct (map k (remove_first p xs))"
  by (induction xs) (use set_remove_first in fastforce)+

lemma filter_upd_first_unchanged:
  "(\<And>x. p x \<Longrightarrow> \<not> q x \<and> \<not> q (f x)) \<Longrightarrow> filter q (upd_first p f xs) = filter q xs"
  by (induction xs) auto

section \<open>Selecting references and assigning through them\<close>

text \<open>
  \<open>xs.filter(P).sort((l, r) => key(l) - key(r)).slice(0, k)\<close> is a list of references to objects of
  the array, here their positions; \<open>sort\<close> is stable, as \<open>Array.prototype.sort\<close> is, so \<open>sort_key\<close> is
  the same function. A loop that assigns to each of them is \<open>assign_refs\<close>.
\<close>

definition select_refs :: "('a \<Rightarrow> bool) \<Rightarrow> ('a \<Rightarrow> 'k::linorder) \<Rightarrow> nat \<Rightarrow> 'a list \<Rightarrow> nat list" where
  "select_refs P key k xs = take k (sort_key (\<lambda>i. key (xs ! i)) (filter (\<lambda>i. P (xs ! i)) [0..<length xs]))"

definition assign_refs :: "('a \<Rightarrow> 'a) \<Rightarrow> nat list \<Rightarrow> 'a list \<Rightarrow> 'a list" where
  "assign_refs f refs xs = map (\<lambda>i. if i \<in> set refs then f (xs ! i) else xs ! i) [0..<length xs]"

lemma length_assign_refs [simp]: "length (assign_refs f refs xs) = length xs"
  by (simp add: assign_refs_def)

lemma nth_assign_refs:
  "i < length xs \<Longrightarrow> assign_refs f refs xs ! i = (if i \<in> set refs then f (xs ! i) else xs ! i)"
  by (simp add: assign_refs_def)

lemma map_assign_refs [store_simps]:
  "(\<And>x. k (f x) = k x) \<Longrightarrow> map k (assign_refs f refs xs) = map k xs"
  by (rule nth_equalityI) (auto simp: nth_assign_refs)

lemma set_assign_refsE:
  assumes "y \<in> set (assign_refs f refs xs)"
  obtains i where "i < length xs" "i \<in> set refs" "y = f (xs ! i)"
    | i where "i < length xs" "i \<notin> set refs" "y = xs ! i"
proof -
  from assms obtain i where i: "i < length xs" "y = assign_refs f refs xs ! i"
    by (metis in_set_conv_nth length_assign_refs)
  show thesis
  proof (cases "i \<in> set refs")
    case True
    then show thesis using that(1) i by (simp add: nth_assign_refs)
  next
    case False
    then show thesis using that(2) i by (simp add: nth_assign_refs)
  qed
qed

lemma select_refs_mem: "i \<in> set (select_refs P key k xs) \<Longrightarrow> i < length xs \<and> P (xs ! i)"
  by (auto simp: select_refs_def dest!: in_set_takeD)

lemma select_refs_distinct: "distinct (select_refs P key k xs)"
  by (simp add: select_refs_def distinct_take)

lemma select_refs_length: "length (select_refs P key k xs) \<le> k"
  by (simp add: select_refs_def)

lemma select_refs_sorted: "sorted (map (\<lambda>i. key (xs ! i)) (select_refs P key k xs))"
  by (simp add: select_refs_def take_map [symmetric] sorted_wrt_take)

text \<open>Every element that qualifies is taken while there is room for it.\<close>

lemma select_refs_all:
  assumes "length (filter P xs) \<le> k" and "i < length xs" and "P (xs ! i)"
  shows "i \<in> set (select_refs P key k xs)"
proof -
  have "length (filter (\<lambda>i. P (xs ! i)) [0..<length xs]) = length (filter P (map ((!) xs) [0..<length xs]))"
    by (simp add: filter_map o_def)
  then have "length (filter (\<lambda>i. P (xs ! i)) [0..<length xs]) \<le> k"
    using assms(1) by (simp add: map_nth)
  then show ?thesis using assms by (simp add: select_refs_def)
qed

text \<open>An element left out for lack of room is no earlier than any element taken.\<close>

lemma select_refs_least:
  assumes "i \<in> set (select_refs P key k xs)" and "j < length xs" and "P (xs ! j)"
    and "j \<notin> set (select_refs P key k xs)"
  shows "key (xs ! i) \<le> key (xs ! j)"
proof -
  let ?s = "sort_key (\<lambda>i. key (xs ! i)) (filter (\<lambda>i. P (xs ! i)) [0..<length xs])"
  have "j \<in> set ?s" using assms(2,3) by simp
  then have "j \<in> set (drop k ?s)"
    using assms(4) by (metis UnE append_take_drop_id select_refs_def set_append)
  moreover have "i \<in> set (take k ?s)" using assms(1) by (simp add: select_refs_def)
  moreover have "sorted (map (\<lambda>i. key (xs ! i)) (take k ?s @ drop k ?s))" by simp
  ultimately show ?thesis
    unfolding map_append sorted_append by fastforce
qed

section \<open>Updates in place, element by element\<close>

lemma list_all2_upd_first:
  "(\<And>x. R x x) \<Longrightarrow> (\<And>x. p x \<Longrightarrow> R x (f x)) \<Longrightarrow> list_all2 R xs (upd_first p f xs)"
  by (induction xs) (auto simp: list_all2_same)

lemma list_all2_assign_refs:
  "(\<And>x. R x x) \<Longrightarrow> (\<And>i. i \<in> set refs \<Longrightarrow> i < length xs \<Longrightarrow> R (xs ! i) (f (xs ! i))) \<Longrightarrow>
    list_all2 R xs (assign_refs f refs xs)"
  by (simp add: list_all2_conv_all_nth nth_assign_refs)

lemma list_all2_memL: "list_all2 R xs ys \<Longrightarrow> x \<in> set xs \<Longrightarrow> \<exists>y\<in>set ys. R x y"
  by (induction rule: list_all2_induct) auto

lemma list_all2_memR: "list_all2 R xs ys \<Longrightarrow> y \<in> set ys \<Longrightarrow> \<exists>x\<in>set xs. R x y"
  by (induction rule: list_all2_induct) auto

lemma set_upd_first_distinct:
  assumes "distinct (map k xs)" and "List.find p xs = Some x"
  shows "set (upd_first p f xs) = insert (f x) {y \<in> set xs. k y \<noteq> k x}"
  using assms by (induction xs) (auto split: if_splits simp: image_iff dest: find_Some_mem)

lemma map_assign_refs_same:
  assumes "\<And>k. k \<in> set refs \<Longrightarrow> k < length xs \<Longrightarrow> g (f (xs ! k)) = g (xs ! k)"
  shows "map g (assign_refs f refs xs) = map g xs"
  using assms by (auto simp: assign_refs_def intro!: nth_equalityI)

lemma select_refs_full:
  assumes "j < length xs" and "P (xs ! j)" and "j \<notin> set (select_refs P key k xs)"
  shows "length (select_refs P key k xs) = k"
proof -
  let ?s = "sort_key (\<lambda>i. key (xs ! i)) (filter (\<lambda>i. P (xs ! i)) [0..<length xs])"
  have "j \<in> set ?s" using assms(1,2) by simp
  then have "take k ?s \<noteq> ?s" using assms(3) by (auto simp: select_refs_def)
  then have "k < length ?s" by (metis not_le take_all)
  then show ?thesis by (simp add: select_refs_def)
qed

section \<open>Map objects\<close>

text \<open>
  A JavaScript \<open>Map\<close> keeps insertion order: \<open>set\<close> overwrites in place or appends
  (\<open>AList.update\<close>), \<open>delete\<close> drops the entry (\<open>AList.delete\<close>), \<open>get\<close> is \<open>map_of\<close>. Objects held
  by the map are mutated in place, which \<open>map_entry\<close> describes.
\<close>

abbreviation map_get :: "('k \<times> 'v) list \<Rightarrow> 'k \<Rightarrow> 'v option" where
  "map_get m k \<equiv> map_of m k"

definition map_modify :: "'k \<Rightarrow> ('v \<Rightarrow> 'v) \<Rightarrow> ('k \<times> 'v) list \<Rightarrow> ('k \<times> 'v) list" where
  "map_modify k f m = map (\<lambda>(k', v). (k', if k' = k then f v else v)) m"

lemma map_of_map_modify [store_simps]:
  "map_of (map_modify k f m) k' = (if k' = k then map_option f (map_of m k) else map_of m k')"
  by (induction m) (auto simp: map_modify_def)

lemma update_fresh: "k \<notin> fst ` set m \<Longrightarrow> AList.update k v m = m @ [(k, v)]"
  by (induction m) auto

lemma set_update_subset: "set (AList.update k v m) \<subseteq> insert (k, v) (set m)"
  by (induction m) auto

lemma keys_map_modify [store_simps]: "map fst (map_modify k f m) = map fst m"
  by (simp add: map_modify_def case_prod_unfold)

end
