(* ===== verification/Js_Regex.thy ===== *)
theory Js_Regex
  imports Js_Prelude
begin

text \<open>
  The regular expressions of the source as terms, with the language they denote and an executable
  matcher by derivatives that is proved equal to it. \<open>Rep r lo hi\<close> is \<open>r{lo,hi}\<close>; \<open>*\<close>, \<open>+\<close> and
  \<open>?\<close> are the bounds \<open>(0, None)\<close>, \<open>(1, None)\<close> and \<open>(0, Some 1)\<close>. \<open>matches\<close> is
  \<open>/^(?:r)$/.test(s)\<close> and \<open>search\<close> is the unanchored \<open>/r/.test(s)\<close>. Which of several parses the
  backtracking matcher of JavaScript finds does not matter to \<open>test\<close>.
\<close>

datatype rexp =
    Nul
  | Eps
  | Cls "char \<Rightarrow> bool"
  | Alt rexp rexp
  | Sq rexp rexp
  | Rep rexp nat "nat option"

section \<open>Character classes\<close>

definition code_of :: "char \<Rightarrow> nat" where
  "code_of c = of_char c"

definition is_digit :: "char \<Rightarrow> bool" where
  "is_digit c \<longleftrightarrow> 48 \<le> code_of c \<and> code_of c \<le> 57"

definition is_upper :: "char \<Rightarrow> bool" where
  "is_upper c \<longleftrightarrow> 65 \<le> code_of c \<and> code_of c \<le> 90"

definition is_lower :: "char \<Rightarrow> bool" where
  "is_lower c \<longleftrightarrow> 97 \<le> code_of c \<and> code_of c \<le> 122"

definition is_alnum :: "char \<Rightarrow> bool" where
  "is_alnum c \<longleftrightarrow> is_digit c \<or> is_upper c \<or> is_lower c"

text \<open>\<open>\s\<close>, which is also the set of characters that \<open>trim\<close> strips, among the first 256 code units.\<close>

definition is_space :: "char \<Rightarrow> bool" where
  "is_space c \<longleftrightarrow> code_of c \<in> {9, 10, 11, 12, 13, 32, 160}"

definition to_lower :: "char \<Rightarrow> char" where
  "to_lower c = (if is_upper c then char_of (code_of c + 32) else c)"

definition to_upper :: "char \<Rightarrow> char" where
  "to_upper c = (if is_lower c then char_of (code_of c - 32) else c)"

definition one_of :: "string \<Rightarrow> char \<Rightarrow> bool" where
  "one_of cs c \<longleftrightarrow> c \<in> set cs"

definition any_char :: "char \<Rightarrow> bool" where
  "any_char c \<longleftrightarrow> True"

text \<open>The flag \<open>i\<close>, for patterns over ASCII.\<close>

definition ci :: "(char \<Rightarrow> bool) \<Rightarrow> char \<Rightarrow> bool" where
  "ci p c \<longleftrightarrow> p c \<or> p (to_lower c) \<or> p (to_upper c)"

lemmas char_class_defs =
  is_digit_def is_upper_def is_lower_def is_alnum_def is_space_def one_of_def any_char_def ci_def
  to_lower_def to_upper_def code_of_def

section \<open>Abbreviated forms\<close>

fun literal :: "string \<Rightarrow> rexp" where
  "literal [] = Eps"
| "literal (c # cs) = Sq (Cls (\<lambda>x. x = c)) (literal cs)"

fun literal_ci :: "string \<Rightarrow> rexp" where
  "literal_ci [] = Eps"
| "literal_ci (c # cs) = Sq (Cls (ci (\<lambda>x. x = c))) (literal_ci cs)"

fun alts :: "rexp list \<Rightarrow> rexp" where
  "alts [] = Nul"
| "alts (r # rs) = Alt r (alts rs)"

fun seqs :: "rexp list \<Rightarrow> rexp" where
  "seqs [] = Eps"
| "seqs (r # rs) = Sq r (seqs rs)"

section \<open>The denoted language\<close>

fun lang :: "rexp \<Rightarrow> string set" where
  "lang Nul = {}"
| "lang Eps = {[]}"
| "lang (Cls p) = {[c] |c. p c}"
| "lang (Alt r s) = lang r \<union> lang s"
| "lang (Sq r s) = {u @ v |u v. u \<in> lang r \<and> v \<in> lang s}"
| "lang (Rep r lo hi) =
     {concat ws |ws. set ws \<subseteq> lang r \<and> lo \<le> length ws \<and> (\<forall>h. hi = Some h \<longrightarrow> length ws \<le> h)}"

section \<open>The matcher\<close>

fun nullable :: "rexp \<Rightarrow> bool" where
  "nullable Nul = False"
| "nullable Eps = True"
| "nullable (Cls p) = False"
| "nullable (Alt r s) = (nullable r \<or> nullable s)"
| "nullable (Sq r s) = (nullable r \<and> nullable s)"
| "nullable (Rep r lo hi) =
     ((case hi of None \<Rightarrow> True | Some h \<Rightarrow> lo \<le> h) \<and> (lo = 0 \<or> nullable r))"

fun mk_sq :: "rexp \<Rightarrow> rexp \<Rightarrow> rexp" where
  "mk_sq Nul s = Nul"
| "mk_sq Eps s = s"
| "mk_sq r s = Sq r s"

fun mk_alt :: "rexp \<Rightarrow> rexp \<Rightarrow> rexp" where
  "mk_alt Nul s = s"
| "mk_alt r Nul = r"
| "mk_alt r s = Alt r s"

fun deriv :: "char \<Rightarrow> rexp \<Rightarrow> rexp" where
  "deriv c Nul = Nul"
| "deriv c Eps = Nul"
| "deriv c (Cls p) = (if p c then Eps else Nul)"
| "deriv c (Alt r s) = mk_alt (deriv c r) (deriv c s)"
| "deriv c (Sq r s) =
     (if nullable r then mk_alt (mk_sq (deriv c r) s) (deriv c s) else mk_sq (deriv c r) s)"
| "deriv c (Rep r lo hi) =
     (case hi of
        None \<Rightarrow> mk_sq (deriv c r) (Rep r (lo - 1) None)
      | Some h \<Rightarrow> if h = 0 then Nul else mk_sq (deriv c r) (Rep r (lo - 1) (Some (h - 1))))"

fun matches :: "rexp \<Rightarrow> string \<Rightarrow> bool" where
  "matches r [] = nullable r"
| "matches r (c # cs) = matches (deriv c r) cs"

text \<open>Some prefix of the string matches; some suffix of it has such a prefix.\<close>

fun is_nul :: "rexp \<Rightarrow> bool" where
  "is_nul Nul = True"
| "is_nul _ = False"

fun prefix_match :: "rexp \<Rightarrow> string \<Rightarrow> bool" where
  "prefix_match r [] = nullable r"
| "prefix_match r (c # cs) =
     (if is_nul r then False else if nullable r then True else prefix_match (deriv c r) cs)"

fun search :: "rexp \<Rightarrow> string \<Rightarrow> bool" where
  "search r [] = nullable r"
| "search r (c # cs) = (prefix_match r (c # cs) \<or> search r cs)"

section \<open>Correctness of the matcher\<close>

lemma lang_mk_sq [simp]: "lang (mk_sq r s) = lang (Sq r s)"
  by (cases "(r, s)" rule: mk_sq.cases) auto

lemma lang_mk_alt [simp]: "lang (mk_alt r s) = lang (Alt r s)"
  by (cases "(r, s)" rule: mk_alt.cases) auto

lemma nullable_iff: "nullable r \<longleftrightarrow> [] \<in> lang r"
proof (induction r)
  case (Rep r lo hi)
  show ?case
  proof
    assume n: "nullable (Rep r lo hi)"
    let ?ws = "replicate lo ([] :: string)"
    have "set ?ws \<subseteq> lang r" using n Rep.IH by (cases lo) auto
    moreover have "\<forall>h. hi = Some h \<longrightarrow> length ?ws \<le> h" using n by (auto split: option.splits)
    moreover have "concat ?ws = []" by (induction lo) auto
    ultimately show "[] \<in> lang (Rep r lo hi)" by (force intro: exI [of _ ?ws])
  next
    assume "[] \<in> lang (Rep r lo hi)"
    then obtain ws where ws: "concat ws = []" "set ws \<subseteq> lang r" "lo \<le> length ws"
      "\<forall>h. hi = Some h \<longrightarrow> length ws \<le> h" by auto
    have "lo = 0 \<or> nullable r"
      using ws Rep.IH by (cases ws) auto
    then show "nullable (Rep r lo hi)" using ws by (auto split: option.splits)
  qed
qed auto

lemma concat_Cons_split:
  assumes "concat ws = c # w"
  obtains es u vs where "ws = es @ (c # u) # vs" "set es \<subseteq> {[]}" "w = u @ concat vs"
  using assms
proof (induction ws arbitrary: thesis)
  case (Cons x ws)
  show ?case
  proof (cases x)
    case Nil
    with Cons.prems(2) have "concat ws = c # w" by simp
    then obtain es u vs where "ws = es @ (c # u) # vs" "set es \<subseteq> {[]}" "w = u @ concat vs"
      by (rule Cons.IH [rotated])
    with Nil show ?thesis by (intro Cons.prems(1) [of "[] # es" u vs]) auto
  next
    case (Cons d u)
    with Cons.prems show ?thesis by (intro Cons.prems(1) [of "[]" u ws]) auto
  qed
qed simp

lemma lang_deriv: "w \<in> lang (deriv c r) \<longleftrightarrow> c # w \<in> lang r"
proof (induction r arbitrary: w)
  case (Sq r s)
  have "c # w \<in> lang (Sq r s) \<longleftrightarrow>
      (\<exists>u v. w = u @ v \<and> c # u \<in> lang r \<and> v \<in> lang s) \<or> ([] \<in> lang r \<and> c # w \<in> lang s)"
    by (auto simp: Cons_eq_append_conv)
  then show ?case using Sq.IH by (auto simp: nullable_iff)
next
  case (Rep r lo hi)
  have step: "c # w \<in> lang (Rep r lo hi) \<longleftrightarrow> hi \<noteq> Some 0 \<and>
      (\<exists>u v. w = u @ v \<and> c # u \<in> lang r \<and> v \<in> lang (Rep r (lo - 1) (map_option (\<lambda>h. h - 1) hi)))"
    (is "?L \<longleftrightarrow> ?R")
  proof
    assume ?L
    then obtain ws where ws: "concat ws = c # w" "set ws \<subseteq> lang r" "lo \<le> length ws"
      "\<forall>h. hi = Some h \<longrightarrow> length ws \<le> h" by auto
    obtain es u vs where sp: "ws = es @ (c # u) # vs" "set es \<subseteq> {[]}" "w = u @ concat vs"
      using concat_Cons_split [OF ws(1)] by blast
    have "concat es = []" using sp(2) by (induction es) auto
    then have "concat (vs @ es) = concat vs" by simp
    moreover have "set (vs @ es) \<subseteq> lang r" and "c # u \<in> lang r" using ws(2) sp(1) by auto
    moreover have "lo - 1 \<le> length (vs @ es)" using ws(3) sp(1) by auto
    moreover have "hi \<noteq> Some 0"
      and "\<forall>h. map_option (\<lambda>h. h - 1) hi = Some h \<longrightarrow> length (vs @ es) \<le> h"
      using ws(4) sp(1) by auto
    ultimately have "concat vs \<in> lang (Rep r (lo - 1) (map_option (\<lambda>h. h - 1) hi))"
      by (auto intro!: exI [of _ "vs @ es"])
    with \<open>hi \<noteq> Some 0\<close> \<open>c # u \<in> lang r\<close> sp(3) show ?R by blast
  next
    assume ?R
    then obtain u vs where r: "hi \<noteq> Some 0" "w = u @ concat vs" "c # u \<in> lang r" "set vs \<subseteq> lang r"
      "lo - 1 \<le> length vs" "\<forall>h. map_option (\<lambda>h. h - 1) hi = Some h \<longrightarrow> length vs \<le> h" by auto
    have "\<forall>h. hi = Some h \<longrightarrow> length ((c # u) # vs) \<le> h"
      using r(1,6) by (auto simp: Suc_le_eq)
    then show ?L using r(2-5) by (auto intro!: exI [of _ "(c # u) # vs"])
  qed
  show ?case using step Rep.IH by (auto split: option.splits simp del: lang.simps(6))
qed auto

theorem matches_iff: "matches r s \<longleftrightarrow> s \<in> lang r"
  by (induction s arbitrary: r) (simp_all add: nullable_iff lang_deriv)

lemma prefix_match_iff: "prefix_match r s \<longleftrightarrow> (\<exists>v w. s = v @ w \<and> v \<in> lang r)"
proof (induction s arbitrary: r)
  case (Cons c cs)
  have "is_nul r \<Longrightarrow> lang r = {}" by (cases r) auto
  then show ?case using Cons.IH
    by (auto simp: nullable_iff lang_deriv Cons_eq_append_conv)
qed (simp add: nullable_iff)

lemma search_iff: "search r s \<longleftrightarrow> (\<exists>u v w. s = u @ v @ w \<and> v \<in> lang r)"
proof (induction s)
  case (Cons c cs)
  have "(\<exists>u v w. c # cs = u @ v @ w \<and> v \<in> lang r) \<longleftrightarrow>
      (\<exists>v w. c # cs = v @ w \<and> v \<in> lang r) \<or> (\<exists>u v w. cs = u @ v @ w \<and> v \<in> lang r)"
    (is "?L \<longleftrightarrow> ?R")
  proof
    assume ?L
    then obtain u v w where uvw: "c # cs = u @ v @ w" "v \<in> lang r" by blast
    then show ?R by (cases u) auto
  next
    assume ?R
    then show ?L
    proof
      assume "\<exists>v w. c # cs = v @ w \<and> v \<in> lang r"
      then show ?L by (metis append_Nil)
    next
      assume "\<exists>u v w. cs = u @ v @ w \<and> v \<in> lang r"
      then show ?L by (metis append_Cons)
    qed
  qed
  with Cons.IH show ?case by (simp add: prefix_match_iff del: prefix_match.simps)
qed (simp add: nullable_iff)

text \<open>A pattern that occurs in a part of a string occurs in the string.\<close>

lemma search_take: "search r (take n s) \<Longrightarrow> search r s"
  unfolding search_iff by (metis append.assoc append_take_drop_id)

lemma lang_Rep_Cls:
  "s \<in> lang (Rep (Cls p) lo hi) \<longleftrightarrow>
    (\<forall>c\<in>set s. p c) \<and> lo \<le> length s \<and> (\<forall>h. hi = Some h \<longrightarrow> length s \<le> h)"
proof
  assume "s \<in> lang (Rep (Cls p) lo hi)"
  then obtain ws where ws: "s = concat ws" "set ws \<subseteq> {[c] |c. p c}" "lo \<le> length ws"
    "\<forall>h. hi = Some h \<longrightarrow> length ws \<le> h" by auto
  have "length (concat ws) = length ws \<and> (\<forall>c\<in>set (concat ws). p c)"
    using ws(2) by (induction ws) auto
  with ws show "(\<forall>c\<in>set s. p c) \<and> lo \<le> length s \<and> (\<forall>h. hi = Some h \<longrightarrow> length s \<le> h)" by auto
next
  assume a: "(\<forall>c\<in>set s. p c) \<and> lo \<le> length s \<and> (\<forall>h. hi = Some h \<longrightarrow> length s \<le> h)"
  have "concat (map (\<lambda>c. [c]) s) = s" by (induction s) auto
  then show "s \<in> lang (Rep (Cls p) lo hi)"
    using a by (force intro: exI [of _ "map (\<lambda>c. [c]) s"])
qed

lemma lang_Sq_Cls: "s \<in> lang (Sq (Cls p) r) \<longleftrightarrow> (\<exists>c cs. s = c # cs \<and> p c \<and> cs \<in> lang r)"
  by (auto intro: exI [of _ "[_]"])

lemma lang_literal: "s \<in> lang (literal w) \<longleftrightarrow> s = w"
  by (induction w arbitrary: s) auto

text \<open>From here on the matcher is used through its characterisation only.\<close>

declare matches.simps [simp del] prefix_match.simps [simp del] search.simps [simp del]
  deriv.simps [simp del]

section \<open>String operations\<close>

definition lower_case :: "string \<Rightarrow> string" where
  "lower_case = map to_lower"

definition trim :: "string \<Rightarrow> string" where
  "trim s = rev (dropWhile is_space (rev (dropWhile is_space s)))"

text \<open>The patterns that several modules repeat.\<close>

definition IDENTIFIER :: rexp where
  "IDENTIFIER = Sq (Cls is_alnum) (Rep (Cls (\<lambda>c. is_alnum c \<or> one_of ''._:/-'' c)) 0 (Some 255))"

lemma matches_IDENTIFIER:
  "matches IDENTIFIER s \<longleftrightarrow>
    s \<noteq> [] \<and> is_alnum (hd s) \<and> (\<forall>c\<in>set (tl s). is_alnum c \<or> one_of ''._:/-'' c) \<and> length s \<le> 256"
  unfolding matches_iff IDENTIFIER_def lang_Sq_Cls lang_Rep_Cls by (cases s) auto

end
