(* ===== verification/Js_Value.thy ===== *)
theory Js_Value
  imports Js_Regex
begin

text \<open>
  JavaScript values as far as the source inspects them: what \<open>JSON.parse\<close> produces, plus \<open>undefined\<close>,
  the non-finite numbers and \<open>JOther\<close> for functions, symbols and big integers. An object lists its
  own enumerable properties in the order of \<open>Object.entries\<close>. The repository also uses these values
  for the payloads it stores without looking at them (envelopes, metadata, messages).
\<close>

datatype jnum =
    Integer int
  | Fractional int nat \<comment> \<open>a finite number that is not an integer: mantissa and decimal places\<close>
  | NaN
  | Infinite bool

datatype json =
    JNull
  | JUndefined
  | JBool bool
  | JNum jnum
  | JStr string
  | JArr "json list"
  | JObj "(string \<times> json) list"
  | JOther

lemma size_JArr: "x \<in> set xs \<Longrightarrow> size x < size (JArr xs)"
  by (induction xs) auto

lemma size_JObj: "kv \<in> set kvs \<Longrightarrow> size (snd kv) < size (JObj kvs)"
  by (induction kvs) auto

lemma json_induct [case_names JNull JUndefined JBool JNum JStr JArr JObj JOther]:
  assumes "P JNull" "P JUndefined" "\<And>b. P (JBool b)" "\<And>n. P (JNum n)" "\<And>s. P (JStr s)"
    and "\<And>xs. (\<And>x. x \<in> set xs \<Longrightarrow> P x) \<Longrightarrow> P (JArr xs)"
    and "\<And>kvs. (\<And>kv. kv \<in> set kvs \<Longrightarrow> P (snd kv)) \<Longrightarrow> P (JObj kvs)"
    and "P JOther"
  shows "P v"
proof (induction v rule: json.induct)
  case (JObj kvs)
  show ?case
  proof (rule assms(7))
    fix kv assume kv: "kv \<in> set kvs"
    show "P (snd kv)" by (rule JObj.IH [OF kv]) (auto simp: prod_set_defs)
  qed
qed (use assms in auto)

definition is_finite_num :: "jnum \<Rightarrow> bool" where
  "is_finite_num n = (case n of Integer _ \<Rightarrow> True | Fractional _ _ \<Rightarrow> True | _ \<Rightarrow> False)"

definition MAX_SAFE_INTEGER :: int where
  "MAX_SAFE_INTEGER = 9007199254740991"

definition is_safe_integer :: "jnum \<Rightarrow> bool" where
  "is_safe_integer n = (case n of Integer i \<Rightarrow> \<bar>i\<bar> \<le> MAX_SAFE_INTEGER | _ \<Rightarrow> False)"

text \<open>The keys every plain object inherits: \<open>o[k]\<close> is a truthy value for each of them.\<close>

definition OBJECT_PROTOTYPE_KEYS :: "string list" where
  "OBJECT_PROTOTYPE_KEYS =
     [''constructor'', ''__defineGetter__'', ''__defineSetter__'', ''hasOwnProperty'',
      ''__lookupGetter__'', ''__lookupSetter__'', ''isPrototypeOf'', ''propertyIsEnumerable'',
      ''toString'', ''valueOf'', ''__proto__'', ''toLocaleString'']"

text \<open>\<open>o[k] = v\<close> on a fresh object whose keys are distinct; \<open>__proto__\<close> makes no own property.\<close>

definition put_own :: "string \<Rightarrow> json \<Rightarrow> (string \<times> json) list \<Rightarrow> (string \<times> json) list" where
  "put_own k v obj = (if k = ''__proto__'' then obj else obj @ [(k, v)])"

text \<open>The first failure of a sequence of checks, in order.\<close>

fun first_failure :: "failure option list \<Rightarrow> failure option" where
  "first_failure [] = None"
| "first_failure (None # xs) = first_failure xs"
| "first_failure (Some e # xs) = Some e"

lemma first_failure_None: "first_failure xs = None \<longleftrightarrow> (\<forall>x\<in>set xs. x = None)"
  by (induction xs rule: first_failure.induct) auto

lemma first_failure_map_None: "first_failure (map f xs) = None \<longleftrightarrow> (\<forall>x\<in>set xs. f x = None)"
  by (simp add: first_failure_None)

text \<open>All strings that occur as values and all keys, at any depth.\<close>

fun string_leaves :: "json \<Rightarrow> string set" where
  "string_leaves (JStr s) = {s}"
| "string_leaves (JArr xs) = (\<Union>x\<in>set xs. string_leaves x)"
| "string_leaves (JObj kvs) = (\<Union>kv\<in>set kvs. string_leaves (snd kv))"
| "string_leaves _ = {}"

fun all_keys :: "json \<Rightarrow> string set" where
  "all_keys (JArr xs) = (\<Union>x\<in>set xs. all_keys x)"
| "all_keys (JObj kvs) = fst ` set kvs \<union> (\<Union>kv\<in>set kvs. all_keys (snd kv))"
| "all_keys _ = {}"

text \<open>Nesting: a scalar has depth 0.\<close>

fun nesting :: "json \<Rightarrow> nat" where
  "nesting (JArr xs) = Max (insert 0 (set (map (\<lambda>x. Suc (nesting x)) xs)))"
| "nesting (JObj kvs) = Max (insert 0 (set (map (\<lambda>kv. Suc (nesting (snd kv))) kvs)))"
| "nesting _ = 0"

end
