(* ===== verification/Fleet_Store.thy ===== *)
theory Fleet_Store
  imports Js_Value
begin

text \<open>
  Tenants and the fleet of agents as \<open>MemoryPlatformRepository\<close> keeps them
  (\<open>packages/db/memory-repository.mjs\<close>): organizations, users, agents with their runtime, servers,
  machine credentials and nonces, and the data of the control plane that \<open>Control_Store\<close> operates on.
  A JavaScript \<open>Map\<close> is an association list in insertion order.
\<close>

section \<open>Data\<close>

record organization =
  og_id :: ident
  og_name :: string
  og_createdAt :: instant

record user =
  us_id :: ident
  us_org :: ident
  us_email :: string
  us_displayName :: string
  us_role :: string
  us_status :: string
  us_createdAt :: instant

record stored_user = user +
  us_passwordHash :: string

record agent =
  ag_id :: ident
  ag_org :: ident
  ag_owner :: ident
  ag_name :: string
  ag_description :: string
  ag_avatar :: "string option"
  ag_soul :: string
  ag_status :: string
  ag_init :: string
  ag_desired :: string
  ag_settings :: json
  ag_errorCode :: "string option"
  ag_errorDetail :: "string option"
  ag_createdAt :: instant
  ag_updatedAt :: instant

record runtime =
  rt_id :: ident
  rt_org :: ident
  rt_owner :: ident
  rt_agent :: ident
  rt_deployment :: "ident option"
  rt_workspace :: string
  rt_kind :: string
  rt_status :: string
  rt_hermes :: "string option"
  rt_boundary :: "string option"
  rt_config :: "ident option"
  rt_endpoint :: "string option"
  rt_heartbeatAt :: "instant option"
  rt_errorCode :: "string option"
  rt_errorDetail :: "string option"
  rt_createdAt :: instant
  rt_updatedAt :: instant

record server =
  sv_id :: ident
  sv_org :: ident
  sv_name :: string
  sv_status :: string
  sv_version :: "string option"
  sv_seenAt :: "instant option"
  sv_createdAt :: instant

record deployment =
  dp_id :: ident
  dp_org :: ident
  dp_agent :: ident
  dp_environment :: string
  dp_observed :: int
  dp_desired :: int
  dp_server :: ident
  dp_name :: string
  dp_status :: string
  dp_createdAt :: instant

record config_revision =
  cf_id :: ident
  cf_org :: ident
  cf_agent :: ident
  cf_revision :: nat
  cf_document :: json
  cf_hash :: string
  cf_envelope :: "json option"
  cf_status :: string
  cf_createdBy :: "ident option"
  cf_createdAt :: instant

datatype command_state =
  CQueued | CLeased | CAccepted | CRunning | CSucceeded | CFailed | CCancelled | CExpired

record command =
  cm_id :: ident
  cm_org :: "ident option"
  cm_deployment :: ident
  cm_agent :: ident
  cm_key :: "string option"
  cm_action :: string
  cm_target :: ident
  cm_arguments :: json
  cm_approval :: "ident option"
  cm_expectedVersion :: int
  cm_state :: command_state
  cm_priority :: int
  cm_attempt :: int
  cm_requestedBy :: "ident option"
  cm_leaseServer :: "ident option"
  cm_leaseExpiresAt :: "instant option"
  cm_expiresAt :: instant
  cm_createdAt :: instant

record approval =
  ap_id :: ident
  ap_org :: ident
  ap_command :: ident
  ap_action :: string
  ap_risk :: string
  ap_requestedBy :: ident
  ap_decidedBy :: "ident option"
  ap_decision :: string
  ap_reason :: string
  ap_expiresAt :: instant
  ap_decidedAt :: "instant option"
  ap_createdAt :: instant

record receipt_report =
  rc_command :: ident
  rc_server :: ident
  rc_attempt :: int
  rc_state :: command_state
  rc_endpoint :: "string option"
  rc_errorCode :: "string option"
  rc_errorSummary :: "string option"
  rc_evidence :: "string list option"
  rc_bytes :: "int option"

record command_receipt = receipt_report +
  rc_id :: ident
  rc_deployment :: ident
  rc_createdAt :: instant

record release_manifest =
  rm_id :: ident
  rm_release :: "ident option"
  rm_version :: string
  rm_agentCommit :: string
  rm_imageDigest :: string
  rm_sbom :: string
  rm_provenance :: string
  rm_signature :: string
  rm_migration :: "string option"
  rm_compatibility :: json
  rm_status :: string
  rm_createdBy :: ident
  rm_createdAt :: instant

record test_run =
  tr_id :: ident
  tr_deployment :: ident
  tr_suite :: string
  tr_type :: string
  tr_status :: string
  tr_startedAt :: "instant option"
  tr_completedAt :: "instant option"
  tr_createdAt :: instant

record backup =
  bk_id :: ident
  bk_deployment :: ident
  bk_policy :: "json option"
  bk_type :: string
  bk_status :: string
  bk_encrypted :: bool
  bk_uri :: "string option"
  bk_sha :: "string option"
  bk_bytes :: "int option"
  bk_verifiedAt :: "instant option"
  bk_expiredAt :: "instant option"
  bk_createdAt :: instant
  bk_expiresAt :: instant

record restore_run =
  rs_id :: "json option"
  rs_backup :: "json option"
  rs_deployment :: ident
  rs_command :: ident
  rs_status :: string
  rs_requestedBy :: "ident option"
  rs_reason :: "string option"
  rs_evidence :: "string list"
  rs_errorCode :: "string option"
  rs_errorSummary :: "string option"
  rs_startedAt :: "instant option"
  rs_completedAt :: "instant option"
  rs_createdAt :: instant

record upstream_candidate =
  uc_id :: ident
  uc_upstream :: ident
  uc_status :: string

record provider_configuration =
  lp_provider :: string
  lp_baseUrl :: string
  lp_model :: string
  lp_envelope :: "json option"
  lp_hint :: "string option"
  lp_applyStatus :: string
  lp_updatedBy :: ident
  lp_updatedAt :: instant

record provider_channel =
  pc_id :: ident
  pc_org :: ident
  pc_name :: string
  pc_provider :: string
  pc_baseUrl :: string
  pc_model :: string
  pc_envelope :: "json option"
  pc_hint :: "string option"
  pc_status :: string
  pc_priority :: int
  pc_weight :: int
  pc_maxConcurrency :: "int option"
  pc_monthlyBudget :: "json option"
  pc_enabled :: bool
  pc_errorCode :: "string option"
  pc_updatedBy :: ident
  pc_createdAt :: instant
  pc_updatedAt :: instant

record retention_policy =
  rp_telemetryDays :: int
  rp_usageDays :: int
  rp_auditDays :: int
  rp_sensitiveDays :: int
  rp_backupDays :: int
  rp_updatedBy :: "ident option"
  rp_updatedAt :: instant

record skill_preference =
  sp_org :: ident
  sp_user :: ident
  sp_agent :: ident
  sp_skill :: string
  sp_enabled :: bool
  sp_applyStatus :: string
  sp_errorCode :: "string option"
  sp_updatedAt :: instant

record machine_credential =
  mc_id :: ident
  mc_subject :: ident
  mc_scope :: "(ident \<times> ident \<times> ident) option"
  mc_keyHash :: string
  mc_keyHint :: string
  mc_status :: string
  mc_createdBy :: "ident option"
  mc_createdAt :: instant

record fleet_state =
  organizations :: "(ident \<times> organization) list"
  users :: "(ident \<times> stored_user) list"
  agents :: "(ident \<times> agent) list"
  runtimes :: "(ident \<times> runtime) list"
  servers :: "server list"
  deployments :: "deployment list"
  configs :: "config_revision list"
  commands :: "command list"
  approvals :: "approval list"
  command_receipts :: "command_receipt list"
  manifests :: "release_manifest list"
  test_runs :: "test_run list"
  backups :: "backup list"
  restores :: "restore_run list"
  candidates :: "upstream_candidate list"
  providers :: "(ident \<times> provider_configuration) list"
  provider_channels :: "provider_channel list"
  skills :: "skill_preference list"
  retention :: "(ident \<times> retention_policy) list"
  server_credentials :: "machine_credential list"
  runtime_credentials :: "machine_credential list"
  nonces :: "string list"

definition empty_fleet :: fleet_state where
  "empty_fleet = \<lparr>organizations = [], users = [], agents = [], runtimes = [], servers = [], deployments = [],
     configs = [], commands = [], approvals = [], command_receipts = [], manifests = [], test_runs = [],
     backups = [], restores = [], candidates = [], providers = [], provider_channels = [], skills = [],
     retention = [], server_credentials = [], runtime_credentials = [], nonces = []\<rparr>"

section \<open>Organizations and users\<close>

record organization_input =
  oi_org :: "ident option"
  oi_name :: string

definition createOrganization :: "env \<Rightarrow> organization_input \<Rightarrow> fleet_state \<Rightarrow> organization \<times> fleet_state" where
  "createOrganization e i s =
     (let og = \<lparr>og_id = or_else (oi_org i) (uuid e 0), og_name = oi_name i, og_createdAt = clock e\<rparr>
      in (og, s\<lparr>organizations := AList.update (og_id og) og (organizations s)\<rparr>))"

definition getOrganization :: "ident \<Rightarrow> fleet_state \<Rightarrow> organization option" where
  "getOrganization i s = map_of (organizations s) i"

definition listOrganizations :: "fleet_state \<Rightarrow> organization list" where
  "listOrganizations s = map snd (organizations s)"

text \<open>\<open>publicUser\<close> leaves the password hash out.\<close>

definition publicUser :: "stored_user \<Rightarrow> user" where
  "publicUser = user.truncate"

record user_input =
  ui_id :: "ident option"
  ui_org :: ident
  ui_email :: string
  ui_displayName :: string
  ui_passwordHash :: string
  ui_role :: "string option"
  ui_status :: "string option"

text \<open>\<open>lower\<close> is \<open>String.prototype.toLowerCase\<close>.\<close>

definition createUser ::
  "(string \<Rightarrow> string) \<Rightarrow> env \<Rightarrow> user_input \<Rightarrow> fleet_state \<Rightarrow> (failure + user) \<times> fleet_state" where
  "createUser lower e i s =
     (if List.find (\<lambda>u. us_email u = lower (ui_email i)) (map snd (users s)) \<noteq> None
      then (Inl (PlainError ''Email already exists''), s)
      else
        (let u = \<lparr>us_id = or_else (ui_id i) (uuid e 0), us_org = ui_org i, us_email = lower (ui_email i),
               us_displayName = ui_displayName i, us_role = or_else (ui_role i) ''user'',
               us_status = or_else (ui_status i) ''active'', us_createdAt = clock e,
               us_passwordHash = ui_passwordHash i\<rparr>
         in (Inr (publicUser u), s\<lparr>users := AList.update (us_id u) u (users s)\<rparr>)))"

definition findUserByEmail :: "(string \<Rightarrow> string) \<Rightarrow> string \<Rightarrow> fleet_state \<Rightarrow> stored_user option" where
  "findUserByEmail lower email s = List.find (\<lambda>u. us_email u = lower email) (map snd (users s))"

definition getUser :: "ident \<Rightarrow> fleet_state \<Rightarrow> user option" where
  "getUser i s = map_option publicUser (map_of (users s) i)"

definition in_org :: "ident option \<Rightarrow> ident \<Rightarrow> bool" where
  "in_org org x \<longleftrightarrow> (case org of None \<Rightarrow> True | Some v \<Rightarrow> v = [] \<or> x = v)"

definition listUsers :: "ident option \<Rightarrow> fleet_state \<Rightarrow> user list" where
  "listUsers org s = map publicUser (filter (\<lambda>u. in_org org (us_org u)) (map snd (users s)))"

definition updateUserRole :: "ident \<Rightarrow> string \<Rightarrow> fleet_state \<Rightarrow> user option \<times> fleet_state" where
  "updateUserRole i role s =
     (case map_of (users s) i of
        None \<Rightarrow> (None, s)
      | Some u \<Rightarrow> (Some (publicUser (u\<lparr>us_role := role\<rparr>)),
          s\<lparr>users := map_modify i (\<lambda>u. u\<lparr>us_role := role\<rparr>) (users s)\<rparr>))"

section \<open>Agents and runtimes\<close>

record agent_input =
  ai_id :: "ident option"
  ai_org :: ident
  ai_owner :: "ident option"
  ai_name :: string
  ai_description :: "string option"
  ai_avatar :: "string option"
  ai_soul :: "string option"
  ai_status :: "string option"
  ai_init :: "string option"
  ai_desired :: "string option"
  ai_settings :: "json option"

definition createAgent :: "env \<Rightarrow> agent_input \<Rightarrow> fleet_state \<Rightarrow> (failure + agent) \<times> fleet_state" where
  "createAgent e i s =
     (case ai_owner i of
        None \<Rightarrow> (Inl (TypeError ''ownerUserId is required''), s)
      | Some owner \<Rightarrow>
          if owner = [] then (Inl (TypeError ''ownerUserId is required''), s)
          else
            (let a = \<lparr>ag_id = or_else (ai_id i) (uuid e 0), ag_org = ai_org i, ag_owner = owner,
                   ag_name = ai_name i, ag_description = or_else (ai_description i) [],
                   ag_avatar = ai_avatar i, ag_soul = or_else (ai_soul i) [],
                   ag_status = or_else (ai_status i) ''pending'',
                   ag_init = or_else (ai_init i) ''uninitialized'',
                   ag_desired = or_else (ai_desired i) ''stopped'',
                   ag_settings = or_else (ai_settings i) (JObj []), ag_errorCode = None,
                   ag_errorDetail = None, ag_createdAt = clock e, ag_updatedAt = clock e\<rparr>
             in (Inr a, s\<lparr>agents := AList.update (ag_id a) a (agents s)\<rparr>)))"

definition getAgent :: "ident \<Rightarrow> fleet_state \<Rightarrow> agent option" where
  "getAgent i s = map_of (agents s) i"

definition listAgents :: "ident option \<Rightarrow> ident option \<Rightarrow> fleet_state \<Rightarrow> agent list" where
  "listAgents org owner s =
     filter (\<lambda>a. in_org org (ag_org a) \<and> in_org owner (ag_owner a)) (map snd (agents s))"

text \<open>A patch assigns the fields it has; a nullable field is patched with \<open>null\<close> as \<open>Some None\<close>.\<close>

record agent_patch =
  pa_name :: "string option"
  pa_description :: "string option"
  pa_avatar :: "string option option"
  pa_soul :: "string option"
  pa_status :: "string option"
  pa_init :: "string option"
  pa_desired :: "string option"
  pa_settings :: "json option"
  pa_errorCode :: "string option option"
  pa_errorDetail :: "string option option"

definition patch_agent :: "instant \<Rightarrow> agent_patch \<Rightarrow> agent \<Rightarrow> agent" where
  "patch_agent now p a =
     a\<lparr>ag_name := or_else (pa_name p) (ag_name a), ag_description := or_else (pa_description p) (ag_description a),
       ag_avatar := or_else (pa_avatar p) (ag_avatar a), ag_soul := or_else (pa_soul p) (ag_soul a),
       ag_status := or_else (pa_status p) (ag_status a), ag_init := or_else (pa_init p) (ag_init a),
       ag_desired := or_else (pa_desired p) (ag_desired a),
       ag_settings := or_else (pa_settings p) (ag_settings a),
       ag_errorCode := or_else (pa_errorCode p) (ag_errorCode a),
       ag_errorDetail := or_else (pa_errorDetail p) (ag_errorDetail a), ag_updatedAt := now\<rparr>"

definition updateAgent :: "env \<Rightarrow> ident \<Rightarrow> agent_patch \<Rightarrow> fleet_state \<Rightarrow> agent option \<times> fleet_state" where
  "updateAgent e i p s =
     (case map_of (agents s) i of
        None \<Rightarrow> (None, s)
      | Some a \<Rightarrow> (Some (patch_agent (clock e) p a),
          s\<lparr>agents := map_modify i (patch_agent (clock e) p) (agents s)\<rparr>))"

record runtime_input =
  rti_id :: "ident option"
  rti_org :: ident
  rti_owner :: ident
  rti_agent :: ident
  rti_deployment :: "ident option"
  rti_workspace :: string
  rti_status :: "string option"

definition getAgentRuntimeByAgent :: "ident \<Rightarrow> fleet_state \<Rightarrow> runtime option" where
  "getAgentRuntimeByAgent i s = List.find (\<lambda>r. rt_agent r = i) (map snd (runtimes s))"

definition createAgentRuntime :: "env \<Rightarrow> runtime_input \<Rightarrow> fleet_state \<Rightarrow> runtime \<times> fleet_state" where
  "createAgentRuntime e i s =
     (case getAgentRuntimeByAgent (rti_agent i) s of
        Some r \<Rightarrow> (r, s)
      | None \<Rightarrow>
          (let r = \<lparr>rt_id = or_else (rti_id i) (uuid e 0), rt_org = rti_org i, rt_owner = rti_owner i,
                 rt_agent = rti_agent i, rt_deployment = rti_deployment i, rt_workspace = rti_workspace i,
                 rt_kind = ''hermes'', rt_status = or_else (rti_status i) ''uninitialized'', rt_hermes = None,
                 rt_boundary = None, rt_config = None, rt_endpoint = None, rt_heartbeatAt = None,
                 rt_errorCode = None, rt_errorDetail = None, rt_createdAt = clock e, rt_updatedAt = clock e\<rparr>
           in (r, s\<lparr>runtimes := AList.update (rt_id r) r (runtimes s)\<rparr>)))"

definition listAgentRuntimes :: "ident option \<Rightarrow> ident option \<Rightarrow> fleet_state \<Rightarrow> runtime list" where
  "listAgentRuntimes org owner s =
     filter (\<lambda>r. in_org org (rt_org r) \<and> in_org owner (rt_owner r)) (map snd (runtimes s))"

section \<open>Servers, credentials and nonces\<close>

record server_input =
  svi_id :: ident
  svi_org :: ident
  svi_name :: "string option"
  svi_status :: string
  svi_version :: "string option"

definition createServer ::
  "env \<Rightarrow> ident option \<Rightarrow> ident \<Rightarrow> string \<Rightarrow> string option \<Rightarrow> fleet_state \<Rightarrow> server \<times> fleet_state" where
  "createServer e i org name status s =
     (let v = \<lparr>sv_id = or_else i (uuid e 0), sv_org = org, sv_name = name,
            sv_status = or_else status ''pending'', sv_version = None, sv_seenAt = None, sv_createdAt = clock e\<rparr>
      in (v, s\<lparr>servers := servers s @ [v]\<rparr>))"

definition recordServerHeartbeat :: "env \<Rightarrow> server_input \<Rightarrow> fleet_state \<Rightarrow> server \<times> fleet_state" where
  "recordServerHeartbeat e i s =
     (let beat = (\<lambda>v. v\<lparr>sv_status := svi_status i, sv_version := svi_version i, sv_seenAt := Some (clock e)\<rparr>);
          same = (\<lambda>v. sv_id v = svi_id i)
      in case List.find same (servers s) of
           Some v \<Rightarrow> (beat v, s\<lparr>servers := upd_first same beat (servers s)\<rparr>)
         | None \<Rightarrow>
             (let v = beat \<lparr>sv_id = svi_id i, sv_org = svi_org i, sv_name = or_else (svi_name i) (svi_id i),
                    sv_status = svi_status i, sv_version = None, sv_seenAt = None, sv_createdAt = clock e\<rparr>
              in (v, s\<lparr>servers := servers s @ [v]\<rparr>)))"

definition listServers :: "ident option \<Rightarrow> fleet_state \<Rightarrow> server list" where
  "listServers org s = filter (\<lambda>v. in_org org (sv_org v)) (servers s)"

record server_credential_input =
  sci_id :: "ident option"
  sci_server :: ident
  sci_keyHash :: string
  sci_keyHint :: string
  sci_createdBy :: "ident option"

definition revoke_active :: "ident \<Rightarrow> machine_credential list \<Rightarrow> machine_credential list" where
  "revoke_active subject =
     upd_all (\<lambda>c. mc_subject c = subject \<and> mc_status c = ''active'') (\<lambda>c. c\<lparr>mc_status := ''revoked''\<rparr>)"

definition createServerCredential ::
  "env \<Rightarrow> server_credential_input \<Rightarrow> fleet_state \<Rightarrow> machine_credential \<times> fleet_state" where
  "createServerCredential e i s =
     (let c = \<lparr>mc_id = or_else (sci_id i) (uuid e 0), mc_subject = sci_server i, mc_scope = None,
            mc_keyHash = sci_keyHash i, mc_keyHint = sci_keyHint i, mc_status = ''active'',
            mc_createdBy = sci_createdBy i, mc_createdAt = clock e\<rparr>
      in (c, s\<lparr>server_credentials := revoke_active (sci_server i) (server_credentials s) @ [c]\<rparr>))"

definition getActiveServerCredential :: "ident \<Rightarrow> fleet_state \<Rightarrow> machine_credential option" where
  "getActiveServerCredential i s =
     find_last (\<lambda>c. mc_subject c = i \<and> mc_status c = ''active'') (server_credentials s)"

text \<open>The credential of a runtime: \<open>mc_subject\<close> is the runtime, \<open>mc_scope\<close> holds organization, user and agent.\<close>

definition getActiveAgentRuntimeCredential :: "ident \<Rightarrow> fleet_state \<Rightarrow> machine_credential option" where
  "getActiveAgentRuntimeCredential agent s =
     find_last (\<lambda>c. map_option (snd \<circ> snd) (mc_scope c) = Some agent \<and> mc_status c = ''active'')
       (runtime_credentials s)"

definition claimMachineNonce :: "string \<Rightarrow> ident \<Rightarrow> string \<Rightarrow> fleet_state \<Rightarrow> bool \<times> fleet_state" where
  "claimMachineNonce kind credential nonce s =
     (let key = kind @ '':'' @ credential @ '':'' @ nonce
      in if key \<in> set (nonces s) then (False, s) else (True, s\<lparr>nonces := nonces s @ [key]\<rparr>))"

end
