(* ===== verification/Control_Store.thy ===== *)
theory Control_Store
  imports Fleet_Store
begin

text \<open>
  The control plane of \<open>MemoryPlatformRepository\<close> (\<open>packages/db/memory-repository.mjs\<close>): provisioning
  and lifecycle requests, control operations with their approvals, the lease of commands to a server, and
  the effects of the receipts a server reports.

  Code that dereferences the result of a search that may fail throws a \<open>TypeError\<close> in the middle of a
  sequence of assignments; the operations return the failure with the state reached so far.
\<close>

section \<open>Arguments and configuration documents\<close>

text \<open>The string under a key of an arguments object; other values do not pass \<open>validateAction\<close>.\<close>

definition jget :: "string \<Rightarrow> json \<Rightarrow> json option" where
  "jget k v = (case v of JObj kvs \<Rightarrow> map_of kvs k | _ \<Rightarrow> None)"

definition arg :: "json \<Rightarrow> string \<Rightarrow> ident option" where
  "arg args k = (case jget k args of Some (JStr s) \<Rightarrow> Some s | _ \<Rightarrow> None)"

text \<open>\<open>doc?.a?.b\<close>.\<close>

definition jpath2 :: "string \<Rightarrow> string \<Rightarrow> json \<Rightarrow> json option" where
  "jpath2 a b v = Option.bind (jget a v) (jget b)"

definition strings_of :: "json option \<Rightarrow> string list" where
  "strings_of v = (case v of Some (JArr xs) \<Rightarrow> concat (map (\<lambda>x. case x of JStr s \<Rightarrow> [s] | _ \<Rightarrow> []) xs) | _ \<Rightarrow> [])"

definition disabled_skills :: "json \<Rightarrow> string list" where
  "disabled_skills doc = strings_of (jpath2 ''skills'' ''disabled'' doc)"

definition change_scope :: "json \<Rightarrow> json option" where
  "change_scope doc = jpath2 ''owner_change'' ''scope'' doc"

text \<open>\<open>{ ...doc, [k]: v }\<close>: a key that exists keeps its place.\<close>

definition with_key :: "string \<Rightarrow> json \<Rightarrow> json \<Rightarrow> json" where
  "with_key k v doc = (case doc of JObj kvs \<Rightarrow> JObj (AList.update k v kvs) | _ \<Rightarrow> JObj [(k, v)])"

definition minutes :: "int \<Rightarrow> int" where
  "minutes n = n * 60000"

section \<open>Sequences of assignments\<close>

type_synonym effect = "fleet_state \<Rightarrow> failure option \<times> fleet_state"

fun run_effects :: "effect list \<Rightarrow> effect" where
  "run_effects [] s = (None, s)"
| "run_effects (f # fs) s = (case f s of (Some x, t) \<Rightarrow> (Some x, t) | (None, t) \<Rightarrow> run_effects fs t)"

definition update_store :: "(fleet_state \<Rightarrow> fleet_state) \<Rightarrow> effect" where
  "update_store f s = (None, f s)"

definition when_do :: "bool \<Rightarrow> effect \<Rightarrow> effect" where
  "when_do b f s = (if b then f s else (None, s))"

definition missing :: "string \<Rightarrow> failure" where
  "missing what = TypeError (what @ '' is undefined'')"

definition of_agent :: "ident \<Rightarrow> ident \<times> runtime \<Rightarrow> bool" where
  "of_agent i p \<longleftrightarrow> rt_agent (snd p) = i"

definition mod_runtime :: "ident \<Rightarrow> (runtime \<Rightarrow> runtime) \<Rightarrow> fleet_state \<Rightarrow> fleet_state" where
  "mod_runtime i f s = s\<lparr>runtimes := upd_first (of_agent i) (map_prod id f) (runtimes s)\<rparr>"

definition mod_agent :: "ident \<Rightarrow> (agent \<Rightarrow> agent) \<Rightarrow> fleet_state \<Rightarrow> fleet_state" where
  "mod_agent i f s = s\<lparr>agents := map_modify i f (agents s)\<rparr>"

definition mod_deployment :: "ident \<Rightarrow> (deployment \<Rightarrow> deployment) \<Rightarrow> fleet_state \<Rightarrow> fleet_state" where
  "mod_deployment i f s = s\<lparr>deployments := upd_first (\<lambda>d. dp_id d = i) f (deployments s)\<rparr>"

definition mod_config :: "ident option \<Rightarrow> (config_revision \<Rightarrow> config_revision) \<Rightarrow> fleet_state \<Rightarrow> fleet_state" where
  "mod_config i f s = s\<lparr>configs := upd_first (\<lambda>c. Some (cf_id c) = i) f (configs s)\<rparr>"

definition find_config :: "ident option \<Rightarrow> fleet_state \<Rightarrow> config_revision option" where
  "find_config i s = List.find (\<lambda>c. Some (cf_id c) = i) (configs s)"

definition assign_runtime :: "ident \<Rightarrow> (runtime \<Rightarrow> runtime) \<Rightarrow> effect" where
  "assign_runtime i f s =
     (if getAgentRuntimeByAgent i s = None then (Some (missing ''runtime''), s) else (None, mod_runtime i f s))"

definition assign_agent :: "ident \<Rightarrow> (agent \<Rightarrow> agent) \<Rightarrow> effect" where
  "assign_agent i f s =
     (if map_of (agents s) i = None then (Some (missing ''agent''), s) else (None, mod_agent i f s))"

text \<open>\<open>const deployment = deployments.find(\<dots>)\<close> followed by uses of \<open>deployment.agentId\<close>.\<close>

definition with_deployment :: "ident \<Rightarrow> (deployment \<Rightarrow> effect list) \<Rightarrow> effect" where
  "with_deployment i k s =
     (case List.find (\<lambda>d. dp_id d = i) (deployments s) of
        None \<Rightarrow> (Some (missing ''deployment''), s)
      | Some d \<Rightarrow> run_effects (k d) s)"

section \<open>Provisioning\<close>

record provision_input =
  pv_agent :: ident
  pv_skills :: "(string \<times> bool option) list"
  pv_provider :: json
  pv_baseUrl :: json
  pv_model :: json
  pv_envelope :: "json option"
  pv_requestedBy :: "ident option"
  pv_credentialId :: "ident option"
  pv_credentialHash :: string
  pv_credentialHint :: string

record provisioning =
  po_agent :: agent
  po_runtime :: runtime
  po_deployment :: "deployment option"
  po_command :: "command option"

definition provision_document :: "provision_input \<Rightarrow> agent \<Rightarrow> runtime \<Rightarrow> json" where
  "provision_document i a r =
     JObj [(''agent'', JObj [(''id'', JStr (ag_id a)), (''name'', JStr (ag_name a)), (''soul_markdown'', JStr (ag_soul a))]),
       (''runtime'', JObj [(''kind'', JStr ''hermes''), (''workspace_ref'', JStr (rt_workspace r))]),
       (''provider'', JObj [(''provider'', pv_provider i), (''base_url'', pv_baseUrl i), (''model'', pv_model i)]),
       (''skills'', JObj [(''disabled'', JArr (map JStr (sort (map fst (filter (\<lambda>x. snd x = Some False) (pv_skills i))))))])]"

definition put_config ::
  "(json \<Rightarrow> string) \<Rightarrow> env \<Rightarrow> provision_input \<Rightarrow> agent \<Rightarrow> json \<Rightarrow> fleet_state \<Rightarrow> ident \<times> fleet_state" where
  "put_config hash e i a doc s =
     (let same = (\<lambda>c. cf_org c = ag_org a \<and> cf_hash c = hash doc);
          approve = (\<lambda>c. c\<lparr>cf_envelope := pv_envelope i, cf_status := ''approved'', cf_createdBy := pv_requestedBy i\<rparr>)
      in case List.find same (configs s) of
           Some c \<Rightarrow> (cf_id c, s\<lparr>configs := upd_first same approve (configs s)\<rparr>)
         | None \<Rightarrow>
             (uuid e 0, s\<lparr>configs := configs s @ [approve
               \<lparr>cf_id = uuid e 0, cf_org = ag_org a, cf_agent = ag_id a,
                cf_revision = length (filter (\<lambda>c. cf_org c = ag_org a) (configs s)) + 1, cf_document = doc,
                cf_hash = hash doc, cf_envelope = None, cf_status = [], cf_createdBy = None,
                cf_createdAt = clock e\<rparr>]\<rparr>))"

definition put_deployment :: "env \<Rightarrow> agent \<Rightarrow> server \<Rightarrow> fleet_state \<Rightarrow> deployment \<times> fleet_state" where
  "put_deployment e a v s =
     (let same = (\<lambda>d. dp_agent d = ag_id a);
          enroll = (\<lambda>d. d\<lparr>dp_server := sv_id v, dp_name := ag_name a, dp_status := ''enrolling'',
                        dp_desired := dp_desired d + 1\<rparr>)
      in case List.find same (deployments s) of
           Some d \<Rightarrow> (enroll d, s\<lparr>deployments := upd_first same enroll (deployments s)\<rparr>)
         | None \<Rightarrow>
             (let d = enroll \<lparr>dp_id = uuid e 2, dp_org = ag_org a, dp_agent = ag_id a,
                    dp_environment = ''production'', dp_observed = 0, dp_desired = 0, dp_server = sv_id v,
                    dp_name = ag_name a, dp_status = ''enrolling'', dp_createdAt = clock e\<rparr>
              in (d, s\<lparr>deployments := deployments s @ [d]\<rparr>)))"

definition requestAgentProvisioning ::
  "(json \<Rightarrow> string) \<Rightarrow> env \<Rightarrow> provision_input \<Rightarrow> fleet_state \<Rightarrow> (failure + provisioning option) \<times> fleet_state" where
  "requestAgentProvisioning hash e i s =
     (case (map_of (agents s) (pv_agent i), getAgentRuntimeByAgent (pv_agent i) s) of
        (Some a, Some r) \<Rightarrow>
          if ag_init a \<in> {''provisioning'', ''ready''} then
            (Inr (Some \<lparr>po_agent = a, po_runtime = r,
               po_deployment = List.find (\<lambda>d. dp_agent d = ag_id a) (deployments s),
               po_command = find_last (\<lambda>c. cm_agent c = ag_id a) (commands s)\<rparr>), s)
          else
            (case List.find (\<lambda>v. sv_org v = ag_org a \<and> sv_status v \<in> {''active'', ''healthy''}) (servers s) of
               None \<Rightarrow> (Inl (CodedError ''no_agent_capacity'' (Some 409)), s)
             | Some v \<Rightarrow>
                 (let (config, s1) = put_config hash e i a (provision_document i a r) s;
                      s2 = s1\<lparr>runtime_credentials := revoke_active (rt_id r) (runtime_credentials s1) @
                        [\<lparr>mc_id = or_else (pv_credentialId i) (uuid e 1), mc_subject = rt_id r,
                          mc_scope = Some (ag_org a, ag_owner a, ag_id a), mc_keyHash = pv_credentialHash i,
                          mc_keyHint = pv_credentialHint i, mc_status = ''active'',
                          mc_createdBy = pv_requestedBy i, mc_createdAt = clock e\<rparr>]\<rparr>;
                      (d, s3) = put_deployment e a v s2;
                      c = \<lparr>cm_id = uuid e 3, cm_org = None, cm_deployment = dp_id d, cm_agent = ag_id a, cm_key = None,
                        cm_action = ''deployment.provision'', cm_target = ag_id a,
                        cm_arguments = JObj [(''agent_id'', JStr (ag_id a)), (''workspace_ref'', JStr (rt_workspace r)),
                          (''config_revision_id'', JStr config)],
                        cm_approval = None, cm_expectedVersion = 0, cm_state = CQueued, cm_priority = 100,
                        cm_attempt = 0, cm_requestedBy = None, cm_leaseServer = None, cm_leaseExpiresAt = None,
                        cm_expiresAt = clock e + minutes 15, cm_createdAt = clock e\<rparr>;
                      r' = r\<lparr>rt_deployment := Some (dp_id d), rt_config := Some config,
                            rt_status := ''provisioning'', rt_updatedAt := clock e\<rparr>;
                      a' = a\<lparr>ag_init := ''provisioning'', ag_desired := ''running'', ag_status := ''provisioning'',
                            ag_updatedAt := clock e\<rparr>;
                      s4 = mod_agent (pv_agent i) (\<lambda>_. a') (mod_runtime (pv_agent i) (\<lambda>_. r')
                             (s3\<lparr>commands := commands s3 @ [c]\<rparr>))
                  in (Inr (Some \<lparr>po_agent = a', po_runtime = r', po_deployment = Some d, po_command = Some c\<rparr>), s4)))
      | _ \<Rightarrow> (Inr None, s))"

section \<open>Owner configuration\<close>

record owner_change =
  oc_agent :: ident
  oc_org :: ident
  oc_user :: ident
  oc_requestedBy :: "ident option"

text \<open>Queued configuration commands of the same scope give way to the new revision.\<close>

definition superseded :: "agent \<Rightarrow> string \<Rightarrow> fleet_state \<Rightarrow> command \<Rightarrow> bool" where
  "superseded a scope s c \<longleftrightarrow>
     cm_agent c = ag_id a \<and> cm_action c = ''config.apply-user'' \<and> cm_state c = CQueued \<and>
     Option.bind (map_option cf_document (find_config (arg (cm_arguments c) ''config_revision_id'') s)) change_scope
       = Some (JStr scope)"

definition supersede_configs :: "command list \<Rightarrow> fleet_state \<Rightarrow> fleet_state" where
  "supersede_configs cs s =
     fold (\<lambda>c. mod_config (arg (cm_arguments c) ''config_revision_id'') (\<lambda>cf. cf\<lparr>cf_status := ''superseded''\<rparr>)) cs s"

definition requestAgentOwnerConfiguration ::
  "(json \<Rightarrow> string) \<Rightarrow> env \<Rightarrow> owner_change \<Rightarrow> string \<Rightarrow> fleet_state \<Rightarrow>
     (failure + (config_revision \<times> command) option option) \<times> fleet_state" where
  "requestAgentOwnerConfiguration hash e i scope s =
     (if scope \<notin> {''skills'', ''identity''} then (Inl (TypeError ''Unsupported owner configuration scope''), s)
      else
        (case (map_of (agents s) (oc_agent i), getAgentRuntimeByAgent (oc_agent i) s) of
           (Some a, Some r) \<Rightarrow>
             if ag_org a \<noteq> oc_org i \<or> ag_owner a \<noteq> oc_user i then (Inr None, s)
             else if rt_deployment r = None \<or> rt_config r = None then (Inr (Some None), s)
             else
               (case (List.find (\<lambda>c. Some (cf_id c) = rt_config r \<and> cf_agent c = ag_id a) (configs s),
                      List.find (\<lambda>d. Some (dp_id d) = rt_deployment r \<and> dp_status d \<noteq> ''revoked'') (deployments s)) of
                  (Some current, Some d) \<Rightarrow>
                    (let revision = length (filter (\<lambda>c. cf_org c = ag_org a) (configs s)) + 1;
                         disabled = sort (map sp_skill (filter (\<lambda>p. sp_agent p = ag_id a \<and> \<not> sp_enabled p) (skills s)));
                         doc = with_key ''skills'' (JObj [(''disabled'', JArr (map JStr disabled))])
                           (with_key ''owner_change'' (JObj [(''scope'', JStr scope), (''generation'', JNum (Integer (int revision)))])
                           (with_key ''agent'' (JObj [(''id'', JStr (ag_id a)), (''name'', JStr (ag_name a)),
                             (''soul_markdown'', JStr (ag_soul a))]) (cf_document current)));
                         cf = \<lparr>cf_id = uuid e 0, cf_org = ag_org a, cf_agent = ag_id a, cf_revision = revision,
                           cf_document = doc, cf_hash = hash doc, cf_envelope = cf_envelope current,
                           cf_status = ''approved'', cf_createdBy = oc_requestedBy i, cf_createdAt = clock e\<rparr>;
                         s1 = s\<lparr>configs := configs s @ [cf]\<rparr>;
                         old = filter (superseded a scope s1) (commands s1);
                         s2 = supersede_configs old
                           (s1\<lparr>commands := upd_all (superseded a scope s1) (\<lambda>c. c\<lparr>cm_state := CCancelled\<rparr>) (commands s1)\<rparr>);
                         c = \<lparr>cm_id = uuid e 1, cm_org = Some (ag_org a), cm_deployment = dp_id d, cm_agent = ag_id a,
                           cm_key = Some (dp_id d @ ''/config.apply-user/'' @ cf_id cf),
                           cm_action = ''config.apply-user'', cm_target = ag_id a,
                           cm_arguments = JObj [(''config_revision_id'', JStr (cf_id cf))], cm_approval = None,
                           cm_expectedVersion = dp_observed d, cm_state = CQueued, cm_priority = 200, cm_attempt = 0,
                           cm_requestedBy = oc_requestedBy i, cm_leaseServer = None, cm_leaseExpiresAt = None,
                           cm_expiresAt = clock e + minutes 30, cm_createdAt = clock e\<rparr>
                     in (Inr (Some (Some (cf, c))), s2\<lparr>commands := commands s2 @ [c]\<rparr>))
                | _ \<Rightarrow> (Inl (CodedError ''agent_configuration_unavailable'' (Some 409)), s))
         | _ \<Rightarrow> (Inr None, s)))"

section \<open>Lifecycle requests\<close>

record lifecycle_input =
  lc_agent :: ident
  lc_request :: string
  lc_requestedBy :: ident
  lc_reason :: "string option"

record lifecycle_result =
  lr_agent :: ident
  lr_action :: string
  lr_state :: command_state
  lr_deleted :: bool
  lr_command :: "ident option"

definition lifecycle_action :: "string \<Rightarrow> string option" where
  "lifecycle_action request =
     (if request = ''pause'' then Some ''deployment.suspend''
      else if request = ''resume'' then Some ''deployment.resume''
      else if request = ''delete'' then Some ''deployment.delete'' else None)"

definition LIFECYCLE_ACTIONS :: "string list" where
  "LIFECYCLE_ACTIONS =
     [''deployment.start'', ''deployment.stop'', ''deployment.suspend'', ''deployment.resume'', ''deployment.delete'']"

definition in_flight :: "command_state \<Rightarrow> bool" where
  "in_flight st \<longleftrightarrow> st \<in> {CQueued, CLeased, CAccepted, CRunning}"

definition requestAgentLifecycle ::
  "env \<Rightarrow> lifecycle_input \<Rightarrow> fleet_state \<Rightarrow> (failure + lifecycle_result option) \<times> fleet_state" where
  "requestAgentLifecycle e i s =
     (case lifecycle_action (lc_request i) of
        None \<Rightarrow> (Inl (TypeError ''Unsupported Agent lifecycle request''), s)
      | Some action \<Rightarrow>
          (case (map_of (agents s) (lc_agent i), getAgentRuntimeByAgent (lc_agent i) s) of
             (Some a, Some r) \<Rightarrow>
               (case rt_deployment r of
                  None \<Rightarrow>
                    if lc_request i \<noteq> ''delete'' then (Inl (CodedError ''agent_not_initialized'' (Some 409)), s)
                    else (Inr (Some \<lparr>lr_agent = ag_id a, lr_action = action, lr_state = CSucceeded, lr_deleted = True, lr_command = None\<rparr>),
                      s\<lparr>agents := AList.delete (ag_id a) (agents s), runtimes := AList.delete (rt_id r) (runtimes s)\<rparr>)
                | Some d \<Rightarrow>
                    if lc_request i = ''pause'' \<and> rt_status r = ''suspended''
                    then (Inr (Some \<lparr>lr_agent = ag_id a, lr_action = action, lr_state = CSucceeded, lr_deleted = False, lr_command = None\<rparr>), s)
                    else if lc_request i = ''resume'' \<and> rt_status r \<noteq> ''suspended''
                    then (Inl (CodedError ''invalid_agent_lifecycle_state'' (Some 409)), s)
                    else
                      (case find_last (\<lambda>c. cm_deployment c = d \<and> cm_action c \<in> set LIFECYCLE_ACTIONS \<and> in_flight (cm_state c)) (commands s) of
                         Some c \<Rightarrow>
                           if cm_action c \<noteq> action then (Inl (CodedError ''agent_lifecycle_in_progress'' (Some 409)), s)
                           else (Inr (Some \<lparr>lr_agent = ag_id a, lr_action = action, lr_state = cm_state c, lr_deleted = False, lr_command = Some (cm_id c)\<rparr>), s)
                       | None \<Rightarrow>
                           (let delete = (lc_request i = ''delete'');
                                c = \<lparr>cm_id = uuid e 1, cm_org = None, cm_deployment = d, cm_agent = ag_id a, cm_key = None,
                                  cm_action = action, cm_target = ag_id a, cm_arguments = JObj [(''agent_id'', JStr (ag_id a))],
                                  cm_approval = if delete then Some (uuid e 0) else None, cm_expectedVersion = 0,
                                  cm_state = CQueued, cm_priority = 100, cm_attempt = 0, cm_requestedBy = None,
                                  cm_leaseServer = None, cm_leaseExpiresAt = None,
                                  cm_expiresAt = clock e + minutes 15, cm_createdAt = clock e\<rparr>;
                                ap = \<lparr>ap_id = uuid e 0, ap_org = ag_org a, ap_command = cm_id c, ap_action = action,
                                  ap_risk = ''high'', ap_requestedBy = lc_requestedBy i, ap_decidedBy = Some (lc_requestedBy i),
                                  ap_decision = ''approved'', ap_reason = or_else (lc_reason i) ''Agent owner confirmed deletion'',
                                  ap_expiresAt = cm_expiresAt c, ap_decidedAt = Some (clock e), ap_createdAt = clock e\<rparr>;
                                s1 = s\<lparr>commands := commands s @ [c], approvals := approvals s @ (if delete then [ap] else [])\<rparr>;
                                s2 = mod_agent (lc_agent i) (\<lambda>a. a\<lparr>ag_desired := if lc_request i = ''pause'' then ''suspended''
                                    else if lc_request i = ''resume'' then ''running'' else ''deleted'',
                                  ag_init := if delete then ''deleting'' else ag_init a, ag_updatedAt := clock e\<rparr>) s1;
                                s3 = (if delete then mod_runtime (lc_agent i) (\<lambda>r. r\<lparr>rt_status := ''deleting''\<rparr>) s2 else s2)
                            in (Inr (Some \<lparr>lr_agent = ag_id a, lr_action = action, lr_state = CQueued, lr_deleted = False,
                                  lr_command = Some (cm_id c)\<rparr>), s3))))
           | _ \<Rightarrow> (Inr None, s)))"

end
