(* ===== verification/Control_Commands.thy ===== *)
theory Control_Commands
  imports Control_Store
begin

text \<open>
  Control operations of \<open>MemoryPlatformRepository\<close> (\<open>packages/db/memory-repository.mjs\<close>): requests with
  their references and approvals, decisions, the lease of commands to a server, and receipts with the
  changes they cause to agents, deployments, configurations, tests, backups and releases.
\<close>

section \<open>Requests\<close>

record operation_input =
  op_org :: ident
  op_agent :: ident
  op_action :: string
  op_arguments :: json
  op_key :: "string option"
  op_expiresInMs :: "int option"
  op_approvalRequired :: bool
  op_approval :: "ident option"
  op_command :: "ident option"
  op_priority :: "int option"
  op_requestedBy :: ident
  op_risk :: "string option"
  op_reason :: "string option"

definition refuse :: "bool \<Rightarrow> failure option" where
  "refuse b = (if b then Some (CodedError ''invalid_control_reference'' (Some 400)) else None)"

definition operation_references :: "operation_input \<Rightarrow> deployment \<Rightarrow> fleet_state \<Rightarrow> failure option list" where
  "operation_references i d s =
     (let a = op_action i; ref = (\<lambda>k x. arg (op_arguments i) k = Some x)
      in [refuse (a \<in> {''config.stage'', ''config.apply'', ''config.apply-user''} \<and>
            \<not> list_ex (\<lambda>c. ref ''config_revision_id'' (cf_id c) \<and> cf_org c = op_org i \<and> cf_agent c = op_agent i) (configs s)),
          refuse (a = ''backup.verify'' \<and>
            \<not> list_ex (\<lambda>b. ref ''backup_id'' (bk_id b) \<and> bk_deployment b = dp_id d) (backups s)),
          refuse (a = ''backup.restore'' \<and>
            \<not> list_ex (\<lambda>b. ref ''backup_id'' (bk_id b) \<and> bk_deployment b = dp_id d \<and> bk_status b = ''verified'') (backups s)),
          refuse (a \<in> {''release.stage'', ''release.apply''} \<and>
            \<not> list_ex (\<lambda>m. ref ''release_id'' (rm_id m) \<and> rm_status m \<in> {''candidate'', ''approved'', ''released''}) (manifests s)),
          refuse (a = ''release.rollback'' \<and>
            \<not> (list_ex (\<lambda>m. ref ''release_id'' (rm_id m)) (manifests s) \<and>
               list_ex (\<lambda>m. ref ''rollback_release_id'' (rm_id m)) (manifests s))),
          refuse (a = ''upstream.check'' \<and> arg (op_arguments i) ''candidate_id'' \<notin> {None, Some []} \<and>
            \<not> list_ex (\<lambda>u. ref ''candidate_id'' (uc_id u) \<and> ref ''upstream_id'' (uc_upstream u)) (candidates s)),
          refuse (a = ''credential.revoke'' \<and>
            \<not> list_ex (\<lambda>c. ref ''identity_id'' (mc_id c) \<and> map_option (snd \<circ> snd) (mc_scope c) = Some (op_agent i) \<and>
                 mc_status c = ''active'') (runtime_credentials s))])"

definition operation_expiry :: "operation_input \<Rightarrow> int" where
  "operation_expiry i = max (minutes 5) (min (or_else (op_expiresInMs i) (minutes 30)) (minutes (24 * 60)))"

definition test_kind :: "string \<Rightarrow> string" where
  "test_kind a = (if a = ''probe.run'' then ''probe'' else if a = ''contract.test'' then ''contract'' else ''smoke'')"

fun join_comma :: "string list \<Rightarrow> string" where
  "join_comma [] = []"
| "join_comma [x] = x"
| "join_comma (x # xs) = x @ '','' @ join_comma xs"

definition open_test_run :: "env \<Rightarrow> operation_input \<Rightarrow> deployment \<Rightarrow> effect" where
  "open_test_run e i d s =
     (case arg (op_arguments i) ''test_run_id'' of
        None \<Rightarrow> (None, s)
      | Some t \<Rightarrow>
          if op_action i \<notin> {''probe.run'', ''contract.test'', ''smoke.test''} \<or> t = [] then (None, s)
          else
            (case (arg (op_arguments i) ''suite_id'', jget ''probe_ids'' (op_arguments i)) of
               (None, None) \<Rightarrow> (Some (missing ''probe_ids''), s)
             | (suite, probes) \<Rightarrow>
                 (None, s\<lparr>test_runs := test_runs s @ [\<lparr>tr_id = t, tr_deployment = dp_id d,
                    tr_suite = or_else suite (join_comma (strings_of probes)), tr_type = test_kind (op_action i),
                    tr_status = ''queued'', tr_startedAt = None, tr_completedAt = None, tr_createdAt = clock e\<rparr>]\<rparr>)))"

definition open_backup :: "env \<Rightarrow> operation_input \<Rightarrow> deployment \<Rightarrow> effect" where
  "open_backup e i d s =
     (case arg (op_arguments i) ''backup_id'' of
        None \<Rightarrow> (None, s)
      | Some b \<Rightarrow>
          if op_action i \<noteq> ''backup.create'' \<or> b = [] then (None, s)
          else
            (None, s\<lparr>backups := backups s @ [\<lparr>bk_id = b, bk_deployment = dp_id d,
               bk_policy = jget ''backup_policy_id'' (op_arguments i), bk_type = ''runtime-files'',
               bk_status = ''creating'', bk_encrypted = True, bk_uri = None, bk_sha = None, bk_bytes = None,
               bk_verifiedAt = None, bk_expiredAt = None, bk_createdAt = clock e,
               bk_expiresAt = clock e + or_else (map_option rp_backupDays (map_of (retention s) (op_org i))) 30 * minutes (24 * 60)\<rparr>]\<rparr>))"

definition open_restore :: "env \<Rightarrow> operation_input \<Rightarrow> deployment \<Rightarrow> command \<Rightarrow> effect" where
  "open_restore e i d c =
     when_do (op_action i = ''backup.restore'')
       (update_store (\<lambda>s. s\<lparr>restores := restores s @ [\<lparr>rs_id = jget ''restore_id'' (op_arguments i),
          rs_backup = jget ''backup_id'' (op_arguments i), rs_deployment = dp_id d, rs_command = cm_id c,
          rs_status = ''requested'', rs_requestedBy = Some (op_requestedBy i), rs_reason = op_reason i,
          rs_evidence = [], rs_errorCode = None, rs_errorSummary = None, rs_startedAt = None,
          rs_completedAt = None, rs_createdAt = clock e\<rparr>]\<rparr>))"

definition operation_key :: "env \<Rightarrow> operation_input \<Rightarrow> deployment \<Rightarrow> string" where
  "operation_key e i d = or_else (op_key i) (dp_id d @ ''/'' @ op_action i @ ''/'' @ uuid e 0)"

definition operation_command :: "env \<Rightarrow> operation_input \<Rightarrow> deployment \<Rightarrow> command" where
  "operation_command e i d =
     \<lparr>cm_id = or_else (op_command i) (uuid e 2), cm_org = Some (op_org i), cm_deployment = dp_id d,
      cm_agent = op_agent i, cm_key = Some (operation_key e i d), cm_action = op_action i, cm_target = op_agent i,
      cm_arguments = op_arguments i,
      cm_approval = if op_approvalRequired i then Some (or_else (op_approval i) (uuid e 1)) else None,
      cm_expectedVersion = dp_observed d, cm_state = CQueued, cm_priority = or_else (op_priority i) 100,
      cm_attempt = 0, cm_requestedBy = Some (op_requestedBy i), cm_leaseServer = None, cm_leaseExpiresAt = None,
      cm_expiresAt = clock e + operation_expiry i, cm_createdAt = clock e\<rparr>"

definition operation_approval :: "env \<Rightarrow> operation_input \<Rightarrow> command \<Rightarrow> approval option" where
  "operation_approval e i c =
     map_option (\<lambda>a. \<lparr>ap_id = a, ap_org = op_org i, ap_command = cm_id c, ap_action = cm_action c,
       ap_risk = or_else (op_risk i) ''high'', ap_requestedBy = op_requestedBy i, ap_decidedBy = None,
       ap_decision = ''pending'', ap_reason = or_else (op_reason i) [], ap_expiresAt = cm_expiresAt c,
       ap_decidedAt = None, ap_createdAt = clock e\<rparr>) (cm_approval c)"

definition requestControlOperation ::
  "env \<Rightarrow> operation_input \<Rightarrow> fleet_state \<Rightarrow> (failure + command \<times> approval option) \<times> fleet_state" where
  "requestControlOperation e i s =
     (case find_last (\<lambda>d. dp_agent d = op_agent i \<and> dp_org d = op_org i \<and> dp_status d \<noteq> ''revoked'') (deployments s) of
        None \<Rightarrow> (Inl (CodedError ''agent_deployment_unavailable'' (Some 409)), s)
      | Some d \<Rightarrow>
          (case first_failure (operation_references i d s) of
             Some f \<Rightarrow> (Inl f, s)
           | None \<Rightarrow>
               (case List.find (\<lambda>c. cm_deployment c = dp_id d \<and> cm_key c = Some (operation_key e i d)) (commands s) of
                  Some c \<Rightarrow> (Inr (c, List.find (\<lambda>a. ap_command a = cm_id c) (approvals s)), s)
                | None \<Rightarrow>
                    (let c = operation_command e i d; ap = operation_approval e i c;
                         s1 = s\<lparr>commands := commands s @ [c],
                                approvals := approvals s @ (case ap of None \<Rightarrow> [] | Some a \<Rightarrow> [a])\<rparr>
                     in (case run_effects [open_test_run e i d, open_backup e i d, open_restore e i d c] s1 of
                           (Some f, t) \<Rightarrow> (Inl f, t)
                         | (None, t) \<Rightarrow> (Inr (c, ap), t))))))"

definition listControlCommands :: "ident option \<Rightarrow> int option \<Rightarrow> fleet_state \<Rightarrow> command list" where
  "listControlCommands org limit s =
     take (nat (clamp_num 1 2000 500 limit))
       (rev (filter (\<lambda>c. org \<in> {None, Some []} \<or> cm_org c = org) (commands s)))"

definition listControlApprovals :: "ident option \<Rightarrow> int option \<Rightarrow> fleet_state \<Rightarrow> approval list" where
  "listControlApprovals org limit s =
     take (nat (clamp_num 1 2000 500 limit)) (rev (filter (\<lambda>a. in_org org (ap_org a)) (approvals s)))"

section \<open>Decisions\<close>

record decision_input =
  di_approval :: ident
  di_org :: "ident option"
  di_decision :: string
  di_decidedBy :: ident
  di_reason :: string

definition cancel_restore :: "instant \<Rightarrow> string \<Rightarrow> string \<Rightarrow> restore_run \<Rightarrow> restore_run" where
  "cancel_restore now code summary r =
     r\<lparr>rs_status := ''cancelled'', rs_errorCode := Some code, rs_errorSummary := Some summary,
       rs_completedAt := Some now\<rparr>"

definition decideControlApproval ::
  "env \<Rightarrow> decision_input \<Rightarrow> fleet_state \<Rightarrow> (failure + approval option) \<times> fleet_state" where
  "decideControlApproval e i s =
     (let this_one = (\<lambda>a. ap_id a = di_approval i \<and> in_org (di_org i) (ap_org a));
          decide = (\<lambda>a. a\<lparr>ap_decision := di_decision i, ap_decidedBy := Some (di_decidedBy i),
                          ap_reason := di_reason i, ap_decidedAt := Some (clock e)\<rparr>)
      in case List.find this_one (approvals s) of
           None \<Rightarrow> (Inr None, s)
         | Some a \<Rightarrow>
             if ap_decision a \<noteq> ''pending'' \<or> ap_expiresAt a \<le> clock e
             then (Inl (CodedError ''approval_not_pending'' (Some 409)), s)
             else
               (let s1 = s\<lparr>approvals := upd_first this_one decide (approvals s)\<rparr>;
                    here = (\<lambda>c. cm_id c = ap_command a);
                    c = List.find here (commands s);
                    restoring = (map_option cm_action c = Some ''backup.restore'')
                in (Inr (Some (decide a)),
                    if di_decision i \<noteq> ''rejected'' then s1
                    else s1\<lparr>commands := upd_first here (\<lambda>c. if cm_state c = CQueued then c\<lparr>cm_state := CCancelled\<rparr> else c) (commands s),
                            restores := if restoring then upd_first (\<lambda>r. rs_command r = ap_command a)
                                (cancel_restore (clock e) ''approval_rejected'' ''Backup restore approval was rejected'') (restores s)
                              else restores s\<rparr>)))"

section \<open>Release manifests\<close>

record manifest_input =
  mi_id :: "ident option"
  mi_release :: "ident option"
  mi_version :: string
  mi_agentCommit :: string
  mi_imageDigest :: string
  mi_sbom :: string
  mi_provenance :: string
  mi_signature :: string
  mi_migration :: "string option"
  mi_compatibility :: json
  mi_status :: "string option"
  mi_createdBy :: ident

definition createReleaseManifest :: "env \<Rightarrow> manifest_input \<Rightarrow> fleet_state \<Rightarrow> release_manifest \<times> fleet_state" where
  "createReleaseManifest e i s =
     (let m = \<lparr>rm_id = or_else (mi_id i) (uuid e 0), rm_release = mi_release i, rm_version = mi_version i,
            rm_agentCommit = mi_agentCommit i, rm_imageDigest = mi_imageDigest i, rm_sbom = mi_sbom i,
            rm_provenance = mi_provenance i, rm_signature = mi_signature i, rm_migration = mi_migration i,
            rm_compatibility = mi_compatibility i, rm_status = or_else (mi_status i) ''candidate'',
            rm_createdBy = mi_createdBy i, rm_createdAt = clock e\<rparr>
      in (m, s\<lparr>manifests := manifests s @ [m]\<rparr>))"

definition listReleaseManifests :: "fleet_state \<Rightarrow> release_manifest list" where
  "listReleaseManifests s = rev (manifests s)"

section \<open>Leasing commands to a server\<close>

record command_lease_input =
  cl_server :: ident
  cl_limit :: "int option"
  cl_seconds :: "int option"

record lease_offer =
  lo_command :: ident
  lo_key :: string
  lo_deployment :: ident
  lo_action :: string
  lo_target :: ident
  lo_arguments :: json
  lo_approval :: "ident option"
  lo_expectedVersion :: int
  lo_createdAt :: instant
  lo_expiresAt :: instant
  lo_attempt :: int
  lo_leaseExpiresAt :: instant
  lo_server :: ident
  lo_agent :: ident
  lo_runtime :: ident
  lo_org :: ident
  lo_user :: ident
  lo_workspace :: string
  lo_config :: "(json \<times> json option) option"
  lo_release :: "(ident \<times> string \<times> json option \<times> json option) option"
  lo_rollback :: "(ident \<times> string \<times> json option \<times> json option) option"

definition manifest_images :: "release_manifest \<Rightarrow> ident \<times> string \<times> json option \<times> json option" where
  "manifest_images m = (rm_id m, rm_version m, jget ''hermes_image'' (rm_compatibility m),
     jget ''runtime_image'' (rm_compatibility m))"

text \<open>A configuration of the owner is offered without the secret envelope.\<close>

definition offer_of :: "command \<Rightarrow> deployment \<Rightarrow> runtime \<Rightarrow> fleet_state \<Rightarrow> lease_offer" where
  "offer_of c d r s =
     (let find_manifest = (\<lambda>k. List.find (\<lambda>m. arg (cm_arguments c) k = Some (rm_id m)) (manifests s))
      in \<lparr>lo_command = cm_id c,
       lo_key = or_else (cm_key c) (cm_deployment c @ ''/'' @ cm_action c @ ''/'' @
         or_else (arg (cm_arguments c) ''config_revision_id'') (cm_id c)),
       lo_deployment = cm_deployment c, lo_action = cm_action c, lo_target = cm_target c,
       lo_arguments = cm_arguments c, lo_approval = cm_approval c, lo_expectedVersion = cm_expectedVersion c,
       lo_createdAt = cm_createdAt c, lo_expiresAt = cm_expiresAt c, lo_attempt = cm_attempt c,
       lo_leaseExpiresAt = or_else (cm_leaseExpiresAt c) 0, lo_server = dp_server d, lo_agent = dp_agent d,
       lo_runtime = rt_id r, lo_org = dp_org d, lo_user = rt_owner r, lo_workspace = rt_workspace r,
       lo_config = map_option (\<lambda>cf. (cf_document cf, if cm_action c = ''config.apply-user'' then None else cf_envelope cf))
         (find_config (arg (cm_arguments c) ''config_revision_id'') s),
       lo_release = map_option manifest_images (find_manifest ''release_id''),
       lo_rollback = map_option manifest_images (find_manifest ''rollback_release_id'')\<rparr>)"

text \<open>A lease that ran out returns the command to the queue, and a queued command past its expiry expires.\<close>

definition requeue :: "instant \<Rightarrow> command \<Rightarrow> command" where
  "requeue now c =
     (if cm_state c \<in> {CLeased, CAccepted, CRunning} \<and>
         (case cm_leaseExpiresAt c of None \<Rightarrow> False | Some t \<Rightarrow> t \<le> now)
      then c\<lparr>cm_state := CQueued\<rparr> else c)"

definition expires_now :: "instant \<Rightarrow> command \<Rightarrow> bool" where
  "expires_now now c \<longleftrightarrow> cm_state c = CQueued \<and> cm_expiresAt c \<le> now"

definition expire_command :: "instant \<Rightarrow> command \<Rightarrow> command" where
  "expire_command now c = (if expires_now now c then c\<lparr>cm_state := CExpired\<rparr> else c)"

definition expire_effects :: "instant \<Rightarrow> command \<Rightarrow> fleet_state \<Rightarrow> fleet_state" where
  "expire_effects now c s =
     s\<lparr>restores := if expires_now now c \<and> cm_action c = ''backup.restore''
         then upd_first (\<lambda>r. rs_command r = cm_id c \<and> rs_status r = ''requested'')
           (cancel_restore now ''command_expired'' ''Backup restore command expired'') (restores s)
         else restores s,
       backups := if expires_now now c \<and> cm_action c = ''backup.expire''
         then upd_first (\<lambda>b. arg (cm_arguments c) ''backup_id'' = Some (bk_id b) \<and> bk_status b = ''expiring'')
           (\<lambda>b. b\<lparr>bk_status := ''failed''\<rparr>) (backups s)
         else backups s\<rparr>"

definition approved :: "instant \<Rightarrow> fleet_state \<Rightarrow> command \<Rightarrow> bool" where
  "approved now s c \<longleftrightarrow>
     (case cm_approval c of
        None \<Rightarrow> True
      | Some a \<Rightarrow>
          (case List.find (\<lambda>p. ap_id p = a \<and> ap_command p = cm_id c) (approvals s) of
             None \<Rightarrow> False
           | Some p \<Rightarrow> ap_decision p = ''approved'' \<and> now < ap_expiresAt p))"

definition grant_command :: "instant \<Rightarrow> command_lease_input \<Rightarrow> command \<Rightarrow> command" where
  "grant_command now i c =
     c\<lparr>cm_state := CLeased, cm_leaseServer := Some (cl_server i),
       cm_leaseExpiresAt := Some (now + or_else (cl_seconds i) 60 * 1000), cm_attempt := cm_attempt c + 1\<rparr>"

definition put_command :: "nat \<Rightarrow> command \<Rightarrow> fleet_state \<Rightarrow> fleet_state" where
  "put_command n c s = s\<lparr>commands := (commands s)[n := c]\<rparr>"

fun lease_commands ::
  "instant \<Rightarrow> command_lease_input \<Rightarrow> nat list \<Rightarrow> lease_offer list \<Rightarrow> fleet_state \<Rightarrow>
     (failure + lease_offer list) \<times> fleet_state" where
  "lease_commands now i [] offers s = (Inr offers, s)"
| "lease_commands now i (n # ns) offers s =
     (case find_last (\<lambda>d. dp_id d = cm_deployment (commands s ! n) \<and> dp_server d = cl_server i) (deployments s) of
        None \<Rightarrow> lease_commands now i ns offers s
      | Some d \<Rightarrow>
          if or_else (cl_limit i) 10 \<le> int (length offers) then lease_commands now i ns offers s
          else
            (let c0 = requeue now (commands s ! n);
                 c = expire_command now c0;
                 s1 = put_command n c (expire_effects now c0 s)
             in if cm_state c \<noteq> CQueued \<or> \<not> approved now s1 c then lease_commands now i ns offers s1
                else
                  (let g = grant_command now i c; s2 = put_command n g s1
                   in case getAgentRuntimeByAgent (dp_agent d) s2 of
                        None \<Rightarrow> (Inl (missing ''runtime''), s2)
                      | Some r \<Rightarrow> lease_commands now i ns (offers @ [offer_of g d r s2]) s2)))"

text \<open>The array of commands is sorted in place before the loop.\<close>

definition leaseControlCommands ::
  "env \<Rightarrow> command_lease_input \<Rightarrow> fleet_state \<Rightarrow> (failure + lease_offer list) \<times> fleet_state" where
  "leaseControlCommands e i s =
     (let s1 = s\<lparr>commands := sort_key (\<lambda>c. (cm_priority c, cm_createdAt c)) (commands s)\<rparr>
      in lease_commands (clock e) i [0..<length (commands s1)] [] s1)"

end
