(* ===== verification/Control_Receipts.thy ===== *)
theory Control_Receipts
  imports Control_Commands
begin

text \<open>
  The receipt of a command (\<open>recordCommandReceipt\<close> in \<open>packages/db/memory-repository.mjs\<close>): it is
  accepted from the server and for the attempt that hold the command, once per state, sets the state of
  the command, and then runs the effects of the action. Each definition below is one \<open>if\<close> of the
  source, in the order of the source.
\<close>

section \<open>Agents, runtimes and deployments\<close>

definition set_agent_runtime ::
  "(ident \<Rightarrow> fleet_state \<Rightarrow> fleet_state) \<Rightarrow> (runtime \<Rightarrow> runtime) \<Rightarrow> (agent \<Rightarrow> agent) \<Rightarrow> command \<Rightarrow> effect" where
  "set_agent_runtime after f g c =
     with_deployment (cm_deployment c) (\<lambda>d. [assign_runtime (dp_agent d) f, assign_agent (dp_agent d) g,
       update_store (after (dp_id d))])"

definition set_deployment_status :: "string \<Rightarrow> ident \<Rightarrow> fleet_state \<Rightarrow> fleet_state" where
  "set_deployment_status st i = mod_deployment i (\<lambda>d. d\<lparr>dp_status := st\<rparr>)"

definition apply_skills :: "ident \<Rightarrow> json \<Rightarrow> (skill_preference \<Rightarrow> skill_preference) \<Rightarrow> fleet_state \<Rightarrow> fleet_state" where
  "apply_skills agent doc f s =
     s\<lparr>skills := upd_all (\<lambda>p. sp_agent p = agent \<and> sp_enabled p = (sp_skill p \<notin> set (disabled_skills doc))) f (skills s)\<rparr>"

definition config_arg :: "command \<Rightarrow> ident option" where
  "config_arg c = arg (cm_arguments c) ''config_revision_id''"

definition config_document :: "command \<Rightarrow> fleet_state \<Rightarrow> json" where
  "config_document c s = or_else (map_option cf_document (find_config (config_arg c) s)) JUndefined"

definition provisioned :: "instant \<Rightarrow> receipt_report \<Rightarrow> command \<Rightarrow> effect" where
  "provisioned now i c =
     when_do (rc_state i = CSucceeded \<and> cm_action c = ''deployment.provision'')
       (with_deployment (cm_deployment c) (\<lambda>d.
         [assign_runtime (dp_agent d) (\<lambda>r. r\<lparr>rt_endpoint := rc_endpoint i, rt_status := ''starting'', rt_updatedAt := now\<rparr>),
          update_store (set_deployment_status ''active'' (dp_id d)),
          update_store (mod_config (config_arg c) (\<lambda>cf. cf\<lparr>cf_status := ''applied''\<rparr>)),
          (\<lambda>s. update_store (apply_skills (dp_agent d) (config_document c s)
             (\<lambda>p. p\<lparr>sp_applyStatus := ''applied'', sp_errorCode := None, sp_updatedAt := now\<rparr>)) s)]))"

definition started :: "instant \<Rightarrow> receipt_report \<Rightarrow> command \<Rightarrow> effect" where
  "started now i c =
     when_do (rc_state i = CSucceeded \<and> cm_action c \<in> {''deployment.start'', ''deployment.resume''})
       (set_agent_runtime (\<lambda>_ s. s)
         (\<lambda>r. r\<lparr>rt_status := ''starting'', rt_errorCode := None, rt_errorDetail := None, rt_updatedAt := now\<rparr>)
         (\<lambda>a. a\<lparr>ag_status := ''starting'', ag_desired := ''running'', ag_errorCode := None, ag_errorDetail := None,
                ag_updatedAt := now\<rparr>) c)"

definition suspended :: "instant \<Rightarrow> receipt_report \<Rightarrow> command \<Rightarrow> effect" where
  "suspended now i c =
     when_do (rc_state i = CSucceeded \<and> cm_action c = ''deployment.suspend'')
       (set_agent_runtime (\<lambda>_ s. s)
         (\<lambda>r. r\<lparr>rt_status := ''suspended'', rt_updatedAt := now\<rparr>)
         (\<lambda>a. a\<lparr>ag_status := ''suspended'', ag_desired := ''suspended'', ag_updatedAt := now\<rparr>) c)"

definition deleted :: "instant \<Rightarrow> receipt_report \<Rightarrow> command \<Rightarrow> effect" where
  "deleted now i c =
     when_do (rc_state i = CSucceeded \<and> cm_action c = ''deployment.delete'')
       (set_agent_runtime (set_deployment_status ''revoked'')
         (\<lambda>r. r\<lparr>rt_status := ''deleted'', rt_endpoint := None, rt_updatedAt := now\<rparr>)
         (\<lambda>a. a\<lparr>ag_status := ''deleted'', ag_desired := ''deleted'', ag_updatedAt := now\<rparr>) c)"

definition provision_failed :: "receipt_report \<Rightarrow> command \<Rightarrow> effect" where
  "provision_failed i c =
     when_do (rc_state i = CFailed \<and> cm_action c = ''deployment.provision'')
       (set_agent_runtime (set_deployment_status ''degraded'')
         (\<lambda>r. r\<lparr>rt_status := ''failed'', rt_errorCode := rc_errorCode i, rt_errorDetail := rc_errorSummary i\<rparr>)
         (\<lambda>a. a\<lparr>ag_status := ''failed'', ag_init := ''failed'', ag_errorCode := rc_errorCode i,
                ag_errorDetail := rc_errorSummary i\<rparr>) c)"

definition DEGRADING_ACTIONS :: "string list" where
  "DEGRADING_ACTIONS =
     [''deployment.start'', ''deployment.stop'', ''deployment.suspend'', ''deployment.resume'', ''deployment.delete'',
      ''config.apply'', ''release.apply'', ''release.rollback'', ''service.restart'', ''credential.revoke'']"

definition action_failed :: "instant \<Rightarrow> receipt_report \<Rightarrow> command \<Rightarrow> effect" where
  "action_failed now i c =
     when_do (rc_state i = CFailed \<and> cm_action c \<in> set DEGRADING_ACTIONS)
       (set_agent_runtime (set_deployment_status ''degraded'')
         (\<lambda>r. r\<lparr>rt_status := if cm_action c = ''deployment.delete'' then ''degraded'' else rt_status r,
                rt_errorCode := rc_errorCode i, rt_errorDetail := rc_errorSummary i, rt_updatedAt := now\<rparr>)
         (\<lambda>a. a\<lparr>ag_status := ''degraded'',
                ag_init := if cm_action c = ''deployment.delete'' then ''failed'' else ag_init a,
                ag_errorCode := rc_errorCode i, ag_errorDetail := rc_errorSummary i, ag_updatedAt := now\<rparr>) c)"

section \<open>Configurations and providers\<close>

definition config_status :: "receipt_report \<Rightarrow> command \<Rightarrow> config_revision \<Rightarrow> config_revision" where
  "config_status i c cf =
     (if rc_state i = CRunning \<and> cm_action c \<in> {''config.apply'', ''config.apply-user''} then cf\<lparr>cf_status := ''applying''\<rparr>
      else if rc_state i = CSucceeded
      then cf\<lparr>cf_status := if cm_action c = ''config.stage'' then ''staged'' else ''applied''\<rparr>
      else if rc_state i = CFailed then cf\<lparr>cf_status := ''failed''\<rparr> else cf)"

definition configured :: "instant \<Rightarrow> receipt_report \<Rightarrow> command \<Rightarrow> effect" where
  "configured now i c s =
     (case find_config (config_arg c) s of
        None \<Rightarrow> (None, s)
      | Some cf \<Rightarrow>
          when_do (cm_action c \<in> {''config.stage'', ''config.apply'', ''config.apply-user''})
            (run_effects
              [update_store (mod_config (config_arg c) (config_status i c)),
               when_do (rc_state i = CSucceeded \<and> cm_action c \<in> {''config.apply'', ''config.apply-user''})
                 (with_deployment (cm_deployment c) (\<lambda>d.
                   [assign_runtime (dp_agent d) (\<lambda>r. r\<lparr>rt_config := Some (cf_id cf)\<rparr>)])),
               when_do (cm_action c = ''config.apply-user'' \<and> change_scope (cf_document cf) = Some (JStr ''skills'') \<and>
                   rc_state i \<in> {CSucceeded, CFailed})
                 (update_store (apply_skills (cf_agent cf) (cf_document cf)
                   (\<lambda>p. p\<lparr>sp_applyStatus := if rc_state i = CSucceeded then ''applied'' else ''failed'',
                          sp_errorCode := if rc_state i = CFailed then Some (or_else (rc_errorCode i) ''config_apply_failed'') else None,
                          sp_updatedAt := now\<rparr>)))]) s)"

definition same_provider :: "json \<Rightarrow> string \<Rightarrow> string \<Rightarrow> string \<Rightarrow> bool" where
  "same_provider doc p url m \<longleftrightarrow> jpath2 ''provider'' ''provider'' doc = Some (JStr p) \<and>
     jpath2 ''provider'' ''base_url'' doc = Some (JStr url) \<and> jpath2 ''provider'' ''model'' doc = Some (JStr m)"

definition provider_applied :: "instant \<Rightarrow> receipt_report \<Rightarrow> command \<Rightarrow> effect" where
  "provider_applied now i c s =
     (case find_config (config_arg c) s of
        None \<Rightarrow> (None, s)
      | Some cf \<Rightarrow>
          when_do (rc_state i = CSucceeded \<and> cm_action c \<in> {''deployment.provision'', ''config.apply''})
            (update_store (\<lambda>s. s\<lparr>
              providers := map_modify (cf_org cf) (\<lambda>p. if same_provider (cf_document cf) (lp_provider p) (lp_baseUrl p) (lp_model p)
                then p\<lparr>lp_applyStatus := ''applied''\<rparr> else p) (providers s),
              provider_channels := upd_all (\<lambda>p. pc_org p = cf_org cf \<and>
                  same_provider (cf_document cf) (pc_provider p) (pc_baseUrl p) (pc_model p))
                (\<lambda>p. p\<lparr>pc_status := ''applied'', pc_errorCode := None, pc_updatedAt := now\<rparr>) (provider_channels s)\<rparr>)) s)"

definition provider_failed :: "receipt_report \<Rightarrow> command \<Rightarrow> effect" where
  "provider_failed i c s =
     (case find_config (config_arg c) s of
        None \<Rightarrow> (None, s)
      | Some cf \<Rightarrow>
          when_do (rc_state i = CFailed \<and> cm_action c = ''config.apply'')
            (update_store (\<lambda>s. s\<lparr>providers := map_modify (cf_org cf) (\<lambda>p. p\<lparr>lp_applyStatus := ''failed''\<rparr>) (providers s)\<rparr>)) s)"

section \<open>Tests, backups, restores, releases and upstream candidates\<close>

definition test_progress :: "instant \<Rightarrow> receipt_report \<Rightarrow> test_run \<Rightarrow> test_run" where
  "test_progress now i t =
     (if rc_state i = CRunning
      then t\<lparr>tr_status := ''running'', tr_startedAt := Some (or_else (tr_startedAt t) now)\<rparr>
      else if rc_state i = CSucceeded then t\<lparr>tr_status := ''passed'', tr_completedAt := Some now\<rparr>
      else if rc_state i = CFailed then t\<lparr>tr_status := ''failed'', tr_completedAt := Some now\<rparr> else t)"

definition tested :: "instant \<Rightarrow> receipt_report \<Rightarrow> command \<Rightarrow> effect" where
  "tested now i c =
     when_do (cm_action c \<in> {''probe.run'', ''contract.test'', ''smoke.test''} \<and>
         arg (cm_arguments c) ''test_run_id'' \<notin> {None, Some []})
       (update_store (\<lambda>s. s\<lparr>test_runs := upd_first (\<lambda>t. arg (cm_arguments c) ''test_run_id'' = Some (tr_id t))
         (test_progress now i) (test_runs s)\<rparr>))"

definition starts_with :: "string \<Rightarrow> string \<Rightarrow> bool" where
  "starts_with p s \<longleftrightarrow> take (length p) s = p"

definition backup_progress :: "instant \<Rightarrow> receipt_report \<Rightarrow> command \<Rightarrow> backup \<Rightarrow> backup" where
  "backup_progress now i c b =
     (let verify = (cm_action c = ''backup.verify'')
      in if rc_state i = CRunning then (if verify then b\<lparr>bk_status := ''verifying''\<rparr> else b)
         else if rc_state i = CSucceeded then
           (if verify then b\<lparr>bk_status := ''verified'', bk_verifiedAt := Some now\<rparr>
            else b\<lparr>bk_status := ''created'', bk_uri := Some (''bairui-backup://'' @ rc_server i @ ''/'' @ bk_id b),
                   bk_sha := map_option (drop 7) (Option.bind (rc_evidence i) (List.find (starts_with ''sha256:''))),
                   bk_bytes := rc_bytes i\<rparr>)
         else if rc_state i = CFailed then b\<lparr>bk_status := ''failed''\<rparr> else b)"

definition backed_up :: "instant \<Rightarrow> receipt_report \<Rightarrow> command \<Rightarrow> effect" where
  "backed_up now i c =
     when_do (cm_action c \<in> {''backup.create'', ''backup.verify''})
       (update_store (\<lambda>s. s\<lparr>backups := upd_first (\<lambda>b. arg (cm_arguments c) ''backup_id'' = Some (bk_id b))
         (backup_progress now i c) (backups s)\<rparr>))"

definition restore_progress :: "instant \<Rightarrow> receipt_report \<Rightarrow> restore_run \<Rightarrow> restore_run" where
  "restore_progress now i r =
     (if rc_state i = CRunning
      then r\<lparr>rs_status := ''running'', rs_startedAt := Some (or_else (rs_startedAt r) now)\<rparr>
      else if rc_state i = CSucceeded
      then r\<lparr>rs_status := ''succeeded'', rs_evidence := or_else (rc_evidence i) [], rs_completedAt := Some now\<rparr>
      else if rc_state i = CFailed
      then r\<lparr>rs_status := ''failed'', rs_errorCode := Some (or_else (rc_errorCode i) ''restore_failed''),
             rs_errorSummary := Some (or_else (rc_errorSummary i) ''Backup restore failed''), rs_completedAt := Some now\<rparr>
      else if rc_state i = CCancelled
      then cancel_restore now (or_else (rc_errorCode i) ''restore_cancelled'')
             (or_else (rc_errorSummary i) ''Backup restore was cancelled'') r
      else r)"

definition restored :: "instant \<Rightarrow> receipt_report \<Rightarrow> command \<Rightarrow> effect" where
  "restored now i c =
     when_do (cm_action c = ''backup.restore'')
       (update_store (\<lambda>s. s\<lparr>restores := upd_first
         (\<lambda>r. rs_id r = jget ''restore_id'' (cm_arguments c) \<and> rs_command r = cm_id c)
         (restore_progress now i) (restores s)\<rparr>))"

definition backup_expired :: "instant \<Rightarrow> receipt_report \<Rightarrow> command \<Rightarrow> effect" where
  "backup_expired now i c =
     when_do (cm_action c = ''backup.expire'')
       (update_store (\<lambda>s. s\<lparr>backups := upd_first (\<lambda>b. arg (cm_arguments c) ''backup_id'' = Some (bk_id b))
         (\<lambda>b. if rc_state i = CSucceeded then b\<lparr>bk_status := ''expired'', bk_uri := None, bk_expiredAt := Some now\<rparr>
              else if rc_state i = CFailed then b\<lparr>bk_status := ''failed''\<rparr> else b) (backups s)\<rparr>))"

text \<open>The assignments to the manifest of the release and then to the one rolled back to.\<close>

definition released :: "receipt_report \<Rightarrow> command \<Rightarrow> effect" where
  "released i c =
     (let a = cm_action c; st = rc_state i;
          current = (\<lambda>m. if a = ''release.stage'' \<and> st = CSucceeded then m\<lparr>rm_status := ''approved''\<rparr>
            else if a = ''release.apply'' \<and> st = CRunning then m\<lparr>rm_status := ''rolling_out''\<rparr>
            else if a = ''release.apply'' \<and> st = CSucceeded then m\<lparr>rm_status := ''released''\<rparr>
            else if a = ''release.rollback'' \<and> st = CSucceeded then m\<lparr>rm_status := ''withdrawn''\<rparr>
            else if st = CFailed then m\<lparr>rm_status := ''blocked''\<rparr> else m);
          target = (\<lambda>m. if a = ''release.rollback'' \<and> st = CSucceeded then m\<lparr>rm_status := ''released''\<rparr> else m)
      in when_do (a \<in> {''release.stage'', ''release.apply'', ''release.rollback''})
           (update_store (\<lambda>s. s\<lparr>manifests :=
             upd_first (\<lambda>m. arg (cm_arguments c) ''rollback_release_id'' = Some (rm_id m)) target
               (upd_first (\<lambda>m. arg (cm_arguments c) ''release_id'' = Some (rm_id m)) current (manifests s))\<rparr>)))"

definition upstream_checked :: "receipt_report \<Rightarrow> command \<Rightarrow> effect" where
  "upstream_checked i c =
     when_do (cm_action c = ''upstream.check'' \<and> arg (cm_arguments c) ''candidate_id'' \<notin> {None, Some []} \<and>
         rc_state i \<in> {CSucceeded, CFailed})
       (update_store (\<lambda>s. s\<lparr>candidates := upd_first (\<lambda>u. arg (cm_arguments c) ''candidate_id'' = Some (uc_id u))
         (\<lambda>u. u\<lparr>uc_status := if rc_state i = CSucceeded then ''compatible'' else ''incompatible''\<rparr>) (candidates s)\<rparr>))"

section \<open>Receipts\<close>

definition receipt_effects :: "instant \<Rightarrow> receipt_report \<Rightarrow> command \<Rightarrow> effect list" where
  "receipt_effects now i c =
     [provisioned now i c, started now i c, suspended now i c, deleted now i c, provision_failed i c,
      action_failed now i c, configured now i c, provider_applied now i c, provider_failed i c, tested now i c,
      backed_up now i c, restored now i c, backup_expired now i c, released i c, upstream_checked i c]"

definition receipt_state :: "instant \<Rightarrow> receipt_report \<Rightarrow> command \<Rightarrow> command" where
  "receipt_state now i c =
     c\<lparr>cm_state := rc_state i,
       cm_leaseExpiresAt := if rc_state i = CRunning then Some (now + minutes 5) else cm_leaseExpiresAt c\<rparr>"

definition new_receipt :: "env \<Rightarrow> receipt_report \<Rightarrow> command \<Rightarrow> command_receipt" where
  "new_receipt e i c =
     \<lparr>rc_command = rc_command i, rc_server = rc_server i, rc_attempt = rc_attempt i, rc_state = rc_state i,
      rc_endpoint = rc_endpoint i, rc_errorCode = rc_errorCode i, rc_errorSummary = rc_errorSummary i,
      rc_evidence = rc_evidence i, rc_bytes = rc_bytes i, rc_id = uuid e 0,
      rc_deployment = cm_deployment c, rc_createdAt = clock e\<rparr>"

definition recordCommandReceipt ::
  "env \<Rightarrow> receipt_report \<Rightarrow> fleet_state \<Rightarrow> (failure + command_receipt option) \<times> fleet_state" where
  "recordCommandReceipt e i s =
     (let here = (\<lambda>c. cm_id c = rc_command i)
      in case List.find here (commands s) of
           None \<Rightarrow> (Inr None, s)
         | Some c \<Rightarrow>
             if cm_leaseServer c \<noteq> Some (rc_server i) \<or> cm_attempt c \<noteq> rc_attempt i then (Inr None, s)
             else
               (case List.find (\<lambda>r. rc_command r = rc_command i \<and> rc_attempt r = rc_attempt i \<and> rc_state r = rc_state i)
                       (command_receipts s) of
                  Some r \<Rightarrow> (Inr (Some r), s)
                | None \<Rightarrow>
                    (let r = new_receipt e i c;
                         s1 = s\<lparr>command_receipts := command_receipts s @ [r],
                                commands := upd_first here (receipt_state (clock e) i) (commands s)\<rparr>
                     in case run_effects (receipt_effects (clock e) i c) s1 of
                          (Some f, t) \<Rightarrow> (Inl f, t)
                        | (None, t) \<Rightarrow> (Inr (Some r), t))))"

definition getAgentRuntimeRoute :: "ident \<Rightarrow> fleet_state \<Rightarrow> (runtime \<times> json \<times> json option) option" where
  "getAgentRuntimeRoute agent s =
     (case getAgentRuntimeByAgent agent s of
        None \<Rightarrow> None
      | Some r \<Rightarrow> map_option (\<lambda>cf. (r, cf_document cf, cf_envelope cf)) (find_config (rt_config r) s))"

end
