(* ===== verification/Control_Plane.thy ===== *)
theory Control_Plane
  imports Control_Receipts
begin

text \<open>
  The correctness of the control plane: what a lease offers to a server and on which conditions, that
  approvals are decided once, that receipts are bound to the lease they answer and idempotent, that
  lifecycle requests do not pile up, and that configuration changes stay with the owner.
\<close>

section \<open>Leasing commands\<close>

definition reusable :: "instant \<Rightarrow> command \<Rightarrow> bool" where
  "reusable now c \<longleftrightarrow> cm_state c = CQueued \<or>
     (cm_state c \<in> {CLeased, CAccepted, CRunning} \<and> (\<exists>t. cm_leaseExpiresAt c = Some t \<and> t \<le> now))"

definition offerable :: "instant \<Rightarrow> ident \<Rightarrow> fleet_state \<Rightarrow> command \<Rightarrow> bool" where
  "offerable now server s c \<longleftrightarrow> reusable now c \<and> now < cm_expiresAt c \<and> approved now s c \<and>
     (\<exists>d\<in>set (deployments s). dp_id d = cm_deployment c \<and> dp_server d = server)"

definition offers_command :: "lease_offer \<Rightarrow> command \<Rightarrow> bool" where
  "offers_command o_ff c \<longleftrightarrow> lo_command o_ff = cm_id c \<and> lo_attempt o_ff = cm_attempt c + 1 \<and>
     lo_action o_ff = cm_action c \<and> lo_arguments o_ff = cm_arguments c \<and> lo_approval o_ff = cm_approval c \<and>
     (cm_action c = ''config.apply-user'' \<longrightarrow> lo_config o_ff \<in> Some ` (UNIV \<times> {None}) \<union> {None})"

lemma lease_frame:
  "approvals (put_command n c s) = approvals s" "deployments (put_command n c s) = deployments s"
  "approvals (expire_effects now c s) = approvals s" "deployments (expire_effects now c s) = deployments s"
  "commands (expire_effects now c s) = commands s" "commands (put_command n c s) = (commands s)[n := c]"
  by (simp_all add: put_command_def expire_effects_def)

lemma approved_frame:
  "approvals t = approvals s \<Longrightarrow> cm_approval c' = cm_approval c \<Longrightarrow> cm_id c' = cm_id c \<Longrightarrow>
    approved now t c' = approved now s c"
  by (simp add: approved_def cong: option.case_cong)

lemma requeue_same:
  "cm_id (requeue now c) = cm_id c" "cm_approval (requeue now c) = cm_approval c"
  "cm_attempt (requeue now c) = cm_attempt c" "cm_action (requeue now c) = cm_action c"
  "cm_arguments (requeue now c) = cm_arguments c" "cm_expiresAt (requeue now c) = cm_expiresAt c"
  "cm_deployment (requeue now c) = cm_deployment c"
  by (simp_all add: requeue_def)

lemma requeue_queued: "cm_state (requeue now c) = CQueued \<Longrightarrow> reusable now c"
  by (auto simp: requeue_def reusable_def split: if_splits option.splits)

lemma expire_queued:
  "cm_state (expire_command now c) = CQueued \<longleftrightarrow> cm_state c = CQueued \<and> now < cm_expiresAt c"
  "cm_state (expire_command now c) = CQueued \<Longrightarrow> expire_command now c = c"
  by (auto simp: expire_command_def expires_now_def)

lemma offer_of_offers:
  assumes "cm_id c = cm_id c0" and "cm_attempt c = cm_attempt c0" and "cm_action c = cm_action c0"
    and "cm_arguments c = cm_arguments c0" and "cm_approval c = cm_approval c0"
  shows "offers_command (offer_of (grant_command now i c) d r s) c0"
  using assms by (cases "find_config (arg (cm_arguments c0) ''config_revision_id'') s")
    (auto simp: offers_command_def offer_of_def grant_command_def Let_def)

lemma lease_commands_offers:
  assumes "lease_commands now i ns acc s = (Inr offers, t)" and "distinct ns" and "x \<in> set offers"
  shows "x \<in> set acc \<or> (\<exists>n\<in>set ns. offerable now (cl_server i) s (commands s ! n) \<and> offers_command x (commands s ! n))"
  using assms
proof (induction ns arbitrary: acc s)
  case (Cons n ns)
  let ?c = "commands s ! n"
  have carry: ?case
    if ih: "x \<in> set acc' \<or> (\<exists>k\<in>set ns. offerable now (cl_server i) u (commands u ! k) \<and> offers_command x (commands u ! k))"
      and frame: "approvals u = approvals s" "deployments u = deployments s" "\<And>k. k \<noteq> n \<Longrightarrow> commands u ! k = commands s ! k"
      and acc': "x \<in> set acc' \<Longrightarrow> ?case" for u acc'
    using ih
  proof
    assume "x \<in> set acc'"
    then show ?thesis by (rule acc')
  next
    assume "\<exists>k\<in>set ns. offerable now (cl_server i) u (commands u ! k) \<and> offers_command x (commands u ! k)"
    then obtain k where k: "k \<in> set ns" "offerable now (cl_server i) u (commands u ! k)" "offers_command x (commands u ! k)"
      by blast
    have "k \<noteq> n" using k(1) Cons.prems(2) by auto
    then have "commands u ! k = commands s ! k" by (rule frame(3))
    then have "offerable now (cl_server i) s (commands s ! k)" "offers_command x (commands s ! k)"
      using k(2,3) frame(2) approved_frame [OF frame(1) refl refl] by (simp_all add: offerable_def)
    then show ?thesis using k(1) by auto
  qed
  have dn: "distinct ns" using Cons.prems(2) by simp
  show ?case
  proof (cases "find_last (\<lambda>d. dp_id d = cm_deployment ?c \<and> dp_server d = cl_server i) (deployments s)")
    case None
    then have "lease_commands now i ns acc s = (Inr offers, t)" using Cons.prems(1) by simp
    from carry [OF Cons.IH [OF this dn Cons.prems(3)]] show ?thesis by simp
  next
    case (Some d)
    then have d: "d \<in> set (deployments s)" "dp_id d = cm_deployment ?c" "dp_server d = cl_server i"
      by (auto dest: find_last_Some_mem)
    let ?q = "requeue now ?c"
    let ?c1 = "expire_command now ?q"
    let ?s1 = "put_command n ?c1 (expire_effects now ?q s)"
    let ?g = "grant_command now i ?c1"
    let ?s2 = "put_command n ?g ?s1"
    consider (full) "or_else (cl_limit i) 10 \<le> int (length acc)"
      | (skip) "\<not> or_else (cl_limit i) 10 \<le> int (length acc)" "cm_state ?c1 \<noteq> CQueued \<or> \<not> approved now ?s1 ?c1"
      | (offer) "\<not> or_else (cl_limit i) 10 \<le> int (length acc)" "cm_state ?c1 = CQueued" "approved now ?s1 ?c1"
      by blast
    then show ?thesis
    proof cases
      case full
      then have "lease_commands now i ns acc s = (Inr offers, t)" using Cons.prems(1) Some by simp
      from carry [OF Cons.IH [OF this dn Cons.prems(3)]] show ?thesis by simp
    next
      case skip
      then have "lease_commands now i ns acc ?s1 = (Inr offers, t)" using Cons.prems(1) Some by (auto simp: Let_def)
      from carry [OF Cons.IH [OF this dn Cons.prems(3)]] show ?thesis by (simp add: lease_frame)
    next
      case offer
      then obtain r where r: "getAgentRuntimeByAgent (dp_agent d) ?s2 = Some r"
        and rest: "lease_commands now i ns (acc @ [offer_of ?g d r ?s2]) ?s2 = (Inr offers, t)"
        using Cons.prems(1) Some by (auto simp: Let_def split: option.splits)
      have same: "?c1 = ?q" using offer(2) by (rule expire_queued(2))
      have "reusable now ?c" "now < cm_expiresAt ?c"
        using offer(2) requeue_queued expire_queued(1) requeue_same(6) by metis+
      moreover have "approved now s ?c"
        using offer(3) approved_frame [of ?s1 s ?c1 ?c] by (simp add: lease_frame same requeue_same)
      ultimately have "offerable now (cl_server i) s ?c" using d by (auto simp: offerable_def)
      moreover have "offers_command (offer_of ?g d r ?s2) ?c"
        by (rule offer_of_offers) (simp_all add: same requeue_same)
      ultimately have acc': ?thesis if "x \<in> set (acc @ [offer_of ?g d r ?s2])" using that by auto
      from carry [OF Cons.IH [OF rest dn Cons.prems(3)] _ _ _ acc'] show ?thesis by (simp add: lease_frame)
    qed
  qed
qed simp

lemma lease_commands_limit:
  "lease_commands now i ns acc s = (Inr offers, t) \<Longrightarrow> int (length acc) \<le> max 0 (or_else (cl_limit i) 10) \<Longrightarrow>
    int (length offers) \<le> max 0 (or_else (cl_limit i) 10)"
proof (induction ns arbitrary: acc s)
  case (Cons n ns)
  then show ?case by (auto simp: Let_def not_le split: option.splits if_splits)
qed simp

text \<open>C3. A server is offered only what it may run: every command in a lease is queued or its earlier lease ran out,
  has not expired, belongs to a deployment of that server and, when it needs an approval, has one that was
  granted and is still valid; a configuration of the owner is offered without secrets.\<close>

theorem leased_commands_are_authorized:
  assumes "leaseControlCommands e i s = (Inr offers, t)" and "x \<in> set offers"
  shows "int (length offers) \<le> max 0 (or_else (cl_limit i) 10) \<and>
    (\<exists>c\<in>set (commands s). offerable (clock e) (cl_server i) s c \<and> offers_command x c)"
proof -
  let ?s1 = "s\<lparr>commands := sort_key (\<lambda>c. (cm_priority c, cm_createdAt c)) (commands s)\<rparr>"
  have run: "lease_commands (clock e) i [0..<length (commands s)] [] ?s1 = (Inr offers, t)"
    using assms(1) by (simp add: leaseControlCommands_def Let_def)
  obtain n where n: "n < length (commands s)" "offerable (clock e) (cl_server i) ?s1 (commands ?s1 ! n)"
    "offers_command x (commands ?s1 ! n)"
    using lease_commands_offers [OF run _ assms(2)] by auto
  have "commands ?s1 ! n \<in> set (commands ?s1)" using n(1) by (intro nth_mem) simp
  moreover have "offerable (clock e) (cl_server i) s c = offerable (clock e) (cl_server i) ?s1 c" for c
    using approved_frame [of ?s1 s c c] by (simp add: offerable_def)
  ultimately show ?thesis using n(2,3) lease_commands_limit [OF run] by auto
qed

section \<open>A sample fleet\<close>

definition moment :: "instant \<Rightarrow> string \<Rightarrow> env" where
  "moment now tag = \<lparr>clock = now, uuid = (\<lambda>k. tag @ (if k = 0 then ''a'' else if k = 1 then ''b'' else if k = 2 then ''c'' else ''d''))\<rparr>"

definition fleet_agent :: fleet_state where
  "fleet_agent =
     snd (createServer (moment 1 ''s'') (Some ''S'') ''O'' ''srv'' (Some ''active'')
       (snd (createAgentRuntime (moment 1 ''r'') \<lparr>rti_id = Some ''R'', rti_org = ''O'', rti_owner = ''U'', rti_agent = ''A'',
          rti_deployment = None, rti_workspace = ''w'', rti_status = None\<rparr>
         (snd (createAgent (moment 1 ''a'') \<lparr>ai_id = Some ''A'', ai_org = ''O'', ai_owner = Some ''U'', ai_name = ''n'',
            ai_description = None, ai_avatar = None, ai_soul = None, ai_status = None, ai_init = None,
            ai_desired = None, ai_settings = None\<rparr> empty_fleet)))))"

definition sample_hash :: "json \<Rightarrow> string" where
  "sample_hash doc = ''h''"

definition sample_provision :: provision_input where
  "sample_provision = \<lparr>pv_agent = ''A'', pv_skills = [], pv_provider = JStr ''p'', pv_baseUrl = JStr ''u'',
     pv_model = JStr ''m'', pv_envelope = Some JNull, pv_requestedBy = Some ''U'', pv_credentialId = None,
     pv_credentialHash = ''k'', pv_credentialHint = ''t''\<rparr>"

definition fleet_provisioning :: fleet_state where
  "fleet_provisioning = snd (requestAgentProvisioning sample_hash (moment 2 ''p'') sample_provision fleet_agent)"

definition sample_server :: command_lease_input where
  "sample_server = \<lparr>cl_server = ''S'', cl_limit = None, cl_seconds = None\<rparr>"

definition fleet_leased :: fleet_state where
  "fleet_leased = snd (leaseControlCommands (moment 3 ''l'') sample_server fleet_provisioning)"

definition report :: "command_state \<Rightarrow> receipt_report" where
  "report st = \<lparr>rc_command = ''pd'', rc_server = ''S'', rc_attempt = 1, rc_state = st, rc_endpoint = Some ''e'',
     rc_errorCode = None, rc_errorSummary = None, rc_evidence = None, rc_bytes = None\<rparr>"

definition fleet_running :: fleet_state where
  "fleet_running = snd (recordCommandReceipt (moment 4 ''x'') (report CSucceeded) fleet_leased)"

theorem leased_commands_are_authorized_witness:
  "\<exists>c\<in>set (commands fleet_provisioning). offerable 3 ''S'' fleet_provisioning c \<and> cm_action c = ''deployment.provision''"
proof -
  let ?l = "leaseControlCommands (moment 3 ''l'') sample_server fleet_provisioning"
  let ?os = "case fst ?l of Inr os \<Rightarrow> os | _ \<Rightarrow> []"
  have l: "(case fst ?l of Inr _ \<Rightarrow> True | _ \<Rightarrow> False) \<and> hd ?os \<in> set ?os \<and> lo_action (hd ?os) = ''deployment.provision'' \<and>
    clock (moment 3 ''l'') = 3 \<and> cl_server sample_server = ''S''" by code_simp
  then obtain os where "?l = (Inr os, snd ?l)" by (cases ?l) (auto split: sum.splits)
  from leased_commands_are_authorized [OF this, of "hd ?os"] l this show ?thesis
    unfolding offers_command_def by (metis fst_conv sum.case(2))
qed

section \<open>Receipts\<close>

text \<open>No effect touches the commands or the receipts.\<close>

definition quiet :: "effect \<Rightarrow> bool" where
  "quiet f \<longleftrightarrow> (\<forall>s. commands (snd (f s)) = commands s \<and> command_receipts (snd (f s)) = command_receipts s)"

lemma quiet_run: "\<forall>f\<in>set fs. quiet f \<Longrightarrow> quiet (run_effects fs)"
proof (induction fs)
  case (Cons f fs)
  then have ih: "commands (snd (run_effects fs s)) = commands s \<and> command_receipts (snd (run_effects fs s)) = command_receipts s"
    and f: "commands (snd (f s)) = commands s \<and> command_receipts (snd (f s)) = command_receipts s" for s
    by (simp_all add: quiet_def)
  have "commands (snd (run_effects (f # fs) s)) = commands s \<and>
      command_receipts (snd (run_effects (f # fs) s)) = command_receipts s" for s
    using f [of s] ih by (cases "f s") (auto split: option.splits)
  then show ?case by (simp add: quiet_def)
qed (simp add: quiet_def)

lemma quiet_steps:
  "quiet f \<Longrightarrow> quiet (when_do b f)" "(\<And>d. \<forall>f\<in>set (k d). quiet f) \<Longrightarrow> quiet (with_deployment i k)"
  "quiet (assign_runtime i g)" "quiet (assign_agent i h)"
  "(\<And>s. commands (u s) = commands s \<and> command_receipts (u s) = command_receipts s) \<Longrightarrow> quiet (update_store u)"
proof -
  show "quiet f \<Longrightarrow> quiet (when_do b f)" by (simp add: quiet_def when_do_def)
  show "quiet (with_deployment i k)" if "\<And>d. \<forall>f\<in>set (k d). quiet f"
    using quiet_run [OF that] by (auto simp: quiet_def with_deployment_def split: option.splits)
qed (simp_all add: quiet_def assign_runtime_def assign_agent_def update_store_def mod_runtime_def mod_agent_def)

lemma quiet_choice:
  "(\<And>cf. quiet (f cf)) \<Longrightarrow> quiet (\<lambda>s. case find_config i s of None \<Rightarrow> (None, s) | Some cf \<Rightarrow> f cf s)"
  by (auto simp: quiet_def split: option.splits)

lemma quiet_set_agent_runtime:
  "(\<And>i s. commands (a i s) = commands s \<and> command_receipts (a i s) = command_receipts s) \<Longrightarrow>
    quiet (set_agent_runtime a f g c)"
  unfolding set_agent_runtime_def by (rule quiet_steps) (auto intro!: quiet_steps)

lemma store_frame:
  "commands (set_deployment_status st i s) = commands s \<and> command_receipts (set_deployment_status st i s) = command_receipts s"
  "commands (mod_config j u s) = commands s \<and> command_receipts (mod_config j u s) = command_receipts s"
  "commands (apply_skills ag doc w s) = commands s \<and> command_receipts (apply_skills ag doc w s) = command_receipts s"
  by (simp_all add: set_deployment_status_def mod_deployment_def mod_config_def apply_skills_def)

lemma quiet_provisioned: "quiet (provisioned now i c)"
  unfolding provisioned_def
  by (intro quiet_steps) (auto intro!: quiet_steps simp: store_frame,
    simp add: quiet_def update_store_def store_frame)

lemma quiet_configured: "quiet (configured now i c)"
  unfolding configured_def
  by (intro quiet_choice quiet_steps quiet_run) (auto intro!: quiet_steps simp: store_frame)

lemma quiet_effects: "quiet (run_effects (receipt_effects now i c))"
proof (rule quiet_run)
  have "quiet (started now i c)" "quiet (suspended now i c)" "quiet (deleted now i c)" "quiet (provision_failed i c)"
    "quiet (action_failed now i c)"
    unfolding started_def suspended_def deleted_def provision_failed_def action_failed_def
    by (intro quiet_steps quiet_set_agent_runtime; simp add: store_frame)+
  moreover have "quiet (provider_applied now i c)" "quiet (provider_failed i c)"
    unfolding provider_applied_def provider_failed_def by (intro quiet_choice quiet_steps; simp)+
  moreover have "quiet (tested now i c)" "quiet (backed_up now i c)" "quiet (restored now i c)"
    "quiet (backup_expired now i c)" "quiet (upstream_checked i c)"
    unfolding tested_def backed_up_def restored_def backup_expired_def upstream_checked_def
    by (intro quiet_steps; simp)+
  moreover have "quiet (released i c)"
    unfolding released_def Let_def by (intro quiet_steps) simp
  ultimately show "\<forall>f\<in>set (receipt_effects now i c). quiet f"
    using quiet_provisioned quiet_configured by (simp add: receipt_effects_def)
qed

lemma recordCommandReceipt_commands:
  assumes "recordCommandReceipt e i s = (Inr (Some r), t)"
  shows "\<exists>c. List.find (\<lambda>c. cm_id c = rc_command i) (commands s) = Some c \<and>
    cm_leaseServer c = Some (rc_server i) \<and> cm_attempt c = rc_attempt i \<and>
    (List.find (\<lambda>r. rc_command r = rc_command i \<and> rc_attempt r = rc_attempt i \<and> rc_state r = rc_state i) (command_receipts s) = Some r \<and> t = s
    \<or> List.find (\<lambda>r. rc_command r = rc_command i \<and> rc_attempt r = rc_attempt i \<and> rc_state r = rc_state i) (command_receipts s) = None \<and>
      r = new_receipt e i c \<and> command_receipts t = command_receipts s @ [r] \<and>
      commands t = upd_first (\<lambda>c. cm_id c = rc_command i) (receipt_state (clock e) i) (commands s))"
proof -
  let ?here = "\<lambda>c. cm_id c = rc_command i"
  let ?same = "\<lambda>r. rc_command r = rc_command i \<and> rc_attempt r = rc_attempt i \<and> rc_state r = rc_state i"
  obtain c where c: "List.find ?here (commands s) = Some c" "cm_leaseServer c = Some (rc_server i)" "cm_attempt c = rc_attempt i"
    using assms by (auto simp: recordCommandReceipt_def Let_def split: option.splits if_splits)
  show ?thesis
  proof (cases "List.find ?same (command_receipts s)")
    case None
    let ?s1 = "s\<lparr>command_receipts := command_receipts s @ [new_receipt e i c],
      commands := upd_first ?here (receipt_state (clock e) i) (commands s)\<rparr>"
    have run: "run_effects (receipt_effects (clock e) i c) ?s1 = (None, t)" "r = new_receipt e i c"
      using assms c None by (auto simp: recordCommandReceipt_def Let_def split: prod.splits option.splits)
    from quiet_effects [of "clock e" i c] have "commands t = commands ?s1" "command_receipts t = command_receipts ?s1"
      unfolding quiet_def using run(1) by (metis snd_conv)+
    then show ?thesis using c None run(2) by auto
  next
    case (Some q)
    then show ?thesis using assms c by (auto simp: recordCommandReceipt_def Let_def)
  qed
qed

text \<open>Receipts are idempotent: once a receipt was recorded, reporting the same state of the same attempt again, at
  any later time and with any other details, returns the stored receipt and changes nothing at all.\<close>

theorem receipts_are_idempotent:
  assumes "recordCommandReceipt e i s = (Inr (Some r), t)"
    and "rc_command j = rc_command i" and "rc_server j = rc_server i" and "rc_attempt j = rc_attempt i"
    and "rc_state j = rc_state i"
  shows "recordCommandReceipt e' j t = (Inr (Some r), t)"
proof -
  let ?here = "\<lambda>c. cm_id c = rc_command i"
  let ?same = "\<lambda>r. rc_command r = rc_command i \<and> rc_attempt r = rc_attempt i \<and> rc_state r = rc_state i"
  obtain c where c: "List.find ?here (commands s) = Some c" "cm_leaseServer c = Some (rc_server i)" "cm_attempt c = rc_attempt i"
    and cases: "List.find ?same (command_receipts s) = Some r \<and> t = s \<or>
      List.find ?same (command_receipts s) = None \<and> r = new_receipt e i c \<and> command_receipts t = command_receipts s @ [r] \<and>
      commands t = upd_first ?here (receipt_state (clock e) i) (commands s)"
    using recordCommandReceipt_commands [OF assms(1)] by blast
  from cases have receipt: "List.find ?same (command_receipts t) = Some r"
    by (auto simp: find_append new_receipt_def)
  have "\<exists>c'. List.find ?here (commands t) = Some c' \<and> cm_leaseServer c' = Some (rc_server i) \<and> cm_attempt c' = rc_attempt i"
    using cases c by (auto simp: find_upd_first_same receipt_state_def)
  then show ?thesis using receipt assms(2-5) by (auto simp: recordCommandReceipt_def Let_def)
qed

theorem receipts_are_idempotent_witness:
  "snd (recordCommandReceipt (moment 9 ''y'') (report CSucceeded) fleet_running) = fleet_running"
proof -
  let ?r = "recordCommandReceipt (moment 4 ''x'') (report CSucceeded) fleet_leased"
  have "case fst ?r of Inr (Some _) \<Rightarrow> True | _ \<Rightarrow> False" by code_simp
  then obtain r where "?r = (Inr (Some r), fleet_running)"
    by (cases ?r) (auto simp: fleet_running_def split: sum.splits option.splits)
  from receipts_are_idempotent [OF this refl refl refl refl] show ?thesis by simp
qed

text \<open>A receipt only counts from the server and for the attempt that hold the command: anything else is answered
  with nothing and leaves the whole store as it is.\<close>

theorem foreign_receipt_changes_nothing:
  assumes "\<forall>c\<in>set (commands s). cm_id c = rc_command i \<longrightarrow>
    cm_leaseServer c \<noteq> Some (rc_server i) \<or> cm_attempt c \<noteq> rc_attempt i"
  shows "recordCommandReceipt e i s = (Inr None, s)"
proof (cases "List.find (\<lambda>c. cm_id c = rc_command i) (commands s)")
  case (Some c)
  then show ?thesis using assms find_Some_mem [OF Some] by (auto simp: recordCommandReceipt_def Let_def)
qed (simp add: recordCommandReceipt_def Let_def)

theorem foreign_receipt_changes_nothing_witness:
  "recordCommandReceipt (moment 4 ''x'') ((report CSucceeded)\<lparr>rc_attempt := 2\<rparr>) fleet_leased = (Inr None, fleet_leased)"
proof (rule foreign_receipt_changes_nothing)
  show "\<forall>c\<in>set (commands fleet_leased). cm_id c = rc_command ((report CSucceeded)\<lparr>rc_attempt := 2\<rparr>) \<longrightarrow>
    cm_leaseServer c \<noteq> Some (rc_server ((report CSucceeded)\<lparr>rc_attempt := 2\<rparr>)) \<or>
    cm_attempt c \<noteq> rc_attempt ((report CSucceeded)\<lparr>rc_attempt := 2\<rparr>)" by code_simp
qed

text \<open>The in-memory store does not keep a finished command finished: a later receipt of the same attempt with
  another state, which the server may send out of order, replaces a final state.\<close>

theorem finished_command_can_be_reopened:
  assumes "List.find (\<lambda>c. cm_id c = rc_command i) (commands s) = Some c" and "cm_state c = CSucceeded"
    and "cm_leaseServer c = Some (rc_server i)" and "cm_attempt c = rc_attempt i" and "rc_state i = CRunning"
    and "recordCommandReceipt e i s = (Inr (Some r), t)"
    and "\<forall>q\<in>set (command_receipts s). \<not> (rc_command q = rc_command i \<and> rc_attempt q = rc_attempt i \<and> rc_state q = CRunning)"
  shows "\<exists>c'. List.find (\<lambda>c. cm_id c = rc_command i) (commands t) = Some c' \<and> cm_state c' = CRunning \<and>
    reusable (clock e + minutes 5) c'"
proof -
  have "List.find (\<lambda>r. rc_command r = rc_command i \<and> rc_attempt r = rc_attempt i \<and> rc_state r = rc_state i) (command_receipts s) = None"
    using assms(5,7) by (simp add: find_None_all)
  then have "commands t = upd_first (\<lambda>c. cm_id c = rc_command i) (receipt_state (clock e) i) (commands s)"
    using recordCommandReceipt_commands [OF assms(6)] by auto
  then show ?thesis using assms(1,5) by (auto simp: find_upd_first_same receipt_state_def reusable_def)
qed

theorem finished_command_can_be_reopened_witness:
  "map cm_state (commands fleet_running) = [CSucceeded] \<and>
   map cm_state (commands (snd (recordCommandReceipt (moment 5 ''z'') (report CRunning) fleet_running))) = [CRunning]"
proof
  show "map cm_state (commands fleet_running) = [CSucceeded]" by code_simp
  let ?r = "recordCommandReceipt (moment 5 ''z'') (report CRunning) fleet_running"
  have f: "List.find (\<lambda>c. cm_id c = rc_command (report CRunning)) (commands fleet_running) = Some (hd (commands fleet_running))"
    "cm_state (hd (commands fleet_running)) = CSucceeded"
    "cm_leaseServer (hd (commands fleet_running)) = Some (rc_server (report CRunning))"
    "cm_attempt (hd (commands fleet_running)) = rc_attempt (report CRunning)" "rc_state (report CRunning) = CRunning"
    "\<forall>q\<in>set (command_receipts fleet_running). \<not> (rc_command q = rc_command (report CRunning) \<and>
       rc_attempt q = rc_attempt (report CRunning) \<and> rc_state q = CRunning)" by code_simp+
  have "case fst ?r of Inr (Some _) \<Rightarrow> True | _ \<Rightarrow> False" by code_simp
  then obtain r where "?r = (Inr (Some r), snd ?r)" by (cases ?r) (auto split: sum.splits option.splits)
  from finished_command_can_be_reopened [OF f(1-5) this f(6)]
  obtain c' where c': "List.find (\<lambda>c. cm_id c = rc_command (report CRunning)) (commands (snd ?r)) = Some c'" "cm_state c' = CRunning"
    by blast
  have "length (commands (snd ?r)) = 1" by code_simp
  then obtain c where "commands (snd ?r) = [c]" by (cases "commands (snd ?r)") auto
  then show "map cm_state (commands (snd ?r)) = [CRunning]" using c' by (auto split: if_splits)
qed

section \<open>Approvals\<close>

text \<open>An approval is decided once and in time: a decision is accepted only while the approval is pending and has not
  expired, and after it every further decision on that approval is refused and changes nothing.\<close>

theorem approval_is_decided_once:
  assumes "decideControlApproval e i s = (Inr (Some a), t)" and "di_decision i \<noteq> ''pending''"
    and "di_approval j = di_approval i" and "di_org j = di_org i"
  shows "(\<exists>p\<in>set (approvals s). ap_id p = di_approval i \<and> ap_decision p = ''pending'' \<and> clock e < ap_expiresAt p) \<and>
    ap_decision a = di_decision i \<and>
    decideControlApproval e' j t = (Inl (CodedError ''approval_not_pending'' (Some 409)), t)"
proof -
  let ?one = "\<lambda>p. ap_id p = di_approval i \<and> in_org (di_org i) (ap_org p)"
  let ?decide = "\<lambda>p. p\<lparr>ap_decision := di_decision i, ap_decidedBy := Some (di_decidedBy i),
    ap_reason := di_reason i, ap_decidedAt := Some (clock e)\<rparr>"
  obtain p where p: "List.find ?one (approvals s) = Some p"
    using assms(1) by (cases "List.find ?one (approvals s)") (auto simp: decideControlApproval_def Let_def)
  have pending: "ap_decision p = ''pending''" "clock e < ap_expiresAt p" "a = ?decide p"
    and t: "approvals t = upd_first ?one ?decide (approvals s)"
    using assms(1) p by (auto simp: decideControlApproval_def Let_def not_le split: if_splits)
  have "List.find ?one (approvals t) = Some (?decide p)" unfolding t using p by (simp add: find_upd_first_same)
  then have "decideControlApproval e' j t = (Inl (CodedError ''approval_not_pending'' (Some 409)), t)"
    using assms(2-4) by (simp add: decideControlApproval_def Let_def)
  then show ?thesis using find_Some_mem [OF p] pending by auto
qed

definition sample_operation :: operation_input where
  "sample_operation = \<lparr>op_org = ''O'', op_agent = ''A'', op_action = ''service.restart'', op_arguments = JObj [],
     op_key = Some ''k'', op_expiresInMs = None, op_approvalRequired = True, op_approval = None, op_command = None,
     op_priority = None, op_requestedBy = ''U'', op_risk = None, op_reason = None\<rparr>"

definition fleet_operation :: fleet_state where
  "fleet_operation = snd (requestControlOperation (moment 6 ''o'') sample_operation fleet_running)"

definition sample_decision :: "string \<Rightarrow> decision_input" where
  "sample_decision d = \<lparr>di_approval = ''ob'', di_org = None, di_decision = d, di_decidedBy = ''V'', di_reason = ''r''\<rparr>"

theorem approval_is_decided_once_witness:
  "fst (decideControlApproval (moment 8 ''q'') (sample_decision ''approved'')
     (snd (decideControlApproval (moment 7 ''q'') (sample_decision ''rejected'') fleet_operation))) =
   Inl (CodedError ''approval_not_pending'' (Some 409))"
proof -
  let ?r = "decideControlApproval (moment 7 ''q'') (sample_decision ''rejected'') fleet_operation"
  have "case fst ?r of Inr (Some _) \<Rightarrow> True | _ \<Rightarrow> False" by code_simp
  then obtain a where r: "?r = (Inr (Some a), snd ?r)" by (cases ?r) (auto split: sum.splits option.splits)
  have "di_decision (sample_decision ''rejected'') \<noteq> ''pending''"
    "di_approval (sample_decision ''approved'') = di_approval (sample_decision ''rejected'')"
    "di_org (sample_decision ''approved'') = di_org (sample_decision ''rejected'')" by (simp_all add: sample_decision_def)
  from approval_is_decided_once [OF r this] show ?thesis by simp
qed

text \<open>A rejected operation never reaches a server: as long as its approval stays rejected, no lease offers the
  command, whatever its state, priority or expiry.\<close>

theorem rejected_command_is_not_leased:
  assumes "leaseControlCommands e i s = (Inr offers, t)"
    and "\<forall>c\<in>set (commands s). cm_id c = k \<longrightarrow>
      (\<exists>a. cm_approval c = Some a \<and> (\<forall>p\<in>set (approvals s). ap_id p = a \<longrightarrow> ap_decision p \<noteq> ''approved''))"
  shows "k \<notin> lo_command ` set offers"
proof
  assume "k \<in> lo_command ` set offers"
  then obtain x where x: "x \<in> set offers" "lo_command x = k" by auto
  let ?s1 = "s\<lparr>commands := sort_key (\<lambda>c. (cm_priority c, cm_createdAt c)) (commands s)\<rparr>"
  have run: "lease_commands (clock e) i [0..<length (commands s)] [] ?s1 = (Inr offers, t)"
    using assms(1) by (simp add: leaseControlCommands_def Let_def)
  obtain n where n: "n < length (commands s)" "offerable (clock e) (cl_server i) ?s1 (commands ?s1 ! n)"
    "offers_command x (commands ?s1 ! n)"
    using lease_commands_offers [OF run _ x(1)] by auto
  let ?c = "commands ?s1 ! n"
  have "?c \<in> set (commands ?s1)" using n(1) by (intro nth_mem) simp
  then have "?c \<in> set (commands s)" "cm_id ?c = k" using n(3) x(2) by (simp_all add: offers_command_def)
  then obtain a where a: "cm_approval ?c = Some a" "\<forall>p\<in>set (approvals s). ap_id p = a \<longrightarrow> ap_decision p \<noteq> ''approved''"
    using assms(2) by blast
  have "approved (clock e) ?s1 ?c" using n(2) by (simp add: offerable_def)
  then obtain p where "List.find (\<lambda>p. ap_id p = a \<and> ap_command p = cm_id ?c) (approvals s) = Some p" "ap_decision p = ''approved''"
    using a(1) by (auto simp: approved_def split: option.splits)
  then show False using a(2) by (auto dest: find_Some_mem)
qed

theorem rejected_command_is_not_leased_witness:
  "''oc'' \<notin> lo_command ` set (case fst (leaseControlCommands (moment 8 ''l'') sample_server fleet_operation) of Inr os \<Rightarrow> os | _ \<Rightarrow> [])
    \<and> ''oc'' \<in> cm_id ` set (commands fleet_operation)"
proof
  let ?l = "leaseControlCommands (moment 8 ''l'') sample_server fleet_operation"
  have "case fst ?l of Inr _ \<Rightarrow> True | _ \<Rightarrow> False" by code_simp
  then obtain os where l: "?l = (Inr os, snd ?l)" by (cases ?l) (auto split: sum.splits)
  have c: "commands fleet_operation = [hd (commands fleet_operation), commands fleet_operation ! 1]"
    "cm_id (hd (commands fleet_operation)) = ''pd''" "cm_id (commands fleet_operation ! 1) = ''oc''"
    "cm_approval (commands fleet_operation ! 1) = Some ''ob''"
    "\<forall>p\<in>set (approvals fleet_operation). ap_id p = ''ob'' \<longrightarrow> ap_decision p \<noteq> ''approved''" by code_simp+
  have "''oc'' \<notin> lo_command ` set os"
    by (rule rejected_command_is_not_leased [OF l], subst c(1)) (use c(2-5) in auto)
  moreover have "fst ?l = Inr os" using l by (metis fst_conv)
  ultimately show "''oc'' \<notin> lo_command ` set (case fst ?l of Inr os \<Rightarrow> os | _ \<Rightarrow> [])" by simp
  show "''oc'' \<in> cm_id ` set (commands fleet_operation)" 
    by (subst c(1)) (use c(3) in simp)
qed

section \<open>Lifecycle requests\<close>

definition lifecycle_in_flight :: "ident \<Rightarrow> command \<Rightarrow> bool" where
  "lifecycle_in_flight d c \<longleftrightarrow> cm_deployment c = d \<and> cm_action c \<in> set LIFECYCLE_ACTIONS \<and> in_flight (cm_state c)"

lemma lifecycle_command:
  assumes "requestAgentLifecycle e i s = (res, t)" and "commands t \<noteq> commands s"
  shows "\<exists>d c. find_last (lifecycle_in_flight d) (commands s) = None \<and> commands t = commands s @ [c] \<and>
    lifecycle_in_flight d c \<and> lifecycle_action (lc_request i) = Some (cm_action c)"
  using assms unfolding lifecycle_in_flight_def
  by (fastforce simp: requestAgentLifecycle_def Let_def mod_agent_def mod_runtime_def lifecycle_action_def LIFECYCLE_ACTIONS_def
      in_flight_def split: option.splits if_splits)

text \<open>Lifecycle requests of a deployment do not pile up: a pause, resume or delete adds a command only when none of
  the deployment is in flight, so it never leaves more than one in flight unless there were more before.\<close>

theorem lifecycle_requests_do_not_pile_up:
  "length (filter (lifecycle_in_flight d) (commands (snd (requestAgentLifecycle e i s)))) \<le>
     max 1 (length (filter (lifecycle_in_flight d) (commands s)))"
proof (cases "commands (snd (requestAgentLifecycle e i s)) = commands s")
  case False
  then obtain d' c where n: "find_last (lifecycle_in_flight d') (commands s) = None"
    "commands (snd (requestAgentLifecycle e i s)) = commands s @ [c]" "lifecycle_in_flight d' c"
    using lifecycle_command [OF surjective_pairing] by blast
  have "filter (lifecycle_in_flight d') (commands s) = []"
    using n(1) by (auto simp: find_last_def find_None_all filter_empty_conv)
  then show ?thesis using n(2,3) by (cases "d = d'") (auto simp: lifecycle_in_flight_def)
qed simp

section \<open>Owner configuration\<close>

text \<open>Only the owner changes the configuration of an agent: a request under another organization or user is answered
  with nothing and changes nothing; an accepted one adds one approved revision with the envelope of the
  current one and one queued command for it, and leaves no other queued command of the same scope.\<close>

theorem owner_configuration_stays_with_owner:
  assumes "requestAgentOwnerConfiguration hash e i scope s = (res, t)" and "map_of (agents s) (oc_agent i) = Some a"
  shows "(ag_org a \<noteq> oc_org i \<or> ag_owner a \<noteq> oc_user i \<longrightarrow> t = s \<and> res \<in> {Inr None, Inl (TypeError ''Unsupported owner configuration scope'')}) \<and>
    (\<forall>cf c. res = Inr (Some (Some (cf, c))) \<longrightarrow>
       ag_org a = oc_org i \<and> ag_owner a = oc_user i \<and> cf_status cf = ''approved'' \<and> cf_agent cf = ag_id a \<and>
       (\<exists>cur\<in>set (configs s). cf_envelope cf = cf_envelope cur \<and> cf_agent cur = ag_id a) \<and>
       cm_state c = CQueued \<and> last (commands t) = c \<and>
       (\<forall>c'\<in>set (butlast (commands t)). \<not> superseded a scope (s\<lparr>configs := configs s @ [cf]\<rparr>) c'))"
proof -
  have frame: "commands (supersede_configs cs u) = commands u" for cs u
    unfolding supersede_configs_def by (induction cs arbitrary: u) (auto simp: mod_config_def)
  have cancelled: "\<not> superseded a scope u (c\<lparr>cm_state := CCancelled\<rparr>)" for u c
    by (simp add: superseded_def)
  show ?thesis
  proof (intro conjI allI impI)
    assume "ag_org a \<noteq> oc_org i \<or> ag_owner a \<noteq> oc_user i"
    then show "t = s" "res \<in> {Inr None, Inl (TypeError ''Unsupported owner configuration scope'')}"
      using assms by (auto simp: requestAgentOwnerConfiguration_def split: option.splits if_splits)
  next
    fix cf c assume res: "res = Inr (Some (Some (cf, c)))"
    have ok: "scope \<in> {''skills'', ''identity''}" "ag_org a = oc_org i" "ag_owner a = oc_user i"
      using assms res by (auto simp: requestAgentOwnerConfiguration_def split: option.splits if_splits)
    obtain r where r: "getAgentRuntimeByAgent (oc_agent i) s = Some r" "rt_deployment r \<noteq> None" "rt_config r \<noteq> None"
      using assms res by (auto simp: requestAgentOwnerConfiguration_def split: option.splits if_splits)
    obtain cur where cur: "List.find (\<lambda>c. Some (cf_id c) = rt_config r \<and> cf_agent c = ag_id a) (configs s) = Some cur"
      using assms res r ok by (auto simp: requestAgentOwnerConfiguration_def split: option.splits)
    obtain d where d: "List.find (\<lambda>d. Some (dp_id d) = rt_deployment r \<and> dp_status d \<noteq> ''revoked'') (deployments s) = Some d"
      using assms res r ok cur by (auto simp: requestAgentOwnerConfiguration_def split: option.splits)
    have scope: "(scope \<notin> {''skills'', ''identity''}) = False" using ok(1) by blast
    have t: "cf_envelope cf = cf_envelope cur" "cf_status cf = ''approved''" "cf_agent cf = ag_id a" "cm_state c = CQueued"
      "commands t = upd_all (superseded a scope (s\<lparr>configs := configs s @ [cf]\<rparr>)) (\<lambda>c. c\<lparr>cm_state := CCancelled\<rparr>) (commands s) @ [c]"
      using assms(1) res
      by (simp_all only: requestAgentOwnerConfiguration_def scope assms(2) r cur d if_False prod.case option.case Let_def ok(2,3)
        simp_thms prod.inject sum.inject option.inject) (auto simp: frame)
    show "ag_org a = oc_org i" "ag_owner a = oc_user i" "cf_status cf = ''approved''" "cf_agent cf = ag_id a"
      "cm_state c = CQueued" "last (commands t) = c" using ok t by simp_all
    show "\<exists>cur\<in>set (configs s). cf_envelope cf = cf_envelope cur \<and> cf_agent cur = ag_id a"
      using find_Some_mem [OF cur] t(1) by blast
    show "\<forall>c'\<in>set (butlast (commands t)). \<not> superseded a scope (s\<lparr>configs := configs s @ [cf]\<rparr>) c'"
      using cancelled unfolding t(5) upd_all_def by auto
  qed
qed

definition owner_request :: "ident \<Rightarrow> owner_change" where
  "owner_request user = \<lparr>oc_agent = ''A'', oc_org = ''O'', oc_user = user, oc_requestedBy = Some user\<rparr>"

theorem owner_configuration_stays_with_owner_witness:
  "requestAgentOwnerConfiguration sample_hash (moment 6 ''o'') (owner_request ''X'') ''skills'' fleet_running = (Inr None, fleet_running)"
proof -
  let ?r = "requestAgentOwnerConfiguration sample_hash (moment 6 ''o'') (owner_request ''X'') ''skills'' fleet_running"
  have a: "map_of (agents fleet_running) (oc_agent (owner_request ''X'')) = Some (snd (hd (agents fleet_running)))"
    "ag_owner (snd (hd (agents fleet_running))) \<noteq> oc_user (owner_request ''X'')"
    "fst ?r \<noteq> Inl (TypeError ''Unsupported owner configuration scope'')" by code_simp+
  from owner_configuration_stays_with_owner [OF surjective_pairing a(1), of sample_hash "moment 6 ''o''" "''skills''"] a(2,3)
  have "snd ?r = fleet_running" "fst ?r = Inr None" by auto
  then show ?thesis by (metis surjective_pairing)
qed

end
