(* ===== verification/Control_Policy.thy ===== *)
theory Control_Policy
  imports Js_Value
begin

text \<open>
  \<open>packages/control-authority/policy.mjs\<close>: the closed list of control actions and their arguments,
  the checks that keep secrets and conversation data out of the control plane, and the redaction of
  metadata. A check that returns its argument or throws is \<open>None\<close> or \<open>Some\<close> of the failure;
  the text of an error message is not modelled, its code and status are.
\<close>

section \<open>The tables\<close>

definition CONTROL_ACTION_ARGUMENTS :: "(string \<times> string list \<times> string list) list" where
  "CONTROL_ACTION_ARGUMENTS =
     [(''snapshot.collect'', [], []),
      (''deployment.provision'', [''agent_id'', ''workspace_ref'', ''config_revision_id''], []),
      (''deployment.start'', [''agent_id''], []),
      (''deployment.stop'', [''agent_id''], []),
      (''deployment.suspend'', [''agent_id''], []),
      (''deployment.resume'', [''agent_id''], []),
      (''deployment.delete'', [''agent_id''], [''backup_id'']),
      (''credential.revoke'', [''identity_id''], []),
      (''probe.run'', [''probe_ids''], [''test_run_id'']),
      (''contract.test'', [''suite_id''], [''test_run_id'']),
      (''smoke.test'', [''suite_id''], [''test_run_id'']),
      (''upstream.check'', [''upstream_id''], [''candidate_id'', ''test_run_id'']),
      (''config.stage'', [''config_revision_id''], []),
      (''config.apply'', [''config_revision_id''], []),
      (''backup.create'', [''backup_policy_id''], [''backup_id'']),
      (''backup.verify'', [''backup_id''], []),
      (''backup.restore'', [''backup_id'', ''restore_id''], []),
      (''backup.expire'', [''backup_id''], []),
      (''release.stage'', [''release_id''], [''rollout_id'']),
      (''release.apply'', [''release_id''], [''rollout_id'']),
      (''release.rollback'', [''release_id'', ''rollback_release_id''], [''rollout_id'']),
      (''service.restart'', [''service_id''], [])]"

definition APPROVAL_ACTIONS :: "string list" where
  "APPROVAL_ACTIONS =
     [''config.apply'', ''backup.restore'', ''release.apply'', ''release.rollback'',
      ''service.restart'', ''deployment.delete'', ''credential.revoke'']"

definition DESIRED_STATES :: "string list" where
  "DESIRED_STATES = [''provisioned'', ''running'', ''stopped'', ''suspended'', ''deleted'']"

definition OBSERVATION_STATUSES :: "string list" where
  "OBSERVATION_STATUSES = [''healthy'', ''degraded'', ''unhealthy'', ''unknown'']"

definition RECEIPT_STATES :: "string list" where
  "RECEIPT_STATES = [''accepted'', ''running'', ''succeeded'', ''failed'', ''cancelled'', ''expired'']"

definition VERIFICATION_STATES :: "string list" where
  "VERIFICATION_STATES = [''verified'', ''failed'', ''stale'', ''blocked'']"

definition FORBIDDEN_KEYS :: "string list" where
  "FORBIDDEN_KEYS =
     [''prompt'', ''systemprompt'', ''chat'', ''conversation'', ''conversations'', ''message'',
      ''messages'', ''task'', ''tasks'', ''model'', ''models'', ''provider'', ''providers'', ''tool'',
      ''tools'', ''skill'', ''skills'', ''memory'', ''memories'', ''password'', ''token'',
      ''accesstoken'', ''refreshtoken'', ''apikey'', ''accesskey'', ''secret'', ''secrets'',
      ''secretvalue'', ''secretenvelope'', ''credential'', ''credentials'', ''authorization'',
      ''shell'', ''script'', ''sql'']"

section \<open>The patterns\<close>

definition ref_prefix :: rexp where
  "ref_prefix = Sq (alts [literal ''ref'', literal ''id'', literal ''hint'']) (literal '':'')"

definition REFERENCE :: rexp where
  "REFERENCE = Sq ref_prefix IDENTIFIER"

definition SECRET_REFERENCE :: rexp where
  "SECRET_REFERENCE = Sq (literal ''sr_'') (Rep (Cls (\<lambda>c. is_alnum c \<or> one_of ''_-'' c)) 16 (Some 128))"

definition is_lower_hex :: "char \<Rightarrow> bool" where
  "is_lower_hex c \<longleftrightarrow> is_digit c \<or> one_of ''abcdef'' c"

definition DIGEST :: rexp where
  "DIGEST = Sq (literal ''sha256:'') (Rep (Cls is_lower_hex) 64 (Some 64))"

definition SECRET_TEXT :: rexp where
  "SECRET_TEXT = alts
     [seqs [literal_ci ''-----BEGIN'', Rep (Cls is_space) 1 None,
            Rep (Sq (Rep (Cls (ci is_upper)) 1 None) (Rep (Cls is_space) 1 None)) 0 (Some 1),
            literal_ci ''PRIVATE KEY-----''],
      seqs [literal_ci ''Bearer'', Rep (Cls is_space) 1 None,
            Rep (Cls (ci (\<lambda>c. is_alnum c \<or> one_of ''._~+/=-'' c))) 16 None],
      seqs [Alt (literal_ci ''sk'') (Sq (literal_ci ''gh'') (Cls (ci (one_of ''oprsu'')))),
            Cls (one_of ''-_''),
            Rep (Cls (ci (\<lambda>c. is_alnum c \<or> one_of ''_-'' c))) 16 None]]"

definition OPERATIONAL_TEXT :: rexp where
  "OPERATIONAL_TEXT = alts [REFERENCE, DIGEST, IDENTIFIER]"

definition METADATA_KEY :: rexp where
  "METADATA_KEY = Sq (Cls is_lower) (Rep (Cls (\<lambda>c. is_lower c \<or> is_digit c \<or> c = CHR ''_'')) 0 (Some 63))"

definition normalizeKey :: "string \<Rightarrow> string" where
  "normalizeKey k = lower_case (filter is_alnum k)"

definition forbidden_key :: "string \<Rightarrow> bool" where
  "forbidden_key k \<longleftrightarrow> normalizeKey k \<in> set FORBIDDEN_KEYS"

section \<open>The checks\<close>

definition controlError :: "string \<Rightarrow> failure" where
  "controlError code = CodedError code (Some 400)"

definition check_pattern :: "rexp \<Rightarrow> string \<Rightarrow> json \<Rightarrow> failure option" where
  "check_pattern r code v =
     (case v of JStr s \<Rightarrow> if matches r s then None else Some (controlError code)
      | _ \<Rightarrow> Some (controlError code))"

definition assertIdentifier :: "json \<Rightarrow> failure option" where
  "assertIdentifier = check_pattern IDENTIFIER ''invalid_identifier''"

definition assertReference :: "json \<Rightarrow> failure option" where
  "assertReference = check_pattern REFERENCE ''invalid_reference''"

definition assertSecretReference :: "json \<Rightarrow> failure option" where
  "assertSecretReference = check_pattern SECRET_REFERENCE ''invalid_reference''"

definition assertDigest :: "json \<Rightarrow> failure option" where
  "assertDigest = check_pattern DIGEST ''invalid_digest''"

definition assertPositiveInteger :: "bool \<Rightarrow> json \<Rightarrow> failure option" where
  "assertPositiveInteger allowZero v =
     (case v of
        JNum (Integer n) \<Rightarrow>
          if is_safe_integer (Integer n) \<and> (if allowZero then 0 else 1) \<le> n then None
          else Some (controlError ''invalid_sequence'')
      | _ \<Rightarrow> Some (controlError ''invalid_sequence''))"

fun assertSafeControlPayload :: "json \<Rightarrow> failure option" where
  "assertSafeControlPayload (JStr s) =
     (if length s > 4096 then Some (controlError ''forbidden_field'')
      else if search SECRET_TEXT s then Some (controlError ''raw_secret_not_allowed'')
      else None)"
| "assertSafeControlPayload (JArr xs) =
     (if length xs > 1000 then Some (controlError ''forbidden_field'')
      else first_failure (map assertSafeControlPayload xs))"
| "assertSafeControlPayload (JObj kvs) =
     first_failure (map (\<lambda>kv. if forbidden_key (fst kv) then Some (controlError ''forbidden_field'')
                              else assertSafeControlPayload (snd kv)) kvs)"
| "assertSafeControlPayload JOther = Some (controlError ''forbidden_field'')"
| "assertSafeControlPayload _ = None"

text \<open>
  The recursion of \<open>assertOperationalMetadata\<close> first runs the whole safety check on the value it is
  given, then its own.
\<close>

function assertOperationalMetadata :: "nat \<Rightarrow> json \<Rightarrow> failure option" where
  "assertOperationalMetadata depth v =
     (case assertSafeControlPayload v of
        Some e \<Rightarrow> Some e
      | None \<Rightarrow>
          if depth > 8 then Some (controlError ''forbidden_field'')
          else (case v of
              JNum n \<Rightarrow> if is_finite_num n then None else Some (controlError ''forbidden_field'')
            | JStr s \<Rightarrow> if matches OPERATIONAL_TEXT s then None else Some (controlError ''forbidden_field'')
            | JArr xs \<Rightarrow>
                if length xs > 100 then Some (controlError ''forbidden_field'')
                else first_failure (map (assertOperationalMetadata (Suc depth)) xs)
            | JObj kvs \<Rightarrow>
                if length kvs > 100 then Some (controlError ''forbidden_field'')
                else first_failure
                  (map (\<lambda>kv. if \<not> matches METADATA_KEY (fst kv) then Some (controlError ''forbidden_field'')
                             else assertOperationalMetadata (Suc depth) (snd kv)) kvs)
            | _ \<Rightarrow> None))"
  by pat_completeness auto
termination
  by (relation "measure (\<lambda>(d, v). size v)") (use size_JArr size_JObj in auto)

declare assertOperationalMetadata.simps [simp del]

text \<open>
  \<open>validateAction\<close>. The table is a plain object, so the name of an inherited property passes the
  truthiness test and fails later, with a \<open>TypeError\<close>, when its argument lists are spread.
\<close>

definition required_failure :: "string list \<Rightarrow> (string \<times> json) list \<Rightarrow> failure option" where
  "required_failure required args =
     first_failure (map (\<lambda>k. if k \<in> fst ` set args \<or> k \<in> set OBJECT_PROTOTYPE_KEYS then None
                             else Some (controlError ''missing_field'')) required)"

definition argument_failure :: "string \<times> json \<Rightarrow> failure option" where
  "argument_failure kv =
     (if fst kv = ''probe_ids'' then
        (case snd kv of
           JArr xs \<Rightarrow>
             if length xs < 1 \<or> length xs > 100 then Some (controlError ''invalid_action'')
             else first_failure (map assertIdentifier xs)
         | _ \<Rightarrow> Some (controlError ''invalid_action''))
      else assertIdentifier (snd kv))"

definition validateAction :: "string \<Rightarrow> json \<Rightarrow> failure option" where
  "validateAction action args =
     (if map_of CONTROL_ACTION_ARGUMENTS action = None \<and> action \<notin> set OBJECT_PROTOTYPE_KEYS
      then Some (controlError ''forbidden_action'')
      else case args of
        JObj kvs \<Rightarrow>
          (case assertSafeControlPayload args of
             Some e \<Rightarrow> Some e
           | None \<Rightarrow>
               (case map_of CONTROL_ACTION_ARGUMENTS action of
                  None \<Rightarrow> Some (TypeError ''definition.required is not iterable'')
                | Some (required, optional) \<Rightarrow>
                    first_failure
                      [required_failure required kvs,
                       first_failure (map (\<lambda>kv. if fst kv \<in> set required \<union> set optional then None
                                                else Some (controlError ''unknown_field'')) kvs),
                       first_failure (map argument_failure kvs)]))
      | _ \<Rightarrow> Some (controlError ''invalid_action''))"

section \<open>Redaction\<close>

function redactControlMetadata :: "nat \<Rightarrow> json \<Rightarrow> json \<times> bool" where
  "redactControlMetadata depth v =
     (if depth > 8 then (JStr ''[redacted-depth]'', True)
      else case v of
        JStr s \<Rightarrow>
          if search SECRET_TEXT s then (JStr ''[redacted]'', True)
          else (JStr (take 512 s), length s > 512)
      | JArr xs \<Rightarrow>
          (let rs = map (redactControlMetadata (Suc depth)) (take 100 xs)
           in (JArr (map fst rs), length xs > 100 \<or> (\<exists>r\<in>set rs. snd r)))
      | JObj kvs \<Rightarrow>
          (let rs = map (\<lambda>kv. (fst kv, redactControlMetadata (Suc depth) (snd kv)))
                        (filter (\<lambda>kv. \<not> forbidden_key (fst kv)) kvs)
           in (JObj (fold (\<lambda>(k, r). put_own k (fst r)) rs []),
               (\<exists>kv\<in>set kvs. forbidden_key (fst kv)) \<or> (\<exists>r\<in>set rs. snd (snd r))))
      | JOther \<Rightarrow> (JStr ''[redacted-type]'', True)
      | _ \<Rightarrow> (v, False))"
  by pat_completeness auto
termination
proof (relation "measure (\<lambda>(d, v). size v)", goal_cases)
  case (2 depth v xs x)
  then show ?case using size_JArr [of x xs] by (auto dest: in_set_takeD)
next
  case (3 depth v kvs kv)
  then show ?case using size_JObj [of kv kvs] by auto
qed simp

declare redactControlMetadata.simps [simp del]

section \<open>What an accepted payload can contain\<close>

lemma safe_payload_keys:
  "assertSafeControlPayload v = None \<Longrightarrow> k \<in> all_keys v \<Longrightarrow> \<not> forbidden_key k"
  by (induction v rule: assertSafeControlPayload.induct)
     (fastforce simp: first_failure_map_None split: if_splits)+

lemma safe_payload_strings:
  "assertSafeControlPayload v = None \<Longrightarrow> s \<in> string_leaves v \<Longrightarrow> length s \<le> 4096 \<and> \<not> search SECRET_TEXT s"
  by (induction v rule: assertSafeControlPayload.induct)
     (fastforce simp: first_failure_map_None split: if_splits)+

lemma operational_safe: "assertOperationalMetadata d v = None \<Longrightarrow> assertSafeControlPayload v = None"
  by (subst (asm) assertOperationalMetadata.simps) (auto split: option.splits)

lemma operational_scalarD:
  "assertOperationalMetadata d (JStr s) = None \<Longrightarrow> matches OPERATIONAL_TEXT s"
  "assertOperationalMetadata d (JNum n) = None \<Longrightarrow> is_finite_num n"
  "assertOperationalMetadata d JOther = None \<Longrightarrow> False"
  "assertOperationalMetadata d v = None \<Longrightarrow> d \<le> 8"
     apply (subst (asm) assertOperationalMetadata.simps, auto split: option.splits if_splits)[1]
    apply (subst (asm) assertOperationalMetadata.simps, auto split: option.splits if_splits)[1]
   apply (subst (asm) assertOperationalMetadata.simps, simp)
  apply (subst (asm) assertOperationalMetadata.simps, auto split: option.splits if_splits)
  done

lemma operational_arrayD:
  "assertOperationalMetadata d (JArr xs) = None \<Longrightarrow>
    length xs \<le> 100 \<and> (\<forall>x\<in>set xs. assertOperationalMetadata (Suc d) x = None)"
  by (subst (asm) assertOperationalMetadata.simps)
     (auto simp: first_failure_map_None split: option.splits if_splits)

lemma operational_objectD:
  "assertOperationalMetadata d (JObj kvs) = None \<Longrightarrow>
    length kvs \<le> 100 \<and>
    (\<forall>kv\<in>set kvs. matches METADATA_KEY (fst kv) \<and> assertOperationalMetadata (Suc d) (snd kv) = None)"
  by (subst (asm) assertOperationalMetadata.simps)
     (auto simp: first_failure_map_None split: option.splits if_splits)

lemma operational_strings:
  "assertOperationalMetadata d v = None \<Longrightarrow> s \<in> string_leaves v \<Longrightarrow> matches OPERATIONAL_TEXT s"
proof (induction v arbitrary: d rule: json_induct)
  case (JArr xs)
  then show ?case by (fastforce dest: operational_arrayD)
next
  case (JObj kvs)
  then show ?case by (fastforce dest: operational_objectD)
qed (auto dest: operational_scalarD)

lemma nesting_le:
  "nesting (JArr xs) \<le> n \<longleftrightarrow> (\<forall>x\<in>set xs. Suc (nesting x) \<le> n)"
  "nesting (JObj kvs) \<le> n \<longleftrightarrow> (\<forall>kv\<in>set kvs. Suc (nesting (snd kv)) \<le> n)"
  by auto

lemma operational_nesting: "assertOperationalMetadata d v = None \<Longrightarrow> d + nesting v \<le> 8"
proof (induction v arbitrary: d rule: json_induct)
  case (JArr xs)
  have "Suc (nesting x) \<le> 8 - d" if "x \<in> set xs" for x
    using that JArr.IH [of x "Suc d"] JArr.prems by (fastforce dest: operational_arrayD)
  then have "nesting (JArr xs) \<le> 8 - d" unfolding nesting_le by blast
  then show ?case using operational_scalarD(4) [OF JArr.prems] by (simp del: nesting.simps)
next
  case (JObj kvs)
  have "Suc (nesting (snd kv)) \<le> 8 - d" if "kv \<in> set kvs" for kv
    using that JObj.IH [of kv "Suc d"] JObj.prems by (fastforce dest: operational_objectD)
  then have "nesting (JObj kvs) \<le> 8 - d" unfolding nesting_le by blast
  then show ?case using operational_scalarD(4) [OF JObj.prems] by (simp del: nesting.simps)
qed (auto dest: operational_scalarD)

lemma matches_METADATA_KEY_proto: "matches METADATA_KEY k \<Longrightarrow> k \<noteq> ''__proto__''"
  unfolding matches_iff METADATA_KEY_def lang_Sq_Cls by (auto simp: is_lower_def code_of_def)

lemma lang_ref_prefix: "s \<in> lang ref_prefix \<longleftrightarrow> s \<in> {''ref:'', ''id:'', ''hint:''}"
proof -
  have "s \<in> lang ref_prefix \<longleftrightarrow>
      (\<exists>u v. s = u @ v \<and> (u = ''ref'' \<or> u = ''id'' \<or> u = ''hint'') \<and> v = '':'')"
    unfolding ref_prefix_def lang.simps(5) mem_Collect_eq alts.simps lang.simps(4) lang.simps(1) Un_iff lang_literal
    by blast
  then show ?thesis by auto
qed

lemma operational_text_length: "matches OPERATIONAL_TEXT s \<Longrightarrow> length s \<le> 512"
proof -
  assume "matches OPERATIONAL_TEXT s"
  then consider "s \<in> lang REFERENCE" | "s \<in> lang DIGEST" | "matches IDENTIFIER s"
    unfolding matches_iff OPERATIONAL_TEXT_def alts.simps lang.simps(1,4) by blast
  then show ?thesis
  proof cases
    case 1
    then obtain u v where "s = u @ v" "u \<in> lang ref_prefix" "v \<in> lang IDENTIFIER"
      unfolding REFERENCE_def lang.simps(5) by blast
    then show ?thesis using matches_IDENTIFIER [of v] by (auto simp: lang_ref_prefix matches_iff)
  next
    case 2
    then obtain u v where "s = u @ v" "u \<in> lang (literal ''sha256:'')" "v \<in> lang (Rep (Cls is_lower_hex) 64 (Some 64))"
      unfolding DIGEST_def lang.simps(5) by blast
    then show ?thesis unfolding lang_literal lang_Rep_Cls by simp
  next
    case 3
    then show ?thesis by (simp add: matches_IDENTIFIER)
  qed
qed


section \<open>Redaction\<close>

lemma fold_put_own:
  "fold (\<lambda>p. put_own (fst p) (fst (snd p))) rs acc =
    acc @ map (\<lambda>p. (fst p, fst (snd p))) (filter (\<lambda>p. fst p \<noteq> ''__proto__'') rs)"
  by (induction rs arbitrary: acc) (auto simp: put_own_def)

lemma redaction_marks_safe:
  "\<not> search SECRET_TEXT ''[redacted]''" "\<not> search SECRET_TEXT ''[redacted-depth]''"
  "\<not> search SECRET_TEXT ''[redacted-type]''"
  by code_simp+

lemma redact_string:
  "redactControlMetadata d (JStr s) =
    (if d > 8 then (JStr ''[redacted-depth]'', True)
     else if search SECRET_TEXT s then (JStr ''[redacted]'', True)
     else (JStr (take 512 s), length s > 512))"
  by (subst redactControlMetadata.simps) simp

lemma redact_array:
  "redactControlMetadata d (JArr xs) =
    (if d > 8 then (JStr ''[redacted-depth]'', True)
     else (JArr (map (\<lambda>x. fst (redactControlMetadata (Suc d) x)) (take 100 xs)),
           length xs > 100 \<or> (\<exists>x\<in>set (take 100 xs). snd (redactControlMetadata (Suc d) x))))"
  by (subst redactControlMetadata.simps) (simp add: Let_def o_def)

lemma redact_object:
  "redactControlMetadata d (JObj kvs) =
    (if d > 8 then (JStr ''[redacted-depth]'', True)
     else (JObj (map (\<lambda>kv. (fst kv, fst (redactControlMetadata (Suc d) (snd kv))))
                  (filter (\<lambda>kv. fst kv \<noteq> ''__proto__'' \<and> \<not> forbidden_key (fst kv)) kvs)),
           (\<exists>kv\<in>set kvs. forbidden_key (fst kv)) \<or>
           (\<exists>kv\<in>set (filter (\<lambda>kv. \<not> forbidden_key (fst kv)) kvs). snd (redactControlMetadata (Suc d) (snd kv)))))"
  by (subst redactControlMetadata.simps)
     (auto simp: Let_def fold_put_own filter_map o_def case_prod_unfold intro!: arg_cong [where f = "map _"] filter_cong)

lemma redact_scalar:
  "redactControlMetadata d JNull = (if d > 8 then (JStr ''[redacted-depth]'', True) else (JNull, False))"
  "redactControlMetadata d JUndefined = (if d > 8 then (JStr ''[redacted-depth]'', True) else (JUndefined, False))"
  "redactControlMetadata d (JBool b) = (if d > 8 then (JStr ''[redacted-depth]'', True) else (JBool b, False))"
  "redactControlMetadata d (JNum n) = (if d > 8 then (JStr ''[redacted-depth]'', True) else (JNum n, False))"
  "redactControlMetadata d JOther =
    (if d > 8 then (JStr ''[redacted-depth]'', True) else (JStr ''[redacted-type]'', True))"
  by (subst redactControlMetadata.simps; simp)+

lemmas redact_simps = redact_string redact_array redact_object redact_scalar

text \<open>
  Whatever it is given, \<open>redactControlMetadata\<close> returns a value that the control-plane safety
  check accepts: no forbidden key and no secret text is left at any depth, and the text and item
  limits hold.
\<close>

theorem redaction_yields_safe_metadata:
  "assertSafeControlPayload (fst (redactControlMetadata depth v)) = None"
proof (induction v arbitrary: depth rule: json_induct)
  case (JStr s)
  show ?case using redaction_marks_safe search_take [of SECRET_TEXT 512 s] by (auto simp: redact_simps)
next
  case (JArr xs)
  then show ?case using redaction_marks_safe
    by (auto simp: redact_simps first_failure_map_None dest: in_set_takeD)
next
  case (JObj kvs)
  then show ?case using redaction_marks_safe by (auto simp: redact_simps first_failure_map_None)
qed (simp_all add: redact_simps redaction_marks_safe)

lemma map_fst_snd_same: "(\<And>kv. kv \<in> set kvs \<Longrightarrow> f (snd kv) = snd kv) \<Longrightarrow> map (\<lambda>kv. (fst kv, f (snd kv))) kvs = kvs"
  by (induction kvs) auto

text \<open>
  On metadata that \<open>assertOperationalMetadata\<close> accepts, at the same depth, redaction is the
  identity and reports that nothing was removed: the two depth, width, text and key rules agree.
\<close>

theorem accepted_metadata_is_not_redacted:
  "assertOperationalMetadata depth v = None \<Longrightarrow> redactControlMetadata depth v = (v, False)"
proof (induction v arbitrary: depth rule: json_induct)
  case (JStr s)
  have "\<not> search SECRET_TEXT s" using safe_payload_strings [OF operational_safe [OF JStr]] by simp
  moreover have "length s \<le> 512" using operational_text_length operational_scalarD(1) [OF JStr] by blast
  ultimately show ?case using operational_scalarD(4) [OF JStr] by (simp add: redact_simps)
next
  case (JArr xs)
  then have "redactControlMetadata (Suc depth) x = (x, False)" if "x \<in> set xs" for x
    using that by (fastforce dest: operational_arrayD)
  then show ?case using operational_scalarD(4) [OF JArr.prems] operational_arrayD [OF JArr.prems]
    by (simp add: redact_simps map_idI)
next
  case (JObj kvs)
  from operational_objectD [OF JObj.prems] JObj.IH
  have ih: "redactControlMetadata (Suc depth) (snd kv) = (snd kv, False)" if "kv \<in> set kvs" for kv
    using that by blast
  have keys: "\<not> forbidden_key (fst kv) \<and> fst kv \<noteq> ''__proto__''" if "kv \<in> set kvs" for kv
    using that safe_payload_keys [OF operational_safe [OF JObj.prems]] operational_objectD [OF JObj.prems]
      matches_METADATA_KEY_proto by auto
  then have "filter (\<lambda>kv. fst kv \<noteq> ''__proto__'' \<and> \<not> forbidden_key (fst kv)) kvs = kvs"
    by (simp add: filter_id_conv)
  moreover have "map (\<lambda>kv. (fst kv, fst (redactControlMetadata (Suc depth) (snd kv)))) kvs = kvs"
    by (rule map_fst_snd_same) (simp add: ih)
  ultimately show ?case using operational_scalarD(4) [OF JObj.prems] ih keys
    by (auto simp: redact_simps)
qed (auto simp: redact_simps dest: operational_scalarD)

theorem accepted_metadata_is_not_redacted_witness:
  "redactControlMetadata 0 (JObj [(''a'', JStr ''ref:abc''), (''b'', JArr [JNum (Integer 3)])]) =
     (JObj [(''a'', JStr ''ref:abc''), (''b'', JArr [JNum (Integer 3)])], False)"
  by (rule accepted_metadata_is_not_redacted) code_simp

text \<open>
  Accepted operational metadata carries no forbidden key, at any depth; every string in it is an
  identifier, a digest or an opaque reference without secret text; and it nests at most eight levels.
\<close>

theorem operational_metadata_is_clean:
  assumes "assertOperationalMetadata 0 v = None"
  shows "(\<forall>k\<in>all_keys v. \<not> forbidden_key k) \<and>
    (\<forall>s\<in>string_leaves v. matches OPERATIONAL_TEXT s \<and> \<not> search SECRET_TEXT s) \<and> nesting v \<le> 8"
  using assms safe_payload_keys [OF operational_safe] safe_payload_strings [OF operational_safe]
    operational_strings operational_nesting [of 0 v] by auto

theorem operational_metadata_is_clean_witness:
  "\<not> forbidden_key ''region'' \<and> matches OPERATIONAL_TEXT ''eu-1'' \<and> \<not> search SECRET_TEXT ''eu-1'' \<and>
    nesting (JObj [(''region'', JStr ''eu-1'')]) \<le> 8"
proof -
  have "assertOperationalMetadata 0 (JObj [(''region'', JStr ''eu-1'')]) = None" by code_simp
  from operational_metadata_is_clean [OF this] show ?thesis by simp
qed

section \<open>Control actions\<close>

lemma table_required_not_inherited:
  "map_of CONTROL_ACTION_ARGUMENTS a = Some (req, opt) \<Longrightarrow> k \<in> set req \<Longrightarrow> k \<notin> set OBJECT_PROTOTYPE_KEYS"
proof -
  have "\<forall>(a, req, opt)\<in>set CONTROL_ACTION_ARGUMENTS. \<forall>k\<in>set req. k \<notin> set OBJECT_PROTOTYPE_KEYS"
    by code_simp
  then show "map_of CONTROL_ACTION_ARGUMENTS a = Some (req, opt) \<Longrightarrow> k \<in> set req \<Longrightarrow> ?thesis"
    by (fastforce dest: map_of_SomeD)
qed

lemma check_pattern_None: "check_pattern r c v = None \<longleftrightarrow> (\<exists>s. v = JStr s \<and> matches r s)"
  by (auto simp: check_pattern_def split: json.splits)

lemma required_failure_None:
  "required_failure req kvs = None \<longleftrightarrow> (\<forall>k\<in>set req. k \<in> fst ` set kvs \<or> k \<in> set OBJECT_PROTOTYPE_KEYS)"
  unfolding required_failure_def first_failure_map_None by auto

lemma argument_failure_None:
  "argument_failure (k, v) = None \<longleftrightarrow>
    (if k = ''probe_ids'' then \<exists>xs. v = JArr xs \<and> 1 \<le> length xs \<and> length xs \<le> 100 \<and>
        (\<forall>x\<in>set xs. \<exists>s. x = JStr s \<and> matches IDENTIFIER s)
     else \<exists>s. v = JStr s \<and> matches IDENTIFIER s)"
  by (auto simp: argument_failure_def assertIdentifier_def first_failure_map_None check_pattern_None
      Suc_le_eq split: json.splits)

text \<open>
  \<open>validateAction\<close> accepts exactly the actions of the closed table whose arguments are an object
  that passes the safety check, holds every required argument, holds no argument that is neither
  required nor optional, and gives each argument as an identifier (\<open>probe_ids\<close> as a list of 1 to 100
  identifiers). In particular no action outside the table is accepted, whatever its arguments.
\<close>

theorem validateAction_accepts_iff:
  "validateAction action args = None \<longleftrightarrow>
    (\<exists>kvs req opt. args = JObj kvs \<and> map_of CONTROL_ACTION_ARGUMENTS action = Some (req, opt) \<and>
       assertSafeControlPayload args = None \<and>
       set req \<subseteq> fst ` set kvs \<and> fst ` set kvs \<subseteq> set req \<union> set opt \<and>
       (\<forall>(k, v)\<in>set kvs.
          if k = ''probe_ids'' then \<exists>xs. v = JArr xs \<and> 1 \<le> length xs \<and> length xs \<le> 100 \<and>
             (\<forall>x\<in>set xs. \<exists>s. x = JStr s \<and> matches IDENTIFIER s)
          else \<exists>s. v = JStr s \<and> matches IDENTIFIER s))"
    (is "_ = ?accepts")
proof (cases "\<exists>kvs. args = JObj kvs")
  case False
  then show ?thesis by (auto simp: validateAction_def split: json.splits)
next
  case True
  then obtain kvs where args: "args = JObj kvs" ..
  show ?thesis
  proof (cases "map_of CONTROL_ACTION_ARGUMENTS action")
    case None
    then show ?thesis using args by (auto simp: validateAction_def split: option.splits)
  next
    case (Some ro)
    obtain req opt where ro: "ro = (req, opt)" by force
    have "validateAction action args = None \<longleftrightarrow> assertSafeControlPayload args = None \<and>
        required_failure req kvs = None \<and> fst ` set kvs \<subseteq> set req \<union> set opt \<and>
        (\<forall>kv\<in>set kvs. argument_failure kv = None)"
      using args Some ro
      by (auto simp: validateAction_def first_failure_None split: option.splits if_splits
          simp del: assertSafeControlPayload.simps)
    moreover have "required_failure req kvs = None \<longleftrightarrow> set req \<subseteq> fst ` set kvs"
      using table_required_not_inherited Some ro unfolding required_failure_None by blast
    moreover have "(\<forall>kv\<in>set kvs. argument_failure kv = None) \<longleftrightarrow>
        (\<forall>(k, v)\<in>set kvs. argument_failure (k, v) = None)" by auto
    ultimately show ?thesis
      using args Some ro by (simp add: argument_failure_None del: assertSafeControlPayload.simps)
  qed
qed

theorem validateAction_accepts_iff_witness:
  "validateAction ''probe.run'' (JObj [(''probe_ids'', JArr [JStr ''p-1''])]) = None \<and>
    validateAction ''probe.run'' (JObj [(''probe_ids'', JArr [])]) \<noteq> None"
proof
  let ?args = "\<lambda>xs. JObj [(''probe_ids'', JArr xs)]"
  have "assertSafeControlPayload (?args [JStr ''p-1'']) = None" by code_simp
  moreover have "matches IDENTIFIER ''p-1''" by code_simp
  ultimately show "validateAction ''probe.run'' (?args [JStr ''p-1'']) = None"
    by (subst validateAction_accepts_iff) (simp add: CONTROL_ACTION_ARGUMENTS_def)
  show "validateAction ''probe.run'' (?args []) \<noteq> None"
    by (subst validateAction_accepts_iff) simp
qed

end
