(* ===== verification/Js_Text.thy ===== *)
theory Js_Text
  imports Js_Value "HOL-Library.Sublist"
begin

text \<open>
  JavaScript idioms on text and on lists of distinct values: \<open>new Set\<close>, \<open>join\<close>, \<open>startsWith\<close>,
  \<open>replace\<close> with a character class, decimal numerals and the quoting of \<open>JSON.stringify\<close>, with the
  facts about lengths and characters that the components need.
\<close>

section \<open>Distinct values in order of first appearance\<close>

text \<open>\<open>[...new Set(xs)]\<close>.\<close>

definition uniq :: "'a list \<Rightarrow> 'a list" where
  "uniq xs = rev (remdups (rev xs))"

lemma uniq_simps [simp]: "set (uniq xs) = set xs" "distinct (uniq xs)" "uniq [] = []"
  by (simp_all add: uniq_def)

lemma length_uniq: "length (uniq xs) \<le> length xs"
  by (simp add: uniq_def) (metis length_remdups_leq length_rev)

lemma uniq_distinct: "distinct xs \<Longrightarrow> uniq xs = xs"
  by (simp add: uniq_def distinct_remdups_id)

section \<open>Joining and searching\<close>

fun join :: "string \<Rightarrow> string list \<Rightarrow> string" where
  "join sep [] = []"
| "join sep [x] = x"
| "join sep (x # y # ys) = x @ sep @ join sep (y # ys)"

lemma join_append:
  "xs \<noteq> [] \<Longrightarrow> ys \<noteq> [] \<Longrightarrow> join sep (xs @ ys) = join sep xs @ sep @ join sep ys"
proof (induction xs)
  case (Cons x xs)
  then show ?case by (cases xs; cases ys) simp_all
qed simp

lemma length_join:
  "length (join sep xs) = sum_list (map length xs) + length sep * (length xs - 1)"
  by (induction sep xs rule: join.induct) auto

lemma set_join: "set (join sep xs) \<subseteq> set sep \<union> (\<Union>x\<in>set xs. set x)"
  by (induction sep xs rule: join.induct) auto

text \<open>\<open>s.split(c)\<close> for a single character.\<close>

fun split_on :: "char \<Rightarrow> string \<Rightarrow> string list" where
  "split_on c [] = [[]]"
| "split_on c (d # ds) =
     (if d = c then [] # split_on c ds
      else (case split_on c ds of [] \<Rightarrow> [[d]] | w # ws \<Rightarrow> (d # w) # ws))"

lemma split_on_not_Nil [simp]: "split_on c s \<noteq> []"
  by (induction s) (auto split: list.splits)

lemma split_on_plain: "c \<notin> set w \<Longrightarrow> split_on c w = [w]"
  by (induction w) auto

lemma split_on_sep: "c \<notin> set w \<Longrightarrow> split_on c (w @ c # s) = w # split_on c s"
  by (induction w) auto

definition starts_with :: "string \<Rightarrow> string \<Rightarrow> bool" where
  "starts_with w s \<longleftrightarrow> prefix w s"

lemma starts_with_code [code]: "starts_with w s \<longleftrightarrow> take (length w) s = w"
  by (auto simp: starts_with_def prefix_def) (metis append_take_drop_id)

text \<open>\<open>s.replace(/[...]+/g, w)\<close> for a class of characters.\<close>

fun replace_runs :: "(char \<Rightarrow> bool) \<Rightarrow> string \<Rightarrow> string \<Rightarrow> string" where
  "replace_runs p w [] = []"
| "replace_runs p w (c # cs) =
     (if p c then (case cs of [] \<Rightarrow> w | d # _ \<Rightarrow> if p d then replace_runs p w cs else w @ replace_runs p w cs)
      else c # replace_runs p w cs)"

lemma set_replace_runs: "set (replace_runs p w s) \<subseteq> {c \<in> set s. \<not> p c} \<union> set w"
proof (induction s)
  case (Cons c cs)
  then show ?case by (cases cs) auto
qed simp

text \<open>\<open>s.replaceAll(c, "")\<close> for a single character, and \<open>s.replaceAll("\r\n", "\n")\<close>.\<close>

definition without :: "char \<Rightarrow> string \<Rightarrow> string" where
  "without c s = filter (\<lambda>d. d \<noteq> c) s"

abbreviation LF :: char where "LF \<equiv> CHR 0x0A"
abbreviation CR :: char where "CR \<equiv> CHR 0x0D"

fun unix_lines :: "string \<Rightarrow> string" where
  "unix_lines [] = []"
| "unix_lines (c # cs) =
     (if c = CR \<and> cs \<noteq> [] \<and> hd cs = LF then unix_lines cs else c # unix_lines cs)"

lemma set_unix_lines: "set (unix_lines s) \<subseteq> set s"
  by (induction s) auto

text \<open>\<open>\r?\n\<close> and \<open>\r?\n+\<close> at the start of a text, with what follows.\<close>

fun eol :: "string \<Rightarrow> string option" where
  "eol [] = None"
| "eol (c # cs) =
     (if c = LF then Some cs
      else if c = CR then (case cs of [] \<Rightarrow> None | d # ds \<Rightarrow> if d = LF then Some ds else None)
      else None)"

definition eols :: "string \<Rightarrow> string option" where
  "eols s = map_option (dropWhile (\<lambda>c. c = LF)) (eol s)"

definition expect :: "string \<Rightarrow> string \<Rightarrow> string option" where
  "expect w s = (if take (length w) s = w then Some (drop (length w) s) else None)"

lemma expect_append [simp]: "expect w (w @ s) = Some s"
  by (simp add: expect_def)

lemma expect_Some: "expect w s = Some r \<longleftrightarrow> s = w @ r"
  by (auto simp: expect_def) (metis append_take_drop_id)

section \<open>Trimming\<close>

lemma dropWhile_id: "(s \<noteq> [] \<Longrightarrow> \<not> p (hd s)) \<Longrightarrow> dropWhile p s = s"
  by (cases s) auto

lemma trim_Nil: "trim s = [] \<longleftrightarrow> (\<forall>c\<in>set s. is_space c)"
proof
  assume "trim s = []"
  then have "\<forall>c\<in>set (dropWhile is_space s). is_space c" by (simp add: trim_def dropWhile_eq_Nil_conv)
  then have "dropWhile is_space s = []" by (metis hd_dropWhile hd_in_set)
  then show "\<forall>c\<in>set s. is_space c" by (simp add: dropWhile_eq_Nil_conv)
next
  assume "\<forall>c\<in>set s. is_space c"
  then have none: "dropWhile is_space s = []" by (metis dropWhile_eq_Nil_conv)
  show "trim s = []" unfolding trim_def none by simp
qed

lemma trim_ends:
  assumes "trim s \<noteq> []"
  shows "\<not> is_space (hd (trim s)) \<and> \<not> is_space (last (trim s))"
proof -
  define t where "t = dropWhile is_space s"
  have t: "trim s = rev (dropWhile is_space (rev t))" by (simp add: trim_def t_def)
  then have ne: "dropWhile is_space (rev t) \<noteq> []" using assms by simp
  have last: "\<not> is_space (last (trim s))" using hd_dropWhile [OF ne] t by (simp add: last_rev)
  obtain u where "rev t = u @ dropWhile is_space (rev t)" by (metis takeWhile_dropWhile_id)
  then have "t = trim s @ rev u" using t by (metis rev_append rev_rev_ident)
  then have "hd (trim s) = hd t" and "t \<noteq> []" using assms by (auto simp: hd_append)
  then have "\<not> is_space (hd (trim s))" using hd_dropWhile [of is_space s] by (simp add: t_def)
  with last show ?thesis by simp
qed

lemma trim_id: "s \<noteq> [] \<Longrightarrow> \<not> is_space (hd s) \<Longrightarrow> \<not> is_space (last s) \<Longrightarrow> trim s = s"
  by (simp add: trim_def dropWhile_id hd_rev)

lemma trim_trim [simp]: "trim (trim s) = trim s"
proof (cases "trim s = []")
  case True
  show ?thesis unfolding True by (simp add: trim_def)
next
  case False
  then show ?thesis using trim_ends trim_id by blast
qed

lemma trim_spaces_right: "(\<And>c. c \<in> set w \<Longrightarrow> is_space c) \<Longrightarrow> trim (trim s @ w) = trim s"
proof (cases "trim s = []")
  case True
  assume "\<And>c. c \<in> set w \<Longrightarrow> is_space c"
  then have "trim w = []" by (simp add: trim_Nil)
  then show ?thesis using True by simp
next
  case False
  assume w: "\<And>c. c \<in> set w \<Longrightarrow> is_space c"
  have "dropWhile is_space (trim s @ w) = trim s @ w"
    using False trim_ends [OF False] by (intro dropWhile_id) (auto simp: hd_append)
  moreover have "dropWhile is_space (rev w @ rev (trim s)) = rev (trim s)"
    using w False trim_ends [OF False] by (subst dropWhile_append2) (auto simp: hd_rev intro: dropWhile_id)
  ultimately show ?thesis by (simp add: trim_def [of "trim s @ w"])
qed

lemma length_trim: "length (trim s) \<le> length s"
  by (simp add: trim_def) (metis dual_order.trans length_dropWhile_le length_rev)

lemma set_trim: "set (trim s) \<subseteq> set s"
  unfolding trim_def by (metis set_dropWhileD set_rev subsetI)

section \<open>Properties of values and failures\<close>

text \<open>\<open>error?.code\<close> and \<open>v.k\<close> for an own property.\<close>

definition failure_code :: "failure \<Rightarrow> string option" where
  "failure_code err = (case err of CodedError c _ \<Rightarrow> Some c | _ \<Rightarrow> None)"

definition prop_of :: "string \<Rightarrow> json \<Rightarrow> json option" where
  "prop_of k v = (case v of JObj kvs \<Rightarrow> map_of kvs k | _ \<Rightarrow> None)"

text \<open>An absent property is \<open>undefined\<close>.\<close>

definition at :: "json \<Rightarrow> string \<Rightarrow> json" where
  "at v k = (case prop_of k v of Some x \<Rightarrow> x | None \<Rightarrow> JUndefined)"

text \<open>The truth value of a JavaScript value.\<close>

definition truthy :: "json \<Rightarrow> bool" where
  "truthy v \<longleftrightarrow> v \<notin> {JNull, JUndefined, JBool False, JNum (Integer 0), JNum NaN, JStr []}"

definition text_of :: "json option \<Rightarrow> string option" where
  "text_of v = (case v of Some (JStr s) \<Rightarrow> Some s | _ \<Rightarrow> None)"

section \<open>Numerals and quoted strings\<close>

fun digit_char :: "nat \<Rightarrow> char" where
  "digit_char n = (if n < 10 then char_of (48 + n) else char_of (87 + n))"

fun decimal :: "nat \<Rightarrow> string" where
  "decimal n = (if n < 10 then [digit_char n] else decimal (n div 10) @ [digit_char (n mod 10)])"

declare decimal.simps [simp del]

definition show_int :: "int \<Rightarrow> string" where
  "show_int i = (if i < 0 then ''-'' @ decimal (nat (- i)) else decimal (nat i))"

lemma digit_char_chars: "n < 10 \<Longrightarrow> is_digit (digit_char n)"
  by (simp add: is_digit_def code_of_def)

lemma decimal_digits: "c \<in> set (decimal n) \<Longrightarrow> is_digit c"
proof (induction n rule: decimal.induct)
  case (1 n)
  then show ?case
    by (subst (asm) decimal.simps) (auto simp: digit_char_chars simp del: digit_char.simps split: if_splits)
qed

lemma decimal_not_empty [simp]: "decimal n \<noteq> []"
  by (subst decimal.simps) simp

definition quote_char :: "char \<Rightarrow> string" where
  "quote_char c =
     (let n = code_of c in
      if n = 34 then [CHR 0x5C, CHR 0x22] else if n = 92 then [CHR 0x5C, CHR 0x5C]
      else if n = 8 then [CHR 0x5C, CHR ''b''] else if n = 12 then [CHR 0x5C, CHR ''f'']
      else if n = 10 then [CHR 0x5C, CHR ''n''] else if n = 13 then [CHR 0x5C, CHR ''r'']
      else if n = 9 then [CHR 0x5C, CHR ''t'']
      else if n < 32 then CHR 0x5C # ''u00'' @ [digit_char (n div 16), digit_char (n mod 16)]
      else [c])"

text \<open>\<open>JSON.stringify\<close> of a string.\<close>

definition json_quote :: "string \<Rightarrow> string" where
  "json_quote s = CHR 0x22 # concat (map quote_char s) @ [CHR 0x22]"

lemma digit_char_code: "n < 16 \<Longrightarrow> 48 \<le> code_of (digit_char n)"
  by (simp add: code_of_def)

lemma quote_char_plain:
  assumes "c \<in> set (quote_char d)"
  shows "c \<noteq> LF \<and> c \<noteq> CR"
proof -
  have "code_of d div 16 < 16" by (simp add: code_of_def less_mult_imp_div_less)
  then have "48 \<le> code_of (digit_char (code_of d div 16))" "48 \<le> code_of (digit_char (code_of d mod 16))"
    by (rule digit_char_code, intro digit_char_code) simp
  then have "code_of c \<noteq> 10 \<and> code_of c \<noteq> 13"
    using assms by (auto simp: quote_char_def Let_def code_of_def simp del: digit_char.simps split: if_splits)
  then show ?thesis by (auto simp: code_of_def)
qed

lemma json_quote_plain: "c \<in> set (json_quote s) \<Longrightarrow> c \<noteq> LF \<and> c \<noteq> CR"
  using quote_char_plain by (auto simp: json_quote_def)

end
