(* ===== verification/Control_Service.thy ===== *)
theory Control_Service
  imports Control_Policy Js_Text
begin

text \<open>
  The control-authority service, \<open>packages/control-authority/service.mjs\<close>: every operation validates its
  input document, normalizes the signed envelope around it and hands one request to the repository. The
  model returns that request, or the error of the first check that fails, in the order of the code.

  Outside the repository are the validators of \<open>@bairui/contracts\<close>, functions that return the document or
  throw, and the conversion of dates.
\<close>

section \<open>Reading documents\<close>

text \<open>Reading a property of \<open>null\<close> or \<open>undefined\<close> throws.\<close>

definition nullish :: "json \<Rightarrow> bool" where
  "nullish v \<longleftrightarrow> v = JNull \<or> v = JUndefined"

definition readable :: "json \<Rightarrow> failure option" where
  "readable v = (if nullish v then Some (TypeError ''property of null'') else None)"

text \<open>\<open>v ?? d\<close>.\<close>

definition default :: "json \<Rightarrow> json \<Rightarrow> json" where
  "default v d = (if nullish v then d else v)"

definition is_one_of :: "string list \<Rightarrow> json \<Rightarrow> bool" where
  "is_one_of ws v \<longleftrightarrow> (case v of JStr s \<Rightarrow> s \<in> set ws | _ \<Rightarrow> False)"

definition bad_when :: "bool \<Rightarrow> string \<Rightarrow> failure option" where
  "bad_when b code = (if b then Some (controlError code) else None)"

text \<open>\<open>Date.parse\<close> and \<open>toISOString\<close>.\<close>

record dates =
  parse_date :: "string \<Rightarrow> instant option"
  iso_date :: "instant \<Rightarrow> string"

definition instant_of :: "dates \<Rightarrow> json \<Rightarrow> instant option" where
  "instant_of dt v = (case v of JStr s \<Rightarrow> parse_date dt s | _ \<Rightarrow> None)"

definition assertTimestamp :: "dates \<Rightarrow> json \<Rightarrow> failure option" where
  "assertTimestamp dt v = bad_when (instant_of dt v = None) ''invalid_timestamp''"

definition iso_of :: "dates \<Rightarrow> json \<Rightarrow> json" where
  "iso_of dt v = (case instant_of dt v of Some t \<Rightarrow> JStr (iso_date dt t) | None \<Rightarrow> JUndefined)"

text \<open>The first check that fails, or the request that is made when none does.\<close>

definition when_ok :: "failure option list \<Rightarrow> json \<Rightarrow> failure + json" where
  "when_ok checks request = (case first_failure checks of Some err \<Rightarrow> Inl err | None \<Rightarrow> Inr request)"

lemma when_ok_Inr: "when_ok checks request = Inr r \<longleftrightarrow> r = request \<and> (\<forall>c\<in>set checks. c = None)"
  using first_failure_None [of checks] by (cases "first_failure checks") (auto simp: when_ok_def)

lemma bad_when_None: "bad_when b code = None \<longleftrightarrow> \<not> b"
  by (simp add: bad_when_def)

section \<open>Shared checks\<close>

definition COMMON_FIELDS :: "string list" where
  "COMMON_FIELDS = [''schema_version'', ''organization_id'', ''user_id'', ''agent_id'', ''server_id'', ''request_id'',
     ''correlation_id'', ''idempotency_key'', ''created_at'', ''revision'', ''sequence'']"

definition assertOnlyFields :: "string list \<Rightarrow> json \<Rightarrow> failure option" where
  "assertOnlyFields allowed v =
     (case v of JObj kvs \<Rightarrow> bad_when (\<not> fst ` set kvs \<subseteq> set allowed) ''unknown_field''
      | _ \<Rightarrow> Some (controlError ''invalid_schema''))"

definition signature_check :: "dates \<Rightarrow> json \<Rightarrow> failure option" where
  "signature_check dt v =
     (let s = at v ''signature''
      in if \<not> truthy s \<or> \<not> is_one_of [''ed25519'', ''hmac-sha256''] (at s ''algorithm'') \<or>
            (case at s ''value'' of JStr t \<Rightarrow> length t < 16 | _ \<Rightarrow> True)
         then Some (controlError ''invalid_signature'')
         else first_failure
           [assertIdentifier (at s ''key_id''), assertTimestamp dt (at s ''signed_at''),
            bad_when (case (instant_of dt (iso_of dt (at s ''signed_at'')), instant_of dt (iso_of dt (at v ''created_at''))) of
                (Some signed, Some created) \<Rightarrow> signed < created | _ \<Rightarrow> False) ''invalid_signature''])"

definition envelope_checks :: "dates \<Rightarrow> json \<Rightarrow> failure option list" where
  "envelope_checks dt v =
     [bad_when (at v ''schema_version'' \<noteq> JStr ''1.0'') ''unsupported_schema_version'',
      assertTimestamp dt (at v ''created_at''), signature_check dt v,
      assertIdentifier (at v ''organization_id''), assertIdentifier (at v ''user_id''), assertIdentifier (at v ''agent_id''),
      assertIdentifier (at v ''server_id''), assertIdentifier (at v ''request_id''), assertIdentifier (at v ''correlation_id''),
      assertIdentifier (at v ''idempotency_key''), assertPositiveInteger False (at v ''revision''),
      assertPositiveInteger False (at v ''sequence'')]"

definition envelope_fields :: "dates \<Rightarrow> json \<Rightarrow> (string \<times> json) list" where
  "envelope_fields dt v =
     [(''schemaVersion'', at v ''schema_version''), (''organizationId'', at v ''organization_id''),
      (''userId'', at v ''user_id''), (''agentId'', at v ''agent_id''), (''serverId'', at v ''server_id''),
      (''requestId'', at v ''request_id''), (''correlationId'', at v ''correlation_id''),
      (''idempotencyKey'', at v ''idempotency_key''), (''createdAt'', iso_of dt (at v ''created_at'')),
      (''revision'', at v ''revision''), (''sequence'', at v ''sequence'')]"

definition normalizeEnvelope :: "dates \<Rightarrow> json \<Rightarrow> failure + json" where
  "normalizeEnvelope dt v = when_ok (envelope_checks dt v) (JObj (envelope_fields dt v))"

text \<open>
  How \<open>String(item)\<close> begins: a string is itself and an array begins like its first item. The text of any
  other value does not begin with \<open>sha256:\<close>.
\<close>

fun leading_text :: "json \<Rightarrow> string" where
  "leading_text (JStr s) = s"
| "leading_text (JArr (x # xs)) = leading_text x"
| "leading_text _ = []"

definition evidence_check :: "json \<Rightarrow> failure option" where
  "evidence_check v = (if starts_with ''sha256:'' (leading_text v) then assertDigest v else assertReference v)"

definition normalizeEvidenceRefs :: "json \<Rightarrow> failure option" where
  "normalizeEvidenceRefs v =
     (case v of
        JArr xs \<Rightarrow> if length xs > 100 \<or> \<not> distinct xs then Some (controlError ''invalid_reference'')
          else first_failure (map evidence_check xs)
      | _ \<Rightarrow> Some (controlError ''invalid_reference''))"

definition MODULE_FIELDS :: "string list" where
  "MODULE_FIELDS = [''module_id'', ''desired_status'', ''status'', ''version'', ''version_ref'', ''image_digest'',
     ''config_ref'', ''enabled'', ''readiness'', ''observed_at'', ''evidence_refs'', ''health_code'']"

definition unless_undefined :: "json \<Rightarrow> (json \<Rightarrow> failure option) \<Rightarrow> failure option" where
  "unless_undefined v check = (if v = JUndefined then None else check v)"

definition module_check :: "dates \<Rightarrow> json list \<Rightarrow> json \<Rightarrow> failure option" where
  "module_check dt seen v =
     first_failure
       [assertOnlyFields MODULE_FIELDS v, assertIdentifier (at v ''module_id''),
        bad_when (at v ''module_id'' \<in> set seen) ''invalid_schema'',
        unless_undefined (at v ''image_digest'') assertDigest, unless_undefined (at v ''version_ref'') assertReference,
        unless_undefined (at v ''config_ref'') assertReference, unless_undefined (at v ''observed_at'') (assertTimestamp dt),
        unless_undefined (at v ''evidence_refs'') normalizeEvidenceRefs, assertSafeControlPayload v]"

fun modules_check :: "dates \<Rightarrow> json list \<Rightarrow> json list \<Rightarrow> failure option" where
  "modules_check dt seen [] = None"
| "modules_check dt seen (v # vs) =
     (case module_check dt seen v of
        Some err \<Rightarrow> Some err
      | None \<Rightarrow> modules_check dt (at v ''module_id'' # seen) vs)"

definition normalizeModules :: "dates \<Rightarrow> json \<Rightarrow> failure option" where
  "normalizeModules dt v =
     (case v of JArr xs \<Rightarrow> if length xs > 100 then Some (controlError ''invalid_schema'') else modules_check dt [] xs
      | _ \<Rightarrow> Some (controlError ''invalid_schema''))"

section \<open>Approvals of a requested command\<close>

definition OWNER_FIELDS :: "string list" where
  "OWNER_FIELDS = [''organization_id'', ''user_id'', ''agent_id'', ''server_id'']"

definition approval_mismatch :: "json \<Rightarrow> json \<Rightarrow> json \<Rightarrow> bool" where
  "approval_mismatch approval envelope command \<longleftrightarrow>
     (\<exists>k\<in>set OWNER_FIELDS. at approval k \<noteq> at envelope k) \<or>
     at (at approval ''scope'') ''deployment_id'' \<noteq> at command ''deployment_id'' \<or>
     (\<exists>k\<in>set OWNER_FIELDS. at (at approval ''scope'') k \<noteq> at envelope k) \<or>
     at approval ''approval_id'' \<noteq> at command ''approval_id'' \<or> at approval ''command_id'' \<noteq> at command ''command_id'' \<or>
     at approval ''action'' \<noteq> at command ''action'' \<or> at approval ''requested_by'' \<noteq> at envelope ''user_id'' \<or>
     at approval ''decision'' \<noteq> JStr ''pending''"

definition approval_ref :: "json \<Rightarrow> json" where
  "approval_ref v = JStr (''ref:approval:'' @ (case v of JStr s \<Rightarrow> s | _ \<Rightarrow> []))"

definition normalizePendingApproval ::
  "(json \<Rightarrow> failure + json) \<Rightarrow> json \<Rightarrow> json \<Rightarrow> json \<Rightarrow> failure + json" where
  "normalizePendingApproval validate v envelope command =
     (if \<not> truthy v then Inl (controlError ''approval_required'')
      else (case validate v of
              Inl err \<Rightarrow> Inl err
            | Inr a \<Rightarrow>
                when_ok [readable a, readable (at a ''scope''), bad_when (approval_mismatch a envelope command) ''approval_not_valid'']
                  (JObj [(''id'', at a ''approval_id''), (''riskLevel'', at a ''risk_level''),
                    (''reasonCode'', default (at a ''reason_code'') (JStr ''policy_required'')),
                    (''reasonRef'', default (at a ''reason_ref'') (approval_ref (at a ''approval_id''))),
                    (''expiresAt'', at a ''expires_at''), (''createdAt'', at a ''created_at''), (''sequence'', at a ''sequence''),
                    (''idempotencyKey'', at a ''idempotency_key''), (''requestedBy'', at a ''requested_by''),
                    (''scope'', at a ''scope'')])))"

section \<open>Operations\<close>

text \<open>\<open>{ ...envelope, ...fields }\<close>; no field has the name of an envelope field.\<close>

definition request :: "dates \<Rightarrow> json \<Rightarrow> (string \<times> json) list \<Rightarrow> json" where
  "request dt v own = JObj (envelope_fields dt v @ own)"

definition validated :: "(json \<Rightarrow> failure + json) \<Rightarrow> json \<Rightarrow> (json \<Rightarrow> failure + json) \<Rightarrow> failure + json" where
  "validated validate input continue = (case validate input of Inl err \<Rightarrow> Inl err | Inr v \<Rightarrow> continue v)"

definition putDesiredState :: "dates \<Rightarrow> (json \<Rightarrow> failure + json) \<Rightarrow> json \<Rightarrow> failure + json" where
  "putDesiredState dt validate input = validated validate input (\<lambda>v.
     when_ok (readable v # envelope_checks dt v @
       [normalizeModules dt (default (at v ''modules'') (JArr [])), assertSafeControlPayload (at v ''module_versions'')])
     (request dt v
       [(''deploymentId'', at v ''deployment_id''), (''version'', at v ''version''), (''lifecycleStatus'', at v ''status''),
        (''state'', at v ''target_state''), (''configRevisionId'', default (at v ''config_revision_id'') JNull),
        (''releaseManifestId'', default (at v ''release_id'') JNull), (''backupId'', default (at v ''backup_id'') JNull),
        (''moduleVersions'', at v ''module_versions''), (''modules'', default (at v ''modules'') (JArr [])),
        (''validFrom'', default (at v ''valid_from'') (iso_of dt (at v ''created_at''))),
        (''expiresAt'', default (at v ''expires_at'') JNull), (''updatedAt'', at v ''updated_at''),
        (''createdBy'', at v ''user_id'')]))"

definition age_seconds :: "dates \<Rightarrow> json \<Rightarrow> json \<Rightarrow> json" where
  "age_seconds dt received observed =
     (case (instant_of dt received, instant_of dt observed) of
        (Some r, Some ob) \<Rightarrow> JNum (Integer (max 0 ((r - ob) div 1000)))
      | _ \<Rightarrow> JNum NaN)"

definition recordObservation :: "dates \<Rightarrow> (json \<Rightarrow> failure + json) \<Rightarrow> json \<Rightarrow> failure + json" where
  "recordObservation dt validate input = validated validate input (\<lambda>v.
     when_ok (readable v # envelope_checks dt v @ [normalizeModules dt (at v ''components'')])
     (request dt v
       [(''id'', at v ''observation_id''), (''deploymentId'', at v ''deployment_id''), (''version'', at v ''observation_version''),
        (''desiredStateVersion'', default (at v ''desired_state_version'') (JNum (Integer 0))), (''status'', at v ''status''),
        (''freshness'', at v ''freshness''), (''modules'', at v ''components''), (''summary'', JObj []),
        (''evidenceRefs'', default (at v ''evidence_refs'') (JArr [])), (''redactionStatus'', at v ''redaction_status''),
        (''observedAt'', at v ''observed_at''), (''receivedAt'', at v ''received_at''),
        (''freshnessSeconds'', default (at v ''freshness_seconds'') (age_seconds dt (at v ''received_at'') (at v ''observed_at''))),
        (''sourceIdentity'', at v ''source_identity'')]))"

definition items_of :: "json \<Rightarrow> json list" where
  "items_of v = (case v of JArr xs \<Rightarrow> xs | _ \<Rightarrow> [])"

definition name_of :: "json \<Rightarrow> string" where
  "name_of v = (case v of JStr s \<Rightarrow> s | _ \<Rightarrow> [])"

text \<open>
  The contract's validator gives \<open>command\<close> the shape the code reads: an object with an object \<open>target\<close>, a
  string \<open>action\<close> and a list \<open>secret_refs\<close>, if any.
\<close>

definition command_fields :: "json \<Rightarrow> json \<Rightarrow> (string \<times> json) list" where
  "command_fields c approval =
     [(''id'', at c ''command_id''), (''deploymentId'', at c ''deployment_id''),
      (''targetModuleId'', at (at c ''target'') ''module_id''), (''targetInstanceId'', default (at (at c ''target'') ''instance_id'') JNull),
      (''action'', at c ''action''),
      (''arguments'', if at c ''arguments'' = JUndefined then JObj [] else at c ''arguments''),
      (''expectedObservationVersion'', at c ''expected_observation_version''), (''priority'', JNum (Integer 100)),
      (''notBefore'', default (at c ''not_before'') (at c ''created_at'')), (''expiresAt'', at c ''expires_at''),
      (''approval'', approval), (''secretRefs'', default (at c ''secret_refs'') (JArr []))]"

definition requestCommand ::
  "dates \<Rightarrow> (json \<Rightarrow> failure + json) \<Rightarrow> (json \<Rightarrow> failure + json) \<Rightarrow> json \<Rightarrow> json \<Rightarrow> failure + json" where
  "requestCommand dt validate validateApproval input approval = validated validate input (\<lambda>v.
     let c = at v ''command'';
         action = name_of (at c ''action'');
         args = (if at c ''arguments'' = JUndefined then JObj [] else at c ''arguments'');
         required = action \<in> set APPROVAL_ACTIONS
     in case first_failure (readable v # envelope_checks dt v @
            [readable c, validateAction action args, bad_when (\<not> required \<and> truthy approval) ''approval_not_valid'']) of
          Some err \<Rightarrow> Inl err
        | None \<Rightarrow>
            (case (if required then normalizePendingApproval validateApproval approval v c else Inr JNull) of
               Inl err \<Rightarrow> Inl err
             | Inr pending \<Rightarrow>
                 when_ok (map assertSecretReference (items_of (default (at c ''secret_refs'') (JArr []))) @ [readable (at c ''target'')])
                   (request dt v (command_fields c pending))))"

definition decideApproval :: "dates \<Rightarrow> (json \<Rightarrow> failure + json) \<Rightarrow> json \<Rightarrow> failure + json" where
  "decideApproval dt validate input = validated validate input (\<lambda>v.
     when_ok (readable v # envelope_checks dt v @
       [bad_when (\<not> is_one_of [''approved'', ''rejected''] (at v ''decision'')) ''approval_not_valid''])
     (request dt v
       [(''approvalId'', at v ''approval_id''), (''commandId'', at v ''command_id''), (''action'', at v ''action''),
        (''decision'', at v ''decision''), (''reasonCode'', default (at v ''reason_code'') (JStr ''operator_requested'')),
        (''reasonRef'', default (at v ''reason_ref'') JNull), (''requestedBy'', at v ''requested_by''),
        (''decidedAt'', at v ''decided_at''), (''decidedBy'', at v ''decided_by''), (''scope'', at v ''scope'')]))"

definition registerReleaseManifest :: "dates \<Rightarrow> (json \<Rightarrow> failure + json) \<Rightarrow> json \<Rightarrow> failure + json" where
  "registerReleaseManifest dt validate input = validated validate input (\<lambda>v.
     when_ok (readable v # envelope_checks dt v @
       [assertSafeControlPayload (at v ''artifacts''), assertOperationalMetadata 0 (at v ''compatibility'')])
     (request dt v
       [(''id'', at v ''release_id''), (''version'', at v ''version''), (''channel'', at v ''channel''), (''status'', at v ''status''),
        (''contractsVersion'', at v ''contracts_version''), (''immutable'', JBool True), (''agentCommit'', at v ''agent_commit''),
        (''artifacts'', at v ''artifacts''), (''sbomRef'', default (at v ''sbom_ref'') JNull),
        (''provenanceRef'', default (at v ''provenance_ref'') JNull), (''attestationRef'', default (at v ''attestation_ref'') JNull),
        (''migrationRef'', default (at v ''migration_ref'') JNull), (''compatibility'', at v ''compatibility''),
        (''releaseNotesRef'', default (at v ''release_notes_ref'') JNull), (''createdBy'', at v ''user_id'')]))"

text \<open>The text a pattern is tested on; a value whose text has no lower-case letter at its start is given as empty.\<close>

fun coerced :: "json \<Rightarrow> string" where
  "coerced (JStr s) = s"
| "coerced (JBool b) = (if b then ''true'' else ''false'')"
| "coerced (JArr [v]) = coerced v"
| "coerced _ = []"

definition PURPOSE :: rexp where
  "PURPOSE = Sq (Cls is_lower) (Rep (Cls (\<lambda>c. is_lower c \<or> is_digit c \<or> one_of ''._-'' c)) 0 (Some 63))"

definition if_truthy :: "json \<Rightarrow> (json \<Rightarrow> failure option) \<Rightarrow> failure option" where
  "if_truthy v check = (if truthy v then check v else None)"

definition or_null :: "json \<Rightarrow> json" where
  "or_null v = (if truthy v then v else JNull)"

definition SECRET_FIELDS :: "string list" where
  "SECRET_FIELDS = COMMON_FIELDS @ [''signature'', ''secret_ref'', ''deployment_id'', ''purpose'', ''version'', ''state'', ''masked'',
     ''fingerprint'', ''authorized_identity'', ''last_verified_at'', ''expires_at'']"

definition masked_ok :: "json \<Rightarrow> bool" where
  "masked_ok v \<longleftrightarrow> (case v of JStr s \<Rightarrow> 4 \<le> length s \<and> length s \<le> 64 | _ \<Rightarrow> False)"

definition registerSecretReference :: "dates \<Rightarrow> json \<Rightarrow> failure + json" where
  "registerSecretReference dt v =
     when_ok (assertOnlyFields SECRET_FIELDS v # envelope_checks dt v @
       [bad_when (\<not> matches PURPOSE (coerced (at v ''purpose''))) ''invalid_schema'',
        bad_when (\<not> is_one_of [''pending'', ''active'', ''rotating'', ''revoked'', ''expired''] (at v ''state'')) ''invalid_schema'',
        bad_when (\<not> masked_ok (at v ''masked'')) ''invalid_schema'', assertDigest (at v ''fingerprint''),
        assertSecretReference (at v ''secret_ref''), if_truthy (at v ''deployment_id'') assertIdentifier,
        assertPositiveInteger False (at v ''version''), if_truthy (at v ''authorized_identity'') assertIdentifier,
        if_truthy (at v ''last_verified_at'') (assertTimestamp dt), if_truthy (at v ''expires_at'') (assertTimestamp dt)])
     (request dt v
       [(''id'', at v ''secret_ref''), (''deploymentId'', or_null (at v ''deployment_id'')), (''purpose'', at v ''purpose''),
        (''version'', at v ''version''), (''state'', at v ''state''), (''masked'', at v ''masked''),
        (''fingerprint'', at v ''fingerprint''), (''authorizedIdentity'', or_null (at v ''authorized_identity'')),
        (''lastVerifiedAt'', if truthy (at v ''last_verified_at'') then iso_of dt (at v ''last_verified_at'') else JNull),
        (''expiresAt'', if truthy (at v ''expires_at'') then iso_of dt (at v ''expires_at'') else JNull)])"

definition leaseCommands :: "dates \<Rightarrow> (json \<Rightarrow> failure + json) \<Rightarrow> json \<Rightarrow> failure + json" where
  "leaseCommands dt validate input = validated validate input (\<lambda>v.
     when_ok (readable v # envelope_checks dt v)
     (JObj [(''organizationId'', at v ''organization_id''), (''userId'', at v ''user_id''), (''agentId'', at v ''agent_id''),
        (''serverId'', at v ''server_id''), (''limit'', JNum (Integer 1)), (''leaseSeconds'', at v ''lease_seconds'')]))"

definition recordReceipt :: "dates \<Rightarrow> string list \<Rightarrow> (json \<Rightarrow> failure + json) \<Rightarrow> json \<Rightarrow> failure + json" where
  "recordReceipt dt states validate input = validated validate input (\<lambda>v.
     when_ok (readable v # envelope_checks dt v @ [bad_when (\<not> is_one_of states (at v ''state'')) ''verification_failed''])
     (request dt v
       [(''id'', at v ''receipt_id''), (''deploymentId'', at v ''deployment_id''), (''leaseId'', at v ''lease_id''),
        (''leaseToken'', at v ''lease_token''), (''commandId'', at v ''command_id''), (''attempt'', at v ''attempt''),
        (''state'', at v ''state''), (''eventSequence'', at v ''event_sequence''), (''sourceIdentity'', at v ''source_identity''),
        (''observationVersion'', default (at v ''observation_version'') JNull), (''observedAt'', at v ''observed_at''),
        (''completedAt'', default (at v ''completed_at'') JNull), (''evidenceRefs'', default (at v ''evidence_refs'') (JArr [])),
        (''resultRef'', default (at v ''result_ref'') JNull), (''endpointRef'', default (at v ''endpoint_ref'') JNull),
        (''errorCode'', default (at v ''error_code'') JNull), (''errorRef'', default (at v ''error_ref'') JNull),
        (''errorSummary'', JNull), (''resultSummary'', JObj [])]))"

definition VERIFICATION_FIELDS :: "string list" where
  "VERIFICATION_FIELDS = COMMON_FIELDS @ [''signature'', ''verification_id'', ''command_id'', ''attempt'', ''observation_id'',
     ''status'', ''checks'', ''evidence_refs'', ''verified_by'', ''completed_at'', ''max_freshness_seconds'']"

definition verifyCommand :: "dates \<Rightarrow> instant \<Rightarrow> json \<Rightarrow> failure + json" where
  "verifyCommand dt now v =
     when_ok (assertOnlyFields VERIFICATION_FIELDS v # envelope_checks dt v @
       [bad_when (\<not> is_one_of VERIFICATION_STATES (at v ''status'')) ''invalid_schema'',
        assertOperationalMetadata 0 (default (at v ''checks'') (JArr [])), assertIdentifier (at v ''verification_id''),
        assertIdentifier (at v ''command_id''), assertPositiveInteger False (at v ''attempt''),
        assertIdentifier (at v ''observation_id''), normalizeEvidenceRefs (default (at v ''evidence_refs'') (JArr [])),
        assertIdentifier (at v ''verified_by''), if_truthy (at v ''completed_at'') (assertTimestamp dt),
        assertPositiveInteger False (default (at v ''max_freshness_seconds'') (JNum (Integer 120)))])
     (request dt v
       [(''id'', at v ''verification_id''), (''commandId'', at v ''command_id''), (''attempt'', at v ''attempt''),
        (''observationId'', at v ''observation_id''), (''status'', at v ''status''), (''checks'', default (at v ''checks'') (JArr [])),
        (''evidenceRefs'', default (at v ''evidence_refs'') (JArr [])), (''verifiedBy'', at v ''verified_by''),
        (''completedAt'', if truthy (at v ''completed_at'') then iso_of dt (at v ''completed_at'') else JStr (iso_date dt now)),
        (''maxFreshnessSeconds'', default (at v ''max_freshness_seconds'') (JNum (Integer 120)))])"

text \<open>The input is an optional parameter.\<close>

definition leaseOutbox :: "json \<Rightarrow> failure + json" where
  "leaseOutbox input =
     (let v = (if input = JUndefined then JObj [] else input);
          limit = default (at v ''limit'') (JNum (Integer 100));
          seconds = default (at v ''lease_seconds'') (JNum (Integer 60))
      in when_ok [assertOnlyFields [''limit'', ''lease_seconds''] v, assertPositiveInteger False limit,
            assertPositiveInteger False seconds]
           (JObj [(''limit'', limit), (''leaseSeconds'', seconds)]))"

definition SETTLEMENT_FIELDS :: "string list" where
  "SETTLEMENT_FIELDS = [''outbox_id'', ''lease_token'', ''outcome'', ''error_code'', ''error_summary'', ''retry_delay_seconds'']"

definition settleOutbox :: "json \<Rightarrow> failure + json" where
  "settleOutbox v =
     (let delay = default (at v ''retry_delay_seconds'') (JNum (Integer 30))
      in when_ok [assertOnlyFields SETTLEMENT_FIELDS v,
            bad_when (\<not> is_one_of [''published'', ''retry''] (at v ''outcome'')) ''invalid_schema'',
            assertIdentifier (at v ''outbox_id''), assertReference (at v ''lease_token''),
            if_truthy (at v ''error_code'') assertIdentifier, assertPositiveInteger False delay]
           (JObj [(''id'', at v ''outbox_id''), (''leaseToken'', at v ''lease_token''), (''outcome'', at v ''outcome''),
              (''errorCode'', or_null (at v ''error_code'')),
              (''errorSummary'', case at v ''error_summary'' of JStr s \<Rightarrow> JStr (take 512 s) | _ \<Rightarrow> JNull),
              (''retryDelaySeconds'', delay)]))"

definition listDeploymentAggregates :: "json \<Rightarrow> failure + json" where
  "listDeploymentAggregates v =
     (let limit = default (at v ''limit'') (JNum (Integer 50))
      in when_ok [assertOnlyFields [''organization_id'', ''limit'', ''cursor''] v, assertIdentifier (at v ''organization_id''),
            assertPositiveInteger False limit]
           (JObj [(''organizationId'', at v ''organization_id''), (''limit'', limit), (''cursor'', default (at v ''cursor'') JNull)]))"

section \<open>What is handed to the repository\<close>

definition approval_for :: "json \<Rightarrow> json \<Rightarrow> json \<Rightarrow> bool" where
  "approval_for a envelope c \<longleftrightarrow>
     at a ''decision'' = JStr ''pending'' \<and> at a ''command_id'' = at c ''command_id'' \<and> at a ''approval_id'' = at c ''approval_id'' \<and>
     at a ''action'' = at c ''action'' \<and> at a ''requested_by'' = at envelope ''user_id'' \<and>
     at (at a ''scope'') ''deployment_id'' = at c ''deployment_id'' \<and>
     (\<forall>k\<in>set OWNER_FIELDS. at a k = at envelope k \<and> at (at a ''scope'') k = at envelope k)"

lemma approval_mismatch_iff: "\<not> approval_mismatch a envelope c \<longleftrightarrow> approval_for a envelope c"
  by (auto simp: approval_mismatch_def approval_for_def)

text \<open>
  C21. A command reaches the repository only if its action is allowed with these arguments and every secret
  is an opaque reference; an action that needs approval comes with a pending approval for this very
  command, deployment, owner and requester, and any other action comes without one.
\<close>

theorem requested_command_is_authorized:
  assumes "requestCommand dt validate validateApproval input approval = Inr r"
  shows "\<exists>v a. validate input = Inr v \<and> r = request dt v (command_fields (at v ''command'') a) \<and>
    (\<forall>c\<in>set (envelope_checks dt v). c = None) \<and>
    validateAction (name_of (at (at v ''command'') ''action'')) (at r ''arguments'') = None \<and>
    (\<forall>s\<in>set (items_of (at r ''secretRefs'')). \<exists>t. s = JStr t \<and> matches SECRET_REFERENCE t) \<and>
    (if name_of (at (at v ''command'') ''action'') \<in> set APPROVAL_ACTIONS
     then \<exists>p. validateApproval approval = Inr p \<and> approval_for p v (at v ''command'') \<and> at a ''id'' = at p ''approval_id''
     else a = JNull \<and> \<not> truthy approval)"
proof -
  obtain v where v: "validate input = Inr v" using assms by (auto simp: requestCommand_def validated_def split: sum.splits)
  let ?c = "at v ''command''"
  let ?action = "name_of (at ?c ''action'')" and ?args = "if at ?c ''arguments'' = JUndefined then JObj [] else at ?c ''arguments''"
  have checks: "first_failure (readable v # envelope_checks dt v @ [readable ?c, validateAction ?action ?args,
      bad_when (\<not> ?action \<in> set APPROVAL_ACTIONS \<and> truthy approval) ''approval_not_valid'']) = None"
    using assms v by (auto simp: requestCommand_def validated_def Let_def split: option.splits)
  then have ok: "\<forall>c\<in>set (envelope_checks dt v). c = None" "validateAction ?action ?args = None"
    "\<not> (?action \<notin> set APPROVAL_ACTIONS \<and> truthy approval)"
    unfolding first_failure_None by (auto simp: bad_when_None)
  from assms v checks obtain a where
    pending: "(if ?action \<in> set APPROVAL_ACTIONS then normalizePendingApproval validateApproval approval v ?c else Inr JNull) = Inr a"
    and r: "r = request dt v (command_fields ?c a)"
    and secrets: "\<forall>s\<in>set (items_of (default (at ?c ''secret_refs'') (JArr []))). assertSecretReference s = None"
    by (auto simp: requestCommand_def validated_def Let_def when_ok_Inr split: sum.splits)
  have at: "at r ''arguments'' = ?args" "at r ''secretRefs'' = default (at ?c ''secret_refs'') (JArr [])"
    unfolding r by (simp_all add: at_def prop_of_def request_def command_fields_def envelope_fields_def)
  have "\<exists>p. validateApproval approval = Inr p \<and> approval_for p v ?c \<and> at a ''id'' = at p ''approval_id''"
    if needed: "?action \<in> set APPROVAL_ACTIONS"
  proof -
    obtain p where p: "validateApproval approval = Inr p" "bad_when (approval_mismatch p v ?c) ''approval_not_valid'' = None"
      and a: "a = JObj [(''id'', at p ''approval_id''), (''riskLevel'', at p ''risk_level''),
                    (''reasonCode'', default (at p ''reason_code'') (JStr ''policy_required'')),
                    (''reasonRef'', default (at p ''reason_ref'') (approval_ref (at p ''approval_id''))),
                    (''expiresAt'', at p ''expires_at''), (''createdAt'', at p ''created_at''), (''sequence'', at p ''sequence''),
                    (''idempotencyKey'', at p ''idempotency_key''), (''requestedBy'', at p ''requested_by''),
                    (''scope'', at p ''scope'')]"
      using pending needed by (auto simp: normalizePendingApproval_def when_ok_Inr split: sum.splits if_splits)
    have "at a ''id'' = at p ''approval_id''" unfolding a by (simp add: at_def prop_of_def)
    then show ?thesis using p by (auto simp: bad_when_None approval_mismatch_iff)
  qed
  moreover have "\<exists>t. s = JStr t \<and> matches SECRET_REFERENCE t" if "s \<in> set (items_of (at r ''secretRefs''))" for s
    using secrets that at(2) by (auto simp: assertSecretReference_def check_pattern_None)
  ultimately show ?thesis
    using v r ok at(1) pending by (intro exI [of _ v] exI [of _ a]) auto
qed

definition sample_dates :: dates where
  "sample_dates = \<lparr>parse_date = (\<lambda>s. Some (int (length s))), iso_date = (\<lambda>t. replicate (nat t) CHR ''0'')\<rparr>"

definition sample_envelope :: "(string \<times> json) list" where
  "sample_envelope =
     [(''schema_version'', JStr ''1.0''), (''organization_id'', JStr ''o''), (''user_id'', JStr ''u''), (''agent_id'', JStr ''a''),
      (''server_id'', JStr ''s''), (''request_id'', JStr ''r''), (''correlation_id'', JStr ''c''), (''idempotency_key'', JStr ''k''),
      (''created_at'', JStr ''t''), (''revision'', JNum (Integer 1)), (''sequence'', JNum (Integer 1)),
      (''signature'', JObj [(''algorithm'', JStr ''ed25519''), (''value'', JStr ''0123456789abcdef''), (''key_id'', JStr ''k''),
         (''signed_at'', JStr ''t'')])]"

lemma sample_envelope_ok: "\<forall>c\<in>set (envelope_checks sample_dates (JObj (sample_envelope @ rest))). c = None"
proof -
  have plain: "assertIdentifier (JStr s) = None" if "s \<in> {''o'', ''u'', ''a'', ''s'', ''r'', ''c'', ''k''}" for s
    using that by (elim insertE emptyE) (simp_all, code_simp+)
  show ?thesis
    by (simp add: envelope_checks_def sample_envelope_def at_def prop_of_def bad_when_def assertTimestamp_def instant_of_def
        signature_check_def truthy_def is_one_of_def plain assertPositiveInteger_def is_safe_integer_def MAX_SAFE_INTEGER_def
        iso_of_def sample_dates_def Let_def)
qed

definition sample_start :: json where
  "sample_start = JObj (sample_envelope @ [(''command'', JObj
     [(''command_id'', JStr ''c1''), (''deployment_id'', JStr ''d''), (''target'', JObj []), (''action'', JStr ''deployment.start''),
      (''arguments'', JObj [(''agent_id'', JStr ''a'')])])])"

theorem requested_command_is_authorized_witness:
  "\<exists>r. requestCommand sample_dates Inr Inr sample_start JUndefined = Inr r \<and>
     validateAction ''deployment.start'' (at r ''arguments'') = None"
proof -
  let ?c = "at sample_start ''command''"
  have "\<forall>c\<in>set (envelope_checks sample_dates sample_start). c = None"
    unfolding sample_start_def by (rule sample_envelope_ok)
  moreover have action: "at ?c ''action'' = JStr ''deployment.start''" and "at ?c ''arguments'' = JObj [(''agent_id'', JStr ''a'')]"
    and "at ?c ''secret_refs'' = JUndefined" and "readable (at ?c ''target'') = None" and "readable ?c = None" and "readable sample_start = None"
    and "''deployment.start'' \<notin> set APPROVAL_ACTIONS" and "\<not> truthy JUndefined"
    by code_simp+
  moreover have "validateAction ''deployment.start'' (JObj [(''agent_id'', JStr ''a'')]) = None" by code_simp
  ultimately obtain r where r: "requestCommand sample_dates Inr Inr sample_start JUndefined = Inr r"
    by (simp add: requestCommand_def validated_def Let_def name_of_def when_ok_def default_def nullish_def items_of_def
        first_failure_None [THEN iffD2] bad_when_def)
  show ?thesis using requested_command_is_authorized [OF r] r action by (auto simp: name_of_def)
qed

text \<open>
  A reference to a secret carries no secret: the repository gets an opaque reference, a digest as
  fingerprint and a masked text of at most 64 characters; a document with any other field is refused.
\<close>

theorem secret_reference_is_opaque:
  assumes "registerSecretReference dt v = Inr r"
  shows "(\<exists>kvs. v = JObj kvs \<and> fst ` set kvs \<subseteq> set SECRET_FIELDS) \<and>
    (\<exists>s. at r ''id'' = JStr s \<and> matches SECRET_REFERENCE s) \<and> (\<exists>d. at r ''fingerprint'' = JStr d \<and> matches DIGEST d) \<and>
    (\<exists>m. at r ''masked'' = JStr m \<and> 4 \<le> length m \<and> length m \<le> 64) \<and>
    at r ''organizationId'' = at v ''organization_id'' \<and> at r ''userId'' = at v ''user_id''"
proof -
  from assms have ok: "assertOnlyFields SECRET_FIELDS v = None" "masked_ok (at v ''masked'')"
    "assertDigest (at v ''fingerprint'') = None" "assertSecretReference (at v ''secret_ref'') = None"
    by (auto simp: registerSecretReference_def when_ok_Inr bad_when_None)
  have "at r ''id'' = at v ''secret_ref''" "at r ''fingerprint'' = at v ''fingerprint''" "at r ''masked'' = at v ''masked''"
    "at r ''organizationId'' = at v ''organization_id''" "at r ''userId'' = at v ''user_id''"
    using assms by (auto simp: registerSecretReference_def when_ok_Inr at_def prop_of_def request_def envelope_fields_def)
  then show ?thesis
    using ok by (auto simp: assertOnlyFields_def bad_when_None assertDigest_def assertSecretReference_def check_pattern_None
        masked_ok_def split: json.splits)
qed

text \<open>
  The modules of an accepted document are at most a hundred objects with the known fields, different
  identifiers and no secret or conversation material anywhere inside.
\<close>

lemma modules_check_ids:
  "modules_check dt seen vs = None \<Longrightarrow>
    distinct (map (\<lambda>v. at v ''module_id'') vs) \<and> (\<forall>v\<in>set vs. at v ''module_id'' \<notin> set seen \<and>
      assertOnlyFields MODULE_FIELDS v = None \<and> assertIdentifier (at v ''module_id'') = None \<and> assertSafeControlPayload v = None)"
proof (induction dt seen vs rule: modules_check.induct)
  case (2 dt seen v vs)
  then have "module_check dt seen v = None" by (auto split: option.splits)
  then have v: "assertOnlyFields MODULE_FIELDS v = None" "assertIdentifier (at v ''module_id'') = None"
    "at v ''module_id'' \<notin> set seen" "assertSafeControlPayload v = None"
    unfolding module_check_def first_failure_None by (auto simp: bad_when_None)
  have IH: "distinct (map (\<lambda>v. at v ''module_id'') vs)" "\<forall>x\<in>set vs. at x ''module_id'' \<notin> set (at v ''module_id'' # seen) \<and>
      assertOnlyFields MODULE_FIELDS x = None \<and> assertIdentifier (at x ''module_id'') = None \<and> assertSafeControlPayload x = None"
    using 2 by (auto split: option.splits)
  then show ?case using v by force
qed simp

theorem accepted_modules_are_safe:
  assumes "normalizeModules dt ms = None"
  shows "\<exists>vs. ms = JArr vs \<and> length vs \<le> 100 \<and> distinct (map (\<lambda>v. at v ''module_id'') vs) \<and>
    (\<forall>v\<in>set vs. (\<exists>kvs. v = JObj kvs \<and> fst ` set kvs \<subseteq> set MODULE_FIELDS) \<and>
       (\<forall>k\<in>all_keys v. \<not> forbidden_key k) \<and> (\<forall>s\<in>string_leaves v. \<not> search SECRET_TEXT s \<and> length s \<le> 4096))"
proof -
  obtain vs where vs: "ms = JArr vs" "length vs \<le> 100" "modules_check dt [] vs = None"
    using assms by (auto simp: normalizeModules_def split: json.splits if_splits)
  have ids: "distinct (map (\<lambda>v. at v ''module_id'') vs)" using modules_check_ids [OF vs(3)] by blast
  have each: "(\<exists>kvs. v = JObj kvs \<and> fst ` set kvs \<subseteq> set MODULE_FIELDS) \<and>
       (\<forall>k\<in>all_keys v. \<not> forbidden_key k) \<and> (\<forall>s\<in>string_leaves v. \<not> search SECRET_TEXT s \<and> length s \<le> 4096)"
    if v: "v \<in> set vs" for v
  proof -
    have only: "assertOnlyFields MODULE_FIELDS v = None" and safe: "assertSafeControlPayload v = None"
      using modules_check_ids [OF vs(3)] v by blast+
    have "\<exists>kvs. v = JObj kvs \<and> fst ` set kvs \<subseteq> set MODULE_FIELDS"
      using only by (cases v) (simp_all add: assertOnlyFields_def bad_when_None)
    then show ?thesis using safe_payload_keys [OF safe] safe_payload_strings [OF safe] by blast
  qed
  show ?thesis by (rule exI [of _ vs]) (use vs(1,2) ids each in blast)
qed

theorem accepted_modules_are_safe_witness:
  "\<not> forbidden_key ''module_id''"
proof -
  have "normalizeModules sample_dates (JArr [JObj [(''module_id'', JStr ''m'')]]) = None" by code_simp
  from accepted_modules_are_safe [OF this] show ?thesis by simp
qed

definition sample_digest :: string where
  "sample_digest = ''sha256:'' @ replicate 64 CHR ''0''"

definition sample_secret :: json where
  "sample_secret = JObj (sample_envelope @ [(''secret_ref'', JStr ''sr_0123456789abcdef''), (''purpose'', JStr ''p''),
     (''version'', JNum (Integer 1)), (''state'', JStr ''active''), (''masked'', JStr ''****''), (''fingerprint'', JStr sample_digest)])"

theorem secret_reference_is_opaque_witness:
  "\<exists>r. registerSecretReference sample_dates sample_secret = Inr r \<and> (\<exists>m. at r ''masked'' = JStr m \<and> length m \<le> 64)"
proof -
  have "\<forall>c\<in>set (envelope_checks sample_dates sample_secret). c = None"
    unfolding sample_secret_def by (rule sample_envelope_ok)
  moreover have "assertOnlyFields SECRET_FIELDS sample_secret = None" "matches PURPOSE (coerced (at sample_secret ''purpose''))"
    "is_one_of [''pending'', ''active'', ''rotating'', ''revoked'', ''expired''] (at sample_secret ''state'')"
    "masked_ok (at sample_secret ''masked'')" "assertSecretReference (at sample_secret ''secret_ref'') = None"
    "assertPositiveInteger False (at sample_secret ''version'') = None" by code_simp+
  moreover have "at sample_secret ''deployment_id'' = JUndefined" "at sample_secret ''authorized_identity'' = JUndefined"
    "at sample_secret ''last_verified_at'' = JUndefined" "at sample_secret ''expires_at'' = JUndefined" by code_simp+
  moreover have "assertDigest (at sample_secret ''fingerprint'') = None" by code_simp
  ultimately obtain r where r: "registerSecretReference sample_dates sample_secret = Inr r"
    by (simp add: registerSecretReference_def when_ok_def first_failure_None [THEN iffD2] bad_when_def if_truthy_def truthy_def)
  show ?thesis using secret_reference_is_opaque [OF r] r by blast
qed

end
