(* ===== verification/Authorization.thy ===== *)
theory Authorization
  imports Js_Value
begin

text \<open>
  \<open>packages/auth/authorization.mjs\<close>: roles, permissions, the grants of each role and the decision
  \<open>can\<close>. A principal's role is the string stored in the user row or the session token, so an unknown
  role is a value the decision has to handle.
\<close>

section \<open>Roles and permissions\<close>

definition ROLES :: "string list" where
  "ROLES = [''user'', ''org_admin'', ''platform_admin'']"

definition PERMISSIONS :: "string list" where
  "PERMISSIONS =
     [''self:read'', ''agent:create'', ''agent:read'', ''agent:manage-own'', ''agent:use'',
      ''conversation:read'', ''conversation:write'', ''org:members:manage'', ''org:agents:manage'',
      ''org:audit:read'', ''platform:overview:read'', ''platform:users:manage'',
      ''platform:organizations:manage'', ''platform:licenses:manage'', ''platform:servers:manage'',
      ''platform:releases:manage'', ''platform:provider-settings:manage'', ''control-plane:read'',
      ''control-plane:manage'', ''data-governance:manage'', ''sensitive-access:manage'',
      ''control-plane:ingest'']"

definition grants :: "(string \<times> string list) list" where
  "grants =
     [(''user'',
       [''self:read'', ''agent:create'', ''agent:read'', ''agent:manage-own'', ''agent:use'',
        ''conversation:read'', ''conversation:write'']),
      (''org_admin'',
       [''self:read'', ''agent:create'', ''agent:read'', ''agent:manage-own'', ''agent:use'',
        ''conversation:read'', ''conversation:write'', ''org:members:manage'', ''org:agents:manage'',
        ''org:audit:read'', ''control-plane:read'', ''control-plane:manage'',
        ''data-governance:manage'']),
      (''platform_admin'', PERMISSIONS)]"

record principal =
  pr_user :: ident
  pr_org :: ident
  pr_role :: string

text \<open>The resource of a decision; an absent or empty field does not restrict it.\<close>

record resource =
  res_org :: "ident option"
  res_user :: "ident option"

definition any_resource :: resource where
  "any_resource = \<lparr>res_org = None, res_user = None\<rparr>"

section \<open>The decision\<close>

definition isRole :: "string \<Rightarrow> bool" where
  "isRole r \<longleftrightarrow> r \<in> set ROLES"

definition granted :: "string \<Rightarrow> string \<Rightarrow> bool" where
  "granted role permission \<longleftrightarrow>
     (case map_of grants role of None \<Rightarrow> False | Some ps \<Rightarrow> permission \<in> set ps)"

text \<open>\<open>resource.x && resource.x !== own\<close>.\<close>

definition foreign :: "ident option \<Rightarrow> ident \<Rightarrow> bool" where
  "foreign x own \<longleftrightarrow> (case x of None \<Rightarrow> False | Some v \<Rightarrow> v \<noteq> [] \<and> v \<noteq> own)"

definition can :: "principal option \<Rightarrow> string \<Rightarrow> resource \<Rightarrow> bool" where
  "can subject permission resource =
     (case subject of
        None \<Rightarrow> False
      | Some p \<Rightarrow>
          if \<not> isRole (pr_role p) then False
          else if \<not> granted (pr_role p) permission then False
          else if pr_role p = ''platform_admin'' then True
          else if foreign (res_org resource) (pr_org p) then False
          else if pr_role p = ''user'' \<and> foreign (res_user resource) (pr_user p) then False
          else True)"

definition requirePermission :: "principal option \<Rightarrow> string \<Rightarrow> resource \<Rightarrow> failure + principal option" where
  "requirePermission subject permission resource =
     (if can subject permission resource then Inr subject
      else Inl (CodedError ''AuthorizationError'' (Some 403)))"

section \<open>Correctness\<close>

lemma isRole_cases:
  "isRole r \<longleftrightarrow> r = ''user'' \<or> r = ''org_admin'' \<or> r = ''platform_admin''"
  by (simp add: isRole_def ROLES_def)

lemma grants_of_role:
  "granted ''user'' p \<longleftrightarrow> p \<in> set (the (map_of grants ''user''))"
  "granted ''org_admin'' p \<longleftrightarrow> p \<in> set (the (map_of grants ''org_admin''))"
  "granted ''platform_admin'' p \<longleftrightarrow> p \<in> set PERMISSIONS"
  by (simp_all add: granted_def grants_def)

lemma user_grants_subset: "granted ''user'' p \<Longrightarrow> granted ''org_admin'' p"
  by (auto simp: granted_def grants_def)

lemma admin_grants_subset: "granted ''org_admin'' p \<Longrightarrow> granted ''platform_admin'' p"
  by (auto simp: granted_def grants_def PERMISSIONS_def)

lemma granted_permission: "granted r p \<Longrightarrow> p \<in> set PERMISSIONS"
  by (auto simp: granted_def grants_def PERMISSIONS_def split: if_splits option.splits)

text \<open>
  Tenant isolation. A principal that is allowed anything on a resource of a named organization
  is a platform administrator or belongs to that organization, and an ordinary user is allowed only
  resources that name no user or name that user.
\<close>

theorem can_respects_tenant:
  assumes "can (Some p) permission \<lparr>res_org = Some org, res_user = Some user\<rparr>"
    and "org \<noteq> []" and "user \<noteq> []"
  shows "pr_role p = ''platform_admin'' \<or>
    (pr_org p = org \<and> (pr_role p = ''user'' \<longrightarrow> pr_user p = user))"
  using assms by (auto simp: can_def foreign_def split: if_splits)

theorem can_respects_tenant_witness:
  "pr_role \<lparr>pr_user = ''u1'', pr_org = ''o1'', pr_role = ''user''\<rparr> = ''platform_admin'' \<or>
    (pr_org \<lparr>pr_user = ''u1'', pr_org = ''o1'', pr_role = ''user''\<rparr> = ''o1'' \<and>
      (pr_role \<lparr>pr_user = ''u1'', pr_org = ''o1'', pr_role = ''user''\<rparr> = ''user'' \<longrightarrow>
        pr_user \<lparr>pr_user = ''u1'', pr_org = ''o1'', pr_role = ''user''\<rparr> = ''u1''))"
  by (rule can_respects_tenant [where permission = "''agent:use''"])
     (simp_all add: can_def isRole_def ROLES_def granted_def grants_def foreign_def)

text \<open>
  Privilege is monotone in the role: what a user may do, an organization administrator with the
  same user and organization may do, and what either may do a platform administrator may do; and no
  role, known or not, is ever granted a permission outside the table.
\<close>

theorem can_monotone_in_role:
  "(can (Some (p\<lparr>pr_role := ''user''\<rparr>)) permission r \<longrightarrow> can (Some (p\<lparr>pr_role := ''org_admin''\<rparr>)) permission r) \<and>
   (can (Some (p\<lparr>pr_role := ''org_admin''\<rparr>)) permission r \<longrightarrow>
      can (Some (p\<lparr>pr_role := ''platform_admin''\<rparr>)) permission r) \<and>
   (can (Some p) permission r \<longrightarrow> permission \<in> set PERMISSIONS \<and> isRole (pr_role p))"
  using user_grants_subset [of permission] admin_grants_subset [of permission]
    granted_permission [of "pr_role p" permission]
  by (auto simp: can_def isRole_cases split: if_splits)

theorem can_monotone_in_role_witness:
  "can (Some \<lparr>pr_user = ''u1'', pr_org = ''o1'', pr_role = ''platform_admin''\<rparr>) ''org:audit:read''
    \<lparr>res_org = Some ''o1'', res_user = None\<rparr>"
proof -
  let ?p = "\<lparr>pr_user = ''u1'', pr_org = ''o1'', pr_role = ''org_admin''\<rparr>"
  let ?r = "\<lparr>res_org = Some ''o1'', res_user = None\<rparr>"
  have "can (Some (?p\<lparr>pr_role := ''org_admin''\<rparr>)) ''org:audit:read'' ?r"
    by (simp add: can_def isRole_def ROLES_def granted_def grants_def foreign_def)
  then have "can (Some (?p\<lparr>pr_role := ''platform_admin''\<rparr>)) ''org:audit:read'' ?r"
    using can_monotone_in_role [of ?p "''org:audit:read''" ?r] by blast
  then show ?thesis by simp
qed

end
