(* ===== verification/Lease_Queue.thy ===== *)
theory Lease_Queue
  imports Js_Value
begin

text \<open>
  What the three durable queues of the repository share (channel inbox, channel outbox, memory
  projection outbox): the fields of a queued item, its life cycle, and the contract of a queue as a
  locale. A queue hands an item to a worker for a limited time (a lease, identified by its token) and
  the holder settles it. The life cycle is the abstract specification; the repository operations are
  shown to refine it in the theories of the queues.
\<close>

section \<open>Queued items\<close>

datatype job_state =
  Pending | Retry | Leased | Processing | Completed | Delivered | Failed | Dead

record job =
  j_id :: ident
  j_org :: ident
  j_user :: ident
  j_agent :: ident
  j_state :: job_state
  j_attempts :: int
  j_availableAt :: instant
  j_leaseToken :: "ident option"
  j_leaseExpiresAt :: "instant option"
  j_lastErrorCode :: "string option"
  j_createdAt :: instant
  j_updatedAt :: instant

definition is_final :: "job_state \<Rightarrow> bool" where
  "is_final st \<longleftrightarrow> st \<in> {Completed, Delivered, Failed, Dead}"

abbreviation lookup :: "ident \<Rightarrow> 'x job_scheme list \<Rightarrow> 'x job_scheme option" where
  "lookup i xs \<equiv> List.find (\<lambda>x. j_id x = i) xs"

section \<open>The life cycle\<close>

text \<open>
  An item stays as it is, is claimed (one more attempt, a lease), or is settled by the holder of its
  lease. \<open>h\<close> is the state of a leased item and \<open>limit\<close> its bound on the attempts.
\<close>

inductive job_move ::
  "job_state \<Rightarrow> ('x job_scheme \<Rightarrow> int) \<Rightarrow> 'x job_scheme \<Rightarrow> 'x job_scheme \<Rightarrow> bool"
  for h :: job_state and limit :: "'x job_scheme \<Rightarrow> int" where
  stay: "job_move h limit x x"
| claim: "j_state x \<in> {Pending, Retry, h} \<Longrightarrow> j_attempts x < limit x \<Longrightarrow> limit y = limit x \<Longrightarrow>
    j_id y = j_id x \<Longrightarrow> j_attempts y = j_attempts x + 1 \<Longrightarrow> j_state y = h \<Longrightarrow>
    j_leaseToken y \<noteq> None \<Longrightarrow> j_leaseExpiresAt y \<noteq> None \<Longrightarrow> job_move h limit x y"
| settle: "j_state x = h \<Longrightarrow> j_state y \<in> {Retry, Completed, Delivered, Failed, Dead} \<Longrightarrow>
    limit y = limit x \<Longrightarrow> j_id y = j_id x \<Longrightarrow> j_attempts y = j_attempts x \<Longrightarrow>
    j_leaseToken y = None \<Longrightarrow> j_leaseExpiresAt y = None \<Longrightarrow> job_move h limit x y"

inductive_cases job_moveE: "job_move h limit x y"

lemma job_move_attempts: "job_move h limit x y \<Longrightarrow> j_attempts x \<le> j_attempts y"
  by (erule job_moveE) auto

lemma job_move_limit: "job_move h limit x y \<Longrightarrow> limit y = limit x"
  by (erule job_moveE) auto

lemma job_move_final:
  "job_move h limit x y \<Longrightarrow> is_final (j_state x) \<Longrightarrow> \<not> is_final h \<Longrightarrow> y = x"
  by (erule job_moveE) (auto simp: is_final_def)

text \<open>The shape of an item in a queue whose leases have state \<open>h\<close>.\<close>

definition job_ok :: "job_state \<Rightarrow> ('x job_scheme \<Rightarrow> int) \<Rightarrow> 'x job_scheme \<Rightarrow> bool" where
  "job_ok h limit x \<longleftrightarrow>
     (j_state x = h \<longleftrightarrow> j_leaseToken x \<noteq> None) \<and> (j_leaseToken x = None \<longleftrightarrow> j_leaseExpiresAt x = None) \<and>
     0 \<le> j_attempts x \<and> (0 < j_attempts x \<longrightarrow> j_attempts x \<le> limit x) \<and>
     (j_state x = h \<longrightarrow> 0 < j_attempts x) \<and> (j_state x = Pending \<longrightarrow> j_attempts x = 0)"

lemma job_move_ok:
  "job_move h limit x y \<Longrightarrow> job_ok h limit x \<Longrightarrow> h \<noteq> Pending \<Longrightarrow>
    h \<notin> {Retry, Completed, Delivered, Failed, Dead} \<Longrightarrow> job_ok h limit y"
  by (erule job_moveE) (auto simp: job_ok_def)

section \<open>Searching an array by identifier\<close>

lemma lookup_upd_first [store_simps]:
  assumes "distinct (map j_id xs)" and "\<And>x. j_id (f x) = j_id x"
  shows "lookup i (upd_first p f xs) =
    map_option (\<lambda>x. if List.find p xs = Some x then f x else x) (lookup i xs)"
  using assms(1)
proof (induction xs)
  case (Cons a xs)
  have other: "x \<noteq> a" if "lookup i xs = Some x" for x
    using that Cons.prems by (auto dest!: find_Some_mem)
  show ?case
  proof (cases "p a")
    case True
    have "lookup i xs = map_option (\<lambda>x. if a = x then f x else x) (lookup i xs)"
      using other by (cases "lookup i xs") auto
    then show ?thesis using True by (simp add: assms(2))
  next
    case False
    then show ?thesis using Cons by (auto simp: assms(2) dest: find_Some_mem)
  qed
qed simp

lemma lookup_nth:
  assumes "distinct (map j_id xs)" and "k < length xs"
  shows "lookup i xs = Some (xs ! k) \<longleftrightarrow> j_id (xs ! k) = i"
proof
  assume "lookup i xs = Some (xs ! k)"
  then show "j_id (xs ! k) = i" by (auto dest: find_Some_mem)
next
  assume "j_id (xs ! k) = i"
  then show "lookup i xs = Some (xs ! k)"
    using find_cong_key [of j_id xs "xs ! k"] assms by auto
qed

lemma lookup_assign_refs [store_simps]:
  assumes "distinct (map j_id xs)" and "\<And>x. j_id (f x) = j_id x"
  shows "lookup i (assign_refs f refs xs) =
    map_option (\<lambda>x. if \<exists>k\<in>set refs. k < length xs \<and> x = xs ! k then f x else x) (lookup i xs)"
proof (cases "lookup i xs")
  case None
  then have "\<forall>x\<in>set xs. j_id x \<noteq> i" by (simp add: find_None_all)
  then have "\<forall>y\<in>set (assign_refs f refs xs). j_id y \<noteq> i"
    using assms(2) by (auto elim!: set_assign_refsE)
  then have "lookup i (assign_refs f refs xs) = None" by (simp add: find_None_all)
  then show ?thesis using None by simp
next
  case (Some x)
  then obtain k where k: "k < length xs" "x = xs ! k" by (metis find_Some_mem in_set_conv_nth)
  let ?ys = "assign_refs f refs xs"
  have d: "distinct (map j_id ?ys)" using assms by (simp add: map_assign_refs)
  have "j_id (xs ! k) = i" using Some k lookup_nth [OF assms(1)] by blast
  then have "j_id (?ys ! k) = i" using k assms(2) by (simp add: nth_assign_refs)
  then have "lookup i ?ys = Some (?ys ! k)" using d k(1) lookup_nth [of ?ys k i] by simp
  moreover have "(\<exists>k'\<in>set refs. k' < length xs \<and> x = xs ! k') \<longleftrightarrow> k \<in> set refs"
    using k assms(1) by (metis distinct_map nth_eq_iff_index_eq)
  ultimately show ?thesis using Some k by (auto simp: nth_assign_refs)
qed

lemma lookup_snoc [store_simps]:
  "lookup i (xs @ [x]) = (case lookup i xs of None \<Rightarrow> if j_id x = i then Some x else None | Some y \<Rightarrow> Some y)"
  by (auto simp: find_append split: option.splits)

lemma lookup_mem: "distinct (map j_id xs) \<Longrightarrow> x \<in> set xs \<Longrightarrow> lookup (j_id x) xs = Some x"
  by (rule find_cong_key)

section \<open>What a lease operation hands out\<close>

text \<open>
  The specification of a lease operation. It hands out at most \<open>k\<close> of the items that qualify, each
  updated by \<open>f\<close> in the array, in the order of \<open>key\<close>; an item that qualifies is left out only when
  the room is used up by items that are no later; every other item is untouched.
\<close>

definition leased_from ::
  "('a \<Rightarrow> bool) \<Rightarrow> ('a \<Rightarrow> 'k::linorder) \<Rightarrow> nat \<Rightarrow> ('a \<Rightarrow> 'a) \<Rightarrow> 'a list \<Rightarrow> 'a list \<Rightarrow> 'a list \<Rightarrow> bool" where
  "leased_from P key k f xs got ys \<longleftrightarrow>
     length got \<le> k \<and> sorted (map key got) \<and>
     list_all2 (\<lambda>x y. y = x \<or> P x \<and> y = f x \<and> y \<in> set got) xs ys \<and>
     (\<forall>y\<in>set got. \<exists>x\<in>set xs. P x \<and> y = f x) \<and>
     (\<forall>x\<in>set xs. P x \<longrightarrow> f x \<in> set got \<or> length got = k \<and> (\<forall>y\<in>set got. key y \<le> key x))"

lemma leased_from_select:
  assumes "refs = select_refs P key k xs" and "ys = assign_refs f refs xs"
    and "\<And>x. key (f x) = key x"
  shows "leased_from P key k f xs (map ((!) ys) refs) ys"
proof -
  have mem: "i < length xs \<and> P (xs ! i) \<and> ys ! i = f (xs ! i)" if "i \<in> set refs" for i
    using that select_refs_mem [of i P key k xs] unfolding assms(1,2) by (simp add: nth_assign_refs)
  have key: "map key (map ((!) ys) refs) = map (\<lambda>i. key (xs ! i)) refs"
    using mem assms(3) by simp
  have got: "\<exists>x\<in>set xs. P x \<and> y = f x" if "y \<in> set (map ((!) ys) refs)" for y
    using that mem by fastforce
  have left: "f x \<in> set (map ((!) ys) refs) \<or>
      length (map ((!) ys) refs) = k \<and> (\<forall>y\<in>set (map ((!) ys) refs). key y \<le> key x)"
    if x: "x \<in> set xs" "P x" for x
  proof -
    obtain j where j: "j < length xs" "x = xs ! j" using x(1) by (auto simp: in_set_conv_nth)
    show ?thesis
    proof (cases "j \<in> set refs")
      case True
      then show ?thesis using mem [OF True] j by force
    next
      case False
      then have "length refs = k" using select_refs_full [of j xs P key k] j x(2) assms(1) by simp
      moreover have "key (xs ! i) \<le> key x" if "i \<in> set refs" for i
        using select_refs_least [of i P key k xs j] that False j x(2) assms(1) by simp
      ultimately show ?thesis using mem assms(3) by simp
    qed
  qed
  have all: "list_all2 (\<lambda>x y. y = x \<or> P x \<and> y = f x \<and> y \<in> set (map ((!) ys) refs)) xs ys"
  proof (rule list_all2_all_nthI)
    show "length xs = length ys" by (simp add: assms(2))
  next
    fix n assume "n < length xs"
    then show "ys ! n = xs ! n \<or> P (xs ! n) \<and> ys ! n = f (xs ! n) \<and> ys ! n \<in> set (map ((!) ys) refs)"
    proof (cases "n \<in> set refs")
      case True
      then have "ys ! n \<in> set (map ((!) ys) refs)" by simp
      then show ?thesis using mem [OF True] by simp
    next
      case False
      then show ?thesis using \<open>n < length xs\<close> by (simp add: assms(2) nth_assign_refs)
    qed
  qed
  have "length (map ((!) ys) refs) \<le> k" by (simp add: assms(1) select_refs_length)
  moreover have "sorted (map key (map ((!) ys) refs))" 
    using select_refs_sorted [of key xs P k] unfolding key unfolding assms(1) .
  ultimately show ?thesis unfolding leased_from_def using got left all by blast
qed

lemma leased_from_ids:
  assumes "leased_from P key k f xs got ys" and "\<And>x. j_id (f x) = j_id x" and "distinct (map j_id xs)"
    and "lookup i xs = Some x" and "\<not> P x"
  shows "lookup i ys = Some x \<and> i \<notin> j_id ` set got"
proof -
  from assms(1) have all: "list_all2 (\<lambda>x y. y = x \<or> P x \<and> y = f x \<and> y \<in> set got) xs ys"
    and got: "\<forall>y\<in>set got. \<exists>x\<in>set xs. P x \<and> y = f x" by (auto simp: leased_from_def)
  from all assms(4,5) have "lookup i ys = Some x"
    by (induction rule: list_all2_induct) (auto simp: assms(2) split: if_splits)
  moreover have "j_id y \<noteq> i" if y: "y \<in> set got" for y
  proof
    assume "j_id y = i"
    moreover obtain x' where "x' \<in> set xs" "P x'" "y = f x'" using got y by blast
    ultimately have "j_id x' = i" using assms(2) by simp
    moreover have "lookup (j_id x') xs = Some x'" using assms(3) \<open>x' \<in> set xs\<close> by (rule lookup_mem)
    ultimately show False using assms(4,5) \<open>P x'\<close> by simp
  qed
  ultimately show ?thesis by blast
qed
section \<open>The contract of a queue\<close>

text \<open>
  \<open>item s i\<close> is the item with identifier \<open>i\<close>, \<open>valid\<close> the invariant of the store and \<open>step\<close> one
  operation of it. What a client may rely on: operations keep the invariant, never lose an item, and
  never touch a settled one.
\<close>

locale lease_queue =
  fixes item :: "'s \<Rightarrow> ident \<Rightarrow> 'x job_scheme option"
    and valid :: "'s \<Rightarrow> bool"
    and step :: "'s \<Rightarrow> 's \<Rightarrow> bool"
  assumes valid_step: "valid s \<Longrightarrow> step s t \<Longrightarrow> valid t"
    and item_kept: "valid s \<Longrightarrow> step s t \<Longrightarrow> item s i = Some x \<Longrightarrow> \<exists>y. item t i = Some y"
    and final_kept: "valid s \<Longrightarrow> step s t \<Longrightarrow> item s i = Some x \<Longrightarrow> is_final (j_state x) \<Longrightarrow> item t i = Some x"
begin

lemma valid_run: "step\<^sup>*\<^sup>* s t \<Longrightarrow> valid s \<Longrightarrow> valid t"
  by (induction rule: rtranclp_induct) (auto intro: valid_step)

lemma item_run: "step\<^sup>*\<^sup>* s t \<Longrightarrow> valid s \<Longrightarrow> item s i = Some x \<Longrightarrow> \<exists>y. item t i = Some y"
proof (induction rule: rtranclp_induct)
  case (step t u)
  then show ?case using item_kept valid_run by blast
qed auto

lemma final_run:
  "step\<^sup>*\<^sup>* s t \<Longrightarrow> valid s \<Longrightarrow> item s i = Some x \<Longrightarrow> is_final (j_state x) \<Longrightarrow> item t i = Some x"
proof (induction rule: rtranclp_induct)
  case (step t u)
  then show ?case using final_kept valid_run by blast
qed auto

end

text \<open>A queue whose items follow the life cycle with a bound on the attempts.\<close>

locale bounded_lease_queue =
  fixes item :: "'s \<Rightarrow> ident \<Rightarrow> 'x job_scheme option"
    and valid :: "'s \<Rightarrow> bool"
    and step :: "'s \<Rightarrow> 's \<Rightarrow> bool"
    and limit :: "'x job_scheme \<Rightarrow> int"
  assumes valid_step': "valid s \<Longrightarrow> step s t \<Longrightarrow> valid t"
    and moves: "valid s \<Longrightarrow> step s t \<Longrightarrow> item s i = Some x \<Longrightarrow> \<exists>y. item t i = Some y \<and> job_move Leased limit x y"
    and items_ok: "valid s \<Longrightarrow> item s i = Some x \<Longrightarrow> job_ok Leased limit x"
begin

sublocale lease_queue item valid step
proof (unfold_locales, goal_cases)
  case (1 s t)
  then show ?case by (rule valid_step')
next
  case (2 s t i x)
  then show ?case using moves by blast
next
  case (3 s t i x)
  then obtain y where y: "item t i = Some y" "job_move Leased limit x y" using moves by blast
  have "y = x" by (rule job_move_final [OF y(2) 3(4)]) (simp add: is_final_def)
  with y show ?case by simp
qed

end

section \<open>Counting what is handed out\<close>

text \<open>
  A run of calls with what each of them answers. A call hands out items to the worker that makes it: \<open>handed\<close> gives their
  identifiers.
\<close>

inductive call_run :: "('s \<Rightarrow> 'l \<Rightarrow> 's \<Rightarrow> bool) \<Rightarrow> 's \<Rightarrow> 'l list \<Rightarrow> 's \<Rightarrow> bool" for call where
  no_call: "call_run call s [] s"
| next_call: "call s l t \<Longrightarrow> call_run call t ls u \<Longrightarrow> call_run call s (l # ls) u"

definition tries :: "'x job_scheme option \<Rightarrow> int" where
  "tries x = (case x of None \<Rightarrow> 0 | Some x \<Rightarrow> j_attempts x)"

text \<open>How often an item was handed out by the calls of a run.\<close>

definition times_handed :: "('l \<Rightarrow> ident list) \<Rightarrow> ident \<Rightarrow> 'l list \<Rightarrow> nat" where
  "times_handed handed i ls = (\<Sum>l\<leftarrow>ls. count_list (handed l) i)"

lemma count_distinct: "distinct xs \<Longrightarrow> count_list xs i = (if i \<in> set xs then 1 else 0)"
  by (induction xs) auto

text \<open>A lease operation that takes one more attempt of each item it selects hands out what it counts.\<close>

lemma tries_selected:
  assumes "distinct (map j_id xs)" and "refs = select_refs P key k xs" and "ys = assign_refs f refs xs"
    and f: "\<And>x. j_id (f x) = j_id x" "\<And>x. j_attempts (f x) = j_attempts x + 1"
  shows "tries (lookup i ys) = tries (lookup i xs) + int (count_list (map j_id (map ((!) ys) refs)) i)"
proof -
  have refs: "distinct refs" "\<And>j. j \<in> set refs \<Longrightarrow> j < length xs"
    using select_refs_distinct [of P key k xs] select_refs_mem [of _ P key k xs] assms(2) by auto
  have ids: "map j_id (map ((!) ys) refs) = map (\<lambda>j. j_id (xs ! j)) refs"
    using refs(2) f(1) by (simp add: assms(3) nth_assign_refs)
  have "inj_on (\<lambda>j. j_id (xs ! j)) (set refs)"
    using refs(2) assms(1) by (auto simp: inj_on_def distinct_conv_nth)
  then have "distinct (map (\<lambda>j. j_id (xs ! j)) refs)" using refs(1) by (simp add: distinct_map)
  then have count: "count_list (map j_id (map ((!) ys) refs)) i = (if \<exists>j\<in>set refs. j_id (xs ! j) = i then 1 else 0)"
    unfolding ids by (subst count_distinct) auto
  show ?thesis
  proof (cases "lookup i xs")
    case None
    then have "\<not> (\<exists>j\<in>set refs. j_id (xs ! j) = i)" using refs(2) by (auto simp: find_None_all)
    then show ?thesis using None f(1) assms(1) by (simp only: count if_False) (simp add: assms(3) lookup_assign_refs tries_def)
  next
    case (Some x)
    have "(\<exists>j\<in>set refs. j_id (xs ! j) = i) \<longleftrightarrow> (\<exists>j\<in>set refs. j < length xs \<and> x = xs ! j)"
      using refs(2) lookup_nth [OF assms(1), of _ i] Some by fastforce
    then show ?thesis using Some f assms(1) by (simp only: count) (simp add: assms(3) lookup_assign_refs tries_def)
  qed
qed

lemma tries_upd_first:
  assumes "distinct (map j_id xs)" and "\<And>x. j_id (f x) = j_id x" and "\<And>x. j_attempts (f x) = j_attempts x"
  shows "tries (lookup i (upd_first p f xs)) = tries (lookup i xs)"
  using assms by (simp add: lookup_upd_first tries_def split: option.split)

lemma tries_new: "j_attempts n = 0 \<Longrightarrow> tries (lookup i (xs @ [n])) = tries (lookup i xs)"
  by (simp add: lookup_snoc tries_def split: option.split)

text \<open>
  The contract of a queue that counts: the attempts of an item change only by the calls that hand it out, by one for each
  time. So an item is handed out as often as its attempts say, and no more often than its limit allows.
\<close>

locale counted_lease_queue = bounded_lease_queue item valid step limit
  for item :: "'s \<Rightarrow> ident \<Rightarrow> 'x job_scheme option" and valid :: "'s \<Rightarrow> bool" and step :: "'s \<Rightarrow> 's \<Rightarrow> bool"
    and limit :: "'x job_scheme \<Rightarrow> int" +
  fixes call :: "'s \<Rightarrow> 'l \<Rightarrow> 's \<Rightarrow> bool"
    and handed :: "'l \<Rightarrow> ident list"
  assumes call_step: "call s l t \<Longrightarrow> step s t"
    and counted: "valid s \<Longrightarrow> call s l t \<Longrightarrow> tries (item t i) = tries (item s i) + int (count_list (handed l) i)"
begin

lemma run_counted:
  "call_run call s ls u \<Longrightarrow> valid s \<Longrightarrow> valid u \<and> tries (item u i) = tries (item s i) + int (times_handed handed i ls)"
proof (induction rule: call_run.induct)
  case (next_call s l t ls u)
  have "valid t" using valid_step call_step next_call by blast
  then show ?case using next_call counted [of s l t i] by (simp add: times_handed_def)
qed (simp add: times_handed_def)

lemma run_bounded:
  assumes "call_run call s ls u" and "valid s" and "item s i = None" and "item u i = Some x"
  shows "int (times_handed handed i ls) = j_attempts x \<and> j_attempts x \<le> max 0 (limit x)"
proof -
  from run_counted [OF assms(1,2), of i] have u: "valid u" "j_attempts x = int (times_handed handed i ls)"
    using assms(3,4) by (simp_all add: tries_def)
  then show ?thesis using items_ok [OF u(1) assms(4)] by (auto simp: job_ok_def)
qed

end

end
