(* ===== verification/Channel_Store.thy ===== *)
theory Channel_Store
  imports Lease_Queue
begin

text \<open>
  The durable channel bridge of \<open>MemoryPlatformRepository\<close> (\<open>packages/db/memory-repository.mjs\<close>):
  channel bindings and worker credentials, the inbox of messages received from a vendor, the outbox
  of replies to deliver, delivery receipts, dead letters and health observations. Inbox and outbox
  items are leased to a worker for a limited time and settled with the token of the lease.

  An operation takes the environment, its input object and the state, and returns its result with the
  next state. Objects the code mutates in place are replaced at their position in the array.
\<close>

section \<open>Data\<close>

text \<open>A sender and a conversation are objects of the vendor; only the fields the code reads are separate.\<close>

record sender_ref =
  sr_user :: ident
  sr_rest :: json

record conversation_ref =
  cr_conversation :: ident
  cr_kind :: string
  cr_runtime :: "ident option"
  cr_rest :: json

record inbox_item = job +
  ib_binding :: ident
  ib_channel :: string
  ib_account :: ident
  ib_external :: ident
  ib_sender :: sender_ref
  ib_conversation :: conversation_ref
  ib_content :: json
  ib_attachments :: "json list"
  ib_replyTo :: "ident option"
  ib_trace :: json
  ib_maxAttempts :: int
  ib_receivedAt :: instant
  ib_completedAt :: "instant option"

record outbox_item = job +
  ob_binding :: ident
  ob_inbox :: ident
  ob_channel :: string
  ob_account :: ident
  ob_conversation :: conversation_ref
  ob_content :: json
  ob_attachments :: "json list"
  ob_replyTo :: ident
  ob_trace :: json
  ob_maxAttempts :: int
  ob_worker :: "ident option"
  ob_messageId :: "ident option"
  ob_deliveredAt :: "instant option"

record channel_binding =
  cb_id :: ident
  cb_org :: ident
  cb_user :: ident
  cb_agent :: ident
  cb_channel :: string
  cb_displayName :: string
  cb_status :: string
  cb_envelope :: "json option"
  cb_hint :: "string option"
  cb_metadata :: json
  cb_generation :: int
  cb_capabilities :: "string list"
  cb_adapterVersion :: "string option"
  cb_lastErrorCode :: "string option"
  cb_lastSeenAt :: "instant option"
  cb_lastHealthAt :: "instant option"
  cb_lastInboundAt :: "instant option"
  cb_lastOutboundAt :: "instant option"
  cb_createdAt :: instant
  cb_updatedAt :: instant

record channel_conversation =
  cc_id :: ident
  cc_org :: ident
  cc_user :: ident
  cc_agent :: ident
  cc_binding :: ident
  cc_channel :: string
  cc_conversation :: ident
  cc_kind :: string
  cc_runtime :: ident
  cc_lastMessageAt :: instant
  cc_createdAt :: instant
  cc_updatedAt :: instant

record delivery_receipt =
  dr_id :: ident
  dr_outbound :: ident
  dr_binding :: ident
  dr_worker :: "ident option"
  dr_attempt :: int
  dr_status :: string
  dr_messageId :: "ident option"
  dr_errorCode :: "string option"
  dr_observedAt :: instant

datatype direction = Inbound | Outbound

record dead_letter =
  dl_id :: ident
  dl_org :: ident
  dl_agent :: ident
  dl_binding :: ident
  dl_direction :: direction
  dl_source :: ident
  dl_attempts :: int
  dl_errorCode :: string
  dl_deadAt :: instant

record health_observation =
  ho_id :: ident
  ho_org :: ident
  ho_agent :: ident
  ho_binding :: ident
  ho_channel :: string
  ho_worker :: ident
  ho_sequence :: int
  ho_status :: string
  ho_capabilities :: "string list"
  ho_adapterVersion :: "string option"
  ho_latencyMs :: "int option"
  ho_lastInboundAt :: "instant option"
  ho_lastOutboundAt :: "instant option"
  ho_errorCode :: "string option"
  ho_observedAt :: instant
  ho_createdAt :: instant

record worker_credential =
  wc_id :: ident
  wc_worker :: ident
  wc_org :: "ident option"
  wc_channels :: "string list"
  wc_keyHash :: string
  wc_keyHint :: string
  wc_status :: string
  wc_createdBy :: "ident option"
  wc_expiresAt :: "instant option"
  wc_revokedAt :: "instant option"
  wc_createdAt :: instant

record channel_state =
  bindings :: "channel_binding list"
  conversations :: "channel_conversation list"
  inbox :: "inbox_item list"
  outbox :: "outbox_item list"
  receipts :: "delivery_receipt list"
  health :: "health_observation list"
  dead_letters :: "dead_letter list"
  credentials :: "worker_credential list"

definition empty_channels :: channel_state where
  "empty_channels = \<lparr>bindings = [], conversations = [], inbox = [], outbox = [], receipts = [],
     health = [], dead_letters = [], credentials = []\<rparr>"

text \<open>\<open>!x || item.y === x\<close> for an optional input field.\<close>

definition unset_or_eq :: "ident option \<Rightarrow> ident \<Rightarrow> bool" where
  "unset_or_eq x y \<longleftrightarrow> (case x of None \<Rightarrow> True | Some v \<Rightarrow> v = [] \<or> y = v)"

section \<open>Bindings\<close>

record binding_input =
  bi_id :: "ident option"
  bi_org :: ident
  bi_user :: ident
  bi_agent :: ident
  bi_channel :: string
  bi_displayName :: string
  bi_status :: "string option"
  bi_envelope :: "json option"
  bi_hint :: "string option"
  bi_metadata :: "json option"
  bi_lastErrorCode :: "string option"

definition listAgentChannelBindings :: "ident \<Rightarrow> ident \<Rightarrow> ident \<Rightarrow> channel_state \<Rightarrow> channel_binding list" where
  "listAgentChannelBindings org user agent s =
     filter (\<lambda>b. cb_org b = org \<and> cb_user b = user \<and> cb_agent b = agent) (bindings s)"

definition getAgentChannelBinding ::
  "ident \<Rightarrow> ident \<Rightarrow> ident \<Rightarrow> string \<Rightarrow> channel_state \<Rightarrow> channel_binding option" where
  "getAgentChannelBinding org user agent channel s =
     List.find (\<lambda>b. cb_org b = org \<and> cb_user b = user \<and> cb_agent b = agent \<and> cb_channel b = channel)
       (bindings s)"

definition upsertAgentChannelBinding ::
  "env \<Rightarrow> binding_input \<Rightarrow> channel_state \<Rightarrow> channel_binding \<times> channel_state" where
  "upsertAgentChannelBinding e i s =
     (let same = (\<lambda>b. cb_agent b = bi_agent i \<and> cb_channel b = bi_channel i);
          existing = List.find same (bindings s);
          now = clock e;
          value = \<lparr>
            cb_id = or_else (or_opt (map_option cb_id existing) (bi_id i)) (uuid e 0),
            cb_org = bi_org i, cb_user = bi_user i, cb_agent = bi_agent i, cb_channel = bi_channel i,
            cb_displayName = bi_displayName i, cb_status = or_else (bi_status i) ''pending'',
            cb_envelope = or_opt (bi_envelope i) (Option.bind existing cb_envelope),
            cb_hint = or_opt (bi_hint i) (Option.bind existing cb_hint),
            cb_metadata = or_else (bi_metadata i) (JObj []),
            cb_generation = or_else (map_option cb_generation existing) 0
              + (if bi_envelope i \<noteq> None then 1 else 0),
            cb_capabilities = (if bi_envelope i \<noteq> None then []
              else or_else (map_option cb_capabilities existing) []),
            cb_adapterVersion = (if bi_envelope i \<noteq> None then None
              else Option.bind existing cb_adapterVersion),
            cb_lastErrorCode = bi_lastErrorCode i,
            cb_lastSeenAt = Option.bind existing cb_lastSeenAt,
            cb_lastHealthAt = (if bi_envelope i \<noteq> None then None
              else Option.bind existing cb_lastHealthAt),
            cb_lastInboundAt = Option.bind existing cb_lastInboundAt,
            cb_lastOutboundAt = Option.bind existing cb_lastOutboundAt,
            cb_createdAt = or_else (map_option cb_createdAt existing) now,
            cb_updatedAt = now\<rparr>
      in (value,
          if existing \<noteq> None then s\<lparr>bindings := upd_first same (\<lambda>_. value) (bindings s)\<rparr>
          else s\<lparr>bindings := bindings s @ [value]\<rparr>))"

definition deleteAgentChannelBinding ::
  "ident \<Rightarrow> ident \<Rightarrow> ident \<Rightarrow> string \<Rightarrow> channel_state \<Rightarrow> bool \<times> channel_state" where
  "deleteAgentChannelBinding org user agent channel s =
     (let same = (\<lambda>b. cb_org b = org \<and> cb_user b = user \<and> cb_agent b = agent \<and> cb_channel b = channel)
      in if List.find same (bindings s) = None then (False, s)
         else (True, s\<lparr>bindings := remove_first same (bindings s)\<rparr>))"

definition getChannelBindingById :: "ident \<Rightarrow> channel_state \<Rightarrow> channel_binding option" where
  "getChannelBindingById i s = List.find (\<lambda>b. cb_id b = i) (bindings s)"

definition listChannelBindings :: "ident option \<Rightarrow> channel_state \<Rightarrow> channel_binding list" where
  "listChannelBindings org s = filter (\<lambda>b. unset_or_eq org (cb_org b)) (bindings s)"

definition listChannelBindingsForWorker ::
  "string list \<Rightarrow> string list \<Rightarrow> ident option \<Rightarrow> channel_state \<Rightarrow> channel_binding list" where
  "listChannelBindingsForWorker channels allowed org s =
     (let wanted = filter (\<lambda>c. c \<in> set allowed) channels
      in filter (\<lambda>b. cb_channel b \<in> set wanted \<and> cb_envelope b \<noteq> None \<and>
             cb_status b \<notin> {''disabled'', ''unconfigured'', ''unavailable''} \<and> unset_or_eq org (cb_org b))
           (bindings s))"

section \<open>Worker credentials\<close>

record credential_input =
  ci_id :: "ident option"
  ci_worker :: ident
  ci_org :: "ident option"
  ci_channels :: "string list option"
  ci_keyHash :: string
  ci_keyHint :: string
  ci_createdBy :: "ident option"
  ci_expiresAt :: "instant option"

definition createChannelWorkerCredential ::
  "env \<Rightarrow> credential_input \<Rightarrow> channel_state \<Rightarrow> worker_credential \<times> channel_state" where
  "createChannelWorkerCredential e i s =
     (let active = (\<lambda>c. wc_worker c = ci_worker i \<and> wc_status c = ''active'');
          fresh = \<lparr>wc_id = or_else (ci_id i) (uuid e 0), wc_worker = ci_worker i, wc_org = ci_org i,
            wc_channels = or_else (ci_channels i) [''feishu'', ''wechat'', ''qq''],
            wc_keyHash = ci_keyHash i, wc_keyHint = ci_keyHint i, wc_status = ''active'',
            wc_createdBy = ci_createdBy i, wc_expiresAt = ci_expiresAt i, wc_revokedAt = None,
            wc_createdAt = clock e\<rparr>
      in case find_last active (credentials s) of
           None \<Rightarrow> (fresh, s\<lparr>credentials := credentials s @ [fresh]\<rparr>)
         | Some current \<Rightarrow>
             if wc_keyHash current = ci_keyHash i \<and> wc_org current = ci_org i then (current, s)
             else (fresh, s\<lparr>credentials :=
               upd_last active (\<lambda>c. c\<lparr>wc_status := ''revoked'', wc_revokedAt := Some (clock e)\<rparr>)
                 (credentials s) @ [fresh]\<rparr>))"

definition getActiveChannelWorkerCredential ::
  "env \<Rightarrow> ident \<Rightarrow> channel_state \<Rightarrow> worker_credential option" where
  "getActiveChannelWorkerCredential e worker s =
     find_last (\<lambda>c. wc_worker c = worker \<and> wc_status c = ''active'' \<and>
       (case wc_expiresAt c of None \<Rightarrow> True | Some t \<Rightarrow> t > clock e)) (credentials s)"

section \<open>Ingress\<close>

record ingress_input =
  ii_id :: "ident option"
  ii_binding :: ident
  ii_agent :: ident
  ii_channel :: string
  ii_account :: ident
  ii_external :: ident
  ii_sender :: sender_ref
  ii_conversation :: conversation_ref
  ii_content :: json
  ii_attachments :: "json list"
  ii_replyTo :: "ident option"
  ii_trace :: json
  ii_maxAttempts :: "int option"
  ii_receivedAt :: instant

datatype ingress_status = Accepted | Duplicate

definition new_inbox_item :: "env \<Rightarrow> ingress_input \<Rightarrow> channel_binding \<Rightarrow> inbox_item" where
  "new_inbox_item e i b =
     \<lparr>j_id = or_else (ii_id i) (uuid e 0), j_org = cb_org b, j_user = cb_user b, j_agent = cb_agent b,
      j_state = Pending, j_attempts = 0, j_availableAt = clock e, j_leaseToken = None,
      j_leaseExpiresAt = None, j_lastErrorCode = None, j_createdAt = clock e, j_updatedAt = clock e,
      ib_binding = cb_id b, ib_channel = cb_channel b, ib_account = ii_account i,
      ib_external = ii_external i, ib_sender = ii_sender i, ib_conversation = ii_conversation i,
      ib_content = ii_content i, ib_attachments = ii_attachments i, ib_replyTo = ii_replyTo i,
      ib_trace = ii_trace i, ib_maxAttempts = or_else (ii_maxAttempts i) 8,
      ib_receivedAt = ii_receivedAt i, ib_completedAt = None\<rparr>"

definition acceptChannelIngress ::
  "env \<Rightarrow> ingress_input \<Rightarrow> channel_state \<Rightarrow> (ingress_status \<times> channel_binding \<times> inbox_item) option \<times> channel_state" where
  "acceptChannelIngress e i s =
     (let here = (\<lambda>b. cb_id b = ii_binding i \<and> cb_agent b = ii_agent i \<and> cb_channel b = ii_channel i)
      in case List.find here (bindings s) of
           None \<Rightarrow> (None, s)
         | Some b \<Rightarrow>
             if cb_status b = ''disabled'' \<or> cb_status b = ''unconfigured'' then (None, s)
             else
               (case List.find (\<lambda>x. ib_binding x = cb_id b \<and> ib_external x = ii_external i) (inbox s) of
                  Some d \<Rightarrow> (Some (Duplicate, b, d), s)
                | None \<Rightarrow>
                    (let item = new_inbox_item e i b;
                         seen = (\<lambda>b. b\<lparr>cb_lastInboundAt := Some (ii_receivedAt i),
                                      cb_lastSeenAt := Some (ii_receivedAt i), cb_updatedAt := clock e\<rparr>)
                     in (Some (Accepted, seen b, item),
                         s\<lparr>inbox := inbox s @ [item], bindings := upd_first here seen (bindings s)\<rparr>))))"

record conversation_input =
  vi_id :: "ident option"
  vi_org :: ident
  vi_user :: ident
  vi_agent :: ident
  vi_binding :: ident
  vi_channel :: string
  vi_conversation :: ident
  vi_kind :: string
  vi_runtime :: "ident option"
  vi_lastMessageAt :: "instant option"

definition ensureChannelConversation ::
  "env \<Rightarrow> conversation_input \<Rightarrow> channel_state \<Rightarrow> channel_conversation \<times> channel_state" where
  "ensureChannelConversation e i s =
     (let same = (\<lambda>c. cc_binding c = vi_binding i \<and> cc_conversation c = vi_conversation i);
          touch = (\<lambda>c. c\<lparr>cc_kind := vi_kind i, cc_lastMessageAt := or_else (vi_lastMessageAt i) (clock e),
                        cc_updatedAt := clock e\<rparr>)
      in case List.find same (conversations s) of
           Some c \<Rightarrow> (touch c, s\<lparr>conversations := upd_first same touch (conversations s)\<rparr>)
         | None \<Rightarrow>
             (let c = \<lparr>cc_id = or_else (vi_id i) (uuid e 0), cc_org = vi_org i, cc_user = vi_user i,
                   cc_agent = vi_agent i, cc_binding = vi_binding i, cc_channel = vi_channel i,
                   cc_conversation = vi_conversation i, cc_kind = vi_kind i,
                   cc_runtime = or_else (vi_runtime i) (uuid e 1),
                   cc_lastMessageAt = or_else (vi_lastMessageAt i) (clock e),
                   cc_createdAt = clock e, cc_updatedAt = clock e\<rparr>
              in (c, s\<lparr>conversations := conversations s @ [c]\<rparr>)))"

record lease_input =
  li_limit :: "int option"
  li_seconds :: "int option"
  li_leaseId :: "ident option"

definition lease_seconds :: "lease_input \<Rightarrow> int" where
  "lease_seconds i = clamp_num 5 300 60 (li_seconds i)"

definition lease_limit :: "lease_input \<Rightarrow> nat" where
  "lease_limit i = nat (clamp_num 1 100 10 (li_limit i))"

text \<open>
  The item is waiting and due, or its lease has run out; and attempts are left. An absent expiry
  parses to \<open>NaN\<close>, which is before nothing.
\<close>

definition claimable :: "instant \<Rightarrow> int \<Rightarrow> 'a job_scheme \<Rightarrow> bool" where
  "claimable now maxAttempts j \<longleftrightarrow>
     j_attempts j < maxAttempts \<and>
     ((j_state j = Pending \<or> j_state j = Retry) \<and> j_availableAt j \<le> now \<or>
      j_state j = Leased \<and> (case j_leaseExpiresAt j of None \<Rightarrow> False | Some t \<Rightarrow> t < now))"

definition take_lease :: "instant \<Rightarrow> int \<Rightarrow> ident \<Rightarrow> 'a job_scheme \<Rightarrow> 'a job_scheme" where
  "take_lease now seconds leaseId j =
     j\<lparr>j_state := Leased, j_attempts := j_attempts j + 1,
       j_leaseToken := Some (leaseId @ '':'' @ j_id j),
       j_leaseExpiresAt := Some (now + seconds * 1000), j_updatedAt := now\<rparr>"

definition leaseChannelIngress ::
  "env \<Rightarrow> lease_input \<Rightarrow> channel_state \<Rightarrow> inbox_item list \<times> channel_state" where
  "leaseChannelIngress e i s =
     (let leaseId = or_else (li_leaseId i) (uuid e 0);
          refs = select_refs (\<lambda>x. claimable (clock e) (ib_maxAttempts x) x) ib_receivedAt
                   (lease_limit i) (inbox s);
          items = assign_refs (take_lease (clock e) (lease_seconds i) leaseId) refs (inbox s)
      in (map ((!) items) refs, s\<lparr>inbox := items\<rparr>))"

record outbound_input =
  oi_id :: "ident option"
  oi_conversation :: "conversation_ref option"
  oi_content :: json
  oi_attachments :: "json list"
  oi_replyTo :: "ident option"
  oi_trace :: "json option"
  oi_maxAttempts :: "int option"

definition holds_lease :: "ident \<Rightarrow> ident \<Rightarrow> 'a job_scheme \<Rightarrow> bool" where
  "holds_lease i token j \<longleftrightarrow> j_id j = i \<and> j_state j = Leased \<and> j_leaseToken j = Some token"

definition new_outbox_item ::
  "env \<Rightarrow> outbound_input \<Rightarrow> inbox_item \<Rightarrow> channel_conversation \<Rightarrow> outbox_item" where
  "new_outbox_item e o_in x c =
     \<lparr>j_id = or_else (oi_id o_in) (uuid e 0), j_org = j_org x, j_user = j_user x, j_agent = j_agent x,
      j_state = Pending, j_attempts = 0, j_availableAt = clock e, j_leaseToken = None,
      j_leaseExpiresAt = None, j_lastErrorCode = None, j_createdAt = clock e, j_updatedAt = clock e,
      ob_binding = ib_binding x, ob_inbox = j_id x, ob_channel = ib_channel x, ob_account = ib_account x,
      ob_conversation = (or_else (oi_conversation o_in) (ib_conversation x))\<lparr>cr_runtime := Some (cc_runtime c)\<rparr>,
      ob_content = oi_content o_in, ob_attachments = oi_attachments o_in,
      ob_replyTo = or_else (oi_replyTo o_in) (ib_external x), ob_trace = or_else (oi_trace o_in) (ib_trace x),
      ob_maxAttempts = or_else (oi_maxAttempts o_in) 8, ob_worker = None, ob_messageId = None,
      ob_deliveredAt = None\<rparr>"

definition finish_inbox :: "instant \<Rightarrow> inbox_item \<Rightarrow> inbox_item" where
  "finish_inbox now x =
     x\<lparr>j_state := Completed, j_leaseToken := None, j_leaseExpiresAt := None, j_lastErrorCode := None,
       j_updatedAt := now, ib_completedAt := Some now\<rparr>"

definition completeChannelIngress ::
  "env \<Rightarrow> ident \<Rightarrow> ident \<Rightarrow> outbound_input option \<Rightarrow> channel_state \<Rightarrow>
     (failure + (inbox_item \<times> outbox_item option) option) \<times> channel_state" where
  "completeChannelIngress e i token outbound s =
     (case List.find (holds_lease i token) (inbox s) of
        None \<Rightarrow> (Inr None, s)
      | Some x \<Rightarrow>
          (let existing = List.find (\<lambda>y. ob_inbox y = j_id x) (outbox s);
               done = upd_first (holds_lease i token) (finish_inbox (clock e)) (inbox s)
           in case (outbound, existing) of
                (Some o_in, None) \<Rightarrow>
                  (case List.find (\<lambda>c. cc_binding c = ib_binding x \<and>
                           cc_conversation c = cr_conversation (ib_conversation x)) (conversations s) of
                     None \<Rightarrow> (Inl (CodedError ''channel_conversation_scope_unavailable'' None), s)
                   | Some c \<Rightarrow>
                       (let y = new_outbox_item e o_in x c
                        in (Inr (Some (finish_inbox (clock e) x, Some y)),
                            s\<lparr>outbox := outbox s @ [y], inbox := done\<rparr>)))
              | _ \<Rightarrow> (Inr (Some (finish_inbox (clock e) x, existing)), s\<lparr>inbox := done\<rparr>)))"

definition bury :: "dead_letter \<Rightarrow> dead_letter list \<Rightarrow> dead_letter list" where
  "bury d ds =
     (if \<exists>x\<in>set ds. dl_direction x = dl_direction d \<and> dl_source x = dl_source d then ds else ds @ [d])"

definition failChannelIngress ::
  "env \<Rightarrow> ident \<Rightarrow> ident \<Rightarrow> string \<Rightarrow> instant option \<Rightarrow> channel_state \<Rightarrow> inbox_item option \<times> channel_state" where
  "failChannelIngress e i token errorCode availableAt s =
     (case List.find (holds_lease i token) (inbox s) of
        None \<Rightarrow> (None, s)
      | Some x \<Rightarrow>
          (let dead = (j_attempts x \<ge> ib_maxAttempts x);
               f = (\<lambda>x. x\<lparr>j_state := if dead then Dead else Retry,
                         j_availableAt := or_else availableAt (clock e), j_leaseToken := None,
                         j_leaseExpiresAt := None, j_lastErrorCode := Some errorCode,
                         j_updatedAt := clock e\<rparr>);
               letter = \<lparr>dl_id = uuid e 0, dl_org = j_org x, dl_agent = j_agent x, dl_binding = ib_binding x,
                         dl_direction = Inbound, dl_source = j_id x, dl_attempts = j_attempts x,
                         dl_errorCode = errorCode, dl_deadAt = clock e\<rparr>
           in (Some (f x),
               s\<lparr>inbox := upd_first (holds_lease i token) f (inbox s),
                 dead_letters := if dead then bury letter (dead_letters s) else dead_letters s\<rparr>)))"

section \<open>Delivery\<close>

record delivery_lease_input = lease_input +
  dli_agent :: "ident option"
  dli_org :: "ident option"
  dli_channels :: "string list"
  dli_bindings :: "ident list"
  dli_worker :: ident

definition deliverable :: "instant \<Rightarrow> delivery_lease_input \<Rightarrow> outbox_item \<Rightarrow> bool" where
  "deliverable now i y \<longleftrightarrow>
     unset_or_eq (dli_agent i) (j_agent y) \<and> unset_or_eq (dli_org i) (j_org y) \<and>
     ob_channel y \<in> set (dli_channels i) \<and>
     (dli_bindings i = [] \<or> ob_binding y \<in> set (dli_bindings i)) \<and>
     claimable now (ob_maxAttempts y) y"

definition leaseChannelDeliveries ::
  "env \<Rightarrow> delivery_lease_input \<Rightarrow> channel_state \<Rightarrow> (ident \<times> outbox_item list) \<times> channel_state" where
  "leaseChannelDeliveries e i s =
     (let leaseId = or_else (li_leaseId i) (uuid e 0);
          refs = select_refs (deliverable (clock e) i) j_availableAt
                   (nat (clamp_num 1 100 10 (li_limit i))) (outbox s);
          items = assign_refs (\<lambda>y. (take_lease (clock e) (clamp_num 5 300 60 (li_seconds i)) leaseId y)
                                     \<lparr>ob_worker := Some (dli_worker i)\<rparr>) refs (outbox s)
      in ((leaseId, map ((!) items) refs), s\<lparr>outbox := items\<rparr>))"

definition getChannelOutboundById :: "ident \<Rightarrow> channel_state \<Rightarrow> outbox_item option" where
  "getChannelOutboundById i s = List.find (\<lambda>y. j_id y = i) (outbox s)"

record receipt_input =
  ri_id :: "ident option"
  ri_outbound :: ident
  ri_binding :: ident
  ri_agent :: ident
  ri_worker :: "ident option"
  ri_token :: ident
  ri_attempt :: int
  ri_status :: string
  ri_messageId :: "ident option"
  ri_errorCode :: "string option"
  ri_retryAfterMs :: "int option"
  ri_observedAt :: instant

text \<open>\<open>input.workerId && value !== input.workerId\<close>.\<close>

definition other_worker :: "ident option \<Rightarrow> ident option \<Rightarrow> bool" where
  "other_worker given actual \<longleftrightarrow>
     (case given of None \<Rightarrow> False | Some w \<Rightarrow> w \<noteq> [] \<and> actual \<noteq> Some w)"

definition next_delivery_state :: "string \<Rightarrow> bool \<Rightarrow> job_state" where
  "next_delivery_state status exhausted =
     (if status = ''delivered'' then Delivered
      else if status = ''retryable'' \<and> \<not> exhausted then Retry
      else if status = ''retryable'' then Dead
      else Failed)"

definition receipt_matches :: "receipt_input \<Rightarrow> outbox_item \<Rightarrow> bool" where
  "receipt_matches i y \<longleftrightarrow>
     j_id y = ri_outbound i \<and> ob_binding y = ri_binding i \<and> j_agent y = ri_agent i \<and>
     \<not> other_worker (ri_worker i) (ob_worker y) \<and> j_state y = Leased \<and>
     j_leaseToken y = Some (ri_token i) \<and> j_attempts y = ri_attempt i"

definition settle_outbox :: "instant \<Rightarrow> receipt_input \<Rightarrow> job_state \<Rightarrow> outbox_item \<Rightarrow> outbox_item" where
  "settle_outbox now i next y =
     y\<lparr>j_state := next,
       j_availableAt := if next = Retry then now + max 0 (num_or (ri_retryAfterMs i) 0) else j_availableAt y,
       j_leaseToken := None, j_leaseExpiresAt := None, j_lastErrorCode := ri_errorCode i,
       j_updatedAt := now, ob_worker := None,
       ob_messageId := or_opt (ri_messageId i) (ob_messageId y),
       ob_deliveredAt := if next = Delivered then Some (ri_observedAt i) else ob_deliveredAt y\<rparr>"

definition recordChannelDeliveryReceipt ::
  "env \<Rightarrow> receipt_input \<Rightarrow> channel_state \<Rightarrow>
     (failure + (delivery_receipt \<times> outbox_item option) option) \<times> channel_state" where
  "recordChannelDeliveryReceipt e i s =
     (case List.find (\<lambda>r. dr_outbound r = ri_outbound i \<and> dr_attempt r = ri_attempt i) (receipts s) of
        Some previous \<Rightarrow>
          if other_worker (ri_worker i) (dr_worker previous) \<or> dr_status previous \<noteq> ri_status i
          then (Inl (CodedError ''channel_receipt_conflict'' (Some 409)), s)
          else (Inr (Some (previous, List.find (\<lambda>y. j_id y = ri_outbound i) (outbox s))), s)
      | None \<Rightarrow>
          (case List.find (receipt_matches i) (outbox s) of
             None \<Rightarrow> (Inr None, s)
           | Some y \<Rightarrow>
               (let next = next_delivery_state (ri_status i) (j_attempts y \<ge> ob_maxAttempts y);
                    receipt = \<lparr>dr_id = or_else (ri_id i) (uuid e 0), dr_outbound = j_id y,
                      dr_binding = ob_binding y, dr_worker = ob_worker y, dr_attempt = ri_attempt i,
                      dr_status = ri_status i, dr_messageId = ri_messageId i,
                      dr_errorCode = ri_errorCode i, dr_observedAt = ri_observedAt i\<rparr>;
                    letter = \<lparr>dl_id = uuid e 1, dl_org = j_org y, dl_agent = j_agent y,
                      dl_binding = ob_binding y, dl_direction = Outbound, dl_source = j_id y,
                      dl_attempts = j_attempts y, dl_errorCode = or_else (ri_errorCode i) ''delivery_failed'',
                      dl_deadAt = clock e\<rparr>
                in (Inr (Some (receipt, Some (settle_outbox (clock e) i next y))),
                    s\<lparr>receipts := receipts s @ [receipt],
                      outbox := upd_first (receipt_matches i) (settle_outbox (clock e) i next) (outbox s),
                      dead_letters := if next \<in> {Dead, Failed} then bury letter (dead_letters s)
                        else dead_letters s,
                      bindings := if next = Delivered
                        then upd_first (\<lambda>b. cb_id b = ob_binding y)
                          (\<lambda>b. b\<lparr>cb_lastOutboundAt := Some (ri_observedAt i),
                                cb_lastSeenAt := Some (ri_observedAt i), cb_updatedAt := clock e\<rparr>) (bindings s)
                        else bindings s\<rparr>))))"

section \<open>Health reports\<close>

record health_input =
  hi_id :: "ident option"
  hi_binding :: ident
  hi_agent :: ident
  hi_channel :: string
  hi_worker :: ident
  hi_sequence :: int
  hi_status :: string
  hi_capabilities :: "string list"
  hi_adapterVersion :: "string option"
  hi_latencyMs :: "int option"
  hi_lastInboundAt :: "instant option"
  hi_lastOutboundAt :: "instant option"
  hi_errorCode :: "string option"
  hi_observedAt :: instant

definition saveChannelHealthReport ::
  "env \<Rightarrow> health_input \<Rightarrow> channel_state \<Rightarrow> (health_observation \<times> channel_binding) option \<times> channel_state" where
  "saveChannelHealthReport e i s =
     (let here = (\<lambda>b. cb_id b = hi_binding i \<and> cb_agent b = hi_agent i \<and> cb_channel b = hi_channel i)
      in case List.find here (bindings s) of
           None \<Rightarrow> (None, s)
         | Some b \<Rightarrow>
             (let found = List.find (\<lambda>h. ho_binding h = cb_id b \<and> ho_worker h = hi_worker i \<and>
                    ho_sequence h = hi_sequence i) (health s);
                  fresh = \<lparr>ho_id = or_else (hi_id i) (uuid e 0), ho_org = cb_org b, ho_agent = cb_agent b,
                    ho_binding = cb_id b, ho_channel = cb_channel b, ho_worker = hi_worker i,
                    ho_sequence = hi_sequence i, ho_status = hi_status i,
                    ho_capabilities = hi_capabilities i, ho_adapterVersion = hi_adapterVersion i,
                    ho_latencyMs = hi_latencyMs i, ho_lastInboundAt = hi_lastInboundAt i,
                    ho_lastOutboundAt = hi_lastOutboundAt i, ho_errorCode = hi_errorCode i,
                    ho_observedAt = hi_observedAt i, ho_createdAt = clock e\<rparr>;
                  current = (case cb_lastHealthAt b of None \<Rightarrow> True | Some t \<Rightarrow> t \<le> hi_observedAt i);
                  refresh = (\<lambda>b. b\<lparr>cb_status := hi_status i, cb_capabilities := hi_capabilities i,
                    cb_adapterVersion := hi_adapterVersion i, cb_lastErrorCode := hi_errorCode i,
                    cb_lastHealthAt := Some (hi_observedAt i),
                    cb_lastSeenAt := if hi_status i = ''connected'' then Some (hi_observedAt i)
                      else cb_lastSeenAt b,
                    cb_lastInboundAt := or_opt (hi_lastInboundAt i) (cb_lastInboundAt b),
                    cb_lastOutboundAt := or_opt (hi_lastOutboundAt i) (cb_lastOutboundAt b),
                    cb_updatedAt := clock e\<rparr>)
              in (Some (or_else found fresh, if current then refresh b else b),
                  s\<lparr>health := if found = None then health s @ [fresh] else health s,
                    bindings := if current then upd_first here refresh (bindings s) else bindings s\<rparr>)))"

lemmas channel_op_defs [store_defs] =
  upsertAgentChannelBinding_def deleteAgentChannelBinding_def acceptChannelIngress_def
  ensureChannelConversation_def leaseChannelIngress_def completeChannelIngress_def
  failChannelIngress_def leaseChannelDeliveries_def recordChannelDeliveryReceipt_def
  saveChannelHealthReport_def createChannelWorkerCredential_def

end
