(* ===== verification/Channel_Invariants.thy ===== *)
theory Channel_Invariants
  imports Channel_Store
begin

text \<open>
  The channel bridge as a transition system: one rule of \<open>channel_step\<close> per operation of the
  repository, the invariant of the store, and its preservation. Identifiers are drawn at random by
  the code, so the rules that add an item ask for an identifier not in use. \<open>queue_moves\<close> is the
  refinement to the abstract life cycle of \<open>Lease_Queue\<close>: every operation moves each item by one
  \<open>job_move\<close> and appends fresh pending items.
\<close>

section \<open>Steps of the store\<close>

inductive channel_step :: "channel_state \<Rightarrow> channel_state \<Rightarrow> bool" where
  bind: "channel_step s (snd (upsertAgentChannelBinding e bi s))"
| unbind: "channel_step s (snd (deleteAgentChannelBinding org user agent channel s))"
| credential: "channel_step s (snd (createChannelWorkerCredential e wci s))"
| accept: "or_else (ii_id ii) (uuid e 0) \<notin> j_id ` set (inbox s) \<Longrightarrow>
    channel_step s (snd (acceptChannelIngress e ii s))"
| conversation: "channel_step s (snd (ensureChannelConversation e vi s))"
| lease_ingress: "channel_step s (snd (leaseChannelIngress e li s))"
| complete: "(\<And>o_in. outbound = Some o_in \<Longrightarrow> or_else (oi_id o_in) (uuid e 0) \<notin> j_id ` set (outbox s)) \<Longrightarrow>
    channel_step s (snd (completeChannelIngress e i token outbound s))"
| fail: "channel_step s (snd (failChannelIngress e i token code at s))"
| lease_deliveries: "channel_step s (snd (leaseChannelDeliveries e dli s))"
| receipt: "channel_step s (snd (recordChannelDeliveryReceipt e ri s))"
| report: "channel_step s (snd (saveChannelHealthReport e hi s))"

inductive_cases channel_stepE: "channel_step s t"

section \<open>The invariant\<close>

definition inbox_wf :: "inbox_item list \<Rightarrow> bool" where
  "inbox_wf xs \<longleftrightarrow>
     distinct (map j_id xs) \<and> distinct (map (\<lambda>x. (ib_binding x, ib_external x)) xs) \<and>
     (\<forall>x\<in>set xs. job_ok Leased ib_maxAttempts x \<and> j_state x \<in> {Pending, Retry, Leased, Completed, Dead})"

definition outbox_wf :: "outbox_item list \<Rightarrow> bool" where
  "outbox_wf ys \<longleftrightarrow>
     distinct (map j_id ys) \<and> distinct (map ob_inbox ys) \<and>
     (\<forall>y\<in>set ys. job_ok Leased ob_maxAttempts y \<and> j_state y \<in> {Pending, Retry, Leased, Delivered, Failed, Dead})"

definition letter_key :: "dead_letter \<Rightarrow> direction \<times> ident" where
  "letter_key d = (dl_direction d, dl_source d)"

text \<open>Exactly the items that died have a dead letter, and one each.\<close>

definition letters_wf :: "inbox_item list \<Rightarrow> outbox_item list \<Rightarrow> dead_letter list \<Rightarrow> bool" where
  "letters_wf xs ys ds \<longleftrightarrow>
     distinct (map letter_key ds) \<and>
     (\<forall>d\<in>set ds. case letter_key d of (Inbound, i) \<Rightarrow> i \<in> j_id ` set xs | (Outbound, i) \<Rightarrow> i \<in> j_id ` set ys) \<and>
     (\<forall>x\<in>set xs. j_state x = Dead \<longleftrightarrow> (Inbound, j_id x) \<in> letter_key ` set ds) \<and>
     (\<forall>y\<in>set ys. j_state y \<in> {Dead, Failed} \<longleftrightarrow> (Outbound, j_id y) \<in> letter_key ` set ds)"

text \<open>A receipt belongs to a finished attempt; a delivered receipt to a delivered item.\<close>

definition receipt_fits :: "delivery_receipt \<Rightarrow> outbox_item \<Rightarrow> bool" where
  "receipt_fits r y \<longleftrightarrow> j_id y = dr_outbound r \<and> dr_attempt r \<le> j_attempts y \<and>
     (dr_attempt r = j_attempts y \<longrightarrow> j_state y \<noteq> Leased) \<and>
     (dr_status r = ''delivered'' \<longrightarrow> dr_attempt r = j_attempts y \<and> j_state y = Delivered)"

definition receipts_wf :: "outbox_item list \<Rightarrow> delivery_receipt list \<Rightarrow> bool" where
  "receipts_wf ys rs \<longleftrightarrow> distinct (map (\<lambda>r. (dr_outbound r, dr_attempt r)) rs) \<and>
     (\<forall>r\<in>set rs. \<exists>y\<in>set ys. receipt_fits r y) \<and>
     (\<forall>y\<in>set ys. j_state y = Delivered \<longrightarrow> (\<exists>r\<in>set rs. dr_outbound r = j_id y \<and> dr_status r = ''delivered''))"

definition channel_inv :: "channel_state \<Rightarrow> bool" where
  "channel_inv s \<longleftrightarrow> inbox_wf (inbox s) \<and> outbox_wf (outbox s) \<and>
     letters_wf (inbox s) (outbox s) (dead_letters s) \<and> receipts_wf (outbox s) (receipts s)"

lemma channel_inv_empty: "channel_inv empty_channels"
  by (simp add: channel_inv_def empty_channels_def inbox_wf_def outbox_wf_def letters_wf_def receipts_wf_def)

section \<open>How the items of a queue move\<close>

definition queue_moves :: "('x job_scheme \<Rightarrow> int) \<Rightarrow> 'x job_scheme list \<Rightarrow> 'x job_scheme list \<Rightarrow> bool" where
  "queue_moves limit xs ys \<longleftrightarrow>
     (\<exists>zs ns. ys = zs @ ns \<and> list_all2 (job_move Leased limit) xs zs \<and>
        (\<forall>n\<in>set ns. j_state n = Pending \<and> j_attempts n = 0 \<and> j_leaseToken n = None \<and>
           j_leaseExpiresAt n = None \<and> j_id n \<notin> j_id ` set xs) \<and> distinct (map j_id ns))"

lemma queue_moves_refl [intro!]: "queue_moves limit xs xs"
  unfolding queue_moves_def by (rule exI [of _ xs]) (simp add: list_all2_same job_move.stay)

lemma queue_moves_same: "list_all2 (job_move Leased limit) xs zs \<Longrightarrow> queue_moves limit xs zs"
  unfolding queue_moves_def by (rule exI [of _ zs]) simp

lemma queue_moves_snoc:
  "j_state n = Pending \<Longrightarrow> j_attempts n = 0 \<Longrightarrow> j_leaseToken n = None \<Longrightarrow> j_leaseExpiresAt n = None \<Longrightarrow>
    j_id n \<notin> j_id ` set xs \<Longrightarrow> queue_moves limit xs (xs @ [n])"
  unfolding queue_moves_def
  by (rule exI [of _ xs], rule exI [of _ "[n]"]) (simp add: list_all2_same job_move.stay)

lemma list_all2_lookup:
  assumes "list_all2 (job_move h limit) xs zs" and "lookup i xs = Some x"
  shows "\<exists>y. lookup i zs = Some y \<and> job_move h limit x y"
proof -
  have id: "j_id b = j_id a" if "job_move h limit a b" for a b using that by cases auto
  show ?thesis using assms by (induction rule: list_all2_induct) (auto simp: id split: if_splits)
qed

lemma queue_moves_lookup:
  assumes "queue_moves limit xs ys" and "lookup i xs = Some x"
  shows "\<exists>y. lookup i ys = Some y \<and> job_move Leased limit x y"
proof -
  obtain zs ns where ys: "ys = zs @ ns" "list_all2 (job_move Leased limit) xs zs"
    using assms(1) unfolding queue_moves_def by blast
  show ?thesis using list_all2_lookup [OF ys(2) assms(2)] ys(1) by (auto simp: find_append)
qed

lemma take_lease_move:
  "claimable now (limit x) x \<Longrightarrow> limit (take_lease now secs l x) = limit x \<Longrightarrow>
    job_move Leased limit x (take_lease now secs l x)"
  by (rule job_move.claim) (auto simp: claimable_def take_lease_def)

lemma inbox_step_moves:
  assumes "channel_step s t"
  shows "queue_moves ib_maxAttempts (inbox s) (inbox t)"
  using assms
proof cases
  case (accept ii e)
  then show ?thesis
    by (auto simp: acceptChannelIngress_def Let_def new_inbox_item_def intro!: queue_moves_snoc
        split: option.splits)
next
  case (lease_ingress e li)
  have "job_move Leased ib_maxAttempts x (take_lease (clock e) n l x)"
    if "claimable (clock e) (ib_maxAttempts x) x" for n l and x :: inbox_item
    using that by (rule take_lease_move) (simp add: take_lease_def)
  then show ?thesis unfolding lease_ingress
    by (auto simp: leaseChannelIngress_def Let_def dest!: select_refs_mem
        intro!: queue_moves_same list_all2_assign_refs job_move.stay)
next
  case (complete outbound e i token)
  then show ?thesis
    by (auto simp: completeChannelIngress_def Let_def holds_lease_def finish_inbox_def
        intro!: queue_moves_same list_all2_upd_first job_move.stay job_move.settle split: option.splits)
next
  case (fail e i token code at)
  then show ?thesis
    by (auto simp: failChannelIngress_def Let_def holds_lease_def
        intro!: queue_moves_same list_all2_upd_first job_move.stay job_move.settle split: option.splits)
qed (auto simp: channel_op_defs Let_def split: option.splits)

lemma outbox_step_moves:
  assumes "channel_step s t"
  shows "queue_moves ob_maxAttempts (outbox s) (outbox t)"
  using assms
proof cases
  case (complete outbound e i token)
  then show ?thesis
    by (auto simp: completeChannelIngress_def Let_def new_outbox_item_def intro!: queue_moves_snoc
        split: option.splits)
next
  case (lease_deliveries e dli)
  have "job_move Leased ob_maxAttempts x ((take_lease (clock e) n l x)\<lparr>ob_worker := w\<rparr>)"
    if "deliverable (clock e) dli x" for n l w and x :: outbox_item
    using that by (intro job_move.claim) (auto simp: deliverable_def claimable_def take_lease_def)
  then show ?thesis unfolding lease_deliveries
    by (auto simp: leaseChannelDeliveries_def Let_def dest!: select_refs_mem
        intro!: queue_moves_same list_all2_assign_refs job_move.stay)
next
  case (receipt e ri)
  then show ?thesis
    by (auto simp: recordChannelDeliveryReceipt_def Let_def receipt_matches_def settle_outbox_def
        next_delivery_state_def intro!: queue_moves_same list_all2_upd_first job_move.stay job_move.settle
        split: option.splits)
qed (auto simp: channel_op_defs Let_def split: option.splits)


lemma job_move_id: "job_move h limit x y \<Longrightarrow> j_id y = j_id x"
  by (erule job_moveE) auto

lemma queue_moves_jobs:
  assumes "queue_moves limit xs ys" and "distinct (map j_id xs)" and "\<forall>x\<in>set xs. job_ok Leased limit x"
  shows "distinct (map j_id ys) \<and> (\<forall>y\<in>set ys. job_ok Leased limit y)"
proof -
  obtain zs ns where ys: "ys = zs @ ns" and moves: "list_all2 (job_move Leased limit) xs zs"
    and ns: "\<forall>n\<in>set ns. j_state n = Pending \<and> j_attempts n = 0 \<and> j_leaseToken n = None \<and>
      j_leaseExpiresAt n = None \<and> j_id n \<notin> j_id ` set xs" "distinct (map j_id ns)"
    using assms(1) unfolding queue_moves_def by blast
  have ids: "map j_id zs = map j_id xs"
    using moves by (induction rule: list_all2_induct) (auto dest: job_move_id)
  then have "j_id ` set zs = j_id ` set xs" by (metis list.set_map)
  moreover have "\<forall>z\<in>set zs. job_ok Leased limit z"
    using moves assms(3) by (induction rule: list_all2_induct) (auto intro: job_move_ok)
  moreover have "job_ok Leased limit n" if "n \<in> set ns" for n
    using ns(1) that by (auto simp: job_ok_def)
  moreover have "j_id n \<notin> j_id ` set xs" if "n \<in> set ns" for n using ns(1) that by simp
  then have "\<And>x n. x \<in> set xs \<Longrightarrow> n \<in> set ns \<Longrightarrow> j_id x \<noteq> j_id n" by (metis imageI)
  then have "j_id ` set xs \<inter> j_id ` set ns = {}" by blast
  ultimately show ?thesis using ys ids ns(2) assms(2) by auto
qed

text \<open>What the moves do not say: the deduplication keys and the states each queue uses.\<close>

lemma inbox_keys_step:
  assumes "channel_step s t" and "distinct (map (\<lambda>x. (ib_binding x, ib_external x)) (inbox s))"
    and "\<forall>x\<in>set (inbox s). j_state x \<in> {Pending, Retry, Leased, Completed, Dead}"
  shows "distinct (map (\<lambda>x. (ib_binding x, ib_external x)) (inbox t)) \<and>
    (\<forall>x\<in>set (inbox t). j_state x \<in> {Pending, Retry, Leased, Completed, Dead})"
  using assms(1)
proof cases
  case (accept ii e)
  then show ?thesis using assms(2,3)
    by (auto simp: acceptChannelIngress_def Let_def new_inbox_item_def find_None_all split: option.splits)
next
  case (lease_ingress e li)
  then show ?thesis using assms(2,3)
    by (auto simp: leaseChannelIngress_def Let_def map_assign_refs take_lease_def elim!: set_assign_refsE)
next
  case (complete outbound e i token)
  then show ?thesis using assms(2,3)
    by (auto simp: completeChannelIngress_def Let_def map_upd_first finish_inbox_def split: option.splits
        elim!: set_upd_firstE)
next
  case (fail e i token code at)
  then show ?thesis using assms(2,3)
    by (auto simp: failChannelIngress_def Let_def map_upd_first split: option.splits elim!: set_upd_firstE)
qed (use assms(2,3) in \<open>auto simp: channel_op_defs Let_def split: option.splits\<close>)

lemma outbox_keys_step:
  assumes "channel_step s t" and "distinct (map ob_inbox (outbox s))"
    and "\<forall>y\<in>set (outbox s). j_state y \<in> {Pending, Retry, Leased, Delivered, Failed, Dead}"
  shows "distinct (map ob_inbox (outbox t)) \<and>
    (\<forall>y\<in>set (outbox t). j_state y \<in> {Pending, Retry, Leased, Delivered, Failed, Dead})"
  using assms(1)
proof cases
  case (complete outbound e i token)
  then show ?thesis using assms(2,3)
    by (auto simp: completeChannelIngress_def Let_def new_outbox_item_def find_None_all split: option.splits)
next
  case (lease_deliveries e dli)
  then show ?thesis using assms(2,3)
    by (auto simp: leaseChannelDeliveries_def Let_def map_assign_refs take_lease_def elim!: set_assign_refsE)
next
  case (receipt e ri)
  then show ?thesis using assms(2,3)
    by (auto simp: recordChannelDeliveryReceipt_def Let_def map_upd_first settle_outbox_def
        next_delivery_state_def split: option.splits elim!: set_upd_firstE)
qed (use assms(2,3) in \<open>auto simp: channel_op_defs Let_def split: option.splits\<close>)

lemma inbox_wf_step: "channel_step s t \<Longrightarrow> inbox_wf (inbox s) \<Longrightarrow> inbox_wf (inbox t)"
  using queue_moves_jobs [OF inbox_step_moves] inbox_keys_step unfolding inbox_wf_def by blast

lemma outbox_wf_step: "channel_step s t \<Longrightarrow> outbox_wf (outbox s) \<Longrightarrow> outbox_wf (outbox t)"
  using queue_moves_jobs [OF outbox_step_moves] outbox_keys_step unfolding outbox_wf_def by blast

section \<open>Dead letters\<close>

lemma letter_key_letter [simp]:
  "letter_key \<lparr>dl_id = a, dl_org = b, dl_agent = c, dl_binding = d, dl_direction = dir, dl_source = i,
     dl_attempts = n, dl_errorCode = x, dl_deadAt = t\<rparr> = (dir, i)"
  by (simp add: letter_key_def)

lemma letter_key_bury: "letter_key ` set (bury d ds) = insert (letter_key d) (letter_key ` set ds)"
proof (cases "\<exists>x\<in>set ds. dl_direction x = dl_direction d \<and> dl_source x = dl_source d")
  case True
  then have "letter_key d \<in> letter_key ` set ds" by (auto simp: letter_key_def intro: rev_image_eqI)
  then show ?thesis using True by (simp add: bury_def insert_absorb)
next
  case False
  then show ?thesis by (simp add: bury_def if_not_P)
qed

lemma bury_distinct: "distinct (map letter_key ds) \<Longrightarrow> distinct (map letter_key (bury d ds))"
  by (auto simp: bury_def letter_key_def)

text \<open>The same condition over keys only, so that it survives any change that keeps ids and deaths.\<close>

definition letters_of :: "(ident \<times> bool) set \<Rightarrow> (ident \<times> bool) set \<Rightarrow> (direction \<times> ident) set \<Rightarrow> bool" where
  "letters_of xs ys ks \<longleftrightarrow>
     (\<forall>i. (Inbound, i) \<in> ks \<longrightarrow> i \<in> fst ` xs) \<and> (\<forall>i. (Outbound, i) \<in> ks \<longrightarrow> i \<in> fst ` ys) \<and>
     (\<forall>(i, dead)\<in>xs. dead \<longleftrightarrow> (Inbound, i) \<in> ks) \<and> (\<forall>(i, dead)\<in>ys. dead \<longleftrightarrow> (Outbound, i) \<in> ks)"

definition inbox_deaths :: "inbox_item list \<Rightarrow> (ident \<times> bool) set" where
  "inbox_deaths xs = (\<lambda>x. (j_id x, j_state x = Dead)) ` set xs"

definition outbox_deaths :: "outbox_item list \<Rightarrow> (ident \<times> bool) set" where
  "outbox_deaths ys = (\<lambda>y. (j_id y, j_state y \<in> {Dead, Failed})) ` set ys"

lemma letters_wf_alt:
  "letters_wf xs ys ds \<longleftrightarrow> distinct (map letter_key ds) \<and>
    letters_of (inbox_deaths xs) (outbox_deaths ys) (letter_key ` set ds)"
proof -
  have "(\<forall>d\<in>set ds. case letter_key d of (Inbound, i) \<Rightarrow> i \<in> j_id ` set xs | (Outbound, i) \<Rightarrow> i \<in> j_id ` set ys) \<longleftrightarrow>
      (\<forall>i. (Inbound, i) \<in> letter_key ` set ds \<longrightarrow> i \<in> j_id ` set xs) \<and>
      (\<forall>i. (Outbound, i) \<in> letter_key ` set ds \<longrightarrow> i \<in> j_id ` set ys)"
    by (fastforce split: direction.splits prod.splits simp: image_iff)
  then show ?thesis
    unfolding letters_wf_def letters_of_def inbox_deaths_def outbox_deaths_def by (simp add: image_image)
qed

lemma deaths_assign_lease:
  assumes "\<And>k. k \<in> set refs \<Longrightarrow> k < length xs \<Longrightarrow> j_state (xs ! k) \<noteq> Dead"
    and "\<And>x. j_id (f x) = j_id x" and "\<And>x. j_state (f x) = Leased"
  shows "inbox_deaths (assign_refs f refs xs) = inbox_deaths xs"
  unfolding inbox_deaths_def set_map [symmetric]
  by (subst map_assign_refs_same) (use assms in simp_all)

lemma deaths_assign_delivery:
  assumes "\<And>k. k \<in> set refs \<Longrightarrow> k < length ys \<Longrightarrow> j_state (ys ! k) \<notin> {Dead, Failed}"
    and "\<And>y. j_id (f y) = j_id y" and "\<And>y. j_state (f y) = Leased"
  shows "outbox_deaths (assign_refs f refs ys) = outbox_deaths ys"
  unfolding outbox_deaths_def set_map [symmetric]
  by (subst map_assign_refs_same) (use assms in simp_all)

lemma deaths_upd_first:
  assumes "distinct (map j_id xs)" and "List.find p xs = Some x" and "j_id (f x) = j_id x"
  shows "inbox_deaths (upd_first p f xs) =
    insert (j_id x, j_state (f x) = Dead) {(i, d) \<in> inbox_deaths xs. i \<noteq> j_id x}"
  unfolding inbox_deaths_def set_upd_first_distinct [OF assms(1,2)] using assms(3) by auto

lemma deaths_upd_delivery:
  assumes "distinct (map j_id ys)" and "List.find p ys = Some y" and "j_id (f y) = j_id y"
  shows "outbox_deaths (upd_first p f ys) =
    insert (j_id y, j_state (f y) \<in> {Dead, Failed}) {(i, d) \<in> outbox_deaths ys. i \<noteq> j_id y}"
  unfolding outbox_deaths_def set_upd_first_distinct [OF assms(1,2)] using assms(3) by auto

lemma letters_of_new:
  "letters_of xs ys ks \<Longrightarrow> i \<notin> fst ` xs \<Longrightarrow> letters_of (insert (i, False) xs) ys ks"
  "letters_of xs ys ks \<Longrightarrow> i \<notin> fst ` ys \<Longrightarrow> letters_of xs (insert (i, False) ys) ks"
  by (auto simp: letters_of_def)

lemma letters_of_death:
  assumes "letters_of xs ys ks" and "i \<in> fst ` xs" and "dead \<longleftrightarrow> (Inbound, i) \<in> ks'"
    and same: "\<And>k. k \<noteq> (Inbound, i) \<Longrightarrow> k \<in> ks' \<longleftrightarrow> k \<in> ks"
  shows "letters_of (insert (i, dead) {(j, d) \<in> xs. j \<noteq> i}) ys ks'"
proof -
  let ?new = "insert (i, dead) {(j, d) \<in> xs. j \<noteq> i}"
  have other: "(Outbound, j) \<in> ks' \<longleftrightarrow> (Outbound, j) \<in> ks" for j by (rule same) simp
  have here: "(Inbound, j) \<in> ks' \<longleftrightarrow> (Inbound, j) \<in> ks" if "j \<noteq> i" for j by (rule same) (simp add: that)
  have old: "\<forall>j. (Inbound, j) \<in> ks \<longrightarrow> j \<in> fst ` xs" "\<forall>j. (Outbound, j) \<in> ks \<longrightarrow> j \<in> fst ` ys"
    "\<forall>(j, d)\<in>xs. d \<longleftrightarrow> (Inbound, j) \<in> ks" "\<forall>(j, d)\<in>ys. d \<longleftrightarrow> (Outbound, j) \<in> ks"
    using assms(1) unfolding letters_of_def by blast+
  have "j \<in> fst ` ?new" if "(Inbound, j) \<in> ks'" for j
  proof (cases "j = i")
    case False
    then have "j \<in> fst ` xs" using that here old(1) by blast
    then show ?thesis using False by force
  qed simp
  moreover have "\<forall>(j, d)\<in>?new. d \<longleftrightarrow> (Inbound, j) \<in> ks'"
    using here old(3) assms(3) by blast
  moreover have "\<forall>j. (Outbound, j) \<in> ks' \<longrightarrow> j \<in> fst ` ys" "\<forall>(j, d)\<in>ys. d \<longleftrightarrow> (Outbound, j) \<in> ks'"
    using other old(2,4) by simp_all
  ultimately show ?thesis unfolding letters_of_def by blast
qed

lemma letters_of_death':
  assumes "letters_of xs ys ks" and "i \<in> fst ` ys" and "dead \<longleftrightarrow> (Outbound, i) \<in> ks'"
    and same: "\<And>k. k \<noteq> (Outbound, i) \<Longrightarrow> k \<in> ks' \<longleftrightarrow> k \<in> ks"
  shows "letters_of xs (insert (i, dead) {(j, d) \<in> ys. j \<noteq> i}) ks'"
proof -
  let ?new = "insert (i, dead) {(j, d) \<in> ys. j \<noteq> i}"
  have other: "(Inbound, j) \<in> ks' \<longleftrightarrow> (Inbound, j) \<in> ks" for j by (rule same) simp
  have here: "(Outbound, j) \<in> ks' \<longleftrightarrow> (Outbound, j) \<in> ks" if "j \<noteq> i" for j by (rule same) (simp add: that)
  have old: "\<forall>j. (Outbound, j) \<in> ks \<longrightarrow> j \<in> fst ` ys" "\<forall>j. (Inbound, j) \<in> ks \<longrightarrow> j \<in> fst ` xs"
    "\<forall>(j, d)\<in>ys. d \<longleftrightarrow> (Outbound, j) \<in> ks" "\<forall>(j, d)\<in>xs. d \<longleftrightarrow> (Inbound, j) \<in> ks"
    using assms(1) unfolding letters_of_def by blast+
  have "j \<in> fst ` ?new" if "(Outbound, j) \<in> ks'" for j
  proof (cases "j = i")
    case False
    then have "j \<in> fst ` ys" using that here old(1) by blast
    then show ?thesis using False by force
  qed simp
  moreover have "\<forall>(j, d)\<in>?new. d \<longleftrightarrow> (Outbound, j) \<in> ks'"
    using here old(3) assms(3) by blast
  moreover have "\<forall>j. (Inbound, j) \<in> ks' \<longrightarrow> j \<in> fst ` xs" "\<forall>(j, d)\<in>xs. d \<longleftrightarrow> (Inbound, j) \<in> ks'"
    using other old(2,4) by simp_all
  ultimately show ?thesis unfolding letters_of_def by blast
qed

lemma deaths_keys: "fst ` inbox_deaths xs = j_id ` set xs" "fst ` outbox_deaths ys = j_id ` set ys"
  by (simp_all add: inbox_deaths_def outbox_deaths_def image_image)

lemma inbox_deaths_key: "(i, b) \<in> inbox_deaths xs \<Longrightarrow> i \<in> j_id ` set xs"
  by (auto simp: inbox_deaths_def)

lemma outbox_deaths_key: "(i, b) \<in> outbox_deaths ys \<Longrightarrow> i \<in> j_id ` set ys"
  by (auto simp: outbox_deaths_def)

lemma deaths_snoc:
  "inbox_deaths (xs @ [x]) = insert (j_id x, j_state x = Dead) (inbox_deaths xs)"
  "outbox_deaths (ys @ [y]) = insert (j_id y, j_state y \<in> {Dead, Failed}) (outbox_deaths ys)"
  by (simp_all add: inbox_deaths_def outbox_deaths_def)

lemma letters_wf_step:
  assumes "channel_step s t" and "channel_inv s"
  shows "letters_wf (inbox t) (outbox t) (dead_letters t)"
proof -
  from assms(2) have dis: "distinct (map j_id (inbox s))" "distinct (map j_id (outbox s))"
    and wf: "distinct (map letter_key (dead_letters s))"
      "letters_of (inbox_deaths (inbox s)) (outbox_deaths (outbox s)) (letter_key ` set (dead_letters s))"
    by (auto simp: channel_inv_def inbox_wf_def outbox_wf_def letters_wf_alt)
  have live: "(Inbound, j_id x) \<notin> letter_key ` set (dead_letters s)"
    if "x \<in> set (inbox s)" "j_state x = Leased" for x
    using wf(2) that by (force simp: letters_of_def inbox_deaths_def)
  have live': "(Outbound, j_id y) \<notin> letter_key ` set (dead_letters s)"
    if "y \<in> set (outbox s)" "j_state y = Leased" for y
    using wf(2) that by (force simp: letters_of_def outbox_deaths_def)
  show ?thesis using assms(1)
  proof cases
    case (accept ii e)
    then show ?thesis using wf
      by (auto simp: acceptChannelIngress_def Let_def letters_wf_alt new_inbox_item_def deaths_snoc deaths_keys
          dest!: inbox_deaths_key intro!: letters_of_new split: option.splits)
  next
    case (lease_ingress e li)
    have "inbox_deaths (inbox t) = inbox_deaths (inbox s)"
      unfolding lease_ingress
      by (simp add: leaseChannelIngress_def Let_def, rule deaths_assign_lease)
        (auto simp: take_lease_def claimable_def dest!: select_refs_mem)
    then show ?thesis using wf lease_ingress by (simp add: letters_wf_alt leaseChannelIngress_def Let_def)
  next
    case (complete outbound e i token)
    show ?thesis
    proof (cases "List.find (holds_lease i token) (inbox s)")
      case None
      then show ?thesis using wf complete by (simp add: letters_wf_alt completeChannelIngress_def)
    next
      case (Some x)
      then have x: "x \<in> set (inbox s)" "j_state x = Leased" by (auto dest!: find_Some_mem simp: holds_lease_def)
      have *: "letters_of (inbox_deaths (upd_first (holds_lease i token) (finish_inbox (clock e)) (inbox s)))
          (outbox_deaths (outbox s)) (letter_key ` set (dead_letters s))"
        using letters_of_death [OF wf(2), of "j_id x" False "letter_key ` set (dead_letters s)"] x live
        by (subst deaths_upd_first [OF dis(1) Some]) (auto simp: finish_inbox_def deaths_keys)
      show ?thesis using complete wf * letters_of_new(2) [OF *]
        by (auto simp: completeChannelIngress_def Some Let_def letters_wf_alt new_outbox_item_def
            deaths_snoc deaths_keys split: option.splits)
    qed
  next
    case (fail e i token code at)
    show ?thesis
    proof (cases "List.find (holds_lease i token) (inbox s)")
      case None
      then show ?thesis using wf fail by (simp add: letters_wf_alt failChannelIngress_def)
    next
      case (Some x)
      then have x: "x \<in> set (inbox s)" "j_state x = Leased" by (auto dest!: find_Some_mem simp: holds_lease_def)
      show ?thesis using fail wf(1) x live
        by (auto simp: failChannelIngress_def Some Let_def letters_wf_alt letter_key_bury bury_distinct
            deaths_upd_first [OF dis(1) Some] deaths_keys intro!: letters_of_death [OF wf(2)])
    qed
  next
    case (lease_deliveries e dli)
    have "outbox_deaths (outbox t) = outbox_deaths (outbox s)"
      unfolding lease_deliveries
      by (simp add: leaseChannelDeliveries_def Let_def, rule deaths_assign_delivery)
        (auto simp: take_lease_def deliverable_def claimable_def dest!: select_refs_mem)
    then show ?thesis using wf lease_deliveries by (simp add: letters_wf_alt leaseChannelDeliveries_def Let_def)
  next
    case (receipt e ri)
    show ?thesis
    proof (cases "List.find (\<lambda>r. dr_outbound r = ri_outbound ri \<and> dr_attempt r = ri_attempt ri) (receipts s) = None
        \<and> List.find (receipt_matches ri) (outbox s) \<noteq> None")
      case False
      then show ?thesis using wf receipt
        by (auto simp: letters_wf_alt recordChannelDeliveryReceipt_def split: option.splits)
    next
      case True
      then obtain y where y: "List.find (receipt_matches ri) (outbox s) = Some y" by blast
      then have ym: "y \<in> set (outbox s)" "j_state y = Leased" by (auto dest!: find_Some_mem simp: receipt_matches_def)
      show ?thesis using receipt wf(1) ym live' True
        by (auto simp: recordChannelDeliveryReceipt_def y Let_def letters_wf_alt letter_key_bury bury_distinct
            deaths_upd_delivery [OF dis(2) y] deaths_keys settle_outbox_def intro!: letters_of_death' [OF wf(2)])
    qed
  qed (use wf in \<open>auto simp: channel_op_defs Let_def letters_wf_alt split: option.splits\<close>)
qed

section \<open>Receipts\<close>

definition reclaimed :: "outbox_item \<Rightarrow> outbox_item \<Rightarrow> bool" where
  "reclaimed y z \<longleftrightarrow> z = y \<or>
     (j_id z = j_id y \<and> j_attempts z = j_attempts y + 1 \<and> j_state y \<noteq> Delivered \<and> j_state z = Leased)"

lemma receipt_fits_reclaimed: "receipt_fits r y \<Longrightarrow> reclaimed y z \<Longrightarrow> receipt_fits r z"
  by (auto simp: receipt_fits_def reclaimed_def)

lemma receipts_wf_reclaim:
  assumes "receipts_wf ys rs" and all: "list_all2 reclaimed ys zs"
  shows "receipts_wf zs rs"
proof -
  have "\<exists>z\<in>set zs. receipt_fits r z" if "y \<in> set ys" "receipt_fits r y" for r y
    using list_all2_memL [OF all that(1)] receipt_fits_reclaimed [OF that(2)] by blast
  moreover have "z \<in> set ys" if z: "z \<in> set zs" "j_state z = Delivered" for z
  proof -
    obtain y where "y \<in> set ys" "reclaimed y z"
      using list_all2_memR [OF all z(1)] by blast
    then show ?thesis using z(2) by (auto simp: reclaimed_def)
  qed
  ultimately show ?thesis using assms(1) unfolding receipts_wf_def by meson
qed

lemma receipts_wf_add:
  "receipts_wf ys rs \<Longrightarrow> j_state n \<noteq> Delivered \<Longrightarrow> receipts_wf (ys @ [n]) rs"
  by (auto simp: receipts_wf_def)

lemma receipts_wf_settle:
  assumes wf: "receipts_wf ys rs" and dis: "distinct (map j_id ys)" and y: "y \<in> set ys" "j_state y = Leased"
    and zs: "set zs = insert z {x \<in> set ys. j_id x \<noteq> j_id y}"
    and z: "j_id z = j_id y" "j_attempts z = j_attempts y" "j_state z \<noteq> Leased"
    and r: "dr_outbound r = j_id y" "dr_attempt r = j_attempts y"
      "dr_status r = ''delivered'' \<longleftrightarrow> j_state z = Delivered"
    and new: "\<forall>q\<in>set rs. \<not> (dr_outbound q = dr_outbound r \<and> dr_attempt q = dr_attempt r)"
  shows "receipts_wf zs (rs @ [r])"
proof -
  have "receipt_fits r z" using z r by (auto simp: receipt_fits_def)
  moreover have "\<exists>x\<in>set zs. receipt_fits q x" if q: "q \<in> set rs" for q
  proof -
    obtain x where x: "x \<in> set ys" "receipt_fits q x" using wf q unfolding receipts_wf_def by blast
    show ?thesis
    proof (cases "j_id x = j_id y")
      case True
      then have "x = y" using dis x(1) y(1) by (simp add: distinct_map inj_on_def)
      then have "receipt_fits q z" using x(2) y(2) z by (auto simp: receipt_fits_def)
      then show ?thesis using zs by blast
    next
      case False
      then show ?thesis using x zs by blast
    qed
  qed
  moreover have "\<exists>q\<in>set (rs @ [r]). dr_outbound q = j_id x \<and> dr_status q = ''delivered''"
    if "x \<in> set zs" "j_state x = Delivered" for x
    using that zs wf r z unfolding receipts_wf_def by auto
  moreover have "distinct (map (\<lambda>r. (dr_outbound r, dr_attempt r)) (rs @ [r]))"
    using wf new unfolding receipts_wf_def by auto
  ultimately show ?thesis unfolding receipts_wf_def using zs by auto
qed

lemma receipts_wf_step:
  assumes "channel_step s t" and "outbox_wf (outbox s)" and "receipts_wf (outbox s) (receipts s)"
  shows "receipts_wf (outbox t) (receipts t)"
  using assms(1)
proof cases
  case (complete outbound e i token)
  then show ?thesis using assms(3)
    by (auto simp: completeChannelIngress_def Let_def new_outbox_item_def intro!: receipts_wf_add split: option.splits)
next
  case (lease_deliveries e dli)
  have "list_all2 reclaimed (outbox s) (outbox t)"
    unfolding lease_deliveries
    by (simp add: leaseChannelDeliveries_def Let_def, rule list_all2_assign_refs)
      (auto simp: reclaimed_def take_lease_def deliverable_def claimable_def dest!: select_refs_mem)
  from receipts_wf_reclaim [OF assms(3) this] lease_deliveries show ?thesis
    by (simp add: leaseChannelDeliveries_def Let_def)
next
  case (receipt e ri)
  let ?find = "List.find (\<lambda>r. dr_outbound r = ri_outbound ri \<and> dr_attempt r = ri_attempt ri) (receipts s)"
  show ?thesis
  proof (cases "?find = None \<and> List.find (receipt_matches ri) (outbox s) \<noteq> None")
    case False
    then show ?thesis using assms(3) receipt
      by (auto simp: recordChannelDeliveryReceipt_def split: option.splits)
  next
    case True
    then obtain y where y: "List.find (receipt_matches ri) (outbox s) = Some y" by blast
    have ym: "y \<in> set (outbox s)" "receipt_matches ri y" using find_Some_mem [OF y] by auto
    have dis: "distinct (map j_id (outbox s))" using assms(2) by (simp add: outbox_wf_def)
    have "\<forall>q\<in>set (receipts s). \<not> (dr_outbound q = ri_outbound ri \<and> dr_attempt q = ri_attempt ri)"
      using True by (simp add: find_None_all)
    then show ?thesis using receipt True ym
      by (auto simp: recordChannelDeliveryReceipt_def y Let_def receipt_matches_def settle_outbox_def
          next_delivery_state_def set_upd_first_distinct [OF dis y]
          intro!: receipts_wf_settle [OF assms(3) dis, of y])
  qed
qed (use assms(3) in \<open>auto simp: channel_op_defs Let_def split: option.splits\<close>)

lemma channel_inv_step: "channel_inv s \<Longrightarrow> channel_step s t \<Longrightarrow> channel_inv t"
  using inbox_wf_step outbox_wf_step letters_wf_step receipts_wf_step by (simp add: channel_inv_def)
end
