(* ===== verification/Channel_Bridge.thy ===== *)
theory Channel_Bridge
  imports Channel_Invariants
begin

text \<open>
  The correctness of the durable channel bridge: inbox and outbox are interpreted as bounded lease
  queues, and the properties a channel worker relies on follow from the contract and the invariant:
  exclusive leases, bounded attempts, final states, at most one delivery, exact dead letters, replies
  that stay in the tenant of their message, deduplication.
\<close>

section \<open>The two queues keep their contract\<close>

interpretation inbox_queue: bounded_lease_queue
  "\<lambda>s i. lookup i (inbox s)" channel_inv channel_step ib_maxAttempts
proof (unfold_locales, goal_cases)
  case (1 s t)
  then show ?case by (rule channel_inv_step)
next
  case (2 s t i x)
  then show ?case by (blast intro: queue_moves_lookup inbox_step_moves)
next
  case (3 s i x)
  then show ?case by (auto simp: channel_inv_def inbox_wf_def dest: find_Some_mem)
qed

interpretation outbox_queue: bounded_lease_queue
  "\<lambda>s i. lookup i (outbox s)" channel_inv channel_step ob_maxAttempts
proof (unfold_locales, goal_cases)
  case (1 s t)
  then show ?case by (rule channel_inv_step)
next
  case (2 s t i x)
  then show ?case by (blast intro: queue_moves_lookup outbox_step_moves)
next
  case (3 s i x)
  then show ?case by (auto simp: channel_inv_def outbox_wf_def dest: find_Some_mem)
qed

lemma reachable_inv: "channel_step\<^sup>*\<^sup>* empty_channels s \<Longrightarrow> channel_inv s"
  using inbox_queue.valid_run channel_inv_empty by blast

section \<open>A sample run\<close>

definition tick :: "instant \<Rightarrow> string \<Rightarrow> env" where
  "tick now tag = \<lparr>clock = now, uuid = (\<lambda>i. tag @ (if i = 0 then ''a'' else ''b''))\<rparr>"

definition sample_binding :: binding_input where
  "sample_binding = \<lparr>bi_id = Some ''B'', bi_org = ''O'', bi_user = ''U'', bi_agent = ''A'', bi_channel = ''qq'',
     bi_displayName = ''QQ'', bi_status = Some ''connected'', bi_envelope = Some JNull, bi_hint = None,
     bi_metadata = None, bi_lastErrorCode = None\<rparr>"

definition sample_place :: conversation_ref where
  "sample_place = \<lparr>cr_conversation = ''C'', cr_kind = ''direct'', cr_runtime = None, cr_rest = JObj []\<rparr>"

definition sample_message :: ingress_input where
  "sample_message = \<lparr>ii_id = Some ''I'', ii_binding = ''B'', ii_agent = ''A'', ii_channel = ''qq'',
     ii_account = ''acc'', ii_external = ''m1'', ii_sender = \<lparr>sr_user = ''v'', sr_rest = JObj []\<rparr>,
     ii_conversation = sample_place, ii_content = JStr ''hi'', ii_attachments = [], ii_replyTo = None,
     ii_trace = JObj [], ii_maxAttempts = Some 1, ii_receivedAt = 2\<rparr>"

definition sample_conversation :: conversation_input where
  "sample_conversation = \<lparr>vi_id = Some ''K'', vi_org = ''O'', vi_user = ''U'', vi_agent = ''A'', vi_binding = ''B'',
     vi_channel = ''qq'', vi_conversation = ''C'', vi_kind = ''direct'', vi_runtime = Some ''r'', vi_lastMessageAt = None\<rparr>"

definition sample_lease :: lease_input where
  "sample_lease = \<lparr>li_limit = None, li_seconds = None, li_leaseId = Some ''L''\<rparr>"

definition sample_reply :: outbound_input where
  "sample_reply = \<lparr>oi_id = Some ''Y'', oi_conversation = None, oi_content = JStr ''ok'', oi_attachments = [],
     oi_replyTo = None, oi_trace = None, oi_maxAttempts = Some 1\<rparr>"

definition sample_deliveries :: delivery_lease_input where
  "sample_deliveries = \<lparr>li_limit = None, li_seconds = None, li_leaseId = Some ''M'', dli_agent = None,
     dli_org = None, dli_channels = [''qq''], dli_bindings = [], dli_worker = ''w''\<rparr>"

definition sample_receipt :: receipt_input where
  "sample_receipt = \<lparr>ri_id = Some ''R'', ri_outbound = ''Y'', ri_binding = ''B'', ri_agent = ''A'',
     ri_worker = Some ''w'', ri_token = ''M:Y'', ri_attempt = 1, ri_status = ''delivered'',
     ri_messageId = None, ri_errorCode = None, ri_retryAfterMs = None, ri_observedAt = 7\<rparr>"

definition sample1 :: channel_state where
  "sample1 = snd (acceptChannelIngress (tick 2 ''t2'') sample_message
     (snd (upsertAgentChannelBinding (tick 1 ''t1'') sample_binding empty_channels)))"

definition sample2 :: channel_state where
  "sample2 = snd (leaseChannelIngress (tick 4 ''t4'') sample_lease
     (snd (ensureChannelConversation (tick 3 ''t3'') sample_conversation sample1)))"

definition sample3 :: channel_state where
  "sample3 = snd (completeChannelIngress (tick 5 ''t5'') ''I'' ''L:I'' (Some sample_reply) sample2)"

definition sample4 :: channel_state where
  "sample4 = snd (leaseChannelDeliveries (tick 6 ''t6'') sample_deliveries sample3)"

definition sample5 :: channel_state where
  "sample5 = snd (recordChannelDeliveryReceipt (tick 8 ''t8'') sample_receipt sample4)"

lemmas sample_defs = sample_binding_def sample_place_def sample_message_def sample_conversation_def
  sample_lease_def sample_reply_def sample_deliveries_def sample_receipt_def tick_def empty_channels_def
lemmas run_defs = channel_op_defs select_refs_def assign_refs_def claimable_def take_lease_def
  lease_limit_def lease_seconds_def clamp_num_def num_or_def holds_lease_def finish_inbox_def new_outbox_item_def
  new_inbox_item_def deliverable_def unset_or_eq_def receipt_matches_def other_worker_def
  next_delivery_state_def settle_outbox_def bury_def find_last_def

text \<open>C1. Whatever operations run, the channel store stays well formed: identifiers and deduplication keys
  are unique, a lease is held exactly in the leased state and counts as an attempt within the limit, dead
  letters stand for exactly the items that died, and receipts belong to finished attempts.\<close>

theorem channel_store_stays_valid: "channel_step\<^sup>*\<^sup>* empty_channels s \<Longrightarrow> channel_inv s"
  using inbox_queue.valid_run channel_inv_empty by blast

lemma sample_run5:
  "channel_step\<^sup>*\<^sup>* empty_channels sample1" "channel_step\<^sup>*\<^sup>* sample1 sample2" "channel_step sample2 sample3"
  "channel_step sample3 sample4" "channel_step sample4 sample5"
proof -
  let ?b = "snd (upsertAgentChannelBinding (tick 1 ''t1'') sample_binding empty_channels)"
  have "channel_step empty_channels ?b" by (rule channel_step.bind)
  moreover have "or_else (ii_id sample_message) (uuid (tick 2 ''t2'') 0) \<notin> j_id ` set (inbox ?b)" by code_simp
  then have "channel_step ?b sample1" unfolding sample1_def by (rule channel_step.accept)
  ultimately show "channel_step\<^sup>*\<^sup>* empty_channels sample1" by auto
  show "channel_step\<^sup>*\<^sup>* sample1 sample2"
    unfolding sample2_def by (meson channel_step.conversation channel_step.lease_ingress r_into_rtranclp rtranclp.rtrancl_into_rtrancl)
  have "or_else (oi_id sample_reply) (uuid (tick 5 ''t5'') 0) \<notin> j_id ` set (outbox sample2)" by code_simp
  then show "channel_step sample2 sample3" unfolding sample3_def by (auto intro: channel_step.complete)
  show "channel_step sample3 sample4" unfolding sample4_def by (rule channel_step.lease_deliveries)
  show "channel_step sample4 sample5" unfolding sample5_def by (rule channel_step.receipt)
qed

lemma sample_reachable:
  "channel_step\<^sup>*\<^sup>* empty_channels sample2" "channel_step\<^sup>*\<^sup>* empty_channels sample3"
  "channel_step\<^sup>*\<^sup>* empty_channels sample4" "channel_step\<^sup>*\<^sup>* empty_channels sample5"
  using sample_run5 by (meson rtranclp.rtrancl_into_rtrancl rtranclp_trans)+

theorem channel_store_stays_valid_witness: "channel_inv sample5"
  by (rule channel_store_stays_valid [OF sample_reachable(4)])

text \<open>C7. Every operation refines the abstract life cycle of queued items: each inbox and each outbox item
  stays, is claimed once more within its limit, or is settled by a lease holder, and new items are
  appended pending.\<close>

theorem operations_refine_life_cycle:
  "channel_step s t \<Longrightarrow>
    queue_moves ib_maxAttempts (inbox s) (inbox t) \<and> queue_moves ob_maxAttempts (outbox s) (outbox t)"
  by (simp add: inbox_step_moves outbox_step_moves)

theorem operations_refine_life_cycle_witness: "queue_moves ib_maxAttempts (inbox sample2) (inbox sample3)"
  using operations_refine_life_cycle [OF sample_run5(3)] by (rule conjunct1)

lemma empty_if_subset_singleton: "a \<notin> S \<Longrightarrow> S \<subseteq> {a} \<Longrightarrow> S = {}"
  by auto

section \<open>Leasing\<close>

lemma leaseChannelIngress_leases:
  "leaseChannelIngress e i s = (got, t) \<Longrightarrow>
    leased_from (\<lambda>x. claimable (clock e) (ib_maxAttempts x) x) ib_receivedAt (lease_limit i)
      (take_lease (clock e) (lease_seconds i) (or_else (li_leaseId i) (uuid e 0))) (inbox s) got (inbox t)"
  by (auto simp: leaseChannelIngress_def Let_def take_lease_def intro!: leased_from_select)

lemma leaseChannelDeliveries_leases:
  "leaseChannelDeliveries e i s = ((l, got), t) \<Longrightarrow>
    leased_from (deliverable (clock e) i) j_availableAt (nat (clamp_num 1 100 10 (li_limit i)))
      (\<lambda>y. (take_lease (clock e) (clamp_num 5 300 60 (li_seconds i)) l y)\<lparr>ob_worker := Some (dli_worker i)\<rparr>)
      (outbox s) got (outbox t)"
  by (auto simp: leaseChannelDeliveries_def Let_def take_lease_def intro!: leased_from_select)

text \<open>Leasing ingress hands out at most 100 items, the earliest received claimable ones in order, each
  with a fresh attempt and lease, leaves out a claimable item only for lack of room, and touches no
  other item.\<close>

theorem leaseChannelIngress_spec:
  assumes "leaseChannelIngress e i s = (got, t)"
  shows "length got \<le> 100 \<and>
    leased_from (\<lambda>x. claimable (clock e) (ib_maxAttempts x) x) ib_receivedAt (lease_limit i)
      (take_lease (clock e) (lease_seconds i) (or_else (li_leaseId i) (uuid e 0))) (inbox s) got (inbox t)"
proof -
  note spec = leaseChannelIngress_leases [OF assms]
  then have "length got \<le> lease_limit i" by (simp add: leased_from_def)
  moreover have "lease_limit i \<le> 100" by (simp add: lease_limit_def clamp_num_def)
  ultimately show ?thesis using spec by simp
qed

theorem leaseChannelIngress_spec_witness:
  "length (fst (leaseChannelIngress (tick 4 ''t'') sample_lease sample1)) \<le> 100 \<and>
    map j_state (fst (leaseChannelIngress (tick 4 ''t'') sample_lease sample1)) = [Leased]"
  using leaseChannelIngress_spec [OF surjective_pairing, of "tick 4 ''t''" sample_lease sample1]
  by (rule conjI [OF conjunct1]) code_simp

text \<open>C6. A lease is exclusive: as long as the item a worker was given is not settled and its lease has not
  expired, no other lease call returns it or changes it, whatever operations ran in between.\<close>

theorem ingress_lease_is_exclusive:
  assumes "channel_step\<^sup>*\<^sup>* empty_channels s" and "leaseChannelIngress e i s = (got, t)" and "x \<in> set got"
    and "channel_step\<^sup>*\<^sup>* t u" and "lookup (j_id x) (inbox u) = Some x"
    and "clock e' \<le> clock e + lease_seconds i * 1000" and "leaseChannelIngress e' i' u = (got', v)"
  shows "lookup (j_id x) (inbox v) = Some x \<and> j_id x \<notin> j_id ` set got'"
proof (rule leased_from_ids [OF leaseChannelIngress_leases [OF assms(7)]])
  obtain y where x: "x = take_lease (clock e) (lease_seconds i) (or_else (li_leaseId i) (uuid e 0)) y"
    using leaseChannelIngress_leases [OF assms(2)] assms(3) by (auto simp: leased_from_def)
  then show "\<not> claimable (clock e') (ib_maxAttempts x) x"
    using assms(6) by (auto simp: take_lease_def claimable_def)
  have "channel_step s t" using channel_step.lease_ingress [of s e i] assms(2) by simp
  then have "channel_inv u"
    using assms(1,4) by (meson reachable_inv rtranclp.rtrancl_into_rtrancl rtranclp_trans)
  then show "distinct (map j_id (inbox u))" by (simp add: channel_inv_def inbox_wf_def)
qed (use assms(5) in \<open>simp_all add: take_lease_def\<close>)

theorem ingress_lease_is_exclusive_witness:
  "fst (leaseChannelIngress (tick 60004 ''t'') sample_lease sample2) = []"
proof -
  let ?x = "hd (inbox sample2)"
  have step: "channel_step\<^sup>*\<^sup>* empty_channels (snd (ensureChannelConversation (tick 3 ''t3'') sample_conversation sample1))"
    using sample_run5(1) by (meson channel_step.conversation rtranclp.rtrancl_into_rtrancl)
  have "?x \<in> set (fst (leaseChannelIngress (tick 4 ''t4'') sample_lease
      (snd (ensureChannelConversation (tick 3 ''t3'') sample_conversation sample1))))"
    "lookup (j_id ?x) (inbox sample2) = Some ?x"
    "clock (tick 60004 ''t'') \<le> clock (tick 4 ''t4'') + lease_seconds sample_lease * 1000" by code_simp+
  from ingress_lease_is_exclusive [OF step surjective_pairing this(1) _ _ this(3) surjective_pairing, of sample2]
    this(2) have "j_id ?x \<notin> j_id ` set (fst (leaseChannelIngress (tick 60004 ''t'') sample_lease sample2))"
    unfolding sample2_def by simp
  moreover have "j_id ` set (fst (leaseChannelIngress (tick 60004 ''t'') sample_lease sample2)) \<subseteq> {j_id ?x}"
    by code_simp
  ultimately have "j_id ` set (fst (leaseChannelIngress (tick 60004 ''t'') sample_lease sample2)) = {}"
    by (rule empty_if_subset_singleton)
  then show ?thesis by simp
qed

section \<open>What the lease calls hand out\<close>

text \<open>
  The operations with what they hand to the worker that calls them: the identifiers of the inbox items and of the outbox
  items in their answer. Only the two lease calls hand anything out.
\<close>

inductive channel_call :: "channel_state \<Rightarrow> ident list \<times> ident list \<Rightarrow> channel_state \<Rightarrow> bool" where
  lease_ingress: "leaseChannelIngress e li s = (got, t) \<Longrightarrow> channel_call s (map j_id got, []) t"
| lease_deliveries: "leaseChannelDeliveries e dli s = ((l, got), t) \<Longrightarrow> channel_call s ([], map j_id got) t"
| bind: "channel_call s ([], []) (snd (upsertAgentChannelBinding e bi s))"
| unbind: "channel_call s ([], []) (snd (deleteAgentChannelBinding org user agent channel s))"
| credential: "channel_call s ([], []) (snd (createChannelWorkerCredential e wci s))"
| accept: "or_else (ii_id ii) (uuid e 0) \<notin> j_id ` set (inbox s) \<Longrightarrow>
    channel_call s ([], []) (snd (acceptChannelIngress e ii s))"
| conversation: "channel_call s ([], []) (snd (ensureChannelConversation e vi s))"
| complete: "(\<And>o_in. outbound = Some o_in \<Longrightarrow> or_else (oi_id o_in) (uuid e 0) \<notin> j_id ` set (outbox s)) \<Longrightarrow>
    channel_call s ([], []) (snd (completeChannelIngress e i token outbound s))"
| fail: "channel_call s ([], []) (snd (failChannelIngress e i token code at s))"
| receipt: "channel_call s ([], []) (snd (recordChannelDeliveryReceipt e ri s))"
| report: "channel_call s ([], []) (snd (saveChannelHealthReport e hi s))"

inductive_cases channel_callE: "channel_call s l t"

lemma call_is_step: "channel_call s l t \<Longrightarrow> channel_step s t"
proof (induction rule: channel_call.induct)
  case (lease_ingress e li s got t)
  then show ?case using channel_step.lease_ingress [of s e li] by simp
next
  case (lease_deliveries e dli s l got t)
  then show ?case using channel_step.lease_deliveries [of s e dli] by simp
qed (auto intro: channel_step.intros)

text \<open>Every operation is one of these calls, so a run of the store is a run of calls.\<close>

lemma step_is_call: "channel_step s t \<Longrightarrow> \<exists>l. channel_call s l t"
proof (induction rule: channel_step.induct)
  case (lease_ingress s e li)
  then show ?case using channel_call.lease_ingress [OF surjective_pairing] by blast
next
  case (lease_deliveries s e dli)
  obtain l got t where "leaseChannelDeliveries e dli s = ((l, got), t)" by (cases "leaseChannelDeliveries e dli s") auto
  then show ?case using channel_call.lease_deliveries by force
qed (blast intro: channel_call.intros)+

lemma run_is_calls: "channel_step\<^sup>*\<^sup>* s t \<Longrightarrow> \<exists>ls. call_run channel_call s ls t"
  by (induction rule: converse_rtranclp_induct) (blast intro: call_run.intros dest: step_is_call)+

lemma inbox_calls_counted:
  assumes "distinct (map j_id (inbox s))" and "channel_call s l t"
  shows "tries (lookup i (inbox t)) = tries (lookup i (inbox s)) + int (count_list (fst l) i)"
  using assms(2)
proof cases
  case (lease_ingress e li got)
  then show ?thesis
    using tries_selected [OF assms(1) refl refl, of "take_lease (clock e) (lease_seconds li) (or_else (li_leaseId li) (uuid e 0))"]
    by (auto simp: leaseChannelIngress_def Let_def take_lease_def)
next
  case (accept ii e)
  then show ?thesis
    by (auto simp: acceptChannelIngress_def Let_def new_inbox_item_def tries_new split: option.splits)
next
  case (complete outbound e i token)
  then show ?thesis
    by (auto simp: completeChannelIngress_def Let_def finish_inbox_def tries_upd_first [OF assms(1)] split: option.splits)
next
  case (fail e i token code at)
  then show ?thesis
    by (auto simp: failChannelIngress_def Let_def tries_upd_first [OF assms(1)] split: option.splits)
qed (auto simp: channel_op_defs Let_def split: option.splits)

lemma outbox_calls_counted:
  assumes "distinct (map j_id (outbox s))" and "channel_call s l t"
  shows "tries (lookup i (outbox t)) = tries (lookup i (outbox s)) + int (count_list (snd l) i)"
  using assms(2)
proof cases
  case (lease_deliveries e dli lease got)
  then show ?thesis
    using tries_selected [OF assms(1) refl refl, of "\<lambda>y. (take_lease (clock e) (clamp_num 5 300 60 (li_seconds dli)) lease y)\<lparr>ob_worker := Some (dli_worker dli)\<rparr>"]
    by (auto simp: leaseChannelDeliveries_def Let_def take_lease_def)
next
  case (complete outbound e i token)
  then show ?thesis
    by (auto simp: completeChannelIngress_def Let_def new_outbox_item_def tries_new split: option.splits)
next
  case (receipt e ri)
  then show ?thesis
    by (auto simp: recordChannelDeliveryReceipt_def Let_def settle_outbox_def tries_upd_first [OF assms(1)] split: option.splits)
qed (auto simp: channel_op_defs Let_def split: option.splits)

interpretation inbox_count: counted_lease_queue
  "\<lambda>s i. lookup i (inbox s)" channel_inv channel_step ib_maxAttempts channel_call fst
  by unfold_locales (auto intro: call_is_step inbox_calls_counted simp: channel_inv_def inbox_wf_def)

interpretation outbox_count: counted_lease_queue
  "\<lambda>s i. lookup i (outbox s)" channel_inv channel_step ob_maxAttempts channel_call snd
  by unfold_locales (auto intro: call_is_step outbox_calls_counted simp: channel_inv_def outbox_wf_def)

text \<open>
  C8. An item of the inbox or the outbox is handed to workers at most \<open>maxAttempts\<close> times, however long the store runs and
  whatever becomes of its leases: over all calls from the start, the answers of the lease calls name it exactly as often
  as its attempts say, and these never exceed the bound.
\<close>

theorem attempts_are_bounded:
  assumes "call_run channel_call empty_channels ls s"
  shows "(lookup i (inbox s) = Some x \<longrightarrow> int (times_handed fst i ls) = j_attempts x \<and> j_attempts x \<le> max 0 (ib_maxAttempts x)) \<and>
    (lookup i (outbox s) = Some y \<longrightarrow> int (times_handed snd i ls) = j_attempts y \<and> j_attempts y \<le> max 0 (ob_maxAttempts y))"
  using inbox_count.run_bounded [OF assms channel_inv_empty] outbox_count.run_bounded [OF assms channel_inv_empty]
  by (simp add: empty_channels_def)

theorem attempts_are_bounded_witness:
  "\<exists>ls. call_run channel_call empty_channels ls sample5 \<and> times_handed fst ''I'' ls = 1 \<and> times_handed snd ''Y'' ls = 1"
proof -
  obtain ls where ls: "call_run channel_call empty_channels ls sample5" using run_is_calls [OF sample_reachable(4)] by blast
  have "lookup ''I'' (inbox sample5) = Some (hd (inbox sample5))" "j_attempts (hd (inbox sample5)) = 1"
    "lookup ''Y'' (outbox sample5) = Some (hd (outbox sample5))" "j_attempts (hd (outbox sample5)) = 1" by code_simp+
  then show ?thesis
    using attempts_are_bounded [OF ls, of "''I''" "hd (inbox sample5)" "hd (outbox sample5)"]
      attempts_are_bounded [OF ls, of "''Y''" "hd (inbox sample5)" "hd (outbox sample5)"] ls by auto
qed

section \<open>Settling\<close>

text \<open>Settled is for good: once an inbox item is completed or dead, or an outbox item is delivered, failed or
  dead, no later operation changes it.\<close>

theorem settled_items_never_change:
  assumes "channel_step\<^sup>*\<^sup>* empty_channels s" and "channel_step\<^sup>*\<^sup>* s t"
  shows "(lookup i (inbox s) = Some x \<and> is_final (j_state x) \<longrightarrow> lookup i (inbox t) = Some x) \<and>
    (lookup i (outbox s) = Some y \<and> is_final (j_state y) \<longrightarrow> lookup i (outbox t) = Some y)"
  using inbox_queue.final_run [OF assms(2) reachable_inv [OF assms(1)]]
    outbox_queue.final_run [OF assms(2) reachable_inv [OF assms(1)]] by blast

theorem settled_items_never_change_witness: "lookup ''I'' (inbox sample5) = lookup ''I'' (inbox sample3)"
proof -
  have x: "lookup ''I'' (inbox sample3) = Some (hd (inbox sample3)) \<and> is_final (j_state (hd (inbox sample3)))"
    by code_simp
  have "channel_step\<^sup>*\<^sup>* sample3 sample5" using sample_run5(4,5) by (meson r_into_rtranclp rtranclp.rtrancl_into_rtrancl)
  from settled_items_never_change [OF sample_reachable(2) this, of "''I''" "hd (inbox sample3)" undefined] x
  show ?thesis by simp
qed

text \<open>C9. A worker that lost its lease cannot settle the item: without the token of the current lease, completing
  and failing an inbox item and reporting a delivery return nothing and change nothing.\<close>

theorem stale_token_settles_nothing:
  assumes "lookup i (inbox s) = Some x" and "j_leaseToken x \<noteq> Some token"
    and "lookup (ri_outbound r) (outbox s) = Some y" and "j_leaseToken y \<noteq> Some (ri_token r)"
    and "channel_step\<^sup>*\<^sup>* empty_channels s"
    and "\<forall>q\<in>set (receipts s). \<not> (dr_outbound q = ri_outbound r \<and> dr_attempt q = ri_attempt r)"
  shows "completeChannelIngress e i token outbound s = (Inr None, s) \<and>
    failChannelIngress e i token code at s = (None, s) \<and>
    recordChannelDeliveryReceipt e r s = (Inr None, s)"
proof -
  have inv: "channel_inv s" by (rule reachable_inv [OF assms(5)])
  have "z = x" if "z \<in> set (inbox s)" "j_id z = i" for z
    using lookup_mem [of "inbox s" z] inv that assms(1) by (simp add: channel_inv_def inbox_wf_def)
  then have 1: "List.find (holds_lease i token) (inbox s) = None"
    using assms(2) by (auto simp: find_None_all holds_lease_def)
  have "z = y" if "z \<in> set (outbox s)" "j_id z = ri_outbound r" for z
    using lookup_mem [of "outbox s" z] inv that assms(3) by (simp add: channel_inv_def outbox_wf_def)
  then have 2: "List.find (receipt_matches r) (outbox s) = None"
    using assms(4) by (auto simp: find_None_all receipt_matches_def)
  have 3: "List.find (\<lambda>q. dr_outbound q = ri_outbound r \<and> dr_attempt q = ri_attempt r) (receipts s) = None"
    using assms(6) by (simp add: find_None_all)
  show ?thesis
    by (simp add: completeChannelIngress_def failChannelIngress_def recordChannelDeliveryReceipt_def 1 2 3)
qed

theorem stale_token_settles_nothing_witness:
  "failChannelIngress (tick 9 ''t'') ''I'' ''old'' ''x'' None sample4 = (None, sample4)"
proof -
  have "lookup ''I'' (inbox sample4) = Some (hd (inbox sample4))"
    "j_leaseToken (hd (inbox sample4)) \<noteq> Some ''old''"
    "lookup (ri_outbound (sample_receipt\<lparr>ri_token := ''old''\<rparr>)) (outbox sample4) = Some (hd (outbox sample4))"
    "j_leaseToken (hd (outbox sample4)) \<noteq> Some (ri_token (sample_receipt\<lparr>ri_token := ''old''\<rparr>))" by code_simp+
  moreover have "receipts sample4 = []" by code_simp
  ultimately show ?thesis
    using stale_token_settles_nothing [of "''I''" sample4 "hd (inbox sample4)" "''old''"
        "sample_receipt\<lparr>ri_token := ''old''\<rparr>" "hd (outbox sample4)"] sample_reachable(3) by simp
qed

text \<open>C2. Delivered at most once: of the receipts of an outbox item at most one says delivered, and one does
  exactly when the item is delivered.\<close>

theorem delivered_at_most_once:
  assumes "channel_step\<^sup>*\<^sup>* empty_channels s" and "y \<in> set (outbox s)"
  shows "length (filter (\<lambda>r. dr_outbound r = j_id y \<and> dr_status r = ''delivered'') (receipts s)) =
    (if j_state y = Delivered then 1 else 0)"
proof -
  let ?d = "\<lambda>r. dr_outbound r = j_id y \<and> dr_status r = ''delivered''"
  have wf: "receipts_wf (outbox s) (receipts s)" "distinct (map j_id (outbox s))"
    using reachable_inv [OF assms(1)] by (auto simp: channel_inv_def outbox_wf_def)
  have fits: "receipt_fits r y" if r: "r \<in> set (receipts s)" "?d r" for r
  proof -
    obtain z where z: "z \<in> set (outbox s)" "receipt_fits r z" using wf(1) r(1) by (auto simp: receipts_wf_def)
    then have "z = y" using wf(2) assms(2) r(2) by (simp add: receipt_fits_def distinct_map inj_on_def)
    with z show ?thesis by simp
  qed
  have attempt: "dr_attempt r = j_attempts y \<and> j_state y = Delivered" if "r \<in> set (receipts s)" "?d r" for r
    using fits [OF that] that by (simp add: receipt_fits_def)
  have "distinct (map (\<lambda>r. (dr_outbound r, dr_attempt r)) (filter ?d (receipts s)))"
    using wf(1) by (simp add: receipts_wf_def distinct_map_filter)
  moreover have "set (map (\<lambda>r. (dr_outbound r, dr_attempt r)) (filter ?d (receipts s))) \<subseteq> {(j_id y, j_attempts y)}"
    using attempt by auto
  ultimately have "length (filter ?d (receipts s)) \<le> 1"
    by (metis (no_types, lifting) card_mono card.empty card.insert distinct_card empty_iff finite.emptyI finite_insert length_map One_nat_def)
  moreover have "filter ?d (receipts s) = [] \<longleftrightarrow> j_state y \<noteq> Delivered"
    using attempt wf(1) assms(2) by (auto simp: filter_empty_conv receipts_wf_def)
  ultimately show ?thesis by (cases "filter ?d (receipts s)") auto
qed

theorem delivered_at_most_once_witness:
  "length (filter (\<lambda>r. dr_outbound r = ''Y'' \<and> dr_status r = ''delivered'') (receipts sample5)) = 1"
proof -
  have "hd (outbox sample5) \<in> set (outbox sample5)" "j_id (hd (outbox sample5)) = ''Y''"
    "j_state (hd (outbox sample5)) = Delivered" by code_simp+
  with delivered_at_most_once [OF sample_reachable(4) this(1)] show ?thesis by simp
qed

text \<open>C10. A dead letter is written exactly once for an item that ran out of attempts or was rejected, and for no
  other item, in both directions.\<close>

theorem dead_letters_are_exact:
  assumes "channel_step\<^sup>*\<^sup>* empty_channels s"
  shows "(\<forall>x\<in>set (inbox s). length (filter (\<lambda>d. letter_key d = (Inbound, j_id x)) (dead_letters s)) =
      (if j_state x = Dead then 1 else 0)) \<and>
    (\<forall>y\<in>set (outbox s). length (filter (\<lambda>d. letter_key d = (Outbound, j_id y)) (dead_letters s)) =
      (if j_state y \<in> {Dead, Failed} then 1 else 0))"
proof -
  have one: "length (filter (\<lambda>d. letter_key d = k) ds) = (if k \<in> letter_key ` set ds then 1 else 0)"
    if "distinct (map letter_key ds)" for ds k
    using that by (induction ds) (auto simp: filter_empty_conv image_iff)
  have "letters_wf (inbox s) (outbox s) (dead_letters s)"
    using reachable_inv [OF assms] by (simp add: channel_inv_def)
  then show ?thesis by (simp add: letters_wf_def one)
qed

theorem dead_letters_are_exact_witness:
  "length (filter (\<lambda>d. letter_key d = (Outbound, ''Y''))
    (dead_letters (snd (recordChannelDeliveryReceipt (tick 8 ''t8'') (sample_receipt\<lparr>ri_status := ''retryable''\<rparr>) sample4)))) = 1"
proof -
  let ?s = "snd (recordChannelDeliveryReceipt (tick 8 ''t8'') (sample_receipt\<lparr>ri_status := ''retryable''\<rparr>) sample4)"
  have "channel_step\<^sup>*\<^sup>* empty_channels ?s"
    using sample_reachable(3) by (rule rtranclp.rtrancl_into_rtrancl) (rule channel_step.receipt)
  note dead_letters_are_exact [OF this, THEN conjunct2]
  moreover have "hd (outbox ?s) \<in> set (outbox ?s)" "j_id (hd (outbox ?s)) = ''Y''" "j_state (hd (outbox ?s)) = Dead"
    by code_simp+
  ultimately show ?thesis by fastforce
qed

section \<open>Replies\<close>

definition scope :: "'x job_scheme \<Rightarrow> ident \<times> ident \<times> ident" where
  "scope j = (j_org j, j_user j, j_agent j)"

definition answers :: "inbox_item \<Rightarrow> outbox_item \<Rightarrow> bool" where
  "answers x y \<longleftrightarrow> j_id x = ob_inbox y \<and> j_state x = Completed \<and> scope x = scope y \<and>
     ib_binding x = ob_binding y \<and> ib_channel x = ob_channel y \<and> ib_account x = ob_account y"

definition same_reply :: "outbox_item \<Rightarrow> outbox_item \<Rightarrow> bool" where
  "same_reply y z \<longleftrightarrow> scope z = scope y \<and> ob_inbox z = ob_inbox y \<and> ob_binding z = ob_binding y \<and>
     ob_channel z = ob_channel y \<and> ob_account z = ob_account y"

lemma same_reply_refl: "same_reply y y"
  by (simp add: same_reply_def)

lemma outbox_replies_step:
  assumes "channel_step s t" and "z \<in> set (outbox t)"
  shows "(\<exists>y\<in>set (outbox s). same_reply y z) \<or> (\<exists>x\<in>set (inbox t). answers x z)"
proof -
  have same: ?thesis if "outbox t = outbox s" using that assms(2) same_reply_refl by auto
  show ?thesis using assms(1)
  proof cases
  case (complete outbound e i token)
  show ?thesis
  proof (cases "List.find (holds_lease i token) (inbox s)")
    case None
    then show ?thesis using complete assms(2) same_reply_refl by (auto simp: completeChannelIngress_def)
  next
    case (Some x)
    have "answers (finish_inbox (clock e) x) (new_outbox_item e o_in x c)" for o_in c
      by (simp add: answers_def finish_inbox_def new_outbox_item_def scope_def)
    then have "\<exists>x'\<in>set (upd_first (holds_lease i token) (finish_inbox (clock e)) (inbox s)).
        answers x' (new_outbox_item e o_in x c)" for o_in c
      using mem_upd_first [OF Some] by (rule bexI)
    then show ?thesis using complete assms(2) same_reply_refl
      by (auto simp: completeChannelIngress_def Some Let_def split: option.splits)
  qed
next
  case (lease_deliveries e dli)
  have all: "list_all2 same_reply (outbox s) (outbox t)"
    unfolding lease_deliveries
    by (simp add: leaseChannelDeliveries_def Let_def, rule list_all2_assign_refs)
      (auto simp: same_reply_def take_lease_def scope_def)
  show ?thesis using list_all2_memR [OF all assms(2)] by blast
next
  case (receipt e ri)
  then show ?thesis using assms(2)
    by (auto simp: recordChannelDeliveryReceipt_def Let_def same_reply_def settle_outbox_def scope_def
        split: option.splits elim!: set_upd_firstE dest: find_Some_mem)
  qed ((rule same, (auto simp: channel_op_defs Let_def split: option.splits)[1])+)
qed

text \<open>C11. A reply answers one message and stays in its tenant: every outbox item belongs to a completed inbox item
  of the same organization, user, agent, binding, channel and account, and no two replies answer the same
  message.\<close>

theorem replies_answer_their_message:
  assumes "channel_step\<^sup>*\<^sup>* empty_channels s"
  shows "distinct (map ob_inbox (outbox s)) \<and> (\<forall>y\<in>set (outbox s). \<exists>x\<in>set (inbox s). answers x y)"
  using assms
proof (induction rule: rtranclp_induct)
  case base
  then show ?case by (simp add: empty_channels_def)
next
  case (step s t)
  have inv: "channel_inv s" "channel_inv t" using step reachable_inv by (meson rtranclp.rtrancl_into_rtrancl)+
  have "\<exists>x\<in>set (inbox t). answers x z" if z: "z \<in> set (outbox t)" for z
    using outbox_replies_step [OF step(2) z]
  proof (elim disjE bexE)
    fix y assume y: "y \<in> set (outbox s)" "same_reply y z"
    then obtain x where x: "x \<in> set (inbox s)" "answers x y" using step by blast
    have "lookup (j_id x) (inbox s) = Some x"
      using inv(1) x(1) by (auto simp: channel_inv_def inbox_wf_def intro: lookup_mem)
    moreover have "is_final (j_state x)" using x(2) by (simp add: answers_def is_final_def)
    ultimately have "lookup (j_id x) (inbox t) = Some x"
      using inbox_queue.final_kept [OF inv(1) step(2)] by blast
    then have "x \<in> set (inbox t)" by (auto dest: find_Some_mem)
    moreover have "answers x z" using x(2) y(2) by (simp add: answers_def same_reply_def)
    ultimately show ?thesis by blast
  qed blast
  moreover have "distinct (map ob_inbox (outbox t))" using inv(2) by (simp add: channel_inv_def outbox_wf_def)
  ultimately show ?case by blast
qed

theorem replies_answer_their_message_witness: "\<exists>x\<in>set (inbox sample5). answers x (hd (outbox sample5))"
proof -
  have "hd (outbox sample5) \<in> set (outbox sample5)" by code_simp
  then show ?thesis using replies_answer_their_message [OF sample_reachable(4)] by blast
qed

section \<open>Deduplication\<close>

definition inbox_key :: "inbox_item \<Rightarrow> ident \<times> ident \<times> ident" where
  "inbox_key x = (j_id x, ib_binding x, ib_external x)"

lemma inbox_keys_kept:
  assumes "channel_step s t" and "k \<in> inbox_key ` set (inbox s)"
  shows "k \<in> inbox_key ` set (inbox t)"
proof -
  have key: "inbox_key ` set (inbox s) \<subseteq> inbox_key ` set (inbox t)"
    if "map inbox_key (inbox t) = map inbox_key (inbox s)" using arg_cong [OF that, of set] by simp
  show ?thesis using assms(1)
  proof cases
    case (lease_ingress e li)
    then have "map inbox_key (inbox t) = map inbox_key (inbox s)"
      by (simp add: leaseChannelIngress_def Let_def map_assign_refs inbox_key_def take_lease_def)
    then show ?thesis using key assms(2) by blast
  next
    case (complete outbound e i token)
    then have "map inbox_key (inbox t) = map inbox_key (inbox s)"
      by (auto simp: completeChannelIngress_def Let_def map_upd_first inbox_key_def finish_inbox_def split: option.splits)
    then show ?thesis using key assms(2) by blast
  next
    case (fail e i token code at)
    then have "map inbox_key (inbox t) = map inbox_key (inbox s)"
      by (auto simp: failChannelIngress_def Let_def map_upd_first inbox_key_def split: option.splits)
    then show ?thesis using key assms(2) by blast
  qed (use assms(2) in \<open>auto simp: channel_op_defs Let_def split: option.splits\<close>)
qed

text \<open>C5. A vendor message is queued once: after it was accepted, any later delivery of the same external message
  to the binding, after any operations, is reported as a duplicate of the same item and changes nothing.\<close>

theorem ingress_is_deduplicated:
  assumes "channel_step\<^sup>*\<^sup>* empty_channels s"
    and "or_else (ii_id i) (uuid e 0) \<notin> j_id ` set (inbox s)"
    and "acceptChannelIngress e i s = (Some (st, b, x), t)" and "channel_step\<^sup>*\<^sup>* t u"
    and "acceptChannelIngress e' i' u = (Some (st', b', x'), v)"
    and "ii_binding i' = ii_binding i" and "ii_external i' = ii_external i"
  shows "st' = Duplicate \<and> j_id x' = j_id x \<and> v = u"
proof -
  have st: "channel_step s t" using channel_step.accept [OF assms(2)] assms(3) by simp
  have "channel_inv u" using assms(1,4) st by (meson reachable_inv rtranclp.rtrancl_into_rtrancl rtranclp_trans)
  then have dis: "distinct (map (\<lambda>x. (ib_binding x, ib_external x)) (inbox u))"
    by (simp add: channel_inv_def inbox_wf_def)
  have x: "x \<in> set (inbox t)" "ib_binding x = ii_binding i" "ib_external x = ii_external i"
    using assms(3) by (auto simp: acceptChannelIngress_def Let_def new_inbox_item_def dest!: find_Some_mem
        split: option.splits if_splits)
  from x(1) have "inbox_key x \<in> inbox_key ` set (inbox t)" by simp
  with assms(4) have "inbox_key x \<in> inbox_key ` set (inbox u)"
    by (induction rule: rtranclp_induct) (auto intro: inbox_keys_kept)
  then obtain y where y: "y \<in> set (inbox u)" "j_id y = j_id x" "ib_binding y = ii_binding i" "ib_external y = ii_external i"
    using x by (auto simp: inbox_key_def)
  have found: "List.find (\<lambda>z. ib_binding z = ii_binding i \<and> ib_external z = ii_external i) (inbox u) = Some y"
    using find_unique [OF dis y(1), of "\<lambda>z. ib_binding z = ii_binding i \<and> ib_external z = ii_external i"] y by simp
  let ?here = "\<lambda>b. cb_id b = ii_binding i' \<and> cb_agent b = ii_agent i' \<and> cb_channel b = ii_channel i'"
  obtain d where "List.find ?here (bindings u) = Some d"
    using assms(5) by (cases "List.find ?here (bindings u)") (auto simp: acceptChannelIngress_def Let_def)
  moreover from find_Some_mem [OF this] have "cb_id d = ii_binding i" using assms(6) by simp
  ultimately show ?thesis using assms(5-7) y(2) found
    by (auto simp: acceptChannelIngress_def Let_def split: if_splits)
qed

theorem ingress_is_deduplicated_witness:
  "fst (the (fst (acceptChannelIngress (tick 9 ''t9'') (sample_message\<lparr>ii_id := Some ''J''\<rparr>) sample5))) = Duplicate"
proof -
  let ?b = "snd (upsertAgentChannelBinding (tick 1 ''t1'') sample_binding empty_channels)"
  let ?i' = "sample_message\<lparr>ii_id := Some ''J''\<rparr>"
  have r: "channel_step\<^sup>*\<^sup>* empty_channels ?b" by (blast intro: channel_step.bind)
  have f: "or_else (ii_id sample_message) (uuid (tick 2 ''t2'') 0) \<notin> j_id ` set (inbox ?b)" by code_simp
  have "fst (acceptChannelIngress (tick 2 ''t2'') sample_message ?b) \<noteq> None" by code_simp
  then obtain st b x where a: "acceptChannelIngress (tick 2 ''t2'') sample_message ?b = (Some (st, b, x), sample1)"
    by (cases "acceptChannelIngress (tick 2 ''t2'') sample_message ?b") (auto simp: sample1_def)
  have "fst (acceptChannelIngress (tick 9 ''t9'') ?i' sample5) \<noteq> None" by code_simp
  then obtain st' b' x' v where a': "acceptChannelIngress (tick 9 ''t9'') ?i' sample5 = (Some (st', b', x'), v)"
    by (cases "acceptChannelIngress (tick 9 ''t9'') ?i' sample5") auto
  have "channel_step\<^sup>*\<^sup>* sample1 sample5"
    using sample_run5(2-5) by (meson rtranclp.rtrancl_into_rtrancl)
  from ingress_is_deduplicated [OF r f a this a'] a' show ?thesis by simp
qed

section \<open>Exhausted leases\<close>

text \<open>An item whose lease expires during its last attempt is stuck: no lease call at any time returns it,
  changes it or writes a dead letter, so it stays leased unless its former holder settles it.\<close>

theorem exhausted_lease_is_never_released:
  assumes "channel_step\<^sup>*\<^sup>* empty_channels s" and "lookup i (inbox s) = Some x" and "j_state x = Leased"
    and "ib_maxAttempts x \<le> j_attempts x" and "leaseChannelIngress e li s = (got, t)"
  shows "lookup i (inbox t) = Some x \<and> i \<notin> j_id ` set got \<and>
    (Inbound, i) \<notin> letter_key ` set (dead_letters t)"
proof -
  have inv: "channel_inv s" by (rule reachable_inv [OF assms(1)])
  have "lookup i (inbox t) = Some x \<and> i \<notin> j_id ` set got"
    using leaseChannelIngress_leases [OF assms(5)] _ _ assms(2)
    by (rule leased_from_ids) (use inv assms(4) in \<open>auto simp: take_lease_def claimable_def channel_inv_def inbox_wf_def\<close>)
  moreover have "dead_letters t = dead_letters s" using assms(5) by (auto simp: leaseChannelIngress_def Let_def)
  moreover have "x \<in> set (inbox s)" "j_id x = i" using assms(2) by (auto dest: find_Some_mem)
  ultimately show ?thesis using inv assms(3) by (auto simp: channel_inv_def letters_wf_def)
qed

theorem exhausted_lease_is_never_released_witness:
  "(Inbound, ''I'') \<notin> letter_key ` set (dead_letters (snd (leaseChannelIngress (tick 99999999 ''t'') sample_lease sample2)))"
proof -
  have "lookup ''I'' (inbox sample2) = Some (hd (inbox sample2))" "j_state (hd (inbox sample2)) = Leased"
    "ib_maxAttempts (hd (inbox sample2)) \<le> j_attempts (hd (inbox sample2))" by code_simp+
  from exhausted_lease_is_never_released [OF sample_reachable(1) this surjective_pairing] show ?thesis by blast
qed

section \<open>Bindings and health\<close>

text \<open>Saving a binding keeps its identity: the agent's binding for the channel is the value returned, with the
  identifier and creation time of the binding it replaces; a new credential envelope starts the next
  generation with no capabilities or health, and without one they are kept.\<close>

theorem upsertAgentChannelBinding_spec:
  assumes "upsertAgentChannelBinding e i s = (v, t)"
  shows "List.find (\<lambda>b. cb_agent b = bi_agent i \<and> cb_channel b = bi_channel i) (bindings t) = Some v \<and>
    (case List.find (\<lambda>b. cb_agent b = bi_agent i \<and> cb_channel b = bi_channel i) (bindings s) of
       None \<Rightarrow> length (bindings t) = length (bindings s) + 1 \<and>
         cb_generation v = (if bi_envelope i \<noteq> None then 1 else 0)
     | Some b \<Rightarrow> length (bindings t) = length (bindings s) \<and> cb_id v = cb_id b \<and> cb_createdAt v = cb_createdAt b \<and>
         (if bi_envelope i \<noteq> None
          then cb_generation v = cb_generation b + 1 \<and> cb_capabilities v = [] \<and> cb_lastHealthAt v = None
          else cb_generation v = cb_generation b \<and> cb_capabilities v = cb_capabilities b \<and>
            cb_lastHealthAt v = cb_lastHealthAt b \<and> cb_envelope v = cb_envelope b))"
proof -
  let ?p = "\<lambda>b. cb_agent b = bi_agent i \<and> cb_channel b = bi_channel i"
  have v: "?p v" using assms by (auto simp: upsertAgentChannelBinding_def Let_def)
  show ?thesis
  proof (cases "List.find ?p (bindings s)")
    case None
    then have "bindings t = bindings s @ [v]" using assms by (auto simp: upsertAgentChannelBinding_def Let_def)
    then show ?thesis using None v assms by (auto simp: find_append upsertAgentChannelBinding_def Let_def)
  next
    case (Some b)
    then have "bindings t = upd_first ?p (\<lambda>_. v) (bindings s)"
      using assms by (auto simp: upsertAgentChannelBinding_def Let_def)
    moreover have "List.find ?p (upd_first ?p (\<lambda>_. v) (bindings s)) = Some v"
      using find_upd_first_same [of ?p "\<lambda>_. v" "bindings s"] v Some by simp
    ultimately show ?thesis using Some assms by (auto simp: upsertAgentChannelBinding_def Let_def)
  qed
qed

theorem upsertAgentChannelBinding_spec_witness:
  "cb_generation (fst (upsertAgentChannelBinding (tick 9 ''t'') sample_binding sample5)) = 2"
proof -
  let ?p = "\<lambda>b. cb_agent b = bi_agent sample_binding \<and> cb_channel b = bi_channel sample_binding"
  have "List.find ?p (bindings sample5) = Some (hd (bindings sample5))"
    "cb_generation (hd (bindings sample5)) = 1" "bi_envelope sample_binding \<noteq> None" by code_simp+
  with upsertAgentChannelBinding_spec [of "tick 9 ''t''" sample_binding sample5, OF surjective_pairing]
  show ?thesis by simp
qed

text \<open>Health never goes back in time: a report older than the health its binding shows leaves every binding as
  it is, afterwards the binding is at least as recent as the report, and repeating a report finds the
  observation already stored and adds none.\<close>

theorem stale_health_report_is_only_recorded:
  assumes "saveChannelHealthReport e i s = (Some (h, b), t)"
  shows "(\<forall>t0. cb_lastHealthAt b = Some t0 \<longrightarrow> hi_observedAt i < t0 \<longrightarrow> bindings t = bindings s) \<and>
    (\<exists>t0. cb_lastHealthAt b = Some t0 \<and> hi_observedAt i \<le> t0) \<and>
    (\<exists>b'. fst (saveChannelHealthReport e' i t) = Some (h, b')) \<and>
    health (snd (saveChannelHealthReport e' i t)) = health t"
proof -
  let ?here = "\<lambda>b. cb_id b = hi_binding i \<and> cb_agent b = hi_agent i \<and> cb_channel b = hi_channel i"
  obtain c where c: "List.find ?here (bindings s) = Some c"
    using assms by (cases "List.find ?here (bindings s)") (auto simp: saveChannelHealthReport_def Let_def)
  note here = find_Some_mem [OF c, THEN conjunct2]
  let ?same = "\<lambda>h. ho_binding h = cb_id c \<and> ho_worker h = hi_worker i \<and> ho_sequence h = hi_sequence i"
  have again: "\<exists>d. List.find ?here (bindings t) = Some d \<and> cb_id d = cb_id c"
  proof (cases "bindings t = bindings s")
    case False
    then have "bindings t = upd_first ?here (\<lambda>b. b\<lparr>cb_status := hi_status i, cb_capabilities := hi_capabilities i,
                    cb_adapterVersion := hi_adapterVersion i, cb_lastErrorCode := hi_errorCode i,
                    cb_lastHealthAt := Some (hi_observedAt i),
                    cb_lastSeenAt := if hi_status i = ''connected'' then Some (hi_observedAt i)
                      else cb_lastSeenAt b,
                    cb_lastInboundAt := or_opt (hi_lastInboundAt i) (cb_lastInboundAt b),
                    cb_lastOutboundAt := or_opt (hi_lastOutboundAt i) (cb_lastOutboundAt b),
                    cb_updatedAt := clock e\<rparr>) (bindings s)"
      using assms c by (auto simp: saveChannelHealthReport_def Let_def split: if_splits)
    then show ?thesis using c by (simp add: find_upd_first_same)
  qed (use c in simp)
  have found: "List.find ?same (health t) = Some h"
    using assms c here by (auto simp: saveChannelHealthReport_def Let_def find_append split: option.splits if_splits)
  show ?thesis
  proof (intro conjI)
    show "\<forall>t0. cb_lastHealthAt b = Some t0 \<longrightarrow> hi_observedAt i < t0 \<longrightarrow> bindings t = bindings s"
      "\<exists>t0. cb_lastHealthAt b = Some t0 \<and> hi_observedAt i \<le> t0"
      using assms c by (auto simp: saveChannelHealthReport_def Let_def not_le split: option.splits if_splits)
    show "\<exists>b'. fst (saveChannelHealthReport e' i t) = Some (h, b')"
      "health (snd (saveChannelHealthReport e' i t)) = health t"
      using again found by (auto simp: saveChannelHealthReport_def Let_def)
  qed
qed

definition sample_report :: health_input where
  "sample_report = \<lparr>hi_id = None, hi_binding = ''B'', hi_agent = ''A'', hi_channel = ''qq'', hi_worker = ''w'',
     hi_sequence = 1, hi_status = ''connected'', hi_capabilities = [''text''], hi_adapterVersion = None,
     hi_latencyMs = None, hi_lastInboundAt = None, hi_lastOutboundAt = None, hi_errorCode = None, hi_observedAt = 9\<rparr>"

theorem stale_health_report_is_only_recorded_witness:
  "length (health (snd (saveChannelHealthReport (tick 11 ''u'') sample_report
     (snd (saveChannelHealthReport (tick 10 ''t'') sample_report sample5))))) = 1"
proof -
  let ?r = "saveChannelHealthReport (tick 10 ''t'') sample_report sample5"
  have "fst ?r \<noteq> None" by code_simp
  then obtain h b where "?r = (Some (h, b), snd ?r)" by (cases "?r") auto
  note stale_health_report_is_only_recorded [OF this, of "tick 11 ''u''"]
  moreover have "length (health (snd ?r)) = 1" by code_simp
  ultimately show ?thesis by simp
qed

end
