(* ===== verification/Channel_Workers.thy ===== *)
theory Channel_Workers
  imports Channel_Bridge Fleet_Store Js_Text
begin

text \<open>
  The two workers of the channel bridge and their helpers:
  \<open>packages/channels/ingress-worker.mjs\<close> turns a leased inbox item into an invocation of the agent's
  runtime and a reply in the outbox; \<open>packages/channels/worker.mjs\<close> keeps one adapter per binding of its
  inventory and delivers leased outbox items through them; \<open>packages/channels/adapters/utilities.mjs\<close>
  has the retry loop and the error codes.

  The runtime, the vendors' adapters and the platform's HTTP side are functions. At every \<open>await\<close> other
  tasks may run: \<open>between k\<close> is what they do to the repository at the \<open>k\<close>-th one, any function.
\<close>

section \<open>Error codes and delays\<close>

definition code_char :: "string \<Rightarrow> char \<Rightarrow> bool" where
  "code_char extra c \<longleftrightarrow> is_upper c \<or> is_lower c \<or> is_digit c \<or> c \<in> set extra"

definition error_text :: "string \<Rightarrow> string \<Rightarrow> string \<Rightarrow> string" where
  "error_text extra fallback code =
     (let s = take 200 (map (\<lambda>c. if code_char extra c then c else CHR ''_'') code)
      in if s = [] then fallback else s)"

definition errorCode :: "failure \<Rightarrow> string" where
  "errorCode err =
     error_text ''._:-'' ''channel_runtime_failed'' (or_else (failure_code err) ''channel_runtime_failed'')"

definition adapterErrorCode :: "string option \<Rightarrow> string \<Rightarrow> string" where
  "adapterErrorCode code fallback = error_text ''._:/-'' fallback (or_else code fallback)"

definition stableIdentifier :: "(string \<Rightarrow> string) \<Rightarrow> string \<Rightarrow> string \<Rightarrow> string" where
  "stableIdentifier sha256 before raw = (if matches IDENTIFIER raw then raw else before @ '':'' @ sha256 raw)"

text \<open>
  \<open>retry-after\<close>: absent or empty, a number of seconds, or a date; \<open>number\<close> and \<open>date\<close> are the conversions
  of the platform to milliseconds, \<open>None\<close> for a result that is not finite.
\<close>

definition retryAfterMs ::
  "(string \<Rightarrow> int option) \<Rightarrow> (string \<Rightarrow> instant option) \<Rightarrow> instant \<Rightarrow> int \<Rightarrow> string option \<Rightarrow> int" where
  "retryAfterMs number date now fallback header =
     (case header of
        None \<Rightarrow> fallback
      | Some value \<Rightarrow>
          if value = [] then fallback
          else (case number value of
                  Some ms \<Rightarrow> max 0 (min ms 86400000)
                | None \<Rightarrow> (case date value of
                    Some t \<Rightarrow> max 0 (min (t - now) 86400000)
                  | None \<Rightarrow> fallback)))"

text \<open>The body of a vendor's answer; the byte count and the JSON parser are the platform's.\<close>

definition jsonResponse :: "(string \<Rightarrow> nat) \<Rightarrow> (string \<Rightarrow> json option) \<Rightarrow> nat \<Rightarrow> string \<Rightarrow> failure + json" where
  "jsonResponse bytes parse limit body =
     (if limit < bytes body then Inl (CodedError ''vendor_response_too_large'' None)
      else if body = [] then Inr (JObj [])
      else (case parse body of None \<Rightarrow> Inl (CodedError ''invalid_vendor_response'' None) | Some v \<Rightarrow> Inr v))"

section \<open>Submitting a message\<close>

text \<open>A rejected request: its status and whether it says it may be repeated.\<close>

record vendor_error =
  ve_code :: "string option"
  ve_status :: "int option"
  ve_retryable :: "bool option"

definition final_error :: "vendor_error \<Rightarrow> bool" where
  "final_error err \<longleftrightarrow> ve_retryable err = Some False \<or>
     (case ve_status err of None \<Rightarrow> False | Some st \<Rightarrow> st \<noteq> 0 \<and> st < 500 \<and> st \<noteq> 429)"

text \<open>
  The loop of \<open>submitIngress\<close>: attempt \<open>k\<close> of \<open>attempts\<close>, with the pauses in milliseconds. The argument
  \<open>n\<close> counts the attempts left after this one.
\<close>

fun submit_from :: "(nat \<Rightarrow> vendor_error + 'a) \<Rightarrow> nat \<Rightarrow> nat \<Rightarrow> (vendor_error + 'a) \<times> int list" where
  "submit_from ingress k 0 = (ingress k, [])"
| "submit_from ingress k (Suc n) =
     (case ingress k of
        Inr ack \<Rightarrow> (Inr ack, [])
      | Inl err \<Rightarrow>
          if final_error err then (Inl err, [])
          else (let (r, waits) = submit_from ingress (Suc k) n in (r, min 4000 (250 * 2 ^ (k - 1)) # waits)))"

definition submitIngress :: "(nat \<Rightarrow> vendor_error + 'a) \<Rightarrow> int option \<Rightarrow> (vendor_error + 'a) \<times> int list" where
  "submitIngress ingress attempts = submit_from ingress 1 (nat (clamp_num 1 10 5 attempts) - 1)"

section \<open>Ingress worker\<close>

record ingress_world =
  iw_fleet :: fleet_state
  iw_channels :: channel_state

record invocation =
  nv_org :: ident
  nv_user :: ident
  nv_agent :: agent
  nv_conversation :: ident
  nv_content :: string
  nv_channel :: string
  nv_binding :: ident
  nv_account :: ident
  nv_sender :: ident
  nv_message :: ident
  nv_kind :: string

record ingress_options =
  go_batchSize :: "int option"
  go_leaseSeconds :: "int option"
  go_baseRetryMs :: "int option"
  go_maxRetryMs :: "int option"

record ingress_worker =
  gw_batchSize :: int
  gw_leaseSeconds :: int
  gw_baseRetryMs :: int
  gw_maxRetryMs :: int

definition new_ingress_worker :: "ingress_options \<Rightarrow> ingress_worker" where
  "new_ingress_worker o' =
     (let base = max 100 (num_or (go_baseRetryMs o') 1000)
      in \<lparr>gw_batchSize = clamp_num 1 100 8 (go_batchSize o'), gw_leaseSeconds = clamp_num 5 300 90 (go_leaseSeconds o'),
          gw_baseRetryMs = base, gw_maxRetryMs = max base (num_or (go_maxRetryMs o') 300000)\<rparr>)"

definition messageText :: "inbox_item \<Rightarrow> failure + string" where
  "messageText j =
     (case (text_of (prop_of ''kind'' (ib_content j)), text_of (prop_of ''text'' (ib_content j))) of
        (Some kind, Some t) \<Rightarrow>
          if kind \<in> {''text'', ''markdown''} \<and> trim t \<noteq> [] then Inr (trim t)
          else Inl (CodedError ''unsupported_channel_content'' None)
      | _ \<Rightarrow> Inl (CodedError ''unsupported_channel_content'' None))"

definition ingress_agent :: "inbox_item \<Rightarrow> ingress_world \<Rightarrow> failure + agent" where
  "ingress_agent j w =
     (case getAgent (j_agent j) (iw_fleet w) of
        Some a \<Rightarrow> if ag_org a = j_org j \<and> ag_owner a = j_user j then Inr a
          else Inl (CodedError ''channel_agent_not_found'' None)
      | None \<Rightarrow> Inl (CodedError ''channel_agent_not_found'' None))"

definition ingress_conversation :: "inbox_item \<Rightarrow> conversation_input" where
  "ingress_conversation j =
     \<lparr>vi_id = None, vi_org = j_org j, vi_user = j_user j, vi_agent = j_agent j, vi_binding = ib_binding j,
      vi_channel = ib_channel j, vi_conversation = cr_conversation (ib_conversation j),
      vi_kind = cr_kind (ib_conversation j), vi_runtime = None, vi_lastMessageAt = Some (ib_receivedAt j)\<rparr>"

definition invocation_of :: "inbox_item \<Rightarrow> agent \<Rightarrow> channel_conversation \<Rightarrow> string \<Rightarrow> invocation" where
  "invocation_of j a c content =
     \<lparr>nv_org = j_org j, nv_user = j_user j, nv_agent = a, nv_conversation = cc_runtime c, nv_content = content,
      nv_channel = ib_channel j, nv_binding = ib_binding j, nv_account = ib_account j,
      nv_sender = sr_user (ib_sender j), nv_message = ib_external j, nv_kind = cr_kind (ib_conversation j)\<rparr>"

definition reply_of :: "inbox_item \<Rightarrow> channel_conversation \<Rightarrow> string \<Rightarrow> outbound_input option" where
  "reply_of j c reply =
     (if reply = [] then None
      else Some \<lparr>oi_id = None, oi_conversation = Some ((ib_conversation j)\<lparr>cr_runtime := Some (cc_runtime c)\<rparr>),
        oi_content = JObj [(''kind'', JStr ''text''), (''text'', JStr reply)], oi_attachments = [],
        oi_replyTo = Some (ib_external j), oi_trace = Some (ib_trace j), oi_maxAttempts = None\<rparr>)"

text \<open>\<open>typeof result.content === "string" ? result.content.trim() : ""\<close>; reading a property of no value throws.\<close>

definition reply_text :: "json \<Rightarrow> failure + string" where
  "reply_text result =
     (if result \<in> {JNull, JUndefined} then Inl (TypeError ''content'')
      else Inr (case text_of (prop_of ''content'' result) of None \<Rightarrow> [] | Some t \<Rightarrow> trim t))"

text \<open>The body of the \<open>try\<close>: what it throws or returns, and the repository then.\<close>

definition complete_with ::
  "env \<Rightarrow> inbox_item \<Rightarrow> channel_conversation \<Rightarrow> string \<Rightarrow> ingress_world \<Rightarrow>
     (failure + inbox_item \<times> outbox_item option) \<times> ingress_world" where
  "complete_with e j c reply w =
     (case completeChannelIngress e (j_id j) (or_else (j_leaseToken j) []) (reply_of j c reply) (iw_channels w) of
        (Inl err, s) \<Rightarrow> (Inl err, w\<lparr>iw_channels := s\<rparr>)
      | (Inr None, s) \<Rightarrow> (Inl (CodedError ''channel_ingress_lease_lost'' None), w\<lparr>iw_channels := s\<rparr>)
      | (Inr (Some r), s) \<Rightarrow> (Inr r, w\<lparr>iw_channels := s\<rparr>))"

definition answer_ingress ::
  "env \<Rightarrow> (invocation \<Rightarrow> failure + json) \<Rightarrow> (nat \<Rightarrow> ingress_world \<Rightarrow> ingress_world) \<Rightarrow> inbox_item \<Rightarrow> ingress_world \<Rightarrow>
     (failure + inbox_item \<times> outbox_item option) \<times> ingress_world" where
  "answer_ingress e invoke between j w =
     (case ingress_agent j w of
        Inl err \<Rightarrow> (Inl err, between 0 w)
      | Inr a \<Rightarrow>
          (let w1 = between 0 w;
               (c, s) = ensureChannelConversation e (ingress_conversation j) (iw_channels w1);
               w2 = between 1 (w1\<lparr>iw_channels := s\<rparr>)
           in case messageText j of
                Inl err \<Rightarrow> (Inl err, w2)
              | Inr content \<Rightarrow>
                  (let w3 = between 2 w2
                   in case invoke (invocation_of j a c content) of
                        Inl err \<Rightarrow> (Inl err, w3)
                      | Inr result \<Rightarrow>
                          (case reply_text result of
                             Inl err \<Rightarrow> (Inl err, w3)
                           | Inr reply \<Rightarrow>
                               (case complete_with e j c reply w3 of
                                  (r, w4) \<Rightarrow> (r, between 3 w4))))))"

definition ingress_delay :: "ingress_worker \<Rightarrow> inbox_item \<Rightarrow> int" where
  "ingress_delay k j = min (gw_maxRetryMs k) (gw_baseRetryMs k * 2 ^ nat (max 0 (j_attempts j - 1)))"

definition process_ingress ::
  "env \<Rightarrow> ingress_worker \<Rightarrow> (invocation \<Rightarrow> failure + json) \<Rightarrow> (nat \<Rightarrow> ingress_world \<Rightarrow> ingress_world) \<Rightarrow>
     inbox_item \<Rightarrow> ingress_world \<Rightarrow> (inbox_item \<times> outbox_item option) option \<times> ingress_world" where
  "process_ingress e k invoke between j w =
     (case answer_ingress e invoke between j w of
        (Inr r, w1) \<Rightarrow> (Some r, w1)
      | (Inl err, w1) \<Rightarrow>
          (None, w1\<lparr>iw_channels := snd (failChannelIngress e (j_id j) (or_else (j_leaseToken j) []) (errorCode err)
             (Some (clock e + ingress_delay k j)) (iw_channels w1))\<rparr>))"

definition run_ingress ::
  "env \<Rightarrow> ingress_worker \<Rightarrow> (invocation \<Rightarrow> failure + json) \<Rightarrow> (nat \<Rightarrow> ingress_world \<Rightarrow> ingress_world) \<Rightarrow>
     ingress_world \<Rightarrow> (inbox_item \<times> outbox_item option) option list \<times> ingress_world" where
  "run_ingress e k invoke between w =
     (let (js, s) = leaseChannelIngress e
            \<lparr>li_limit = Some (gw_batchSize k), li_seconds = Some (gw_leaseSeconds k), li_leaseId = None\<rparr> (iw_channels w)
      in fold (\<lambda>j (rs, w). let (r, w') = process_ingress e k invoke between j w in (rs @ [r], w')) js
           ([], w\<lparr>iw_channels := s\<rparr>))"

section \<open>Delivery worker\<close>

text \<open>The scope of an owner; a missing field is \<open>undefined\<close>.\<close>

record owner_scope =
  os_org :: "ident option"
  os_user :: "ident option"
  os_agent :: "ident option"
  os_workspace :: "ident option"

definition sameOwnerScope :: "owner_scope \<Rightarrow> owner_scope \<Rightarrow> bool" where
  "sameOwnerScope l r \<longleftrightarrow>
     os_org l = os_org r \<and> os_user l = os_user r \<and> os_agent l = os_agent r \<and> os_workspace l = os_workspace r"

record descriptor =
  de_id :: ident
  de_channel :: string
  de_generation :: "int option"
  de_scope :: owner_scope

definition SUPPORTED_CHANNELS :: "string list" where
  "SUPPORTED_CHANNELS = [''feishu'', ''wechat'', ''qq'']"

text \<open>
  What is outside the worker: the platform's answer about a binding (its id, channel and scope, with
  credentials the model does not look at), the constructor of an adapter, its \<open>start\<close>.
\<close>

record adapter_side =
  as_resolve :: "descriptor \<Rightarrow> failure + ident \<times> string \<times> owner_scope"
  as_build :: "descriptor \<Rightarrow> failure option"
  as_start :: "descriptor \<Rightarrow> failure option"

record delivery_worker =
  dw_adapters :: "(ident \<times> descriptor) list"
  dw_generations :: "(ident \<times> int) list"
  dw_inventoryReady :: bool
  dw_refreshing :: bool
  dw_stopped :: bool

definition new_delivery_worker :: "string list \<Rightarrow> descriptor list \<Rightarrow> failure + delivery_worker" where
  "new_delivery_worker channels bs =
     (if \<exists>b\<in>set bs. de_id b = [] \<or> de_channel b \<notin> set SUPPORTED_CHANNELS
      then Inl (TypeError ''Channel Worker binding is invalid'')
      else if channels = [] \<or> \<not> set channels \<subseteq> set SUPPORTED_CHANNELS
      then Inl (TypeError ''Channel Worker channels are invalid'')
      else Inr \<lparr>dw_adapters = [], dw_generations = [], dw_inventoryReady = False, dw_refreshing = False, dw_stopped = False\<rparr>)"

definition startAdapter ::
  "adapter_side \<Rightarrow> descriptor \<Rightarrow> delivery_worker \<Rightarrow> (failure + bool) \<times> delivery_worker" where
  "startAdapter v d s =
     (case as_resolve v d of
        Inl err \<Rightarrow> (Inl err, s)
      | Inr (i, channel, owner) \<Rightarrow>
          if i \<noteq> de_id d \<or> channel \<noteq> de_channel d \<or> \<not> sameOwnerScope owner (de_scope d)
          then (Inl (CodedError ''channel_binding_scope_mismatch'' None), s)
          else (case as_build v d of
                  Some err \<Rightarrow> (Inl err, s)
                | None \<Rightarrow>
                    (case as_start v d of
                       Some err \<Rightarrow> (Inr False, s)
                     | None \<Rightarrow> (Inr True, s\<lparr>dw_adapters := AList.update (de_id d) d (dw_adapters s)\<rparr>))))"

definition generation_of :: "descriptor \<Rightarrow> int" where
  "generation_of d = or_else (de_generation d) 0"

text \<open>Adapters that left the inventory or whose generation changed are stopped and forgotten.\<close>

definition is_current :: "descriptor list \<Rightarrow> delivery_worker \<Rightarrow> ident \<Rightarrow> bool" where
  "is_current discovered s i \<longleftrightarrow>
     (case map_of (rev (map (\<lambda>d. (de_id d, d)) discovered)) i of
        None \<Rightarrow> False
      | Some d \<Rightarrow> map_of (dw_generations s) i = Some (generation_of d))"

definition drop_stale :: "descriptor list \<Rightarrow> delivery_worker \<Rightarrow> delivery_worker" where
  "drop_stale discovered s =
     (let gone = (\<lambda>i. i \<in> fst ` set (dw_adapters s) \<and> \<not> is_current discovered s i)
      in s\<lparr>dw_adapters := filter (\<lambda>(i, a). \<not> gone i) (dw_adapters s),
           dw_generations := filter (\<lambda>(i, g). \<not> gone i) (dw_generations s)\<rparr>)"

definition already_runs :: "descriptor \<Rightarrow> delivery_worker \<Rightarrow> bool" where
  "already_runs d s \<longleftrightarrow>
     de_id d \<in> fst ` set (dw_adapters s) \<and> map_of (dw_generations s) (de_id d) = Some (generation_of d)"

fun start_missing ::
  "adapter_side \<Rightarrow> descriptor list \<Rightarrow> delivery_worker \<Rightarrow> failure option \<times> delivery_worker" where
  "start_missing v [] s = (None, s)"
| "start_missing v (d # ds) s =
     (if already_runs d s then start_missing v ds s
      else (case startAdapter v d s of
              (Inl err, s') \<Rightarrow> (Some err, s')
            | (Inr started, s') \<Rightarrow>
                start_missing v ds
                  (if started then s'\<lparr>dw_generations := AList.update (de_id d) (generation_of d) (dw_generations s')\<rparr>
                   else s')))"

definition refreshInventory ::
  "adapter_side \<Rightarrow> failure + descriptor list \<Rightarrow> delivery_worker \<Rightarrow> failure option \<times> delivery_worker" where
  "refreshInventory v inventory s =
     (if dw_refreshing s \<or> dw_stopped s then (None, s)
      else (case inventory of
              Inl err \<Rightarrow> (Some err, s)
            | Inr discovered \<Rightarrow> start_missing v discovered (drop_stale discovered (s\<lparr>dw_inventoryReady := True\<rparr>))))"

text \<open>What \<open>runOnce\<close> asks the platform for: the channels and bindings that have an adapter.\<close>

definition lease_request :: "delivery_worker \<Rightarrow> (string list \<times> ident list) option" where
  "lease_request s =
     (if dw_stopped s \<or> dw_adapters s = [] then None
      else Some (uniq (map (de_channel \<circ> snd) (dw_adapters s)), map fst (dw_adapters s)))"

definition stop_worker :: "delivery_worker \<Rightarrow> delivery_worker" where
  "stop_worker s = s\<lparr>dw_stopped := True, dw_adapters := [], dw_generations := []\<rparr>"

text \<open>What an adapter says about a delivery, and the receipt the worker reports for it.\<close>

record delivery_result =
  vr_status :: string
  vr_messageId :: "string option"
  vr_errorCode :: "string option"
  vr_retryAfterMs :: "int option"

record delivery =
  dv_scope :: owner_scope
  dv_outbound :: ident
  dv_binding :: ident
  dv_token :: ident
  dv_attempt :: int
  dv_trace :: "json option"

record worker_receipt =
  wr_scope :: owner_scope
  wr_outbound :: ident
  wr_binding :: ident
  wr_token :: ident
  wr_status :: string
  wr_attempt :: int
  wr_messageId :: "string option"
  wr_errorCode :: "string option"
  wr_retryAfterMs :: "int option"
  wr_observedAt :: instant
  wr_trace :: json

definition nonempty :: "string option \<Rightarrow> string option" where
  "nonempty x = (case x of Some s \<Rightarrow> if s = [] then None else Some s | None \<Rightarrow> None)"

definition delivery_outcome ::
  "(descriptor \<Rightarrow> delivery \<Rightarrow> vendor_error + delivery_result) \<Rightarrow> delivery_worker \<Rightarrow> delivery \<Rightarrow> delivery_result" where
  "delivery_outcome vendor s item =
     (case map_of (dw_adapters s) (dv_binding item) of
        None \<Rightarrow> \<lparr>vr_status = ''failed'', vr_messageId = None, vr_errorCode = Some ''channel_adapter_not_running'',
          vr_retryAfterMs = None\<rparr>
      | Some a \<Rightarrow>
          (case vendor a item of
             Inr r \<Rightarrow> r
           | Inl err \<Rightarrow> \<lparr>vr_status = (if ve_retryable err = Some False then ''failed'' else ''retryable''),
               vr_messageId = None, vr_errorCode = Some (adapterErrorCode (ve_code err) ''channel_delivery_failed''),
               vr_retryAfterMs = Some 5000\<rparr>))"

definition deliver ::
  "env \<Rightarrow> (descriptor \<Rightarrow> delivery \<Rightarrow> vendor_error + delivery_result) \<Rightarrow> delivery_worker \<Rightarrow> delivery \<Rightarrow> worker_receipt" where
  "deliver e vendor s item =
     (let r = delivery_outcome vendor s item
      in \<lparr>wr_scope = dv_scope item, wr_outbound = dv_outbound item, wr_binding = dv_binding item,
          wr_token = dv_token item, wr_status = vr_status r, wr_attempt = dv_attempt item,
          wr_messageId = nonempty (vr_messageId r),
          wr_errorCode = map_option (\<lambda>c. adapterErrorCode (Some c) ''channel_adapter_failed'') (nonempty (vr_errorCode r)),
          wr_retryAfterMs = map_option (\<lambda>ms. max 0 (min ms 86400000)) (vr_retryAfterMs r),
          wr_observedAt = clock e,
          wr_trace = or_else (dv_trace item) (JObj [(''correlation_id'', JStr (uuid e 0))])\<rparr>)"

section \<open>Submitting\<close>

text \<open>
  Submitting a message ends after at most ten requests. It succeeds exactly when some attempt succeeds
  and every earlier one failed with an error worth repeating, and it never waits longer than four seconds
  between two attempts.
\<close>

lemma submit_from_ack:
  "(\<exists>waits. submit_from ingress k n = (Inr ack, waits)) \<longleftrightarrow>
    (\<exists>i\<le>n. ingress (k + i) = Inr ack \<and> (\<forall>l<i. \<exists>err. ingress (k + l) = Inl err \<and> \<not> final_error err))"
proof (induction n arbitrary: k)
  case (Suc n)
  show ?case
  proof (cases "ingress k")
    case (Inr a)
    have "i = 0" if "\<forall>l<i. \<exists>err. ingress (k + l) = Inl err \<and> \<not> final_error err" for i
      using that Inr by (cases i) force+
    then have "(\<exists>i\<le>Suc n. ingress (k + i) = Inr ack \<and> (\<forall>l<i. \<exists>err. ingress (k + l) = Inl err \<and> \<not> final_error err)) \<longleftrightarrow> a = ack"
      using Inr by (metis Inr_inject add.right_neutral not_less_zero zero_le)
    then show ?thesis using Inr by simp
  next
    case (Inl err)
    show ?thesis
    proof (cases "final_error err")
      case True
      have "\<not> (ingress (k + i) = Inr ack \<and> (\<forall>l<i. \<exists>err. ingress (k + l) = Inl err \<and> \<not> final_error err))" for i
        using Inl True by (cases i) force+
      then show ?thesis using Inl True by simp
    next
      case False
      have "(\<exists>i\<le>Suc n. ingress (k + i) = Inr ack \<and> (\<forall>l<i. \<exists>err. ingress (k + l) = Inl err \<and> \<not> final_error err)) \<longleftrightarrow>
        (\<exists>i\<le>n. ingress (Suc k + i) = Inr ack \<and> (\<forall>l<i. \<exists>err. ingress (Suc k + l) = Inl err \<and> \<not> final_error err))"
        (is "?L \<longleftrightarrow> ?R")
      proof
        assume ?L
        then obtain i where i: "i \<le> Suc n" "ingress (k + i) = Inr ack"
          "\<forall>l<i. \<exists>err. ingress (k + l) = Inl err \<and> \<not> final_error err" by blast
        then obtain j where j: "i = Suc j" using Inl by (cases i) auto
        have "\<exists>err. ingress (Suc k + l) = Inl err \<and> \<not> final_error err" if "l < j" for l
          using i(3) [rule_format, of "Suc l"] that j by simp
        then show ?R using i j by (intro exI [of _ j]) auto
      next
        assume ?R
        then obtain i where i: "i \<le> n" "ingress (Suc k + i) = Inr ack"
          "\<forall>l<i. \<exists>err. ingress (Suc k + l) = Inl err \<and> \<not> final_error err" by blast
        have "\<exists>err. ingress (k + l) = Inl err \<and> \<not> final_error err" if "l < Suc i" for l
          using that i(3) Inl False by (cases l) auto
        then show ?L using i by (intro exI [of _ "Suc i"]) auto
      qed
      then show ?thesis using Inl False Suc.IH [of "Suc k"] by (auto split: prod.splits)
    qed
  qed
qed (auto split: sum.splits)

lemma submit_from_waits:
  "length (snd (submit_from ingress k n)) \<le> n \<and>
    (\<forall>x\<in>set (snd (submit_from ingress k n)). 0 < x \<and> x \<le> 4000)"
  by (induction ingress k n rule: submit_from.induct) (auto split: sum.splits prod.splits)

theorem submit_succeeds_iff:
  "((\<exists>waits. submitIngress ingress attempts = (Inr ack, waits)) \<longleftrightarrow>
     (\<exists>i. int i < clamp_num 1 10 5 attempts \<and> ingress (1 + i) = Inr ack \<and>
        (\<forall>l<i. \<exists>err. ingress (1 + l) = Inl err \<and> \<not> final_error err))) \<and>
   length (snd (submitIngress ingress attempts)) \<le> 9 \<and> sum_list (snd (submitIngress ingress attempts)) \<le> 36000"
proof -
  let ?n = "nat (clamp_num 1 10 5 attempts) - 1" and ?w = "snd (submitIngress ingress attempts)"
  have n: "1 \<le> clamp_num 1 10 5 attempts" "clamp_num 1 10 5 attempts \<le> 10"
    using clamp_num_bounds [of 1 10 5 attempts] by auto
  have w: "length ?w \<le> ?n" "\<forall>x\<in>set ?w. 0 < x \<and> x \<le> 4000"
    using submit_from_waits [of ingress 1 ?n] by (auto simp: submitIngress_def)
  have "i \<le> ?n \<longleftrightarrow> int i < clamp_num 1 10 5 attempts" for i using n by linarith
  then have 1: "(\<exists>waits. submitIngress ingress attempts = (Inr ack, waits)) \<longleftrightarrow>
     (\<exists>i. int i < clamp_num 1 10 5 attempts \<and> ingress (1 + i) = Inr ack \<and>
        (\<forall>l<i. \<exists>err. ingress (1 + l) = Inl err \<and> \<not> final_error err))"
    unfolding submitIngress_def submit_from_ack by simp
  have "sum_list xs \<le> 4000 * int (length xs)" if "\<forall>x\<in>set xs. 0 < x \<and> x \<le> 4000" for xs :: "int list"
    using that by (induction xs) auto
  from this [OF w(2)] w(1) n have "length ?w \<le> 9 \<and> sum_list ?w \<le> 36000" by linarith
  with 1 show ?thesis by blast
qed

definition busy_vendor :: vendor_error where
  "busy_vendor = \<lparr>ve_code = None, ve_status = Some 503, ve_retryable = None\<rparr>"

theorem submit_succeeds_iff_witness:
  "\<exists>waits. submitIngress (\<lambda>k. if k = 2 then Inr ''ack'' else Inl busy_vendor) None = (Inr ''ack'', waits)"
proof -
  have "\<not> final_error busy_vendor" by (simp add: final_error_def busy_vendor_def)
  then have "\<exists>i. int i < clamp_num 1 10 5 None \<and> (\<lambda>k. if k = 2 then Inr ''ack'' else Inl busy_vendor) (1 + i) = Inr ''ack'' \<and>
      (\<forall>l<i. \<exists>err. (\<lambda>k. if k = 2 then Inr ''ack'' else Inl busy_vendor) (1 + l) = Inl err \<and> \<not> final_error err)"
    by (intro exI [of _ 1]) (simp add: clamp_num_def num_or_def)
  then show ?thesis
    using submit_succeeds_iff [of "\<lambda>k. if k = 2 then Inr ''ack'' else Inl busy_vendor" None "''ack''"] by blast
qed

section \<open>The inventory\<close>

lemma map_of_filter_keys: "map_of (filter (\<lambda>(i, a). P i) xs) i = (if P i then map_of xs i else None)"
  by (induction xs) auto

lemma map_of_dom: "i \<in> fst ` set xs \<longleftrightarrow> map_of xs i \<noteq> None"
  by (simp add: map_of_eq_None_iff)

abbreviation adapter :: "delivery_worker \<Rightarrow> ident \<Rightarrow> descriptor option" where
  "adapter s \<equiv> map_of (dw_adapters s)"

abbreviation generation :: "delivery_worker \<Rightarrow> ident \<Rightarrow> int option" where
  "generation s \<equiv> map_of (dw_generations s)"

text \<open>Every running adapter has the generation of its binding recorded, and nothing else has.\<close>

definition worker_ok :: "delivery_worker \<Rightarrow> bool" where
  "worker_ok s \<longleftrightarrow> (\<forall>i. generation s i = map_option generation_of (adapter s i))"

lemma already_runs_iff: "worker_ok s \<Longrightarrow> already_runs d s \<longleftrightarrow> generation s (de_id d) = Some (generation_of d)"
  by (auto simp: already_runs_def map_of_dom worker_ok_def)

lemma start_stable: "fst (startAdapter v d s) = fst (startAdapter v d t)"
  by (auto simp: startAdapter_def split: sum.splits option.splits prod.splits)

lemma start_effect:
  "startAdapter v d s = (r, t) \<Longrightarrow> dw_generations t = dw_generations s \<and>
    adapter t = (if r = Inr True then (adapter s)(de_id d \<mapsto> d) else adapter s)"
  by (auto simp: startAdapter_def update_conv' split: sum.splits option.splits prod.splits if_splits)

lemma drop_stale_ok:
  assumes "worker_ok s"
  shows "worker_ok (drop_stale ds s)"
    "adapter (drop_stale ds s) i = (if is_current ds s i then adapter s i else None)"
proof -
  show a: "adapter (drop_stale ds s) i = (if is_current ds s i then adapter s i else None)" for i
    by (auto simp: drop_stale_def Let_def map_of_filter_keys map_of_dom)
  have "generation (drop_stale ds s) i = (if is_current ds s i \<or> adapter s i = None then generation s i else None)" for i
    by (auto simp: drop_stale_def Let_def map_of_filter_keys map_of_dom)
  with a show "worker_ok (drop_stale ds s)" using assms by (auto simp: worker_ok_def)
qed

lemma start_missing_ok:
  assumes "worker_ok s" "distinct (map de_id ds)" "start_missing v ds s = (None, t)"
  shows "worker_ok t \<and> (\<forall>i. (i \<notin> de_id ` set ds \<longrightarrow> adapter t i = adapter s i)) \<and>
    (\<forall>d\<in>set ds. if already_runs d s \<or> fst (startAdapter v d s) = Inr True
       then generation t (de_id d) = Some (generation_of d) else adapter t (de_id d) = adapter s (de_id d))"
  using assms
proof (induction v ds s rule: start_missing.induct)
  case (2 v d ds s)
  show ?case
  proof (cases "already_runs d s")
    case True
    with 2 have IH: "worker_ok t" "\<forall>i. i \<notin> de_id ` set ds \<longrightarrow> adapter t i = adapter s i"
      "\<forall>d\<in>set ds. if already_runs d s \<or> fst (startAdapter v d s) = Inr True
         then generation t (de_id d) = Some (generation_of d) else adapter t (de_id d) = adapter s (de_id d)" by auto
    have "de_id d \<notin> de_id ` set ds" using 2(4) by simp
    then have "generation t (de_id d) = generation s (de_id d)" using IH(1,2) 2(3) by (simp add: worker_ok_def)
    then show ?thesis using True IH 2(3) by (auto simp: already_runs_iff)
  next
    case False
    then obtain started s1 where s1: "startAdapter v d s = (Inr started, s1)"
      using 2(5) by (auto split: sum.splits prod.splits)
    define s2 where "s2 = (if started
      then s1\<lparr>dw_generations := AList.update (de_id d) (generation_of d) (dw_generations s1)\<rparr> else s1)"
    have eff: "adapter s2 = (if started then (adapter s)(de_id d \<mapsto> d) else adapter s)"
      "generation s2 = (if started then (generation s)(de_id d \<mapsto> generation_of d) else generation s)"
      using start_effect [OF s1] by (auto simp: s2_def update_conv')
    then have ok: "worker_ok s2" using 2(3) by (auto simp: worker_ok_def)
    have runs: "already_runs x s2 = already_runs x s" if "x \<in> set ds" for x
      using that 2(3,4) eff ok by (auto simp: already_runs_iff image_iff)
    have "start_missing v ds s2 = (None, t)" using 2(5) False s1 by (simp add: s2_def)
    then have IH: "worker_ok t" "\<forall>i. i \<notin> de_id ` set ds \<longrightarrow> adapter t i = adapter s2 i"
      "\<forall>x\<in>set ds. if already_runs x s2 \<or> fst (startAdapter v x s2) = Inr True
         then generation t (de_id x) = Some (generation_of x) else adapter t (de_id x) = adapter s2 (de_id x)"
      using 2(2) [OF False s1 [symmetric] refl, folded s2_def, OF ok] 2(4) by auto
    have "de_id d \<notin> de_id ` set ds" using 2(4) by simp
    then have at: "adapter t (de_id d) = adapter s2 (de_id d)" using IH(2) by blast
    then have "generation t (de_id d) = generation s2 (de_id d)" using IH(1) ok by (simp add: worker_ok_def)
    moreover have "adapter s2 (de_id x) = adapter s (de_id x)" if "x \<in> set ds" for x
      using that 2(4) eff by (auto simp: image_iff)
    ultimately show ?thesis
      using IH runs at eff False s1 start_stable [of v _ s2 s] by (auto simp: image_iff)
  qed
qed simp

lemma is_current_iff:
  assumes "distinct (map de_id ds)"
  shows "is_current ds s i \<longleftrightarrow> (\<exists>d\<in>set ds. de_id d = i \<and> generation s i = Some (generation_of d))"
proof -
  let ?m = "rev (map (\<lambda>d. (de_id d, d)) ds)"
  have same: "d = d'" if "d \<in> set ds" "d' \<in> set ds" "de_id d = de_id d'" for d d'
    using assms that by (auto simp: distinct_map inj_on_def)
  have "distinct (map fst ?m)" using assms by (simp add: rev_map [symmetric] comp_def)
  then have "map_of ?m i = Some d \<longleftrightarrow> d \<in> set ds \<and> de_id d = i" for d by (subst map_of_eq_Some_iff) auto
  then show ?thesis unfolding is_current_def by (auto split: option.splits simp: map_of_eq_None_iff image_iff dest: same)
qed

text \<open>
  After an undisturbed refresh the worker serves exactly its inventory: an adapter runs if and only if
  its binding is in the inventory and it either ran already with the binding's current generation or was
  started by this refresh, and the generation recorded for it is the one the inventory names.
\<close>

theorem inventory_is_served:
  assumes "worker_ok s" "\<not> dw_refreshing s" "\<not> dw_stopped s" "distinct (map de_id ds)"
    and "refreshInventory v (Inr ds) s = (None, t)"
  shows "worker_ok t \<and>
    (\<forall>i. adapter t i \<noteq> None \<longleftrightarrow>
      (\<exists>d\<in>set ds. de_id d = i \<and> (already_runs d s \<or> fst (startAdapter v d s) = Inr True) \<and>
         generation t i = Some (generation_of d)))"
proof -
  let ?s = "drop_stale ds (s\<lparr>dw_inventoryReady := True\<rparr>)"
  have s': "worker_ok (s\<lparr>dw_inventoryReady := True\<rparr>)" using assms(1) by (simp add: worker_ok_def)
  note drop = drop_stale_ok [OF s']
  have run: "start_missing v ds ?s = (None, t)" using assms(2,3,5) by (simp add: refreshInventory_def)
  from start_missing_ok [OF drop(1) assms(4) run]
  have ok: "worker_ok t" and out: "\<And>i. i \<notin> de_id ` set ds \<Longrightarrow> adapter t i = adapter ?s i"
    and at: "\<And>d. d \<in> set ds \<Longrightarrow> if already_runs d ?s \<or> fst (startAdapter v d ?s) = Inr True
       then generation t (de_id d) = Some (generation_of d) else adapter t (de_id d) = adapter ?s (de_id d)" by auto
  have same: "d = d'" if "d \<in> set ds" "d' \<in> set ds" "de_id d = de_id d'" for d d'
    using assms(4) that by (auto simp: distinct_map inj_on_def)
  have current: "is_current ds (s\<lparr>dw_inventoryReady := True\<rparr>) (de_id d) \<longleftrightarrow> already_runs d s" if "d \<in> set ds" for d
    using that same assms(1,4) by (auto simp: is_current_iff already_runs_iff)
  have runs: "already_runs d ?s \<longleftrightarrow> already_runs d s" if "d \<in> set ds" for d
    using that current [OF that] drop assms(1) by (auto simp: already_runs_iff worker_ok_def)
  have outside: "adapter t i = None" if "i \<notin> de_id ` set ds" for i
    using out [OF that] that drop(2) is_current_iff [OF assms(4)] by (auto simp: image_iff)
  have inside: "adapter t (de_id d) \<noteq> None \<longleftrightarrow>
      (already_runs d s \<or> fst (startAdapter v d s) = Inr True) \<and> generation t (de_id d) = Some (generation_of d)"
    if "d \<in> set ds" for d
    using at [OF that] runs [OF that] current [OF that] drop(2) ok start_stable [of v d ?s s]
    by (auto simp: worker_ok_def split: if_splits)
  have "adapter t i \<noteq> None \<longleftrightarrow>
      (\<exists>d\<in>set ds. de_id d = i \<and> (already_runs d s \<or> fst (startAdapter v d s) = Inr True) \<and>
         generation t i = Some (generation_of d))" for i
  proof (cases "i \<in> de_id ` set ds")
    case True
    then obtain d where d: "d \<in> set ds" "i = de_id d" by blast
    show ?thesis
    proof
      assume "adapter t i \<noteq> None"
      with inside [OF d(1)] d show "\<exists>d\<in>set ds. de_id d = i \<and> (already_runs d s \<or> fst (startAdapter v d s) = Inr True) \<and>
         generation t i = Some (generation_of d)" by blast
    next
      assume "\<exists>d\<in>set ds. de_id d = i \<and> (already_runs d s \<or> fst (startAdapter v d s) = Inr True) \<and>
         generation t i = Some (generation_of d)"
      then show "adapter t i \<noteq> None" using inside by metis
    qed
  qed (use outside in auto)
  then show ?thesis using ok by blast
qed

definition sample_descriptor :: "ident \<Rightarrow> descriptor" where
  "sample_descriptor i = \<lparr>de_id = i, de_channel = ''qq'', de_generation = Some 1,
     de_scope = \<lparr>os_org = None, os_user = None, os_agent = None, os_workspace = None\<rparr>\<rparr>"

text \<open>A side on which everything starts, except that the adapter of one binding cannot be built.\<close>

definition side_without :: "ident option \<Rightarrow> adapter_side" where
  "side_without broken =
     \<lparr>as_resolve = (\<lambda>d. Inr (de_id d, de_channel d, de_scope d)),
      as_build = (\<lambda>d. if Some (de_id d) = broken then Some (CodedError ''invalid_feishu_credentials'' None) else None),
      as_start = (\<lambda>_. None)\<rparr>"

definition idle_worker :: delivery_worker where
  "idle_worker = \<lparr>dw_adapters = [], dw_generations = [], dw_inventoryReady = False, dw_refreshing = False, dw_stopped = False\<rparr>"

theorem inventory_is_served_witness:
  "adapter (snd (refreshInventory (side_without None) (Inr [sample_descriptor ''b'']) idle_worker)) ''b'' \<noteq> None"
proof -
  have run: "refreshInventory (side_without None) (Inr [sample_descriptor ''b'']) idle_worker =
      (None, snd (refreshInventory (side_without None) (Inr [sample_descriptor ''b'']) idle_worker))" by code_simp
  have "generation (snd (refreshInventory (side_without None) (Inr [sample_descriptor ''b'']) idle_worker)) ''b'' = Some 1"
    and "fst (startAdapter (side_without None) (sample_descriptor ''b'') idle_worker) = Inr True" by code_simp+
  moreover have "worker_ok idle_worker" by (simp add: worker_ok_def idle_worker_def)
  ultimately show ?thesis
    using inventory_is_served [OF _ _ _ _ run] by (simp add: idle_worker_def sample_descriptor_def generation_of_def)
qed

text \<open>
  One binding whose adapter cannot be built or whose credentials cannot be resolved aborts the refresh:
  the bindings listed after it are not started, although nothing is wrong with them.
\<close>

lemma start_missing_append:
  "start_missing v (xs @ ys) s =
    (case start_missing v xs s of (None, t) \<Rightarrow> start_missing v ys t | (Some err, t) \<Rightarrow> (Some err, t))"
  by (induction v xs s rule: start_missing.induct) (auto split: sum.splits prod.splits option.splits)

lemma start_missing_other:
  "start_missing v ds s = (r, t) \<Longrightarrow> i \<notin> de_id ` set ds \<Longrightarrow> adapter t i = adapter s i"
proof (induction v ds s rule: start_missing.induct)
  case (2 v d ds s)
  show ?case
  proof (cases "already_runs d s")
    case False
    then show ?thesis using 2(2-4) start_effect [of v d s]
      by (auto split: sum.splits prod.splits if_splits)
  qed (use 2 in auto)
qed simp

theorem failing_binding_blocks_the_rest:
  assumes "worker_ok s" "\<not> dw_refreshing s" "\<not> dw_stopped s" "distinct (map de_id (xs @ d # ys))"
    and "adapter s (de_id d) = None" and "fst (startAdapter v d s) = Inl err"
    and "y \<in> set ys" and "adapter s (de_id y) = None"
  shows "fst (refreshInventory v (Inr (xs @ d # ys)) s) \<noteq> None \<and>
    adapter (snd (refreshInventory v (Inr (xs @ d # ys)) s)) (de_id y) = None"
proof -
  let ?s = "drop_stale (xs @ d # ys) (s\<lparr>dw_inventoryReady := True\<rparr>)"
  have s': "worker_ok (s\<lparr>dw_inventoryReady := True\<rparr>)" using assms(1) by (simp add: worker_ok_def)
  have none: "adapter ?s (de_id y) = None" "adapter ?s (de_id d) = None"
    using drop_stale_ok(2) [OF s'] assms(5,8) by simp_all
  obtain r t where t: "start_missing v xs ?s = (r, t)" by force
  have y: "de_id y \<notin> de_id ` set xs" "de_id y \<noteq> de_id d" and d: "de_id d \<notin> de_id ` set xs"
    using assms(4,7) by (auto simp: image_iff)
  have still: "adapter t (de_id y) = None" "adapter t (de_id d) = None"
    using start_missing_other [OF t] y d none by simp_all
  have "\<not> already_runs d t" using still by (auto simp: already_runs_def map_of_dom)
  moreover have "fst (startAdapter v d t) = Inl err" using assms(6) start_stable by metis
  then obtain u where u: "startAdapter v d t = (Inl err, u)" by (cases "startAdapter v d t") auto
  moreover have "adapter u (de_id y) = None" using start_effect [OF u] still by simp
  ultimately have "fst (start_missing v (xs @ d # ys) ?s) \<noteq> None \<and>
      adapter (snd (start_missing v (xs @ d # ys) ?s)) (de_id y) = None"
    using t still by (auto simp: start_missing_append split: option.splits)
  then show ?thesis using assms(2,3) by (simp add: refreshInventory_def)
qed

theorem failing_binding_blocks_the_rest_witness:
  "adapter (snd (refreshInventory (side_without (Some ''a'')) (Inr [sample_descriptor ''a'', sample_descriptor ''b''])
     idle_worker)) ''b'' = None"
proof -
  have "fst (startAdapter (side_without (Some ''a'')) (sample_descriptor ''a'') idle_worker) =
      Inl (CodedError ''invalid_feishu_credentials'' None)" by code_simp
  moreover have "worker_ok idle_worker" by (simp add: worker_ok_def idle_worker_def)
  ultimately show ?thesis
    using failing_binding_blocks_the_rest [of idle_worker "[]" "sample_descriptor ''a''" "[sample_descriptor ''b'']"
        "side_without (Some ''a'')" _ "sample_descriptor ''b''"]
    by (simp add: idle_worker_def sample_descriptor_def)
qed

section \<open>Reports\<close>

text \<open>
  A delivery is reported as delivered only if a running adapter of its binding said so; a delivery to a
  binding without adapter is reported as failed, an unexpected error as retryable unless it says
  otherwise; the report carries the lease and the attempt of the delivery, and its retry delay is at most a
  day.
\<close>

theorem delivery_report_is_truthful:
  "(let r = deliver e vendor s item
    in (wr_outbound r, wr_binding r, wr_token r, wr_attempt r) =
         (dv_outbound item, dv_binding item, dv_token item, dv_attempt item) \<and>
       (wr_status r = ''delivered'' \<longleftrightarrow>
         (\<exists>a v. adapter s (dv_binding item) = Some a \<and> vendor a item = Inr v \<and> vr_status v = ''delivered'')) \<and>
       (adapter s (dv_binding item) = None \<longrightarrow> wr_status r = ''failed'' \<and> wr_errorCode r = Some ''channel_adapter_not_running'') \<and>
       (case wr_retryAfterMs r of None \<Rightarrow> True | Some ms \<Rightarrow> 0 \<le> ms \<and> ms \<le> 86400000))"
proof -
  have code: "adapterErrorCode (Some ''channel_adapter_not_running'') ''channel_adapter_failed'' = ''channel_adapter_not_running''"
    by code_simp
  show ?thesis
    by (cases "adapter s (dv_binding item)")
      (auto simp: deliver_def delivery_outcome_def Let_def nonempty_def code split: sum.splits option.splits)
qed

theorem delivery_report_is_truthful_witness:
  "wr_status (deliver \<lparr>clock = 0, uuid = (\<lambda>_. ''t'')\<rparr> (\<lambda>_ _. Inl \<lparr>ve_code = None, ve_status = None, ve_retryable = None\<rparr>) idle_worker
     \<lparr>dv_scope = de_scope (sample_descriptor []), dv_outbound = ''y'', dv_binding = ''b'', dv_token = ''k'', dv_attempt = 1,
      dv_trace = None\<rparr>) = ''failed''"
proof -
  have none: "adapter idle_worker ''b'' = None" by (simp add: idle_worker_def)
  show ?thesis
    using delivery_report_is_truthful [of "\<lparr>clock = 0, uuid = (\<lambda>_. ''t'')\<rparr>"
        "\<lambda>_ _. Inl \<lparr>ve_code = None, ve_status = None, ve_retryable = None\<rparr>" idle_worker
        "\<lparr>dv_scope = de_scope (sample_descriptor []), dv_outbound = ''y'', dv_binding = ''b'', dv_token = ''k'',
          dv_attempt = 1, dv_trace = None\<rparr>"] none
    by (simp add: Let_def)
qed

section \<open>Answering\<close>

text \<open>The repository when the runtime has answered.\<close>

definition when_answered ::
  "env \<Rightarrow> (nat \<Rightarrow> ingress_world \<Rightarrow> ingress_world) \<Rightarrow> inbox_item \<Rightarrow> ingress_world \<Rightarrow> ingress_world" where
  "when_answered e between j w =
     (let w1 = between 0 w
      in between 2 (between 1 (w1\<lparr>iw_channels := snd (ensureChannelConversation e (ingress_conversation j) (iw_channels w1))\<rparr>)))"

text \<open>
  The worker returns a result for a message only if the runtime answered this very message: it was
  asked in the name of the message's owner, in the conversation of the message's channel, with the trimmed
  text; the message is completed, and a new reply carries the trimmed answer to the place the message came
  from. An empty answer makes no reply.
\<close>

theorem answered_message:
  assumes "process_ingress e k invoke between j w = (Some (x, y), w')"
  shows "j_id x = j_id j \<and> j_state x = Completed \<and>
    (\<exists>a c t result reply. getAgent (j_agent j) (iw_fleet w) = Some a \<and> ag_owner a = j_user j \<and> ag_org a = j_org j \<and>
       messageText j = Inr t \<and> invoke (invocation_of j a c t) = Inr result \<and> reply_text result = Inr reply \<and>
       cc_conversation c = cr_conversation (ib_conversation j) \<and> cc_binding c = ib_binding j \<and>
       (\<forall>out. y = Some out \<longrightarrow> ob_inbox out = j_id j \<and>
          (reply \<noteq> [] \<and> ob_content out = JObj [(''kind'', JStr ''text''), (''text'', JStr reply)] \<and> ob_replyTo out = ib_external j
           \<or> out \<in> set (outbox (iw_channels (when_answered e between j w))))))"
proof -
  let ?w1 = "between 0 w"
  obtain c s where c: "ensureChannelConversation e (ingress_conversation j) (iw_channels ?w1) = (c, s)" by force
  let ?w3 = "when_answered e between j w"
  have w3: "between 2 (between 1 (?w1\<lparr>iw_channels := s\<rparr>)) = ?w3" by (simp add: when_answered_def c Let_def)
  from assms obtain a t result reply s' where
    steps: "ingress_agent j w = Inr a" "messageText j = Inr t" "invoke (invocation_of j a c t) = Inr result"
      "reply_text result = Inr reply"
      "completeChannelIngress e (j_id j) (or_else (j_leaseToken j) []) (reply_of j c reply) (iw_channels ?w3) = (Inr (Some (x, y)), s')"
    by (auto simp: process_ingress_def answer_ingress_def complete_with_def c w3 [unfolded One_nat_def] Let_def split: sum.splits prod.splits option.splits)
  have agent: "getAgent (j_agent j) (iw_fleet w) = Some a" "ag_owner a = j_user j" "ag_org a = j_org j"
    using steps(1) by (auto simp: ingress_agent_def split: option.splits if_splits)
  have conv: "cc_conversation c = cr_conversation (ib_conversation j)" "cc_binding c = ib_binding j"
    using c by (auto simp: ensureChannelConversation_def ingress_conversation_def Let_def split: option.splits
        dest!: find_Some_mem)
  from steps(5) obtain z where z: "List.find (holds_lease (j_id j) (or_else (j_leaseToken j) [])) (inbox (iw_channels ?w3)) = Some z"
    and x: "x = finish_inbox (clock e) z"
    and y: "\<And>out. y = Some out \<Longrightarrow> out \<in> set (outbox (iw_channels ?w3)) \<and> ob_inbox out = j_id z \<or>
       (\<exists>o_in c'. reply_of j c reply = Some o_in \<and> out = new_outbox_item e o_in z c')"
    by (auto simp: completeChannelIngress_def Let_def split: option.splits dest: find_Some_mem)
  have id: "j_id z = j_id j" using z by (auto dest!: find_Some_mem simp: holds_lease_def)
  have out: "ob_inbox o' = j_id j \<and>
      (reply \<noteq> [] \<and> ob_content o' = JObj [(''kind'', JStr ''text''), (''text'', JStr reply)] \<and> ob_replyTo o' = ib_external j
       \<or> o' \<in> set (outbox (iw_channels ?w3)))" if "y = Some o'" for o'
    using y [OF that] id by (auto simp: reply_of_def new_outbox_item_def split: if_splits)
  show ?thesis
    using agent steps conv out id x c by (auto simp: finish_inbox_def intro!: exI [of _ a] exI [of _ c])
qed

text \<open>
  A message that could not be answered is not lost: if the worker still holds its lease, it is due again
  after the worker's delay, or, when its attempts are used up, it is dead and a dead letter names it.
\<close>

theorem unanswered_message_is_kept:
  assumes "answer_ingress e invoke between j w = (Inl err, w1)" and "channel_step\<^sup>*\<^sup>* empty_channels (iw_channels w1)"
    and "x \<in> set (inbox (iw_channels w1))" and "holds_lease (j_id j) (or_else (j_leaseToken j) []) x"
  shows "(let s = iw_channels (snd (process_ingress e k invoke between j w))
    in \<exists>y. lookup (j_id j) (inbox s) = Some y \<and> j_leaseToken y = None \<and> j_lastErrorCode y = Some (errorCode err) \<and>
      (if j_attempts x < ib_maxAttempts x then j_state y = Retry \<and> j_availableAt y = clock e + ingress_delay k j
       else j_state y = Dead \<and> (\<exists>d\<in>set (dead_letters s). dl_direction d = Inbound \<and> dl_source d = j_id j)))"
proof -
  let ?h = "holds_lease (j_id j) (or_else (j_leaseToken j) [])" and ?xs = "inbox (iw_channels w1)"
  have ids: "distinct (map j_id ?xs)" using reachable_inv [OF assms(2)] by (simp add: channel_inv_def inbox_wf_def)
  have x: "j_id x = j_id j" using assms(4) by (simp add: holds_lease_def)
  have found: "List.find ?h ?xs = Some x"
  proof (rule find_unique [where k = j_id])
    show "j_id y = j_id x" if "y \<in> set ?xs" "?h y" for y using that x by (simp add: holds_lease_def)
  qed (use ids assms(3,4) in simp_all)
  have at: "lookup (j_id j) (upd_first ?h g ?xs) = Some (g x)" if g: "\<And>z. j_id (g z) = j_id z" for g
    using lookup_mem [of "upd_first ?h g ?xs" "g x"] mem_upd_first [OF found, of g] ids x
    by (simp add: g map_upd_first)
  have bury: "\<exists>d\<in>set (bury l ds). dl_direction d = Inbound \<and> dl_source d = j_id j"
    if "dl_direction l = Inbound" "dl_source l = j_id j" for l ds
    using that by (auto simp: bury_def)
  show ?thesis
    using assms(1) found at x
    by (auto simp: process_ingress_def failChannelIngress_def Let_def intro!: bury)
qed

definition plain_worker :: ingress_worker where
  "plain_worker = \<lparr>gw_batchSize = 8, gw_leaseSeconds = 90, gw_baseRetryMs = 1000, gw_maxRetryMs = 300000\<rparr>"

definition sample_leased_message :: inbox_item where
  "sample_leased_message = hd (inbox sample2)"

theorem unanswered_message_is_kept_witness:
  "\<exists>d\<in>set (dead_letters (iw_channels (snd (process_ingress (tick 9 ''t'') plain_worker (\<lambda>_. Inr JNull) (\<lambda>_ w. w)
     sample_leased_message \<lparr>iw_fleet = empty_fleet, iw_channels = sample2\<rparr>)))). dl_source d = ''I''"
proof -
  let ?w = "\<lparr>iw_fleet = empty_fleet, iw_channels = sample2\<rparr>"
  have run: "answer_ingress (tick 9 ''t'') (\<lambda>_. Inr JNull) (\<lambda>_ w. w) sample_leased_message ?w =
      (Inl (CodedError ''channel_agent_not_found'' None), ?w)"
    by (simp add: answer_ingress_def ingress_agent_def getAgent_def empty_fleet_def)
  have "j_id sample_leased_message = ''I''" and "j_attempts sample_leased_message = 1" and "ib_maxAttempts sample_leased_message = 1"
    and held: "holds_lease (j_id sample_leased_message) (or_else (j_leaseToken sample_leased_message) []) sample_leased_message"
    and "inbox sample2 \<noteq> []"
    by code_simp+
  moreover from this have "sample_leased_message \<in> set (inbox (iw_channels ?w))" by (simp add: sample_leased_message_def)
  ultimately show ?thesis
    using unanswered_message_is_kept [OF run _ _ held, of plain_worker] sample_reachable(1) by (auto simp: Let_def)
qed

definition sample_text :: inbox_item where
  "sample_text = sample_leased_message\<lparr>ib_content := JObj [(''kind'', JStr ''text''), (''text'', JStr '' hi '')]\<rparr>"

definition channel_sample_owner :: agent where
  "channel_sample_owner = \<lparr>ag_id = ''A'', ag_org = ''O'', ag_owner = ''U'', ag_name = [], ag_description = [], ag_avatar = None,
     ag_soul = [], ag_status = [], ag_init = [], ag_desired = [], ag_settings = JNull, ag_errorCode = None,
     ag_errorDetail = None, ag_createdAt = 0, ag_updatedAt = 0\<rparr>"

definition sample_world :: ingress_world where
  "sample_world = \<lparr>iw_fleet = empty_fleet\<lparr>agents := [(''A'', channel_sample_owner)]\<rparr>, iw_channels = sample2\<lparr>inbox := [sample_text]\<rparr>\<rparr>"

theorem answered_message_witness:
  "\<exists>x y w'. process_ingress (tick 9 ''t'') plain_worker (\<lambda>_. Inr (JObj [(''content'', JStr ''yo'')])) (\<lambda>_ w. w) sample_text sample_world =
     (Some (x, y), w') \<and> j_state x = Completed \<and> messageText sample_text = Inr ''hi''"
proof -
  let ?run = "process_ingress (tick 9 ''t'') plain_worker (\<lambda>_. Inr (JObj [(''content'', JStr ''yo'')])) (\<lambda>_ w. w) sample_text sample_world"
  have "fst ?run \<noteq> None" by code_simp
  then obtain x y w' where run: "?run = (Some (x, y), w')" by (cases ?run) auto
  have "messageText sample_text = Inr ''hi''" by code_simp
  with answered_message [OF run] run show ?thesis by blast
qed

end
