(* ===== verification/Byte_Codec.thy ===== *)
theory Byte_Codec
  imports Js_Text
begin

text \<open>
  Bytes and the two text encodings of them the source uses, \<open>hex\<close> and \<open>base64url\<close> of \<open>Buffer\<close>, with
  their round trips; and the cryptographic functions of \<open>node:crypto\<close> as parameters with the laws their
  documentation gives.
\<close>

type_synonym bytes = "nat list"

definition is_bytes :: "bytes \<Rightarrow> bool" where
  "is_bytes bs \<longleftrightarrow> (\<forall>b\<in>set bs. b < 256)"

lemma is_bytes_simps [simp]: "is_bytes []" "is_bytes (b # bs) \<longleftrightarrow> b < 256 \<and> is_bytes bs"
  by (auto simp: is_bytes_def)

section \<open>Hexadecimal\<close>

definition hex_char :: "nat \<Rightarrow> char" where
  "hex_char n = (if n < 10 then char_of (48 + n) else char_of (87 + n))"

definition hex_digit :: "char \<Rightarrow> nat" where
  "hex_digit c = (if code_of c < 58 then code_of c - 48 else code_of c - 87)"

fun to_hex :: "bytes \<Rightarrow> string" where
  "to_hex [] = []"
| "to_hex (b # bs) = hex_char (b div 16) # hex_char (b mod 16) # to_hex bs"

fun from_hex :: "string \<Rightarrow> bytes" where
  "from_hex (c # d # s) = (16 * hex_digit c + hex_digit d) # from_hex s"
| "from_hex _ = []"

lemma hex_digit_char [simp]: "n < 16 \<Longrightarrow> hex_digit (hex_char n) = n"
  by (auto simp: hex_digit_def hex_char_def code_of_def)

lemma from_hex_to_hex: "is_bytes bs \<Longrightarrow> from_hex (to_hex bs) = bs"
  by (induction bs) (auto simp: less_mult_imp_div_less)

lemma length_to_hex [simp]: "length (to_hex bs) = 2 * length bs"
  by (induction bs) simp_all

definition is_hex :: "char \<Rightarrow> bool" where
  "is_hex c \<longleftrightarrow> is_digit c \<or> one_of ''abcdef'' c"

lemma hex_char_is_hex: "n < 16 \<Longrightarrow> is_hex (hex_char n)"
proof -
  assume "n < 16"
  then have "n \<in> {0..<16}" by simp
  then have "n \<in> set [0..<16]" by simp
  then show ?thesis
    by (simp add: upt_rec) (elim disjE; simp; code_simp)
qed

lemma to_hex_is_hex: "is_bytes bs \<Longrightarrow> c \<in> set (to_hex bs) \<Longrightarrow> is_hex c"
  by (induction bs) (auto simp: less_mult_imp_div_less intro: hex_char_is_hex)

section \<open>base64url\<close>

definition b64_alphabet :: string where
  "b64_alphabet = ''ABCDEFGHIJKLMNOPQRSTUVWXYZabcdefghijklmnopqrstuvwxyz0123456789-_''"

definition b64_char :: "nat \<Rightarrow> char" where
  "b64_char n = b64_alphabet ! n"

definition b64_digit :: "char \<Rightarrow> nat option" where
  "b64_digit c =
     (let i = length (takeWhile (\<lambda>d. d \<noteq> c) b64_alphabet)
      in if i < 64 then Some i
         else if c = CHR ''+'' then Some 62 else if c = CHR ''/'' then Some 63 else None)"

fun b64_groups :: "bytes \<Rightarrow> nat list" where
  "b64_groups [] = []"
| "b64_groups [a] = [a div 4, (a mod 4) * 16]"
| "b64_groups [a, b] = [a div 4, (a mod 4) * 16 + b div 16, (b mod 16) * 4]"
| "b64_groups (a # b # c # r) =
     [a div 4, (a mod 4) * 16 + b div 16, (b mod 16) * 4 + c div 64, c mod 64] @ b64_groups r"

fun b64_bytes :: "nat list \<Rightarrow> bytes" where
  "b64_bytes (d # e # f # g # r) =
     [d * 4 + e div 16, (e mod 16) * 16 + f div 4, (f mod 4) * 64 + g] @ b64_bytes r"
| "b64_bytes [d, e, f] = [d * 4 + e div 16, (e mod 16) * 16 + f div 4]"
| "b64_bytes [d, e] = [d * 4 + e div 16]"
| "b64_bytes _ = []"

text \<open>\<open>toString("base64url")\<close> and \<open>Buffer.from(s, "base64url")\<close>, which skips characters outside the alphabet.\<close>

definition to_base64url :: "bytes \<Rightarrow> string" where
  "to_base64url bs = map b64_char (b64_groups bs)"

definition from_base64url :: "string \<Rightarrow> bytes" where
  "from_base64url s = b64_bytes (List.map_filter b64_digit s)"

lemma b64_bytes_groups: "is_bytes bs \<Longrightarrow> b64_bytes (b64_groups bs) = bs"
proof (induction bs rule: b64_groups.induct)
  case (4 a b c r)
  have "((a mod 4) * 16 + b div 16) div 16 = a mod 4" "((a mod 4) * 16 + b div 16) mod 16 = b div 16"
    "((b mod 16) * 4 + c div 64) div 4 = b mod 16" "((b mod 16) * 4 + c div 64) mod 4 = c div 64"
    using 4 by auto
  then show ?case using 4 by simp
next
  case (3 a b)
  have "((a mod 4) * 16 + b div 16) div 16 = a mod 4" "((a mod 4) * 16 + b div 16) mod 16 = b div 16"
    using 3 by auto
  then show ?case by simp
qed auto

lemma b64_groups_small: "is_bytes bs \<Longrightarrow> d \<in> set (b64_groups bs) \<Longrightarrow> d < 64"
proof (induction bs rule: b64_groups.induct)
  case (4 a b c r)
  have "(a mod 4) * 16 + b div 16 < 64" "(b mod 16) * 4 + c div 64 < 64"
    using 4 mod_less_divisor [of 4 a] mod_less_divisor [of 16 b] by auto
  then show ?case using 4 by auto
next
  case (3 a b)
  have "(a mod 4) * 16 + b div 16 < 64" using 3 mod_less_divisor [of 4 a] by auto
  then show ?case using 3 by auto
qed auto

lemma b64_alphabet_facts: "length b64_alphabet = 64" "distinct b64_alphabet"
  by code_simp+

lemma takeWhile_nth: "distinct xs \<Longrightarrow> n < length xs \<Longrightarrow> length (takeWhile (\<lambda>d. d \<noteq> xs ! n) xs) = n"
proof (induction xs arbitrary: n)
  case (Cons x xs)
  then show ?case by (cases n) auto
qed simp

lemma b64_digit_char: "n < 64 \<Longrightarrow> b64_digit (b64_char n) = Some n"
  using takeWhile_nth [OF b64_alphabet_facts(2), of n] b64_alphabet_facts(1) by (simp add: b64_digit_def b64_char_def)

lemma map_filter_digits: "(\<forall>d\<in>set ds. d < 64) \<Longrightarrow> List.map_filter b64_digit (map b64_char ds) = ds"
  by (induction ds) (simp_all add: List.map_filter_def b64_digit_char)

lemma base64url_roundtrip: "is_bytes bs \<Longrightarrow> from_base64url (to_base64url bs) = bs"
  using b64_groups_small [of bs]
  by (simp add: from_base64url_def to_base64url_def map_filter_digits b64_bytes_groups)

lemma b64_char_ok: "n < 64 \<Longrightarrow> b64_char n \<in> set b64_alphabet"
  using b64_alphabet_facts(1) by (simp add: b64_char_def)

lemma to_base64url_chars: "is_bytes bs \<Longrightarrow> c \<in> set (to_base64url bs) \<Longrightarrow> c \<in> set b64_alphabet"
  using b64_groups_small [of bs] b64_char_ok by (auto simp: to_base64url_def)

lemma length_b64_groups: "length (b64_groups bs) = (4 * length bs + 2) div 3"
  by (induction bs rule: b64_groups.induct) auto

lemma length_to_base64url: "length (to_base64url bs) = (4 * length bs + 2) div 3"
  by (simp add: to_base64url_def length_b64_groups)

section \<open>Cryptographic functions\<close>

text \<open>
  \<open>createHash("sha256")\<close> and \<open>createHmac("sha256", key)\<close> of a text, and \<open>scrypt\<close>: functions of their
  inputs whose results have 32 bytes and the length asked for.
\<close>

record crypto =
  sha256 :: "string \<Rightarrow> bytes"
  hmac :: "bytes \<Rightarrow> string \<Rightarrow> bytes"
  scrypt :: "string \<Rightarrow> bytes \<Rightarrow> nat \<Rightarrow> bytes"

definition crypto_lawful :: "crypto \<Rightarrow> bool" where
  "crypto_lawful cr \<longleftrightarrow>
     (\<forall>s. is_bytes (sha256 cr s) \<and> length (sha256 cr s) = 32) \<and>
     (\<forall>k s. is_bytes (hmac cr k s) \<and> length (hmac cr k s) = 32) \<and>
     (\<forall>p s n. is_bytes (scrypt cr p s n) \<and> length (scrypt cr p s n) = n)"

text \<open>A concrete instance, to show that the laws can hold.\<close>

definition flat_crypto :: crypto where
  "flat_crypto = \<lparr>sha256 = (\<lambda>_. replicate 32 7), hmac = (\<lambda>k s. replicate 31 (length s mod 256) @ [length k mod 256]),
     scrypt = (\<lambda>p s n. replicate n (length p mod 256))\<rparr>"

lemma flat_crypto_lawful: "crypto_lawful flat_crypto"
  by (simp add: crypto_lawful_def flat_crypto_def is_bytes_def)

end
