(* ===== verification/Machine_Requests.thy ===== *)
theory Machine_Requests
  imports Byte_Codec Channel_Store Fleet_Store
begin

text \<open>
  Signed requests between machines: \<open>packages/security/machine-request.mjs\<close> (derivation of the key,
  canonical text, signature and its check), \<open>packages/security/control-mutation.mjs\<close> (signatures inside
  control documents), and \<open>authenticateMachine\<close> of \<open>apps/web/app.mjs\<close>, which combines the check with the
  stored credential and a nonce that is accepted once.
\<close>

section \<open>Requests\<close>

record machine_request =
  mq_method :: string
  mq_path :: string
  mq_timestamp :: string
  mq_nonce :: string
  mq_body :: string

definition deriveMachineKey :: "crypto \<Rightarrow> string \<Rightarrow> failure + string" where
  "deriveMachineKey cr token =
     (if length token < 32 then Inl (TypeError ''Machine token must contain at least 32 characters'')
      else Inr (to_hex (sha256 cr token)))"

definition upper_case :: "string \<Rightarrow> string" where
  "upper_case = map to_upper"

definition machineCanonical :: "crypto \<Rightarrow> machine_request \<Rightarrow> string" where
  "machineCanonical cr q =
     join [LF] [upper_case (mq_method q), mq_path q, mq_timestamp q, mq_nonce q, to_hex (sha256 cr (mq_body q))]"

definition signMachineRequest :: "crypto \<Rightarrow> machine_request \<Rightarrow> string \<Rightarrow> failure + string" where
  "signMachineRequest cr q token =
     (case deriveMachineKey cr token of
        Inl err \<Rightarrow> Inl err
      | Inr key \<Rightarrow> Inr (to_base64url (hmac cr (from_hex key) (machineCanonical cr q))))"

definition NONCE :: rexp where
  "NONCE = Rep (Cls (\<lambda>c. is_alnum c \<or> one_of ''_-'' c)) 16 (Some 128)"

definition SIGNATURE :: rexp where
  "SIGNATURE = Rep (Cls (\<lambda>c. is_alnum c \<or> one_of ''_-'' c)) 32 (Some 128)"

definition KEY_HASH :: rexp where
  "KEY_HASH = Rep (Cls is_hex) 64 (Some 64)"

definition MAX_CLOCK_SKEW_MS :: int where
  "MAX_CLOCK_SKEW_MS = 5 * 60000"

text \<open>
  \<open>number\<close> is \<open>Number\<close> on the header's text. A missing timestamp or nonce header is refused like an empty
  one; the signature and the stored hash are optional.
\<close>

definition fresh_timestamp :: "int \<Rightarrow> instant \<Rightarrow> jnum \<Rightarrow> bool" where
  "fresh_timestamp skew now t \<longleftrightarrow> (case t of Integer ts \<Rightarrow> is_safe_integer t \<and> \<bar>now - ts\<bar> \<le> skew | _ \<Rightarrow> False)"

definition verifyMachineRequest ::
  "crypto \<Rightarrow> (string \<Rightarrow> jnum) \<Rightarrow> int \<Rightarrow> instant \<Rightarrow> machine_request \<Rightarrow> string option \<Rightarrow> string option \<Rightarrow> bool" where
  "verifyMachineRequest cr number skew now q signature keyHash \<longleftrightarrow>
     fresh_timestamp skew now (number (mq_timestamp q)) \<and> matches NONCE (mq_nonce q) \<and>
     (case (signature, keyHash) of
        (Some s, Some h) \<Rightarrow>
          matches SIGNATURE s \<and> matches KEY_HASH h \<and>
          from_base64url s = hmac cr (from_hex h) (machineCanonical cr q)
      | _ \<Rightarrow> False)"

section \<open>Signing and checking\<close>

lemma alphabet_class: "c \<in> set b64_alphabet \<Longrightarrow> is_alnum c \<or> one_of ''_-'' c"
proof -
  have "\<forall>c\<in>set b64_alphabet. is_alnum c \<or> one_of ''_-'' c" by code_simp
  then show "c \<in> set b64_alphabet \<Longrightarrow> is_alnum c \<or> one_of ''_-'' c" by blast
qed

lemma signature_shape:
  assumes "is_bytes bs" "length bs = 32"
  shows "matches SIGNATURE (to_base64url bs)"
  using assms to_base64url_chars [OF assms(1)] alphabet_class length_to_base64url [of bs]
  unfolding SIGNATURE_def matches_iff lang_Rep_Cls by auto

lemma key_shape:
  assumes "is_bytes bs" "length bs = 32"
  shows "matches KEY_HASH (to_hex bs)"
  using assms to_hex_is_hex [OF assms(1)] unfolding KEY_HASH_def matches_iff lang_Rep_Cls by auto

text \<open>
  A request signed with a machine's token is accepted with the key derived from the same token, as long
  as its timestamp is an integer within the allowed skew and its nonce is well formed; whatever is accepted
  carries exactly the signature of its own method, path, timestamp, nonce and body under the stored key.
\<close>

theorem signed_request_is_accepted:
  assumes "crypto_lawful cr" and "signMachineRequest cr q token = Inr s" and "deriveMachineKey cr token = Inr h"
    and "number (mq_timestamp q) = Integer ts" and "is_safe_integer (Integer ts)" and "\<bar>now - ts\<bar> \<le> skew"
    and "matches NONCE (mq_nonce q)"
  shows "verifyMachineRequest cr number skew now q (Some s) (Some h) \<and>
    (verifyMachineRequest cr number skew now q (Some s') (Some h) \<longrightarrow> from_base64url s' = from_base64url s)"
proof -
  have h: "h = to_hex (sha256 cr token)" using assms(3) by (simp add: deriveMachineKey_def split: if_splits)
  have s: "s = to_base64url (hmac cr (from_hex h) (machineCanonical cr q))"
    using assms(2,3) by (simp add: signMachineRequest_def)
  have mac: "is_bytes (hmac cr (from_hex h) (machineCanonical cr q))" "length (hmac cr (from_hex h) (machineCanonical cr q)) = 32"
    and key: "is_bytes (sha256 cr token)" "length (sha256 cr token) = 32"
    using assms(1) by (auto simp: crypto_lawful_def)
  show ?thesis
    using assms(4-7) signature_shape [OF mac] key_shape [OF key] base64url_roundtrip [OF mac(1)]
    by (auto simp: verifyMachineRequest_def fresh_timestamp_def s h)
qed

definition sample_request :: machine_request where
  "sample_request = \<lparr>mq_method = ''post'', mq_path = ''/x'', mq_timestamp = ''5'', mq_nonce = ''0123456789abcdef'', mq_body = ''{}''\<rparr>"

definition sample_token :: string where
  "sample_token = replicate 32 CHR ''t''"

lemma sample_nonce: "matches NONCE (mq_nonce sample_request)"
proof -
  have "\<forall>c\<in>set (mq_nonce sample_request). is_alnum c \<or> one_of ''_-'' c" by code_simp
  moreover have "length (mq_nonce sample_request) = 16" by (simp add: sample_request_def)
  ultimately show ?thesis unfolding NONCE_def matches_iff lang_Rep_Cls by simp
qed

theorem signed_request_is_accepted_witness:
  "\<exists>s h. verifyMachineRequest flat_crypto (\<lambda>_. Integer 5) MAX_CLOCK_SKEW_MS 9 sample_request (Some s) (Some h)"
proof -
  obtain h where h: "deriveMachineKey flat_crypto sample_token = Inr h"
    by (simp add: deriveMachineKey_def sample_token_def)
  then obtain s where s: "signMachineRequest flat_crypto sample_request sample_token = Inr s"
    by (simp add: signMachineRequest_def)
  show ?thesis
    using signed_request_is_accepted [OF flat_crypto_lawful s h, of "\<lambda>_. Integer 5" 5 9 MAX_CLOCK_SKEW_MS] sample_nonce
    by (auto simp: is_safe_integer_def MAX_SAFE_INTEGER_def MAX_CLOCK_SKEW_MS_def)
qed

section \<open>Authentication\<close>

datatype credential_type = Server_Credential | Channel_Worker_Credential | Runtime_Credential

text \<open>What a route needs of a credential: its identifier, its hash, and the limits of a channel worker.\<close>

record machine =
  mh_machine :: ident
  mh_credential :: ident
  mh_org :: "ident option"
  mh_channels :: "string list"

definition type_name :: "credential_type \<Rightarrow> string" where
  "type_name t = (case t of Server_Credential \<Rightarrow> ''server'' | Channel_Worker_Credential \<Rightarrow> ''channel-worker''
     | Runtime_Credential \<Rightarrow> ''agent-runtime'')"

definition stored_machine ::
  "env \<Rightarrow> credential_type \<Rightarrow> ident \<Rightarrow> fleet_state \<Rightarrow> channel_state \<Rightarrow> (machine \<times> string) option" where
  "stored_machine e t i fleet channels =
     (case t of
        Server_Credential \<Rightarrow>
          map_option (\<lambda>c. (\<lparr>mh_machine = i, mh_credential = mc_id c, mh_org = map_option fst (mc_scope c), mh_channels = []\<rparr>, mc_keyHash c))
            (getActiveServerCredential i fleet)
      | Channel_Worker_Credential \<Rightarrow>
          map_option (\<lambda>c. (\<lparr>mh_machine = i, mh_credential = wc_id c, mh_org = wc_org c, mh_channels = wc_channels c\<rparr>, wc_keyHash c))
            (getActiveChannelWorkerCredential e i channels)
      | Runtime_Credential \<Rightarrow>
          map_option (\<lambda>c. (\<lparr>mh_machine = i, mh_credential = mc_id c, mh_org = map_option fst (mc_scope c), mh_channels = []\<rparr>, mc_keyHash c))
            (getActiveAgentRuntimeCredential i fleet))"

text \<open>The headers are optional; the request is the one the server reads.\<close>

definition authenticateMachine ::
  "env \<Rightarrow> crypto \<Rightarrow> (string \<Rightarrow> jnum) \<Rightarrow> credential_type \<Rightarrow> ident option \<Rightarrow> machine_request \<Rightarrow> string option \<Rightarrow>
     channel_state \<Rightarrow> fleet_state \<Rightarrow> machine option \<times> fleet_state" where
  "authenticateMachine e cr number t machineId q signature channels fleet =
     (case machineId of
        None \<Rightarrow> (None, fleet)
      | Some i \<Rightarrow>
          (case stored_machine e t i fleet channels of
             None \<Rightarrow> (None, fleet)
           | Some (m, keyHash) \<Rightarrow>
               if \<not> verifyMachineRequest cr number MAX_CLOCK_SKEW_MS (clock e) q signature (Some keyHash) then (None, fleet)
               else (case claimMachineNonce (type_name t) (mh_credential m) (mq_nonce q) fleet of
                       (claimed, fleet') \<Rightarrow> (if claimed then Some m else None, fleet'))))"

lemma authenticated_machine:
  assumes "authenticateMachine e cr number t mi q sg channels fleet = (Some m, fleet')"
  obtains i h where "mi = Some i" "mh_machine m = i" "stored_machine e t i fleet channels = Some (m, h)"
    "verifyMachineRequest cr number MAX_CLOCK_SKEW_MS (clock e) q sg (Some h)"
    "claimMachineNonce (type_name t) (mh_credential m) (mq_nonce q) fleet = (True, fleet')"
  using assms by (auto simp: authenticateMachine_def stored_machine_def split: option.splits if_splits prod.splits credential_type.splits)

lemma nonces_grow: "set (nonces fleet) \<subseteq> set (nonces (snd (authenticateMachine e cr number t mi q sg channels fleet)))"
  by (auto simp: authenticateMachine_def claimMachineNonce_def Let_def split: option.splits)

fun authenticate_all ::
  "(env \<times> credential_type \<times> ident option \<times> machine_request \<times> string option \<times> channel_state) list \<Rightarrow>
     crypto \<Rightarrow> (string \<Rightarrow> jnum) \<Rightarrow> fleet_state \<Rightarrow> fleet_state" where
  "authenticate_all [] cr number fleet = fleet"
| "authenticate_all ((e, t, mi, q, sg, channels) # rs) cr number fleet =
     authenticate_all rs cr number (snd (authenticateMachine e cr number t mi q sg channels fleet))"

lemma all_nonces_grow: "set (nonces fleet) \<subseteq> set (nonces (authenticate_all rs cr number fleet))"
  using nonces_grow by (induction rs cr number fleet rule: authenticate_all.induct) fastforce+

text \<open>
  C22. A signed request authenticates its machine at most once: after it was accepted, the same nonce is
  refused for the same credential, whatever was authenticated in between.
\<close>

theorem request_authenticates_once:
  assumes "authenticateMachine e cr number t mi q sg channels fleet = (Some m, fleet')"
    and "authenticateMachine e2 cr number t mi2 q2 sg2 channels2 (authenticate_all rs cr number fleet') = (Some m2, fleet2)"
    and "mq_nonce q2 = mq_nonce q"
  shows "mh_credential m2 \<noteq> mh_credential m"
proof
  assume same: "mh_credential m2 = mh_credential m"
  let ?key = "type_name t @ '':'' @ mh_credential m @ '':'' @ mq_nonce q"
  have "?key \<in> set (nonces fleet')"
    using assms(1) by (elim authenticated_machine) (auto simp: claimMachineNonce_def Let_def split: if_splits)
  then have "?key \<in> set (nonces (authenticate_all rs cr number fleet'))" using all_nonces_grow by blast
  then show False
    using assms(2,3) same by (elim authenticated_machine) (auto simp: claimMachineNonce_def Let_def split: if_splits)
qed

definition server_fleet :: "crypto \<Rightarrow> fleet_state" where
  "server_fleet cr = empty_fleet\<lparr>server_credentials := [\<lparr>mc_id = ''k'', mc_subject = ''s'', mc_scope = None,
     mc_keyHash = to_hex (sha256 cr sample_token), mc_keyHint = [], mc_status = ''active'', mc_createdBy = None, mc_createdAt = 0\<rparr>]\<rparr>"

lemma sample_authentication:
  "\<exists>s m f. authenticateMachine \<lparr>clock = 9, uuid = (\<lambda>_. [])\<rparr> flat_crypto (\<lambda>_. Integer 5) Server_Credential (Some ''s'')
     sample_request (Some s) empty_channels (server_fleet flat_crypto) = (Some m, f) \<and> mh_credential m = ''k''"
proof -
  obtain h where h: "deriveMachineKey flat_crypto sample_token = Inr h" "h = to_hex (sha256 flat_crypto sample_token)"
    by (simp add: deriveMachineKey_def sample_token_def)
  then obtain s where s: "signMachineRequest flat_crypto sample_request sample_token = Inr s"
    by (simp add: signMachineRequest_def)
  have "verifyMachineRequest flat_crypto (\<lambda>_. Integer 5) MAX_CLOCK_SKEW_MS 9 sample_request (Some s) (Some h)"
    using h(1) s sample_nonce flat_crypto_lawful
    by (auto simp: deriveMachineKey_def signMachineRequest_def verifyMachineRequest_def fresh_timestamp_def
        is_safe_integer_def MAX_SAFE_INTEGER_def MAX_CLOCK_SKEW_MS_def base64url_roundtrip crypto_lawful_def
        signature_shape key_shape split: if_splits)
  then show ?thesis
    by (intro exI [of _ s])
      (simp add: authenticateMachine_def stored_machine_def server_fleet_def getActiveServerCredential_def find_last_def
        claimMachineNonce_def h(2) empty_fleet_def type_name_def Let_def)
qed

theorem request_authenticates_once_witness:
  "\<exists>s f. \<not> (\<exists>m2 f2. authenticateMachine \<lparr>clock = 10, uuid = (\<lambda>_. [])\<rparr> flat_crypto (\<lambda>_. Integer 5) Server_Credential
     (Some ''s'') sample_request (Some s) empty_channels f = (Some m2, f2) \<and> mh_credential m2 = ''k'')"
proof -
  obtain s m f where run: "authenticateMachine \<lparr>clock = 9, uuid = (\<lambda>_. [])\<rparr> flat_crypto (\<lambda>_. Integer 5) Server_Credential
      (Some ''s'') sample_request (Some s) empty_channels (server_fleet flat_crypto) = (Some m, f)" "mh_credential m = ''k''"
    using sample_authentication by blast
  show ?thesis
    using request_authenticates_once [OF run(1), where rs = "[]" and ?q2.0 = sample_request] run(2) by force
qed

section \<open>Signed control documents\<close>

text \<open>The order of the properties of an object: those that are array indices first, ascending.\<close>

definition is_index :: "string \<Rightarrow> bool" where
  "is_index k \<longleftrightarrow> k \<noteq> [] \<and> list_all is_digit k \<and> (k = ''0'' \<or> hd k \<noteq> CHR ''0'') \<and> length k \<le> 10 \<and>
     foldl (\<lambda>n c. 10 * n + (code_of c - 48)) 0 k < 4294967295"

definition own_order :: "(string \<times> json) list \<Rightarrow> (string \<times> json) list" where
  "own_order kvs =
     sort_key (\<lambda>kv. (length (fst kv), fst kv)) (filter (is_index \<circ> fst) kvs) @ filter (\<lambda>kv. \<not> is_index (fst kv)) kvs"

function canonicalValue :: "json \<Rightarrow> json" where
  "canonicalValue v =
     (case v of
        JArr xs \<Rightarrow> JArr (map canonicalValue xs)
      | JObj kvs \<Rightarrow>
          JObj (own_order (map (\<lambda>kv. (fst kv, canonicalValue (snd kv)))
            (filter (\<lambda>kv. snd kv \<noteq> JUndefined) (sort_key fst kvs))))
      | _ \<Rightarrow> v)"
  by pat_completeness auto
termination
proof (relation "measure size", goal_cases)
  case (2 v xs x)
  then show ?case using size_JArr [of x xs] by auto
next
  case (3 v kvs kv)
  then show ?case using size_JObj [of kv kvs] by auto
qed simp

declare canonicalValue.simps [simp del]

text \<open>\<open>{ ...value, k: x }\<close>.\<close>

definition put :: "string \<Rightarrow> json \<Rightarrow> (string \<times> json) list \<Rightarrow> (string \<times> json) list" where
  "put k x kvs = AList.update k x kvs"

definition unsigned :: "(string \<times> json) list \<Rightarrow> json \<Rightarrow> json" where
  "unsigned kvs sg = JObj (put ''signature'' (JObj [(''algorithm'', at sg ''algorithm''), (''key_id'', at sg ''key_id''),
     (''signed_at'', at sg ''signed_at'')]) kvs)"

definition controlMutationCanonical :: "(json \<Rightarrow> string) \<Rightarrow> json \<Rightarrow> failure + string" where
  "controlMutationCanonical stringify v =
     (case v of
        JObj kvs \<Rightarrow>
          (case at v ''signature'' of
             JObj s \<Rightarrow> Inr (stringify (canonicalValue (unsigned kvs (JObj s))))
           | _ \<Rightarrow> Inl (TypeError ''Control mutation signature metadata is required''))
      | _ \<Rightarrow> Inl (TypeError ''Control mutation must be an object''))"

text \<open>The options carry the derived key or the token to derive it from.\<close>

definition keyBuffer :: "crypto \<Rightarrow> string option \<Rightarrow> string option \<Rightarrow> failure + bytes" where
  "keyBuffer cr keyHash token =
     (let derived = (case keyHash of
          Some h \<Rightarrow> Inr (Some h)
        | None \<Rightarrow> (case token of
            Some t \<Rightarrow> if t = [] then Inr None else map_sum id Some (deriveMachineKey cr t)
          | None \<Rightarrow> Inr None))
      in case derived of
           Inl err \<Rightarrow> Inl err
         | Inr (Some h) \<Rightarrow> if matches KEY_HASH h then Inr (from_hex h)
             else Inl (TypeError ''A derived control mutation key is required'')
         | Inr None \<Rightarrow> Inl (TypeError ''A derived control mutation key is required''))"

definition pending_envelope :: "string \<Rightarrow> string \<Rightarrow> string \<Rightarrow> (string \<times> json) list \<Rightarrow> (string \<times> json) list" where
  "pending_envelope keyId signedAt sig kvs =
     put ''signature'' (JObj [(''algorithm'', JStr ''hmac-sha256''), (''key_id'', JStr keyId), (''signed_at'', JStr signedAt),
       (''value'', JStr sig)]) kvs"

definition signControlMutation ::
  "crypto \<Rightarrow> (json \<Rightarrow> string) \<Rightarrow> string option \<Rightarrow> string option \<Rightarrow> string \<Rightarrow> string \<Rightarrow> json \<Rightarrow> failure + json" where
  "signControlMutation cr stringify keyHash token keyId signedAt v =
     (case v of
        JObj kvs \<Rightarrow>
          if keyId = [] then Inl (TypeError ''Control mutation key id is required'')
          else (case keyBuffer cr keyHash token of
                  Inl err \<Rightarrow> Inl err
                | Inr key \<Rightarrow>
                    (case controlMutationCanonical stringify
                            (JObj (pending_envelope keyId signedAt ''pending-control-signature'' kvs)) of
                       Inl err \<Rightarrow> Inl err
                     | Inr t \<Rightarrow> Inr (JObj (pending_envelope keyId signedAt (to_base64url (hmac cr key t)) kvs))))
      | _ \<Rightarrow> Inl (TypeError ''Control mutation must be an object''))"

definition MAX_SIGNATURE_AGE_MS :: int where
  "MAX_SIGNATURE_AGE_MS = 5 * 60000"

definition verifyControlMutationSignature ::
  "crypto \<Rightarrow> (json \<Rightarrow> string) \<Rightarrow> (json \<Rightarrow> instant option) \<Rightarrow> string option \<Rightarrow> string option \<Rightarrow> string option \<Rightarrow>
     instant \<Rightarrow> int \<Rightarrow> json \<Rightarrow> failure + bool" where
  "verifyControlMutationSignature cr stringify date keyHash token expectedKeyId now maxAge v =
     (let sg = at v ''signature''
      in case at sg ''value'' of
           JStr given \<Rightarrow>
             if at sg ''algorithm'' \<noteq> JStr ''hmac-sha256'' then Inr False
             else if (case expectedKeyId of Some k \<Rightarrow> k \<noteq> [] \<and> at sg ''key_id'' \<noteq> JStr k | None \<Rightarrow> False) then Inr False
             else (case (date (at sg ''signed_at''), date (at v ''created_at'')) of
                     (Some signed, Some created) \<Rightarrow>
                       if signed < created \<or> \<bar>now - signed\<bar> > maxAge then Inr False
                       else (case keyBuffer cr keyHash token of
                               Inl err \<Rightarrow> Inl err
                             | Inr key \<Rightarrow>
                                 (case controlMutationCanonical stringify v of
                                    Inl err \<Rightarrow> Inl err
                                  | Inr t \<Rightarrow> Inr (from_base64url given = hmac cr key t)))
                   | _ \<Rightarrow> Inr False)
         | _ \<Rightarrow> Inr False)"

text \<open>
  A control document signed with a key is accepted by anyone who holds the key, within the allowed age:
  the check recomputes the same canonical text, which leaves out the signature's value and nothing else.
\<close>

lemma put_simps [simp]: "map_of (put k x kvs) = (map_of kvs)(k \<mapsto> x)" "put k y (put k x kvs) = put k y kvs"
  proof -
  show "map_of (put k x kvs) = (map_of kvs)(k \<mapsto> x)" by (simp add: put_def update_conv')
  show "put k y (put k x kvs) = put k y kvs" by (induction kvs) (auto simp: put_def)
qed

lemma canonical_of_envelope:
  "controlMutationCanonical stringify (JObj (pending_envelope keyId signedAt sig kvs)) =
     Inr (stringify (canonicalValue (JObj (put ''signature''
       (JObj [(''algorithm'', JStr ''hmac-sha256''), (''key_id'', JStr keyId), (''signed_at'', JStr signedAt)]) kvs))))"
  by (simp add: controlMutationCanonical_def pending_envelope_def unsigned_def at_def prop_of_def)

theorem signed_mutation_is_accepted:
  assumes "crypto_lawful cr" and "signControlMutation cr stringify keyHash token keyId signedAt v = Inr w"
    and "date (JStr signedAt) = Some signed" and "date (at v ''created_at'') = Some created"
    and "created \<le> signed" and "\<bar>now - signed\<bar> \<le> maxAge"
  shows "verifyControlMutationSignature cr stringify date keyHash token (Some keyId) now maxAge w = Inr True"
proof -
  obtain kvs key where v: "v = JObj kvs" and key: "keyBuffer cr keyHash token = Inr key"
    and w: "w = JObj (pending_envelope keyId signedAt (to_base64url (hmac cr key (stringify (canonicalValue (JObj (put ''signature''
       (JObj [(''algorithm'', JStr ''hmac-sha256''), (''key_id'', JStr keyId), (''signed_at'', JStr signedAt)]) kvs)))))) kvs)"
    using assms(2) by (auto simp: signControlMutation_def canonical_of_envelope split: json.splits if_splits sum.splits)
  have "is_bytes (hmac cr k t)" for k t using assms(1) by (simp add: crypto_lawful_def)
  moreover have "at w ''created_at'' = at v ''created_at''"
    by (simp add: w v at_def prop_of_def pending_envelope_def)
  moreover have "at w ''signature'' = JObj [(''algorithm'', JStr ''hmac-sha256''), (''key_id'', JStr keyId),
      (''signed_at'', JStr signedAt), (''value'', JStr (to_base64url (hmac cr key (stringify (canonicalValue (JObj (put ''signature''
       (JObj [(''algorithm'', JStr ''hmac-sha256''), (''key_id'', JStr keyId), (''signed_at'', JStr signedAt)]) kvs)))))))]"
    by (simp add: w at_def prop_of_def pending_envelope_def)
  ultimately show ?thesis
    using assms(3-6) key base64url_roundtrip
    by (simp add: verifyControlMutationSignature_def Let_def, simp add: w canonical_of_envelope at_def prop_of_def)
qed

definition no_text :: "json \<Rightarrow> string" where
  "no_text v = ''canonical''"

theorem signed_mutation_is_accepted_witness:
  "\<exists>w. verifyControlMutationSignature flat_crypto no_text (\<lambda>_. Some 5) None (Some sample_token) (Some ''key'') 9 10 w = Inr True"
proof -
  have "\<exists>w. signControlMutation flat_crypto no_text None (Some sample_token) ''key'' ''now'' (JObj []) = Inr w"
    using key_shape [of "replicate 32 7"]
    by (simp add: signControlMutation_def canonical_of_envelope keyBuffer_def deriveMachineKey_def sample_token_def flat_crypto_def
        is_bytes_def)
  then obtain w where w: "signControlMutation flat_crypto no_text None (Some sample_token) ''key'' ''now'' (JObj []) = Inr w" ..
  show ?thesis
    using signed_mutation_is_accepted [OF flat_crypto_lawful w, of "\<lambda>_. Some 5" 5 5 9 10] by auto
qed

end
