(* ===== verification/Fleet_Tenancy.thy ===== *)
theory Fleet_Tenancy
  imports Fleet_Store
begin

text \<open>
  Properties of tenants and the fleet: unique email addresses, one runtime per agent, one active credential
  per server, and machine nonces that are accepted once.
\<close>

section \<open>Users\<close>

inductive user_step :: "(string \<Rightarrow> string) \<Rightarrow> fleet_state \<Rightarrow> fleet_state \<Rightarrow> bool" for lower where
  create: "user_step lower s (snd (createUser lower e i s))"
| role: "user_step lower s (snd (updateUserRole i r s))"

definition users_inv :: "(string \<Rightarrow> string) \<Rightarrow> fleet_state \<Rightarrow> bool" where
  "users_inv lower s \<longleftrightarrow> distinct (map fst (users s)) \<and> distinct (map (us_email \<circ> snd) (users s)) \<and>
     (\<forall>u\<in>set (map snd (users s)). \<exists>x. us_email u = lower x)"

lemma update_emails:
  "distinct (map f m) \<Longrightarrow> (\<And>kv. kv \<in> set m \<Longrightarrow> f kv \<noteq> f (k, v)) \<Longrightarrow> distinct (map f (AList.update k v m))"
proof (induction m)
  case (Cons a m)
  show ?case
  proof (cases "fst a = k")
    case True
    have "f (k, v) \<noteq> f kv" if "kv \<in> set m" for kv using Cons.prems(2) [of kv] that by simp
    then have "f (k, v) \<notin> f ` set m" by blast
    then show ?thesis using Cons.prems(1) True by (cases a) simp
  next
    case False
    have "f a \<noteq> f (k, v)" using Cons.prems(2) [of a] by simp
    moreover have "f a \<notin> f ` set m" using Cons.prems(1) by simp
    ultimately have "f a \<notin> f ` set (AList.update k v m)"
      using set_update_subset [of k v m] by blast
    moreover have "distinct (map f (AList.update k v m))" using Cons by simp
    ultimately show ?thesis using False by (cases a) simp
  qed
qed simp

lemma update_values: "x \<in> set (map snd (AList.update k v m)) \<Longrightarrow> x = v \<or> x \<in> set (map snd m)"
  by (induction m) (auto split: if_splits)

lemma user_step_inv: "user_step lower s t \<Longrightarrow> users_inv lower s \<Longrightarrow> users_inv lower t"
proof (induction rule: user_step.induct)
  case (create s e i)
  show ?case
  proof (cases "List.find (\<lambda>u. us_email u = lower (ui_email i)) (map snd (users s))")
    case None
    define u where "u = \<lparr>us_id = or_else (ui_id i) (uuid e 0), us_org = ui_org i, us_email = lower (ui_email i),
      us_displayName = ui_displayName i, us_role = or_else (ui_role i) ''user'',
      us_status = or_else (ui_status i) ''active'', us_createdAt = clock e, us_passwordHash = ui_passwordHash i\<rparr>"
    have u: "us_email u = lower (ui_email i)"
      "users (snd (createUser lower e i s)) = AList.update (us_id u) u (users s)"
      using None by (simp_all add: createUser_def Let_def u_def)
    have "us_email (snd kv) \<noteq> us_email u" if "kv \<in> set (users s)" for kv
      using None that u(1) by (auto simp: find_None_all)
    moreover have "\<exists>x. us_email w = lower x" if "w \<in> set (map snd (AList.update (us_id u) u (users s)))" for w
      using update_values [OF that] create u(1) by (auto simp: users_inv_def)
    ultimately show ?thesis using create
      by (simp add: users_inv_def u(2) distinct_update update_emails)
  qed (use create in \<open>simp add: createUser_def\<close>)
next
  case (role s i r)
  let ?f = "\<lambda>u. u\<lparr>us_role := r\<rparr>"
  let ?us = "map_modify i ?f (users s)"
  have "map (us_email \<circ> snd) ?us = map (us_email \<circ> snd) (users s)"
    by (auto simp: map_modify_def)
  moreover have "\<exists>x. us_email u = lower x" if u: "u \<in> set (map snd ?us)" for u
  proof -
    obtain k w where w: "(k, w) \<in> set (users s)" "us_email u = us_email w"
      using u by (auto simp: map_modify_def split: if_splits)
    then show ?thesis using role w(2) unfolding users_inv_def by fastforce
  qed
  moreover have "map fst ?us = map fst (users s)" by (rule keys_map_modify)
  ultimately have "users_inv lower (s\<lparr>users := ?us\<rparr>)" using role by (simp add: users_inv_def)
  then show ?case using role by (simp add: updateUserRole_def split: option.splits)
qed

text \<open>No two accounts share an email address, however it is capitalized: after any sequence of registrations and role
  changes the stored addresses are distinct and normalized, and registering an address again is refused
  without changing anything.\<close>

theorem emails_are_unique:
  assumes "(user_step lower)\<^sup>*\<^sup>* s t" and "users s = []"
  shows "distinct (map (us_email \<circ> snd) (users t)) \<and>
    (u \<in> set (map snd (users t)) \<longrightarrow> lower (ui_email i) = us_email u \<longrightarrow>
      createUser lower e i t = (Inl (PlainError ''Email already exists''), t))"
proof -
  have "users_inv lower t" using assms
    by (induction rule: rtranclp_induct) (auto simp: users_inv_def [of _ s] intro: user_step_inv)
  moreover have "createUser lower e i t = (Inl (PlainError ''Email already exists''), t)"
    if "u \<in> set (map snd (users t))" "lower (ui_email i) = us_email u"
  proof -
    have "List.find (\<lambda>u. us_email u = lower (ui_email i)) (map snd (users t)) \<noteq> None"
      using that by (auto simp: find_None_all)
    then show ?thesis by (simp add: createUser_def)
  qed
  ultimately show ?thesis by (auto simp: users_inv_def)
qed

section \<open>Runtimes\<close>

lemma runtime_agents_distinct:
  assumes "distinct (map (rt_agent \<circ> snd) (runtimes s))"
  shows "distinct (map (rt_agent \<circ> snd) (runtimes (snd (createAgentRuntime e i s))))"
proof (cases "getAgentRuntimeByAgent (rti_agent i) s")
  case None
  define r where "r = fst (createAgentRuntime e i s)"
  have r: "rt_agent r = rti_agent i" "runtimes (snd (createAgentRuntime e i s)) = AList.update (rt_id r) r (runtimes s)"
    using None by (simp_all add: createAgentRuntime_def Let_def r_def)
  have "rt_agent (snd kv) \<noteq> rt_agent r" if "kv \<in> set (runtimes s)" for kv
    using None that r(1) by (auto simp: getAgentRuntimeByAgent_def find_None_all)
  then show ?thesis unfolding r(2) using assms by (intro update_emails) auto
qed (use assms in \<open>simp add: createAgentRuntime_def\<close>)

text \<open>An agent has one runtime: creating a runtime keeps the agents of the runtimes distinct, and creating it again
  returns the existing one and changes nothing.\<close>

theorem one_runtime_per_agent:
  assumes "distinct (map (rt_agent \<circ> snd) (runtimes s))" and "createAgentRuntime e i s = (r, t)" and "rti_agent j = rti_agent i"
    and "\<forall>kv\<in>set (runtimes s). fst kv \<noteq> or_else (rti_id i) (uuid e 0)"
  shows "distinct (map (rt_agent \<circ> snd) (runtimes t)) \<and> createAgentRuntime e' j t = (r, t)"
proof -
  have d: "distinct (map (rt_agent \<circ> snd) (runtimes t))" using runtime_agents_distinct [OF assms(1), of e i] assms(2) by simp
  have "getAgentRuntimeByAgent (rti_agent i) t = Some r"
  proof (cases "getAgentRuntimeByAgent (rti_agent i) s")
    case None
    then have r: "rt_agent r = rti_agent i" "runtimes t = AList.update (rt_id r) r (runtimes s)"
      "rt_id r = or_else (rti_id i) (uuid e 0)"
      using assms(2) by (auto simp: createAgentRuntime_def Let_def)
    have "runtimes t = runtimes s @ [(rt_id r, r)]" unfolding r(2) by (rule update_fresh) (use r(3) assms(4) in auto)
    then show ?thesis using None r(1) by (simp add: getAgentRuntimeByAgent_def find_append)
  next
    case (Some q)
    then show ?thesis using assms(2) by (simp add: createAgentRuntime_def)
  qed
  then show ?thesis using d assms(3) by (simp add: createAgentRuntime_def)
qed

section \<open>Machine credentials\<close>

text \<open>A server has one active credential: issuing one revokes every earlier one of that server, leaves those of other
  servers alone, and the new one is what authentication looks up.\<close>

theorem server_credential_rotation:
  assumes "createServerCredential e i s = (c, t)"
  shows "filter (\<lambda>x. mc_subject x = sci_server i \<and> mc_status x = ''active'') (server_credentials t) = [c] \<and>
    getActiveServerCredential (sci_server i) t = Some c \<and>
    filter (\<lambda>x. mc_subject x \<noteq> sci_server i) (server_credentials t) = filter (\<lambda>x. mc_subject x \<noteq> sci_server i) (server_credentials s)"
proof -
  let ?p = "\<lambda>x. mc_subject x = sci_server i \<and> mc_status x = ''active''"
  have c: "?p c" and t: "server_credentials t = revoke_active (sci_server i) (server_credentials s) @ [c]"
    using assms by (auto simp: createServerCredential_def Let_def)
  have none: "filter ?p (revoke_active (sci_server i) cs) = []" for cs
    by (auto simp: revoke_active_def upd_all_def filter_empty_conv)
  have "filter (\<lambda>x. mc_subject x \<noteq> sci_server i) (revoke_active (sci_server i) cs) = filter (\<lambda>x. mc_subject x \<noteq> sci_server i) cs" for cs
    by (induction cs) (auto simp: revoke_active_def upd_all_def)
  then show ?thesis using c none by (simp add: t getActiveServerCredential_def find_last_def)
qed

fun claim_nonces :: "(string \<times> ident \<times> string) list \<Rightarrow> fleet_state \<Rightarrow> bool list \<times> fleet_state" where
  "claim_nonces [] s = ([], s)"
| "claim_nonces ((k, c, n) # rest) s =
     (let (ok, t) = claimMachineNonce k c n s; (oks, u) = claim_nonces rest t in (ok # oks, u))"

lemma claim_nonces_set: "set (nonces s) \<subseteq> set (nonces (snd (claim_nonces cs s)))"
proof (induction cs arbitrary: s)
  case (Cons x cs)
  obtain k c n where x: "x = (k, c, n)" by (cases x)
  have "set (nonces s) \<subseteq> set (nonces (snd (claimMachineNonce k c n s)))" by (auto simp: claimMachineNonce_def Let_def)
  also have "\<dots> \<subseteq> set (nonces (snd (claim_nonces cs (snd (claimMachineNonce k c n s)))))" by (rule Cons)
  finally show ?case by (simp add: x case_prod_unfold Let_def)
qed simp

text \<open>A signed machine request is accepted once: whatever requests come in between, a nonce that was claimed for a
  credential is refused when it is presented again.\<close>

theorem nonce_is_accepted_once:
  "fst (claimMachineNonce k c n (snd (claim_nonces cs (snd (claimMachineNonce k c n s))))) = False"
proof -
  have "k @ '':'' @ c @ '':'' @ n \<in> set (nonces (snd (claimMachineNonce k c n s)))"
    by (simp add: claimMachineNonce_def Let_def)
  then have "k @ '':'' @ c @ '':'' @ n \<in> set (nonces (snd (claim_nonces cs (snd (claimMachineNonce k c n s)))))"
    using claim_nonces_set by (rule subsetD [rotated])
  then show ?thesis by (simp add: claimMachineNonce_def Let_def)
qed

section \<open>Witnesses\<close>

definition now_env :: "string \<Rightarrow> env" where
  "now_env tag = \<lparr>clock = 5, uuid = (\<lambda>_. tag)\<rparr>"

definition account :: "string \<Rightarrow> user_input" where
  "account email = \<lparr>ui_id = None, ui_org = ''O'', ui_email = email, ui_displayName = ''n'', ui_passwordHash = ''h'',
     ui_role = None, ui_status = None\<rparr>"

theorem emails_are_unique_witness:
  "fst (createUser lower_case (now_env ''v'') (account ''A@X'') (snd (createUser lower_case (now_env ''u'') (account ''a@x'') empty_fleet))) =
    Inl (PlainError ''Email already exists'')"
proof -
  let ?t = "snd (createUser lower_case (now_env ''u'') (account ''a@x'') empty_fleet)"
  have run: "(user_step lower_case)\<^sup>*\<^sup>* empty_fleet ?t" by (blast intro: user_step.create)
  have u: "users empty_fleet = []" "snd (hd (users ?t)) \<in> set (map snd (users ?t))"
    "lower_case (ui_email (account ''A@X'')) = us_email (snd (hd (users ?t)))" by code_simp+
  from emails_are_unique [OF run u(1), of "snd (hd (users ?t))" "account ''A@X''" "now_env ''v''"] u(2,3) show ?thesis by simp
qed

definition runtime_request :: runtime_input where
  "runtime_request = \<lparr>rti_id = None, rti_org = ''O'', rti_owner = ''U'', rti_agent = ''A'', rti_deployment = None,
     rti_workspace = ''w'', rti_status = None\<rparr>"

theorem one_runtime_per_agent_witness:
  "createAgentRuntime (now_env ''q'') runtime_request (snd (createAgentRuntime (now_env ''r'') runtime_request empty_fleet)) =
     createAgentRuntime (now_env ''r'') runtime_request empty_fleet"
proof -
  have "distinct (map (rt_agent \<circ> snd) (runtimes empty_fleet))"
    "\<forall>kv\<in>set (runtimes empty_fleet). fst kv \<noteq> or_else (rti_id runtime_request) (uuid (now_env ''r'') 0)" by code_simp+
  from one_runtime_per_agent [OF this(1) surjective_pairing refl this(2), of "now_env ''q''"]
  show ?thesis by (metis surjective_pairing)
qed

definition credential_request :: server_credential_input where
  "credential_request = \<lparr>sci_id = None, sci_server = ''S'', sci_keyHash = ''h'', sci_keyHint = ''t'', sci_createdBy = None\<rparr>"

theorem server_credential_rotation_witness:
  "map mc_id (filter (\<lambda>x. mc_subject x = ''S'' \<and> mc_status x = ''active'')
     (server_credentials (snd (createServerCredential (now_env ''b'') credential_request
       (snd (createServerCredential (now_env ''a'') credential_request empty_fleet)))))) = [''b'']"
proof -
  have "sci_server credential_request = ''S''" "mc_id (fst (createServerCredential (now_env ''b'') credential_request
       (snd (createServerCredential (now_env ''a'') credential_request empty_fleet)))) = ''b''" by code_simp+
  with server_credential_rotation [of "now_env ''b''" credential_request
      "snd (createServerCredential (now_env ''a'') credential_request empty_fleet)", OF surjective_pairing]
  show ?thesis by simp
qed

end
