(* ===== verification/Keyed_Store.thy ===== *)
theory Keyed_Store
  imports Js_Prelude
begin

text \<open>
  Arrays of objects that hold at most one object for a key: \<open>find\<close> by the key, then \<open>Object.assign\<close> to
  the object found or \<open>push\<close> of a new one. The locale states what the builder of the object has to
  respect; its lemmas say that keys stay distinct and what a later lookup returns.
\<close>

definition upsert :: "('r \<Rightarrow> bool) \<Rightarrow> ('r option \<Rightarrow> 'r) \<Rightarrow> 'r list \<Rightarrow> 'r \<times> 'r list" where
  "upsert same put rs =
     (case List.find same rs of
        Some r \<Rightarrow> (put (Some r), upd_first same (\<lambda>r. put (Some r)) rs)
      | None \<Rightarrow> (put None, rs @ [put None]))"

locale keyed_store =
  fixes key :: "'r \<Rightarrow> 'k" and input_key :: "'i \<Rightarrow> 'k" and put :: "env \<Rightarrow> 'i \<Rightarrow> 'r option \<Rightarrow> 'r"
  assumes key_put: "(\<And>r. old = Some r \<Longrightarrow> key r = input_key i) \<Longrightarrow> key (put e i old) = input_key i"
begin

lemma key_new: "key (put e i None) = input_key i"
  by (rule key_put) simp

lemma key_old: "key r = input_key i \<Longrightarrow> key (put e i (Some r)) = input_key i"
  by (rule key_put) simp

lemma keys_upsert:
  "map key (snd (upsert (\<lambda>r. key r = input_key i) (put e i) rs)) =
    (if input_key i \<in> set (map key rs) then map key rs else map key rs @ [input_key i])"
proof (cases "List.find (\<lambda>r. key r = input_key i) rs")
  case None
  then have "input_key i \<notin> set (map key rs)" by (auto simp: find_None_all)
  then show ?thesis using None by (simp add: upsert_def key_new)
next
  case (Some r)
  then have "input_key i \<in> set (map key rs)" by (force dest: find_Some_mem)
  moreover have "map key (upd_first (\<lambda>r. key r = input_key i) (\<lambda>r. put e i (Some r)) rs) = map key rs"
    by (rule map_upd_first) (simp add: key_old)
  ultimately show ?thesis using Some by (simp add: upsert_def)
qed

lemma distinct_upsert:
  "distinct (map key rs) \<Longrightarrow> distinct (map key (snd (upsert (\<lambda>r. key r = input_key i) (put e i) rs)))"
  by (simp only: keys_upsert split: if_split) simp

lemma find_upsert:
  "List.find (\<lambda>r. key r = input_key i) (snd (upsert (\<lambda>r. key r = input_key i) (put e i) rs)) =
    Some (fst (upsert (\<lambda>r. key r = input_key i) (put e i) rs))"
proof (cases "List.find (\<lambda>r. key r = input_key i) rs")
  case None
  then show ?thesis by (simp add: upsert_def find_append key_new)
next
  case (Some r)
  then show ?thesis
    using find_upd_first_same [of "\<lambda>r. key r = input_key i" "\<lambda>r. put e i (Some r)" rs]
    by (simp add: upsert_def key_old)
qed

lemma find_upsert_other:
  assumes "k \<noteq> input_key i"
  shows "List.find (\<lambda>r. key r = k) (snd (upsert (\<lambda>r. key r = input_key i) (put e i) rs)) =
    List.find (\<lambda>r. key r = k) rs"
proof (cases "List.find (\<lambda>r. key r = input_key i) rs")
  case None
  then show ?thesis using assms by (simp add: upsert_def find_append key_new split: option.splits)
next
  case (Some r)
  moreover have "List.find (\<lambda>r. key r = k) (upd_first (\<lambda>r. key r = input_key i) (\<lambda>r. put e i (Some r)) rs) =
      List.find (\<lambda>r. key r = k) rs"
    by (rule find_upd_first_other) (use assms in \<open>auto simp: key_old\<close>)
  ultimately show ?thesis by (simp add: upsert_def)
qed

end

end
