(* ===== verification/Tenant_Records.thy ===== *)
theory Tenant_Records
  imports Fleet_Store Keyed_Store
begin

text \<open>
  The records a tenant accumulates in \<open>MemoryPlatformRepository\<close> (\<open>packages/db/memory-repository.mjs\<close>):
  conversations and messages, control-plane snapshots, the audit log, licenses, releases, provider
  settings, integration runs with their hotspots and bookmarks, authorizations for other services, agent
  runs, policies and grants of access to conversation content. Lists that are kept by a key use \<open>upsert\<close>
  and are interpreted as keyed stores; the properties are at the end.
\<close>

section \<open>Data\<close>

record conversation =
  cv_id :: ident
  cv_org :: ident
  cv_user :: ident
  cv_agent :: ident
  cv_title :: string
  cv_createdAt :: instant
  cv_updatedAt :: instant

record message =
  ms_id :: ident
  ms_conversation :: ident
  ms_org :: ident
  ms_user :: ident
  ms_role :: string
  ms_content :: string
  ms_createdAt :: instant

record snapshot =
  ss_id :: ident
  ss_org :: ident
  ss_server :: ident
  ss_status :: string
  ss_payload :: json
  ss_receivedAt :: instant

record audit_event =
  au_id :: ident
  au_org :: "ident option"
  au_actor :: "ident option"
  au_action :: string
  au_targetType :: string
  au_target :: "ident option"
  au_metadata :: json
  au_createdAt :: instant

record license =
  lc_id :: ident
  lc_org :: ident
  lc_plan :: string
  lc_status :: string
  lc_document :: json
  lc_issuedAt :: instant
  lc_expiresAt :: instant
  lc_createdAt :: instant

record release =
  rl_id :: ident
  rl_version :: string
  rl_agentCommit :: string
  rl_status :: string
  rl_notes :: string
  rl_createdAt :: instant

record integration_run =
  ir_id :: ident
  ir_org :: ident
  ir_integration :: string
  ir_capability :: string
  ir_status :: string
  ir_summary :: json
  ir_startedAt :: instant
  ir_completedAt :: instant
  ir_createdAt :: instant

record hotspot =
  hs_id :: ident
  hs_run :: ident
  hs_external :: ident
  hs_source :: ident
  hs_sourceName :: string
  hs_rank :: int
  hs_title :: string
  hs_url :: string
  hs_mobileUrl :: string
  hs_heat :: string
  hs_category :: string
  hs_fetchedAt :: "instant option"

record authorization =
  az_id :: ident
  az_org :: ident
  az_user :: ident
  az_agent :: ident
  az_service :: string
  az_label :: string
  az_authType :: string
  az_endpoint :: "string option"
  az_envelope :: "json option"
  az_hint :: "string option"
  az_metadata :: json
  az_status :: string
  az_errorCode :: "string option"
  az_usedAt :: "instant option"
  az_createdAt :: instant
  az_updatedAt :: instant

record agent_run =
  ar_id :: ident
  ar_org :: ident
  ar_user :: ident
  ar_agent :: ident
  ar_parent :: "ident option"
  ar_input :: string
  ar_model :: "string option"
  ar_status :: string
  ar_error :: "string option"
  ar_createdAt :: instant
  ar_updatedAt :: instant
  ar_completedAt :: "instant option"

record bookmark =
  bm_org :: ident
  bm_user :: ident
  bm_agent :: ident
  bm_item :: ident
  bm_createdAt :: instant

record model_policy =
  mp_org :: ident
  mp_allowed :: "string list"
  mp_default :: "string option"
  mp_customKeys :: bool
  mp_dailyTokens :: "int option"
  mp_monthlyBudget :: "json option"
  mp_updatedBy :: ident
  mp_updatedAt :: instant

record access_grant =
  sg_id :: ident
  sg_org :: ident
  sg_grantee :: ident
  sg_permission :: string
  sg_scope :: string
  sg_target :: "ident option"
  sg_reason :: string
  sg_grantedBy :: ident
  sg_expiresAt :: instant
  sg_revokedAt :: "instant option"
  sg_createdAt :: instant

record access_event =
  sa_id :: ident
  sa_grant :: ident
  sa_org :: ident
  sa_actor :: ident
  sa_targetType :: string
  sa_target :: ident
  sa_reason :: string
  sa_createdAt :: instant

record tenant_state =
  chats :: "(ident \<times> conversation) list"
  messages :: "(ident \<times> message list) list"
  snapshots :: "snapshot list"
  audit :: "audit_event list"
  licenses :: "license list"
  releases :: "release list"
  integration_runs :: "integration_run list"
  hotspots :: "(ident \<times> hotspot list) list"
  authorizations :: "authorization list"
  agent_runs :: "agent_run list"
  bookmarks :: "bookmark list"
  model_policies :: "(ident \<times> model_policy) list"
  access_grants :: "access_grant list"
  access_events :: "access_event list"

definition empty_tenant :: tenant_state where
  "empty_tenant = \<lparr>chats = [], messages = [], snapshots = [], audit = [], licenses = [], releases = [],
     integration_runs = [], hotspots = [], authorizations = [], agent_runs = [], bookmarks = [],
     model_policies = [], access_grants = [], access_events = []\<rparr>"

section \<open>Conversations\<close>

record conversation_request =
  cq_id :: "ident option"
  cq_org :: ident
  cq_user :: ident
  cq_agent :: ident
  cq_title :: "string option"

definition createConversation :: "env \<Rightarrow> conversation_request \<Rightarrow> tenant_state \<Rightarrow> conversation \<times> tenant_state" where
  "createConversation e i s =
     (let c = \<lparr>cv_id = or_else (cq_id i) (uuid e 0), cv_org = cq_org i, cv_user = cq_user i, cv_agent = cq_agent i,
            cv_title = or_else (cq_title i) ''New conversation'', cv_createdAt = clock e, cv_updatedAt = clock e\<rparr>
      in (c, s\<lparr>chats := AList.update (cv_id c) c (chats s), messages := AList.update (cv_id c) [] (messages s)\<rparr>))"

definition listConversations :: "ident \<Rightarrow> ident \<Rightarrow> tenant_state \<Rightarrow> conversation list" where
  "listConversations org user s = filter (\<lambda>c. cv_org c = org \<and> cv_user c = user) (map snd (chats s))"

definition getConversation :: "ident \<Rightarrow> tenant_state \<Rightarrow> conversation option" where
  "getConversation i s = map_of (chats s) i"

record message_input =
  mg_id :: "ident option"
  mg_conversation :: ident
  mg_org :: ident
  mg_user :: ident
  mg_role :: string
  mg_content :: string

definition appendMessage :: "env \<Rightarrow> message_input \<Rightarrow> tenant_state \<Rightarrow> message \<times> tenant_state" where
  "appendMessage e i s =
     (let m = \<lparr>ms_id = or_else (mg_id i) (uuid e 0), ms_conversation = mg_conversation i, ms_org = mg_org i,
            ms_user = mg_user i, ms_role = mg_role i, ms_content = mg_content i, ms_createdAt = clock e\<rparr>;
          old = or_else (map_of (messages s) (mg_conversation i)) []
      in (m, s\<lparr>messages := AList.update (mg_conversation i) (old @ [m]) (messages s)\<rparr>))"

definition listMessages :: "ident \<Rightarrow> tenant_state \<Rightarrow> message list" where
  "listMessages i s = or_else (map_of (messages s) i) []"

section \<open>Snapshots, audit, licenses, releases\<close>

record snapshot_input =
  si_id :: "ident option"
  si_org :: ident
  si_server :: ident
  si_status :: string
  si_payload :: json

definition saveControlPlaneSnapshot :: "env \<Rightarrow> snapshot_input \<Rightarrow> tenant_state \<Rightarrow> snapshot \<times> tenant_state" where
  "saveControlPlaneSnapshot e i s =
     (let x = \<lparr>ss_id = or_else (si_id i) (uuid e 0), ss_org = si_org i, ss_server = si_server i,
            ss_status = si_status i, ss_payload = si_payload i, ss_receivedAt = clock e\<rparr>
      in (x, s\<lparr>snapshots := snapshots s @ [x]\<rparr>))"

definition latestControlPlaneSnapshots :: "ident option \<Rightarrow> tenant_state \<Rightarrow> snapshot list" where
  "latestControlPlaneSnapshots org s = filter (\<lambda>x. in_org org (ss_org x)) (snapshots s)"

record audit_input =
  ui_audit :: "ident option"
  ui_auditOrg :: "ident option"
  ui_actor :: "ident option"
  ui_action :: string
  ui_targetType :: string
  ui_target :: "ident option"
  ui_metadata :: "json option"

definition recordAudit :: "env \<Rightarrow> audit_input \<Rightarrow> tenant_state \<Rightarrow> audit_event \<times> tenant_state" where
  "recordAudit e i s =
     (let v = \<lparr>au_id = or_else (ui_audit i) (uuid e 0), au_org = ui_auditOrg i, au_actor = ui_actor i,
            au_action = ui_action i, au_targetType = ui_targetType i, au_target = ui_target i,
            au_metadata = or_else (ui_metadata i) (JObj []), au_createdAt = clock e\<rparr>
      in (v, s\<lparr>audit := audit s @ [v]\<rparr>))"

definition listAudit :: "ident option \<Rightarrow> tenant_state \<Rightarrow> audit_event list" where
  "listAudit org s =
     rev (filter (\<lambda>v. case org of None \<Rightarrow> True | Some x \<Rightarrow> x = [] \<or> au_org v = Some x) (audit s))"

record license_input =
  lci_id :: ident
  lci_org :: ident
  lci_plan :: string
  lci_status :: "string option"
  lci_document :: json
  lci_issuedAt :: instant
  lci_expiresAt :: instant

definition createLicense :: "env \<Rightarrow> license_input \<Rightarrow> tenant_state \<Rightarrow> license \<times> tenant_state" where
  "createLicense e i s =
     (let l = \<lparr>lc_id = lci_id i, lc_org = lci_org i, lc_plan = lci_plan i,
            lc_status = or_else (lci_status i) ''active'', lc_document = lci_document i,
            lc_issuedAt = lci_issuedAt i, lc_expiresAt = lci_expiresAt i, lc_createdAt = clock e\<rparr>
      in (l, s\<lparr>licenses := licenses s @ [l]\<rparr>))"

definition listLicenses :: "ident option \<Rightarrow> tenant_state \<Rightarrow> license list" where
  "listLicenses org s = filter (\<lambda>l. in_org org (lc_org l)) (licenses s)"

record release_input =
  rli_id :: "ident option"
  rli_version :: string
  rli_agentCommit :: string
  rli_status :: "string option"
  rli_notes :: "string option"

definition createRelease :: "env \<Rightarrow> release_input \<Rightarrow> tenant_state \<Rightarrow> release \<times> tenant_state" where
  "createRelease e i s =
     (let r = \<lparr>rl_id = or_else (rli_id i) (uuid e 0), rl_version = rli_version i, rl_agentCommit = rli_agentCommit i,
            rl_status = or_else (rli_status i) ''draft'', rl_notes = or_else (rli_notes i) [], rl_createdAt = clock e\<rparr>
      in (r, s\<lparr>releases := releases s @ [r]\<rparr>))"

definition listReleases :: "tenant_state \<Rightarrow> release list" where
  "listReleases s = releases s"

section \<open>Model providers\<close>

record provider_input =
  pvi_org :: ident
  pvi_provider :: string
  pvi_baseUrl :: string
  pvi_model :: string
  pvi_envelope :: "json option"
  pvi_hint :: "string option"
  pvi_updatedBy :: ident

definition getProviderConfiguration :: "ident \<Rightarrow> fleet_state \<Rightarrow> provider_configuration option" where
  "getProviderConfiguration org s = map_of (providers s) org"

definition upsertProviderConfiguration ::
  "env \<Rightarrow> provider_input \<Rightarrow> fleet_state \<Rightarrow> provider_configuration \<times> fleet_state" where
  "upsertProviderConfiguration e i s =
     (let previous = map_of (providers s) (pvi_org i);
          c = \<lparr>lp_provider = pvi_provider i, lp_baseUrl = pvi_baseUrl i, lp_model = pvi_model i,
            lp_envelope = or_opt (pvi_envelope i) (Option.bind previous lp_envelope),
            lp_hint = or_opt (pvi_hint i) (Option.bind previous lp_hint), lp_applyStatus = ''pending'',
            lp_updatedBy = pvi_updatedBy i, lp_updatedAt = clock e\<rparr>
      in (c, s\<lparr>providers := AList.update (pvi_org i) c (providers s)\<rparr>))"

record provider_channel_input = provider_input +
  pci_id :: "ident option"
  pci_name :: string
  pci_priority :: "int option"
  pci_weight :: "int option"
  pci_maxConcurrency :: "int option"
  pci_monthlyBudget :: "json option"
  pci_enabled :: "bool option"

definition put_provider_channel :: "env \<Rightarrow> provider_channel_input \<Rightarrow> provider_channel option \<Rightarrow> provider_channel" where
  "put_provider_channel e i previous =
     \<lparr>pc_id = or_else (map_option pc_id previous) (or_else (pci_id i) (uuid e 0)), pc_org = pvi_org i,
      pc_name = pci_name i, pc_provider = pvi_provider i, pc_baseUrl = pvi_baseUrl i, pc_model = pvi_model i,
      pc_envelope = or_opt (pvi_envelope i) (Option.bind previous pc_envelope),
      pc_hint = or_opt (pvi_hint i) (Option.bind previous pc_hint), pc_status = ''pending'',
      pc_priority = or_else (pci_priority i) 100, pc_weight = or_else (pci_weight i) 1,
      pc_maxConcurrency = pci_maxConcurrency i, pc_monthlyBudget = pci_monthlyBudget i,
      pc_enabled = or_else (pci_enabled i) True, pc_errorCode = None, pc_updatedBy = pvi_updatedBy i,
      pc_createdAt = or_else (map_option pc_createdAt previous) (clock e), pc_updatedAt = clock e\<rparr>"

abbreviation provider_channel_key :: "provider_channel \<Rightarrow> ident \<times> string" where
  "provider_channel_key p \<equiv> (pc_org p, pc_name p)"

abbreviation provider_channel_request_key :: "provider_channel_input \<Rightarrow> ident \<times> string" where
  "provider_channel_request_key i \<equiv> (pvi_org i, pci_name i)"

definition upsertProviderChannel ::
  "env \<Rightarrow> provider_channel_input \<Rightarrow> fleet_state \<Rightarrow> provider_channel \<times> fleet_state" where
  "upsertProviderChannel e i s =
     (let (p, ps) = upsert (\<lambda>p. provider_channel_key p = provider_channel_request_key i) (put_provider_channel e i)
            (provider_channels s)
      in (p, s\<lparr>provider_channels := ps\<rparr>))"

definition listProviderChannels :: "ident \<Rightarrow> fleet_state \<Rightarrow> provider_channel list" where
  "listProviderChannels org s = sort_key pc_priority (filter (\<lambda>p. pc_org p = org) (provider_channels s))"

record skill_input =
  ski_org :: ident
  ski_user :: ident
  ski_agent :: ident
  ski_skill :: string
  ski_enabled :: bool
  ski_applyStatus :: "string option"
  ski_errorCode :: "string option"

definition put_skill :: "env \<Rightarrow> skill_input \<Rightarrow> skill_preference option \<Rightarrow> skill_preference" where
  "put_skill e i old =
     \<lparr>sp_org = ski_org i, sp_user = ski_user i, sp_agent = ski_agent i, sp_skill = ski_skill i,
      sp_enabled = ski_enabled i, sp_applyStatus = or_else (ski_applyStatus i) ''pending'',
      sp_errorCode = ski_errorCode i, sp_updatedAt = clock e\<rparr>"

abbreviation skill_key :: "skill_preference \<Rightarrow> ident \<times> string" where
  "skill_key p \<equiv> (sp_agent p, sp_skill p)"

abbreviation skill_request_key :: "skill_input \<Rightarrow> ident \<times> string" where
  "skill_request_key i \<equiv> (ski_agent i, ski_skill i)"

definition upsertAgentSkillPreference :: "env \<Rightarrow> skill_input \<Rightarrow> fleet_state \<Rightarrow> skill_preference \<times> fleet_state" where
  "upsertAgentSkillPreference e i s =
     (let (p, ps) = upsert (\<lambda>p. skill_key p = skill_request_key i) (put_skill e i) (skills s)
      in (p, s\<lparr>skills := ps\<rparr>))"

definition listAgentSkillPreferences :: "ident \<Rightarrow> ident \<Rightarrow> ident \<Rightarrow> fleet_state \<Rightarrow> skill_preference list" where
  "listAgentSkillPreferences org user agent s =
     filter (\<lambda>p. sp_org p = org \<and> sp_user p = user \<and> sp_agent p = agent) (skills s)"

section \<open>Integrations and hotspots\<close>

record hotspot_input =
  hsi_external :: ident
  hsi_source :: ident
  hsi_sourceName :: string
  hsi_rank :: "int option"
  hsi_title :: string
  hsi_url :: "string option"
  hsi_mobileUrl :: "string option"
  hsi_heat :: "string option"
  hsi_category :: "string option"
  hsi_fetchedAt :: "instant option"

record integration_input =
  iri_id :: "ident option"
  iri_org :: ident
  iri_integration :: string
  iri_capability :: string
  iri_status :: string
  iri_summary :: "json option"
  iri_startedAt :: instant
  iri_completedAt :: "instant option"
  iri_items :: "hotspot_input list"

definition new_hotspot :: "env \<Rightarrow> ident \<Rightarrow> nat \<Rightarrow> hotspot_input \<Rightarrow> hotspot" where
  "new_hotspot e run k h =
     \<lparr>hs_id = uuid e (Suc k), hs_run = run, hs_external = hsi_external h, hs_source = hsi_source h,
      hs_sourceName = hsi_sourceName h, hs_rank = or_else (hsi_rank h) 0, hs_title = hsi_title h,
      hs_url = or_else (hsi_url h) [], hs_mobileUrl = or_else (hsi_mobileUrl h) [],
      hs_heat = or_else (hsi_heat h) [], hs_category = or_else (hsi_category h) [],
      hs_fetchedAt = hsi_fetchedAt h\<rparr>"

definition saveIntegrationResult :: "env \<Rightarrow> integration_input \<Rightarrow> tenant_state \<Rightarrow> integration_run \<times> tenant_state" where
  "saveIntegrationResult e i s =
     (let r = \<lparr>ir_id = or_else (iri_id i) (uuid e 0), ir_org = iri_org i, ir_integration = iri_integration i,
            ir_capability = iri_capability i, ir_status = iri_status i,
            ir_summary = or_else (iri_summary i) (JObj []), ir_startedAt = iri_startedAt i,
            ir_completedAt = or_else (iri_completedAt i) (clock e), ir_createdAt = clock e\<rparr>
      in (r, s\<lparr>integration_runs := integration_runs s @ [r],
              hotspots := AList.update (ir_id r) (map (\<lambda>(k, h). new_hotspot e (ir_id r) k h) (enumerate 0 (iri_items i)))
                (hotspots s)\<rparr>))"

definition listIntegrationRuns :: "ident option \<Rightarrow> nat option \<Rightarrow> tenant_state \<Rightarrow> integration_run list" where
  "listIntegrationRuns org limit s =
     take (or_else limit 20) (rev (filter (\<lambda>r. in_org org (ir_org r)) (integration_runs s)))"

definition listLatestHotspots :: "ident \<Rightarrow> tenant_state \<Rightarrow> integration_run option \<times> hotspot list" where
  "listLatestHotspots org s =
     (let run = find_last (\<lambda>r. ir_org r = org \<and> ir_integration r = ''trendradar'') (integration_runs s)
      in (run, case run of None \<Rightarrow> [] | Some r \<Rightarrow> or_else (map_of (hotspots s) (ir_id r)) []))"

record bookmark_input =
  bmi_org :: ident
  bmi_user :: ident
  bmi_agent :: ident
  bmi_item :: ident
  bmi_set :: bool

definition setAgentHotspotBookmark :: "env \<Rightarrow> bookmark_input \<Rightarrow> tenant_state \<Rightarrow> bool \<times> tenant_state" where
  "setAgentHotspotBookmark e i s =
     (let same = (\<lambda>b. bm_agent b = bmi_agent i \<and> bm_item b = bmi_item i);
          known = (\<exists>b\<in>set (bookmarks s). same b)
      in (bmi_set i,
          if bmi_set i \<and> \<not> known
          then s\<lparr>bookmarks := bookmarks s @ [\<lparr>bm_org = bmi_org i, bm_user = bmi_user i, bm_agent = bmi_agent i,
                  bm_item = bmi_item i, bm_createdAt = clock e\<rparr>]\<rparr>
          else if \<not> bmi_set i \<and> known then s\<lparr>bookmarks := remove_first same (bookmarks s)\<rparr>
          else s))"

definition listAgentHotspotBookmarkIds :: "ident \<Rightarrow> ident \<Rightarrow> ident \<Rightarrow> tenant_state \<Rightarrow> ident list" where
  "listAgentHotspotBookmarkIds org user agent s =
     map bm_item (filter (\<lambda>b. bm_org b = org \<and> bm_user b = user \<and> bm_agent b = agent) (bookmarks s))"

section \<open>Authorizations for other services\<close>

record authorization_input =
  azi_id :: "ident option"
  azi_org :: ident
  azi_user :: ident
  azi_agent :: ident
  azi_service :: string
  azi_label :: string
  azi_authType :: string
  azi_endpoint :: "string option"
  azi_envelope :: json
  azi_hint :: string
  azi_metadata :: "json option"

definition put_authorization :: "env \<Rightarrow> authorization_input \<Rightarrow> authorization option \<Rightarrow> authorization" where
  "put_authorization e i old =
     \<lparr>az_id = or_else (map_option az_id old) (or_else (azi_id i) (uuid e 0)), az_org = azi_org i,
      az_user = azi_user i, az_agent = azi_agent i, az_service = azi_service i, az_label = azi_label i,
      az_authType = azi_authType i, az_endpoint = azi_endpoint i, az_envelope = Some (azi_envelope i),
      az_hint = Some (azi_hint i), az_metadata = or_else (azi_metadata i) (JObj []), az_status = ''stored'',
      az_errorCode = None, az_usedAt = Option.bind old az_usedAt,
      az_createdAt = or_else (map_option az_createdAt old) (clock e), az_updatedAt = clock e\<rparr>"

abbreviation authorization_key :: "authorization \<Rightarrow> ident \<times> string \<times> string" where
  "authorization_key a \<equiv> (az_agent a, az_service a, az_label a)"

abbreviation authorization_request_key :: "authorization_input \<Rightarrow> ident \<times> string \<times> string" where
  "authorization_request_key i \<equiv> (azi_agent i, azi_service i, azi_label i)"

definition upsertAgentAuthorization :: "env \<Rightarrow> authorization_input \<Rightarrow> tenant_state \<Rightarrow> authorization \<times> tenant_state" where
  "upsertAgentAuthorization e i s =
     (let (a, as) = upsert (\<lambda>a. authorization_key a = authorization_request_key i) (put_authorization e i) (authorizations s)
      in (a, s\<lparr>authorizations := as\<rparr>))"

definition authorization_of :: "ident \<Rightarrow> ident \<Rightarrow> ident \<Rightarrow> ident \<Rightarrow> authorization \<Rightarrow> bool" where
  "authorization_of org user agent i a \<longleftrightarrow>
     az_id a = i \<and> az_org a = org \<and> az_user a = user \<and> az_agent a = agent"

definition getAgentAuthorization ::
  "ident \<Rightarrow> ident \<Rightarrow> ident \<Rightarrow> ident \<Rightarrow> tenant_state \<Rightarrow> authorization option" where
  "getAgentAuthorization org user agent i s = List.find (authorization_of org user agent i) (authorizations s)"

definition listAgentAuthorizations ::
  "ident option \<Rightarrow> ident option \<Rightarrow> ident option \<Rightarrow> tenant_state \<Rightarrow> authorization list" where
  "listAgentAuthorizations org user agent s =
     sort_key (\<lambda>a. - az_updatedAt a)
       (filter (\<lambda>a. in_org org (az_org a) \<and> in_org user (az_user a) \<and> in_org agent (az_agent a)) (authorizations s))"

definition revokeAgentAuthorization ::
  "env \<Rightarrow> ident \<Rightarrow> ident \<Rightarrow> ident \<Rightarrow> ident \<Rightarrow> tenant_state \<Rightarrow> authorization option \<times> tenant_state" where
  "revokeAgentAuthorization e org user agent i s =
     (let f = (\<lambda>a. a\<lparr>az_envelope := None, az_hint := None, az_status := ''revoked'', az_updatedAt := clock e\<rparr>)
      in case getAgentAuthorization org user agent i s of
           None \<Rightarrow> (None, s)
         | Some a \<Rightarrow> (Some (f a), s\<lparr>authorizations := upd_first (authorization_of org user agent i) f (authorizations s)\<rparr>))"

definition markAgentAuthorizationUsed :: "env \<Rightarrow> ident \<Rightarrow> tenant_state \<Rightarrow> authorization option \<times> tenant_state" where
  "markAgentAuthorizationUsed e i s =
     (let this = (\<lambda>a. az_id a = i); f = (\<lambda>a. a\<lparr>az_usedAt := Some (clock e)\<rparr>)
      in case List.find this (authorizations s) of
           None \<Rightarrow> (None, s)
         | Some a \<Rightarrow> (Some (f a), s\<lparr>authorizations := upd_first this f (authorizations s)\<rparr>))"

section \<open>Agent runs\<close>

record run_input =
  rni_id :: ident
  rni_org :: ident
  rni_user :: ident
  rni_agent :: ident
  rni_parent :: "ident option"
  rni_input :: string
  rni_model :: "string option"
  rni_status :: "string option"
  rni_error :: "string option"
  rni_completedAt :: "instant option"

definition createAgentRun :: "env \<Rightarrow> run_input \<Rightarrow> tenant_state \<Rightarrow> (failure + agent_run) \<times> tenant_state" where
  "createAgentRun e i s =
     (if \<exists>r\<in>set (agent_runs s). ar_id r = rni_id i then (Inl (PlainError ''Agent run already exists''), s)
      else
        (let r = \<lparr>ar_id = rni_id i, ar_org = rni_org i, ar_user = rni_user i, ar_agent = rni_agent i,
               ar_parent = rni_parent i, ar_input = rni_input i, ar_model = rni_model i,
               ar_status = or_else (rni_status i) ''started'', ar_error = rni_error i,
               ar_createdAt = clock e, ar_updatedAt = clock e, ar_completedAt = rni_completedAt i\<rparr>
         in (Inr r, s\<lparr>agent_runs := agent_runs s @ [r]\<rparr>)))"

definition stored_run :: "ident \<Rightarrow> ident \<Rightarrow> ident \<Rightarrow> ident \<Rightarrow> agent_run \<Rightarrow> bool" where
  "stored_run org user agent i r \<longleftrightarrow> ar_id r = i \<and> ar_org r = org \<and> ar_user r = user \<and> ar_agent r = agent"

definition getAgentRun :: "ident \<Rightarrow> ident \<Rightarrow> ident \<Rightarrow> ident \<Rightarrow> tenant_state \<Rightarrow> agent_run option" where
  "getAgentRun org user agent i s = List.find (stored_run org user agent i) (agent_runs s)"

definition listAgentRuns :: "ident \<Rightarrow> ident \<Rightarrow> ident \<Rightarrow> int option \<Rightarrow> tenant_state \<Rightarrow> agent_run list" where
  "listAgentRuns org user agent limit s =
     take (nat (clamp_num 1 200 50 limit))
       (sort_key (\<lambda>r. - ar_createdAt r) (filter (\<lambda>r. ar_org r = org \<and> ar_user r = user \<and> ar_agent r = agent) (agent_runs s)))"

text \<open>\<open>undefined\<close> keeps the field (\<open>None\<close>), \<open>null\<close> clears it (\<open>Some None\<close>).\<close>

record run_patch =
  rup_org :: ident
  rup_user :: ident
  rup_agent :: ident
  rup_id :: ident
  rup_status :: "string option"
  rup_error :: "string option option"
  rup_completedAt :: "instant option option"

definition updateAgentRun :: "env \<Rightarrow> run_patch \<Rightarrow> tenant_state \<Rightarrow> agent_run option \<times> tenant_state" where
  "updateAgentRun e i s =
     (let this = stored_run (rup_org i) (rup_user i) (rup_agent i) (rup_id i);
          f = (\<lambda>r. r\<lparr>ar_status := or_else (rup_status i) (ar_status r), ar_error := or_else (rup_error i) (ar_error r),
                 ar_completedAt := or_else (rup_completedAt i) (ar_completedAt r), ar_updatedAt := clock e\<rparr>)
      in case List.find this (agent_runs s) of
           None \<Rightarrow> (None, s)
         | Some r \<Rightarrow> (Some (f r), s\<lparr>agent_runs := upd_first this f (agent_runs s)\<rparr>))"

section \<open>Policies\<close>

definition getModelPolicy :: "ident \<Rightarrow> tenant_state \<Rightarrow> model_policy option" where
  "getModelPolicy org s = map_of (model_policies s) org"

record policy_input =
  mpi_org :: ident
  mpi_allowed :: "string list option"
  mpi_default :: "string option"
  mpi_customKeys :: bool
  mpi_dailyTokens :: "int option"
  mpi_monthlyBudget :: "json option"
  mpi_updatedBy :: ident

definition upsertModelPolicy :: "env \<Rightarrow> policy_input \<Rightarrow> tenant_state \<Rightarrow> model_policy \<times> tenant_state" where
  "upsertModelPolicy e i s =
     (let p = \<lparr>mp_org = mpi_org i, mp_allowed = or_else (mpi_allowed i) [], mp_default = mpi_default i,
            mp_customKeys = mpi_customKeys i, mp_dailyTokens = mpi_dailyTokens i,
            mp_monthlyBudget = mpi_monthlyBudget i, mp_updatedBy = mpi_updatedBy i, mp_updatedAt = clock e\<rparr>
      in (p, s\<lparr>model_policies := AList.update (mpi_org i) p (model_policies s)\<rparr>))"

definition getRetentionPolicy :: "ident \<Rightarrow> fleet_state \<Rightarrow> retention_policy option" where
  "getRetentionPolicy org s = map_of (retention s) org"

text \<open>The policy is given with its author; the time of the change is set here.\<close>

definition upsertRetentionPolicy ::
  "env \<Rightarrow> ident \<Rightarrow> retention_policy \<Rightarrow> fleet_state \<Rightarrow> retention_policy \<times> fleet_state" where
  "upsertRetentionPolicy e org p s =
     (let p' = p\<lparr>rp_updatedAt := clock e\<rparr> in (p', s\<lparr>retention := AList.update org p' (retention s)\<rparr>))"

section \<open>Access to conversation content\<close>

record grant_input =
  sgi_id :: "ident option"
  sgi_org :: ident
  sgi_grantee :: ident
  sgi_scope :: string
  sgi_target :: "ident option"
  sgi_reason :: string
  sgi_grantedBy :: ident
  sgi_expiresAt :: instant

definition listSensitiveAccessGrants :: "ident \<Rightarrow> tenant_state \<Rightarrow> access_grant list" where
  "listSensitiveAccessGrants org s = rev (filter (\<lambda>g. sg_org g = org) (access_grants s))"

definition createSensitiveAccessGrant :: "env \<Rightarrow> grant_input \<Rightarrow> tenant_state \<Rightarrow> access_grant \<times> tenant_state" where
  "createSensitiveAccessGrant e i s =
     (let g = \<lparr>sg_id = or_else (sgi_id i) (uuid e 0), sg_org = sgi_org i, sg_grantee = sgi_grantee i,
            sg_permission = ''conversation_content_read'', sg_scope = sgi_scope i, sg_target = sgi_target i,
            sg_reason = sgi_reason i, sg_grantedBy = sgi_grantedBy i, sg_expiresAt = sgi_expiresAt i,
            sg_revokedAt = None, sg_createdAt = clock e\<rparr>
      in (g, s\<lparr>access_grants := access_grants s @ [g]\<rparr>))"

definition revokeSensitiveAccessGrant ::
  "env \<Rightarrow> ident \<Rightarrow> ident \<Rightarrow> tenant_state \<Rightarrow> access_grant option \<times> tenant_state" where
  "revokeSensitiveAccessGrant e org i s =
     (let this = (\<lambda>g. sg_id g = i \<and> sg_org g = org \<and> sg_revokedAt g = None);
          f = (\<lambda>g. g\<lparr>sg_revokedAt := Some (clock e)\<rparr>)
      in case List.find this (access_grants s) of
           None \<Rightarrow> (None, s)
         | Some g \<Rightarrow> (Some (f g), s\<lparr>access_grants := upd_first this f (access_grants s)\<rparr>))"

record access_input =
  sai_id :: "ident option"
  sai_grant :: ident
  sai_org :: ident
  sai_actor :: ident
  sai_targetType :: string
  sai_target :: ident
  sai_reason :: string

definition recordSensitiveAccessEvent :: "env \<Rightarrow> access_input \<Rightarrow> tenant_state \<Rightarrow> access_event \<times> tenant_state" where
  "recordSensitiveAccessEvent e i s =
     (let v = \<lparr>sa_id = or_else (sai_id i) (uuid e 0), sa_grant = sai_grant i, sa_org = sai_org i,
            sa_actor = sai_actor i, sa_targetType = sai_targetType i, sa_target = sai_target i,
            sa_reason = sai_reason i, sa_createdAt = clock e\<rparr>
      in (v, s\<lparr>access_events := access_events s @ [v]\<rparr>))"

definition listSensitiveAccessEvents :: "ident \<Rightarrow> int option \<Rightarrow> tenant_state \<Rightarrow> access_event list" where
  "listSensitiveAccessEvents org limit s =
     take (nat (clamp_num 1 2000 500 limit)) (rev (filter (\<lambda>v. sa_org v = org) (access_events s)))"

section \<open>Keyed stores\<close>

interpretation provider_channel_store:
  keyed_store provider_channel_key provider_channel_request_key put_provider_channel
  by unfold_locales (simp add: put_provider_channel_def)

interpretation skill_store: keyed_store skill_key skill_request_key put_skill
  by unfold_locales (simp add: put_skill_def)

interpretation authorization_store: keyed_store authorization_key authorization_request_key put_authorization
  by unfold_locales (simp add: put_authorization_def)

end
