(* ===== verification/Internal_Channels.thy ===== *)
theory Internal_Channels
  imports Machine_Requests Channel_Bridge Fleet_Tenancy Tenant_Records
begin

text \<open>
  The endpoints the channel workers call: \<open>apps/web/routes/internal-channels.mjs\<close>, behind
  \<open>authenticateMachine\<close>. A request body is what the contract's validator accepted; the vault that opens
  stored credentials and the hash that names a workspace are parameters.
\<close>

section \<open>Replies and scopes\<close>

datatype 'a reply = Refused int string | Thrown failure | Sent 'a

record channel_world =
  cw_fleet :: fleet_state
  cw_tenant :: tenant_state
  cw_channels :: channel_state

record route_scope =
  rs_org :: ident
  rs_user :: ident
  rs_agent :: ident
  rs_workspace :: ident
  rs_conversation :: "ident option"

definition workspaceIdFromRef :: "(string \<Rightarrow> string) \<Rightarrow> string \<Rightarrow> failure + ident" where
  "workspaceIdFromRef hash ref =
     (let value = trim ref
      in if value = [] then Inl (CodedError ''runtime_scope_unavailable'' (Some 503))
         else Inr (''ws_'' @ take 48 (hash value)))"

definition ownerScope ::
  "(string \<Rightarrow> string) \<Rightarrow> ident \<Rightarrow> ident \<Rightarrow> ident \<Rightarrow> ident option \<Rightarrow> fleet_state \<Rightarrow> failure + route_scope option" where
  "ownerScope hash org user agent conversation fleet =
     (case getAgentRuntimeByAgent agent fleet of
        None \<Rightarrow> Inr None
      | Some r \<Rightarrow>
          if rt_org r \<noteq> org \<or> rt_owner r \<noteq> user then Inr None
          else (case workspaceIdFromRef hash (rt_workspace r) of
                  Inl err \<Rightarrow> Inl err
                | Inr ws \<Rightarrow> Inr (Some \<lparr>rs_org = org, rs_user = user, rs_agent = agent, rs_workspace = ws,
                    rs_conversation = (case conversation of Some c \<Rightarrow> if c = [] then None else Some c | None \<Rightarrow> None)\<rparr>)))"

definition binding_scope :: "(string \<Rightarrow> string) \<Rightarrow> channel_binding \<Rightarrow> fleet_state \<Rightarrow> failure + route_scope option" where
  "binding_scope hash b = ownerScope hash (cb_org b) (cb_user b) (cb_agent b) None"

text \<open>Both scopes are there and agree in every field, the conversation included if either names one.\<close>

definition same_scope :: "route_scope option \<Rightarrow> route_scope option \<Rightarrow> bool" where
  "same_scope l r \<longleftrightarrow> (case (l, r) of (Some x, Some y) \<Rightarrow> x = y | _ \<Rightarrow> False)"

definition authorized :: "machine \<Rightarrow> channel_binding option \<Rightarrow> bool" where
  "authorized m b \<longleftrightarrow>
     (case b of
        None \<Rightarrow> False
      | Some b \<Rightarrow> (case mh_org m of None \<Rightarrow> True | Some v \<Rightarrow> v = [] \<or> cb_org b = v) \<and> cb_channel b \<in> set (mh_channels m))"

definition channelAccountId :: "channel_binding \<Rightarrow> ident" where
  "channelAccountId b =
     (case at (cb_metadata b) ''accountId'' of JStr s \<Rightarrow> if matches IDENTIFIER s then s else cb_id b | _ \<Rightarrow> cb_id b)"

section \<open>Inventory\<close>

record public_binding =
  ub_id :: ident
  ub_scope :: route_scope
  ub_channel :: string
  ub_account :: ident
  ub_status :: string
  ub_generation :: int
  ub_callback :: "string option"
  ub_updatedAt :: instant

definition public_binding_of :: "(string \<Rightarrow> string) \<Rightarrow> channel_binding \<Rightarrow> route_scope \<Rightarrow> public_binding" where
  "public_binding_of encode b owner =
     \<lparr>ub_id = cb_id b, ub_scope = owner, ub_channel = cb_channel b, ub_account = channelAccountId b, ub_status = cb_status b,
      ub_generation = cb_generation b,
      ub_callback = (if cb_channel b = ''wechat'' then Some (''/callbacks/wechat/'' @ encode (cb_id b)) else None),
      ub_updatedAt = cb_updatedAt b\<rparr>"

text \<open>The first scope that throws fails the request; otherwise one that is missing refuses it.\<close>

fun scopes_of :: "(channel_binding \<Rightarrow> failure + route_scope option) \<Rightarrow> channel_binding list \<Rightarrow> failure + (channel_binding \<times> route_scope option) list" where
  "scopes_of scope_of [] = Inr []"
| "scopes_of scope_of (b # bs) =
     (case scope_of b of
        Inl err \<Rightarrow> Inl err
      | Inr s \<Rightarrow> (case scopes_of scope_of bs of Inl err \<Rightarrow> Inl err | Inr rest \<Rightarrow> Inr ((b, s) # rest)))"

record inventory_request =
  qi_worker :: ident
  qi_channels :: "string list"

definition route_inventory ::
  "(string \<Rightarrow> string) \<Rightarrow> (string \<Rightarrow> string) \<Rightarrow> machine \<Rightarrow> inventory_request option \<Rightarrow> channel_world \<Rightarrow> public_binding list reply" where
  "route_inventory hash encode m body w =
     (case body of
        None \<Rightarrow> Refused 400 ''invalid_channel_binding_inventory_request''
      | Some q \<Rightarrow>
          if qi_worker q \<noteq> mh_machine m then Refused 400 ''invalid_channel_binding_inventory_request''
          else
            (case scopes_of (\<lambda>b. binding_scope hash b (cw_fleet w))
                    (listChannelBindingsForWorker (qi_channels q) (mh_channels m) (mh_org m) (cw_channels w)) of
               Inl err \<Rightarrow> Thrown err
             | Inr bs \<Rightarrow>
                 if \<exists>p\<in>set bs. snd p = None then Refused 409 ''channel_binding_scope_unavailable''
                 else Sent (map (\<lambda>(b, s). public_binding_of encode b (the s)) bs)))"

section \<open>Credentials\<close>

record resolution_request =
  qr_worker :: ident
  qr_binding :: ident
  qr_scope :: "route_scope option"

record resolved_binding =
  rb_binding :: public_binding
  rb_values :: "(string \<times> string) list"

definition string_values :: "json \<Rightarrow> (string \<times> string) list" where
  "string_values v =
     (case v of
        JObj kvs \<Rightarrow> List.map_filter (\<lambda>(k, x). case x of JStr s \<Rightarrow> if s = [] then None else Some (k, s) | _ \<Rightarrow> None) kvs
      | _ \<Rightarrow> [])"

definition resolve_audit :: "machine \<Rightarrow> channel_binding \<Rightarrow> audit_input" where
  "resolve_audit m b =
     \<lparr>ui_audit = None, ui_auditOrg = Some (cb_org b), ui_actor = None, ui_action = ''agent.channel.credential.resolve'',
      ui_targetType = ''agent_channel_binding'', ui_target = Some (cb_id b),
      ui_metadata = Some (JObj [(''agentId'', JStr (cb_agent b)), (''channel'', JStr (cb_channel b)),
        (''machineCredentialId'', JStr (mh_credential m))])\<rparr>"

text \<open>
  The vault, if there is one, opens an envelope to a document, or fails; \<open>valid\<close> is the contract's check of
  the resolved credential.
\<close>

definition resolvable ::
  "machine \<Rightarrow> ident \<Rightarrow> resolution_request option \<Rightarrow> channel_binding option \<Rightarrow> route_scope option \<Rightarrow> bool" where
  "resolvable m bindingId body binding owner \<longleftrightarrow>
     (case (body, binding) of
        (Some q, Some b) \<Rightarrow>
          qr_worker q = mh_machine m \<and> qr_binding q = bindingId \<and> authorized m binding \<and> same_scope (qr_scope q) owner \<and>
          cb_envelope b \<noteq> None \<and> cb_status b \<notin> {''disabled'', ''unconfigured''}
      | _ \<Rightarrow> False)"

definition scope_if_bound ::
  "(string \<Rightarrow> string) \<Rightarrow> channel_binding option \<Rightarrow> fleet_state \<Rightarrow> failure + route_scope option" where
  "scope_if_bound hash b fleet = (case b of None \<Rightarrow> Inr None | Some b \<Rightarrow> binding_scope hash b fleet)"

definition route_resolve ::
  "env \<Rightarrow> (string \<Rightarrow> string) \<Rightarrow> (string \<Rightarrow> string) \<Rightarrow> (json \<Rightarrow> json option) option \<Rightarrow> (resolved_binding \<Rightarrow> bool) \<Rightarrow> machine \<Rightarrow>
     ident \<Rightarrow> resolution_request option \<Rightarrow> channel_world \<Rightarrow> resolved_binding reply \<times> channel_world" where
  "route_resolve e hash encode vault valid m bindingId body w =
     (case vault of
        None \<Rightarrow> (Refused 503 ''channel_secret_storage_unavailable'', w)
      | Some open_vault \<Rightarrow>
          (let binding = getChannelBindingById bindingId (cw_channels w)
           in case scope_if_bound hash binding (cw_fleet w) of
                Inl err \<Rightarrow> (Thrown err, w)
              | Inr owner \<Rightarrow>
                  (case binding of
                     None \<Rightarrow> (Refused 404 ''channel_binding_not_available'', w)
                   | Some b \<Rightarrow>
                       if \<not> resolvable m bindingId body binding owner then (Refused 404 ''channel_binding_not_available'', w)
                       else
                         (case open_vault (the (cb_envelope b)) of
                            None \<Rightarrow> (Refused 500 ''channel_credential_unavailable'', w)
                          | Some opened \<Rightarrow>
                              (let r = \<lparr>rb_binding = public_binding_of encode b (the owner), rb_values = string_values opened\<rparr>
                               in if \<not> valid r then (Refused 500 ''invalid_stored_channel_credential'', w)
                                  else (Sent r, w\<lparr>cw_tenant := snd (recordAudit e (resolve_audit m b) (cw_tenant w))\<rparr>))))))"

section \<open>Ingress\<close>

text \<open>The body, and the scope it claims.\<close>

record ingress_body =
  qg_scope :: "route_scope option"
  qg_message :: ingress_input

definition ingress_audit :: "channel_binding \<Rightarrow> ident \<Rightarrow> audit_input" where
  "ingress_audit b ingressId =
     \<lparr>ui_audit = None, ui_auditOrg = Some (cb_org b), ui_actor = None, ui_action = ''agent.channel.ingress.accept'',
      ui_targetType = ''agent_channel_binding'', ui_target = Some (cb_id b),
      ui_metadata = Some (JObj [(''agentId'', JStr (cb_agent b)), (''channel'', JStr (cb_channel b)), (''ingressId'', JStr ingressId)])\<rparr>"

definition route_ingress ::
  "env \<Rightarrow> (string \<Rightarrow> string) \<Rightarrow> machine \<Rightarrow> ingress_body option \<Rightarrow> channel_world \<Rightarrow> ingress_status reply \<times> channel_world" where
  "route_ingress e hash m body w =
     (case body of
        None \<Rightarrow> (Refused 400 ''invalid_channel_ingress'', w)
      | Some q \<Rightarrow>
          (let binding = getChannelBindingById (ii_binding (qg_message q)) (cw_channels w)
           in case scope_if_bound hash binding (cw_fleet w) of
                Inl err \<Rightarrow> (Thrown err, w)
              | Inr owner \<Rightarrow>
                  (case binding of
                     None \<Rightarrow> (Refused 404 ''channel_binding_not_available'', w)
                   | Some b \<Rightarrow>
                       if \<not> authorized m binding \<or> cb_channel b \<noteq> ii_channel (qg_message q) \<or> \<not> same_scope (qg_scope q) owner
                       then (Refused 404 ''channel_binding_not_available'', w)
                       else
                         (case acceptChannelIngress e ((qg_message q)\<lparr>ii_agent := cb_agent b\<rparr>) (cw_channels w) of
                            (None, s) \<Rightarrow> (Refused 404 ''channel_binding_not_available'', w\<lparr>cw_channels := s\<rparr>)
                          | (Some (status, b', item), s) \<Rightarrow>
                              (Sent status,
                               w\<lparr>cw_channels := s,
                                 cw_tenant := if status = Accepted
                                   then snd (recordAudit (env_from 1 e) (ingress_audit b' (j_id item)) (cw_tenant w))
                                   else cw_tenant w\<rparr>)))))"

section \<open>Delivery\<close>

record delivery_request =
  ql_worker :: ident
  ql_channels :: "string list"
  ql_bindings :: "ident list option"
  ql_limit :: int
  ql_seconds :: int

record public_delivery =
  ud_scope :: route_scope
  ud_outbound :: ident
  ud_binding :: ident
  ud_channel :: string
  ud_account :: ident
  ud_conversation :: "ident \<times> string"
  ud_content :: json
  ud_attachments :: "json list"
  ud_replyTo :: "ident option"
  ud_attempt :: int
  ud_token :: "ident option"
  ud_availableAt :: instant
  ud_trace :: json

definition outbox_scope :: "(string \<Rightarrow> string) \<Rightarrow> outbox_item \<Rightarrow> fleet_state \<Rightarrow> failure + route_scope option" where
  "outbox_scope hash y fleet =
     (case cr_runtime (ob_conversation y) of
        None \<Rightarrow> Inr None
      | Some c \<Rightarrow> if c = [] then Inr None else ownerScope hash (j_org y) (j_user y) (j_agent y) (Some c) fleet)"

definition publicDelivery :: "(string \<Rightarrow> string) \<Rightarrow> outbox_item \<Rightarrow> fleet_state \<Rightarrow> failure + public_delivery" where
  "publicDelivery hash y fleet =
     (case outbox_scope hash y fleet of
        Inl err \<Rightarrow> Inl err
      | Inr None \<Rightarrow> Inl (CodedError ''channel_delivery_scope_unavailable'' None)
      | Inr (Some owner) \<Rightarrow>
          Inr \<lparr>ud_scope = owner, ud_outbound = j_id y, ud_binding = ob_binding y, ud_channel = ob_channel y,
            ud_account = ob_account y, ud_conversation = (cr_conversation (ob_conversation y), cr_kind (ob_conversation y)),
            ud_content = ob_content y, ud_attachments = ob_attachments y,
            ud_replyTo = (if ob_replyTo y = [] then None else Some (ob_replyTo y)), ud_attempt = j_attempts y,
            ud_token = j_leaseToken y, ud_availableAt = j_availableAt y, ud_trace = ob_trace y\<rparr>)"

fun public_deliveries :: "(string \<Rightarrow> string) \<Rightarrow> outbox_item list \<Rightarrow> fleet_state \<Rightarrow> failure + public_delivery list" where
  "public_deliveries hash [] fleet = Inr []"
| "public_deliveries hash (y # ys) fleet =
     (case publicDelivery hash y fleet of
        Inl err \<Rightarrow> Inl err
      | Inr d \<Rightarrow> (case public_deliveries hash ys fleet of Inl err \<Rightarrow> Inl err | Inr ds \<Rightarrow> Inr (d # ds)))"

definition leased_until :: "instant \<Rightarrow> int \<Rightarrow> outbox_item list \<Rightarrow> instant" where
  "leased_until now seconds ys =
     (case List.map_filter j_leaseExpiresAt ys of [] \<Rightarrow> now + seconds * 1000 | t # ts \<Rightarrow> fold min ts t)"

definition delivery_lease_of :: "machine \<Rightarrow> delivery_request \<Rightarrow> string list \<Rightarrow> delivery_lease_input" where
  "delivery_lease_of m q channels =
     \<lparr>li_limit = Some (ql_limit q), li_seconds = Some (ql_seconds q), li_leaseId = None, dli_agent = None, dli_org = mh_org m,
      dli_channels = channels, dli_bindings = or_else (ql_bindings q) [], dli_worker = ql_worker q\<rparr>"

text \<open>\<open>valid\<close> is the contract's check of the batch, which throws.\<close>

definition route_lease ::
  "env \<Rightarrow> (string \<Rightarrow> string) \<Rightarrow> (public_delivery list \<Rightarrow> bool) \<Rightarrow> machine \<Rightarrow> delivery_request option \<Rightarrow> channel_world \<Rightarrow>
     (ident \<times> instant \<times> public_delivery list) reply \<times> channel_world" where
  "route_lease e hash valid m body w =
     (case body of
        None \<Rightarrow> (Refused 400 ''invalid_channel_delivery_lease'', w)
      | Some q \<Rightarrow>
          if ql_worker q \<noteq> mh_machine m then (Refused 400 ''invalid_channel_delivery_lease'', w)
          else
            (let channels = filter (\<lambda>c. c \<in> set (mh_channels m)) (ql_channels q)
             in if channels = [] then (Refused 403 ''channel_not_allowed'', w)
                else
                  (case leaseChannelDeliveries e (delivery_lease_of m q channels) (cw_channels w) of
                     ((leaseId, leased), s) \<Rightarrow>
                       (let w' = w\<lparr>cw_channels := s\<rparr>
                        in case public_deliveries hash leased (cw_fleet w) of
                             Inl err \<Rightarrow> (Thrown err, w')
                           | Inr ds \<Rightarrow>
                               if valid ds then (Sent (leaseId, leased_until (clock e) (ql_seconds q) leased, ds), w')
                               else (Thrown (CodedError ''invalid_channel_delivery_batch'' None), w')))))"

section \<open>Receipts and health\<close>

record receipt_body =
  qe_scope :: "route_scope option"
  qe_receipt :: receipt_input

definition receipt_scope ::
  "(string \<Rightarrow> string) \<Rightarrow> receipt_input \<Rightarrow> channel_world \<Rightarrow> failure + route_scope option" where
  "receipt_scope hash r w =
     (case getChannelOutboundById (ri_outbound r) (cw_channels w) of
        None \<Rightarrow> Inr None
      | Some y \<Rightarrow> if ob_binding y \<noteq> ri_binding r then Inr None else outbox_scope hash y (cw_fleet w))"

definition route_receipt ::
  "env \<Rightarrow> (string \<Rightarrow> string) \<Rightarrow> machine \<Rightarrow> receipt_body option \<Rightarrow> channel_world \<Rightarrow> delivery_receipt reply \<times> channel_world" where
  "route_receipt e hash m body w =
     (case body of
        None \<Rightarrow> (Refused 400 ''invalid_channel_delivery_receipt'', w)
      | Some q \<Rightarrow>
          (let r = qe_receipt q; binding = getChannelBindingById (ri_binding r) (cw_channels w)
           in case receipt_scope hash r w of
                Inl err \<Rightarrow> (Thrown err, w)
              | Inr owner \<Rightarrow>
                  (case binding of
                     None \<Rightarrow> (Refused 404 ''channel_binding_not_available'', w)
                   | Some b \<Rightarrow>
                       if \<not> authorized m binding \<or> \<not> same_scope (qe_scope q) owner
                       then (Refused 404 ''channel_binding_not_available'', w)
                       else
                         (case recordChannelDeliveryReceipt e (r\<lparr>ri_id := None, ri_agent := cb_agent b, ri_worker := Some (mh_machine m)\<rparr>)
                                 (cw_channels w) of
                            (Inl err, s) \<Rightarrow> (Thrown err, w\<lparr>cw_channels := s\<rparr>)
                          | (Inr None, s) \<Rightarrow> (Refused 409 ''channel_delivery_lease_not_found'', w\<lparr>cw_channels := s\<rparr>)
                          | (Inr (Some (d, y)), s) \<Rightarrow> (Sent d, w\<lparr>cw_channels := s\<rparr>)))))"

record health_body =
  qh_scope :: "route_scope option"
  qh_health :: health_input

definition route_health ::
  "env \<Rightarrow> (string \<Rightarrow> string) \<Rightarrow> machine \<Rightarrow> health_body option \<Rightarrow> channel_world \<Rightarrow>
     (health_observation \<times> channel_binding) reply \<times> channel_world" where
  "route_health e hash m body w =
     (case body of
        None \<Rightarrow> (Refused 400 ''invalid_channel_health'', w)
      | Some q \<Rightarrow>
          if hi_worker (qh_health q) \<noteq> mh_machine m then (Refused 400 ''invalid_channel_health'', w)
          else
            (let h = qh_health q; binding = getChannelBindingById (hi_binding h) (cw_channels w)
             in case scope_if_bound hash binding (cw_fleet w) of
                  Inl err \<Rightarrow> (Thrown err, w)
                | Inr owner \<Rightarrow>
                    (case binding of
                       None \<Rightarrow> (Refused 404 ''channel_binding_not_available'', w)
                     | Some b \<Rightarrow>
                         if \<not> authorized m binding \<or> cb_channel b \<noteq> hi_channel h \<or> \<not> same_scope (qh_scope q) owner
                         then (Refused 404 ''channel_binding_not_available'', w)
                         else
                           (case saveChannelHealthReport e (h\<lparr>hi_id := None, hi_agent := cb_agent b\<rparr>) (cw_channels w) of
                              (None, s) \<Rightarrow> (Refused 404 ''channel_binding_not_available'', w\<lparr>cw_channels := s\<rparr>)
                            | (Some r, s) \<Rightarrow> (Sent r, w\<lparr>cw_channels := s\<rparr>)))))"

section \<open>What a worker can reach\<close>

datatype worker_call =
    Resolve "(json \<Rightarrow> json option) option" "resolved_binding \<Rightarrow> bool" ident "resolution_request option"
  | Deliver_In "ingress_body option"
  | Lease "public_delivery list \<Rightarrow> bool" "delivery_request option"
  | Receipt "receipt_body option"
  | Health "health_body option"

text \<open>\<open>rc_hash\<close> names workspaces and \<open>rc_encode\<close> is \<open>encodeURIComponent\<close>.\<close>

record route_codec =
  rc_hash :: "string \<Rightarrow> string"
  rc_encode :: "string \<Rightarrow> string"

fun after_call :: "env \<Rightarrow> route_codec \<Rightarrow> machine \<Rightarrow> worker_call \<Rightarrow> channel_world \<Rightarrow> channel_world" where
  "after_call e c m (Resolve vault valid i body) w = snd (route_resolve e (rc_hash c) (rc_encode c) vault valid m i body w)"
| "after_call e c m (Deliver_In body) w = snd (route_ingress e (rc_hash c) m body w)"
| "after_call e c m (Lease valid body) w = snd (route_lease e (rc_hash c) valid m body w)"
| "after_call e c m (Receipt body) w = snd (route_receipt e (rc_hash c) m body w)"
| "after_call e c m (Health body) w = snd (route_health e (rc_hash c) m body w)"

lemmas route_defs = route_resolve_def route_ingress_def route_lease_def route_receipt_def route_health_def

definition foreign :: "machine \<Rightarrow> channel_binding \<Rightarrow> channel_state \<Rightarrow> bool" where
  "foreign m b s \<longleftrightarrow> getChannelBindingById (cb_id b) s = Some b \<and> \<not> authorized m (Some b)"

lemma fleet_kept [simp]: "cw_fleet (after_call e c m r w) = cw_fleet w"
  by (cases r) (auto simp: route_defs Let_def split: option.splits sum.splits prod.splits)

lemma resolve_keeps_channels [simp]: "cw_channels (snd (route_resolve e hash encode vault valid m i body w)) = cw_channels w"
  by (auto simp: route_resolve_def Let_def split: option.splits sum.splits)

lemma accept_other_binding:
  "ii_binding i \<noteq> k \<Longrightarrow> getChannelBindingById k (snd (acceptChannelIngress e i s)) = getChannelBindingById k s"
  by (auto simp: acceptChannelIngress_def getChannelBindingById_def Let_def intro!: find_upd_first_other split: option.splits)

lemma accept_outbox [simp]: "outbox (snd (acceptChannelIngress e i s)) = outbox s"
  by (auto simp: acceptChannelIngress_def Let_def split: option.splits)

lemma health_other_binding:
  "hi_binding i \<noteq> k \<Longrightarrow> getChannelBindingById k (snd (saveChannelHealthReport e i s)) = getChannelBindingById k s"
  by (auto simp: saveChannelHealthReport_def getChannelBindingById_def Let_def intro!: find_upd_first_other split: option.splits)

lemma health_outbox [simp]: "outbox (snd (saveChannelHealthReport e i s)) = outbox s"
  by (auto simp: saveChannelHealthReport_def Let_def split: option.splits)

lemma receipt_other_binding:
  assumes "ri_binding i \<noteq> k"
  shows "getChannelBindingById k (snd (recordChannelDeliveryReceipt e i s)) = getChannelBindingById k s"
proof -
  have "ob_binding y \<noteq> k" if "List.find (receipt_matches i) (outbox s) = Some y" for y
    using find_Some_mem [OF that] assms by (simp add: receipt_matches_def)
  then show ?thesis
    by (auto simp: recordChannelDeliveryReceipt_def getChannelBindingById_def Let_def intro!: find_upd_first_other split: option.splits)
qed

lemma receipt_other_item:
  "y \<in> set (outbox s) \<Longrightarrow> ri_binding i \<noteq> ob_binding y \<Longrightarrow> y \<in> set (outbox (snd (recordChannelDeliveryReceipt e i s)))"
  by (auto simp: recordChannelDeliveryReceipt_def receipt_matches_def Let_def intro!: mem_upd_first_other split: option.splits)

lemma lease_bindings [simp]: "bindings (snd (leaseChannelDeliveries e i s)) = bindings s"
  by (simp add: leaseChannelDeliveries_def Let_def)

lemma lease_other_item:
  assumes "y \<in> set (outbox s)" and "\<not> deliverable (clock e) i y"
  shows "y \<in> set (outbox (snd (leaseChannelDeliveries e i s)))"
proof -
  obtain l got t where r: "leaseChannelDeliveries e i s = ((l, got), t)" by (metis surj_pair)
  obtain n where n: "n < length (outbox s)" "y = outbox s ! n" using assms(1) by (metis in_set_conv_nth)
  note spec = leaseChannelDeliveries_leases [OF r]
  have "length (outbox t) = length (outbox s)" using spec by (auto simp: leased_from_def dest: list_all2_lengthD)
  moreover have "outbox t ! n = y"
    using spec n assms(2) unfolding leased_from_def by (auto dest!: list_all2_nthD [where p = n])
  ultimately show ?thesis using n(1) r by (metis nth_mem snd_conv)
qed

definition item_of :: "channel_binding \<Rightarrow> outbox_item \<Rightarrow> bool" where
  "item_of b y \<longleftrightarrow> ob_binding y = cb_id b \<and> ob_channel y = cb_channel b \<and> j_org y = cb_org b"

lemma foreign_not_leased:
  "\<not> authorized m (Some b) \<Longrightarrow> item_of b y \<Longrightarrow>
    \<not> deliverable now (delivery_lease_of m q (filter (\<lambda>c. c \<in> set (mh_channels m)) cs)) y"
  by (auto simp: deliverable_def delivery_lease_of_def authorized_def item_of_def unset_or_eq_def split: option.splits)

lemma find_foreign:
  "foreign m b s \<Longrightarrow> getChannelBindingById i s = Some b' \<Longrightarrow> authorized m (Some b') \<Longrightarrow> i \<noteq> cb_id b"
  by (auto simp: foreign_def)

text \<open>What a call that is let through needs: an authorized binding of the identifier the body names.\<close>

definition confined :: "machine \<Rightarrow> channel_state \<Rightarrow> channel_state \<Rightarrow> bool" where
  "confined m s t \<longleftrightarrow>
     (\<forall>b. foreign m b s \<longrightarrow> getChannelBindingById (cb_id b) t = Some b \<and>
        (\<forall>y\<in>set (outbox s). item_of b y \<longrightarrow> y \<in> set (outbox t)))"

lemma confined_refl [simp]: "confined m s s"
  by (simp add: confined_def foreign_def)

lemma confined_ingress:
  assumes "getChannelBindingById (ii_binding i) s = Some b'" and "authorized m (Some b')"
  shows "confined m s (snd (acceptChannelIngress e i s))"
  unfolding confined_def
proof (intro allI impI conjI ballI)
  fix b assume b: "foreign m b s"
  then have "ii_binding i \<noteq> cb_id b" by (rule find_foreign [OF _ assms])
  then show "getChannelBindingById (cb_id b) (snd (acceptChannelIngress e i s)) = Some b"
    using b by (simp add: accept_other_binding foreign_def)
qed simp

lemma confined_health:
  assumes "getChannelBindingById (hi_binding i) s = Some b'" and "authorized m (Some b')"
  shows "confined m s (snd (saveChannelHealthReport e i s))"
  unfolding confined_def
proof (intro allI impI conjI ballI)
  fix b assume b: "foreign m b s"
  then have "hi_binding i \<noteq> cb_id b" by (rule find_foreign [OF _ assms])
  then show "getChannelBindingById (cb_id b) (snd (saveChannelHealthReport e i s)) = Some b"
    using b by (simp add: health_other_binding foreign_def)
qed simp

lemma confined_receipt:
  assumes "getChannelBindingById (ri_binding i) s = Some b'" and "authorized m (Some b')"
  shows "confined m s (snd (recordChannelDeliveryReceipt e i s))"
  unfolding confined_def
proof (intro allI impI conjI ballI)
  fix b assume b: "foreign m b s"
  then have k: "ri_binding i \<noteq> cb_id b" by (rule find_foreign [OF _ assms])
  then show "getChannelBindingById (cb_id b) (snd (recordChannelDeliveryReceipt e i s)) = Some b"
    using b by (simp add: receipt_other_binding foreign_def)
  show "y \<in> set (outbox (snd (recordChannelDeliveryReceipt e i s)))" if "y \<in> set (outbox s)" "item_of b y" for y
    using that k by (simp add: receipt_other_item item_of_def)
qed

lemma confined_lease:
  "confined m s (snd (leaseChannelDeliveries e (delivery_lease_of m q (filter (\<lambda>c. c \<in> set (mh_channels m)) cs)) s))"
  unfolding confined_def
  by (auto simp: foreign_def getChannelBindingById_def intro!: lease_other_item dest: foreign_not_leased)

lemma confined_route_receipt: "confined m (cw_channels w) (cw_channels (snd (route_receipt e hash m body w)))"
proof (cases body)
  case (Some q)
  let ?r = "\<lambda>b. (qe_receipt q)\<lparr>ri_id := None, ri_agent := cb_agent b, ri_worker := Some (mh_machine m)\<rparr>"
  have "confined m (cw_channels w) (snd (recordChannelDeliveryReceipt e (?r b) (cw_channels w)))"
    if "getChannelBindingById (ri_binding (qe_receipt q)) (cw_channels w) = Some b" "authorized m (Some b)" for b
    using confined_receipt [of "?r b" "cw_channels w" b m e] that by simp
  then show ?thesis
    unfolding route_receipt_def Some Let_def
    by (simp add: case_prod_beta split: option.split sum.split)
qed (simp add: route_receipt_def)

lemma confined_route_health: "confined m (cw_channels w) (cw_channels (snd (route_health e hash m body w)))"
proof (cases body)
  case (Some q)
  let ?h = "\<lambda>b. (qh_health q)\<lparr>hi_id := None, hi_agent := cb_agent b\<rparr>"
  have "confined m (cw_channels w) (snd (saveChannelHealthReport e (?h b) (cw_channels w)))"
    if "getChannelBindingById (hi_binding (qh_health q)) (cw_channels w) = Some b" "authorized m (Some b)" for b
    using confined_health [of "?h b" "cw_channels w" b m e] that by simp
  then show ?thesis
    unfolding route_health_def Some Let_def
    by (simp add: case_prod_beta split: option.split sum.split)
qed (simp add: route_health_def)

lemma confined_route_lease: "confined m (cw_channels w) (cw_channels (snd (route_lease e hash valid m body w)))"
  unfolding route_lease_def Let_def
  by (simp add: case_prod_beta confined_lease split: option.split sum.split)

lemma confined_call: "confined m (cw_channels w) (cw_channels (after_call e c m r w))"
proof (cases r)
  case (Resolve vault valid i body)
  then show ?thesis by simp
next
  case (Deliver_In body)
  show ?thesis
  proof (cases "cw_channels (after_call e c m r w) = cw_channels w")
    case False
    then obtain q b where q: "body = Some q" and b: "getChannelBindingById (ii_binding (qg_message q)) (cw_channels w) = Some b" "authorized m (Some b)"
      and "cw_channels (after_call e c m r w) = snd (acceptChannelIngress e ((qg_message q)\<lparr>ii_agent := cb_agent b\<rparr>) (cw_channels w))"
      using Deliver_In by (auto simp: route_ingress_def Let_def split: option.splits sum.splits prod.splits if_splits)
    then show ?thesis using confined_ingress [of "(qg_message q)\<lparr>ii_agent := cb_agent b\<rparr>"] by simp
  qed simp
next
  case (Lease valid body)
  then show ?thesis by (simp add: confined_route_lease)
next
  case (Receipt body)
  then show ?thesis by (simp add: confined_route_receipt)
next
  case (Health body)
  then show ?thesis by (simp add: confined_route_health)
qed

text \<open>C25. Confinement: a binding outside the organization or the channels of a machine's credential, and the
  queued deliveries of that binding, are the same after any call the machine makes, whatever its body says.\<close>

theorem worker_cannot_reach_foreign_bindings:
  assumes "foreign m b (cw_channels w)" and "y \<in> set (outbox (cw_channels w))" and "item_of b y"
  shows "getChannelBindingById (cb_id b) (cw_channels (after_call e c m r w)) = Some b \<and>
    y \<in> set (outbox (cw_channels (after_call e c m r w)))"
  using confined_call [of m w e c r] assms by (simp add: confined_def)

definition sample_world :: channel_world where
  "sample_world = \<lparr>cw_fleet = empty_fleet, cw_tenant = empty_tenant, cw_channels = sample3\<rparr>"

definition sample_machine :: "ident \<Rightarrow> machine" where
  "sample_machine org = \<lparr>mh_machine = ''w'', mh_credential = ''k'', mh_org = Some org, mh_channels = [''qq'']\<rparr>"

definition sample_pull :: delivery_request where
  "sample_pull = \<lparr>ql_worker = ''w'', ql_channels = [''qq''], ql_bindings = None, ql_limit = 10, ql_seconds = 60\<rparr>"

definition sample_codec :: route_codec where
  "sample_codec = \<lparr>rc_hash = (\<lambda>s. s), rc_encode = (\<lambda>s. s)\<rparr>"

lemmas sample_route_defs = sample_world_def sample_machine_def sample_pull_def sample_codec_def

theorem worker_cannot_reach_foreign_bindings_witness:
  "getChannelBindingById ''B'' (cw_channels (after_call (tick 6 ''t6'') sample_codec (sample_machine ''X'')
     (Lease (\<lambda>_. True) (Some sample_pull)) sample_world)) = Some (hd (bindings sample3)) \<and>
   hd (outbox sample3) \<in> set (outbox (cw_channels (after_call (tick 6 ''t6'') sample_codec (sample_machine ''X'')
     (Lease (\<lambda>_. True) (Some sample_pull)) sample_world)))"
proof -
  have "getChannelBindingById ''B'' sample3 = Some (hd (bindings sample3))" "cb_id (hd (bindings sample3)) = ''B''"
    "\<not> authorized (sample_machine ''X'') (Some (hd (bindings sample3)))" "hd (outbox sample3) \<in> set (outbox sample3)"
    "item_of (hd (bindings sample3)) (hd (outbox sample3))" by code_simp+
  then show ?thesis
    using worker_cannot_reach_foreign_bindings [of "sample_machine ''X''" "hd (bindings sample3)" sample_world "hd (outbox sample3)"]
    by (simp add: foreign_def sample_world_def del: after_call.simps)
qed

section \<open>Ingress lands where the worker said\<close>

lemma find_narrower:
  "List.find p xs = Some x \<Longrightarrow> q x \<Longrightarrow> (\<And>y. q y \<Longrightarrow> p y) \<Longrightarrow> List.find q xs = Some x"
  by (induction xs) (auto split: if_splits)

text \<open>An accepted message is queued for the tenant that the worker signed: the new item's organization,
  user and agent are those of the claimed scope, and the audit event names it.\<close>

theorem accepted_ingress_lands_in_claimed_scope:
  assumes "route_ingress e hash m (Some q) w = (Sent Accepted, w')"
  shows "\<exists>x owner. inbox (cw_channels w') = inbox (cw_channels w) @ [x] \<and> qg_scope q = Some owner \<and>
    j_org x = rs_org owner \<and> j_user x = rs_user owner \<and> j_agent x = rs_agent owner \<and>
    ib_external x = ii_external (qg_message q) \<and> ib_channel x \<in> set (mh_channels m) \<and>
    au_target (last (audit (cw_tenant w'))) = Some (ib_binding x)"
proof -
  obtain b owner where b: "getChannelBindingById (ii_binding (qg_message q)) (cw_channels w) = Some b"
    and owner: "binding_scope hash b (cw_fleet w) = Inr owner" "same_scope (qg_scope q) owner"
    and ok: "authorized m (Some b)" "cb_channel b = ii_channel (qg_message q)"
    and acc: "\<exists>b' x s. acceptChannelIngress e ((qg_message q)\<lparr>ii_agent := cb_agent b\<rparr>) (cw_channels w) = (Some (Accepted, b', x), s) \<and>
      w' = w\<lparr>cw_channels := s, cw_tenant := snd (recordAudit (env_from 1 e) (ingress_audit b' (j_id x)) (cw_tenant w))\<rparr>"
    using assms by (auto simp: route_ingress_def Let_def scope_if_bound_def split: option.splits sum.splits prod.splits if_splits)
  obtain sc where sc: "qg_scope q = Some sc" "owner = Some sc"
    using owner(2) by (auto simp: same_scope_def split: option.splits)
  have "rs_org sc = cb_org b \<and> rs_user sc = cb_user b \<and> rs_agent sc = cb_agent b"
    using owner(1) sc(2) by (auto simp: binding_scope_def ownerScope_def split: option.splits sum.splits if_splits)
  moreover have "x = new_inbox_item e ((qg_message q)\<lparr>ii_agent := cb_agent b\<rparr>) b \<and> cb_id b' = cb_id b \<and> inbox s = inbox (cw_channels w) @ [x]"
    if r: "acceptChannelIngress e ((qg_message q)\<lparr>ii_agent := cb_agent b\<rparr>) (cw_channels w) = (Some (Accepted, b', x), s)" for b' x s
  proof -
    have "List.find (\<lambda>c. cb_id c = ii_binding (qg_message q) \<and> cb_agent c = cb_agent b \<and> cb_channel c = ii_channel (qg_message q))
        (bindings (cw_channels w)) = Some b"
      by (rule find_narrower [OF b [unfolded getChannelBindingById_def]]) (use ok(2) find_Some_mem [OF b [unfolded getChannelBindingById_def]] in auto)
    then show ?thesis using r
      by (auto simp: acceptChannelIngress_def Let_def split: option.splits if_splits)
  qed
  ultimately show ?thesis
    using acc ok sc(1) by (auto simp: new_inbox_item_def recordAudit_def ingress_audit_def Let_def authorized_def split: option.splits)
qed

definition arriving_world :: channel_world where
  "arriving_world = \<lparr>cw_fleet = snd (createAgentRuntime (tick 0 ''t0'') runtime_request empty_fleet), cw_tenant = empty_tenant,
     cw_channels = snd (upsertAgentChannelBinding (tick 1 ''t1'') sample_binding empty_channels)\<rparr>"

definition sample_ingress :: ingress_body where
  "sample_ingress = \<lparr>qg_scope = Some \<lparr>rs_org = ''O'', rs_user = ''U'', rs_agent = ''A'', rs_workspace = ''ws_w'',
     rs_conversation = None\<rparr>, qg_message = sample_message\<lparr>ii_agent := []\<rparr>\<rparr>"

theorem accepted_ingress_lands_in_claimed_scope_witness:
  "\<exists>x owner. inbox (cw_channels (snd (route_ingress (tick 2 ''t2'') (\<lambda>_. ''w'') (sample_machine ''O'') (Some sample_ingress) arriving_world))) =
      inbox (cw_channels arriving_world) @ [x] \<and> qg_scope sample_ingress = Some owner \<and> j_org x = rs_org owner \<and>
      j_user x = rs_user owner \<and> ib_external x = ''m1''"
proof -
  let ?r = "route_ingress (tick 2 ''t2'') (\<lambda>_. ''w'') (sample_machine ''O'') (Some sample_ingress) arriving_world"
  have "fst ?r = Sent Accepted" by code_simp
  then have "?r = (Sent Accepted, snd ?r)" by (simp add: prod_eq_iff)
  moreover have "ii_external (qg_message sample_ingress) = ''m1''" by code_simp
  ultimately show ?thesis
    using accepted_ingress_lands_in_claimed_scope [of "tick 2 ''t2''" "\<lambda>_. ''w''" "sample_machine ''O''" sample_ingress arriving_world "snd ?r"]
    by metis
qed

section \<open>One delivery without a scope\<close>

lemma public_deliveries_fail:
  "y \<in> set ys \<Longrightarrow> publicDelivery hash y fleet = Inl err \<Longrightarrow> \<exists>err. public_deliveries hash ys fleet = Inl err"
  by (induction ys) (auto split: sum.splits)

lemma leased_items_stay:
  assumes "leaseChannelDeliveries e i s = ((l, got), t)" and "x \<in> set got"
  shows "x \<in> set (outbox t) \<and> j_state x = Leased \<and> ob_worker x = Some (dli_worker i)"
proof -
  let ?refs = "select_refs (deliverable (clock e) i) j_availableAt (nat (clamp_num 1 100 10 (li_limit i))) (outbox s)"
  let ?f = "\<lambda>y. (take_lease (clock e) (clamp_num 5 300 60 (li_seconds i)) l y)\<lparr>ob_worker := Some (dli_worker i)\<rparr>"
  have t: "outbox t = assign_refs ?f ?refs (outbox s)" and "got = map ((!) (outbox t)) ?refs"
    using assms(1) by (auto simp: leaseChannelDeliveries_def Let_def)
  then obtain k where k: "k \<in> set ?refs" "x = outbox t ! k" using assms(2) by auto
  have n: "k < length (outbox s)" using select_refs_mem [OF k(1)] by simp
  then have "x = ?f (outbox s ! k)" using k t by (simp add: nth_assign_refs)
  moreover have "x \<in> set (outbox t)" using k(2) n t by simp
  ultimately show ?thesis by (simp add: take_lease_def)
qed

text \<open>A delivery whose runtime scope is gone fails the whole lease request, yet every delivery of the batch
  stays leased to the worker that never received it.\<close>

theorem unscoped_delivery_fails_the_batch:
  assumes "leaseChannelDeliveries e (delivery_lease_of m q (filter (\<lambda>c. c \<in> set (mh_channels m)) (ql_channels q))) (cw_channels w) = ((l, got), s)"
    and "ql_worker q = mh_machine m" and "c \<in> set (ql_channels q)" and "c \<in> set (mh_channels m)"
    and "y \<in> set got" and "publicDelivery hash y (cw_fleet w) = Inl err" and "x \<in> set got"
  shows "\<exists>err. route_lease e hash valid m (Some q) w = (Thrown err, w\<lparr>cw_channels := s\<rparr>) \<and>
    x \<in> set (outbox s) \<and> j_state x = Leased \<and> ob_worker x = Some (mh_machine m)"
proof -
  obtain err' where "public_deliveries hash got (cw_fleet w) = Inl err'" using public_deliveries_fail [OF assms(5,6)] by blast
  moreover have "filter (\<lambda>c. c \<in> set (mh_channels m)) (ql_channels q) \<noteq> []" using assms(3,4) by (auto simp: filter_empty_conv)
  ultimately have "route_lease e hash valid m (Some q) w = (Thrown err', w\<lparr>cw_channels := s\<rparr>)"
    using assms(1,2) by (simp add: route_lease_def Let_def)
  moreover have "x \<in> set (outbox s) \<and> j_state x = Leased \<and> ob_worker x = Some (mh_machine m)"
    using leased_items_stay [OF assms(1,7)] assms(2) by (simp add: delivery_lease_of_def)
  ultimately show ?thesis by blast
qed

theorem unscoped_delivery_fails_the_batch_witness:
  "\<exists>err. route_lease (tick 6 ''t6'') (\<lambda>s. s) (\<lambda>_. True) (sample_machine ''O'') (Some sample_pull) sample_world =
      (Thrown err, sample_world\<lparr>cw_channels := snd (leaseChannelDeliveries (tick 6 ''t6'')
         (delivery_lease_of (sample_machine ''O'') sample_pull [''qq'']) sample3)\<rparr>)"
proof -
  let ?m = "sample_machine ''O''" and ?e = "tick 6 ''t6''"
  let ?i = "delivery_lease_of ?m sample_pull (filter (\<lambda>c. c \<in> set (mh_channels ?m)) (ql_channels sample_pull))"
  let ?l = "leaseChannelDeliveries ?e ?i (cw_channels sample_world)"
  have i: "?i = delivery_lease_of ?m sample_pull [''qq'']" and w: "cw_channels sample_world = sample3"
    by (simp_all add: sample_route_defs)
  have "hd (snd (fst ?l)) \<in> set (snd (fst ?l))" by code_simp
  moreover have "publicDelivery (\<lambda>s. s) (hd (snd (fst ?l))) (cw_fleet sample_world) =
      Inl (CodedError ''channel_delivery_scope_unavailable'' None)" by code_simp
  moreover have "?l = ((fst (fst ?l), snd (fst ?l)), snd ?l)" by simp
  ultimately show ?thesis
    using unscoped_delivery_fails_the_batch [of ?e ?m sample_pull sample_world "fst (fst ?l)" "snd (fst ?l)" "snd ?l" "''qq''"
        "hd (snd (fst ?l))" "\<lambda>s. s" "CodedError ''channel_delivery_scope_unavailable'' None" "hd (snd (fst ?l))" "\<lambda>_. True"]
    unfolding i w by (simp add: sample_machine_def sample_pull_def)
qed

end
