(* ===== verification/Projection_Store.thy ===== *)
theory Projection_Store
  imports Lease_Queue Js_Regex "HOL-Library.Sublist"
begin

text \<open>
  The notes of an agent and the queue that projects them into its memory, as
  \<open>MemoryPlatformRepository\<close> keeps them (\<open>packages/db/memory-repository.mjs\<close>). Writing or deleting a
  note asks for a projection of the agent; requests are coalesced into the job of the agent that is
  still waiting, and workers lease one job per agent at a time.

  The reason of a request is validated after the note has been stored, so an invalid reason leaves the
  note behind: the operations return the state next to the failure.
\<close>

section \<open>Data\<close>

record note_document =
  nd_title :: string
  nd_slug :: string
  nd_markdown :: string
  nd_frontmatter :: json
  nd_wikilinks :: "string list"

record memory_note = note_document +
  nt_id :: ident
  nt_org :: ident
  nt_user :: ident
  nt_agent :: ident
  nt_kind :: string
  nt_importance :: int
  nt_target :: string
  nt_source :: string
  nt_revision :: int
  nt_sync :: string
  nt_syncedRevision :: "int option"
  nt_syncedAt :: "instant option"
  nt_createdAt :: instant
  nt_updatedAt :: instant

record memory_job = job +
  mj_reason :: string
  mj_summary :: json
  mj_completedAt :: "instant option"

record projection_state =
  memory_notes :: "memory_note list"
  jobs :: "memory_job list"

definition no_projections :: projection_state where
  "no_projections = \<lparr>memory_notes = [], jobs = []\<rparr>"

definition waiting :: "'a job_scheme \<Rightarrow> bool" where
  "waiting j \<longleftrightarrow> j_state j \<in> {Pending, Retry}"

definition in_progress :: "'a job_scheme \<Rightarrow> bool" where
  "in_progress j \<longleftrightarrow> j_state j = Processing"

section \<open>Requests\<close>

record projection_request =
  pr_org :: ident
  pr_user :: ident
  pr_agent :: ident
  pr_reason :: "string option"

definition REASON :: rexp where
  "REASON = Sq (Cls is_lower) (Rep (Cls (\<lambda>c. is_lower c \<or> is_digit c \<or> one_of ''._-'' c)) 0 (Some 63))"

definition new_memory_job :: "env \<Rightarrow> projection_request \<Rightarrow> string \<Rightarrow> memory_job" where
  "new_memory_job e r reason =
     \<lparr>j_id = uuid e 0, j_org = pr_org r, j_user = pr_user r, j_agent = pr_agent r, j_state = Pending,
      j_attempts = 0, j_availableAt = clock e, j_leaseToken = None, j_leaseExpiresAt = None,
      j_lastErrorCode = None, j_createdAt = clock e, j_updatedAt = clock e,
      mj_reason = reason, mj_summary = JObj [], mj_completedAt = None\<rparr>"

definition renew_job :: "instant \<Rightarrow> string \<Rightarrow> memory_job \<Rightarrow> memory_job" where
  "renew_job now reason j =
     j\<lparr>mj_reason := reason, j_state := Pending, j_attempts := 0, j_availableAt := now,
       j_lastErrorCode := None, mj_summary := JObj [], j_updatedAt := now, mj_completedAt := None\<rparr>"

definition enqueueMemoryProjection ::
  "env \<Rightarrow> projection_request \<Rightarrow> projection_state \<Rightarrow> (failure + memory_job) \<times> projection_state" where
  "enqueueMemoryProjection e r s =
     (let reason = or_else (pr_reason r) ''note-write'';
          open_job = (\<lambda>j. j_agent j = pr_agent r \<and> waiting j)
      in if \<not> matches REASON reason
         then (Inl (TypeError ''Invalid memory projection reason''), s)
         else
           (case List.find open_job (jobs s) of
              Some j \<Rightarrow> (Inr (renew_job (clock e) reason j),
                s\<lparr>jobs := upd_first open_job (renew_job (clock e) reason) (jobs s)\<rparr>)
            | None \<Rightarrow> (let j = new_memory_job e r reason in (Inr j, s\<lparr>jobs := jobs s @ [j]\<rparr>))))"

section \<open>Notes\<close>

text \<open>A key missing from the input object is \<open>None\<close>.\<close>

record note_input =
  ni_id :: "ident option"
  ni_org :: ident
  ni_user :: ident
  ni_agent :: ident
  ni_document :: note_document
  ni_kind :: "string option"
  ni_importance :: "int option"
  ni_target :: "string option"
  ni_source :: "string option"
  ni_queue :: bool
  ni_reason :: "string option"

definition request_of :: "note_input \<Rightarrow> projection_request" where
  "request_of i = \<lparr>pr_org = ni_org i, pr_user = ni_user i, pr_agent = ni_agent i,
     pr_reason = Some (or_else (ni_reason i) ''note-write'')\<rparr>"

definition owned_by :: "ident \<Rightarrow> ident \<Rightarrow> ident \<Rightarrow> memory_note \<Rightarrow> bool" where
  "owned_by org user agent n \<longleftrightarrow> nt_org n = org \<and> nt_user n = user \<and> nt_agent n = agent"

definition put_document :: "note_document \<Rightarrow> memory_note \<Rightarrow> memory_note" where
  "put_document d n = n\<lparr>nd_title := nd_title d, nd_slug := nd_slug d, nd_markdown := nd_markdown d,
     nd_frontmatter := nd_frontmatter d, nd_wikilinks := nd_wikilinks d\<rparr>"

text \<open>The queueing at the end of a write: the value is returned unless the request fails.\<close>

definition then_enqueue ::
  "env \<Rightarrow> note_input \<Rightarrow> 'r \<times> projection_state \<Rightarrow> (failure + 'r) \<times> projection_state" where
  "then_enqueue e i v =
     (if ni_queue i then
        (case enqueueMemoryProjection e (request_of i) (snd v) of
           (Inl f, s) \<Rightarrow> (Inl f, s)
         | (Inr _, s) \<Rightarrow> (Inr (fst v), s))
      else (Inr (fst v), snd v))"

text \<open>The job of a new note is drawn first in the environment \<open>e\<close>, the identifier of the note last.\<close>

definition createObsidianNote ::
  "env \<Rightarrow> note_input \<Rightarrow> projection_state \<Rightarrow> (failure + memory_note) \<times> projection_state" where
  "createObsidianNote e i s =
     (let dup = (\<lambda>n. owned_by (ni_org i) (ni_user i) (ni_agent i) n \<and> nd_slug n = nd_slug (ni_document i));
          now = clock e;
          rewrite = (\<lambda>n. (put_document (ni_document i) n)\<lparr>nt_id := or_else (ni_id i) (nt_id n),
            nt_kind := or_else (ni_kind i) ''knowledge'', nt_importance := or_else (ni_importance i) 3,
            nt_target := or_else (ni_target i) ''auto'', nt_source := or_else (ni_source i) ''bairui-user'',
            nt_revision := nt_revision n + 1, nt_sync := ''pending'', nt_updatedAt := now\<rparr>)
      in case List.find dup (memory_notes s) of
           Some n \<Rightarrow> then_enqueue e i (rewrite n, s\<lparr>memory_notes := upd_first dup rewrite (memory_notes s)\<rparr>)
         | None \<Rightarrow>
             (let n = \<lparr>nd_title = nd_title (ni_document i), nd_slug = nd_slug (ni_document i),
                nd_markdown = nd_markdown (ni_document i), nd_frontmatter = nd_frontmatter (ni_document i),
                nd_wikilinks = nd_wikilinks (ni_document i), nt_id = or_else (ni_id i) (uuid e 1),
                nt_org = ni_org i, nt_user = ni_user i, nt_agent = ni_agent i,
                nt_kind = or_else (ni_kind i) ''knowledge'', nt_importance = or_else (ni_importance i) 3,
                nt_target = or_else (ni_target i) ''auto'', nt_source = or_else (ni_source i) ''bairui-user'',
                nt_revision = 1, nt_sync = ''pending'', nt_syncedRevision = None, nt_syncedAt = None,
                nt_createdAt = now, nt_updatedAt = now\<rparr>
              in then_enqueue e i (n, s\<lparr>memory_notes := memory_notes s @ [n]\<rparr>)))"

text \<open>\<open>toLocaleLowerCase\<close> depends on the locale of the process and is the argument \<open>lower\<close>.\<close>

definition listObsidianNotes ::
  "(string \<Rightarrow> string) \<Rightarrow> ident \<Rightarrow> ident \<Rightarrow> ident \<Rightarrow> string \<Rightarrow> projection_state \<Rightarrow> memory_note list" where
  "listObsidianNotes lower org user agent query s =
     (let search = lower (trim query)
      in rev (filter (\<lambda>n. owned_by org user agent n \<and>
           (search = [] \<or> sublist search (lower (nd_title n)) \<or> sublist search (lower (nd_markdown n)))) (memory_notes s)))"

definition getObsidianNote :: "ident \<Rightarrow> ident \<Rightarrow> ident \<Rightarrow> ident \<Rightarrow> projection_state \<Rightarrow> memory_note option" where
  "getObsidianNote org user agent i s = List.find (\<lambda>n. nt_id n = i \<and> owned_by org user agent n) (memory_notes s)"

definition updateObsidianNote ::
  "env \<Rightarrow> ident \<Rightarrow> note_input \<Rightarrow> projection_state \<Rightarrow> (failure + memory_note option) \<times> projection_state" where
  "updateObsidianNote e i inp s =
     (let this = (\<lambda>n. nt_id n = i \<and> owned_by (ni_org inp) (ni_user inp) (ni_agent inp) n);
          write = (\<lambda>n. (put_document (ni_document inp) n)\<lparr>nt_kind := or_else (ni_kind inp) (nt_kind n),
            nt_importance := or_else (ni_importance inp) (nt_importance n),
            nt_target := or_else (ni_target inp) (nt_target n),
            nt_source := or_else (ni_source inp) (nt_source n),
            nt_revision := nt_revision n + 1, nt_sync := ''pending'', nt_updatedAt := clock e\<rparr>)
      in case List.find this (memory_notes s) of
           None \<Rightarrow> (Inr None, s)
         | Some n \<Rightarrow> then_enqueue e inp (Some (write n), s\<lparr>memory_notes := upd_first this write (memory_notes s)\<rparr>))"

record projection_marks =
  pm_org :: ident
  pm_user :: ident
  pm_agent :: ident
  pm_included :: "ident list"
  pm_conflicts :: "ident list"
  pm_revisions :: "(ident \<times> int) list"

definition mark_note :: "instant \<Rightarrow> projection_marks \<Rightarrow> memory_note \<Rightarrow> memory_note" where
  "mark_note now m n =
     (if map_of (pm_revisions m) (nt_id n) \<noteq> Some (nt_revision n) then n
      else if nt_id n \<in> set (pm_conflicts m) then n\<lparr>nt_sync := ''conflict''\<rparr>
      else if nt_id n \<in> set (pm_included m)
        then n\<lparr>nt_sync := ''materialized'', nt_syncedRevision := Some (nt_revision n), nt_syncedAt := Some now\<rparr>
      else n\<lparr>nt_sync := ''excluded''\<rparr>)"

definition markObsidianProjection :: "env \<Rightarrow> projection_marks \<Rightarrow> projection_state \<Rightarrow> projection_state" where
  "markObsidianProjection e m s =
     s\<lparr>memory_notes := upd_all (owned_by (pm_org m) (pm_user m) (pm_agent m)) (mark_note (clock e) m) (memory_notes s)\<rparr>"

definition deleteObsidianNote ::
  "env \<Rightarrow> ident \<Rightarrow> ident \<Rightarrow> ident \<Rightarrow> ident \<Rightarrow> projection_state \<Rightarrow> (failure + bool) \<times> projection_state" where
  "deleteObsidianNote e org user agent i s =
     (let this = (\<lambda>n. nt_id n = i \<and> owned_by org user agent n)
      in if List.find this (memory_notes s) = None then (Inr False, s)
         else
           (case enqueueMemoryProjection e
                   \<lparr>pr_org = org, pr_user = user, pr_agent = agent, pr_reason = Some ''note-delete''\<rparr>
                   (s\<lparr>memory_notes := remove_first this (memory_notes s)\<rparr>) of
              (Inl f, t) \<Rightarrow> (Inl f, t)
            | (Inr _, t) \<Rightarrow> (Inr True, t)))"

definition markObsidianProjectionFailed ::
  "ident \<Rightarrow> ident \<Rightarrow> ident \<Rightarrow> projection_state \<Rightarrow> projection_state" where
  "markObsidianProjectionFailed org user agent s =
     (if \<exists>j\<in>set (jobs s). j_agent j = agent \<and> (waiting j \<or> in_progress j) then s
      else s\<lparr>memory_notes := upd_all (\<lambda>n. owned_by org user agent n \<and> nt_sync n = ''pending'')
             (\<lambda>n. n\<lparr>nt_sync := ''failed''\<rparr>) (memory_notes s)\<rparr>)"

section \<open>Status\<close>

text \<open>The first job of the scope when open jobs are sorted first and newer before older.\<close>

definition getMemoryProjectionStatus ::
  "ident \<Rightarrow> ident \<Rightarrow> ident \<Rightarrow> projection_state \<Rightarrow> memory_job option" where
  "getMemoryProjectionStatus org user agent s =
     (case sort_key (\<lambda>j. (if waiting j \<or> in_progress j then 0 else 1 :: int, - j_createdAt j))
             (filter (\<lambda>j. j_org j = org \<and> j_user j = user \<and> j_agent j = agent) (jobs s)) of
        [] \<Rightarrow> None
      | j # _ \<Rightarrow> Some j)"

definition listMemoryProjectionJobs :: "ident option \<Rightarrow> int option \<Rightarrow> projection_state \<Rightarrow> memory_job list" where
  "listMemoryProjectionJobs org limit s =
     take (nat (clamp_num 1 5000 1000 limit))
       (rev (filter (\<lambda>j. case org of None \<Rightarrow> True | Some o' \<Rightarrow> o' = [] \<or> j_org j = o') (jobs s)))"

section \<open>Leasing\<close>

definition lease_expired :: "instant \<Rightarrow> 'a job_scheme \<Rightarrow> bool" where
  "lease_expired now j \<longleftrightarrow> in_progress j \<and>
     (case j_leaseExpiresAt j of None \<Rightarrow> False | Some t \<Rightarrow> t \<le> now)"

definition newer_waiting :: "memory_job list \<Rightarrow> memory_job \<Rightarrow> bool" where
  "newer_waiting js j \<longleftrightarrow> (\<exists>x\<in>set js. j_agent x = j_agent j \<and> j_id x \<noteq> j_id j \<and> waiting x)"

definition expire_job :: "instant \<Rightarrow> bool \<Rightarrow> memory_job \<Rightarrow> memory_job" where
  "expire_job now newer j =
     (if newer
      then j\<lparr>j_state := Completed, mj_summary := JObj [(''status'', JStr ''superseded'')],
             mj_completedAt := Some now, j_leaseToken := None, j_leaseExpiresAt := None, j_updatedAt := now\<rparr>
      else j\<lparr>j_state := Retry, j_availableAt := now, mj_completedAt := None, j_leaseToken := None,
             j_leaseExpiresAt := None, j_updatedAt := now\<rparr>)"

text \<open>
  The two loops of a lease call. The expired jobs are chosen before the first loop; inside it, each
  sees the changes made to the ones before it.
\<close>

fun expire_loop :: "instant \<Rightarrow> nat list \<Rightarrow> memory_job list \<Rightarrow> memory_job list" where
  "expire_loop now [] js = js"
| "expire_loop now (r # rs) js =
     expire_loop now rs (js[r := expire_job now (newer_waiting js (js ! r)) (js ! r)])"

definition claim_job :: "instant \<Rightarrow> int \<Rightarrow> ident \<Rightarrow> memory_job \<Rightarrow> memory_job" where
  "claim_job now seconds token j =
     j\<lparr>j_state := Processing, j_attempts := j_attempts j + 1, j_leaseToken := Some token,
       j_leaseExpiresAt := Some (now + seconds * 1000), j_updatedAt := now\<rparr>"

fun lease_loop ::
  "env \<Rightarrow> int \<Rightarrow> nat \<Rightarrow> nat list \<Rightarrow> nat list \<Rightarrow> memory_job list \<Rightarrow> nat list \<times> memory_job list" where
  "lease_loop e seconds limit [] leased js = (leased, js)"
| "lease_loop e seconds limit (r # rs) leased js =
     (if limit \<le> length leased then (leased, js)
      else if \<exists>x\<in>set js. j_agent x = j_agent (js ! r) \<and> in_progress x
      then lease_loop e seconds limit rs leased js
      else lease_loop e seconds limit rs (leased @ [r])
             (js[r := claim_job (clock e) seconds (uuid e (length leased)) (js ! r)]))"

record projection_lease_input =
  pl_limit :: "int option"
  pl_seconds :: "int option"

definition expired_refs :: "instant \<Rightarrow> memory_job list \<Rightarrow> nat list" where
  "expired_refs now js = filter (\<lambda>i. lease_expired now (js ! i)) [0..<length js]"

definition due_refs :: "instant \<Rightarrow> memory_job list \<Rightarrow> nat list" where
  "due_refs now js =
     sort_key (\<lambda>i. (j_availableAt (js ! i), j_createdAt (js ! i)))
       (filter (\<lambda>i. waiting (js ! i) \<and> j_availableAt (js ! i) \<le> now) [0..<length js])"

definition leaseMemoryProjectionJobs ::
  "env \<Rightarrow> projection_lease_input \<Rightarrow> projection_state \<Rightarrow> memory_job list \<times> projection_state" where
  "leaseMemoryProjectionJobs e i s =
     (let js = expire_loop (clock e) (expired_refs (clock e) (jobs s)) (jobs s);
          (leased, js') = lease_loop e (clamp_num 15 600 60 (pl_seconds i)) (nat (clamp_num 1 20 1 (pl_limit i)))
            (due_refs (clock e) js) [] js
      in (map ((!) js') leased, s\<lparr>jobs := js'\<rparr>))"

section \<open>Settling\<close>

definition holds_job :: "ident \<Rightarrow> ident \<Rightarrow> 'a job_scheme \<Rightarrow> bool" where
  "holds_job i token j \<longleftrightarrow> j_id j = i \<and> in_progress j \<and> j_leaseToken j = Some token"

definition completeMemoryProjectionJob ::
  "env \<Rightarrow> ident \<Rightarrow> ident \<Rightarrow> json option \<Rightarrow> projection_state \<Rightarrow> memory_job option \<times> projection_state" where
  "completeMemoryProjectionJob e i token summary s =
     (let finish = (\<lambda>j. j\<lparr>j_state := Completed, j_leaseToken := None, j_leaseExpiresAt := None,
            j_lastErrorCode := None, mj_summary := or_else summary (JObj []), mj_completedAt := Some (clock e),
            j_updatedAt := clock e\<rparr>)
      in case List.find (holds_job i token) (jobs s) of
           None \<Rightarrow> (None, s)
         | Some j \<Rightarrow> (Some (finish j), s\<lparr>jobs := upd_first (holds_job i token) finish (jobs s)\<rparr>))"

record retry_input =
  ry_id :: ident
  ry_token :: ident
  ry_errorCode :: string
  ry_maxAttempts :: "int option"
  ry_delayMs :: "int option"

definition settle_job :: "instant \<Rightarrow> retry_input \<Rightarrow> bool \<Rightarrow> memory_job \<Rightarrow> memory_job" where
  "settle_job now i newer j =
     (let dead = (j_attempts j \<ge> max 1 (num_or (ry_maxAttempts i) 8));
          state = (if newer then Completed else if dead then Dead else Retry)
      in j\<lparr>j_state := state, j_leaseToken := None, j_leaseExpiresAt := None,
           j_lastErrorCode := Some (ry_errorCode i),
           mj_summary := if newer then JObj [(''status'', JStr ''superseded'')] else JObj [],
           j_availableAt := if state = Retry then now + max 0 (num_or (ry_delayMs i) 0) else j_availableAt j,
           mj_completedAt := if state \<in> {Completed, Dead} then Some now else None,
           j_updatedAt := now\<rparr>)"

definition retryMemoryProjectionJob ::
  "env \<Rightarrow> retry_input \<Rightarrow> projection_state \<Rightarrow> memory_job option \<times> projection_state" where
  "retryMemoryProjectionJob e i s =
     (case List.find (holds_job (ry_id i) (ry_token i)) (jobs s) of
        None \<Rightarrow> (None, s)
      | Some j \<Rightarrow>
          (let settle = settle_job (clock e) i (newer_waiting (jobs s) j)
           in (Some (settle j), s\<lparr>jobs := upd_first (holds_job (ry_id i) (ry_token i)) settle (jobs s)\<rparr>)))"

lemmas projection_op_defs [store_defs] =
  enqueueMemoryProjection_def createObsidianNote_def updateObsidianNote_def deleteObsidianNote_def
  markObsidianProjection_def markObsidianProjectionFailed_def leaseMemoryProjectionJobs_def
  completeMemoryProjectionJob_def retryMemoryProjectionJob_def

end
