(* ===== verification/Memory_Documents.thy ===== *)
theory Memory_Documents
  imports Projection_Store Js_Text "HOL-Library.Multiset"
begin

text \<open>
  The Markdown documents behind an agent's memory (\<open>packages/memory/obsidian-note.mjs\<close>): composing a
  note, recovering its body, and building the projection of the notes that is written into the two
  bounded memory files of an agent.

  The parameters are functions outside the repository: \<open>nfkc\<close> is Unicode normalization, \<open>render\<close> the
  rendering of an instant, \<open>sha256\<close> a digest in hexadecimal. The heading of the links section consists of
  characters outside the 8-bit \<open>char\<close> and is the parameter \<open>related\<close>.
\<close>

section \<open>Attributes\<close>

definition MEMORY_KINDS :: "string list" where
  "MEMORY_KINDS = [''knowledge'', ''fact'', ''preference'', ''constraint'', ''procedure'', ''person'', ''project'', ''event'']"

definition HERMES_MEMORY_TARGETS :: "string list" where
  "HERMES_MEMORY_TARGETS = [''auto'', ''memory'', ''user'', ''none'']"

datatype target = Memory | User

definition HERMES_MEMORY_LIMITS :: "target \<Rightarrow> nat" where
  "HERMES_MEMORY_LIMITS t = (case t of Memory \<Rightarrow> 2200 | User \<Rightarrow> 1375)"

definition oneOf :: "string option \<Rightarrow> string list \<Rightarrow> string \<Rightarrow> string" where
  "oneOf v allowed fallback = (case v of None \<Rightarrow> fallback | Some x \<Rightarrow> if x \<in> set allowed then x else fallback)"

text \<open>\<open>Math.round\<close>, with halves rounded up; \<open>Fractional m k\<close> is the number \<open>m / 10\<^sup>k\<close>.\<close>

definition js_round :: "jnum \<Rightarrow> int option" where
  "js_round n =
     (case n of
        Integer i \<Rightarrow> Some i
      | Fractional m k \<Rightarrow> Some ((2 * m + 10 ^ k) div (2 * 10 ^ k))
      | _ \<Rightarrow> None)"

definition importanceOf :: "jnum \<Rightarrow> int" where
  "importanceOf n = (case js_round n of None \<Rightarrow> 3 | Some i \<Rightarrow> max 1 (min 5 i))"

definition SOURCE :: rexp where
  "SOURCE = Sq (Cls is_alnum) (Rep (Cls (\<lambda>c. is_alnum c \<or> one_of ''._:/-'' c)) 0 (Some 255))"

definition sourceRef :: "string option \<Rightarrow> string" where
  "sourceRef v =
     (let normalized = trim (or_else v ''bairui-user'')
      in if matches SOURCE normalized then normalized else ''bairui-user'')"

text \<open>
  The slug: forbidden characters and white space become dashes, runs of dashes collapse, a dash at either
  end goes, and 120 characters are kept.
\<close>

definition forbidden_in_slug :: "char \<Rightarrow> bool" where
  "forbidden_in_slug c \<longleftrightarrow> code_of c \<in> {92, 47, 58, 42, 63, 34, 60, 62, 124, 35, 91, 93, 94}"

definition strip_dashes :: "string \<Rightarrow> string" where
  "strip_dashes s =
     (let t = (case s of [] \<Rightarrow> [] | c # cs \<Rightarrow> if c = CHR ''-'' then cs else s)
      in if t \<noteq> [] \<and> last t = CHR ''-'' then butlast t else t)"

definition obsidianSlug :: "(string \<Rightarrow> string) \<Rightarrow> string \<Rightarrow> string" where
  "obsidianSlug nfkc title =
     (let s = take 120 (strip_dashes (replace_runs (\<lambda>c. c = CHR ''-'') ''-''
            (replace_runs is_space ''-'' (replace_runs forbidden_in_slug ''-'' (trim (nfkc title))))))
      in if s = [] then ''note'' else s)"

section \<open>The body of a document\<close>

text \<open>\<open>\r?\n---\r?\n+\<close>, and the text after its first occurrence.\<close>

definition fence_end :: "string \<Rightarrow> string option" where
  "fence_end s = Option.bind (Option.bind (eol s) (expect ''---'')) eols"

fun after_fence :: "string \<Rightarrow> string option" where
  "after_fence [] = None"
| "after_fence (c # cs) = (case fence_end (c # cs) of Some r \<Rightarrow> Some r | None \<Rightarrow> after_fence cs)"

definition strip_frontmatter :: "string \<Rightarrow> string" where
  "strip_frontmatter s = or_else (Option.bind (Option.bind (expect ''---'' s) eol) after_fence) s"

definition line_char :: "char \<Rightarrow> bool" where
  "line_char c \<longleftrightarrow> c \<noteq> LF \<and> c \<noteq> CR"

text \<open>\<open>^# .+\r?\n+\<close>.\<close>

definition strip_title :: "string \<Rightarrow> string" where
  "strip_title s =
     (case expect ''# '' s of
        None \<Rightarrow> s
      | Some r \<Rightarrow> if takeWhile line_char r = [] then s else or_else (eols (dropWhile line_char r)) s)"

text \<open>\<open>\r?\n+## related\r?\n[\s\S]*$\<close>.\<close>

definition heading_at :: "string \<Rightarrow> string \<Rightarrow> bool" where
  "heading_at related s \<longleftrightarrow> Option.bind (Option.bind (eols s) (expect (''## '' @ related))) eol \<noteq> None"

fun cut_related :: "string \<Rightarrow> string \<Rightarrow> string" where
  "cut_related related [] = []"
| "cut_related related (c # cs) = (if heading_at related (c # cs) then [] else c # cut_related related cs)"

definition obsidianBody :: "string \<Rightarrow> string \<Rightarrow> string" where
  "obsidianBody related markdown = trim (cut_related related (strip_title (strip_frontmatter markdown)))"

section \<open>Composing a note\<close>

text \<open>
  \<open>body.matchAll(/\[\[([^\]|#]+)(?:[|#][^\]]*)?\]\]/g)\<close>: the names, and for a match the text that follows it.
\<close>

definition link_at :: "string \<Rightarrow> (string \<times> string) option" where
  "link_at s =
     (case expect ''[['' s of
        None \<Rightarrow> None
      | Some r \<Rightarrow>
          (let name = takeWhile (\<lambda>c. \<not> one_of '']|#'' c) r;
               rest = dropWhile (\<lambda>c. \<not> one_of '']|#'' c) r;
               rest' = (if rest \<noteq> [] \<and> one_of ''|#'' (hd rest) then dropWhile (\<lambda>c. c \<noteq> CHR '']'') rest else rest)
           in if name = [] then None else map_option (\<lambda>t. (name, t)) (expect '']]'' rest')))"

function link_names :: "string \<Rightarrow> string list" where
  "link_names [] = []"
| "link_names (c # cs) =
     (case link_at (c # cs) of Some (name, t) \<Rightarrow> name # link_names (drop (length cs - length t) cs) | None \<Rightarrow> link_names cs)"
  by pat_completeness auto

termination by (relation "measure length") auto

record note_request =
  xq_title :: "string option"
  xq_body :: "string option"
  xq_tags :: "string list"
  xq_wikilinks :: "string list"
  xq_kind :: "string option"
  xq_importance :: jnum
  xq_target :: "string option"
  xq_createdAt :: "instant option"
  xq_source :: "string option"

record note_text = note_document +
  xt_kind :: string
  xt_importance :: int
  xt_target :: string
  xt_source :: string

definition trimmed_set :: "nat \<Rightarrow> string list \<Rightarrow> string list" where
  "trimmed_set n xs = take n (uniq (filter (\<lambda>x. x \<noteq> []) (map trim xs)))"

definition front_lines ::
  "(instant \<Rightarrow> string) \<Rightarrow> instant \<Rightarrow> instant \<Rightarrow> string \<Rightarrow> string list \<Rightarrow> string \<Rightarrow> int \<Rightarrow> string \<Rightarrow> string \<Rightarrow> string list" where
  "front_lines render created updated title tags kind importance target source =
     [''title: '' @ json_quote title, ''created: '' @ json_quote (render created), ''updated: '' @ json_quote (render updated),
      ''source: bairui-agent'', ''memory_kind: '' @ kind, ''importance: '' @ show_int importance,
      ''hermes_target: '' @ target, ''source_ref: '' @ source] @
     (if tags = [] then [''tags: []''] else ''tags:'' # map (\<lambda>t. ''  - '' @ json_quote t) tags)"

definition links_section :: "string \<Rightarrow> string list \<Rightarrow> string" where
  "links_section related links =
     (if links = [] then []
      else [LF, LF] @ ''## '' @ related @ [LF, LF] @
        join [LF] (map (\<lambda>l. ''- [['' @ without CHR '']'' (without CHR ''['' l) @ '']]'') links))"

text \<open>\<open>createObsidianNote\<close> of \<open>obsidian-note.mjs\<close>; the repository has an operation of the same name.\<close>

definition createObsidianNote_text ::
  "(string \<Rightarrow> string) \<Rightarrow> (instant \<Rightarrow> string) \<Rightarrow> string \<Rightarrow> note_request \<Rightarrow> instant \<Rightarrow> failure + note_text" where
  "createObsidianNote_text nfkc render related i now =
     (let title = trim (or_else (xq_title i) []); body = trim (or_else (xq_body i) [])
      in if title = [] \<or> body = [] then Inl (TypeError ''Note title and body are required'')
         else
           (let tags = trimmed_set 20 (xq_tags i);
                links = trimmed_set 50 (xq_wikilinks i @ map trim (link_names body));
                kind = oneOf (xq_kind i) MEMORY_KINDS ''knowledge'';
                importance = importanceOf (xq_importance i);
                target = oneOf (xq_target i) HERMES_MEMORY_TARGETS ''auto'';
                created = or_else (xq_createdAt i) now;
                source = sourceRef (xq_source i)
            in Inr \<lparr>nd_title = title, nd_slug = obsidianSlug nfkc title,
                 nd_markdown = ''---'' @ [LF] @
                   join [LF] (front_lines render created now title tags kind importance target source) @
                   [LF] @ ''---'' @ [LF, LF] @ ''# '' @ title @ [LF, LF] @ body @ links_section related links @ [LF],
                 nd_frontmatter = JObj [(''title'', JStr title), (''created'', JStr (render created)),
                   (''updated'', JStr (render now)), (''tags'', JArr (map JStr tags)),
                   (''source'', JStr ''bairui-agent''), (''memory_kind'', JStr kind),
                   (''importance'', JNum (Integer importance)), (''hermes_target'', JStr target),
                   (''source_ref'', JStr source)],
                 nd_wikilinks = links, xt_kind = kind, xt_importance = importance, xt_target = target,
                 xt_source = source\<rparr>))"

section \<open>The projection\<close>

definition targetFor :: "memory_note \<Rightarrow> target option" where
  "targetFor n =
     (if nt_target n = ''none'' then None
      else if nt_target n = ''memory'' then Some Memory
      else if nt_target n = ''user'' then Some User
      else Some (if nt_kind n \<in> {''preference'', ''person''} then User else Memory))"

definition limit_of_name :: "string \<Rightarrow> nat" where
  "limit_of_name t =
     (if t = ''memory'' then HERMES_MEMORY_LIMITS Memory else if t = ''user'' then HERMES_MEMORY_LIMITS User else 2200)"

definition compactEntry :: "string \<Rightarrow> memory_note \<Rightarrow> string" where
  "compactEntry related n =
     (let body = trim (without CHR 0xA7 (replace_runs is_space '' '' (obsidianBody related (nd_markdown n))));
          prefix = nd_title n @ '': ''
      in if starts_with ''hermes-native:'' (nt_source n) then take (limit_of_name (nt_target n)) body
         else trim (prefix @ take (max 1 (600 - length prefix)) body))"

record built =
  bt_entries :: "target \<Rightarrow> (ident \<times> string) list"
  bt_used :: "target \<Rightarrow> nat"
  bt_left_out :: "ident list"

text \<open>One round of the loop: the entries of a file are separated by three characters.\<close>

definition place_note :: "string \<Rightarrow> memory_note \<Rightarrow> built \<Rightarrow> built" where
  "place_note related n b =
     (let out = b\<lparr>bt_left_out := bt_left_out b @ [nt_id n]\<rparr>
      in case targetFor n of
           None \<Rightarrow> out
         | Some t \<Rightarrow>
             (let content = compactEntry related n;
                  total = bt_used b t + (if bt_entries b t = [] then 0 else 3) + length content
              in if content = [] \<or> HERMES_MEMORY_LIMITS t < total then out
                 else b\<lparr>bt_entries := (bt_entries b)(t := bt_entries b t @ [(nt_id n, content)]),
                        bt_used := (bt_used b)(t := total)\<rparr>))"

record projection =
  px_id :: string
  px_entries :: "target \<Rightarrow> (ident \<times> string) list"
  px_chars :: "target \<Rightarrow> nat"
  px_included :: "ident list"
  px_excluded :: "ident list"

definition projection_json :: "(target \<Rightarrow> (ident \<times> string) list) \<Rightarrow> string" where
  "projection_json es =
     (let entry = (\<lambda>(i, c). CHR ''{'' # json_quote ''note_id'' @ '':'' @ json_quote i @ '','' @ json_quote ''content'' @ '':'' @ json_quote c @ ''}'');
          entries = (\<lambda>t. CHR ''['' # join '','' (map entry (es t)) @ '']'')
      in CHR ''{'' # json_quote ''memory'' @ '':'' @ entries Memory @ '','' @ json_quote ''user'' @ '':'' @ entries User @ ''}'')"

definition in_order :: "memory_note list \<Rightarrow> memory_note list" where
  "in_order = sort_key (\<lambda>n. (- (if nt_importance n = 0 then 3 else nt_importance n), - nt_updatedAt n))"

definition start_built :: built where
  "start_built = \<lparr>bt_entries = (\<lambda>_. []), bt_used = (\<lambda>_. 0), bt_left_out = []\<rparr>"

definition buildHermesMemoryProjection ::
  "(string \<Rightarrow> string) \<Rightarrow> string \<Rightarrow> memory_note list \<Rightarrow> ident list \<Rightarrow> projection" where
  "buildHermesMemoryProjection sha256 related notes excluded =
     (let b = fold (place_note related) (in_order (filter (\<lambda>n. nt_id n \<notin> set excluded) notes)) start_built
      in \<lparr>px_id = ''memory-'' @ take 24 (sha256 (projection_json (bt_entries b))), px_entries = bt_entries b,
          px_chars = bt_used b, px_included = map fst (bt_entries b Memory @ bt_entries b User),
          px_excluded = uniq excluded @ bt_left_out b\<rparr>)"

section \<open>The projection fits and is complete\<close>

text \<open>The text of a memory file: its entries with the separator between them.\<close>

definition file_text :: "string \<Rightarrow> (ident \<times> string) list \<Rightarrow> string" where
  "file_text sep es = join sep (map snd es)"

definition built_ok :: "built \<Rightarrow> bool" where
  "built_ok b \<longleftrightarrow>
     (\<forall>t sep. length sep = 3 \<longrightarrow> length (file_text sep (bt_entries b t)) = bt_used b t) \<and>
     (\<forall>t. bt_used b t \<le> HERMES_MEMORY_LIMITS t) \<and> (\<forall>t e. e \<in> set (bt_entries b t) \<longrightarrow> snd e \<noteq> [])"

lemma file_text_snoc:
  "length sep = 3 \<Longrightarrow> length (file_text sep (es @ [e])) =
    length (file_text sep es) + (if es = [] then 0 else 3) + length (snd e)"
  by (simp add: file_text_def join_append)

lemma place_ok:
  assumes "built_ok b"
  shows "built_ok (place_note related n b)"
proof (cases "targetFor n")
  case None
  then show ?thesis using assms by (simp add: place_note_def built_ok_def)
next
  case (Some t)
  have "bt_entries b t = [] \<Longrightarrow> bt_used b t = 0"
    using assms [unfolded built_ok_def, THEN conjunct1, rule_format, of "''abc''" t] by (simp add: file_text_def)
  moreover have "file_text sep [e] = snd e" for sep and e :: "ident \<times> string" by (simp add: file_text_def)
  ultimately show ?thesis using Some assms by (auto simp: place_note_def built_ok_def Let_def file_text_snoc)
qed

lemma fold_ok: "built_ok b \<Longrightarrow> built_ok (fold (place_note related) ns b)"
  by (induction ns arbitrary: b) (simp_all add: place_ok)

definition placed_ids :: "built \<Rightarrow> ident list" where
  "placed_ids b = map fst (bt_entries b Memory @ bt_entries b User)"

lemma place_ids:
  "mset (placed_ids (place_note related n b)) + mset (bt_left_out (place_note related n b)) =
    add_mset (nt_id n) (mset (placed_ids b) + mset (bt_left_out b))"
proof (cases "targetFor n")
  case None
  then show ?thesis by (simp add: place_note_def placed_ids_def)
next
  case (Some t)
  then show ?thesis by (cases t) (auto simp: place_note_def placed_ids_def Let_def)
qed

lemma fold_ids:
  "mset (placed_ids (fold (place_note related) ns b)) + mset (bt_left_out (fold (place_note related) ns b)) =
    mset (map nt_id ns) + mset (placed_ids b) + mset (bt_left_out b)"
  by (induction ns arbitrary: b) (simp_all add: place_ids add.assoc)

text \<open>
  The projection of any notes fits: the text of each memory file, entries joined by a separator of
  three characters, has exactly the reported number of characters and at most the limit of the file, and no
  entry is empty.
\<close>

theorem projection_fits_limits:
  assumes "length sep = 3"
  shows "(let p = buildHermesMemoryProjection sha256 related notes excluded
    in length (file_text sep (px_entries p t)) = px_chars p t \<and> px_chars p t \<le> HERMES_MEMORY_LIMITS t \<and>
       [] \<notin> snd ` set (px_entries p t))"
proof -
  have "built_ok start_built" by (simp add: built_ok_def start_built_def file_text_def)
  then have "built_ok (fold (place_note related) (in_order (filter (\<lambda>n. nt_id n \<notin> set excluded) notes)) start_built)"
    by (rule fold_ok)
  then show ?thesis
    using assms by (force simp: buildHermesMemoryProjection_def Let_def built_ok_def)
qed

definition memory_sample :: "ident \<Rightarrow> string \<Rightarrow> memory_note" where
  "memory_sample i markdown = \<lparr>nd_title = ''T'', nd_slug = ''t'', nd_markdown = markdown, nd_frontmatter = JObj [],
     nd_wikilinks = [], nt_id = i, nt_org = ''o'', nt_user = ''u'', nt_agent = ''a'', nt_kind = ''knowledge'',
     nt_importance = 3, nt_target = ''auto'', nt_source = ''bairui-user'', nt_revision = 1, nt_sync = ''pending'',
     nt_syncedRevision = None, nt_syncedAt = None, nt_createdAt = 0, nt_updatedAt = 0\<rparr>"

theorem projection_fits_limits_witness:
  "(let p = buildHermesMemoryProjection (\<lambda>_. ''d'') ''R'' [memory_sample ''1'' ''hello'', memory_sample ''2'' ''world''] []
    in length (file_text '' - '' (px_entries p Memory)) = px_chars p Memory \<and>
       px_chars p Memory \<le> HERMES_MEMORY_LIMITS Memory \<and> [] \<notin> snd ` set (px_entries p Memory))"
  by (rule projection_fits_limits) simp

text \<open>
  Nothing is lost: every note is reported exactly once, as included, as left out for lack of room or
  content, or as excluded by the caller.
\<close>

theorem projection_partitions_notes:
  "(let p = buildHermesMemoryProjection sha256 related notes excluded
    in mset (px_included p) + mset (px_excluded p) =
       mset (map nt_id (filter (\<lambda>n. nt_id n \<notin> set excluded) notes)) + mset (uniq excluded))"
  using fold_ids [where related = related and ns = "in_order (filter (\<lambda>n. nt_id n \<notin> set excluded) notes)" and b = start_built]
  by (simp add: buildHermesMemoryProjection_def Let_def placed_ids_def start_built_def in_order_def
      add.commute add.left_commute)

section \<open>The body survives composing\<close>

text \<open>Lines without a line break that do not start with a dash contain no closing fence.\<close>

definition plain_line :: "string \<Rightarrow> bool" where
  "plain_line l \<longleftrightarrow> l \<noteq> [] \<and> hd l \<noteq> CHR ''-'' \<and> LF \<notin> set l \<and> CR \<notin> set l"

lemma after_fence_skip: "LF \<notin> set l \<Longrightarrow> CR \<notin> set l \<Longrightarrow> after_fence (l @ s) = after_fence s"
  by (induction l) (auto simp: fence_end_def)

lemma after_fence_join:
  assumes "ls \<noteq> []" and "\<forall>l\<in>set ls. plain_line l"
  shows "after_fence (join [LF] ls @ LF # s) = after_fence (LF # s)"
  using assms
proof (induction "[LF]" ls rule: join.induct)
  case (2 x)
  then show ?case by (simp add: after_fence_skip plain_line_def)
next
  case (3 x y ys)
  have "after_fence (join [LF] (x # y # ys) @ LF # s) = after_fence (LF # join [LF] (y # ys) @ LF # s)"
    using 3(3) by (simp add: after_fence_skip plain_line_def)
  moreover have "\<exists>c cs. join [LF] (y # ys) = c # cs \<and> c \<noteq> CHR ''-''"
    using 3(3) by (cases y; cases ys) (auto simp: plain_line_def)
  then have "after_fence (LF # join [LF] (y # ys) @ LF # s) = after_fence (join [LF] (y # ys) @ LF # s)"
    by (auto simp: fence_end_def expect_def)
  ultimately show ?case using 3 by simp
qed simp

lemma plain_source: "LF \<notin> set (sourceRef v) \<and> CR \<notin> set (sourceRef v)"
proof -
  have "matches SOURCE s \<Longrightarrow> c \<in> set s \<Longrightarrow> is_alnum c \<or> one_of ''._:/-'' c" for s c
    unfolding SOURCE_def matches_iff lang_Sq_Cls lang_Rep_Cls by auto
  moreover have "\<not> (is_alnum LF \<or> one_of ''._:/-'' LF)" and "\<not> (is_alnum CR \<or> one_of ''._:/-'' CR)"
    by (simp_all add: char_class_defs)
  ultimately have "LF \<notin> set s \<and> CR \<notin> set s" if "matches SOURCE s" for s using that by blast
  then show ?thesis by (simp add: sourceRef_def Let_def)
qed

lemma plain_oneOf:
  "\<forall>x\<in>set (d # ok). LF \<notin> set x \<and> CR \<notin> set x \<Longrightarrow> LF \<notin> set (oneOf v ok d) \<and> CR \<notin> set (oneOf v ok d)"
  by (auto simp: oneOf_def split: option.splits)

lemma plain_show_int: "LF \<notin> set (show_int i) \<and> CR \<notin> set (show_int i)"
proof -
  have "\<not> is_digit LF" and "\<not> is_digit CR" by (simp_all add: char_class_defs)
  then have "LF \<notin> set (decimal n)" and "CR \<notin> set (decimal n)" for n using decimal_digits by blast+
  then show ?thesis by (simp add: show_int_def)
qed

lemma plain_front:
  assumes "\<forall>t. LF \<notin> set (render t) \<and> CR \<notin> set (render t)"
  shows "\<forall>l\<in>set (front_lines render c u title tags (oneOf k MEMORY_KINDS ''knowledge'') imp
    (oneOf g HERMES_MEMORY_TARGETS ''auto'') (sourceRef v)). plain_line l"
proof -
  have quoted: "LF \<notin> set (json_quote s)" "CR \<notin> set (json_quote s)" for s using json_quote_plain by blast+
  have kind: "LF \<notin> set (oneOf k MEMORY_KINDS ''knowledge'') \<and> CR \<notin> set (oneOf k MEMORY_KINDS ''knowledge'')"
    by (rule plain_oneOf) (simp add: MEMORY_KINDS_def)
  have goal: "LF \<notin> set (oneOf g HERMES_MEMORY_TARGETS ''auto'') \<and> CR \<notin> set (oneOf g HERMES_MEMORY_TARGETS ''auto'')"
    by (rule plain_oneOf) (simp add: HERMES_MEMORY_TARGETS_def)
  show ?thesis
    using quoted kind goal plain_source [of v] plain_show_int [of imp]
    by (auto simp: front_lines_def plain_line_def)
qed

lemma strip_title_exact:
  assumes "title \<noteq> []" and "LF \<notin> set title" and "CR \<notin> set title" and "body \<noteq> []" and "hd body \<noteq> LF"
  shows "strip_title (''# '' @ title @ [LF, LF] @ body) = body"
proof -
  have plain: "\<And>c. c \<in> set title \<Longrightarrow> line_char c" and brk: "\<not> line_char LF"
    using assms(2,3) by (auto simp: line_char_def)
  have "takeWhile line_char (title @ [LF, LF] @ body) = title"
    and "dropWhile line_char (title @ [LF, LF] @ body) = [LF, LF] @ body"
    using brk by (simp_all add: takeWhile_append2 [OF plain] dropWhile_append2 [OF plain])
  moreover have "eols ([LF, LF] @ body) = Some body"
    using assms(4,5) by (simp add: eols_def dropWhile_id)
  ultimately show ?thesis
    using assms(1) expect_append [of "''# ''" "title @ [LF, LF] @ body"] by (simp add: strip_title_def)
qed

definition mentions_heading :: "string \<Rightarrow> string \<Rightarrow> bool" where
  "mentions_heading related s \<longleftrightarrow> sublist ([LF] @ ''## '' @ related) s"

lemma leading_breaks:
  "w \<noteq> [] \<Longrightarrow> last w \<noteq> LF \<Longrightarrow> \<exists>k r. w = replicate k LF @ r \<and> r \<noteq> [] \<and> hd r \<noteq> LF"
proof (induction w)
  case (Cons c cs)
  show ?case
  proof (cases "c = LF")
    case True
    then obtain k r where "cs = replicate k LF @ r" "r \<noteq> []" "hd r \<noteq> LF" using Cons by (cases "cs = []") auto
    then have "c # cs = replicate (Suc k) LF @ r \<and> r \<noteq> [] \<and> hd r \<noteq> LF" using True by simp
    then show ?thesis by blast
  next
    case False
    then have "c # cs = replicate 0 LF @ (c # cs) \<and> c # cs \<noteq> [] \<and> hd (c # cs) \<noteq> LF" by simp
    then show ?thesis by blast
  qed
qed simp

lemma prefix_before: "r @ x # t = w @ q \<Longrightarrow> x \<notin> set w \<Longrightarrow> prefix w r"
  by (auto simp: append_eq_append_conv2 Cons_eq_append_conv prefix_def)

lemma drop_breaks: "dropWhile (\<lambda>c. c = LF) (replicate k LF @ s) = dropWhile (\<lambda>c. c = LF) s"
  by (induction k) auto

text \<open>A heading that starts inside \<open>s\<close> lies within it when a line break follows \<open>s\<close>.\<close>

lemma heading_inside:
  assumes "heading_at related (s @ LF # t)" and "s \<noteq> []" and "last s \<noteq> LF" and "last s \<noteq> CR" and "LF \<notin> set related"
  shows "mentions_heading related s"
proof -
  have within: "\<exists>u r'. s = u @ LF # r' \<and> r' \<noteq> [] \<and> r = r' @ LF # t" if run: "eols (s @ LF # t) = Some r" for r
  proof -
    obtain v where v: "eol (s @ LF # t) = Some v" and r: "r = dropWhile (\<lambda>c. c = LF) v"
      using run by (auto simp: eols_def)
    have "\<exists>u r'. s = u @ LF # r' \<and> v = r' @ LF # t"
    proof (cases s)
      case (Cons c cs)
      then show ?thesis
      proof (cases "c = LF")
        case True
        then have "s = [] @ LF # cs \<and> v = cs @ LF # t" using v Cons by simp
        then show ?thesis by blast
      next
        case False
        then obtain d ds where "c = CR" and "cs = d # ds" and "d = LF"
          using v Cons assms(4) by (cases cs) (auto split: if_splits)
        then have "s = [CR] @ LF # ds \<and> v = ds @ LF # t" using v Cons by simp
        then show ?thesis by blast
      qed
    qed (use assms(2) in simp)
    then obtain u w where s: "s = u @ LF # w" and w: "v = w @ LF # t" by blast
    have "w \<noteq> []" and "last w \<noteq> LF" using s assms(3) by (auto split: if_splits)
    then obtain k r' where w': "w = replicate k LF @ r'" and r': "r' \<noteq> []" "hd r' \<noteq> LF"
      using leading_breaks by blast
    have "r = r' @ LF # t" unfolding r w w' append_assoc drop_breaks using r' by (simp add: dropWhile_id hd_append)
    moreover have "s = (u @ replicate k LF) @ LF # r'" unfolding s w' by (simp add: replicate_app_Cons_same)
    ultimately show ?thesis using r'(1) by blast
  qed
  obtain r q where "eols (s @ LF # t) = Some r" and q: "expect (''## '' @ related) r = Some q"
    using assms(1) by (auto simp: heading_at_def bind_eq_Some_conv)
  from within [OF this(1)] obtain u r' where s: "s = u @ LF # r'" and r: "r = r' @ LF # t" by blast
  have eq: "r' @ LF # t = (''## '' @ related) @ q" using q r by (simp add: expect_Some)
  have "LF \<notin> set (''## '' @ related)" using assms(5) by simp
  then have "prefix (''## '' @ related) r'"
    using prefix_before [OF eq] by blast
  then show ?thesis unfolding mentions_heading_def s prefix_def sublist_def by fastforce
qed

lemma cut_related_body:
  assumes "\<not> mentions_heading related body" and "last body \<noteq> LF" and "last body \<noteq> CR" and "LF \<notin> set related"
  shows "cut_related related (body @ LF # t) = body @ cut_related related (LF # t)"
  using assms
proof (induction body)
  case (Cons c cs)
  have "\<not> mentions_heading related cs"
    using Cons.prems(1) unfolding mentions_heading_def by (meson sublist_Cons_right)
  then have "cut_related related (cs @ LF # t) = cs @ cut_related related (LF # t)"
    using Cons by (cases "cs = []") auto
  moreover have "\<not> heading_at related ((c # cs) @ LF # t)"
    using heading_inside [of related "c # cs" t] Cons.prems by blast
  ultimately show ?case by simp
qed simp

text \<open>
  Round trip. The body recovered from a composed document is the trimmed body it was composed from, if
  the title is a single line and the body does not itself contain the heading of the links section.
\<close>

theorem body_of_composed_note:
  assumes "createObsidianNote_text nfkc render related i now = Inr n"
    and "body = trim (or_else (xq_body i) [])"
    and "LF \<notin> set (nd_title n)" and "CR \<notin> set (nd_title n)" and "\<not> mentions_heading related body"
    and "\<forall>t. LF \<notin> set (render t) \<and> CR \<notin> set (render t)" and "LF \<notin> set related"
  shows "obsidianBody related (nd_markdown n) = body"
proof -
  let ?tags = "trimmed_set 20 (xq_tags i)" and ?links = "trimmed_set 50 (xq_wikilinks i @ map trim (link_names body))"
  let ?title = "trim (or_else (xq_title i) [])"
  let ?front = "front_lines render (or_else (xq_createdAt i) now) now ?title ?tags (oneOf (xq_kind i) MEMORY_KINDS ''knowledge'')
    (importanceOf (xq_importance i)) (oneOf (xq_target i) HERMES_MEMORY_TARGETS ''auto'') (sourceRef (xq_source i))"
  let ?tail = "body @ links_section related ?links @ [LF]"
  let ?rest = "''# '' @ ?title @ [LF, LF] @ ?tail"
  have ne: "body \<noteq> []" "?title \<noteq> []" and title: "nd_title n = ?title"
    and md: "nd_markdown n = ''---'' @ LF # join [LF] ?front @ LF # ''---'' @ [LF, LF] @ ?rest"
    using assms(1) by (auto simp: createObsidianNote_text_def Let_def assms(2) split: if_splits)
  have space: "is_space LF" "is_space CR" by (simp_all add: is_space_def code_of_def)
  have ends: "hd body \<noteq> LF" "last body \<noteq> LF" "last body \<noteq> CR"
    using trim_ends [of "or_else (xq_body i) []"] ne(1) space unfolding assms(2) by metis+
  have close: "after_fence (LF # ''---'' @ [LF, LF] @ ?rest) = Some ?rest"
    by (simp add: fence_end_def eols_def expect_def)
  have "after_fence (join [LF] ?front @ LF # ''---'' @ [LF, LF] @ ?rest) = Some ?rest"
    using after_fence_join [OF _ plain_front [OF assms(6)]] close by (simp add: front_lines_def)
  then have "strip_frontmatter (nd_markdown n) = ?rest"
    unfolding md strip_frontmatter_def expect_append by simp
  moreover have "strip_title ?rest = ?tail"
    using strip_title_exact [of ?title ?tail] assms(3,4) ne ends(1) by (simp add: title)
  moreover have "trim (cut_related related ?tail) = body"
  proof (cases "?links = []")
    case True
    have "cut_related related [LF] = [LF]" by (simp add: heading_at_def eols_def expect_def)
    moreover have "trim (body @ [LF]) = body"
      unfolding assms(2) by (rule trim_spaces_right) (simp add: is_space_def code_of_def)
    ultimately show ?thesis
      using cut_related_body [OF assms(5) ends(2,3) assms(7), of "[]"] True by (simp add: links_section_def)
  next
    case False
    let ?more = "join [LF] (map (\<lambda>l. ''- [['' @ without CHR '']'' (without CHR ''['' l) @ '']]'') ?links) @ [LF]"
    have tail: "?tail = body @ LF # LF # (''## '' @ related) @ LF # LF # ?more"
      using False by (simp add: links_section_def)
    have "eols (LF # LF # (''## '' @ related) @ LF # LF # ?more) = Some ((''## '' @ related) @ LF # LF # ?more)"
      by (simp add: eols_def)
    then have "heading_at related (LF # LF # (''## '' @ related) @ LF # LF # ?more)"
      unfolding heading_at_def by (simp only: bind.bind_lunit expect_append) simp
    then have "cut_related related (LF # LF # (''## '' @ related) @ LF # LF # ?more) = []"
      by (simp only: cut_related.simps if_True)
    then have "cut_related related ?tail = body"
      unfolding tail cut_related_body [OF assms(5) ends(2,3) assms(7)] by simp
    then show ?thesis by (simp add: assms(2))
  qed
  ultimately show ?thesis by (simp add: obsidianBody_def)
qed

definition sample_request :: note_request where
  "sample_request = \<lparr>xq_title = Some '' Trip '', xq_body = Some (''Pack [[bag]]'' @ [LF] @ ''and go''), xq_tags = [''x''],
     xq_wikilinks = [], xq_kind = None, xq_importance = Integer 9, xq_target = Some ''user'', xq_createdAt = None,
     xq_source = None\<rparr>"

theorem body_of_composed_note_witness:
  "case createObsidianNote_text id (\<lambda>_. ''2026'') ''Links'' sample_request 0 of
     Inl _ \<Rightarrow> False | Inr n \<Rightarrow> obsidianBody ''Links'' (nd_markdown n) = ''Pack [[bag]]'' @ [LF] @ ''and go''"
proof -
  obtain n where n: "createObsidianNote_text id (\<lambda>_. ''2026'') ''Links'' sample_request 0 = Inr n"
    and title: "nd_title n = ''Trip''"
    by (simp add: createObsidianNote_text_def Let_def sample_request_def trim_def is_space_def code_of_def)
  have body: "trim (or_else (xq_body sample_request) []) = ''Pack [[bag]]'' @ [LF] @ ''and go''" by code_simp
  have "\<not> mentions_heading ''Links'' (''Pack [[bag]]'' @ [LF] @ ''and go'')"
    by (simp add: mentions_heading_def sublist_Cons_right)
  then show ?thesis using body_of_composed_note [OF n body [symmetric]] n title by simp
qed

end
