(* ===== verification/Projection_Queue.thy ===== *)
theory Projection_Queue
  imports Projection_Store
begin

text \<open>
  The projection queue as a transition system. \<open>queue_step\<close> is its abstract specification: one job is
  added, renewed, claimed, sent back or closed, under the side conditions that keep at most one job per
  agent waiting and at most one in progress. Every operation of the store is shown to be a sequence of
  such steps, and the queue keeps the contract of \<open>lease_queue\<close>.
\<close>

section \<open>The abstract queue\<close>

definition single :: "(memory_job \<Rightarrow> bool) \<Rightarrow> memory_job list \<Rightarrow> bool" where
  "single P js \<longleftrightarrow> (\<forall>j\<in>set js. \<forall>k\<in>set js. P j \<and> P k \<and> j_agent j = j_agent k \<longrightarrow> j_id j = j_id k)"

definition projection_job_ok :: "memory_job \<Rightarrow> bool" where
  "projection_job_ok j \<longleftrightarrow> j_state j \<in> {Pending, Retry, Processing, Completed, Dead} \<and> 0 \<le> j_attempts j \<and>
     (in_progress j \<longleftrightarrow> j_leaseToken j \<noteq> None) \<and> (in_progress j \<longleftrightarrow> j_leaseExpiresAt j \<noteq> None)"

definition queue_inv :: "memory_job list \<Rightarrow> bool" where
  "queue_inv js \<longleftrightarrow> distinct (map j_id js) \<and> single waiting js \<and> single in_progress js \<and>
     (\<forall>j\<in>set js. projection_job_ok j)"

definition idle_agent :: "(memory_job \<Rightarrow> bool) \<Rightarrow> memory_job list \<Rightarrow> memory_job \<Rightarrow> bool" where
  "idle_agent P js x \<longleftrightarrow> (\<forall>j\<in>set js. j_agent j = j_agent x \<longrightarrow> \<not> P j)"

definition job_change :: "memory_job list \<Rightarrow> memory_job \<Rightarrow> memory_job \<Rightarrow> bool" where
  "job_change js x y \<longleftrightarrow> j_id y = j_id x \<and> j_agent y = j_agent x \<and>
     (waiting x \<and> j_state y = Pending \<and> j_attempts y = 0 \<and>
        j_leaseToken y = j_leaseToken x \<and> j_leaseExpiresAt y = j_leaseExpiresAt x
    \<or> waiting x \<and> idle_agent in_progress js x \<and> in_progress y \<and> j_attempts y = j_attempts x + 1 \<and>
        j_leaseToken y \<noteq> None \<and> j_leaseExpiresAt y \<noteq> None
    \<or> in_progress x \<and> j_attempts y = j_attempts x \<and> j_leaseToken y = None \<and> j_leaseExpiresAt y = None \<and>
        (j_state y = Retry \<and> idle_agent waiting js x \<or> j_state y \<in> {Completed, Dead}))"

inductive queue_step :: "memory_job list \<Rightarrow> memory_job list \<Rightarrow> bool" where
  add: "idle_agent waiting js x \<Longrightarrow> j_id x \<notin> j_id ` set js \<Longrightarrow> j_state x = Pending \<Longrightarrow> j_attempts x = 0 \<Longrightarrow>
    j_leaseToken x = None \<Longrightarrow> j_leaseExpiresAt x = None \<Longrightarrow> queue_step js (js @ [x])"
| change: "r < length js \<Longrightarrow> job_change js (js ! r) y \<Longrightarrow> queue_step js (js[r := y])"

inductive_cases queue_stepE: "queue_step js ks"

lemma single_extend:
  assumes "single P js" and "set ks \<subseteq> insert y (set js)"
    and "\<And>k. k \<in> set js \<Longrightarrow> P k \<Longrightarrow> P y \<Longrightarrow> j_agent k = j_agent y \<Longrightarrow> j_id k = j_id y"
  shows "single P ks"
proof -
  have "j_id j = j_id k" if j: "j \<in> insert y (set js)" "k \<in> insert y (set js)" "P j" "P k" "j_agent j = j_agent k" for j k
  proof -
    consider "j = y" "k = y" | "j = y" "k \<in> set js" | "j \<in> set js" "k = y" | "j \<in> set js" "k \<in> set js"
      using j(1,2) by blast
    then show ?thesis
    proof cases
      case 4
      then show ?thesis using j(3-5) assms(1) unfolding single_def by blast
    qed (use j(3-5) assms(3) in simp_all)
  qed
  then show ?thesis using assms(2) unfolding single_def by blast
qed

lemma single_update:
  assumes "single P js" and "j_agent y = j_agent (js ! r)" and "j_id y = j_id (js ! r)"
    and "P y \<Longrightarrow> P (js ! r) \<or> idle_agent P js (js ! r)" and "r < length js"
  shows "single P (js[r := y])"
proof -
  have one: "j_id k = j_id y" if k: "k \<in> set js" "P k" "P y" "j_agent k = j_agent y" for k
    using assms(4) [OF k(3)]
  proof
    assume "P (js ! r)"
    moreover have "js ! r \<in> set js" "j_agent k = j_agent (js ! r)" using assms(2,5) k(4) by simp_all
    ultimately have "j_id k = j_id (js ! r)" using assms(1) k(1,2) unfolding single_def by blast
    then show ?thesis using assms(3) by simp
  next
    assume "idle_agent P js (js ! r)"
    then show ?thesis using k assms(2) by (simp add: idle_agent_def)
  qed
  show ?thesis by (rule single_extend [OF assms(1) set_update_subset_insert one])
qed

lemma job_change_waiting: "job_change js x y \<Longrightarrow> waiting y \<Longrightarrow> waiting x \<or> idle_agent waiting js x"
  by (auto simp: job_change_def waiting_def in_progress_def)

lemma job_change_in_progress: "job_change js x y \<Longrightarrow> in_progress y \<Longrightarrow> in_progress x \<or> idle_agent in_progress js x"
  by (auto simp: job_change_def waiting_def in_progress_def)

lemma job_change_ok: "job_change js x y \<Longrightarrow> projection_job_ok x \<Longrightarrow> projection_job_ok y"
  unfolding job_change_def by (elim conjE disjE) (auto simp: projection_job_ok_def waiting_def in_progress_def)

lemma job_change_same: "job_change js x y \<Longrightarrow> j_id y = j_id x \<and> j_agent y = j_agent x"
  by (simp add: job_change_def)

lemma single_add: "single P js \<Longrightarrow> (P x \<Longrightarrow> idle_agent P js x) \<Longrightarrow> single P (js @ [x])"
  by (rule single_extend [where y = x]) (auto simp: idle_agent_def)

lemma queue_step_inv:
  assumes "queue_step js ks" and "queue_inv js"
  shows "queue_inv ks"
  using assms(1)
proof cases
  case (add x)
  have w: "single waiting (js @ [x])" and p: "single in_progress (js @ [x])"
    by (rule single_add; use assms(2) add in \<open>simp add: queue_inv_def in_progress_def\<close>)+
  show ?thesis using assms(2) add w p by (auto simp: queue_inv_def projection_job_ok_def in_progress_def)
next
  case (change r y)
  note same = job_change_same [OF change(3)]
  have x: "js ! r \<in> set js" using change(2) by simp
  then have ok: "projection_job_ok (js ! r)" using assms(2) by (simp add: queue_inv_def)
  have w: "single waiting ks" unfolding change(1)
    by (rule single_update) (use same change(2) job_change_waiting [OF change(3)] assms(2) in \<open>auto simp: queue_inv_def\<close>)
  have p: "single in_progress ks" unfolding change(1)
    by (rule single_update) (use same change(2) job_change_in_progress [OF change(3)] assms(2) in \<open>auto simp: queue_inv_def\<close>)
  have "\<forall>j\<in>set ks. projection_job_ok j"
    using assms(2) job_change_ok [OF change(3) ok] set_update_subset_insert [of js r y]
    unfolding change(1) queue_inv_def by blast
  moreover have "map j_id ks = map j_id js"
    unfolding change(1) using same change(2) by (simp add: map_update list_update_same_conv)
  ultimately show ?thesis using w p assms(2) by (simp add: queue_inv_def)
qed

lemma queue_steps_inv: "queue_step\<^sup>*\<^sup>* js ks \<Longrightarrow> queue_inv js \<Longrightarrow> queue_inv ks"
  by (induction rule: rtranclp_induct) (auto intro: queue_step_inv)

text \<open>An abstract step never loses a job and never changes a settled one.\<close>

lemma lookup_update:
  assumes "distinct (map j_id js)" and "r < length js" and "j_id y = j_id (js ! r)"
  shows "lookup i (js[r := y]) = (if j_id (js ! r) = i then Some y else lookup i js)"
  using assms
proof (induction js arbitrary: r)
  case (Cons a js)
  show ?case
  proof (cases r)
    case (Suc k)
    have "j_id a \<notin> j_id ` set js" "js ! k \<in> set js" using Cons.prems(1,2) Suc by simp_all
    then have "j_id (js ! k) \<noteq> j_id a" by (metis imageI)
    then show ?thesis using Cons.IH [of k] Cons.prems Suc by auto
  qed (use Cons.prems in auto)
qed simp

lemma queue_step_kept:
  assumes "queue_step js ks" and "queue_inv js" and "lookup i js = Some x"
  shows "\<exists>y. lookup i ks = Some y \<and> (is_final (j_state x) \<longrightarrow> y = x)"
  using assms(1)
proof cases
  case (add y)
  then show ?thesis using assms(3) by (simp add: lookup_snoc)
next
  case (change r y)
  have d: "distinct (map j_id js)" using assms(2) by (simp add: queue_inv_def)
  have id: "j_id y = j_id (js ! r)" using change(3) by (simp add: job_change_def)
  show ?thesis
  proof (cases "j_id (js ! r) = i")
    case True
    then have "x = js ! r" using lookup_nth [OF d change(2), of i] assms(3) by simp
    then show ?thesis using True change(3)
      by (auto simp: change(1) lookup_update [OF d change(2) id] job_change_def is_final_def waiting_def in_progress_def)
  qed (use assms(3) in \<open>simp add: change(1) lookup_update [OF d change(2) id]\<close>)
qed

lemma queue_steps_kept:
  "queue_step\<^sup>*\<^sup>* js ks \<Longrightarrow> queue_inv js \<Longrightarrow> lookup i js = Some x \<Longrightarrow>
    \<exists>y. lookup i ks = Some y \<and> (is_final (j_state x) \<longrightarrow> y = x)"
proof (induction rule: rtranclp_induct)
  case (step ks ls)
  then obtain y where "lookup i ks = Some y" "is_final (j_state x) \<longrightarrow> y = x" by blast
  then show ?case using queue_step_kept [OF step(2)] queue_steps_inv [OF step(1)] step.prems by blast
qed simp

section \<open>The operations are sequences of abstract steps\<close>

lemma upd_first_as_update:
  "List.find p xs = Some x \<Longrightarrow> \<exists>r<length xs. xs ! r = x \<and> upd_first p f xs = xs[r := f x]"
proof (induction xs)
  case (Cons a xs)
  show ?case
  proof (cases "p a")
    case True
    then show ?thesis using Cons.prems by (intro exI [of _ 0]) simp
  next
    case False
    then obtain r where "r < length xs" "xs ! r = x" "upd_first p f xs = xs[r := f x]" using Cons by auto
    then show ?thesis using False by (intro exI [of _ "Suc r"]) simp
  qed
qed simp

lemma change_first:
  assumes "List.find p js = Some x" and "job_change js x (f x)"
  shows "queue_step js (upd_first p f js)"
  using upd_first_as_update [OF assms(1), of f] queue_step.change assms(2) by metis

lemma enqueue_steps:
  assumes "uuid e 0 \<notin> j_id ` set (jobs s)"
  shows "queue_step\<^sup>*\<^sup>* (jobs s) (jobs (snd (enqueueMemoryProjection e r s)))"
proof (cases "matches REASON (or_else (pr_reason r) ''note-write'')")
  case True
  let ?open = "\<lambda>j. j_agent j = pr_agent r \<and> waiting j"
  show ?thesis
  proof (cases "List.find ?open (jobs s)")
    case None
    have "queue_step (jobs s) (jobs s @ [new_memory_job e r (or_else (pr_reason r) ''note-write'')])"
      by (rule queue_step.add) (use None assms in \<open>auto simp: find_None_all new_memory_job_def idle_agent_def\<close>)
    then show ?thesis using True None by (simp add: enqueueMemoryProjection_def Let_def r_into_rtranclp)
  next
    case (Some j)
    have "queue_step (jobs s) (upd_first ?open (renew_job (clock e) (or_else (pr_reason r) ''note-write'')) (jobs s))"
      by (rule change_first [OF Some]) (use find_Some_mem [OF Some] in \<open>auto simp: job_change_def renew_job_def\<close>)
    then show ?thesis using True Some by (simp add: enqueueMemoryProjection_def Let_def r_into_rtranclp)
  qed
qed (simp add: enqueueMemoryProjection_def)

lemma enqueue_ignores_notes:
  "jobs (snd (enqueueMemoryProjection e r (s\<lparr>memory_notes := ns\<rparr>))) = jobs (snd (enqueueMemoryProjection e r s))"
  by (auto simp: enqueueMemoryProjection_def Let_def split: option.splits)

lemma then_enqueue_jobs:
  "jobs (snd (then_enqueue e i (v, s\<lparr>memory_notes := ns\<rparr>))) =
    (if ni_queue i then jobs (snd (enqueueMemoryProjection e (request_of i) s)) else jobs s)"
  by (auto simp: then_enqueue_def enqueue_ignores_notes [where e = e and r = "request_of i" and s = s and ns = ns, symmetric]
      split: prod.splits sum.splits)

lemma write_jobs:
  "jobs (snd (createObsidianNote e i s)) =
    (if ni_queue i then jobs (snd (enqueueMemoryProjection e (request_of i) s)) else jobs s)"
  "jobs (snd (updateObsidianNote e n i s)) \<in>
    {jobs s, jobs (snd (enqueueMemoryProjection e (request_of i) s))}"
  by (simp_all add: createObsidianNote_def updateObsidianNote_def Let_def then_enqueue_jobs split: option.splits)

lemma delete_jobs:
  "jobs (snd (deleteObsidianNote e org user agent n s)) \<in> {jobs s, jobs (snd (enqueueMemoryProjection e
     \<lparr>pr_org = org, pr_user = user, pr_agent = agent, pr_reason = Some ''note-delete''\<rparr> s))}"
proof -
  let ?r = "\<lparr>pr_org = org, pr_user = user, pr_agent = agent, pr_reason = Some ''note-delete''\<rparr>"
  let ?ns = "remove_first (\<lambda>n'. nt_id n' = n \<and> owned_by org user agent n') (memory_notes s)"
  show ?thesis using enqueue_ignores_notes [where e = e and r = ?r and s = s and ns = ?ns]
    by (auto simp: deleteObsidianNote_def Let_def split: prod.splits sum.splits)
qed

lemma idle_if_no_newer:
  assumes "queue_inv js" and "x \<in> set js" and "in_progress x" and "\<not> newer_waiting js x"
  shows "idle_agent waiting js x"
  unfolding idle_agent_def
proof (intro ballI impI)
  fix k assume k: "k \<in> set js" "j_agent k = j_agent x"
  show "\<not> waiting k"
  proof (cases "j_id k = j_id x")
    case True
    then have "k = x" using assms(1,2) k(1) by (simp add: queue_inv_def distinct_map inj_on_def)
    then show ?thesis using assms(3) by (simp add: waiting_def in_progress_def)
  qed (use k assms(4) in \<open>auto simp: newer_waiting_def\<close>)
qed

lemma expire_loop_steps:
  assumes "distinct rs" and "\<forall>r\<in>set rs. r < length js \<and> in_progress (js ! r)" and "queue_inv js"
  shows "queue_step\<^sup>*\<^sup>* js (expire_loop now rs js)"
  using assms
proof (induction rs arbitrary: js)
  case (Cons r rs)
  let ?x = "js ! r"
  let ?js = "js[r := expire_job now (newer_waiting js ?x) ?x]"
  have r: "r < length js" "in_progress ?x" "?x \<in> set js" using Cons.prems(2) by auto
  have "idle_agent waiting js ?x" if "\<not> newer_waiting js ?x"
    using that idle_if_no_newer [OF Cons.prems(3) r(3,2)] by blast
  then have step: "queue_step js ?js"
    by (intro queue_step.change [OF r(1)]) (auto simp: job_change_def expire_job_def r(2))
  have rest: "\<forall>k\<in>set rs. k < length ?js \<and> in_progress (?js ! k)" using Cons.prems(1,2) by (auto simp: nth_list_update)
  have "queue_step\<^sup>*\<^sup>* ?js (expire_loop now rs ?js)"
    using Cons.IH [OF _ rest queue_step_inv [OF step Cons.prems(3)]] Cons.prems(1) by simp
  then show ?case using step by simp
qed simp

lemma lease_loop_steps:
  assumes "distinct rs" and "\<forall>r\<in>set rs. r < length js \<and> waiting (js ! r)"
  shows "queue_step\<^sup>*\<^sup>* js (snd (lease_loop e secs limit rs leased js))"
  using assms
proof (induction rs arbitrary: js leased)
  case (Cons r rs)
  let ?js = "js[r := claim_job (clock e) secs (uuid e (length leased)) (js ! r)]"
  have r: "r < length js" "waiting (js ! r)" using Cons.prems(2) by auto
  have claim: "queue_step js ?js" if "\<not> (\<exists>x\<in>set js. j_agent x = j_agent (js ! r) \<and> in_progress x)"
    by (rule queue_step.change [OF r(1)])
      (use that r(2) in \<open>auto simp: job_change_def claim_job_def idle_agent_def in_progress_def\<close>)
  have rest: "\<forall>k\<in>set rs. k < length ?js \<and> waiting (?js ! k)" using Cons.prems(1,2) by (auto simp: nth_list_update)
  show ?case
    using Cons.IH [of js leased] Cons.IH [OF _ rest, of "leased @ [r]"] claim Cons.prems
    by (auto intro: converse_rtranclp_into_rtranclp)
qed simp

lemma expired_refs_ok:
  "distinct (expired_refs now js)" "\<forall>r\<in>set (expired_refs now js). r < length js \<and> in_progress (js ! r)"
  by (auto simp: expired_refs_def lease_expired_def)

lemma due_refs_ok:
  "distinct (due_refs now js)" "\<forall>r\<in>set (due_refs now js). r < length js \<and> waiting (js ! r)"
  by (auto simp: due_refs_def)

lemma lease_steps:
  assumes "queue_inv (jobs s)"
  shows "queue_step\<^sup>*\<^sup>* (jobs s) (jobs (snd (leaseMemoryProjectionJobs e i s)))"
proof -
  let ?js = "expire_loop (clock e) (expired_refs (clock e) (jobs s)) (jobs s)"
  have "queue_step\<^sup>*\<^sup>* (jobs s) ?js" by (rule expire_loop_steps [OF expired_refs_ok assms])
  also have "queue_step\<^sup>*\<^sup>* ?js (snd (lease_loop e (clamp_num 15 600 60 (pl_seconds i))
      (nat (clamp_num 1 20 1 (pl_limit i))) (due_refs (clock e) ?js) [] ?js))"
    by (rule lease_loop_steps [OF due_refs_ok])
  finally show ?thesis by (simp add: leaseMemoryProjectionJobs_def Let_def case_prod_unfold)
qed

section \<open>Steps of the store\<close>

inductive projection_step :: "projection_state \<Rightarrow> projection_state \<Rightarrow> bool" where
  enqueue: "uuid e 0 \<notin> j_id ` set (jobs s) \<Longrightarrow> projection_step s (snd (enqueueMemoryProjection e r s))"
| create_note: "uuid e 0 \<notin> j_id ` set (jobs s) \<Longrightarrow> projection_step s (snd (createObsidianNote e i s))"
| update_note: "uuid e 0 \<notin> j_id ` set (jobs s) \<Longrightarrow> projection_step s (snd (updateObsidianNote e n i s))"
| delete_note: "uuid e 0 \<notin> j_id ` set (jobs s) \<Longrightarrow> projection_step s (snd (deleteObsidianNote e org user agent n s))"
| mark: "projection_step s (markObsidianProjection e m s)"
| mark_failed: "projection_step s (markObsidianProjectionFailed org user agent s)"
| lease: "projection_step s (snd (leaseMemoryProjectionJobs e li s))"
| complete: "projection_step s (snd (completeMemoryProjectionJob e i token summary s))"
| retry: "projection_step s (snd (retryMemoryProjectionJob e ri s))"

inductive_cases projection_stepE: "projection_step s t"

lemma complete_steps:
  "queue_step\<^sup>*\<^sup>* (jobs s) (jobs (snd (completeMemoryProjectionJob e i token summary s)))"
proof (cases "List.find (holds_job i token) (jobs s)")
  case (Some j)
  have "queue_step (jobs s) (jobs (snd (completeMemoryProjectionJob e i token summary s)))"
    using Some find_Some_mem [OF Some]
    by (auto simp: completeMemoryProjectionJob_def Let_def job_change_def holds_job_def intro!: change_first [OF Some])
  then show ?thesis by simp
qed (simp add: completeMemoryProjectionJob_def)

lemma retry_steps:
  assumes "queue_inv (jobs s)"
  shows "queue_step\<^sup>*\<^sup>* (jobs s) (jobs (snd (retryMemoryProjectionJob e i s)))"
proof (cases "List.find (holds_job (ry_id i) (ry_token i)) (jobs s)")
  case (Some j)
  have j: "j \<in> set (jobs s)" "in_progress j" using find_Some_mem [OF Some] by (auto simp: holds_job_def)
  have "idle_agent waiting (jobs s) j" if "\<not> newer_waiting (jobs s) j"
    using that idle_if_no_newer [OF assms j] by blast
  then have "job_change (jobs s) j (settle_job (clock e) i (newer_waiting (jobs s) j) j)"
    using j(2) by (auto simp: job_change_def settle_job_def Let_def)
  from change_first [OF Some, where f = "settle_job (clock e) i (newer_waiting (jobs s) j)", OF this] show ?thesis using Some by (simp add: retryMemoryProjectionJob_def Let_def)
qed (simp add: retryMemoryProjectionJob_def)

lemma projection_step_steps:
  assumes "projection_step s t" and "queue_inv (jobs s)"
  shows "queue_step\<^sup>*\<^sup>* (jobs s) (jobs t)"
  using assms(1)
proof cases
  case (update_note e n i)
  then show ?thesis using write_jobs(2) [of e n i s] enqueue_steps [of e s "request_of i"] by auto
next
  case (delete_note e org user agent n)
  then show ?thesis
    using delete_jobs [of e org user agent n s] enqueue_steps [of e s
      "\<lparr>pr_org = org, pr_user = user, pr_agent = agent, pr_reason = Some ''note-delete''\<rparr>"] by auto
qed (use assms(2) in \<open>simp_all add: write_jobs(1) enqueue_steps lease_steps complete_steps retry_steps
    markObsidianProjection_def markObsidianProjectionFailed_def\<close>)

interpretation projection_queue: lease_queue "\<lambda>s i. lookup i (jobs s)" "\<lambda>s. queue_inv (jobs s)" projection_step
proof (unfold_locales, goal_cases)
  case (1 s t)
  then show ?case using projection_step_steps queue_steps_inv by blast
next
  case (2 s t i x)
  then show ?case using projection_step_steps queue_steps_kept by blast
next
  case (3 s t i x)
  then show ?case using projection_step_steps queue_steps_kept by blast
qed

lemma projection_reachable_inv: "projection_step\<^sup>*\<^sup>* no_projections s \<Longrightarrow> queue_inv (jobs s)"
proof (erule projection_queue.valid_run)
  show "queue_inv (jobs no_projections)" by (simp add: no_projections_def queue_inv_def single_def)
qed

section \<open>A sample run\<close>

definition at_time :: "instant \<Rightarrow> ident \<Rightarrow> env" where
  "at_time now i = \<lparr>clock = now, uuid = (\<lambda>k. if k = 0 then i else i @ ''n'')\<rparr>"

definition sample_note :: "string \<Rightarrow> note_input" where
  "sample_note slug = \<lparr>ni_id = None, ni_org = ''O'', ni_user = ''U'', ni_agent = ''A'',
     ni_document = \<lparr>nd_title = slug, nd_slug = slug, nd_markdown = slug, nd_frontmatter = JObj [], nd_wikilinks = []\<rparr>,
     ni_kind = None, ni_importance = None, ni_target = None, ni_source = None, ni_queue = True, ni_reason = None\<rparr>"

definition noted :: projection_state where
  "noted = snd (createObsidianNote (at_time 1 ''j'') (sample_note ''s'') no_projections)"

definition noted_leased :: projection_state where
  "noted_leased = snd (leaseMemoryProjectionJobs (at_time 2 ''t'') \<lparr>pl_limit = None, pl_seconds = None\<rparr> noted)"

definition noted_again :: projection_state where
  "noted_again = snd (createObsidianNote (at_time 3 ''k'') (sample_note ''s'') noted_leased)"

lemma sample_steps:
  "projection_step no_projections noted" "projection_step noted noted_leased" "projection_step noted_leased noted_again"
proof -
  have "uuid (at_time 1 ''j'') 0 \<notin> j_id ` set (jobs no_projections)" by code_simp
  then show "projection_step no_projections noted" unfolding noted_def by (rule projection_step.create_note)
  show "projection_step noted noted_leased" unfolding noted_leased_def by (rule projection_step.lease)
  have "uuid (at_time 3 ''k'') 0 \<notin> j_id ` set (jobs noted_leased)" by code_simp
  then show "projection_step noted_leased noted_again" unfolding noted_again_def by (rule projection_step.create_note)
qed

lemma sample_reached:
  "projection_step\<^sup>*\<^sup>* no_projections noted" "projection_step\<^sup>*\<^sup>* no_projections noted_leased"
  "projection_step\<^sup>*\<^sup>* no_projections noted_again"
  using sample_steps by (meson r_into_rtranclp rtranclp.rtrancl_into_rtrancl)+

section \<open>Properties of the projection queue\<close>

text \<open>C18. The store refines the abstract queue: each operation, including a lease call that expires and claims
  several jobs, is a sequence of abstract steps that add, renew, claim, send back or close one job.\<close>

theorem projection_store_refines_queue:
  assumes "projection_step\<^sup>*\<^sup>* no_projections s" and "projection_step s t"
  shows "queue_step\<^sup>*\<^sup>* (jobs s) (jobs t)"
  by (rule projection_step_steps [OF assms(2) projection_reachable_inv [OF assms(1)]])

theorem projection_store_refines_queue_witness: "queue_step\<^sup>*\<^sup>* (jobs noted) (jobs noted_leased)"
  by (rule projection_store_refines_queue [OF sample_reached(1) sample_steps(2)])

lemma single_length:
  assumes "distinct (map j_id js)" and "single P js"
  shows "length (filter (\<lambda>j. j_agent j = a \<and> P j) js) \<le> 1"
proof -
  let ?f = "filter (\<lambda>j. j_agent j = a \<and> P j) js"
  have d: "distinct (map j_id ?f)" using assms(1) by (rule distinct_map_filter)
  have same: "j_id j = j_id k" if "j \<in> set ?f" "k \<in> set ?f" for j k
    using that assms(2) unfolding single_def by simp
  show ?thesis
  proof (rule ccontr)
    assume "\<not> length ?f \<le> 1"
    then obtain j k ks where f: "?f = j # k # ks" by (cases ?f; cases "tl ?f") auto
    then have "j_id j = j_id k" by (intro same) simp_all
    then show False using d f by simp
  qed
qed

text \<open>C4. Projections of an agent are serialized and coalesced: whatever operations run, an agent never has two
  jobs in progress nor two jobs waiting.\<close>

theorem one_projection_per_agent:
  assumes "projection_step\<^sup>*\<^sup>* no_projections s"
  shows "length (filter (\<lambda>j. j_agent j = a \<and> in_progress j) (jobs s)) \<le> 1 \<and>
    length (filter (\<lambda>j. j_agent j = a \<and> waiting j) (jobs s)) \<le> 1"
  using projection_reachable_inv [OF assms] single_length unfolding queue_inv_def by blast

theorem one_projection_per_agent_witness:
  "length (filter (\<lambda>j. j_agent j = ''A'' \<and> in_progress j) (jobs noted_again)) \<le> 1 \<and> length (jobs noted_again) = 2"
  by (rule conjI [OF conjunct1 [OF one_projection_per_agent [OF sample_reached(3)]]]) code_simp

lemma expire_loop_other: "r \<notin> set rs \<Longrightarrow> expire_loop now rs js ! r = js ! r"
  by (induction rs arbitrary: js) auto

lemma length_expire_loop [simp]: "length (expire_loop now rs js) = length js"
  by (induction rs arbitrary: js) auto

lemma length_lease_loop [simp]: "length (snd (lease_loop e secs limit rs leased js)) = length js"
  by (induction rs arbitrary: js leased) auto

lemma lease_loop_nth:
  assumes "distinct rs" and "\<forall>k\<in>set rs. k < length js" and "r < length js"
  shows "snd (lease_loop e secs limit rs leased js) ! r = js ! r \<or>
    (r \<in> set rs \<and> (\<exists>token. snd (lease_loop e secs limit rs leased js) ! r = claim_job (clock e) secs token (js ! r)))"
  using assms
proof (induction rs arbitrary: js leased)
  case (Cons k rs)
  let ?js = "js[k := claim_job (clock e) secs (uuid e (length leased)) (js ! k)]"
  have "snd (lease_loop e secs limit rs (leased @ [k]) ?js) ! r = ?js ! r \<or>
    (r \<in> set rs \<and> (\<exists>token. snd (lease_loop e secs limit rs (leased @ [k]) ?js) ! r = claim_job (clock e) secs token (?js ! r)))"
    by (rule Cons.IH) (use Cons.prems in auto)
  moreover have "snd (lease_loop e secs limit rs leased js) ! r = js ! r \<or>
    (r \<in> set rs \<and> (\<exists>token. snd (lease_loop e secs limit rs leased js) ! r = claim_job (clock e) secs token (js ! r)))"
    by (rule Cons.IH) (use Cons.prems in auto)
  ultimately show ?case using Cons.prems by (cases "k = r") auto
qed simp

lemma lookup_position:
  assumes "distinct (map j_id js)" and "distinct (map j_id ks)" and "lookup i js = Some x"
    and "length ks = length js" and "\<And>r. r < length js \<Longrightarrow> js ! r = x \<Longrightarrow> j_id (ks ! r) = j_id x \<and> Q (ks ! r)"
  shows "\<exists>y. lookup i ks = Some y \<and> Q y"
proof -
  obtain r where r: "r < length js" "js ! r = x" using assms(3) by (metis find_Some_mem in_set_conv_nth)
  have "j_id x = i" using assms(3) by (auto dest: find_Some_mem)
  then have "j_id (ks ! r) = i" "Q (ks ! r)" using assms(5) [OF r] by simp_all
  then show ?thesis using lookup_nth [OF assms(2), of r i] r(1) assms(4) by auto
qed

lemma upd_first_waiting:
  assumes "distinct (map j_id js)" and "\<And>j. j_id (f j) = j_id j" and "lookup i js = Some x" and "waiting x"
    and "\<And>j. p j \<Longrightarrow> waiting j \<Longrightarrow> waiting (f j)"
  shows "\<exists>y. lookup i (upd_first p f js) = Some y \<and> (waiting y \<or> in_progress y)"
  using assms by (auto simp: lookup_upd_first dest!: find_Some_mem)

lemma lease_keeps_waiting:
  assumes "queue_inv (jobs s)" and "lookup i (jobs s) = Some x" and "waiting x"
  shows "\<exists>y. lookup i (jobs (snd (leaseMemoryProjectionJobs e li s))) = Some y \<and> (waiting y \<or> in_progress y)"
proof -
  let ?refs = "expired_refs (clock e) (jobs s)"
  let ?js = "expire_loop (clock e) ?refs (jobs s)"
  let ?secs = "clamp_num 15 600 60 (pl_seconds li)" and ?limit = "nat (clamp_num 1 20 1 (pl_limit li))"
  let ?ks = "snd (lease_loop e ?secs ?limit (due_refs (clock e) ?js) [] ?js)"
  have t: "jobs (snd (leaseMemoryProjectionJobs e li s)) = ?ks"
    by (simp add: leaseMemoryProjectionJobs_def Let_def case_prod_unfold)
  have d: "distinct (map j_id (jobs s))" "distinct (map j_id ?ks)"
    using assms(1) queue_steps_inv [OF lease_steps [OF assms(1)] assms(1), of e li] unfolding t
    by (simp_all add: queue_inv_def)
  have pos: "j_id (?ks ! r) = j_id x \<and> (waiting (?ks ! r) \<or> in_progress (?ks ! r))"
    if r: "r < length (jobs s)" "jobs s ! r = x" for r
  proof -
    have "r \<notin> set ?refs" using r(2) assms(3) by (auto simp: expired_refs_def lease_expired_def waiting_def in_progress_def)
    then have "?js ! r = x" using r(2) by (simp add: expire_loop_other)
    moreover have "?ks ! r = ?js ! r \<or> (\<exists>token. ?ks ! r = claim_job (clock e) ?secs token (?js ! r))"
      using lease_loop_nth [OF due_refs_ok(1), of "clock e" ?js ?js r e ?secs ?limit "[]"]
        due_refs_ok(2) [of "clock e" ?js] r(1) by (metis length_expire_loop)
    moreover have "in_progress (claim_job (clock e) ?secs token x)" "j_id (claim_job (clock e) ?secs token x) = j_id x"
      for token by (simp_all add: claim_job_def in_progress_def)
    ultimately show ?thesis using assms(3) by (elim disjE exE) simp_all
  qed
  show ?thesis unfolding t
  proof (rule lookup_position [OF d assms(2)])
    show "length ?ks = length (jobs s)" by simp
  qed (rule pos)
qed

lemma enqueue_keeps_waiting:
  assumes "distinct (map j_id (jobs s))" and "lookup i (jobs s) = Some x" and "waiting x"
  shows "\<exists>y. lookup i (jobs (snd (enqueueMemoryProjection e r s))) = Some y \<and> (waiting y \<or> in_progress y)"
proof -
  have "waiting (renew_job now reason j)" for now reason j by (simp add: renew_job_def waiting_def)
  moreover have "j_id (renew_job now reason j) = j_id j" for now reason j by (simp add: renew_job_def)
  ultimately show ?thesis using assms
    by (auto simp: enqueueMemoryProjection_def Let_def lookup_snoc split: option.splits intro!: upd_first_waiting)
qed

lemma holds_job_not_waiting: "holds_job i token j \<Longrightarrow> \<not> waiting j"
  by (simp add: holds_job_def waiting_def in_progress_def)

text \<open>C19. A request is never lost: a job that waits, and with it every change it stands for, is still there after any
  operation, waiting or being worked on; it is never closed without having been handed to a worker.\<close>

theorem waiting_projection_is_kept:
  assumes "projection_step\<^sup>*\<^sup>* no_projections s" and "projection_step s t"
    and "lookup i (jobs s) = Some x" and "waiting x"
  shows "\<exists>y. lookup i (jobs t) = Some y \<and> (waiting y \<or> in_progress y)"
proof -
  have inv: "queue_inv (jobs s)" by (rule projection_reachable_inv [OF assms(1)])
  then have d: "distinct (map j_id (jobs s))" by (simp add: queue_inv_def)
  have same: ?thesis if "jobs t = jobs s" using that assms(3,4) by auto
  note enq = enqueue_keeps_waiting [OF d assms(3,4)]
  show ?thesis using assms(2)
  proof cases
    case (update_note e n inp)
    then show ?thesis using write_jobs(2) [of e n inp s] same enq [of e "request_of inp"] by auto
  next
    case (delete_note e org user agent n)
    then show ?thesis using delete_jobs [of e org user agent n s] same enq by auto
  next
    case (complete e j token summary)
    then show ?thesis using assms(3,4) d
      by (auto simp: completeMemoryProjectionJob_def Let_def split: option.splits intro!: upd_first_waiting
          dest: holds_job_not_waiting)
  next
    case (retry e ri)
    then show ?thesis using assms(3,4) d
      by (auto simp: retryMemoryProjectionJob_def Let_def split: option.splits intro!: upd_first_waiting
          dest: holds_job_not_waiting) (simp add: settle_job_def Let_def)
  qed (use assms(3,4) in \<open>auto simp: write_jobs(1) enq lease_keeps_waiting [OF inv assms(3,4)]
      markObsidianProjection_def markObsidianProjectionFailed_def\<close>)
qed

theorem waiting_projection_is_kept_witness:
  "\<exists>y. lookup ''j'' (jobs noted_leased) = Some y \<and> (waiting y \<or> in_progress y)"
proof -
  have "lookup ''j'' (jobs noted) = Some (hd (jobs noted))" "waiting (hd (jobs noted))" by code_simp+
  from waiting_projection_is_kept [OF sample_reached(1) sample_steps(2) this] show ?thesis .
qed

lemma expire_loop_nth:
  "distinct rs \<Longrightarrow> r \<in> set rs \<Longrightarrow> r < length js \<Longrightarrow> \<exists>newer. expire_loop now rs js ! r = expire_job now newer (js ! r)"
proof (induction rs arbitrary: js)
  case (Cons k rs)
  then show ?case
  proof (cases "k = r")
    case True
    then show ?thesis using Cons.prems by (auto simp: expire_loop_other)
  next
    case False
    let ?js = "js[k := expire_job now (newer_waiting js (js ! k)) (js ! k)]"
    have "\<exists>newer. expire_loop now rs ?js ! r = expire_job now newer (?js ! r)"
      using Cons.prems False by (intro Cons.IH) auto
    then show ?thesis using False by simp
  qed
qed simp

lemma nothing_expired_left:
  assumes "j \<in> set (expire_loop now (expired_refs now js) js)"
  shows "\<not> lease_expired now j"
proof -
  let ?refs = "expired_refs now js"
  obtain r where r: "r < length js" "j = expire_loop now ?refs js ! r"
    using assms by (auto simp: in_set_conv_nth)
  show ?thesis
  proof (cases "r \<in> set ?refs")
    case True
    then obtain newer where "j = expire_job now newer (js ! r)"
      using expire_loop_nth [OF expired_refs_ok(1) True r(1)] r(2) by auto
    then show ?thesis by (simp add: expire_job_def lease_expired_def in_progress_def)
  next
    case False
    then show ?thesis using r by (simp add: expire_loop_other expired_refs_def)
  qed
qed

lemma lease_loop_keeps:
  assumes "distinct rs" and "\<forall>k\<in>set rs. k < length js \<and> waiting (js ! k)" and "y \<in> set js" and "in_progress y"
  shows "y \<in> set (snd (lease_loop e secs limit rs leased js))"
proof -
  obtain r where r: "r < length js" "js ! r = y" using assms(3) by (auto simp: in_set_conv_nth)
  have "r \<notin> set rs" using assms(2,4) r(2) by (auto simp: waiting_def in_progress_def)
  then have "snd (lease_loop e secs limit rs leased js) ! r = y"
    using lease_loop_nth [OF assms(1) _ r(1)] assms(2) r(2) by blast
  then show ?thesis using r(1) by (metis length_lease_loop nth_mem)
qed

lemma lease_loop_serves:
  assumes "distinct rs" and "\<forall>k\<in>set rs. k < length js \<and> waiting (js ! k)" and "r \<in> set rs"
  shows "limit \<le> length (fst (lease_loop e secs limit rs leased js)) \<or>
    (\<exists>y\<in>set (snd (lease_loop e secs limit rs leased js)). j_agent y = j_agent (js ! r) \<and> in_progress y)"
  using assms
proof (induction rs arbitrary: js leased)
  case (Cons k rs)
  let ?js = "js[k := claim_job (clock e) secs (uuid e (length leased)) (js ! k)]"
  have rest: "\<forall>m\<in>set rs. m < length js \<and> waiting (js ! m)" "\<forall>m\<in>set rs. m < length ?js \<and> waiting (?js ! m)"
    using Cons.prems by (auto simp: nth_list_update)
  have d: "distinct rs" "k \<notin> set rs" "k < length js" using Cons.prems by auto
  consider (full) "limit \<le> length leased"
    | (busy) "\<not> limit \<le> length leased" "\<exists>x\<in>set js. j_agent x = j_agent (js ! k) \<and> in_progress x"
    | (claimed) "\<not> limit \<le> length leased" "\<not> (\<exists>x\<in>set js. j_agent x = j_agent (js ! k) \<and> in_progress x)"
    by blast
  then show ?case
  proof cases
    case full
    then show ?thesis by simp
  next
    case busy
    then have step: "lease_loop e secs limit (k # rs) leased js = lease_loop e secs limit rs leased js" by simp
    obtain x where x: "x \<in> set js" "j_agent x = j_agent (js ! k)" "in_progress x" using busy(2) by blast
    show ?thesis unfolding step
    proof (cases "r = k")
      case True
      then show "limit \<le> length (fst (lease_loop e secs limit rs leased js)) \<or>
          (\<exists>y\<in>set (snd (lease_loop e secs limit rs leased js)). j_agent y = j_agent (js ! r) \<and> in_progress y)"
        using lease_loop_keeps [OF d(1) rest(1) x(1,3)] x(2,3) by blast
    qed (use Cons.IH [OF d(1) rest(1)] Cons.prems(3) in auto)
  next
    case claimed
    then have step: "lease_loop e secs limit (k # rs) leased js = lease_loop e secs limit rs (leased @ [k]) ?js" by (subst lease_loop.simps(2)) (simp only: if_False)
    have c: "?js ! k \<in> set ?js" "in_progress (?js ! k)" "j_agent (?js ! k) = j_agent (js ! k)"
      using d(3) by (simp_all add: set_update_memI) (simp_all add: claim_job_def in_progress_def)
    show ?thesis unfolding step
    proof (cases "r = k")
      case True
      then show "limit \<le> length (fst (lease_loop e secs limit rs (leased @ [k]) ?js)) \<or>
          (\<exists>y\<in>set (snd (lease_loop e secs limit rs (leased @ [k]) ?js)). j_agent y = j_agent (js ! r) \<and> in_progress y)"
        using lease_loop_keeps [OF d(1) rest(2) c(1,2)] c(2,3) by blast
    qed (use Cons.IH [OF d(1) rest(2), of "leased @ [k]"] Cons.prems(3) in auto)
  qed
qed simp

text \<open>C20. Leasing leaves no agent waiting without cause: after a lease call, a job that is due is still waiting only
  if the call handed out as many jobs as it may, or the agent has a job in progress whose lease is
  running; in particular expired leases never block an agent.\<close>

theorem due_projections_are_served:
  assumes "leaseMemoryProjectionJobs e i s = (got, t)" and "x \<in> set (jobs t)" and "waiting x"
    and "j_availableAt x \<le> clock e"
  shows "nat (clamp_num 1 20 1 (pl_limit i)) \<le> length got \<or>
    (\<exists>y\<in>set (jobs t). j_agent y = j_agent x \<and> in_progress y \<and> \<not> lease_expired (clock e) y)"
proof -
  let ?js = "expire_loop (clock e) (expired_refs (clock e) (jobs s)) (jobs s)"
  let ?secs = "clamp_num 15 600 60 (pl_seconds i)" and ?limit = "nat (clamp_num 1 20 1 (pl_limit i))"
  let ?l = "lease_loop e ?secs ?limit (due_refs (clock e) ?js) [] ?js"
  note due = due_refs_ok [of "clock e" ?js]
  have t: "jobs t = snd ?l" "length got = length (fst ?l)"
    using assms(1) by (auto simp: leaseMemoryProjectionJobs_def Let_def case_prod_unfold)
  have nth: "snd ?l ! r = ?js ! r \<or> (\<exists>token. snd ?l ! r = claim_job (clock e) ?secs token (?js ! r))"
    if "r < length ?js" for r
    using lease_loop_nth [OF due(1) _ that, of e ?secs ?limit "[]"] due(2) by blast
  have fresh: "\<not> lease_expired (clock e) (claim_job (clock e) ?secs token z)" for token z
    by (simp add: claim_job_def lease_expired_def clamp_num_def)
  have alive: "\<not> lease_expired (clock e) y" if y: "y \<in> set (jobs t)" for y
  proof -
    obtain r where r: "r < length (snd ?l)" "y = snd ?l ! r" using y t(1) by (auto simp: in_set_conv_nth)
    then have r': "r < length ?js" by simp
    then have "?js ! r \<in> set ?js" by simp
    then show ?thesis using nth [OF r'] fresh nothing_expired_left r(2) by metis
  qed
  obtain r where r: "r < length (snd ?l)" "x = snd ?l ! r" using assms(2) t(1) by (auto simp: in_set_conv_nth)
  then have r': "r < length ?js" by simp
  have "\<not> waiting (claim_job (clock e) ?secs token z)" for token z by (simp add: claim_job_def waiting_def)
  then have x: "x = ?js ! r" using nth [OF r'] r(2) assms(3) by metis
  then have "r \<in> set (due_refs (clock e) ?js)" using r' assms(3,4) by (simp add: due_refs_def)
  from lease_loop_serves [OF due this, of ?limit e ?secs "[]"] show ?thesis
    using alive t x by auto
qed

theorem due_projections_are_served_witness:
  "\<exists>y\<in>set (jobs (snd (leaseMemoryProjectionJobs (at_time 9 ''t'') \<lparr>pl_limit = Some 5, pl_seconds = None\<rparr> noted_again))).
     j_agent y = ''A'' \<and> in_progress y \<and> \<not> lease_expired 9 y"
proof -
  let ?l = "leaseMemoryProjectionJobs (at_time 9 ''t'') \<lparr>pl_limit = Some 5, pl_seconds = None\<rparr> noted_again"
  let ?x = "hd (tl (jobs (snd ?l)))"
  have x: "?x \<in> set (jobs (snd ?l))" "waiting ?x" "j_availableAt ?x \<le> clock (at_time 9 ''t'')" "j_agent ?x = ''A''"
    "length (fst ?l) = 0" "nat (clamp_num 1 20 1 (Some 5)) = 5" "clock (at_time 9 ''t'') = 9" by code_simp+
  from due_projections_are_served [of "at_time 9 ''t''" "\<lparr>pl_limit = Some 5, pl_seconds = None\<rparr>" noted_again,
      OF surjective_pairing x(1-3)] x(4-7) show ?thesis by simp
qed

section \<open>Synchronization marks\<close>

text \<open>A projection only marks the revision it read: a note edited while its projection ran keeps the edited
  content and stays pending, so the next projection picks it up.\<close>

theorem edit_during_projection_stays_pending:
  assumes "getObsidianNote (ni_org i) (ni_user i) (ni_agent i) n s = Some old"
    and "updateObsidianNote e n i s = (Inr (Some new), t)"
    and "map_of (pm_revisions m) n = Some (nt_revision old)"
  shows "new \<in> set (memory_notes (markObsidianProjection e' m t)) \<and> nt_sync new = ''pending'' \<and>
    nt_revision new = nt_revision old + 1 \<and> nd_markdown new = nd_markdown (ni_document i)"
proof -
  let ?mine = "\<lambda>k :: memory_note. nt_id k = n \<and> owned_by (ni_org i) (ni_user i) (ni_agent i) k"
  have written: "fst v = w \<and> memory_notes u = memory_notes (snd v)" if "then_enqueue e i v = (Inr w, u)"
    for v :: "memory_note option \<times> projection_state" and w u
    using that by (auto simp: then_enqueue_def enqueueMemoryProjection_def Let_def
        split: prod.splits sum.splits option.splits if_splits)
  have found: "List.find ?mine (memory_notes s) = Some old" using assms(1) by (simp add: getObsidianNote_def)
  let ?writing = "\<lambda>k. (put_document (ni_document i) k)\<lparr>nt_kind := or_else (ni_kind i) (nt_kind k),
            nt_importance := or_else (ni_importance i) (nt_importance k),
            nt_target := or_else (ni_target i) (nt_target k),
            nt_source := or_else (ni_source i) (nt_source k),
            nt_revision := nt_revision k + 1, nt_sync := ''pending'', nt_updatedAt := clock e\<rparr>"
  have upd: "updateObsidianNote e n i s = then_enqueue e i (Some (?writing old), s\<lparr>memory_notes := upd_first ?mine ?writing (memory_notes s)\<rparr>)"
    using found by (simp add: updateObsidianNote_def Let_def)
  from written [OF assms(2) [unfolded upd]] have new: "new = ?writing old"
    and "memory_notes t = upd_first ?mine ?writing (memory_notes s)" by simp_all
  then have mem: "new \<in> set (memory_notes t)" using mem_upd_first [OF found, of ?writing] new by simp
  have id: "nt_id new = n" "nt_revision new = nt_revision old + 1" "nt_sync new = ''pending''"
    "nd_markdown new = nd_markdown (ni_document i)"
    using new find_Some_mem [OF found] by (simp_all add: put_document_def)
  have "mark_note (clock e') m new = new" using id assms(3) by (simp add: mark_note_def)
  then have "new \<in> set (memory_notes (markObsidianProjection e' m t))"
    using mem by (auto simp: markObsidianProjection_def upd_all_def image_iff intro!: bexI [of _ new])
  then show ?thesis using id by simp
qed

theorem edit_during_projection_stays_pending_witness:
  "\<exists>new. new \<in> set (memory_notes (markObsidianProjection (at_time 9 ''t'')
       \<lparr>pm_org = ''O'', pm_user = ''U'', pm_agent = ''A'', pm_included = [''jn''], pm_conflicts = [], pm_revisions = [(''jn'', 1)]\<rparr>
       (snd (updateObsidianNote (at_time 3 ''u'') ''jn'' (sample_note ''s2'') noted_leased)))) \<and> nt_sync new = ''pending''"
proof -
  let ?i = "sample_note ''s2''" and ?m = "\<lparr>pm_org = ''O'', pm_user = ''U'', pm_agent = ''A'', pm_included = [''jn''],
    pm_conflicts = [], pm_revisions = [(''jn'', 1)]\<rparr>"
  let ?r = "updateObsidianNote (at_time 3 ''u'') ''jn'' ?i noted_leased"
  have old: "getObsidianNote (ni_org ?i) (ni_user ?i) (ni_agent ?i) ''jn'' noted_leased = Some (hd (memory_notes noted_leased))"
    "map_of (pm_revisions ?m) ''jn'' = Some (nt_revision (hd (memory_notes noted_leased)))" by code_simp+
  have "case fst ?r of Inr (Some _) \<Rightarrow> True | _ \<Rightarrow> False" by code_simp
  then obtain new where "?r = (Inr (Some new), snd ?r)"
    by (cases ?r) (auto split: sum.splits option.splits)
  from edit_during_projection_stays_pending [OF old(1) this old(2), of "at_time 9 ''t''"] show ?thesis by blast
qed

end
