(* ===== verification/Memory_Worker.thy ===== *)
theory Memory_Worker
  imports Memory_Documents Tenant_Records Projection_Queue
begin

text \<open>
  The worker that serves the projection queue: \<open>packages/memory/projection-worker.mjs\<close> (lease, process,
  settle) and \<open>packages/memory/projection-coordinator.mjs\<close> (one synchronization of an agent's memory).

  The runtime of the agent is outside the repository: \<open>memory_runtime\<close> has its two operations as
  functions. A request to it is a point where other tasks run; \<open>meanwhile\<close> is what they do to the
  repository, any function.
\<close>

section \<open>State and parameters\<close>

record memory_world =
  mw_fleet :: fleet_state
  mw_tenant :: tenant_state
  mw_projection :: projection_state

record memory_entry =
  me_sha :: string
  me_content :: string

record memory_snapshot =
  mo_entries :: "target \<Rightarrow> memory_entry list"
  mo_manifest :: "target \<Rightarrow> (ident \<times> string) list" \<comment> \<open>note and hash of each entry written last time\<close>
  mo_digest :: string

record memory_runtime =
  mr_snapshot :: "agent \<Rightarrow> failure + memory_snapshot"
  mr_apply :: "agent \<Rightarrow> string \<Rightarrow> projection \<Rightarrow> failure + (target \<Rightarrow> nat option)"

record text_functions =
  tf_nfkc :: "string \<Rightarrow> string"
  tf_render :: "instant \<Rightarrow> string"
  tf_sha256 :: "string \<Rightarrow> string"
  tf_related :: string

section \<open>One synchronization\<close>

definition target_name :: "target \<Rightarrow> string" where
  "target_name t = (case t of Memory \<Rightarrow> ''memory'' | User \<Rightarrow> ''user'')"

text \<open>Notes whose entry is no longer in the file they were written to.\<close>

definition conflicts_of :: "memory_snapshot \<Rightarrow> ident list" where
  "conflicts_of m =
     uniq (concat (map (\<lambda>t. map fst (filter (\<lambda>(i, h). h \<notin> me_sha ` set (mo_entries m t)) (mo_manifest m t))) [Memory, User]))"

definition native_source :: "target \<Rightarrow> memory_entry \<Rightarrow> string" where
  "native_source t x = ''hermes-native:'' @ target_name t @ '':'' @ me_sha x"

definition import_request :: "target \<Rightarrow> memory_entry \<Rightarrow> note_request" where
  "import_request t x =
     \<lparr>xq_title = Some (''Hermes '' @ target_name t @ '' memory '' @ take 8 (me_sha x)), xq_body = Some (me_content x),
      xq_tags = [], xq_wikilinks = [], xq_kind = Some (if t = User then ''preference'' else ''knowledge''),
      xq_importance = Integer 4, xq_target = Some (target_name t), xq_createdAt = None,
      xq_source = Some (native_source t x)\<rparr>"

definition import_input :: "memory_job \<Rightarrow> note_text \<Rightarrow> note_input" where
  "import_input j n =
     \<lparr>ni_id = None, ni_org = j_org j, ni_user = j_user j, ni_agent = j_agent j,
      ni_document = note_document.truncate n, ni_kind = Some (xt_kind n), ni_importance = Some (xt_importance n),
      ni_target = Some (xt_target n), ni_source = Some (xt_source n), ni_queue = False, ni_reason = None\<rparr>"

definition import_audit :: "memory_job \<Rightarrow> target \<Rightarrow> memory_entry \<Rightarrow> memory_note \<Rightarrow> audit_input" where
  "import_audit j t x n =
     \<lparr>ui_audit = None, ui_auditOrg = Some (j_org j), ui_actor = None, ui_action = ''memory.hermes.import'',
      ui_targetType = ''obsidian_note'', ui_target = Some (nt_id n),
      ui_metadata = Some (JObj [(''agentId'', JStr (j_agent j)), (''target'', JStr (target_name t)),
        (''sourceHash'', JStr (me_sha x)), (''workerJobId'', JStr (j_id j))])\<rparr>"

text \<open>
  The loop over the entries the agent wrote itself: those that no projection wrote and that were not
  imported before become notes. Each import draws up to three identifiers.
\<close>

fun import_entries ::
  "env \<Rightarrow> nat \<Rightarrow> text_functions \<Rightarrow> memory_job \<Rightarrow> string list \<Rightarrow> (target \<times> memory_entry) list \<Rightarrow> string list \<Rightarrow> nat \<Rightarrow>
     memory_world \<Rightarrow> (failure + nat) \<times> memory_world" where
  "import_entries e n f j projected [] native imported w = (Inr imported, w)"
| "import_entries e n f j projected ((t, x) # xs) native imported w =
     (if me_sha x \<in> set projected \<or> native_source t x \<in> set native
      then import_entries e n f j projected xs native imported w
      else
        (case createObsidianNote_text (tf_nfkc f) (tf_render f) (tf_related f) (import_request t x) (clock e) of
           Inl err \<Rightarrow> (Inl err, w)
         | Inr doc \<Rightarrow>
             (case createObsidianNote (env_from n e) (import_input j doc) (mw_projection w) of
                (Inl err, p) \<Rightarrow> (Inl err, w\<lparr>mw_projection := p\<rparr>)
              | (Inr note, p) \<Rightarrow>
                  import_entries e (n + 3) f j projected xs (native @ [native_source t x]) (Suc imported)
                    (w\<lparr>mw_projection := p,
                       mw_tenant := snd (recordAudit (env_from (n + 2) e) (import_audit j t x note) (mw_tenant w))\<rparr>))))"

definition owner_notes :: "memory_job \<Rightarrow> memory_world \<Rightarrow> memory_note list" where
  "owner_notes j w = listObsidianNotes id (j_org j) (j_user j) (j_agent j) [] (mw_projection w)"

definition job_owner :: "memory_job \<Rightarrow> memory_world \<Rightarrow> agent option" where
  "job_owner j w =
     (case getAgent (j_agent j) (mw_fleet w) of
        None \<Rightarrow> None
      | Some a \<Rightarrow> if ag_org a \<noteq> j_org j \<or> ag_owner a \<noteq> j_user j then None else Some a)"

definition marks_of :: "memory_job \<Rightarrow> ident list \<Rightarrow> projection \<Rightarrow> memory_note list \<Rightarrow> projection_marks" where
  "marks_of j conflicts p notes =
     \<lparr>pm_org = j_org j, pm_user = j_user j, pm_agent = j_agent j, pm_included = px_included p,
      pm_conflicts = conflicts, pm_revisions = map (\<lambda>n. (nt_id n, nt_revision n)) (rev notes)\<rparr>"

definition sync_summary :: "ident list \<Rightarrow> projection \<Rightarrow> nat \<Rightarrow> (target \<Rightarrow> nat option) \<Rightarrow> json" where
  "sync_summary conflicts p imported chars =
     (let number = (\<lambda>n :: nat. JNum (Integer (int n)))
      in JObj [(''status'', JStr (if conflicts \<noteq> [] then ''conflict'' else ''materialized'')),
           (''projectionId'', JStr (px_id p)), (''imported'', number imported), (''conflictCount'', number (length conflicts)),
           (''memoryNotes'', number (length (px_entries p Memory))), (''userNotes'', number (length (px_entries p User))),
           (''memoryChars'', number (or_else (chars Memory) (px_chars p Memory))),
           (''userChars'', number (or_else (chars User) (px_chars p User))),
           (''excluded'', number (length (px_excluded p)))])"

definition import_native ::
  "env \<Rightarrow> text_functions \<Rightarrow> memory_job \<Rightarrow> memory_snapshot \<Rightarrow> memory_world \<Rightarrow> (failure + nat) \<times> memory_world" where
  "import_native e f j m w =
     import_entries e 0 f j (map snd (mo_manifest m Memory @ mo_manifest m User))
       (concat (map (\<lambda>t. map (Pair t) (mo_entries m t)) [Memory, User])) (map nt_source (owner_notes j w)) 0 w"

text \<open>From the second listing of the notes to the marks; the runtime writes in between.\<close>

definition write_projection ::
  "env \<Rightarrow> text_functions \<Rightarrow> memory_runtime \<Rightarrow> (memory_world \<Rightarrow> memory_world) \<Rightarrow> memory_job \<Rightarrow> agent \<Rightarrow> memory_snapshot \<Rightarrow>
     nat \<Rightarrow> memory_world \<Rightarrow> (failure + json) \<times> memory_world" where
  "write_projection e f rt meanwhile j a m imported w =
     (let notes = owner_notes j w;
          conflicts = conflicts_of m;
          p = buildHermesMemoryProjection (tf_sha256 f) (tf_related f) notes conflicts;
          w' = meanwhile w
      in case mr_apply rt a (mo_digest m) p of
           Inl err \<Rightarrow> (Inl err, w')
         | Inr chars \<Rightarrow>
             (Inr (sync_summary conflicts p imported chars),
              w'\<lparr>mw_projection := markObsidianProjection e (marks_of j conflicts p notes) (mw_projection w')\<rparr>))"

definition synchronizeAgentMemory ::
  "env \<Rightarrow> text_functions \<Rightarrow> memory_runtime option \<Rightarrow> (memory_world \<Rightarrow> memory_world) \<Rightarrow> memory_job \<Rightarrow> memory_world \<Rightarrow>
     (failure + json) \<times> memory_world" where
  "synchronizeAgentMemory e f client meanwhile j w =
     (case client of
        None \<Rightarrow> (Inl (CodedError ''runtime_unavailable'' (Some 503)), w)
      | Some rt \<Rightarrow>
          (case job_owner j w of
             None \<Rightarrow> (Inl (CodedError ''memory_projection_owner_mismatch'' (Some 409)), w)
           | Some a \<Rightarrow>
               (let w1 = meanwhile w
                in case mr_snapshot rt a of
                     Inl err \<Rightarrow> (Inl err, w1)
                   | Inr m \<Rightarrow>
                       (case import_native e f j m w1 of
                          (Inl err, w2) \<Rightarrow> (Inl err, w2)
                        | (Inr imported, w2) \<Rightarrow> write_projection e f rt meanwhile j a m imported w2))))"

section \<open>The worker\<close>

definition FAILURE_CODE :: rexp where
  "FAILURE_CODE = Sq (Cls is_lower) (Rep (Cls (\<lambda>c. is_lower c \<or> is_digit c \<or> one_of ''_.-'' c)) 0 (Some 127))"

definition safeErrorCode :: "failure \<Rightarrow> string" where
  "safeErrorCode err =
     (let value = lower_case (or_else (failure_code err) ''memory_projection_failed'')
      in if matches FAILURE_CODE value then value else ''memory_projection_failed'')"

record worker_options =
  wo_batchSize :: "int option"
  wo_leaseSeconds :: "int option"
  wo_maxAttempts :: "int option"
  wo_baseRetryMs :: "int option"
  wo_maxRetryMs :: "int option"

record memory_worker =
  wk_batchSize :: int
  wk_leaseSeconds :: int
  wk_maxAttempts :: int
  wk_baseRetryMs :: int
  wk_maxRetryMs :: int

definition new_worker :: "worker_options \<Rightarrow> memory_worker" where
  "new_worker o' =
     (let base = (case wo_baseRetryMs o' of None \<Rightarrow> 2000 | Some b \<Rightarrow> max 0 b)
      in \<lparr>wk_batchSize = clamp_num 1 20 4 (wo_batchSize o'), wk_leaseSeconds = clamp_num 15 600 90 (wo_leaseSeconds o'),
          wk_maxAttempts = clamp_num 1 100 8 (wo_maxAttempts o'), wk_baseRetryMs = base,
          wk_maxRetryMs = max base (or_else (wo_maxRetryMs o') (5 * 60000))\<rparr>)"

definition retryDelay :: "memory_worker \<Rightarrow> int \<Rightarrow> int" where
  "retryDelay k attempts = min (wk_maxRetryMs k) (wk_baseRetryMs k * 2 ^ nat (max 0 (attempts - 1)))"

definition retry_of :: "memory_worker \<Rightarrow> memory_job \<Rightarrow> failure \<Rightarrow> retry_input" where
  "retry_of k j err =
     \<lparr>ry_id = j_id j, ry_token = or_else (j_leaseToken j) [], ry_errorCode = safeErrorCode err,
      ry_maxAttempts = Some (wk_maxAttempts k), ry_delayMs = Some (retryDelay k (j_attempts j))\<rparr>"

text \<open>\<open>process\<close>: the operations of the store do not fail, so the handler for that is not reached.\<close>

definition process_job ::
  "env \<Rightarrow> memory_worker \<Rightarrow> (memory_job \<Rightarrow> memory_world \<Rightarrow> (failure + json) \<times> memory_world) \<Rightarrow> memory_job \<Rightarrow> memory_world \<Rightarrow>
     memory_job option \<times> memory_world" where
  "process_job e k project j w =
     (case project j w of
        (Inr summary, w1) \<Rightarrow>
          (case completeMemoryProjectionJob e (j_id j) (or_else (j_leaseToken j) []) (Some summary) (mw_projection w1) of
             (r, p) \<Rightarrow> (r, w1\<lparr>mw_projection := p\<rparr>))
      | (Inl err, w1) \<Rightarrow>
          (case retryMemoryProjectionJob e (retry_of k j err) (mw_projection w1) of
             (r, p) \<Rightarrow>
               (r, w1\<lparr>mw_projection :=
                    if map_option j_state r = Some Dead
                    then markObsidianProjectionFailed (j_org j) (j_user j) (j_agent j) p else p\<rparr>)))"

text \<open>
  \<open>runOnce\<close>. The jobs of a batch belong to different agents and are processed concurrently; the model
  processes them one after the other, which is one of the schedules.
\<close>

fun process_all ::
  "env \<Rightarrow> memory_worker \<Rightarrow> (memory_job \<Rightarrow> memory_world \<Rightarrow> (failure + json) \<times> memory_world) \<Rightarrow> memory_job list \<Rightarrow>
     memory_world \<Rightarrow> memory_job option list \<times> memory_world" where
  "process_all e k project [] w = ([], w)"
| "process_all e k project (j # js) w =
     (let (r, w1) = process_job e k project j w; (rs, w2) = process_all e k project js w1 in (r # rs, w2))"

definition runOnce ::
  "env \<Rightarrow> memory_worker \<Rightarrow> (memory_job \<Rightarrow> memory_world \<Rightarrow> (failure + json) \<times> memory_world) \<Rightarrow> memory_world \<Rightarrow>
     memory_job option list \<times> memory_world" where
  "runOnce e k project w =
     (let (js, p) = leaseMemoryProjectionJobs e \<lparr>pl_limit = Some (wk_batchSize k), pl_seconds = Some (wk_leaseSeconds k)\<rparr>
            (mw_projection w)
      in process_all e k project js (w\<lparr>mw_projection := p\<rparr>))"

section \<open>Retrying\<close>

text \<open>
  The delay before a retry doubles with every attempt until it reaches the maximum: it is never longer
  than the maximum, never shorter than the base delay, and never shrinks from one attempt to the next.
\<close>

theorem retry_delay_bounds:
  "(let k = new_worker o'
    in wk_baseRetryMs k \<le> retryDelay k a \<and> retryDelay k a \<le> wk_maxRetryMs k \<and>
       retryDelay k (a + 1) = (if 1 \<le> a then min (wk_maxRetryMs k) (2 * retryDelay k a) else retryDelay k a))"
proof -
  define k where "k = new_worker o'"
  define b where "b = wk_baseRetryMs k"
  have b: "0 \<le> b" and m: "b \<le> wk_maxRetryMs k"
    by (auto simp: k_def b_def new_worker_def Let_def split: option.splits)
  have "b \<le> b * 2 ^ n" for n using b mult_left_mono [of 1 "2 ^ n" b] by simp
  moreover have "b * 2 ^ nat (max 0 (a + 1 - 1)) = 2 * (b * 2 ^ nat (max 0 (a - 1)))" if "1 \<le> a"
  proof -
    have "nat a = Suc (nat (a - 1))" using that by auto
    then show ?thesis using that by (simp add: max_def)
  qed
  moreover have "nat (max 0 (a + 1 - 1)) = nat (max 0 (a - 1))" if "\<not> 1 \<le> a" using that by auto
  ultimately show ?thesis
    using m b unfolding Let_def k_def [symmetric] retryDelay_def b_def [symmetric] by (auto simp: min_def)
qed

section \<open>Settling\<close>

text \<open>
  A processed job never stays leased. If the worker still holds the lease when the projection returns
  or fails, the job is completed, waits for a retry, or is dead afterwards, and its lease is gone; a
  completed one is the only outcome of a projection that returned.
\<close>

theorem processed_job_is_settled:
  assumes "project j w = (result, w1)" and "distinct (map j_id (jobs (mw_projection w1)))"
    and "x \<in> set (jobs (mw_projection w1))" and "holds_job (j_id j) (or_else (j_leaseToken j) []) x"
  shows "\<exists>y. List.find (\<lambda>y. j_id y = j_id j) (jobs (mw_projection (snd (process_job e k project j w)))) = Some y \<and>
    j_leaseToken y = None \<and>
    (case result of Inr summary \<Rightarrow> j_state y = Completed \<and> mj_summary y = summary
     | Inl err \<Rightarrow> j_state y \<in> {Retry, Dead, Completed} \<and> j_lastErrorCode y = Some (safeErrorCode err))"
proof -
  let ?h = "holds_job (j_id j) (or_else (j_leaseToken j) [])"
  let ?js = "jobs (mw_projection w1)"
  have ids: "\<And>x. ?h x \<Longrightarrow> j_id x = j_id j" by (simp add: holds_job_def)
  have found: "List.find ?h ?js = Some x"
  proof (rule find_unique [where k = j_id])
    show "j_id y = j_id x" if "y \<in> set ?js" and "?h y" for y using ids [OF that(2)] ids [OF assms(4)] by simp
  qed (use assms(2-4) in simp_all)
  have at: "List.find (\<lambda>y. j_id y = j_id j) (upd_first ?h g ?js) = Some (g x)"
    if "\<And>x. j_id (g x) = j_id x" for g
  proof (rule find_unique [where k = j_id])
    show "distinct (map j_id (upd_first ?h g ?js))" using assms(2) that by (simp add: map_upd_first)
    show "g x \<in> set (upd_first ?h g ?js)" using found by (rule mem_upd_first)
  qed (use that ids [OF assms(4)] in auto)
  show ?thesis
  proof (cases result)
    case (Inr summary)
    then show ?thesis
      using assms(1) found at by (simp add: process_job_def completeMemoryProjectionJob_def Let_def)
  next
    case (Inl err)
    have frame: "jobs (markObsidianProjectionFailed org user agent p) = jobs p" for org user agent p
      by (simp add: markObsidianProjectionFailed_def)
    let ?i = "retry_of k j err"
    have "ry_id ?i = j_id j" and "ry_token ?i = or_else (j_leaseToken j) []" and "ry_errorCode ?i = safeErrorCode err"
      by (simp_all add: retry_of_def)
    then show ?thesis
      using Inl assms(1) found at by (auto simp: process_job_def retryMemoryProjectionJob_def Let_def frame settle_job_def)
  qed
qed

definition sample_job :: memory_job where
  "sample_job =
     (let e = \<lparr>clock = 0, uuid = (\<lambda>_. ''k'')\<rparr>
      in claim_job 0 60 ''k'' (new_memory_job e \<lparr>pr_org = ''o'', pr_user = ''u'', pr_agent = ''a'', pr_reason = None\<rparr> ''note-write''))"

definition sample_leased :: memory_world where
  "sample_leased =
     \<lparr>mw_fleet = empty_fleet, mw_tenant = empty_tenant, mw_projection = no_projections\<lparr>jobs := [sample_job]\<rparr>\<rparr>"

theorem processed_job_is_settled_witness:
  "\<exists>y. List.find (\<lambda>y. j_id y = ''k'')
      (jobs (mw_projection (snd (process_job \<lparr>clock = 1, uuid = (\<lambda>_. [])\<rparr>
         (new_worker \<lparr>wo_batchSize = None, wo_leaseSeconds = None, wo_maxAttempts = None, wo_baseRetryMs = None, wo_maxRetryMs = None\<rparr>)
         (\<lambda>j w. (Inl (TypeError ''x''), w)) sample_job sample_leased)))) = Some y \<and>
     j_leaseToken y = None \<and> j_state y \<in> {Retry, Dead, Completed} \<and> j_lastErrorCode y = Some ''memory_projection_failed''"
proof -
  have job: "jobs (mw_projection sample_leased) = [sample_job]" and lease: "j_leaseToken sample_job = Some ''k''"
    and "j_id sample_job = ''k''" and "j_state sample_job = Processing"
    by (simp_all add: sample_leased_def sample_job_def claim_job_def new_memory_job_def)
  moreover have "safeErrorCode (TypeError ''x'') = ''memory_projection_failed''" by code_simp
  moreover have "distinct (map j_id (jobs (mw_projection sample_leased)))" and "sample_job \<in> set (jobs (mw_projection sample_leased))"
    by (simp_all add: job)
  ultimately show ?thesis
    using processed_job_is_settled [of "\<lambda>j w. (Inl (TypeError ''x''), w)" sample_job sample_leased "Inl (TypeError ''x'')" sample_leased sample_job]
    by (simp add: holds_job_def in_progress_def)
qed

section \<open>What a synchronization marks\<close>

lemma placed_from:
  "x \<in> set (bt_entries (fold (place_note related) ns b) t) \<Longrightarrow>
    x \<in> set (bt_entries b t) \<or> (\<exists>n\<in>set ns. targetFor n = Some t \<and> x = (nt_id n, compactEntry related n))"
proof (induction ns arbitrary: b)
  case (Cons n ns)
  have "bt_entries (place_note related n b) t = bt_entries b t \<or>
      targetFor n = Some t \<and> bt_entries (place_note related n b) t = bt_entries b t @ [(nt_id n, compactEntry related n)]"
    by (auto simp: place_note_def Let_def split: option.splits)
  with Cons.IH [of "place_note related n b"] Cons.prems show ?case by auto
qed simp

lemma included_entry:
  assumes "i \<in> set (px_included (buildHermesMemoryProjection sha related notes out))"
  shows "\<exists>n\<in>set notes. nt_id n = i \<and> i \<notin> set out \<and>
    (\<exists>t. targetFor n = Some t \<and> (i, compactEntry related n) \<in> set (px_entries (buildHermesMemoryProjection sha related notes out) t))"
proof -
  let ?b = "fold (place_note related) (in_order (filter (\<lambda>n. nt_id n \<notin> set out) notes)) start_built"
  obtain t c where c: "(i, c) \<in> set (bt_entries ?b t)"
    using assms by (auto simp: buildHermesMemoryProjection_def Let_def)
  from placed_from [OF c] obtain n where "n \<in> set notes" "nt_id n \<notin> set out" "targetFor n = Some t"
    "i = nt_id n" "c = compactEntry related n"
    by (auto simp: in_order_def start_built_def)
  with c show ?thesis by (auto simp: buildHermesMemoryProjection_def Let_def)
qed

text \<open>
  A synchronization reports a note as materialized only if the runtime accepted a projection that
  contains this note's text at this very revision: notes edited while the runtime was writing, conflicting
  notes and notes left out for lack of room are not reported.
\<close>

theorem materialized_notes_were_applied:
  assumes "write_projection e f rt meanwhile j a m imported w = (Inr r, w')"
    and "distinct (map nt_id (owner_notes j w))"
    and "n' \<in> set (memory_notes (mw_projection w'))" and "nt_sync n' = ''materialized''"
    and "\<forall>n\<in>set (memory_notes (mw_projection (meanwhile w))). nt_id n = nt_id n' \<longrightarrow> nt_sync n \<noteq> ''materialized''"
  shows "\<exists>n p t chars. n \<in> set (owner_notes j w) \<and> mr_apply rt a (mo_digest m) p = Inr chars \<and>
    nt_id n = nt_id n' \<and> nt_revision n = nt_revision n' \<and> nt_id n \<notin> set (conflicts_of m) \<and>
    (nt_id n, compactEntry (tf_related f) n) \<in> set (px_entries p t)"
proof -
  let ?p = "buildHermesMemoryProjection (tf_sha256 f) (tf_related f) (owner_notes j w) (conflicts_of m)"
  let ?marks = "marks_of j (conflicts_of m) ?p (owner_notes j w)"
  obtain chars where accepted: "mr_apply rt a (mo_digest m) ?p = Inr chars"
    and w': "mw_projection w' = markObsidianProjection e ?marks (mw_projection (meanwhile w))"
    using assms(1) by (auto simp: write_projection_def Let_def split: sum.splits)
  then obtain n0 where n0: "n0 \<in> set (memory_notes (mw_projection (meanwhile w)))"
    and n': "n' = (if owned_by (j_org j) (j_user j) (j_agent j) n0 then mark_note (clock e) ?marks n0 else n0)"
    using assms(3) by (auto simp: markObsidianProjection_def upd_all_def marks_of_def)
  have same: "nt_id n' = nt_id n0" "nt_revision n' = nt_revision n0" by (auto simp: n' mark_note_def)
  then have "nt_sync n0 \<noteq> ''materialized''" using assms(5) n0 by simp
  then have rev: "map_of (pm_revisions ?marks) (nt_id n0) = Some (nt_revision n0)"
    and conf: "nt_id n0 \<notin> set (conflicts_of m)" and inc: "nt_id n0 \<in> set (px_included ?p)"
    using assms(4) n' by (auto simp: mark_note_def marks_of_def split: if_splits)
  from included_entry [OF inc] obtain n t where n: "n \<in> set (owner_notes j w)" "nt_id n = nt_id n0"
    and entry: "(nt_id n0, compactEntry (tf_related f) n) \<in> set (px_entries ?p t)" by blast
  obtain k where k: "k \<in> set (owner_notes j w)" "nt_id k = nt_id n0" "nt_revision k = nt_revision n0"
    using map_of_SomeD [OF rev] by (auto simp: marks_of_def)
  have "k = n" using assms(2) k n by (auto simp: distinct_map inj_on_def)
  then have "nt_revision n = nt_revision n'" using k same by simp
  then show ?thesis using n entry conf accepted same by (intro exI [of _ n] exI [of _ ?p] exI [of _ t] exI [of _ chars]) simp
qed

definition sample_with_note :: memory_world where
  "sample_with_note = sample_leased\<lparr>mw_projection := (mw_projection sample_leased)\<lparr>memory_notes := [memory_sample ''n'' ''hello'']\<rparr>\<rparr>"

definition plain_text :: text_functions where
  "plain_text = \<lparr>tf_nfkc = id, tf_render = (\<lambda>_. ''t''), tf_sha256 = (\<lambda>_. ''d''), tf_related = ''R''\<rparr>"

definition quiet_runtime :: memory_runtime where
  "quiet_runtime = \<lparr>mr_snapshot = (\<lambda>_. Inr \<lparr>mo_entries = (\<lambda>_. []), mo_manifest = (\<lambda>_. []), mo_digest = ''0''\<rparr>),
     mr_apply = (\<lambda>_ _ _. Inr (\<lambda>_. None))\<rparr>"

definition nobody :: agent where
  "nobody = \<lparr>ag_id = ''a'', ag_org = ''o'', ag_owner = ''u'', ag_name = [], ag_description = [], ag_avatar = None,
     ag_soul = [], ag_status = [], ag_init = [], ag_desired = [], ag_settings = JNull, ag_errorCode = None,
     ag_errorDetail = None, ag_createdAt = 0, ag_updatedAt = 0\<rparr>"

theorem materialized_notes_were_applied_witness:
  "\<exists>n p t chars. n \<in> set (owner_notes sample_job sample_with_note) \<and> mr_apply quiet_runtime nobody ''0'' p = Inr chars \<and>
    nt_id n = ''n'' \<and> nt_revision n = 1 \<and> (nt_id n, compactEntry ''R'' n) \<in> set (px_entries p t)"
proof -
  let ?m = "\<lparr>mo_entries = (\<lambda>_. []), mo_manifest = (\<lambda>_. []), mo_digest = ''0''\<rparr>"
  let ?e = "\<lparr>clock = 5, uuid = (\<lambda>_. [])\<rparr>"
  obtain r w' where run: "write_projection ?e plain_text quiet_runtime id sample_job nobody ?m 0 sample_with_note = (Inr r, w')"
    by (simp add: write_projection_def quiet_runtime_def Let_def)
  have listed: "owner_notes sample_job sample_with_note = [memory_sample ''n'' ''hello'']" by code_simp
  have "map (\<lambda>n. (nt_id n, nt_sync n, nt_revision n)) (memory_notes (mw_projection (snd (write_projection ?e plain_text quiet_runtime id sample_job nobody ?m 0 sample_with_note)))) =
      [(''n'', ''materialized'', 1)]" by code_simp
  then obtain n' where n': "n' \<in> set (memory_notes (mw_projection w'))" "nt_id n' = ''n''" "nt_sync n' = ''materialized''" "nt_revision n' = 1"
    using run by auto
  have "\<forall>n\<in>set (memory_notes (mw_projection (id sample_with_note))). nt_id n = nt_id n' \<longrightarrow> nt_sync n \<noteq> ''materialized''"
    by (simp add: sample_with_note_def memory_sample_def)
  from materialized_notes_were_applied [OF run _ n'(1,3) this] show ?thesis
    using listed n'(2,4) by (auto simp: plain_text_def)
qed

end
