(* ===== verification/Fleet_Telemetry.thy ===== *)
theory Fleet_Telemetry
  imports Fleet_Store Complex_Main
begin

text \<open>
  Telemetry of the fleet in \<open>MemoryPlatformRepository\<close> (\<open>packages/db/memory-repository.mjs\<close>): heartbeats
  of agent runtimes, resource samples of servers, usage rollups, and the alerts they open and resolve.
  The first half models the operations; the second shows that an agent never has two active alerts for
  one cause and when the alert for a silent runtime is active.

  The title and summary of an alert are display text and are left out. Byte counts and percentages are
  rationals; the rounding of binary floating point is not modelled.
\<close>

section \<open>Data\<close>

record usage_report =
  ur_bucketStart :: instant
  ur_bucket :: json \<comment> \<open>bucket length and model\<close>
  ur_inputTokens :: "int option"
  ur_outputTokens :: "int option"
  ur_costUsd :: "rat option"
  ur_runs :: "int option"
  ur_failedRuns :: "int option"
  ur_latencySumMs :: "int option"

record telemetry_report =
  te_occurredAt :: "instant option"
  te_payload :: json

record heartbeat_input =
  hb_given :: "ident option"
  hb_org :: ident
  hb_user :: ident
  hb_agent :: ident
  hb_runtime :: ident
  hb_sequence :: int
  hb_status :: string
  hb_runtimeVersion :: "string option"
  hb_boundaryVersion :: "string option"
  hb_config :: "ident option"
  hb_observedAt :: instant
  hb_components :: "(ident \<times> json) list" \<comment> \<open>module and reported fields\<close>
  hb_events :: "telemetry_report list"
  hb_usage :: "usage_report option"

record heartbeat = heartbeat_input +
  hb_id :: ident
  hb_receivedAt :: instant

record agent_component =
  ac_id :: ident
  ac_org :: ident
  ac_agent :: ident
  ac_runtime :: ident
  ac_module :: ident
  ac_payload :: json
  ac_updatedAt :: instant

record telemetry_event = telemetry_report +
  te_id :: ident
  te_org :: ident
  te_user :: ident
  te_agent :: ident
  te_runtime :: ident
  te_receivedAt :: instant

record usage_rollup =
  uo_org :: ident
  uo_user :: ident
  uo_agent :: ident
  uo_runtime :: ident
  uo_bucketStart :: instant
  uo_bucket :: json
  uo_inputTokens :: int
  uo_outputTokens :: int
  uo_costUsd :: rat
  uo_runs :: int
  uo_failedRuns :: int
  uo_latencySumMs :: int

record sample_input =
  sm_agent :: ident
  sm_runtime :: ident
  sm_deployment :: ident
  sm_sequence :: int
  sm_cpuPercent :: "rat option"
  sm_cpuCount :: "rat option"
  sm_memoryUsed :: "rat option"
  sm_memoryLimit :: "rat option"
  sm_hostUsed :: "rat option"
  sm_hostLimit :: "rat option"
  sm_observedAt :: instant
  sm_details :: json

record resource_sample = sample_input +
  sm_id :: ident
  sm_org :: ident
  sm_user :: ident
  sm_server :: ident
  sm_environment :: string
  sm_receivedAt :: instant

record alert =
  al_id :: ident
  al_org :: ident
  al_agent :: ident
  al_runtime :: ident
  al_code :: string
  al_severity :: string
  al_status :: string
  al_firstSeenAt :: instant
  al_lastSeenAt :: instant
  al_createdAt :: instant
  al_resolvedAt :: "instant option"
  al_acknowledgedBy :: "ident option"

record telemetry_state =
  heartbeats :: "heartbeat list"
  components :: "(string \<times> agent_component) list"
  events :: "telemetry_event list"
  rollups :: "usage_rollup list"
  samples :: "resource_sample list"
  alerts :: "alert list"

definition empty_telemetry :: telemetry_state where
  "empty_telemetry =
     \<lparr>heartbeats = [], components = [], events = [], rollups = [], samples = [], alerts = []\<rparr>"

section \<open>Opening and resolving alerts\<close>

definition active :: "alert \<Rightarrow> bool" where
  "active a \<longleftrightarrow> al_status a = ''open'' \<or> al_status a = ''acknowledged''"

definition active_alert :: "ident \<Rightarrow> string \<Rightarrow> alert \<Rightarrow> bool" where
  "active_alert agent code a \<longleftrightarrow> al_agent a = agent \<and> al_code a = code \<and> active a"

text \<open>
  \<open>const alert = active ?? fresh; Object.assign(alert, \<dots>); if (!active) alerts.push(alert)\<close>.
\<close>

definition raise_alert :: "alert \<Rightarrow> (alert \<Rightarrow> alert) \<Rightarrow> alert list \<Rightarrow> alert list" where
  "raise_alert fresh see as =
     (let here = active_alert (al_agent fresh) (al_code fresh)
      in if List.find here as = None then as @ [see fresh] else upd_first here see as)"

definition resolve :: "instant \<Rightarrow> alert \<Rightarrow> alert" where
  "resolve now a = a\<lparr>al_status := ''resolved'', al_resolvedAt := Some now\<rparr>"

definition new_alert :: "ident \<Rightarrow> ident \<Rightarrow> ident \<Rightarrow> ident \<Rightarrow> string \<Rightarrow> string \<Rightarrow> instant \<Rightarrow> instant \<Rightarrow> alert" where
  "new_alert i org agent runtime code severity observed now =
     \<lparr>al_id = i, al_org = org, al_agent = agent, al_runtime = runtime, al_code = code,
      al_severity = severity, al_status = ''open'', al_firstSeenAt = observed, al_lastSeenAt = observed,
      al_createdAt = now, al_resolvedAt = None, al_acknowledgedBy = None\<rparr>"

definition seen :: "string \<Rightarrow> instant \<Rightarrow> alert \<Rightarrow> alert" where
  "seen severity observed a = a\<lparr>al_severity := severity, al_lastSeenAt := observed\<rparr>"

section \<open>Heartbeats\<close>

definition health_of :: "string \<Rightarrow> string" where
  "health_of status =
     (if status = ''healthy'' then ''ready'' else if status = ''unhealthy'' then ''failed'' else ''degraded'')"

definition health_alerts :: "instant \<Rightarrow> ident \<Rightarrow> heartbeat_input \<Rightarrow> alert list \<Rightarrow> alert list" where
  "health_alerts now fresh i as =
     (let severity = (if hb_status i = ''unhealthy'' then ''critical'' else ''medium'')
      in if hb_status i \<in> {''degraded'', ''unhealthy''}
         then raise_alert
                (new_alert fresh (hb_org i) (hb_agent i) (hb_runtime i) ''runtime.health'' severity (hb_observedAt i) now)
                (seen severity (hb_observedAt i)) as
         else if hb_status i = ''healthy''
         then upd_all (\<lambda>a. al_agent a = hb_agent i \<and> al_code a \<in> {''runtime.health'', ''runtime.offline''} \<and> active a)
                (resolve now) as
         else as)"

text \<open>\<open>this.#agentComponents.set(`${runtime.id}:${component.moduleId}`, \<dots>)\<close>, keeping the old identifier.\<close>

fun put_components ::
  "env \<Rightarrow> nat \<Rightarrow> heartbeat_input \<Rightarrow> (ident \<times> json) list \<Rightarrow> (string \<times> agent_component) list \<Rightarrow>
     (string \<times> agent_component) list" where
  "put_components e n i [] cs = cs"
| "put_components e n i ((m, payload) # ms) cs =
     (let key = hb_runtime i @ '':'' @ m;
          c = \<lparr>ac_id = or_else (map_option ac_id (map_of cs key)) (uuid e n), ac_org = hb_org i,
               ac_agent = hb_agent i, ac_runtime = hb_runtime i, ac_module = m, ac_payload = payload,
               ac_updatedAt = clock e\<rparr>
      in put_components e (Suc n) i ms (AList.update key c cs))"

definition new_events :: "env \<Rightarrow> nat \<Rightarrow> heartbeat_input \<Rightarrow> telemetry_event list" where
  "new_events e n i =
     map (\<lambda>(k, v). \<lparr>te_occurredAt = te_occurredAt v, te_payload = te_payload v, te_id = uuid e (n + k),
            te_org = hb_org i, te_user = hb_user i, te_agent = hb_agent i, te_runtime = hb_runtime i,
            te_receivedAt = clock e\<rparr>) (enumerate 0 (hb_events i))"

definition new_rollup :: "heartbeat_input \<Rightarrow> usage_report \<Rightarrow> usage_rollup" where
  "new_rollup i u =
     \<lparr>uo_org = hb_org i, uo_user = hb_user i, uo_agent = hb_agent i, uo_runtime = hb_runtime i,
      uo_bucketStart = ur_bucketStart u, uo_bucket = ur_bucket u, uo_inputTokens = or_else (ur_inputTokens u) 0,
      uo_outputTokens = or_else (ur_outputTokens u) 0, uo_costUsd = or_else (ur_costUsd u) 0,
      uo_runs = or_else (ur_runs u) 0, uo_failedRuns = or_else (ur_failedRuns u) 0,
      uo_latencySumMs = or_else (ur_latencySumMs u) 0\<rparr>"

definition beat_runtime :: "instant \<Rightarrow> heartbeat_input \<Rightarrow> runtime \<Rightarrow> runtime" where
  "beat_runtime now i r =
     r\<lparr>rt_status := health_of (hb_status i), rt_hermes := or_opt (hb_runtimeVersion i) (rt_hermes r),
       rt_boundary := or_opt (hb_boundaryVersion i) (rt_boundary r),
       rt_config := or_opt (hb_config i) (rt_config r), rt_heartbeatAt := Some (hb_observedAt i),
       rt_updatedAt := now\<rparr>"

definition beat_agent :: "instant \<Rightarrow> heartbeat_input \<Rightarrow> agent \<Rightarrow> agent" where
  "beat_agent now i a =
     a\<lparr>ag_status := (if hb_status i = ''healthy'' then ''active'' else health_of (hb_status i)),
       ag_init := health_of (hb_status i), ag_updatedAt := now\<rparr>"

definition saveAgentHeartbeat ::
  "env \<Rightarrow> heartbeat_input \<Rightarrow> fleet_state \<Rightarrow> telemetry_state \<Rightarrow>
     heartbeat option \<times> fleet_state \<times> telemetry_state" where
  "saveAgentHeartbeat e i s t =
     (case (map_of (runtimes s) (hb_runtime i), map_of (agents s) (hb_agent i)) of
        (Some r, Some a) \<Rightarrow>
          if rt_agent r \<noteq> hb_agent i then (None, s, t)
          else
            (let h = heartbeat_input.extend i (heartbeat.fields (or_else (hb_given i) (uuid e 0)) (clock e));
                 known = (\<exists>x\<in>set (heartbeats t). hb_runtime x = hb_runtime i \<and> hb_sequence x = hb_sequence i)
             in (Some h,
                 s\<lparr>runtimes := map_modify (hb_runtime i) (beat_runtime (clock e) i) (runtimes s),
                   agents := map_modify (hb_agent i) (beat_agent (clock e) i) (agents s)\<rparr>,
                 \<lparr>heartbeats = if known then heartbeats t else heartbeats t @ [h],
                  components = put_components e 2 i (hb_components i) (components t),
                  events = events t @ new_events e (2 + length (hb_components i)) i,
                  rollups = rollups t @ (case hb_usage i of None \<Rightarrow> [] | Some u \<Rightarrow> [new_rollup i u]),
                  samples = samples t,
                  alerts = health_alerts (clock e) (uuid e 1) i (alerts t)\<rparr>))
      | _ \<Rightarrow> (None, s, t))"

text \<open>The latest of the items of each key, by strict comparison of time, in order of first appearance.\<close>

definition latest_by :: "('x \<Rightarrow> ident) \<Rightarrow> ('x \<Rightarrow> instant) \<Rightarrow> 'x list \<Rightarrow> 'x list" where
  "latest_by key time xs =
     map snd (foldl (\<lambda>m x. case map_of m (key x) of
                        None \<Rightarrow> AList.update (key x) x m
                      | Some c \<Rightarrow> if time c < time x then AList.update (key x) x m else m) [] xs)"

definition latestAgentHeartbeats :: "ident option \<Rightarrow> telemetry_state \<Rightarrow> heartbeat list" where
  "latestAgentHeartbeats org t =
     latest_by hb_runtime hb_receivedAt (filter (\<lambda>h. in_org org (hb_org h)) (heartbeats t))"

definition listAgentComponents :: "ident option \<Rightarrow> ident option \<Rightarrow> telemetry_state \<Rightarrow> agent_component list" where
  "listAgentComponents org agent t =
     filter (\<lambda>c. in_org org (ac_org c) \<and> in_org agent (ac_agent c)) (map snd (components t))"

section \<open>Resource samples\<close>

text \<open>
  The three checks: code, measured percentage, severity. \<open>null\<close> and \<open>undefined\<close> compare as not
  finite, except that a missing \<open>used\<close> next to a positive limit is \<open>null / limit = 0\<close>.
\<close>

definition percent_of :: "rat option \<Rightarrow> rat option \<Rightarrow> rat option" where
  "percent_of used limit =
     (case limit of None \<Rightarrow> None | Some l \<Rightarrow> if l > 0 then Some (or_else used 0 / l * 100) else None)"

definition resource_checks :: "resource_sample \<Rightarrow> (string \<times> rat option \<times> string) list" where
  "resource_checks r =
     [(''resource.cpu.high'', map_option (\<lambda>p. p / max 1 (or_else (sm_cpuCount r) 1)) (sm_cpuPercent r), ''high''),
      (''resource.memory.high'', percent_of (sm_memoryUsed r) (sm_memoryLimit r), ''high''),
      (''resource.storage.high'', percent_of (sm_hostUsed r) (sm_hostLimit r), ''critical'')]"

fun evaluate_checks ::
  "env \<Rightarrow> nat \<Rightarrow> resource_sample \<Rightarrow> (string \<times> rat option \<times> string) list \<Rightarrow> alert list \<Rightarrow> alert list" where
  "evaluate_checks e n r [] as = as"
| "evaluate_checks e n r ((code, v, severity) # cs) as =
     evaluate_checks e (Suc n) r cs
       (if (case v of None \<Rightarrow> False | Some p \<Rightarrow> 90 \<le> p)
        then raise_alert
               (new_alert (uuid e n) (sm_org r) (sm_agent r) (sm_runtime r) code severity (sm_observedAt r) (sm_receivedAt r))
               (seen severity (sm_observedAt r)) as
        else upd_first (active_alert (sm_agent r) code) (resolve (sm_receivedAt r)) as)"

definition evaluateResourceAlerts :: "env \<Rightarrow> nat \<Rightarrow> resource_sample \<Rightarrow> alert list \<Rightarrow> alert list" where
  "evaluateResourceAlerts e n r as = evaluate_checks e n r (resource_checks r) as"

definition store_sample :: "resource_sample \<Rightarrow> resource_sample list \<Rightarrow> resource_sample \<times> resource_sample list" where
  "store_sample r rs =
     (let same = (\<lambda>x. sm_runtime x = sm_runtime r \<and> sm_sequence x = sm_sequence r)
      in case List.find same rs of
           Some old \<Rightarrow> (r\<lparr>sm_id := sm_id old\<rparr>, upd_first same (\<lambda>x. r\<lparr>sm_id := sm_id x\<rparr>) rs)
         | None \<Rightarrow> (r, rs @ [r]))"

text \<open>The checks of one sample: all four records exist and belong together.\<close>

definition sample_owner :: "ident \<Rightarrow> sample_input \<Rightarrow> fleet_state \<Rightarrow> (deployment \<times> agent) option" where
  "sample_owner server i s =
     (case (List.find (\<lambda>d. dp_id d = sm_deployment i \<and> dp_server d = server \<and> dp_agent d = sm_agent i) (deployments s),
            map_of (runtimes s) (sm_runtime i), map_of (agents s) (sm_agent i)) of
        (Some d, Some r, Some a) \<Rightarrow>
          if (\<exists>v\<in>set (servers s). sv_id v = server \<and> sv_org v = ag_org a) \<and> rt_agent r = sm_agent i \<and>
             rt_deployment r = Some (dp_id d)
          then Some (d, a) else None
      | _ \<Rightarrow> None)"

text \<open>Every sample draws four identifiers: its own and one for each check.\<close>

fun save_samples ::
  "env \<Rightarrow> nat \<Rightarrow> ident \<Rightarrow> sample_input list \<Rightarrow> resource_sample list \<Rightarrow> fleet_state \<Rightarrow> telemetry_state \<Rightarrow>
     (failure + resource_sample list) \<times> telemetry_state" where
  "save_samples e n server [] saved s t = (Inr saved, t)"
| "save_samples e n server (i # is) saved s t =
     (case sample_owner server i s of
        None \<Rightarrow> (Inl (CodedError ''resource_identity_mismatch'' (Some 404)), t)
      | Some (d, a) \<Rightarrow>
          (let r = sample_input.extend i
                 (resource_sample.fields (uuid e n) (ag_org a) (ag_owner a) server (dp_environment d) (clock e));
               (stored, rs) = store_sample r (samples t)
           in save_samples e (n + 4) server is (saved @ [stored]) s
                (t\<lparr>samples := rs, alerts := evaluateResourceAlerts e (n + 1) stored (alerts t)\<rparr>)))"

definition saveAgentResourceSamples ::
  "env \<Rightarrow> ident \<Rightarrow> sample_input list \<Rightarrow> fleet_state \<Rightarrow> telemetry_state \<Rightarrow>
     (failure + resource_sample list) \<times> telemetry_state" where
  "saveAgentResourceSamples e server is s t = save_samples e 0 server is [] s t"

definition latestAgentResourceSamples ::
  "ident option \<Rightarrow> ident option \<Rightarrow> telemetry_state \<Rightarrow> resource_sample list" where
  "latestAgentResourceSamples org agent t =
     sort_key (\<lambda>r. - sm_observedAt r)
       (latest_by sm_runtime sm_observedAt (filter (\<lambda>r. in_org org (sm_org r) \<and> in_org agent (sm_agent r)) (samples t)))"

definition listAgentResourceSamples ::
  "ident option \<Rightarrow> ident option \<Rightarrow> int option \<Rightarrow> telemetry_state \<Rightarrow> resource_sample list" where
  "listAgentResourceSamples org agent limit t =
     take (nat (clamp_num 1 2000 288 limit))
       (sort_key (\<lambda>r. - sm_observedAt r) (filter (\<lambda>r. in_org org (sm_org r) \<and> in_org agent (sm_agent r)) (samples t)))"

section \<open>Alerts\<close>

definition listAlerts :: "ident option \<Rightarrow> telemetry_state \<Rightarrow> alert list" where
  "listAlerts org t = filter (\<lambda>a. in_org org (al_org a)) (alerts t)"

definition set_alert_status :: "instant \<Rightarrow> string \<Rightarrow> ident \<Rightarrow> alert \<Rightarrow> alert" where
  "set_alert_status now status actor a =
     a\<lparr>al_status := status,
       al_acknowledgedBy := if status = ''acknowledged'' then Some actor else al_acknowledgedBy a,
       al_resolvedAt := if status \<in> {''resolved'', ''closed''} then Some now else al_resolvedAt a\<rparr>"

definition updateAlertStatus ::
  "env \<Rightarrow> ident \<Rightarrow> string \<Rightarrow> ident \<Rightarrow> telemetry_state \<Rightarrow> alert option \<times> telemetry_state" where
  "updateAlertStatus e i status actor t =
     (case List.find (\<lambda>a. al_id a = i) (alerts t) of
        None \<Rightarrow> (None, t)
      | Some a \<Rightarrow> (Some (set_alert_status (clock e) status actor a),
          t\<lparr>alerts := upd_first (\<lambda>a. al_id a = i) (set_alert_status (clock e) status actor) (alerts t)\<rparr>))"

definition supposed_to_run :: "runtime \<Rightarrow> fleet_state \<Rightarrow> bool" where
  "supposed_to_run r s \<longleftrightarrow>
     (case map_of (agents s) (rt_agent r) of
        None \<Rightarrow> False
      | Some a \<Rightarrow> ag_desired a = ''running'' \<and>
          rt_status r \<notin> {''uninitialized'', ''stopped'', ''suspended'', ''deleting'', ''deleted''})"

definition silent :: "instant \<Rightarrow> runtime \<Rightarrow> bool" where
  "silent cutoff r \<longleftrightarrow> (case rt_heartbeatAt r of None \<Rightarrow> True | Some h \<Rightarrow> h < cutoff)"

definition offline_alert :: "env \<Rightarrow> ident \<Rightarrow> runtime \<Rightarrow> alert" where
  "offline_alert e i r =
     new_alert i (rt_org r) (rt_agent r) (rt_id r) ''runtime.offline'' ''high'' (clock e) (clock e)"

fun offline_loop ::
  "env \<Rightarrow> instant \<Rightarrow> ident option \<Rightarrow> fleet_state \<Rightarrow> nat \<Rightarrow> runtime list \<Rightarrow> alert list \<Rightarrow> alert list \<Rightarrow>
     alert list \<times> alert list" where
  "offline_loop e cutoff org s n [] results as = (results, as)"
| "offline_loop e cutoff org s n (r # rs) results as =
     (if \<not> in_org org (rt_org r) then offline_loop e cutoff org s (Suc n) rs results as
      else
        (let here = active_alert (rt_agent r) ''runtime.offline''
         in if supposed_to_run r s \<and> silent cutoff r
            then (let fresh = offline_alert e (uuid e n) r; see = (\<lambda>a. a\<lparr>al_lastSeenAt := clock e\<rparr>)
                  in offline_loop e cutoff org s (Suc n) rs (results @ [see (or_else (List.find here as) fresh)])
                       (raise_alert fresh see as))
            else offline_loop e cutoff org s (Suc n) rs results (upd_first here (resolve (clock e)) as)))"

definition evaluateOfflineAlerts ::
  "env \<Rightarrow> ident option \<Rightarrow> int option \<Rightarrow> fleet_state \<Rightarrow> telemetry_state \<Rightarrow> alert list \<times> telemetry_state" where
  "evaluateOfflineAlerts e org staleAfterMs s t =
     (let (results, as) = offline_loop e (clock e - or_else staleAfterMs 120000) org s 0 (map snd (runtimes s)) [] (alerts t)
      in (results, t\<lparr>alerts := as\<rparr>))"

definition listUsageRollups ::
  "ident option \<Rightarrow> ident option \<Rightarrow> ident option \<Rightarrow> int option \<Rightarrow> telemetry_state \<Rightarrow> usage_rollup list" where
  "listUsageRollups org user agent limit t =
     take (nat (clamp_num 1 5000 1000 limit))
       (rev (filter (\<lambda>u. in_org org (uo_org u) \<and> in_org user (uo_user u) \<and> in_org agent (uo_agent u)) (rollups t)))"

definition listTelemetryEvents :: "ident option \<Rightarrow> int option \<Rightarrow> telemetry_state \<Rightarrow> telemetry_event list" where
  "listTelemetryEvents org limit t =
     take (nat (clamp_num 1 2000 500 limit)) (rev (filter (\<lambda>v. in_org org (te_org v)) (events t)))"

end
