(* ===== verification/Fleet_Alerts.thy ===== *)
theory Fleet_Alerts
  imports Fleet_Telemetry
begin

text \<open>
  Properties of the alerts kept by \<open>Fleet_Telemetry\<close>: at most one active alert for an agent and a
  cause, the effect of a healthy heartbeat, and the alert for a silent runtime.
\<close>

section \<open>One active alert for each cause\<close>

definition single_active :: "alert list \<Rightarrow> bool" where
  "single_active as \<longleftrightarrow> (\<forall>agent code. length (filter (active_alert agent code) as) \<le> 1)"

lemma single_activeD: "single_active as \<Longrightarrow> length (filter (active_alert agent code) as) \<le> 1"
  by (simp add: single_active_def)

lemma filter_length_mono:
  "list_all2 (\<lambda>a b. p b \<longrightarrow> p a) as bs \<Longrightarrow> length (filter p bs) \<le> length (filter p as)"
  by (induction rule: list_all2_induct) auto

lemma single_shrink:
  "list_all2 (\<lambda>a b. \<forall>g c. active_alert g c b \<longrightarrow> active_alert g c a) as bs \<Longrightarrow> single_active as \<Longrightarrow> single_active bs"
proof (unfold single_active_def, intro allI)
  fix g c
  assume "list_all2 (\<lambda>a b. \<forall>g c. active_alert g c b \<longrightarrow> active_alert g c a) as bs"
    and single: "\<forall>g c. length (filter (active_alert g c) as) \<le> 1"
  then have "length (filter (active_alert g c) bs) \<le> length (filter (active_alert g c) as)"
    by (intro filter_length_mono) (auto elim: list_all2_mono)
  then show "length (filter (active_alert g c) bs) \<le> 1" using single [rule_format, of g c] by linarith
qed

lemma single_upd_first:
  "(\<And>a g c. p a \<Longrightarrow> active_alert g c (f a) \<Longrightarrow> active_alert g c a) \<Longrightarrow> single_active as \<Longrightarrow>
    single_active (upd_first p f as)"
  by (rule single_shrink [OF list_all2_upd_first]) auto

lemma single_upd_all:
  "(\<And>a g c. p a \<Longrightarrow> active_alert g c (f a) \<Longrightarrow> active_alert g c a) \<Longrightarrow> single_active as \<Longrightarrow>
    single_active (upd_all p f as)"
  by (rule single_shrink) (auto simp: upd_all_def list_all2_conv_all_nth)

lemma active_resolve [simp]: "\<not> active (resolve now a)" "\<not> active_alert g c (resolve now a)"
  by (simp_all add: active_def active_alert_def resolve_def)

lemma active_seen [simp]: "active_alert g c (seen v o' a) = active_alert g c a"
  by (simp add: active_def active_alert_def seen_def)

lemma active_touched [simp]: "active_alert g c (a\<lparr>al_lastSeenAt := o'\<rparr>) = active_alert g c a"
  by (simp add: active_def active_alert_def)

lemma active_new [simp]: "active_alert g c (new_alert i o' g' r c' v ob now) \<longleftrightarrow> g = g' \<and> c = c'"
  by (auto simp: active_def active_alert_def new_alert_def)

lemma single_raise:
  assumes "single_active as" and see: "\<And>a g c. active_alert g c (see a) = active_alert g c a"
    and fresh: "\<And>g c. active_alert g c fresh \<Longrightarrow> g = al_agent fresh \<and> c = al_code fresh"
  shows "single_active (raise_alert fresh see as)"
proof (cases "List.find (active_alert (al_agent fresh) (al_code fresh)) as = None")
  case True
  then have "filter (active_alert (al_agent fresh) (al_code fresh)) as = []"
    by (simp add: find_None_all filter_empty_conv)
  then have "length (filter (active_alert g c) (as @ [see fresh])) \<le> 1" for g c
    using single_activeD [OF assms(1), of g c] fresh [of g c] by (cases "active_alert g c fresh") (auto simp: see)
  then show ?thesis using True by (simp add: raise_alert_def single_active_def)
next
  case False
  then show ?thesis using single_upd_first [OF _ assms(1), of _ see] by (auto simp: raise_alert_def see)
qed

lemma single_resolved: "single_active as \<Longrightarrow> single_active (upd_first p (resolve now) as)"
  by (rule single_upd_first) auto

lemma single_raise_new:
  "single_active as \<Longrightarrow> single_active (raise_alert (new_alert i o' g r c v ob now) (seen v' ob') as)"
  by (rule single_raise) (simp_all, simp add: new_alert_def)

lemma single_raise_offline:
  "single_active as \<Longrightarrow> single_active (raise_alert (offline_alert e i r) (\<lambda>a. a\<lparr>al_lastSeenAt := o'\<rparr>) as)"
  by (rule single_raise) (simp_all add: offline_alert_def, simp add: new_alert_def)

lemmas single_intros = single_resolved single_raise_new single_raise_offline

lemma single_health: "single_active as \<Longrightarrow> single_active (health_alerts now fresh i as)"
  by (auto simp: health_alerts_def Let_def intro!: single_raise_new single_upd_all)

lemma single_checks: "single_active as \<Longrightarrow> single_active (evaluate_checks e n r cs as)"
  by (induction e n r cs as rule: evaluate_checks.induct) (simp add: single_intros split: option.splits)+

lemma single_samples: "single_active (alerts t) \<Longrightarrow> single_active (alerts (snd (save_samples e n v is saved s t)))"
  by (induction e n v "is" saved s t rule: save_samples.induct)
     (auto simp: Let_def evaluateResourceAlerts_def single_checks split: option.splits prod.splits)

lemma single_offline: "single_active as \<Longrightarrow> single_active (snd (offline_loop e cutoff org s n rs results as))"
  by (induction e cutoff org s n rs results as rule: offline_loop.induct) (simp_all add: Let_def single_intros)

text \<open>
  The operations on telemetry, in any fleet. An alert that is not active is not made active again by a
  status change; the theorem after the next one shows what happens otherwise.
\<close>

inductive telemetry_step :: "telemetry_state \<Rightarrow> telemetry_state \<Rightarrow> bool" where
  beat: "telemetry_step t (snd (snd (saveAgentHeartbeat e i s t)))"
| sample: "telemetry_step t (snd (saveAgentResourceSamples e v is s t))"
| offline: "telemetry_step t (snd (evaluateOfflineAlerts e org stale s t))"
| status: "(\<And>a. List.find (\<lambda>a. al_id a = i) (alerts t) = Some a \<Longrightarrow> active a \<or> st \<in> {''resolved'', ''closed''}) \<Longrightarrow>
    telemetry_step t (snd (updateAlertStatus e i st actor t))"

lemma single_step: "telemetry_step t t' \<Longrightarrow> single_active (alerts t) \<Longrightarrow> single_active (alerts t')"
proof (induction rule: telemetry_step.induct)
  case (beat t e i s)
  then show ?case by (auto simp: saveAgentHeartbeat_def Let_def single_health split: option.splits)
next
  case (sample t e v "is" s)
  then show ?case by (simp add: saveAgentResourceSamples_def single_samples)
next
  case (offline t e org stale s)
  then show ?case using single_offline [OF offline] by (simp add: evaluateOfflineAlerts_def split_beta)
next
  case (status i t st e actor)
  show ?case
  proof (cases "List.find (\<lambda>a. al_id a = i) (alerts t)")
    case None
    then show ?thesis using status by (simp add: updateAlertStatus_def)
  next
    case (Some a)
    have shrink: "list_all2 (\<lambda>a b. \<forall>g c. active_alert g c b \<longrightarrow> active_alert g c a) as
        (upd_first (\<lambda>a. al_id a = i) (set_alert_status (clock e) st actor) as)"
      if "List.find (\<lambda>a. al_id a = i) as = Some a" for as
      using that status.hyps [OF Some]
      by (induction as) (auto split: if_splits simp: set_alert_status_def active_alert_def active_def list.rel_refl)
    show ?thesis using single_shrink [OF shrink [OF Some] status.prems] Some by (simp add: updateAlertStatus_def)
  qed
qed

text \<open>
  An agent never has two active alerts for the same cause, in any store reached by heartbeats,
  resource samples, the evaluation of silent runtimes, and status changes that do not reopen a resolved
  alert.
\<close>

theorem active_alerts_are_single:
  assumes "telemetry_step\<^sup>*\<^sup>* empty_telemetry t"
  shows "length (filter (active_alert agent code) (alerts t)) \<le> 1"
proof -
  have "single_active (alerts t)"
    using assms by (induction rule: rtranclp_induct)
      (auto simp: single_step, simp add: empty_telemetry_def single_active_def)
  then show ?thesis by (rule single_activeD)
qed

definition beat_input :: "string \<Rightarrow> heartbeat_input" where
  "beat_input status = \<lparr>hb_given = None, hb_org = ''o'', hb_user = ''u'', hb_agent = ''a'', hb_runtime = ''r'',
     hb_sequence = 1, hb_status = status, hb_runtimeVersion = None, hb_boundaryVersion = None, hb_config = None,
     hb_observedAt = 5, hb_components = [], hb_events = [], hb_usage = None\<rparr>"

definition beat_env :: env where
  "beat_env = \<lparr>clock = 10, uuid = (\<lambda>n. if n = 0 then ''h'' else ''l'')\<rparr>"

definition beat_fleet :: fleet_state where
  "beat_fleet = snd (createAgentRuntime beat_env \<lparr>rti_id = Some ''r'', rti_org = ''o'', rti_owner = ''u'',
       rti_agent = ''a'', rti_deployment = None, rti_workspace = ''w'', rti_status = Some ''ready''\<rparr>
     (snd (createAgent beat_env \<lparr>ai_id = Some ''a'', ai_org = ''o'', ai_owner = Some ''u'', ai_name = ''n'',
       ai_description = None, ai_avatar = None, ai_soul = None, ai_status = None, ai_init = None,
       ai_desired = Some ''running'', ai_settings = None\<rparr> empty_fleet)))"

definition degraded :: telemetry_state where
  "degraded = snd (snd (saveAgentHeartbeat beat_env (beat_input ''degraded'') beat_fleet empty_telemetry))"

theorem active_alerts_are_single_witness:
  "length (filter (active_alert ''a'' ''runtime.health'') (alerts degraded)) \<le> 1"
  by (rule active_alerts_are_single)
     (use telemetry_step.beat [of empty_telemetry beat_env "beat_input ''degraded''" beat_fleet]
      in \<open>auto simp: degraded_def\<close>)

text \<open>
  The status operation does not look at other alerts: acknowledging an alert that is already resolved
  while a newer one for the same cause is active leaves two active alerts.
\<close>

theorem acknowledging_resolved_alert_duplicates:
  assumes "List.find (\<lambda>a. al_id a = i) (alerts t) = Some a" and "\<not> active a"
    and "b \<in> set (alerts t)" and "active_alert (al_agent a) (al_code a) b"
  shows "2 \<le> length (filter (active_alert (al_agent a) (al_code a))
    (alerts (snd (updateAlertStatus e i ''acknowledged'' actor t))))"
proof -
  let ?p = "active_alert (al_agent a) (al_code a)"
  let ?f = "set_alert_status (clock e) ''acknowledged'' actor"
  have "2 \<le> length (filter ?p (upd_first (\<lambda>a. al_id a = i) ?f as))"
    if "List.find (\<lambda>a. al_id a = i) as = Some a" "b \<in> set as" for as
    using that
  proof (induction as)
    case (Cons x xs)
    show ?case
    proof (cases "al_id x = i")
      case True
      then have "x = a" and "b \<in> set xs" using Cons.prems assms(2,4) by (auto simp: active_alert_def)
      then have "filter ?p xs \<noteq> []" using assms(4) by (auto simp: filter_empty_conv)
      then have "1 \<le> length (filter ?p xs)" by (cases "filter ?p xs") auto
      moreover have "?p (?f a)" by (simp add: active_alert_def active_def set_alert_status_def)
      ultimately show ?thesis using True \<open>x = a\<close> by simp
    next
      case False
      show ?thesis
      proof (cases "x = b")
        case True
        have "?f a \<in> set (filter ?p (upd_first (\<lambda>a. al_id a = i) ?f xs))"
          using Cons.prems False mem_upd_first [of "\<lambda>a. al_id a = i" xs a ?f]
          by (simp add: active_alert_def active_def set_alert_status_def)
        then have "filter ?p (upd_first (\<lambda>a. al_id a = i) ?f xs) \<noteq> []" by (metis empty_iff list.set(1))
        then have "1 \<le> length (filter ?p (upd_first (\<lambda>a. al_id a = i) ?f xs))"
          by (cases "filter ?p (upd_first (\<lambda>a. al_id a = i) ?f xs)") auto
        then show ?thesis using False True assms(4) by simp
      next
        case False
        then show ?thesis using Cons \<open>al_id x \<noteq> i\<close> by auto
      qed
    qed
  qed simp
  from this [OF assms(1,3)] show ?thesis using assms(1) by (simp add: updateAlertStatus_def)
qed

definition two_alerts :: telemetry_state where
  "two_alerts = empty_telemetry\<lparr>alerts :=
     [resolve 3 (new_alert ''1'' ''o'' ''a'' ''r'' ''runtime.health'' ''medium'' 1 1),
      new_alert ''2'' ''o'' ''a'' ''r'' ''runtime.health'' ''medium'' 5 5]\<rparr>"

theorem acknowledging_resolved_alert_duplicates_witness:
  "2 \<le> length (filter (active_alert ''a'' ''runtime.health'')
    (alerts (snd (updateAlertStatus beat_env ''1'' ''acknowledged'' ''admin'' two_alerts))))"
  using acknowledging_resolved_alert_duplicates
    [of "''1''" two_alerts "resolve 3 (new_alert ''1'' ''o'' ''a'' ''r'' ''runtime.health'' ''medium'' 1 1)"
      "new_alert ''2'' ''o'' ''a'' ''r'' ''runtime.health'' ''medium'' 5 5" beat_env "''admin''"]
  by (simp add: two_alerts_def empty_telemetry_def) (simp add: new_alert_def resolve_def active_def)

section \<open>Heartbeats\<close>

lemma filter_others:
  "filter (\<lambda>x. al_agent x \<noteq> g) (upd_all (\<lambda>x. al_agent x = g \<and> p x) (resolve now) as) = filter (\<lambda>x. al_agent x \<noteq> g) as"
  by (induction as) (auto simp: upd_all_def resolve_def)

text \<open>
  A healthy heartbeat of a known runtime makes the runtime ready and the agent active, and leaves no
  active health or offline alert of the agent; alerts of other agents are untouched.
\<close>

theorem healthy_heartbeat_clears_alerts:
  assumes "map_of (runtimes s) (hb_runtime i) = Some r" and "map_of (agents s) (hb_agent i) = Some a"
    and "rt_agent r = hb_agent i" and "hb_status i = ''healthy''"
    and "saveAgentHeartbeat e i s t = (h, s', t')"
  shows "map_option rt_status (map_of (runtimes s') (hb_runtime i)) = Some ''ready'' \<and>
    map_option ag_status (map_of (agents s') (hb_agent i)) = Some ''active'' \<and>
    filter (\<lambda>x. al_agent x = hb_agent i \<and> al_code x \<in> {''runtime.health'', ''runtime.offline''} \<and> active x)
      (alerts t') = [] \<and>
    filter (\<lambda>x. al_agent x \<noteq> hb_agent i) (alerts t') = filter (\<lambda>x. al_agent x \<noteq> hb_agent i) (alerts t)"
proof -
  let ?as = "health_alerts (clock e) (uuid e 1) i (alerts t)"
  have s': "s' = s\<lparr>runtimes := map_modify (hb_runtime i) (beat_runtime (clock e) i) (runtimes s),
      agents := map_modify (hb_agent i) (beat_agent (clock e) i) (agents s)\<rparr>"
    and t': "alerts t' = ?as"
    using assms by (auto simp: saveAgentHeartbeat_def Let_def)
  have "filter (\<lambda>x. al_agent x = hb_agent i \<and> al_code x \<in> {''runtime.health'', ''runtime.offline''} \<and> active x) ?as = []"
    using assms(4) by (auto simp: health_alerts_def upd_all_def filter_empty_conv)
  moreover have "filter (\<lambda>x. al_agent x \<noteq> hb_agent i) ?as = filter (\<lambda>x. al_agent x \<noteq> hb_agent i) (alerts t)"
    using assms(4) by (simp add: health_alerts_def filter_others)
  ultimately show ?thesis
    using assms(1,2,4) s' t' by (simp add: map_of_map_modify beat_runtime_def beat_agent_def health_of_def)
qed

theorem healthy_heartbeat_clears_alerts_witness:
  "filter (\<lambda>x. al_agent x = ''a'' \<and> al_code x \<in> {''runtime.health'', ''runtime.offline''} \<and> active x)
     (alerts (snd (snd (saveAgentHeartbeat beat_env (beat_input ''healthy'') beat_fleet degraded)))) = [] \<and>
   alerts degraded \<noteq> []"
proof -
  let ?i = "beat_input ''healthy''"
  obtain h s' t' where run: "saveAgentHeartbeat beat_env ?i beat_fleet degraded = (h, s', t')"
    by (metis prod_cases3)
  obtain r a where r: "map_of (runtimes beat_fleet) (hb_runtime ?i) = Some r" "rt_agent r = hb_agent ?i"
    and a: "map_of (agents beat_fleet) (hb_agent ?i) = Some a"
    by (simp add: beat_fleet_def createAgentRuntime_def getAgentRuntimeByAgent_def createAgent_def
        beat_input_def empty_fleet_def Let_def)
  have "alerts degraded \<noteq> []" by code_simp
  then show ?thesis
    using healthy_heartbeat_clears_alerts [OF r(1) a r(2) _ run] run by (simp add: beat_input_def)
qed

section \<open>Silent runtimes\<close>

definition offline_active :: "ident \<Rightarrow> alert list \<Rightarrow> bool" where
  "offline_active g as \<longleftrightarrow> (\<exists>a\<in>set as. active_alert g ''runtime.offline'' a)"

lemma offline_active_raise:
  assumes "\<And>a g c. active_alert g c (see a) = active_alert g c a"
    and "\<And>g c. active_alert g c fresh \<longleftrightarrow> g = al_agent fresh \<and> c = ''runtime.offline''"
    and "al_code fresh = ''runtime.offline''"
  shows "offline_active g (raise_alert fresh see as) \<longleftrightarrow> g = al_agent fresh \<or> offline_active g as"
proof (cases "List.find (active_alert (al_agent fresh) (al_code fresh)) as")
  case None
  then show ?thesis by (auto simp: raise_alert_def offline_active_def assms)
next
  case (Some a)
  have "offline_active g (upd_first p see as) = offline_active g as" for p
    by (induction as) (auto simp: offline_active_def assms)
  moreover have "offline_active (al_agent fresh) as"
    using Some assms(3) by (auto simp: offline_active_def dest: find_Some_mem)
  ultimately show ?thesis using Some by (auto simp: raise_alert_def)
qed

lemma offline_active_resolve:
  assumes "single_active as"
  shows "offline_active g (upd_first (active_alert g' ''runtime.offline'') (resolve now) as) \<longleftrightarrow>
    g \<noteq> g' \<and> offline_active g as"
proof (cases "g = g'")
  case True
  have "filter (active_alert g' ''runtime.offline'') (upd_first (active_alert g' ''runtime.offline'') (resolve now) as) = []"
    if "length (filter (active_alert g' ''runtime.offline'') as) \<le> 1" for as
    using that by (induction as) auto
  from this [OF single_activeD [OF assms]] True show ?thesis
    by (auto simp: offline_active_def filter_empty_conv)
next
  case False
  have "offline_active g (upd_first (active_alert g' ''runtime.offline'') (resolve now) as) = offline_active g as" for as
  proof (induction as)
    case (Cons a as)
    have "active_alert g' ''runtime.offline'' a \<Longrightarrow> \<not> active_alert g ''runtime.offline'' a"
      using False by (simp add: active_alert_def)
    then show ?case using Cons by (auto simp: offline_active_def)
  qed (simp add: offline_active_def)
  with False show ?thesis by simp
qed

lemma offline_loop_active:
  assumes "single_active as" and "distinct (map rt_agent rs)"
  shows "offline_active g (snd (offline_loop e cutoff org s n rs results as)) \<longleftrightarrow>
    (case List.find (\<lambda>r. rt_agent r = g \<and> in_org org (rt_org r)) rs of
       None \<Rightarrow> offline_active g as
     | Some r \<Rightarrow> supposed_to_run r s \<and> silent cutoff r)"
  using assms
proof (induction rs arbitrary: n results as)
  case (Cons r rs)
  let ?fresh = "offline_alert e (uuid e n) r" and ?see = "\<lambda>a. a\<lparr>al_lastSeenAt := clock e\<rparr>"
  have agent: "al_agent ?fresh = rt_agent r" and code: "al_code ?fresh = ''runtime.offline''"
    by (simp_all add: offline_alert_def new_alert_def)
  have fresh: "active_alert g c ?fresh \<longleftrightarrow> g = al_agent ?fresh \<and> c = ''runtime.offline''" for g c
    by (simp add: offline_alert_def new_alert_def active_alert_def active_def) auto
  have raised: "single_active (raise_alert ?fresh ?see as)"
    by (rule single_raise [OF Cons.prems(1)]) (use fresh code in auto)
  have lowered: "single_active (upd_first p (resolve (clock e)) as)" for p
    by (rule single_upd_first [OF _ Cons.prems(1)]) simp
  have rest: "List.find (\<lambda>r'. rt_agent r' = rt_agent r \<and> in_org org (rt_org r')) rs = None"
    unfolding find_None_all using Cons.prems(2) by (auto simp: image_iff)
  note up = offline_active_raise [of ?see ?fresh g as, OF active_touched fresh code]
  note down = offline_active_resolve [OF Cons.prems(1), of g "rt_agent r" "clock e"]
  show ?case
    using Cons.IH [OF raised] Cons.IH [OF lowered] Cons.IH [OF Cons.prems(1)] Cons.prems(2) up down rest agent
    by (auto simp: Let_def split: option.splits)
qed simp

text \<open>
  After the evaluation of silent runtimes, the offline alert of an agent in scope is active exactly when
  the agent is supposed to run, its runtime is in a state that sends heartbeats, and the last heartbeat is
  missing or older than the limit.
\<close>

theorem offline_alert_iff_silent:
  assumes "telemetry_step\<^sup>*\<^sup>* empty_telemetry t"
    and "distinct (map (rt_agent \<circ> snd) (runtimes s))"
    and "r \<in> snd ` set (runtimes s)" and "in_org org (rt_org r)"
  shows "(\<exists>a\<in>set (alerts (snd (evaluateOfflineAlerts e org stale s t))). active_alert (rt_agent r) ''runtime.offline'' a)
    \<longleftrightarrow> supposed_to_run r s \<and> silent (clock e - or_else stale 120000) r"
proof -
  have single: "single_active (alerts t)"
    using assms(1) by (induction rule: rtranclp_induct)
      (auto simp: single_step, simp add: empty_telemetry_def single_active_def)
  have found: "List.find (\<lambda>r'. rt_agent r' = rt_agent r \<and> in_org org (rt_org r')) (map snd (runtimes s)) = Some r"
    by (rule find_unique [where k = rt_agent]) (use assms in auto)
  show ?thesis
    using offline_loop_active [OF single, of "map snd (runtimes s)" "rt_agent r" e "clock e - or_else stale 120000" org s 0 "[]"]
      assms(2) found
    by (simp add: evaluateOfflineAlerts_def offline_active_def split_beta)
qed

theorem offline_alert_iff_silent_witness:
  "\<exists>a\<in>set (alerts (snd (evaluateOfflineAlerts (beat_env\<lparr>clock := 200000\<rparr>) None None beat_fleet degraded))).
     active_alert ''a'' ''runtime.offline'' a"
proof -
  let ?e = "beat_env\<lparr>clock := 200000\<rparr>"
  obtain r where r: "runtimes beat_fleet = [(''r'', r)]" and agent: "rt_agent r = ''a''"
    by (simp add: beat_fleet_def createAgentRuntime_def getAgentRuntimeByAgent_def createAgent_def
        empty_fleet_def Let_def)
  have reach: "telemetry_step\<^sup>*\<^sup>* empty_telemetry degraded"
    using telemetry_step.beat [of empty_telemetry beat_env "beat_input ''degraded''" beat_fleet]
    by (auto simp: degraded_def)
  have "list_all (\<lambda>r. supposed_to_run r beat_fleet \<and> silent (clock ?e - or_else None 120000) r) (map snd (runtimes beat_fleet))"
    by code_simp
  then show ?thesis
    using offline_alert_iff_silent [OF reach, of beat_fleet r None ?e None] r agent by (simp add: in_org_def)
qed

end
