(* ===== verification/Retention.thy ===== *)
theory Retention
  imports Fleet_Telemetry Tenant_Records
begin

text \<open>
  Retention in \<open>MemoryPlatformRepository\<close> (\<open>retentionCutoffs\<close>, \<open>enforceRetentionPolicies\<close> and
  \<open>listRetentionRuns\<close> in \<open>packages/db/memory-repository.mjs\<close>): old telemetry, usage and audit records of an
  organization are deleted, and a command is queued for every backup past its age that is not being
  restored. The state is the whole repository as far as retention touches it.
\<close>

section \<open>Cutoffs\<close>

definition DEFAULT_RETENTION :: retention_policy where
  "DEFAULT_RETENTION = \<lparr>rp_telemetryDays = 30, rp_usageDays = 400, rp_auditDays = 365, rp_sensitiveDays = 365,
     rp_backupDays = 30, rp_updatedBy = None, rp_updatedAt = 0\<rparr>"

record cutoffs =
  co_telemetry :: instant
  co_usage :: instant
  co_audit :: instant
  co_sensitive :: instant
  co_backup :: instant

definition day :: int where
  "day = 24 * 60 * 60000"

definition retentionCutoffs :: "retention_policy \<Rightarrow> instant \<Rightarrow> cutoffs" where
  "retentionCutoffs p now =
     \<lparr>co_telemetry = now - rp_telemetryDays p * day, co_usage = now - rp_usageDays p * day,
      co_audit = now - rp_auditDays p * day, co_sensitive = now - rp_sensitiveDays p * day,
      co_backup = now - rp_backupDays p * day\<rparr>"

record retention_run =
  rr_id :: ident
  rr_org :: ident
  rr_status :: string
  rr_cutoffs :: cutoffs
  rr_deleted :: "(string \<times> nat) list"
  rr_expirations :: nat
  rr_startedAt :: instant
  rr_completedAt :: "instant option"

record platform =
  fleet :: fleet_state
  telemetry :: telemetry_state
  tenant :: tenant_state
  retention_runs :: "retention_run list"

definition policy_of :: "ident \<Rightarrow> fleet_state \<Rightarrow> retention_policy" where
  "policy_of org s = or_else (map_of (retention s) org) DEFAULT_RETENTION"

section \<open>Deleting records\<close>

text \<open>An unreadable time counts as recent; the times of the records below are always readable.\<close>

definition recent :: "instant \<Rightarrow> instant \<Rightarrow> bool" where
  "recent t cutoff \<longleftrightarrow> cutoff \<le> t"

definition purge :: "('x \<Rightarrow> bool) \<Rightarrow> 'x list \<Rightarrow> 'x list" where
  "purge p xs = filter (\<lambda>x. \<not> p x) xs"

definition purged :: "('x \<Rightarrow> bool) \<Rightarrow> 'x list \<Rightarrow> nat" where
  "purged p xs = length xs - length (purge p xs)"

definition old_heartbeat :: "ident \<Rightarrow> cutoffs \<Rightarrow> heartbeat \<Rightarrow> bool" where
  "old_heartbeat org c h \<longleftrightarrow> hb_org h = org \<and> \<not> recent (hb_receivedAt h) (co_telemetry c)"

definition old_sample :: "ident \<Rightarrow> cutoffs \<Rightarrow> resource_sample \<Rightarrow> bool" where
  "old_sample org c r \<longleftrightarrow> sm_org r = org \<and> \<not> recent (sm_receivedAt r) (co_telemetry c)"

definition old_event :: "ident \<Rightarrow> cutoffs \<Rightarrow> telemetry_event \<Rightarrow> bool" where
  "old_event org c v \<longleftrightarrow> te_org v = org \<and> \<not> recent (or_else (te_occurredAt v) (te_receivedAt v)) (co_telemetry c)"

definition old_rollup :: "ident \<Rightarrow> cutoffs \<Rightarrow> usage_rollup \<Rightarrow> bool" where
  "old_rollup org c u \<longleftrightarrow> uo_org u = org \<and> \<not> recent (uo_bucketStart u) (co_usage c)"

definition old_access :: "ident \<Rightarrow> cutoffs \<Rightarrow> access_event \<Rightarrow> bool" where
  "old_access org c v \<longleftrightarrow> sa_org v = org \<and> \<not> recent (sa_createdAt v) (co_sensitive c)"

definition old_audit :: "ident \<Rightarrow> cutoffs \<Rightarrow> audit_event \<Rightarrow> bool" where
  "old_audit org c v \<longleftrightarrow> au_org v = Some org \<and> \<not> recent (au_createdAt v) (co_audit c)"

definition deleted_counts :: "ident \<Rightarrow> cutoffs \<Rightarrow> platform \<Rightarrow> (string \<times> nat) list" where
  "deleted_counts org c p =
     [(''heartbeats'', purged (old_heartbeat org c) (heartbeats (telemetry p))),
      (''resourceSamples'', purged (old_sample org c) (samples (telemetry p))),
      (''telemetryEvents'', purged (old_event org c) (events (telemetry p))),
      (''usageRollups'', purged (old_rollup org c) (rollups (telemetry p))),
      (''sensitiveAccessEvents'', purged (old_access org c) (access_events (tenant p))),
      (''auditEvents'', purged (old_audit org c) (audit (tenant p)))]"

definition purge_all :: "ident \<Rightarrow> cutoffs \<Rightarrow> platform \<Rightarrow> platform" where
  "purge_all org c p =
     p\<lparr>telemetry := (telemetry p)\<lparr>heartbeats := purge (old_heartbeat org c) (heartbeats (telemetry p)),
         samples := purge (old_sample org c) (samples (telemetry p)),
         events := purge (old_event org c) (events (telemetry p)),
         rollups := purge (old_rollup org c) (rollups (telemetry p))\<rparr>,
       tenant := (tenant p)\<lparr>access_events := purge (old_access org c) (access_events (tenant p)),
         audit := purge (old_audit org c) (audit (tenant p))\<rparr>\<rparr>"

section \<open>Expiring backups\<close>

definition owner_deployment :: "ident \<Rightarrow> backup \<Rightarrow> fleet_state \<Rightarrow> deployment option" where
  "owner_deployment org b s = List.find (\<lambda>d. dp_id d = bk_deployment b \<and> dp_org d = org) (deployments s)"

definition restoring :: "backup \<Rightarrow> fleet_state \<Rightarrow> bool" where
  "restoring b s \<longleftrightarrow>
     (\<exists>r\<in>set (restores s). rs_backup r = Some (JStr (bk_id b)) \<and> (rs_status r = ''requested'' \<or> rs_status r = ''running''))"

definition expirable :: "ident \<Rightarrow> instant \<Rightarrow> fleet_state \<Rightarrow> backup \<Rightarrow> bool" where
  "expirable org cutoff s b \<longleftrightarrow>
     owner_deployment org b s \<noteq> None \<and> \<not> restoring b s \<and>
     bk_status b \<in> {''created'', ''verified'', ''failed''} \<and> \<not> recent (bk_createdAt b) cutoff"

definition expire_request ::
  "ident \<Rightarrow> instant \<Rightarrow> ident \<Rightarrow> ident \<Rightarrow> retention_policy \<Rightarrow> backup \<Rightarrow> deployment \<Rightarrow> command" where
  "expire_request i now org run p b d =
     \<lparr>cm_id = i, cm_org = Some org, cm_deployment = dp_id d, cm_agent = dp_agent d,
      cm_key = Some (dp_id d @ ''/backup.expire/'' @ bk_id b @ ''/'' @ run), cm_action = ''backup.expire'',
      cm_target = dp_agent d, cm_arguments = JObj [(''backup_id'', JStr (bk_id b))], cm_approval = None,
      cm_expectedVersion = dp_observed d, cm_state = CQueued, cm_priority = 200, cm_attempt = 0,
      cm_requestedBy = rp_updatedBy p, cm_leaseServer = None, cm_leaseExpiresAt = None,
      cm_expiresAt = now + day, cm_createdAt = now\<rparr>"

text \<open>The loop over the backups: the updated records and the commands that are queued, in order.\<close>

fun expire_backups ::
  "env \<Rightarrow> nat \<Rightarrow> instant \<Rightarrow> ident \<Rightarrow> ident \<Rightarrow> retention_policy \<Rightarrow> instant \<Rightarrow> fleet_state \<Rightarrow> backup list \<Rightarrow>
     backup list \<times> command list" where
  "expire_backups e n now org run p cutoff s [] = ([], [])"
| "expire_backups e n now org run p cutoff s (b # bs) =
     (if expirable org cutoff s b
      then (case expire_backups e (Suc n) now org run p cutoff s bs of
              (bs', cs) \<Rightarrow> (b\<lparr>bk_status := ''expiring''\<rparr> # bs',
                 expire_request (uuid e n) now org run p b (the (owner_deployment org b s)) # cs))
      else (case expire_backups e n now org run p cutoff s bs of (bs', cs) \<Rightarrow> (b # bs', cs)))"

section \<open>Enforcement\<close>

definition cutoffs_json :: "cutoffs \<Rightarrow> json" where
  "cutoffs_json c = JObj [(''telemetry'', JNum (Integer (co_telemetry c))), (''usage'', JNum (Integer (co_usage c))),
     (''audit'', JNum (Integer (co_audit c))), (''sensitiveAccess'', JNum (Integer (co_sensitive c))),
     (''backup'', JNum (Integer (co_backup c)))]"

definition run_audit :: "ident \<Rightarrow> instant \<Rightarrow> ident option \<Rightarrow> string \<Rightarrow> retention_run \<Rightarrow> audit_event" where
  "run_audit i now actor reason r =
     \<lparr>au_id = i, au_org = Some (rr_org r), au_actor = actor, au_action = ''retention.enforced'',
      au_targetType = ''retention_run'', au_target = Some (rr_id r),
      au_metadata = JObj [(''reason'', JStr reason),
        (''deletedCounts'', JObj (map (\<lambda>(k, n). (k, JNum (Integer (int n)))) (rr_deleted r))),
        (''backupExpirationCommands'', JNum (Integer (int (rr_expirations r)))),
        (''cutoffs'', cutoffs_json (rr_cutoffs r))],
      au_createdAt = now\<rparr>"

text \<open>One organization: \<open>n\<close> identifiers have been drawn before.\<close>

definition enforce_org ::
  "env \<Rightarrow> nat \<Rightarrow> instant \<Rightarrow> ident option \<Rightarrow> string \<Rightarrow> ident \<Rightarrow> platform \<Rightarrow> retention_run \<times> platform" where
  "enforce_org e n now actor reason org p =
     (let pol = policy_of org (fleet p);
          c = retentionCutoffs pol now;
          (bs, cs) = expire_backups e (n + 2) now org (uuid e n) pol (co_backup c) (fleet p) (backups (fleet p));
          r = \<lparr>rr_id = uuid e n, rr_org = org, rr_status = ''succeeded'', rr_cutoffs = c,
               rr_deleted = deleted_counts org c p, rr_expirations = length cs, rr_startedAt = now,
               rr_completedAt = Some now\<rparr>;
          p1 = purge_all org c p
      in (r, p1\<lparr>fleet := (fleet p1)\<lparr>backups := bs, commands := commands (fleet p1) @ cs\<rparr>,
               tenant := (tenant p1)\<lparr>audit := audit (tenant p1) @ [run_audit (uuid e (n + 1)) now actor reason r]\<rparr>,
               retention_runs := retention_runs p1 @ [r]\<rparr>))"

fun enforce_all ::
  "env \<Rightarrow> nat \<Rightarrow> instant \<Rightarrow> ident option \<Rightarrow> string \<Rightarrow> ident list \<Rightarrow> platform \<Rightarrow> retention_run list \<times> platform" where
  "enforce_all e n now actor reason [] p = ([], p)"
| "enforce_all e n now actor reason (org # orgs) p =
     (let (r, p1) = enforce_org e n now actor reason org p;
          (rs, p2) = enforce_all e (n + 2 + rr_expirations r) now actor reason orgs p1
      in (r # rs, p2))"

definition retention_targets :: "ident option \<Rightarrow> fleet_state \<Rightarrow> ident list" where
  "retention_targets org s = filter (\<lambda>i. in_org org i) (map fst (organizations s))"

record retention_input =
  rti_scope :: "ident option"
  rti_now :: "instant option"
  rti_actor :: "ident option"
  rti_reason :: "string option"

definition enforceRetentionPolicies ::
  "env \<Rightarrow> retention_input \<Rightarrow> platform \<Rightarrow> retention_run list \<times> platform" where
  "enforceRetentionPolicies e i p =
     enforce_all e 0 (or_else (rti_now i) (clock e)) (rti_actor i)
       (or_else (rti_reason i) ''Scheduled retention enforcement'') (retention_targets (rti_scope i) (fleet p)) p"

definition listRetentionRuns :: "ident option \<Rightarrow> int option \<Rightarrow> platform \<Rightarrow> retention_run list" where
  "listRetentionRuns org limit p =
     take (nat (clamp_num 1 500 100 limit)) (rev (filter (\<lambda>r. in_org org (rr_org r)) (retention_runs p)))"

section \<open>Backups and restores of an organization\<close>

definition agent_of_deployment :: "ident \<Rightarrow> fleet_state \<Rightarrow> ident option" where
  "agent_of_deployment d s = map_option dp_agent (find_last (\<lambda>x. dp_id x = d) (deployments s))"

definition listBackupRecords :: "ident option \<Rightarrow> fleet_state \<Rightarrow> (backup \<times> ident option) list" where
  "listBackupRecords org s =
     (let here = dp_id ` set (filter (\<lambda>d. in_org org (dp_org d)) (deployments s))
      in map (\<lambda>b. (b, agent_of_deployment (bk_deployment b) s)) (rev (filter (\<lambda>b. bk_deployment b \<in> here) (backups s))))"

definition listBackupRestoreRuns :: "ident option \<Rightarrow> fleet_state \<Rightarrow> (restore_run \<times> ident option) list" where
  "listBackupRestoreRuns org s =
     (let here = dp_id ` set (filter (\<lambda>d. in_org org (dp_org d)) (deployments s))
      in map (\<lambda>r. (r, agent_of_deployment (rs_deployment r) s)) (rev (filter (\<lambda>r. rs_deployment r \<in> here) (restores s))))"

definition listConfigRevisions :: "ident option \<Rightarrow> ident option \<Rightarrow> fleet_state \<Rightarrow> config_revision list" where
  "listConfigRevisions org agent s =
     rev (filter (\<lambda>c. in_org org (cf_org c) \<and> in_org agent (cf_agent c)) (configs s))"

definition listUpstreamCandidates :: "fleet_state \<Rightarrow> upstream_candidate list" where
  "listUpstreamCandidates s = rev (candidates s)"

section \<open>What is deleted\<close>

definition past_retention :: "instant \<Rightarrow> ident list \<Rightarrow> (cutoffs \<Rightarrow> instant) \<Rightarrow> fleet_state \<Rightarrow> ident \<Rightarrow> instant \<Rightarrow> bool" where
  "past_retention now orgs age s org t \<longleftrightarrow> org \<in> set orgs \<and> t < age (retentionCutoffs (policy_of org s) now)"

lemma enforce_org_frame:
  assumes "enforce_org e n now actor reason org p = (r, p1)"
  shows "retention (fleet p1) = retention (fleet p)" and "deployments (fleet p1) = deployments (fleet p)"
    and "restores (fleet p1) = restores (fleet p)"
    and "telemetry p1 = telemetry (purge_all org (retentionCutoffs (policy_of org (fleet p)) now) p)"
    and "fst (expire_backups e (n + 2) now org (uuid e n) (policy_of org (fleet p))
          (co_backup (retentionCutoffs (policy_of org (fleet p)) now)) (fleet p) (backups (fleet p))) = backups (fleet p1)"
    and "commands (fleet p1) = commands (fleet p) @
          snd (expire_backups e (n + 2) now org (uuid e n) (policy_of org (fleet p))
            (co_backup (retentionCutoffs (policy_of org (fleet p)) now)) (fleet p) (backups (fleet p)))"
    and "rr_org r = org"
  using assms by (auto simp: enforce_org_def purge_all_def Let_def split: prod.splits)

lemma purge_heartbeats:
  "enforce_all e n now actor reason orgs p = (rs, p') \<Longrightarrow>
    heartbeats (telemetry p') =
      filter (\<lambda>h. \<not> past_retention now orgs co_telemetry (fleet p) (hb_org h) (hb_receivedAt h)) (heartbeats (telemetry p))"
proof (induction orgs arbitrary: n p rs p')
  case Nil
  then show ?case by (simp add: past_retention_def)
next
  case (Cons org orgs)
  obtain r p1 rs' where one: "enforce_org e n now actor reason org p = (r, p1)"
    and rest: "enforce_all e (n + 2 + rr_expirations r) now actor reason orgs p1 = (rs', p')"
    using Cons.prems by (auto simp: Let_def split: prod.splits)
  have pol: "policy_of o' (fleet p1) = policy_of o' (fleet p)" for o'
    using enforce_org_frame(1) [OF one] by (simp add: policy_of_def)
  show ?case
    using Cons.IH [OF rest] enforce_org_frame(4) [OF one]
    by (auto simp: purge_all_def purge_def old_heartbeat_def past_retention_def recent_def pol intro: filter_cong)
qed

text \<open>
  Enforcement deletes exactly the heartbeats of the organizations in scope that are older than the
  telemetry cutoff of their own organization's policy; everything else stays, in order.
\<close>

theorem retention_deletes_only_old_heartbeats:
  "heartbeats (telemetry (snd (enforceRetentionPolicies e i p))) =
    filter (\<lambda>h. \<not> past_retention (or_else (rti_now i) (clock e)) (retention_targets (rti_scope i) (fleet p)) co_telemetry
        (fleet p) (hb_org h) (hb_receivedAt h)) (heartbeats (telemetry p))"
  by (rule purge_heartbeats) (simp add: enforceRetentionPolicies_def prod_eq_iff)

section \<open>What expires\<close>

definition names_backup :: "ident \<Rightarrow> command \<Rightarrow> bool" where
  "names_backup b c \<longleftrightarrow> cm_action c = ''backup.expire'' \<and> cm_arguments c = JObj [(''backup_id'', JStr b)]"

lemma filter_key:
  "distinct (map k xs) \<Longrightarrow> b \<in> set xs \<Longrightarrow> filter (\<lambda>x. k x = k b \<and> P x) xs = (if P b then [b] else [])"
proof (induction xs)
  case (Cons a xs)
  show ?case
  proof (cases "a = b")
    case True
    then have "\<forall>x\<in>set xs. k x \<noteq> k b" using Cons.prems(1) by (auto simp: image_iff)
    then have "filter (\<lambda>x. k x = k b \<and> P x) xs = []" by (auto simp: filter_empty_conv)
    with True show ?thesis by simp
  next
    case False
    then have "b \<in> set xs" and "k a \<noteq> k b" using Cons.prems by (auto simp: image_iff)
    then show ?thesis using Cons by simp
  qed
qed simp

lemma expire_backups_list:
  "fst (expire_backups e n now org run p cutoff s bs) =
     map (\<lambda>b. if expirable org cutoff s b then b\<lparr>bk_status := ''expiring''\<rparr> else b) bs"
  by (induction e n now org run p cutoff s bs rule: expire_backups.induct) (auto split: prod.splits)

lemma expire_backups_commands:
  "length (filter (names_backup b) (snd (expire_backups e n now org run p cutoff s bs))) =
     length (filter (\<lambda>x. bk_id x = b \<and> expirable org cutoff s x) bs)"
  by (induction e n now org run p cutoff s bs rule: expire_backups.induct)
     (auto split: prod.splits simp: names_backup_def expire_request_def)

lemma expire_backups_queued:
  "c \<in> set (snd (expire_backups e n now org run p cutoff s bs)) \<Longrightarrow> cm_state c = CQueued \<and> cm_expiresAt c = now + day"
  by (induction e n now org run p cutoff s bs rule: expire_backups.induct)
     (auto split: prod.splits if_splits simp: expire_request_def)

lemma expirable_expiring [simp]: "\<not> expirable org cutoff s (b\<lparr>bk_status := ''expiring''\<rparr>)"
  by (simp add: expirable_def)

text \<open>
  Enforcement for one organization changes the backups that are past their age, belong to a deployment
  of the organization and are not being restored, to expiring, and queues exactly one expiry command for
  each of them and none for any other backup.
\<close>

theorem retention_expires_exactly_old_backups:
  assumes "enforce_org e n now actor reason org p = (r, p')"
    and "distinct (map bk_id (backups (fleet p)))" and "b \<in> set (backups (fleet p))"
  shows "(let dead = expirable org (co_backup (retentionCutoffs (policy_of org (fleet p)) now)) (fleet p) b;
              added = filter (names_backup (bk_id b)) (drop (length (commands (fleet p))) (commands (fleet p')))
          in List.find (\<lambda>x. bk_id x = bk_id b) (backups (fleet p')) = Some (if dead then b\<lparr>bk_status := ''expiring''\<rparr> else b) \<and>
             length added = (if dead then 1 else 0))"
proof -
  define cutoff where "cutoff = co_backup (retentionCutoffs (policy_of org (fleet p)) now)"
  let ?run = "\<lambda>bs. expire_backups e (n + 2) now org (uuid e n) (policy_of org (fleet p)) cutoff (fleet p) bs"
  let ?new = "\<lambda>b. if expirable org cutoff (fleet p) b then b\<lparr>bk_status := ''expiring''\<rparr> else b"
  note frame = enforce_org_frame(5,6) [OF assms(1), folded cutoff_def]
  have new: "backups (fleet p') = map ?new (backups (fleet p))"
    using frame(1) by (simp add: expire_backups_list)
  have "List.find (\<lambda>x. bk_id x = bk_id b) (backups (fleet p')) = Some (?new b)"
  proof (rule find_unique [where k = bk_id])
    show "distinct (map bk_id (backups (fleet p')))"
      using assms(2) by (simp add: new o_def if_distrib [of bk_id] cong: if_cong)
    show "?new b \<in> set (backups (fleet p'))" using assms(3) by (simp add: new)
  qed auto
  moreover have "filter (\<lambda>x. bk_id x = bk_id b \<and> expirable org cutoff (fleet p) x) (backups (fleet p)) =
      (if expirable org cutoff (fleet p) b then [b] else [])"
    by (rule filter_key [OF assms(2,3)])
  then have "length (filter (names_backup (bk_id b)) (snd (?run (backups (fleet p))))) =
      (if expirable org cutoff (fleet p) b then 1 else 0)"
    unfolding expire_backups_commands by simp
  ultimately show ?thesis using frame(2) by (simp add: Let_def cutoff_def)
qed

definition stored_backup :: "ident \<Rightarrow> instant \<Rightarrow> backup" where
  "stored_backup i created = \<lparr>bk_id = i, bk_deployment = ''d'', bk_policy = None, bk_type = ''runtime-files'',
     bk_status = ''verified'', bk_encrypted = True, bk_uri = None, bk_sha = None, bk_bytes = None,
     bk_verifiedAt = None, bk_expiredAt = None, bk_createdAt = created, bk_expiresAt = created\<rparr>"

definition archive :: platform where
  "archive = \<lparr>fleet = empty_fleet
       \<lparr>organizations := [(''o'', \<lparr>og_id = ''o'', og_name = ''O'', og_createdAt = 0\<rparr>)],
        deployments := [\<lparr>dp_id = ''d'', dp_org = ''o'', dp_agent = ''a'', dp_environment = ''production'', dp_observed = 0,
          dp_desired = 0, dp_server = ''v'', dp_name = ''n'', dp_status = ''active'', dp_createdAt = 0\<rparr>],
        backups := [stored_backup ''old'' 0, stored_backup ''new'' (40 * day)]\<rparr>,
     telemetry = empty_telemetry, tenant = empty_tenant, retention_runs = []\<rparr>"

definition archive_env :: env where
  "archive_env = \<lparr>clock = 41 * day, uuid = (\<lambda>n. replicate n CHR ''x'')\<rparr>"

theorem retention_expires_exactly_old_backups_witness:
  "length (filter (names_backup ''old'')
     (commands (fleet (snd (enforce_org archive_env 0 (41 * day) None ''r'' ''o'' archive))))) = 1"
proof -
  obtain r p' where run: "enforce_org archive_env 0 (41 * day) None ''r'' ''o'' archive = (r, p')" by fastforce
  have "distinct (map bk_id (backups (fleet archive)))" and "stored_backup ''old'' 0 \<in> set (backups (fleet archive))"
    and none: "commands (fleet archive) = []"
    by (simp_all add: archive_def stored_backup_def empty_fleet_def)
  moreover have "expirable ''o'' (co_backup (retentionCutoffs (policy_of ''o'' (fleet archive)) (41 * day))) (fleet archive)
      (stored_backup ''old'' 0)" by code_simp
  ultimately show ?thesis
    using retention_expires_exactly_old_backups [OF run, of "stored_backup ''old'' 0"] run
    by (simp add: Let_def stored_backup_def)
qed

end
