(* ===== verification/Scene_Store.thy ===== *)
theory Scene_Store
  imports Fleet_Store
begin

text \<open>
  Scenes: the revisioned view of an agent and the log of patches that clients resume from
  (\<open>ensureAgentScene\<close>, \<open>applyAgentSceneIntent\<close> and \<open>listAgentSceneEvents\<close> in
  \<open>packages/db/memory-repository.mjs\<close>, the identifier check and the wire message in
  \<open>packages/scene/projection.mjs\<close>). The first half models the code; the second shows that the log has
  exactly one patch per revision, so that a client that resumes from any revision reaches the current view.
\<close>

section \<open>Data\<close>

record scene =
  sn_org :: ident
  sn_user :: ident
  sn_agent :: ident
  sn_scene :: ident
  sn_revision :: int
  sn_view :: json
  sn_createdAt :: instant
  sn_updatedAt :: instant

text \<open>A patch has the single operation that replaces \<open>/view\<close> by \<open>pt_view\<close>.\<close>

record patch =
  pt_id :: ident
  pt_org :: ident
  pt_user :: ident
  pt_agent :: ident
  pt_scene :: ident
  pt_base :: int
  pt_revision :: int
  pt_view :: json
  pt_createdAt :: instant

record scene_state =
  scenes :: "(string \<times> scene) list"
  scene_events :: "patch list"

record scene_input =
  si_org :: ident
  si_user :: ident
  si_agent :: ident
  si_scene :: ident
  si_view :: "json option"

record intent_input = scene_input +
  si_action :: string
  si_expected :: "int option"
  si_event :: "ident option"

definition scene_key :: "ident \<Rightarrow> ident \<Rightarrow> string" where
  "scene_key agent sc = agent @ '':'' @ sc"

section \<open>Operations\<close>

text \<open>\<open>find_agent\<close> is the lookup in the map of agents.\<close>

definition ensureAgentScene ::
  "(ident \<Rightarrow> agent option) \<Rightarrow> env \<Rightarrow> 'x scene_input_scheme \<Rightarrow> scene_state \<Rightarrow> scene option \<times> scene_state" where
  "ensureAgentScene find_agent e i s =
     (case find_agent (si_agent i) of
        None \<Rightarrow> (None, s)
      | Some a \<Rightarrow>
          if ag_org a \<noteq> si_org i \<or> ag_owner a \<noteq> si_user i then (None, s)
          else
            (case map_of (scenes s) (scene_key (si_agent i) (si_scene i)) of
               Some sc \<Rightarrow> (Some sc, s)
             | None \<Rightarrow>
                 (let sc = \<lparr>sn_org = si_org i, sn_user = si_user i, sn_agent = si_agent i, sn_scene = si_scene i,
                        sn_revision = 0, sn_view = or_else (si_view i) (JObj [(''surfaces'', JArr [])]),
                        sn_createdAt = clock e, sn_updatedAt = clock e\<rparr>
                  in (Some sc, s\<lparr>scenes := AList.update (scene_key (si_agent i) (si_scene i)) sc (scenes s)\<rparr>))))"

definition getAgentScene :: "'x scene_input_scheme \<Rightarrow> scene_state \<Rightarrow> scene option" where
  "getAgentScene i s =
     (case map_of (scenes s) (scene_key (si_agent i) (si_scene i)) of
        None \<Rightarrow> None
      | Some sc \<Rightarrow> if sn_org sc \<noteq> si_org i \<or> sn_user sc \<noteq> si_user i then None else Some sc)"

datatype intent_result = Applied scene "patch option" | Conflict scene

definition next_scene :: "instant \<Rightarrow> 'x scene_input_scheme \<Rightarrow> scene \<Rightarrow> scene" where
  "next_scene now i sc =
     sc\<lparr>sn_revision := sn_revision sc + 1, sn_view := or_else (si_view i) (sn_view sc), sn_updatedAt := now\<rparr>"

definition patch_to :: "env \<Rightarrow> ident option \<Rightarrow> scene \<Rightarrow> patch" where
  "patch_to e event sc =
     \<lparr>pt_id = or_else event (uuid e 0), pt_org = sn_org sc, pt_user = sn_user sc, pt_agent = sn_agent sc,
      pt_scene = sn_scene sc, pt_base = sn_revision sc - 1, pt_revision = sn_revision sc, pt_view = sn_view sc,
      pt_createdAt = sn_updatedAt sc\<rparr>"

definition applyAgentSceneIntent :: "env \<Rightarrow> intent_input \<Rightarrow> scene_state \<Rightarrow> intent_result option \<times> scene_state" where
  "applyAgentSceneIntent e i s =
     (let key = scene_key (si_agent i) (si_scene i)
      in case map_of (scenes s) key of
           None \<Rightarrow> (None, s)
         | Some sc \<Rightarrow>
             if sn_org sc \<noteq> si_org i \<or> sn_user sc \<noteq> si_user i then (None, s)
             else if si_action i = ''resync'' then (Some (Applied sc None), s)
             else if si_expected i \<noteq> None \<and> si_expected i \<noteq> Some (sn_revision sc) then (Some (Conflict sc), s)
             else
               (let sc' = next_scene (clock e) i sc; p = patch_to e (si_event i) sc'
                in (Some (Applied sc' (Some p)),
                    s\<lparr>scenes := map_modify key (next_scene (clock e) i) (scenes s),
                      scene_events := scene_events s @ [p]\<rparr>)))"

definition about :: "ident \<Rightarrow> ident \<Rightarrow> patch \<Rightarrow> bool" where
  "about agent sc p \<longleftrightarrow> pt_agent p = agent \<and> pt_scene p = sc"

definition listAgentSceneEvents ::
  "'x scene_input_scheme \<Rightarrow> int option \<Rightarrow> int option \<Rightarrow> scene_state \<Rightarrow> patch list" where
  "listAgentSceneEvents i after limit s =
     take (nat (clamp_num 1 500 100 limit))
       (filter (\<lambda>p. pt_org p = si_org i \<and> pt_user p = si_user i \<and> about (si_agent i) (si_scene i) p \<and>
          max 0 (num_or after 0) < pt_revision p) (scene_events s))"

text \<open>\<open>assertSceneId\<close>: \<open>null\<close> and \<open>undefined\<close> become the empty string, which does not match.\<close>

definition assertSceneId :: "string option \<Rightarrow> failure + string" where
  "assertSceneId v =
     (let i = or_else v [] in if matches IDENTIFIER i then Inr i else Inl (CodedError ''invalid_scene_id'' (Some 400)))"

section \<open>The log of a scene\<close>

inductive scene_step :: "scene_state \<Rightarrow> scene_state \<Rightarrow> bool" where
  ensure: "scene_step s (snd (ensureAgentScene find_agent e (i :: scene_input) s))"
| intent: "scene_step s (snd (applyAgentSceneIntent e j s))"

definition scene_log :: "scene \<Rightarrow> scene_state \<Rightarrow> patch list" where
  "scene_log sc s = filter (about (sn_agent sc) (sn_scene sc)) (scene_events s)"

text \<open>The view after the patches of a log, from an earlier view.\<close>

definition replay :: "json \<Rightarrow> patch list \<Rightarrow> json" where
  "replay v ps = fold (\<lambda>p _. pt_view p) ps v"

definition scene_ok :: "scene_state \<Rightarrow> string \<times> scene \<Rightarrow> bool" where
  "scene_ok s kv \<longleftrightarrow>
     (case kv of (k, sc) \<Rightarrow>
        k = scene_key (sn_agent sc) (sn_scene sc) \<and> 0 \<le> sn_revision sc \<and>
        map pt_revision (scene_log sc s) = [1..sn_revision sc] \<and>
        (\<forall>p\<in>set (scene_log sc s). pt_org p = sn_org sc \<and> pt_user p = sn_user sc \<and> pt_base p = pt_revision p - 1) \<and>
        (scene_log sc s \<noteq> [] \<longrightarrow> pt_view (last (scene_log sc s)) = sn_view sc))"

definition scene_inv :: "scene_state \<Rightarrow> bool" where
  "scene_inv s \<longleftrightarrow> distinct (map fst (scenes s)) \<and> (\<forall>kv\<in>set (scenes s). scene_ok s kv) \<and>
     (\<forall>p\<in>set (scene_events s). \<exists>sc. map_of (scenes s) (scene_key (pt_agent p) (pt_scene p)) = Some sc)"

definition no_scenes :: scene_state where
  "no_scenes = \<lparr>scenes = [], scene_events = []\<rparr>"

lemma ensure_inv:
  assumes "scene_inv s"
  shows "scene_inv (snd (ensureAgentScene find_agent e i s))"
proof (cases "snd (ensureAgentScene find_agent e i s) = s")
  case False
  let ?k = "scene_key (si_agent i) (si_scene i)"
  let ?sc = "\<lparr>sn_org = si_org i, sn_user = si_user i, sn_agent = si_agent i, sn_scene = si_scene i,
    sn_revision = 0, sn_view = or_else (si_view i) (JObj [(''surfaces'', JArr [])]),
    sn_createdAt = clock e, sn_updatedAt = clock e\<rparr>"
  have "map_of (scenes s) ?k = None \<and> snd (ensureAgentScene find_agent e i s) = s\<lparr>scenes := AList.update ?k ?sc (scenes s)\<rparr>"
    using False by (cases "find_agent (si_agent i)"; cases "map_of (scenes s) ?k")
      (auto simp: ensureAgentScene_def Let_def split: if_splits)
  then obtain sc where new: "map_of (scenes s) ?k = None" "sn_agent sc = si_agent i" "sn_scene sc = si_scene i"
    "sn_revision sc = 0" "snd (ensureAgentScene find_agent e i s) = s\<lparr>scenes := AList.update ?k sc (scenes s)\<rparr>"
    by (metis scene.select_convs(3,4,5))
  have fresh: "?k \<notin> fst ` set (scenes s)" using new(1) by (simp add: map_of_eq_None_iff)
  have "\<not> about (si_agent i) (si_scene i) p" if "p \<in> set (scene_events s)" for p
    using assms that new(1) unfolding scene_inv_def about_def by fastforce
  then have "scene_log sc s = []" using new(2,3) by (simp add: scene_log_def filter_empty_conv)
  then have ok: "scene_ok s (?k, sc)" using new(2-4) by (simp add: scene_ok_def)
  have frame: "scene_ok (s\<lparr>scenes := x\<rparr>) kv = scene_ok s kv" for x kv
    by (simp add: scene_ok_def scene_log_def)
  show ?thesis
    using assms fresh ok frame unfolding new(5) scene_inv_def by (auto simp: update_fresh map_add_def split: option.splits)
qed (use assms in simp)

lemma map_modify_mem:
  assumes "distinct (map fst m)" and "map_of m k = Some v" and "(k', v') \<in> set (map_modify k f m)"
  shows "(k' = k \<and> v' = f v) \<or> (k' \<noteq> k \<and> (k', v') \<in> set m)"
proof -
  obtain w where w: "(k', w) \<in> set m" "v' = (if k' = k then f w else w)"
    using assms(3) by (auto simp: map_modify_def)
  show ?thesis
  proof (cases "k' = k")
    case True
    then have "w = v" using map_of_is_SomeI [OF assms(1) w(1)] assms(2) by simp
    then show ?thesis using w True by simp
  qed (use w in simp)
qed

lemma upto_snoc: "0 \<le> (n::int) \<Longrightarrow> [1..n + 1] = [1..n] @ [n + 1]"
  by (simp add: upto_rec2)

lemma apply_inv:
  assumes "scene_inv s"
  shows "scene_inv (snd (applyAgentSceneIntent e i s))"
proof (cases "snd (applyAgentSceneIntent e i s) = s")
  case False
  let ?k = "scene_key (si_agent i) (si_scene i)"
  from False obtain sc where sc: "map_of (scenes s) ?k = Some sc"
    by (cases "map_of (scenes s) ?k") (auto simp: applyAgentSceneIntent_def)
  let ?sc' = "next_scene (clock e) i sc"
  let ?p = "patch_to e (si_event i) ?sc'"
  let ?t = "s\<lparr>scenes := map_modify ?k (next_scene (clock e) i) (scenes s), scene_events := scene_events s @ [?p]\<rparr>"
  have t: "snd (applyAgentSceneIntent e i s) = ?t"
    using False sc by (auto simp: applyAgentSceneIntent_def Let_def split: if_splits)
  have mem: "(?k, sc) \<in> set (scenes s)" using sc by (rule map_of_SomeD)
  then have ok: "scene_ok s (?k, sc)" using assms by (simp add: scene_inv_def)
  then have k: "?k = scene_key (sn_agent sc) (sn_scene sc)" by (simp add: scene_ok_def)
  have about: "about (sn_agent sc) (sn_scene sc) ?p"
    by (simp add: about_def patch_to_def next_scene_def)
  have log: "scene_log ?sc' ?t = scene_log sc s @ [?p]"
    using about by (simp add: scene_log_def next_scene_def)
  have ok': "scene_ok ?t (?k, ?sc')"
    using ok k unfolding scene_ok_def prod.case log
    by (auto simp: next_scene_def patch_to_def upto_snoc)
  have other: "scene_ok ?t (k', sc'')" if o': "k' \<noteq> ?k" "(k', sc'') \<in> set (scenes s)" for k' sc''
  proof -
    have old: "scene_ok s (k', sc'')" using assms o'(2) by (simp add: scene_inv_def)
    then have "\<not> about (sn_agent sc'') (sn_scene sc'') ?p"
      using o'(1) k by (auto simp: about_def scene_ok_def patch_to_def next_scene_def)
    then have "scene_log sc'' ?t = scene_log sc'' s" by (simp add: scene_log_def)
    then show ?thesis using old by (simp add: scene_ok_def)
  qed
  have dis: "distinct (map fst (scenes s))" using assms by (simp add: scene_inv_def)
  have "scene_ok ?t kv" if "kv \<in> set (scenes ?t)" for kv
    using map_modify_mem [OF dis sc, of "fst kv" "snd kv" "next_scene (clock e) i"] that ok' other by (cases kv) auto
  moreover have "distinct (map fst (scenes ?t))" using dis by (simp add: keys_map_modify)
  moreover have "\<exists>x. map_of (scenes ?t) (scene_key (pt_agent p) (pt_scene p)) = Some x" if "p \<in> set (scene_events ?t)" for p
  proof (cases "p = ?p")
    case True
    then have "scene_key (pt_agent p) (pt_scene p) = ?k" using k by (simp add: patch_to_def next_scene_def)
    then show ?thesis using sc by (simp add: map_of_map_modify)
  next
    case False
    then have "p \<in> set (scene_events s)" using that by simp
    then obtain x where "map_of (scenes s) (scene_key (pt_agent p) (pt_scene p)) = Some x"
      using assms unfolding scene_inv_def by blast
    then show ?thesis using sc by (cases "scene_key (pt_agent p) (pt_scene p) = ?k") (simp_all add: map_of_map_modify)
  qed
  ultimately show ?thesis unfolding t scene_inv_def by blast
qed (use assms in simp)

lemma scene_reachable_inv: "scene_step\<^sup>*\<^sup>* no_scenes s \<Longrightarrow> scene_inv s"
proof (induction rule: rtranclp_induct)
  case base
  then show ?case by (simp add: no_scenes_def scene_inv_def)
next
  case (step s t)
  from step(2,3) show ?case by cases (auto intro: ensure_inv apply_inv)
qed

section \<open>Properties\<close>

text \<open>The log of a scene is complete and gapless: in every reachable store the patches of a scene have the revisions
  1 to the current one, each based on the revision before, and the last one carries the current view.\<close>

theorem scene_log_is_gapless:
  assumes "scene_step\<^sup>*\<^sup>* no_scenes s" and "map_of (scenes s) k = Some sc"
  shows "map pt_revision (scene_log sc s) = [1..sn_revision sc] \<and>
    (\<forall>p\<in>set (scene_log sc s). pt_base p = pt_revision p - 1) \<and>
    replay (sn_view sc) (scene_log sc s) = sn_view sc"
proof -
  have "scene_ok s (k, sc)" using scene_reachable_inv [OF assms(1)] map_of_SomeD [OF assms(2)] by (simp add: scene_inv_def)
  moreover have "replay v ps = (if ps = [] then v else pt_view (last ps))" for v ps
    unfolding replay_def by (induction ps arbitrary: v) auto
  ultimately show ?thesis by (simp add: scene_ok_def)
qed

definition scene_env :: env where
  "scene_env = \<lparr>clock = 1, uuid = (\<lambda>_. ''u'')\<rparr>"

definition scene_owner :: agent where
  "scene_owner = \<lparr>ag_id = ''A'', ag_org = ''O'', ag_owner = ''U'', ag_name = ''n'', ag_description = [], ag_avatar = None,
     ag_soul = [], ag_status = [], ag_init = [], ag_desired = [], ag_settings = JNull, ag_errorCode = None,
     ag_errorDetail = None, ag_createdAt = 0, ag_updatedAt = 0\<rparr>"

definition set_view :: "string \<Rightarrow> int option \<Rightarrow> intent_input" where
  "set_view v expected = \<lparr>si_org = ''O'', si_user = ''U'', si_agent = ''A'', si_scene = ''main'', si_view = Some (JStr v),
     si_action = ''update'', si_expected = expected, si_event = None\<rparr>"

definition two_edits :: scene_state where
  "two_edits = snd (applyAgentSceneIntent scene_env (set_view ''w'' (Some 1))
     (snd (applyAgentSceneIntent scene_env (set_view ''v'' None)
       (snd (ensureAgentScene (\<lambda>_. Some scene_owner) scene_env (scene_input.truncate (set_view ''u'' None)) no_scenes)))))"

lemma two_edits_reachable: "scene_step\<^sup>*\<^sup>* no_scenes two_edits"
  unfolding two_edits_def by (meson scene_step.ensure scene_step.intent rtranclp.rtrancl_refl rtranclp.rtrancl_into_rtrancl)

theorem scene_log_is_gapless_witness: "map pt_revision (scene_log (snd (hd (scenes two_edits))) two_edits) = [1..2]"
proof -
  have "map_of (scenes two_edits) ''A:main'' = Some (snd (hd (scenes two_edits)))"
    "sn_revision (snd (hd (scenes two_edits))) = 2" by code_simp+
  with scene_log_is_gapless [OF two_edits_reachable this(1)] show ?thesis by simp
qed

text \<open>What a client that has seen revision \<open>r\<close> is listed: the rest of the log, as far as the limit allows.\<close>

lemma replay_last: "replay v ps = (if ps = [] then v else pt_view (last ps))"
  unfolding replay_def by (induction ps arbitrary: v) auto

lemma listed_patches:
  assumes "scene_ok s (k, sc)" and "sn_agent sc = si_agent i" and "sn_scene sc = si_scene i" and "sn_org sc = si_org i"
    and "sn_user sc = si_user i" and "0 \<le> r" and "r \<le> sn_revision sc"
  shows "listAgentSceneEvents i (Some r) limit s =
      take (nat (clamp_num 1 500 100 limit)) (filter (\<lambda>p. r < pt_revision p) (scene_log sc s))"
    and "map pt_revision (filter (\<lambda>p. r < pt_revision p) (scene_log sc s)) = [r + 1..sn_revision sc]"
proof -
  have revs: "map pt_revision (scene_log sc s) = [1..sn_revision sc]"
    and own: "\<forall>p\<in>set (scene_log sc s). pt_org p = si_org i \<and> pt_user p = si_user i"
    using assms(1,4,5) by (auto simp: scene_ok_def)
  have "max 0 (num_or (Some r) 0) = r" using assms(6) by (simp add: num_or_def)
  moreover have "filter (\<lambda>p. pt_org p = si_org i \<and> pt_user p = si_user i \<and> about (si_agent i) (si_scene i) p \<and> r < pt_revision p) (scene_events s)
      = filter (\<lambda>p. r < pt_revision p) (scene_log sc s)"
    using own assms(2,3) by (auto simp: scene_log_def intro!: filter_cong)
  ultimately show "listAgentSceneEvents i (Some r) limit s =
      take (nat (clamp_num 1 500 100 limit)) (filter (\<lambda>p. r < pt_revision p) (scene_log sc s))"
    by (simp add: listAgentSceneEvents_def)
  have "[1..sn_revision sc] = [1..r] @ [r + 1..sn_revision sc]"
  proof (cases "r = sn_revision sc")
    case False
    then show ?thesis using assms(6,7) upto_split1 [of 1 "r + 1" "sn_revision sc"] by simp
  qed simp
  then have "filter (\<lambda>x. r < x) [1..sn_revision sc] = [r + 1..sn_revision sc]"
    by (auto simp: filter_empty_conv filter_id_conv)
  then show "map pt_revision (filter (\<lambda>p. r < pt_revision p) (scene_log sc s)) = [r + 1..sn_revision sc]"
    unfolding revs [symmetric] by (simp add: filter_map o_def)
qed

lemma last_listed:
  assumes "scene_ok s (k, sc)" and "0 \<le> r" and "r < sn_revision sc"
  shows "filter (\<lambda>p. r < pt_revision p) (scene_log sc s) \<noteq> []"
    and "pt_view (last (filter (\<lambda>p. r < pt_revision p) (scene_log sc s))) = sn_view sc"
proof -
  let ?log = "scene_log sc s"
  have revs: "map pt_revision ?log = [1..sn_revision sc]" and end_view: "?log \<noteq> [] \<Longrightarrow> pt_view (last ?log) = sn_view sc"
    using assms(1) by (auto simp: scene_ok_def)
  have last: "[1..sn_revision sc] = [1..sn_revision sc - 1] @ [sn_revision sc]"
    using assms(2,3) by (intro upto_rec2) simp
  then have ne: "?log \<noteq> []" using revs by auto
  then have split: "?log = butlast ?log @ [last ?log]" by simp
  have "pt_revision (last ?log) = sn_revision sc"
    using ne revs last last_map [of ?log pt_revision] by simp
  then have "filter (\<lambda>p. r < pt_revision p) ?log = filter (\<lambda>p. r < pt_revision p) (butlast ?log) @ [last ?log]"
    using assms(3) by (subst split) simp
  then show "filter (\<lambda>p. r < pt_revision p) ?log \<noteq> []" "pt_view (last (filter (\<lambda>p. r < pt_revision p) ?log)) = sn_view sc"
    using ne end_view by simp_all
qed

text \<open>A client resumes without loss: the owner who asks for the patches after a revision it has seen gets exactly the
  patches after it, oldest first, up to the limit; when all of them fit, replaying them on any view ends in
  the current view.\<close>

theorem resume_reaches_current_view:
  assumes "scene_step\<^sup>*\<^sup>* no_scenes s" and "map_of (scenes s) (scene_key (si_agent i) (si_scene i)) = Some sc"
    and "sn_agent sc = si_agent i" and "sn_scene sc = si_scene i" and "sn_org sc = si_org i" and "sn_user sc = si_user i"
    and "0 \<le> r" and "r < sn_revision sc"
  shows "map pt_revision (listAgentSceneEvents i (Some r) limit s) =
      take (nat (clamp_num 1 500 100 limit)) [r + 1..sn_revision sc] \<and>
    (sn_revision sc - r \<le> clamp_num 1 500 100 limit \<longrightarrow>
      replay v (listAgentSceneEvents i (Some r) limit s) = sn_view sc)"
proof -
  let ?ps = "filter (\<lambda>p. r < pt_revision p) (scene_log sc s)"
  have ok: "scene_ok s (scene_key (si_agent i) (si_scene i), sc)"
    using scene_reachable_inv [OF assms(1)] map_of_SomeD [OF assms(2)] by (simp add: scene_inv_def)
  note listed = listed_patches [OF ok assms(3-7) less_imp_le [OF assms(8)]]
  have "length ?ps = nat (sn_revision sc - r)" using arg_cong [OF listed(2), of length] by simp
  then show ?thesis
    using listed(2) last_listed [OF ok assms(7,8)] by (auto simp: listed(1) replay_last take_map [symmetric])
qed

theorem resume_reaches_current_view_witness:
  "replay JNull (listAgentSceneEvents (set_view ''w'' None) (Some 1) None two_edits) = JStr ''w''"
proof -
  let ?sc = "snd (hd (scenes two_edits))" and ?i = "set_view ''w'' None"
  have c: "map_of (scenes two_edits) (scene_key (si_agent ?i) (si_scene ?i)) = Some ?sc" "sn_agent ?sc = si_agent ?i"
    "sn_scene ?sc = si_scene ?i" "sn_org ?sc = si_org ?i" "sn_user ?sc = si_user ?i" "0 \<le> (1::int)"
    "1 < sn_revision ?sc" "sn_revision ?sc - 1 \<le> clamp_num 1 500 100 None" "sn_view ?sc = JStr ''w''" by code_simp+
  from resume_reaches_current_view [OF two_edits_reachable c(1-7)] c(8,9) show ?thesis by simp
qed

text \<open>Concurrent edits are detected: an intent that expects another revision than the current one changes nothing and
  reports the conflict with the current scene; one that is accepted raises the revision by exactly one.\<close>

theorem stale_intent_is_a_conflict:
  assumes "map_of (scenes s) (scene_key (si_agent i) (si_scene i)) = Some sc" and "sn_org sc = si_org i"
    and "sn_user sc = si_user i" and "si_action i \<noteq> ''resync''"
  shows "(si_expected i \<notin> {None, Some (sn_revision sc)} \<longrightarrow> applyAgentSceneIntent e i s = (Some (Conflict sc), s)) \<and>
    (si_expected i \<in> {None, Some (sn_revision sc)} \<longrightarrow>
      (\<exists>sc' p. fst (applyAgentSceneIntent e i s) = Some (Applied sc' (Some p)) \<and> sn_revision sc' = sn_revision sc + 1 \<and>
        pt_base p = sn_revision sc \<and> pt_revision p = sn_revision sc' \<and>
        map_of (scenes (snd (applyAgentSceneIntent e i s))) (scene_key (si_agent i) (si_scene i)) = Some sc'))"
  using assms by (auto simp: applyAgentSceneIntent_def Let_def next_scene_def patch_to_def map_of_map_modify)

theorem stale_intent_is_a_conflict_witness:
  "snd (applyAgentSceneIntent scene_env (set_view ''x'' (Some 1)) two_edits) = two_edits"
proof -
  let ?sc = "snd (hd (scenes two_edits))" and ?i = "set_view ''x'' (Some 1)"
  have c: "map_of (scenes two_edits) (scene_key (si_agent ?i) (si_scene ?i)) = Some ?sc"
    "sn_org ?sc = si_org ?i" "sn_user ?sc = si_user ?i" "si_action ?i \<noteq> ''resync''"
    "si_expected ?i \<notin> {None, Some (sn_revision ?sc)}" by code_simp+
  from stale_intent_is_a_conflict [OF c(1-4)] c(5) show ?thesis by simp
qed

end
