(* ===== verification/Scene_Stream.thy ===== *)
theory Scene_Stream
  imports Scene_Store Js_Text
begin

text \<open>
  The live view of a scene: the documents and messages of \<open>packages/scene/projection.mjs\<close>, the event
  stream of \<open>packages/scene/sse-transport.mjs\<close>, and the stream and the intents of the scene endpoints in
  \<open>apps/web/routes/user-runtime.mjs\<close>. The contract validators are parameters; the store may change at every
  \<open>await\<close>. The client of the last section is the abstract reader the stream is written for.
\<close>

section \<open>Documents and messages\<close>

text \<open>
  What a stream is opened with: the owner scope, the contract's checks (a failed one throws), and the text of an
  instant.
\<close>

record scene_contract =
  sg_owner :: json
  sg_snapshot :: "json \<Rightarrow> bool"
  sg_patch :: "json \<Rightarrow> bool"
  sg_intent :: "json \<Rightarrow> bool"
  sg_time :: "instant \<Rightarrow> string"

definition num :: "int \<Rightarrow> json" where
  "num i = JNum (Integer i)"

definition trace_of :: "ident \<Rightarrow> string \<times> json" where
  "trace_of t = (''trace'', JObj [(''correlation_id'', JStr t)])"

definition checked :: "(json \<Rightarrow> bool) \<Rightarrow> json \<Rightarrow> failure + json" where
  "checked ok v = (if ok v then Inr v else Inl (TypeError ''invalid_contract_document''))"

definition sceneSnapshot :: "scene_contract \<Rightarrow> ident \<Rightarrow> scene \<Rightarrow> failure + json" where
  "sceneSnapshot g trace sc =
     checked (sg_snapshot g) (JObj
       [(''schema_version'', JStr ''2.0''), (''scene_id'', JStr (sn_scene sc)), (''owner_scope'', sg_owner g),
        (''revision'', num (sn_revision sc)),
        (''view'', if sn_view sc \<in> {JNull, JUndefined} then JObj [(''surfaces'', JArr [])] else sn_view sc),
        (''generated_at'', JStr (sg_time g (sn_updatedAt sc))), trace_of trace])"

definition replace_view :: "json \<Rightarrow> json" where
  "replace_view v = JArr [JObj [(''op'', JStr ''replace''), (''path'', JStr ''/view''), (''value'', v)]]"

definition scenePatch :: "scene_contract \<Rightarrow> ident \<Rightarrow> patch \<Rightarrow> failure + json" where
  "scenePatch g trace p =
     checked (sg_patch g) (JObj
       [(''schema_version'', JStr ''2.0''), (''scene_id'', JStr (pt_scene p)), (''owner_scope'', sg_owner g),
        (''base_revision'', num (pt_base p)), (''revision'', num (pt_revision p)), (''operations'', replace_view (pt_view p)),
        (''generated_at'', JStr (sg_time g (pt_createdAt p))), trace_of trace])"

definition sceneIntent :: "scene_contract \<Rightarrow> ident \<Rightarrow> ident \<Rightarrow> instant \<Rightarrow> string option \<Rightarrow> string \<Rightarrow> json \<Rightarrow> failure + json" where
  "sceneIntent g trace intentId now sceneId action payload =
     (case assertSceneId sceneId of
        Inl err \<Rightarrow> Inl err
      | Inr i \<Rightarrow>
          checked (sg_intent g) (JObj
            [(''schema_version'', JStr ''2.0''), (''scene_id'', JStr i), (''owner_scope'', sg_owner g),
             (''intent_id'', JStr (''intent_'' @ intentId)), (''action'', JStr action), (''payload'', payload),
             (''created_at'', JStr (sg_time g now)), trace_of trace]))"

text \<open>A document of its own: \<open>value.revision\<close> of an absent value would throw, which its callers never pass.\<close>

definition sceneEventMessage :: "json \<Rightarrow> json" where
  "sceneEventMessage v =
     (let type = (if truthy (at v ''schema_version'') \<and> prop_of ''base_revision'' v \<noteq> None then ''scene.patch'' else ''scene'')
      in JObj ([(''v'', num 1), (''type'', JStr type)] @
        (if type = ''scene'' then [(''rev'', at v ''revision''), (''view'', at v ''view'')]
         else [(''base'', at v ''base_revision''), (''rev'', at v ''revision''), (''operations'', at v ''operations'')])))"

definition coalesce :: "json list \<Rightarrow> json" where
  "coalesce vs = (case filter (\<lambda>v. v \<notin> {JNull, JUndefined}) vs of [] \<Rightarrow> JUndefined | v # _ \<Rightarrow> v)"

definition defaultSceneView :: "json \<Rightarrow> json" where
  "defaultSceneView agent =
     (let status = coalesce [at (at agent ''operational'') ''code'', at agent ''initializationStatus'', JStr ''uninitialized'']
      in JObj [(''surfaces'', JArr [JObj
           [(''id'', JStr ''bairui-agent-status''), (''kind'', JStr ''metric''), (''order'', num 0), (''intent'', JStr ''inform''),
            (''focus'', JBool True),
            (''data'', JObj [(''label'', coalesce [at agent ''name'', JStr ''bairui-agent'']), (''value'', status),
               (''detail'', JStr ''Hermes Runtime''), (''status'', status)])]])])"

section \<open>The cursor\<close>

text \<open>\<open>Number\<close> of the query parameter and of the \<open>last-event-id\<close> header.\<close>

definition sceneEventCursor :: "jnum \<Rightarrow> jnum \<Rightarrow> int" where
  "sceneEventCursor query header =
     (let safe = (\<lambda>n. if is_safe_integer n then (case n of Integer i \<Rightarrow> i | _ \<Rightarrow> 0) else 0)
      in max 0 (max (safe query) (safe header)))"

section \<open>The stream\<close>

text \<open>An event is the revision that becomes its \<open>id\<close>, its type and its data.\<close>

type_synonym event = "int \<times> string \<times> json"

definition snapshot_event :: "scene_contract \<Rightarrow> ident \<Rightarrow> scene \<Rightarrow> failure + event" where
  "snapshot_event g trace sc =
     (case sceneSnapshot g trace sc of
        Inl err \<Rightarrow> Inl err | Inr v \<Rightarrow> Inr (sn_revision sc, ''scene'', sceneEventMessage v))"

definition patch_event :: "scene_contract \<Rightarrow> ident \<Rightarrow> patch \<Rightarrow> failure + event" where
  "patch_event g trace p =
     (case scenePatch g trace p of
        Inl err \<Rightarrow> Inl err | Inr v \<Rightarrow> Inr (pt_revision p, ''scene.patch'', sceneEventMessage v))"

text \<open>
  What a step of the stream did: the events it wrote, the cursor after it, and the exception that ended the
  stream, if one did.
\<close>

record progress =
  pg_events :: "event list"
  pg_cursor :: int
  pg_failure :: "failure option"

definition emit_snapshot :: "scene_contract \<Rightarrow> ident \<Rightarrow> int \<Rightarrow> scene \<Rightarrow> progress" where
  "emit_snapshot g trace cursor sc =
     (case snapshot_event g trace sc of
        Inl err \<Rightarrow> \<lparr>pg_events = [], pg_cursor = cursor, pg_failure = Some err\<rparr>
      | Inr ev \<Rightarrow> \<lparr>pg_events = [ev], pg_cursor = sn_revision sc, pg_failure = None\<rparr>)"

definition open_stream :: "scene_contract \<Rightarrow> ident \<Rightarrow> scene \<Rightarrow> int \<Rightarrow> progress" where
  "open_stream g trace sc after =
     (let cursor = max 0 after
      in if cursor = 0 \<or> sn_revision sc < cursor then emit_snapshot g trace cursor sc
         else \<lparr>pg_events = [], pg_cursor = cursor, pg_failure = None\<rparr>)"

text \<open>
  The loop over the events of one poll; \<open>latest\<close> is what \<open>getAgentScene\<close> answers if an event does not fit.
\<close>

fun emit_events :: "scene_contract \<Rightarrow> (nat \<Rightarrow> ident) \<Rightarrow> scene option \<Rightarrow> int \<Rightarrow> patch list \<Rightarrow> progress" where
  "emit_events g traces latest cursor [] = \<lparr>pg_events = [], pg_cursor = cursor, pg_failure = None\<rparr>"
| "emit_events g traces latest cursor (p # ps) =
     (if pt_base p \<noteq> cursor then
        (case latest of
           None \<Rightarrow> \<lparr>pg_events = [], pg_cursor = cursor, pg_failure = None\<rparr>
         | Some sc \<Rightarrow> emit_snapshot g (traces 0) cursor sc)
      else
        (case patch_event g (traces 0) p of
           Inl err \<Rightarrow> \<lparr>pg_events = [], pg_cursor = cursor, pg_failure = Some err\<rparr>
         | Inr ev \<Rightarrow> (let r = emit_events g (\<lambda>k. traces (Suc k)) latest (pt_revision p) ps
                     in r\<lparr>pg_events := ev # pg_events r\<rparr>)))"

text \<open>One turn of the loop: the patches are read in \<open>s\<close>; the store may be at \<open>t\<close> when the scene is read.\<close>

definition poll_stream :: "scene_contract \<Rightarrow> (nat \<Rightarrow> ident) \<Rightarrow> scene_input \<Rightarrow> scene_state \<Rightarrow> scene_state \<Rightarrow> int \<Rightarrow> progress" where
  "poll_stream g traces i s t cursor =
     emit_events g traces (getAgentScene i t) cursor (listAgentSceneEvents i (Some cursor) (Some 100) s)"

section \<open>The endpoints of a user\<close>

text \<open>
  \<open>routes/user-runtime.mjs\<close> has a stream of its own, with the same loop but another start: a cursor beyond the
  scene is kept.
\<close>

definition open_route_stream :: "scene_contract \<Rightarrow> ident \<Rightarrow> scene \<Rightarrow> int option \<Rightarrow> progress" where
  "open_route_stream g trace sc after =
     (let cursor = max 0 (num_or after 0)
      in if cursor = 0 then emit_snapshot g trace cursor sc
         else \<lparr>pg_events = [], pg_cursor = cursor, pg_failure = None\<rparr>)"

text \<open>The view an intent leaves: \<open>navigate\<close> replaces the navigation, every other action keeps the view that was read.\<close>

definition navigated :: "json \<Rightarrow> string \<Rightarrow> string \<Rightarrow> json" where
  "navigated view surface now =
     (case view of
        JObj kvs \<Rightarrow> JObj (AList.update ''navigation'' (JObj [(''surface'', JStr surface), (''updatedAt'', JStr now)]) kvs)
      | _ \<Rightarrow> JObj [(''navigation'', JObj [(''surface'', JStr surface), (''updatedAt'', JStr now)])])"

definition intent_view :: "scene \<Rightarrow> string \<Rightarrow> string \<Rightarrow> string \<Rightarrow> json" where
  "intent_view sc action surface now = (if action = ''navigate'' then navigated (sn_view sc) surface now else sn_view sc)"

text \<open>The scene is read in one state; the intent is applied in a later one, after the runtime has answered a command.\<close>

definition nullish :: "json \<Rightarrow> json option" where
  "nullish v = (if v \<in> {JNull, JUndefined} then None else Some v)"

definition apply_route_intent ::
  "scene_contract \<Rightarrow> env \<Rightarrow> scene_input \<Rightarrow> string \<Rightarrow> string \<Rightarrow> scene \<Rightarrow> scene_state \<Rightarrow> intent_result option \<times> scene_state" where
  "apply_route_intent g e i action surface sc t =
     applyAgentSceneIntent e (scene_input.extend (i\<lparr>si_view := nullish (intent_view sc action surface (sg_time g (clock e)))\<rparr>)
       (intent_input.fields action None (Some (''intent_'' @ uuid e 1)))) t"

section \<open>The client\<close>

text \<open>
  What a client of the protocol makes of an event: a scene replaces what it has, a patch applies to the revision it is based
  on. A scene event names its revision \<open>rev\<close>. The repository's own page, \<open>bairui-scene-bootstrap.js\<close>, reads a field \<open>revision\<close>
  of it, which there is not, and so falls back to revision 0 until its next request for a snapshot.
\<close>

definition view_of :: "json \<Rightarrow> json option" where
  "view_of operations =
     (case operations of
        JArr [JObj op] \<Rightarrow> if map_of op ''path'' = Some (JStr ''/view'') then map_of op ''value'' else None
      | _ \<Rightarrow> None)"

definition receive :: "int \<times> json \<Rightarrow> event \<Rightarrow> (int \<times> json) option" where
  "receive seen ev =
     (case ev of (_, type, msg) \<Rightarrow>
        (if type = ''scene'' then (case at msg ''rev'' of JNum (Integer r) \<Rightarrow> Some (r, at msg ''view'') | _ \<Rightarrow> None)
         else if at msg ''base'' \<noteq> num (fst seen) then None
         else (case at msg ''rev'' of
                 JNum (Integer r) \<Rightarrow> map_option (\<lambda>v. (r, v)) (view_of (at msg ''operations''))
               | _ \<Rightarrow> None)))"

fun receive_all :: "int \<times> json \<Rightarrow> event list \<Rightarrow> (int \<times> json) option" where
  "receive_all seen [] = Some seen"
| "receive_all seen (ev # evs) = (case receive seen ev of None \<Rightarrow> None | Some seen' \<Rightarrow> receive_all seen' evs)"

lemma receive_all_append:
  "receive_all seen (xs @ ys) = (case receive_all seen xs of None \<Rightarrow> None | Some seen' \<Rightarrow> receive_all seen' ys)"
  by (induction xs arbitrary: seen) (auto split: option.splits)

text \<open>An absent view is shown as an empty one.\<close>

definition shown :: "json \<Rightarrow> json" where
  "shown v = (if v \<in> {JNull, JUndefined} then JObj [(''surfaces'', JArr [])] else v)"

lemma shown_shown [simp]: "shown (shown v) = shown v"
  by (auto simp: shown_def)

lemma receive_snapshot:
  "snapshot_event g trace sc = Inr ev \<Longrightarrow> receive seen ev = Some (sn_revision sc, shown (sn_view sc))"
  by (auto simp: snapshot_event_def sceneSnapshot_def checked_def sceneEventMessage_def receive_def shown_def at_def
        prop_of_def num_def truthy_def trace_of_def split: if_splits sum.splits)

lemma receive_patch:
  "patch_event g trace p = Inr ev \<Longrightarrow> receive seen ev = (if pt_base p = fst seen then Some (pt_revision p, pt_view p) else None)"
  by (auto simp: patch_event_def scenePatch_def checked_def sceneEventMessage_def receive_def at_def
        prop_of_def num_def truthy_def trace_of_def replace_view_def view_of_def split: if_splits sum.splits)

section \<open>The store moves on\<close>

definition owned_scene :: "scene_input \<Rightarrow> scene_state \<Rightarrow> scene \<Rightarrow> bool" where
  "owned_scene i s sc \<longleftrightarrow> map_of (scenes s) (scene_key (si_agent i) (si_scene i)) = Some sc \<and> sn_agent sc = si_agent i \<and>
     sn_scene sc = si_scene i \<and> sn_org sc = si_org i \<and> sn_user sc = si_user i"

text \<open>A later state of the same scene: more patches, and no other view for the same revision.\<close>

definition grows :: "scene \<Rightarrow> scene_state \<Rightarrow> scene \<Rightarrow> scene_state \<Rightarrow> bool" where
  "grows sc s sc' t \<longleftrightarrow> sn_revision sc \<le> sn_revision sc' \<and> (sn_revision sc' = sn_revision sc \<longrightarrow> sn_view sc' = sn_view sc) \<and>
     (\<exists>new. scene_log sc' t = scene_log sc s @ new \<and> (\<forall>p\<in>set new. sn_revision sc < pt_revision p))"

lemma grows_refl: "grows sc s sc s"
  by (simp add: grows_def)

lemma grows_trans: "grows a s b t \<Longrightarrow> grows b t c u \<Longrightarrow> grows a s c u"
  unfolding grows_def by force

lemma ensure_grows:
  assumes "owned_scene i s sc"
  shows "owned_scene i (snd (ensureAgentScene f e j s)) sc \<and> grows sc s sc (snd (ensureAgentScene f e j s))"
  using assms
  by (auto simp: ensureAgentScene_def Let_def owned_scene_def grows_def scene_log_def update_conv' split: option.splits)

lemma intent_grows:
  assumes "scene_inv s" and "owned_scene i s sc"
  shows "\<exists>sc'. owned_scene i (snd (applyAgentSceneIntent e j s)) sc' \<and> grows sc s sc' (snd (applyAgentSceneIntent e j s))"
proof -
  let ?k = "scene_key (si_agent i) (si_scene i)" and ?k' = "scene_key (si_agent j) (si_scene j)"
  let ?t = "snd (applyAgentSceneIntent e j s)"
  have "?t = s \<or> (\<exists>x. map_of (scenes s) ?k' = Some x \<and>
        ?t = s\<lparr>scenes := map_modify ?k' (next_scene (clock e) j) (scenes s),
            scene_events := scene_events s @ [patch_to e (si_event j) (next_scene (clock e) j x)]\<rparr>)"
    by (cases "map_of (scenes s) ?k'") (simp_all add: applyAgentSceneIntent_def Let_def)
  then consider (same) "?t = s"
    | (new) x where "map_of (scenes s) ?k' = Some x"
        "?t = s\<lparr>scenes := map_modify ?k' (next_scene (clock e) j) (scenes s),
            scene_events := scene_events s @ [patch_to e (si_event j) (next_scene (clock e) j x)]\<rparr>"
    by blast
  then show ?thesis
  proof cases
    case same
    then show ?thesis using assms(2) grows_refl by metis
  next
    case new
    have x: "?k' = scene_key (sn_agent x) (sn_scene x)"
      using map_of_SomeD [OF new(1)] assms(1) by (auto simp: scene_inv_def scene_ok_def)
    show ?thesis
    proof (cases "?k' = ?k")
      case True
      then have "x = sc" using new(1) assms(2) by (simp add: owned_scene_def)
      then show ?thesis
        using True assms(2) new(2)
        by (intro exI [of _ "next_scene (clock e) j sc"])
          (auto simp: owned_scene_def map_of_map_modify next_scene_def grows_def scene_log_def about_def patch_to_def)
    next
      case False
      then have "\<not> (sn_agent x = sn_agent sc \<and> sn_scene x = sn_scene sc)" using x assms(2) by (auto simp: owned_scene_def)
      then show ?thesis
        using False assms(2) new(2)
        by (intro exI [of _ sc])
          (auto simp: owned_scene_def map_of_map_modify grows_def scene_log_def about_def patch_to_def next_scene_def)
    qed
  qed
qed

lemma step_grows:
  assumes "scene_inv s" and "owned_scene i s sc" and "scene_step s t"
  shows "\<exists>sc'. owned_scene i t sc' \<and> grows sc s sc' t"
  using assms(3)
proof cases
  case (ensure f e j)
  then show ?thesis using ensure_grows [OF assms(2)] by metis
next
  case (intent e j)
  then show ?thesis using intent_grows [OF assms(1,2)] by simp
qed

lemma run_grows:
  assumes "scene_step\<^sup>*\<^sup>* s t" and "scene_step\<^sup>*\<^sup>* no_scenes s" and "owned_scene i s sc"
  shows "\<exists>sc'. owned_scene i t sc' \<and> grows sc s sc' t"
  using assms(1)
proof (induction rule: rtranclp_induct)
  case base
  then show ?case using assms(3) grows_refl by metis
next
  case (step t u)
  then obtain sc' where sc': "owned_scene i t sc'" "grows sc s sc' t" by blast
  have "scene_inv t" using scene_reachable_inv rtranclp_trans [OF assms(2) step(1)] by blast
  then show ?case using step_grows [OF _ sc'(1) step(2)] grows_trans [OF sc'(2)] by blast
qed

section \<open>Following the stream\<close>

text \<open>What a client with revision and view \<open>x\<close> has is a view the scene had at that revision.\<close>

definition knows :: "scene \<Rightarrow> scene_state \<Rightarrow> int \<times> json \<Rightarrow> bool" where
  "knows sc s x \<longleftrightarrow> 0 \<le> fst x \<and> fst x \<le> sn_revision sc \<and> (fst x = sn_revision sc \<longrightarrow> shown (snd x) = shown (sn_view sc)) \<and>
     (\<forall>p\<in>set (scene_log sc s). pt_revision p = fst x \<longrightarrow> shown (snd x) = shown (pt_view p))"

lemma knows_grows: "knows sc s x \<Longrightarrow> grows sc s sc' t \<Longrightarrow> knows sc' t x"
  unfolding knows_def grows_def by fastforce

lemma log_at_end:
  assumes "scene_ok s (k, sc)" and "p \<in> set (scene_log sc s)" and "q \<in> set (scene_log sc s)" and "pt_revision p = pt_revision q"
  shows "p = q"
proof -
  have "distinct (map pt_revision (scene_log sc s))" using assms(1) by (simp add: scene_ok_def)
  then show ?thesis using assms(2-4) by (simp add: distinct_map inj_on_def)
qed

lemma knows_patch:
  assumes "scene_ok s (k, sc)" and "p \<in> set (scene_log sc s)"
  shows "knows sc s (pt_revision p, pt_view p)"
proof -
  have revs: "map pt_revision (scene_log sc s) = [1..sn_revision sc]" using assms(1) by (simp add: scene_ok_def)
  have "pt_revision p \<in> set (map pt_revision (scene_log sc s))" using assms(2) by simp
  then have "1 \<le> pt_revision p \<and> pt_revision p \<le> sn_revision sc" unfolding revs by simp
  moreover have "pt_view p = sn_view sc" if end': "pt_revision p = sn_revision sc"
  proof -
    have ne: "scene_log sc s \<noteq> []" using assms(2) by auto
    then have "pt_revision (last (scene_log sc s)) = last [1..sn_revision sc]" using revs by (metis last_map)
    moreover have "[1..sn_revision sc] = [1..sn_revision sc - 1] @ [sn_revision sc]"
      using \<open>1 \<le> pt_revision p \<and> _\<close> by (intro upto_rec2) simp
    ultimately have "pt_revision (last (scene_log sc s)) = pt_revision p" using end' by simp
    then have "last (scene_log sc s) = p" using log_at_end [OF assms(1) _ assms(2)] ne by simp
    then show ?thesis using assms(1) ne by (auto simp: scene_ok_def)
  qed
  moreover have "q = p" if "q \<in> set (scene_log sc s)" "pt_revision q = pt_revision p" for q
    using log_at_end [OF assms(1) that(1) assms(2) that(2)] .
  ultimately show ?thesis by (auto simp: knows_def)
qed

lemma knows_current: "scene_ok s (k, sc) \<Longrightarrow> knows sc s (sn_revision sc, shown (sn_view sc))"
  using knows_patch [of s k sc] by (fastforce simp: knows_def scene_ok_def)

lemma emit_in_order:
  assumes "map pt_revision ps = [c + 1..c + int (length ps)]" and "\<forall>p\<in>set ps. pt_base p = pt_revision p - 1"
    and "pg_failure (emit_events g traces latest c ps) = None"
  shows "pg_cursor (emit_events g traces latest c ps) = c + int (length ps) \<and>
    receive_all (c, v) (pg_events (emit_events g traces latest c ps)) =
      Some (c + int (length ps), if ps = [] then v else pt_view (last ps))"
  using assms
proof (induction ps arbitrary: c v traces)
  case (Cons p ps)
  have "[c + 1..c + int (length (p # ps))] = (c + 1) # [c + 1 + 1..c + 1 + int (length ps)]"
    by (subst upto_rec1) (simp_all add: algebra_simps)
  then have p: "pt_revision p = c + 1" and ps: "map pt_revision ps = [c + 1 + 1..c + 1 + int (length ps)]"
    using Cons.prems(1) by simp_all
  have base: "pt_base p = c" using Cons.prems(2) p by simp
  then obtain ev where ev: "patch_event g (traces 0) p = Inr ev"
    using Cons.prems(3) by (cases "patch_event g (traces 0) p") auto
  have "pg_failure (emit_events g (\<lambda>k. traces (Suc k)) latest (c + 1) ps) = None"
    using Cons.prems(3) base ev p by (simp add: Let_def)
  from Cons.IH [OF ps _ this] Cons.prems(2) show ?case
    using base ev p receive_patch [OF ev, of "(c, v)"] by (simp add: Let_def)
qed simp

lemma take_upto_int: "take n [a..b] = [a..min b (a + int n - 1)]"
  by (rule nth_equalityI) (auto simp: nth_upto)

lemma poll_keeps_knowing:
  assumes "scene_ok s (scene_key (si_agent i) (si_scene i), sc)" and "owned_scene i s sc" and "knows sc s (c, v)"
    and "pg_failure (poll_stream g traces i s t c) = None"
  shows "\<exists>v'. receive_all (c, v) (pg_events (poll_stream g traces i s t c)) = Some (pg_cursor (poll_stream g traces i s t c), v') \<and>
    pg_cursor (poll_stream g traces i s t c) = min (sn_revision sc) (c + 100) \<and>
    knows sc s (pg_cursor (poll_stream g traces i s t c), v')"
proof -
  let ?ps = "take 100 (filter (\<lambda>p. c < pt_revision p) (scene_log sc s))"
  have c: "0 \<le> c" "c \<le> sn_revision sc" using assms(3) by (auto simp: knows_def)
  note own = assms(2) [unfolded owned_scene_def]
  have list: "listAgentSceneEvents i (Some c) (Some 100) s = ?ps"
    using listed_patches(1) [OF assms(1), of i c "Some 100"] own c by (simp add: clamp_num_def num_or_def)
  have all: "map pt_revision (filter (\<lambda>p. c < pt_revision p) (scene_log sc s)) = [c + 1..sn_revision sc]"
    using listed_patches(2) [OF assms(1), of i c] own c by simp
  then have revs: "map pt_revision ?ps = [c + 1..min (sn_revision sc) (c + 100)]"
    by (simp add: take_map [symmetric] take_upto_int add.commute)
  have len: "int (length ?ps) = min (sn_revision sc) (c + 100) - c"
    using arg_cong [OF revs, of length] c by simp
  then have run: "map pt_revision ?ps = [c + 1..c + int (length ?ps)]" using revs by simp
  have log: "set ?ps \<subseteq> set (scene_log sc s)" by (auto dest: in_set_takeD)
  have base: "\<forall>p\<in>set ?ps. pt_base p = pt_revision p - 1"
    using log assms(1) by (auto simp: scene_ok_def)
  note emit = emit_in_order [OF run base assms(4) [unfolded poll_stream_def list], of v]
  have "knows sc s (c + int (length ?ps), if ?ps = [] then v else pt_view (last ?ps))"
  proof (cases "?ps = []")
    case False
    then have "pt_revision (last ?ps) = last [c + 1..c + int (length ?ps)]" using run by (metis last_map)
    moreover have "[c + 1..c + int (length ?ps)] = [c + 1..c + int (length ?ps) - 1] @ [c + int (length ?ps)]"
      using False by (intro upto_rec2) (cases ?ps; simp)
    ultimately have rev: "pt_revision (last ?ps) = c + int (length ?ps)" by (metis last_snoc)
    have "last ?ps \<in> set (scene_log sc s)" using log last_in_set [OF False] by blast
    then have "knows sc s (pt_revision (last ?ps), pt_view (last ?ps))" by (rule knows_patch [OF assms(1)])
    then show ?thesis unfolding rev if_not_P [OF False] .
  qed (use assms(3) in simp)
  then show ?thesis using emit len unfolding poll_stream_def list by auto
qed

text \<open>
  A stream over a store that others change: it is opened, the store moves, and polls write events. A client that
  resumes knows the view of the revision it names.
\<close>

inductive streaming ::
  "scene_contract \<Rightarrow> scene_input \<Rightarrow> int \<times> json \<Rightarrow> scene_state \<Rightarrow> int \<Rightarrow> event list \<Rightarrow> bool"
  for g :: scene_contract and i :: scene_input and seen :: "int \<times> json" where
  opened: "scene_step\<^sup>*\<^sup>* no_scenes s \<Longrightarrow> owned_scene i s sc \<Longrightarrow>
    fst seen \<le> 0 \<or> sn_revision sc < fst seen \<or> knows sc s seen \<Longrightarrow>
    pg_failure (open_stream g trace sc (fst seen)) = None \<Longrightarrow>
    streaming g i seen s (pg_cursor (open_stream g trace sc (fst seen))) (pg_events (open_stream g trace sc (fst seen)))"
| stored: "streaming g i seen s c evs \<Longrightarrow> scene_step s t \<Longrightarrow> streaming g i seen t c evs"
| polled: "streaming g i seen s c evs \<Longrightarrow> scene_step\<^sup>*\<^sup>* s t \<Longrightarrow> pg_failure (poll_stream g traces i s t c) = None \<Longrightarrow>
    streaming g i seen t (pg_cursor (poll_stream g traces i s t c)) (evs @ pg_events (poll_stream g traces i s t c))"

lemma owned_ok: "scene_inv s \<Longrightarrow> owned_scene i s sc \<Longrightarrow> scene_ok s (scene_key (si_agent i) (si_scene i), sc)"
  by (auto simp: owned_scene_def scene_inv_def dest: map_of_SomeD)

lemma open_knows:
  assumes "scene_ok s (k, sc)" and "fst seen \<le> 0 \<or> sn_revision sc < fst seen \<or> knows sc s seen"
    and "pg_failure (open_stream g trace sc (fst seen)) = None"
  shows "\<exists>v. receive_all seen (pg_events (open_stream g trace sc (fst seen))) =
      Some (pg_cursor (open_stream g trace sc (fst seen)), v) \<and> knows sc s (pg_cursor (open_stream g trace sc (fst seen)), v)"
proof (cases "max 0 (fst seen) = 0 \<or> sn_revision sc < max 0 (fst seen)")
  case True
  then obtain ev where "snapshot_event g trace sc = Inr ev"
    using assms(3) by (cases "snapshot_event g trace sc") (auto simp: open_stream_def Let_def emit_snapshot_def)
  then show ?thesis
    using True receive_snapshot knows_current [OF assms(1)] by (simp add: open_stream_def Let_def emit_snapshot_def)
next
  case False
  then have "knows sc s seen" "max 0 (fst seen) = fst seen" using assms(2) by auto
  then show ?thesis using False by (cases seen) (simp add: open_stream_def Let_def)
qed

lemma streaming_knows:
  assumes "streaming g i seen s c evs"
  shows "scene_step\<^sup>*\<^sup>* no_scenes s \<and> (\<exists>sc v. owned_scene i s sc \<and> receive_all seen evs = Some (c, v) \<and> knows sc s (c, v))"
  using assms
proof (induction rule: streaming.induct)
  case (opened s sc trace)
  have "scene_ok s (scene_key (si_agent i) (si_scene i), sc)"
    using owned_ok [OF scene_reachable_inv [OF opened(1)] opened(2)] .
  from open_knows [OF this opened(3,4)] opened(1,2) show ?case by blast
next
  case (stored s c evs t)
  then obtain sc v where "owned_scene i s sc" "receive_all seen evs = Some (c, v)" "knows sc s (c, v)" by blast
  moreover have "scene_inv s" using stored scene_reachable_inv by blast
  ultimately show ?case using step_grows [OF _ _ stored(2)] knows_grows stored rtranclp.rtrancl_into_rtrancl by metis
next
  case (polled s c evs t traces)
  then obtain sc v where sc: "owned_scene i s sc" "receive_all seen evs = Some (c, v)" "knows sc s (c, v)"
    and run: "scene_step\<^sup>*\<^sup>* no_scenes s" by blast
  have ok: "scene_ok s (scene_key (si_agent i) (si_scene i), sc)" using owned_ok [OF scene_reachable_inv [OF run] sc(1)] .
  obtain v' where v': "receive_all (c, v) (pg_events (poll_stream g traces i s t c)) = Some (pg_cursor (poll_stream g traces i s t c), v')"
    "knows sc s (pg_cursor (poll_stream g traces i s t c), v')"
    using poll_keeps_knowing [OF ok sc(1,3) polled(3)] by blast
  obtain sc' where "owned_scene i t sc'" "grows sc s sc' t" using run_grows [OF polled(2) run sc(1)] by blast
  then show ?case
    using v' sc(2) knows_grows run polled(2) rtranclp_trans by (auto simp: receive_all_append)
qed

section \<open>Properties\<close>

definition open_contract :: scene_contract where
  "open_contract = \<lparr>sg_owner = JNull, sg_snapshot = (\<lambda>_. True), sg_patch = (\<lambda>_. True), sg_intent = (\<lambda>_. True),
     sg_time = (\<lambda>_. [])\<rparr>"

definition main_scene :: scene_input where
  "main_scene = scene_input.truncate (set_view [] None)"

lemma streaming_two_edits: "streaming open_contract main_scene (1, JStr ''v'') two_edits 1 []"
proof -
  let ?sc = "snd (hd (scenes two_edits))" and ?g = open_contract and ?seen = "(1, JStr ''v'')"
  have c: "owned_scene main_scene two_edits ?sc" "knows ?sc two_edits ?seen" "pg_failure (open_stream ?g [] ?sc (fst ?seen)) = None"
    "pg_events (open_stream ?g [] ?sc (fst ?seen)) = []" "pg_cursor (open_stream ?g [] ?sc (fst ?seen)) = 1" by code_simp+
  from streaming.opened [OF two_edits_reachable c(1) disjI2 [OF disjI2 [OF c(2)]] c(3)] c(4,5) show ?thesis by metis
qed

text \<open>C26. The stream is faithful: however the store changes between and during the polls, every event fits what the client
  has, and the client holds, up to the placeholder for an absent view, the view the scene had at the revision of
  the cursor, the current view if the cursor is at the end.\<close>

theorem client_follows_the_scene:
  assumes "streaming g i seen s c evs"
  shows "\<exists>sc v. owned_scene i s sc \<and> receive_all seen evs = Some (c, v) \<and> c \<le> sn_revision sc \<and>
    (\<forall>p\<in>set (scene_log sc s). pt_revision p = c \<longrightarrow> shown v = shown (pt_view p)) \<and>
    (c = sn_revision sc \<longrightarrow> shown v = shown (sn_view sc))"
  using streaming_knows [OF assms] by (auto simp: knows_def)

fun polls :: "scene_contract \<Rightarrow> (nat \<Rightarrow> nat \<Rightarrow> ident) \<Rightarrow> scene_input \<Rightarrow> scene_state \<Rightarrow> nat \<Rightarrow> int \<Rightarrow> progress" where
  "polls g traces i s 0 c = \<lparr>pg_events = [], pg_cursor = c, pg_failure = None\<rparr>"
| "polls g traces i s (Suc n) c =
     (let r = poll_stream g (traces n) i s s c
      in if pg_failure r \<noteq> None then r
         else (let r' = polls g traces i s n (pg_cursor r) in r'\<lparr>pg_events := pg_events r @ pg_events r'\<rparr>))"

theorem client_follows_the_scene_witness:
  "\<exists>v. receive_all (1, JStr ''v'') (pg_events (poll_stream open_contract (\<lambda>_. []) main_scene two_edits two_edits 1)) = Some (2, v) \<and>
     shown v = JStr ''w''"
proof -
  let ?r = "poll_stream open_contract (\<lambda>_. []) main_scene two_edits two_edits 1"
  have c: "pg_failure ?r = None" "pg_cursor ?r = 2" "owned_scene main_scene two_edits (snd (hd (scenes two_edits)))"
    "sn_revision (snd (hd (scenes two_edits))) = 2" "shown (sn_view (snd (hd (scenes two_edits)))) = JStr ''w''" by code_simp+
  have "streaming open_contract main_scene (1, JStr ''v'') two_edits (pg_cursor ?r) ([] @ pg_events ?r)"
    by (rule streaming.polled [OF streaming_two_edits rtranclp.rtrancl_refl c(1)])
  from client_follows_the_scene [OF this] c show ?thesis by (auto simp: owned_scene_def)
qed

lemma polls_reach:
  assumes "scene_ok s (scene_key (si_agent i) (si_scene i), sc)" and "owned_scene i s sc" and "knows sc s (c, v)"
    and "pg_failure (polls g traces i s n c) = None"
  shows "\<exists>v'. receive_all (c, v) (pg_events (polls g traces i s n c)) = Some (pg_cursor (polls g traces i s n c), v') \<and>
    pg_cursor (polls g traces i s n c) = min (sn_revision sc) (c + 100 * int n) \<and>
    knows sc s (pg_cursor (polls g traces i s n c), v')"
  using assms(3,4)
proof (induction n arbitrary: c v)
  case 0
  then show ?case by (auto simp: knows_def)
next
  case (Suc n)
  let ?r = "poll_stream g (traces n) i s s c"
  have quiet: "pg_failure ?r = None" using Suc.prems(2) by (auto simp: Let_def split: if_splits)
  obtain v1 where v1: "receive_all (c, v) (pg_events ?r) = Some (pg_cursor ?r, v1)" "pg_cursor ?r = min (sn_revision sc) (c + 100)"
    "knows sc s (pg_cursor ?r, v1)"
    using poll_keeps_knowing [OF assms(1,2) Suc.prems(1) quiet] by blast
  have "pg_failure (polls g traces i s n (pg_cursor ?r)) = None" using Suc.prems(2) quiet by (simp add: Let_def)
  from Suc.IH [OF v1(3) this] v1 quiet show ?case by (auto simp: receive_all_append Let_def)
qed

text \<open>The stream catches up: a poll of a quiet store moves the cursor by up to a hundred revisions, so that \<open>n\<close> polls
  bring a client that is at most \<open>100 n\<close> revisions behind to the current view.\<close>

theorem polls_reach_the_current_view:
  assumes "streaming g i seen s c evs" and "pg_failure (polls g traces i s n c) = None" and "owned_scene i s sc"
    and "sn_revision sc - c \<le> 100 * int n"
  shows "\<exists>v. receive_all seen (evs @ pg_events (polls g traces i s n c)) = Some (sn_revision sc, v) \<and> shown v = shown (sn_view sc)"
proof -
  obtain v where v: "receive_all seen evs = Some (c, v)" "knows sc s (c, v)" and run: "scene_step\<^sup>*\<^sup>* no_scenes s"
    using streaming_knows [OF assms(1)] assms(3) by (auto simp: owned_scene_def)
  obtain v' where v': "receive_all (c, v) (pg_events (polls g traces i s n c)) = Some (pg_cursor (polls g traces i s n c), v')"
    "pg_cursor (polls g traces i s n c) = min (sn_revision sc) (c + 100 * int n)" "knows sc s (pg_cursor (polls g traces i s n c), v')"
    using polls_reach [OF owned_ok [OF scene_reachable_inv [OF run] assms(3)] assms(3) v(2) assms(2)] by blast
  have "pg_cursor (polls g traces i s n c) = sn_revision sc" using v'(2) assms(4) by simp
  then show ?thesis using v(1) v'(1,3) by (simp add: receive_all_append knows_def)
qed

theorem polls_reach_the_current_view_witness:
  "\<exists>v. receive_all (1, JStr ''v'') (pg_events (polls open_contract (\<lambda>_ _. []) main_scene two_edits 1 1)) = Some (2, v) \<and> shown v = JStr ''w''"
proof -
  let ?sc = "snd (hd (scenes two_edits))"
  have c: "pg_failure (polls open_contract (\<lambda>_ _. []) main_scene two_edits 1 1) = None" "owned_scene main_scene two_edits ?sc"
    "sn_revision ?sc - 1 \<le> 100 * int 1" "sn_revision ?sc = 2" "shown (sn_view ?sc) = JStr ''w''" by code_simp+
  from polls_reach_the_current_view [OF streaming_two_edits c(1-3)] c(4,5) show ?thesis by simp
qed

section \<open>Where the endpoints differ\<close>

text \<open>The scene endpoint never resynchronizes a client whose revision is ahead of the scene: it writes nothing until the
  scene has more revisions than the client claims, where the panel stream sends the scene at once.\<close>

theorem client_ahead_is_left_waiting:
  assumes "scene_step\<^sup>*\<^sup>* no_scenes t" and "owned_scene i t sc" and "sn_revision sc < n" and "snapshot_event g trace sc = Inr ev"
  shows "pg_events (open_route_stream g trace sc (Some n)) = []
    \<and> pg_events (poll_stream g traces i t u (pg_cursor (open_route_stream g trace sc (Some n)))) = []
    \<and> pg_cursor (poll_stream g traces i t u (pg_cursor (open_route_stream g trace sc (Some n)))) = n
    \<and> receive_all (n, v) (pg_events (open_stream g trace sc n)) = Some (sn_revision sc, shown (sn_view sc))"
proof -
  note ok = owned_ok [OF scene_reachable_inv [OF assms(1)] assms(2)]
  have n: "0 < n" using ok assms(3) by (simp add: scene_ok_def)
  then have start: "open_route_stream g trace sc (Some n) = \<lparr>pg_events = [], pg_cursor = n, pg_failure = None\<rparr>"
    by (simp add: open_route_stream_def num_or_def)
  have "pt_revision p \<le> sn_revision sc" if "p \<in> set (scene_log sc t)" for p
  proof -
    have "pt_revision p \<in> set (map pt_revision (scene_log sc t))" using that by simp
    also have "map pt_revision (scene_log sc t) = [1..sn_revision sc]" using ok by (simp add: scene_ok_def)
    finally show ?thesis by simp
  qed
  then have "listAgentSceneEvents i (Some n) (Some 100) t = []"
    using n assms(2,3) by (fastforce simp: listAgentSceneEvents_def num_or_def filter_empty_conv scene_log_def owned_scene_def)
  then have "poll_stream g traces i t u n = \<lparr>pg_events = [], pg_cursor = n, pg_failure = None\<rparr>" by (simp add: poll_stream_def)
  then show ?thesis
    using start n assms(3,4) receive_snapshot [OF assms(4)] by (simp add: open_stream_def Let_def emit_snapshot_def)
qed

theorem client_ahead_is_left_waiting_witness:
  "pg_events (open_route_stream open_contract [] (snd (hd (scenes two_edits))) (Some 9)) = [] \<and>
   receive_all (9, JNull) (pg_events (open_stream open_contract [] (snd (hd (scenes two_edits))) 9)) = Some (2, JStr ''w'')"
proof -
  let ?sc = "snd (hd (scenes two_edits))"
  obtain ev where ev: "snapshot_event open_contract [] ?sc = Inr ev"
    by (simp add: snapshot_event_def sceneSnapshot_def checked_def open_contract_def)
  have c: "owned_scene main_scene two_edits ?sc" "sn_revision ?sc < 9" "sn_revision ?sc = 2" "shown (sn_view ?sc) = JStr ''w''" by code_simp+
  from client_ahead_is_left_waiting [OF two_edits_reachable c(1,2) ev, where u = two_edits and v = JNull] c(3,4) show ?thesis by simp
qed

text \<open>A late intent takes changes back: an intent of the scene endpoint other than \<open>navigate\<close> and \<open>resync\<close> writes the
  view it read before its runtime call as a new revision, whatever view the scene has by then.\<close>

theorem late_intent_reverts_the_view:
  assumes "getAgentScene i s = Some sc" and "scene_step\<^sup>*\<^sup>* s t" and "getAgentScene i t = Some sc'"
    and "action \<notin> {''navigate'', ''resync''}" and "sn_view sc \<notin> {JNull, JUndefined}"
  shows "\<exists>new p. fst (apply_route_intent g e i action surface sc t) = Some (Applied new (Some p)) \<and>
    sn_revision new = sn_revision sc' + 1 \<and> sn_view new = sn_view sc \<and> pt_view p = sn_view sc"
  using assms(3-5)
  by (auto simp: apply_route_intent_def nullish_def getAgentScene_def applyAgentSceneIntent_def intent_view_def Let_def next_scene_def
        patch_to_def scene_input.defs intent_input.defs split: option.splits if_splits)

definition one_edit :: scene_state where
  "one_edit = snd (applyAgentSceneIntent scene_env (set_view ''v'' None)
     (snd (ensureAgentScene (\<lambda>_. Some scene_owner) scene_env (scene_input.truncate (set_view ''u'' None)) no_scenes)))"

theorem late_intent_reverts_the_view_witness:
  "\<exists>new p. fst (apply_route_intent open_contract scene_env main_scene ''refresh'' [] (snd (hd (scenes one_edit))) two_edits) =
      Some (Applied new (Some p)) \<and> sn_revision new = 3 \<and> sn_view new = JStr ''v''"
proof -
  let ?sc = "snd (hd (scenes one_edit))" and ?sc' = "snd (hd (scenes two_edits))"
  have "two_edits = snd (applyAgentSceneIntent scene_env (set_view ''w'' (Some 1)) one_edit)"
    by (simp only: two_edits_def one_edit_def)
  then have run: "scene_step\<^sup>*\<^sup>* one_edit two_edits" by (metis scene_step.intent r_into_rtranclp)
  have c: "getAgentScene main_scene one_edit = Some ?sc" "getAgentScene main_scene two_edits = Some ?sc'"
    "''refresh'' \<notin> {''navigate'', ''resync''}" "sn_view ?sc = JStr ''v''" "sn_revision ?sc' = 2" by code_simp+
  from late_intent_reverts_the_view [OF c(1) run c(2,3), of open_contract scene_env "[]"] c(4,5) show ?thesis by auto
qed

end
