(* ===== verification/Panels.thy ===== *)
theory Panels
  imports Js_Text
begin

text \<open>
  The panels of the user interface: \<open>packages/bailongma-ui/panel-contracts.mjs\<close>. The manifest tells a client which
  panel is in which state, why, and which operations it may call. \<open>encodeURIComponent\<close> and the digest of the
  manifest are parameters.
\<close>

section \<open>Definitions\<close>

definition PANEL_CONTRACT_VERSION :: string where
  "PANEL_CONTRACT_VERSION = ''bairui.panel-manifest.v1''"

definition PANEL_STATES :: "string list" where
  "PANEL_STATES = [''available'', ''needs_configuration'', ''temporarily_unavailable'', ''unsupported'']"

definition OWNER_SCOPE_FIELDS :: "string list" where
  "OWNER_SCOPE_FIELDS = [''organization_id'', ''user_id'', ''agent_id'', ''workspace_id'']"

record panel_operation =
  po_status :: string
  po_transport :: string

record panel_definition =
  pd_id :: string
  pd_priority :: string
  pd_treatment :: string
  pd_default :: string
  pd_snapshot :: panel_operation
  pd_command :: panel_operation
  pd_events :: panel_operation
  pd_persistence :: "string \<times> bool"
  pd_revision :: string
  pd_recovery :: string
  pd_ownership :: "string list \<times> bool"

definition op :: "string \<Rightarrow> string \<Rightarrow> panel_operation" where
  "op status transport = \<lparr>po_status = status, po_transport = transport\<rparr>"

definition equivalent_panel ::
  "string \<Rightarrow> string \<Rightarrow> string \<Rightarrow> string \<Rightarrow> string \<Rightarrow> string \<Rightarrow> string \<Rightarrow> string \<Rightarrow> bool \<Rightarrow> panel_definition" where
  "equivalent_panel i initial snapshot command events authority revision recovery shared =
     \<lparr>pd_id = i, pd_priority = ''P0'', pd_treatment = ''bairui-equivalent'', pd_default = initial,
      pd_snapshot = op snapshot ''http'', pd_command = op command ''http'', pd_events = op events ''sse'',
      pd_persistence = (authority, True), pd_revision = revision, pd_recovery = recovery,
      pd_ownership = (OWNER_SCOPE_FIELDS, shared)\<rparr>"

definition shell_panel :: panel_definition where
  "shell_panel =
     \<lparr>pd_id = ''shell-layout'', pd_priority = ''P0'', pd_treatment = ''native-equivalent'', pd_default = ''available'',
      pd_snapshot = op ''available'' ''build-manifest'', pd_command = op ''available'' ''browser-local'',
      pd_events = op ''available'' ''dom'', pd_persistence = (''browser-local'', False),
      pd_revision = ''bailongma-commit-and-build-hash'', pd_recovery = ''rebuild-pinned-source-and-replay-patches'',
      pd_ownership = ([], False)\<rparr>"

definition later_panel :: "string \<Rightarrow> panel_definition" where
  "later_panel i =
     \<lparr>pd_id = i, pd_priority = ''P1'', pd_treatment = ''bairui-equivalent'', pd_default = ''needs_configuration'',
      pd_snapshot = op ''needs_configuration'' ''http'', pd_command = op ''needs_configuration'' ''http'',
      pd_events = op ''needs_configuration'' (if i = ''voice-tts'' then ''websocket'' else ''sse''),
      pd_persistence = (''not-configured'', False), pd_revision = ''not-configured'',
      pd_recovery = ''show-needs-configuration'', pd_ownership = (OWNER_SCOPE_FIELDS, False)\<rparr>"

definition deferred_panel :: "string \<Rightarrow> panel_definition" where
  "deferred_panel i =
     \<lparr>pd_id = i, pd_priority = ''deferred'', pd_treatment = ''unsupported'', pd_default = ''unsupported'',
      pd_snapshot = op ''unsupported'' ''none'', pd_command = op ''unsupported'' ''none'',
      pd_events = op ''unsupported'' ''none'', pd_persistence = (''none'', False),
      pd_revision = ''upstream-inventory-only'', pd_recovery = ''show-unsupported'', pd_ownership = ([], False)\<rparr>"

definition DEFINITIONS :: "panel_definition list" where
  "DEFINITIONS =
     [shell_panel,
      equivalent_panel ''memory-graph'' ''available'' ''available'' ''available'' ''needs_configuration''
        ''postgresql-obsidian-notes'' ''note-revision-and-projection-digest'' ''snapshot-reload-and-projection-outbox-replay'' False,
      equivalent_panel ''chat'' ''available'' ''available'' ''available'' ''available''
        ''hermes-session-plus-postgresql-tenant-metadata'' ''session-message-and-run-identifiers''
        ''reload-session-and-resume-from-run-status'' False,
      equivalent_panel ''scene-shell'' ''available'' ''available'' ''available'' ''available''
        ''postgresql-agent-scene'' ''monotonic-scene-revision'' ''last-event-id-gap-detection-and-full-resync'' False,
      equivalent_panel ''settings'' ''needs_configuration'' ''available'' ''needs_configuration'' ''needs_configuration''
        ''postgresql-encrypted-references-and-revisions'' ''opaque-configuration-revision'' ''validated-apply-and-rollback'' False,
      equivalent_panel ''social-channels'' ''needs_configuration'' ''available'' ''available'' ''needs_configuration''
        ''postgresql-channel-bindings-and-outbox'' ''binding-generation-and-delivery-sequence''
        ''worker-reconnect-and-durable-receipt-replay'' False,
      equivalent_panel ''hotspots'' ''needs_configuration'' ''available'' ''available'' ''available''
        ''postgresql-integration-runs-and-agent-bookmarks'' ''scene-revision-plus-integration-run-id''
        ''cached-snapshot-last-event-id-and-full-resync'' True,
      equivalent_panel ''person-card'' ''needs_configuration'' ''needs_configuration'' ''available'' ''needs_configuration''
        ''postgresql-agent-profile-revisions'' ''card-digest-and-profile-revision'' ''explicit-profile-rollback'' False]
     @ map later_panel [''voice-tts'', ''docs'', ''media-video'']
     @ map deferred_panel [''map-environment'', ''typhoon'', ''worldcup'']"

definition endpoint :: "(string \<Rightarrow> string) \<Rightarrow> string \<Rightarrow> string \<Rightarrow> string \<Rightarrow> string" where
  "endpoint encode agent panel ending =
     ''/api/user/agents/'' @ encode agent @ ''/ui/panels/'' @ encode panel @ ending"

definition PANEL_GATEWAY_OPERATIONS :: "string \<Rightarrow> string list" where
  "PANEL_GATEWAY_OPERATIONS panel =
     (if panel = ''memory-graph'' then [''snapshot'']
      else if panel \<in> {''hotspots'', ''scene-shell''} then [''snapshot'', ''command'', ''events'']
      else [])"

section \<open>States\<close>

record panel_facts =
  pf_operational :: string
  pf_managed :: bool
  pf_channels :: int
  pf_run :: "string option"
  pf_items :: int
  pf_profile :: bool

definition stateFor :: "panel_definition \<Rightarrow> panel_facts \<Rightarrow> string" where
  "stateFor d f =
     (if pd_id d = ''chat'' \<and> pf_operational f \<in> {''uninitialized'', ''model_unconfigured''} then ''needs_configuration''
      else if pd_id d = ''chat'' \<and> pf_operational f \<notin> {''ready'', ''degraded''} then ''temporarily_unavailable''
      else if pd_id d = ''settings'' \<and> pf_managed f then ''available''
      else if pd_id d = ''social-channels'' \<and> 0 < pf_channels f then ''available''
      else if pd_id d = ''hotspots'' \<and> pf_run f = Some ''completed'' \<and> 0 < pf_items f then ''available''
      else if pd_id d = ''hotspots'' \<and> pf_run f \<noteq> None \<and> pf_run f \<noteq> Some [] \<and> pf_run f \<noteq> Some ''completed''
        then ''temporarily_unavailable''
      else if pd_id d = ''person-card'' \<and> pf_profile f then ''available''
      else pd_default d)"

record manifest_operation = panel_operation +
  mo_endpoint :: "string option"

definition operation ::
  "(string \<Rightarrow> string) \<Rightarrow> panel_definition \<Rightarrow> string \<Rightarrow> panel_operation \<Rightarrow> string \<Rightarrow> string \<Rightarrow> manifest_operation" where
  "operation encode d name configured agent state =
     (let ending = (if name = ''snapshot'' then ''/snapshot'' else if name = ''command'' then ''/commands'' else ''/events'')
      in \<lparr>po_status = (if po_status configured = ''available'' \<and> state = ''temporarily_unavailable''
             then ''temporarily_unavailable'' else po_status configured),
          po_transport = po_transport configured,
          mo_endpoint = (if name \<in> set (PANEL_GATEWAY_OPERATIONS (pd_id d))
             then Some (endpoint encode agent (pd_id d) ending) else None)\<rparr>)"

definition stateReason :: "string \<Rightarrow> string \<Rightarrow> panel_facts \<Rightarrow> string" where
  "stateReason panel state f =
     (if state = ''available'' then ''ready''
      else if panel = ''chat'' \<and> pf_operational f = ''model_unconfigured'' then ''model_not_configured''
      else if panel = ''chat'' \<and> pf_operational f = ''uninitialized'' then ''agent_not_initialized''
      else if panel = ''settings'' then ''hermes_management_contract_not_ready''
      else if panel = ''social-channels'' then ''channel_adapter_not_connected''
      else if panel = ''hotspots'' \<and> state = ''needs_configuration'' then ''hotspot_source_not_collected''
      else if panel = ''hotspots'' then ''hotspot_collection_failed''
      else if panel = ''person-card'' then ''character_card_not_selected''
      else if state = ''unsupported'' then ''product_adapter_not_supported''
      else state)"

definition panelDefinition :: "string \<Rightarrow> panel_definition option" where
  "panelDefinition i = List.find (\<lambda>d. pd_id d = i) DEFINITIONS"

section \<open>The manifest\<close>

text \<open>What the caller hands over: every fact may be absent, and a count may not be a number.\<close>

record given_facts =
  gf_operational :: "string option"
  gf_managed :: json
  gf_channels :: "int option"
  gf_run :: "string option"
  gf_items :: "int option"
  gf_profile :: json

definition normalizedFacts :: "given_facts \<Rightarrow> panel_facts" where
  "normalizedFacts g =
     \<lparr>pf_operational = or_else (gf_operational g) ''uninitialized'', pf_managed = (gf_managed g = JBool True),
      pf_channels = max 0 (num_or (gf_channels g) 0), pf_run = gf_run g, pf_items = max 0 (num_or (gf_items g) 0),
      pf_profile = (gf_profile g = JBool True)\<rparr>"

record panel =
  pn_id :: string
  pn_priority :: string
  pn_treatment :: string
  pn_state :: string
  pn_reason :: string
  pn_snapshot :: manifest_operation
  pn_command :: manifest_operation
  pn_events :: manifest_operation
  pn_persistence :: "string \<times> bool"
  pn_revision :: string
  pn_recovery :: string
  pn_ownership :: "string list \<times> bool"

definition panel_of :: "(string \<Rightarrow> string) \<Rightarrow> string \<Rightarrow> panel_facts \<Rightarrow> panel_definition \<Rightarrow> panel" where
  "panel_of encode agent f d =
     (let state = stateFor d f
      in \<lparr>pn_id = pd_id d, pn_priority = pd_priority d, pn_treatment = pd_treatment d, pn_state = state,
          pn_reason = stateReason (pd_id d) state f,
          pn_snapshot = operation encode d ''snapshot'' (pd_snapshot d) agent state,
          pn_command = operation encode d ''command'' (pd_command d) agent state,
          pn_events = operation encode d ''events'' (pd_events d) agent state,
          pn_persistence = pd_persistence d, pn_revision = pd_revision d, pn_recovery = pd_recovery d,
          pn_ownership = pd_ownership d\<rparr>)"

record manifest =
  mf_schema :: string
  mf_upstream :: "string \<times> string \<times> string"
  mf_owner :: json
  mf_revision :: string
  mf_generated :: string
  mf_panels :: "panel list"

definition createPanelManifest ::
  "(json \<times> panel list \<Rightarrow> string) \<Rightarrow> (string \<Rightarrow> string) \<Rightarrow> string \<Rightarrow> json \<Rightarrow> given_facts \<Rightarrow> string \<Rightarrow> manifest" where
  "createPanelManifest digest encode agent owner facts generated =
     (let panels = map (panel_of encode agent (normalizedFacts facts)) DEFINITIONS
      in \<lparr>mf_schema = PANEL_CONTRACT_VERSION,
          mf_upstream = (''xiaoyuanda666-ship-it/BaiLongma'', ''2.1.515'', ''34d939eabe226c561550079cb810090015b49817''),
          mf_owner = owner, mf_revision = digest (owner, panels), mf_generated = generated, mf_panels = panels\<rparr>)"

record unavailable =
  un_error :: string
  un_panel :: "string option"
  un_reason :: string

text \<open>The state defaults to that of the panel, or to \<open>unsupported\<close>; an unknown one becomes \<open>unsupported\<close>.\<close>

definition panelUnavailable :: "panel option \<Rightarrow> string option \<Rightarrow> unavailable" where
  "panelUnavailable p state =
     (let given = or_else state (case p of None \<Rightarrow> ''unsupported'' | Some p \<Rightarrow> pn_state p);
          normalized = (if given \<in> set PANEL_STATES then given else ''unsupported'')
      in \<lparr>un_error = normalized, un_panel = map_option pn_id p,
          un_reason = (case p of None \<Rightarrow> normalized | Some p \<Rightarrow> pn_reason p)\<rparr>)"

section \<open>Properties\<close>

text \<open>A panel as the contract describes it.\<close>

definition operation_ok :: "(string \<Rightarrow> string) \<Rightarrow> string \<Rightarrow> string \<Rightarrow> string \<Rightarrow> manifest_operation \<Rightarrow> bool" where
  "operation_ok encode agent panel ending r \<longleftrightarrow>
     po_status r \<in> set PANEL_STATES \<and>
     (case mo_endpoint r of
        None \<Rightarrow> True
      | Some url \<Rightarrow> url = endpoint encode agent panel ending \<and> po_status r \<noteq> ''unsupported'')"

definition panel_ok :: "(string \<Rightarrow> string) \<Rightarrow> string \<Rightarrow> panel \<Rightarrow> bool" where
  "panel_ok encode agent p \<longleftrightarrow>
     pn_state p \<in> set PANEL_STATES \<and> (pn_state p = ''available'' \<longleftrightarrow> pn_reason p = ''ready'') \<and>
     operation_ok encode agent (pn_id p) ''/snapshot'' (pn_snapshot p) \<and>
     operation_ok encode agent (pn_id p) ''/commands'' (pn_command p) \<and>
     operation_ok encode agent (pn_id p) ''/events'' (pn_events p) \<and>
     (pn_state p = ''temporarily_unavailable'' \<longrightarrow> po_status (pn_snapshot p) \<noteq> ''available'' \<and>
        po_status (pn_command p) \<noteq> ''available'' \<and> po_status (pn_events p) \<noteq> ''available'') \<and>
     (pn_state p = ''unsupported'' \<longleftrightarrow> pn_treatment p = ''unsupported'')"

text \<open>What the table has to satisfy for that.\<close>

definition served :: "panel_definition \<Rightarrow> string \<Rightarrow> panel_operation \<Rightarrow> bool" where
  "served d name r \<longleftrightarrow> po_status r \<in> set PANEL_STATES \<and>
     (name \<in> set (PANEL_GATEWAY_OPERATIONS (pd_id d)) \<longrightarrow> po_status r \<noteq> ''unsupported'')"

definition STATEFUL :: "string list" where
  "STATEFUL = [''chat'', ''settings'', ''social-channels'', ''hotspots'', ''person-card'']"

definition definition_ok :: "panel_definition \<Rightarrow> bool" where
  "definition_ok d \<longleftrightarrow> pd_default d \<in> {''available'', ''needs_configuration'', ''unsupported''} \<and>
     (pd_default d = ''unsupported'' \<longleftrightarrow> pd_treatment d = ''unsupported'') \<and>
     (pd_treatment d = ''unsupported'' \<longrightarrow> pd_id d \<notin> set STATEFUL) \<and>
     served d ''snapshot'' (pd_snapshot d) \<and> served d ''command'' (pd_command d) \<and> served d ''events'' (pd_events d)"

lemma table_ok: "list_all definition_ok DEFINITIONS"
  by code_simp

lemma stateFor_cases:
  "stateFor d f = pd_default d \<or>
    (pd_id d \<in> set STATEFUL \<and> stateFor d f \<in> {''available'', ''needs_configuration'', ''temporarily_unavailable''})"
  by (simp add: stateFor_def STATEFUL_def)

lemma stateReason_ready: "state \<in> set PANEL_STATES \<Longrightarrow> stateReason i state f = ''ready'' \<longleftrightarrow> state = ''available''"
  by (auto simp: stateReason_def PANEL_STATES_def)

lemma operation_served:
  "served d name r \<Longrightarrow> ending = (if name = ''snapshot'' then ''/snapshot'' else if name = ''command'' then ''/commands'' else ''/events'') \<Longrightarrow>
    operation_ok encode agent (pd_id d) ending (operation encode d name r agent state)"
  by (auto simp: operation_ok_def operation_def served_def PANEL_STATES_def Let_def)

lemma operation_unavailable:
  "po_status (operation encode d name r agent ''temporarily_unavailable'') \<noteq> ''available''"
  by (simp add: operation_def Let_def)

lemma panel_of_ok:
  assumes "definition_ok d"
  shows "panel_ok encode agent (panel_of encode agent f d)"
proof -
  have states: "stateFor d f \<in> set PANEL_STATES"
    using stateFor_cases [of d f] assms by (auto simp: definition_ok_def PANEL_STATES_def)
  moreover have "stateFor d f = ''unsupported'' \<longleftrightarrow> pd_treatment d = ''unsupported''"
    using stateFor_cases [of d f] assms by (auto simp: definition_ok_def)
  ultimately show ?thesis
    using assms operation_unavailable
    by (simp add: panel_ok_def panel_of_def Let_def stateReason_ready definition_ok_def operation_served)
qed

text \<open>C38. Every manifest is well formed: whatever the facts, each panel has a state of the contract and a reason that is
  \<open>ready\<close> exactly when it is available, the statuses of its operations are states, an endpoint is only given for
  an operation that is supported and is the panel's own, nothing of a temporarily unavailable panel is
  offered as available, and a panel is unsupported exactly when its treatment is.\<close>

theorem manifests_are_well_formed:
  "list_all (panel_ok encode agent) (mf_panels (createPanelManifest digest encode agent owner facts generated))"
  using table_ok panel_of_ok by (auto simp: createPanelManifest_def Let_def list_all_iff)

text \<open>Availability is decided by the facts alone: the shell, the notes and the scene are always available, and every
  other panel exactly when the runtime, the management contract, a connected channel, a completed collection with
  results, or a configured profile is there.\<close>

definition usable :: "panel_facts \<Rightarrow> string \<Rightarrow> bool" where
  "usable f i \<longleftrightarrow>
     i \<in> {''shell-layout'', ''memory-graph'', ''scene-shell''} \<or>
     i = ''chat'' \<and> pf_operational f \<in> {''ready'', ''degraded''} \<or>
     i = ''settings'' \<and> pf_managed f \<or>
     i = ''social-channels'' \<and> 0 < pf_channels f \<or>
     i = ''hotspots'' \<and> pf_run f = Some ''completed'' \<and> 0 < pf_items f \<or>
     i = ''person-card'' \<and> pf_profile f"

lemma defaults:
  "list_all (\<lambda>d. pd_default d = ''available'' \<longleftrightarrow>
     pd_id d \<in> {''shell-layout'', ''memory-graph'', ''scene-shell'', ''chat''}) DEFINITIONS"
  by code_simp

lemma usable_iff:
  assumes "pd_default d = ''available'' \<longleftrightarrow> pd_id d \<in> {''shell-layout'', ''memory-graph'', ''scene-shell'', ''chat''}"
  shows "stateFor d f = ''available'' \<longleftrightarrow> usable f (pd_id d)"
proof (cases "pd_id d \<in> set STATEFUL")
  case True
  then consider "pd_id d = ''chat''" | "pd_id d = ''settings''" | "pd_id d = ''social-channels''" | "pd_id d = ''hotspots''"
    | "pd_id d = ''person-card''"
    by (auto simp: STATEFUL_def)
  then show ?thesis using assms by cases (simp_all add: stateFor_def usable_def)
next
  case False
  then show ?thesis using assms by (simp add: stateFor_def usable_def STATEFUL_def)
qed

theorem availability_follows_facts:
  "list_all (\<lambda>p. (pn_state p = ''available'') = usable (normalizedFacts facts) (pn_id p))
     (mf_panels (createPanelManifest digest encode agent owner facts generated))"
  using defaults usable_iff by (simp add: createPanelManifest_def Let_def list_all_iff panel_of_def)

end
