(* ===== verification/Sessions.thy ===== *)
theory Sessions
  imports Byte_Codec Authorization Tenant_Records
begin

text \<open>
  Who a request comes from. \<open>packages/auth/session.mjs\<close> (session tokens and cookies),
  \<open>packages/auth/password.mjs\<close>, \<open>packages/security/secret-envelope.mjs\<close> (sealed provider credentials),
  \<open>principalFor\<close> of \<open>apps/web/app.mjs\<close>, and the login, registration and logout handlers of
  \<open>apps/web/routes/auth.mjs\<close>.
\<close>

section \<open>Session tokens\<close>

text \<open>
  \<open>Buffer.from(JSON.stringify(v))\<close> and \<open>JSON.parse\<close> of a buffer, \<open>None\<close> for a syntax error; reading a
  document that was written gives it back.
\<close>

record json_codec =
  write_json :: "json \<Rightarrow> bytes"
  read_json :: "bytes \<Rightarrow> json option"

definition codec_lawful :: "json_codec \<Rightarrow> json set \<Rightarrow> bool" where
  "codec_lawful jc vs \<longleftrightarrow> (\<forall>v\<in>vs. is_bytes (write_json jc v) \<and> write_json jc v \<noteq> [] \<and> read_json jc (write_json jc v) = Some v)"

definition SESSION_COOKIE :: string where
  "SESSION_COOKIE = ''br_session''"

text \<open>\<open>sign\<close>; the key of the HMAC is the secret's text.\<close>

definition sign_text :: "crypto \<Rightarrow> (string \<Rightarrow> bytes) \<Rightarrow> string \<Rightarrow> string \<Rightarrow> string" where
  "sign_text cr utf8 secret value = to_base64url (hmac cr (utf8 secret) value)"

definition session_payload :: "principal \<Rightarrow> instant \<Rightarrow> int option \<Rightarrow> json" where
  "session_payload p now ttl =
     JObj [(''v'', JNum (Integer 1)), (''sub'', JStr (pr_user p)), (''org'', JStr (pr_org p)), (''role'', JStr (pr_role p)),
       (''iat'', JNum (Integer (now div 1000))), (''exp'', JNum (Integer (now div 1000 + or_else ttl (8 * 60 * 60))))]"

definition createSessionToken ::
  "crypto \<Rightarrow> (string \<Rightarrow> bytes) \<Rightarrow> json_codec \<Rightarrow> instant \<Rightarrow> principal option \<Rightarrow> string \<Rightarrow> int option \<Rightarrow> failure + string" where
  "createSessionToken cr utf8 jc now subject secret ttl =
     (if length secret < 32 then Inl (TypeError ''Session secret must contain at least 32 characters'')
      else (case subject of
              None \<Rightarrow> Inl (TypeError ''Invalid principal'')
            | Some p \<Rightarrow>
                if pr_user p = [] \<or> pr_org p = [] \<or> \<not> isRole (pr_role p) then Inl (TypeError ''Invalid principal'')
                else (let payload = to_base64url (write_json jc (session_payload p now ttl))
                      in Inr (payload @ ''.'' @ sign_text cr utf8 secret payload))))"

record session =
  se_user :: json
  se_org :: json
  se_role :: string
  se_issuedAt :: json
  se_expiresAt :: json

text \<open>\<open>parsed.exp <= now\<close>: a comparison of numbers, false for what is not a number.\<close>

definition at_most :: "json \<Rightarrow> int \<Rightarrow> bool" where
  "at_most v now \<longleftrightarrow>
     (case v of
        JNum (Integer n) \<Rightarrow> n \<le> now
      | JNum (Fractional m k) \<Rightarrow> m \<le> now * 10 ^ k
      | JNum (Infinite pos) \<Rightarrow> \<not> pos
      | JNull \<Rightarrow> 0 \<le> now
      | JBool b \<Rightarrow> (if b then 1 else 0) \<le> now
      | _ \<Rightarrow> False)"

definition read_session :: "json \<Rightarrow> int \<Rightarrow> session option" where
  "read_session v now =
     (case at v ''role'' of
        JStr role \<Rightarrow>
          if at v ''v'' \<noteq> JNum (Integer 1) \<or> \<not> truthy (at v ''sub'') \<or> \<not> truthy (at v ''org'') \<or> \<not> isRole role \<or>
             at_most (at v ''exp'') now then None
          else Some \<lparr>se_user = at v ''sub'', se_org = at v ''org'', se_role = role, se_issuedAt = at v ''iat'',
            se_expiresAt = at v ''exp''\<rparr>
      | _ \<Rightarrow> None)"

definition verifySessionToken ::
  "crypto \<Rightarrow> (string \<Rightarrow> bytes) \<Rightarrow> json_codec \<Rightarrow> string option \<Rightarrow> string \<Rightarrow> int \<Rightarrow> session option" where
  "verifySessionToken cr utf8 jc token secret now =
     (case token of
        None \<Rightarrow> None
      | Some t \<Rightarrow>
          if secret = [] then None
          else (case split_on CHR ''.'' t of
                  payload # signature # _ \<Rightarrow>
                    if payload = [] \<or> signature = [] \<or> signature \<noteq> sign_text cr utf8 secret payload then None
                    else (case read_json jc (from_base64url payload) of None \<Rightarrow> None | Some v \<Rightarrow> read_session v now)
                | _ \<Rightarrow> None))"

lemma no_dot: "is_bytes bs \<Longrightarrow> CHR ''.'' \<notin> set (to_base64url bs)"
proof -
  have "CHR ''.'' \<notin> set b64_alphabet" by code_simp
  then show "is_bytes bs \<Longrightarrow> CHR ''.'' \<notin> set (to_base64url bs)" using to_base64url_chars by blast
qed

lemma to_base64url_Nil: "bs \<noteq> [] \<Longrightarrow> to_base64url bs \<noteq> []"
  using length_to_base64url [of bs] by (cases bs) auto

text \<open>
  C23. A session token says who was logged in, until it expires: checking a token with the secret it was made
  with gives back the user, the organization and the role, and gives nothing from the second of expiry on.
\<close>

theorem session_token_roundtrip:
  assumes "crypto_lawful cr" and "codec_lawful jc {session_payload p issued ttl}"
    and "createSessionToken cr utf8 jc issued (Some p) secret ttl = Inr token"
  shows "verifySessionToken cr utf8 jc (Some token) secret now =
    (if now < issued div 1000 + or_else ttl (8 * 60 * 60)
     then Some \<lparr>se_user = JStr (pr_user p), se_org = JStr (pr_org p), se_role = pr_role p,
       se_issuedAt = JNum (Integer (issued div 1000)),
       se_expiresAt = JNum (Integer (issued div 1000 + or_else ttl (8 * 60 * 60)))\<rparr>
     else None)"
proof -
  let ?v = "session_payload p issued ttl"
  let ?payload = "to_base64url (write_json jc ?v)"
  let ?sig = "sign_text cr utf8 secret ?payload"
  have p: "pr_user p \<noteq> []" "pr_org p \<noteq> []" "isRole (pr_role p)" "32 \<le> length secret" and token: "token = ?payload @ CHR ''.'' # ?sig"
    using assms(3) by (auto simp: createSessionToken_def Let_def split: if_splits)
  have bytes: "is_bytes (write_json jc ?v)" "write_json jc ?v \<noteq> []" "read_json jc (write_json jc ?v) = Some ?v"
    using assms(2) by (auto simp: codec_lawful_def)
  have "is_bytes (hmac cr k t) \<and> length (hmac cr k t) = 32" for k t using assms(1) by (simp add: crypto_lawful_def)
  then have mac: "is_bytes (hmac cr k t)" "hmac cr k t \<noteq> []" for k t by (simp, metis list.size(3) zero_neq_numeral)
  have sig: "CHR ''.'' \<notin> set ?sig" "?sig \<noteq> []" using no_dot mac to_base64url_Nil by (auto simp: sign_text_def)
  have parts: "split_on CHR ''.'' token = [?payload, ?sig]"
    unfolding token split_on_sep [OF no_dot [OF bytes(1)]] split_on_plain [OF sig(1)] ..
  have "read_session ?v now = (if now < issued div 1000 + or_else ttl (8 * 60 * 60)
     then Some \<lparr>se_user = JStr (pr_user p), se_org = JStr (pr_org p), se_role = pr_role p,
       se_issuedAt = JNum (Integer (issued div 1000)),
       se_expiresAt = JNum (Integer (issued div 1000 + or_else ttl (8 * 60 * 60)))\<rparr>
     else None)"
    using p by (simp add: read_session_def session_payload_def at_def prop_of_def truthy_def at_most_def)
  then show ?thesis
    using parts p(4) to_base64url_Nil [OF bytes(2)] sig(2) bytes base64url_roundtrip [OF bytes(1)]
    by (auto simp: verifySessionToken_def)
qed

definition sample_principal :: principal where
  "sample_principal = \<lparr>pr_user = ''u'', pr_org = ''o'', pr_role = ''user''\<rparr>"

theorem session_token_roundtrip_witness:
  "\<exists>jc token. createSessionToken flat_crypto (\<lambda>_. []) jc 5000 (Some sample_principal) (replicate 32 CHR ''s'') None = Inr token \<and>
     verifySessionToken flat_crypto (\<lambda>_. []) jc (Some token) (replicate 32 CHR ''s'') 28805 = None"
proof -
  let ?jc = "\<lparr>write_json = (\<lambda>_. [1]), read_json = (\<lambda>_. Some (session_payload sample_principal 5000 None))\<rparr>"
  have "codec_lawful ?jc {session_payload sample_principal 5000 None}" by (simp add: codec_lawful_def)
  moreover obtain token where
    "createSessionToken flat_crypto (\<lambda>_. []) ?jc 5000 (Some sample_principal) (replicate 32 CHR ''s'') None = Inr token"
    by (simp add: createSessionToken_def sample_principal_def isRole_cases Let_def)
  ultimately show ?thesis
    using session_token_roundtrip [OF flat_crypto_lawful, of ?jc sample_principal 5000 None "\<lambda>_. []" _ token 28805]
    by (intro exI [of _ ?jc] exI [of _ token]) simp
qed

section \<open>Cookies\<close>

text \<open>\<open>decode\<close> is \<open>decodeURIComponent\<close>, \<open>None\<close> where it throws; a later cookie replaces an earlier one of the name.\<close>

definition cookie_pair :: "(string \<Rightarrow> string option) \<Rightarrow> string \<Rightarrow> failure + (string \<times> string)" where
  "cookie_pair decode item =
     (let name = takeWhile (\<lambda>c. c \<noteq> CHR ''='') item
      in if name = item then Inr (item, [])
         else (case decode (drop (Suc (length name)) item) of
                 None \<Rightarrow> Inl (PlainError ''URI malformed'')
               | Some v \<Rightarrow> Inr (name, v)))"

fun collect_all :: "(failure + 'a) list \<Rightarrow> failure + 'a list" where
  "collect_all [] = Inr []"
| "collect_all (Inl err # rs) = Inl err"
| "collect_all (Inr x # rs) = (case collect_all rs of Inl err \<Rightarrow> Inl err | Inr xs \<Rightarrow> Inr (x # xs))"

definition parseCookies :: "(string \<Rightarrow> string option) \<Rightarrow> string option \<Rightarrow> failure + (string \<times> string) list" where
  "parseCookies decode header =
     map_sum id rev (collect_all (map (cookie_pair decode)
       (filter (\<lambda>w. w \<noteq> []) (map trim (split_on CHR '';'' (or_else header []))))))"

definition sessionCookie :: "(string \<Rightarrow> string) \<Rightarrow> string \<Rightarrow> int option \<Rightarrow> bool option \<Rightarrow> string" where
  "sessionCookie encode token maxAge secure =
     join ''; '' ([SESSION_COOKIE @ ''='' @ encode token, ''Path=/'', ''HttpOnly'', ''SameSite=Strict'',
       ''Max-Age='' @ show_int (or_else maxAge (8 * 60 * 60))] @ (if secure = Some False then [] else [''Secure'']))"

definition clearSessionCookie :: "(string \<Rightarrow> string) \<Rightarrow> bool option \<Rightarrow> string" where
  "clearSessionCookie encode secure = sessionCookie encode [] (Some 0) secure"

section \<open>The principal of a request\<close>

record web_parameters =
  wp_crypto :: crypto
  wp_utf8 :: "string \<Rightarrow> bytes"
  wp_codec :: json_codec
  wp_secret :: string
  wp_encode :: "string \<Rightarrow> string"
  wp_decode :: "string \<Rightarrow> string option"
  wp_lower :: "string \<Rightarrow> string"

record signed_in =
  si_user :: ident
  si_org :: ident
  si_role :: string
  si_email :: string
  si_displayName :: string

definition principalFor :: "web_parameters \<Rightarrow> instant \<Rightarrow> string option \<Rightarrow> fleet_state \<Rightarrow> failure + signed_in option" where
  "principalFor wp now header fleet =
     (case parseCookies (wp_decode wp) header of
        Inl err \<Rightarrow> Inl err
      | Inr cookies \<Rightarrow>
          (case verifySessionToken (wp_crypto wp) (wp_utf8 wp) (wp_codec wp) (map_of cookies SESSION_COOKIE) (wp_secret wp) (now div 1000) of
             None \<Rightarrow> Inr None
           | Some s \<Rightarrow>
               (case (case se_user s of JStr i \<Rightarrow> getUser i fleet | _ \<Rightarrow> None) of
                  None \<Rightarrow> Inr None
                | Some u \<Rightarrow>
                    if us_status u \<noteq> ''active'' \<or> JStr (us_org u) \<noteq> se_org s then Inr None
                    else Inr (Some \<lparr>si_user = us_id u, si_org = us_org u, si_role = us_role u, si_email = us_email u,
                      si_displayName = us_displayName u\<rparr>))))"

text \<open>
  A request acts for a user only while the account is active and still belongs to the organization the
  session names, and with the role the account has now, whatever the token says: revoking an account or
  changing its role takes effect at the next request.
\<close>

theorem principal_is_current_account:
  assumes "principalFor wp now header fleet = Inr (Some p)"
  shows "\<exists>i u t payload sig rest. map_of (users fleet) i = Some u \<and> us_status u = ''active'' \<and> us_org u = si_org p \<and>
    us_role u = si_role p \<and> us_id u = si_user p \<and>
    split_on CHR ''.'' t = payload # sig # rest \<and> sig = sign_text (wp_crypto wp) (wp_utf8 wp) (wp_secret wp) payload"
proof -
  from assms obtain cookies s u i where s: "verifySessionToken (wp_crypto wp) (wp_utf8 wp) (wp_codec wp)
      (map_of cookies SESSION_COOKIE) (wp_secret wp) (now div 1000) = Some s"
    and u: "getUser i fleet = Some u" "us_status u = ''active''" "JStr (us_org u) = se_org s"
    and p: "p = \<lparr>si_user = us_id u, si_org = us_org u, si_role = us_role u, si_email = us_email u, si_displayName = us_displayName u\<rparr>"
    by (auto simp: principalFor_def split: sum.splits option.splits json.splits if_splits)
  from s obtain t payload sig rest where "split_on CHR ''.'' t = payload # sig # rest"
    "sig = sign_text (wp_crypto wp) (wp_utf8 wp) (wp_secret wp) payload"
    by (auto simp: verifySessionToken_def split: option.splits list.splits if_splits)
  moreover obtain st where "map_of (users fleet) i = Some st" "u = publicUser st" using u(1) by (auto simp: getUser_def)
  ultimately show ?thesis using u p
    by (intro exI [of _ i] exI [of _ st] exI [of _ t] exI [of _ payload] exI [of _ sig] exI [of _ rest])
      (simp add: publicUser_def user.truncate_def)
qed

text \<open>
  A cookie header with one badly encoded cookie, of whatever name, makes every request of that browser
  fail with an error instead of being treated as signed out.
\<close>

lemma collect_all_Inl: "Inl err \<in> set rs \<Longrightarrow> \<exists>e. collect_all rs = Inl e"
  by (induction rs rule: collect_all.induct) auto

theorem malformed_cookie_fails_the_request:
  assumes "decode (drop (Suc (length name)) item) = None" and "item = name @ CHR ''='' # rest" and "CHR ''='' \<notin> set name"
    and "item \<in> set (map trim (split_on CHR '';'' header))"
  shows "\<exists>e. parseCookies decode (Some header) = Inl e \<and> principalFor (wp\<lparr>wp_decode := decode\<rparr>) now (Some header) fleet = Inl e"
proof -
  have "takeWhile (\<lambda>c. c \<noteq> CHR ''='') item = name" using assms(2,3) by (induction name arbitrary: item) auto
  then have "cookie_pair decode item = Inl (PlainError ''URI malformed'')"
    using assms(1,2) by (auto simp: cookie_pair_def Let_def)
  then have "Inl (PlainError ''URI malformed'') \<in> set (map (cookie_pair decode)
      (filter (\<lambda>w. w \<noteq> []) (map trim (split_on CHR '';'' header))))"
    using assms(2,4) by (force simp: image_iff)
  from collect_all_Inl [OF this] obtain e where "parseCookies decode (Some header) = Inl e"
    by (auto simp: parseCookies_def)
  then show ?thesis by (simp add: principalFor_def)
qed

definition ascii_lower :: "string \<Rightarrow> string" where
  "ascii_lower = lower_case"

definition sample_web :: "json_codec \<Rightarrow> web_parameters" where
  "sample_web jc = \<lparr>wp_crypto = flat_crypto, wp_utf8 = (\<lambda>_. []), wp_codec = jc, wp_secret = replicate 32 CHR ''s'',
     wp_encode = id, wp_decode = Some, wp_lower = ascii_lower\<rparr>"

theorem malformed_cookie_fails_the_request_witness:
  "\<exists>e. principalFor ((sample_web \<lparr>write_json = (\<lambda>_. []), read_json = (\<lambda>_. None)\<rparr>)\<lparr>wp_decode := \<lambda>_. None\<rparr>) 0 (Some ''a=%'') empty_fleet = Inl e"
proof -
  have "''a=%'' \<in> set (map trim (split_on CHR '';'' ''a=%''))" by code_simp
  then show ?thesis
    using malformed_cookie_fails_the_request [of "\<lambda>_. None" "''a''" "''a=%''" "''%''" "''a=%''"
        "sample_web \<lparr>write_json = (\<lambda>_. []), read_json = (\<lambda>_. None)\<rparr>" 0 empty_fleet] by auto
qed

definition sample_account :: stored_user where
  "sample_account = \<lparr>us_id = ''u'', us_org = ''o'', us_email = ''e'', us_displayName = [], us_role = ''org_admin'',
     us_status = ''active'', us_createdAt = 0, us_passwordHash = []\<rparr>"

definition sample_reader :: json_codec where
  "sample_reader = \<lparr>write_json = (\<lambda>_. [1]), read_json = (\<lambda>_. Some (session_payload sample_principal 5000 None))\<rparr>"

theorem principal_is_current_account_witness:
  "\<exists>header p. principalFor (sample_web sample_reader) 9000 (Some header) (empty_fleet\<lparr>users := [(''u'', sample_account)]\<rparr>) = Inr (Some p) \<and>
     si_role p = ''org_admin''"
proof -
  define sig where "sig = sign_text flat_crypto (\<lambda>_. []) (replicate 32 CHR ''s'') ''AQ''"
  define header where "header = ''br_session=AQ.'' @ sig"
  define p where "p = \<lparr>si_user = ''u'', si_org = ''o'', si_role = ''org_admin'', si_email = ''e'', si_displayName = []\<rparr>"
  have p: "principalFor (sample_web sample_reader) 9000 (Some header)
      (empty_fleet\<lparr>users := [(''u'', sample_account)]\<rparr>) = Inr (Some p)"
    unfolding header_def sig_def p_def by code_simp
  from principal_is_current_account [OF p] have "si_role p = ''org_admin''"
    by (auto simp: sample_account_def split: if_splits)
  with p show ?thesis by blast
qed

section \<open>Passwords\<close>

text \<open>The salt is drawn at random; a stored hash holds algorithm, salt and key.\<close>

definition hashPassword :: "crypto \<Rightarrow> bytes \<Rightarrow> json \<Rightarrow> failure + string" where
  "hashPassword cr salt password =
     (case password of
        JStr w \<Rightarrow>
          if length w < 12 then Inl (TypeError ''Password must contain at least 12 characters'')
          else Inr (join '':'' [''scrypt'', to_base64url salt, to_base64url (scrypt cr w salt 64)])
      | _ \<Rightarrow> Inl (TypeError ''Password must contain at least 12 characters''))"

definition verifyPassword :: "crypto \<Rightarrow> json \<Rightarrow> string \<Rightarrow> bool" where
  "verifyPassword cr password stored \<longleftrightarrow>
     (case password of
        JStr w \<Rightarrow>
          (case split_on CHR '':'' stored of
             algorithm # salt # key # _ \<Rightarrow>
               algorithm = ''scrypt'' \<and> salt \<noteq> [] \<and> key \<noteq> [] \<and>
               scrypt cr w (from_base64url salt) (length (from_base64url key)) = from_base64url key
           | _ \<Rightarrow> False)
      | _ \<Rightarrow> False)"

text \<open>
  Passwords: the hash of a password verifies against that password, and another password verifies
  against it only if its derived key is the same; a password shorter than twelve characters has no hash.
\<close>

theorem password_roundtrip:
  assumes "crypto_lawful cr" and "is_bytes salt" "salt \<noteq> []" and "hashPassword cr salt (JStr w) = Inr h"
  shows "12 \<le> length w \<and> verifyPassword cr (JStr w) h \<and>
    (verifyPassword cr (JStr w') h \<longleftrightarrow> scrypt cr w' salt 64 = scrypt cr w salt 64)"
proof -
  let ?key = "scrypt cr w salt 64"
  have h: "h = join '':'' [''scrypt'', to_base64url salt, to_base64url ?key]" and w: "12 \<le> length w"
    using assms(4) by (auto simp: hashPassword_def split: if_splits)
  have key: "is_bytes ?key" "length ?key = 64" using assms(1) by (auto simp: crypto_lawful_def)
  then have "?key \<noteq> []" by force
  have "CHR '':'' \<notin> set b64_alphabet" by code_simp
  then have colon: "CHR '':'' \<notin> set (to_base64url bs)" if "is_bytes bs" for bs
    using to_base64url_chars [OF that] by blast
  have "split_on CHR '':'' h = ''scrypt'' # split_on CHR '':'' (to_base64url salt @ CHR '':'' # to_base64url ?key)"
    using split_on_sep [of "CHR '':''" "''scrypt''"] by (simp add: h)
  then have "split_on CHR '':'' h = [''scrypt'', to_base64url salt, to_base64url ?key]"
    by (simp add: split_on_sep split_on_plain colon assms(2) key(1))
  then show ?thesis
    using w key to_base64url_Nil [OF assms(3)] to_base64url_Nil [OF \<open>?key \<noteq> []\<close>] base64url_roundtrip [OF assms(2)]
      base64url_roundtrip [OF key(1)]
    by (simp add: verifyPassword_def)
qed

theorem password_roundtrip_witness:
  "\<exists>h. verifyPassword flat_crypto (JStr (replicate 12 CHR ''p'')) h \<and> \<not> verifyPassword flat_crypto (JStr []) h"
proof -
  have "\<exists>h. hashPassword flat_crypto [5] (JStr (replicate 12 CHR ''p'')) = Inr h" by (simp add: hashPassword_def)
  then obtain h where h: "hashPassword flat_crypto [5] (JStr (replicate 12 CHR ''p'')) = Inr h" ..
  have "scrypt flat_crypto [] [5] 64 \<noteq> scrypt flat_crypto (replicate 12 CHR ''p'') [5] 64"
    by (simp add: flat_crypto_def)
  with password_roundtrip [OF flat_crypto_lawful _ _ h, of "[]"] show ?thesis by auto
qed

section \<open>Sealed secrets\<close>

text \<open>
  AES-256-GCM: \<open>encrypt key iv text\<close> gives the ciphertext and the tag, \<open>decrypt\<close> gives the text back if the
  tag fits and throws otherwise.
\<close>

record cipher =
  encrypt :: "bytes \<Rightarrow> bytes \<Rightarrow> string \<Rightarrow> bytes \<times> bytes"
  decrypt :: "bytes \<Rightarrow> bytes \<Rightarrow> bytes \<Rightarrow> bytes \<Rightarrow> string option"

definition cipher_lawful :: "cipher \<Rightarrow> bool" where
  "cipher_lawful cf \<longleftrightarrow> (\<forall>k iv t. is_bytes (fst (encrypt cf k iv t)) \<and> is_bytes (snd (encrypt cf k iv t)) \<and>
     decrypt cf k iv (fst (encrypt cf k iv t)) (snd (encrypt cf k iv t)) = Some t)"

definition derivedKey :: "crypto \<Rightarrow> string \<Rightarrow> failure + bytes" where
  "derivedKey cr masterKey =
     (if length masterKey < 32 then Inl (TypeError ''Provider encryption key must contain at least 32 characters'')
      else Inr (sha256 cr masterKey))"

record envelope =
  ev_version :: int
  ev_algorithm :: string
  ev_iv :: string
  ev_tag :: string
  ev_ciphertext :: string

definition seal :: "cipher \<Rightarrow> bytes \<Rightarrow> bytes \<Rightarrow> string \<Rightarrow> failure + envelope" where
  "seal cf key iv value =
     (if value = [] then Inl (TypeError ''Secret value is required'')
      else (case encrypt cf key iv value of
              (ciphertext, tag) \<Rightarrow>
                Inr \<lparr>ev_version = 1, ev_algorithm = ''aes-256-gcm'', ev_iv = to_base64url iv, ev_tag = to_base64url tag,
                  ev_ciphertext = to_base64url ciphertext\<rparr>))"

definition open_envelope :: "cipher \<Rightarrow> bytes \<Rightarrow> envelope \<Rightarrow> failure + string" where
  "open_envelope cf key v =
     (if ev_version v \<noteq> 1 \<or> ev_algorithm v \<noteq> ''aes-256-gcm'' then Inl (TypeError ''Unsupported secret envelope'')
      else (case decrypt cf key (from_base64url (ev_iv v)) (from_base64url (ev_ciphertext v)) (from_base64url (ev_tag v)) of
              None \<Rightarrow> Inl (PlainError ''Unsupported state or unable to authenticate data'')
            | Some t \<Rightarrow> Inr t))"

definition secretHint :: "string option \<Rightarrow> string" where
  "secretHint value =
     (let t = or_else value [] in if 4 \<le> length t then drop (length t - 4) t else ''set'')"

text \<open>
  A sealed credential opens again under the same key, and its hint shows at most its last four characters.
\<close>

theorem sealed_secret_roundtrip:
  assumes "cipher_lawful cf" and "is_bytes iv" and "seal cf key iv t = Inr v"
  shows "open_envelope cf key v = Inr t \<and> length (secretHint (Some t)) \<le> 4"
proof -
  obtain c g where e: "encrypt cf key iv t = (c, g)" by force
  then have "is_bytes c" "is_bytes g" "decrypt cf key iv c g = Some t"
    using assms(1) unfolding cipher_lawful_def by (metis fst_conv snd_conv)+
  then show ?thesis
    using assms(2,3) e by (auto simp: seal_def open_envelope_def base64url_roundtrip secretHint_def Let_def split: if_splits)
qed

definition box_cipher :: cipher where
  "box_cipher = \<lparr>encrypt = (\<lambda>k iv t. (map (\<lambda>c. of_char c) t, [])), decrypt = (\<lambda>k iv c g. Some (map char_of c))\<rparr>"

theorem sealed_secret_roundtrip_witness:
  "\<exists>v. seal box_cipher [] [1] ''key-123'' = Inr v \<and> open_envelope box_cipher [] v = Inr ''key-123''"
proof -
  have "cipher_lawful box_cipher"
    by (auto simp: cipher_lawful_def box_cipher_def is_bytes_def comp_def)
  moreover obtain v where "seal box_cipher [] [1] ''key-123'' = Inr v" by (simp add: seal_def box_cipher_def)
  ultimately show ?thesis using sealed_secret_roundtrip [of box_cipher "[1]" "[]" "''key-123''" v] by auto
qed

end
