(* ===== verification/Sign_In.thy ===== *)
theory Sign_In
  imports Sessions Keyed_Store
begin

text \<open>
  The handlers of \<open>apps/web/routes/auth.mjs\<close>, with \<open>packages/db/runtime-bootstrap.mjs\<close>: login with the
  limit on attempts per address, registration, logout and the account of the caller.
\<close>

section \<open>State\<close>

record login_attempt =
  la_count :: nat
  la_resetAt :: instant

record auth_world =
  aw_fleet :: fleet_state
  aw_tenant :: tenant_state
  aw_attempts :: "(string \<times> login_attempt) list"

datatype login_reply =
    Too_Many_Attempts
  | Invalid_Credentials
  | Logged_In user string \<comment> \<open>the account and the cookie\<close>

section \<open>Login\<close>

text \<open>The counter of an address: a new one, the stored one, or the stored one started again when its minute is over.\<close>

definition attempt_of :: "instant \<Rightarrow> login_attempt option \<Rightarrow> login_attempt" where
  "attempt_of now stored =
     (let a = or_else stored \<lparr>la_count = 0, la_resetAt = now + 60000\<rparr>
      in if la_resetAt a \<le> now then \<lparr>la_count = 0, la_resetAt = now + 60000\<rparr> else a)"

definition login_audit :: "stored_user \<Rightarrow> audit_input" where
  "login_audit u =
     \<lparr>ui_audit = None, ui_auditOrg = Some (us_org u), ui_actor = Some (us_id u), ui_action = ''auth.login'',
      ui_targetType = ''user'', ui_target = Some (us_id u), ui_metadata = None\<rparr>"

definition login_user :: "web_parameters \<Rightarrow> json \<Rightarrow> fleet_state \<Rightarrow> stored_user option" where
  "login_user wp body fleet =
     (case (case at body ''email'' of JStr m \<Rightarrow> findUserByEmail (wp_lower wp) m fleet | _ \<Rightarrow> None) of
        None \<Rightarrow> None
      | Some u \<Rightarrow>
          if us_status u = ''active'' \<and> verifyPassword (wp_crypto wp) (at body ''password'') (us_passwordHash u) then Some u
          else None)"

definition login ::
  "env \<Rightarrow> web_parameters \<Rightarrow> bool \<Rightarrow> string \<Rightarrow> failure + json \<Rightarrow> auth_world \<Rightarrow> (failure + login_reply) \<times> auth_world" where
  "login e wp secure ip body w =
     (let a = attempt_of (clock e) (map_of (aw_attempts w) ip)
      in if 10 \<le> la_count a then (Inr Too_Many_Attempts, w)
         else
           (let w1 = w\<lparr>aw_attempts := AList.update ip (a\<lparr>la_count := Suc (la_count a)\<rparr>) (aw_attempts w)\<rparr>
            in case body of
                 Inl err \<Rightarrow> (Inl err, w1)
               | Inr b \<Rightarrow>
                   (case login_user wp b (aw_fleet w1) of
                      None \<Rightarrow> (Inr Invalid_Credentials, w1)
                    | Some u \<Rightarrow>
                        (let w2 = w1\<lparr>aw_attempts := AList.delete ip (aw_attempts w1)\<rparr>
                         in case createSessionToken (wp_crypto wp) (wp_utf8 wp) (wp_codec wp) (clock e)
                                (Some \<lparr>pr_user = us_id u, pr_org = us_org u, pr_role = us_role u\<rparr>) (wp_secret wp) None of
                              Inl err \<Rightarrow> (Inl err, w2)
                            | Inr token \<Rightarrow>
                                (Inr (Logged_In (publicUser u) (sessionCookie (wp_encode wp) token None (Some secure))),
                                 w2\<lparr>aw_tenant := snd (recordAudit e (login_audit u) (aw_tenant w2))\<rparr>)))))"

section \<open>Registration\<close>

definition agentWorkspaceRef :: "agent \<Rightarrow> string" where
  "agentWorkspaceRef a = join '':'' [''hermes'', ag_org a, ag_owner a, ag_id a]"

definition ensureAgentRuntime :: "env \<Rightarrow> agent \<Rightarrow> fleet_state \<Rightarrow> runtime \<times> fleet_state" where
  "ensureAgentRuntime e a =
     createAgentRuntime e \<lparr>rti_id = None, rti_org = ag_org a, rti_owner = ag_owner a, rti_agent = ag_id a,
       rti_deployment = None, rti_workspace = agentWorkspaceRef a, rti_status = None\<rparr>"

fun ensure_runtimes :: "env \<Rightarrow> agent list \<Rightarrow> fleet_state \<Rightarrow> runtime list \<times> fleet_state" where
  "ensure_runtimes e [] s = ([], s)"
| "ensure_runtimes e (a # as) s =
     (if ag_status a \<in> {''deleting'', ''deleted''} then ensure_runtimes e as s
      else (let (r, s1) = ensureAgentRuntime e a s; (rs, s2) = ensure_runtimes (env_from 1 e) as s1 in (r # rs, s2)))"

definition ensureActiveAgentRuntimes :: "env \<Rightarrow> fleet_state \<Rightarrow> runtime list \<times> fleet_state" where
  "ensureActiveAgentRuntimes e s = ensure_runtimes e (listAgents None None s) s"

text \<open>Missing texts are \<open>None\<close>; values of other types are not considered.\<close>

record registration =
  rg_organizationName :: "string option"
  rg_email :: "string option"
  rg_displayName :: "string option"
  rg_password :: json

definition or_text :: "string option \<Rightarrow> string \<Rightarrow> string" where
  "or_text x d = (case x of None \<Rightarrow> d | Some s \<Rightarrow> if s = [] then d else s)"

definition first_agent :: "organization \<Rightarrow> user \<Rightarrow> agent_input" where
  "first_agent og u =
     \<lparr>ai_id = None, ai_org = og_id og, ai_owner = Some (us_id u), ai_name = ''bairui-agent'',
      ai_description = Some ''User-owned Hermes agent'', ai_avatar = None, ai_soul = None, ai_status = None, ai_init = None,
      ai_desired = None, ai_settings = None\<rparr>"

definition register_audit :: "organization \<Rightarrow> user \<Rightarrow> audit_input" where
  "register_audit og u =
     \<lparr>ui_audit = None, ui_auditOrg = Some (og_id og), ui_actor = Some (us_id u), ui_action = ''organization.register'',
      ui_targetType = ''organization'', ui_target = Some (og_id og), ui_metadata = None\<rparr>"

definition register_in :: "env \<Rightarrow> organization \<Rightarrow> user \<Rightarrow> auth_world \<Rightarrow> (failure + ident option) \<times> auth_world" where
  "register_in e og u w =
     (case createAgent (env_from 2 e) (first_agent og u) (aw_fleet w) of
        (Inl err, f) \<Rightarrow> (Inl err, w\<lparr>aw_fleet := f\<rparr>)
      | (Inr a, f) \<Rightarrow>
          (Inr (Some (us_id u)),
           w\<lparr>aw_fleet := snd (ensureAgentRuntime (env_from 3 e) a f),
             aw_tenant := snd (recordAudit (env_from 4 e) (register_audit og u) (aw_tenant w))\<rparr>))"

definition register_user ::
  "env \<Rightarrow> web_parameters \<Rightarrow> bytes \<Rightarrow> bool \<Rightarrow> failure + registration \<Rightarrow> auth_world \<Rightarrow> (failure + ident option) \<times> auth_world" where
  "register_user e wp salt allowed body w =
     (if \<not> allowed then (Inr None, w)
      else (case body of
              Inl err \<Rightarrow> (Inl err, w)
            | Inr b \<Rightarrow>
                (case createOrganization e \<lparr>oi_org = None, oi_name = or_text (rg_organizationName b) ''Personal workspace''\<rparr> (aw_fleet w) of
                   (og, f) \<Rightarrow>
                     (case hashPassword (wp_crypto wp) salt (rg_password b) of
                        Inl err \<Rightarrow> (Inl err, w\<lparr>aw_fleet := f\<rparr>)
                      | Inr h \<Rightarrow>
                          (case rg_email b of
                             None \<Rightarrow> (Inl (TypeError ''toLowerCase''), w\<lparr>aw_fleet := f\<rparr>)
                           | Some m \<Rightarrow>
                               (case createUser (wp_lower wp) (env_from 1 e)
                                   \<lparr>ui_id = None, ui_org = og_id og, ui_email = m, ui_displayName = or_text (rg_displayName b) m,
                                    ui_passwordHash = h, ui_role = Some ''org_admin'', ui_status = None\<rparr> f of
                                  (Inl err, f) \<Rightarrow> (Inl err, w\<lparr>aw_fleet := f\<rparr>)
                                | (Inr u, f) \<Rightarrow> register_in e og u (w\<lparr>aw_fleet := f\<rparr>)))))))"

definition logout :: "web_parameters \<Rightarrow> bool \<Rightarrow> string" where
  "logout wp secure = clearSessionCookie (wp_encode wp) (Some secure)"

definition current_account :: "signed_in option \<Rightarrow> failure + signed_in" where
  "current_account subject =
     (case subject of
        None \<Rightarrow> Inl (CodedError ''Authentication required'' (Some 401))
      | Some p \<Rightarrow>
          (case requirePermission (Some \<lparr>pr_user = si_user p, pr_org = si_org p, pr_role = si_role p\<rparr>) ''self:read''
               \<lparr>res_org = Some (si_org p), res_user = Some (si_user p)\<rparr> of
             Inl err \<Rightarrow> Inl err
           | Inr _ \<Rightarrow> Inr p))"

section \<open>The limit on attempts\<close>

text \<open>A run of attempts from any addresses: whose each one was, whether it had the right credentials, and the answer.\<close>

record attempt_event =
  ae_ip :: string
  ae_right :: bool
  ae_answer :: "failure + login_reply"

definition right_credentials :: "web_parameters \<Rightarrow> fleet_state \<Rightarrow> failure + json \<Rightarrow> bool" where
  "right_credentials wp fleet body \<longleftrightarrow> (case body of Inl err \<Rightarrow> False | Inr b \<Rightarrow> login_user wp b fleet \<noteq> None)"

fun logins :: "web_parameters \<Rightarrow> bool \<Rightarrow> (string \<times> env \<times> (failure + json)) list \<Rightarrow> auth_world \<Rightarrow> attempt_event list" where
  "logins wp secure [] w = []"
| "logins wp secure ((ip, e, body) # rs) w =
     (case login e wp secure ip body w of (r, w') \<Rightarrow>
        \<lparr>ae_ip = ip, ae_right = right_credentials wp (aw_fleet w) body, ae_answer = r\<rparr> # logins wp secure rs w')"

text \<open>The attempts from an address that were looked at, with right or with wrong credentials.\<close>

definition looked_at :: "string \<Rightarrow> bool \<Rightarrow> attempt_event list \<Rightarrow> nat" where
  "looked_at ip right xs = length (filter (\<lambda>x. ae_ip x = ip \<and> ae_right x = right \<and> ae_answer x \<noteq> Inr Too_Many_Attempts) xs)"

lemma looked_at_Nil [simp]: "looked_at ip right [] = 0"
  by (simp add: looked_at_def)

lemma looked_at_Cons [simp]:
  "looked_at ip right (x # xs) =
     (if ae_ip x = ip \<and> ae_right x = right \<and> ae_answer x \<noteq> Inr Too_Many_Attempts then 1 else 0) + looked_at ip right xs"
  by (simp add: looked_at_def)

text \<open>How many more attempts an address has until \<open>limit\<close>: a counter that starts again before then allows ten more.\<close>

definition budget :: "instant \<Rightarrow> login_attempt option \<Rightarrow> nat" where
  "budget limit a = (case a of None \<Rightarrow> 10 | Some a \<Rightarrow> (10 - la_count a) + (if la_resetAt a < limit then 10 else 0))"

lemma login_elsewhere:
  assumes "login e wp secure ip body w = (r, w')" and "jp \<noteq> ip"
  shows "map_of (aw_attempts w') jp = map_of (aw_attempts w) jp"
  using assms
  by (auto simp: login_def Let_def update_conv' delete_conv' split: sum.splits option.splits if_splits prod.splits)

lemma login_budget:
  assumes "login e wp secure ip body w = (r, w')" and "t \<le> clock e" and "clock e < t + 60000"
  shows "r = Inr Too_Many_Attempts \<and> w' = w \<or>
    r \<noteq> Inr Too_Many_Attempts \<and>
      (if right_credentials wp (aw_fleet w) body then budget (t + 60000) (map_of (aw_attempts w') ip) \<le> 10 \<and> 1 \<le> budget (t + 60000) (map_of (aw_attempts w) ip)
       else Suc (budget (t + 60000) (map_of (aw_attempts w') ip)) \<le> budget (t + 60000) (map_of (aw_attempts w) ip))"
proof -
  let ?a = "attempt_of (clock e) (map_of (aw_attempts w) ip)"
  let ?b = "budget (t + 60000) (map_of (aw_attempts w) ip)"
  show ?thesis
  proof (cases "10 \<le> la_count ?a")
    case True
    then show ?thesis using assms(1) by (simp add: login_def Let_def)
  next
    case False
    have room: "Suc (budget (t + 60000) (Some (?a\<lparr>la_count := Suc (la_count ?a)\<rparr>))) \<le> ?b"
      using assms(2,3) False by (cases "map_of (aw_attempts w) ip") (auto simp: budget_def attempt_of_def Let_def split: if_splits)
    have answered: "r \<noteq> Inr Too_Many_Attempts"
      using assms(1) False by (auto simp: login_def Let_def split: sum.splits option.splits)
    show ?thesis
    proof (cases "right_credentials wp (aw_fleet w) body")
      case True
      then have "map_of (aw_attempts w') ip = None"
        using assms(1) False
        by (auto simp: login_def Let_def right_credentials_def delete_conv' split: sum.splits option.splits)
      then show ?thesis using True answered room by (simp add: budget_def)
    next
      case wrong: False
      then have "map_of (aw_attempts w') ip = Some (?a\<lparr>la_count := Suc (la_count ?a)\<rparr>)"
        using assms(1) False
        by (auto simp: login_def Let_def right_credentials_def update_conv' split: sum.splits option.splits)
      then show ?thesis using wrong answered room by simp
    qed
  qed
qed

lemma logins_budget:
  assumes "\<forall>(jp, e, body)\<in>set rs. t \<le> clock e \<and> clock e < t + 60000"
  shows "looked_at ip False (logins wp secure rs w) + looked_at ip True (logins wp secure rs w)
    \<le> budget (t + 60000) (map_of (aw_attempts w) ip) + 10 * looked_at ip True (logins wp secure rs w)"
  using assms
proof (induction rs arbitrary: w)
  case (Cons q rs)
  obtain jp e body where q: "q = (jp, e, body)" by (cases q)
  obtain r w' where step: "login e wp secure jp body w = (r, w')" by force
  let ?l = "\<lambda>b. looked_at ip b (logins wp secure rs w')"
  have IH: "?l False + ?l True \<le> budget (t + 60000) (map_of (aw_attempts w') ip) + 10 * ?l True"
    using Cons by simp
  have run: "logins wp secure (q # rs) w =
      \<lparr>ae_ip = jp, ae_right = right_credentials wp (aw_fleet w) body, ae_answer = r\<rparr> # logins wp secure rs w'"
    by (simp add: q step)
  show ?case
  proof (cases "jp = ip")
    case True
    have "t \<le> clock e" "clock e < t + 60000" using Cons.prems q by auto
    from login_budget [OF step this] IH show ?thesis
      unfolding run by (cases "right_credentials wp (aw_fleet w) body") (auto simp: True)
  next
    case False
    then show ?thesis using IH login_elsewhere [OF step, of ip] unfolding run by simp
  qed
qed simp

lemma login_clears_counter:
  "login e wp secure ip body w = (Inr (Logged_In u cookie), w') \<Longrightarrow> map_of (aw_attempts w') ip = None"
  by (auto simp: login_def Let_def delete_conv' split: sum.splits option.splits if_splits)

text \<open>
  C24. The limit on guesses, for any run of attempts from any addresses, right and wrong ones mixed, within a minute: of the
  attempts from an address that starts without a counter, ten are looked at, and ten more for each of them that had
  the right credentials, since a login that succeeds deletes the counter; the others are turned away unread. An address that starts with a counter may see it run out
  in that minute, which allows ten more. So without a successful login at most ten passwords are tried in the minute
  from the first one, at most twenty in any minute; whoever can log in can try any number.
\<close>

theorem login_attempts_are_limited:
  assumes "\<forall>(jp, e, body)\<in>set rs. t \<le> clock e \<and> clock e < t + 60000"
  shows "looked_at ip False (logins wp secure rs w) + looked_at ip True (logins wp secure rs w)
    \<le> 10 * (looked_at ip True (logins wp secure rs w) + (if map_of (aw_attempts w) ip = None then 1 else 2))"
proof -
  have "budget (t + 60000) (map_of (aw_attempts w) ip) \<le> (if map_of (aw_attempts w) ip = None then 10 else 20)"
    by (cases "map_of (aw_attempts w) ip") (auto simp: budget_def)
  then show ?thesis using logins_budget [OF assms, of ip wp secure w] by (auto split: if_splits)
qed

theorem login_attempts_are_limited_witness:
  "looked_at ''ip'' False (logins (sample_web sample_reader) True (replicate 30 (''ip'', \<lparr>clock = 7, uuid = (\<lambda>_. [])\<rparr>, Inr JNull))
     \<lparr>aw_fleet = empty_fleet, aw_tenant = empty_tenant, aw_attempts = []\<rparr>) \<le> 10"
proof -
  let ?w = "\<lparr>aw_fleet = empty_fleet, aw_tenant = empty_tenant, aw_attempts = []\<rparr>"
  let ?rs = "replicate 30 (''ip'', \<lparr>clock = 7, uuid = (\<lambda>_. [])\<rparr>, Inr JNull)"
  let ?xs = "logins (sample_web sample_reader) True ?rs ?w"
  have kept: "aw_fleet (snd (login e wp secure ip body w)) = aw_fleet w" for e wp secure ip body w
    by (auto simp: login_def Let_def split: sum.split option.split)
  have "looked_at ''ip'' True (logins wp True (replicate n (''ip'', e, Inr JNull)) w) = 0" for n e wp w
  proof (induction n arbitrary: w)
    case (Suc n)
    obtain r w' where "login e wp True ''ip'' (Inr JNull) w = (r, w')" by force
    then show ?case using Suc by (simp add: right_credentials_def login_user_def at_def prop_of_def)
  qed simp
  then have "looked_at ''ip'' True ?xs = 0" by blast
  moreover have "\<forall>(jp, e, body)\<in>set ?rs. 0 \<le> clock e \<and> clock e < 0 + 60000" by simp
  ultimately show ?thesis
    using login_attempts_are_limited [of ?rs 0 "''ip''" "sample_web sample_reader" True ?w] by simp
qed

section \<open>What a failed registration leaves behind\<close>

text \<open>
  A registration that is refused because of its password leaves its organization behind: the error is
  reported, no user or agent exists, and yet the new organization is stored.
\<close>

theorem failed_registration_leaves_organization:
  assumes "rg_password b = JStr p" "length p < 12" and "uuid e 0 \<notin> fst ` set (organizations (aw_fleet w))"
  shows "\<exists>err w'. register_user e wp salt True (Inr b) w = (Inl err, w') \<and>
    users (aw_fleet w') = users (aw_fleet w) \<and> agents (aw_fleet w') = agents (aw_fleet w) \<and>
    length (organizations (aw_fleet w')) = Suc (length (organizations (aw_fleet w)))"
  using assms
  by (simp add: register_user_def createOrganization_def Let_def hashPassword_def update_fresh)

theorem failed_registration_leaves_organization_witness:
  "length (organizations (aw_fleet (snd (register_user \<lparr>clock = 0, uuid = (\<lambda>_. ''o'')\<rparr> (sample_web sample_reader) [] True
     (Inr \<lparr>rg_organizationName = None, rg_email = Some ''e'', rg_displayName = None, rg_password = JStr ''short''\<rparr>)
     \<lparr>aw_fleet = empty_fleet, aw_tenant = empty_tenant, aw_attempts = []\<rparr>)))) = 1"
  using failed_registration_leaves_organization [of "\<lparr>rg_organizationName = None, rg_email = Some ''e'', rg_displayName = None,
      rg_password = JStr ''short''\<rparr>" "''short''" "\<lparr>clock = 0, uuid = (\<lambda>_. ''o'')\<rparr>"
      "\<lparr>aw_fleet = empty_fleet, aw_tenant = empty_tenant, aw_attempts = []\<rparr>" "sample_web sample_reader" "[]"]
  by (auto simp: empty_fleet_def)

text \<open>
  C39. A successful registration sets a tenant up completely: the new user administers the new
  organization, owns its first agent, and the agent has a runtime with the tenant's own workspace.
\<close>

theorem registration_creates_tenant:
  assumes "register_user e wp salt True (Inr b) w = (Inr (Some i), w')"
    and "\<forall>(j, r) \<in> set (runtimes (aw_fleet w)). rt_agent r \<noteq> uuid e 2 \<and> j \<noteq> uuid e 3"
  shows "\<exists>u a r. map_of (users (aw_fleet w')) i = Some u \<and> us_role u = ''org_admin'' \<and> us_org u = uuid e 0 \<and>
    getOrganization (uuid e 0) (aw_fleet w') \<noteq> None \<and>
    getAgent (uuid e 2) (aw_fleet w') = Some a \<and> ag_owner a = i \<and> ag_org a = uuid e 0 \<and>
    getAgentRuntimeByAgent (uuid e 2) (aw_fleet w') = Some r \<and> rt_owner r = i \<and> rt_org r = uuid e 0 \<and>
    rt_workspace r = agentWorkspaceRef a"
proof -
  have none: "List.find (\<lambda>r. rt_agent r = uuid e 2) (map snd (runtimes (aw_fleet w))) = None"
    and fresh: "uuid e 3 \<notin> fst ` set (runtimes (aw_fleet w))"
    using assms(2) by (auto simp: find_None_all)
  show ?thesis
    using assms(1)
    by (clarsimp simp: register_user_def register_in_def createOrganization_def createUser_def createAgent_def first_agent_def
      Let_def env_from_def split: sum.splits option.splits if_splits prod.splits)
     (auto simp: ensureAgentRuntime_def createAgentRuntime_def getAgentRuntimeByAgent_def none [unfolded numeral_2_eq_2] find_append update_fresh fresh
      getAgent_def getOrganization_def update_conv' publicUser_def user.truncate_def agentWorkspaceRef_def Let_def numeral_2_eq_2)
qed

theorem registration_creates_tenant_witness:
  "\<exists>i w' u. register_user \<lparr>clock = 0, uuid = (\<lambda>n. replicate (Suc n) CHR ''x'')\<rparr> (sample_web sample_reader) [1] True
     (Inr \<lparr>rg_organizationName = None, rg_email = Some ''e'', rg_displayName = None, rg_password = JStr (replicate 12 CHR ''p'')\<rparr>)
     \<lparr>aw_fleet = empty_fleet, aw_tenant = empty_tenant, aw_attempts = []\<rparr> = (Inr (Some i), w') \<and>
     map_of (users (aw_fleet w')) i = Some u \<and> us_role u = ''org_admin''"
proof -
  let ?e = "\<lparr>clock = 0, uuid = (\<lambda>n. replicate (Suc n) CHR ''x'')\<rparr>"
  let ?b = "\<lparr>rg_organizationName = None, rg_email = Some ''e'', rg_displayName = None, rg_password = JStr (replicate 12 CHR ''p'')\<rparr>"
  let ?w = "\<lparr>aw_fleet = empty_fleet, aw_tenant = empty_tenant, aw_attempts = []\<rparr>"
  have "fst (register_user ?e (sample_web sample_reader) [1] True (Inr ?b) ?w) = Inr (Some ''xx'')" by code_simp
  then obtain w' where run: "register_user ?e (sample_web sample_reader) [1] True (Inr ?b) ?w = (Inr (Some ''xx''), w')"
    by (cases "register_user ?e (sample_web sample_reader) [1] True (Inr ?b) ?w") auto
  have "\<forall>(j, r) \<in> set (runtimes (aw_fleet ?w)). rt_agent r \<noteq> uuid ?e 2 \<and> j \<noteq> uuid ?e 3" by (simp add: empty_fleet_def)
  from registration_creates_tenant [OF run this] run show ?thesis by blast
qed

end
