(* ===== verification/License.thy ===== *)
theory License
  imports Byte_Codec
begin

text \<open>
  Licenses, \<open>packages/license/license.mjs\<close>: the canonical text of a document, issuing and checking. The
  signature scheme is a parameter; \<open>date\<close> is \<open>Date.parse\<close> on a value, \<open>None\<close> for \<open>NaN\<close>.
\<close>

section \<open>Canonical text\<close>

text \<open>\<open>number\<close> is the text of a finite number. An array joins \<open>undefined\<close> as nothing, a template writes it out.\<close>

function canonical :: "(jnum \<Rightarrow> string) \<Rightarrow> json \<Rightarrow> string" where
  "canonical number v =
     (case v of
        JArr xs \<Rightarrow>
          ''['' @ join '','' (map (\<lambda>x. if x \<in> {JUndefined, JOther} then [] else canonical number x) xs) @ '']''
      | JObj kvs \<Rightarrow>
          ''{'' @ join '','' (map (\<lambda>kv. json_quote (fst kv) @ '':'' @ canonical number (snd kv)) (sort_key fst kvs)) @ ''}''
      | JStr s \<Rightarrow> json_quote s
      | JNum n \<Rightarrow> if is_finite_num n then number n else ''null''
      | JBool b \<Rightarrow> if b then ''true'' else ''false''
      | JNull \<Rightarrow> ''null''
      | _ \<Rightarrow> ''undefined'')"
  by pat_completeness auto
termination
proof (relation "measure (\<lambda>(f, v). size v)", goal_cases)
  case (2 number v xs x)
  then show ?case using size_JArr [of x xs] by auto
next
  case (3 number v kvs kv)
  then show ?case using size_JObj [of kv kvs] by auto
qed simp

declare canonical.simps [simp del]

section \<open>Issuing and checking\<close>

record license_request =
  lr_licenseId :: "string option"
  lr_organizationId :: json
  lr_plan :: json
  lr_features :: "string list option"
  lr_limits :: "json option"
  lr_issuedAt :: "string option"
  lr_expiresAt :: json

definition license_payload :: "string \<Rightarrow> string \<Rightarrow> license_request \<Rightarrow> json" where
  "license_payload now fresh i =
     JObj [(''schemaVersion'', JStr ''1.0''), (''licenseId'', JStr (or_else (lr_licenseId i) fresh)),
       (''organizationId'', lr_organizationId i), (''plan'', lr_plan i),
       (''features'', JArr (map JStr (sort (uniq (or_else (lr_features i) []))))), (''limits'', or_else (lr_limits i) (JObj [])),
       (''issuedAt'', JStr (or_else (lr_issuedAt i) now)), (''expiresAt'', lr_expiresAt i), (''issuer'', JStr ''bairui'')]"

definition issueLicense ::
  "(jnum \<Rightarrow> string) \<Rightarrow> ('k \<Rightarrow> string \<Rightarrow> bytes) \<Rightarrow> string \<Rightarrow> string \<Rightarrow> license_request \<Rightarrow> 'k option \<Rightarrow> failure + json" where
  "issueLicense number sign now fresh i privateKey =
     (case privateKey of
        None \<Rightarrow> Inl (TypeError ''License private key is required'')
      | Some key \<Rightarrow>
          if \<not> truthy (lr_organizationId i) \<or> \<not> truthy (lr_plan i) \<or> \<not> truthy (lr_expiresAt i)
          then Inl (TypeError ''organizationId, plan, and expiresAt are required'')
          else (let payload = license_payload now fresh i
                in Inr (JObj [(''payload'', payload), (''signature'', JStr (to_base64url (sign key (canonical number payload)))),
                     (''algorithm'', JStr ''Ed25519'')])))"

datatype license_check = License_Valid json | License_Invalid string

definition verifyLicense ::
  "(jnum \<Rightarrow> string) \<Rightarrow> ('p \<Rightarrow> string \<Rightarrow> bytes \<Rightarrow> bool) \<Rightarrow> (json \<Rightarrow> instant option) \<Rightarrow> json \<Rightarrow> 'p \<Rightarrow> instant \<Rightarrow> license_check" where
  "verifyLicense number verify date document publicKey now =
     (let payload = at document ''payload''
      in if \<not> truthy payload \<or> \<not> truthy (at document ''signature'') \<or> at document ''algorithm'' \<noteq> JStr ''Ed25519''
         then License_Invalid ''invalid_document''
         else
           (let signature = (case at document ''signature'' of JStr s \<Rightarrow> from_base64url s | _ \<Rightarrow> [])
            in if \<not> verify publicKey (canonical number payload) signature then License_Invalid ''invalid_signature''
               else (case date (at payload ''expiresAt'') of
                       Some t \<Rightarrow> if t \<le> now then License_Invalid ''expired'' else License_Valid payload
                     | None \<Rightarrow> License_Valid payload)))"

section \<open>Properties\<close>

lemma json_quote_not_Nil: "to_base64url bs = [] \<longleftrightarrow> bs = []"
  using length_to_base64url [of bs] by (cases bs) (auto simp: to_base64url_def)

text \<open>
  A license checks as valid from its issue until its expiry date and as expired from then on, with the
  plan, the limits and the organization it was issued for.
\<close>

theorem license_roundtrip:
  assumes "issueLicense number sign issued fresh i (Some key) = Inr document"
    and "\<And>t. verify pub t (sign key t) \<and> is_bytes (sign key t) \<and> sign key t \<noteq> []"
    and "date (lr_expiresAt i) = Some expiry"
  shows "verifyLicense number verify date document pub now =
    (if now < expiry then License_Valid (license_payload issued fresh i) else License_Invalid ''expired'')"
proof -
  let ?p = "license_payload issued fresh i"
  have document: "document = JObj [(''payload'', ?p), (''signature'', JStr (to_base64url (sign key (canonical number ?p)))),
      (''algorithm'', JStr ''Ed25519'')]"
    using assms(1) by (auto simp: issueLicense_def Let_def split: if_splits)
  have "at ?p ''expiresAt'' = lr_expiresAt i" by (simp add: license_payload_def at_def prop_of_def)
  moreover have "truthy ?p" by (simp add: license_payload_def truthy_def)
  moreover have "at document ''payload'' = ?p" "at document ''algorithm'' = JStr ''Ed25519''"
    "at document ''signature'' = JStr (to_base64url (sign key (canonical number ?p)))"
    by (simp_all add: document at_def prop_of_def)
  moreover have "truthy (JStr (to_base64url (sign key (canonical number ?p))))"
    using assms(2) by (simp add: truthy_def json_quote_not_Nil)
  ultimately show ?thesis
    using assms(2,3) by (simp add: verifyLicense_def Let_def base64url_roundtrip)
qed

definition sample_license :: license_request where
  "sample_license = \<lparr>lr_licenseId = Some ''l'', lr_organizationId = JStr ''o'', lr_plan = JStr ''starter'', lr_features = None,
     lr_limits = None, lr_issuedAt = None, lr_expiresAt = JStr ''2030-13-45''\<rparr>"

theorem license_roundtrip_witness:
  "\<exists>d. issueLicense (\<lambda>_. []) (\<lambda>_ _. [1]) ''now'' ''u'' sample_license (Some ()) = Inr d \<and>
     verifyLicense (\<lambda>_. []) (\<lambda>_ _ s. s = [1]) (\<lambda>_. Some 10) d () 10 = License_Invalid ''expired''"
proof -
  obtain d where d: "issueLicense (\<lambda>_. []) (\<lambda>_ _. [1]) ''now'' ''u'' sample_license (Some ()) = Inr d"
    by (simp add: issueLicense_def sample_license_def truthy_def Let_def)
  from license_roundtrip [OF d, of "\<lambda>_ _ s. s = [1]" "()" "\<lambda>_. Some 10" 10 10] d show ?thesis by simp
qed

text \<open>
  A license issued with an expiry that is not a date is valid at every time: issuing only asks for a
  nonempty expiry, and checking compares \<open>NaN\<close> with the clock, which never says expired.
\<close>

theorem unreadable_expiry_never_expires:
  assumes "truthy (lr_organizationId i)" "truthy (lr_plan i)" "truthy (lr_expiresAt i)"
    and "\<And>t. verify pub t (sign key t) \<and> is_bytes (sign key t) \<and> sign key t \<noteq> []"
    and "date (lr_expiresAt i) = None"
  shows "\<exists>document. issueLicense number sign issued fresh i (Some key) = Inr document \<and>
    verifyLicense number verify date document pub now = License_Valid (license_payload issued fresh i)"
proof -
  let ?p = "license_payload issued fresh i"
  let ?d = "JObj [(''payload'', ?p), (''signature'', JStr (to_base64url (sign key (canonical number ?p)))), (''algorithm'', JStr ''Ed25519'')]"
  have "issueLicense number sign issued fresh i (Some key) = Inr ?d"
    using assms(1-3) by (simp add: issueLicense_def Let_def)
  moreover have "at ?p ''expiresAt'' = lr_expiresAt i" "truthy ?p"
    by (simp_all add: license_payload_def at_def prop_of_def truthy_def)
  moreover have "truthy (JStr (to_base64url (sign key (canonical number ?p))))"
    using assms(4) by (simp add: truthy_def json_quote_not_Nil)
  ultimately show ?thesis
    using assms(4,5)
    by (intro exI [of _ ?d]) (simp add: verifyLicense_def Let_def base64url_roundtrip at_def prop_of_def)
qed

theorem unreadable_expiry_never_expires_witness:
  "\<exists>d p. issueLicense (\<lambda>_. []) (\<lambda>_ _. [1]) ''now'' ''u'' sample_license (Some ()) = Inr d \<and>
     verifyLicense (\<lambda>_. []) (\<lambda>_ _ s. s = [1]) (\<lambda>_. None) d () (10 ^ 15) = License_Valid p"
  using unreadable_expiry_never_expires [of sample_license "\<lambda>_ _ s. s = [1]" "()" "\<lambda>_ _. [1]" "()" "\<lambda>_. None" "\<lambda>_. []" "''now''" "''u''" "10 ^ 15"]
  by (auto simp: sample_license_def truthy_def)

end
