(* ===== verification/Js_Search.thy ===== *)
theory Js_Search
  imports Js_Text
begin

text \<open>
  Searching and replacing text: \<open>replaceAll\<close> with a string, the first occurrence of a pattern, and matching
  that ignores the case of ASCII letters, as the \<open>i\<close> flag does for the patterns of the source.
\<close>

section \<open>Replacing every occurrence\<close>

function replace_all :: "string \<Rightarrow> string \<Rightarrow> string \<Rightarrow> string" where
  "replace_all w r [] = []"
| "replace_all w r (c # cs) =
     (if w \<noteq> [] \<and> take (length w) (c # cs) = w then r @ replace_all w r (drop (length w) (c # cs))
      else c # replace_all w r cs)"
  by pat_completeness auto
termination by (relation "measure (\<lambda>(w, r, s). length s)") auto

lemma replace_all_absent: "hd w \<notin> set s \<Longrightarrow> w \<noteq> [] \<Longrightarrow> replace_all w r s = s"
proof (induction s)
  case (Cons c cs)
  then have "take (length w) (c # cs) \<noteq> w" by (cases w) auto
  then show ?case using Cons by simp
qed simp

lemma set_replace_all: "set (replace_all w r s) \<subseteq> set s \<union> set r"
proof (induction w r s rule: replace_all.induct)
  case (2 w r c cs)
  then show ?case
    using set_drop_subset [of "length w" "c # cs"] by (fastforce split: if_splits)
qed simp

section \<open>Ignoring case\<close>

lemma code_to_lower: "is_upper c \<Longrightarrow> code_of (to_lower c) = code_of c + 32"
  by (simp add: to_lower_def is_upper_def code_of_def)

lemma to_lower_fixed: "\<not> is_upper d \<Longrightarrow> \<not> is_lower d \<Longrightarrow> to_lower c = d \<longleftrightarrow> c = d"
proof (cases "is_upper c")
  case True
  assume d: "\<not> is_upper d" "\<not> is_lower d"
  have "is_lower (to_lower c)" using True code_to_lower [OF True] by (simp add: is_upper_def is_lower_def)
  then show ?thesis using True d by auto
qed (simp add: to_lower_def)

definition expect_ci :: "string \<Rightarrow> string \<Rightarrow> string option" where
  "expect_ci w s =
     (if map to_lower (take (length w) s) = map to_lower w then Some (drop (length w) s) else None)"

lemma expect_ci_append [simp]: "expect_ci w (w @ s) = Some s"
  by (simp add: expect_ci_def)

text \<open>The rest after the first match of \<open>m\<close>, a matcher that returns what it captured.\<close>

fun first_match :: "(string \<Rightarrow> 'a option) \<Rightarrow> string \<Rightarrow> 'a option" where
  "first_match m [] = m []"
| "first_match m (c # cs) = (case m (c # cs) of Some x \<Rightarrow> Some x | None \<Rightarrow> first_match m cs)"

definition contains_ci :: "string \<Rightarrow> string \<Rightarrow> bool" where
  "contains_ci w s \<longleftrightarrow> first_match (expect_ci w) s \<noteq> None"

text \<open>The shortest text before a match of \<open>m\<close>, as a lazy group captures it.\<close>

fun lazy_until :: "(string \<Rightarrow> 'a option) \<Rightarrow> string \<Rightarrow> string option" where
  "lazy_until m [] = (if m [] = None then None else Some [])"
| "lazy_until m (c # cs) = (if m (c # cs) = None then map_option ((#) c) (lazy_until m cs) else Some [])"

lemma lazy_until_plain:
  assumes "\<And>k. k < length s \<Longrightarrow> m (drop k s @ t) = None" and "m t \<noteq> None"
  shows "lazy_until m (s @ t) = Some s"
  using assms
proof (induction s)
  case Nil
  then show ?case by (cases t) auto
next
  case (Cons c s)
  have "m (drop k s @ t) = None" if "k < length s" for k using Cons.prems(1) [of "Suc k"] that by simp
  then show ?case using Cons.IH Cons.prems(2) Cons.prems(1) [of 0] by simp
qed

end
