(* ===== verification/Vendor_Api.thy ===== *)
theory Vendor_Api
  imports Channel_Workers Js_Search
begin

text \<open>
  What the adapters of the vendors share (\<open>packages/channels/adapters/\<close>): the binding they serve, the health
  reports and messages they send to the platform, the access token they cache, and how an answer of a vendor is
  read. HTTP, JSON, hashes and number parsing are the fields of a record.
\<close>

section \<open>The platform of the adapter\<close>

record http_answer =
  ha_ok :: bool
  ha_status :: int
  ha_retryAfter :: "string option"
  ha_text :: string

record vendor_request =
  rq_url :: string
  rq_auth :: "string option"
  rq_body :: "json option"

text \<open>\<open>vn_number\<close> is \<open>Number\<close> on a value where it gives an integer, \<open>vn_show\<close> what a template makes of a value.\<close>

record vendor_runtime =
  vn_fetch :: "vendor_request \<Rightarrow> vendor_error + http_answer"
  vn_bytes :: "string \<Rightarrow> nat"
  vn_parse :: "string \<Rightarrow> json option"
  vn_text :: "json \<Rightarrow> string"
  vn_number :: "json \<Rightarrow> int option"
  vn_show :: "json \<Rightarrow> string"
  vn_encode :: "string \<Rightarrow> string"
  vn_sha256 :: "string \<Rightarrow> string"
  vn_sha1 :: "string \<Rightarrow> string"
  vn_seconds :: "string \<Rightarrow> int option"
  vn_date :: "string \<Rightarrow> instant option"

text \<open>A failure of the helpers as the vendor errors the workers look at.\<close>

definition as_vendor_error :: "failure \<Rightarrow> vendor_error" where
  "as_vendor_error err =
     (case err of
        CodedError c st \<Rightarrow> \<lparr>ve_code = Some c, ve_status = st, ve_retryable = None\<rparr>
      | _ \<Rightarrow> \<lparr>ve_code = None, ve_status = None, ve_retryable = None\<rparr>)"

definition answer_data :: "vendor_runtime \<Rightarrow> http_answer \<Rightarrow> vendor_error + json" where
  "answer_data v r =
     (case jsonResponse (vn_bytes v) (vn_parse v) (256 * 1024) (ha_text r) of
        Inl err \<Rightarrow> Inl (as_vendor_error err) | Inr d \<Rightarrow> Inr d)"

text \<open>Every caller reads properties of the data, which throws if the vendor answered \<open>null\<close>.\<close>

definition property_of_null :: vendor_error where
  "property_of_null = \<lparr>ve_code = None, ve_status = None, ve_retryable = None\<rparr>"

definition ask :: "vendor_runtime \<Rightarrow> vendor_request \<Rightarrow> vendor_error + http_answer \<times> json" where
  "ask v q =
     (case vn_fetch v q of
        Inl err \<Rightarrow> Inl err
      | Inr r \<Rightarrow> (case answer_data v r of
                     Inl err \<Rightarrow> Inl err
                   | Inr d \<Rightarrow> if d = JNull then Inl property_of_null else Inr (r, d)))"

definition retry_after :: "vendor_runtime \<Rightarrow> instant \<Rightarrow> http_answer \<Rightarrow> int" where
  "retry_after v now r = retryAfterMs (vn_seconds v) (vn_date v) now 5000 (ha_retryAfter r)"

definition worth_repeating :: "http_answer \<Rightarrow> bool" where
  "worth_repeating r \<longleftrightarrow> ha_status r = 429 \<or> 500 \<le> ha_status r"

text \<open>\<open>data.k ?? status\<close> in a template.\<close>

definition code_or_status :: "vendor_runtime \<Rightarrow> json \<Rightarrow> http_answer \<Rightarrow> string" where
  "code_or_status v code r = (if code \<in> {JNull, JUndefined} then show_int (ha_status r) else vn_show v code)"

definition auth_error :: "string \<Rightarrow> http_answer \<Rightarrow> vendor_error" where
  "auth_error code r = \<lparr>ve_code = Some code, ve_status = None, ve_retryable = Some (worth_repeating r)\<rparr>"

section \<open>Reports and messages\<close>

record adapter_binding =
  ab_id :: ident
  ab_scope :: owner_scope
  ab_worker :: ident

record health_report =
  hr_scope :: owner_scope
  hr_binding :: ident
  hr_channel :: string
  hr_worker :: ident
  hr_sequence :: int
  hr_status :: string
  hr_capabilities :: "string list"
  hr_version :: string
  hr_error :: "string option"
  hr_observedAt :: instant

record vendor_message =
  vg_scope :: owner_scope
  vg_ingress :: ident
  vg_binding :: ident
  vg_channel :: string
  vg_account :: ident
  vg_message :: ident
  vg_sender :: ident
  vg_identity :: "ident option"
  vg_conversation :: ident
  vg_kind :: string
  vg_text :: string
  vg_receivedAt :: instant
  vg_trace :: ident

text \<open>What an adapter sends, in order: reports, and messages with the pauses between the attempts.\<close>

datatype platform_call = Report health_report | Submit vendor_message

record platform_side =
  pl_health :: "health_report \<Rightarrow> vendor_error option"
  pl_ingress :: "vendor_message \<Rightarrow> nat \<Rightarrow> vendor_error + unit"

definition submitted :: "platform_side \<Rightarrow> vendor_message \<Rightarrow> vendor_error option" where
  "submitted p g = (case fst (submitIngress (pl_ingress p g) None) of Inl err \<Rightarrow> Some err | Inr _ \<Rightarrow> None)"

text \<open>\<open>error?.code\<close> of a report: no error, or one with or without a code.\<close>

definition report_with ::
  "string \<Rightarrow> string \<Rightarrow> string \<Rightarrow> adapter_binding \<Rightarrow> instant \<Rightarrow> int \<Rightarrow> string \<Rightarrow> string list \<Rightarrow> string option option \<Rightarrow> health_report" where
  "report_with channel version fallback b now sequence status capabilities err =
     \<lparr>hr_scope = ab_scope b, hr_binding = ab_id b, hr_channel = channel, hr_worker = ab_worker b, hr_sequence = sequence,
      hr_status = status, hr_capabilities = capabilities, hr_version = version,
      hr_error = map_option (\<lambda>code. adapterErrorCode code fallback) err, hr_observedAt = now\<rparr>"

section \<open>Access tokens\<close>

record vendor_session =
  vs_sequence :: int
  vs_token :: "string option"
  vs_tokenExpiresAt :: instant

definition token_expiry :: "instant \<Rightarrow> int option \<Rightarrow> instant" where
  "token_expiry now expires = now + max 60 (num_or expires 7200 - 120) * 1000"

definition fresh_token :: "instant \<Rightarrow> 'x vendor_session_scheme \<Rightarrow> string option" where
  "fresh_token now s = (if vs_token s \<noteq> Some [] \<and> now < vs_tokenExpiresAt s then vs_token s else None)"

text \<open>A cached token, or one from the vendor: \<open>read\<close> takes it from the answer, with its life time in seconds.\<close>

definition token_from ::
  "vendor_runtime \<Rightarrow> (http_answer \<Rightarrow> json \<Rightarrow> vendor_error + string \<times> int option) \<Rightarrow> vendor_request \<Rightarrow> bool \<Rightarrow> instant \<Rightarrow>
     'x vendor_session_scheme \<Rightarrow> (vendor_error + string) \<times> 'x vendor_session_scheme" where
  "token_from v read q forced now s =
     (case (if forced then None else fresh_token now s) of
        Some t \<Rightarrow> (Inr t, s)
      | None \<Rightarrow>
          (case ask v q of
             Inl err \<Rightarrow> (Inl err, s)
           | Inr (r, d) \<Rightarrow>
               (case read r d of
                  Inl err \<Rightarrow> (Inl err, s)
                | Inr (t, expires) \<Rightarrow> (Inr t, s\<lparr>vs_token := Some t, vs_tokenExpiresAt := token_expiry now expires\<rparr>))))"

lemma token_expiry_bound: "now + 60000 \<le> token_expiry now expires"
  by (simp add: token_expiry_def)

text \<open>A token that was just obtained is used for at least a minute without asking the vendor again.\<close>

lemma token_is_reused:
  assumes "token_from v read q forced now s = (Inr t, s')" and "t \<noteq> []" and "forced \<or> fresh_token now s = None"
    and "now \<le> later" and "later < now + 60000"
  shows "token_from v' read' q' False later s' = (Inr t, s')"
proof -
  have s': "vs_token s' = Some t" "now + 60000 \<le> vs_tokenExpiresAt s'"
    using assms(1,3) token_expiry_bound
    by (auto simp: token_from_def split: option.splits sum.splits prod.splits if_splits)
  then show ?thesis using assms(2,5) by (simp add: token_from_def fresh_token_def)
qed

section \<open>Deliveries\<close>

text \<open>What is delivered: the conversation and the text, which is empty if there is none.\<close>

record vendor_delivery =
  vd_outbound :: ident
  vd_conversation :: ident
  vd_text :: string
  vd_replyTo :: "ident option"

definition sent_result ::
  "vendor_runtime \<Rightarrow> instant \<Rightarrow> bool \<Rightarrow> string option \<Rightarrow> bool \<Rightarrow> string \<Rightarrow> http_answer \<Rightarrow> delivery_result" where
  "sent_result v now ok messageId retryable code r =
     (if ok then \<lparr>vr_status = ''delivered'', vr_messageId = messageId, vr_errorCode = None, vr_retryAfterMs = None\<rparr>
      else \<lparr>vr_status = (if retryable then ''retryable'' else ''failed''), vr_messageId = None, vr_errorCode = Some code,
            vr_retryAfterMs = (if retryable then Some (retry_after v now r) else None)\<rparr>)"

section \<open>Stable identifiers\<close>

text \<open>
  An identifier of a vendor is kept if it has the platform's form, and is otherwise replaced by a hash; the two
  cannot be confused with each other.
\<close>

lemma stable_kept: "matches IDENTIFIER raw \<Longrightarrow> stableIdentifier h before raw = raw"
  by (simp add: stableIdentifier_def)

lemma stable_kept_iff:
  assumes "matches IDENTIFIER (before @ '':'' @ h raw)"
  shows "stableIdentifier h before raw = raw \<longleftrightarrow> matches IDENTIFIER raw"
  using assms by (auto simp: stableIdentifier_def)

text \<open>A vendor and a platform for examples.\<close>

definition plain_vendor :: vendor_runtime where
  "plain_vendor =
     \<lparr>vn_fetch = (\<lambda>_. Inr \<lparr>ha_ok = True, ha_status = 200, ha_retryAfter = None, ha_text = []\<rparr>), vn_bytes = length,
      vn_parse = (\<lambda>_. None), vn_text = (\<lambda>_. []), vn_number = (\<lambda>_. None), vn_show = (\<lambda>_. []), vn_encode = (\<lambda>s. s),
      vn_sha256 = (\<lambda>s. s), vn_sha1 = (\<lambda>s. s), vn_seconds = (\<lambda>_. None), vn_date = (\<lambda>_. None)\<rparr>"

definition open_platform :: platform_side where
  "open_platform = \<lparr>pl_health = (\<lambda>_. None), pl_ingress = (\<lambda>_ _. Inr ())\<rparr>"

definition vendor_binding :: adapter_binding where
  "vendor_binding = \<lparr>ab_id = ''b1'', ab_scope = \<lparr>os_org = Some ''o1'', os_user = Some ''u1'', os_agent = Some ''a1'', os_workspace = Some ''w1''\<rparr>, ab_worker = ''w1''\<rparr>"

end
