(* ===== verification/Wechat_Adapter.thy ===== *)
theory Wechat_Adapter
  imports Vendor_Api
begin

text \<open>
  The adapter of WeChat official accounts, \<open>packages/channels/adapters/wechat-official.mjs\<close>: the reader of the
  vendor's XML, the check of a callback with its guard against replays, the callback handler and the delivery.
  Number parsing of query parameters and the SHA-1 text are parameters of the runtime record.
\<close>

section \<open>XML\<close>

definition unescape :: "string \<Rightarrow> string" where
  "unescape s =
     replace_all ''&apos;'' [CHR 39] (replace_all ''&quot;'' [CHR 34] (replace_all ''&amp;'' ''&''
       (replace_all ''&gt;'' ''>'' (replace_all ''&lt;'' ''<'' s))))"

definition tag :: "string \<Rightarrow> string" where
  "tag name = ''<'' @ name @ ''>''"

definition end_tag :: "string \<Rightarrow> string" where
  "end_tag name = ''</'' @ name @ ''>''"

text \<open>
  The pattern of \<open>xmlValue\<close> at one place: the tag, then a CDATA section whose text is as short as the closing
  tag allows, or else text without \<open><\<close>.
\<close>

definition cdata_end :: "string \<Rightarrow> string \<Rightarrow> string option" where
  "cdata_end name s = (case expect '']]>'' s of None \<Rightarrow> None | Some r \<Rightarrow> expect_ci (end_tag name) r)"

definition element_at :: "string \<Rightarrow> string \<Rightarrow> string option" where
  "element_at name s =
     (case expect_ci (tag name) s of
        None \<Rightarrow> None
      | Some r \<Rightarrow>
          (case (case expect_ci ''<![CDATA['' r of None \<Rightarrow> None | Some t \<Rightarrow> lazy_until (cdata_end name) t) of
             Some inner \<Rightarrow> Some inner
           | None \<Rightarrow>
               (let inner = takeWhile (\<lambda>c. c \<noteq> CHR ''<'') r
                in if expect_ci (end_tag name) (drop (length inner) r) = None then None else Some inner)))"

definition xmlValue :: "string \<Rightarrow> string \<Rightarrow> string" where
  "xmlValue s name = unescape (or_else (first_match (element_at name) s) [])"

text \<open>A document is one \<open>xml\<close> element, with white space around it and no declarations.\<close>

definition is_xml :: "string \<Rightarrow> bool" where
  "is_xml s \<longleftrightarrow> \<not> contains_ci ''<!DOCTYPE'' s \<and> \<not> contains_ci ''<!ENTITY'' s \<and>
     (case expect_ci ''<xml>'' (trim s) of
        None \<Rightarrow> False
      | Some r \<Rightarrow> 6 \<le> length r \<and> expect_ci ''</xml>'' (drop (length r - 6) r) = Some [])"

record wechat_message =
  wm_to :: string
  wm_from :: string
  wm_createTime :: string
  wm_type :: string
  wm_content :: string
  wm_id :: string
  wm_event :: string
  wm_key :: string

definition parseWechatMessage :: "string \<Rightarrow> vendor_error + wechat_message" where
  "parseWechatMessage s =
     (if \<not> is_xml s then Inl \<lparr>ve_code = Some ''invalid_wechat_xml'', ve_status = None, ve_retryable = None\<rparr>
      else Inr \<lparr>wm_to = xmlValue s ''ToUserName'', wm_from = xmlValue s ''FromUserName'',
        wm_createTime = xmlValue s ''CreateTime'', wm_type = xmlValue s ''MsgType'', wm_content = xmlValue s ''Content'',
        wm_id = xmlValue s ''MsgId'', wm_event = xmlValue s ''Event'', wm_key = xmlValue s ''EventKey''\<rparr>)"

section \<open>The adapter\<close>

record wechat_credentials =
  wk_appId :: string
  wk_appSecret :: string
  wk_token :: string

record wechat_adapter = vendor_session +
  wa_verified :: bool
  wa_replays :: "(string \<times> instant) list"

definition new_wechat_adapter :: "wechat_credentials \<Rightarrow> vendor_error + wechat_adapter" where
  "new_wechat_adapter k =
     (if wk_appId k = [] \<or> wk_appSecret k = [] \<or> wk_token k = []
      then Inl \<lparr>ve_code = Some ''invalid_wechat_credentials'', ve_status = None, ve_retryable = None\<rparr>
      else Inr \<lparr>vs_sequence = 0, vs_token = None, vs_tokenExpiresAt = 0, wa_verified = False, wa_replays = []\<rparr>)"

definition wechat_report ::
  "adapter_binding \<Rightarrow> instant \<Rightarrow> string \<Rightarrow> string list \<Rightarrow> string option option \<Rightarrow> wechat_adapter \<Rightarrow> health_report \<times> wechat_adapter" where
  "wechat_report b now status capabilities err s =
     (let s' = s\<lparr>vs_sequence := vs_sequence s + 1\<rparr>
      in (report_with ''wechat'' ''bairui-wechat-official/1.0.0'' ''wechat_connection_failed'' b now (vs_sequence s')
            status capabilities err, s'))"

definition MAX_BODY_BYTES :: nat where
  "MAX_BODY_BYTES = 256 * 1024"

definition SIGNATURE_WINDOW_MS :: int where
  "SIGNATURE_WINDOW_MS = 5 * 60000"

definition signature :: "vendor_runtime \<Rightarrow> wechat_credentials \<Rightarrow> string \<Rightarrow> string \<Rightarrow> string" where
  "signature v k timestamp nonce = vn_sha1 v (concat (sort [wk_token k, timestamp, nonce]))"

record callback_query =
  cq_signature :: string
  cq_timestamp :: string
  cq_nonce :: string
  cq_echo :: string

record verified_callback =
  vc_key :: string
  vc_replay :: bool

text \<open>
  The answer \<open>replay\<close> is taken before expired entries are dropped. \<open>millis\<close> is \<open>Number(t) * 1000\<close>, if finite.
\<close>

definition verify ::
  "vendor_runtime \<Rightarrow> (string \<Rightarrow> int option) \<Rightarrow> wechat_credentials \<Rightarrow> instant \<Rightarrow> callback_query \<Rightarrow> wechat_adapter \<Rightarrow>
     verified_callback option \<times> wechat_adapter" where
  "verify v millis k now q s =
     (case millis (cq_timestamp q) of
        None \<Rightarrow> (None, s)
      | Some t \<Rightarrow>
          if cq_signature q = [] \<or> cq_timestamp q = [] \<or> cq_nonce q = [] \<or> SIGNATURE_WINDOW_MS < \<bar>now - t\<bar> then (None, s)
          else if cq_signature q \<noteq> signature v k (cq_timestamp q) (cq_nonce q) then (None, s)
          else
            (let key = cq_timestamp q @ '':'' @ cq_nonce q
             in (Some \<lparr>vc_key = key, vc_replay = (key \<in> fst ` set (wa_replays s))\<rparr>,
                 s\<lparr>wa_replays := filter (\<lambda>(i, expiry). \<not> expiry < now) (wa_replays s)\<rparr>)))"

definition markReplay :: "instant \<Rightarrow> string \<Rightarrow> wechat_adapter \<Rightarrow> wechat_adapter" where
  "markReplay now key s = s\<lparr>wa_replays := AList.update key (now + SIGNATURE_WINDOW_MS) (wa_replays s)\<rparr>"

section \<open>Tokens and delivery\<close>

definition wechat_auth :: "vendor_runtime \<Rightarrow> http_answer \<Rightarrow> json \<Rightarrow> vendor_error + string \<times> int option" where
  "wechat_auth v r d =
     (if \<not> ha_ok r \<or> \<not> truthy (at d ''access_token'')
      then Inl (auth_error (''wechat_auth_'' @ code_or_status v (at d ''errcode'') r) r)
      else Inr (vn_show v (at d ''access_token''), vn_number v (at d ''expires_in'')))"

definition wechat_token_request :: "wechat_credentials \<Rightarrow> vendor_request" where
  "wechat_token_request k =
     \<lparr>rq_url = ''https://api.weixin.qq.com/cgi-bin/stable_token'', rq_auth = None,
      rq_body = Some (JObj [(''grant_type'', JStr ''client_credential''), (''appid'', JStr (wk_appId k)),
        (''secret'', JStr (wk_appSecret k)), (''force_refresh'', JBool False)])\<rparr>"

definition wechat_token ::
  "vendor_runtime \<Rightarrow> wechat_credentials \<Rightarrow> instant \<Rightarrow> wechat_adapter \<Rightarrow> (vendor_error + string) \<times> wechat_adapter" where
  "wechat_token v k = token_from v (wechat_auth v) (wechat_token_request k) False"

definition wechat_send :: "vendor_runtime \<Rightarrow> string \<Rightarrow> ident \<Rightarrow> string \<Rightarrow> vendor_request" where
  "wechat_send v token to content =
     \<lparr>rq_url = ''https://api.weixin.qq.com/cgi-bin/message/custom/send?access_token='' @ vn_encode v token, rq_auth = None,
      rq_body = Some (JObj [(''touser'', JStr to), (''msgtype'', JStr ''text''), (''text'', JObj [(''content'', JStr content)])])\<rparr>"

definition wechat_deliver ::
  "vendor_runtime \<Rightarrow> wechat_credentials \<Rightarrow> instant \<Rightarrow> vendor_delivery \<Rightarrow> wechat_adapter \<Rightarrow>
     (vendor_error + delivery_result) \<times> wechat_adapter" where
  "wechat_deliver v k now d s =
     (case wechat_token v k now s of
        (Inl err, s') \<Rightarrow> (Inl err, s')
      | (Inr token, s') \<Rightarrow>
          (case ask v (wechat_send v token (vd_conversation d) (vd_text d)) of
             Inl err \<Rightarrow> (Inl err, s')
           | Inr (r, a) \<Rightarrow>
               (Inr (sent_result v now (ha_ok r \<and> \<not> truthy (at a ''errcode''))
                  (if truthy (at a ''msgid'') then Some (vn_show v (at a ''msgid'')) else None)
                  (worth_repeating r \<or> at a ''errcode'' \<in> {JNum (Integer (-1)), JNum (Integer 45009)})
                  (''wechat_send_'' @ code_or_status v (at a ''errcode'') r) r), s')))"

section \<open>Start and stop\<close>

text \<open>The calls made, the failure that ended the operation, and the adapter after it.\<close>

definition start_wechat ::
  "vendor_runtime \<Rightarrow> platform_side \<Rightarrow> wechat_credentials \<Rightarrow> adapter_binding \<Rightarrow> instant \<Rightarrow> wechat_adapter \<Rightarrow>
     health_report list \<times> vendor_error option \<times> wechat_adapter" where
  "start_wechat v p k b now s =
     (let (r1, s1) = wechat_report b now ''pending'' [] None s
      in case pl_health p r1 of
           Some err \<Rightarrow> ([r1], Some err, s1)
         | None \<Rightarrow>
             (case wechat_token v k now s1 of
                (Inl err, s2) \<Rightarrow> ([r1], Some err, s2)
              | (Inr token, s2) \<Rightarrow>
                  (let (r2, s3) = wechat_report b now ''pending'' [''send'', ''webhook''] None s2
                   in ([r1, r2], pl_health p r2, s3))))"

definition stop_wechat :: "adapter_binding \<Rightarrow> instant \<Rightarrow> wechat_adapter \<Rightarrow> health_report \<times> wechat_adapter" where
  "stop_wechat b now s = wechat_report b now ''disconnected'' [] None s"

section \<open>Callbacks\<close>

datatype callback_request = Get_Request | Post_Request "vendor_error + string" | Other_Request

text \<open>
  \<open>readBody\<close>: the chunks of the body with their sizes; the body is too large as soon as their sum is.
\<close>

fun read_from :: "nat \<Rightarrow> (nat \<times> string) list \<Rightarrow> vendor_error + string" where
  "read_from got [] = Inr []"
| "read_from got ((n, chunk) # rest) =
     (if MAX_BODY_BYTES < got + n
      then Inl \<lparr>ve_code = Some ''wechat_callback_too_large'', ve_status = Some 413, ve_retryable = None\<rparr>
      else (case read_from (got + n) rest of Inl err \<Rightarrow> Inl err | Inr s \<Rightarrow> Inr (chunk @ s)))"

definition readBody :: "(nat \<times> string) list \<Rightarrow> vendor_error + string" where
  "readBody = read_from 0"

definition source_id :: "vendor_runtime \<Rightarrow> wechat_message \<Rightarrow> string" where
  "source_id v g =
     (if wm_id g \<noteq> [] then wm_id g
      else vn_sha256 v (join [LF] [wm_from g, wm_createTime g, wm_type g, wm_content g, wm_event g]))"

definition wechat_text :: "wechat_message \<Rightarrow> string" where
  "wechat_text g =
     (if wm_type g = ''text'' \<and> wm_content g \<noteq> [] then wm_content g
      else ''['' @ (if wm_type g = [] then ''unknown'' else wm_type g) @ '':'' @
        (if wm_event g = [] then ''message'' else wm_event g) @ '']'')"

definition wechat_ingress ::
  "vendor_runtime \<Rightarrow> wechat_credentials \<Rightarrow> adapter_binding \<Rightarrow> instant \<Rightarrow> wechat_message \<Rightarrow> vendor_message" where
  "wechat_ingress v k b receivedAt g =
     (let h = vn_sha256 v; source = source_id v g
      in \<lparr>vg_scope = ab_scope b, vg_ingress = stableIdentifier h ''wechat-ingress'' (''wechat:'' @ ab_id b @ '':'' @ source),
          vg_binding = ab_id b, vg_channel = ''wechat'', vg_account = stableIdentifier h ''wechat-account'' (wk_appId k),
          vg_message = stableIdentifier h ''wechat-message'' source, vg_sender = stableIdentifier h ''wechat-user'' (wm_from g),
          vg_identity = None, vg_conversation = stableIdentifier h ''wechat-conversation'' (wm_from g), vg_kind = ''direct'',
          vg_text = wechat_text g, vg_receivedAt = receivedAt, vg_trace = stableIdentifier h ''wechat-trace'' source\<rparr>)"

text \<open>What a callback ends with: an answer, or an exception that reaches the server.\<close>

datatype callback_end = Answered int string | Failed vendor_error

definition connect_report ::
  "platform_side \<Rightarrow> adapter_binding \<Rightarrow> instant \<Rightarrow> wechat_adapter \<Rightarrow> platform_call list \<times> vendor_error option \<times> wechat_adapter" where
  "connect_report p b now s =
     (if wa_verified s then ([], None, s)
      else (let (r, s') = wechat_report b now ''connected'' [''receive'', ''send'', ''reply'', ''webhook''] None (s\<lparr>wa_verified := True\<rparr>)
            in ([Report r], pl_health p r, s')))"

definition finish_callback ::
  "platform_side \<Rightarrow> adapter_binding \<Rightarrow> instant \<Rightarrow> string \<Rightarrow> string \<Rightarrow> wechat_adapter \<Rightarrow>
     callback_end \<times> platform_call list \<times> wechat_adapter" where
  "finish_callback p b now key answer s =
     (case connect_report p b now s of
        (calls, Some err, s') \<Rightarrow> (Failed err, calls, s')
      | (calls, None, s') \<Rightarrow> (Answered 200 answer, calls, markReplay now key s'))"

definition receive_wechat ::
  "vendor_runtime \<Rightarrow> platform_side \<Rightarrow> (string \<Rightarrow> int option) \<Rightarrow> wechat_credentials \<Rightarrow> adapter_binding \<Rightarrow> instant \<Rightarrow> string \<Rightarrow>
     wechat_message \<Rightarrow> wechat_adapter \<Rightarrow> callback_end \<times> platform_call list \<times> wechat_adapter" where
  "receive_wechat v p millis k b now key g s =
     (if wm_from g = [] \<or> wm_createTime g = [] then (Answered 400 ''invalid request'', [], s)
      else (case millis (wm_createTime g) of
              None \<Rightarrow> (Answered 400 ''invalid request'', [], s)
            | Some receivedAt \<Rightarrow>
                if receivedAt \<le> 0 then (Answered 400 ''invalid request'', [], s)
                else
                  (let m = wechat_ingress v k b receivedAt g
                   in case submitted p m of
                        Some err \<Rightarrow> (Failed err, [Submit m], s)
                      | None \<Rightarrow>
                          (case finish_callback p b now key ''success'' s of
                             (r, calls, s') \<Rightarrow> (r, Submit m # calls, s')))))"

definition handle ::
  "vendor_runtime \<Rightarrow> platform_side \<Rightarrow> (string \<Rightarrow> int option) \<Rightarrow> wechat_credentials \<Rightarrow> adapter_binding \<Rightarrow> instant \<Rightarrow>
     callback_query \<Rightarrow> callback_request \<Rightarrow> wechat_adapter \<Rightarrow> callback_end \<times> platform_call list \<times> wechat_adapter" where
  "handle v p millis k b now q request s =
     (case verify v millis k now q s of
        (None, s') \<Rightarrow> (Answered 403 ''forbidden'', [], s')
      | (Some c, s') \<Rightarrow>
          (case request of
             Get_Request \<Rightarrow> finish_callback p b now (vc_key c) (cq_echo q) s'
           | Other_Request \<Rightarrow> (Answered 405 ''method not allowed'', [], s')
           | Post_Request body \<Rightarrow>
               if vc_replay c then (Answered 200 ''success'', [], s')
               else (case (case body of Inl err \<Rightarrow> Inl err | Inr s \<Rightarrow> parseWechatMessage s) of
                       Inl err \<Rightarrow> (Answered (or_else (ve_status err) 400) ''invalid request'', [], s')
                     | Inr g \<Rightarrow> receive_wechat v p millis k b now (vc_key c) g s')))"

section \<open>Reading what the vendor writes\<close>

text \<open>The document of a message: one element per field, its text in a CDATA section.\<close>

definition field :: "string \<Rightarrow> string \<Rightarrow> string" where
  "field name value = tag name @ ''<![CDATA['' @ value @ '']]>'' @ end_tag name"

definition document :: "(string \<times> string) list \<Rightarrow> string" where
  "document fs = ''<xml>'' @ concat (map (\<lambda>(n, x). field n x) fs) @ ''</xml>''"

definition is_name :: "string \<Rightarrow> bool" where
  "is_name n \<longleftrightarrow> n \<noteq> [] \<and> list_all is_alnum n"

text \<open>A matcher that only looks at places with an opening bracket.\<close>

definition at_bracket :: "(string \<Rightarrow> 'a option) \<Rightarrow> bool" where
  "at_bracket m \<longleftrightarrow> (\<forall>s. m s \<noteq> None \<longrightarrow> s \<noteq> [] \<and> hd s = CHR ''<'')"

lemma skip_text: "at_bracket m \<Longrightarrow> CHR ''<'' \<notin> set a \<Longrightarrow> first_match m (a @ b) = first_match m b"
proof (induction a)
  case (Cons c a)
  have "m (c # a @ b) = None"
  proof (rule ccontr)
    assume "m (c # a @ b) \<noteq> None"
    then have "hd (c # a @ b) = CHR ''<''" using Cons.prems(1) unfolding at_bracket_def by blast
    then show False using Cons.prems(2) by simp
  qed
  then show ?case using Cons by simp
qed simp

lemma skip_char: "m (c # s) = None \<Longrightarrow> first_match m (c # s) = first_match m s"
  by simp

lemma lower_fixed:
  "to_lower c = CHR ''<'' \<longleftrightarrow> c = CHR ''<''" "to_lower c = CHR ''>'' \<longleftrightarrow> c = CHR ''>''"
  "to_lower c = CHR ''/'' \<longleftrightarrow> c = CHR ''/''" "to_lower c = CHR ''!'' \<longleftrightarrow> c = CHR ''!''"
  "to_lower c = CHR ''['' \<longleftrightarrow> c = CHR ''[''" "to_lower c = CHR '']'' \<longleftrightarrow> c = CHR '']''"
  by (rule to_lower_fixed; simp add: is_upper_def is_lower_def code_of_def)+

lemma lower_self [simp]:
  "to_lower CHR ''<'' = CHR ''<''" "to_lower CHR ''>'' = CHR ''>''" "to_lower CHR ''/'' = CHR ''/''"
  "to_lower CHR ''!'' = CHR ''!''" "to_lower CHR ''['' = CHR ''[''"
  by (simp_all add: lower_fixed)

lemma expect_ci_start:
  "expect_ci (w # ws) s \<noteq> None \<Longrightarrow> s \<noteq> [] \<and> to_lower (hd s) = to_lower w \<and> expect_ci ws (tl s) \<noteq> None"
  by (cases s) (auto simp: expect_ci_def split: if_splits)

lemma name_chars: "is_name n \<Longrightarrow> c \<in> set n \<Longrightarrow> is_alnum c"
  by (simp add: is_name_def list_all_iff)

lemma punctuation: "\<not> is_alnum CHR ''<''" "\<not> is_alnum CHR ''>''" "\<not> is_alnum CHR ''/''" "\<not> is_alnum CHR ''!''"
  by (simp_all add: is_alnum_def is_digit_def is_upper_def is_lower_def code_of_def)

text \<open>Where the element of a name does not start: at text, at a closing tag, at a section, and at another tag.\<close>

lemma element_needs_tag: "element_at n s \<noteq> None \<Longrightarrow> expect_ci (tag n) s \<noteq> None"
  by (cases "expect_ci (tag n) s") (simp_all add: element_at_def)

lemma element_at_bracket: "at_bracket (element_at n)"
  unfolding at_bracket_def
proof (intro allI impI)
  fix s assume "element_at n s \<noteq> None"
  then have "expect_ci (CHR ''<'' # n @ ''>'') s \<noteq> None" using element_needs_tag by (fastforce simp: tag_def)
  from expect_ci_start [OF this] show "s \<noteq> [] \<and> hd s = CHR ''<''" by (simp add: lower_fixed)
qed

lemma element_not_at:
  assumes "is_name n" and "c \<in> {CHR ''/'', CHR ''!''}"
  shows "element_at n (CHR ''<'' # c # s) = None"
proof (rule ccontr)
  obtain d n' where n: "n = d # n'" "is_alnum d" using assms(1) by (cases n) (auto simp: is_name_def)
  assume "element_at n (CHR ''<'' # c # s) \<noteq> None"
  then have "expect_ci (CHR ''<'' # d # n' @ ''>'') (CHR ''<'' # c # s) \<noteq> None"
    using n element_needs_tag by (fastforce simp: tag_def)
  from expect_ci_start [OF this] have "expect_ci (d # n' @ ''>'') (c # s) \<noteq> None" by simp
  from expect_ci_start [OF this] have "to_lower c = to_lower d" by simp
  then have "to_lower d = c" using assms(2) by auto
  then have "d = c" using assms(2) by (auto simp: lower_fixed)
  then show False using n(2) assms(2) punctuation by auto
qed

lemma tags_differ:
  assumes "is_name n" and "is_name k" and "map to_lower n \<noteq> map to_lower k"
  shows "element_at n (tag k @ s) = None"
proof (rule ccontr)
  assume "element_at n (tag k @ s) \<noteq> None"
  then have "map to_lower (take (length (tag n)) (tag k @ s)) = map to_lower (tag n)"
    using element_needs_tag by (fastforce simp: expect_ci_def split: if_splits)
  then have eq: "map to_lower (tag k @ s) = map to_lower (tag n) @ map to_lower (drop (length (tag n)) (tag k @ s))"
    by (metis append_take_drop_id map_append)
  have until: "takeWhile (\<lambda>c. c \<noteq> CHR ''>'') (map to_lower (tag m @ r)) = CHR ''<'' # map to_lower m" if "is_name m" for m r
  proof -
    have "to_lower c \<noteq> CHR ''>''" if "c \<in> set m" for c
      using name_chars [OF \<open>is_name m\<close> that] punctuation(2) by (auto simp: lower_fixed)
    then have "takeWhile (\<lambda>c. c \<noteq> CHR ''>'') (map to_lower m @ CHR ''>'' # map to_lower r) = map to_lower m"
      by (subst takeWhile_append2) auto
    then show ?thesis by (simp add: tag_def)
  qed
  have "takeWhile (\<lambda>c. c \<noteq> CHR ''>'') (map to_lower (tag k @ s)) =
      takeWhile (\<lambda>c. c \<noteq> CHR ''>'') (map to_lower (tag n @ drop (length (tag n)) (tag k @ s)))"
    unfolding eq by simp
  then show False unfolding until [OF assms(1)] until [OF assms(2)] using assms(3) by simp
qed

text \<open>Skipping an element, and reading one.\<close>

lemma skip_element:
  assumes "at_bracket m" and "is_name k" and "CHR ''<'' \<notin> set x"
    and "\<forall>r. m (tag k @ r) = None" and "\<forall>r. m (''<![CDATA['' @ r) = None" and "\<forall>r. m (''</'' @ r) = None"
  shows "first_match m (field k x @ s) = first_match m s"
proof -
  have k: "CHR ''<'' \<notin> set k" using name_chars [OF assms(2)] punctuation(1) by blast
  have "first_match m (field k x @ s) = first_match m (k @ ''>'' @ ''<![CDATA['' @ x @ '']]>'' @ end_tag k @ s)"
    using assms(4) by (simp add: field_def tag_def)
  also have "\<dots> = first_match m (''<![CDATA['' @ x @ '']]>'' @ end_tag k @ s)"
    using skip_text [OF assms(1), of "k @ ''>''"] k by simp
  also have "\<dots> = first_match m ((''![CDATA['' @ x @ '']]>'') @ end_tag k @ s)"
    using assms(5) by simp
  also have "\<dots> = first_match m (end_tag k @ s)"
    by (rule skip_text [OF assms(1)]) (use assms(3) in simp)
  also have "\<dots> = first_match m ((''/'' @ k @ ''>'') @ s)"
    using assms(6) by (simp add: end_tag_def)
  also have "\<dots> = first_match m s"
    by (rule skip_text [OF assms(1)]) (use k in simp)
  finally show ?thesis .
qed

lemma skip_field:
  assumes "is_name n" and "is_name k" and "map to_lower n \<noteq> map to_lower k" and "CHR ''<'' \<notin> set x"
  shows "first_match (element_at n) (field k x @ s) = first_match (element_at n) s"
  using skip_element [OF element_at_bracket assms(2,4)] tags_differ [OF assms(1-3)] element_not_at [OF assms(1)] by simp

lemma cdata_end_here: "cdata_end n ('']]>'' @ end_tag n @ s) = Some s"
  by (simp add: cdata_end_def expect_def expect_ci_def)

lemma cdata_end_later:
  assumes "CHR ''<'' \<notin> set x" and "x \<noteq> []"
  shows "cdata_end n (x @ '']]>'' @ end_tag n @ s) = None"
proof -
  have other: "expect_ci (end_tag n) (c # r) = None" if "c \<noteq> CHR ''<''" for c r
  proof (rule ccontr)
    assume "expect_ci (end_tag n) (c # r) \<noteq> None"
    then have "expect_ci (CHR ''<'' # CHR ''/'' # n @ ''>'') (c # r) \<noteq> None" by (simp add: end_tag_def)
    from expect_ci_start [OF this] that show False by (simp add: lower_fixed)
  qed
  consider a where "x = [a]" | a b where "x = [a, b]" | a b c y where "x = a # b # c # y"
    using assms(2) by (metis neq_Nil_conv)
  then show ?thesis
  proof cases
    case 3
    have "y = [] \<or> hd y \<noteq> CHR ''<''" using assms(1) 3 by (cases y) auto
    then show ?thesis using 3 other by (cases y) (simp_all add: cdata_end_def expect_def)
  qed (simp_all add: cdata_end_def expect_def)
qed

lemma read_field:
  assumes "CHR ''<'' \<notin> set x"
  shows "first_match (element_at n) (field n x @ s) = Some x"
proof -
  have "cdata_end n (drop k x @ '']]>'' @ end_tag n @ s) = None" if "k < length x" for k
    by (rule cdata_end_later) (use assms that in \<open>auto dest: in_set_dropD\<close>)
  then have "lazy_until (cdata_end n) (x @ '']]>'' @ end_tag n @ s) = Some x"
    by (rule lazy_until_plain) (simp_all only: cdata_end_here option.distinct not_False_eq_True)
  moreover have "expect_ci (tag n) (field n x @ s) = Some (''<![CDATA['' @ x @ '']]>'' @ end_tag n @ s)"
    unfolding field_def append_assoc by (rule expect_ci_append)
  moreover have "expect_ci ''<![CDATA['' (''<![CDATA['' @ x @ '']]>'' @ end_tag n @ s) = Some (x @ '']]>'' @ end_tag n @ s)"
    by (rule expect_ci_append)
  ultimately have "element_at n (field n x @ s) = Some x"
    unfolding element_at_def by (simp only: option.case)
  then show ?thesis by (simp add: field_def tag_def)
qed

lemma skip_start: "is_name n \<Longrightarrow> map to_lower n \<noteq> ''xml'' \<Longrightarrow> first_match (element_at n) (''<xml>'' @ s) = first_match (element_at n) s"
proof -
  assume n: "is_name n" "map to_lower n \<noteq> ''xml''"
  have xml: "is_name ''xml''" "map to_lower ''xml'' = ''xml''" by code_simp+
  have "element_at n (''<xml>'' @ s) = None" using tags_differ [OF n(1) xml(1), of s] n(2) xml(2) by (simp add: tag_def)
  then have "first_match (element_at n) (''<xml>'' @ s) = first_match (element_at n) (''xml>'' @ s)" by simp
  also have "\<dots> = first_match (element_at n) s" by (rule skip_text [OF element_at_bracket]) simp
  finally show ?thesis .
qed

lemma read_document:
  assumes "is_name n" and "map to_lower n \<noteq> ''xml''" and "\<forall>(k, x)\<in>set fs. is_name k \<and> CHR ''<'' \<notin> set x"
    and "inj_on (map to_lower) (insert n (fst ` set fs))"
  shows "first_match (element_at n) (document fs) = map_of fs n"
proof -
  have finish: "first_match (element_at n) ''</xml>'' = None"
  proof -
    have "first_match (element_at n) ''</xml>'' = first_match (element_at n) (''/xml>'' @ [])"
      using element_not_at [OF assms(1), of "CHR ''/''" "''xml>''"] by simp
    also have "\<dots> = element_at n []" using skip_text [OF element_at_bracket, of "''/xml>''" n "[]"] by simp
    also have "\<dots> = None" using element_at_bracket [of n] unfolding at_bracket_def by blast
    finally show ?thesis .
  qed
  have "first_match (element_at n) (concat (map (\<lambda>(n, x). field n x) fs) @ ''</xml>'') = map_of fs n"
    using assms(3,4)
  proof (induction fs)
    case Nil
    then show ?case using finish by simp
  next
    case (Cons f fs)
    obtain k x where f: "f = (k, x)" by fastforce
    have kx: "is_name k" "CHR ''<'' \<notin> set x" using Cons.prems(1) f by auto
    show ?case
    proof (cases "k = n")
      case True
      then show ?thesis using read_field [OF kx(2)] f by simp
    next
      case False
      then have "map to_lower n \<noteq> map to_lower k" using Cons.prems(2) f by (auto simp: inj_on_def)
      then show ?thesis
        using skip_field [OF assms(1) kx(1) _ kx(2)] Cons f False by (auto simp: inj_on_def)
    qed
  qed
  then show ?thesis unfolding document_def skip_start [OF assms(1,2)] .
qed

text \<open>A written document has no declarations and is one element.\<close>

lemma no_declaration:
  assumes "w \<in> {''<!DOCTYPE'', ''<!ENTITY''}" and "\<forall>(k, x)\<in>set fs. is_name k \<and> CHR ''<'' \<notin> set x"
  shows "\<not> contains_ci w (document fs)"
proof -
  let ?m = "expect_ci w"
  obtain d w' where w: "w = CHR ''<'' # CHR ''!'' # d # w'" "to_lower d \<noteq> CHR ''[''"
    using assms(1) by (auto simp: lower_fixed)
  have bracket: "at_bracket ?m"
    unfolding at_bracket_def using expect_ci_start unfolding w(1) by (fastforce simp: lower_fixed)
  have other: "?m (CHR ''<'' # c # r) = None" if "c \<noteq> CHR ''!''" for c r
    using that w(1) by (auto simp: expect_ci_def lower_fixed)
  have tags: "?m (tag k @ r) = None" if name: "is_name k" for k r
  proof -
    obtain c k' where k: "k = c # k'" "is_alnum c" using name by (cases k) (auto simp: is_name_def)
    have "c \<noteq> CHR ''!''" using k(2) punctuation(4) by metis
    then show ?thesis using other [of c "k' @ ''>'' @ r"] k(1) by (simp add: tag_def)
  qed
  have slash: "?m (''</'' @ r) = None" for r using other [of "CHR ''/''" r] by simp
  have cdata: "?m (''<![CDATA['' @ r) = None" for r using w by (auto simp: expect_ci_def)
  have start: "first_match ?m (''<xml>'' @ s) = first_match ?m s" for s
    using skip_text [OF bracket, of "''xml>''" s] other by simp
  have finish: "first_match ?m ''</xml>'' = None"
    using skip_text [OF bracket, of "''/xml>''" "[]"] other w(1) by (simp add: expect_ci_def)
  have "first_match ?m (concat (map (\<lambda>(k, x). field k x) fs) @ ''</xml>'') = None"
    using assms(2)
  proof (induction fs)
    case (Cons f fs)
    obtain k x where f: "f = (k, x)" by fastforce
    have kx: "is_name k" "CHR ''<'' \<notin> set x" using Cons.prems f by auto
    have "first_match ?m (field k x @ s) = first_match ?m s" for s
      by (rule skip_element [OF bracket kx]) (simp_all only: tags [OF kx(1)] cdata slash simp_thms)
    then show ?case using Cons f by simp
  qed (simp add: finish del: first_match.simps)
  then show ?thesis unfolding contains_ci_def document_def start by simp
qed

lemma document_is_xml:
  assumes "\<forall>(k, x)\<in>set fs. is_name k \<and> CHR ''<'' \<notin> set x"
  shows "is_xml (document fs)"
proof -
  let ?body = "concat (map (\<lambda>(n, x). field n x) fs)"
  have "\<not> is_space CHR ''<''" "\<not> is_space CHR ''>''" by code_simp+
  then have "trim (document fs) = document fs" by (intro trim_id) (simp_all add: document_def)
  moreover have "expect_ci ''<xml>'' (document fs) = Some (?body @ ''</xml>'')"
    unfolding document_def by (rule expect_ci_append)
  moreover have "expect_ci ''</xml>'' (''</xml>'' @ []) = Some []" by (rule expect_ci_append)
  ultimately show ?thesis
    unfolding is_xml_def using no_declaration [OF _ assms] by (simp del: expect_ci_append)
qed

lemma unescape_plain: "CHR ''&'' \<notin> set s \<Longrightarrow> unescape s = s"
  by (simp add: unescape_def replace_all_absent)

text \<open>The fields of a message, and what a list of elements says of each.\<close>

definition WECHAT_FIELDS :: "string list" where
  "WECHAT_FIELDS = [''ToUserName'', ''FromUserName'', ''CreateTime'', ''MsgType'', ''Content'', ''MsgId'', ''Event'', ''EventKey'']"

definition value_of :: "(string \<times> string) list \<Rightarrow> string \<Rightarrow> string" where
  "value_of fs n = or_else (map_of fs n) []"

lemma names_of_fields: "n \<in> set WECHAT_FIELDS \<Longrightarrow> is_name n \<and> map to_lower n \<noteq> ''xml''"
proof -
  have "list_all (\<lambda>n. is_name n \<and> map to_lower n \<noteq> ''xml'') WECHAT_FIELDS" by code_simp
  then show "n \<in> set WECHAT_FIELDS \<Longrightarrow> is_name n \<and> map to_lower n \<noteq> ''xml''" by (simp add: list_all_iff)
qed

lemma field_is_read:
  assumes "\<forall>(k, x)\<in>set fs. is_name k \<and> CHR ''<'' \<notin> set x \<and> CHR ''&'' \<notin> set x"
    and "inj_on (map to_lower) (set WECHAT_FIELDS \<union> fst ` set fs)" and "n \<in> set WECHAT_FIELDS"
  shows "xmlValue (document fs) n = value_of fs n"
proof -
  have plain: "\<forall>(k, x)\<in>set fs. is_name k \<and> CHR ''<'' \<notin> set x" using assms(1) by fastforce
  have "inj_on (map to_lower) (insert n (fst ` set fs))" by (rule inj_on_subset [OF assms(2)]) (use assms(3) in auto)
  then have found: "first_match (element_at n) (document fs) = map_of fs n"
    using names_of_fields [OF assms(3)] by (intro read_document [OF _ _ plain]) simp_all
  have "CHR ''&'' \<notin> set (value_of fs n)"
    using assms(1) by (cases "map_of fs n") (auto simp: value_of_def dest: map_of_SomeD)
  then show ?thesis unfolding xmlValue_def found value_of_def [symmetric] by (rule unescape_plain)
qed

text \<open>
  Whatever the vendor writes in its own form is read back: for a document of elements with distinct names
  whose texts have no opening bracket and no ampersand, in any order and with other elements between, the reader
  returns for each field the text of its element, and the empty text for a field that is missing.
\<close>

theorem messages_are_read_back:
  assumes "\<forall>(k, x)\<in>set fs. is_name k \<and> CHR ''<'' \<notin> set x \<and> CHR ''&'' \<notin> set x"
    and "inj_on (map to_lower) (set WECHAT_FIELDS \<union> fst ` set fs)"
  shows "parseWechatMessage (document fs) = Inr
    \<lparr>wm_to = value_of fs ''ToUserName'', wm_from = value_of fs ''FromUserName'', wm_createTime = value_of fs ''CreateTime'',
     wm_type = value_of fs ''MsgType'', wm_content = value_of fs ''Content'', wm_id = value_of fs ''MsgId'',
     wm_event = value_of fs ''Event'', wm_key = value_of fs ''EventKey''\<rparr>"
proof -
  have plain: "\<forall>(k, x)\<in>set fs. is_name k \<and> CHR ''<'' \<notin> set x" using assms(1) by fastforce
  then show ?thesis
    using field_is_read [OF assms] document_is_xml [OF plain] by (simp add: parseWechatMessage_def WECHAT_FIELDS_def)
qed

theorem messages_are_read_back_witness:
  "parseWechatMessage (document [(''FromUserName'', ''oUser''), (''CreateTime'', ''1700000000''), (''Content'', ''hi ]]> there'')]) =
   Inr \<lparr>wm_to = [], wm_from = ''oUser'', wm_createTime = ''1700000000'', wm_type = [], wm_content = ''hi ]]> there'',
        wm_id = [], wm_event = [], wm_key = []\<rparr>"
proof -
  let ?fs = "[(''FromUserName'', ''oUser''), (''CreateTime'', ''1700000000''), (''Content'', ''hi ]]> there'')]"
  have "list_all (\<lambda>(k, x). is_name k \<and> CHR ''<'' \<notin> set x \<and> CHR ''&'' \<notin> set x) ?fs" by code_simp
  then have 1: "\<forall>(k, x)\<in>set ?fs. is_name k \<and> CHR ''<'' \<notin> set x \<and> CHR ''&'' \<notin> set x" by (simp only: list_all_iff)
  have "distinct (map (map to_lower) WECHAT_FIELDS)" by code_simp
  moreover have "set WECHAT_FIELDS \<union> fst ` set ?fs = set WECHAT_FIELDS" by (auto simp: WECHAT_FIELDS_def)
  ultimately have 2: "inj_on (map to_lower) (set WECHAT_FIELDS \<union> fst ` set ?fs)" by (simp add: distinct_map)
  have 3: "map (value_of ?fs) WECHAT_FIELDS =
      [[], ''oUser'', ''1700000000'', [], ''hi ]]> there'', [], [], []]" by code_simp
  show ?thesis using messages_are_read_back [OF 1 2] 3 unfolding WECHAT_FIELDS_def list.map list.inject by simp
qed

section \<open>Replays\<close>

text \<open>Callbacks as they arrive, each handled before the next.\<close>

fun callbacks ::
  "vendor_runtime \<Rightarrow> platform_side \<Rightarrow> (string \<Rightarrow> int option) \<Rightarrow> wechat_credentials \<Rightarrow> adapter_binding \<Rightarrow>
     (instant \<times> callback_query \<times> callback_request) list \<Rightarrow> wechat_adapter \<Rightarrow> wechat_adapter" where
  "callbacks v p millis k b [] s = s"
| "callbacks v p millis k b ((now, q, request) # later) s =
     callbacks v p millis k b later (snd (snd (handle v p millis k b now q request s)))"

definition callback_key :: "callback_query \<Rightarrow> string" where
  "callback_key q = cq_timestamp q @ '':'' @ cq_nonce q"

text \<open>A key is remembered until a time if its entries all expire then or later, and it has one.\<close>

definition remembered :: "string \<Rightarrow> instant \<Rightarrow> wechat_adapter \<Rightarrow> bool" where
  "remembered key until s \<longleftrightarrow> key \<in> fst ` set (wa_replays s) \<and> (\<forall>(i, e)\<in>set (wa_replays s). i = key \<longrightarrow> until \<le> e)"

lemma set_update_replays:
  "set (AList.update key e xs) \<subseteq> insert (key, e) (set xs)" "fst ` set (AList.update key e xs) = insert key (fst ` set xs)"
  by (induction xs) auto

lemma remembered_mark:
  assumes "remembered key until s" and "until \<le> now + SIGNATURE_WINDOW_MS"
  shows "remembered key until (markReplay now other s)"
proof -
  have "until \<le> e" if "(key, e) \<in> set (AList.update other (now + SIGNATURE_WINDOW_MS) (wa_replays s))" for e
    using that assms set_update_replays(1) [of other "now + SIGNATURE_WINDOW_MS" "wa_replays s"]
    unfolding remembered_def by blast
  then show ?thesis using assms(1) by (auto simp: remembered_def markReplay_def set_update_replays(2))
qed

lemma marked:
  assumes "distinct (map fst (wa_replays s))"
  shows "remembered key (now + SIGNATURE_WINDOW_MS) (markReplay now key s)"
proof -
  have one: "\<forall>(i, e)\<in>set (AList.update key x xs). i = key \<longrightarrow> e = x" if "distinct (map fst xs)" for xs and x :: instant
    using that by (induction xs) (auto simp: image_iff)
  show ?thesis
    using one [OF assms, of "now + SIGNATURE_WINDOW_MS"] by (auto simp: remembered_def markReplay_def set_update_replays(2))
qed

lemma verify_key: "verify v millis k now q s = (Some c, s') \<Longrightarrow> vc_key c = callback_key q"
  by (auto simp: verify_def callback_key_def Let_def split: option.splits if_splits)

lemma verify_keeps:
  "remembered key until s \<Longrightarrow> now \<le> until \<Longrightarrow> remembered key until (snd (verify v millis k now q s))"
proof -
  assume r: "remembered key until s" and "now \<le> until"
  then have "remembered key until (s\<lparr>wa_replays := filter (\<lambda>(i, expiry). \<not> expiry < now) (wa_replays s)\<rparr>)"
    by (fastforce simp: remembered_def)
  then show ?thesis using r by (simp add: verify_def Let_def split: option.split)
qed

lemma verify_distinct:
  "distinct (map fst (wa_replays s)) \<Longrightarrow> distinct (map fst (wa_replays (snd (verify v millis k now q s))))"
  by (auto simp: verify_def Let_def distinct_map_filter split: option.splits)

lemma connect_replays [simp]: "wa_replays (snd (snd (connect_report p b now s))) = wa_replays s"
  by (simp add: connect_report_def wechat_report_def Let_def)

text \<open>After a callback the entries are those of the check, or those with the callback's own entry.\<close>

lemma finish_replays:
  "snd (snd (finish_callback p b now key answer s)) = snd (snd (connect_report p b now s)) \<or>
   snd (snd (finish_callback p b now key answer s)) = markReplay now key (snd (snd (connect_report p b now s)))"
  by (simp add: finish_callback_def split: prod.splits option.splits)

lemma receive_replays:
  "wa_replays (snd (snd (receive_wechat v p millis k b now key g s))) \<in>
     {wa_replays s, AList.update key (now + SIGNATURE_WINDOW_MS) (wa_replays s)}"
  using finish_replays [of p b now key "''success''" s]
  by (auto simp: receive_wechat_def Let_def markReplay_def split: prod.splits option.splits)

lemma handle_replays:
  "wa_replays (snd (snd (handle v p millis k b now q request s))) \<in>
     {wa_replays (snd (verify v millis k now q s)),
      AList.update (callback_key q) (now + SIGNATURE_WINDOW_MS) (wa_replays (snd (verify v millis k now q s)))}"
proof (cases "verify v millis k now q s")
  case (Pair r s')
  show ?thesis
  proof (cases r)
    case None
    then show ?thesis using Pair by (simp add: handle_def)
  next
    case (Some c)
    then have key: "vc_key c = callback_key q" using Pair verify_key by simp
    show ?thesis
      using finish_replays [of p b now "vc_key c" "cq_echo q" s'] receive_replays [of v p millis k b now "vc_key c" _ s']
      unfolding handle_def Pair Some key [symmetric]
      by (cases request) (auto simp: markReplay_def key split: sum.splits)
  qed
qed

lemma replays_distinct:
  "distinct (map fst (wa_replays s)) \<Longrightarrow>
   distinct (map fst (wa_replays (snd (snd (handle v p millis k b now q request s)))))"
  using handle_replays [of v p millis k b now q request s] verify_distinct [of s v millis k now q]
  by (auto simp: distinct_update)

lemma handle_remembers:
  assumes "remembered key until s" and "now \<le> until" and "until \<le> now + SIGNATURE_WINDOW_MS"
  shows "remembered key until (snd (snd (handle v p millis k b now q request s)))"
proof -
  let ?c = "snd (verify v millis k now q s)"
  have c: "remembered key until ?c" by (rule verify_keeps [OF assms(1,2)])
  have "remembered key until (markReplay now (callback_key q) ?c)" by (rule remembered_mark [OF c assms(3)])
  then show ?thesis
    using c handle_replays [of v p millis k b now q request s] by (auto simp: remembered_def markReplay_def)
qed

lemma remembered_until: "remembered key u s \<Longrightarrow> u' \<le> u \<Longrightarrow> remembered key u' s"
  unfolding remembered_def by fastforce

lemma callbacks_remember:
  assumes "remembered key until s" and "\<forall>c\<in>set later. fst c \<le> until \<and> until \<le> fst c + SIGNATURE_WINDOW_MS"
  shows "remembered key until (callbacks v p millis k b later s)"
  using assms
proof (induction later arbitrary: s)
  case (Cons c later)
  obtain now q request where c: "c = (now, q, request)" by (cases c)
  show ?case using Cons handle_remembers [OF Cons.prems(1), of now] by (simp add: c)
qed simp

lemma callbacks_distinct:
  "distinct (map fst (wa_replays s)) \<Longrightarrow> distinct (map fst (wa_replays (callbacks v p millis k b cs s)))"
proof (induction cs arbitrary: s)
  case (Cons c cs)
  obtain now q request where "c = (now, q, request)" by (cases c)
  then show ?case using Cons replays_distinct by simp
qed simp

lemma forwarded_is_remembered:
  assumes "handle v p millis k b now q request s = (Answered 200 a, calls, s')" and "Submit m \<in> set calls"
    and "distinct (map fst (wa_replays s))"
  shows "remembered (callback_key q) (now + SIGNATURE_WINDOW_MS) s'"
proof -
  obtain c s1 where c: "verify v millis k now q s = (Some c, s1)"
    using assms(1,2) by (cases "verify v millis k now q s") (auto simp: handle_def split: option.splits)
  have d: "distinct (map fst (wa_replays s1))" using verify_distinct [OF assms(3), of v millis k now q] c by simp
  have marks: "remembered (callback_key q) (now + SIGNATURE_WINDOW_MS) s2"
    if "finish_callback p b now (vc_key c) x s1 = (Answered 200 a, y, s2)" for x y s2
  proof -
    obtain r err s3 where s3: "connect_report p b now s1 = (r, err, s3)" by (cases "connect_report p b now s1")
    then have "wa_replays s3 = wa_replays s1" using connect_replays [of p b now s1] by simp
    moreover have "s2 = markReplay now (vc_key c) s3"
      using that s3 by (cases err) (simp_all add: finish_callback_def)
    ultimately show ?thesis using marked [of s3 "callback_key q" now] d verify_key [OF c] by simp
  qed
  show ?thesis
    using assms(1,2) c marks
    by (auto simp: handle_def receive_wechat_def Let_def split: callback_request.splits sum.splits option.splits prod.splits if_splits)
qed

lemma replay_is_answered:
  assumes "remembered (callback_key q) until s"
  shows "fst (snd (handle v p millis k b now q (Post_Request body) s)) = []"
proof -
  have "vc_replay c" if "verify v millis k now q s = (Some c, s')" for c s'
    using that assms
    by (auto simp: verify_def remembered_def callback_key_def Let_def split: option.splits if_splits)
  then show ?thesis by (auto simp: handle_def split: prod.splits option.splits)
qed

lemma late_is_refused:
  assumes "millis (cq_timestamp q) = Some t" and "t + SIGNATURE_WINDOW_MS < now"
  shows "fst (snd (handle v p millis k b now q request s)) = []"
proof -
  have "SIGNATURE_WINDOW_MS < \<bar>now - t\<bar>" using assms(2) by simp
  then have "verify v millis k now q s = (None, s)" using assms(1) by (simp add: verify_def)
  then show ?thesis by (simp add: handle_def)
qed

text \<open>
  A signed callback is forwarded once: when a callback whose time is not in the future was forwarded to the
  platform and acknowledged, no later callback with the same time and nonce makes the adapter call the platform,
  whatever its body is, whatever else was received in between, and however late it comes.
\<close>

theorem replays_are_not_forwarded:
  assumes "new_wechat_adapter k = Inr s0"
    and "handle v p millis k b now q request (callbacks v p millis k b earlier s0) = (Answered 200 a, calls, s1)"
    and "Submit m \<in> set calls"
    and "millis (cq_timestamp q) = Some t" and "t \<le> now"
    and "sorted (now # map fst later @ [now'])"
    and "cq_timestamp q' = cq_timestamp q" and "cq_nonce q' = cq_nonce q"
  shows "fst (snd (handle v p millis k b now' q' (Post_Request body) (callbacks v p millis k b later s1))) = []"
proof (cases "now' \<le> t + SIGNATURE_WINDOW_MS")
  case True
  have key: "callback_key q' = callback_key q" using assms(7,8) by (simp add: callback_key_def)
  have "distinct (map fst (wa_replays s0))" using assms(1) by (auto simp: new_wechat_adapter_def split: if_splits)
  from forwarded_is_remembered [OF assms(2,3) callbacks_distinct [OF this]]
  have "remembered (callback_key q) (t + SIGNATURE_WINDOW_MS) s1" by (rule remembered_until) (use assms(5) in simp)
  then have "remembered (callback_key q) (t + SIGNATURE_WINDOW_MS) (callbacks v p millis k b later s1)"
    by (rule callbacks_remember) (use assms(5,6) True in \<open>auto simp: sorted_append\<close>)
  then show ?thesis unfolding key [symmetric] by (rule replay_is_answered)
next
  case False
  then show ?thesis using late_is_refused [of millis q' t now'] assms(4,7) by simp
qed

definition wechat_start :: wechat_adapter where
  "wechat_start = \<lparr>vs_sequence = 0, vs_token = None, vs_tokenExpiresAt = 0, wa_verified = True, wa_replays = []\<rparr>"

definition sample_keys :: wechat_credentials where
  "sample_keys = \<lparr>wk_appId = ''a'', wk_appSecret = ''s'', wk_token = ''t''\<rparr>"

definition sample_elements :: "(string \<times> string) list" where
  "sample_elements = [(''FromUserName'', ''u''), (''CreateTime'', ''5'')]"

definition wechat_sample :: wechat_message where
  "wechat_sample = \<lparr>wm_to = [], wm_from = ''u'', wm_createTime = ''5'', wm_type = [], wm_content = [], wm_id = [], wm_event = [], wm_key = []\<rparr>"

definition sample_query :: callback_query where
  "sample_query = \<lparr>cq_signature = ''5nt'', cq_timestamp = ''5'', cq_nonce = ''n'', cq_echo = []\<rparr>"

definition sample_handle :: "instant \<Rightarrow> int \<Rightarrow> wechat_adapter \<Rightarrow> callback_end \<times> platform_call list \<times> wechat_adapter" where
  "sample_handle now stamp =
     handle plain_vendor open_platform (\<lambda>_. Some stamp) sample_keys vendor_binding now sample_query
       (Post_Request (Inr (document sample_elements)))"

lemma open_submitted: "submitted open_platform m = None"
proof -
  have "fst (submit_from (\<lambda>_. Inr ()) 1 n) = Inr ()" for n by (cases n) simp_all
  then show ?thesis by (simp add: submitted_def open_platform_def submitIngress_def)
qed

lemma open_connects:
  "\<exists>r s'. connect_report open_platform b now s = (r, None, s') \<and> wa_replays s' = wa_replays s"
  by (simp add: connect_report_def open_platform_def wechat_report_def Let_def)

lemma sample_read: "parseWechatMessage (document sample_elements) = Inr wechat_sample"
proof -
  have "list_all (\<lambda>(k, x). is_name k \<and> CHR ''<'' \<notin> set x \<and> CHR ''&'' \<notin> set x) sample_elements" by code_simp
  then have 1: "\<forall>(k, x)\<in>set sample_elements. is_name k \<and> CHR ''<'' \<notin> set x \<and> CHR ''&'' \<notin> set x" by (simp only: list_all_iff)
  then have plain: "\<forall>(k, x)\<in>set sample_elements. is_name k \<and> CHR ''<'' \<notin> set x" by fastforce
  have "distinct (map (map to_lower) WECHAT_FIELDS)" by code_simp
  moreover have "set WECHAT_FIELDS \<union> fst ` set sample_elements = set WECHAT_FIELDS"
    by (auto simp: WECHAT_FIELDS_def sample_elements_def)
  ultimately have 2: "inj_on (map to_lower) (set WECHAT_FIELDS \<union> fst ` set sample_elements)" by (simp add: distinct_map)
  have 3: "map (value_of sample_elements) WECHAT_FIELDS = [[], ''u'', ''5'', [], [], [], [], []]" by code_simp
  then show ?thesis
    using field_is_read [OF 1 2] document_is_xml [OF plain]
    by (simp add: parseWechatMessage_def WECHAT_FIELDS_def wechat_sample_def)
qed

lemma sample_verified:
  assumes "\<bar>now - stamp\<bar> \<le> SIGNATURE_WINDOW_MS"
  shows "verify plain_vendor (\<lambda>_. Some stamp) sample_keys now sample_query s =
    (Some \<lparr>vc_key = ''5:n'', vc_replay = (''5:n'' \<in> fst ` set (wa_replays s))\<rparr>,
     s\<lparr>wa_replays := filter (\<lambda>(i, expiry). \<not> expiry < now) (wa_replays s)\<rparr>)"
proof -
  have "signature plain_vendor sample_keys ''5'' ''n'' = ''5nt''" by code_simp
  then show ?thesis using assms by (simp add: verify_def sample_query_def Let_def)
qed

lemma sample_replayed:
  assumes "\<bar>now - stamp\<bar> \<le> SIGNATURE_WINDOW_MS" and "''5:n'' \<in> fst ` set (wa_replays s)"
  shows "sample_handle now stamp s =
    (Answered 200 ''success'', [], s\<lparr>wa_replays := filter (\<lambda>(i, expiry). \<not> expiry < now) (wa_replays s)\<rparr>)"
  using assms sample_verified [OF assms(1), of s] by (simp add: sample_handle_def handle_def)

lemma sample_forwarded:
  assumes "\<bar>now - stamp\<bar> \<le> SIGNATURE_WINDOW_MS" and "0 < stamp" and "''5:n'' \<notin> fst ` set (wa_replays s)"
  shows "\<exists>r s'. sample_handle now stamp s =
    (Answered 200 ''success'', Submit (wechat_ingress plain_vendor sample_keys vendor_binding stamp wechat_sample) # r, s') \<and>
    wa_replays s' = AList.update ''5:n'' (now + SIGNATURE_WINDOW_MS) (filter (\<lambda>(i, expiry). \<not> expiry < now) (wa_replays s))"
proof -
  obtain r s' where s': "connect_report open_platform vendor_binding now
      (s\<lparr>wa_replays := filter (\<lambda>(i, expiry). \<not> expiry < now) (wa_replays s)\<rparr>) = (r, None, s')"
    "wa_replays s' = filter (\<lambda>(i, expiry). \<not> expiry < now) (wa_replays s)"
    using open_connects [of vendor_binding now "s\<lparr>wa_replays := filter (\<lambda>(i, expiry). \<not> expiry < now) (wa_replays s)\<rparr>"] by auto
  have fields: "wm_from wechat_sample = ''u''" "wm_createTime wechat_sample = ''5''" by (simp_all add: wechat_sample_def)
  show ?thesis
    using assms sample_verified [OF assms(1), of s] s'
    by (simp add: sample_handle_def handle_def sample_read receive_wechat_def fields open_submitted finish_callback_def
        markReplay_def Let_def)
qed

theorem replays_are_not_forwarded_witness:
  "\<exists>s0 s1 m r. new_wechat_adapter sample_keys = Inr s0 \<and> sample_handle 6000 5000 s0 = (Answered 200 ''success'', Submit m # r, s1) \<and>
     fst (snd (sample_handle 7000 5000 s1)) = []"
proof -
  obtain s0 where s0: "new_wechat_adapter sample_keys = Inr s0" "wa_replays s0 = []"
    by (simp add: new_wechat_adapter_def sample_keys_def)
  obtain m r s1 where s1: "sample_handle 6000 5000 s0 = (Answered 200 ''success'', Submit m # r, s1)"
    using sample_forwarded [of 6000 5000 s0] s0(2) by (auto simp: SIGNATURE_WINDOW_MS_def)
  have "fst (snd (sample_handle 7000 5000 (callbacks plain_vendor open_platform (\<lambda>_. Some 5000) sample_keys vendor_binding [] s1))) = []"
    using replays_are_not_forwarded [OF s0(1), of plain_vendor open_platform "\<lambda>_. Some 5000" vendor_binding 6000 sample_query
        "Post_Request (Inr (document sample_elements))" "[]" "''success''" "Submit m # r" s1 m 5000 "[]" 7000 sample_query] s1
    by (simp add: sample_handle_def)
  then show ?thesis using s0 s1 by auto
qed

text \<open>
  A callback that is dated ahead of the adapter's clock stays acceptable for longer than its entry is kept: the
  second copy is recognised, which drops the entry, and the third copy is forwarded again.
\<close>

lemma early_callback_is_forwarded_again:
  "\<exists>m r s1 s2 r' s3. sample_handle 1000 301000 wechat_start = (Answered 200 ''success'', Submit m # r, s1) \<and>
     sample_handle 301001 301000 s1 = (Answered 200 ''success'', [], s2) \<and>
     sample_handle 301002 301000 s2 = (Answered 200 ''success'', Submit m # r', s3)"
proof -
  let ?m = "wechat_ingress plain_vendor sample_keys vendor_binding 301000 wechat_sample"
  obtain r s1 where s1: "sample_handle 1000 301000 wechat_start = (Answered 200 ''success'', Submit ?m # r, s1)"
    "wa_replays s1 = [(''5:n'', 301000)]"
    using sample_forwarded [of 1000 301000 wechat_start] by (auto simp: SIGNATURE_WINDOW_MS_def wechat_start_def)
  obtain s2 where s2: "sample_handle 301001 301000 s1 = (Answered 200 ''success'', [], s2)" "wa_replays s2 = []"
    using sample_replayed [of 301001 301000 s1] s1(2) by (auto simp: SIGNATURE_WINDOW_MS_def)
  obtain r' s3 where "sample_handle 301002 301000 s2 = (Answered 200 ''success'', Submit ?m # r', s3)"
    using sample_forwarded [of 301002 301000 s2] s2(2) by (auto simp: SIGNATURE_WINDOW_MS_def)
  then show ?thesis using s1 s2 by blast
qed

text \<open>
  Text in a CDATA section is literal, but it is read as if it were marked up: entities in it are decoded, some of
  them twice.
\<close>

lemma text_is_decoded: "unescape ''&amp;quot;'' = [CHR 34]"
  by code_simp

lemma plain_element:
  assumes "CHR ''<'' \<notin> set x"
  shows "first_match (element_at n) (tag n @ x @ end_tag n @ s) = Some x"
proof -
  obtain c r where c: "x @ end_tag n @ s = c # r" "c \<noteq> CHR ''<'' \<or> hd r = CHR ''/'' \<and> r \<noteq> []"
    using assms by (cases x) (auto simp: end_tag_def)
  have "expect_ci ''<![CDATA['' (c # r) = None"
  proof (rule ccontr)
    assume "expect_ci ''<![CDATA['' (c # r) \<noteq> None"
    from expect_ci_start [OF this] have "c = CHR ''<''" "expect_ci ''![CDATA['' r \<noteq> None" by (simp_all add: lower_fixed)
    from expect_ci_start [OF this(2)] this(1) c(2) show False by (auto simp: lower_fixed)
  qed
  then have "expect_ci ''<![CDATA['' (x @ end_tag n @ s) = None" unfolding c(1) .
  moreover have "takeWhile (\<lambda>c. c \<noteq> CHR ''<'') (x @ end_tag n @ s) = x"
    using assms by (subst takeWhile_append2) (auto simp: end_tag_def)
  ultimately have "element_at n (tag n @ x @ end_tag n @ s) = Some x"
    unfolding element_at_def expect_ci_append by (simp del: append_assoc)
  then show ?thesis by (simp add: tag_def)
qed

text \<open>An element in the text of an earlier field is what the reader takes for the field itself.\<close>

lemma text_poses_as_field:
  assumes "is_name n" and "is_name k" and "map to_lower n \<noteq> map to_lower k" and "map to_lower n \<noteq> ''xml''"
    and "CHR ''<'' \<notin> set before" and "CHR ''<'' \<notin> set x"
  shows "xmlValue (''<xml>'' @ field k (before @ tag n @ x @ end_tag n) @ s) n = unescape x"
proof -
  let ?m = "first_match (element_at n)" and ?r = "tag n @ x @ end_tag n @ '']]>'' @ end_tag k @ s"
  have k: "CHR ''<'' \<notin> set k" using name_chars [OF assms(2)] punctuation(1) by blast
  have "?m (''<xml>'' @ field k (before @ tag n @ x @ end_tag n) @ s) = ?m (field k (before @ tag n @ x @ end_tag n) @ s)"
    by (rule skip_start [OF assms(1,4)])
  also have "\<dots> = ?m ((k @ ''>'') @ ''<![CDATA['' @ before @ ?r)"
    using tags_differ [OF assms(1-3)] by (simp add: field_def tag_def)
  also have "\<dots> = ?m (''<![CDATA['' @ before @ ?r)"
    by (rule skip_text [OF element_at_bracket]) (use k in simp)
  also have "\<dots> = ?m ((''![CDATA['' @ before) @ ?r)"
    using element_not_at [OF assms(1), of "CHR ''!''"] by simp
  also have "\<dots> = ?m ?r"
    by (rule skip_text [OF element_at_bracket]) (use assms(5) in simp)
  also have "\<dots> = Some x" by (rule plain_element [OF assms(6)])
  finally show ?thesis by (simp add: xmlValue_def)
qed

end
