(* ===== verification/Qq_Adapter.thy ===== *)
theory Qq_Adapter
  imports Vendor_Api
begin

text \<open>
  The adapter of QQ bots, \<open>packages/channels/adapters/qq.mjs\<close>: the vendor's events and conversation targets, the
  gateway connection with its sessions, heartbeats and reconnects, and the delivery. A connection is made in three
  steps with requests between them (the token, the gateway's address, the socket), so whatever else happens may
  happen in between; sockets are numbered in the order they are opened.
\<close>

unbundle bit_operations_syntax

section \<open>Events of the vendor\<close>

definition FULL_INTENTS :: int where
  "FULL_INTENTS = push_bit 30 1 OR push_bit 12 1 OR push_bit 25 1 OR push_bit 26 1"

definition MESSAGE_EVENTS :: "string list" where
  "MESSAGE_EVENTS = [''C2C_MESSAGE_CREATE'', ''GROUP_AT_MESSAGE_CREATE'', ''GROUP_MESSAGE_CREATE'', ''AT_MESSAGE_CREATE'',
     ''DIRECT_MESSAGE_CREATE'']"

text \<open>The data of a frame; bytes are given by their UTF-8 text.\<close>

datatype frame_data = Text_Frame string | Byte_Frame string | Other_Frame

definition decode_frame :: "frame_data \<Rightarrow> string" where
  "decode_frame d = (case d of Text_Frame s \<Rightarrow> s | Byte_Frame s \<Rightarrow> s | Other_Frame \<Rightarrow> [])"

text \<open>\<open>/<@!?[^>]+>/g\<close>: the mark is optional, so what matters is that something stands before the bracket.\<close>

definition mention_end :: "string \<Rightarrow> string option" where
  "mention_end s =
     (case expect ''<@'' s of
        None \<Rightarrow> None
      | Some r \<Rightarrow> if takeWhile (\<lambda>c. c \<noteq> CHR ''>'') r = [] then None else expect ''>'' (dropWhile (\<lambda>c. c \<noteq> CHR ''>'') r))"

lemma expect_shorter: "expect (c # w) s = Some r \<Longrightarrow> length r < length s"
  by (cases s) (auto simp: expect_def split: if_splits)

lemma mention_end_shorter:
  assumes "mention_end s = Some r"
  shows "length r < length s"
proof -
  obtain t where t: "expect ''<@'' s = Some t" "expect ''>'' (dropWhile (\<lambda>c. c \<noteq> CHR ''>'') t) = Some r"
    using assms by (auto simp: mention_end_def split: option.splits if_splits)
  have "length r < length (dropWhile (\<lambda>c. c \<noteq> CHR ''>'') t)" by (rule expect_shorter [OF t(2)])
  also have "\<dots> \<le> length t" by (rule length_dropWhile_le)
  also have "\<dots> < length s" by (rule expect_shorter [OF t(1)])
  finally show ?thesis .
qed

function strip_mentions :: "string \<Rightarrow> string" where
  "strip_mentions [] = []"
| "strip_mentions (c # cs) =
     (case mention_end (c # cs) of Some r \<Rightarrow> strip_mentions r | None \<Rightarrow> c # strip_mentions cs)"
  by pat_completeness auto
termination
  by (relation "measure length") (auto dest: mention_end_shorter)

definition nullish_or :: "json \<Rightarrow> json \<Rightarrow> json" where
  "nullish_or a b = (if a \<in> {JNull, JUndefined} then b else a)"

record qq_event =
  qe_sender :: string
  qe_conversation :: string
  qe_kind :: string
  qe_messageId :: string
  qe_content :: string

definition made_event :: "vendor_runtime \<Rightarrow> json \<Rightarrow> string \<Rightarrow> json \<Rightarrow> string \<Rightarrow> json \<Rightarrow> string \<Rightarrow> qq_event option" where
  "made_event v messageId content sender type place kind =
     (if truthy sender \<and> truthy place
      then Some \<lparr>qe_sender = vn_show v sender, qe_conversation = type @ '':'' @ vn_show v place, qe_kind = kind,
                 qe_messageId = vn_show v messageId, qe_content = content\<rparr>
      else None)"

definition normalizeEvent :: "vendor_runtime \<Rightarrow> string \<Rightarrow> json \<Rightarrow> qq_event option" where
  "normalizeEvent v type e =
     (let raw = at e ''content''; content = trim (strip_mentions (if raw \<in> {JNull, JUndefined} then [] else vn_show v raw));
          messageId = at e ''id''; author = at e ''author''; made = made_event v messageId content
      in if \<not> truthy messageId \<or> content = [] then None
         else if type = ''C2C_MESSAGE_CREATE''
         then (let sender = nullish_or (at author ''user_openid'') (at author ''id'') in made sender ''c2c'' sender ''direct'')
         else if type \<in> {''GROUP_AT_MESSAGE_CREATE'', ''GROUP_MESSAGE_CREATE''}
         then made (nullish_or (at author ''member_openid'') (at author ''id'')) ''group'' (at e ''group_openid'') ''group''
         else if type = ''DIRECT_MESSAGE_CREATE'' then made (at author ''id'') ''dm'' (at e ''guild_id'') ''direct''
         else made (at author ''id'') ''channel'' (at e ''channel_id'') ''group'')"

text \<open>\<open>/^(c2c|group|channel|dm):(.+)$/\<close>; the separators of lines outside ASCII are not single characters here.\<close>

definition target_at :: "string \<Rightarrow> string \<Rightarrow> (string \<times> string) option" where
  "target_at type s =
     (case expect (type @ '':'') s of
        None \<Rightarrow> None
      | Some i \<Rightarrow> if i = [] \<or> LF \<in> set i \<or> CHR 13 \<in> set i then None else Some (type, i))"

definition invalid_target :: vendor_error where
  "invalid_target = \<lparr>ve_code = Some ''invalid_qq_target'', ve_status = None, ve_retryable = None\<rparr>"

definition deliveryTarget :: "string \<Rightarrow> vendor_error + string \<times> string" where
  "deliveryTarget s =
     (case or_opt (target_at ''c2c'' s) (or_opt (target_at ''group'' s) (or_opt (target_at ''channel'' s) (target_at ''dm'' s))) of
        None \<Rightarrow> Inl invalid_target | Some t \<Rightarrow> Inr t)"

section \<open>The adapter\<close>

record qq_credentials =
  qk_appId :: string
  qk_clientSecret :: "string option"
  qk_appSecret :: "string option"
  qk_token :: "string option"

record qq_adapter = vendor_session +
  qa_socket :: "nat option"
  qa_sessionId :: json
  qa_lastSequence :: "int option"
  qa_heartbeat :: "(nat \<times> int) option"
  qa_timer :: "int option" \<comment> \<open>the timer that waits to fire, with its delay\<close>
  qa_handle :: bool \<comment> \<open>whether \<open>reconnectTimer\<close> is set\<close>
  qa_attempt :: nat
  qa_stopped :: bool

definition client_secret :: "qq_credentials \<Rightarrow> string option" where
  "client_secret k = or_opt (qk_clientSecret k) (or_opt (qk_appSecret k) (qk_token k))"

definition new_qq_adapter :: "qq_credentials \<Rightarrow> vendor_error + qq_adapter" where
  "new_qq_adapter k =
     (if qk_appId k = [] \<or> client_secret k \<in> {None, Some []}
      then Inl \<lparr>ve_code = Some ''invalid_qq_credentials'', ve_status = None, ve_retryable = None\<rparr>
      else Inr \<lparr>vs_sequence = 0, vs_token = None, vs_tokenExpiresAt = 0, qa_socket = None, qa_sessionId = JNull,
                qa_lastSequence = None, qa_heartbeat = None, qa_timer = None, qa_handle = False, qa_attempt = 0, qa_stopped = False\<rparr>)"

text \<open>What the adapter does: calls of the platform, frames to a socket, sockets closed, an exception in a listener.\<close>

datatype qq_effect = Platform platform_call | Frame nat json | Close nat | Thrown

definition qq_report ::
  "adapter_binding \<Rightarrow> instant \<Rightarrow> string \<Rightarrow> string list \<Rightarrow> string option option \<Rightarrow> qq_adapter \<Rightarrow> qq_effect list \<times> qq_adapter" where
  "qq_report b now status capabilities err s =
     (let s' = s\<lparr>vs_sequence := vs_sequence s + 1\<rparr>
      in ([Platform (Report (report_with ''qq'' ''bairui-qq/1.0.0'' ''qq_connection_failed'' b now (vs_sequence s')
            status capabilities err))], s'))"

section \<open>Token and gateway\<close>

definition qq_token_request :: "qq_credentials \<Rightarrow> vendor_request" where
  "qq_token_request k =
     \<lparr>rq_url = ''https://bots.qq.com/app/getAppAccessToken'', rq_auth = None,
      rq_body = Some (JObj [(''appId'', JStr (qk_appId k)), (''clientSecret'', JStr (or_else (client_secret k) []))])\<rparr>"

definition qq_auth :: "vendor_runtime \<Rightarrow> http_answer \<Rightarrow> json \<Rightarrow> vendor_error + string \<times> int option" where
  "qq_auth v r d =
     (if \<not> ha_ok r \<or> \<not> truthy (at d ''access_token'')
      then Inl (auth_error (''qq_auth_'' @ code_or_status v (at d ''code'') r) r)
      else Inr (vn_show v (at d ''access_token''), vn_number v (at d ''expires_in'')))"

definition qq_token ::
  "vendor_runtime \<Rightarrow> qq_credentials \<Rightarrow> bool \<Rightarrow> instant \<Rightarrow> qq_adapter \<Rightarrow> (vendor_error + string) \<times> qq_adapter" where
  "qq_token v k = token_from v (qq_auth v) (qq_token_request k)"

definition gatewayUrl :: "vendor_runtime \<Rightarrow> string \<Rightarrow> vendor_error + string" where
  "gatewayUrl v token =
     (case vn_fetch v \<lparr>rq_url = ''https://api.sgroup.qq.com/gateway'', rq_auth = Some (''QQBot '' @ token), rq_body = None\<rparr> of
        Inl err \<Rightarrow> Inl err
      | Inr r \<Rightarrow>
          (case answer_data v r of
             Inl err \<Rightarrow> Inl err
           | Inr d \<Rightarrow>
               if ha_ok r \<and> d = JNull then Inl property_of_null
               else if \<not> ha_ok r \<or> \<not> truthy (at d ''url'')
               then Inl (auth_error (''qq_gateway_'' @ show_int (ha_status r)) r)
               else Inr (vn_show v (at d ''url''))))"

section \<open>Connections\<close>

definition clearConnection :: "qq_adapter \<Rightarrow> qq_effect list \<times> qq_adapter" where
  "clearConnection s =
     (case qa_socket s of None \<Rightarrow> [] | Some i \<Rightarrow> [Close i], s\<lparr>qa_heartbeat := None, qa_socket := None\<rparr>)"

definition RECONNECT_DELAYS :: "int list" where
  "RECONNECT_DELAYS = [1000, 2000, 5000, 10000, 30000, 60000]"

definition scheduleReconnect :: "qq_adapter \<Rightarrow> qq_adapter" where
  "scheduleReconnect s =
     (if qa_stopped s \<or> qa_handle s then s
      else s\<lparr>qa_timer := Some (RECONNECT_DELAYS ! min (qa_attempt s) (length RECONNECT_DELAYS - 1)), qa_handle := True,
             qa_attempt := qa_attempt s + 1\<rparr>)"

text \<open>A lost connection: it is cleared, reported and connected again later.\<close>

definition lose_connection ::
  "adapter_binding \<Rightarrow> instant \<Rightarrow> string \<Rightarrow> string list \<Rightarrow> string \<Rightarrow> qq_adapter \<Rightarrow> qq_effect list \<times> qq_adapter" where
  "lose_connection b now status capabilities code s =
     (let (closed, s1) = clearConnection s; (told, s2) = qq_report b now status capabilities (Some (Some code)) s1
      in (closed @ told, scheduleReconnect s2))"

section \<open>Frames\<close>

definition qq_ingress ::
  "vendor_runtime \<Rightarrow> (json \<Rightarrow> instant option) \<Rightarrow> qq_credentials \<Rightarrow> adapter_binding \<Rightarrow> instant \<Rightarrow> json \<Rightarrow> qq_event \<Rightarrow> vendor_message" where
  "qq_ingress v moment k b now e g =
     (let h = vn_sha256 v
      in \<lparr>vg_scope = ab_scope b, vg_ingress = stableIdentifier h ''qq-ingress'' (''qq:'' @ ab_id b @ '':'' @ qe_messageId g),
          vg_binding = ab_id b, vg_channel = ''qq'', vg_account = stableIdentifier h ''qq-account'' (qk_appId k),
          vg_message = stableIdentifier h ''qq-message'' (qe_messageId g), vg_sender = stableIdentifier h ''qq-user'' (qe_sender g),
          vg_identity = None, vg_conversation = stableIdentifier h ''qq-conversation'' (qe_conversation g), vg_kind = qe_kind g,
          vg_text = qe_content g,
          vg_receivedAt = (if truthy (at e ''timestamp'') then or_else (moment (at e ''timestamp'')) now else now),
          vg_trace = stableIdentifier h ''qq-trace'' (qe_messageId g)\<rparr>)"

definition qq_inbound ::
  "vendor_runtime \<Rightarrow> (json \<Rightarrow> instant option) \<Rightarrow> qq_credentials \<Rightarrow> adapter_binding \<Rightarrow> instant \<Rightarrow> string \<Rightarrow> json \<Rightarrow> qq_effect list" where
  "qq_inbound v moment k b now type e =
     (case normalizeEvent v type e of None \<Rightarrow> [] | Some g \<Rightarrow> [Platform (Submit (qq_ingress v moment k b now e g))])"

definition json_int :: "int option \<Rightarrow> json" where
  "json_int i = (case i of None \<Rightarrow> JNull | Some n \<Rightarrow> JNum (Integer n))"

definition hello_answer :: "string \<Rightarrow> qq_adapter \<Rightarrow> json" where
  "hello_answer token s =
     (if truthy (qa_sessionId s) \<and> qa_lastSequence s \<noteq> None
      then JObj [(''op'', JNum (Integer 6)), (''d'', JObj [(''token'', JStr (''QQBot '' @ token)),
             (''session_id'', qa_sessionId s), (''seq'', json_int (qa_lastSequence s))])]
      else JObj [(''op'', JNum (Integer 2)), (''d'', JObj [(''token'', JStr (''QQBot '' @ token)),
             (''intents'', JNum (Integer FULL_INTENTS)), (''shard'', JArr [JNum (Integer 0), JNum (Integer 1)])])])"

definition CONNECTED :: "string list" where
  "CONNECTED = [''receive'', ''send'', ''reply'', ''websocket'']"

definition note_sequence :: "json \<Rightarrow> qq_adapter \<Rightarrow> qq_adapter" where
  "note_sequence p s =
     (case at p ''s'' of
        JNum (Integer i) \<Rightarrow> if is_safe_integer (Integer i) then s\<lparr>qa_lastSequence := Some i\<rparr> else s
      | _ \<Rightarrow> s)"

definition dispatch ::
  "vendor_runtime \<Rightarrow> (json \<Rightarrow> instant option) \<Rightarrow> qq_credentials \<Rightarrow> adapter_binding \<Rightarrow> instant \<Rightarrow> json \<Rightarrow> qq_adapter \<Rightarrow>
     qq_effect list \<times> qq_adapter" where
  "dispatch v moment k b now p s =
     (if at p ''t'' = JStr ''READY''
      then qq_report b now ''connected'' CONNECTED None
             (s\<lparr>qa_sessionId := nullish_or (at (at p ''d'') ''session_id'') JNull, qa_attempt := 0\<rparr>)
      else if at p ''t'' = JStr ''RESUMED'' then qq_report b now ''connected'' CONNECTED None (s\<lparr>qa_attempt := 0\<rparr>)
      else (case at p ''t'' of
              JStr type \<Rightarrow> (if type \<in> set MESSAGE_EVENTS then qq_inbound v moment k b now type (at p ''d'') else [], s)
            | _ \<Rightarrow> ([], s)))"

definition on_payload ::
  "vendor_runtime \<Rightarrow> (json \<Rightarrow> instant option) \<Rightarrow> qq_credentials \<Rightarrow> adapter_binding \<Rightarrow> instant \<Rightarrow> nat \<Rightarrow> string \<Rightarrow> json \<Rightarrow>
     qq_adapter \<Rightarrow> qq_effect list \<times> qq_adapter" where
  "on_payload v moment k b now socket token p s0 =
     (let s = note_sequence p s0; op = at p ''op''
      in if op = JNum (Integer 10)
         then ([Frame socket (hello_answer token s)],
               s\<lparr>qa_heartbeat := Some (socket, max 1000 (num_or (vn_number v (at (at p ''d'') ''heartbeat_interval'')) 45000))\<rparr>)
         else if op = JNum (Integer 0) then dispatch v moment k b now p s
         else if op = JNum (Integer 7) \<or> op = JNum (Integer 9)
         then lose_connection b now ''degraded'' [''send''] ''qq_reconnecting''
                (if op = JNum (Integer 9) \<and> \<not> truthy (at p ''d'') then s\<lparr>qa_sessionId := JNull, qa_lastSequence := None\<rparr> else s)
         else ([], s))"

definition handlePayload ::
  "vendor_runtime \<Rightarrow> (json \<Rightarrow> instant option) \<Rightarrow> qq_credentials \<Rightarrow> adapter_binding \<Rightarrow> instant \<Rightarrow> nat \<Rightarrow> string \<Rightarrow> frame_data \<Rightarrow>
     qq_adapter \<Rightarrow> qq_effect list \<times> qq_adapter" where
  "handlePayload v moment k b now socket token raw s =
     (case vn_parse v (decode_frame raw) of
        None \<Rightarrow> ([], s)
      | Some p \<Rightarrow> if p = JNull then ([Thrown], s) else on_payload v moment k b now socket token p s)"

definition heartbeat_fires :: "qq_adapter \<Rightarrow> qq_effect list" where
  "heartbeat_fires s =
     (case qa_heartbeat s of
        None \<Rightarrow> []
      | Some (i, _) \<Rightarrow>
          if qa_socket s = Some i
          then [Frame i (JObj [(''op'', JNum (Integer 1)), (''d'', json_int (qa_lastSequence s))])] else [])"

definition socket_closed :: "adapter_binding \<Rightarrow> instant \<Rightarrow> nat \<Rightarrow> qq_adapter \<Rightarrow> qq_effect list \<times> qq_adapter" where
  "socket_closed b now i s =
     (if qa_socket s \<noteq> Some i \<or> qa_stopped s then ([], s)
      else lose_connection b now ''disconnected'' [] ''qq_gateway_closed'' s)"

text \<open>The code of the event's error, if the event has an error.\<close>

definition socket_error :: "adapter_binding \<Rightarrow> instant \<Rightarrow> string option option \<Rightarrow> qq_adapter \<Rightarrow> qq_effect list \<times> qq_adapter" where
  "socket_error b now err = qq_report b now ''error'' [] (Some (or_else err (Some ''qq_gateway_error'')))"

definition stop_qq :: "adapter_binding \<Rightarrow> instant \<Rightarrow> qq_adapter \<Rightarrow> qq_effect list \<times> qq_adapter" where
  "stop_qq b now s =
     (let (closed, s1) = clearConnection (s\<lparr>qa_stopped := True, qa_timer := None, qa_handle := False\<rparr>);
          (told, s2) = qq_report b now ''disconnected'' [] None s1
      in (closed @ told, s2))"

section \<open>Delivery\<close>

definition qq_path :: "vendor_runtime \<Rightarrow> string \<Rightarrow> string \<Rightarrow> string" where
  "qq_path v type i =
     (if type = ''c2c'' then ''/v2/users/'' @ vn_encode v i @ ''/messages''
      else if type = ''group'' then ''/v2/groups/'' @ vn_encode v i @ ''/messages''
      else if type = ''channel'' then ''/channels/'' @ vn_encode v i @ ''/messages''
      else ''/dms/'' @ vn_encode v i @ ''/messages'')"

definition reply_field :: "ident option \<Rightarrow> (string \<times> json) list" where
  "reply_field r = (if r \<in> {None, Some []} then [] else [(''msg_id'', JStr (or_else r []))])"

definition qq_body :: "string \<Rightarrow> vendor_delivery \<Rightarrow> json" where
  "qq_body type d =
     (if type \<in> {''c2c'', ''group''}
      then JObj ([(''content'', JStr (vd_text d)), (''msg_type'', JNum (Integer 0)), (''msg_seq'', JNum (Integer 1))] @
                 reply_field (vd_replyTo d))
      else JObj ((''content'', JStr (vd_text d)) # reply_field (vd_replyTo d)))"

definition qq_send :: "vendor_runtime \<Rightarrow> string \<Rightarrow> string \<Rightarrow> string \<Rightarrow> vendor_delivery \<Rightarrow> vendor_request" where
  "qq_send v token type i d =
     \<lparr>rq_url = ''https://api.sgroup.qq.com'' @ qq_path v type i, rq_auth = Some (''QQBot '' @ token), rq_body = Some (qq_body type d)\<rparr>"

definition qq_deliver ::
  "vendor_runtime \<Rightarrow> qq_credentials \<Rightarrow> instant \<Rightarrow> vendor_delivery \<Rightarrow> qq_adapter \<Rightarrow> (vendor_error + delivery_result) \<times> qq_adapter" where
  "qq_deliver v k now d s =
     (case deliveryTarget (vd_conversation d) of
        Inl err \<Rightarrow> (Inl err, s)
      | Inr (type, i) \<Rightarrow>
          (case qq_token v k False now s of
             (Inl err, s') \<Rightarrow> (Inl err, s')
           | (Inr token, s') \<Rightarrow>
               (case ask v (qq_send v token type i d) of
                  Inl err \<Rightarrow> (Inl err, s')
                | Inr (r, a) \<Rightarrow>
                    (Inr (sent_result v now (ha_ok r \<and> (truthy (at a ''id'') \<or> truthy (at a ''message_id'')))
                       (Some (vn_show v (nullish_or (at a ''id'') (at a ''message_id''))))
                       (worth_repeating r) (''qq_send_'' @ code_or_status v (at a ''code'') r) r), s'))))"

section \<open>Connecting, with everything that may happen in between\<close>

text \<open>
  A call of \<open>connect\<close> that has not ended: \<open>start\<close> is waiting for its report, or the call waits for a token, or has
  one and waits for the gateway. The flag says whether the timer made the call, which then handles its failure.
\<close>

datatype pending_connect = Reporting | Asking bool | Holding bool string

text \<open>The sockets that were opened, by number, with the token each listener keeps.\<close>

record qq_world =
  qw_adapter :: qq_adapter
  qw_begun :: bool
  qw_failed :: bool
  qw_pending :: "pending_connect list"
  qw_sockets :: "string list"

definition new_qq_world :: "qq_adapter \<Rightarrow> qq_world" where
  "new_qq_world s = \<lparr>qw_adapter = s, qw_begun = False, qw_failed = False, qw_pending = [], qw_sockets = []\<rparr>"

definition begin_connect :: "bool \<Rightarrow> instant \<Rightarrow> qq_adapter \<Rightarrow> pending_connect" where
  "begin_connect timed now s = (case fresh_token now s of None \<Rightarrow> Asking timed | Some t \<Rightarrow> Holding timed t)"

definition settle :: "pending_connect \<Rightarrow> qq_world \<Rightarrow> qq_world" where
  "settle c w = w\<lparr>qw_pending := remove1 c (qw_pending w)\<rparr>"

definition connect_failed :: "adapter_binding \<Rightarrow> instant \<Rightarrow> bool \<Rightarrow> vendor_error \<Rightarrow> qq_world \<Rightarrow> qq_effect list \<times> qq_world" where
  "connect_failed b now timed err w =
     (if timed
      then (let (told, s) = qq_report b now ''error'' [] (Some (ve_code err)) (qw_adapter w)
            in (told, w\<lparr>qw_adapter := scheduleReconnect s\<rparr>))
      else ([], w\<lparr>qw_failed := True\<rparr>))"

definition token_answered ::
  "vendor_runtime \<Rightarrow> qq_credentials \<Rightarrow> adapter_binding \<Rightarrow> instant \<Rightarrow> bool \<Rightarrow> qq_world \<Rightarrow> qq_effect list \<times> qq_world" where
  "token_answered v k b now timed w =
     (case qq_token v k True now (qw_adapter w) of
        (Inl err, s) \<Rightarrow> connect_failed b now timed err (settle (Asking timed) (w\<lparr>qw_adapter := s\<rparr>))
      | (Inr t, s) \<Rightarrow>
          (let w' = settle (Asking timed) (w\<lparr>qw_adapter := s\<rparr>) in ([], w'\<lparr>qw_pending := Holding timed t # qw_pending w'\<rparr>)))"

text \<open>The gateway answers; opening a socket at its address may throw as well.\<close>

definition gateway_answered ::
  "vendor_runtime \<Rightarrow> (string \<Rightarrow> vendor_error option) \<Rightarrow> adapter_binding \<Rightarrow> instant \<Rightarrow> bool \<Rightarrow> string \<Rightarrow> qq_world \<Rightarrow>
     qq_effect list \<times> qq_world" where
  "gateway_answered v refuses b now timed t w =
     (let w' = settle (Holding timed t) w
      in case (case gatewayUrl v t of Inl err \<Rightarrow> Some err | Inr url \<Rightarrow> refuses url) of
           Some err \<Rightarrow> connect_failed b now timed err w'
         | None \<Rightarrow> ([], w'\<lparr>qw_adapter := (qw_adapter w')\<lparr>qa_socket := Some (length (qw_sockets w'))\<rparr>,
                           qw_sockets := qw_sockets w' @ [t]\<rparr>))"

text \<open>A timer that fires no longer waits; the callback then resets the handle, without which nothing is scheduled again.\<close>

definition timer_fires :: "instant \<Rightarrow> qq_world \<Rightarrow> qq_world" where
  "timer_fires now w =
     (let s = (qw_adapter w)\<lparr>qa_timer := None, qa_handle := False\<rparr>
      in w\<lparr>qw_adapter := s, qw_pending := begin_connect True now s # qw_pending w\<rparr>)"

definition acts :: "qq_world \<Rightarrow> qq_effect list \<times> qq_adapter \<Rightarrow> qq_effect list \<times> qq_world" where
  "acts w r = (fst r, w\<lparr>qw_adapter := snd r\<rparr>)"

inductive qq_step :: "qq_credentials \<Rightarrow> adapter_binding \<Rightarrow> qq_world \<Rightarrow> qq_effect list \<times> qq_world \<Rightarrow> bool" for k b where
  begins: "\<not> qw_begun w \<Longrightarrow>
     qq_step k b w (acts (w\<lparr>qw_begun := True, qw_pending := Reporting # qw_pending w\<rparr>)
       (qq_report b now ''pending'' [] None (qw_adapter w)))"
| report_refused: "Reporting \<in> set (qw_pending w) \<Longrightarrow> qq_step k b w ([], (settle Reporting w)\<lparr>qw_failed := True\<rparr>)"
| reported: "Reporting \<in> set (qw_pending w) \<Longrightarrow>
     qq_step k b w ([], (settle Reporting w)\<lparr>qw_pending := begin_connect False now (qw_adapter w) # qw_pending (settle Reporting w)\<rparr>)"
| token: "Asking timed \<in> set (qw_pending w) \<Longrightarrow> qq_step k b w (token_answered v k b now timed w)"
| gateway: "Holding timed t \<in> set (qw_pending w) \<Longrightarrow> qq_step k b w (gateway_answered v refuses b now timed t w)"
| timer: "qa_timer (qw_adapter w) = Some d \<Longrightarrow> qq_step k b w ([], timer_fires now w)"
| frame: "i < length (qw_sockets w) \<Longrightarrow>
     qq_step k b w (acts w (handlePayload v moment k b now i (qw_sockets w ! i) raw (qw_adapter w)))"
| closed: "i < length (qw_sockets w) \<Longrightarrow> qq_step k b w (acts w (socket_closed b now i (qw_adapter w)))"
| broken: "i < length (qw_sockets w) \<Longrightarrow> qq_step k b w (acts w (socket_error b now err (qw_adapter w)))"
| beats: "qq_step k b w (heartbeat_fires (qw_adapter w), w)"
| delivers: "qq_step k b w ([], w\<lparr>qw_adapter := snd (qq_deliver v k now d (qw_adapter w))\<rparr>)"
| stops: "qq_step k b w (acts w (stop_qq b now (qw_adapter w)))"

inductive qq_steps :: "qq_credentials \<Rightarrow> adapter_binding \<Rightarrow> qq_world \<Rightarrow> qq_world \<Rightarrow> bool" for k b where
  none: "qq_steps k b w w"
| more: "qq_steps k b w u \<Longrightarrow> qq_step k b u (out, t) \<Longrightarrow> qq_steps k b w t"

section \<open>What the operations leave alone\<close>

definition link :: "qq_adapter \<Rightarrow> nat option \<times> int option \<times> bool \<times> bool" where
  "link s = (qa_socket s, qa_timer s, qa_handle s, qa_stopped s)"

lemma link_report [simp]: "link (snd (qq_report b now status capabilities err s)) = link s"
  by (simp add: qq_report_def link_def Let_def)

lemma link_token [simp]: "link (snd (qq_token v k forced now s)) = link s"
  by (auto simp: qq_token_def token_from_def link_def split: option.splits sum.splits prod.splits)

lemma link_deliver [simp]: "link (snd (qq_deliver v k now d s)) = link s"
proof (cases "qq_token v k False now s")
  case (Pair r s')
  then have "link s' = link s" using link_token [of v k False now s] by simp
  then show ?thesis using Pair by (simp add: qq_deliver_def case_prod_beta split: sum.split)
qed

lemma link_dispatch [simp]: "link (snd (dispatch v moment k b now p s)) = link s"
proof -
  have "link (s\<lparr>qa_sessionId := x, qa_attempt := n\<rparr>) = link s" "link (s\<lparr>qa_attempt := n\<rparr>) = link s" for x n
    by (simp_all add: link_def)
  then show ?thesis by (simp add: dispatch_def split: json.split)
qed

lemma link_note [simp]: "link (note_sequence p s) = link s"
  by (simp add: note_sequence_def link_def split: json.split jnum.split)

definition retrying :: "qq_adapter \<Rightarrow> bool" where
  "retrying s \<longleftrightarrow> (\<exists>d. qa_timer s = Some d \<and> 1000 \<le> d \<and> d \<le> 60000)"

lemma delays: "n < length RECONNECT_DELAYS \<Longrightarrow> 1000 \<le> RECONNECT_DELAYS ! n \<and> RECONNECT_DELAYS ! n \<le> 60000"
proof -
  have "list_all (\<lambda>d. 1000 \<le> d \<and> d \<le> 60000) RECONNECT_DELAYS" by code_simp
  then show "n < length RECONNECT_DELAYS \<Longrightarrow> 1000 \<le> RECONNECT_DELAYS ! n \<and> RECONNECT_DELAYS ! n \<le> 60000"
    by (simp add: list_all_length)
qed

lemma schedule_stopped: "qa_stopped s \<Longrightarrow> scheduleReconnect s = s"
  by (simp add: scheduleReconnect_def)

lemma schedule_retries:
  assumes "\<not> qa_stopped s" and "qa_handle s \<longrightarrow> retrying s"
  shows "retrying (scheduleReconnect s)"
proof (cases "qa_handle s")
  case False
  have "min (qa_attempt s) (length RECONNECT_DELAYS - 1) < length RECONNECT_DELAYS" by (simp add: RECONNECT_DELAYS_def)
  from delays [OF this] show ?thesis using False assms(1) by (simp add: scheduleReconnect_def retrying_def)
next
  case True
  then show ?thesis using assms(2) by (simp add: scheduleReconnect_def retrying_def)
qed

text \<open>
  The handle is set exactly while a timer waits; it has a delay of the table and no stop behind it. An adapter is live if it
  need not do anything.
\<close>

definition sound_timer :: "qq_adapter \<Rightarrow> bool" where
  "sound_timer s \<longleftrightarrow> (qa_handle s \<longleftrightarrow> qa_timer s \<noteq> None) \<and> (qa_timer s \<noteq> None \<longrightarrow> retrying s \<and> \<not> qa_stopped s)"

definition live :: "qq_adapter \<Rightarrow> bool" where
  "live s \<longleftrightarrow> qa_stopped s \<or> qa_socket s \<noteq> None \<or> qa_timer s \<noteq> None"

lemma linked:
  assumes "link s' = link s"
  shows "sound_timer s' = sound_timer s" and "live s' = live s" and "qa_stopped s' = qa_stopped s" and "qa_timer s' = qa_timer s"
    and "qa_socket s' = qa_socket s" and "qa_handle s' = qa_handle s"
  using assms by (auto simp: link_def sound_timer_def live_def retrying_def)

lemma schedule_sound: "sound_timer s \<Longrightarrow> sound_timer (scheduleReconnect s)"
  by (cases "qa_stopped s")
    (use schedule_retries [of s] in \<open>auto simp: sound_timer_def scheduleReconnect_def retrying_def split: if_splits\<close>)

lemma schedule_live: "sound_timer s \<Longrightarrow> live (scheduleReconnect s)"
  by (simp add: live_def scheduleReconnect_def sound_timer_def)

lemma schedule_keeps [simp]:
  "qa_stopped (scheduleReconnect s) = qa_stopped s" "qa_socket (scheduleReconnect s) = qa_socket s"
  by (simp_all add: scheduleReconnect_def)

lemma clear_keeps [simp]:
  "qa_stopped (snd (clearConnection s)) = qa_stopped s" "qa_timer (snd (clearConnection s)) = qa_timer s"
  "qa_handle (snd (clearConnection s)) = qa_handle s"
  by (simp_all add: clearConnection_def)

lemma lose_connection_state:
  "\<exists>s'. snd (lose_connection b now status capabilities code s) = scheduleReconnect s' \<and> link s' = link (snd (clearConnection s))"
  by (auto simp: lose_connection_def case_prod_beta Let_def)

lemma lose_sound:
  assumes "sound_timer s"
  shows "sound_timer (snd (lose_connection b now status capabilities code s))"
    and "live (snd (lose_connection b now status capabilities code s))"
    and "qa_stopped (snd (lose_connection b now status capabilities code s)) = qa_stopped s"
proof -
  obtain s' where s': "snd (lose_connection b now status capabilities code s) = scheduleReconnect s'"
    "link s' = link (snd (clearConnection s))"
    using lose_connection_state by blast
  have clear: "sound_timer (snd (clearConnection s))" using assms by (simp add: sound_timer_def retrying_def)
  then show "sound_timer (snd (lose_connection b now status capabilities code s))"
    unfolding s'(1) using linked(1) [OF s'(2)] schedule_sound by blast
  show "live (snd (lose_connection b now status capabilities code s))" unfolding s'(1) using linked(1) [OF s'(2)] clear schedule_live by blast
  show "qa_stopped (snd (lose_connection b now status capabilities code s)) = qa_stopped s"
    unfolding s'(1) using linked(3) [OF s'(2)] by simp
qed

text \<open>An operation of the adapter keeps what must hold of it.\<close>

definition keeps :: "qq_adapter \<Rightarrow> qq_adapter \<Rightarrow> bool" where
  "keeps s t \<longleftrightarrow> (sound_timer s \<longrightarrow> sound_timer t \<and> (live s \<longrightarrow> live t) \<and> (qa_stopped s \<longrightarrow> qa_stopped t))"

lemma keeps_link: "link t = link s \<Longrightarrow> keeps s t"
  using linked [of t s] by (simp add: keeps_def)

lemma keeps_lose: "link s' = link s \<Longrightarrow> keeps s (snd (lose_connection b now status capabilities code s'))"
  using linked [of s' s] lose_sound [of s'] by (simp add: keeps_def)

lemma keeps_frame: "keeps s (snd (handlePayload v moment k b now i t raw s))"
proof -
  have "link (n\<lparr>qa_sessionId := x, qa_lastSequence := y\<rparr>) = link n" "link (n\<lparr>qa_heartbeat := z\<rparr>) = link n" for n x y z
    by (simp_all add: link_def)
  then have "keeps s (snd (on_payload v moment k b now i t p s))" for p
    by (simp add: on_payload_def Let_def keeps_link keeps_lose)
  then show ?thesis by (simp add: handlePayload_def keeps_link split: option.split)
qed

lemma keeps_closed: "keeps s (snd (socket_closed b now i s))"
  by (simp add: socket_closed_def keeps_lose keeps_link)

lemma keeps_error: "keeps s (snd (socket_error b now err s))"
  by (simp add: socket_error_def keeps_link)

lemma keeps_report: "keeps s (snd (qq_report b now status capabilities err s))"
  by (simp add: keeps_link)

lemma keeps_deliver: "keeps s (snd (qq_deliver v k now d s))"
  by (simp add: keeps_link)

lemma stop_state:
  "qa_stopped (snd (stop_qq b now s))" "qa_timer (snd (stop_qq b now s)) = None" "\<not> qa_handle (snd (stop_qq b now s))"
proof -
  let ?s = "snd (clearConnection (s\<lparr>qa_stopped := True, qa_timer := None, qa_handle := False\<rparr>))"
  have "link (snd (stop_qq b now s)) = link ?s"
    by (simp add: stop_qq_def case_prod_beta Let_def)
  from linked(3,4,6) [OF this] show "qa_stopped (snd (stop_qq b now s))" "qa_timer (snd (stop_qq b now s)) = None"
    "\<not> qa_handle (snd (stop_qq b now s))" by simp_all
qed

lemma keeps_stop: "keeps s (snd (stop_qq b now s))"
  using stop_state [of b now s] by (simp add: keeps_def sound_timer_def live_def)

section \<open>Every step\<close>

text \<open>What holds of a connection that was begun and has not been given up.\<close>

definition attended :: "qq_world \<Rightarrow> bool" where
  "attended w \<longleftrightarrow> sound_timer (qw_adapter w) \<and> (qw_begun w \<and> \<not> qw_failed w \<longrightarrow> live (qw_adapter w) \<or> qw_pending w \<noteq> [])"

text \<open>The sockets opened and the calls that may still open one: all that is to come once the adapter has stopped.\<close>

definition openings :: "qq_world \<Rightarrow> nat" where
  "openings w = length (qw_sockets w) + length (qw_pending w)"

definition down :: "qq_world \<Rightarrow> bool" where
  "down w \<longleftrightarrow> qa_stopped (qw_adapter w) \<and> sound_timer (qw_adapter w) \<and> qw_begun w"

definition good_step :: "qq_world \<Rightarrow> qq_world \<Rightarrow> bool" where
  "good_step w t \<longleftrightarrow> (attended w \<longrightarrow> attended t) \<and> (down w \<longrightarrow> down t \<and> openings t \<le> openings w)"

lemma good_acts: "keeps (qw_adapter w) (snd r) \<Longrightarrow> good_step w (snd (acts w r))"
  by (auto simp: good_step_def attended_def down_def openings_def keeps_def acts_def)

lemma good_failure:
  assumes "keeps (qw_adapter w) s" and "c \<in> set (qw_pending w)"
  shows "good_step w (snd (connect_failed b now timed err (settle c (w\<lparr>qw_adapter := s\<rparr>))))"
proof -
  let ?s = "scheduleReconnect (snd (qq_report b now ''error'' [] (Some (ve_code err)) s))"
  have len: "length (remove1 c (qw_pending w)) \<le> length (qw_pending w)" by (simp add: length_remove1)
  have s: "sound_timer ?s" "live ?s" "qa_stopped ?s = qa_stopped s" if "sound_timer s"
    using that schedule_sound schedule_live linked [OF link_report [of b now "''error''" "[]" "Some (ve_code err)" s]] by simp_all
  show ?thesis
    using assms(1) s len
    by (cases timed)
      (auto simp: good_step_def attended_def down_def openings_def keeps_def connect_failed_def settle_def case_prod_beta Let_def)
qed

lemma good_token:
  assumes "Asking timed \<in> set (qw_pending w)"
  shows "good_step w (snd (token_answered v k b now timed w))"
proof (cases "qq_token v k True now (qw_adapter w)")
  case (Pair r s)
  then have keep: "keeps (qw_adapter w) s" using keeps_link link_token [of v k True now "qw_adapter w"] by simp
  show ?thesis
  proof (cases r)
    case (Inl err)
    then show ?thesis using good_failure [OF keep assms] Pair by (simp add: token_answered_def)
  next
    case (Inr t)
    have "Suc (length (remove1 (Asking timed) (qw_pending w))) = length (qw_pending w)"
      using assms by (simp add: length_remove1) (metis Suc_pred length_pos_if_in_set)
    then show ?thesis
      using keep Inr Pair
      by (auto simp: token_answered_def good_step_def attended_def down_def openings_def keeps_def settle_def Let_def)
  qed
qed

lemma good_gateway:
  assumes "Holding timed x \<in> set (qw_pending w)"
  shows "good_step w (snd (gateway_answered v refuses b now timed x w))"
proof -
  let ?answer = "case gatewayUrl v x of Inl err \<Rightarrow> Some err | Inr url \<Rightarrow> refuses url"
  have len: "Suc (length (remove1 (Holding timed x) (qw_pending w))) = length (qw_pending w)"
    using assms by (simp add: length_remove1) (metis Suc_pred length_pos_if_in_set)
  show ?thesis
  proof (cases ?answer)
    case (Some err)
    have "keeps (qw_adapter w) (qw_adapter w)" by (rule keeps_link) simp
    from good_failure [OF this assms, of b now timed err] show ?thesis using Some by (simp add: gateway_answered_def)
  next
    case None
    then show ?thesis
      using len
      by (auto simp: gateway_answered_def good_step_def attended_def down_def openings_def settle_def sound_timer_def
          retrying_def live_def)
  qed
qed

lemma good_timer: "qa_timer (qw_adapter w) = Some d \<Longrightarrow> good_step w (timer_fires now w)"
  by (auto simp: good_step_def attended_def down_def timer_fires_def sound_timer_def Let_def)

lemma every_step_is_good: "qq_step k b w r \<Longrightarrow> good_step w (snd r)"
proof (induction rule: qq_step.induct)
  case (begins w now)
  then show ?case
    using keeps_report [of "qw_adapter w" b now "''pending''" "[]" None]
    by (auto simp: good_step_def attended_def down_def keeps_def acts_def)
next
  case (report_refused w)
  then show ?case by (auto simp: good_step_def attended_def down_def openings_def settle_def length_remove1)
next
  case (reported w now)
  have "Suc (length (remove1 Reporting (qw_pending w))) = length (qw_pending w)"
    using reported by (simp add: length_remove1) (metis Suc_pred length_pos_if_in_set)
  then show ?case by (auto simp: good_step_def attended_def down_def openings_def settle_def)
next
  case (delivers w v now d)
  then show ?case
    using keeps_deliver [of "qw_adapter w" v k now d]
    by (auto simp: good_step_def attended_def down_def openings_def keeps_def)
qed (simp_all add: good_token good_gateway good_timer good_acts keeps_frame keeps_closed keeps_error keeps_stop,
     simp add: good_step_def)

lemma steps_attended: "qq_steps k b w t \<Longrightarrow> attended w \<Longrightarrow> attended t"
  by (induction rule: qq_steps.induct) (use every_step_is_good in \<open>fastforce simp: good_step_def\<close>)+

lemma steps_down: "qq_steps k b w t \<Longrightarrow> down w \<Longrightarrow> down t \<and> openings t \<le> openings w"
  by (induction rule: qq_steps.induct) (use every_step_is_good in \<open>fastforce simp: good_step_def\<close>)+

lemma new_attended: "new_qq_adapter k = Inr s \<Longrightarrow> attended (new_qq_world s)"
  by (auto simp: new_qq_adapter_def attended_def new_qq_world_def sound_timer_def split: if_splits)

text \<open>
  C37. A running adapter is never stranded: however frames, closed sockets, refused tokens, refused gateways, timers
  and deliveries follow each other, an adapter that was started and neither stopped nor refused at its start has a
  socket, or is making a connection, or has a timer that connects again after at least one second and at most one
  minute.
\<close>

theorem a_running_adapter_is_never_stranded:
  assumes "new_qq_adapter k = Inr s" and "qq_steps k b (new_qq_world s) w" and "qw_begun w" and "\<not> qw_failed w"
    and "\<not> qa_stopped (qw_adapter w)" and "qa_socket (qw_adapter w) = None" and "qw_pending w = []"
  shows "\<exists>d. qa_timer (qw_adapter w) = Some d \<and> 1000 \<le> d \<and> d \<le> 60000"
  using steps_attended [OF assms(2) new_attended [OF assms(1)]] assms(3-7)
  by (auto simp: attended_def live_def sound_timer_def retrying_def)

text \<open>
  A stopped adapter does not come back: whatever happens after it was stopped, it has no timer, it stays
  stopped, and it opens at most one socket for each connection that was being made when it was stopped.
\<close>

theorem a_stopped_adapter_does_not_come_back:
  assumes "new_qq_adapter k = Inr s" and "qq_steps k b (new_qq_world s) w" and "qw_begun w" and "qa_stopped (qw_adapter w)"
    and "qq_steps k b w t"
  shows "qa_stopped (qw_adapter t) \<and> qa_timer (qw_adapter t) = None \<and>
    length (qw_sockets t) \<le> length (qw_sockets w) + length (qw_pending w)"
proof -
  have "down w" using steps_attended [OF assms(2) new_attended [OF assms(1)]] assms(3,4) by (simp add: down_def attended_def)
  from steps_down [OF assms(5) this] show ?thesis by (auto simp: down_def sound_timer_def openings_def)
qed

section \<open>An adapter at work\<close>

definition qq_keys :: qq_credentials where
  "qq_keys = \<lparr>qk_appId = ''a'', qk_clientSecret = None, qk_appSecret = Some ''s'', qk_token = None\<rparr>"

definition qq_vendor :: vendor_runtime where
  "qq_vendor = plain_vendor\<lparr>vn_fetch := (\<lambda>_. Inr \<lparr>ha_ok = True, ha_status = 200, ha_retryAfter = None, ha_text = ''x''\<rparr>),
     vn_parse := (\<lambda>_. Some (JObj [(''access_token'', JStr ''t''), (''url'', JStr ''u''), (''op'', JNum (Integer 7))])),
     vn_show := (\<lambda>_. ''t'')\<rparr>"

definition qq_start :: qq_adapter where
  "qq_start = \<lparr>vs_sequence = 0, vs_token = None, vs_tokenExpiresAt = 0, qa_socket = None, qa_sessionId = JNull,
     qa_lastSequence = None, qa_heartbeat = None, qa_timer = None, qa_handle = False, qa_attempt = 0, qa_stopped = False\<rparr>"

definition idle_world :: "pending_connect list \<Rightarrow> qq_world" where
  "idle_world c = \<lparr>qw_adapter = qq_start\<lparr>vs_sequence := 1\<rparr>, qw_begun = True, qw_failed = False, qw_pending = c, qw_sockets = []\<rparr>"

definition holder :: qq_adapter where
  "holder = qq_start\<lparr>vs_sequence := 1, vs_token := Some ''t'', vs_tokenExpiresAt := 7080000\<rparr>"

definition holding_world :: qq_world where
  "holding_world = (idle_world [Holding False ''t''])\<lparr>qw_adapter := holder\<rparr>"

definition open_world :: qq_world where
  "open_world = holding_world\<lparr>qw_adapter := holder\<lparr>qa_socket := Some 0\<rparr>, qw_pending := [], qw_sockets := [''t'']\<rparr>"

definition lost_world :: qq_world where
  "lost_world = snd (acts open_world (socket_closed vendor_binding 0 0 (qw_adapter open_world)))"

definition stopped_world :: qq_world where
  "stopped_world = snd (acts holding_world (stop_qq vendor_binding 0 (qw_adapter holding_world)))"

definition stray_world :: qq_world where
  "stray_world = stopped_world\<lparr>qw_adapter := (qw_adapter stopped_world)\<lparr>qa_socket := Some 0\<rparr>, qw_pending := [], qw_sockets := [''t'']\<rparr>"

lemma qq_begins: "new_qq_adapter qq_keys = Inr qq_start"
  by (simp add: new_qq_adapter_def qq_keys_def qq_start_def client_secret_def or_opt_def)

lemma vendor_data:
  "answer_data qq_vendor \<lparr>ha_ok = True, ha_status = 200, ha_retryAfter = None, ha_text = ''x''\<rparr> =
   Inr (JObj [(''access_token'', JStr ''t''), (''url'', JStr ''u''), (''op'', JNum (Integer 7))])"
  by (simp add: answer_data_def jsonResponse_def qq_vendor_def plain_vendor_def)

lemma vendor_token:
  "qq_token qq_vendor qq_keys True 0 s = (Inr ''t'', s\<lparr>vs_token := Some ''t'', vs_tokenExpiresAt := 7080000\<rparr>)"
proof -
  have "vn_fetch qq_vendor q = Inr \<lparr>ha_ok = True, ha_status = 200, ha_retryAfter = None, ha_text = ''x''\<rparr>"
    "vn_show qq_vendor j = ''t''" "vn_number qq_vendor j = None" for q j
    by (simp_all add: qq_vendor_def plain_vendor_def)
  then show ?thesis
    by (simp add: qq_token_def token_from_def ask_def vendor_data qq_auth_def at_def prop_of_def truthy_def token_expiry_def num_or_def)
qed

lemma vendor_gateway: "gatewayUrl qq_vendor x = Inr ''t''"
proof -
  have "vn_fetch qq_vendor q = Inr \<lparr>ha_ok = True, ha_status = 200, ha_retryAfter = None, ha_text = ''x''\<rparr>"
    "vn_show qq_vendor j = ''t''" for q j
    by (simp_all add: qq_vendor_def plain_vendor_def)
  then show ?thesis by (simp add: gatewayUrl_def vendor_data at_def prop_of_def truthy_def)
qed

lemma step_to: "qq_steps k b w u \<Longrightarrow> qq_step k b u r \<Longrightarrow> snd r = t \<Longrightarrow> qq_steps k b w t"
  by (cases r) (auto intro: qq_steps.more)

lemma holding_reached: "qq_steps qq_keys vendor_binding (new_qq_world qq_start) holding_world"
proof -
  let ?k = qq_keys and ?b = vendor_binding and ?w = "new_qq_world qq_start"
  have "\<not> qw_begun ?w" by (simp add: new_qq_world_def)
  from qq_step.begins [OF this, of ?k ?b 0] have "qq_steps ?k ?b ?w (idle_world [Reporting])"
    by (rule step_to [OF qq_steps.none])
      (simp add: acts_def qq_report_def idle_world_def new_qq_world_def qq_start_def Let_def)
  moreover have "qq_step ?k ?b (idle_world [Reporting]) ([], idle_world [Asking False])"
    using qq_step.reported [of "idle_world [Reporting]" ?k ?b 0]
    by (simp add: idle_world_def settle_def begin_connect_def fresh_token_def qq_start_def)
  ultimately have "qq_steps ?k ?b ?w (idle_world [Asking False])" by (rule qq_steps.more)
  moreover have "qq_step ?k ?b (idle_world [Asking False]) (token_answered qq_vendor ?k ?b 0 False (idle_world [Asking False]))"
    by (rule qq_step.token) (simp add: idle_world_def)
  ultimately show ?thesis
    by (rule step_to) (simp add: token_answered_def vendor_token holding_world_def idle_world_def holder_def settle_def Let_def)
qed

text \<open>The gateway answers a call that holds a token.\<close>

lemma opens:
  assumes "qw_pending w = [Holding False ''t'']" and "qw_sockets w = []"
  shows "qq_step qq_keys vendor_binding w
    ([], w\<lparr>qw_adapter := (qw_adapter w)\<lparr>qa_socket := Some 0\<rparr>, qw_pending := [], qw_sockets := [''t'']\<rparr>)"
proof -
  have "qq_step qq_keys vendor_binding w (gateway_answered qq_vendor (\<lambda>_. None) vendor_binding 0 False ''t'' w)"
    by (rule qq_step.gateway) (simp add: assms(1))
  then show ?thesis using assms by (cases w) (simp add: gateway_answered_def vendor_gateway settle_def Let_def)
qed

lemma lost_reached: "qq_steps qq_keys vendor_binding (new_qq_world qq_start) lost_world"
proof -
  have "qw_pending holding_world = [Holding False ''t'']" "qw_sockets holding_world = []" "qw_adapter holding_world = holder"
    by (simp_all add: holding_world_def idle_world_def)
  then have "qq_step qq_keys vendor_binding holding_world ([], open_world)"
    using opens [of holding_world] by (simp add: open_world_def)
  with holding_reached have "qq_steps qq_keys vendor_binding (new_qq_world qq_start) open_world" by (rule qq_steps.more)
  moreover have "0 < length (qw_sockets open_world)" by (simp add: open_world_def)
  ultimately show ?thesis unfolding lost_world_def by (rule step_to [OF _ qq_step.closed refl])
qed

lemma lost_state:
  "qw_begun lost_world" "\<not> qw_failed lost_world" "\<not> qa_stopped (qw_adapter lost_world)" "qa_socket (qw_adapter lost_world) = None"
  "qw_pending lost_world = []"
  by (simp_all add: lost_world_def acts_def open_world_def holding_world_def idle_world_def holder_def qq_start_def
      socket_closed_def lose_connection_def clearConnection_def qq_report_def scheduleReconnect_def Let_def)

lemma stopped_state:
  "qw_begun stopped_world" "qa_stopped (qw_adapter stopped_world)" "qw_sockets stopped_world = []"
  "qw_pending stopped_world = [Holding False ''t'']"
  using stop_state(1) [of vendor_binding 0 "qw_adapter holding_world"]
  by (simp_all add: stopped_world_def acts_def holding_world_def idle_world_def)

theorem a_running_adapter_is_never_stranded_witness:
  "\<exists>d. qa_timer (qw_adapter lost_world) = Some d \<and> 1000 \<le> d \<and> d \<le> 60000"
  by (rule a_running_adapter_is_never_stranded [OF qq_begins lost_reached lost_state])

lemma stopped_reached: "qq_steps qq_keys vendor_binding (new_qq_world qq_start) stopped_world"
  unfolding stopped_world_def by (rule step_to [OF holding_reached qq_step.stops refl])

lemma stray_reached: "qq_steps qq_keys vendor_binding stopped_world stray_world"
  using qq_steps.more [OF qq_steps.none opens [OF stopped_state(4,3)]] by (simp add: stray_world_def)

theorem a_stopped_adapter_does_not_come_back_witness:
  "qa_stopped (qw_adapter stray_world) \<and> length (qw_sockets stray_world) \<le> 1"
  using a_stopped_adapter_does_not_come_back [OF qq_begins stopped_reached stopped_state(1,2) stray_reached] stopped_state(3,4)
  by simp

text \<open>
  A connection that is being made when the adapter is stopped is still opened: afterwards the stopped adapter has a
  socket, which it does not let go of when the other side closes it.
\<close>

lemma stopping_does_not_end_a_connect:
  "qa_stopped (qw_adapter stopped_world) \<and> qa_stopped (qw_adapter stray_world) \<and> qa_socket (qw_adapter stray_world) = Some 0 \<and>
   snd (acts stray_world (socket_closed b now 0 (qw_adapter stray_world))) = stray_world"
  using stopped_state(2) by (simp add: stray_world_def acts_def socket_closed_def)

text \<open>Frames are not tied to the current socket: a request to reconnect on an old one closes the new one.\<close>

lemma old_socket_closes_the_new_one:
  assumes "qa_socket s = Some j" and "at p ''op'' = JNum (Integer 7)" and "i \<noteq> j"
  shows "Close j \<in> set (fst (on_payload v moment k b now i token p s))"
proof -
  have "qa_socket (note_sequence p s) = Some j" using linked(5) [OF link_note [of p s]] assms(1) by simp
  then show ?thesis
    using assms(2) by (simp add: on_payload_def lose_connection_def clearConnection_def case_prod_beta Let_def)
qed

section \<open>Where an answer goes\<close>

definition event_target :: "string \<Rightarrow> string" where
  "event_target type =
     (if type = ''C2C_MESSAGE_CREATE'' then ''c2c''
      else if type \<in> {''GROUP_AT_MESSAGE_CREATE'', ''GROUP_MESSAGE_CREATE''} then ''group''
      else if type = ''DIRECT_MESSAGE_CREATE'' then ''dm'' else ''channel'')"

definition event_place :: "string \<Rightarrow> json \<Rightarrow> json" where
  "event_place type e =
     (if type = ''C2C_MESSAGE_CREATE'' then nullish_or (at (at e ''author'') ''user_openid'') (at (at e ''author'') ''id'')
      else if type \<in> {''GROUP_AT_MESSAGE_CREATE'', ''GROUP_MESSAGE_CREATE''} then at e ''group_openid''
      else if type = ''DIRECT_MESSAGE_CREATE'' then at e ''guild_id'' else at e ''channel_id'')"

lemma made_conversation:
  "made_event v m content sender t place kind = Some g \<Longrightarrow> qe_conversation g = t @ '':'' @ vn_show v place"
  by (auto simp: made_event_def split: if_splits)

lemma normalized_conversation:
  assumes "normalizeEvent v type e = Some g"
  shows "qe_conversation g = event_target type @ '':'' @ vn_show v (event_place type e)"
proof -
  consider "type = ''C2C_MESSAGE_CREATE''" | "type \<noteq> ''C2C_MESSAGE_CREATE''" "type \<in> {''GROUP_AT_MESSAGE_CREATE'', ''GROUP_MESSAGE_CREATE''}"
    | "type \<noteq> ''C2C_MESSAGE_CREATE''" "type \<notin> {''GROUP_AT_MESSAGE_CREATE'', ''GROUP_MESSAGE_CREATE''}" "type = ''DIRECT_MESSAGE_CREATE''"
    | "type \<noteq> ''C2C_MESSAGE_CREATE''" "type \<notin> {''GROUP_AT_MESSAGE_CREATE'', ''GROUP_MESSAGE_CREATE''}" "type \<noteq> ''DIRECT_MESSAGE_CREATE''"
    by blast
  then show ?thesis
    using assms unfolding normalizeEvent_def event_target_def event_place_def Let_def
    by cases (simp_all only: if_True if_False simp_thms option.distinct made_conversation split: if_splits)
qed

lemma target_types: "event_target type \<in> {''c2c'', ''group'', ''channel'', ''dm''}"
  by (simp add: event_target_def)

lemma deliveryTarget_of:
  assumes "t \<in> {''c2c'', ''group'', ''channel'', ''dm''}" and "i \<noteq> []" and "LF \<notin> set i" and "CHR 13 \<notin> set i"
  shows "deliveryTarget (t @ '':'' @ i) = Inr (t, i)"
  using assms(1)
  by (elim insertE emptyE) (use assms(2-4) in \<open>simp_all add: deliveryTarget_def target_at_def expect_def or_opt_def\<close>)

text \<open>
  An answer goes where the message came from: when the conversation of a received message has the platform's
  form, the delivery to it addresses the user, group, channel or guild of the vendor's event, by the kind that the
  event's type says.
\<close>

theorem answers_go_where_the_message_came_from:
  assumes "normalizeEvent v type e = Some g" and "matches IDENTIFIER (qe_conversation g)" and "vn_show v (event_place type e) \<noteq> []"
  shows "deliveryTarget (vg_conversation (qq_ingress v moment k b now e g)) =
    Inr (event_target type, vn_show v (event_place type e))"
proof -
  let ?i = "vn_show v (event_place type e)"
  have c: "qe_conversation g = event_target type @ '':'' @ ?i" by (rule normalized_conversation [OF assms(1)])
  have "\<not> is_alnum LF \<and> \<not> one_of ''._:/-'' LF \<and> \<not> is_alnum CHR 13 \<and> \<not> one_of ''._:/-'' CHR 13" by code_simp
  moreover have "set ?i \<subseteq> set (tl (qe_conversation g))" unfolding c using target_types [of type] by auto
  ultimately have "LF \<notin> set ?i" "CHR 13 \<notin> set ?i" using assms(2) unfolding matches_IDENTIFIER by blast+
  from deliveryTarget_of [OF target_types assms(3) this] have "deliveryTarget (qe_conversation g) = Inr (event_target type, ?i)"
    unfolding c .
  then show ?thesis using stable_kept [OF assms(2)] by (simp add: qq_ingress_def Let_def)
qed

text \<open>A private message.\<close>

definition spoken_vendor :: vendor_runtime where
  "spoken_vendor = plain_vendor\<lparr>vn_show := (\<lambda>j. case j of JStr s \<Rightarrow> s | _ \<Rightarrow> [])\<rparr>"

definition private_event :: json where
  "private_event = JObj [(''id'', JStr ''m1''), (''content'', JStr ''<@!7>hi''), (''author'', JObj [(''user_openid'', JStr ''u'')])]"

definition private_message :: qq_event where
  "private_message = \<lparr>qe_sender = ''u'', qe_conversation = ''c2c:u'', qe_kind = ''direct'', qe_messageId = ''m1'', qe_content = ''hi''\<rparr>"

lemma private_normalized: "normalizeEvent spoken_vendor ''C2C_MESSAGE_CREATE'' private_event = Some private_message"
  by code_simp

theorem answers_go_where_the_message_came_from_witness:
  "deliveryTarget (vg_conversation (qq_ingress spoken_vendor (\<lambda>_. None) qq_keys vendor_binding 0 private_event private_message)) =
    Inr (''c2c'', ''u'')"
proof -
  have place: "vn_show spoken_vendor (event_place ''C2C_MESSAGE_CREATE'' private_event) = ''u''"
    "event_target ''C2C_MESSAGE_CREATE'' = ''c2c''"
    by code_simp+
  have "matches IDENTIFIER (qe_conversation private_message)" by code_simp
  from answers_go_where_the_message_came_from [OF private_normalized this] show ?thesis by (simp add: place)
qed

text \<open>Any other conversation is replaced by a hash, and no message can be delivered to it.\<close>

lemma hashed_conversation_is_no_target:
  assumes "\<not> matches IDENTIFIER (qe_conversation g)"
  shows "deliveryTarget (vg_conversation (qq_ingress v moment k b now e g)) = Inl invalid_target"
  using assms by (simp add: qq_ingress_def Let_def stableIdentifier_def deliveryTarget_def target_at_def expect_def or_opt_def)

end
