(* ===== verification/Feishu_Adapter.thy ===== *)
theory Feishu_Adapter
  imports Vendor_Api
begin

text \<open>
  The adapter of Feishu and Lark, \<open>packages/channels/adapters/feishu.mjs\<close>: the domain of the API, the messages it
  receives, its token, its start on the vendor's SDK, the signals of the SDK's client, and the delivery. The SDK, the
  URL parser and JSON are parameters.
\<close>

section \<open>Domain and messages\<close>

record url_parts =
  up_protocol :: string
  up_username :: string
  up_password :: string
  up_search :: string
  up_hash :: string
  up_origin :: string

text \<open>
  The table of domains is a plain object, so the names that every object inherits are found in it as well, with
  values that are not strings. An address that cannot be parsed throws.
\<close>

definition feishu_domain :: "(string \<Rightarrow> url_parts option) \<Rightarrow> string option \<Rightarrow> vendor_error + json" where
  "feishu_domain parse value =
     (case value of
        None \<Rightarrow> Inr (JStr ''https://open.feishu.cn'')
      | Some s \<Rightarrow>
          if s = [] \<or> s = ''feishu'' then Inr (JStr ''https://open.feishu.cn'')
          else if s = ''lark'' then Inr (JStr ''https://open.larksuite.com'')
          else if s \<in> set OBJECT_PROTOTYPE_KEYS then Inr JOther
          else (case parse s of
                  None \<Rightarrow> Inl \<lparr>ve_code = Some ''ERR_INVALID_URL'', ve_status = None, ve_retryable = None\<rparr>
                | Some u \<Rightarrow>
                    if up_protocol u \<noteq> ''https:'' \<or> up_username u \<noteq> [] \<or> up_password u \<noteq> [] \<or> up_search u \<noteq> [] \<or> up_hash u \<noteq> []
                    then Inl \<lparr>ve_code = Some ''invalid_feishu_domain'', ve_status = None, ve_retryable = None\<rparr>
                    else Inr (JStr (up_origin u))))"

definition text_or :: "vendor_runtime \<Rightarrow> string \<Rightarrow> json \<Rightarrow> string" where
  "text_or v fallback x = (if x \<in> {JNull, JUndefined} then fallback else vn_show v x)"

definition feishu_text :: "vendor_runtime \<Rightarrow> json \<Rightarrow> string" where
  "feishu_text v message =
     (if truthy (at message ''message_type'') \<and> at message ''message_type'' \<noteq> JStr ''text'' then []
      else (case vn_parse v (text_or v ''{}'' (at message ''content'')) of
              None \<Rightarrow> [] | Some content \<Rightarrow> trim (text_or v [] (at content ''text''))))"

section \<open>The adapter\<close>

record feishu_credentials =
  fk_appId :: string
  fk_appSecret :: string
  fk_domain :: "string option"

record feishu_adapter = vendor_session +
  fa_domain :: json
  fa_client :: bool
  fa_stopped :: bool

definition new_feishu_adapter :: "(string \<Rightarrow> url_parts option) \<Rightarrow> feishu_credentials \<Rightarrow> vendor_error + feishu_adapter" where
  "new_feishu_adapter parse k =
     (case feishu_domain parse (fk_domain k) of
        Inl err \<Rightarrow> Inl err
      | Inr d \<Rightarrow>
          if fk_appId k = [] \<or> fk_appSecret k = []
          then Inl \<lparr>ve_code = Some ''invalid_feishu_credentials'', ve_status = None, ve_retryable = None\<rparr>
          else Inr \<lparr>vs_sequence = 0, vs_token = None, vs_tokenExpiresAt = 0, fa_domain = d, fa_client = False, fa_stopped = False\<rparr>)"

definition feishu_report ::
  "adapter_binding \<Rightarrow> instant \<Rightarrow> string \<Rightarrow> string list \<Rightarrow> string option option \<Rightarrow> feishu_adapter \<Rightarrow> health_report \<times> feishu_adapter" where
  "feishu_report b now status capabilities err s =
     (let s' = s\<lparr>vs_sequence := vs_sequence s + 1\<rparr>
      in (report_with ''feishu'' ''bairui-feishu/1.0.0'' ''feishu_connection_failed'' b now (vs_sequence s') status capabilities err, s'))"

section \<open>Token and delivery\<close>

definition feishu_auth :: "vendor_runtime \<Rightarrow> http_answer \<Rightarrow> json \<Rightarrow> vendor_error + string \<times> int option" where
  "feishu_auth v r d =
     (if \<not> ha_ok r \<or> at d ''code'' \<noteq> JNum (Integer 0) \<or> \<not> truthy (at d ''tenant_access_token'')
      then Inl (auth_error (''feishu_auth_'' @ code_or_status v (at d ''code'') r) r)
      else Inr (vn_show v (at d ''tenant_access_token''), vn_number v (at d ''expire'')))"

definition feishu_token_request :: "vendor_runtime \<Rightarrow> feishu_credentials \<Rightarrow> feishu_adapter \<Rightarrow> vendor_request" where
  "feishu_token_request v k s =
     \<lparr>rq_url = vn_show v (fa_domain s) @ ''/open-apis/auth/v3/tenant_access_token/internal'', rq_auth = None,
      rq_body = Some (JObj [(''app_id'', JStr (fk_appId k)), (''app_secret'', JStr (fk_appSecret k))])\<rparr>"

definition feishu_token ::
  "vendor_runtime \<Rightarrow> feishu_credentials \<Rightarrow> instant \<Rightarrow> feishu_adapter \<Rightarrow> (vendor_error + string) \<times> feishu_adapter" where
  "feishu_token v k now s = token_from v (feishu_auth v) (feishu_token_request v k s) False now s"

definition feishu_send :: "vendor_runtime \<Rightarrow> json \<Rightarrow> string \<Rightarrow> vendor_delivery \<Rightarrow> vendor_request" where
  "feishu_send v origin token d =
     \<lparr>rq_url = vn_show v origin @ ''/open-apis/im/v1/messages?receive_id_type=chat_id'', rq_auth = Some (''Bearer '' @ token),
      rq_body = Some (JObj [(''receive_id'', JStr (vd_conversation d)), (''msg_type'', JStr ''text''),
        (''content'', JStr (vn_text v (JObj [(''text'', JStr (vd_text d))]))), (''uuid'', JStr (vd_outbound d))])\<rparr>"

definition sent_id :: "vendor_runtime \<Rightarrow> json \<Rightarrow> string option" where
  "sent_id v a =
     (case at (at a ''data'') ''message_id'' of
        JStr s \<Rightarrow> Some s | JNull \<Rightarrow> text_of (Some (at a ''message_id'')) | JUndefined \<Rightarrow> text_of (Some (at a ''message_id''))
      | x \<Rightarrow> Some (vn_show v x))"

definition feishu_deliver ::
  "vendor_runtime \<Rightarrow> feishu_credentials \<Rightarrow> instant \<Rightarrow> vendor_delivery \<Rightarrow> feishu_adapter \<Rightarrow>
     (vendor_error + delivery_result) \<times> feishu_adapter" where
  "feishu_deliver v k now d s =
     (case feishu_token v k now s of
        (Inl err, s') \<Rightarrow> (Inl err, s')
      | (Inr token, s') \<Rightarrow>
          (case ask v (feishu_send v (fa_domain s) token d) of
             Inl err \<Rightarrow> (Inl err, s')
           | Inr (r, a) \<Rightarrow>
               (Inr (sent_result v now (ha_ok r \<and> at a ''code'' = JNum (Integer 0)) (sent_id v a)
                  (worth_repeating r \<or> at a ''code'' \<in> {JNum (Integer 99991663), JNum (Integer 99991400)})
                  (''feishu_send_'' @ code_or_status v (at a ''code'') r) r), s')))"

section \<open>Messages\<close>

text \<open>\<open>event?.sender?.sender_id\<close>; a property of \<open>undefined\<close> or \<open>null\<close> is \<open>undefined\<close>.\<close>

definition sender_ids :: "json \<Rightarrow> json" where
  "sender_ids e = at (at e ''sender'') ''sender_id''"

definition sender_of :: "json \<Rightarrow> json" where
  "sender_of e =
     (if at (sender_ids e) ''open_id'' \<in> {JNull, JUndefined} then at (sender_ids e) ''user_id'' else at (sender_ids e) ''open_id'')"

definition feishu_ingress :: "vendor_runtime \<Rightarrow> feishu_credentials \<Rightarrow> adapter_binding \<Rightarrow> instant \<Rightarrow> json \<Rightarrow> string \<Rightarrow> vendor_message" where
  "feishu_ingress v k b now e body =
     (let h = vn_sha256 v; m = at e ''message''; i = vn_show v (at m ''message_id'')
      in \<lparr>vg_scope = ab_scope b, vg_ingress = stableIdentifier h ''feishu-ingress'' (''feishu:'' @ ab_id b @ '':'' @ i),
          vg_binding = ab_id b, vg_channel = ''feishu'', vg_account = stableIdentifier h ''feishu-account'' (fk_appId k),
          vg_message = stableIdentifier h ''feishu-message'' i, vg_sender = stableIdentifier h ''feishu-user'' (vn_show v (sender_of e)),
          vg_identity = (if truthy (at (sender_ids e) ''union_id'')
                         then Some (stableIdentifier h ''feishu-union'' (vn_show v (at (sender_ids e) ''union_id''))) else None),
          vg_conversation = stableIdentifier h ''feishu-chat'' (vn_show v (at m ''chat_id'')),
          vg_kind = (if at m ''chat_type'' = JStr ''p2p'' then ''direct'' else ''group''), vg_text = body, vg_receivedAt = now,
          vg_trace = stableIdentifier h ''feishu-trace'' i\<rparr>)"

definition feishu_inbound ::
  "vendor_runtime \<Rightarrow> feishu_credentials \<Rightarrow> adapter_binding \<Rightarrow> instant \<Rightarrow> json \<Rightarrow> vendor_message option" where
  "feishu_inbound v k b now e =
     (let m = at e ''message''; body = feishu_text v m
      in if \<not> truthy (at m ''message_id'') \<or> \<not> truthy (sender_of e) \<or> \<not> truthy (at m ''chat_id'') \<or> body = [] then None
         else Some (feishu_ingress v k b now e body))"

section \<open>Start, signals and stop\<close>

definition start_feishu ::
  "vendor_runtime \<Rightarrow> platform_side \<Rightarrow> vendor_error + bool \<Rightarrow> feishu_credentials \<Rightarrow> adapter_binding \<Rightarrow> instant \<Rightarrow> feishu_adapter \<Rightarrow>
     health_report \<times> vendor_error option \<times> feishu_adapter" where
  "start_feishu v p sdk k b now s =
     (let (r, s1) = feishu_report b now ''pending'' [] None s
      in case pl_health p r of
           Some err \<Rightarrow> (r, Some err, s1)
         | None \<Rightarrow>
             (case feishu_token v k now s1 of
                (Inl err, s2) \<Rightarrow> (r, Some err, s2)
              | (Inr _, s2) \<Rightarrow>
                  (case sdk of
                     Inl err \<Rightarrow> (r, Some err, s2)
                   | Inr usable \<Rightarrow>
                       if usable then (r, None, s2\<lparr>fa_client := True\<rparr>)
                       else (r, Some \<lparr>ve_code = Some ''feishu_sdk_unavailable'', ve_status = None, ve_retryable = None\<rparr>, s2))))"

datatype feishu_signal = Ready | Error_Signal "string option option" | Reconnecting | Reconnected

definition feishu_signalled :: "adapter_binding \<Rightarrow> instant \<Rightarrow> feishu_signal \<Rightarrow> feishu_adapter \<Rightarrow> health_report \<times> feishu_adapter" where
  "feishu_signalled b now g =
     (case g of
        Error_Signal err \<Rightarrow> feishu_report b now ''error'' [] err
      | Reconnecting \<Rightarrow> feishu_report b now ''degraded'' [''send''] (Some (Some ''feishu_reconnecting''))
      | _ \<Rightarrow> feishu_report b now ''connected'' [''receive'', ''send'', ''reply'', ''websocket''] None)"

definition stop_feishu :: "adapter_binding \<Rightarrow> instant \<Rightarrow> feishu_adapter \<Rightarrow> health_report \<times> feishu_adapter" where
  "stop_feishu b now s = feishu_report b now ''disconnected'' [] None (s\<lparr>fa_stopped := True, fa_client := False\<rparr>)"

end
