(* ===== verification/Effects.thy ===== *)
theory Effects
  imports Js_Text
begin

text \<open>
  Operations with effects, for the code whose state is threaded through many calls: a function of the state that
  gives a value or an error, and the next state. \<open>preserves\<close> is the partial correctness rule the proofs about such code
  need most: an operation leaves an observation of the state as it was.
\<close>

type_synonym ('s, 'e, 'a) effect = "'s \<Rightarrow> ('e + 'a) \<times> 's"

definition returns :: "'a \<Rightarrow> ('s, 'e, 'a) effect" where
  "returns x s = (Inr x, s)"

definition throws :: "'e \<Rightarrow> ('s, 'e, 'a) effect" where
  "throws err s = (Inl err, s)"

definition and_then :: "('s, 'e, 'a) effect \<Rightarrow> ('a \<Rightarrow> ('s, 'e, 'b) effect) \<Rightarrow> ('s, 'e, 'b) effect" where
  "and_then m f s = (case m s of (Inl err, s') \<Rightarrow> (Inl err, s') | (Inr x, s') \<Rightarrow> f x s')"

definition or_catch :: "('s, 'e, 'a) effect \<Rightarrow> ('e \<Rightarrow> ('s, 'e, 'a) effect) \<Rightarrow> ('s, 'e, 'a) effect" where
  "or_catch m h s = (case m s of (Inl err, s') \<Rightarrow> h err s' | (Inr x, s') \<Rightarrow> (Inr x, s'))"

text \<open>\<open>try { m } finally { f }\<close>: an error of the last block replaces the result.\<close>

definition and_finally :: "('s, 'e, 'a) effect \<Rightarrow> ('s, 'e, unit) effect \<Rightarrow> ('s, 'e, 'a) effect" where
  "and_finally m f s = (case m s of (r, s') \<Rightarrow> (case f s' of (Inl err, u) \<Rightarrow> (Inl err, u) | (Inr _, u) \<Rightarrow> (r, u)))"

text \<open>\<open>for (const x of xs) f(x)\<close>, and the list of the values of \<open>f\<close>.\<close>

primrec each :: "('a \<Rightarrow> ('s, 'e, unit) effect) \<Rightarrow> 'a list \<Rightarrow> ('s, 'e, unit) effect" where
  "each f [] = returns ()"
| "each f (x # xs) = and_then (f x) (\<lambda>_. each f xs)"

primrec gather :: "('a \<Rightarrow> ('s, 'e, 'b) effect) \<Rightarrow> 'a list \<Rightarrow> ('s, 'e, 'b list) effect" where
  "gather f [] = returns []"
| "gather f (x # xs) = and_then (f x) (\<lambda>y. and_then (gather f xs) (\<lambda>ys. returns (y # ys)))"

definition lifts :: "'e + 'a \<Rightarrow> ('s, 'e, 'a) effect" where
  "lifts r s = (r, s)"

definition checks :: "'e option \<Rightarrow> ('s, 'e, unit) effect" where
  "checks c = (case c of None \<Rightarrow> returns () | Some err \<Rightarrow> throws err)"

section \<open>Running to a result\<close>

lemma and_then_Inr: "and_then m f s = (Inr y, u) \<longleftrightarrow> (\<exists>x t. m s = (Inr x, t) \<and> f x t = (Inr y, u))"
  by (auto simp: and_then_def split: prod.splits sum.splits)

lemma and_then_ok: "m s = (Inr x, t) \<Longrightarrow> and_then m f s = f x t"
  by (simp add: and_then_def)

lemma and_then_error: "m s = (Inl err, t) \<Longrightarrow> and_then m f s = (Inl err, t)"
  by (simp add: and_then_def)

lemma returns_Inr: "returns x s = (Inr y, t) \<longleftrightarrow> y = x \<and> t = s"
  by (auto simp: returns_def)

lemma throws_Inr: "throws err s \<noteq> (Inr y, t)"
  by (simp add: throws_def)

lemma lifts_Inr: "lifts r s = (Inr y, t) \<longleftrightarrow> r = Inr y \<and> t = s"
  by (auto simp: lifts_def)

lemma checks_Inr: "checks c s = (Inr y, t) \<longleftrightarrow> c = None \<and> t = s"
  by (cases c) (auto simp: checks_def returns_def throws_def)

lemmas runs_to = and_then_Inr returns_Inr throws_Inr lifts_Inr checks_Inr

lemma lifts_then [simp]: "and_then (lifts (Inr x)) f = f x" "and_then (returns x) f = f x" "and_then (checks None) g = g ()"
  by (simp_all add: fun_eq_iff and_then_def lifts_def returns_def checks_def)

text \<open>An error of a sequence is an error of its first or of its second part.\<close>

lemma and_then_Inl:
  "and_then m f s = (Inl err, u) \<longleftrightarrow> m s = (Inl err, u) \<or> (\<exists>x t. m s = (Inr x, t) \<and> f x t = (Inl err, u))"
  by (auto simp: and_then_def split: prod.splits sum.splits)

section \<open>What an operation leaves as it was\<close>

named_theorems preservation \<open>rules for \<open>preserves\<close>\<close>

definition preserves :: "('s \<Rightarrow> 'o) \<Rightarrow> ('s, 'e, 'a) effect \<Rightarrow> bool" where
  "preserves obs m \<longleftrightarrow> (\<forall>s. obs (snd (m s)) = obs s)"

lemma preservesD: "preserves obs m \<Longrightarrow> m s = (r, t) \<Longrightarrow> obs t = obs s"
  unfolding preserves_def by (metis snd_conv)

lemma preserves_pure [preservation]:
  "preserves obs (returns x)" "preserves obs (throws err)" "preserves obs (lifts r)" "preserves obs (checks c)"
  by (auto simp: preserves_def returns_def throws_def lifts_def checks_def split: option.split)

lemma preserves_then [preservation]:
  assumes "preserves obs m" and "\<And>x. preserves obs (f x)"
  shows "preserves obs (and_then m f)"
  unfolding preserves_def
proof
  fix s
  obtain r t where m: "m s = (r, t)" by force
  show "obs (snd (and_then m f s)) = obs s"
    using preservesD [OF assms(1) m] preservesD [OF assms(2)]
    by (cases r) (simp_all add: and_then_def m, metis prod.collapse)
qed

lemma preserves_catch [preservation]:
  assumes "preserves obs m" and "\<And>err. preserves obs (h err)"
  shows "preserves obs (or_catch m h)"
  unfolding preserves_def
proof
  fix s
  obtain r t where m: "m s = (r, t)" by force
  show "obs (snd (or_catch m h s)) = obs s"
    using preservesD [OF assms(1) m] preservesD [OF assms(2)]
    by (cases r) (simp_all add: or_catch_def m, metis prod.collapse)
qed

lemma preserves_finally [preservation]:
  assumes "preserves obs m" and "preserves obs f"
  shows "preserves obs (and_finally m f)"
  using assms by (auto simp: preserves_def and_finally_def split: prod.split sum.split) (metis snd_conv)+

lemma preserves_each [preservation]: "(\<And>x. preserves obs (f x)) \<Longrightarrow> preserves obs (each f xs)"
  by (induction xs) (auto intro: preservation)

lemma preserves_gather [preservation]: "(\<And>x. preserves obs (f x)) \<Longrightarrow> preserves obs (gather f xs)"
  by (induction xs) (auto intro!: preservation)

lemma preserves_if [preservation]: "(c \<Longrightarrow> preserves obs m) \<Longrightarrow> (\<not> c \<Longrightarrow> preserves obs n) \<Longrightarrow> preserves obs (if c then m else n)"
  by simp

lemma preserves_option [preservation]:
  "preserves obs m \<Longrightarrow> (\<And>x. preserves obs (f x)) \<Longrightarrow> preserves obs (case o' of None \<Rightarrow> m | Some x \<Rightarrow> f x)"
  by (simp split: option.split)

section \<open>Triples\<close>

text \<open>
  \<open>runs P m Q E\<close>: from a state with \<open>P\<close>, \<open>m\<close> ends with a value and a state in \<open>Q\<close> or with an error and a state
  in \<open>E\<close>.
\<close>

definition runs :: "('s \<Rightarrow> bool) \<Rightarrow> ('s, 'e, 'a) effect \<Rightarrow> ('a \<Rightarrow> 's \<Rightarrow> bool) \<Rightarrow> ('s \<Rightarrow> bool) \<Rightarrow> bool" where
  "runs P m Q E \<longleftrightarrow> (\<forall>s. P s \<longrightarrow> (case m s of (Inl _, t) \<Rightarrow> E t | (Inr x, t) \<Rightarrow> Q x t))"

lemma runsI: "(\<And>s x t. P s \<Longrightarrow> m s = (Inr x, t) \<Longrightarrow> Q x t) \<Longrightarrow> (\<And>s err t. P s \<Longrightarrow> m s = (Inl err, t) \<Longrightarrow> E t) \<Longrightarrow> runs P m Q E"
  by (auto simp: runs_def split: prod.split sum.split)

lemma runsD: "runs P m Q E \<Longrightarrow> P s \<Longrightarrow> m s = (Inr x, t) \<Longrightarrow> Q x t"
  by (auto simp: runs_def)

lemma runsD_error: "runs P m Q E \<Longrightarrow> P s \<Longrightarrow> m s = (Inl err, t) \<Longrightarrow> E t"
  by (auto simp: runs_def)

lemma runs_case: "runs P m Q E \<Longrightarrow> P s \<Longrightarrow> m s = (r, t) \<Longrightarrow> case r of Inl _ \<Rightarrow> E t | Inr x \<Rightarrow> Q x t"
  by (auto simp: runs_def split: sum.split)

lemma runs_then: "runs P m R E \<Longrightarrow> (\<And>x. runs (R x) (f x) Q E) \<Longrightarrow> runs P (and_then m f) Q E"
  by (rule runsI) (auto simp: and_then_Inr and_then_Inl dest: runsD runsD_error)

lemma or_catch_ends:
  "or_catch m h s = (r, u) \<longleftrightarrow> (\<exists>x. m s = (Inr x, u) \<and> r = Inr x) \<or> (\<exists>err t. m s = (Inl err, t) \<and> h err t = (r, u))"
  by (cases "m s"; cases "fst (m s)") (auto simp: or_catch_def)

lemma and_finally_ends:
  "and_finally m f s = (r, u) \<longleftrightarrow>
    (\<exists>q t. m s = (q, t) \<and> ((f t = (Inr (), u) \<and> r = q) \<or> (\<exists>err. f t = (Inl err, u) \<and> r = Inl err)))"
proof -
  obtain q t where m: "m s = (q, t)" by force
  obtain p v where "f t = (p, v)" by force
  then show ?thesis by (cases p) (auto simp: and_finally_def m)
qed

lemma runs_catch: "runs P m Q R \<Longrightarrow> (\<And>err. runs R (h err) Q E) \<Longrightarrow> runs P (or_catch m h) Q E"
  by (rule runsI) (auto simp: or_catch_ends dest: runsD runsD_error)

lemma runs_finally:
  assumes "runs P m Q E" and "\<And>x. runs (Q x) f (\<lambda>_. Q' x) E'" and "runs E f (\<lambda>_. E') E'"
  shows "runs P (and_finally m f) Q' E'"
proof (rule runsI)
  fix s x u assume "P s" "and_finally m f s = (Inr x, u)"
  then show "Q' x u" unfolding and_finally_ends by (auto dest: runsD [OF assms(1)] runsD [OF assms(2)])
next
  fix s err u assume P: "P s" and "and_finally m f s = (Inl err, u)"
  then obtain q t where m: "m s = (q, t)" and f: "(f t = (Inr (), u) \<and> q = Inl err) \<or> f t = (Inl err, u)"
    unfolding and_finally_ends by auto
  show "E' u"
  proof (cases q)
    case (Inl a)
    then have "E t" using runsD_error [OF assms(1) P] m by simp
    then show ?thesis using f runsD [OF assms(3)] runsD_error [OF assms(3)] by auto
  next
    case (Inr x)
    then have "Q x t" using runsD [OF assms(1) P] m by simp
    then show ?thesis using f Inr runsD_error [OF assms(2)] by auto
  qed
qed

lemma runs_weaken: "runs P' m Q' E' \<Longrightarrow> (\<And>s. P s \<Longrightarrow> P' s) \<Longrightarrow> (\<And>x s. Q' x s \<Longrightarrow> Q x s) \<Longrightarrow> (\<And>s. E' s \<Longrightarrow> E s) \<Longrightarrow> runs P m Q E"
  unfolding runs_def by (fastforce split: prod.splits sum.splits)

lemma runs_false: "(\<And>s. \<not> P s) \<Longrightarrow> runs P m Q E"
  by (simp add: runs_def)

lemma runs_returns: "(\<And>s. P s \<Longrightarrow> Q x s) \<Longrightarrow> runs P (returns x) Q E"
  by (simp add: runs_def returns_def)

lemma runs_throws: "(\<And>s. P s \<Longrightarrow> E s) \<Longrightarrow> runs P (throws err) Q E"
  by (simp add: runs_def throws_def)

lemma runs_lifts: "(\<And>s x. P s \<Longrightarrow> r = Inr x \<Longrightarrow> Q x s) \<Longrightarrow> (\<And>s. P s \<Longrightarrow> E s) \<Longrightarrow> runs P (lifts r) Q E"
  by (cases r) (auto simp: runs_def lifts_def)

lemma runs_checks: "(\<And>s. P s \<Longrightarrow> Q () s) \<Longrightarrow> (\<And>s. P s \<Longrightarrow> E s) \<Longrightarrow> runs P (checks c) Q E"
  by (cases c) (auto simp: runs_def checks_def returns_def throws_def)

lemma runs_if: "(c \<Longrightarrow> runs P m Q E) \<Longrightarrow> (\<not> c \<Longrightarrow> runs P n Q E) \<Longrightarrow> runs P (if c then m else n) Q E"
  by simp

text \<open>What an operation keeps, on either outcome.\<close>

definition keeps :: "('s \<Rightarrow> bool) \<Rightarrow> ('s, 'e, 'a) effect \<Rightarrow> bool" where
  "keeps P m \<longleftrightarrow> runs P m (\<lambda>_. P) P"

named_theorems keeping \<open>rules for \<open>keeps\<close>\<close>

lemma keepsD: "keeps P m \<Longrightarrow> P s \<Longrightarrow> m s = (r, t) \<Longrightarrow> P t"
  by (cases r) (auto simp: keeps_def dest: runsD runsD_error)

lemma keepsI: "(\<And>s r t. P s \<Longrightarrow> m s = (r, t) \<Longrightarrow> P t) \<Longrightarrow> keeps P m"
  unfolding keeps_def by (rule runsI) auto

lemma keeps_ex: "(\<And>x. keeps (P x) m) \<Longrightarrow> keeps (\<lambda>s. \<exists>x. P x s) m"
  by (rule keepsI) (auto dest: keepsD)

lemma keeps_preserved: "preserves obs m \<Longrightarrow> keeps (\<lambda>s. P (obs s)) m"
  by (rule keepsI) (auto dest: preservesD)

lemma keeps_pure [keeping]: "keeps P (returns x)" "keeps P (throws err)" "keeps P (lifts r)" "keeps P (checks c)"
  unfolding keeps_def by (auto intro: runs_returns runs_throws runs_lifts runs_checks)

lemma keeps_then [keeping]: "keeps P m \<Longrightarrow> (\<And>x. keeps P (f x)) \<Longrightarrow> keeps P (and_then m f)"
  unfolding keeps_def by (rule runs_then)

lemma keeps_catch [keeping]: "keeps P m \<Longrightarrow> (\<And>err. keeps P (h err)) \<Longrightarrow> keeps P (or_catch m h)"
  unfolding keeps_def by (rule runs_catch)

lemma keeps_finally [keeping]: "keeps P m \<Longrightarrow> keeps P f \<Longrightarrow> keeps P (and_finally m f)"
  unfolding keeps_def by (rule runs_finally)

lemma keeps_each: "(\<And>x. x \<in> set xs \<Longrightarrow> keeps P (f x)) \<Longrightarrow> keeps P (each f xs)"
  by (induction xs) (auto intro: keeping)

lemma keeps_if [keeping]: "(c \<Longrightarrow> keeps P m) \<Longrightarrow> (\<not> c \<Longrightarrow> keeps P n) \<Longrightarrow> keeps P (if c then m else n)"
  by simp

lemma keeps_option [keeping]:
  "keeps P m \<Longrightarrow> (\<And>x. keeps P (f x)) \<Longrightarrow> keeps P (case o' of None \<Rightarrow> m | Some x \<Rightarrow> f x)"
  by (simp split: option.split)

section \<open>Operations that always fail\<close>

definition fails :: "('s, 'e, 'a) effect \<Rightarrow> bool" where
  "fails m \<longleftrightarrow> (\<forall>s. \<exists>err t. m s = (Inl err, t))"

lemma failsI: "(\<And>s. \<exists>err t. m s = (Inl err, t)) \<Longrightarrow> fails m"
  by (simp add: fails_def)

lemma fails_throws: "fails (throws err)"
  by (simp add: fails_def throws_def)

lemma fails_first: "fails m \<Longrightarrow> fails (and_then m f)"
  unfolding fails_def by (metis and_then_error)

lemma fails_then: "(\<And>x. fails (f x)) \<Longrightarrow> fails (and_then m f)"
proof (rule failsI)
  fix s assume "\<And>x. fails (f x)"
  then show "\<exists>err t. and_then m f s = (Inl err, t)"
    by (cases "m s"; cases "fst (m s)") (auto simp: and_then_def fails_def)
qed

lemma fails_catch: "fails m \<Longrightarrow> (\<And>err. fails (h err)) \<Longrightarrow> fails (or_catch m h)"
proof (rule failsI)
  fix s assume "fails m" "\<And>err. fails (h err)"
  then show "\<exists>err t. or_catch m h s = (Inl err, t)"
    unfolding fails_def or_catch_ends by metis
qed

end
