(* ===== verification/Control_Client.thy ===== *)
theory Control_Client
  imports Control_Service Machine_Requests Effects
begin

text \<open>
  The agent's side of the control plane, \<open>server-agent/control-client.mjs\<close>: signed requests, leases and the
  checks of a lease, receipts, and the cycle that runs the leased commands.

  An operation is a function of the agent's state that returns a value or throws, and a new state. Everything
  outside the agent (the clock, fresh identifiers, the platform, the executor) is a field of \<open>agent_env\<close> that is
  given the number of the interaction, so that its answers are arbitrary from one interaction to the next. The state
  records the requests, the acknowledged receipts and the calls of the executor in order. The validators of
  \<open>@bairui/contracts\<close> are functions that return their document or throw.
\<close>

section \<open>Operations that may throw\<close>

text \<open>An error of the receipt's own validation is marked by the code with a flag of its own.\<close>

datatype agent_error = Raised failure | Unverified

record sent_post =
  sp_url :: string
  sp_machine :: ident
  sp_request :: machine_request
  sp_signature :: string

record post_answer =
  pa_ok :: bool
  pa_status :: int
  pa_body :: json

datatype agent_event = Posted string json sent_post | Acknowledged json | Executed json json

record agent_state =
  ag_step :: nat
  ag_sequence :: int
  ag_seen :: "json list"
  ag_events :: "agent_event list"

type_synonym 'a act = "(agent_state, agent_error, 'a) effect"

definition outside :: "(nat \<Rightarrow> 'a) \<Rightarrow> 'a act" where
  "outside f s = (Inr (f (ag_step s)), s\<lparr>ag_step := ag_step s + 1\<rparr>)"

definition lifted :: "failure + 'a \<Rightarrow> 'a act" where
  "lifted r s = (case r of Inl err \<Rightarrow> (Inl (Raised err), s) | Inr x \<Rightarrow> (Inr x, s))"

definition demand :: "failure option \<Rightarrow> unit act" where
  "demand check = (case check of None \<Rightarrow> returns () | Some err \<Rightarrow> throws (Raised err))"

definition logs :: "agent_event \<Rightarrow> unit act" where
  "logs ev s = (Inr (), s\<lparr>ag_events := ag_events s @ [ev]\<rparr>)"

definition thrown_code :: "agent_error \<Rightarrow> string option" where
  "thrown_code err = (case err of Raised f \<Rightarrow> failure_code f | Unverified \<Rightarrow> Some ''verification_failed'')"

section \<open>The agent's surroundings\<close>

record agent_env =
  en_time :: "nat \<Rightarrow> instant option"
  en_uuid :: "nat \<Rightarrow> string"
  en_dates :: dates
  en_crypto :: crypto
  en_stringify :: "json \<Rightarrow> string"
  en_show :: "json \<Rightarrow> string"
  en_fetch :: "nat \<Rightarrow> sent_post \<Rightarrow> failure + post_answer"
  en_leaseRequest :: "json \<Rightarrow> failure option"
  en_lease :: "json \<Rightarrow> failure option"
  en_receipt :: "json \<Rightarrow> failure option"
  en_resources :: "json \<Rightarrow> failure option"
  en_controlError :: "json \<Rightarrow> failure option"
  en_receiptStates :: "string list"
  en_errorCodes :: "string list"
  en_execute :: "nat \<Rightarrow> json \<Rightarrow> failure + json"
  en_resolve :: "(nat \<Rightarrow> json \<Rightarrow> failure + json) option"
  en_observe :: "(nat \<Rightarrow> json \<Rightarrow> failure + json) option"

record agent_options =
  op_platformUrl :: string
  op_organization :: "string option"
  op_user :: "string option"
  op_agent :: "string option"
  op_server :: "string option"
  op_token :: string
  op_platformKey :: "string option"
  op_revision :: "int option"
  op_limit :: "int option"
  op_leaseSeconds :: "int option"
  op_correlation :: json

definition server_of :: "agent_options \<Rightarrow> string" where
  "server_of opts = or_else (op_server opts) []"

definition strip_slash :: "string \<Rightarrow> string" where
  "strip_slash s = (if s \<noteq> [] \<and> last s = CHR ''/'' then butlast s else s)"

definition opt_json :: "string option \<Rightarrow> json" where
  "opt_json v = (case v of None \<Rightarrow> JUndefined | Some s \<Rightarrow> JStr s)"

definition client_error :: "string \<Rightarrow> int option \<Rightarrow> agent_error" where
  "client_error code st = Raised (CodedError code st)"

section \<open>Clock, sequence and scope\<close>

definition nowMs :: "agent_env \<Rightarrow> instant act" where
  "nowMs e =
     and_then (outside (en_time e))
       (\<lambda>t. case t of None \<Rightarrow> throws (Raised (TypeError ''Control clock must produce a valid timestamp'')) | Some now \<Rightarrow> returns now)"

text \<open>The shared sequence of the daemon: the next number, or the time if that is greater.\<close>

definition nextSequence :: "agent_env \<Rightarrow> int act" where
  "nextSequence e =
     and_then (nowMs e)
       (\<lambda>now s. let v = max (if ag_sequence s + 1 = 0 then 1 else ag_sequence s + 1) now in (Inr v, s\<lparr>ag_sequence := v\<rparr>))"

definition required_field :: "string \<Rightarrow> string option \<Rightarrow> failure option" where
  "required_field name value =
     (if value \<in> {None, Some []} then Some (TypeError (name @ '' is required for canonical control delivery'')) else None)"

definition scope_fields :: "agent_options \<Rightarrow> (string \<times> json) list" where
  "scope_fields opts =
     [(''organization_id'', JStr (or_else (op_organization opts) [])), (''user_id'', JStr (or_else (op_user opts) [])),
      (''agent_id'', JStr (or_else (op_agent opts) [])), (''server_id'', JStr (server_of opts))]"

definition requiredScope :: "agent_options \<Rightarrow> (string \<times> json) list act" where
  "requiredScope opts =
     and_then (demand (first_failure [required_field ''organization_id'' (op_organization opts), required_field ''user_id'' (op_user opts),
       required_field ''agent_id'' (op_agent opts), required_field ''server_id'' (op_server opts)])) (\<lambda>_. returns (scope_fields opts))"

definition fresh_id :: "agent_env \<Rightarrow> string \<Rightarrow> json act" where
  "fresh_id e before = and_then (outside (en_uuid e)) (\<lambda>u. returns (JStr (before @ u)))"

definition given_or_fresh :: "agent_env \<Rightarrow> string \<Rightarrow> json \<Rightarrow> json act" where
  "given_or_fresh e before v = (if nullish v then fresh_id e before else returns v)"

definition mutationFields :: "agent_env \<Rightarrow> agent_options \<Rightarrow> json \<Rightarrow> json \<Rightarrow> (string \<times> json) list act" where
  "mutationFields e opts correlation idempotency =
     and_then (nowMs e) (\<lambda>now. and_then (requiredScope opts) (\<lambda>fs. and_then (fresh_id e ''req_'') (\<lambda>r.
     and_then (given_or_fresh e ''corr_'' correlation) (\<lambda>c. and_then (given_or_fresh e ''idem_'' idempotency) (\<lambda>i.
     and_then (nextSequence e) (\<lambda>n.
       returns ([(''schema_version'', JStr ''1.0'')] @ fs @
         [(''request_id'', r), (''correlation_id'', c), (''idempotency_key'', i),
          (''created_at'', JStr (iso_date (en_dates e) now)), (''revision'', JNum (Integer (num_or (op_revision opts) 1))),
          (''sequence'', JNum (Integer n))])))))))"

definition signMutation :: "agent_env \<Rightarrow> agent_options \<Rightarrow> (string \<times> json) list \<Rightarrow> json act" where
  "signMutation e opts kvs =
     and_then (nowMs e) (\<lambda>_. lifted (signControlMutation (en_crypto e) (en_stringify e) None (Some (op_token opts)) (server_of opts)
       (or_else (text_of (Some (at (JObj kvs) ''created_at''))) []) (JObj kvs)))"

section \<open>Requests\<close>

definition signedMachinePost :: "agent_env \<Rightarrow> agent_options \<Rightarrow> string \<Rightarrow> json \<Rightarrow> post_answer act" where
  "signedMachinePost e opts path payload =
     and_then (nowMs e) (\<lambda>now. and_then (outside (en_uuid e)) (\<lambda>u.
       (let q = \<lparr>mq_method = ''POST'', mq_path = path, mq_timestamp = show_int now, mq_nonce = without (CHR ''-'') u,
                 mq_body = en_stringify e payload\<rparr>
        in and_then (lifted (signMachineRequest (en_crypto e) q (op_token opts))) (\<lambda>sig.
           (let p = \<lparr>sp_url = strip_slash (op_platformUrl opts) @ path, sp_machine = server_of opts, sp_request = q, sp_signature = sig\<rparr>
            in and_then (logs (Posted path payload p)) (\<lambda>_. and_then (outside (\<lambda>n. en_fetch e n p)) lifted))))))"

definition parseControlResponse :: "agent_env \<Rightarrow> json \<Rightarrow> string \<Rightarrow> int \<Rightarrow> agent_error" where
  "parseControlResponse e body fallback st =
     client_error (if en_controlError e body = None then en_show e (at body ''error_code'') else fallback) (Some st)"

section \<open>Leases\<close>

definition LEASES_PATH :: string where
  "LEASES_PATH = ''/api/internal/control-plane/leases''"

definition RECEIPTS_PATH :: string where
  "RECEIPTS_PATH = ''/api/internal/control-plane/receipts''"

definition RESOURCES_PATH :: string where
  "RESOURCES_PATH = ''/api/internal/control-plane/resources''"

text \<open>The fields of a lease that repeat its asked, and the error for the first that differs.\<close>

definition binding_error :: "json \<Rightarrow> json \<Rightarrow> string \<Rightarrow> failure option" where
  "binding_error lease asked k =
     (if at lease k \<noteq> at asked k
      then Some (CodedError (if k = ''server_id'' then ''server_mismatch'' else ''owner_mismatch'') None) else None)"

definition json_at_most :: "json \<Rightarrow> json \<Rightarrow> bool" where
  "json_at_most a b \<longleftrightarrow> (case (a, b) of (JNum (Integer x), JNum (Integer y)) \<Rightarrow> x \<le> y | _ \<Rightarrow> False)"

text \<open>\<open>Date.parse(v) <= now\<close>, which is false for what is not a date.\<close>

definition is_past :: "agent_env \<Rightarrow> json \<Rightarrow> instant \<Rightarrow> bool" where
  "is_past e v now \<longleftrightarrow> (case instant_of (en_dates e) v of Some t \<Rightarrow> t \<le> now | None \<Rightarrow> False)"

definition assertLeaseBinding :: "agent_env \<Rightarrow> agent_options \<Rightarrow> json \<Rightarrow> json \<Rightarrow> unit act" where
  "assertLeaseBinding e opts lease asked =
     and_then (demand (first_failure (map (binding_error lease asked)
       [''organization_id'', ''user_id'', ''agent_id'', ''server_id'', ''request_id'', ''correlation_id'']))) (\<lambda>_.
     and_then (demand (if at lease ''revision'' \<noteq> at asked ''revision'' \<or> json_at_most (at lease ''sequence'') (at asked ''sequence'')
       then Some (CodedError ''sequence_conflict'' None) else None)) (\<lambda>_.
     and_then (nowMs e) (\<lambda>signed. and_then (lifted (verifyControlMutationSignature (en_crypto e) (en_stringify e) (instant_of (en_dates e))
       None (Some (op_token opts)) (Some (or_else (op_platformKey opts) (server_of opts))) signed MAX_SIGNATURE_AGE_MS lease)) (\<lambda>valid.
     and_then (demand (if valid then None else Some (CodedError ''invalid_signature'' None))) (\<lambda>_.
     and_then (nowMs e) (\<lambda>now.
     and_then (demand (if is_past e (at lease ''lease_expires_at'') now then Some (CodedError ''lease_expired'' None) else None)) (\<lambda>_ s.
       (if at lease ''lease_id'' \<in> set (ag_seen s) then (Inl (client_error ''replay_detected'' None), s)
        else (Inr (), s\<lparr>ag_seen := at lease ''lease_id'' # ag_seen s\<rparr>)))))))))"

definition agent_lease_request :: "agent_options \<Rightarrow> (string \<times> json) list \<Rightarrow> (string \<times> json) list" where
  "agent_lease_request opts fs =
     fs @ [(''limit'', JNum (Integer (or_else (op_limit opts) 5))), (''lease_seconds'', JNum (Integer (or_else (op_leaseSeconds opts) 120))),
       (''requested_at'', at (JObj fs) ''created_at''),
       (''capability_refs'', JArr [JStr ''ref:control-lease-v1'', JStr ''ref:contracts-v2.3.0-rc.2''])]"

definition client_lease :: "agent_env \<Rightarrow> agent_options \<Rightarrow> json act" where
  "client_lease e opts =
     and_then (mutationFields e opts (op_correlation opts) JUndefined) (\<lambda>fs. and_then (signMutation e opts (agent_lease_request opts fs)) (\<lambda>asked.
     and_then (demand (en_leaseRequest e asked)) (\<lambda>_. and_then (signedMachinePost e opts LEASES_PATH asked) (\<lambda>r.
       (if \<not> pa_ok r then throws (parseControlResponse e (pa_body r) ''command_lease_failed'' (pa_status r))
        else if en_lease e (pa_body r) \<noteq> None then throws (client_error ''invalid_lease_envelope'' (Some 502))
        else and_then (assertLeaseBinding e opts (pa_body r) asked) (\<lambda>_. returns (pa_body r)))))))"

section \<open>Receipts\<close>

definition TERMINAL_RECEIPTS :: "string list" where
  "TERMINAL_RECEIPTS = [''completion_candidate'', ''failed'', ''cancelled'', ''expired'']"

definition OPAQUE_REFERENCE :: rexp where
  "OPAQUE_REFERENCE = Sq (alts (map literal [''ref:'', ''id:'', ''hint:''])) IDENTIFIER"

definition EVIDENCE_REFERENCE :: rexp where
  "EVIDENCE_REFERENCE = Alt OPAQUE_REFERENCE (Sq (literal ''sha256:'') KEY_HASH)"

definition opaqueReference :: "json \<Rightarrow> json option" where
  "opaqueReference v = (case v of JStr s \<Rightarrow> if matches OPAQUE_REFERENCE s then Some v else None | _ \<Rightarrow> None)"

definition hex_digest :: "agent_env \<Rightarrow> string \<Rightarrow> string" where
  "hex_digest e s = to_hex (sha256 (en_crypto e) s)"

definition evidence_reference :: "agent_env \<Rightarrow> json \<Rightarrow> string list" where
  "evidence_reference e v =
     (case v of
        JStr s \<Rightarrow> if s = [] then [] else if matches EVIDENCE_REFERENCE s then [s] else [''sha256:'' @ hex_digest e s]
      | _ \<Rightarrow> [])"

definition evidenceReferences :: "agent_env \<Rightarrow> json \<Rightarrow> string list" where
  "evidenceReferences e v =
     (case v of JArr xs \<Rightarrow> take 100 (uniq (concat (map (evidence_reference e) xs))) | _ \<Rightarrow> [])"

definition wireErrorCode :: "agent_env \<Rightarrow> json \<Rightarrow> string" where
  "wireErrorCode e v = (case v of JStr s \<Rightarrow> if s \<in> set (en_errorCodes e) then s else ''verification_failed'' | _ \<Rightarrow> ''verification_failed'')"

record receipt_call =
  rp_command :: json
  rp_lease :: json
  rp_leaseToken :: json
  rp_state :: string
  rp_eventSequence :: int
  rp_observation :: json
  rp_evidence :: json
  rp_result :: json
  rp_endpoint :: json
  rp_errorCode :: json
  rp_errorRef :: json

text \<open>The command of the lease that a receipt is about, if it is the one that was leased.\<close>

definition leased_command :: "json \<Rightarrow> json \<Rightarrow> json option" where
  "leased_command lease command =
     (case at lease ''commands'' of
        JArr cs \<Rightarrow> List.find (\<lambda>c. at c ''command_id'' = at command ''command_id'') cs | _ \<Rightarrow> None)"

definition bound_command :: "receipt_call \<Rightarrow> json option" where
  "bound_command rp =
     (case leased_command (rp_lease rp) (rp_command rp) of
        None \<Rightarrow> None
      | Some c \<Rightarrow>
          if (\<exists>k\<in>{''attempt'', ''lease_id'', ''lease_token''}. at c k \<noteq> at (rp_command rp) k) \<or>
             (rp_leaseToken rp \<noteq> JUndefined \<and> at c ''lease_token'' \<noteq> rp_leaseToken rp) then None
          else Some c)"

definition optional_field :: "string \<Rightarrow> json option \<Rightarrow> (string \<times> json) list" where
  "optional_field k v = (case v of None \<Rightarrow> [] | Some x \<Rightarrow> [(k, x)])"

definition is_safe :: "json \<Rightarrow> bool" where
  "is_safe v \<longleftrightarrow> (case v of JNum n \<Rightarrow> is_safe_integer n | _ \<Rightarrow> False)"

definition verified_completion :: "agent_env \<Rightarrow> receipt_call \<Rightarrow> bool" where
  "verified_completion e rp \<longleftrightarrow>
     (case rp_observation rp of JNum (Integer n) \<Rightarrow> is_safe_integer (Integer n) \<and> 1 \<le> n | _ \<Rightarrow> False) \<and>
     evidenceReferences e (rp_evidence rp) \<noteq> []"

definition error_code_of :: "agent_env \<Rightarrow> receipt_call \<Rightarrow> string option" where
  "error_code_of e rp = (if rp_state rp = ''failed'' then Some (wireErrorCode e (rp_errorCode rp)) else None)"

definition error_ref_of :: "agent_env \<Rightarrow> receipt_call \<Rightarrow> json option" where
  "error_ref_of e rp =
     (if rp_state rp = ''failed'' \<and> truthy (rp_errorCode rp) \<and> map_option JStr (error_code_of e rp) \<noteq> Some (rp_errorCode rp)
      then Some (JStr (''hint:executor-error-'' @ take 24 (hex_digest e (en_show e (rp_errorCode rp)))))
      else opaqueReference (rp_errorRef rp))"

definition agent_receipt_body :: "agent_env \<Rightarrow> agent_options \<Rightarrow> receipt_call \<Rightarrow> json \<Rightarrow> json \<Rightarrow> json \<Rightarrow> (string \<times> json) list" where
  "agent_receipt_body e opts rp c receiptId created =
     [(''receipt_id'', receiptId), (''deployment_id'', at c ''deployment_id''), (''lease_id'', at c ''lease_id''),
      (''lease_token'', at c ''lease_token''), (''command_id'', at c ''command_id''), (''attempt'', at c ''attempt''),
      (''state'', JStr (rp_state rp)), (''event_sequence'', JNum (Integer (rp_eventSequence rp))),
      (''source_identity'', JStr (server_of opts))] @
     optional_field ''observation_version'' (if is_safe (rp_observation rp) then Some (rp_observation rp) else None) @
     [(''observed_at'', created)] @
     optional_field ''completed_at'' (if rp_state rp \<in> set TERMINAL_RECEIPTS then Some created else None) @
     optional_field ''error_code'' (map_option JStr (error_code_of e rp)) @
     optional_field ''error_ref'' (error_ref_of e rp) @
     optional_field ''evidence_refs''
       (if evidenceReferences e (rp_evidence rp) = [] then None else Some (JArr (map JStr (evidenceReferences e (rp_evidence rp))))) @
     optional_field ''result_ref'' (opaqueReference (rp_result rp)) @
     optional_field ''endpoint_ref'' (opaqueReference (rp_endpoint rp))"

definition receipt_document :: "agent_env \<Rightarrow> agent_options \<Rightarrow> receipt_call \<Rightarrow> json \<Rightarrow> json \<Rightarrow> (string \<times> json) list \<Rightarrow> (string \<times> json) list" where
  "receipt_document e opts rp c receiptId fs = fs @ agent_receipt_body e opts rp c receiptId (at (JObj fs) ''created_at'')"

definition receipt_key :: "agent_env \<Rightarrow> receipt_call \<Rightarrow> json \<Rightarrow> string" where
  "receipt_key e rp c =
     ''receipt:'' @ en_show e (at c ''command_id'') @ '':'' @ en_show e (at c ''attempt'') @ '':'' @ rp_state rp @ '':'' @
     show_int (rp_eventSequence rp)"

definition receipt_scope_error :: "agent_options \<Rightarrow> json \<Rightarrow> failure option" where
  "receipt_scope_error opts lease =
     first_failure (map (\<lambda>(k, v). if at lease k \<noteq> v
       then Some (CodedError (if k = ''server_id'' then ''server_mismatch'' else ''owner_mismatch'') None) else None)
       [(''organization_id'', opt_json (op_organization opts)), (''user_id'', opt_json (op_user opts)),
        (''agent_id'', opt_json (op_agent opts)), (''server_id'', opt_json (op_server opts))])"

definition sendCommandReceipt :: "agent_env \<Rightarrow> agent_options \<Rightarrow> receipt_call \<Rightarrow> json act" where
  "sendCommandReceipt e opts rp =
     and_then (demand (if \<not> truthy (rp_lease rp) \<or> \<not> truthy (rp_command rp)
       then Some (TypeError ''Canonical lease and command are required for a receipt'')
       else if rp_state rp \<notin> set (en_receiptStates e) then Some (TypeError (''Unsupported receipt state: '' @ rp_state rp))
       else if en_lease e (rp_lease rp) \<noteq> None then Some (CodedError ''lease_not_found'' None) else None)) (\<lambda>_.
     (case bound_command rp of
        None \<Rightarrow> throws (client_error ''lease_not_found'' None)
      | Some c \<Rightarrow>
          and_then (demand (receipt_scope_error opts (rp_lease rp))) (\<lambda>_.
          and_then (mutationFields e opts (at (rp_lease rp) ''correlation_id'') (JStr (receipt_key e rp c))) (\<lambda>fs.
            (if rp_state rp = ''completion_candidate'' \<and> \<not> verified_completion e rp then throws Unverified
             else and_then (fresh_id e ''receipt_'') (\<lambda>rid.
               and_then (signMutation e opts (receipt_document e opts rp c rid fs)) (\<lambda>receipt.
               and_then (demand (en_receipt e receipt)) (\<lambda>_.
               and_then (signedMachinePost e opts RECEIPTS_PATH receipt) (\<lambda>r.
                 (if \<not> pa_ok r then throws (parseControlResponse e (pa_body r) ''command_receipt_failed'' (pa_status r))
                  else and_then (logs (Acknowledged receipt)) (\<lambda>_. returns receipt)))))))))))"

section \<open>Resource samples\<close>

definition sendResourceSamples :: "agent_env \<Rightarrow> agent_options \<Rightarrow> json \<Rightarrow> json act" where
  "sendResourceSamples e opts samples =
     (let payload = JObj [(''serverId'', opt_json (op_server opts)), (''samples'', default samples (JArr []))]
      in and_then (demand (en_resources e payload)) (\<lambda>_. and_then (signedMachinePost e opts RESOURCES_PATH payload) (\<lambda>r.
         (if pa_ok r then returns (pa_body r)
          else throws (client_error (en_show e (default (at (pa_body r) ''error'') (JStr ''resource_upload_failed''))) (Some (pa_status r)))))))"

section \<open>A cycle\<close>

record command_result =
  cr_command :: json
  cr_state :: string
  cr_errorCode :: "string option"

definition receipt_for :: "json \<Rightarrow> json \<Rightarrow> string \<Rightarrow> int \<Rightarrow> receipt_call" where
  "receipt_for lease c st n =
     \<lparr>rp_command = c, rp_lease = lease, rp_leaseToken = JUndefined, rp_state = st, rp_eventSequence = n, rp_observation = JUndefined,
      rp_evidence = JUndefined, rp_result = JUndefined, rp_endpoint = JUndefined, rp_errorCode = JUndefined, rp_errorRef = JUndefined\<rparr>"

text \<open>The second date is only compared, with a clock read again, if the first is not in the past.\<close>

definition has_expired :: "agent_env \<Rightarrow> json \<Rightarrow> bool act" where
  "has_expired e c =
     and_then (nowMs e) (\<lambda>t. if is_past e (at c ''lease_expires_at'') t then returns True
       else and_then (nowMs e) (\<lambda>u. returns (is_past e (at c ''expires_at'') u)))"

definition settled :: "json \<Rightarrow> string \<Rightarrow> string option \<Rightarrow> command_result" where
  "settled c st code = \<lparr>cr_command = at c ''command_id'', cr_state = st, cr_errorCode = code\<rparr>"

definition send_and_settle :: "agent_env \<Rightarrow> agent_options \<Rightarrow> receipt_call \<Rightarrow> string option \<Rightarrow> command_result act" where
  "send_and_settle e opts rp code =
     and_then (sendCommandReceipt e opts rp) (\<lambda>_. returns (settled (rp_command rp) (rp_state rp) code))"

definition code_json :: "agent_error \<Rightarrow> json" where
  "code_json err = JStr (or_else (thrown_code err) ''verification_failed'')"

text \<open>The result names the wire code of \<open>error.code\<close> itself, which for an error without a code is the same.\<close>

definition report_failure :: "agent_env \<Rightarrow> agent_options \<Rightarrow> json \<Rightarrow> json \<Rightarrow> agent_error \<Rightarrow> command_result act" where
  "report_failure e opts lease c err =
     send_and_settle e opts ((receipt_for lease c ''failed'' 3)\<lparr>rp_errorCode := code_json err\<rparr>)
       (Some (wireErrorCode e (case thrown_code err of None \<Rightarrow> JUndefined | Some k \<Rightarrow> JStr k)))"

definition executable_of :: "agent_env \<Rightarrow> json \<Rightarrow> json act" where
  "executable_of e c =
     (case at c ''secret_refs'' of
        JArr (r # rs) \<Rightarrow>
          (case en_resolve e of
             None \<Rightarrow> throws (client_error ''raw_secret_not_allowed'' None)
           | Some resolve \<Rightarrow> and_then (outside (\<lambda>n. resolve n c)) lifted)
      | _ \<Rightarrow> returns c)"

text \<open>The \<open>try\<close> block: the expired command is settled in it, otherwise it gives the result and the observation.\<close>

definition run_block :: "agent_env \<Rightarrow> agent_options \<Rightarrow> json \<Rightarrow> json \<Rightarrow> (command_result + json \<times> json) act" where
  "run_block e opts lease c =
     and_then (executable_of e c) (\<lambda>x. and_then (logs (Executed c x)) (\<lambda>_. and_then (outside (\<lambda>n. en_execute e n x)) (\<lambda>r.
     and_then (lifted r) (\<lambda>result. and_then (has_expired e c) (\<lambda>late.
       (if late then and_then (send_and_settle e opts (receipt_for lease c ''expired'' 3) None) (\<lambda>r. returns (Inl r))
        else (case en_observe e of
                None \<Rightarrow> returns (Inr (result, result))
              | Some observe \<Rightarrow> and_then (outside (\<lambda>n. observe n result)) (\<lambda>r. and_then (lifted r) (\<lambda>ob. returns (Inr (result, ob)))))))))))"

definition complete :: "agent_env \<Rightarrow> agent_options \<Rightarrow> json \<Rightarrow> json \<Rightarrow> json \<Rightarrow> json \<Rightarrow> command_result act" where
  "complete e opts lease c result ob =
     or_catch
       (send_and_settle e opts ((receipt_for lease c ''completion_candidate'' 3)\<lparr>rp_observation := at ob ''observationVersion'',
          rp_evidence := at result ''evidenceRefs'', rp_result := at result ''resultRef'', rp_endpoint := at result ''endpointRef''\<rparr>) None)
       (\<lambda>err. if err = Unverified then report_failure e opts lease c err else throws err)"

definition run_command :: "agent_env \<Rightarrow> agent_options \<Rightarrow> json \<Rightarrow> json \<Rightarrow> command_result act" where
  "run_command e opts lease c =
     and_then (has_expired e c) (\<lambda>late.
       (if late then send_and_settle e opts (receipt_for lease c ''expired'' 1) None
        else and_then (sendCommandReceipt e opts (receipt_for lease c ''accepted'' 1)) (\<lambda>_.
          and_then (sendCommandReceipt e opts (receipt_for lease c ''running'' 2)) (\<lambda>_.
          and_then (or_catch (run_block e opts lease c) (\<lambda>err. and_then (report_failure e opts lease c err) (\<lambda>r. returns (Inl r)))) (\<lambda>r.
            (case r of Inl late_one \<Rightarrow> returns late_one | Inr (result, ob) \<Rightarrow> complete e opts lease c result ob))))))"

fun run_commands :: "agent_env \<Rightarrow> agent_options \<Rightarrow> json \<Rightarrow> json list \<Rightarrow> command_result list act" where
  "run_commands e opts lease [] = returns []"
| "run_commands e opts lease (c # cs) =
     and_then (run_command e opts lease c) (\<lambda>r. and_then (run_commands e opts lease cs) (\<lambda>rs. returns (r # rs)))"

definition commands_of :: "json \<Rightarrow> json list act" where
  "commands_of lease =
     (case at lease ''commands'' of JArr cs \<Rightarrow> returns cs | _ \<Rightarrow> throws (Raised (TypeError ''lease.commands is not iterable'')))"

definition executeControlCycle :: "agent_env \<Rightarrow> agent_options \<Rightarrow> command_result list act" where
  "executeControlCycle e opts =
     and_then (client_lease e opts) (\<lambda>lease. and_then (commands_of lease) (run_commands e opts lease))"

section \<open>Signed documents\<close>

lemma signed_keeps:
  assumes "signMutation e opts kvs s = (Inr doc, t)" and "k \<noteq> ''signature''"
  shows "at doc k = at (JObj kvs) k"
  using assms
  by (auto simp: signMutation_def and_then_Inr lifted_def signControlMutation_def canonical_of_envelope at_def prop_of_def
      pending_envelope_def split: sum.splits if_splits)

section \<open>An agent at work\<close>

definition demo_command :: json where
  "demo_command = JObj [(''command_id'', JStr ''c'')]"

definition demo_mac :: bytes where
  "demo_mac = replicate 31 1 @ [32]"

definition demo_signature :: json where
  "demo_signature = JObj [(''algorithm'', JStr ''hmac-sha256''), (''key_id'', JStr ''s''), (''signed_at'', JStr []),
     (''value'', JStr (to_base64url demo_mac))]"

definition demo_lease :: json where
  "demo_lease = JObj [(''organization_id'', JStr ''o''), (''user_id'', JStr ''u''), (''agent_id'', JStr ''a''), (''server_id'', JStr ''s''),
     (''request_id'', JStr ''req_''), (''correlation_id'', JStr ''corr_''), (''revision'', JNum (Integer 1)),
     (''sequence'', JNum (Integer 5000)), (''created_at'', JStr []), (''lease_id'', JStr ''l''), (''commands'', JArr [demo_command]), (''signature'', demo_signature)]"

text \<open>A platform that grants one lease and acknowledges everything, and an executor that has evidence.\<close>

definition demo_env :: agent_env where
  "demo_env =
     \<lparr>en_time = (\<lambda>_. Some 1000), en_uuid = (\<lambda>_. []), en_dates = \<lparr>parse_date = (\<lambda>_. Some 2000), iso_date = (\<lambda>_. [])\<rparr>,
      en_crypto = flat_crypto, en_stringify = (\<lambda>_. ''x''), en_show = (\<lambda>_. []),
      en_fetch = (\<lambda>_ _. Inr \<lparr>pa_ok = True, pa_status = 200, pa_body = demo_lease\<rparr>), en_leaseRequest = (\<lambda>_. None), en_lease = (\<lambda>_. None),
      en_receipt = (\<lambda>_. None), en_resources = (\<lambda>_. None), en_controlError = (\<lambda>_. None),
      en_receiptStates = [''accepted'', ''running'', ''completion_candidate'', ''failed'', ''expired''], en_errorCodes = [],
      en_execute = (\<lambda>_ _. Inr (JObj [(''observationVersion'', JNum (Integer 1)), (''evidenceRefs'', JArr [JStr ''ref:e''])])),
      en_resolve = None, en_observe = None\<rparr>"

definition demo_options :: agent_options where
  "demo_options =
     \<lparr>op_platformUrl = ''p/'', op_organization = Some ''o'', op_user = Some ''u'', op_agent = Some ''a'', op_server = Some ''s'',
      op_token = sample_token, op_platformKey = None, op_revision = None, op_limit = None, op_leaseSeconds = None, op_correlation = JUndefined\<rparr>"

definition demo_start :: agent_state where
  "demo_start = \<lparr>ag_step = 0, ag_sequence = 0, ag_seen = [], ag_events = []\<rparr>"

lemma demo_simps [simp]:
  "en_time demo_env n = Some 1000" "en_uuid demo_env n = []" "iso_date (en_dates demo_env) t = []"
  "instant_of (en_dates demo_env) (JStr s) = Some 2000" "instant_of (en_dates demo_env) JUndefined = None"
  "en_crypto demo_env = flat_crypto" "en_stringify demo_env j = ''x''"
  "en_fetch demo_env n p = Inr \<lparr>pa_ok = True, pa_status = 200, pa_body = demo_lease\<rparr>"
  "en_leaseRequest demo_env j = None" "en_lease demo_env j = None" "en_receipt demo_env j = None"
  "op_correlation demo_options = JUndefined" "en_resolve demo_env = None" "en_observe demo_env = None" "op_token demo_options = sample_token" "server_of demo_options = ''s''"
  "en_execute demo_env n j = Inr (JObj [(''observationVersion'', JNum (Integer 1)), (''evidenceRefs'', JArr [JStr ''ref:e''])])"
  by (simp_all add: demo_env_def demo_options_def server_of_def instant_of_def)

lemma demo_scope: "requiredScope demo_options s = (Inr (scope_fields demo_options), s)"
  by (simp add: requiredScope_def and_then_def demand_def returns_def required_field_def demo_options_def)

lemma demo_key: "keyBuffer flat_crypto None (Some sample_token) = Inr (replicate 32 7)"
proof -
  have "is_bytes (replicate 32 7)" "length (replicate 32 (7::nat)) = 32" by (simp_all add: is_bytes_def)
  from key_shape [OF this] from_hex_to_hex [OF this(1)] show ?thesis
    by (simp add: keyBuffer_def deriveMachineKey_def sample_token_def flat_crypto_def)
qed

lemma demo_now: "nowMs demo_env s = (Inr 1000, s\<lparr>ag_step := ag_step s + 1\<rparr>)"
  by (simp add: nowMs_def and_then_def outside_def returns_def)

lemma demo_signs: "\<exists>doc. signMutation demo_env demo_options kvs s = (Inr doc, s\<lparr>ag_step := ag_step s + 1\<rparr>)"
  by (simp add: signMutation_def and_then_def demo_now lifted_def signControlMutation_def demo_key canonical_of_envelope)

lemma demo_posts:
  "\<exists>p. signedMachinePost demo_env demo_options path payload s =
     (Inr \<lparr>pa_ok = True, pa_status = 200, pa_body = demo_lease\<rparr>,
      s\<lparr>ag_events := ag_events s @ [Posted path payload p], ag_step := ag_step s + 3\<rparr>)"
proof -
  have "\<exists>sig. signMachineRequest flat_crypto q sample_token = Inr sig" for q
    by (simp add: signMachineRequest_def deriveMachineKey_def sample_token_def)
  then obtain sig where "signMachineRequest flat_crypto
      \<lparr>mq_method = ''POST'', mq_path = path, mq_timestamp = show_int 1000, mq_nonce = without CHR ''-'' [], mq_body = ''x''\<rparr> sample_token = Inr sig"
    by blast
  then show ?thesis
    by (simp add: signedMachinePost_def and_then_def demo_now outside_def lifted_def logs_def Let_def numeral_3_eq_3) (rule exI, rule refl)
qed

lemma demo_fields:
  "mutationFields demo_env demo_options JUndefined JUndefined demo_start =
     (Inr ([(''schema_version'', JStr ''1.0'')] @ scope_fields demo_options @
       [(''request_id'', JStr ''req_''), (''correlation_id'', JStr ''corr_''), (''idempotency_key'', JStr ''idem_''), (''created_at'', JStr []),
        (''revision'', JNum (Integer 1)), (''sequence'', JNum (Integer 1000))]), demo_start\<lparr>ag_step := 5, ag_sequence := 1000\<rparr>)"
proof -
  have "op_revision demo_options = None" by (simp add: demo_options_def)
  then show ?thesis
    by (simp add: mutationFields_def and_then_def demo_now demo_scope fresh_id_def given_or_fresh_def nullish_def outside_def returns_def
        nextSequence_def demo_start_def num_or_def Let_def)
qed

lemma demo_binding:
  assumes "\<forall>k\<in>{''organization_id'', ''user_id'', ''agent_id'', ''server_id'', ''request_id'', ''correlation_id'', ''revision''}.
      at demo_lease k = at asked k"
    and "at asked ''sequence'' = JNum (Integer 1000)" and "ag_seen s = []"
  shows "\<exists>t. assertLeaseBinding demo_env demo_options demo_lease asked s = (Inr (), t)"
proof -
  have fields: "at demo_lease ''sequence'' = JNum (Integer 5000)" "at demo_lease ''signature'' = demo_signature"
    "at demo_lease ''lease_expires_at'' = JUndefined" "at demo_lease ''created_at'' = JStr []"
    by (simp_all add: demo_lease_def at_def prop_of_def)
  have sg: "at demo_signature ''value'' = JStr (to_base64url demo_mac)" "at demo_signature ''algorithm'' = JStr ''hmac-sha256''"
    "at demo_signature ''key_id'' = JStr ''s''" "at demo_signature ''signed_at'' = JStr []" "\<exists>kvs. demo_signature = JObj kvs"
    by (simp_all add: demo_signature_def at_def prop_of_def)
  have "is_bytes demo_mac" by (simp add: is_bytes_def demo_mac_def)
  from base64url_roundtrip [OF this]
  have mac: "from_base64url (to_base64url demo_mac) = hmac flat_crypto (replicate 32 7) ''x''"
    by (simp add: flat_crypto_def demo_mac_def)
  have "\<exists>kvs. demo_lease = JObj kvs" by (simp add: demo_lease_def)
  then have canonical: "controlMutationCanonical (en_stringify demo_env) demo_lease = Inr ''x''"
  proof (elim exE)
    fix kvs assume kvs: "demo_lease = JObj kvs"
    obtain gs where gs: "demo_signature = JObj gs" using sg(5) by blast
    have "controlMutationCanonical f (JObj kvs) = Inr (f (canonicalValue (unsigned kvs (JObj gs))))" for f
      using fields(2) unfolding kvs gs by (simp add: controlMutationCanonical_def)
    then show ?thesis unfolding kvs by simp
  qed
  have "verifyControlMutationSignature flat_crypto (en_stringify demo_env) (instant_of (en_dates demo_env)) None (Some sample_token)
      (Some ''s'') 1000 MAX_SIGNATURE_AGE_MS demo_lease = Inr True"
    by (simp add: verifyControlMutationSignature_def fields sg demo_key canonical mac MAX_SIGNATURE_AGE_MS_def Let_def)
  moreover have "op_platformKey demo_options = None" by (simp add: demo_options_def)
  ultimately show ?thesis
    using assms fields
    by (simp add: assertLeaseBinding_def and_then_def demand_def returns_def lifted_def binding_error_def first_failure.simps
        json_at_most_def is_past_def demo_now or_else_def)
qed

lemma demo_lease_taken: "\<exists>t. client_lease demo_env demo_options demo_start = (Inr demo_lease, t)"
proof -
  let ?fs = "[(''schema_version'', JStr ''1.0'')] @ scope_fields demo_options @
       [(''request_id'', JStr ''req_''), (''correlation_id'', JStr ''corr_''), (''idempotency_key'', JStr ''idem_''), (''created_at'', JStr []),
        (''revision'', JNum (Integer 1)), (''sequence'', JNum (Integer 1000))]"
  obtain asked u where asked: "signMutation demo_env demo_options (agent_lease_request demo_options ?fs) (demo_start\<lparr>ag_step := 5, ag_sequence := 1000\<rparr>) = (Inr asked, u)"
    and u: "ag_seen u = []"
    using demo_signs [of "agent_lease_request demo_options ?fs" "demo_start\<lparr>ag_step := 5, ag_sequence := 1000\<rparr>"] by (auto simp: demo_start_def)
  obtain w where w: "signedMachinePost demo_env demo_options LEASES_PATH asked u = (Inr \<lparr>pa_ok = True, pa_status = 200, pa_body = demo_lease\<rparr>, w)"
    "ag_seen w = []"
    using demo_posts [of LEASES_PATH asked u] u by auto
  have at_asked: "at asked k = at (JObj (agent_lease_request demo_options ?fs)) k" if "k \<noteq> ''signature''" for k
    by (rule signed_keeps [OF asked that])
  have "at demo_lease k = at (JObj (agent_lease_request demo_options ?fs)) k"
    if "k \<in> {''organization_id'', ''user_id'', ''agent_id'', ''server_id'', ''request_id'', ''correlation_id'', ''revision''}" for k
    using that
    by (elim insertE emptyE; simp add: agent_lease_request_def scope_fields_def demo_lease_def demo_options_def server_of_def at_def prop_of_def)
  moreover have "at (JObj (agent_lease_request demo_options ?fs)) ''sequence'' = JNum (Integer 1000)"
    by (simp add: agent_lease_request_def scope_fields_def at_def prop_of_def)
  ultimately obtain t where "assertLeaseBinding demo_env demo_options demo_lease asked w = (Inr (), t)"
    using demo_binding [of asked w] at_asked w(2) by auto
  then show ?thesis
    using demo_fields asked w(1) by (simp add: client_lease_def and_then_def demand_def returns_def)
qed

text \<open>In every state the platform acknowledges the receipts of the command, and the command completes.\<close>

definition gives :: "'a act \<Rightarrow> ('a \<Rightarrow> bool) \<Rightarrow> bool" where
  "gives m q \<longleftrightarrow> (\<forall>s. \<exists>x t. m s = (Inr x, t) \<and> q x)"

lemma gives_then: "gives m q \<Longrightarrow> (\<And>x. q x \<Longrightarrow> gives (f x) r) \<Longrightarrow> gives (and_then m f) r"
  unfolding gives_def
proof
  fix s assume m: "\<forall>s. \<exists>x t. m s = (Inr x, t) \<and> q x" and f: "\<And>x. q x \<Longrightarrow> \<forall>s. \<exists>y t. f x s = (Inr y, t) \<and> r y"
  obtain x t where x: "m s = (Inr x, t)" "q x" using m by blast
  obtain y u where "f x t = (Inr y, u)" "r y" using f [OF x(2)] by blast
  then show "\<exists>y t. and_then m f s = (Inr y, t) \<and> r y" using x(1) by (simp add: and_then_def)
qed

lemma gives_returns: "q x \<Longrightarrow> gives (returns x) q"
  by (simp add: gives_def returns_def)

lemma gives_catch: "gives m q \<Longrightarrow> gives (or_catch m h) q"
  unfolding gives_def
proof
  fix s assume "\<forall>s. \<exists>x t. m s = (Inr x, t) \<and> q x"
  then obtain x t where "m s = (Inr x, t)" "q x" by blast
  then show "\<exists>y t. or_catch m h s = (Inr y, t) \<and> q y" by (simp add: or_catch_def)
qed

lemma demo_gives:
  "gives (nowMs demo_env) (\<lambda>_. True)" "gives (fresh_id demo_env before) (\<lambda>_. True)" "gives (nextSequence demo_env) (\<lambda>_. True)"
  "gives (given_or_fresh demo_env before v) (\<lambda>_. True)" "gives (requiredScope demo_options) (\<lambda>_. True)"
  "gives (signMutation demo_env demo_options kvs) (\<lambda>_. True)" "gives (signedMachinePost demo_env demo_options path payload) pa_ok"
  "gives (logs ev) (\<lambda>_. True)" "gives (outside f) (\<lambda>x. \<exists>n. x = f n)"
proof -
  show "gives (nowMs demo_env) (\<lambda>_. True)" by (simp add: gives_def demo_now)
  show "gives (fresh_id demo_env before) (\<lambda>_. True)" by (simp add: gives_def fresh_id_def and_then_def outside_def returns_def)
  then show "gives (given_or_fresh demo_env before v) (\<lambda>_. True)" by (simp add: given_or_fresh_def gives_returns)
  show "gives (nextSequence demo_env) (\<lambda>_. True)" by (simp add: gives_def nextSequence_def and_then_def demo_now Let_def)
  show "gives (requiredScope demo_options) (\<lambda>_. True)" by (simp add: gives_def demo_scope)
  show "gives (signMutation demo_env demo_options kvs) (\<lambda>_. True)"
    unfolding gives_def using demo_signs by fastforce
  show "gives (signedMachinePost demo_env demo_options path payload) pa_ok"
    unfolding gives_def using demo_posts [of path payload] by fastforce
  show "gives (logs ev) (\<lambda>_. True)" "gives (outside f) (\<lambda>x. \<exists>n. x = f n)" by (auto simp: gives_def logs_def outside_def)
qed

lemma demo_mutation: "gives (mutationFields demo_env demo_options c i) (\<lambda>_. True)"
  unfolding mutationFields_def by (intro gives_then [OF demo_gives(1)] gives_then [OF demo_gives(2)] gives_then [OF demo_gives(3)]
    gives_then [OF demo_gives(4)] gives_then [OF demo_gives(5)] gives_returns) simp_all

lemma demo_receipt:
  assumes "rp_command rp = demo_command" and "rp_lease rp = demo_lease" and "rp_leaseToken rp = JUndefined"
    and "rp_state rp \<in> set (en_receiptStates demo_env)"
    and "rp_state rp = ''completion_candidate'' \<longrightarrow> verified_completion demo_env rp"
  shows "gives (sendCommandReceipt demo_env demo_options rp) (\<lambda>_. True)"
proof -
  have "at demo_lease ''commands'' = JArr [demo_command]" by (simp add: demo_lease_def at_def prop_of_def)
  then have bound: "bound_command rp = Some demo_command" using assms by (simp add: bound_command_def leased_command_def)
  have nonempty: "truthy demo_lease" "truthy demo_command" by (simp_all add: truthy_def demo_lease_def demo_command_def)
  have scope: "receipt_scope_error demo_options demo_lease = None"
    by (simp add: receipt_scope_error_def demo_options_def opt_json_def demo_lease_def at_def prop_of_def)
  have demand: "gives (demand None) (\<lambda>_. True)" by (simp add: demand_def gives_returns)
  have sent: "gives (and_then (fresh_id demo_env ''receipt_'') (\<lambda>rid.
      and_then (signMutation demo_env demo_options (receipt_document demo_env demo_options rp demo_command rid fs)) (\<lambda>receipt.
      and_then (demand (en_receipt demo_env receipt)) (\<lambda>_. and_then (signedMachinePost demo_env demo_options RECEIPTS_PATH receipt) (\<lambda>r.
        if \<not> pa_ok r then throws (parseControlResponse demo_env (pa_body r) ''command_receipt_failed'' (pa_status r))
        else and_then (logs (Acknowledged receipt)) (\<lambda>_. returns receipt)))))) (\<lambda>_. True)" for fs
    by (rule gives_then [OF demo_gives(2)], rule gives_then [OF demo_gives(6)], simp add: gives_then [OF demand],
        rule gives_then [OF demand], rule gives_then [OF demo_gives(7)], simp, rule gives_then [OF demo_gives(8)], simp add: gives_returns)
  show ?thesis
    unfolding sendCommandReceipt_def bound option.case assms(2) scope
    using assms nonempty sent
    by (auto intro!: gives_then [OF demand] gives_then [OF demo_mutation])
qed

lemma demo_settle:
  assumes "rp_command rp = demo_command" and "rp_lease rp = demo_lease" and "rp_leaseToken rp = JUndefined"
    and "rp_state rp \<in> set (en_receiptStates demo_env)"
    and "rp_state rp = ''completion_candidate'' \<longrightarrow> verified_completion demo_env rp"
  shows "gives (send_and_settle demo_env demo_options rp code) (\<lambda>x. cr_state x = rp_state rp)"
  unfolding send_and_settle_def
  by (rule gives_then [OF demo_receipt [OF assms]]) (simp add: gives_returns settled_def)

lemma demo_current: "gives (has_expired demo_env demo_command) (\<lambda>late. \<not> late)"
proof -
  have "at demo_command ''lease_expires_at'' = JUndefined" "at demo_command ''expires_at'' = JUndefined"
    by (simp_all add: demo_command_def at_def prop_of_def)
  then show ?thesis
    by (simp add: gives_def has_expired_def and_then_def demo_now is_past_def returns_def) (rule exI [of _ False], simp)
qed

abbreviation demo_result :: json where
  "demo_result \<equiv> JObj [(''observationVersion'', JNum (Integer 1)), (''evidenceRefs'', JArr [JStr ''ref:e''])]"

lemma demo_block: "gives (run_block demo_env demo_options demo_lease demo_command) (\<lambda>r. r = Inr (demo_result, demo_result))"
proof -
  have "at demo_command ''secret_refs'' = JUndefined" by (simp add: demo_command_def at_def prop_of_def)
  then have x: "gives (executable_of demo_env demo_command) (\<lambda>_. True)" by (simp add: executable_of_def gives_returns)
  have l: "gives (lifted (Inr demo_result)) (\<lambda>r. r = demo_result)" by (simp add: gives_def lifted_def)
  show ?thesis
    unfolding run_block_def
    by (rule gives_then [OF x], rule gives_then [OF demo_gives(8)], rule gives_then [OF demo_gives(9)])
      (auto intro!: gives_then [OF l] gives_then [OF demo_current] gives_returns)
qed

lemma demo_run: "gives (run_command demo_env demo_options demo_lease demo_command) (\<lambda>x. cr_state x = ''completion_candidate'')"
proof -
  have states: "st \<in> set (en_receiptStates demo_env)" if "st \<in> {''accepted'', ''running'', ''completion_candidate''}" for st
    using that by (auto simp: demo_env_def)
  have early: "gives (sendCommandReceipt demo_env demo_options (receipt_for demo_lease demo_command st n)) (\<lambda>_. True)"
    if "st \<in> {''accepted'', ''running''}" for st n
    by (rule demo_receipt) (use that states in \<open>auto simp: receipt_for_def\<close>)
  let ?rp = "(receipt_for demo_lease demo_command ''completion_candidate'' 3)\<lparr>rp_observation := at demo_result ''observationVersion'',
    rp_evidence := at demo_result ''evidenceRefs'', rp_result := at demo_result ''resultRef'', rp_endpoint := at demo_result ''endpointRef''\<rparr>"
  have "matches EVIDENCE_REFERENCE ''ref:e''" by code_simp
  then have "verified_completion demo_env ?rp"
    by (simp add: verified_completion_def at_def prop_of_def is_safe_integer_def MAX_SAFE_INTEGER_def evidenceReferences_def
        evidence_reference_def uniq_def)
  then have final: "gives (complete demo_env demo_options demo_lease demo_command demo_result demo_result) (\<lambda>x. cr_state x = ''completion_candidate'')"
    unfolding complete_def using demo_settle [of ?rp None] states by (intro gives_catch) (simp add: receipt_for_def)
  show ?thesis
    unfolding run_command_def
    by (rule gives_then [OF demo_current])
      (auto intro!: gives_then [OF early] gives_then [OF gives_catch [OF demo_block]] final)
qed

lemma demo_cycle: "\<exists>x t. executeControlCycle demo_env demo_options demo_start = (Inr [x], t) \<and> cr_state x = ''completion_candidate''"
proof -
  obtain u where u: "client_lease demo_env demo_options demo_start = (Inr demo_lease, u)" using demo_lease_taken by blast
  have "commands_of demo_lease = returns [demo_command]" by (simp add: commands_of_def demo_lease_def at_def prop_of_def)
  moreover obtain x t where "run_command demo_env demo_options demo_lease demo_command u = (Inr x, t)" "cr_state x = ''completion_candidate''"
    using demo_run unfolding gives_def by blast
  ultimately show ?thesis using u by (simp add: executeControlCycle_def and_then_def returns_def)
qed

end
