(* ===== verification/Control_Cycle.thy ===== *)
theory Control_Cycle
  imports Control_Client
begin

text \<open>
  What a cycle of the agent tells the platform and runs: the marks that each operation leaves, the stories of the
  commands, and what the receipts carry.
\<close>

section \<open>What an operation leaves in the record\<close>

text \<open>The acknowledged receipts, by command, state and number, and the calls of the executor.\<close>

datatype mark = Told json json json | Ran json

fun marks :: "agent_event \<Rightarrow> mark list" where
  "marks (Posted path payload p) = []"
| "marks (Acknowledged d) = [Told (at d ''command_id'') (at d ''state'') (at d ''event_sequence'')]"
| "marks (Executed c x) = [Ran (at c ''command_id'')]"

definition trace :: "agent_state \<Rightarrow> mark list" where
  "trace s = concat (map marks (ag_events s))"

definition leaves_no_mark :: "'a act \<Rightarrow> bool" where
  "leaves_no_mark m \<longleftrightarrow> (\<forall>s. trace (snd (m s)) = trace s)"

named_theorems silence \<open>operations that leave no mark\<close>

lemma silent_step: "leaves_no_mark m \<Longrightarrow> m s = (r, t) \<Longrightarrow> trace t = trace s"
  unfolding leaves_no_mark_def by (metis snd_conv)

lemma silent_then [silence]:
  assumes "leaves_no_mark m" and "\<And>x. leaves_no_mark (f x)"
  shows "leaves_no_mark (and_then m f)"
  unfolding leaves_no_mark_def
proof
  fix s
  show "trace (snd (and_then m f s)) = trace s"
    using silent_step [OF assms(1)] silent_step [OF assms(2)]
    by (cases "m s"; cases "fst (m s)") (auto simp: and_then_def split: sum.splits, metis prod.collapse)
qed

lemma silent_returns [silence]: "leaves_no_mark (returns x)" by (simp add: leaves_no_mark_def returns_def)
lemma silent_throws [silence]: "leaves_no_mark (throws x)" by (simp add: leaves_no_mark_def throws_def)
lemma silent_outside [silence]: "leaves_no_mark (outside f)" by (simp add: leaves_no_mark_def outside_def trace_def)
lemma silent_lifted [silence]: "leaves_no_mark (lifted r)" by (simp add: leaves_no_mark_def lifted_def split: sum.split)
lemma silent_demand [silence]: "leaves_no_mark (demand c)" by (simp add: demand_def silence split: option.split)
lemma silent_posted [silence]: "leaves_no_mark (logs (Posted path payload p))" by (simp add: leaves_no_mark_def logs_def trace_def)

lemma silent_nowMs [silence]: "leaves_no_mark (nowMs e)"
  unfolding nowMs_def by (rule silent_then [OF silent_outside]) (simp add: silence split: option.split)

lemma silent_sequence [silence]: "leaves_no_mark (nextSequence e)"
  unfolding nextSequence_def by (rule silent_then [OF silent_nowMs]) (simp add: leaves_no_mark_def trace_def Let_def)

lemma silent_fresh [silence]: "leaves_no_mark (fresh_id e before)" "leaves_no_mark (given_or_fresh e before v)"
  by (simp_all add: fresh_id_def given_or_fresh_def silence)

lemma silent_scope [silence]: "leaves_no_mark (requiredScope opts)"
  by (simp add: requiredScope_def silence)

lemma silent_fields [silence]: "leaves_no_mark (mutationFields e opts correlation idempotency)"
  by (simp add: mutationFields_def silence)

lemma silent_sign [silence]: "leaves_no_mark (signMutation e opts kvs)"
  by (simp add: signMutation_def silence)

lemma silent_post [silence]: "leaves_no_mark (signedMachinePost e opts path payload)"
  by (simp add: signedMachinePost_def Let_def silence)

lemma silent_expired [silence]: "leaves_no_mark (has_expired e c)"
  by (simp add: has_expired_def silence)

lemma silent_executable [silence]: "leaves_no_mark (executable_of e c)"
  by (simp add: executable_of_def silence split: json.split list.split option.split)

lemma silent_commands [silence]: "leaves_no_mark (commands_of lease)"
  by (simp add: commands_of_def silence split: json.split)

lemma silent_binding [silence]: "leaves_no_mark (assertLeaseBinding e opts lease asked)"
proof -
  have "leaves_no_mark (\<lambda>s. if x \<in> set (ag_seen s) then (Inl err, s) else (Inr (), s\<lparr>ag_seen := x # ag_seen s\<rparr>))" for x err
    by (simp add: leaves_no_mark_def trace_def)
  then show ?thesis by (simp add: assertLeaseBinding_def silence)
qed

lemma silent_lease [silence]: "leaves_no_mark (client_lease e opts)"
  by (simp add: client_lease_def silence)

section \<open>Receipts that are acknowledged\<close>

definition FIELD_KEYS :: "string list" where
  "FIELD_KEYS = [''schema_version'', ''organization_id'', ''user_id'', ''agent_id'', ''server_id'', ''request_id'', ''correlation_id'',
     ''idempotency_key'', ''created_at'', ''revision'', ''sequence'']"

lemma mutation_keys: "mutationFields e opts c i s = (Inr fs, t) \<Longrightarrow> map fst fs = FIELD_KEYS"
  by (auto simp: mutationFields_def and_then_Inr requiredScope_def scope_fields_def returns_def FIELD_KEYS_def)

lemma at_append: "k \<notin> fst ` set xs \<Longrightarrow> at (JObj (xs @ ys)) k = at (JObj ys) k"
  by (simp add: at_def prop_of_def map_of_eq_None_iff [THEN iffD2] map_add_def split: option.split)

lemma receipt_fields:
  assumes "map fst fs = FIELD_KEYS"
  shows "at (JObj (receipt_document e opts rp c rid fs)) ''command_id'' = at c ''command_id''"
    and "at (JObj (receipt_document e opts rp c rid fs)) ''state'' = JStr (rp_state rp)"
    and "at (JObj (receipt_document e opts rp c rid fs)) ''event_sequence'' = JNum (Integer (rp_eventSequence rp))"
proof -
  have keys: "fst ` set fs = set FIELD_KEYS" using assms by (metis set_map)
  have away: "''command_id'' \<notin> set FIELD_KEYS" "''state'' \<notin> set FIELD_KEYS" "''event_sequence'' \<notin> set FIELD_KEYS"
    by (simp_all add: FIELD_KEYS_def)
  show "at (JObj (receipt_document e opts rp c rid fs)) ''command_id'' = at c ''command_id''"
    "at (JObj (receipt_document e opts rp c rid fs)) ''state'' = JStr (rp_state rp)"
    "at (JObj (receipt_document e opts rp c rid fs)) ''event_sequence'' = JNum (Integer (rp_eventSequence rp))"
    unfolding receipt_document_def using away
    by (simp_all add: at_append keys) (simp_all add: agent_receipt_body_def at_def prop_of_def)
qed

lemma bound_same: "bound_command rp = Some c \<Longrightarrow> at c ''command_id'' = at (rp_command rp) ''command_id''"
  by (auto simp: bound_command_def leased_command_def find_Some_iff split: option.splits json.splits if_splits)

definition told :: "receipt_call \<Rightarrow> mark" where
  "told rp = Told (at (rp_command rp) ''command_id'') (JStr (rp_state rp)) (JNum (Integer (rp_eventSequence rp)))"

lemma acknowledged_receipt:
  assumes "map fst fs = FIELD_KEYS" and "bound_command rp = Some c"
    and "signMutation e opts (receipt_document e opts rp c rid fs) s = (Inr receipt, t)"
  shows "marks (Acknowledged receipt) = [told rp]"
  using receipt_fields [OF assms(1)] bound_same [OF assms(2)] signed_keeps [OF assms(3)] by (simp add: told_def)

text \<open>An operation that leaves the given marks when it returns, and none when it throws.\<close>

definition tells :: "'a act \<Rightarrow> mark list \<Rightarrow> bool" where
  "tells m ms \<longleftrightarrow> (\<forall>s. trace (snd (m s)) = trace s @ (case fst (m s) of Inl _ \<Rightarrow> [] | Inr _ \<Rightarrow> ms))"

lemma tells_throws: "tells (throws err) ms"
  by (simp add: tells_def throws_def)

lemma tells_after:
  assumes "leaves_no_mark m" and "\<And>s x t. m s = (Inr x, t) \<Longrightarrow> tells (f x) ms"
  shows "tells (and_then m f) ms"
  unfolding tells_def
proof
  fix s
  obtain r t where m: "m s = (r, t)" by (cases "m s")
  have t: "trace t = trace s" by (rule silent_step [OF assms(1) m])
  show "trace (snd (and_then m f s)) = trace s @ (case fst (and_then m f s) of Inl _ \<Rightarrow> [] | Inr _ \<Rightarrow> ms)"
  proof (cases r)
    case (Inl err)
    then show ?thesis using m t by (simp add: and_then_def)
  next
    case (Inr x)
    then show ?thesis using assms(2) [of s x t] m t by (simp add: and_then_def tells_def)
  qed
qed

lemma tells_log: "tells (and_then (logs ev) (\<lambda>_. returns x)) (marks ev)"
  by (simp add: tells_def and_then_def logs_def returns_def trace_def)

lemma tells_then_returns: "tells m ms \<Longrightarrow> tells (and_then m (\<lambda>x. returns (f x))) ms"
  unfolding tells_def
proof
  fix s
  assume "\<forall>s. trace (snd (m s)) = trace s @ (case fst (m s) of Inl _ \<Rightarrow> [] | Inr _ \<Rightarrow> ms)"
  then show "trace (snd (and_then m (\<lambda>x. returns (f x)) s)) =
      trace s @ (case fst (and_then m (\<lambda>x. returns (f x)) s) of Inl _ \<Rightarrow> [] | Inr _ \<Rightarrow> ms)"
    by (cases "m s"; cases "fst (m s)") (auto simp: and_then_def returns_def dest: spec [of _ s])
qed

lemma receipt_tells: "tells (sendCommandReceipt e opts rp) [told rp]"
  unfolding sendCommandReceipt_def
proof (rule tells_after [OF silent_demand], goal_cases)
  case 1
  show ?case
  proof (cases "bound_command rp")
    case None
    then show ?thesis by (simp add: tells_throws)
  next
    case (Some c)
    show ?thesis
      unfolding Some option.case
    proof (rule tells_after [OF silent_demand], rule tells_after [OF silent_fields], goal_cases)
      case (1 s u t v fs w)
      from mutation_keys [OF 1(2)] have keys: "map fst fs = FIELD_KEYS" .
      have ack: "tells (and_then (logs (Acknowledged doc)) (\<lambda>_. returns doc)) [told rp]"
        if "signMutation e opts (receipt_document e opts rp c rid fs) x = (Inr doc, y)" for rid doc x y
        using tells_log [of "Acknowledged doc" doc] acknowledged_receipt [OF keys Some that] by simp
      show ?case
        by (auto intro!: tells_throws tells_after [OF silent_fresh(1)] tells_after [OF silent_sign] tells_after [OF silent_demand]
            tells_after [OF silent_post] ack)
    qed
  qed
qed

lemma settle_tells: "tells (send_and_settle e opts rp code) [told rp]"
  unfolding send_and_settle_def by (rule tells_then_returns [OF receipt_tells])

section \<open>What becomes of a command\<close>

definition answered :: "json \<Rightarrow> string \<Rightarrow> int \<Rightarrow> mark" where
  "answered i st n = Told i (JStr st) (JNum (Integer n))"

definition announced :: "json \<Rightarrow> mark list" where
  "announced i = [answered i ''accepted'' 1, answered i ''running'' 2]"

text \<open>The marks of a command that ends in a state.\<close>

definition stories :: "json \<Rightarrow> string \<Rightarrow> mark list set" where
  "stories i st =
     (if st = ''expired'' then {[answered i st 1], announced i @ [Ran i, answered i st 3]}
      else if st = ''failed'' then {announced i @ [answered i st 3], announced i @ [Ran i, answered i st 3]}
      else if st = ''completion_candidate'' then {announced i @ [Ran i, answered i st 3]}
      else {})"

text \<open>\<open>yields m P\<close>: whatever \<open>m\<close> ends with, it leaves marks that \<open>P\<close> allows.\<close>

definition yields :: "'a act \<Rightarrow> (agent_error + 'a \<Rightarrow> mark list \<Rightarrow> bool) \<Rightarrow> bool" where
  "yields m P \<longleftrightarrow> (\<forall>s. \<exists>ms. trace (snd (m s)) = trace s @ ms \<and> P (fst (m s)) ms)"

lemma yields_tells: "tells m ms \<Longrightarrow> yields m (\<lambda>r xs. xs = (case r of Inl _ \<Rightarrow> [] | Inr _ \<Rightarrow> ms))"
  by (simp add: tells_def yields_def)

lemma yields_silent: "leaves_no_mark m \<Longrightarrow> yields m (\<lambda>r xs. xs = [])"
  by (simp add: leaves_no_mark_def yields_def)

lemma yields_weaken: "yields m P \<Longrightarrow> (\<And>r xs. P r xs \<Longrightarrow> Q r xs) \<Longrightarrow> yields m Q"
  unfolding yields_def by blast

lemma yields_returns: "P (Inr x) [] \<Longrightarrow> yields (returns x) P"
  by (simp add: yields_def returns_def)

lemma yields_throws: "P (Inl err) [] \<Longrightarrow> yields (throws err) P"
  by (simp add: yields_def throws_def)

lemma yields_then:
  assumes "yields m P" and "\<And>x ms. P (Inr x) ms \<Longrightarrow> yields (f x) (\<lambda>r xs. Q r (ms @ xs))" and "\<And>err ms. P (Inl err) ms \<Longrightarrow> Q (Inl err) ms"
  shows "yields (and_then m f) Q"
  unfolding yields_def
proof
  fix s
  obtain r t where m: "m s = (r, t)" by (cases "m s")
  obtain ms where ms: "trace t = trace s @ ms" "P r ms" using assms(1) m unfolding yields_def by (metis fst_conv snd_conv)
  show "\<exists>ms. trace (snd (and_then m f s)) = trace s @ ms \<and> Q (fst (and_then m f s)) ms"
  proof (cases r)
    case (Inl err)
    then show ?thesis using m ms assms(3) by (auto simp: and_then_def)
  next
    case (Inr x)
    then have "yields (f x) (\<lambda>r xs. Q r (ms @ xs))" using assms(2) ms(2) by simp
    then obtain xs where "trace (snd (f x t)) = trace t @ xs" "Q (fst (f x t)) (ms @ xs)" unfolding yields_def by blast
    then show ?thesis using m ms(1) Inr by (auto simp: and_then_def)
  qed
qed

lemma yields_after: "leaves_no_mark m \<Longrightarrow> (\<And>x. yields (f x) Q) \<Longrightarrow> (\<And>err. Q (Inl err) []) \<Longrightarrow> yields (and_then m f) Q"
  by (rule yields_then [OF yields_silent]) auto

lemma yields_catch:
  assumes "yields m P" and "\<And>x ms. P (Inr x) ms \<Longrightarrow> Q (Inr x) ms" and "\<And>err ms. P (Inl err) ms \<Longrightarrow> yields (h err) (\<lambda>r xs. Q r (ms @ xs))"
  shows "yields (or_catch m h) Q"
  unfolding yields_def
proof
  fix s
  obtain r t where m: "m s = (r, t)" by (cases "m s")
  obtain ms where ms: "trace t = trace s @ ms" "P r ms" using assms(1) m unfolding yields_def by (metis fst_conv snd_conv)
  show "\<exists>ms. trace (snd (or_catch m h s)) = trace s @ ms \<and> Q (fst (or_catch m h s)) ms"
  proof (cases r)
    case (Inr x)
    then show ?thesis using m ms assms(2) by (auto simp: or_catch_def)
  next
    case (Inl err)
    then have "yields (h err) (\<lambda>r xs. Q r (ms @ xs))" using assms(3) ms(2) by simp
    then obtain xs where "trace (snd (h err t)) = trace t @ xs" "Q (fst (h err t)) (ms @ xs)" unfolding yields_def by blast
    then show ?thesis using m ms(1) Inl by (auto simp: or_catch_def)
  qed
qed

text \<open>A receipt that settles a command.\<close>

definition settles :: "json \<Rightarrow> string \<Rightarrow> int \<Rightarrow> agent_error + command_result \<Rightarrow> mark list \<Rightarrow> bool" where
  "settles i st n r ms \<longleftrightarrow>
     (case r of Inl _ \<Rightarrow> ms = [] | Inr x \<Rightarrow> ms = [answered i st n] \<and> cr_command x = i \<and> cr_state x = st)"

lemma settle_yields:
  "yields (send_and_settle e opts rp code) (settles (at (rp_command rp) ''command_id'') (rp_state rp) (rp_eventSequence rp))"
  unfolding send_and_settle_def
  by (rule yields_then [OF yields_tells [OF receipt_tells]])
    (auto intro!: yields_returns simp: settles_def settled_def told_def answered_def)

lemma failure_yields: "yields (report_failure e opts lease c err) (settles (at c ''command_id'') ''failed'' 3)"
  using settle_yields [of e opts "(receipt_for lease c ''failed'' 3)\<lparr>rp_errorCode := code_json err\<rparr>"]
  by (simp add: report_failure_def receipt_for_def)

lemma complete_yields:
  "yields (complete e opts lease c result ob)
     (\<lambda>r ms. settles (at c ''command_id'') ''completion_candidate'' 3 r ms \<or> settles (at c ''command_id'') ''failed'' 3 r ms)"
  unfolding complete_def
proof (rule yields_catch [OF settle_yields], goal_cases)
  case (1 x ms)
  then show ?case by (simp add: receipt_for_def)
next
  case (2 err ms)
  then have "ms = []" by (simp add: settles_def)
  then show ?case
    using failure_yields [of e opts lease c err]
    by (auto intro!: yields_throws elim: yields_weaken simp: settles_def)
qed

text \<open>The block leaves the mark of its call, and the receipt if the command expired meanwhile.\<close>

definition block_marks :: "json \<Rightarrow> agent_error + (command_result + 'r) \<Rightarrow> mark list \<Rightarrow> bool" where
  "block_marks i r ms \<longleftrightarrow>
     (case r of
        Inl _ \<Rightarrow> ms = [] \<or> ms = [Ran i]
      | Inr (Inl x) \<Rightarrow> ms = [Ran i, answered i ''expired'' 3] \<and> cr_command x = i \<and> cr_state x = ''expired''
      | Inr (Inr _) \<Rightarrow> ms = [Ran i])"

lemma block_yields: "yields (run_block e opts lease c) (block_marks (at c ''command_id''))"
  unfolding run_block_def
proof (rule yields_after [OF silent_executable], goal_cases)
  case (1 x)
  have log: "yields (logs (Executed c x)) (\<lambda>r ms. ms = [Ran (at c ''command_id'')] \<and> isl r = False)"
    by (simp add: yields_def logs_def trace_def)
  let ?expired = "receipt_for lease c ''expired'' 3"
  have settle: "yields (send_and_settle e opts ?expired None) (settles (at c ''command_id'') ''expired'' 3)"
    using settle_yields [of e opts ?expired None] by (simp add: receipt_for_def)
  show ?case
    by (rule yields_then [OF log])
      (auto simp: block_marks_def settles_def silence
        intro!: yields_after [OF silent_outside] yields_after [OF silent_lifted] yields_after [OF silent_expired] yields_returns
          yields_then [OF settle] split: option.split)
qed (simp add: block_marks_def)

definition ends :: "json \<Rightarrow> agent_error + command_result \<Rightarrow> mark list \<Rightarrow> bool" where
  "ends i r ms \<longleftrightarrow>
     (case r of
        Inr x \<Rightarrow> cr_command x = i \<and> ms \<in> stories i (cr_state x)
      | Inl _ \<Rightarrow> \<exists>st full. full \<in> stories i st \<and> prefix ms full)"

lemma cut_short: "prefix ms (announced i @ [Ran i, answered i ''expired'' 3]) \<Longrightarrow> ends i (Inl err) ms"
  unfolding ends_def sum.case stories_def by (rule exI [of _ "''expired''"]) auto

lemma receipt_yields:
  "yields (sendCommandReceipt e opts (receipt_for lease c st n))
     (\<lambda>r xs. xs = (case r of Inl _ \<Rightarrow> [] | Inr _ \<Rightarrow> [answered (at c ''command_id'') st n]))"
proof -
  have told: "told (receipt_for lease c st n) = answered (at c ''command_id'') st n"
    by (simp add: told_def receipt_for_def answered_def)
  show ?thesis using yields_tells [OF receipt_tells, of e opts "receipt_for lease c st n"] unfolding told .
qed

lemma guarded_block_yields:
  "yields (or_catch (run_block e opts lease c) (\<lambda>err. and_then (report_failure e opts lease c err) (\<lambda>r. returns (Inl r))))
     (\<lambda>r ms. case r of
        Inl _ \<Rightarrow> ms = [] \<or> ms = [Ran (at c ''command_id'')]
      | Inr (Inl x) \<Rightarrow> cr_command x = at c ''command_id'' \<and> announced (at c ''command_id'') @ ms \<in> stories (at c ''command_id'') (cr_state x)
      | Inr (Inr _) \<Rightarrow> ms = [Ran (at c ''command_id'')])"
proof (rule yields_catch [OF block_yields], goal_cases)
  case (1 x ms)
  then show ?case by (auto simp: block_marks_def stories_def split: sum.splits)
next
  case (2 err ms)
  then have ms: "ms = [] \<or> ms = [Ran (at c ''command_id'')]" by (simp add: block_marks_def)
  show ?case
    by (rule yields_then [OF failure_yields]) (use ms in \<open>auto simp: settles_def stories_def intro!: yields_returns\<close>)
qed

lemma command_yields: "yields (run_command e opts lease c) (ends (at c ''command_id''))"
proof -
  let ?i = "at c ''command_id''"
  have early: "yields (send_and_settle e opts (receipt_for lease c ''expired'' 1) None) (ends ?i)"
    by (rule yields_weaken [OF settle_yields]) (auto simp: settles_def ends_def stories_def receipt_for_def split: sum.splits)
  have rest: "yields (and_then (or_catch (run_block e opts lease c) (\<lambda>err. and_then (report_failure e opts lease c err) (\<lambda>r. returns (Inl r))))
      (\<lambda>r. case r of Inl late_one \<Rightarrow> returns late_one | Inr (result, ob) \<Rightarrow> complete e opts lease c result ob))
      (\<lambda>r ms. ends ?i r (announced ?i @ ms))"
  proof (rule yields_then [OF guarded_block_yields], goal_cases)
    case (1 r ms)
    show ?case
    proof (cases r)
      case (Inl x)
      then show ?thesis using 1 by (auto simp: ends_def intro!: yields_returns)
    next
      case (Inr p)
      then have ms: "ms = [Ran ?i]" using 1 by (cases p) simp
      have ended: "ends ?i q (announced ?i @ [Ran ?i] @ xs)" if "settles ?i st 3 q xs" "st \<in> {''completion_candidate'', ''failed''}" for q xs st
      proof (cases q)
        case (Inl err)
        then have "xs = []" using that(1) by (simp add: settles_def)
        then show ?thesis unfolding Inl by (intro cut_short) simp
      next
        case (Inr x)
        then show ?thesis using that by (auto simp: settles_def ends_def stories_def)
      qed
      show ?thesis
        unfolding ms Inr sum.case case_prod_beta by (rule yields_weaken [OF complete_yields]) (use ended in blast)
    qed
  next
    case (2 err ms)
    then show ?case by (auto intro!: cut_short)
  qed
  show ?thesis
    unfolding run_command_def
  proof (rule yields_after [OF silent_expired], goal_cases)
    case (1 late)
    show ?case
    proof (cases late)
      case True
      then show ?thesis using early by simp
    next
      case False
      have "yields (and_then (sendCommandReceipt e opts (receipt_for lease c ''accepted'' 1)) (\<lambda>_.
          and_then (sendCommandReceipt e opts (receipt_for lease c ''running'' 2)) (\<lambda>_.
          and_then (or_catch (run_block e opts lease c) (\<lambda>err. and_then (report_failure e opts lease c err) (\<lambda>r. returns (Inl r))))
            (\<lambda>r. case r of Inl late_one \<Rightarrow> returns late_one | Inr (result, ob) \<Rightarrow> complete e opts lease c result ob)))) (ends ?i)"
        by (rule yields_then [OF receipt_yields], rule yields_then [OF receipt_yields])
          (use rest in \<open>auto intro!: cut_short simp: announced_def\<close>)
      then show ?thesis using False by simp
    qed
  qed (auto intro!: cut_short)
qed

text \<open>The marks of several commands: whole stories, and at most one that was cut short.\<close>

definition all_end :: "json list \<Rightarrow> agent_error + command_result list \<Rightarrow> mark list \<Rightarrow> bool" where
  "all_end ids r ms \<longleftrightarrow>
     (case r of
        Inr xs \<Rightarrow> map cr_command xs = ids \<and> (\<exists>tss. ms = concat tss \<and> list_all2 (\<lambda>x ts. ts \<in> stories (cr_command x) (cr_state x)) xs tss)
      | Inl _ \<Rightarrow> \<exists>tss. ms = concat tss \<and> (\<forall>ts\<in>set tss. \<exists>i st full. full \<in> stories i st \<and> prefix ts full))"

lemma commands_yield: "yields (run_commands e opts lease cs) (all_end (map (\<lambda>c. at c ''command_id'') cs))"
proof (induction cs)
  case Nil
  show ?case by (auto simp: all_end_def intro!: yields_returns)
next
  case (Cons c cs)
  let ?i = "at c ''command_id''" and ?is = "map (\<lambda>c. at c ''command_id'') cs"
  have "yields (and_then (run_commands e opts lease cs) (\<lambda>rs. returns (x # rs))) (\<lambda>r xs. all_end (?i # ?is) r (ms @ xs))"
    if "ends ?i (Inr x) ms" for x ms
  proof (rule yields_then [OF Cons], goal_cases)
    case (1 rs ts)
    then obtain tss where "ts = concat tss" "list_all2 (\<lambda>x ts. ts \<in> stories (cr_command x) (cr_state x)) rs tss" "map cr_command rs = ?is"
      by (auto simp: all_end_def)
    then show ?case
      using that by (auto simp: all_end_def ends_def intro!: yields_returns exI [of _ "ms # tss"])
  next
    case (2 err ts)
    then obtain tss where "ts = concat tss" "\<forall>ts\<in>set tss. \<exists>i st full. full \<in> stories i st \<and> prefix ts full" by (auto simp: all_end_def)
    moreover have "\<exists>i st full. full \<in> stories i st \<and> prefix ms full" using that unfolding ends_def by auto
    ultimately have "ms @ ts = concat (ms # tss) \<and> (\<forall>ts\<in>set (ms # tss). \<exists>i st full. full \<in> stories i st \<and> prefix ts full)"
      by simp
    then show ?case unfolding all_end_def sum.case by (rule exI)
  qed
  then show ?case
    unfolding run_commands.simps list.map
    by (rule yields_then [OF command_yields]) (simp, auto simp: all_end_def ends_def intro!: exI [of _ "[_]"], blast)
qed

lemma all_end_early: "all_end ids (Inl err) []"
  by (auto simp: all_end_def intro!: exI [of _ "[]"])

lemma cycle_yields: "yields (executeControlCycle e opts) (\<lambda>r ms. \<exists>ids. all_end ids r ms)"
  unfolding executeControlCycle_def
  by (rule yields_after [OF silent_lease], rule yields_after [OF silent_commands])
    (auto intro: yields_weaken [OF commands_yield] all_end_early)

lemma commands_of_lease: "commands_of lease s = (Inr cs, t) \<Longrightarrow> at lease ''commands'' = JArr cs \<and> t = s"
  by (auto simp: commands_of_def returns_def throws_def split: json.splits)

text \<open>
  C27. A cycle that ends answers every command of the lease that it took, in the order of the lease, and says how: the
  results are one for each command and carry the commands' ids, and for each of them the platform has acknowledged
  receipts with the numbers 1, 2, 3 in order, of which the last and only the last is final and has the state of
  the result, and the executor was called at most once, between the receipts that announced the command
  and the final one; an expired command is answered without a call if it expired before it was announced.
\<close>

theorem finished_cycle_answers_every_command:
  assumes "executeControlCycle e opts s = (Inr results, t)"
  shows "\<exists>lease u cs tss. client_lease e opts s = (Inr lease, u) \<and> at lease ''commands'' = JArr cs \<and>
     map cr_command results = map (\<lambda>c. at c ''command_id'') cs \<and>
     trace t = trace s @ concat tss \<and> list_all2 (\<lambda>x ts. ts \<in> stories (cr_command x) (cr_state x)) results tss"
proof -
  obtain lease u cs where lease: "client_lease e opts s = (Inr lease, u)" and cs: "at lease ''commands'' = JArr cs"
    and run: "run_commands e opts lease cs u = (Inr results, t)"
    using assms by (auto simp: executeControlCycle_def and_then_Inr dest!: commands_of_lease)
  obtain ms where "trace t = trace u @ ms" "all_end (map (\<lambda>c. at c ''command_id'') cs) (Inr results) ms"
    using commands_yield [of e opts lease cs] run unfolding yields_def by (metis fst_conv snd_conv)
  then show ?thesis using lease cs silent_step [OF silent_lease lease] by (auto simp: all_end_def)
qed

theorem finished_cycle_answers_every_command_witness:
  "\<exists>x t. executeControlCycle demo_env demo_options demo_start = (Inr [x], t) \<and> cr_command x = JStr ''c'' \<and>
     trace t \<in> stories (JStr ''c'') ''completion_candidate''"
proof -
  obtain x t where x: "executeControlCycle demo_env demo_options demo_start = (Inr [x], t)" "cr_state x = ''completion_candidate''"
    using demo_cycle by blast
  obtain u where "client_lease demo_env demo_options demo_start = (Inr demo_lease, u)" using demo_lease_taken by blast
  moreover have "at demo_lease ''commands'' = JArr [demo_command]" "at demo_command ''command_id'' = JStr ''c''"
    by (simp_all add: demo_lease_def demo_command_def at_def prop_of_def)
  ultimately show ?thesis
    using finished_cycle_answers_every_command [OF x(1)] x by (auto simp: list_all2_Cons1 demo_start_def trace_def)
qed

definition runs_announced :: "mark list \<Rightarrow> bool" where
  "runs_announced ms \<longleftrightarrow> (\<forall>a i b. ms = a @ Ran i # b \<longrightarrow> suffix (announced i) a)"

lemma story_announced: "full \<in> stories i st \<Longrightarrow> prefix ms full \<Longrightarrow> runs_announced ms"
  unfolding runs_announced_def
proof (intro allI impI)
  fix a j b assume full: "full \<in> stories i st" and "prefix ms full" and "ms = a @ Ran j # b"
  then obtain c where "full = a @ Ran j # c" by (auto simp: prefix_def)
  then show "suffix (announced j) a"
    using full by (auto simp: stories_def announced_def answered_def append_eq_Cons_conv split: if_splits)
qed

lemma append_announced:
  assumes "runs_announced xs" and "runs_announced ys"
  shows "runs_announced (xs @ ys)"
  unfolding runs_announced_def
proof (intro allI impI)
  fix a i b assume eq: "xs @ ys = a @ Ran i # b"
  show "suffix (announced i) a"
  proof (cases "length xs \<le> length a")
    case True
    then obtain a' where "a = xs @ a'" "ys = a' @ Ran i # b" using eq by (auto simp: append_eq_append_conv2)
    then show ?thesis using assms(2) unfolding runs_announced_def by (metis suffix_appendI)
  next
    case False
    then obtain us where us: "xs = a @ us" "us @ ys = Ran i # b" "us \<noteq> []"
      using eq by (auto simp: append_eq_append_conv2)
    then obtain b' where "xs = a @ Ran i # b'" by (cases us) auto
    then show ?thesis using assms(1) unfolding runs_announced_def by blast
  qed
qed

lemma concat_announced: "(\<forall>ts\<in>set tss. runs_announced ts) \<Longrightarrow> runs_announced (concat tss)"
  by (induction tss) (auto intro: append_announced simp: runs_announced_def [of "[]"])

lemma all_end_announced: "all_end ids r ms \<Longrightarrow> runs_announced ms"
proof (cases r)
  case (Inl err)
  assume "all_end ids r ms"
  then show ?thesis using Inl story_announced by (auto simp: all_end_def intro!: concat_announced)
next
  case (Inr xs)
  assume "all_end ids r ms"
  then obtain tss where "ms = concat tss" "list_all2 (\<lambda>x ts. ts \<in> stories (cr_command x) (cr_state x)) xs tss"
    using Inr by (auto simp: all_end_def)
  then show ?thesis using story_announced by (fastforce simp: list_all2_conv_all_nth in_set_conv_nth intro!: concat_announced)
qed

text \<open>
  C28. The executor is called for a command only directly after the platform has acknowledged that the command was
  accepted and is running, in every cycle, also in one that fails on the way.
\<close>

theorem commands_run_only_when_announced:
  assumes "executeControlCycle e opts s = (r, t)" and "trace t = trace s @ a @ Ran i # b"
  shows "suffix (announced i) a"
proof -
  obtain ms ids where "trace t = trace s @ ms" "all_end ids r ms"
    using cycle_yields [of e opts] assms(1) unfolding yields_def by (metis fst_conv snd_conv)
  then show ?thesis using all_end_announced assms(2) unfolding runs_announced_def by auto
qed

theorem commands_run_only_when_announced_witness:
  "\<exists>i a b r t. executeControlCycle demo_env demo_options demo_start = (r, t) \<and> trace t = a @ Ran i # b \<and> suffix (announced i) a"
proof -
  obtain x t where x: "executeControlCycle demo_env demo_options demo_start = (Inr [x], t)" "cr_state x = ''completion_candidate''"
    using demo_cycle by blast
  obtain ms ids where ms: "trace t = trace demo_start @ ms" "all_end ids (Inr [x]) ms"
    using cycle_yields [of demo_env demo_options] x(1) unfolding yields_def by (metis fst_conv snd_conv)
  then have "trace t = announced (cr_command x) @ Ran (cr_command x) # [answered (cr_command x) ''completion_candidate'' 3]"
    using x(2) by (auto simp: all_end_def list_all2_Cons1 stories_def demo_start_def trace_def)
  moreover from this have "trace t = trace demo_start @ announced (cr_command x) @ Ran (cr_command x) #
      [answered (cr_command x) ''completion_candidate'' 3]" by (simp add: demo_start_def trace_def)
  from commands_run_only_when_announced [OF x(1) this] have "suffix (announced (cr_command x)) (announced (cr_command x))" .
  ultimately show ?thesis using x(1) by blast
qed

section \<open>What receipts say\<close>
















end
