(* ===== verification/Agent_Daemon.thy ===== *)
theory Agent_Daemon
  imports Control_Cycle
begin

text \<open>
  The loop of \<open>server-agent/daemon.mjs\<close> over cycles and uploads of resource samples, the sequence numbers that it
  sends, and the leases that it takes.
\<close>

section \<open>Sequence numbers\<close>

fun sequence_in :: "agent_event \<Rightarrow> int list" where
  "sequence_in (Posted path payload p) = (case at payload ''sequence'' of JNum (Integer n) \<Rightarrow> [n] | _ \<Rightarrow> [])"
| "sequence_in _ = []"

definition sequences :: "agent_state \<Rightarrow> int list" where
  "sequences s = concat (map sequence_in (ag_events s))"

text \<open>What was sent is increasing and at most the agent's number; a number is new if everything sent is below it.\<close>

definition ordered :: "agent_state \<Rightarrow> bool" where
  "ordered s \<longleftrightarrow> 0 \<le> ag_sequence s \<and> sorted_wrt (<) (sequences s) \<and> (\<forall>n\<in>set (sequences s). n \<le> ag_sequence s)"

definition new_number :: "int \<Rightarrow> agent_state \<Rightarrow> bool" where
  "new_number n s \<longleftrightarrow> ordered s \<and> ag_sequence s = n \<and> (\<forall>m\<in>set (sequences s). m < n)"

text \<open>An operation that sends no document and leaves the numbers alone.\<close>

definition calm :: "'a act \<Rightarrow> bool" where
  "calm m \<longleftrightarrow> (\<forall>s. ag_sequence (snd (m s)) = ag_sequence s \<and> sequences (snd (m s)) = sequences s)"

named_theorems calmness \<open>operations that leave the sequence numbers alone\<close>

lemma calm_step: "calm m \<Longrightarrow> m s = (r, t) \<Longrightarrow> ag_sequence t = ag_sequence s \<and> sequences t = sequences s"
  unfolding calm_def by (metis snd_conv)

lemma calm_then [calmness]:
  assumes "calm m" and "\<And>x. calm (f x)"
  shows "calm (and_then m f)"
  unfolding calm_def
proof
  fix s
  obtain r t where m: "m s = (r, t)" by (cases "m s")
  show "ag_sequence (snd (and_then m f s)) = ag_sequence s \<and> sequences (snd (and_then m f s)) = sequences s"
  proof (cases r)
    case (Inr x)
    then show ?thesis using calm_step [OF assms(1) m] assms(2) [of x] m by (simp add: and_then_def calm_def)
  qed (use calm_step [OF assms(1) m] m in \<open>simp add: and_then_def\<close>)
qed

lemma calm_returns [calmness]: "calm (returns x)" by (simp add: calm_def returns_def)
lemma calm_throws [calmness]: "calm (throws x)" by (simp add: calm_def throws_def)
lemma calm_outside [calmness]: "calm (outside f)" by (simp add: calm_def outside_def sequences_def)
lemma calm_lifted [calmness]: "calm (lifted r)" by (simp add: calm_def lifted_def split: sum.split)
lemma calm_demand [calmness]: "calm (demand c)" by (simp add: demand_def calmness split: option.split)
lemma calm_acknowledged [calmness]: "calm (logs (Acknowledged d))" by (simp add: calm_def logs_def sequences_def)
lemma calm_executed [calmness]: "calm (logs (Executed c x))" by (simp add: calm_def logs_def sequences_def)

lemma calm_nowMs [calmness]: "calm (nowMs e)"
  unfolding nowMs_def by (rule calm_then [OF calm_outside]) (simp add: calmness split: option.split)

lemma calm_fresh [calmness]: "calm (fresh_id e before)" "calm (given_or_fresh e before v)"
  by (simp_all add: fresh_id_def given_or_fresh_def calmness)

lemma calm_scope [calmness]: "calm (requiredScope opts)"
  by (simp add: requiredScope_def calmness)

lemma calm_sign [calmness]: "calm (signMutation e opts kvs)"
  by (simp add: signMutation_def calmness)

lemma calm_expired [calmness]: "calm (has_expired e c)"
  by (simp add: has_expired_def calmness)

lemma calm_executable [calmness]: "calm (executable_of e c)"
  by (simp add: executable_of_def calmness split: json.split list.split option.split)

lemma calm_commands [calmness]: "calm (commands_of lease)"
  by (simp add: commands_of_def calmness split: json.split)

lemma calm_binding [calmness]: "calm (assertLeaseBinding e opts lease asked)"
proof -
  have "calm (\<lambda>s. if x \<in> set (ag_seen s) then (Inl err, s) else (Inr (), s\<lparr>ag_seen := x # ag_seen s\<rparr>))" for x err
    by (simp add: calm_def sequences_def)
  then show ?thesis by (simp add: assertLeaseBinding_def calmness)
qed

lemma next_is_new:
  assumes "ordered s" and "nextSequence e s = (Inr n, t)"
  shows "new_number n t"
proof -
  obtain now u where "nowMs e s = (Inr now, u)" "t = u\<lparr>ag_sequence := n\<rparr>"
    "n = max (if ag_sequence u + 1 = 0 then 1 else ag_sequence u + 1) now"
    using assms(2) by (auto simp: nextSequence_def and_then_Inr Let_def)
  then show ?thesis
    using assms(1) calm_step [OF calm_nowMs] by (fastforce simp: ordered_def new_number_def sequences_def)
qed

lemma next_throws: "nextSequence e s = (Inl err, t) \<Longrightarrow> ordered s \<Longrightarrow> ordered t"
  using calm_step [OF calm_nowMs] by (fastforce simp: nextSequence_def and_then_Inl Let_def ordered_def)

text \<open>\<open>triple P m Q\<close>: from \<open>P\<close>, \<open>m\<close> returns with \<open>Q\<close> or throws with the numbers in order.\<close>

definition then_holds :: "(agent_error + 'a) \<times> agent_state \<Rightarrow> ('a \<Rightarrow> agent_state \<Rightarrow> bool) \<Rightarrow> bool" where
  "then_holds r Q \<longleftrightarrow> (case fst r of Inl _ \<Rightarrow> ordered (snd r) | Inr x \<Rightarrow> Q x (snd r))"

definition triple :: "(agent_state \<Rightarrow> bool) \<Rightarrow> 'a act \<Rightarrow> ('a \<Rightarrow> agent_state \<Rightarrow> bool) \<Rightarrow> bool" where
  "triple P m Q \<longleftrightarrow> (\<forall>s. P s \<longrightarrow> then_holds (m s) Q)"

lemma then_holds_simps [simp]: "then_holds (Inl err, t) Q = ordered t" "then_holds (Inr x, t) Q = Q x t"
  by (simp_all add: then_holds_def)

lemma new_is_ordered: "new_number n s \<Longrightarrow> ordered s"
  by (simp add: new_number_def)

lemma triple_then:
  assumes "triple P m Q" and "\<And>x. triple (Q x) (f x) R"
  shows "triple P (and_then m f) R"
  unfolding triple_def
proof (intro allI impI)
  fix s assume "P s"
  obtain r t where m: "m s = (r, t)" by (cases "m s")
  have "then_holds (r, t) Q" using assms(1) \<open>P s\<close> m unfolding triple_def by metis
  then show "then_holds (and_then m f s) R" using assms(2) m by (cases r) (simp_all add: and_then_def triple_def)
qed

lemma triple_from: "triple P m Q \<Longrightarrow> (\<And>s. P' s \<Longrightarrow> P s) \<Longrightarrow> triple P' m Q"
  unfolding triple_def by blast

lemma triple_calm:
  assumes "calm m"
  shows "triple ordered m (\<lambda>_. ordered)" and "triple (new_number n) m (\<lambda>_. new_number n)"
proof -
  have "ordered (snd (m s)) = ordered s" "new_number n (snd (m s)) = new_number n s" for s
    using assms by (simp_all add: calm_def ordered_def new_number_def)
  then show "triple ordered m (\<lambda>_. ordered)" "triple (new_number n) m (\<lambda>_. new_number n)"
    using new_is_ordered by (auto simp: triple_def then_holds_def split: sum.split)
qed

lemma triple_throws: "(\<And>s. P s \<Longrightarrow> ordered s) \<Longrightarrow> triple P (throws err) Q"
  by (simp add: triple_def throws_def)

lemma triple_ex: "(\<And>n. triple (P n) m Q) \<Longrightarrow> triple (\<lambda>s. \<exists>n. P n s) m Q"
  unfolding triple_def by blast

lemma triple_fact: "(A \<Longrightarrow> triple P m Q) \<Longrightarrow> triple (\<lambda>s. A \<and> P s) m Q"
  unfolding triple_def by blast

lemma triple_next: "triple ordered (nextSequence e) new_number"
proof -
  have "then_holds (nextSequence e s) new_number" if "ordered s" for s
    using next_is_new [OF that] next_throws [OF _ that] by (cases "nextSequence e s"; cases "fst (nextSequence e s)") auto
  then show ?thesis by (simp add: triple_def)
qed

lemma triple_fields:
  "triple ordered (mutationFields e opts c i) (\<lambda>fs t. \<exists>n. at (JObj fs) ''sequence'' = JNum (Integer n) \<and> new_number n t)"
proof -
  have at_end: "at (JObj ([(''schema_version'', v)] @ fs @ [(''request_id'', r), (''correlation_id'', c), (''idempotency_key'', i),
      (''created_at'', d), (''revision'', x), (''sequence'', y)])) ''sequence'' = y" if "fs = scope_fields opts" for v fs r c i d x y
    by (simp add: that scope_fields_def at_def prop_of_def)
  have scope: "triple ordered (requiredScope opts) (\<lambda>fs t. fs = scope_fields opts \<and> ordered t)"
    by (auto simp: triple_def requiredScope_def and_then_def returns_def demand_def throws_def split: option.split)
  show ?thesis
    unfolding mutationFields_def
    by (rule triple_then [OF triple_calm(1) [OF calm_nowMs]], rule triple_then [OF scope], rule triple_fact,
        rule triple_then [OF triple_calm(1) [OF calm_fresh(1)]], rule triple_then [OF triple_calm(1) [OF calm_fresh(2)]],
        rule triple_then [OF triple_calm(1) [OF calm_fresh(2)]], rule triple_then [OF triple_next])
      (auto simp only: at_end triple_def returns_def then_holds_simps)
qed

lemma triple_sign:
  "triple (new_number n) (signMutation e opts kvs) (\<lambda>doc t. at doc ''sequence'' = at (JObj kvs) ''sequence'' \<and> new_number n t)"
proof -
  have "then_holds (signMutation e opts kvs s) (\<lambda>doc t. at doc ''sequence'' = at (JObj kvs) ''sequence'' \<and> new_number n t)"
    if "new_number n s" for s
  proof (cases "signMutation e opts kvs s")
    case (Pair r t)
    have "then_holds (r, t) (\<lambda>_. new_number n)" using triple_calm(2) [OF calm_sign] that Pair unfolding triple_def by metis
    then show ?thesis using signed_keeps [of e opts kvs s] Pair by (cases r) auto
  qed
  then show ?thesis by (simp add: triple_def)
qed

lemma triple_post:
  assumes "at payload ''sequence'' = JNum (Integer n)"
  shows "triple (new_number n) (signedMachinePost e opts path payload) (\<lambda>_. ordered)"
proof -
  have log: "triple (new_number n) (logs (Posted path payload p)) (\<lambda>_. ordered)" for p
    using assms by (auto simp: triple_def logs_def new_number_def ordered_def sequences_def sorted_wrt_append)
  show ?thesis
    unfolding signedMachinePost_def Let_def
    by (rule triple_then [OF triple_calm(2) [OF calm_nowMs]], rule triple_then [OF triple_calm(2) [OF calm_outside]],
        rule triple_then [OF triple_calm(2) [OF calm_lifted]], rule triple_then [OF log],
        rule triple_then [OF triple_calm(1) [OF calm_outside]], rule triple_calm(1) [OF calm_lifted])
qed

lemma calm_plain_post:
  assumes "at payload ''sequence'' = JUndefined"
  shows "calm (signedMachinePost e opts path payload)"
proof -
  have "calm (logs (Posted path payload p))" for p using assms by (simp add: calm_def logs_def sequences_def)
  then show ?thesis by (simp add: signedMachinePost_def Let_def calmness)
qed

text \<open>A document whose fields begin with those of a mutation, signed, checked and sent.\<close>

lemma triple_document:
  assumes "at (JObj kvs) ''sequence'' = JNum (Integer n)" and "\<And>doc r. triple ordered (f doc r) Q"
  shows "triple (new_number n) (and_then (signMutation e opts kvs) (\<lambda>doc. and_then (demand (check doc)) (\<lambda>_.
    and_then (signedMachinePost e opts path doc) (f doc)))) Q"
  by (rule triple_then [OF triple_sign], rule triple_fact, rule triple_then [OF triple_calm(2) [OF calm_demand]],
      rule triple_then [OF triple_post], simp add: assms(1), rule assms(2))

lemma sequence_first: "at (JObj fs) ''sequence'' = JNum n \<Longrightarrow> at (JObj (fs @ gs)) ''sequence'' = JNum n"
  by (auto simp: at_def prop_of_def map_add_def split: option.splits)

lemma triple_lease: "triple ordered (client_lease e opts) (\<lambda>_. ordered)"
  unfolding client_lease_def
proof (rule triple_then [OF triple_fields], rule triple_ex, rule triple_fact, rule triple_document, goal_cases)
  case (1 fs n)
  then show ?case unfolding agent_lease_request_def by (rule sequence_first)
next
  case (2 fs n doc r)
  show ?case by (rule triple_calm(1)) (simp add: calmness)
qed

lemma triple_receipt: "triple ordered (sendCommandReceipt e opts rp) (\<lambda>_. ordered)"
  unfolding sendCommandReceipt_def
proof (rule triple_then [OF triple_calm(1) [OF calm_demand]], goal_cases)
  case 1
  show ?case
  proof (cases "bound_command rp")
    case None
    then show ?thesis by (simp add: triple_throws)
  next
    case (Some c)
    have final: "triple ordered (if \<not> pa_ok r then throws err else and_then (logs (Acknowledged d)) (\<lambda>_. returns d)) (\<lambda>_. ordered)"
      for r err d
      by (rule triple_calm(1)) (simp add: calmness)
    show ?thesis
      unfolding Some option.case
    proof (rule triple_then [OF triple_calm(1) [OF calm_demand]], rule triple_then [OF triple_fields], rule triple_ex,
        rule triple_fact, goal_cases)
      case (1 u fs n)
      have doc: "at (JObj (receipt_document e opts rp c rid fs)) ''sequence'' = JNum (Integer n)" for rid
        unfolding receipt_document_def by (rule sequence_first [OF 1])
      have "triple (new_number n) (and_then (fresh_id e ''receipt_'') (\<lambda>rid. and_then (signMutation e opts (receipt_document e opts rp c rid fs))
          (\<lambda>receipt. and_then (demand (en_receipt e receipt)) (\<lambda>_. and_then (signedMachinePost e opts RECEIPTS_PATH receipt) (\<lambda>r.
            if \<not> pa_ok r then throws (parseControlResponse e (pa_body r) ''command_receipt_failed'' (pa_status r))
            else and_then (logs (Acknowledged receipt)) (\<lambda>_. returns receipt)))))) (\<lambda>_. ordered)"
        by (rule triple_then [OF triple_calm(2) [OF calm_fresh(1)]], rule triple_document [OF doc final])
      moreover have "triple (new_number n) (throws Unverified :: json act) (\<lambda>_. ordered)"
        by (rule triple_throws [OF new_is_ordered])
      ultimately show ?case by simp
    qed
  qed
qed

lemma triple_catch: "triple P m Q \<Longrightarrow> (\<And>err. triple ordered (h err) Q) \<Longrightarrow> triple P (or_catch m h) Q"
  unfolding triple_def
proof (intro allI impI)
  fix s assume *: "\<forall>s. P s \<longrightarrow> then_holds (m s) Q" "\<And>err. \<forall>s. ordered s \<longrightarrow> then_holds (h err s) Q" "P s"
  obtain r t where m: "m s = (r, t)" by (cases "m s")
  have "then_holds (r, t) Q" using *(1,3) m by metis
  then show "then_holds (or_catch m h s) Q" using *(2) m by (cases r) (simp_all add: or_catch_def)
qed

lemma triple_settle: "triple ordered (send_and_settle e opts rp code) (\<lambda>_. ordered)"
  unfolding send_and_settle_def by (rule triple_then [OF triple_receipt], rule triple_calm(1) [OF calm_returns])

lemma triple_failure: "triple ordered (report_failure e opts lease c err) (\<lambda>_. ordered)"
  unfolding report_failure_def by (rule triple_settle)

lemma triple_complete: "triple ordered (complete e opts lease c result ob) (\<lambda>_. ordered)"
  unfolding complete_def by (rule triple_catch [OF triple_settle]) (simp add: triple_failure triple_throws)

lemma triple_block: "triple ordered (run_block e opts lease c) (\<lambda>_. ordered)"
proof -
  have observing: "triple ordered (case en_observe e of None \<Rightarrow> returns (Inr (result, result))
      | Some observe \<Rightarrow> and_then (outside (\<lambda>n. observe n result)) (\<lambda>r. and_then (lifted r) (\<lambda>ob. returns (Inr (result, ob)))))
      (\<lambda>_. ordered)" for result
    by (rule triple_calm(1)) (simp add: calmness split: option.split)
  have late: "triple ordered (and_then (send_and_settle e opts (receipt_for lease c ''expired'' 3) None) (\<lambda>r. returns (Inl r)))
      (\<lambda>_. ordered)"
    by (rule triple_then [OF triple_settle], rule triple_calm(1) [OF calm_returns])
  show ?thesis
    unfolding run_block_def
    by (rule triple_then [OF triple_calm(1) [OF calm_executable]], rule triple_then [OF triple_calm(1) [OF calm_executed]],
        rule triple_then [OF triple_calm(1) [OF calm_outside]], rule triple_then [OF triple_calm(1) [OF calm_lifted]],
        rule triple_then [OF triple_calm(1) [OF calm_expired]]) (simp add: observing late)
qed

lemma triple_command: "triple ordered (run_command e opts lease c) (\<lambda>_. ordered)"
proof -
  have handler: "triple ordered (and_then (report_failure e opts lease c err) (\<lambda>r. returns (Inl r))) (\<lambda>_. ordered)" for err
    by (rule triple_then [OF triple_failure], rule triple_calm(1) [OF calm_returns])
  have finish: "triple ordered (case r of Inl late_one \<Rightarrow> returns late_one | Inr (result, ob) \<Rightarrow> complete e opts lease c result ob)
      (\<lambda>_. ordered)" for r
    by (simp add: triple_calm(1) [OF calm_returns] triple_complete split: sum.split prod.split)
  have busy: "triple ordered (and_then (sendCommandReceipt e opts (receipt_for lease c ''accepted'' 1)) (\<lambda>_.
      and_then (sendCommandReceipt e opts (receipt_for lease c ''running'' 2)) (\<lambda>_.
      and_then (or_catch (run_block e opts lease c) (\<lambda>err. and_then (report_failure e opts lease c err) (\<lambda>r. returns (Inl r))))
        (\<lambda>r. case r of Inl late_one \<Rightarrow> returns late_one | Inr (result, ob) \<Rightarrow> complete e opts lease c result ob)))) (\<lambda>_. ordered)"
    by (rule triple_then [OF triple_receipt], rule triple_then [OF triple_receipt],
        rule triple_then [OF triple_catch [OF triple_block handler]], rule finish)
  show ?thesis
    unfolding run_command_def by (rule triple_then [OF triple_calm(1) [OF calm_expired]]) (simp add: busy triple_settle)
qed

lemma triple_commands: "triple ordered (run_commands e opts lease cs) (\<lambda>_. ordered)"
proof (induction cs)
  case (Cons c cs)
  show ?case
    unfolding run_commands.simps
    by (rule triple_then [OF triple_command], rule triple_then [OF Cons], rule triple_calm(1) [OF calm_returns])
qed (simp add: triple_calm(1) [OF calm_returns])

lemma triple_cycle: "triple ordered (executeControlCycle e opts) (\<lambda>_. ordered)"
  unfolding executeControlCycle_def
  by (rule triple_then [OF triple_lease], rule triple_then [OF triple_calm(1) [OF calm_commands]], rule triple_commands)

lemma triple_ordered: "triple ordered m (\<lambda>_. ordered) \<Longrightarrow> ordered s \<Longrightarrow> ordered (snd (m s))"
  unfolding triple_def then_holds_def by (auto split: sum.splits)

lemma calm_samples: "calm (sendResourceSamples e opts samples)"
proof -
  have plain: "at (JObj [(''serverId'', x), (''samples'', y)]) ''sequence'' = JUndefined" for x y
    by (simp add: at_def prop_of_def)
  show ?thesis unfolding sendResourceSamples_def Let_def by (simp add: calmness calm_plain_post [OF plain])
qed

section \<open>The daemon\<close>

text \<open>
  One turn of the loop of \<open>runControlDaemon\<close>: a cycle, whose failure is logged, and the resource samples when they are
  due. The daemon passes no clock of its own, so \<open>nowMs\<close> is \<open>Date.now\<close>, which always has a value.
\<close>

record daemon_state =
  dm_agent :: agent_state
  dm_nextResourceAt :: instant

definition present :: "agent_env \<Rightarrow> agent_state \<Rightarrow> instant \<times> agent_state" where
  "present e s = (or_else (en_time e (ag_step s)) 0, s\<lparr>ag_step := ag_step s + 1\<rparr>)"

definition report_resources :: "agent_env \<Rightarrow> agent_options \<Rightarrow> (nat \<Rightarrow> failure + json) \<Rightarrow> json act" where
  "report_resources e opts collect = and_then (outside collect) (\<lambda>r. and_then (lifted r) (sendResourceSamples e opts))"

definition daemon_turn ::
  "agent_env \<Rightarrow> agent_options \<Rightarrow> int \<Rightarrow> (nat \<Rightarrow> failure + json) option \<Rightarrow> daemon_state \<Rightarrow> daemon_state" where
  "daemon_turn e opts interval collect d =
     (let s1 = snd (executeControlCycle e opts (dm_agent d)); (now, s2) = present e s1
      in case collect of
           None \<Rightarrow> d\<lparr>dm_agent := s2\<rparr>
         | Some f \<Rightarrow>
             if now < dm_nextResourceAt d then d\<lparr>dm_agent := s2\<rparr>
             else (let (later, s3) = present e s2
                   in \<lparr>dm_agent = snd (report_resources e opts f s3), dm_nextResourceAt = later + interval\<rparr>))"

fun daemon_turns :: "nat \<Rightarrow> agent_env \<Rightarrow> agent_options \<Rightarrow> int \<Rightarrow> (nat \<Rightarrow> failure + json) option \<Rightarrow> daemon_state \<Rightarrow> daemon_state" where
  "daemon_turns 0 e opts interval collect d = d"
| "daemon_turns (Suc n) e opts interval collect d = daemon_turns n e opts interval collect (daemon_turn e opts interval collect d)"

definition started_daemon :: "instant \<Rightarrow> daemon_state" where
  "started_daemon now =
     \<lparr>dm_agent = \<lparr>ag_step = 0, ag_sequence = now, ag_seen = [], ag_events = []\<rparr>, dm_nextResourceAt = 0\<rparr>"

lemma present_keeps: "ag_sequence (snd (present e s)) = ag_sequence s" "sequences (snd (present e s)) = sequences s"
    "ag_seen (snd (present e s)) = ag_seen s"
  by (simp_all add: present_def sequences_def)

lemma calm_resources: "calm (report_resources e opts collect)"
  by (simp add: report_resources_def calmness calm_samples)

lemma turn_ordered:
  assumes "ordered (dm_agent d)"
  shows "ordered (dm_agent (daemon_turn e opts interval collect d))"
proof -
  define s1 where "s1 = snd (executeControlCycle e opts (dm_agent d))"
  define s2 where "s2 = snd (present e s1)"
  define s3 where "s3 = snd (present e s2)"
  have s1: "ordered s1" unfolding s1_def by (rule triple_ordered [OF triple_cycle assms])
  have s2: "ordered s2" using s1 by (simp add: s2_def ordered_def present_keeps)
  have s3: "ordered s3" using s2 by (simp add: s3_def ordered_def present_keeps)
  have "ordered (snd (report_resources e opts f s3))" for f
    by (rule triple_ordered [OF triple_calm(1) [OF calm_resources] s3])
  then show ?thesis
    using s2 by (auto simp: daemon_turn_def s1_def [symmetric] s2_def s3_def case_prod_beta Let_def split: option.split)
qed

text \<open>
  C29. The documents an agent sends carry increasing sequence numbers, over any number of turns of the daemon, with
  cycles and uploads that succeed or fail, and with a clock that may run backwards.
\<close>

theorem control_sequences_increase:
  assumes "0 \<le> now"
  shows "sorted_wrt (<) (sequences (dm_agent (daemon_turns n e opts interval collect (started_daemon now))))"
proof -
  have "ordered (dm_agent (daemon_turns n e opts interval collect d))" if "ordered (dm_agent d)" for d
    using that by (induction n arbitrary: d) (simp_all add: turn_ordered)
  moreover have "ordered (dm_agent (started_daemon now))" using assms by (simp add: started_daemon_def ordered_def sequences_def)
  ultimately show ?thesis by (simp add: ordered_def)
qed

theorem control_sequences_increase_witness:
  "sorted_wrt (<) (sequences (dm_agent (daemon_turns 2 demo_env demo_options 10000 None (started_daemon 7))))"
  by (rule control_sequences_increase) simp

section \<open>Leases are taken once\<close>

definition grows :: "'a act \<Rightarrow> bool" where
  "grows m \<longleftrightarrow> (\<forall>s. set (ag_seen s) \<subseteq> set (ag_seen (snd (m s))))"

named_theorems growth \<open>operations that forget no lease\<close>

lemma grows_step: "grows m \<Longrightarrow> m s = (r, t) \<Longrightarrow> set (ag_seen s) \<subseteq> set (ag_seen t)"
  unfolding grows_def by (metis snd_conv)

lemma grows_then [growth]:
  assumes "grows m" and "\<And>x. grows (f x)"
  shows "grows (and_then m f)"
  unfolding grows_def
proof
  fix s
  obtain r t where m: "m s = (r, t)" by (cases "m s")
  show "set (ag_seen s) \<subseteq> set (ag_seen (snd (and_then m f s)))"
    using grows_step [OF assms(1) m] assms(2) m unfolding grows_def and_then_def by (cases r) fastforce+
qed

lemma grows_catch [growth]:
  assumes "grows m" and "\<And>err. grows (h err)"
  shows "grows (or_catch m h)"
  unfolding grows_def
proof
  fix s
  obtain r t where m: "m s = (r, t)" by (cases "m s")
  show "set (ag_seen s) \<subseteq> set (ag_seen (snd (or_catch m h s)))"
    using grows_step [OF assms(1) m] assms(2) m unfolding grows_def or_catch_def by (cases r) fastforce+
qed

lemma grows_basic [growth]:
  "grows (returns x)" "grows (throws err)" "grows (outside f)" "grows (logs ev)"
  by (simp_all add: grows_def returns_def throws_def outside_def logs_def)

lemma grows_lifted [growth]: "grows (lifted r)"
  by (simp add: grows_def lifted_def split: sum.split)

lemma grows_demand [growth]: "grows (demand c)"
  by (simp add: demand_def growth split: option.split)

lemma grows_clock [growth]: "grows (nowMs e)" "grows (nextSequence e)"
proof -
  show now: "grows (nowMs e)" unfolding nowMs_def by (rule grows_then) (simp_all add: growth split: option.split)
  show "grows (nextSequence e)" unfolding nextSequence_def by (rule grows_then [OF now]) (simp add: grows_def Let_def)
qed

lemma grows_parts [growth]:
  "grows (fresh_id e before)" "grows (given_or_fresh e before v)" "grows (requiredScope opts)" "grows (signMutation e opts kvs)"
  "grows (signedMachinePost e opts path payload)" "grows (has_expired e c)"
  by (simp_all add: fresh_id_def given_or_fresh_def requiredScope_def signMutation_def signedMachinePost_def has_expired_def
      Let_def growth)

lemma grows_fields [growth]: "grows (mutationFields e opts c i)"
  by (simp add: mutationFields_def growth)

lemma grows_binding [growth]: "grows (assertLeaseBinding e opts lease asked)"
proof -
  have "grows (\<lambda>s. if x \<in> set (ag_seen s) then (Inl err, s) else (Inr (), s\<lparr>ag_seen := x # ag_seen s\<rparr>))" for x err
    by (auto simp: grows_def)
  then show ?thesis by (simp add: assertLeaseBinding_def growth)
qed

lemma grows_receipt [growth]: "grows (sendCommandReceipt e opts rp)"
  by (simp add: sendCommandReceipt_def growth split: option.split)

lemma grows_block [growth]:
  "grows (send_and_settle e opts rp code)" "grows (report_failure e opts lease c err)" "grows (executable_of e c)"
  "grows (run_block e opts lease c)" "grows (complete e opts lease c result ob)"
proof -
  show settle: "grows (send_and_settle e opts rp code)" for rp code by (simp add: send_and_settle_def growth)
  show failure: "grows (report_failure e opts lease c err)" for err by (simp add: report_failure_def settle)
  show executable: "grows (executable_of e c)"
    by (simp add: executable_of_def growth split: json.split list.split option.split)
  show "grows (run_block e opts lease c)" by (simp add: run_block_def growth settle executable split: option.split)
  show "grows (complete e opts lease c result ob)" by (simp add: complete_def growth settle failure)
qed

lemma grows_command [growth]: "grows (run_command e opts lease c)"
  by (simp add: run_command_def growth split: sum.split prod.split)

lemma grows_commands [growth]: "grows (run_commands e opts lease cs)"
  by (induction cs) (simp_all add: growth)

lemma grows_rest: "grows (and_then (commands_of lease) (run_commands e opts lease))"
  by (simp add: commands_of_def growth split: json.split)

lemma grows_lease [growth]: "grows (client_lease e opts)"
  by (simp add: client_lease_def growth)

lemma grows_cycle [growth]: "grows (executeControlCycle e opts)"
  unfolding executeControlCycle_def by (rule grows_then [OF grows_lease grows_rest])

lemma grows_resources [growth]: "grows (report_resources e opts collect)"
  by (simp add: report_resources_def sendResourceSamples_def Let_def growth)

text \<open>When the operation returns, it has taken a lease that had not been taken.\<close>

definition takes :: "('a \<Rightarrow> json) \<Rightarrow> 'a act \<Rightarrow> bool" where
  "takes k m \<longleftrightarrow> (\<forall>s x t. m s = (Inr x, t) \<longrightarrow> k x \<notin> set (ag_seen s) \<and> k x \<in> set (ag_seen t))"

lemma takes_after: "grows m \<Longrightarrow> (\<And>x. takes k (f x)) \<Longrightarrow> takes k (and_then m f)"
  unfolding takes_def and_then_Inr using grows_step by blast

lemma takes_throws: "takes k (throws err)"
  by (simp add: takes_def throws_def)

lemma takes_returns: "takes (\<lambda>_. k x) m \<Longrightarrow> takes k (and_then m (\<lambda>_. returns x))"
  by (auto simp: takes_def and_then_Inr returns_def)

lemma binding_takes: "takes (\<lambda>_. at lease ''lease_id'') (assertLeaseBinding e opts lease asked)"
proof -
  have "takes (\<lambda>_. x) (\<lambda>s. if x \<in> set (ag_seen s) then (Inl err, s) else (Inr (), s\<lparr>ag_seen := x # ag_seen s\<rparr>))" for x err
    by (auto simp: takes_def split: if_splits)
  then show ?thesis by (simp add: assertLeaseBinding_def takes_after growth)
qed

lemma lease_takes: "takes (\<lambda>lease. at lease ''lease_id'') (client_lease e opts)"
  unfolding client_lease_def
  by (auto intro!: takes_after takes_throws takes_returns binding_takes simp: growth)

lemma turn_grows:
  "set (ag_seen (snd (executeControlCycle e opts (dm_agent d)))) \<subseteq> set (ag_seen (dm_agent (daemon_turn e opts interval collect d)))"
proof -
  have "set (ag_seen s) \<subseteq> set (ag_seen (snd (report_resources e opts f s)))" for f s
    using grows_resources [of e opts f] by (simp add: grows_def)
  from this [of "snd (present e (snd (present e s)))" for s] show ?thesis
    by (auto simp: daemon_turn_def case_prod_beta Let_def present_keeps split: option.split)
qed

lemma turns_grow: "set (ag_seen (dm_agent d)) \<subseteq> set (ag_seen (dm_agent (daemon_turns n e opts interval collect d)))"
proof (induction n arbitrary: d)
  case (Suc n)
  have "set (ag_seen (dm_agent d)) \<subseteq> set (ag_seen (snd (executeControlCycle e opts (dm_agent d))))"
    using grows_cycle [of e opts] by (simp add: grows_def)
  also have "\<dots> \<subseteq> set (ag_seen (dm_agent (daemon_turn e opts interval collect d)))" by (rule turn_grows)
  finally show ?case using Suc by fastforce
qed simp

text \<open>
  C30. A lease is taken once: a lease that the agent has taken in one turn of its daemon is refused in every later
  turn, whether its commands were run, failed or were not reached.
\<close>

theorem a_lease_is_taken_once:
  assumes "client_lease e opts (dm_agent d) = (Inr lease, s)" and "at lease2 ''lease_id'' = at lease ''lease_id''"
  shows "fst (client_lease e opts (dm_agent (daemon_turns n e opts interval collect (daemon_turn e opts interval collect d))))
    \<noteq> Inr lease2"
proof
  let ?later = "dm_agent (daemon_turns n e opts interval collect (daemon_turn e opts interval collect d))"
  assume "fst (client_lease e opts ?later) = Inr lease2"
  then obtain u where "client_lease e opts ?later = (Inr lease2, u)" by (metis prod.collapse)
  then have "at lease2 ''lease_id'' \<notin> set (ag_seen ?later)" using lease_takes [of e opts] unfolding takes_def by blast
  moreover have "at lease ''lease_id'' \<in> set (ag_seen s)" using lease_takes [of e opts] assms(1) unfolding takes_def by blast
  moreover have "set (ag_seen s) \<subseteq> set (ag_seen (snd (executeControlCycle e opts (dm_agent d))))"
    using grows_rest [of lease e opts] assms(1) unfolding grows_def executeControlCycle_def and_then_def [of "client_lease e opts"]
    by simp
  ultimately show False
    using turn_grows [of e opts d interval collect] turns_grow [of "daemon_turn e opts interval collect d" n e opts interval collect] assms(2)
    by auto
qed

theorem a_lease_is_taken_once_witness:
  "\<exists>s d. client_lease demo_env demo_options demo_start = (Inr demo_lease, s) \<and> dm_agent d = demo_start \<and>
     fst (client_lease demo_env demo_options (dm_agent (daemon_turns 0 demo_env demo_options 1 None
       (daemon_turn demo_env demo_options 1 None d)))) \<noteq> Inr demo_lease"
proof -
  define d where "d = started_daemon 0"
  have d: "dm_agent d = demo_start" by (simp add: d_def started_daemon_def demo_start_def)
  obtain s where s: "client_lease demo_env demo_options (dm_agent d) = (Inr demo_lease, s)" using demo_lease_taken d by auto
  from a_lease_is_taken_once [OF s refl, of 0 1 None] s d show ?thesis by (intro exI [of _ s] exI [of _ d]) simp
qed

end
