(* ===== verification/Host_Files.thy ===== *)
theory Host_Files
  imports Effects "HOL-Library.AList" "HOL-Library.Sublist"
begin

text \<open>
  The files of a server as the agent's code uses them through \<open>node:fs\<close> and \<open>node:path\<close>: a list of entries by
  absolute path, each a file with its content, a folder, a symbolic link or a special file, and the calls of the
  source as functions that give the next files or the error the call throws. A path is the list of its segments.
  A link at the end of a path is followed by the calls that follow links; links before the end of a path are not
  modelled, nor are permissions, owners and a full disk.
\<close>

section \<open>Paths\<close>

type_synonym path = "string list"

definition step_path :: "path \<Rightarrow> string \<Rightarrow> path" where
  "step_path p seg = (if seg \<in> {[], ''.''} then p else if seg = ''..'' then butlast p else p @ [seg])"

text \<open>\<open>path.join(base, text)\<close> with an absolute base, \<open>path.resolve(base, text)\<close> and the text of a path.\<close>

definition join_path :: "path \<Rightarrow> string \<Rightarrow> path" where
  "join_path base t = fold (\<lambda>seg p. step_path p seg) (split_on CHR ''/'' t) base"

definition resolve_path :: "path \<Rightarrow> string \<Rightarrow> path" where
  "resolve_path base t = join_path (if starts_with ''/'' t then [] else base) t"

definition path_text :: "path \<Rightarrow> string" where
  "path_text p = (if p = [] then ''/'' else concat (map (\<lambda>seg. CHR ''/'' # seg) p))"

text \<open>A name without a slash that is not a dot is one segment.\<close>

definition plain_name :: "string \<Rightarrow> bool" where
  "plain_name t \<longleftrightarrow> t \<notin> {[], ''.'', ''..''} \<and> CHR ''/'' \<notin> set t"

lemma join_plain: "plain_name t \<Longrightarrow> join_path p t = p @ [t]"
  by (simp add: plain_name_def join_path_def split_on_plain step_path_def)

lemma resolve_plain: "plain_name t \<Longrightarrow> resolve_path p t = p @ [t]"
  by (cases t) (auto simp: resolve_path_def join_plain starts_with_def plain_name_def)

section \<open>Entries\<close>

datatype node = File string | Folder | Link path | Special

type_synonym files = "(path \<times> node) list"

definition node_at :: "files \<Rightarrow> path \<Rightarrow> node option" where
  "node_at fs p = (if p = [] then Some Folder else map_of fs p)"

definition put_node :: "path \<Rightarrow> node \<Rightarrow> files \<Rightarrow> files" where
  "put_node p n fs = AList.update p n fs"

lemma node_at_root [simp]: "node_at fs [] = Some Folder"
  by (simp add: node_at_def)

lemma node_at_put [simp]: "node_at (put_node p n fs) q = (if q = p \<and> p \<noteq> [] then Some n else node_at fs q)"
  by (simp add: node_at_def put_node_def update_conv')

fun follow :: "nat \<Rightarrow> files \<Rightarrow> path \<Rightarrow> path option" where
  "follow 0 fs p = None"
| "follow (Suc n) fs p = (case node_at fs p of Some (Link q) \<Rightarrow> follow n fs q | _ \<Rightarrow> Some p)"

text \<open>The kernel gives up after forty links.\<close>

definition real_path :: "files \<Rightarrow> path \<Rightarrow> path option" where
  "real_path fs p = follow (Suc 40) fs p"

definition is_link :: "node option \<Rightarrow> bool" where
  "is_link n \<longleftrightarrow> (case n of Some (Link _) \<Rightarrow> True | _ \<Rightarrow> False)"

lemma real_path_plain: "\<not> is_link (node_at fs p) \<Longrightarrow> real_path fs p = Some p"
  unfolding real_path_def follow.simps by (auto simp: is_link_def split: option.splits node.splits)

definition stat_of :: "files \<Rightarrow> path \<Rightarrow> node option" where
  "stat_of fs p = Option.bind (real_path fs p) (node_at fs)"

lemma stat_of_plain: "\<not> is_link (node_at fs p) \<Longrightarrow> stat_of fs p = node_at fs p"
  by (simp add: stat_of_def real_path_plain)

section \<open>The calls\<close>

definition os_error :: "string \<Rightarrow> failure" where
  "os_error code = CodedError code None"

definition existsSync :: "files \<Rightarrow> path \<Rightarrow> bool" where
  "existsSync fs p \<longleftrightarrow> stat_of fs p \<noteq> None"

definition readFileSync :: "files \<Rightarrow> path \<Rightarrow> failure + string" where
  "readFileSync fs p =
     (case real_path fs p of None \<Rightarrow> Inl (os_error ''ELOOP'')
      | Some q \<Rightarrow> (case node_at fs q of
          Some (File t) \<Rightarrow> Inr t
        | None \<Rightarrow> Inl (os_error ''ENOENT'')
        | Some Folder \<Rightarrow> Inl (os_error ''EISDIR'')
        | Some _ \<Rightarrow> Inl (os_error ''EINVAL'')))"

text \<open>A file that is created needs its folder; a special file takes what is written and stays what it is.\<close>

definition writeFileSync :: "path \<Rightarrow> string \<Rightarrow> files \<Rightarrow> failure + files" where
  "writeFileSync p t fs =
     (case real_path fs p of None \<Rightarrow> Inl (os_error ''ELOOP'')
      | Some q \<Rightarrow> (case node_at fs q of
          Some Folder \<Rightarrow> Inl (os_error ''EISDIR'')
        | Some Special \<Rightarrow> Inr fs
        | Some _ \<Rightarrow> Inr (put_node q (File t) fs)
        | None \<Rightarrow> if node_at fs (butlast q) = Some Folder then Inr (put_node q (File t) fs) else Inl (os_error ''ENOENT'')))"

definition copyFileSync :: "path \<Rightarrow> path \<Rightarrow> files \<Rightarrow> failure + files" where
  "copyFileSync p q fs = (case readFileSync fs p of Inl err \<Rightarrow> Inl err | Inr t \<Rightarrow> writeFileSync q t fs)"

text \<open>\<open>mkdirSync\<close> with \<open>recursive\<close>: every missing folder on the way.\<close>

definition make_folder :: "path \<Rightarrow> path \<Rightarrow> files \<Rightarrow> failure + files" where
  "make_folder p q fs =
     (case node_at fs q of None \<Rightarrow> Inr (put_node q Folder fs)
      | Some _ \<Rightarrow> if stat_of fs q = Some Folder then Inr fs else Inl (os_error (if q = p then ''EEXIST'' else ''ENOTDIR'')))"

fun make_folders :: "path \<Rightarrow> path list \<Rightarrow> files \<Rightarrow> failure + files" where
  "make_folders p [] fs = Inr fs"
| "make_folders p (q # qs) fs = (case make_folder p q fs of Inl err \<Rightarrow> Inl err | Inr fs' \<Rightarrow> make_folders p qs fs')"

definition mkdirSync :: "path \<Rightarrow> files \<Rightarrow> failure + files" where
  "mkdirSync p fs = make_folders p (prefixes p) fs"

definition under :: "path \<Rightarrow> files \<Rightarrow> files" where
  "under p fs = filter (\<lambda>e. prefix p (fst e)) fs"

definition without_tree :: "path \<Rightarrow> files \<Rightarrow> files" where
  "without_tree p fs = filter (\<lambda>e. \<not> prefix p (fst e)) fs"

text \<open>\<open>rmSync\<close> with \<open>force\<close>, with and without \<open>recursive\<close>.\<close>

definition rmSync :: "path \<Rightarrow> files \<Rightarrow> failure + files" where
  "rmSync p fs = (if node_at fs p = Some Folder then Inl (os_error ''ERR_FS_EISDIR'') else Inr (without_tree p fs))"

definition rm_recursive :: "path \<Rightarrow> files \<Rightarrow> failure + files" where
  "rm_recursive p fs = Inr (without_tree p fs)"

definition moved :: "path \<Rightarrow> path \<Rightarrow> path \<Rightarrow> path" where
  "moved p q r = q @ drop (length p) r"

text \<open>The tree at \<open>p\<close> of \<open>source\<close> placed at \<open>q\<close>.\<close>

definition graft :: "path \<Rightarrow> path \<Rightarrow> files \<Rightarrow> files \<Rightarrow> files" where
  "graft p q source fs =
     fold (\<lambda>e. case node_at source (fst e) of Some n \<Rightarrow> put_node (moved p q (fst e)) n | None \<Rightarrow> (\<lambda>x. x)) (under p source) fs"

text \<open>The entries of a folder, in the order the files are listed.\<close>

definition child_paths :: "files \<Rightarrow> path \<Rightarrow> path list" where
  "child_paths fs p = filter (\<lambda>q. q \<noteq> [] \<and> butlast q = p) (remdups (map fst fs))"

definition children :: "files \<Rightarrow> path \<Rightarrow> (string \<times> node) list" where
  "children fs p = map (\<lambda>q. (last q, case node_at fs q of Some n \<Rightarrow> n | None \<Rightarrow> Special)) (child_paths fs p)"

definition readdirSync :: "files \<Rightarrow> path \<Rightarrow> failure + (string \<times> node) list" where
  "readdirSync fs p =
     (case real_path fs p of None \<Rightarrow> Inl (os_error ''ELOOP'')
      | Some q \<Rightarrow> (case node_at fs q of
          None \<Rightarrow> Inl (os_error ''ENOENT'')
        | Some Folder \<Rightarrow> Inr (children fs q)
        | Some _ \<Rightarrow> Inl (os_error ''ENOTDIR'')))"

definition renameSync :: "path \<Rightarrow> path \<Rightarrow> files \<Rightarrow> failure + files" where
  "renameSync p q fs =
     (case node_at fs p of None \<Rightarrow> Inl (os_error ''ENOENT'')
      | Some n \<Rightarrow>
          if node_at fs (butlast q) \<noteq> Some Folder then Inl (os_error ''ENOENT'')
          else if n = Folder \<and> node_at fs q \<notin> {None, Some Folder} then Inl (os_error ''ENOTDIR'')
          else if n = Folder \<and> children fs q \<noteq> [] then Inl (os_error ''ENOTEMPTY'')
          else if n \<noteq> Folder \<and> node_at fs q = Some Folder then Inl (os_error ''EISDIR'')
          else if p = q then Inr fs
          else Inr (graft p q fs (without_tree q (without_tree p fs))))"

text \<open>\<open>cpSync\<close> with \<open>recursive\<close> copies links as links and refuses special files.\<close>

definition cpSync :: "path \<Rightarrow> path \<Rightarrow> files \<Rightarrow> failure + files" where
  "cpSync p q fs =
     (if node_at fs p = None then Inl (os_error ''ENOENT'')
      else if \<exists>e\<in>set (under p fs). snd e = Special then Inl (os_error ''ERR_FS_CP_UNKNOWN'')
      else Inr (graft p q fs fs))"

section \<open>Walking a tree\<close>

text \<open>Entries below a folder; the folders of a list and all that is below them bound every walk that goes down.\<close>

definition below :: "files \<Rightarrow> path \<Rightarrow> path set" where
  "below fs p = {q \<in> fst ` set fs. strict_prefix p q}"

definition walk_size :: "files \<Rightarrow> path list \<Rightarrow> nat" where
  "walk_size fs ps = sum_list (map (\<lambda>p. Suc (card (below fs p))) ps)"

lemma finite_below [simp]: "finite (below fs p)"
  by (simp add: below_def)

lemma child_paths_distinct [simp]: "distinct (child_paths fs p)"
  by (simp add: child_paths_def)

lemma child_paths_below: "q \<in> set (child_paths fs p) \<Longrightarrow> q \<in> below fs p \<and> (\<exists>x. q = p @ [x])"
proof -
  assume q: "q \<in> set (child_paths fs p)"
  then have "q = p @ [last q]" using append_butlast_last_id [of q] by (auto simp: child_paths_def)
  moreover have "q \<in> fst ` set fs" using q by (simp add: child_paths_def)
  ultimately show ?thesis by (metis (lifting) below_def mem_Collect_eq prefixI strict_prefix_def append_self_conv not_Cons_self2)
qed

lemma below_trans: "q \<in> below fs p \<Longrightarrow> below fs q \<subseteq> below fs p"
  by (auto simp: below_def intro: prefix_order.less_trans)

text \<open>What is below different entries of one folder is apart.\<close>

lemma below_children_disjoint:
  assumes "q \<in> set (child_paths fs p)" "r \<in> set (child_paths fs p)" "q \<noteq> r"
  shows "insert q (below fs q) \<inter> insert r (below fs r) = {}"
proof -
  obtain x y where q: "q = p @ [x]" and r: "r = p @ [y]" using child_paths_below assms(1,2) by blast
  with assms(3) have "x \<noteq> y" by simp
  then have "\<not> (prefix q t \<and> prefix r t)" for t unfolding q r by (auto simp: prefix_def)
  then show ?thesis by (auto simp: below_def strict_prefix_def)
qed

lemma walk_size_children: "walk_size fs (child_paths fs p) \<le> card (below fs p)"
proof -
  have "walk_size fs (child_paths fs p) = (\<Sum>q\<in>set (child_paths fs p). card (insert q (below fs q)))"
    by (simp add: walk_size_def sum_list_distinct_conv_sum_set) (rule sum.cong; simp add: below_def)
  also have "\<dots> = card (\<Union>q\<in>set (child_paths fs p). insert q (below fs q))"
    by (rule card_UN_disjoint [symmetric]) (auto dest: below_children_disjoint)
  also have "\<dots> \<le> card (below fs p)"
    by (rule card_mono) (auto dest: child_paths_below below_trans)
  finally show ?thesis .
qed

lemma walk_size_simps [simp]:
  "walk_size fs [] = 0" "walk_size fs (p # ps) = Suc (card (below fs p)) + walk_size fs ps"
  "walk_size fs (ps @ qs) = walk_size fs ps + walk_size fs qs" "walk_size fs (rev ps) = walk_size fs ps"
  by (simp_all add: walk_size_def rev_map [symmetric])

lemma walk_size_filter: "walk_size fs (filter P ps) \<le> walk_size fs ps"
  by (induction ps) auto

lemmas walk_descends = order.trans [OF walk_size_filter walk_size_children] walk_size_children

section \<open>What the calls do to an entry\<close>

lemma map_of_filter_key: "map_of (filter (\<lambda>e. P (fst e)) xs) k = (if P k then map_of xs k else None)"
  by (induction xs) auto

lemma node_at_without [simp]: "p \<noteq> [] \<Longrightarrow> node_at (without_tree p fs) q = (if prefix p q then None else node_at fs q)"
  using map_of_filter_key [of "\<lambda>k. \<not> prefix p k" fs q] by (auto simp: node_at_def without_tree_def)

lemma writeFileSync_plain:
  assumes "writeFileSync p t fs = Inr fs'" and "\<not> is_link (node_at fs p)" and "node_at fs p \<noteq> Some Special"
  shows "fs' = put_node p (File t) fs" and "p \<noteq> []"
  using assms by (auto simp: writeFileSync_def real_path_plain split: option.splits node.splits if_splits)

lemma writeFileSync_stores:
  assumes "writeFileSync p t fs = Inr fs'" and "\<not> is_link (node_at fs p)" and "node_at fs p \<noteq> Some Special"
  shows "node_at fs' q = (if q = p then Some (File t) else node_at fs q)"
  using writeFileSync_plain [OF assms] by simp

lemma writeFileSync_elsewhere:
  assumes "writeFileSync p t fs = Inr fs'" and "\<not> is_link (node_at fs p)"
  shows "q \<noteq> p \<Longrightarrow> node_at fs' q = node_at fs q" and "\<not> is_link (node_at fs' p)"
proof -
  have "node_at fs p = Some Special \<Longrightarrow> fs' = fs"
    using assms by (auto simp: writeFileSync_def real_path_plain split: option.splits node.splits)
  then show "q \<noteq> p \<Longrightarrow> node_at fs' q = node_at fs q" "\<not> is_link (node_at fs' p)"
    using writeFileSync_stores [OF assms] assms(2) by (cases "node_at fs p = Some Special"; auto simp: is_link_def)+
qed

lemma readFileSync_plain: "readFileSync fs p = Inr t \<Longrightarrow> \<not> is_link (node_at fs p) \<Longrightarrow> node_at fs p = Some (File t)"
  by (auto simp: readFileSync_def real_path_plain split: option.splits node.splits)

lemma readFileSync_File: "node_at fs p = Some (File t) \<Longrightarrow> readFileSync fs p = Inr t"
  by (simp add: readFileSync_def real_path_plain is_link_def)

lemma existsSync_plain: "\<not> is_link (node_at fs p) \<Longrightarrow> existsSync fs p \<longleftrightarrow> node_at fs p \<noteq> None"
  by (simp add: existsSync_def stat_of_plain)

lemma make_folder_keeps: "make_folder p r fs = Inr fs' \<Longrightarrow> node_at fs q \<noteq> None \<Longrightarrow> node_at fs' q = node_at fs q"
  by (auto simp: make_folder_def split: option.splits if_splits)

lemma make_folders_keeps: "make_folders p qs fs = Inr fs' \<Longrightarrow> node_at fs q \<noteq> None \<Longrightarrow> node_at fs' q = node_at fs q"
proof (induction p qs fs rule: make_folders.induct)
  case (2 p r qs fs)
  then show ?case by (auto split: sum.splits dest: make_folder_keeps)
qed simp

lemma mkdirSync_keeps: "mkdirSync p fs = Inr fs' \<Longrightarrow> node_at fs q \<noteq> None \<Longrightarrow> node_at fs' q = node_at fs q"
  unfolding mkdirSync_def by (rule make_folders_keeps)

lemma make_folders_elsewhere: "make_folders p qs fs = Inr fs' \<Longrightarrow> q \<notin> set qs \<Longrightarrow> node_at fs' q = node_at fs q"
proof (induction p qs fs rule: make_folders.induct)
  case (2 p r qs fs)
  then show ?case by (auto simp: make_folder_def split: sum.splits option.splits if_splits)
qed simp

lemma mkdirSync_elsewhere: "mkdirSync p fs = Inr fs' \<Longrightarrow> \<not> prefix q p \<Longrightarrow> node_at fs' q = node_at fs q"
  unfolding mkdirSync_def by (rule make_folders_elsewhere) auto

lemma make_folders_made: "make_folders p qs fs = Inr fs' \<Longrightarrow> q \<in> set qs \<Longrightarrow> q \<noteq> [] \<Longrightarrow> \<not> is_link (node_at fs q) \<Longrightarrow> node_at fs' q = Some Folder"
proof (induction p qs fs rule: make_folders.induct)
  case (2 p r qs fs)
  then obtain fs1 where one: "make_folder p r fs = Inr fs1" and rest: "make_folders p qs fs1 = Inr fs'"
    by (auto split: sum.splits)
  show ?case
  proof (cases "q = r")
    case True
    then have "node_at fs1 q = Some Folder"
      using one 2 by (auto simp: make_folder_def stat_of_plain split: option.splits if_splits)
    then show ?thesis using make_folders_keeps [OF rest, of q] by simp
  next
    case False
    have "\<not> is_link (node_at fs1 q)"
      using one False 2 by (auto simp: make_folder_def split: option.splits if_splits)
    then show ?thesis using 2 one rest False by auto
  qed
qed simp

lemma mkdirSync_made: "mkdirSync p fs = Inr fs' \<Longrightarrow> \<not> is_link (node_at fs p) \<Longrightarrow> node_at fs' p = Some Folder"
  unfolding mkdirSync_def by (cases "p = []") (auto intro: make_folders_made)

lemma node_at_graft:
  assumes "p \<noteq> []" "q \<noteq> []"
  shows "node_at (graft p q source fs) r =
    (if prefix q r \<and> node_at source (p @ drop (length q) r) \<noteq> None then node_at source (p @ drop (length q) r) else node_at fs r)"
proof -
  let ?put = "\<lambda>e. case node_at source (fst e) of Some n \<Rightarrow> put_node (moved p q (fst e)) n | None \<Rightarrow> (\<lambda>x. x)"
  have "node_at (fold ?put es fs) r =
      (if prefix q r \<and> p @ drop (length q) r \<in> fst ` set es \<and> node_at source (p @ drop (length q) r) \<noteq> None
       then node_at source (p @ drop (length q) r) else node_at fs r)" if "\<forall>e\<in>set es. prefix p (fst e)" for es
    using that
  proof (induction es arbitrary: fs)
    case (Cons e es)
    obtain u where u: "fst e = p @ u" using Cons.prems by (auto simp: prefix_def)
    have eq: "r = moved p q (fst e) \<longleftrightarrow> prefix q r \<and> p @ drop (length q) r = fst e"
      by (auto simp: moved_def u prefix_def)
    show ?case using Cons eq assms(2) by (auto simp: moved_def split: option.split)
  qed simp
  from this [of "under p source"]
  have "node_at (graft p q source fs) r =
      (if prefix q r \<and> p @ drop (length q) r \<in> fst ` set (under p source) \<and> node_at source (p @ drop (length q) r) \<noteq> None
       then node_at source (p @ drop (length q) r) else node_at fs r)"
    by (simp add: graft_def under_def)
  moreover have "p @ drop (length q) r \<in> fst ` set (under p source)" if "node_at source (p @ drop (length q) r) \<noteq> None"
    using that assms(1) by (force simp: node_at_def under_def dest: map_of_SomeD)
  ultimately show ?thesis by auto
qed

section \<open>The errors of some calls\<close>

lemma make_folders_error: "make_folders p qs fs = Inl err \<Longrightarrow> err \<in> os_error ` {''EEXIST'', ''ENOTDIR''}"
proof (induction p qs fs rule: make_folders.induct)
  case (2 p r qs fs)
  then show ?case by (auto simp: make_folder_def split: sum.splits option.splits if_splits)
qed simp

lemma mkdirSync_error: "mkdirSync p fs = Inl err \<Longrightarrow> \<exists>code\<in>{''EEXIST'', ''ENOTDIR''}. err = os_error code"
  using make_folders_error unfolding mkdirSync_def by blast

lemma readdirSync_error: "readdirSync fs p = Inl err \<Longrightarrow> \<exists>code\<in>{''ELOOP'', ''ENOENT'', ''ENOTDIR''}. err = os_error code"
  by (auto simp: readdirSync_def split: option.splits node.splits)

end
