(* ===== verification/Supervisor_Host.thy ===== *)
theory Supervisor_Host
  imports Host_Files Control_Service Sessions
begin

text \<open>
  The surroundings of the supervisor, \<open>server-agent/supervisor.mjs\<close>: the files of the server, the programs it runs
  (\<open>docker\<close> and \<open>tar\<close>), time, random bytes, JSON, YAML and cryptography; its own configuration; the checks of its
  inputs, the names of an agent's containers and the environment files.

  A program is a function of the number of the interaction, its arguments and the files that gives its output or an
  error, and the files as it leaves them, so that its answers and effects are arbitrary from one run to the next. The
  runs are recorded in order, as are changes of owner and mode.
\<close>

section \<open>State and surroundings\<close>

datatype host_event = Ran string "string list" | Owned path int | Moded path nat

record host =
  ho_files :: files
  ho_tick :: nat
  ho_events :: "host_event list"

type_synonym 'a sup = "(host, failure, 'a) effect"

text \<open>What \<open>parseDocument\<close> of the YAML library gives: its errors, the node at \<open>skills\<close>, and the text after
  \<open>setIn(["skills", "disabled"], ids)\<close>.\<close>

record yaml_document =
  yd_errors :: nat
  yd_skills_fits :: bool
  yd_with_disabled :: "string list \<Rightarrow> string"

record sup_env =
  se_run :: "nat \<Rightarrow> string \<Rightarrow> string list \<Rightarrow> files \<Rightarrow> (failure + string) \<times> files"
  se_now :: "nat \<Rightarrow> string"
  se_random :: "nat \<Rightarrow> string"
  se_iv :: "nat \<Rightarrow> bytes"
  se_crypto :: crypto
  se_cipher :: cipher
  se_show :: "json \<Rightarrow> string"
  se_stringify :: "json \<Rightarrow> string"
  se_parse :: "string \<Rightarrow> json option"
  se_yaml :: "string \<Rightarrow> yaml_document option"

text \<open>Asking the surroundings, reading the files and changing them.\<close>

definition asks :: "(nat \<Rightarrow> 'a) \<Rightarrow> 'a sup" where
  "asks f s = (Inr (f (ho_tick s)), s\<lparr>ho_tick := ho_tick s + 1\<rparr>)"

definition sees :: "(files \<Rightarrow> failure + 'a) \<Rightarrow> 'a sup" where
  "sees f s = (f (ho_files s), s)"

definition peeks :: "(files \<Rightarrow> 'a) \<Rightarrow> 'a sup" where
  "peeks f s = (Inr (f (ho_files s)), s)"

definition alters :: "(files \<Rightarrow> failure + files) \<Rightarrow> unit sup" where
  "alters f s = (case f (ho_files s) of Inl err \<Rightarrow> (Inl err, s) | Inr fs \<Rightarrow> (Inr (), s\<lparr>ho_files := fs\<rparr>))"

definition marks :: "host_event \<Rightarrow> unit sup" where
  "marks ev s = (Inr (), s\<lparr>ho_events := ho_events s @ [ev]\<rparr>)"

definition execFile :: "sup_env \<Rightarrow> string \<Rightarrow> string list \<Rightarrow> string sup" where
  "execFile e program args s =
     (case se_run e (ho_tick s) program args (ho_files s) of
        (r, fs) \<Rightarrow> (r, s\<lparr>ho_files := fs, ho_tick := ho_tick s + 1, ho_events := ho_events s @ [Ran program args]\<rparr>))"

text \<open>Changes of owner and mode follow a link.\<close>

definition target_of :: "path \<Rightarrow> files \<Rightarrow> failure + path" where
  "target_of p fs = (if existsSync fs p then Inr (or_else (real_path fs p) p) else Inl (os_error ''ENOENT''))"

definition chmodSync :: "path \<Rightarrow> nat \<Rightarrow> unit sup" where
  "chmodSync p mode = and_then (sees (target_of p)) (\<lambda>q. marks (Moded q mode))"

definition chownSync :: "path \<Rightarrow> int \<Rightarrow> unit sup" where
  "chownSync p uid = and_then (sees (target_of p)) (\<lambda>q. marks (Owned q uid))"

lemma asks_Inr: "asks f s = (Inr x, t) \<longleftrightarrow> x = f (ho_tick s) \<and> t = s\<lparr>ho_tick := ho_tick s + 1\<rparr>"
  by (auto simp: asks_def)

lemma sees_Inr: "sees f s = (Inr x, t) \<longleftrightarrow> f (ho_files s) = Inr x \<and> t = s"
  by (auto simp: sees_def)

lemma peeks_Inr: "peeks f s = (Inr x, t) \<longleftrightarrow> x = f (ho_files s) \<and> t = s"
  by (auto simp: peeks_def)

lemma alters_Inr: "alters f s = (Inr x, t) \<longleftrightarrow> (\<exists>fs. f (ho_files s) = Inr fs \<and> t = s\<lparr>ho_files := fs\<rparr>)"
  by (auto simp: alters_def split: sum.split)

lemma marks_Inr: "marks ev s = (Inr x, t) \<longleftrightarrow> t = s\<lparr>ho_events := ho_events s @ [ev]\<rparr>"
  by (auto simp: marks_def)

lemmas host_runs = asks_Inr sees_Inr peeks_Inr alters_Inr marks_Inr

lemma preserves_asks [preservation]: "preserves ho_files (asks f)" "preserves ho_events (asks f)"
  by (simp_all add: preserves_def asks_def)

lemma preserves_looks [preservation]: "preserves obs (sees f)" "preserves obs (peeks g)"
  by (simp_all add: preserves_def sees_def peeks_def)

lemma preserves_marks [preservation]: "preserves ho_files (marks ev)"
  by (simp add: preserves_def marks_def)

lemma preserves_alters [preservation]: "preserves ho_events (alters f)"
  by (simp add: preserves_def alters_def split: sum.split)

lemma preserves_modes [preservation]: "preserves ho_files (chmodSync p m)" "preserves ho_files (chownSync p u)"
  by (auto simp: chmodSync_def chownSync_def intro!: preservation)

section \<open>Checks of inputs\<close>

definition NAME_PATTERN :: rexp where
  "NAME_PATTERN = Sq (Cls is_alnum) (Rep (Cls (\<lambda>c. is_alnum c \<or> one_of ''._:-'' c)) 0 (Some 127))"

definition SKILL_PATTERN :: rexp where
  "SKILL_PATTERN = Sq (Cls is_alnum) (Rep (Cls (\<lambda>c. is_alnum c \<or> one_of ''._:/-'' c)) 0 (Some 199))"

definition IMAGE_DIGEST :: rexp where
  "IMAGE_DIGEST =
     seqs [alts [literal ''ghcr.io'', literal ''docker.io''], literal ''/'', Rep (Cls (\<lambda>c. is_alnum c \<or> one_of ''_./-'' c)) 1 None,
       literal ''@sha256:'', Rep (Cls is_hex) 64 (Some 64)]"

lemma matches_NAME_PATTERN:
  "matches NAME_PATTERN s \<longleftrightarrow>
    s \<noteq> [] \<and> is_alnum (hd s) \<and> (\<forall>c\<in>set (tl s). is_alnum c \<or> one_of ''._:-'' c) \<and> length s \<le> 128"
  unfolding matches_iff NAME_PATTERN_def lang_Sq_Cls lang_Rep_Cls by (cases s) auto

definition identifier_of :: "string \<Rightarrow> json \<Rightarrow> failure + string" where
  "identifier_of name v =
     (case v of JStr s \<Rightarrow> if matches NAME_PATTERN s then Inr s else Inl (CodedError ''invalid_supervisor_input'' None)
      | _ \<Rightarrow> Inl (CodedError ''invalid_supervisor_input'' None))"

text \<open>\<open>String(value ?? "")\<close> without line ends and zero characters.\<close>

definition text_value :: "sup_env \<Rightarrow> json \<Rightarrow> string" where
  "text_value e v = (case v of JStr s \<Rightarrow> s | JNull \<Rightarrow> [] | JUndefined \<Rightarrow> [] | _ \<Rightarrow> se_show e v)"

definition shown :: "sup_env \<Rightarrow> json \<Rightarrow> string" where
  "shown e v = (case v of JStr s \<Rightarrow> s | _ \<Rightarrow> se_show e v)"

definition breaks_line :: "char \<Rightarrow> bool" where
  "breaks_line c \<longleftrightarrow> c \<in> {CR, LF, CHR 0x00}"

definition envValue :: "sup_env \<Rightarrow> json \<Rightarrow> failure + string" where
  "envValue e v =
     (let t = text_value e v in
      if t = [] \<or> (\<exists>c\<in>set t. breaks_line c) then Inl (CodedError ''invalid_supervisor_config'' None) else Inr t)"

definition machineSecret :: "sup_env \<Rightarrow> json \<Rightarrow> failure + string" where
  "machineSecret e v =
     (case envValue e v of Inl err \<Rightarrow> Inl err
      | Inr t \<Rightarrow> if length t < 32 then Inl (CodedError ''invalid_supervisor_config'' None) else Inr t)"

definition sha_hex :: "sup_env \<Rightarrow> string \<Rightarrow> string" where
  "sha_hex e t = to_hex (sha256 (se_crypto e) t)"

definition derivedSecret :: "sup_env \<Rightarrow> string \<Rightarrow> string \<Rightarrow> string" where
  "derivedSecret e v purpose = to_base64url (sha256 (se_crypto e) (purpose @ [CHR 0x00] @ v))"

definition workspace_id_of_ref :: "sup_env \<Rightarrow> json \<Rightarrow> failure + string" where
  "workspace_id_of_ref e v = (case envValue e v of Inl err \<Rightarrow> Inl err | Inr t \<Rightarrow> Inr (''ws_'' @ take 48 (sha_hex e t)))"

definition instanceKey :: "sup_env \<Rightarrow> string \<Rightarrow> string" where
  "instanceKey e agentId = take 16 (sha_hex e agentId)"

definition imageDigest :: "json \<Rightarrow> failure + string" where
  "imageDigest v =
     (case v of JStr s \<Rightarrow> if matches IMAGE_DIGEST s then Inr s else Inl (CodedError ''invalid_release_manifest'' None)
      | _ \<Rightarrow> Inl (CodedError ''invalid_release_manifest'' None))"

text \<open>An accepted identifier is one segment of a path.\<close>

lemma identifier_is_plain: "identifier_of name v = Inr s \<Longrightarrow> plain_name s"
proof -
  assume "identifier_of name v = Inr s"
  then have m: "matches NAME_PATTERN s" by (auto simp: identifier_of_def split: json.splits if_splits)
  then obtain c cs where s: "s = c # cs" "is_alnum c" "\<forall>d\<in>set cs. is_alnum d \<or> one_of ''._:-'' d"
    unfolding matches_NAME_PATTERN by (cases s) auto
  have "\<not> is_alnum CHR ''/''" "\<not> one_of ''._:-'' CHR ''/''" "\<not> is_alnum CHR ''.''" by code_simp+
  then show ?thesis using s by (auto simp: plain_name_def)
qed

section \<open>Environment files\<close>

text \<open>\<open>KEY=value\<close> lines, and the object read back from them.\<close>

fun env_lines :: "sup_env \<Rightarrow> (string \<times> json) list \<Rightarrow> failure + string list" where
  "env_lines e [] = Inr []"
| "env_lines e ((k, v) # kvs) =
     (case envValue e v of Inl err \<Rightarrow> Inl err
      | Inr t \<Rightarrow> (case env_lines e kvs of Inl err \<Rightarrow> Inl err | Inr ls \<Rightarrow> Inr ((k @ ''='' @ t) # ls)))"

definition envFile :: "sup_env \<Rightarrow> (string \<times> json) list \<Rightarrow> failure + string" where
  "envFile e kvs = (case env_lines e kvs of Inl err \<Rightarrow> Inl err | Inr ls \<Rightarrow> Inr (join [LF] ls @ [LF]))"

text \<open>\<open>split(/\r?\n/)\<close>: a carriage return before a line feed belongs to the separator.\<close>

definition chop_cr :: "string \<Rightarrow> string" where
  "chop_cr l = (if l \<noteq> [] \<and> last l = CR then butlast l else l)"

definition split_lines :: "string \<Rightarrow> string list" where
  "split_lines t = (let ls = split_on LF t in map chop_cr (butlast ls) @ [last ls])"

definition key_char :: "char \<Rightarrow> bool" where
  "key_char c \<longleftrightarrow> is_upper c \<or> is_digit c \<or> c = CHR ''_''"

text \<open>
  The two line separators outside ASCII, which \<open>.\<close> excludes like the line ends: U+2028 and U+2029, as the three bytes
  they have in the file.
\<close>

fun has_separator :: "string \<Rightarrow> bool" where
  "has_separator (a # b # c # cs) \<longleftrightarrow>
     code_of a = 226 \<and> code_of b = 128 \<and> code_of c \<in> {168, 169} \<or> has_separator (b # c # cs)"
| "has_separator cs \<longleftrightarrow> False"

text \<open>\<open>/^([A-Z][A-Z0-9_]*)=(.*)$/\<close>.\<close>

definition env_entry :: "string \<Rightarrow> (string \<times> string) option" where
  "env_entry l =
     (let k = takeWhile key_char l; r = dropWhile key_char l in
      if k \<noteq> [] \<and> is_upper (hd k) \<and> r \<noteq> [] \<and> hd r = CHR ''='' \<and> (\<forall>c\<in>set (tl r). c \<noteq> CR \<and> c \<noteq> LF) \<and> \<not> has_separator (tl r)
      then Some (k, tl r) else None)"

definition read_entries :: "string list \<Rightarrow> (string \<times> string) list" where
  "read_entries ls = fold (\<lambda>l vs. case env_entry l of None \<Rightarrow> vs | Some (k, v) \<Rightarrow> AList.update k v vs) ls []"

definition readEnvironmentFile :: "path \<Rightarrow> (string \<times> string) list sup" where
  "readEnvironmentFile p =
     and_then (peeks (\<lambda>fs. existsSync fs p)) (\<lambda>there.
     if \<not> there then returns [] else and_then (sees (\<lambda>fs. readFileSync fs p)) (\<lambda>t. returns (read_entries (split_lines t))))"

end
