(* ===== verification/Js_Object.thy ===== *)
theory Js_Object
  imports Js_Text "HOL-Library.AList"
begin

text \<open>Objects: their own fields, \<open>{ ...fields, k: v }\<close>, and the removal of a field by destructuring.\<close>

definition own_fields :: "json \<Rightarrow> (string \<times> json) list" where
  "own_fields v = (case v of JObj kvs \<Rightarrow> kvs | _ \<Rightarrow> [])"

definition is_object :: "json \<Rightarrow> bool" where
  "is_object v \<longleftrightarrow> (case v of JObj _ \<Rightarrow> True | _ \<Rightarrow> False)"

definition only_keys :: "string list \<Rightarrow> json \<Rightarrow> bool" where
  "only_keys ks v \<longleftrightarrow> set (map fst (own_fields v)) \<subseteq> set ks"

definition overwrite :: "(string \<times> json) list \<Rightarrow> (string \<times> json) list \<Rightarrow> (string \<times> json) list" where
  "overwrite kvs new = fold (\<lambda>(k, v). AList.update k v) new kvs"

definition removed :: "string list \<Rightarrow> (string \<times> json) list \<Rightarrow> (string \<times> json) list" where
  "removed ks kvs = filter (\<lambda>(k, _). k \<notin> set ks) kvs"

text \<open>\<open>s.replace(/\/$/, "")\<close>\<close>

definition without_last_slash :: "string \<Rightarrow> string" where
  "without_last_slash s = (if s \<noteq> [] \<and> last s = CHR ''/'' then butlast s else s)"

lemma removed_field: "k \<in> set ks \<Longrightarrow> at (JObj (removed ks kvs)) k = JUndefined"
  by (auto simp: at_def prop_of_def removed_def map_of_eq_None_iff split: option.splits dest!: map_of_SomeD)

lemma overwrite_field: "at (JObj (AList.update k v kvs)) k' = (if k' = k then v else at (JObj kvs) k')"
  by (simp add: at_def prop_of_def update_conv')

end
