(* ===== verification/Supervisor_Config.thy ===== *)
theory Supervisor_Config
  imports Supervisor_Host Js_Object
begin

text \<open>
  The supervisor's configuration, the places and names of an agent, its port, the documents of owners and the
  files a configuration command writes.
\<close>

section \<open>The round trip of an environment file\<close>

definition env_key :: "string \<Rightarrow> bool" where
  "env_key k \<longleftrightarrow> k \<noteq> [] \<and> is_upper (hd k) \<and> (\<forall>c\<in>set k. key_char c)"

lemma envValue_Inr: "envValue e v = Inr t \<Longrightarrow> t = text_value e v \<and> (\<forall>c\<in>set t. \<not> breaks_line c)"
  by (auto simp: envValue_def Let_def split: if_splits)

lemma env_lines_Inr:
  "env_lines e kvs = Inr ls \<Longrightarrow>
    ls = map (\<lambda>(k, v). k @ ''='' @ text_value e v) kvs \<and> (\<forall>(k, v)\<in>set kvs. \<forall>c\<in>set (text_value e v). \<not> breaks_line c)"
proof (induction e kvs arbitrary: ls rule: env_lines.induct)
  case (2 e k v kvs)
  obtain t where t: "envValue e v = Inr t" using "2.prems" by (auto split: sum.splits)
  obtain ls' where ls': "env_lines e kvs = Inr ls'" "ls = (k @ ''='' @ t) # ls'" using "2.prems" t by (auto split: sum.splits)
  show ?case using "2.IH" [OF t ls'(1)] envValue_Inr [OF t] ls'(2) by auto
qed simp

lemma key_char_plain: "key_char c \<Longrightarrow> c \<noteq> CHR ''='' \<and> \<not> breaks_line c"
proof -
  have "\<not> key_char CHR ''=''" "\<not> key_char CR" "\<not> key_char LF" "\<not> key_char CHR 0x00" by code_simp+
  then show "key_char c \<Longrightarrow> c \<noteq> CHR ''='' \<and> \<not> breaks_line c" by (auto simp: breaks_line_def)
qed

lemma env_entry_line:
  assumes "env_key k" and "\<forall>c\<in>set t. \<not> breaks_line c"
  shows "env_entry (k @ ''='' @ t) = (if has_separator t then None else Some (k, t))"
proof -
  have "\<not> key_char CHR ''=''" by code_simp
  then have "takeWhile key_char (k @ ''='' @ t) = k" "dropWhile key_char (k @ ''='' @ t) = ''='' @ t"
    using assms(1) by (auto simp: env_key_def takeWhile_append)
  then show ?thesis using assms by (auto simp: env_entry_def env_key_def breaks_line_def Let_def)
qed

lemma env_line_plain:
  "env_key k \<Longrightarrow> \<forall>c\<in>set t. \<not> breaks_line c \<Longrightarrow> c \<in> set (k @ ''='' @ t) \<Longrightarrow> \<not> breaks_line c"
  using key_char_plain by (auto simp: env_key_def breaks_line_def)

lemma split_joined: "(\<And>l. l \<in> set ls \<Longrightarrow> LF \<notin> set l) \<Longrightarrow> split_on LF (join [LF] ls @ [LF]) = (if ls = [] then [[]] else ls) @ [[]]"
proof (induction "[LF]" ls rule: join.induct)
  case (3 x y ys)
  then show ?case using split_on_sep [of LF x "join [LF] (y # ys) @ [LF]"] by simp
next
  case (2 x)
  then show ?case using split_on_sep [of LF x "[]"] by simp
qed simp

lemma split_lines_joined:
  assumes "\<And>l c. l \<in> set ls \<Longrightarrow> c \<in> set l \<Longrightarrow> \<not> breaks_line c"
  shows "split_lines (join [LF] ls @ [LF]) = (if ls = [] then [[]] else ls) @ [[]]"
proof -
  have "chop_cr l = l" if "l \<in> set ls" for l
    using assms [OF that] last_in_set [of l] by (auto simp: chop_cr_def breaks_line_def)
  then have "map chop_cr ls = ls" by (simp add: map_idI)
  moreover have "split_on LF (join [LF] ls @ [LF]) = (if ls = [] then [[]] else ls) @ [[]]"
    using assms by (intro split_joined) (auto simp: breaks_line_def)
  ultimately show ?thesis by (auto simp: split_lines_def chop_cr_def Let_def)
qed

definition add_entry :: "string \<Rightarrow> (string \<times> string) list \<Rightarrow> (string \<times> string) list" where
  "add_entry l vs = (case env_entry l of None \<Rightarrow> vs | Some (k, v) \<Rightarrow> AList.update k v vs)"

lemma read_entries_fold: "read_entries ls = fold add_entry ls []"
  by (simp add: read_entries_def add_entry_def [abs_def])

lemma env_update_fresh: "k \<notin> fst ` set vs \<Longrightarrow> AList.update k v vs = vs @ [(k, v)]"
  by (induction vs) auto

lemma read_env_lines:
  assumes "\<forall>(k, v)\<in>set kvs. env_key k \<and> (\<forall>c\<in>set (f v). \<not> breaks_line c)" and "distinct (map fst vs @ map fst kvs)"
  shows "fold add_entry (map (\<lambda>(k, v). k @ ''='' @ f v) kvs) vs
    = vs @ map (\<lambda>(k, v). (k, f v)) (filter (\<lambda>(k, v). \<not> has_separator (f v)) kvs)"
  using assms
proof (induction kvs arbitrary: vs)
  case (Cons kv kvs)
  obtain k v where kv: "kv = (k, v)" by force
  have "add_entry (k @ ''='' @ f v) vs = (if has_separator (f v) then vs else vs @ [(k, f v)])"
    using Cons.prems kv env_entry_line [of k "f v"] env_update_fresh [of k vs "f v"]
    by (auto simp: add_entry_def simp del: append.simps append_Cons)
  then show ?case using Cons kv by auto
qed simp

text \<open>
  C17. What an environment file is written from is read back from it, key by key and in order, but for the entries
  whose value holds one of the line separators U+2028 and U+2029: the writer admits them, and the reader loses exactly
  these entries. So no value can add a line or change another entry.
\<close>

theorem environment_is_read_back:
  assumes "envFile e kvs = Inr t" and "\<forall>(k, v)\<in>set kvs. env_key k" and "distinct (map fst kvs)"
  shows "read_entries (split_lines t) = map (\<lambda>(k, v). (k, text_value e v)) (filter (\<lambda>(k, v). \<not> has_separator (text_value e v)) kvs)"
proof -
  obtain ls where ls: "env_lines e kvs = Inr ls" and t: "t = join [LF] ls @ [LF]"
    using assms(1) by (auto simp: envFile_def split: sum.splits)
  note lines = env_lines_Inr [OF ls]
  have plain: "\<forall>(k, v)\<in>set kvs. env_key k \<and> (\<forall>c\<in>set (text_value e v). \<not> breaks_line c)"
    using lines assms(2) by auto
  have "\<not> breaks_line c" if "l \<in> set ls" "c \<in> set l" for l c
    using that lines plain env_line_plain by (fastforce simp del: append.simps append_Cons)
  then have "split_lines t = (if ls = [] then [[]] else ls) @ [[]]"
    unfolding t by (rule split_lines_joined)
  moreover have "add_entry [] vs = vs" for vs by (simp add: add_entry_def env_entry_def)
  ultimately have "read_entries (split_lines t) = fold add_entry ls []"
    by (simp add: read_entries_fold)
  then show ?thesis using read_env_lines [OF plain, of "[]"] lines assms(3) by simp
qed

section \<open>The supervisor and the places of an agent\<close>

record supervisor =
  sv_instances :: path
  sv_hermesImage :: string
  sv_runtimeImage :: string
  sv_host :: string
  sv_backups :: path
  sv_backupKey :: "bytes option"
  sv_platformUrl :: string
  sv_portStart :: int
  sv_portEnd :: int
  sv_uid :: "int option"

record supervisor_options =
  so_instancesRoot :: "string option"
  so_hermesImage :: "string option"
  so_runtimeImage :: "string option"
  so_host :: "string option"
  so_backupRoot :: "string option"
  so_backupKey :: "string option"
  so_platformUrl :: "string option"
  so_portStart :: "int option"
  so_portEnd :: "int option"
  so_uid :: "int option"

definition new_supervisor :: "sup_env \<Rightarrow> path \<Rightarrow> supervisor_options \<Rightarrow> failure + supervisor" where
  "new_supervisor e cwd opts =
     (let sv = \<lparr>sv_instances = resolve_path cwd (or_else (so_instancesRoot opts) ''/var/lib/bairui/agents''),
                sv_hermesImage = or_else (so_hermesImage opts) ''hermes-agent:local'',
                sv_runtimeImage = or_else (so_runtimeImage opts) ''bairui-runtime:local'',
                sv_host = or_else (so_host opts) ''127.0.0.1'',
                sv_backups = resolve_path cwd (or_else (so_backupRoot opts) ''/var/lib/bairui/backups''),
                sv_backupKey = (if so_backupKey opts \<in> {None, Some []} then None else Some (sha256 (se_crypto e) (or_else (so_backupKey opts) []))),
                sv_platformUrl = or_else (so_platformUrl opts) [],
                sv_portStart = or_else (so_portStart opts) 19000,
                sv_portEnd = or_else (so_portEnd opts) 19999,
                sv_uid = so_uid opts\<rparr>
      in if \<not> starts_with ''https://'' (sv_platformUrl sv) \<or> sv_portStart sv < 1024 \<or> sv_portEnd sv \<le> sv_portStart sv \<or> 65535 < sv_portEnd sv
            \<or> (case sv_uid sv of None \<Rightarrow> False | Some u \<Rightarrow> u < 1 \<or> 65534 < u)
         then Inl (TypeError ''Invalid Supervisor configuration'') else Inr sv)"

record agent_names =
  an_key :: string
  an_network :: string
  an_hermes :: string
  an_dashboard :: string
  an_runtime :: string

definition names_of :: "sup_env \<Rightarrow> string \<Rightarrow> agent_names" where
  "names_of e agentId =
     (let key = instanceKey e agentId in
      \<lparr>an_key = key, an_network = ''bairui-agent-'' @ key, an_hermes = ''bairui-hermes-'' @ key,
       an_dashboard = ''bairui-hermes-dashboard-'' @ key, an_runtime = ''bairui-runtime-'' @ key\<rparr>)"

definition instancePath :: "sup_env \<Rightarrow> supervisor \<Rightarrow> string \<Rightarrow> failure + path" where
  "instancePath e sv agentId =
     (let p = resolve_path (sv_instances sv) (instanceKey e agentId) in
      if butlast p \<noteq> sv_instances sv then Inl (CodedError ''invalid_instance_path'' None) else Inr p)"

definition backupPath :: "supervisor \<Rightarrow> string \<Rightarrow> failure + path" where
  "backupPath sv backupId =
     (let p = resolve_path (sv_backups sv) (backupId @ ''.brb'') in
      if butlast p \<noteq> sv_backups sv then Inl (CodedError ''invalid_backup_path'' None) else Inr p)"

lemma instancePath_shape: "instancePath e sv a = Inr p \<Longrightarrow> p = [] \<or> p = sv_instances sv @ [last p]"
  by (auto simp: instancePath_def Let_def split: if_splits) (metis append_butlast_last_id)

section \<open>Ports\<close>

definition hex_value :: "string \<Rightarrow> int" where
  "hex_value s = fold (\<lambda>c n. 16 * n + int (hex_digit c)) s 0"

text \<open>The ports of the instances, in the order they are read: an instance without readable metadata claims none.\<close>

definition claim_of :: "sup_env \<Rightarrow> files \<Rightarrow> path \<Rightarrow> (int \<times> json) list" where
  "claim_of e fs p =
     (case readFileSync fs (p @ [''instance.json'']) of Inl _ \<Rightarrow> []
      | Inr t \<Rightarrow> (case se_parse e t of None \<Rightarrow> []
          | Some v \<Rightarrow> (case at v ''runtimePort'' of JNum (Integer port) \<Rightarrow> [(port, at v ''agentId'')] | _ \<Rightarrow> [])))"

definition claims :: "sup_env \<Rightarrow> supervisor \<Rightarrow> files \<Rightarrow> (int \<times> json) list" where
  "claims e sv fs =
     concat (map (\<lambda>q. if node_at fs q = Some Folder then claim_of e fs q else []) (child_paths fs (sv_instances sv)))"

definition occupied :: "(int \<times> json) list \<Rightarrow> int \<Rightarrow> json option" where
  "occupied cs port = map_of (fold (\<lambda>(q, a). AList.update q a) cs []) port"

definition port_offset :: "sup_env \<Rightarrow> supervisor \<Rightarrow> string \<Rightarrow> int" where
  "port_offset e sv agentId = hex_value (take 8 (instanceKey e agentId)) mod (sv_portEnd sv - sv_portStart sv + 1)"

definition candidate_ports :: "sup_env \<Rightarrow> supervisor \<Rightarrow> string \<Rightarrow> int list" where
  "candidate_ports e sv agentId =
     map (\<lambda>i. sv_portStart sv + (port_offset e sv agentId + i) mod (sv_portEnd sv - sv_portStart sv + 1)) [0..sv_portEnd sv - sv_portStart sv]"

definition allocatePort :: "sup_env \<Rightarrow> supervisor \<Rightarrow> string \<Rightarrow> int sup" where
  "allocatePort e sv agentId =
     and_then (alters (mkdirSync (sv_instances sv))) (\<lambda>_.
     and_then (sees (\<lambda>fs. readdirSync fs (sv_instances sv))) (\<lambda>_.
     and_then (peeks (claims e sv)) (\<lambda>cs.
       case find (\<lambda>port. occupied cs port \<in> {None, Some (JStr agentId)}) (candidate_ports e sv agentId) of
         Some port \<Rightarrow> returns port
       | None \<Rightarrow> throws (CodedError ''runtime_port_exhausted'' None))))"

lemma occupied_map: "occupied cs = map_of (rev cs)"
proof -
  have "map_of (fold (\<lambda>(q, a). AList.update q a) cs xs) = map_of (rev cs @ xs)" for xs
    by (induction cs arbitrary: xs) (auto simp: update_conv' map_add_def fun_eq_iff split: option.splits)
  from this [of "[]"] show ?thesis by (auto simp: occupied_def)
qed

text \<open>The candidates are the whole range, each port once.\<close>

lemma candidate_ports_range:
  assumes "sv_portStart sv \<le> sv_portEnd sv"
  shows "set (candidate_ports e sv a) = {sv_portStart sv..sv_portEnd sv}"
proof -
  let ?n = "sv_portEnd sv - sv_portStart sv + 1" and ?o = "port_offset e sv a"
  have n: "0 < ?n" using assms by simp
  have "p \<in> set (candidate_ports e sv a)" if p: "sv_portStart sv \<le> p" "p \<le> sv_portEnd sv" for p
  proof -
    let ?i = "(p - sv_portStart sv - ?o) mod ?n"
    have "(?o + ?i) mod ?n = (p - sv_portStart sv) mod ?n" by (simp add: mod_simps)
    also have "\<dots> = p - sv_portStart sv" using p by (intro mod_pos_pos_trivial) auto
    finally have "p = sv_portStart sv + (?o + ?i) mod ?n" by simp
    moreover have "0 \<le> ?i" "?i \<le> sv_portEnd sv - sv_portStart sv"
      using n pos_mod_bound [OF n, of "p - sv_portStart sv - ?o"] by auto
    ultimately show ?thesis unfolding candidate_ports_def by auto
  qed
  moreover have "sv_portStart sv \<le> p \<and> p \<le> sv_portEnd sv" if "p \<in> set (candidate_ports e sv a)" for p
  proof -
    obtain k where "p = sv_portStart sv + k mod ?n" using \<open>p \<in> set (candidate_ports e sv a)\<close> by (auto simp: candidate_ports_def)
    then show ?thesis using pos_mod_bound [OF n, of k] pos_mod_sign [OF n, of k] by linarith
  qed
  ultimately show ?thesis unfolding set_eq_iff atLeastAtMost_iff by blast
qed

text \<open>
  Port allocation is complete and safe: the port is in the configured range and belongs to no other agent, and
  allocation fails only when every port of the range belongs to another agent. (An instance that claims a port claims
  it alone; allocation itself keeps it so.)
\<close>

theorem ports_are_allocated:
  assumes "allocatePort e sv agentId s = (r, t)" and "sv_portStart sv \<le> sv_portEnd sv" and "distinct (map fst (claims e sv (ho_files t)))"
  shows "(\<forall>port. r = Inr port \<longrightarrow> port \<in> {sv_portStart sv..sv_portEnd sv}
            \<and> (\<forall>a. (port, a) \<in> set (claims e sv (ho_files t)) \<longrightarrow> a = JStr agentId)) \<and>
         (r = Inl (CodedError ''runtime_port_exhausted'' None) \<longrightarrow> (\<forall>port\<in>{sv_portStart sv..sv_portEnd sv}.
            \<exists>a. a \<noteq> JStr agentId \<and> (port, a) \<in> set (claims e sv (ho_files t))))"
proof -
  let ?cs = "claims e sv (ho_files t)"
  let ?find = "find (\<lambda>port. occupied ?cs port \<in> {None, Some (JStr agentId)}) (candidate_ports e sv agentId)"
  have r: "r = (case ?find of Some port \<Rightarrow> Inr port | None \<Rightarrow> Inl (CodedError ''runtime_port_exhausted'' None))
      \<or> (\<exists>code. r = Inl (os_error code) \<and> code \<noteq> ''runtime_port_exhausted'')"
    using assms(1) mkdirSync_error [of "sv_instances sv" "ho_files s"] readdirSync_error [of _ "sv_instances sv"]
    by (auto simp: allocatePort_def and_then_def alters_def sees_def peeks_def returns_def throws_def split: sum.splits option.splits)
  have occ: "occupied ?cs port = Some a \<longleftrightarrow> (port, a) \<in> set ?cs" for port a
    using map_of_eq_Some_iff [of "rev ?cs" port a] assms(3) by (simp add: occupied_map rev_map [symmetric])
  have none: "occupied ?cs port = None \<longleftrightarrow> (\<forall>a. (port, a) \<notin> set ?cs)" for port
    using occ [of port] by (metis not_None_eq)
  note range = candidate_ports_range [OF assms(2), of e agentId]
  show ?thesis
  proof (intro conjI allI impI)
    fix port a assume "r = Inr port"
    then have f: "?find = Some port" using r by (auto split: option.splits)
    then have mem: "port \<in> set (candidate_ports e sv agentId)" "occupied ?cs port \<in> {None, Some (JStr agentId)}"
      by (auto simp: find_Some_iff)
    show "port \<in> {sv_portStart sv..sv_portEnd sv}" using mem(1) range by simp
    show "a = JStr agentId" if "(port, a) \<in> set ?cs" using mem(2) that occ [of port a] none [of port] by auto
  next
    assume "r = Inl (CodedError ''runtime_port_exhausted'' None)"
    then have "?find = None" using r by (auto simp: os_error_def split: option.splits)
    then have "\<forall>port\<in>{sv_portStart sv..sv_portEnd sv}. occupied ?cs port \<notin> {None, Some (JStr agentId)}"
      using range by (auto simp: find_None_iff)
    then show "\<forall>port\<in>{sv_portStart sv..sv_portEnd sv}. \<exists>a. a \<noteq> JStr agentId \<and> (port, a) \<in> set ?cs"
      using occ by (metis (no_types, lifting) insertCI not_None_eq)
  qed
qed

section \<open>Documents of an owner\<close>

definition bad_scope :: failure where
  "bad_scope = CodedError ''invalid_user_config_scope'' None"

definition ownerChange :: "json \<Rightarrow> string \<Rightarrow> failure + json" where
  "ownerChange doc expected =
     (let change = at doc ''owner_change'' in
      if is_object doc \<and> is_object change \<and> at change ''scope'' = JStr expected
         \<and> (case at change ''generation'' of JNum n \<Rightarrow> is_safe_integer n \<and> (case n of Integer i \<Rightarrow> 1 \<le> i | _ \<Rightarrow> False) | _ \<Rightarrow> False)
         \<and> only_keys [''scope'', ''generation''] change
      then Inr change else Inl bad_scope)"

definition skill_name :: "json \<Rightarrow> bool" where
  "skill_name v \<longleftrightarrow> (case v of JStr s \<Rightarrow> matches SKILL_PATTERN s | _ \<Rightarrow> False)"

definition disabledSkills :: "json \<Rightarrow> bool \<Rightarrow> failure + string list" where
  "disabledSkills doc ownerScoped =
     (if \<not> is_object doc then Inl bad_scope
      else case (if ownerScoped then ownerChange doc ''skills'' else Inr JNull) of Inl err \<Rightarrow> Inl err
      | Inr _ \<Rightarrow>
          (let skills = default (at doc ''skills'') (JObj [(''disabled'', JArr [])]) in
           case at skills ''disabled'' of
             JArr vs \<Rightarrow>
               if \<not> only_keys [''disabled''] skills \<or> 500 < length vs \<or> \<not> list_all skill_name (uniq vs) then Inl bad_scope
               else Inr (sort (map (\<lambda>v. case v of JStr s \<Rightarrow> s | _ \<Rightarrow> []) (uniq vs)))
           | _ \<Rightarrow> Inl bad_scope))"

definition control_char :: "char \<Rightarrow> bool" where
  "control_char c \<longleftrightarrow> code_of c < 32 \<or> code_of c = 127"

definition soul_char :: "char \<Rightarrow> bool" where
  "soul_char c \<longleftrightarrow> \<not> control_char c \<or> code_of c \<in> {9, 10, 13}"

definition unix_text :: "string \<Rightarrow> string" where
  "unix_text t = map (\<lambda>c. if c = CR then LF else c) (unix_lines t)"

definition identityDocument :: "json \<Rightarrow> string \<Rightarrow> failure + string \<times> string" where
  "identityDocument doc agentId =
     (case ownerChange doc ''identity'' of Inl err \<Rightarrow> Inl err
      | Inr _ \<Rightarrow>
          (let agent = at doc ''agent'' in
           if \<not> is_object agent \<or> \<not> only_keys [''id'', ''name'', ''soul_markdown''] agent \<or> at agent ''id'' \<noteq> JStr agentId then Inl bad_scope
           else case at agent ''name'' of
             JStr name \<Rightarrow>
               if trim name = [] \<or> 64 < length name \<or> (\<exists>c\<in>set name. control_char c) then Inl bad_scope
               else (case at agent ''soul_markdown'' of
                   JStr soul \<Rightarrow> if 50000 < length soul \<or> (\<exists>c\<in>set soul. \<not> soul_char c) then Inl bad_scope else Inr (trim name, unix_text soul)
                 | _ \<Rightarrow> Inl bad_scope)
           | _ \<Rightarrow> Inl bad_scope))"

section \<open>Replacing a file\<close>

definition copyFileSecure :: "path \<Rightarrow> path \<Rightarrow> unit sup" where
  "copyFileSecure p q = and_then (alters (copyFileSync p q)) (\<lambda>_. chmodSync q 384)"

definition beside :: "path \<Rightarrow> string \<Rightarrow> path" where
  "beside p t = butlast p @ [last p @ ''.bairui-'' @ t]"

definition atomicWriteSecure :: "sup_env \<Rightarrow> path \<Rightarrow> string \<Rightarrow> unit sup" where
  "atomicWriteSecure e p t =
     and_then (asks (se_random e)) (\<lambda>x. and_then (alters (writeFileSync (beside p x) t)) (\<lambda>_.
     and_then (alters (renameSync (beside p x) p)) (\<lambda>_. chmodSync p 384)))"

definition hermes_document :: "sup_env \<Rightarrow> path \<Rightarrow> files \<Rightarrow> failure + yaml_document" where
  "hermes_document e p fs =
     (case (if existsSync fs p then readFileSync fs p else Inr (''{}'' @ [LF])) of
        Inl err \<Rightarrow> Inl (CodedError ''invalid_hermes_config'' None)
      | Inr t \<Rightarrow> (case se_yaml e t of
          None \<Rightarrow> Inl (CodedError ''invalid_hermes_config'' None)
        | Some y \<Rightarrow> if yd_errors y \<noteq> 0 \<or> \<not> yd_skills_fits y then Inl (CodedError ''invalid_hermes_config'' None) else Inr y))"

definition mergeSkillConfiguration :: "sup_env \<Rightarrow> path \<Rightarrow> string list \<Rightarrow> unit sup" where
  "mergeSkillConfiguration e p disabled =
     and_then (sees (hermes_document e p)) (\<lambda>y. atomicWriteSecure e p (yd_with_disabled y disabled))"

section \<open>What a configuration command carries\<close>

definition sees_through :: "json \<Rightarrow> string \<Rightarrow> failure + json" where
  "sees_through v k = (if nullish v then Inl (TypeError ''property of undefined'') else Inr (at v k))"

definition commandAgentId :: "json \<Rightarrow> failure + string" where
  "commandAgentId c = identifier_of ''agent_id'' (default (at (at c ''arguments'') ''agent_id'') (at (at c ''placement'') ''agent_id''))"

definition bundle_complete :: "json \<Rightarrow> bool" where
  "bundle_complete c \<longleftrightarrow> truthy (at (at c ''config'') ''document'') \<and> truthy (at (at c ''config'') ''secrets'')"

definition default_workspace :: "sup_env \<Rightarrow> json \<Rightarrow> json \<Rightarrow> json \<Rightarrow> json" where
  "default_workspace e org user agent = JStr (''hermes:'' @ shown e org @ '':'' @ shown e user @ '':'' @ shown e agent)"

definition workspace_of :: "sup_env \<Rightarrow> json \<Rightarrow> json" where
  "workspace_of e c =
     (let place = at c ''placement'' in
      default (at place ''workspace_ref'') (default (at (at c ''arguments'') ''workspace_ref'')
        (default (at (at (at (at c ''config'') ''document'') ''runtime'') ''workspace_ref'')
          (default_workspace e (at place ''organization_id'') (at place ''user_id'') (at place ''agent_id'')))))"

record config_values =
  cv_hermes :: "(string \<times> json) list"
  cv_dashboard :: "(string \<times> json) list"
  cv_runtime :: "(string \<times> json) list"
  cv_soul :: string
  cv_token :: string

definition dashboard_values :: "string \<Rightarrow> string \<Rightarrow> string \<Rightarrow> (string \<times> json) list" where
  "dashboard_values user password secret =
     [(''HERMES_HOME'', JStr ''/opt/data''), (''HERMES_DASHBOARD_BASIC_AUTH_USERNAME'', JStr user),
      (''HERMES_DASHBOARD_BASIC_AUTH_PASSWORD'', JStr password), (''HERMES_DASHBOARD_BASIC_AUTH_SECRET'', JStr secret),
      (''HERMES_DASHBOARD_BASIC_AUTH_TTL_SECONDS'', JStr ''43200'')]"

definition runtime_values :: "supervisor \<Rightarrow> json \<Rightarrow> agent_names \<Rightarrow> string \<Rightarrow> string \<Rightarrow> string \<Rightarrow> string \<Rightarrow> string \<Rightarrow> (string \<times> json) list" where
  "runtime_values sv c ns api password secret token workspace =
     (let place = at c ''placement'' in
     [(''HERMES_API_URL'', JStr (''http://'' @ an_hermes ns @ '':8642'')),
      (''HERMES_MANAGEMENT_URL'', JStr (''http://'' @ an_dashboard ns @ '':9119'')),
      (''HERMES_API_SERVER_KEY'', JStr api), (''HERMES_DASHBOARD_USERNAME'', JStr ''bairui-runtime''),
      (''HERMES_DASHBOARD_PASSWORD'', JStr password), (''BAIRUI_HERMES_DATA_PATH'', JStr ''/opt/data''),
      (''BAIRUI_RUNTIME_SHARED_SECRET'', JStr secret), (''BAIRUI_PLATFORM_URL'', JStr (sv_platformUrl sv)),
      (''BAIRUI_ORGANIZATION_ID'', at place ''organization_id''), (''BAIRUI_USER_ID'', at place ''user_id''),
      (''BAIRUI_AGENT_ID'', at place ''agent_id''), (''BAIRUI_RUNTIME_ID'', at place ''runtime_id''),
      (''BAIRUI_WORKSPACE_ID'', JStr workspace), (''BAIRUI_CONFIG_REVISION_ID'', at (at c ''arguments'') ''config_revision_id''),
      (''BAIRUI_AGENT_CONTROL_TOKEN'', JStr token), (''BAIRUI_RUNTIME_HOST'', JStr ''0.0.0.0''), (''BAIRUI_RUNTIME_PORT'', JStr ''8787'')])"

definition hermes_values :: "json \<Rightarrow> string \<Rightarrow> (string \<times> json) list" where
  "hermes_values c api =
     (let provider = default (at (at (at c ''config'') ''document'') ''provider'') (JObj []) in
     [(''API_SERVER_ENABLED'', JStr ''true''), (''API_SERVER_HOST'', JStr ''0.0.0.0''), (''API_SERVER_KEY'', JStr api),
      (''OPENAI_API_KEY'', at (at (at c ''config'') ''secrets'') ''provider_api_key''),
      (''OPENAI_BASE_URL'', at provider ''base_url''), (''MODEL'', at provider ''model'')])"

definition configurationValues :: "sup_env \<Rightarrow> supervisor \<Rightarrow> json \<Rightarrow> agent_names \<Rightarrow> config_values sup" where
  "configurationValues e sv c ns =
     (let secrets = at (at c ''config'') ''secrets'' in
     and_then (checks (if bundle_complete c then None else Some (CodedError ''invalid_config_bundle'' None))) (\<lambda>_.
     and_then (lifts (commandAgentId c)) (\<lambda>agent.
     and_then (checks (if at (at c ''placement'') ''agent_id'' = JStr agent then None else Some (CodedError ''invalid_config_bundle'' None))) (\<lambda>_.
     and_then (lifts (machineSecret e (at secrets ''hermes_api_server_key''))) (\<lambda>api.
     and_then (lifts (machineSecret e (at secrets ''runtime_shared_secret''))) (\<lambda>secret.
     and_then (lifts (machineSecret e (at secrets ''agent_control_token''))) (\<lambda>token.
     and_then (lifts (workspace_id_of_ref e (workspace_of e c))) (\<lambda>workspace.
     and_then (lifts (sees_through (at c ''arguments'') ''config_revision_id'')) (\<lambda>_.
       (let password = derivedSecret e api ''hermes-dashboard-password'' in
        returns \<lparr>cv_hermes = hermes_values c api,
          cv_dashboard = dashboard_values ''bairui-runtime'' password (derivedSecret e secret ''hermes-dashboard-session''),
          cv_runtime = runtime_values sv c ns api password secret token workspace,
          cv_soul = text_value e (at (at (at (at c ''config'') ''document'') ''agent'') ''soul_markdown''),
          cv_token = token\<rparr>))))))))))"

definition write_env :: "sup_env \<Rightarrow> path \<Rightarrow> (string \<times> json) list \<Rightarrow> unit sup" where
  "write_env e p kvs = and_then (lifts (envFile e kvs)) (\<lambda>t. alters (writeFileSync p t))"

definition writeConfiguration :: "sup_env \<Rightarrow> supervisor \<Rightarrow> json \<Rightarrow> path \<Rightarrow> agent_names \<Rightarrow> unit sup" where
  "writeConfiguration e sv c dir ns =
     and_then (configurationValues e sv c ns) (\<lambda>v. and_then (alters (mkdirSync dir)) (\<lambda>_.
     and_then (write_env e (dir @ [''hermes.env'']) (cv_hermes v)) (\<lambda>_.
     and_then (write_env e (dir @ [''dashboard.env'']) (cv_dashboard v)) (\<lambda>_.
     and_then (write_env e (dir @ [''runtime.env'']) (cv_runtime v)) (\<lambda>_.
     and_then (alters (writeFileSync (dir @ [''SOUL.md'']) (cv_soul v))) (\<lambda>_.
       alters (writeFileSync (dir @ [''agent-control.token'']) (cv_token v))))))))"

section \<open>A concrete instance\<close>

text \<open>
  Surroundings in which \<open>docker\<close> always fails and \<open>tar\<close> writes one archive, and a server with one agent: the instances
  in which the hypotheses of the properties are shown to hold.
\<close>

definition still_key :: string where
  "still_key = ''0707070707070707''"

definition still_metadata :: json where
  "still_metadata =
     JObj [(''agentId'', JStr ''a1''), (''runtimePort'', JNum (Integer 19001)),
       (''names'', JObj [(''network'', JStr ''n''), (''hermes'', JStr ''h''), (''dashboard'', JStr ''d''), (''runtime'', JStr ''r'')])]"

definition open_cipher :: cipher where
  "open_cipher = \<lparr>encrypt = (\<lambda>k iv t. (map (\<lambda>c. of_char c) t, [])), decrypt = (\<lambda>k iv c g. Some (map char_of c))\<rparr>"

definition still_env :: sup_env where
  "still_env =
     \<lparr>se_run = (\<lambda>n program args fs. if program = ''tar'' then (Inr [], put_node [''b'', ''.k1.tar.gz''] (File ''data'') fs)
                 else (Inl (PlainError ''no docker''), fs)),
      se_now = (\<lambda>_. ''now''), se_random = (\<lambda>_. ''x''), se_iv = (\<lambda>_. [1]), se_crypto = flat_crypto, se_cipher = open_cipher,
      se_show = (\<lambda>_. []), se_stringify = (\<lambda>_. ''{}''), se_parse = (\<lambda>t. if t = ''m'' then Some still_metadata else None),
      se_yaml = (\<lambda>_. Some \<lparr>yd_errors = 0, yd_skills_fits = True, yd_with_disabled = (\<lambda>_. ''new'')\<rparr>)\<rparr>"

definition still_supervisor :: supervisor where
  "still_supervisor =
     \<lparr>sv_instances = [''i''], sv_hermesImage = ''hermes'', sv_runtimeImage = ''runtime'', sv_host = ''127.0.0.1'', sv_backups = [''b''],
      sv_backupKey = Some [1], sv_platformUrl = ''https://p'', sv_portStart = 19000, sv_portEnd = 19001, sv_uid = None\<rparr>"

definition still_host :: host where
  "still_host =
     \<lparr>ho_files = [([''i''], Folder), ([''i'', still_key], Folder), ([''i'', still_key, ''instance.json''], File ''m''),
        ([''i'', still_key, ''hermes-data''], Folder), ([''i'', still_key, ''hermes-data'', ''config.yaml''], File ''old''), ([''b''], Folder)],
      ho_tick = 0, ho_events = []\<rparr>"

lemma open_cipher_lawful: "cipher_lawful open_cipher"
  by (auto simp: cipher_lawful_def open_cipher_def is_bytes_def comp_def)

theorem environment_is_read_back_witness:
  "read_entries (split_lines (''A=b'' @ [LF] @ ''B='' @ [CHR 0xE2, CHR 0x80, CHR 0xA8] @ [LF] @ ''C=d e'' @ [LF])) = [(''A'', ''b''), (''C'', ''d e'')]"
proof -
  have "envFile still_env [(''A'', JStr ''b''), (''B'', JStr [CHR 0xE2, CHR 0x80, CHR 0xA8]), (''C'', JStr ''d e'')] =
    Inr (''A=b'' @ [LF] @ ''B='' @ [CHR 0xE2, CHR 0x80, CHR 0xA8] @ [LF] @ ''C=d e'' @ [LF])" by code_simp
  from environment_is_read_back [OF this] show ?thesis
    by (simp add: env_key_def is_upper_def key_char_def code_of_def text_value_def)
qed

theorem ports_are_allocated_witness:
  "allocatePort still_env still_supervisor ''a1'' still_host = (Inr 19001, still_host) \<and>
   {a. (19001, a) \<in> set (claims still_env still_supervisor (ho_files still_host))} \<subseteq> {JStr ''a1''}"
proof -
  have run: "allocatePort still_env still_supervisor ''a1'' still_host = (Inr 19001, still_host)" by code_simp
  have c: "claims still_env still_supervisor (ho_files still_host) = [(19001, JStr ''a1'')]" by code_simp
  show ?thesis using ports_are_allocated [OF run] run unfolding c by (simp add: still_supervisor_def subset_iff)
qed

end
