(* ===== verification/Supervisor_Containers.thy ===== *)
theory Supervisor_Containers
  imports Supervisor_Config
begin

text \<open>
  The containers and the metadata of an agent: \<open>docker\<close> runs, the data folder, the management configuration, and the
  actions that provision an agent, change its life cycle and look at it.
\<close>

section \<open>Docker\<close>

text \<open>An argument that is no string is refused before the program runs.\<close>

fun texts_of :: "json list \<Rightarrow> failure + string list" where
  "texts_of [] = Inr []"
| "texts_of (v # vs) =
     (case v of JStr s \<Rightarrow> (case texts_of vs of Inl err \<Rightarrow> Inl err | Inr ss \<Rightarrow> Inr (s # ss))
      | _ \<Rightarrow> Inl (CodedError ''ERR_INVALID_ARG_TYPE'' None))"

definition words :: "string list \<Rightarrow> json list" where
  "words = map JStr"

definition docker :: "sup_env \<Rightarrow> json list \<Rightarrow> string sup" where
  "docker e args = and_then (lifts (texts_of args)) (execFile e ''docker'')"

definition docker_exists :: "sup_env \<Rightarrow> string \<Rightarrow> json \<Rightarrow> bool sup" where
  "docker_exists e kind name =
     or_catch (and_then (docker e [JStr kind, JStr ''inspect'', name]) (\<lambda>_. returns True)) (\<lambda>_. returns False)"

definition containerStatus :: "sup_env \<Rightarrow> json \<Rightarrow> string option sup" where
  "containerStatus e name =
     or_catch (and_then (docker e (words [''container'', ''inspect'', ''--format'', ''{{.State.Status}}''] @ [name])) (\<lambda>out. returns (Some (trim out))))
       (\<lambda>_. returns None)"

definition ran :: "string sup \<Rightarrow> unit sup" where
  "ran m = and_then m (\<lambda>_. returns ())"

definition when_exists :: "sup_env \<Rightarrow> string \<Rightarrow> json \<Rightarrow> json list \<Rightarrow> unit sup" where
  "when_exists e kind name args = and_then (docker_exists e kind name) (\<lambda>there. if there then ran (docker e args) else returns ())"

definition replaceContainer :: "sup_env \<Rightarrow> json \<Rightarrow> json list \<Rightarrow> unit sup" where
  "replaceContainer e name args =
     and_then (when_exists e ''container'' name (words [''container'', ''rm'', ''--force''] @ [name]))
       (\<lambda>_. ran (docker e (words [''run'', ''--detach'', ''--name''] @ [name] @ words [''--restart'', ''unless-stopped''] @ args)))"

section \<open>The data folder\<close>

definition own_by :: "supervisor \<Rightarrow> path \<Rightarrow> unit sup" where
  "own_by sv p = (case sv_uid sv of None \<Rightarrow> returns () | Some uid \<Rightarrow> chownSync p uid)"

definition prepareHermesMemoryDirectory :: "supervisor \<Rightarrow> path \<Rightarrow> unit sup" where
  "prepareHermesMemoryDirectory sv data =
     (let p = data @ [''memories''] in
      and_then (alters (mkdirSync p)) (\<lambda>_. and_then (own_by sv p) (\<lambda>_. chmodSync p 504)))"

text \<open>The entries whose owner changes, in order: what is in a folder, then the folder; links are skipped.\<close>

function owned_order :: "files \<Rightarrow> path list \<Rightarrow> path list" where
  "owned_order fs [] = []"
| "owned_order fs (p # ps) =
     (let cs = filter (\<lambda>q. \<not> is_link (node_at fs q)) (child_paths fs p) in
      cs @ [p] @ owned_order fs (rev (filter (\<lambda>q. node_at fs q = Some Folder) (child_paths fs p)) @ ps))"
  by pat_completeness auto
termination
  by (relation "measure (\<lambda>(fs, ps). walk_size fs ps)") (auto simp: less_Suc_eq_le intro: walk_descends)

definition prepareHermesDataDirectory :: "supervisor \<Rightarrow> path \<Rightarrow> unit sup" where
  "prepareHermesDataDirectory sv data =
     and_then (alters (mkdirSync data)) (\<lambda>_.
     and_then (case sv_uid sv of None \<Rightarrow> returns ()
       | Some uid \<Rightarrow> and_then (peeks (\<lambda>fs. owned_order fs [or_else (real_path fs data) data])) (each (\<lambda>p. chownSync p uid))) (\<lambda>_.
     and_then (chmodSync data 504) (\<lambda>_. prepareHermesMemoryDirectory sv data)))"

section \<open>Metadata of an instance\<close>

definition instance_missing :: failure where
  "instance_missing = CodedError ''instance_not_found'' None"

definition with_dashboard :: "sup_env \<Rightarrow> (string \<times> json) list \<Rightarrow> failure + json" where
  "with_dashboard e kvs =
     (let md = JObj kvs; ns = at md ''names'' in
      case (if nullish (at ns ''dashboard'')
            then (case at md ''agentId'' of JStr a \<Rightarrow> Inr (JStr (an_dashboard (names_of e a))) | _ \<Rightarrow> Inl instance_missing)
            else Inr (at ns ''dashboard'')) of
        Inl err \<Rightarrow> Inl err
      | Inr d \<Rightarrow> Inr (JObj (overwrite kvs [(''names'', JObj (overwrite (own_fields ns) [(''dashboard'', d)]))])))"

definition readMetadata :: "sup_env \<Rightarrow> supervisor \<Rightarrow> string \<Rightarrow> json sup" where
  "readMetadata e sv agentId = sees (\<lambda>fs.
     (case instancePath e sv agentId of Inl _ \<Rightarrow> Inl instance_missing
      | Inr p \<Rightarrow> (case readFileSync fs (p @ [''instance.json'']) of Inl _ \<Rightarrow> Inl instance_missing
        | Inr t \<Rightarrow> (case se_parse e t of Some (JObj kvs) \<Rightarrow> with_dashboard e kvs | _ \<Rightarrow> Inl instance_missing))))"

definition writeMetadata :: "sup_env \<Rightarrow> supervisor \<Rightarrow> string \<Rightarrow> (string \<times> json) list \<Rightarrow> unit sup" where
  "writeMetadata e sv agentId kvs =
     and_then (lifts (instancePath e sv agentId)) (\<lambda>p. and_then (asks (se_now e)) (\<lambda>now.
       alters (writeFileSync (p @ [''instance.json'']) (se_stringify e (JObj (overwrite kvs [(''updatedAt'', JStr now)]))))))"

definition name_in :: "json \<Rightarrow> string \<Rightarrow> json" where
  "name_in md k = at (at md ''names'') k"

definition image_or :: "json \<Rightarrow> string \<Rightarrow> string \<Rightarrow> json" where
  "image_or md k fallback = default (at (at md ''images'') k) (JStr fallback)"

definition images_of :: "supervisor \<Rightarrow> json \<Rightarrow> json" where
  "images_of sv md = default (at md ''images'') (JObj [(''hermes'', JStr (sv_hermesImage sv)), (''runtime'', JStr (sv_runtimeImage sv))])"

section \<open>The management configuration\<close>

definition env_text :: "(string \<times> string) list \<Rightarrow> string \<Rightarrow> json" where
  "env_text vs k = (case map_of vs k of Some t \<Rightarrow> JStr t | None \<Rightarrow> JUndefined)"

record env_paths =
  ep_hermes :: path
  ep_dashboard :: path
  ep_runtime :: path

definition env_paths_in :: "path \<Rightarrow> env_paths" where
  "env_paths_in p = \<lparr>ep_hermes = p @ [''hermes.env''], ep_dashboard = p @ [''dashboard.env''], ep_runtime = p @ [''runtime.env'']\<rparr>"

definition managed_workspace :: "sup_env \<Rightarrow> json \<Rightarrow> (string \<times> string) list \<Rightarrow> failure + json" where
  "managed_workspace e md vs =
     (let org = default (env_text vs ''BAIRUI_ORGANIZATION_ID'') (at md ''organizationId'');
          user = default (env_text vs ''BAIRUI_USER_ID'') (at md ''userId'');
          agent = default (env_text vs ''BAIRUI_AGENT_ID'') (at md ''agentId'');
          ref = default (env_text vs ''BAIRUI_WORKSPACE_REF'') (default (at md ''workspaceRef'') (default_workspace e org user agent))
      in case env_text vs ''BAIRUI_WORKSPACE_ID'' of JStr t \<Rightarrow> Inr (JStr t)
         | _ \<Rightarrow> (case workspace_id_of_ref e ref of Inl err \<Rightarrow> Inl err | Inr w \<Rightarrow> Inr (JStr w)))"

definition managed_values :: "sup_env \<Rightarrow> json \<Rightarrow> (string \<times> string) list \<Rightarrow> string \<Rightarrow> json \<Rightarrow> (string \<times> json) list" where
  "managed_values e md vs api workspace =
     overwrite (map (\<lambda>(k, v). (k, JStr v)) vs)
       [(''HERMES_MANAGEMENT_URL'', JStr (''http://'' @ shown e (name_in md ''dashboard'') @ '':9119'')),
        (''HERMES_DASHBOARD_USERNAME'', default (env_text vs ''HERMES_DASHBOARD_USERNAME'') (JStr ''bairui-runtime'')),
        (''HERMES_DASHBOARD_PASSWORD'', default (env_text vs ''HERMES_DASHBOARD_PASSWORD'') (JStr (derivedSecret e api ''hermes-dashboard-password''))),
        (''BAIRUI_HERMES_DATA_PATH'', JStr ''/opt/data''), (''BAIRUI_WORKSPACE_ID'', workspace)]"

definition ensureManagementConfiguration :: "sup_env \<Rightarrow> json \<Rightarrow> env_paths \<Rightarrow> unit sup" where
  "ensureManagementConfiguration e md ps =
     and_then (readEnvironmentFile (ep_runtime ps)) (\<lambda>vs.
     and_then (lifts (machineSecret e (env_text vs ''HERMES_API_SERVER_KEY''))) (\<lambda>api.
     and_then (lifts (machineSecret e (env_text vs ''BAIRUI_RUNTIME_SHARED_SECRET''))) (\<lambda>secret.
     and_then (lifts (managed_workspace e md vs)) (\<lambda>workspace.
       (let new = managed_values e md vs api workspace in
        and_then (if new = map (\<lambda>(k, v). (k, JStr v)) vs then returns () else write_env e (ep_runtime ps) new) (\<lambda>_.
        and_then (peeks (\<lambda>fs. existsSync fs (ep_dashboard ps))) (\<lambda>there.
          if there then returns ()
          else write_env e (ep_dashboard ps)
            (dashboard_values (text_value e (at (JObj new) ''HERMES_DASHBOARD_USERNAME'')) (text_value e (at (JObj new) ''HERMES_DASHBOARD_PASSWORD''))
              (derivedSecret e secret ''hermes-dashboard-session'')))))))))"

section \<open>Running the containers of an agent\<close>

definition runHermesContainer :: "sup_env \<Rightarrow> supervisor \<Rightarrow> json \<Rightarrow> path \<Rightarrow> path \<Rightarrow> json \<Rightarrow> unit sup" where
  "runHermesContainer e sv md inst env_path img =
     replaceContainer e (name_in md ''hermes'')
       ([JStr ''--network'', name_in md ''network'', JStr ''--env-file'', JStr (path_text env_path), JStr ''--volume'',
         JStr (path_text (inst @ [''hermes-data'']) @ '':/opt/data''), img] @ words [''gateway'', ''run''])"

definition runHermesDashboardContainer :: "sup_env \<Rightarrow> supervisor \<Rightarrow> json \<Rightarrow> path \<Rightarrow> path \<Rightarrow> json \<Rightarrow> unit sup" where
  "runHermesDashboardContainer e sv md inst env_path img =
     replaceContainer e (name_in md ''dashboard'')
       ([JStr ''--network'', name_in md ''network'', JStr ''--env-file'', JStr (path_text env_path), JStr ''--volume'',
         JStr (path_text (inst @ [''hermes-data'']) @ '':/opt/data''), img]
        @ words [''dashboard'', ''--host'', ''0.0.0.0'', ''--port'', ''9119'', ''--no-open''])"

definition runRuntimeContainer :: "sup_env \<Rightarrow> supervisor \<Rightarrow> json \<Rightarrow> path \<Rightarrow> path \<Rightarrow> json \<Rightarrow> unit sup" where
  "runRuntimeContainer e sv md inst env_path img =
     replaceContainer e (name_in md ''runtime'')
       [JStr ''--network'', name_in md ''network'', JStr ''--env-file'', JStr (path_text env_path), JStr ''--volume'',
        JStr (path_text (inst @ [''hermes-data'']) @ '':/opt/data''), JStr ''--publish'',
        JStr (''127.0.0.1:'' @ shown e (at md ''runtimePort'') @ '':8787''), img]"

text \<open>An argument that is \<open>undefined\<close> takes the parameter's default; the runtime image has none.\<close>

definition given_image :: "supervisor \<Rightarrow> json \<Rightarrow> json \<Rightarrow> json" where
  "given_image sv md img = (if img = JUndefined then image_or md ''hermes'' (sv_hermesImage sv) else img)"

definition agent_path :: "sup_env \<Rightarrow> supervisor \<Rightarrow> json \<Rightarrow> failure + path" where
  "agent_path e sv md = (case at md ''agentId'' of JStr a \<Rightarrow> instancePath e sv a | _ \<Rightarrow> Inl (CodedError ''ERR_INVALID_ARG_TYPE'' None))"

definition runContainers :: "sup_env \<Rightarrow> supervisor \<Rightarrow> json \<Rightarrow> env_paths \<Rightarrow> json \<Rightarrow> unit sup" where
  "runContainers e sv md ps images =
     and_then (ensureManagementConfiguration e md ps) (\<lambda>_.
     and_then (lifts (agent_path e sv md)) (\<lambda>inst.
     and_then (prepareHermesDataDirectory sv (inst @ [''hermes-data''])) (\<lambda>_.
     and_then (docker_exists e ''network'' (name_in md ''network'')) (\<lambda>there.
     and_then (if there then returns () else ran (docker e (words [''network'', ''create''] @ [name_in md ''network'']))) (\<lambda>_.
     and_then (lifts (sees_through images ''hermes'')) (\<lambda>hermes.
     and_then (runHermesContainer e sv md inst (ep_hermes ps) (given_image sv md hermes)) (\<lambda>_.
     and_then (runHermesDashboardContainer e sv md inst (ep_dashboard ps) (given_image sv md hermes)) (\<lambda>_.
       runRuntimeContainer e sv md inst (ep_runtime ps) (at images ''runtime'')))))))))"

definition restoreHermesLifecycle :: "sup_env \<Rightarrow> json \<Rightarrow> string option \<Rightarrow> unit sup" where
  "restoreHermesLifecycle e name previous =
     and_then (if previous = Some ''paused'' then ran (docker e (words [''container'', ''pause''] @ [name])) else returns ()) (\<lambda>_.
       if previous \<in> {Some ''created'', Some ''exited'', Some ''dead''} then ran (docker e (words [''container'', ''stop''] @ [name])) else returns ())"

section \<open>Provisioning\<close>

definition sup_result :: "json \<Rightarrow> (string \<times> json) list \<Rightarrow> string list \<Rightarrow> json" where
  "sup_result endpoint summary evidence =
     JObj ((if endpoint = JUndefined then [] else [(''runtimeEndpointRef'', endpoint)])
       @ [(''summary'', JObj summary), (''evidenceRefs'', JArr (words evidence))])"

definition num :: "int \<Rightarrow> json" where
  "num i = JNum (Integer i)"

definition endpoint_of :: "sup_env \<Rightarrow> supervisor \<Rightarrow> json \<Rightarrow> json" where
  "endpoint_of e sv port = JStr (''http://'' @ sv_host sv @ '':'' @ shown e port)"

definition docker_refs :: "sup_env \<Rightarrow> json \<Rightarrow> string list" where
  "docker_refs e md = map (\<lambda>k. ''docker:'' @ shown e (name_in md k)) [''hermes'', ''dashboard'', ''runtime'']"

definition all_exist :: "sup_env \<Rightarrow> json \<Rightarrow> bool list sup" where
  "all_exist e md = gather (\<lambda>k. docker_exists e ''container'' (name_in md k)) [''hermes'', ''dashboard'', ''runtime'']"

text \<open>A command that was carried out before, with all its containers there, is answered from the metadata.\<close>

definition replayed :: "sup_env \<Rightarrow> supervisor \<Rightarrow> json \<Rightarrow> string \<Rightarrow> json option sup" where
  "replayed e sv c agentId =
     or_catch
       (and_then (readMetadata e sv agentId) (\<lambda>md. and_then (all_exist e md) (\<lambda>there. returns
          (if at md ''idempotencyKey'' = at c ''idempotency_key'' \<and> list_all (\<lambda>b. b) there
           then Some (sup_result (endpoint_of e sv (at md ''runtimePort''))
             [(''containers'', num 3), (''runtime_port'', at md ''runtimePort''), (''idempotent_replay'', num 1)] (docker_refs e md))
           else None))))
       (\<lambda>_. returns None)"

definition names_json :: "agent_names \<Rightarrow> json" where
  "names_json ns =
     JObj [(''key'', JStr (an_key ns)), (''network'', JStr (an_network ns)), (''hermes'', JStr (an_hermes ns)),
       (''dashboard'', JStr (an_dashboard ns)), (''runtime'', JStr (an_runtime ns))]"

definition instance_metadata :: "sup_env \<Rightarrow> supervisor \<Rightarrow> json \<Rightarrow> string \<Rightarrow> int \<Rightarrow> string \<Rightarrow> json" where
  "instance_metadata e sv c agentId port now =
     (let place = at c ''placement'' in
      JObj [(''schemaVersion'', JStr ''1.0''), (''agentId'', JStr agentId), (''organizationId'', at place ''organization_id''),
        (''userId'', at place ''user_id''),
        (''workspaceRef'', default (at place ''workspace_ref'') (default (at (at c ''arguments'') ''workspace_ref'')
           (default_workspace e (at place ''organization_id'') (at place ''user_id'') (JStr agentId)))),
        (''runtimeId'', at place ''runtime_id''), (''deploymentId'', at c ''deployment_id''), (''runtimePort'', num port),
        (''names'', names_json (names_of e agentId)),
        (''images'', JObj [(''hermes'', JStr (sv_hermesImage sv)), (''runtime'', JStr (sv_runtimeImage sv))]),
        (''configRevisionId'', at (at c ''arguments'') ''config_revision_id''), (''idempotencyKey'', at c ''idempotency_key''),
        (''updatedAt'', JStr now)])"

definition provision_steps :: "sup_env \<Rightarrow> supervisor \<Rightarrow> json \<Rightarrow> string \<Rightarrow> path \<Rightarrow> int \<Rightarrow> json sup" where
  "provision_steps e sv c agentId inst port =
     (let data = inst @ [''hermes-data'']; ps = env_paths_in inst in
     and_then (configurationValues e sv c (names_of e agentId)) (\<lambda>v.
     and_then (write_env e (ep_hermes ps) (cv_hermes v)) (\<lambda>_.
     and_then (write_env e (ep_dashboard ps) (cv_dashboard v)) (\<lambda>_.
     and_then (write_env e (ep_runtime ps) (cv_runtime v)) (\<lambda>_.
     and_then (alters (writeFileSync (data @ [''SOUL.md'']) (cv_soul v))) (\<lambda>_.
     and_then (lifts (disabledSkills (at (at c ''config'') ''document'') False)) (\<lambda>disabled.
     and_then (mergeSkillConfiguration e (data @ [''config.yaml'']) disabled) (\<lambda>_.
     and_then (alters (writeFileSync (inst @ [''agent-control.token'']) (cv_token v))) (\<lambda>_.
     and_then (asks (se_now e)) (\<lambda>now.
       (let md = instance_metadata e sv c agentId port now in
        and_then (runContainers e sv md ps (at md ''images'')) (\<lambda>_.
        and_then (alters (writeFileSync (inst @ [''instance.json'']) (se_stringify e md))) (\<lambda>_.
          returns (sup_result (endpoint_of e sv (num port)) [(''containers'', num 3), (''runtime_port'', num port)] (docker_refs e md)))))))))))))))"

definition provision :: "sup_env \<Rightarrow> supervisor \<Rightarrow> json \<Rightarrow> json sup" where
  "provision e sv c =
     and_then (lifts (identifier_of ''agent_id'' (at (at c ''arguments'') ''agent_id''))) (\<lambda>agentId.
     and_then (checks (if at (at c ''placement'') ''agent_id'' = JStr agentId \<and> bundle_complete c then None
                       else Some (CodedError ''invalid_provision_bundle'' None))) (\<lambda>_.
     and_then (lifts (instancePath e sv agentId)) (\<lambda>inst.
     and_then (alters (mkdirSync (inst @ [''hermes-data'']))) (\<lambda>_.
     and_then (prepareHermesDataDirectory sv (inst @ [''hermes-data''])) (\<lambda>_.
     and_then (allocatePort e sv agentId) (\<lambda>port.
     and_then (replayed e sv c agentId) (\<lambda>before.
       case before of Some result \<Rightarrow> returns result | None \<Rightarrow> provision_steps e sv c agentId inst port)))))))"

section \<open>Life cycle and observation\<close>

definition unsupported_action :: failure where
  "unsupported_action = CodedError ''unsupported_supervisor_action'' None"

definition delete_containers :: "sup_env \<Rightarrow> supervisor \<Rightarrow> json \<Rightarrow> unit sup" where
  "delete_containers e sv md =
     and_then (each (\<lambda>k. when_exists e ''container'' (name_in md k) (words [''container'', ''rm'', ''--force''] @ [name_in md k]))
       [''runtime'', ''dashboard'', ''hermes''])
       (\<lambda>_. when_exists e ''network'' (name_in md ''network'') (words [''network'', ''rm''] @ [name_in md ''network'']))"

definition lifecycle :: "sup_env \<Rightarrow> supervisor \<Rightarrow> json \<Rightarrow> json sup" where
  "lifecycle e sv c =
     and_then (lifts (identifier_of ''agent_id'' (at (at c ''arguments'') ''agent_id''))) (\<lambda>agentId.
     and_then (readMetadata e sv agentId) (\<lambda>md.
       (let action = at c ''action''; up = map (name_in md) [''hermes'', ''dashboard'', ''runtime''];
            finished = returns (sup_result JUndefined [(''containers'', num 3)] (docker_refs e md)) in
        if action = JStr ''deployment.start'' then and_then (docker e (words [''container'', ''start''] @ up)) (\<lambda>_. finished)
        else if action = JStr ''deployment.resume'' then and_then (docker e (words [''container'', ''unpause''] @ up)) (\<lambda>_. finished)
        else if action = JStr ''deployment.stop'' then and_then (docker e (words [''container'', ''stop''] @ rev up)) (\<lambda>_. finished)
        else if action = JStr ''deployment.suspend'' then and_then (docker e (words [''container'', ''pause''] @ up)) (\<lambda>_. finished)
        else if action = JStr ''deployment.delete'' then
          and_then (delete_containers e sv md) (\<lambda>_. and_then (lifts (instancePath e sv agentId)) (\<lambda>inst.
            returns (sup_result JUndefined [(''containers'', num 0), (''data_retained'', num 1)] [''retained:'' @ path_text inst])))
        else throws unsupported_action)))"

definition collectSnapshot :: "sup_env \<Rightarrow> supervisor \<Rightarrow> json \<Rightarrow> json sup" where
  "collectSnapshot e sv c =
     and_then (lifts (commandAgentId c)) (\<lambda>agentId. and_then (readMetadata e sv agentId) (\<lambda>md. and_then (all_exist e md) (\<lambda>there.
       returns (sup_result JUndefined [(''containers'', num (int (length (filter (\<lambda>b. b) there)))), (''expected_containers'', num 3)]
         (map2 (\<lambda>k b. (if b then ''docker:'' else ''missing:'') @ shown e (name_in md k)) [''hermes'', ''dashboard'', ''runtime''] there)))))"

definition TEST_SUITES :: "string \<Rightarrow> string list" where
  "TEST_SUITES type =
     (if type = ''probe'' then [''runtime.health'', ''hermes.health'']
      else if type = ''contract'' then [''runtime-boundary-v1'', ''hermes-api-v1''] else [''agent-runtime-v1''])"

definition suites_of :: "json \<Rightarrow> string \<Rightarrow> failure + json list" where
  "suites_of c type =
     (case (if type = ''probe'' then at (at c ''arguments'') ''probe_ids'' else JArr [at (at c ''arguments'') ''suite_id'']) of
        JArr vs \<Rightarrow> if vs = [] \<or> \<not> list_all (is_one_of (TEST_SUITES type)) vs then Inl (CodedError ''unsupported_test_suite'' None) else Inr vs
      | _ \<Rightarrow> Inl (CodedError ''unsupported_test_suite'' None))"

text \<open>The evidence of one check; reading a check that is \<open>null\<close> throws.\<close>

fun check_refs :: "string \<Rightarrow> json list \<Rightarrow> failure + string list" where
  "check_refs type [] = Inr []"
| "check_refs type (v # vs) =
     (case identifier_of ''check_id'' (at v ''id'') of Inl err \<Rightarrow> Inl err
      | Inr i \<Rightarrow> (case check_refs type vs of Inl err \<Rightarrow> Inl err | Inr rs \<Rightarrow> Inr ((''check:'' @ type @ '':'' @ i @ '':passed'') # rs)))"

definition check_report :: "sup_env \<Rightarrow> string \<Rightarrow> string \<Rightarrow> failure + json" where
  "check_report e type out =
     (case se_parse e out of None \<Rightarrow> Inl (CodedError ''invalid_test_evidence'' None)
      | Some report \<Rightarrow>
          if nullish report then Inl (TypeError ''property of null'')
          else (case (at report ''status'', at report ''checks'') of
              (JStr s, JArr vs) \<Rightarrow>
                if s \<noteq> ''passed'' then Inl (CodedError (type @ ''_failed'') None)
                else if list_ex nullish vs then Inl (TypeError ''property of null'')
                else (case check_refs type vs of Inl err \<Rightarrow> Inl err
                  | Inr rs \<Rightarrow> Inr (sup_result JUndefined
                      [(''checks'', num (int (length vs))), (''passed'', num (int (length (filter (\<lambda>v. at v ''status'' = JStr ''passed'') vs))))] rs))
            | _ \<Rightarrow> Inl (CodedError (type @ ''_failed'') None)))"

definition runControlCheck :: "sup_env \<Rightarrow> supervisor \<Rightarrow> json \<Rightarrow> string \<Rightarrow> json sup" where
  "runControlCheck e sv c type =
     and_then (lifts (commandAgentId c)) (\<lambda>agentId. and_then (readMetadata e sv agentId) (\<lambda>md.
     and_then (lifts (suites_of c type)) (\<lambda>suites. and_then (lifts (instancePath e sv agentId)) (\<lambda>inst.
     and_then (docker e (words [''run'', ''--rm'', ''--network''] @ [name_in md ''network'', JStr ''--env-file'',
         JStr (path_text (inst @ [''runtime.env''])), JStr ''--env'',
         JStr (''BAIRUI_RUNTIME_PROBE_URL=http://'' @ shown e (name_in md ''runtime'') @ '':8787''),
         image_or md ''runtime'' (sv_runtimeImage sv)] @ words [''node'', ''apps/control-check.mjs'', type] @ suites))
       (\<lambda>out. lifts (check_report e type out))))))"

end
