(* ===== verification/Supervisor_Updates.thy ===== *)
theory Supervisor_Updates
  imports Supervisor_Containers
begin

text \<open>
  Changes to a running agent: configurations and releases that are staged, applied and rolled back, the documents of an
  owner, and the actions on single services and credentials.
\<close>

section \<open>Configurations\<close>

definition approval_required :: "json \<Rightarrow> failure option" where
  "approval_required c = (if truthy (at c ''approval_id'') then None else Some (CodedError ''approval_required'' None))"

definition revision_of :: "json \<Rightarrow> failure + string" where
  "revision_of c = identifier_of ''config_revision_id'' (at (at c ''arguments'') ''config_revision_id'')"

definition stage_path :: "path \<Rightarrow> string \<Rightarrow> path" where
  "stage_path inst revision = inst @ [''staged-config'', revision]"

text \<open>The names that the instance was given, as the templates show them.\<close>

definition stored_names :: "sup_env \<Rightarrow> json \<Rightarrow> agent_names" where
  "stored_names e md =
     \<lparr>an_key = shown e (name_in md ''key''), an_network = shown e (name_in md ''network''), an_hermes = shown e (name_in md ''hermes''),
      an_dashboard = shown e (name_in md ''dashboard''), an_runtime = shown e (name_in md ''runtime'')\<rparr>"

definition stageConfiguration :: "sup_env \<Rightarrow> supervisor \<Rightarrow> json \<Rightarrow> json sup" where
  "stageConfiguration e sv c =
     and_then (lifts (commandAgentId c)) (\<lambda>agentId.
     and_then (readMetadata e sv agentId) (\<lambda>md.
     and_then (lifts (revision_of c)) (\<lambda>revision.
     and_then (lifts (instancePath e sv agentId)) (\<lambda>inst.
     and_then (writeConfiguration e sv c (stage_path inst revision) (stored_names e md)) (\<lambda>_.
     and_then (asks (se_now e)) (\<lambda>now.
     and_then (alters (writeFileSync (stage_path inst revision @ [''stage.json''])
       (se_stringify e (JObj [(''schemaVersion'', JStr ''1.0''), (''agentId'', JStr agentId), (''revisionId'', JStr revision),
         (''commandId'', at c ''command_id''), (''stagedAt'', JStr now)])))) (\<lambda>_.
       returns (sup_result JUndefined [(''files'', num 6), (''staged'', num 1)] [''config:'' @ revision @ '':staged'']))))))))"

text \<open>Where the five files of a configuration are in use, and where a copy of them is in a folder.\<close>

definition active_files :: "path \<Rightarrow> path list" where
  "active_files inst =
     [inst @ [''hermes.env''], inst @ [''dashboard.env''], inst @ [''runtime.env''], inst @ [''hermes-data'', ''SOUL.md''], inst @ [''agent-control.token'']]"

definition copies_in :: "path \<Rightarrow> path list" where
  "copies_in p = map (\<lambda>x. p @ [x]) [''hermes.env'', ''dashboard.env'', ''runtime.env'', ''SOUL.md'', ''agent-control.token'']"

definition rollback_path :: "path \<Rightarrow> json \<Rightarrow> string \<Rightarrow> failure + path" where
  "rollback_path inst md revision =
     (case default (at md ''configRevisionId'') (JStr (''before-'' @ revision)) of
        JStr t \<Rightarrow> Inr (join_path (inst @ [''config-history'']) t) | _ \<Rightarrow> Inl (CodedError ''ERR_INVALID_ARG_TYPE'' None))"

definition save_file :: "path \<Rightarrow> path \<Rightarrow> unit sup" where
  "save_file p q = and_then (peeks (\<lambda>fs. existsSync fs p)) (\<lambda>there. if there then copyFileSecure p q else returns ())"

definition copy_pairs :: "path list \<Rightarrow> path list \<Rightarrow> unit sup" where
  "copy_pairs ps qs = each (\<lambda>(p, q). copyFileSecure p q) (zip ps qs)"

definition ignoring :: "unit sup \<Rightarrow> unit sup" where
  "ignoring m = or_catch m (\<lambda>_. returns ())"

definition kept_revision :: "sup_env \<Rightarrow> json \<Rightarrow> string" where
  "kept_revision e md = shown e (default (at md ''configRevisionId'') (JStr ''initial''))"

definition config_metadata :: "json \<Rightarrow> json \<Rightarrow> string \<Rightarrow> (string \<times> json) list" where
  "config_metadata c md revision =
     overwrite (own_fields md) [(''configRevisionId'', JStr revision), (''idempotencyKey'', at c ''idempotency_key'')]"

definition switch_configuration :: "sup_env \<Rightarrow> supervisor \<Rightarrow> json \<Rightarrow> json \<Rightarrow> string \<Rightarrow> path \<Rightarrow> string \<Rightarrow> unit sup" where
  "switch_configuration e sv c md agentId inst revision =
     and_then (copy_pairs (copies_in (stage_path inst revision)) (active_files inst)) (\<lambda>_.
     and_then (runContainers e sv md (env_paths_in inst) (images_of sv md)) (\<lambda>_.
       writeMetadata e sv agentId (config_metadata c md revision)))"

definition restore_configuration :: "sup_env \<Rightarrow> supervisor \<Rightarrow> json \<Rightarrow> path \<Rightarrow> path \<Rightarrow> unit sup" where
  "restore_configuration e sv md inst saved =
     and_then (peeks (\<lambda>fs. list_all (existsSync fs) (copies_in saved))) (\<lambda>complete.
       if complete
       then and_then (copy_pairs (copies_in saved) (active_files inst)) (\<lambda>_. ignoring (runContainers e sv md (env_paths_in inst) (images_of sv md)))
       else returns ())"

definition applyConfiguration :: "sup_env \<Rightarrow> supervisor \<Rightarrow> json \<Rightarrow> json sup" where
  "applyConfiguration e sv c =
     and_then (checks (approval_required c)) (\<lambda>_.
     and_then (lifts (commandAgentId c)) (\<lambda>agentId.
     and_then (readMetadata e sv agentId) (\<lambda>md.
     and_then (lifts (revision_of c)) (\<lambda>revision.
     and_then (stageConfiguration e sv c) (\<lambda>_.
     and_then (lifts (instancePath e sv agentId)) (\<lambda>inst.
     and_then (lifts (rollback_path inst md revision)) (\<lambda>saved.
     and_then (alters (mkdirSync saved)) (\<lambda>_.
     and_then (each (\<lambda>p. save_file p (saved @ [last p])) (active_files inst)) (\<lambda>_.
     and_then (or_catch (switch_configuration e sv c md agentId inst revision)
                 (\<lambda>err. and_then (restore_configuration e sv md inst saved) (\<lambda>_. throws err))) (\<lambda>_.
       returns (sup_result (endpoint_of e sv (at md ''runtimePort'')) [(''files'', num 5), (''containers'', num 3), (''applied'', num 1)]
         [''config:'' @ revision @ '':applied'', ''config:'' @ kept_revision e md @ '':rollback-ready''])))))))))))"

section \<open>Documents of an owner\<close>

definition owner_file :: "path \<Rightarrow> string \<Rightarrow> path" where
  "owner_file inst sc = inst @ [''hermes-data'', if sc = ''skills'' then ''config.yaml'' else ''SOUL.md'']"

definition owner_scope_of :: "json \<Rightarrow> failure + string" where
  "owner_scope_of c =
     (case at (at (at (at c ''config'') ''document'') ''owner_change'') ''scope'' of
        JStr sc \<Rightarrow> if sc \<in> {''skills'', ''identity''} then Inr sc else Inl bad_scope | _ \<Rightarrow> Inl bad_scope)"

text \<open>\<open>JSON.stringify\<close> of a list of identifiers, which need no escapes.\<close>

definition listed_text :: "string list \<Rightarrow> string" where
  "listed_text ss = ''['' @ join '','' (map (\<lambda>s. CHR 0x22 # s @ [CHR 0x22]) ss) @ '']''"

definition write_owner_document :: "sup_env \<Rightarrow> json \<Rightarrow> string \<Rightarrow> string \<Rightarrow> path \<Rightarrow> ((string \<times> json) list \<times> string) sup" where
  "write_owner_document e c agentId sc p =
     (let doc = at (at c ''config'') ''document'' in
      if sc = ''skills'' then
        and_then (lifts (disabledSkills doc True)) (\<lambda>disabled.
        and_then (mergeSkillConfiguration e p disabled) (\<lambda>_.
          returns ([(''skills'', num (int (length disabled))), (''containers'', num 1), (''applied'', num 1)],
            ''skills-sha256:'' @ sha_hex e (listed_text disabled))))
      else
        and_then (lifts (identityDocument doc agentId)) (\<lambda>(_, soul).
        and_then (atomicWriteSecure e p soul) (\<lambda>_.
          returns ([(''identity'', num 1), (''soulChars'', num (int (length soul))), (''containers'', num 1), (''applied'', num 1)],
            ''soul-sha256:'' @ sha_hex e soul))))"

definition rerun_hermes :: "sup_env \<Rightarrow> supervisor \<Rightarrow> json \<Rightarrow> path \<Rightarrow> string option \<Rightarrow> unit sup" where
  "rerun_hermes e sv md inst previous =
     and_then (lifts (agent_path e sv md)) (\<lambda>place.
     and_then (runHermesContainer e sv md place (inst @ [''hermes.env'']) (image_or md ''hermes'' (sv_hermesImage sv)))
       (\<lambda>_. restoreHermesLifecycle e (name_in md ''hermes'') previous))"

text \<open>What runs after the document is written, and what undoes the document when that fails.\<close>

definition take_effect :: "sup_env \<Rightarrow> supervisor \<Rightarrow> json \<Rightarrow> json \<Rightarrow> string \<Rightarrow> path \<Rightarrow> string \<Rightarrow> string option \<Rightarrow> unit sup" where
  "take_effect e sv c md agentId inst revision previous =
     and_then (rerun_hermes e sv md inst previous) (\<lambda>_. writeMetadata e sv agentId (config_metadata c md revision))"

definition undo_document :: "sup_env \<Rightarrow> supervisor \<Rightarrow> json \<Rightarrow> path \<Rightarrow> path \<Rightarrow> path \<Rightarrow> bool \<Rightarrow> string option \<Rightarrow> unit sup" where
  "undo_document e sv md inst p saved had previous =
     and_then (peeks (\<lambda>fs. had \<and> existsSync fs saved)) (\<lambda>there.
     and_then (if there then copyFileSecure saved p else alters (rmSync p)) (\<lambda>_. ignoring (rerun_hermes e sv md inst previous)))"

definition change_document :: "sup_env \<Rightarrow> supervisor \<Rightarrow> json \<Rightarrow> json \<Rightarrow> string \<Rightarrow> string \<Rightarrow> string \<Rightarrow> path \<Rightarrow> path \<Rightarrow> json sup" where
  "change_document e sv c md agentId revision sc inst history =
     (let p = owner_file inst sc; saved = history @ [last p] in
     and_then (peeks (\<lambda>fs. existsSync fs p)) (\<lambda>had.
     and_then (containerStatus e (name_in md ''hermes'')) (\<lambda>previous.
     and_then (alters (mkdirSync history)) (\<lambda>_.
     and_then (if had then copyFileSecure p saved else returns ()) (\<lambda>_.
     and_then (write_owner_document e c agentId sc p) (\<lambda>written.
     and_then (or_catch (take_effect e sv c md agentId inst revision previous)
                 (\<lambda>err. and_then (undo_document e sv md inst p saved had previous) (\<lambda>_. throws err))) (\<lambda>_.
       returns (sup_result (endpoint_of e sv (at md ''runtimePort'')) (fst written)
         [''config:'' @ revision @ '':applied'', snd written, ''config:'' @ kept_revision e md @ '':rollback-ready'']))))))))"

definition applyUserConfiguration :: "sup_env \<Rightarrow> supervisor \<Rightarrow> json \<Rightarrow> json sup" where
  "applyUserConfiguration e sv c =
     and_then (lifts (commandAgentId c)) (\<lambda>agentId.
     and_then (readMetadata e sv agentId) (\<lambda>md.
     and_then (lifts (revision_of c)) (\<lambda>revision.
     and_then (lifts (owner_scope_of c)) (\<lambda>sc.
     and_then (lifts (instancePath e sv agentId)) (\<lambda>inst.
     and_then (lifts (rollback_path inst md revision)) (\<lambda>history.
       change_document e sv c md agentId revision sc inst history))))))"

section \<open>Releases\<close>

record release_descriptor =
  rd_id :: string
  rd_version :: string
  rd_hermes :: string
  rd_runtime :: string

definition releaseDescriptor :: "json \<Rightarrow> string \<Rightarrow> failure + release_descriptor" where
  "releaseDescriptor c idField =
     (case identifier_of idField (at (at c ''arguments'') idField) of Inl err \<Rightarrow> Inl err
      | Inr i \<Rightarrow>
          (let rel = at c ''release'' in
           if \<not> truthy rel \<or> at rel ''id'' \<noteq> JStr i then Inl (CodedError ''release_manifest_missing'' None)
           else (case identifier_of ''release_version'' (at rel ''version'') of Inl err \<Rightarrow> Inl err
             | Inr v \<Rightarrow> (case imageDigest (at rel ''hermes_image'') of Inl err \<Rightarrow> Inl err
               | Inr h \<Rightarrow> (case imageDigest (at rel ''runtime_image'') of Inl err \<Rightarrow> Inl err
                 | Inr r \<Rightarrow> Inr \<lparr>rd_id = i, rd_version = v, rd_hermes = h, rd_runtime = r\<rparr>)))))"

definition images_json :: "release_descriptor \<Rightarrow> json" where
  "images_json d = JObj [(''hermes'', JStr (rd_hermes d)), (''runtime'', JStr (rd_runtime d))]"

definition stageRelease :: "sup_env \<Rightarrow> supervisor \<Rightarrow> json \<Rightarrow> string \<Rightarrow> json sup" where
  "stageRelease e sv c idField =
     and_then (lifts (commandAgentId c)) (\<lambda>agentId.
     and_then (lifts (releaseDescriptor c idField)) (\<lambda>d.
     and_then (lifts (instancePath e sv agentId)) (\<lambda>inst.
     and_then (alters (mkdirSync (inst @ [''staged-releases'']))) (\<lambda>_.
     and_then (docker e (words [''image'', ''pull'', rd_hermes d])) (\<lambda>_.
     and_then (docker e (words [''image'', ''pull'', rd_runtime d])) (\<lambda>_.
     and_then (asks (se_now e)) (\<lambda>now.
     and_then (alters (writeFileSync (inst @ [''staged-releases'', rd_id d @ ''.json''])
       (se_stringify e (JObj [(''id'', JStr (rd_id d)), (''version'', JStr (rd_version d)), (''images'', images_json d), (''stagedAt'', JStr now)]))))
       (\<lambda>_. returns (sup_result JUndefined [(''images'', num 2), (''staged'', num 1)]
         [''release:'' @ rd_id d @ '':staged'', ''image:'' @ rd_hermes d, ''image:'' @ rd_runtime d])))))))))"

definition kept_release :: "json \<Rightarrow> json" where
  "kept_release md = default (at md ''releaseId'') (JStr ''initial'')"

definition applyRelease :: "sup_env \<Rightarrow> supervisor \<Rightarrow> json \<Rightarrow> string \<Rightarrow> json sup" where
  "applyRelease e sv c idField =
     and_then (checks (approval_required c)) (\<lambda>_.
     and_then (lifts (commandAgentId c)) (\<lambda>agentId.
     and_then (readMetadata e sv agentId) (\<lambda>md.
     and_then (lifts (releaseDescriptor c idField)) (\<lambda>d.
     and_then (stageRelease e sv c idField) (\<lambda>_.
     and_then (lifts (instancePath e sv agentId)) (\<lambda>inst.
     and_then (alters (mkdirSync (inst @ [''release-history'']))) (\<lambda>_.
     and_then (asks (se_now e)) (\<lambda>now.
     and_then (alters (writeFileSync (join_path (inst @ [''release-history'']) (shown e (kept_release md) @ ''.json''))
       (se_stringify e (JObj [(''id'', kept_release md), (''version'', default (at md ''releaseVersion'') (JStr ''initial'')),
         (''images'', images_of sv md), (''recordedAt'', JStr now)])))) (\<lambda>_.
     and_then (runContainers e sv md (env_paths_in inst) (images_json d)) (\<lambda>_.
     and_then (writeMetadata e sv agentId (overwrite (own_fields md)
       [(''images'', images_json d), (''releaseId'', JStr (rd_id d)), (''releaseVersion'', JStr (rd_version d)),
        (''idempotencyKey'', at c ''idempotency_key'')])) (\<lambda>_.
       returns (sup_result (endpoint_of e sv (at md ''runtimePort'')) [(''images'', num 2), (''containers'', num 3), (''applied'', num 1)]
         [''release:'' @ rd_id d @ '':applied'', ''release:'' @ shown e (kept_release md) @ '':rollback-ready'']))))))))))))"

text \<open>A rollback applies the release the command carries as \<open>rollback_release\<close>.\<close>

definition rollbackRelease :: "sup_env \<Rightarrow> supervisor \<Rightarrow> json \<Rightarrow> json sup" where
  "rollbackRelease e sv c =
     applyRelease e sv (JObj (overwrite (own_fields c) [(''release'', at c ''rollback_release'')])) ''rollback_release_id''"

section \<open>Single services and credentials\<close>

definition IMAGE_ID :: rexp where
  "IMAGE_ID = Sq (literal ''sha256:'') (Rep (Cls is_hex) 64 (Some 64))"

definition checkUpstream :: "sup_env \<Rightarrow> supervisor \<Rightarrow> json \<Rightarrow> json sup" where
  "checkUpstream e sv c =
     and_then (lifts (commandAgentId c)) (\<lambda>agentId.
     and_then (readMetadata e sv agentId) (\<lambda>md.
     and_then (lifts (identifier_of ''upstream_id'' (at (at c ''arguments'') ''upstream_id''))) (\<lambda>upstream.
       (let img = (if upstream = ''hermes'' then at (at md ''images'') ''hermes''
                   else if upstream = ''bairui-runtime'' then at (at md ''images'') ''runtime'' else JNull) in
     and_then (checks (if truthy img then None else Some (CodedError ''unsupported_upstream'' None))) (\<lambda>_.
     and_then (docker e (words [''image'', ''inspect'', ''--format'', ''{{.Id}}''] @ [img])) (\<lambda>out.
     and_then (checks (if matches IMAGE_ID (trim out) then None else Some (CodedError ''invalid_upstream_evidence'' None))) (\<lambda>_.
       returns (sup_result JUndefined [(''images'', num 1), (''verified'', num 1)] [''upstream:'' @ upstream, ''image-id:'' @ trim out]))))))))"

definition restartService :: "sup_env \<Rightarrow> supervisor \<Rightarrow> json \<Rightarrow> json sup" where
  "restartService e sv c =
     and_then (checks (approval_required c)) (\<lambda>_.
     and_then (lifts (commandAgentId c)) (\<lambda>agentId.
     and_then (readMetadata e sv agentId) (\<lambda>md.
     and_then (lifts (identifier_of ''service_id'' (at (at c ''arguments'') ''service_id''))) (\<lambda>service.
       (let container = (if service = ''hermes'' then name_in md ''hermes'' else if service = ''hermes-dashboard'' then name_in md ''dashboard''
                         else if service = ''runtime-boundary'' then name_in md ''runtime'' else JNull) in
     and_then (checks (if truthy container then None else Some (CodedError ''unsupported_service'' None))) (\<lambda>_.
     and_then (docker e (words [''container'', ''restart''] @ [container])) (\<lambda>_.
       returns (sup_result JUndefined [(''containers'', num 1), (''restarted'', num 1)] [''docker:'' @ shown e container @ '':restarted'']))))))))"

definition revokeCredential :: "sup_env \<Rightarrow> supervisor \<Rightarrow> json \<Rightarrow> json sup" where
  "revokeCredential e sv c =
     and_then (checks (approval_required c)) (\<lambda>_.
     and_then (lifts (commandAgentId c)) (\<lambda>agentId.
     and_then (readMetadata e sv agentId) (\<lambda>md.
     and_then (lifts (identifier_of ''identity_id'' (at (at c ''arguments'') ''identity_id''))) (\<lambda>identity.
     and_then (lifts (instancePath e sv agentId)) (\<lambda>inst.
     and_then (alters (rmSync (inst @ [''agent-control.token'']))) (\<lambda>_.
     and_then (when_exists e ''container'' (name_in md ''runtime'') (words [''container'', ''stop''] @ [name_in md ''runtime''])) (\<lambda>_.
       returns (sup_result JUndefined [(''credentials'', num 1), (''containers_stopped'', num 1)]
         [''identity:'' @ identity @ '':revoked'', ''docker:'' @ shown e (name_in md ''runtime'') @ '':stopped'']))))))))"

end
