(* ===== verification/Supervisor_Backups.thy ===== *)
theory Supervisor_Backups
  imports Supervisor_Updates
begin

text \<open>
  Encrypted backups of an agent's data: creating, verifying, restoring and expiring them. A backup file is the length
  of a header in four bytes, the header as JSON, and the archive encrypted with AES-256-GCM; a file's content is a list
  of characters, one per byte.
\<close>

section \<open>The envelope\<close>

text \<open>Standard base64, with padding.\<close>

definition to_base64 :: "bytes \<Rightarrow> string" where
  "to_base64 bs =
     map (\<lambda>c. if c = CHR ''-'' then CHR ''+'' else if c = CHR ''_'' then CHR ''/'' else c) (to_base64url bs)
     @ replicate ((3 - length bs mod 3) mod 3) CHR ''=''"

text \<open>The decoder of base64url takes both alphabets and skips the padding, as Node's does.\<close>

abbreviation from_base64 :: "string \<Rightarrow> bytes" where
  "from_base64 \<equiv> from_base64url"

definition byte_text :: "bytes \<Rightarrow> string" where
  "byte_text = map char_of"

definition text_bytes :: "string \<Rightarrow> bytes" where
  "text_bytes = map of_char"

definition uint32_be :: "nat \<Rightarrow> bytes" where
  "uint32_be n = [n div 16777216 mod 256, n div 65536 mod 256, n div 256 mod 256, n mod 256]"

definition read_uint32_be :: "bytes \<Rightarrow> nat" where
  "read_uint32_be bs = fold (\<lambda>b n. 256 * n + b) (take 4 bs) 0"

definition backup_header :: "sup_env \<Rightarrow> string \<Rightarrow> string \<Rightarrow> bytes \<Rightarrow> bytes \<Rightarrow> string \<Rightarrow> string \<Rightarrow> json" where
  "backup_header e backupId agentId iv tag plain now =
     JObj [(''schemaVersion'', JStr ''1.0''), (''backupId'', JStr backupId), (''agentId'', JStr agentId), (''algorithm'', JStr ''aes-256-gcm''),
       (''iv'', JStr (to_base64 iv)), (''tag'', JStr (to_base64 tag)), (''plaintextSha256'', JStr (sha_hex e plain)), (''createdAt'', JStr now)]"

definition backup_file :: "sup_env \<Rightarrow> bytes \<Rightarrow> string \<Rightarrow> string \<Rightarrow> bytes \<Rightarrow> string \<Rightarrow> string \<Rightarrow> string" where
  "backup_file e key backupId agentId iv plain now =
     (case encrypt (se_cipher e) key iv plain of
        (encrypted, tag) \<Rightarrow>
          (let header = se_stringify e (backup_header e backupId agentId iv tag plain now) in
           byte_text (uint32_be (length header)) @ header @ byte_text encrypted))"

definition invalid_backup :: failure where
  "invalid_backup = CodedError ''invalid_backup'' None"

definition key_missing :: failure where
  "key_missing = CodedError ''backup_key_unavailable'' None"

definition integrity_failed :: failure where
  "integrity_failed = CodedError ''backup_integrity_failed'' None"

definition header_fits :: "sup_env \<Rightarrow> json \<Rightarrow> string \<Rightarrow> string \<Rightarrow> bool" where
  "header_fits e h backupId agentId \<longleftrightarrow>
     at h ''schemaVersion'' = JStr ''1.0'' \<and> at h ''algorithm'' = JStr ''aes-256-gcm'' \<and> at h ''backupId'' = JStr backupId
     \<and> matches NAME_PATTERN (shown e (at h ''agentId'')) \<and> at h ''agentId'' = JStr agentId"

definition opened_backup :: "sup_env \<Rightarrow> bytes \<Rightarrow> json \<Rightarrow> bytes \<Rightarrow> failure + string \<times> string" where
  "opened_backup e key h encrypted =
     (case (at h ''iv'', at h ''tag'') of
        (JStr iv, JStr tag) \<Rightarrow>
          (case decrypt (se_cipher e) key (from_base64 iv) encrypted (from_base64 tag) of
             None \<Rightarrow> Inl integrity_failed
           | Some plain \<Rightarrow> if at h ''plaintextSha256'' = JStr (sha_hex e plain) then Inr (plain, sha_hex e plain) else Inl integrity_failed)
      | _ \<Rightarrow> Inl integrity_failed)"

definition parsed_backup :: "sup_env \<Rightarrow> bytes \<Rightarrow> string \<Rightarrow> string \<Rightarrow> string \<Rightarrow> failure + string \<times> string" where
  "parsed_backup e key backupId agentId input =
     (let n = read_uint32_be (text_bytes input) in
      if length input < 7 \<or> n < 2 \<or> 16384 < n \<or> length input \<le> 4 + n then Inl invalid_backup
      else case se_parse e (take n (drop 4 input)) of None \<Rightarrow> Inl invalid_backup
      | Some h \<Rightarrow>
          if nullish h then Inl (TypeError ''property of null'')
          else if \<not> header_fits e h backupId agentId then Inl (CodedError ''backup_identity_mismatch'' None)
          else opened_backup e key h (text_bytes (drop (4 + n) input)))"

definition readBackup :: "sup_env \<Rightarrow> supervisor \<Rightarrow> string \<Rightarrow> string \<Rightarrow> (string \<times> string \<times> string) sup" where
  "readBackup e sv backupId agentId =
     (case sv_backupKey sv of None \<Rightarrow> throws key_missing
      | Some key \<Rightarrow>
          and_then (lifts (backupPath sv backupId)) (\<lambda>p.
          and_then (sees (\<lambda>fs. case readFileSync fs p of
              Inl err \<Rightarrow> Inl (if failure_code err = Some ''ENOENT'' then CodedError ''backup_not_found'' None else err) | Inr t \<Rightarrow> Inr t)) (\<lambda>input.
          and_then (lifts (parsed_backup e key backupId agentId input)) (\<lambda>(plain, digest).
            returns (input, plain, digest)))))"

section \<open>What a backup may contain\<close>

text \<open>The entries of a tree in the order they are checked: links and special files are refused.\<close>

function unsafe_entry :: "files \<Rightarrow> path list \<Rightarrow> bool" where
  "unsafe_entry fs [] = False"
| "unsafe_entry fs (p # ps) =
     (case node_at fs p of
        Some Folder \<Rightarrow> unsafe_entry fs (child_paths fs p @ ps)
      | Some (File _) \<Rightarrow> unsafe_entry fs ps
      | _ \<Rightarrow> True)"
  by pat_completeness auto
termination
  by (relation "measure (\<lambda>(fs, ps). walk_size fs ps)") (auto simp: less_Suc_eq_le intro: walk_descends)

definition assertSafeTree :: "path \<Rightarrow> files \<Rightarrow> failure + unit" where
  "assertSafeTree p fs =
     (if \<not> existsSync fs p then Inl invalid_backup
      else case readdirSync fs p of Inl err \<Rightarrow> Inl err
      | Inr _ \<Rightarrow> if unsafe_entry fs (child_paths fs (or_else (real_path fs p) p)) then Inl (CodedError ''unsafe_backup_content'' None) else Inr ())"

section \<open>Creating, verifying and expiring\<close>

definition tar :: "sup_env \<Rightarrow> string list \<Rightarrow> string sup" where
  "tar e args = execFile e ''tar'' args"

definition BACKUP_ENTRIES :: "string list" where
  "BACKUP_ENTRIES = [''hermes-data'', ''instance.json'', ''hermes.env'', ''dashboard.env'', ''runtime.env'']"

definition archive_path :: "supervisor \<Rightarrow> string \<Rightarrow> path" where
  "archive_path sv i = sv_backups sv @ [CHR ''.'' # i @ ''.tar.gz'']"

definition sha_file :: "sup_env \<Rightarrow> string \<Rightarrow> string" where
  "sha_file e t = ''sha256:'' @ sha_hex e t"

definition seal_archive :: "sup_env \<Rightarrow> supervisor \<Rightarrow> bytes \<Rightarrow> string \<Rightarrow> string \<Rightarrow> path \<Rightarrow> json sup" where
  "seal_archive e sv key backupId agentId inst =
     and_then (tar e ([''-czf'', path_text (archive_path sv backupId), ''-C'', path_text inst] @ BACKUP_ENTRIES)) (\<lambda>_.
     and_then (sees (\<lambda>fs. readFileSync fs (archive_path sv backupId))) (\<lambda>plain.
     and_then (asks (se_iv e)) (\<lambda>iv. and_then (asks (se_now e)) (\<lambda>now.
       (let output = backup_file e key backupId agentId iv plain now in
     and_then (lifts (backupPath sv backupId)) (\<lambda>p. and_then (alters (writeFileSync p output)) (\<lambda>_.
       returns (sup_result JUndefined [(''bytes'', num (int (length output))), (''encrypted'', num 1), (''files'', num 5)]
         [''backup:'' @ backupId, sha_file e output]))))))))"

definition createBackup :: "sup_env \<Rightarrow> supervisor \<Rightarrow> json \<Rightarrow> json sup" where
  "createBackup e sv c =
     (case sv_backupKey sv of None \<Rightarrow> throws key_missing
      | Some key \<Rightarrow>
          and_then (lifts (commandAgentId c)) (\<lambda>agentId.
          and_then (readMetadata e sv agentId) (\<lambda>_.
          and_then (lifts (identifier_of ''backup_id'' (default (at (at c ''arguments'') ''backup_id'') (at c ''command_id'')))) (\<lambda>backupId.
          and_then (lifts (instancePath e sv agentId)) (\<lambda>inst.
          and_then (sees (assertSafeTree (inst @ [''hermes-data'']))) (\<lambda>_.
          and_then (alters (mkdirSync (sv_backups sv))) (\<lambda>_.
            and_finally (seal_archive e sv key backupId agentId inst) (alters (rmSync (archive_path sv backupId))))))))))"

definition backup_named :: "json \<Rightarrow> failure + string" where
  "backup_named c = identifier_of ''backup_id'' (at (at c ''arguments'') ''backup_id'')"

definition verifyBackup :: "sup_env \<Rightarrow> supervisor \<Rightarrow> json \<Rightarrow> json sup" where
  "verifyBackup e sv c =
     and_then (lifts (commandAgentId c)) (\<lambda>agentId.
     and_then (readMetadata e sv agentId) (\<lambda>_.
     and_then (lifts (backup_named c)) (\<lambda>backupId.
     and_then (readBackup e sv backupId agentId) (\<lambda>(input, plain, digest).
       returns (sup_result JUndefined [(''bytes'', num (int (length input))), (''verified'', num 1)]
         [''backup:'' @ backupId @ '':verified'', ''plaintext-sha256:'' @ digest])))))"

definition expireBackup :: "sup_env \<Rightarrow> supervisor \<Rightarrow> json \<Rightarrow> json sup" where
  "expireBackup e sv c =
     and_then (lifts (commandAgentId c)) (\<lambda>agentId.
     and_then (readMetadata e sv agentId) (\<lambda>_.
     and_then (lifts (backup_named c)) (\<lambda>backupId.
     and_then (lifts (backupPath sv backupId)) (\<lambda>p.
     and_then (peeks (\<lambda>fs. existsSync fs p)) (\<lambda>there.
       if \<not> there then returns (sup_result JUndefined [(''expired'', num 1), (''already_absent'', num 1)] [''backup:'' @ backupId @ '':expired''])
       else and_then (readBackup e sv backupId agentId) (\<lambda>_. and_then (alters (rmSync p)) (\<lambda>_.
         returns (sup_result JUndefined [(''expired'', num 1), (''files_deleted'', num 1)] [''backup:'' @ backupId @ '':expired'']))))))))"

section \<open>Restoring\<close>

text \<open>An entry of the archive's listing without a leading \<open>./\<close> and a trailing slash.\<close>

definition archive_entry :: "string \<Rightarrow> string" where
  "archive_entry t =
     (let u = (if starts_with ''./'' t then dropWhile (\<lambda>c. c = CHR ''/'') (tl t) else t) in if u \<noteq> [] \<and> last u = CHR ''/'' then butlast u else u)"

definition unsafe_name :: "string \<Rightarrow> bool" where
  "unsafe_name t \<longleftrightarrow>
     starts_with ''/'' t \<or> CHR 0x5C \<in> set t \<or> ''..'' \<in> set (split_on CHR ''/'' t) \<or> hd (split_on CHR ''/'' t) \<notin> set BACKUP_ENTRIES"

definition listing_error :: "string \<Rightarrow> failure option" where
  "listing_error out =
     (let entries = filter (\<lambda>t. t \<noteq> []) (map archive_entry (split_lines out)) in
      if entries = [] \<or> list_ex unsafe_name entries then Some (CodedError ''unsafe_backup_content'' None) else None)"

definition archived_identity :: "sup_env \<Rightarrow> path \<Rightarrow> string \<Rightarrow> files \<Rightarrow> failure + unit" where
  "archived_identity e stage agentId fs =
     (case readFileSync fs (stage @ [''instance.json'']) of Inl err \<Rightarrow> Inl err
      | Inr t \<Rightarrow> (case se_parse e t of None \<Rightarrow> Inl (PlainError ''Unexpected token'')
          | Some v \<Rightarrow> if nullish v then Inl (TypeError ''property of null'')
              else if at v ''agentId'' \<noteq> JStr agentId then Inl (CodedError ''backup_identity_mismatch'' None)
              else if list_all (\<lambda>x. existsSync fs (stage @ [x])) [''hermes-data'', ''hermes.env'', ''dashboard.env'', ''runtime.env''] then Inr ()
              else Inl invalid_backup))"

definition ENV_NAMES :: "string list" where
  "ENV_NAMES = [''hermes.env'', ''dashboard.env'', ''runtime.env'']"

definition unpack :: "sup_env \<Rightarrow> supervisor \<Rightarrow> string \<Rightarrow> string \<Rightarrow> path \<Rightarrow> unit sup" where
  "unpack e sv restoreId agentId stage =
     and_then (tar e [''-tzf'', path_text (archive_path sv restoreId)]) (\<lambda>out.
     and_then (checks (listing_error out)) (\<lambda>_.
     and_then (tar e [''-xzf'', path_text (archive_path sv restoreId), ''-C'', path_text stage, ''--no-same-owner'', ''--no-same-permissions'']) (\<lambda>_.
     and_then (sees (assertSafeTree stage)) (\<lambda>_. sees (archived_identity e stage agentId)))))"

text \<open>\<open>had\<close> lists which of the environment files the agent had before.\<close>

definition keep_history :: "sup_env \<Rightarrow> path \<Rightarrow> path \<Rightarrow> bool \<Rightarrow> string list \<Rightarrow> unit sup" where
  "keep_history e inst history hadData had =
     and_then (alters (rm_recursive history)) (\<lambda>_. and_then (alters (mkdirSync history)) (\<lambda>_.
     and_then (if hadData then alters (cpSync (inst @ [''hermes-data'']) (history @ [''hermes-data''])) else returns ()) (\<lambda>_.
       each (\<lambda>x. if x \<in> set had then copyFileSecure (inst @ [x]) (history @ [x]) else returns ()) ENV_NAMES)))"

definition stop_containers :: "sup_env \<Rightarrow> json \<Rightarrow> unit sup" where
  "stop_containers e md =
     each (\<lambda>k. when_exists e ''container'' (name_in md k) (words [''container'', ''stop''] @ [name_in md k])) [''runtime'', ''dashboard'', ''hermes'']"

definition swap_in :: "sup_env \<Rightarrow> supervisor \<Rightarrow> json \<Rightarrow> path \<Rightarrow> path \<Rightarrow> unit sup" where
  "swap_in e sv md inst stage =
     and_then (alters (rm_recursive (inst @ [''hermes-data'']))) (\<lambda>_.
     and_then (alters (renameSync (stage @ [''hermes-data'']) (inst @ [''hermes-data'']))) (\<lambda>_.
     and_then (each (\<lambda>x. copyFileSecure (stage @ [x]) (inst @ [x])) ENV_NAMES) (\<lambda>_.
       runContainers e sv md (env_paths_in inst) (images_of sv md))))"

definition swap_back :: "sup_env \<Rightarrow> supervisor \<Rightarrow> json \<Rightarrow> path \<Rightarrow> path \<Rightarrow> bool \<Rightarrow> string list \<Rightarrow> unit sup" where
  "swap_back e sv md inst history hadData had =
     and_then (alters (rm_recursive (inst @ [''hermes-data'']))) (\<lambda>_.
     and_then (if hadData then alters (cpSync (history @ [''hermes-data'']) (inst @ [''hermes-data''])) else returns ()) (\<lambda>_.
     and_then (each (\<lambda>x. if x \<in> set had then copyFileSecure (history @ [x]) (inst @ [x]) else alters (rmSync (inst @ [x]))) ENV_NAMES) (\<lambda>_.
       if set ENV_NAMES \<subseteq> set had then ignoring (runContainers e sv md (env_paths_in inst) (images_of sv md)) else returns ())))"

definition exchange :: "sup_env \<Rightarrow> supervisor \<Rightarrow> json \<Rightarrow> path \<Rightarrow> path \<Rightarrow> path \<Rightarrow> bool \<Rightarrow> string list \<Rightarrow> unit sup" where
  "exchange e sv md inst stage history hadData had =
     or_catch (swap_in e sv md inst stage) (\<lambda>err. and_then (swap_back e sv md inst history hadData had) (\<lambda>_. throws err))"

definition restore_steps :: "sup_env \<Rightarrow> supervisor \<Rightarrow> json \<Rightarrow> string \<Rightarrow> string \<Rightarrow> string \<Rightarrow> string \<Rightarrow> path \<Rightarrow> bool \<Rightarrow> string list \<Rightarrow> json sup" where
  "restore_steps e sv md agentId backupId restoreId digest inst hadData had =
     (let stage = inst @ [''restore-staging'', restoreId]; history = inst @ [''restore-history'', restoreId] in
     and_then (unpack e sv restoreId agentId stage) (\<lambda>_.
     and_then (keep_history e inst history hadData had) (\<lambda>_.
     and_then (stop_containers e md) (\<lambda>_.
     and_then (exchange e sv md inst stage history hadData had) (\<lambda>_.
       returns (sup_result (endpoint_of e sv (at md ''runtimePort'')) [(''restored'', num 1), (''files'', num 5), (''containers'', num 3)]
         [''backup:'' @ backupId @ '':restored'', ''restore:'' @ restoreId @ '':succeeded'', ''plaintext-sha256:'' @ digest,
          ''restore-history:'' @ restoreId]))))))"

definition restoreBackup :: "sup_env \<Rightarrow> supervisor \<Rightarrow> json \<Rightarrow> json sup" where
  "restoreBackup e sv c =
     and_then (checks (approval_required c)) (\<lambda>_.
     and_then (lifts (commandAgentId c)) (\<lambda>agentId.
     and_then (readMetadata e sv agentId) (\<lambda>md.
     and_then (lifts (backup_named c)) (\<lambda>backupId.
     and_then (lifts (identifier_of ''restore_id'' (at (at c ''arguments'') ''restore_id''))) (\<lambda>restoreId.
     and_then (readBackup e sv backupId agentId) (\<lambda>(input, plain, digest).
     and_then (lifts (instancePath e sv agentId)) (\<lambda>inst.
     and_then (peeks (\<lambda>fs. (existsSync fs (inst @ [''hermes-data'']), filter (\<lambda>x. existsSync fs (inst @ [x])) ENV_NAMES))) (\<lambda>(hadData, had).
     and_then (alters (mkdirSync (sv_backups sv))) (\<lambda>_.
     and_then (alters (rm_recursive (inst @ [''restore-staging'', restoreId]))) (\<lambda>_.
     and_then (alters (mkdirSync (inst @ [''restore-staging'', restoreId]))) (\<lambda>_.
     and_then (alters (writeFileSync (archive_path sv restoreId) plain)) (\<lambda>_.
       and_finally (restore_steps e sv md agentId backupId restoreId digest inst hadData had)
         (and_then (alters (rmSync (archive_path sv restoreId))) (\<lambda>_. alters (rm_recursive (inst @ [''restore-staging'', restoreId]))))))))))))))))"

end
