(* ===== verification/Supervisor_Rollback.thy ===== *)
theory Supervisor_Rollback
  imports Supervisor_Backups
begin

text \<open>
  What is left behind when a change fails: a failed owner document leaves the document that was in use, a failed
  restore leaves the data that was in use, and what a backup holds is what is read from it. The containers of an agent
  write to its data folder at any time; the properties here say what the supervisor does, so they assume that the runs
  of \<open>docker\<close> leave the paths in question alone while it works.
\<close>

section \<open>Programs that leave paths alone\<close>

definition leaves_alone :: "sup_env \<Rightarrow> string \<Rightarrow> path set \<Rightarrow> bool" where
  "leaves_alone e program K \<longleftrightarrow> (\<forall>n args fs. \<forall>p\<in>K. node_at (snd (se_run e n program args fs)) p = node_at fs p)"

definition view :: "path set \<Rightarrow> host \<Rightarrow> path \<Rightarrow> node option" where
  "view K s p = (if p \<in> K then node_at (ho_files s) p else None)"

lemma preserves_execFile: "leaves_alone e program K \<Longrightarrow> preserves (view K) (execFile e program args)"
  by (auto simp: preserves_def execFile_def view_def fun_eq_iff leaves_alone_def split: prod.split) (metis snd_conv)+

lemma preserves_docker [preservation]: "leaves_alone e ''docker'' K \<Longrightarrow> preserves (view K) (docker e args)"
  unfolding docker_def by (intro preservation preserves_execFile)

lemma preserves_view_marks [preservation]: "preserves (view K) (marks ev)" "preserves (view K) (asks f)"
  by (simp_all add: preserves_def marks_def asks_def view_def fun_eq_iff)

lemma preserves_view_modes [preservation]: "preserves (view K) (chmodSync p m)" "preserves (view K) (chownSync p u)"
  by (auto simp: chmodSync_def chownSync_def intro!: preservation)

lemma preserves_containers [preservation]:
  assumes "leaves_alone e ''docker'' K"
  shows "preserves (view K) (docker_exists e kind name)" "preserves (view K) (containerStatus e name)"
    "preserves (view K) (ran (docker e args))" "preserves (view K) (when_exists e kind name args)"
    "preserves (view K) (replaceContainer e name args)" "preserves (view K) (restoreHermesLifecycle e name prev)"
  using assms
  by (auto simp: docker_exists_def containerStatus_def ran_def when_exists_def replaceContainer_def restoreHermesLifecycle_def
      intro!: preservation)

lemma preserves_rerun_hermes [preservation]:
  "leaves_alone e ''docker'' K \<Longrightarrow> preserves (view K) (rerun_hermes e sv md inst prev)"
  by (auto simp: rerun_hermes_def runHermesContainer_def intro!: preservation)

lemma preserves_stop_containers [preservation]: "leaves_alone e ''docker'' K \<Longrightarrow> preserves (view K) (stop_containers e md)"
  by (auto simp: stop_containers_def simp del: each.simps intro!: preservation)

section \<open>Changes of files under a condition\<close>

lemma runs_alters:
  "(\<And>fs fs'. P fs \<Longrightarrow> f fs = Inr fs' \<Longrightarrow> Q fs') \<Longrightarrow> (\<And>fs. P fs \<Longrightarrow> E fs) \<Longrightarrow>
    runs (\<lambda>s. P (ho_files s)) (alters f) (\<lambda>_ s. Q (ho_files s)) (\<lambda>s. E (ho_files s))"
  by (auto simp: runs_def alters_def split: sum.split)

lemma keeps_alters: "(\<And>fs fs'. P fs \<Longrightarrow> f fs = Inr fs' \<Longrightarrow> P fs') \<Longrightarrow> keeps (\<lambda>s. P (ho_files s)) (alters f)"
  unfolding keeps_def by (rule runs_alters)

lemma keeps_view:
  assumes "preserves (view K) m" and "\<And>fs gs. P fs \<Longrightarrow> (\<And>p. p \<in> K \<Longrightarrow> node_at gs p = node_at fs p) \<Longrightarrow> P gs"
  shows "keeps (\<lambda>s. P (ho_files s)) m"
proof (rule keepsI)
  fix s r t assume P: "P (ho_files s)" and m: "m s = (r, t)"
  have "view K t = view K s" by (rule preservesD [OF assms(1) m])
  then have "node_at (ho_files t) p = node_at (ho_files s) p" if "p \<in> K" for p using that by (metis view_def)
  then show "P (ho_files t)" using assms(2) P by blast
qed

lemma runs_keeps: "keeps P m \<Longrightarrow> runs P m (\<lambda>_. P) P"
  by (simp add: keeps_def)

lemma plain_file: "n \<in> {None, Some (File t)} \<Longrightarrow> \<not> is_link n \<and> n \<noteq> Some Special"
  by (auto simp: is_link_def)

section \<open>Owner documents\<close>

text \<open>The document, its saved copy and the metadata, while the document is being changed.\<close>

definition document_state :: "path \<Rightarrow> node option \<Rightarrow> path \<Rightarrow> node option \<Rightarrow> path \<Rightarrow> files \<Rightarrow> bool" where
  "document_state A x R y M fs \<longleftrightarrow> node_at fs A = x \<and> node_at fs R = y \<and> \<not> is_link (node_at fs M)"

definition apart :: "path \<Rightarrow> path \<Rightarrow> bool" where
  "apart A p \<longleftrightarrow> \<not> prefix A p \<and> (\<forall>t. \<not> prefix (beside A t) p)"

lemma beside_other: "A \<noteq> [] \<Longrightarrow> beside A t \<noteq> A"
proof
  assume "A \<noteq> []" "beside A t = A"
  then have "last A @ ''.bairui-'' @ t = last A" by (metis beside_def last_snoc)
  then show False by simp
qed

lemma runs_asks: "(\<And>n fs. P fs \<Longrightarrow> Q (f n) fs) \<Longrightarrow> runs (\<lambda>s. P (ho_files s)) (asks f) (\<lambda>x s. Q x (ho_files s)) E"
  by (simp add: runs_def asks_def)

lemma runs_chmod: "(\<And>fs. P fs \<Longrightarrow> existsSync fs p) \<Longrightarrow> runs (\<lambda>s. P (ho_files s)) (chmodSync p m) (\<lambda>_ s. P (ho_files s)) E"
  by (auto simp: runs_def chmodSync_def and_then_def sees_def marks_def target_of_def)

lemma existsSync_File: "node_at fs p = Some (File t) \<Longrightarrow> existsSync fs p"
  using existsSync_plain [of fs p] by (simp add: is_link_def)

lemma renameSync_file:
  assumes "renameSync p q fs = Inr fs'" and "node_at fs p = Some (File t)" and "p \<noteq> q" "p \<noteq> []" "q \<noteq> []"
  shows "node_at fs' q = Some (File t)" and "\<not> prefix p r \<Longrightarrow> \<not> prefix q r \<Longrightarrow> node_at fs' r = node_at fs r"
  using assms by (auto simp: renameSync_def node_at_graft split: option.splits if_splits)

lemma atomic_write_outcome:
  assumes A: "A \<noteq> []" "apart A R" "apart A M"
  shows "runs (\<lambda>s. document_state A x R y M (ho_files s) \<and> (\<forall>n. node_at (ho_files s) (beside A (se_random e n)) = None))
    (atomicWriteSecure e A t) (\<lambda>_ s. document_state A (Some (File t)) R y M (ho_files s)) (\<lambda>s. document_state A x R y M (ho_files s))"
    (is "runs ?P _ ?Q ?E")
  unfolding atomicWriteSecure_def
proof (rule runs_then)
  show "runs ?P (asks (se_random e)) (\<lambda>r s. document_state A x R y M (ho_files s) \<and> node_at (ho_files s) (beside A r) = None) ?E"
    by (rule runs_asks) auto
  fix r
  let ?T = "beside A r"
  have T: "?T \<noteq> []" "?T \<noteq> A" "?T \<noteq> R" "?T \<noteq> M" using A beside_other [of A r] by (auto simp: apart_def beside_def)
  show "runs (\<lambda>s. document_state A x R y M (ho_files s) \<and> node_at (ho_files s) ?T = None)
      (and_then (alters (writeFileSync ?T t)) (\<lambda>_. and_then (alters (renameSync ?T A)) (\<lambda>_. chmodSync A 384))) ?Q ?E"
  proof (rule runs_then, rule runs_alters)
    fix fs fs' assume P: "document_state A x R y M fs \<and> node_at fs ?T = None" and w: "writeFileSync ?T t fs = Inr fs'"
    have "fs' = put_node ?T (File t) fs" by (rule writeFileSync_plain [OF w]) (use P in \<open>simp_all add: is_link_def\<close>)
    then show "document_state A x R y M fs' \<and> node_at fs' ?T = Some (File t)" using P T by (auto simp: document_state_def)
  next
    show "runs (\<lambda>s. document_state A x R y M (ho_files s) \<and> node_at (ho_files s) ?T = Some (File t))
      (and_then (alters (renameSync ?T A)) (\<lambda>_. chmodSync A 384)) ?Q ?E"
    proof (rule runs_then, rule runs_alters)
      fix fs fs' assume P: "document_state A x R y M fs \<and> node_at fs ?T = Some (File t)" and w: "renameSync ?T A fs = Inr fs'"
      note moved = renameSync_file [OF w conjunct2 [OF P] T(2) T(1) A(1)]
      have "node_at fs' R = node_at fs R" "node_at fs' M = node_at fs M"
        using moved(2) A(2,3) by (simp_all add: apart_def)
      then show "document_state A (Some (File t)) R y M fs'" using P moved(1) by (simp add: document_state_def)
    next
      show "runs (\<lambda>s. document_state A (Some (File t)) R y M (ho_files s)) (chmodSync A 384) ?Q ?E"
        by (rule runs_chmod) (auto simp: document_state_def intro: existsSync_File)
    qed auto
  qed auto
qed

lemma runs_sees: "(\<And>fs x. P fs \<Longrightarrow> f fs = Inr x \<Longrightarrow> Q x fs) \<Longrightarrow> runs (\<lambda>s. P (ho_files s)) (sees f) (\<lambda>x s. Q x (ho_files s)) (\<lambda>s. P (ho_files s))"
  by (auto simp: runs_def sees_def split: sum.split)

lemma runs_peeks: "(\<And>fs. P fs \<Longrightarrow> Q (f fs) fs) \<Longrightarrow> runs (\<lambda>s. P (ho_files s)) (peeks f) (\<lambda>x s. Q x (ho_files s)) E"
  by (auto simp: runs_def peeks_def)

lemma owner_document_outcome:
  assumes A: "A \<noteq> []" "apart A R" "apart A M"
  shows "runs (\<lambda>s. document_state A x R y M (ho_files s) \<and> (\<forall>n. node_at (ho_files s) (beside A (se_random e n)) = None))
    (write_owner_document e c agentId sc A) (\<lambda>_ s. \<exists>t. document_state A (Some (File t)) R y M (ho_files s))
    (\<lambda>s. document_state A x R y M (ho_files s))"
    (is "runs ?P _ ?Q ?E")
proof -
  have written: "runs ?P (and_then (atomicWriteSecure e A t) (\<lambda>_. returns z)) ?Q ?E" for t z
    by (rule runs_then [OF atomic_write_outcome [OF A]]) (auto intro: runs_returns)
  have merged: "runs ?P (and_then (mergeSkillConfiguration e A d) (\<lambda>_. returns z)) ?Q ?E" for d z
  proof (rule runs_then)
    show "runs ?P (mergeSkillConfiguration e A d) (\<lambda>_. ?Q z) ?E"
      unfolding mergeSkillConfiguration_def
    proof (rule runs_then)
      show "runs ?P (sees (hermes_document e A)) (\<lambda>_. ?P) ?E"
        by (auto simp: runs_def sees_def split: sum.split)
      show "runs ?P (atomicWriteSecure e A (yd_with_disabled y' d)) (\<lambda>_. ?Q z) ?E" for y'
        by (rule runs_weaken [OF atomic_write_outcome [OF A]]) auto
    qed
    show "runs (?Q z) (returns z) ?Q ?E" by (rule runs_returns) simp
  qed
  have first: "runs ?P (lifts r) (\<lambda>_. ?P) ?E" for r :: "failure + 'z"
    by (rule runs_lifts) simp_all
  show ?thesis
    unfolding write_owner_document_def Let_def split_def by (intro runs_if runs_then [OF first] written merged)
qed

lemma copyFileSecure_outcome:
  assumes "\<And>fs. P fs \<Longrightarrow> \<not> is_link (node_at fs q) \<and> node_at fs q \<noteq> Some Special"
    and "\<And>fs t. P fs \<Longrightarrow> readFileSync fs p = Inr t \<Longrightarrow> Q (put_node q (File t) fs)"
  shows "runs (\<lambda>s. P (ho_files s)) (copyFileSecure p q) (\<lambda>_ s. Q (ho_files s)) (\<lambda>s. P (ho_files s))"
  unfolding copyFileSecure_def
proof (rule runs_then, rule runs_alters)
  fix fs fs' assume P: "P fs" and c: "copyFileSync p q fs = Inr fs'"
  then obtain t where t: "readFileSync fs p = Inr t" and w: "writeFileSync q t fs = Inr fs'"
    by (auto simp: copyFileSync_def split: sum.splits)
  note plain = writeFileSync_plain [OF w] assms(1) [OF P]
  show "Q fs' \<and> (\<exists>t. node_at fs' q = Some (File t))" using assms(2) [OF P t] plain by auto
next
  show "runs (\<lambda>s. Q (ho_files s) \<and> (\<exists>t. node_at (ho_files s) q = Some (File t))) (chmodSync q 384) (\<lambda>_ s. Q (ho_files s)) (\<lambda>s. P (ho_files s))"
    by (rule runs_weaken [OF runs_chmod [where P = "\<lambda>fs. Q fs \<and> (\<exists>t. node_at fs q = Some (File t))"]]) (auto intro: existsSync_File)
qed

lemma keeps_metadata:
  assumes "instancePath e sv agentId = Inr inst" and "inst @ [''instance.json''] \<notin> {A, R}"
  shows "keeps (\<lambda>s. document_state A x R y (inst @ [''instance.json'']) (ho_files s)) (writeMetadata e sv agentId kvs)"
    (is "keeps ?P _")
proof -
  let ?M = "inst @ [''instance.json'']"
  have "keeps ?P (asks (se_now e))"
    by (rule keeps_preserved [where obs = ho_files and P = "document_state A x R y ?M"]) (rule preservation)
  moreover have "keeps ?P (alters (writeFileSync ?M t))" for t
  proof (rule keeps_alters)
    fix fs fs' assume P: "document_state A x R y ?M fs" and w: "writeFileSync ?M t fs = Inr fs'"
    from P have "\<not> is_link (node_at fs ?M)" by (simp add: document_state_def)
    from writeFileSync_elsewhere [OF w this] show "document_state A x R y ?M fs'"
      using P assms(2) by (auto simp: document_state_def)
  qed
  ultimately show ?thesis unfolding writeMetadata_def assms(1) lifts_then by (intro keeps_then)
qed

text \<open>Copying a file over a file does not fail.\<close>

lemma copyFileSecure_over:
  assumes "\<And>fs. P fs \<Longrightarrow> \<exists>t u. node_at fs p = Some (File t) \<and> node_at fs q = Some (File u) \<and> Q (put_node q (File t) fs)" and "q \<noteq> []"
  shows "runs (\<lambda>s. P (ho_files s)) (copyFileSecure p q) (\<lambda>_ s. Q (ho_files s)) E"
proof -
  have "copyFileSecure p q s = (Inr (), s\<lparr>ho_files := put_node q (File t) (ho_files s), ho_events := ho_events s @ [Moded q 384]\<rparr>)"
    if n: "node_at (ho_files s) p = Some (File t)" "node_at (ho_files s) q = Some (File u)" for s t u
  proof -
    have "copyFileSync p q (ho_files s) = Inr (put_node q (File t) (ho_files s))"
      using n readFileSync_File [OF n(1)] real_path_plain [of "ho_files s" q] by (simp add: copyFileSync_def writeFileSync_def is_link_def)
    moreover have "target_of q (put_node q (File t) (ho_files s)) = Inr q"
      using existsSync_File assms(2) by (simp add: target_of_def real_path_plain is_link_def)
    ultimately show ?thesis by (simp add: copyFileSecure_def and_then_def alters_def chmodSync_def sees_def marks_def)
  qed
  then show ?thesis using assms(1) by (fastforce simp: runs_def)
qed

lemma keeps_rerun:
  assumes "leaves_alone e ''docker'' {A, R, M}"
  shows "keeps (\<lambda>s. document_state A x R y M (ho_files s)) (rerun_hermes e sv md inst prev)"
  by (rule keeps_view [OF preserves_rerun_hermes [OF assms]]) (simp add: document_state_def)

lemma keeps_take_effect:
  assumes "leaves_alone e ''docker'' {A, R, inst @ [''instance.json'']}" and "instancePath e sv agentId = Inr inst"
    and "inst @ [''instance.json''] \<notin> {A, R}"
  shows "keeps (\<lambda>s. document_state A x R y (inst @ [''instance.json'']) (ho_files s)) (take_effect e sv c md agentId inst revision prev)"
  unfolding take_effect_def by (intro keeps_then keeps_rerun keeps_metadata assms)

lemma undo_restores:
  assumes docker: "leaves_alone e ''docker'' {A, R, M}" and A: "A \<noteq> []" "apart A R" "apart A M"
    and x: "\<not> had \<and> x = None \<or> had \<and> y = x \<and> (\<exists>t. x = Some (File t))"
  shows "runs (\<lambda>s. \<exists>t. document_state A (Some (File t)) R y M (ho_files s)) (undo_document e sv md inst A R had prev)
    (\<lambda>_ s. document_state A x R y M (ho_files s)) (\<lambda>s. document_state A x R y M (ho_files s))" (is "runs ?P _ ?Q ?E")
proof -
  have last: "runs ?E (ignoring (rerun_hermes e sv md inst prev)) (\<lambda>_. ?E) ?E"
    unfolding ignoring_def by (intro runs_keeps keeps_catch keeps_pure keeps_rerun docker)
  have undone: "runs ?P (if there then copyFileSecure R A else alters (rmSync A)) (\<lambda>_. ?E) ?E" if "there = had" for there
  proof (cases had)
    case True
    then have "runs ?P (copyFileSecure R A) (\<lambda>_. ?E) ?E"
      using x A by (intro copyFileSecure_over) (auto simp: document_state_def apart_def)
    then show ?thesis using True that by simp
  next
    case False
    then have "runs ?P (alters (rmSync A)) (\<lambda>_. ?E) ?E"
      using x A by (auto simp: runs_def alters_def rmSync_def document_state_def apart_def is_link_def)
    then show ?thesis using False that by simp
  qed
  show ?thesis
    unfolding undo_document_def
  proof (rule runs_then)
    show "runs ?P (peeks (\<lambda>fs. had \<and> existsSync fs R)) (\<lambda>there s. ?P s \<and> there = had) ?E"
      using x by (intro runs_weaken [OF runs_peeks [where P = "\<lambda>fs. \<exists>t. document_state A (Some (File t)) R y M fs"
        and Q = "\<lambda>there fs. (\<exists>t. document_state A (Some (File t)) R y M fs) \<and> there = had"]])
        (auto simp: document_state_def intro: existsSync_File)
    show "runs (\<lambda>s. ?P s \<and> there = had) (and_then (if there then copyFileSecure R A else alters (rmSync A))
        (\<lambda>_. ignoring (rerun_hermes e sv md inst prev))) ?Q ?E" for there
    proof (cases "there = had")
      case True
      show ?thesis by (rule runs_weaken [OF runs_then [OF undone [OF True] last]]) auto
    qed (simp add: runs_def)
  qed
qed

lemma owner_file_apart:
  "p = inst @ w # u \<Longrightarrow> w \<noteq> ''hermes-data'' \<Longrightarrow> apart (owner_file inst sc) p"
  by (auto simp: apart_def owner_file_def beside_def prefix_def butlast_append)

definition temporary_names :: "sup_env \<Rightarrow> path \<Rightarrow> path set" where
  "temporary_names e A = range (\<lambda>n. beside A (se_random e n))"

lemma change_document_outcome:
  assumes A: "A = owner_file inst sc" "A \<noteq> []" "apart A R" "apart A M" and R: "R = inst @ [''config-history'', kept, last A]"
    and M: "M = inst @ [''instance.json'']" and inst: "instancePath e sv agentId = Inr inst"
    and docker: "leaves_alone e ''docker'' ({A, R, M} \<union> temporary_names e A)"
    and x: "x = None \<or> (\<exists>t. x = Some (File t))" and y: "y = None \<or> (\<exists>t. y = Some (File t))"
  shows "runs (\<lambda>s. document_state A x R y M (ho_files s) \<and> (\<forall>n. node_at (ho_files s) (beside A (se_random e n)) = None))
    (change_document e sv c md agentId revision sc inst (inst @ [''config-history'', kept]))
    (\<lambda>_ s. \<exists>t. node_at (ho_files s) A = Some (File t)) (\<lambda>s. node_at (ho_files s) A = x)"
proof -
  let ?D = "\<lambda>x y fs. document_state A x R y M fs"
  let ?free = "\<lambda>fs. \<forall>n. node_at fs (beside A (se_random e n)) = None"
  let ?S = "\<lambda>y s. ?D x y (ho_files s) \<and> ?free (ho_files s)"
  let ?h = "inst @ [''config-history'', kept]" and ?E = "\<lambda>s. node_at (ho_files s) A = x"
  let ?had = "x \<noteq> None" and ?y = "if x \<noteq> None then x else y"
  let ?Z = "\<lambda>s. \<exists>t. ?D (Some (File t)) ?y (ho_files s)"
  have ARM: "A \<noteq> R" "A \<noteq> M" "R \<noteq> M" using A R M by (auto simp: apart_def)
  have T: "beside A u \<noteq> R" for u using A(3) by (auto simp: apart_def)
  have sub: "leaves_alone e ''docker'' {A, R, M}" using docker by (auto simp: leaves_alone_def)
  have there: "runs (?S y) (peeks (\<lambda>fs. existsSync fs A)) (\<lambda>had s. ?S y s \<and> had = ?had) ?E"
    using x by (intro runs_weaken [OF runs_peeks [where P = "\<lambda>fs. ?D x y fs \<and> ?free fs" and Q = "\<lambda>had fs. (?D x y fs \<and> ?free fs) \<and> had = ?had"]])
      (auto simp: document_state_def existsSync_plain is_link_def)
  have status: "runs (?S y) (containerStatus e name) (\<lambda>_. ?S y) ?E" for name
  proof (rule runs_weaken [OF runs_keeps])
    show "keeps (?S y) (containerStatus e name)"
      by (rule keeps_view [OF preserves_containers(2) [OF docker]]) (auto simp: document_state_def temporary_names_def)
  qed (auto simp: document_state_def)
  have made: "runs (?S y) (alters (mkdirSync ?h)) (\<lambda>_. ?S y) ?E"
  proof (rule runs_weaken [OF runs_keeps])
    have "\<not> prefix A ?h" "\<not> prefix R ?h" "\<not> prefix M ?h" "\<not> prefix (beside A u) ?h" for u
      by (auto simp: A(1) R M owner_file_def beside_def butlast_append prefix_def)
    then show "keeps (?S y) (alters (mkdirSync ?h))"
      by (intro keeps_alters) (auto simp: document_state_def mkdirSync_elsewhere)
  qed (auto simp: document_state_def)
  have saved: "runs (?S y) (if ?had then copyFileSecure A R else returns ()) (\<lambda>_. ?S ?y) ?E"
  proof (rule runs_if)
    assume had: ?had
    show "runs (?S y) (copyFileSecure A R) (\<lambda>_. ?S ?y) ?E"
      by (rule runs_weaken [OF copyFileSecure_outcome [where P = "\<lambda>fs. ?D x y fs \<and> ?free fs" and Q = "\<lambda>fs. ?D x x fs \<and> ?free fs"]])
        (use x y had ARM T in \<open>auto simp: document_state_def is_link_def readFileSync_File\<close>)
  qed (auto intro: runs_returns)
  have written: "runs (?S ?y) (write_owner_document e c agentId sc A) (\<lambda>_. ?Z) ?E"
    by (rule runs_weaken [OF owner_document_outcome [OF A(2-4)]]) (auto simp: document_state_def)
  have effect: "runs ?Z (or_catch (take_effect e sv c md agentId inst revision prev)
      (\<lambda>err. and_then (undo_document e sv md inst A R ?had prev) (\<lambda>_. throws err))) (\<lambda>_. ?Z) ?E" for prev
  proof (rule runs_catch)
    show "runs ?Z (take_effect e sv c md agentId inst revision prev) (\<lambda>_. ?Z) ?Z"
      using sub inst ARM unfolding M by (intro runs_keeps keeps_ex keeps_take_effect) auto
    show "runs ?Z (and_then (undo_document e sv md inst A R ?had prev) (\<lambda>_. throws err)) (\<lambda>_. ?Z) ?E" for err
    proof (rule runs_then)
      show "runs ?Z (undo_document e sv md inst A R ?had prev) (\<lambda>_. ?E) ?E"
        by (rule runs_weaken [OF undo_restores [OF sub A(2-4), of ?had x ?y]]) (use x in \<open>auto simp: document_state_def\<close>)
    qed (rule runs_throws)
  qed
  have last: "?h @ [last A] = R" using R by simp
  show ?thesis
    unfolding change_document_def Let_def A(1) [symmetric] last
  proof (rule runs_then [OF there], goal_cases)
    case (1 had)
    show ?case
    proof (cases "had = ?had")
      case True
      show ?thesis unfolding True
        by (rule runs_weaken [OF runs_then [OF status runs_then [OF made runs_then [OF saved runs_then [OF written runs_then [OF effect runs_returns]]]]]])
          (auto simp: document_state_def)
    qed (rule runs_false, simp)
  qed
qed

text \<open>
  C12. A change of an owner's document (the soul or the disabled skills) is all or nothing: when the command fails at
  any point, the document in use is the one that was in use before, or is absent as before.
\<close>

theorem failed_owner_change_is_undone:
  assumes "applyUserConfiguration e sv c s = (r, t)"
    and "commandAgentId c = Inr agentId" and "readMetadata e sv agentId s = (Inr md, s)" and "instancePath e sv agentId = Inr inst"
    and "revision_of c = Inr revision" and "rollback_path inst md revision = Inr (inst @ [''config-history'', kept])"
    and "owner_scope_of c = Inr sc" and "A = owner_file inst sc"
    and "R = inst @ [''config-history'', kept, last A]" and "M = inst @ [''instance.json'']"
    and "leaves_alone e ''docker'' ({A, R, M} \<union> temporary_names e A)"
    and "\<forall>p\<in>{A, R, M}. node_at (ho_files s) p = None \<or> (\<exists>text. node_at (ho_files s) p = Some (File text))"
    and "\<forall>p\<in>temporary_names e A. node_at (ho_files s) p = None"
  shows "case r of Inl _ \<Rightarrow> node_at (ho_files t) A = node_at (ho_files s) A
    | Inr _ \<Rightarrow> \<exists>text. node_at (ho_files t) A = Some (File text)"
proof -
  let ?D = "\<lambda>x y fs. document_state A x R y M fs"
  let ?x = "node_at (ho_files s) A" and ?y = "node_at (ho_files s) R"
  let ?free = "\<lambda>fs. \<forall>n. node_at fs (beside A (se_random e n)) = None"
  let ?had = "?x \<noteq> None"
  have A: "A \<noteq> []" "apart A R" "apart A M" "last A = last (owner_file inst sc)"
    using owner_file_apart [of R inst "''config-history''" "[kept, last A]" sc] owner_file_apart [of M inst "''instance.json''" "[]" sc]
    by (simp_all add: assms(8-10) owner_file_def)
  have x: "?x = None \<or> (\<exists>text. ?x = Some (File text))" using assms(12) by blast
  have "?D ?x ?y (ho_files s)" "?free (ho_files s)"
    using assms(12,13) by (auto simp: document_state_def temporary_names_def is_link_def)
  moreover have "runs (\<lambda>s. ?D ?x ?y (ho_files s) \<and> ?free (ho_files s)) (change_document e sv c md agentId revision sc inst (inst @ [''config-history'', kept]))
      (\<lambda>_ s. \<exists>text. node_at (ho_files s) A = Some (File text)) (\<lambda>s. node_at (ho_files s) A = ?x)"
    using assms(12) by (intro change_document_outcome [OF assms(8) A(1-3) assms(9,10,4,11)]) auto
  moreover have "applyUserConfiguration e sv c s = change_document e sv c md agentId revision sc inst (inst @ [''config-history'', kept]) s"
    unfolding applyUserConfiguration_def assms(2,4-7) lifts_then
    by (subst and_then_ok [where m = "readMetadata e sv agentId", OF assms(3)]) (simp only: assms(6) lifts_then)
  ultimately show ?thesis
    using assms(1) runs_case by fastforce
qed

definition still_change :: json where
  "still_change =
     JObj [(''arguments'', JObj [(''agent_id'', JStr ''a1''), (''config_revision_id'', JStr ''r2'')]),
       (''config'', JObj [(''document'', JObj [(''owner_change'', JObj [(''scope'', JStr ''skills''), (''generation'', JNum (Integer 1))]),
         (''skills'', JObj [(''disabled'', JArr [JStr ''s1''])])])])]"

theorem failed_owner_change_is_undone_witness:
  "\<exists>err t. applyUserConfiguration still_env still_supervisor still_change still_host = (Inl err, t) \<and>
     node_at (ho_files t) [''i'', still_key, ''hermes-data'', ''config.yaml''] = Some (File ''old'')"
proof -
  have "fails (execFile still_env ''docker'' args)" for args
    by (rule failsI) (simp add: execFile_def still_env_def)
  then have "fails (docker still_env args)" for args
    unfolding docker_def by (intro fails_then) simp
  then have "fails (take_effect still_env still_supervisor still_change md agent inst revision prev)" for md agent inst revision prev
    unfolding take_effect_def rerun_hermes_def runHermesContainer_def replaceContainer_def ran_def
    by (intro fails_first fails_then)
  then have "fails (applyUserConfiguration still_env still_supervisor still_change)"
    unfolding applyUserConfiguration_def change_document_def Let_def
    by (intro fails_then fails_first fails_catch fails_throws)
  then obtain err t where run: "applyUserConfiguration still_env still_supervisor still_change still_host = (Inl err, t)"
    unfolding fails_def by blast
  have "case Inl err of Inl _ \<Rightarrow> node_at (ho_files t) (owner_file [''i'', still_key] ''skills'')
        = node_at (ho_files still_host) (owner_file [''i'', still_key] ''skills'')
      | Inr (v :: json) \<Rightarrow> \<exists>text. node_at (ho_files t) (owner_file [''i'', still_key] ''skills'') = Some (File text)"
  proof (rule failed_owner_change_is_undone [OF run])
    show "commandAgentId still_change = Inr ''a1''" by code_simp
    show "readMetadata still_env still_supervisor ''a1'' still_host = (Inr still_metadata, still_host)" by code_simp
    show "instancePath still_env still_supervisor ''a1'' = Inr [''i'', still_key]" by code_simp
    show "revision_of still_change = Inr ''r2''" by code_simp
    show "rollback_path [''i'', still_key] still_metadata ''r2'' = Inr ([''i'', still_key] @ [''config-history'', ''before-r2''])" by code_simp
    show "owner_scope_of still_change = Inr ''skills''" by code_simp
  qed (auto simp: leaves_alone_def still_env_def still_host_def node_at_def owner_file_def temporary_names_def beside_def still_key_def)
  then show ?thesis using run by (auto simp: still_host_def node_at_def owner_file_def still_key_def)
qed

end
