(* ===== verification/Supervisor.thy ===== *)
theory Supervisor
  imports Supervisor_Rollback
begin

text \<open>
  The supervisor as a whole: every action of a command and the operation that carries it out, and the properties of
  backups and of the actions that need an approval.
\<close>

section \<open>Actions\<close>

definition LIFECYCLE_COMMANDS :: "string list" where
  "LIFECYCLE_COMMANDS = [''deployment.start'', ''deployment.stop'', ''deployment.suspend'', ''deployment.resume'', ''deployment.delete'']"

definition execute_action :: "sup_env \<Rightarrow> supervisor \<Rightarrow> json \<Rightarrow> string \<Rightarrow> json sup" where
  "execute_action e sv c action =
     (if action = ''deployment.provision'' then provision e sv c
      else if action \<in> set LIFECYCLE_COMMANDS then lifecycle e sv c
      else if action = ''snapshot.collect'' then collectSnapshot e sv c
      else if action = ''probe.run'' then runControlCheck e sv c ''probe''
      else if action = ''contract.test'' then runControlCheck e sv c ''contract''
      else if action = ''smoke.test'' then runControlCheck e sv c ''smoke''
      else if action = ''config.stage'' then stageConfiguration e sv c
      else if action = ''config.apply'' then applyConfiguration e sv c
      else if action = ''config.apply-user'' then applyUserConfiguration e sv c
      else if action = ''backup.create'' then createBackup e sv c
      else if action = ''backup.verify'' then verifyBackup e sv c
      else if action = ''backup.restore'' then restoreBackup e sv c
      else if action = ''backup.expire'' then expireBackup e sv c
      else if action = ''release.stage'' then stageRelease e sv c ''release_id''
      else if action = ''release.apply'' then applyRelease e sv c ''release_id''
      else if action = ''release.rollback'' then rollbackRelease e sv c
      else if action = ''upstream.check'' then checkUpstream e sv c
      else if action = ''service.restart'' then restartService e sv c
      else if action = ''credential.revoke'' then revokeCredential e sv c
      else throws unsupported_action)"

definition execute :: "sup_env \<Rightarrow> supervisor \<Rightarrow> json \<Rightarrow> json sup" where
  "execute e sv c = (case at c ''action'' of JStr action \<Rightarrow> execute_action e sv c action | _ \<Rightarrow> throws unsupported_action)"

lemma overwrite_other: "k \<notin> fst ` set new \<Longrightarrow> map_of (overwrite kvs new) k = map_of kvs k"
  unfolding overwrite_def by (induction new arbitrary: kvs) (auto simp: update_conv' split_beta)

definition with_approval :: "json \<Rightarrow> json \<Rightarrow> json" where
  "with_approval c v = JObj (overwrite (own_fields c) [(''approval_id'', v)])"

lemma overwritten_command:
  "at (JObj (overwrite (own_fields c) [(''release'', v)])) ''approval_id'' = at c ''approval_id''"
  "at (with_approval c v) ''action'' = at c ''action''" "at (with_approval c v) ''arguments'' = at c ''arguments''"
  by (cases c; auto simp: with_approval_def at_def prop_of_def own_fields_def overwrite_other)+

lemma checked_approval:
  assumes "\<not> truthy (at c ''approval_id'')"
    and "action \<in> {''config.apply'', ''backup.restore'', ''release.apply'', ''release.rollback'', ''service.restart'', ''credential.revoke''}"
  shows "execute_action e sv c action s = (Inl (CodedError ''approval_required'' None), s)"
proof -
  have "and_then (checks (approval_required c)) f s = (Inl (CodedError ''approval_required'' None), s)" for f :: "unit \<Rightarrow> json sup"
    using assms(1) by (simp add: approval_required_def checks_def throws_def and_then_def)
  moreover have "approval_required (JObj (overwrite (own_fields c) [(''release'', v)])) = approval_required c" for v
    by (simp only: approval_required_def overwritten_command)
  ultimately have "applyConfiguration e sv c s = (Inl (CodedError ''approval_required'' None), s)"
    "restoreBackup e sv c s = (Inl (CodedError ''approval_required'' None), s)"
    "applyRelease e sv c x s = (Inl (CodedError ''approval_required'' None), s)"
    "rollbackRelease e sv c s = (Inl (CodedError ''approval_required'' None), s)"
    "restartService e sv c s = (Inl (CodedError ''approval_required'' None), s)"
    "revokeCredential e sv c s = (Inl (CodedError ''approval_required'' None), s)" for x
    by (simp_all only: applyConfiguration_def restoreBackup_def applyRelease_def rollbackRelease_def restartService_def revokeCredential_def)
  then show ?thesis using assms(2) by (elim insertE emptyE) (simp_all add: execute_action_def LIFECYCLE_COMMANDS_def)
qed

lemma deletion_ignores_approval:
  "at c ''action'' = JStr ''deployment.delete'' \<Longrightarrow> execute e sv (with_approval c v) s = execute e sv c s"
  by (simp add: execute_def execute_action_def LIFECYCLE_COMMANDS_def lifecycle_def overwritten_command)

text \<open>
  C14. Of the actions that need an approval by the platform's policy, \<open>APPROVAL_ACTIONS\<close>, the supervisor runs none without
  one but the deletion of a deployment: no file changes and no program runs. \<open>deployment.delete\<close> is in the policy's list
  too, but the supervisor does not look at its approval: it does the same whether the command carries one or not.
\<close>

theorem unapproved_actions_do_nothing:
  assumes "at c ''action'' = JStr action" and "action \<in> set APPROVAL_ACTIONS" and "\<not> truthy (at c ''approval_id'')"
  shows "if action = ''deployment.delete'' then \<forall>approval. execute e sv c s = execute e sv (with_approval c approval) s
    else execute e sv c s = (Inl (CodedError ''approval_required'' None), s)"
proof (cases "action = ''deployment.delete''")
  case True
  then show ?thesis using assms(1) deletion_ignores_approval by simp
next
  case False
  have "execute e sv c s = execute_action e sv c action s" using assms(1) by (simp add: execute_def)
  moreover have "execute_action e sv c action s = (Inl (CodedError ''approval_required'' None), s)"
    using assms(2,3) False by (intro checked_approval) (auto simp: APPROVAL_ACTIONS_def)
  ultimately show ?thesis using False by simp
qed

section \<open>Backups are read back\<close>

lemma read_uint32: "n < 4294967296 \<Longrightarrow> read_uint32_be (uint32_be n @ bs) = n"
proof -
  assume "n < 4294967296"
  have "256 * (n div 256) + n mod 256 = n" "256 * (n div 65536) + n div 256 mod 256 = n div 256"
    "256 * (n div 16777216) + n div 65536 mod 256 = n div 65536"
    using mult_div_mod_eq [of 256 n] mult_div_mod_eq [of 256 "n div 256"] mult_div_mod_eq [of 256 "n div 65536"]
      div_mult2_eq [of n 256 256] div_mult2_eq [of n 65536 256] by simp_all
  moreover have "n div 16777216 mod 256 = n div 16777216" using \<open>n < 4294967296\<close> by simp
  ultimately show ?thesis by (simp add: read_uint32_be_def uint32_be_def)
qed

lemma text_bytes_append: "text_bytes (a @ b) = text_bytes a @ text_bytes b"
  by (simp add: text_bytes_def)

lemma text_bytes_roundtrip: "is_bytes bs \<Longrightarrow> text_bytes (byte_text bs) = bs"
  by (auto simp: text_bytes_def byte_text_def is_bytes_def comp_def intro!: map_idI)

lemma is_bytes_uint32: "is_bytes (uint32_be n)"
  by (simp add: is_bytes_def uint32_be_def)

lemma base64_roundtrip: "is_bytes bs \<Longrightarrow> from_base64 (to_base64 bs) = bs"
proof -
  assume bs: "is_bytes bs"
  let ?f = "\<lambda>c. if c = CHR ''-'' then CHR ''+'' else if c = CHR ''_'' then CHR ''/'' else c"
  have "\<forall>d\<in>set [0..<64]. b64_digit (?f (b64_char d)) = Some d" by code_simp
  then have d: "d < 64 \<Longrightarrow> b64_digit (?f (b64_char d)) = Some d" for d by simp
  have "List.map_filter b64_digit (map ?f (map b64_char ds)) = ds" if "\<forall>d\<in>set ds. d < 64" for ds
    using that by (induction ds) (simp_all add: List.map_filter_def d del: if_split)
  moreover have "List.map_filter b64_digit (replicate n CHR ''='') = []" for n
  proof -
    have "b64_digit CHR ''='' = None" by code_simp
    then show ?thesis by (induction n) (simp_all add: List.map_filter_def)
  qed
  ultimately show ?thesis
    using b64_groups_small [OF bs] b64_bytes_groups [OF bs]
    by (simp add: from_base64url_def to_base64_def to_base64url_def List.map_filter_def)
qed

text \<open>What is relied on of JSON: the header of a backup parses to itself, and its text is as long as the reader allows.\<close>

definition header_is_read :: "sup_env \<Rightarrow> json \<Rightarrow> bool" where
  "header_is_read e h \<longleftrightarrow> se_parse e (se_stringify e h) = Some h \<and> 2 \<le> length (se_stringify e h) \<and> length (se_stringify e h) \<le> 16384"

lemma backup_opens:
  assumes "cipher_lawful (se_cipher e)" and "header_is_read e (backup_header e b agentId iv tag plain now)" and iv: "is_bytes iv" and names: "matches NAME_PATTERN agentId"
    and enc: "encrypt (se_cipher e) key iv plain = (encrypted, tag)"
  shows "parsed_backup e key b agentId (backup_file e key b agentId iv plain now)
    = (if encrypted = [] then Inl invalid_backup else Inr (plain, sha_hex e plain))"
proof -
  let ?h = "backup_header e b agentId iv tag plain now"
  have len: "2 \<le> length (se_stringify e ?h)" "length (se_stringify e ?h) \<le> 16384" and parsed: "se_parse e (se_stringify e ?h) = Some ?h"
    using assms(2) by (simp_all add: header_is_read_def)
  let ?n = "length (se_stringify e ?h)" and ?f = "backup_file e key b agentId iv plain now"
  have f: "?f = byte_text (uint32_be ?n) @ se_stringify e ?h @ byte_text encrypted" by (simp add: backup_file_def enc Let_def)
  have four: "length (byte_text (uint32_be ?n)) = 4" by (simp add: byte_text_def uint32_be_def)
  have bytes: "is_bytes encrypted" "is_bytes tag" "decrypt (se_cipher e) key iv encrypted tag = Some plain"
    using assms(1) enc unfolding cipher_lawful_def by (metis fst_conv snd_conv)+
  have n: "read_uint32_be (text_bytes ?f) = ?n"
    unfolding f text_bytes_append text_bytes_roundtrip [OF is_bytes_uint32] using len by (intro read_uint32) simp
  have long: "length ?f \<le> 4 + ?n \<longleftrightarrow> encrypted = []" "encrypted \<noteq> [] \<Longrightarrow> \<not> length ?f < 7"
    using four len by (cases encrypted; simp add: f byte_text_def)+
  have rest: "drop 4 ?f = se_stringify e ?h @ byte_text encrypted" by (simp add: f four)
  from parsed have "se_parse e (take ?n (drop 4 ?f)) = Some ?h" by (simp add: rest)
  moreover have "text_bytes (drop (4 + ?n) ?f) = encrypted" using text_bytes_roundtrip [OF bytes(1)] by (simp add: f four)
  moreover have "header_fits e ?h b agentId" using names by (simp add: header_fits_def backup_header_def at_def prop_of_def shown_def)
  moreover have "opened_backup e key ?h encrypted = Inr (plain, sha_hex e plain)"
    using base64_roundtrip [OF iv] base64_roundtrip [OF bytes(2)] bytes(3)
    by (simp add: opened_backup_def backup_header_def at_def prop_of_def)
  ultimately show ?thesis using len long n by (simp add: parsed_backup_def Let_def nullish_def backup_header_def)
qed

lemma backupPath_identifier:
  assumes "identifier_of name v = Inr b"
  shows "backupPath sv b = Inr (sv_backups sv @ [b @ ''.brb''])"
proof -
  from identifier_is_plain [OF assms] have "plain_name (b @ ''.brb'')" by (auto simp: plain_name_def)
  then show ?thesis by (simp add: backupPath_def resolve_plain)
qed

lemma identifier_name: "identifier_of name v = Inr b \<Longrightarrow> v = JStr b \<and> matches NAME_PATTERN b"
  by (auto simp: identifier_of_def split: json.splits if_splits)

lemma readMetadata_same:
  "node_at (ho_files t) M = node_at (ho_files s) M \<Longrightarrow> \<not> is_link (node_at (ho_files s) M) \<Longrightarrow> instancePath e sv a = Inr inst \<Longrightarrow>
    M = inst @ [''instance.json''] \<Longrightarrow> fst (readMetadata e sv a t) = fst (readMetadata e sv a s) \<and> snd (readMetadata e sv a t) = t"
  by (simp add: readMetadata_def sees_def readFileSync_def real_path_plain)

text \<open>The archive of a backup: what \<open>tar\<close>, run on the agent's folder, leaves in the file it is told to write.\<close>

definition archived :: "sup_env \<Rightarrow> supervisor \<Rightarrow> string \<Rightarrow> path \<Rightarrow> host \<Rightarrow> failure + string" where
  "archived e sv b inst s =
     (case mkdirSync (sv_backups sv) (ho_files s) of Inl err \<Rightarrow> Inl err
      | Inr fs \<Rightarrow>
          readFileSync (snd (se_run e (ho_tick s) ''tar'' ([''-czf'', path_text (archive_path sv b), ''-C'', path_text inst] @ BACKUP_ENTRIES) fs))
            (archive_path sv b))"

text \<open>The state a successful backup leaves: the backup file holds the sealed archive and the metadata is untouched.\<close>

lemma seal_archive_Inr:
  assumes "seal_archive e sv key b a inst s = (Inr r, t)" and "backupPath sv b = Inr P"
  shows "\<exists>fs plain n m gs. fs = snd (se_run e (ho_tick s) ''tar'' ([''-czf'', path_text (archive_path sv b), ''-C'', path_text inst] @ BACKUP_ENTRIES) (ho_files s))
    \<and> readFileSync fs (archive_path sv b) = Inr plain
    \<and> writeFileSync P (backup_file e key b a (se_iv e n) plain (se_now e m)) fs = Inr gs \<and> ho_files t = gs"
  using assms by (auto simp: seal_archive_def tar_def execFile_def runs_to host_runs Let_def split: prod.splits) force+

lemma createBackup_stores:
  assumes run: "createBackup e sv c s = (Inr r, t)" and key: "sv_backupKey sv = Some key" and a: "commandAgentId c = Inr a"
    and b: "backup_named c = Inr b" and inst: "instancePath e sv a = Inr inst" and M: "M = inst @ [''instance.json'']"
    and P: "P = sv_backups sv @ [b @ ''.brb'']" and apart: "\<not> prefix (sv_backups sv) M" and tar: "leaves_alone e ''tar'' {M, P}"
    and plain: "\<not> is_link (node_at (ho_files s) M)" "\<not> is_link (node_at (ho_files s) P)" "node_at (ho_files s) P \<noteq> Some Special"
  shows "\<exists>n text m. archived e sv b inst s = Inr text
    \<and> node_at (ho_files t) P = Some (File (backup_file e key b a (se_iv e n) text (se_now e m)))
    \<and> node_at (ho_files t) M = node_at (ho_files s) M"
proof -
  have "P \<noteq> M" using apart P by auto
  have id: "identifier_of ''backup_id'' (at (at c ''arguments'') ''backup_id'') = Inr b" using b by (simp add: backup_named_def)
  then have arg: "at (at c ''arguments'') ''backup_id'' = JStr b" by (rule identifier_name [THEN conjunct1])
  have path: "backupPath sv b = Inr P" using backupPath_identifier [OF id] P by simp
  have P': "\<not> prefix (archive_path sv b) P"
  proof
    assume "prefix (archive_path sv b) P"
    then have "CHR ''.'' # b @ ''.tar.gz'' = b @ ''.brb''" by (auto simp: archive_path_def P)
    then have "last (CHR ''.'' # b @ ''.tar.gz'') = last (b @ ''.brb'')" by (simp only:)
    then show False by simp
  qed
  have M': "\<not> prefix (archive_path sv b) M" using apart by (auto simp: archive_path_def prefix_def)
  obtain md where "readMetadata e sv a s = (Inr md, s)"
    using run by (auto simp: createBackup_def key a and_then_Inr readMetadata_def sees_Inr)
  then have M_there: "node_at (ho_files s) M \<noteq> None"
    using plain(1) inst M by (auto simp: readMetadata_def sees_Inr readFileSync_def real_path_plain split: sum.splits option.splits node.splits)
  obtain fs where fs: "mkdirSync (sv_backups sv) (ho_files s) = Inr fs"
    and sealed: "and_finally (seal_archive e sv key b a inst) (alters (rmSync (archive_path sv b))) (s\<lparr>ho_files := fs\<rparr>) = (Inr r, t)"
    using run id by (auto simp: createBackup_def key a inst arg default_def nullish_def runs_to host_runs readMetadata_def)
  then obtain u where u: "seal_archive e sv key b a inst (s\<lparr>ho_files := fs\<rparr>) = (Inr r, u)" "rmSync (archive_path sv b) (ho_files u) = Inr (ho_files t)"
    by (auto simp: and_finally_def alters_def split: prod.splits sum.splits)
  let ?gs = "snd (se_run e (ho_tick s) ''tar'' ([''-czf'', path_text (archive_path sv b), ''-C'', path_text inst] @ BACKUP_ENTRIES) fs)"
  obtain content n m where content: "readFileSync ?gs (archive_path sv b) = Inr content"
    and out: "writeFileSync P (backup_file e key b a (se_iv e n) content (se_now e m)) ?gs = Inr (ho_files u)"
    using seal_archive_Inr [OF u(1) path] by auto
  have same: "node_at ?gs p = node_at fs p" if "p \<in> {M, P}" for p using tar that unfolding leaves_alone_def by blast
  have M1: "node_at fs M = node_at (ho_files s) M" using fs M_there by (simp add: mkdirSync_keeps)
  have P1: "\<not> is_link (node_at fs P)" "node_at fs P \<noteq> Some Special"
    using plain(2,3) fs P by (simp_all add: mkdirSync_elsewhere)
  then have "node_at (ho_files u) P = Some (File (backup_file e key b a (se_iv e n) content (se_now e m)))" "node_at (ho_files u) M = node_at fs M"
    using writeFileSync_stores [OF out] same \<open>P \<noteq> M\<close> by auto
  moreover have "ho_files t = without_tree (archive_path sv b) (ho_files u)" using u(2) by (auto simp: rmSync_def split: if_splits)
  then have "node_at (ho_files t) P = node_at (ho_files u) P" "node_at (ho_files t) M = node_at (ho_files u) M"
    using P' M' by (simp_all add: archive_path_def)
  moreover have "archived e sv b inst s = Inr content" using fs content by (simp add: archived_def)
  ultimately show ?thesis using M1 by auto
qed

text \<open>What is relied on of AES-GCM: a text is as long as its ciphertext.\<close>

definition keeps_lengths :: "cipher \<Rightarrow> bool" where
  "keeps_lengths cf \<longleftrightarrow> (\<forall>key iv u. length (fst (encrypt cf key iv u)) = length u)"

text \<open>
  C13. A backup that was created gives its archive back: once \<open>backup.create\<close> has succeeded, reading the backup decrypts
  the very archive that \<open>tar\<close> wrote, with its digest, and \<open>backup.verify\<close> succeeds and reports that digest. The one
  exception is an archive without a single byte: its backup is created, and refused as invalid when it is read.
\<close>

theorem created_backups_verify:
  assumes "createBackup e sv c s = (Inr r, t)" and "sv_backupKey sv = Some key" and "commandAgentId c = Inr a"
    and "backup_named c = Inr b" and "instancePath e sv a = Inr inst" and "M = inst @ [''instance.json'']"
    and "P = sv_backups sv @ [b @ ''.brb'']" and "\<not> prefix (sv_backups sv) M" and "leaves_alone e ''tar'' {M, P}"
    and "\<not> is_link (node_at (ho_files s) M)" and "\<not> is_link (node_at (ho_files s) P)" and "node_at (ho_files s) P \<noteq> Some Special"
    and "cipher_lawful (se_cipher e)" and "keeps_lengths (se_cipher e)" and "\<forall>n. is_bytes (se_iv e n)"
    and "\<forall>n m u. header_is_read e (backup_header e b a (se_iv e n) (snd (encrypt (se_cipher e) key (se_iv e n) u)) u (se_now e m))"
  shows "\<exists>archive. archived e sv b inst s = Inr archive \<and>
    (if archive = [] then readBackup e sv b a t = (Inl invalid_backup, t) \<and> verifyBackup e sv c t = (Inl invalid_backup, t)
     else \<exists>stored. node_at (ho_files t) P = Some (File stored) \<and> readBackup e sv b a t = (Inr (stored, archive, sha_hex e archive), t) \<and>
       verifyBackup e sv c t = (Inr (sup_result JUndefined [(''bytes'', num (int (length stored))), (''verified'', num 1)]
         [''backup:'' @ b @ '':verified'', ''plaintext-sha256:'' @ sha_hex e archive]), t))"
proof -
  obtain n u m where archive: "archived e sv b inst s = Inr u"
      and P: "node_at (ho_files t) P = Some (File (backup_file e key b a (se_iv e n) u (se_now e m)))"
      and M: "node_at (ho_files t) M = node_at (ho_files s) M"
    using createBackup_stores [OF assms(1-12)] by blast
  let ?f = "backup_file e key b a (se_iv e n) u (se_now e m)"
  have id: "identifier_of ''backup_id'' (at (at c ''arguments'') ''backup_id'') = Inr b" using assms(4) by (simp add: backup_named_def)
  have "matches NAME_PATTERN a" using assms(3) identifier_name by (auto simp: commandAgentId_def)
  moreover have "(fst (encrypt (se_cipher e) key (se_iv e n) u) = []) = (u = [])"
    using assms(14) unfolding keeps_lengths_def by (metis length_0_conv)
  ultimately have "parsed_backup e key b a ?f = (if u = [] then Inl invalid_backup else Inr (u, sha_hex e u))"
    using backup_opens [OF assms(13) _ _ _ prod.collapse [symmetric], of b a "se_iv e n" key u "se_now e m"] assms(15,16) by simp
  then have read: "readBackup e sv b a t = (if u = [] then (Inl invalid_backup, t) else (Inr (?f, u, sha_hex e u), t))"
    using readFileSync_File [OF P] assms(7) backupPath_identifier [OF id, of sv]
    by (simp add: readBackup_def assms(2) and_then_def sees_def lifts_def returns_def)
  obtain md where "readMetadata e sv a s = (Inr md, s)"
    using assms(1) by (auto simp: createBackup_def assms(2,3) and_then_Inr readMetadata_def sees_Inr)
  then have "readMetadata e sv a t = (Inr md, t)"
    using readMetadata_same [OF M assms(10,5,6)] by (metis fst_conv prod.collapse)
  then have "verifyBackup e sv c t = (if u = [] then (Inl invalid_backup, t)
      else (Inr (sup_result JUndefined [(''bytes'', num (int (length ?f))), (''verified'', num 1)]
        [''backup:'' @ b @ '':verified'', ''plaintext-sha256:'' @ sha_hex e u]), t))"
    using read by (simp add: verifyBackup_def assms(3,4) and_then_def returns_def)
  then show ?thesis using archive P read by (auto split: if_splits)
qed

definition sealing_env :: sup_env where
  "sealing_env = still_env\<lparr>se_parse := (\<lambda>t. if t = ''m'' then Some still_metadata
     else if t = ''{}'' then Some (backup_header still_env ''k1'' ''a1'' [1] [] [] ''now'') else None)\<rparr>"

definition still_backup :: json where
  "still_backup = JObj [(''action'', JStr ''backup.create''), (''arguments'', JObj [(''agent_id'', JStr ''a1''), (''backup_id'', JStr ''k1'')])]"

theorem unapproved_actions_do_nothing_witness:
  "execute still_env still_supervisor (JObj [(''action'', JStr ''config.apply'')]) still_host
     = (Inl (CodedError ''approval_required'' None), still_host)"
proof -
  have "''config.apply'' \<in> set APPROVAL_ACTIONS" by code_simp
  then show ?thesis
    using unapproved_actions_do_nothing [of "JObj [(''action'', JStr ''config.apply'')]" "''config.apply''" still_env still_supervisor still_host]
    by (simp add: at_def prop_of_def truthy_def)
qed

theorem created_backups_verify_witness:
  "\<exists>r t stored. createBackup sealing_env still_supervisor still_backup still_host = (Inr r, t) \<and>
     readBackup sealing_env still_supervisor ''k1'' ''a1'' t = (Inr (stored, ''data'', sha_hex sealing_env ''data''), t)"
proof -
  have ready: "commandAgentId still_backup = Inr ''a1''" "instancePath sealing_env still_supervisor ''a1'' = Inr [''i'', still_key]"
    "readMetadata sealing_env still_supervisor ''a1'' still_host = (Inr still_metadata, still_host)"
    "assertSafeTree [''i'', still_key, ''hermes-data''] (ho_files still_host) = Inr ()"
    "mkdirSync [''b''] (ho_files still_host) = Inr (ho_files still_host)"
    "identifier_of ''backup_id'' (default (at (at still_backup ''arguments'') ''backup_id'') (at still_backup ''command_id'')) = Inr ''k1''"
    "backupPath still_supervisor ''k1'' = Inr [''b'', ''k1.brb'']"
    by code_simp+
  let ?F = "put_node [''b'', ''.k1.tar.gz''] (File ''data'') (ho_files still_host)"
  have archive: "sv_backupKey still_supervisor = Some [1]" "sv_backups still_supervisor = [''b'']"
    "archive_path still_supervisor ''k1'' = [''b'', ''.k1.tar.gz'']" "readFileSync ?F [''b'', ''.k1.tar.gz''] = Inr ''data''"
    "writeFileSync [''b'', ''k1.brb''] out ?F = Inr (put_node [''b'', ''k1.brb''] (File out) ?F)" for out
    by code_simp+
  have tar: "se_run sealing_env n ''tar'' args fs = (Inr [], put_node [''b'', ''.k1.tar.gz''] (File ''data'') fs)" for n args fs
    by (simp add: sealing_env_def still_env_def)
  have "\<exists>r t. createBackup sealing_env still_supervisor still_backup still_host = (Inr r, t)"
    by (simp add: createBackup_def seal_archive_def ready archive tar tar_def execFile_def and_then_def and_finally_def sees_def alters_def
        asks_def lifts_def returns_def rmSync_def Let_def)
  then obtain r t where run: "createBackup sealing_env still_supervisor still_backup still_host = (Inr r, t)" by blast
  let ?M = "[''i'', still_key] @ [''instance.json'']" and ?P = "sv_backups still_supervisor @ [''k1'' @ ''.brb'']"
  have "archived sealing_env still_supervisor ''k1'' [''i'', still_key] still_host = Inr ''data''"
    by (simp add: archived_def ready archive tar)
  moreover have "\<exists>archived_text. archived sealing_env still_supervisor ''k1'' [''i'', still_key] still_host = Inr archived_text \<and>
    (if archived_text = [] then readBackup sealing_env still_supervisor ''k1'' ''a1'' t = (Inl invalid_backup, t)
         \<and> verifyBackup sealing_env still_supervisor still_backup t = (Inl invalid_backup, t)
     else \<exists>stored. node_at (ho_files t) ?P = Some (File stored)
       \<and> readBackup sealing_env still_supervisor ''k1'' ''a1'' t = (Inr (stored, archived_text, sha_hex sealing_env archived_text), t) \<and>
       verifyBackup sealing_env still_supervisor still_backup t = (Inr (sup_result JUndefined [(''bytes'', num (int (length stored))), (''verified'', num 1)]
         [''backup:'' @ ''k1'' @ '':verified'', ''plaintext-sha256:'' @ sha_hex sealing_env archived_text]), t))"
  proof (rule created_backups_verify [OF run, where M = ?M])
    show "sv_backupKey still_supervisor = Some [1]" by code_simp
    show "commandAgentId still_backup = Inr ''a1''" by code_simp
    show "backup_named still_backup = Inr ''k1''" by code_simp
    show "instancePath sealing_env still_supervisor ''a1'' = Inr [''i'', still_key]" by code_simp
    show "cipher_lawful (se_cipher sealing_env)" by (simp add: sealing_env_def still_env_def open_cipher_lawful)
    show "\<forall>n m u. header_is_read sealing_env (backup_header sealing_env ''k1'' ''a1'' (se_iv sealing_env n)
        (snd (encrypt (se_cipher sealing_env) [1] (se_iv sealing_env n) u)) u (se_now sealing_env m))"
      by (simp add: header_is_read_def sealing_env_def still_env_def backup_header_def sha_hex_def flat_crypto_def open_cipher_def)
  qed (auto simp: sealing_env_def still_env_def still_supervisor_def still_host_def still_key_def node_at_def is_link_def leaves_alone_def
      open_cipher_def keeps_lengths_def is_bytes_def put_node_def update_conv')
  ultimately show ?thesis using run by auto
qed

section \<open>What the code does and does not mean to do\<close>

text \<open>
  The data folder is mounted into the agent's container, which may put a link where the supervisor expects a file or a
  folder. The walk that changes owners skips links, but the folder of memories is not looked at: its target changes owner.
\<close>

lemma memories_link_changes_owner:
  "ho_events (snd (prepareHermesMemoryDirectory (still_supervisor\<lparr>sv_uid := Some 10000\<rparr>) [''d'']
     \<lparr>ho_files = [([''d''], Folder), ([''etc''], Folder), ([''d'', ''memories''], Link [''etc''])], ho_tick = 0, ho_events = []\<rparr>))
   = [Owned [''etc''] 10000, Moded [''etc''] 504]"
  by code_simp

text \<open>A deployment is deleted without an approval: its containers and its network are removed by force.\<close>

lemma deletion_needs_no_approval:
  "\<exists>r t. execute (still_env\<lparr>se_run := (\<lambda>n program args fs. (Inr [], fs))\<rparr>) still_supervisor
       (JObj [(''action'', JStr ''deployment.delete''), (''arguments'', JObj [(''agent_id'', JStr ''a1'')])]) still_host = (Inr r, t) \<and>
     Ran ''docker'' [''container'', ''rm'', ''--force'', ''h''] \<in> set (ho_events t) \<and> Ran ''docker'' [''network'', ''rm'', ''n''] \<in> set (ho_events t)"
  by (rule exI, rule exI, rule conjI, code_simp, code_simp)

text \<open>A configuration that is applied is written to where \<open>SOUL.md\<close> points, outside the instance.\<close>

lemma soul_link_is_followed:
  "node_at (ho_files (snd (copyFileSecure [''s'', ''SOUL.md''] [''d'', ''SOUL.md'']
     \<lparr>ho_files = [([''d''], Folder), ([''s''], Folder), ([''s'', ''SOUL.md''], File ''soul''), ([''key''], File ''secret''),
        ([''d'', ''SOUL.md''], Link [''key''])], ho_tick = 0, ho_events = []\<rparr>))) [''key''] = Some (File ''soul'')"
  by code_simp

text \<open>
  The rollback of a configuration needs all five saved files: an agent that lacked one of them keeps the new configuration
  after a failure.
\<close>

lemma incomplete_history_is_not_restored:
  assumes "\<not> existsSync (ho_files s) (saved @ [x])"
    and "x \<in> {''hermes.env'', ''dashboard.env'', ''runtime.env'', ''SOUL.md'', ''agent-control.token''}"
  shows "restore_configuration e sv md inst saved s = (Inr (), s)"
proof -
  have "\<not> list_all (existsSync (ho_files s)) (copies_in saved)" using assms by (auto simp: copies_in_def)
  then show ?thesis by (simp add: restore_configuration_def and_then_def peeks_def returns_def)
qed

end
