(* ===== verification/Js_Number.thy ===== *)
theory Js_Number
  imports Complex_Main Byte_Codec Js_Text
begin

text \<open>
  \<open>Number(value)\<close> as an exact rational: signed decimals with a fraction and an exponent, and the unsigned hexadecimal, octal
  and binary literals. The rounding of doubles is not modelled.
\<close>

section \<open>Numbers in texts\<close>

definition digits_value :: "nat \<Rightarrow> string \<Rightarrow> nat" where
  "digits_value base s = fold (\<lambda>c n. base * n + hex_digit (to_lower c)) s 0"

definition all_digits :: "string \<Rightarrow> bool" where
  "all_digits s \<longleftrightarrow> s \<noteq> [] \<and> list_all is_digit s"

definition signed :: "string \<Rightarrow> bool \<times> string" where
  "signed s = (case s of [] \<Rightarrow> (False, []) | c # cs \<Rightarrow> if c = CHR ''-'' then (True, cs) else if c = CHR ''+'' then (False, cs) else (False, s))"

text \<open>A decimal literal without sign: digits, a fraction and an exponent.\<close>

definition unsigned_decimal :: "string \<Rightarrow> rat option" where
  "unsigned_decimal s =
     (let ip = takeWhile is_digit s; r = dropWhile is_digit s;
          fp = (if r \<noteq> [] \<and> hd r = CHR ''.'' then takeWhile is_digit (tl r) else []);
          r' = (if r \<noteq> [] \<and> hd r = CHR ''.'' then dropWhile is_digit (tl r) else r);
          m = of_nat (digits_value 10 (ip @ fp)) / 10 ^ length fp
      in if ip @ fp = [] then None
         else if r' = [] then Some m
         else if hd r' \<in> {CHR ''e'', CHR ''E''} \<and> all_digits (snd (signed (tl r'))) then
           (let k = digits_value 10 (snd (signed (tl r'))) in Some (if fst (signed (tl r')) then m / 10 ^ k else m * 10 ^ k))
         else None)"

definition radix_of :: "string \<Rightarrow> nat option" where
  "radix_of s = (if s = ''0x'' then Some 16 else if s = ''0o'' then Some 8 else if s = ''0b'' then Some 2 else None)"

definition in_radix :: "nat \<Rightarrow> char \<Rightarrow> bool" where
  "in_radix base c \<longleftrightarrow> is_hex (to_lower c) \<and> hex_digit (to_lower c) < base"

text \<open>\<open>Number(text)\<close>, \<open>None\<close> when it is not a finite number.\<close>

definition js_number :: "string \<Rightarrow> rat option" where
  "js_number t =
     (let u = trim t in
      if u = [] then Some 0
      else case radix_of (lower_case (take 2 u)) of
        Some base \<Rightarrow> if drop 2 u \<noteq> [] \<and> list_all (in_radix base) (drop 2 u) then Some (of_nat (digits_value base (drop 2 u))) else None
      | None \<Rightarrow> map_option (\<lambda>x. if fst (signed u) then - x else x) (unsigned_decimal (snd (signed u))))"

fun number_of :: "json \<Rightarrow> rat option" where
  "number_of JNull = Some 0"
| "number_of (JBool b) = Some (if b then 1 else 0)"
| "number_of (JNum (Integer i)) = Some (of_int i)"
| "number_of (JNum (Fractional m k)) = Some (of_int m / 10 ^ k)"
| "number_of (JStr t) = js_number t"
| "number_of (JArr []) = Some 0"
| "number_of (JArr [JNum n]) = number_of (JNum n)"
| "number_of (JArr [JStr t]) = js_number t"
| "number_of _ = None"

text \<open>A property of a value; the short name stands for a filter in the theory of limits.\<close>

abbreviation prop_at :: "json \<Rightarrow> string \<Rightarrow> json" where
  "prop_at \<equiv> Js_Text.at"

end
