(* ===== verification/Resource_Collector.thy ===== *)
theory Resource_Collector
  imports Js_Number Supervisor_Config
begin

text \<open>
  What the server agent reports about its agents, \<open>server-agent/resource-collector.mjs\<close>: the sizes and percentages
  \<open>docker\<close> prints, the instances on disk, the size of an instance's folder, and the sample of every agent. The outputs
  of \<open>docker\<close> and the result of \<open>statfs\<close> are parameters. Numbers are exact: the rounding of doubles is not modelled.
\<close>

section \<open>Sizes and percentages\<close>

definition finite_upto :: "rat option \<Rightarrow> rat \<Rightarrow> rat option" where
  "finite_upto v maximum = (case v of Some x \<Rightarrow> if 0 \<le> x \<and> x \<le> maximum then Some x else None | None \<Rightarrow> None)"

definition round_half_up :: "rat \<Rightarrow> int" where
  "round_half_up x = \<lfloor>x + 1 / 2\<rfloor>"

definition BYTE_UNITS :: "(string \<times> nat) list" where
  "BYTE_UNITS =
     [(''b'', 1), (''kb'', 1000), (''kib'', 1024), (''mb'', 1000000), (''mib'', 1048576), (''gb'', 1000000000),
      (''gib'', 1073741824), (''tb'', 1000000000000), (''tib'', 1099511627776)]"

definition safe_maximum :: rat where
  "safe_maximum = of_int MAX_SAFE_INTEGER"

text \<open>
  \<open>/^(\d+(?:\.\d+)?)\s*([kmgt]?i?b)$/i\<close>: the text matches when a number is followed by a unit; \<open>ib\<close> matches and has
  no multiplier, so it gives no number either.
\<close>

definition parseDockerBytes :: "json \<Rightarrow> int option" where
  "parseDockerBytes v =
     (case v of JStr s \<Rightarrow>
        (let t = trim s; ip = takeWhile is_digit t; r = dropWhile is_digit t;
             fp = (if r \<noteq> [] \<and> hd r = CHR ''.'' then takeWhile is_digit (tl r) else []);
             r' = (if fp = [] then r else dropWhile is_digit (tl r))
         in if ip = [] then None
            else case map_of BYTE_UNITS (lower_case (dropWhile is_space r')) of
              None \<Rightarrow> None
            | Some unit \<Rightarrow> map_option round_half_up (finite_upto (Some (of_nat (digits_value 10 (ip @ fp)) / 10 ^ length fp * of_nat unit)) safe_maximum))
      | _ \<Rightarrow> None)"

definition parsePercent :: "json \<Rightarrow> rat option" where
  "parsePercent v =
     (case v of
        JStr s \<Rightarrow> (let t = trim s in finite_upto (js_number (if t \<noteq> [] \<and> last t = CHR ''%'' then butlast t else t)) 100000)
      | _ \<Rightarrow> finite_upto (number_of v) 100000)"

section \<open>Outputs of docker\<close>

text \<open>One JSON document, or one per line; lines that are no JSON and values that are not truthy are dropped.\<close>

definition parseJsonLines :: "(string \<Rightarrow> json option) \<Rightarrow> string \<Rightarrow> json list" where
  "parseJsonLines parse s =
     (let t = trim s in
      if t = [] then []
      else case parse t of
        Some (JArr vs) \<Rightarrow> vs
      | Some v \<Rightarrow> [v]
      | None \<Rightarrow> filter truthy (List.map_filter parse (filter (\<lambda>l. l \<noteq> []) (split_lines t))))"

definition safeText :: "json \<Rightarrow> nat \<Rightarrow> string option" where
  "safeText v maximum = (case v of JStr s \<Rightarrow> if trim s = [] then None else Some (take maximum (trim s)) | _ \<Rightarrow> None)"

definition isoDate :: "dates \<Rightarrow> json \<Rightarrow> string option" where
  "isoDate dt v = (case instant_of dt v of Some t \<Rightarrow> if 0 < t then Some (iso_date dt t) else None | None \<Rightarrow> None)"

record container =
  co_role :: string
  co_id :: "string option"
  co_name :: string
  co_status :: string
  co_image :: "string option"
  co_cpu :: "rat option"
  co_memory :: "int option"
  co_memoryLimit :: "int option"
  co_writable :: "rat option"
  co_version :: "string option"
  co_startedAt :: "string option"

definition nth_part :: "string list \<Rightarrow> nat \<Rightarrow> json" where
  "nth_part ps i = (if i < length ps then JStr (ps ! i) else JUndefined)"

definition containerResource :: "dates \<Rightarrow> string \<Rightarrow> string \<Rightarrow> json \<Rightarrow> json \<Rightarrow> json \<Rightarrow> container" where
  "containerResource dt role name inspect stats listed =
     (let parts = (case prop_at stats ''MemUsage'' of JStr s \<Rightarrow> map trim (split_on CHR ''/'' s) | _ \<Rightarrow> []);
          labels = prop_at (prop_at inspect ''Config'') ''Labels''
      in \<lparr>co_role = role,
          co_id = safeText (default (prop_at inspect ''Id'') (default (prop_at stats ''ID'') (prop_at stats ''Container''))) 128,
          co_name = name,
          co_status = or_else (safeText (default (prop_at (prop_at inspect ''State'') ''Status'') (prop_at listed ''State'')) 30) ''unknown'',
          co_image = safeText (default (prop_at (prop_at inspect ''Config'') ''Image'') (default (prop_at stats ''Image'') (prop_at listed ''Image''))) 500,
          co_cpu = parsePercent (prop_at stats ''CPUPerc''),
          co_memory = parseDockerBytes (nth_part parts 0), co_memoryLimit = parseDockerBytes (nth_part parts 1),
          co_writable = finite_upto (number_of (prop_at inspect ''SizeRw'')) safe_maximum,
          co_version = safeText (prop_at labels ''org.opencontainers.image.version'') 200,
          co_startedAt = isoDate dt (prop_at (prop_at inspect ''State'') ''StartedAt'')\<rparr>)"

definition aggregateStatus :: "container list \<Rightarrow> bool \<Rightarrow> string" where
  "aggregateStatus cs listed =
     (let running = length (filter (\<lambda>c. co_status c = ''running'') cs) in
      if \<not> listed then ''unknown''
      else if running = length cs then ''running''
      else if 0 < running \<or> list_ex (\<lambda>c. co_status c \<in> {''paused'', ''restarting''}) cs then ''degraded''
      else ''offline'')"

section \<open>The size of a folder\<close>

text \<open>
  The entries of one folder: \<open>None\<close> when there are too many or the total is no safe integer; otherwise the count, the total
  and the folders still to read, last one first.
\<close>

fun visit :: "files \<Rightarrow> nat \<Rightarrow> path list \<Rightarrow> nat \<Rightarrow> int \<Rightarrow> path list \<Rightarrow> (nat \<times> int \<times> path list) option" where
  "visit fs mx [] entries bytes pending = Some (entries, bytes, pending)"
| "visit fs mx (q # qs) entries bytes pending =
     (if mx < entries + 1 then None
      else case node_at fs q of
        None \<Rightarrow> visit fs mx qs (entries + 1) bytes pending
      | Some (Link _) \<Rightarrow> visit fs mx qs (entries + 1) bytes pending
      | Some n \<Rightarrow>
          (let bytes' = (case n of File t \<Rightarrow> bytes + int (length t) | _ \<Rightarrow> bytes);
               pending' = (if n = Folder then q # pending else pending)
           in if MAX_SAFE_INTEGER < bytes' then None else visit fs mx qs (entries + 1) bytes' pending'))"

partial_function (option) directory_loop :: "files \<Rightarrow> nat \<Rightarrow> path list \<Rightarrow> nat \<Rightarrow> int \<Rightarrow> int option option" where
  "directory_loop fs mx pending entries bytes =
     (case pending of [] \<Rightarrow> Some (Some bytes)
      | p # ps \<Rightarrow>
          (case visit fs mx (if node_at fs p = Some Folder then child_paths fs p else []) entries bytes ps of
             None \<Rightarrow> Some None
           | Some (entries', bytes', pending') \<Rightarrow> directory_loop fs mx pending' entries' bytes'))"

declare directory_loop.simps [code]

text \<open>
  A link in the place of the folder itself is followed when its entries are read, one inside it is not; the names below
  it do not matter, so the loop starts at the folder the link leads to.
\<close>

definition directoryBytes :: "files \<Rightarrow> path \<Rightarrow> nat option \<Rightarrow> int option option" where
  "directoryBytes fs dir maximumEntries = directory_loop fs (or_else maximumEntries 200000) [or_else (real_path fs dir) dir] 0 0"

text \<open>The reference: the entries and the bytes of a tree, by recursion over it.\<close>

lemma card_below_child: "q \<in> set (child_paths fs p) \<Longrightarrow> card (below fs q) < card (below fs p)"
proof (rule psubset_card_mono)
  assume q: "q \<in> set (child_paths fs p)"
  then have "q \<in> below fs p" "below fs q \<subseteq> below fs p" using child_paths_below below_trans by blast+
  moreover have "q \<notin> below fs q" by (simp add: below_def)
  ultimately show "below fs q \<subset> below fs p" by blast
qed simp

function tree_entries :: "files \<Rightarrow> path \<Rightarrow> nat" where
  "tree_entries fs p = sum_list (map (\<lambda>q. Suc (if node_at fs q = Some Folder then tree_entries fs q else 0)) (child_paths fs p))"
  by pat_completeness auto
termination by (relation "measure (\<lambda>(fs, p). card (below fs p))") (auto intro: card_below_child)

definition own_bytes :: "node option \<Rightarrow> int" where
  "own_bytes n = (case n of Some (File t) \<Rightarrow> int (length t) | _ \<Rightarrow> 0)"

function tree_bytes :: "files \<Rightarrow> path \<Rightarrow> int" where
  "tree_bytes fs p = sum_list (map (\<lambda>q. own_bytes (node_at fs q) + (if node_at fs q = Some Folder then tree_bytes fs q else 0)) (child_paths fs p))"
  by pat_completeness auto
termination by (relation "measure (\<lambda>(fs, p). card (below fs p))") (auto intro: card_below_child)

declare tree_entries.simps [simp del] tree_bytes.simps [simp del]

definition folders_of :: "files \<Rightarrow> path list \<Rightarrow> path list" where
  "folders_of fs qs = filter (\<lambda>q. node_at fs q = Some Folder) qs"

lemma own_bytes_positive: "0 \<le> own_bytes n"
  by (auto simp: own_bytes_def split: option.split node.split)

lemma tree_bytes_positive: "0 \<le> tree_bytes fs p"
proof (induction fs p rule: tree_bytes.induct)
  case (1 fs p)
  then show ?case by (subst tree_bytes.simps) (auto intro!: sum_list_nonneg add_nonneg_nonneg own_bytes_positive)
qed

lemma visit_outcome:
  assumes "bytes \<le> MAX_SAFE_INTEGER"
  shows "visit fs mx qs entries bytes pending =
    (if mx < entries + length qs \<and> qs \<noteq> [] \<or> MAX_SAFE_INTEGER < bytes + sum_list (map (\<lambda>q. own_bytes (node_at fs q)) qs) then None
     else Some (entries + length qs, bytes + sum_list (map (\<lambda>q. own_bytes (node_at fs q)) qs), rev (folders_of fs qs) @ pending))"
  using assms
proof (induction fs mx qs entries bytes pending rule: visit.induct)
  case (2 fs mx q qs entries bytes pending)
  have "0 \<le> sum_list (map (\<lambda>q. own_bytes (node_at fs q)) qs)" by (rule sum_list_nonneg) (auto simp: own_bytes_positive)
  then show ?case using 2 by (auto simp: own_bytes_def folders_of_def Let_def split: option.split node.split)
qed (simp add: folders_of_def)

lemma sum_list_map_rev: "sum_list (map f (rev xs)) = (sum_list (map f xs) :: 'a :: comm_monoid_add)"
  by (induction xs) (simp_all add: add.commute)

lemma sum_list_folders:
  "sum_list (map f (folders_of fs qs)) = (\<Sum>q\<leftarrow>qs. if node_at fs q = Some Folder then f q else (0 :: 'a :: comm_monoid_add))"
  by (induction qs) (auto simp: folders_of_def)

definition listed_in :: "files \<Rightarrow> path \<Rightarrow> path list" where
  "listed_in fs p = (if node_at fs p = Some Folder then child_paths fs p else [])"

definition counted :: "(path \<Rightarrow> 'a) \<Rightarrow> files \<Rightarrow> path \<Rightarrow> 'a :: zero" where
  "counted f fs p = (if node_at fs p = Some Folder then f p else 0)"

lemma tree_entries_split: "counted (tree_entries fs) fs p = length (listed_in fs p) + sum_list (map (tree_entries fs) (folders_of fs (listed_in fs p)))"
  by (subst (1) counted_def, subst tree_entries.simps) (simp add: listed_in_def sum_list_folders sum_list_Suc cong: if_cong)

lemma tree_bytes_split:
  "counted (tree_bytes fs) fs p = sum_list (map (\<lambda>q. own_bytes (node_at fs q)) (listed_in fs p)) + sum_list (map (tree_bytes fs) (folders_of fs (listed_in fs p)))"
  by (subst (1) counted_def, subst tree_bytes.simps) (simp add: listed_in_def sum_list_folders sum_list_addf cong: if_cong)

lemma loop_outcome:
  assumes "bytes \<le> MAX_SAFE_INTEGER" and "entries \<le> mx"
  shows "directory_loop fs mx pending entries bytes =
    (let n = entries + sum_list (map (counted (tree_entries fs) fs) pending); b = bytes + sum_list (map (counted (tree_bytes fs) fs) pending)
     in Some (if mx < n \<or> MAX_SAFE_INTEGER < b then None else Some b))"
  using assms
proof (induction "walk_size fs pending" arbitrary: pending entries bytes rule: less_induct)
  case less
  show ?case
  proof (cases pending)
    case Nil
    then show ?thesis using less.prems by (simp add: directory_loop.simps)
  next
    case (Cons p ps)
    let ?qs = "listed_in fs p" and ?here = "sum_list (map (\<lambda>q. own_bytes (node_at fs q)) (listed_in fs p))"
    let ?next = "rev (folders_of fs ?qs) @ ps"
    have nonneg: "0 \<le> sum_list (map (tree_bytes fs) (folders_of fs ?qs))" "0 \<le> sum_list (map (counted (tree_bytes fs) fs) ps)"
      by (auto intro!: sum_list_nonneg tree_bytes_positive simp: counted_def)
    have fol: "map (counted f fs) (folders_of fs qs) = map f (folders_of fs qs)" for f :: "path \<Rightarrow> 'z :: zero" and qs
      by (simp add: counted_def folders_of_def)
    have loop: "directory_loop fs mx pending entries bytes =
      (case visit fs mx ?qs entries bytes ps of None \<Rightarrow> Some None
       | Some (entries', bytes', pending') \<Rightarrow> directory_loop fs mx pending' entries' bytes')"
      by (subst directory_loop.simps) (simp add: Cons listed_in_def)
    show ?thesis
    proof (cases "mx < entries + length ?qs \<and> ?qs \<noteq> [] \<or> MAX_SAFE_INTEGER < bytes + ?here")
      case True
      then show ?thesis
        using less.prems nonneg unfolding loop visit_outcome [OF less.prems(1)]
        by (auto simp: Cons Let_def tree_entries_split tree_bytes_split)
    next
      case False
      have "walk_size fs ?next < walk_size fs pending"
        using walk_descends(1) [of fs "\<lambda>q. node_at fs q = Some Folder" p] by (auto simp: Cons listed_in_def folders_of_def)
      moreover have "bytes + ?here \<le> MAX_SAFE_INTEGER" "entries + length ?qs \<le> mx" using False less.prems by auto
      ultimately show ?thesis
        using less.hyps [of ?next "bytes + ?here" "entries + length ?qs"] False unfolding loop visit_outcome [OF less.prems(1)]
        by (simp add: Cons Let_def sum_list_map_rev fol tree_entries_split tree_bytes_split add.assoc)
    qed
  qed
qed

text \<open>Measuring a folder always ends, whatever is in it.\<close>

lemma measuring_a_folder_ends: "\<exists>r. directoryBytes fs dir maximumEntries = Some r"
  using loop_outcome [of 0 0 "or_else maximumEntries 200000" fs "[or_else (real_path fs dir) dir]"]
  by (simp add: directoryBytes_def MAX_SAFE_INTEGER_def Let_def)

text \<open>
  C40. The loop over a stack of folders gives what the recursion over the tree gives: the bytes of all files below the
  folder, unless the entries are more than allowed or the bytes no safe integer.
\<close>

theorem folder_size_is_the_tree_sum:
  assumes "node_at fs dir = Some Folder"
  shows "directoryBytes fs dir maximumEntries =
    Some (if or_else maximumEntries 200000 < tree_entries fs dir \<or> MAX_SAFE_INTEGER < tree_bytes fs dir then None else Some (tree_bytes fs dir))"
  using loop_outcome [of 0 0 "or_else maximumEntries 200000" fs "[dir]"] assms
  by (simp add: directoryBytes_def MAX_SAFE_INTEGER_def Let_def counted_def real_path_plain is_link_def)

theorem folder_size_is_the_tree_sum_witness:
  "directoryBytes (ho_files still_host) [''i''] (Some 10) = Some (Some 4) \<and> directoryBytes (ho_files still_host) [''i''] (Some 2) = Some None"
proof -
  have "node_at (ho_files still_host) [''i''] = Some Folder" by code_simp
  note size = folder_size_is_the_tree_sum [OF this]
  have "tree_entries (ho_files still_host) [''i''] = 4" "tree_bytes (ho_files still_host) [''i''] = 4" by code_simp+
  then show ?thesis using size [of "Some 10"] size [of "Some 2"] by (simp add: MAX_SAFE_INTEGER_def)
qed

section \<open>The samples of all agents\<close>

definition filesystemUsage :: "(int \<times> int \<times> int) option \<Rightarrow> int option \<times> int option" where
  "filesystemUsage st =
     (case st of None \<Rightarrow> (None, None)
      | Some (bsize, blocks, bavail) \<Rightarrow>
          (let whole = bsize * blocks; used = whole - bsize * bavail in
           if MAX_SAFE_INTEGER < whole \<or> MAX_SAFE_INTEGER < used then (None, None) else (Some used, Some whole)))"

definition CONTAINER_NAME :: rexp where
  "CONTAINER_NAME = Sq (Cls is_alnum) (Rep (Cls (\<lambda>c. is_alnum c \<or> one_of ''_.-'' c)) 0 (Some 127))"

definition named_text :: "rexp \<Rightarrow> json \<Rightarrow> bool" where
  "named_text r v \<longleftrightarrow> (case v of JStr s \<Rightarrow> matches r s | _ \<Rightarrow> False)"

record instance_on_disk =
  id_folder :: path
  id_metadata :: json
  id_roles :: "(string \<times> string) list"

definition text_or :: "json \<Rightarrow> string" where
  "text_or v = (case v of JStr s \<Rightarrow> s | _ \<Rightarrow> [])"

definition without_prefix :: "string \<Rightarrow> string \<Rightarrow> string" where
  "without_prefix w s = (if starts_with w s then drop (length w) s else s)"

definition read_instance :: "(string \<Rightarrow> json option) \<Rightarrow> (json \<Rightarrow> string) \<Rightarrow> files \<Rightarrow> path \<Rightarrow> instance_on_disk option" where
  "read_instance parse show fs dir =
     (case readFileSync fs (dir @ [''instance.json'']) of Inl _ \<Rightarrow> None
      | Inr t \<Rightarrow> (case parse t of None \<Rightarrow> None
        | Some md \<Rightarrow>
            (let names = prop_at md ''names''; hermes = prop_at names ''hermes''; runtime = prop_at names ''runtime'';
                 shown = (case hermes of JStr s \<Rightarrow> s | _ \<Rightarrow> show hermes);
                 dashboard = default (prop_at names ''dashboard'') (JStr (''bairui-hermes-dashboard-'' @ without_prefix ''bairui-hermes-'' shown))
             in if \<not> nullish md \<and> list_all (\<lambda>k. named_text NAME_PATTERN (prop_at md k)) [''agentId'', ''runtimeId'', ''deploymentId'']
                   \<and> list_all (named_text CONTAINER_NAME) [hermes, dashboard, runtime]
                then Some \<lparr>id_folder = dir, id_metadata = md,
                       id_roles = [(''hermes'', text_or hermes), (''hermes-dashboard'', text_or dashboard), (''runtime-boundary'', text_or runtime)]\<rparr>
                else None)))"

definition readInstances :: "(string \<Rightarrow> json option) \<Rightarrow> (json \<Rightarrow> string) \<Rightarrow> files \<Rightarrow> path \<Rightarrow> instance_on_disk list" where
  "readInstances parse show fs instances =
     (case readdirSync fs instances of Inl _ \<Rightarrow> []
      | Inr _ \<Rightarrow> List.map_filter (read_instance parse show fs) (folders_of fs (child_paths fs instances)))"

text \<open>What \<open>docker\<close> answers, \<open>None\<close> for a failed run, and the rest of what a collection sees.\<close>

record collector_env =
  ce_files :: files
  ce_instances :: path
  ce_now :: instant
  ce_dates :: dates
  ce_parse :: "string \<Rightarrow> json option"
  ce_show :: "json \<Rightarrow> string"
  ce_info :: "string option"
  ce_list :: "string option"
  ce_inspect :: "string list \<Rightarrow> string option"
  ce_stats :: "string list \<Rightarrow> string option"
  ce_statfs :: "(int \<times> int \<times> int) option"
  ce_platform :: string
  ce_arch :: string
  ce_maximum :: "nat option"

record agent_resource_sample =
  rs_agent :: json
  rs_runtime :: json
  rs_deployment :: json
  rs_sequence :: int
  rs_status :: string
  rs_cpu :: "rat option"
  rs_memory :: "int option"
  rs_memoryLimit :: "int option"
  rs_storage :: "rat option"
  rs_hostUsed :: "int option"
  rs_hostLimit :: "int option"
  rs_os :: "string option"
  rs_architecture :: "string option"
  rs_system :: "string option"
  rs_docker :: "string option"
  rs_cpuCount :: "int option"
  rs_uptime :: "int option"
  rs_observedAt :: string
  rs_containers :: "container list"
  rs_startedAt :: "string option"

definition outputs :: "collector_env \<Rightarrow> string option \<Rightarrow> json list" where
  "outputs ce out = (case out of None \<Rightarrow> [] | Some s \<Rightarrow> parseJsonLines (ce_parse ce) s)"

definition by_key :: "(json \<Rightarrow> json) \<Rightarrow> json list \<Rightarrow> (json \<times> json) list" where
  "by_key key vs = fold (\<lambda>v m. AList.update (key v) v m) vs []"

definition found :: "(json \<times> json) list \<Rightarrow> string \<Rightarrow> json" where
  "found m name = (case map_of m (JStr name) of Some v \<Rightarrow> v | None \<Rightarrow> JUndefined)"

definition expected_names :: "instance_on_disk list \<Rightarrow> string list" where
  "expected_names is = concat (map (\<lambda>i. map snd (id_roles i)) is)"

definition listed_by_name :: "collector_env \<Rightarrow> string list \<Rightarrow> (json \<times> json) list" where
  "listed_by_name ce expected =
     by_key (\<lambda>v. prop_at v ''Names'') (filter (\<lambda>v. prop_at v ''Names'' \<in> JStr ` set expected) (outputs ce (ce_list ce)))"

definition inspect_key :: "collector_env \<Rightarrow> json \<Rightarrow> json" where
  "inspect_key ce v =
     (let name = (case default (prop_at v ''Name'') (JStr []) of JStr s \<Rightarrow> s | n \<Rightarrow> ce_show ce n) in JStr (without_prefix ''/'' name))"

definition cpu_count :: "json \<Rightarrow> int option" where
  "cpu_count v =
     (case number_of v of
        Some x \<Rightarrow> if x = of_int \<lfloor>x\<rfloor> \<and> 0 < x \<and> x \<le> safe_maximum then Some \<lfloor>x\<rfloor> else None
      | None \<Rightarrow> None)"

definition values_present :: "'a option list \<Rightarrow> 'a list" where
  "values_present xs = List.map_filter (\<lambda>x. x) xs"

definition sum_present :: "'a :: comm_monoid_add option list \<Rightarrow> 'a option" where
  "sum_present xs = (if values_present xs = [] then None else Some (sum_list (values_present xs)))"

definition agent_sample :: "collector_env \<Rightarrow> json \<Rightarrow> (json \<times> json) list \<Rightarrow> (json \<times> json) list \<Rightarrow> (json \<times> json) list \<Rightarrow> instance_on_disk \<Rightarrow> agent_resource_sample" where
  "agent_sample ce host byName inspected stats i =
     (let cs = map (\<lambda>(role, name). containerResource (ce_dates ce) role name (found inspected name) (found stats name) (found byName name)) (id_roles i);
          workspace = or_else (directoryBytes (ce_files ce) (id_folder i) (ce_maximum ce)) None;
          started = (case sort (filter (\<lambda>t. t \<noteq> []) (values_present (map co_startedAt cs))) of [] \<Rightarrow> None | t # _ \<Rightarrow> Some t);
          usage = filesystemUsage (ce_statfs ce)
      in \<lparr>rs_agent = prop_at (id_metadata i) ''agentId'', rs_runtime = prop_at (id_metadata i) ''runtimeId'',
          rs_deployment = prop_at (id_metadata i) ''deploymentId'', rs_sequence = max 1 (ce_now ce),
          rs_status = aggregateStatus cs (ce_list ce \<noteq> None),
          rs_cpu = map_option (\<lambda>x. of_int (round_half_up (x * 1000)) / 1000) (sum_present (map co_cpu cs)),
          rs_memory = sum_present (map co_memory cs),
          rs_memoryLimit = (case values_present (map co_memoryLimit cs) of [] \<Rightarrow> None | ms \<Rightarrow> Some (Max (set ms))),
          rs_storage = map_option (\<lambda>b. of_int b + sum_list (values_present (map co_writable cs))) workspace,
          rs_hostUsed = fst usage, rs_hostLimit = snd usage,
          rs_os = safeText (default (prop_at host ''OSType'') (JStr (ce_platform ce))) 80,
          rs_architecture = safeText (default (prop_at host ''Architecture'') (JStr (ce_arch ce))) 80,
          rs_system = safeText (prop_at host ''OperatingSystem'') 300, rs_docker = safeText (prop_at host ''ServerVersion'') 100,
          rs_cpuCount = cpu_count (prop_at host ''NCPU''),
          rs_uptime = Option.bind started (\<lambda>t. map_option (\<lambda>b. max 0 ((ce_now ce - b) div 1000)) (parse_date (ce_dates ce) t)),
          rs_observedAt = iso_date (ce_dates ce) (ce_now ce), rs_containers = cs, rs_startedAt = started\<rparr>)"

definition is_running :: "(json \<times> json) list \<Rightarrow> string \<Rightarrow> bool" where
  "is_running byName name = (case prop_at (found byName name) ''State'' of JStr s \<Rightarrow> lower_case s = ''running'' | _ \<Rightarrow> False)"

text \<open>A listing may be an array; reading a property of an element that is \<open>null\<close> throws.\<close>

definition collectAgentResourceSamples :: "collector_env \<Rightarrow> failure + agent_resource_sample list" where
  "collectAgentResourceSamples ce =
     (let is = readInstances (ce_parse ce) (ce_show ce) (ce_files ce) (ce_instances ce) in
      if is = [] then Inr []
      else
        (let host = (case outputs ce (ce_info ce) of [] \<Rightarrow> JObj [] | v # _ \<Rightarrow> default v (JObj []));
             byName = listed_by_name ce (expected_names is);
             existing = map (\<lambda>(k, _). text_or k) byName;
             running = filter (is_running byName) existing;
             inspected = outputs ce (if existing = [] then Some ''[]'' else ce_inspect ce existing);
             stats = outputs ce (if running = [] then Some [] else ce_stats ce running)
         in if list_ex nullish (outputs ce (ce_list ce) @ inspected @ stats) then Inl (TypeError ''property of null'')
            else Inr (map (agent_sample ce host byName (by_key (inspect_key ce) inspected)
                (by_key (\<lambda>v. default (prop_at v ''Name'') (prop_at v ''Container'')) stats)) is)))"

lemma finite_upto_nonneg: "finite_upto v m = Some x \<Longrightarrow> 0 \<le> x"
  by (auto simp: finite_upto_def split: option.splits if_splits)

lemma round_half_up_nonneg: "0 \<le> x \<Longrightarrow> 0 \<le> round_half_up x"
  by (simp add: round_half_up_def)

lemma parsePercent_nonneg: "parsePercent v = Some x \<Longrightarrow> 0 \<le> x"
  by (auto simp: parsePercent_def Let_def split: json.splits dest: finite_upto_nonneg)

lemma parseDockerBytes_nonneg: "parseDockerBytes v = Some x \<Longrightarrow> 0 \<le> x"
  by (auto simp: parseDockerBytes_def Let_def split: json.splits option.splits if_splits dest!: finite_upto_nonneg intro: round_half_up_nonneg)

lemma directoryBytes_nonneg: "directoryBytes fs dir m = Some (Some b) \<Longrightarrow> 0 \<le> b"
  using loop_outcome [of 0 0 "or_else m 200000" fs "[or_else (real_path fs dir) dir]"] tree_bytes_positive [of fs "or_else (real_path fs dir) dir"]
  by (auto simp: directoryBytes_def MAX_SAFE_INTEGER_def Let_def counted_def split: if_splits)

lemma present_mem: "x \<in> set (values_present xs) \<longleftrightarrow> Some x \<in> set xs"
  by (force simp: values_present_def List.map_filter_def)

lemma sum_present_nonneg:
  fixes xs :: "'a :: ordered_comm_monoid_add option list"
  shows "sum_present xs = Some x \<Longrightarrow> (\<And>y. Some y \<in> set xs \<Longrightarrow> 0 \<le> y) \<Longrightarrow> 0 \<le> x"
  by (auto simp: sum_present_def present_mem split: if_splits intro!: sum_list_nonneg)

lemma aggregateStatus_running:
  assumes "aggregateStatus cs listed = ''running''"
  shows "listed \<and> (\<forall>c\<in>set cs. co_status c = ''running'')"
proof -
  have "(if \<not> listed then ''unknown'' else if r = n then ''running'' else if b then ''degraded'' else ''offline'') = ''running'' \<longrightarrow> listed \<and> r = n"
    for r n :: nat and b by (cases listed; cases "r = n"; cases b) simp_all
  from this [of "length (filter (\<lambda>c. co_status c = ''running'') cs)" "length cs"
      "0 < length (filter (\<lambda>c. co_status c = ''running'') cs) \<or> list_ex (\<lambda>c. co_status c \<in> {''paused'', ''restarting''}) cs"]
  have "listed \<and> length (filter (\<lambda>c. co_status c = ''running'') cs) = length cs"
    using assms unfolding aggregateStatus_def Let_def by (rule mp)
  then show ?thesis using length_filter_less [of _ cs "\<lambda>c. co_status c = ''running''"] by auto
qed

text \<open>
  A sample never claims more than was seen: an agent is reported running only when the listing of containers
  succeeded and each of its containers is running, and every percentage, size and uptime reported is not negative.
\<close>

theorem samples_report_what_was_seen:
  assumes "collectAgentResourceSamples ce = Inr xs" "x \<in> set xs"
  shows "(rs_status x = ''running'' \<longrightarrow> ce_list ce \<noteq> None \<and> (\<forall>c\<in>set (rs_containers x). co_status c = ''running''))
    \<and> (\<forall>c. rs_cpu x = Some c \<longrightarrow> 0 \<le> c) \<and> (\<forall>m. rs_memory x = Some m \<longrightarrow> 0 \<le> m) \<and> (\<forall>u. rs_uptime x = Some u \<longrightarrow> 0 \<le> u)
    \<and> (\<forall>b. rs_storage x = Some b \<longrightarrow> 0 \<le> b)"
proof -
  obtain host byName inspected stats i where x: "x = agent_sample ce host byName inspected stats i"
    using assms by (auto simp: collectAgentResourceSamples_def Let_def split: if_splits)
  let ?cs = "map (\<lambda>(role, name). containerResource (ce_dates ce) role name (found inspected name) (found stats name) (found byName name)) (id_roles i)"
  have cpu: "0 \<le> y" if "Some y \<in> set (map co_cpu ?cs)" for y
    using that by (auto simp: containerResource_def Let_def dest!: sym [THEN parsePercent_nonneg])
  have memory: "0 \<le> y" if "Some y \<in> set (map co_memory ?cs)" for y
    using that by (auto simp: containerResource_def Let_def dest!: sym [THEN parseDockerBytes_nonneg])
  have writable: "0 \<le> y" if "y \<in> set (values_present (map co_writable ?cs))" for y
    using that by (auto simp: present_mem containerResource_def Let_def dest!: sym [THEN finite_upto_nonneg])
  have parts: "rs_cpu x = map_option (\<lambda>x. of_int (round_half_up (x * 1000)) / 1000) (sum_present (map co_cpu ?cs))"
    "rs_memory x = sum_present (map co_memory ?cs)" "rs_containers x = ?cs" "rs_status x = aggregateStatus ?cs (ce_list ce \<noteq> None)"
    "rs_storage x = map_option (\<lambda>b. of_int b + sum_list (values_present (map co_writable ?cs)))
      (or_else (directoryBytes (ce_files ce) (id_folder i) (ce_maximum ce)) None)"
    by (simp_all add: x agent_sample_def Let_def)
  show ?thesis
  proof (intro conjI allI impI ballI)
    fix c assume "rs_cpu x = Some c"
    then show "0 \<le> c" using sum_present_nonneg [OF _ cpu] round_half_up_nonneg unfolding parts by fastforce
  next
    fix b assume "rs_storage x = Some b"
    then show "0 \<le> b"
      using sum_list_nonneg [OF writable] directoryBytes_nonneg [of "ce_files ce" "id_folder i" "ce_maximum ce"] unfolding parts
      by (cases "directoryBytes (ce_files ce) (id_folder i) (ce_maximum ce)") auto
  next
    fix u assume "rs_uptime x = Some u"
    then show "0 \<le> u" by (auto simp: x agent_sample_def Let_def Option.bind_eq_Some_conv)
  next
    fix m assume "rs_memory x = Some m"
    then show "0 \<le> m" unfolding parts by (rule sum_present_nonneg [OF _ memory])
  next
    assume "rs_status x = ''running''"
    note running = aggregateStatus_running [OF this [unfolded parts]]
    show "ce_list ce \<noteq> None" using running by (rule conjunct1)
    fix c assume "c \<in> set (rs_containers x)"
    then show "co_status c = ''running''" using running unfolding parts by blast
  qed
qed

end
