(* ===== verification/Public_Surface.thy ===== *)
theory Public_Surface
  imports Js_Object Js_Search Supervisor_Config Sessions
begin

text \<open>
  What the web application shows, takes in and decides, the functions at the head of \<open>apps/web/app.mjs\<close>: the fields no
  answer carries, the views of the records, the documents and arguments taken from a request, and whether an agent can be
  used. Records of the repository are JSON values, dates in them are texts, and \<open>show\<close> is \<open>String\<close> of a value.
\<close>

section \<open>Secrets\<close>

definition squeezed :: "string \<Rightarrow> string" where
  "squeezed k = lower_case (filter (\<lambda>c. c \<notin> {CHR ''_'', CHR ''-''}) k)"

definition ends_with :: "string \<Rightarrow> string \<Rightarrow> bool" where
  "ends_with w s \<longleftrightarrow> starts_with (rev w) (rev s)"

definition SECRET_ENDINGS :: "string list" where
  "SECRET_ENDINGS =
     [''secret'', ''token'', ''password'', ''apikey'', ''apikeyenvelope'', ''privatekey'', ''credential'', ''credentials'',
      ''credentialenvelope'', ''credentialhash'']"

definition isSecretField :: "string \<Rightarrow> bool" where
  "isSecretField key \<longleftrightarrow>
     (let n = squeezed key in
      n \<notin> {''keyhint'', ''keymasked'', ''credentialhint'', ''credentialmasked''}
      \<and> (n \<in> {''secret'', ''secrets'', ''token'', ''keyhash''} \<or> list_ex (\<lambda>w. ends_with w n) SECRET_ENDINGS))"

text \<open>A value without the fields that are hidden, cut off below twenty levels.\<close>

function shown_part :: "(string \<Rightarrow> bool) \<Rightarrow> nat \<Rightarrow> json \<Rightarrow> json" where
  "shown_part hidden depth v =
     (case v of
        JArr xs \<Rightarrow> if 20 < depth then JNull else JArr (map (shown_part hidden (Suc depth)) xs)
      | JObj kvs \<Rightarrow>
          if 20 < depth then JNull
          else JObj (map (\<lambda>kv. (fst kv, shown_part hidden (Suc depth) (snd kv))) (filter (\<lambda>kv. \<not> hidden (fst kv)) kvs))
      | _ \<Rightarrow> v)"
  by pat_completeness auto
termination
proof (relation "measure (\<lambda>(h, d, v). size v)", goal_cases)
  case (2 hidden depth v xs x)
  then show ?case using size_JArr [of x xs] by simp
next
  case (3 hidden depth v kvs kv)
  then show ?case using size_JObj [of kv kvs] by auto
qed simp

declare shown_part.simps [simp del]

lemma shown_part_simps [simp]:
  "shown_part h d (JArr xs) = (if 20 < d then JNull else JArr (map (shown_part h (Suc d)) xs))"
  "shown_part h d (JObj kvs) =
     (if 20 < d then JNull else JObj (map (\<lambda>kv. (fst kv, shown_part h (Suc d) (snd kv))) (filter (\<lambda>kv. \<not> h (fst kv)) kvs)))"
  "shown_part h d JNull = JNull" "shown_part h d JUndefined = JUndefined" "shown_part h d (JBool b) = JBool b"
  "shown_part h d (JNum n) = JNum n" "shown_part h d (JStr s) = JStr s" "shown_part h d JOther = JOther"
  by (subst shown_part.simps, simp)+

definition publicSurface :: "json \<Rightarrow> json" where
  "publicSurface v = shown_part isSecretField 0 v"

definition AUDIT_TEXTS :: "string list" where
  "AUDIT_TEXTS = [''reason'', ''body'', ''content'', ''input'', ''output'', ''document'']"

definition auditMetadata :: "json \<Rightarrow> json" where
  "auditMetadata v =
     shown_part (\<lambda>k. isSecretField k \<or> lower_case (map (\<lambda>c. if c = CHR ''-'' then CHR ''_'' else c) k) \<in> set AUDIT_TEXTS) 0 v"

definition publicConfigRevision :: "json \<Rightarrow> json" where
  "publicConfigRevision v = (if truthy v then publicSurface v else JNull)"

lemma shown_part_keys: "k \<in> all_keys (shown_part h d v) \<Longrightarrow> \<not> h k \<and> k \<in> all_keys v"
proof (induction v arbitrary: d rule: json_induct)
  case (JArr xs)
  then show ?case by (auto split: if_splits)
next
  case (JObj kvs)
  from JObj.prems obtain kv where kv: "kv \<in> set kvs" "\<not> h (fst kv)" "k = fst kv \<or> k \<in> all_keys (shown_part h (Suc d) (snd kv))"
    by (auto split: if_splits)
  from kv(3) show ?case
  proof
    assume "k = fst kv"
    then show ?case using kv by simp
  next
    assume k: "k \<in> all_keys (shown_part h (Suc d) (snd kv))"
    show ?case using JObj.IH [OF kv(1) k] kv(1) by auto
  qed
qed simp_all

lemma shown_part_again: "shown_part h d (shown_part h d v) = shown_part h d v"
proof (induction v arbitrary: d rule: json_induct)
  case (JObj kvs)
  have "map (\<lambda>kv. (fst kv, shown_part h (Suc d) (snd kv)))
      (filter (\<lambda>kv. \<not> h (fst kv)) (map (\<lambda>kv. (fst kv, shown_part h (Suc d) (snd kv))) (filter (\<lambda>kv. \<not> h (fst kv)) kvs)))
    = map (\<lambda>kv. (fst kv, shown_part h (Suc d) (snd kv))) (filter (\<lambda>kv. \<not> h (fst kv)) kvs)"
    using JObj by (simp add: filter_map o_def)
  then show ?case by simp
qed simp_all

text \<open>
  No answer built with \<open>publicSurface\<close> and no audit entry carries a secret field, at any depth: the keys left are keys
  of the value and none of them is secret, and applying the filter again changes nothing.
\<close>

theorem public_surfaces_carry_no_secrets:
  "all_keys (publicSurface v) \<subseteq> all_keys v - {k. isSecretField k} \<and> all_keys (auditMetadata v) \<subseteq> all_keys v - {k. isSecretField k} \<and>
   publicSurface (publicSurface v) = publicSurface v \<and> auditMetadata (auditMetadata v) = auditMetadata v"
  unfolding publicSurface_def auditMetadata_def shown_part_again by (auto dest!: shown_part_keys)

text \<open>
  The sealed key of an agent's Hermes server is not among the secret fields, so the view of a configuration revision
  keeps it.
\<close>

lemma sealed_hermes_key_is_shown:
  "\<not> isSecretField ''hermesApiServerKey''" "\<not> isSecretField ''secretEnvelope''"
  "at (at (publicConfigRevision (JObj [(''secretEnvelope'', JObj [(''providerApiKey'', p), (''hermesApiServerKey'', JStr k)])])) ''secretEnvelope'')
     ''hermesApiServerKey'' = JStr k"
proof -
  show key: "\<not> isSecretField ''hermesApiServerKey''" and env: "\<not> isSecretField ''secretEnvelope''" by code_simp+
  show "at (at (publicConfigRevision (JObj [(''secretEnvelope'', JObj [(''providerApiKey'', p), (''hermesApiServerKey'', JStr k)])])) ''secretEnvelope'')
     ''hermesApiServerKey'' = JStr k"
    using key env by (simp add: publicConfigRevision_def publicSurface_def truthy_def at_def prop_of_def)
qed

section \<open>Views of records\<close>

definition masked :: "(json \<Rightarrow> string) \<Rightarrow> json \<Rightarrow> json" where
  "masked show hint =
     (if truthy hint then JStr (''****'' @ (case hint of JStr s \<Rightarrow> s | _ \<Rightarrow> show hint)) else JNull)"

definition record_view :: "string list \<Rightarrow> json \<Rightarrow> (string \<times> json) list \<Rightarrow> json" where
  "record_view ks v new = (if truthy v then JObj (overwrite (removed ks (own_fields v)) new) else JNull)"

definition publicProviderConfiguration :: "(json \<Rightarrow> string) \<Rightarrow> json \<Rightarrow> json" where
  "publicProviderConfiguration show c =
     (if \<not> truthy c
      then JObj [(''configured'', JBool False), (''provider'', JStr []), (''baseUrl'', JStr []), (''model'', JStr []), (''keyMasked'', JNull),
             (''applyStatus'', JStr ''missing''), (''updatedAt'', JNull)]
      else JObj [(''configured'', JBool (truthy (at c ''apiKeyEnvelope''))), (''provider'', at c ''provider''), (''baseUrl'', at c ''baseUrl''),
             (''model'', at c ''model''), (''keyMasked'', masked show (at c ''keyHint'')), (''applyStatus'', at c ''applyStatus''),
             (''updatedAt'', at c ''updatedAt'')])"

definition publicProviderChannel :: "(json \<Rightarrow> string) \<Rightarrow> json \<Rightarrow> json" where
  "publicProviderChannel show c =
     record_view [''apiKeyEnvelope''] c [(''configured'', JBool (truthy (at c ''apiKeyEnvelope''))), (''keyMasked'', masked show (at c ''keyHint''))]"

definition publicChannelBinding :: "(json \<Rightarrow> string) \<Rightarrow> (string \<Rightarrow> string) \<Rightarrow> json \<Rightarrow> json" where
  "publicChannelBinding show encode b =
     record_view [''credentialEnvelope''] b
       ((if at b ''channel'' = JStr ''wechat''
         then [(''callbackPath'', JStr (''/callbacks/wechat/'' @ encode (case at b ''id'' of JStr i \<Rightarrow> i | v \<Rightarrow> show v)))] else [])
        @ [(''configured'', JBool (truthy (at b ''credentialEnvelope''))), (''credentialMasked'', masked show (at b ''credentialHint''))])"

definition publicAgentAuthorization :: "(json \<Rightarrow> string) \<Rightarrow> json \<Rightarrow> json" where
  "publicAgentAuthorization show a =
     record_view [''credentialEnvelope'', ''credentialHint''] a
       [(''configured'', JBool (truthy (at a ''credentialEnvelope''))), (''credentialMasked'', masked show (at a ''credentialHint''))]"

definition publicAgentRun :: "(json \<Rightarrow> string) \<Rightarrow> json \<Rightarrow> json" where
  "publicAgentRun show r =
     record_view [''inputText''] r
       [(''inputPreview'', JStr (take 500 (case at r ''inputText'' of JStr s \<Rightarrow> s | JNull \<Rightarrow> [] | JUndefined \<Rightarrow> [] | v \<Rightarrow> show v)))]"

definition publicFleetAgent :: "json \<Rightarrow> json" where
  "publicFleetAgent a = record_view [''description'', ''settings'', ''soulMarkdown''] a []"

definition publicMemoryProjectionStatus :: "json \<Rightarrow> json" where
  "publicMemoryProjectionStatus j =
     (if \<not> truthy j then JObj [(''status'', JStr ''idle'')]
      else JObj [(''jobId'', at j ''id''), (''status'', at j ''state''), (''attempts'', at j ''attempts''), (''availableAt'', at j ''availableAt''),
             (''lastErrorCode'', at j ''lastErrorCode''), (''result'', at j ''resultSummary''), (''updatedAt'', at j ''updatedAt''),
             (''completedAt'', at j ''completedAt'')])"

definition pendingOwnerConfiguration :: json where
  "pendingOwnerConfiguration = JObj [(''state'', JStr ''pending_control_authority''), (''commandId'', JNull), (''configRevisionId'', JNull)]"

definition resourceFreshness :: "dates \<Rightarrow> instant \<Rightarrow> json \<Rightarrow> int \<Rightarrow> json" where
  "resourceFreshness dt now r staleAfterMs =
     (let stale = (case instant_of dt (at r ''receivedAt'') of None \<Rightarrow> True | Some t \<Rightarrow> staleAfterMs < now - t) in
      record_view [] r [(''status'', if stale then JStr ''offline'' else at r ''status''), (''stale'', JBool stale)])"

definition safe_error_code :: "json \<Rightarrow> string" where
  "safe_error_code v =
     (case v of
        JStr s \<Rightarrow>
          (let t = take 200 (map (\<lambda>c. if is_alnum c \<or> one_of ''._:-'' c then c else CHR ''_'') s)
           in if t = [] then ''request_failed'' else t)
      | _ \<Rightarrow> ''request_failed'')"

definition agentRunError :: "json \<Rightarrow> string option" where
  "agentRunError v =
     (case at v ''error'' of JStr s \<Rightarrow> Some (take 1000 s)
      | err \<Rightarrow> (case at err ''message'' of JStr s \<Rightarrow> Some (take 1000 s) | _ \<Rightarrow> None))"

section \<open>What a request carries\<close>

definition bad_owner_document :: failure where
  "bad_owner_document = CodedError ''invalid_user_config_scope'' (Some 409)"

text \<open>\<open>assertObjectFields\<close>: an object whose fields are all known.\<close>

definition object_of :: "string list \<Rightarrow> json \<Rightarrow> bool" where
  "object_of ks v \<longleftrightarrow> is_object v \<and> only_keys ks v"

definition absent_or :: "json \<Rightarrow> bool \<Rightarrow> bool" where
  "absent_or v b \<longleftrightarrow> v = JUndefined \<or> b"

definition text_field :: "json \<Rightarrow> string \<Rightarrow> bool" where
  "text_field v k \<longleftrightarrow> (case at v k of JStr _ \<Rightarrow> True | _ \<Rightarrow> False)"

definition change_fits :: "json \<Rightarrow> string option \<Rightarrow> bool" where
  "change_fits change expected \<longleftrightarrow>
     object_of [''scope'', ''generation''] change \<and> is_one_of [''skills'', ''identity''] (at change ''scope'')
     \<and> (case at change ''generation'' of JNum (Integer i) \<Rightarrow> is_safe_integer (Integer i) \<and> 1 \<le> i | _ \<Rightarrow> False)
     \<and> (expected \<in> {None, Some []} \<or> at change ''scope'' = JStr (or_else expected []))"

definition skills_fit :: "json \<Rightarrow> bool" where
  "skills_fit v \<longleftrightarrow> object_of [''disabled''] v \<and> (case at v ''disabled'' of JArr vs \<Rightarrow> list_all skill_name vs | _ \<Rightarrow> False)"

definition validateOwnerConfigurationDocument :: "json \<Rightarrow> string option \<Rightarrow> bool \<Rightarrow> failure + json" where
  "validateOwnerConfigurationDocument doc expectedScope requireOwnerChange =
     (let agent = at doc ''agent''; change = at doc ''owner_change'' in
      if object_of [''agent'', ''runtime'', ''provider'', ''skills'', ''owner_change''] doc
         \<and> absent_or agent (object_of [''id'', ''name'', ''soul_markdown''] agent \<and> list_all (text_field agent) [''id'', ''name'', ''soul_markdown''])
         \<and> absent_or (at doc ''runtime'') (object_of [''kind'', ''workspace_ref''] (at doc ''runtime''))
         \<and> absent_or (at doc ''provider'') (object_of [''provider'', ''base_url'', ''model''] (at doc ''provider''))
         \<and> absent_or (at doc ''skills'') (skills_fit (at doc ''skills''))
         \<and> (if change = JUndefined then \<not> requireOwnerChange else change_fits change expectedScope)
      then Inr doc else Inl bad_owner_document)"

text \<open>\<open>/^data:image\/(png|jpe?g|webp|gif);base64,([A-Za-z0-9+/=]+)$/i\<close>, and what the second group captures.\<close>

definition image_body :: "string \<Rightarrow> string option" where
  "image_body s =
     (case expect_ci ''data:image/'' s of None \<Rightarrow> None
      | Some r \<Rightarrow> (case List.map_filter (\<lambda>t. expect_ci (t @ '';base64,'') r) [''png'', ''jpg'', ''jpeg'', ''webp'', ''gif''] of
          [] \<Rightarrow> None
        | b # _ \<Rightarrow> if b \<noteq> [] \<and> list_all (\<lambda>c. is_alnum c \<or> one_of ''+/='' c) b then Some b else None))"

definition estimated_bytes :: "string \<Rightarrow> nat" where
  "estimated_bytes b = (3 * length b + 3) div 4"

definition MAX_IMAGE_BYTES :: nat where
  "MAX_IMAGE_BYTES = 2 * 1024 * 1024"

definition MAX_IMAGES_BYTES :: nat where
  "MAX_IMAGES_BYTES = 8 * 1024 * 1024"

definition data_url :: "json \<Rightarrow> string" where
  "data_url a = (case at a ''data_url'' of JStr s \<Rightarrow> trim s | _ \<Rightarrow> [])"

fun session_images :: "json list \<Rightarrow> nat \<Rightarrow> string list option" where
  "session_images [] bytes = Some []"
| "session_images (a # as) bytes =
     (case image_body (data_url a) of None \<Rightarrow> None
      | Some b \<Rightarrow>
          if MAX_IMAGE_BYTES < estimated_bytes b \<or> MAX_IMAGES_BYTES < bytes + estimated_bytes b then None
          else map_option ((#) (data_url a)) (session_images as (bytes + estimated_bytes b)))"

definition image_json :: "string \<Rightarrow> json" where
  "image_json url = JObj [(''type'', JStr ''image_url''), (''image_url'', JObj [(''url'', JStr url), (''detail'', JStr ''auto'')])]"

definition sessionMessage :: "json \<Rightarrow> json" where
  "sessionMessage body =
     (let message = (case at body ''message'' of JStr s \<Rightarrow> trim s | _ \<Rightarrow> []);
          attachments = (case at body ''attachments'' of JArr vs \<Rightarrow> take 5 vs | _ \<Rightarrow> [])
      in if 20000 < length message then JNull
         else case session_images attachments 0 of None \<Rightarrow> JNull
         | Some [] \<Rightarrow> if message = [] then JNull else JStr message
         | Some urls \<Rightarrow>
             JArr ((if message = [] then [] else [JObj [(''type'', JStr ''text''), (''text'', JStr message)]]) @ map image_json urls))"

definition named_value :: "json \<Rightarrow> bool" where
  "named_value v \<longleftrightarrow> (case v of JStr s \<Rightarrow> matches NAME_PATTERN s | _ \<Rightarrow> False)"

text \<open>The arguments of an administrator's operation, \<open>null\<close> when the request does not give them.\<close>

definition when_named :: "json \<Rightarrow> string list \<Rightarrow> (string \<times> json) list \<Rightarrow> json" where
  "when_named body ks args = (if list_all (\<lambda>k. named_value (at body k)) ks then JObj args else JNull)"

definition when_one_of :: "string list \<Rightarrow> json \<Rightarrow> (string \<times> json) list \<Rightarrow> json" where
  "when_one_of ws v args = (if is_one_of ws v then JObj args else JNull)"

definition probe_arguments :: "string \<Rightarrow> json \<Rightarrow> json" where
  "probe_arguments fresh body =
     (case filter (is_one_of [''runtime.health'', ''hermes.health'']) (case at body ''probeIds'' of JArr vs \<Rightarrow> uniq vs | _ \<Rightarrow> []) of
        [] \<Rightarrow> JNull | vs \<Rightarrow> JObj [(''probe_ids'', JArr vs), (''test_run_id'', JStr fresh)])"

definition controlOperationArguments :: "string \<Rightarrow> string \<Rightarrow> json \<Rightarrow> json" where
  "controlOperationArguments fresh action body =
     (let arg = at body in
      if action = ''snapshot.collect'' then JObj []
      else if action = ''probe.run'' then probe_arguments fresh body
      else if action = ''contract.test'' then
        when_one_of [''runtime-boundary-v1'', ''hermes-api-v1''] (arg ''suiteId'') [(''suite_id'', arg ''suiteId''), (''test_run_id'', JStr fresh)]
      else if action = ''smoke.test'' then
        when_one_of [''agent-runtime-v1''] (arg ''suiteId'') [(''suite_id'', arg ''suiteId''), (''test_run_id'', JStr fresh)]
      else if action = ''upstream.check'' then
        when_one_of [''hermes'', ''bairui-runtime''] (arg ''upstreamId'')
          ((''upstream_id'', arg ''upstreamId'') # (if named_value (arg ''candidateId'') then [(''candidate_id'', arg ''candidateId'')] else []))
      else if action \<in> {''config.stage'', ''config.apply''} then
        when_named body [''configRevisionId''] [(''config_revision_id'', arg ''configRevisionId'')]
      else if action = ''backup.create'' then
        when_named body [''backupPolicyId''] [(''backup_policy_id'', arg ''backupPolicyId''), (''backup_id'', JStr fresh)]
      else if action = ''backup.verify'' then when_named body [''backupId''] [(''backup_id'', arg ''backupId'')]
      else if action = ''backup.restore'' then when_named body [''backupId''] [(''backup_id'', arg ''backupId''), (''restore_id'', JStr fresh)]
      else if action \<in> {''release.stage'', ''release.apply''} then when_named body [''releaseId''] [(''release_id'', arg ''releaseId'')]
      else if action = ''release.rollback'' then
        when_named body [''releaseId'', ''rollbackReleaseId''] [(''release_id'', arg ''releaseId''), (''rollback_release_id'', arg ''rollbackReleaseId'')]
      else if action = ''service.restart'' then
        when_one_of [''hermes'', ''runtime-boundary''] (arg ''serviceId'') [(''service_id'', arg ''serviceId'')]
      else if action = ''credential.revoke'' then when_named body [''identityId''] [(''identity_id'', arg ''identityId'')]
      else JNull)"

definition authorizationMetadata :: "json \<Rightarrow> json" where
  "authorizationMetadata v =
     JObj (List.map_filter (\<lambda>(k, x). case x of
         JStr s \<Rightarrow> if k \<in> {''provider'', ''model'', ''region'', ''projectId''} \<and> trim s \<noteq> [] then Some (k, JStr (take 200 (trim s))) else None
       | _ \<Rightarrow> None) (own_fields v))"

definition channelMetadata :: "json \<Rightarrow> json" where
  "channelMetadata v =
     JObj (List.map_filter (\<lambda>(k, x). case x of
         JStr s \<Rightarrow> if k \<in> {''accountId'', ''botName'', ''tenantKey'', ''webhookPath''} then Some (k, JStr (take 200 (trim s))) else None
       | _ \<Rightarrow> None) (own_fields v))"

definition channelSecretHint :: "json \<Rightarrow> string option" where
  "channelSecretHint credentials =
     (let entries = List.map_filter (\<lambda>(k, x). case x of JStr s \<Rightarrow> if trim s = [] then None else Some (k, s) | _ \<Rightarrow> None) (own_fields credentials)
      in case filter (\<lambda>(k, _). list_ex (\<lambda>w. contains_ci w k) [''secret'', ''token'', ''key'', ''password'']) entries @ entries of
           [] \<Rightarrow> None | (_, s) # _ \<Rightarrow> Some (secretHint (Some (trim s))))"

definition discoveryItems :: "json \<Rightarrow> string list \<Rightarrow> json list" where
  "discoveryItems v keys =
     (case v of JArr vs \<Rightarrow> vs
      | _ \<Rightarrow> (case find (\<lambda>k. case at v k of JArr _ \<Rightarrow> True | _ \<Rightarrow> False) (keys @ [''data'']) of
          None \<Rightarrow> [] | Some k \<Rightarrow> (case at v k of JArr vs \<Rightarrow> vs | _ \<Rightarrow> [])))"

definition discoveryIds :: "json \<Rightarrow> string list \<Rightarrow> string list" where
  "discoveryIds v keys =
     uniq (List.map_filter (\<lambda>item.
       case (case item of JStr _ \<Rightarrow> item | _ \<Rightarrow> default (at item ''id'') (default (at item ''name'') (at item ''model''))) of
         JStr s \<Rightarrow> if s = [] then None else Some s | _ \<Rightarrow> None) (discoveryItems v keys))"

section \<open>Messages with images\<close>

definition image_bytes :: "string \<Rightarrow> nat" where
  "image_bytes url = (case image_body url of None \<Rightarrow> 0 | Some b \<Rightarrow> estimated_bytes b)"

lemma session_images_bounds:
  "session_images as bytes = Some urls \<Longrightarrow> bytes \<le> MAX_IMAGES_BYTES \<Longrightarrow>
   length urls = length as \<and> bytes + sum_list (map image_bytes urls) \<le> MAX_IMAGES_BYTES \<and> list_all (\<lambda>u. image_body u \<noteq> None) urls"
proof (induction as arbitrary: bytes urls)
  case (Cons a as)
  then obtain b us where us: "image_body (data_url a) = Some b" "urls = data_url a # us"
    "session_images as (bytes + estimated_bytes b) = Some us" "bytes + estimated_bytes b \<le> MAX_IMAGES_BYTES"
    by (auto split: option.splits if_splits)
  show ?case using Cons.IH [OF us(3,4)] us(1,2) by (simp add: image_bytes_def add.assoc)
qed simp

text \<open>
  A message with images that reaches a runtime is bounded: at most five images, each a data URL of a known type, which
  decode to at most eight megabytes together, and a text of at most 20000 characters.
\<close>

theorem image_messages_are_bounded:
  assumes "sessionMessage body = JArr parts"
  shows "\<exists>message urls. parts = (if message = [] then [] else [JObj [(''type'', JStr ''text''), (''text'', JStr message)]]) @ map image_json urls
    \<and> length message \<le> 20000 \<and> length urls \<in> {1..5} \<and> list_all (\<lambda>u. image_body u \<noteq> None) urls
    \<and> sum_list (map image_bytes urls) \<le> MAX_IMAGES_BYTES"
proof -
  define as where "as = (case at body ''attachments'' of JArr vs \<Rightarrow> take 5 vs | _ \<Rightarrow> [])"
  define message where "message = (case at body ''message'' of JStr s \<Rightarrow> trim s | _ \<Rightarrow> [])"
  have five: "length as \<le> 5" by (auto simp: as_def split: json.splits)
  obtain urls where urls: "session_images as 0 = Some urls" "urls \<noteq> []" "length message \<le> 20000"
    "parts = (if message = [] then [] else [JObj [(''type'', JStr ''text''), (''text'', JStr message)]]) @ map image_json urls"
    using assms unfolding sessionMessage_def Let_def as_def [symmetric] message_def [symmetric]
    by (cases "session_images as 0") (auto split: if_splits list.splits)
  show ?thesis using session_images_bounds [OF urls(1)] urls five by (intro exI [of _ message] exI [of _ urls]) (cases urls; simp)
qed

theorem image_messages_are_bounded_witness:
  "\<exists>message urls. [image_json ''data:image/png;base64,AAAA''] =
      (if message = [] then [] else [JObj [(''type'', JStr ''text''), (''text'', JStr message)]]) @ map image_json urls
    \<and> length message \<le> 20000 \<and> length urls \<in> {1..5} \<and> list_all (\<lambda>u. image_body u \<noteq> None) urls
    \<and> sum_list (map image_bytes urls) \<le> MAX_IMAGES_BYTES"
proof (rule image_messages_are_bounded)
  have body: "image_body ''data:image/png;base64,AAAA'' = Some ''AAAA''" "trim ''data:image/png;base64,AAAA'' = ''data:image/png;base64,AAAA''" by code_simp+
  show "sessionMessage (JObj [(''attachments'', JArr [JObj [(''data_url'', JStr ''data:image/png;base64,AAAA'')]])])
      = JArr [image_json ''data:image/png;base64,AAAA'']"
    by (simp add: sessionMessage_def at_def prop_of_def data_url_def body estimated_bytes_def MAX_IMAGE_BYTES_def MAX_IMAGES_BYTES_def)
qed

end
