(* ===== verification/Web_Operations.thy ===== *)
theory Web_Operations
  imports Public_Surface Supervisor
begin

text \<open>
  What the web application accepts and what the supervisor on the agent's server accepts: the arguments of an
  administrator's operation and the owner's configuration pass both, where the two check the same things.
\<close>

section \<open>Administrative operations\<close>

lemma named_identifier: "named_value v \<Longrightarrow> \<exists>s. v = JStr s \<and> identifier_of name v = Inr s"
  by (auto simp: named_value_def identifier_of_def split: json.splits)

lemma when_named_field:
  assumes "when_named body ks args \<noteq> JNull"
  shows "when_named body ks args = JObj args" "k \<in> set ks \<Longrightarrow> named_value (at body k)"
  using assms by (auto simp: when_named_def list_all_iff split: if_splits)

lemma when_one_of_field:
  assumes "when_one_of ws v args \<noteq> JNull"
  shows "when_one_of ws v args = JObj args" "is_one_of ws v"
  using assms by (auto simp: when_one_of_def split: if_splits)

lemma probe_suites:
  assumes "probe_arguments fresh body \<noteq> JNull" and "at c ''arguments'' = probe_arguments fresh body"
  shows "\<exists>vs. suites_of c ''probe'' = Inr vs"
proof -
  obtain vs where vs: "vs = filter (is_one_of [''runtime.health'', ''hermes.health'']) (case at body ''probeIds'' of JArr vs \<Rightarrow> uniq vs | _ \<Rightarrow> [])"
    and args: "probe_arguments fresh body = JObj [(''probe_ids'', JArr vs), (''test_run_id'', JStr fresh)]" "vs \<noteq> []"
    using assms(1) unfolding probe_arguments_def
    by (cases "filter (is_one_of [''runtime.health'', ''hermes.health'']) (case at body ''probeIds'' of JArr vs \<Rightarrow> uniq vs | _ \<Rightarrow> [])") auto
  have "list_all (is_one_of (TEST_SUITES ''probe'')) vs" unfolding vs by (auto simp: list_all_iff TEST_SUITES_def)
  then show ?thesis using args assms(2) by (simp add: suites_of_def at_def prop_of_def)
qed

definition accepted :: "failure + 'a \<Rightarrow> bool" where
  "accepted r \<longleftrightarrow> (case r of Inl _ \<Rightarrow> False | Inr _ \<Rightarrow> True)"

lemma named_accepted: "named_value v \<Longrightarrow> accepted (identifier_of k v)"
  by (auto simp: accepted_def dest: named_identifier [of _ k])

lemma one_of_accepted: "is_one_of ws v \<Longrightarrow> list_all (matches NAME_PATTERN) ws \<Longrightarrow> accepted (identifier_of k v)"
  by (auto simp: accepted_def is_one_of_def identifier_of_def list_all_iff split: json.splits)

lemma suite_accepted:
  assumes "at (at c ''arguments'') ''suite_id'' = v" and "is_one_of (TEST_SUITES t) v" and "t \<noteq> ''probe''"
  shows "accepted (suites_of c t)"
  using assms by (simp add: accepted_def suites_of_def)

text \<open>The checks the supervisor makes on the arguments of a command before it acts.\<close>

definition understood :: "string \<Rightarrow> json \<Rightarrow> bool" where
  "understood action c \<longleftrightarrow>
     (let named = (\<lambda>k. accepted (identifier_of k (at (at c ''arguments'') k))); suite = (\<lambda>t. accepted (suites_of c t)) in
      if action = ''probe.run'' then suite ''probe'' else if action = ''contract.test'' then suite ''contract''
      else if action = ''smoke.test'' then suite ''smoke'' else if action = ''upstream.check'' then named ''upstream_id''
      else if action \<in> {''config.stage'', ''config.apply''} then named ''config_revision_id''
      else if action \<in> {''backup.create'', ''backup.verify''} then named ''backup_id''
      else if action = ''backup.restore'' then named ''backup_id'' \<and> named ''restore_id''
      else if action \<in> {''release.stage'', ''release.apply''} then named ''release_id''
      else if action = ''release.rollback'' then named ''rollback_release_id''
      else if action = ''service.restart'' then named ''service_id''
      else if action = ''credential.revoke'' then named ''identity_id'' else True)"

text \<open>
  What an administrator can request the supervisor can take: when the endpoint builds the arguments of an operation,
  the command that carries them passes every check the supervisor makes on the arguments of that action.
\<close>

theorem requested_operations_are_understood:
  assumes "controlOperationArguments fresh action body \<noteq> JNull"
    and "at c ''arguments'' = controlOperationArguments fresh action body"
    and "matches NAME_PATTERN fresh"
  shows "understood action c"
proof -
  let ?all = "[''snapshot.collect'', ''probe.run'', ''contract.test'', ''smoke.test'', ''upstream.check'', ''config.stage'', ''config.apply'',
    ''backup.create'', ''backup.verify'', ''backup.restore'', ''release.stage'', ''release.apply'', ''release.rollback'',
    ''service.restart'', ''credential.revoke'']"
  have known: "action \<in> set ?all"
  proof (rule ccontr)
    assume "action \<notin> set ?all"
    then have "controlOperationArguments fresh action body = JNull" by (simp add: controlOperationArguments_def Let_def)
    with assms(1) show False by contradiction
  qed
  have pick: "at (JObj ((k, v) # kvs)) k = v" "k \<noteq> k' \<Longrightarrow> at (JObj ((k', v) # kvs)) k = at (JObj kvs) k" for k k' v kvs
    by (simp_all add: at_def prop_of_def)
  have fresh: "accepted (identifier_of k (JStr fresh))" for k using assms(3) by (simp add: accepted_def identifier_of_def)
  have words: "is_one_of [''hermes'', ''bairui-runtime''] v \<Longrightarrow> accepted (identifier_of k v)"
    "is_one_of [''hermes'', ''runtime-boundary''] v \<Longrightarrow> accepted (identifier_of k v)" for k v
    by (erule one_of_accepted, code_simp)+
  note facts = controlOperationArguments_def understood_def Let_def when_named_def when_one_of_def pick named_accepted fresh words
  from known assms(1,2) show ?thesis
    unfolding list.set
    apply (elim insertE emptyE)
    apply (simp_all add: facts split: if_splits)
    subgoal using probe_suites [of fresh body c] by (auto simp: accepted_def)
    subgoal by (rule suite_accepted [OF refl]) (simp_all add: pick TEST_SUITES_def)
    subgoal by (rule suite_accepted [OF refl]) (simp_all add: pick TEST_SUITES_def)
    done
qed

theorem requested_operations_are_understood_witness:
  "understood ''backup.restore'' (JObj [(''arguments'', JObj [(''backup_id'', JStr ''b1''), (''restore_id'', JStr ''u1'')])])"
proof -
  have args: "controlOperationArguments ''u1'' ''backup.restore'' (JObj [(''backupId'', JStr ''b1'')])
      = JObj [(''backup_id'', JStr ''b1''), (''restore_id'', JStr ''u1'')]" by code_simp
  show ?thesis
  proof (rule requested_operations_are_understood)
    show "controlOperationArguments ''u1'' ''backup.restore'' (JObj [(''backupId'', JStr ''b1'')]) \<noteq> JNull" unfolding args by simp
    show "matches NAME_PATTERN ''u1''" by code_simp
  qed (simp add: args at_def prop_of_def)
qed

section \<open>Owner configurations\<close>

text \<open>
  A skill change the web application accepts is one the supervisor applies, up to the supervisor's limit of 500 skills:
  exactly the skills of the document are disabled.
\<close>

theorem accepted_skill_changes_are_applied:
  assumes "validateOwnerConfigurationDocument doc (Some ''skills'') True = Inr d"
    and "at (at doc ''skills'') ''disabled'' = JArr vs" and "length vs \<le> 500"
  shows "\<exists>ids. disabledSkills doc True = Inr ids \<and> JStr ` set ids = set vs"
proof -
  have valid: "is_object doc" "change_fits (at doc ''owner_change'') (Some ''skills'')" "skills_fit (at doc ''skills'')"
    using assms(1,2) by (auto simp: validateOwnerConfigurationDocument_def Let_def object_of_def absent_or_def at_def prop_of_def split: if_splits)
  have change: "ownerChange doc ''skills'' = Inr (at doc ''owner_change'')"
    using valid(1,2) by (auto simp: ownerChange_def change_fits_def object_of_def Let_def split: json.splits jnum.splits)
  have skills: "only_keys [''disabled''] (at doc ''skills'')" "list_all skill_name vs" "is_object (at doc ''skills'')"
    using valid(3) assms(2) by (auto simp: skills_fit_def object_of_def)
  then have "default (at doc ''skills'') x = at doc ''skills''" for x
    by (auto simp: default_def nullish_def is_object_def split: json.splits)
  moreover have "list_all skill_name (uniq vs)" using skills(2) by (simp add: list_all_iff)
  moreover have "JStr ` set (map (\<lambda>v. case v of JStr s \<Rightarrow> s | _ \<Rightarrow> []) vs) = set vs"
    using skills(2) by (force simp: list_all_iff skill_name_def image_iff split: json.splits)
  ultimately show ?thesis
    using valid(1) change skills(1) assms(2,3) by (simp add: disabledSkills_def Let_def)
qed

theorem accepted_skill_changes_are_applied_witness:
  "\<exists>ids. disabledSkills (at (at still_change ''config'') ''document'') True = Inr ids \<and> JStr ` set ids = {JStr ''s1''}"
proof -
  let ?doc = "at (at still_change ''config'') ''document''"
  have doc: "validateOwnerConfigurationDocument ?doc (Some ''skills'') True = Inr ?doc"
    "at (at ?doc ''skills'') ''disabled'' = JArr [JStr ''s1'']" by code_simp+
  from accepted_skill_changes_are_applied [OF doc] show ?thesis by simp
qed

text \<open>A name with a line break passes the web application and not the supervisor.\<close>

lemma accepted_identity_is_refused:
  "validateOwnerConfigurationDocument (JObj [(''agent'', JObj [(''id'', JStr ''a1''), (''name'', JStr (''A'' @ [LF] @ ''B'')), (''soul_markdown'', JStr [])]),
     (''owner_change'', JObj [(''scope'', JStr ''identity''), (''generation'', JNum (Integer 1))])]) (Some ''identity'') True \<noteq> Inl bad_owner_document"
  "identityDocument (JObj [(''agent'', JObj [(''id'', JStr ''a1''), (''name'', JStr (''A'' @ [LF] @ ''B'')), (''soul_markdown'', JStr [])]),
     (''owner_change'', JObj [(''scope'', JStr ''identity''), (''generation'', JNum (Integer 1))])]) ''a1'' = Inl bad_scope"
  by code_simp+

end
