(* ===== verification/Agent_Readiness.thy ===== *)
theory Agent_Readiness
  imports Js_Number Control_Service
begin

text \<open>
  Whether an agent can be used, in \<open>apps/web/app.mjs\<close>: the models its organization gives it, what it has used of its
  quota, and the one state its owner sees. The records of the repository are JSON values; the start of the day and of the
  month, which depend on the server's time zone, are parameters; the usage records carry numbers, \<open>null\<close> or nothing, and
  sums are exact: a sum with a number that is missing is not a number.
\<close>

section \<open>Models\<close>

record model_access =
  ma_configured :: bool
  ma_allowed :: "json list"
  ma_default :: json
  ma_userKeys :: bool
  ma_dailyLimit :: json
  ma_monthlyBudget :: json

definition usable_channels :: "json list \<Rightarrow> json list" where
  "usable_channels channels =
     filter (\<lambda>c. truthy (prop_at c ''enabled'') \<and> truthy (prop_at c ''apiKeyEnvelope'')
                \<and> \<not> is_one_of [''failed'', ''disabled''] (prop_at c ''status'')) channels"

definition modelAccess :: "json \<Rightarrow> json \<Rightarrow> json list \<Rightarrow> model_access" where
  "modelAccess policy legacy channels =
     (let usable = usable_channels channels;
          fallback = uniq (filter truthy
            ((if truthy (prop_at legacy ''apiKeyEnvelope'') then prop_at legacy ''model'' else JNull) # map (\<lambda>c. prop_at c ''model'') usable));
          allowed = (case prop_at policy ''allowedModels'' of JArr (m # ms) \<Rightarrow> m # ms | _ \<Rightarrow> fallback);
          chosen = filter (\<lambda>m. truthy m \<and> m \<in> set allowed) [prop_at policy ''defaultModel'', prop_at legacy ''model'']
      in \<lparr>ma_configured = (truthy (prop_at legacy ''apiKeyEnvelope'') \<or> usable \<noteq> []), ma_allowed = allowed,
          ma_default = (case chosen @ allowed of [] \<Rightarrow> JNull | m # _ \<Rightarrow> default m JNull),
          ma_userKeys = (prop_at policy ''userCustomKeysAllowed'' \<noteq> JBool False),
          ma_dailyLimit = default (prop_at policy ''dailyTokenLimit'') JNull,
          ma_monthlyBudget = default (prop_at policy ''monthlyBudgetUsd'') JNull\<rparr>)"

definition own_provider :: "json list \<Rightarrow> json option" where
  "own_provider authorizations =
     find (\<lambda>a. prop_at a ''service'' = JStr ''model-provider'' \<and> prop_at a ''status'' = JStr ''stored'' \<and> truthy (prop_at a ''credentialEnvelope'')
              \<and> truthy (prop_at a ''endpointUrl'') \<and> truthy (prop_at (prop_at a ''metadata'') ''model'')) authorizations"

text \<open>The models in effect: those of the owner's own provider, when the policy allows one, or those of the organization.\<close>

definition effective_models :: "model_access \<Rightarrow> json list \<Rightarrow> model_access" where
  "effective_models m authorizations =
     (case (if ma_userKeys m then own_provider authorizations else None) of
        Some a \<Rightarrow> m\<lparr>ma_configured := True, ma_default := prop_at (prop_at a ''metadata'') ''model''\<rparr>
      | None \<Rightarrow> m)"

section \<open>The state of an agent\<close>

record readiness_input =
  ri_now :: instant
  ri_dayStart :: instant
  ri_monthStart :: instant
  ri_dates :: dates
  ri_staleAfter :: int
  ri_agent :: json
  ri_runtime :: json
  ri_models :: model_access
  ri_rollups :: "json list"
  ri_commands :: "json list"
  ri_authorizations :: "json list"

definition amount :: "json \<Rightarrow> string \<Rightarrow> rat option" where
  "amount v k = number_of (prop_at v k)"

text \<open>Addition, where no value stands for \<open>NaN\<close>.\<close>

definition plus_number :: "rat option \<Rightarrow> rat option \<Rightarrow> rat option" where
  "plus_number x y = (case (x, y) of (Some a, Some b) \<Rightarrow> Some (a + b) | _ \<Rightarrow> None)"

definition since :: "dates \<Rightarrow> instant \<Rightarrow> json list \<Rightarrow> json list" where
  "since dt start rollups = filter (\<lambda>r. case instant_of dt (prop_at r ''bucketStart'') of Some t \<Rightarrow> start \<le> t | None \<Rightarrow> False) rollups"

definition daily_tokens :: "readiness_input \<Rightarrow> rat option" where
  "daily_tokens x =
     fold (\<lambda>r s. plus_number (plus_number s (amount r ''inputTokens'')) (amount r ''outputTokens''))
       (since (ri_dates x) (ri_dayStart x) (ri_rollups x)) (Some 0)"

definition monthly_cost :: "readiness_input \<Rightarrow> rat option" where
  "monthly_cost x =
     fold (\<lambda>r s. plus_number s (amount r ''estimatedCostUsd'')) (since (ri_dates x) (ri_monthStart x) (ri_rollups x)) (Some 0)"

text \<open>A limit that is absent is \<open>null\<close> and none; no comparison with \<open>NaN\<close> holds.\<close>

definition reached :: "rat option \<Rightarrow> json \<Rightarrow> bool" where
  "reached used limit \<longleftrightarrow> limit \<noteq> JNull \<and> (case (used, number_of limit) of (Some u, Some l) \<Rightarrow> l \<le> u | _ \<Rightarrow> False)"

definition quota_exhausted :: "readiness_input \<Rightarrow> bool" where
  "quota_exhausted x \<longleftrightarrow>
     reached (daily_tokens x) (ma_dailyLimit (ri_models x)) \<or> reached (monthly_cost x) (ma_monthlyBudget (ri_models x))"

definition runtime_offline :: "readiness_input \<Rightarrow> bool" where
  "runtime_offline x \<longleftrightarrow>
     prop_at (ri_agent x) ''desiredRuntimeState'' = JStr ''running''
     \<and> is_one_of [''ready'', ''degraded'', ''starting''] (prop_at (ri_runtime x) ''status'')
     \<and> (\<not> truthy (prop_at (ri_runtime x) ''lastHeartbeatAt'')
        \<or> (case instant_of (ri_dates x) (prop_at (ri_runtime x) ''lastHeartbeatAt'') of
             Some t \<Rightarrow> ri_staleAfter x < ri_now x - t | None \<Rightarrow> False))"

definition is_active_change :: "json \<Rightarrow> json \<Rightarrow> bool" where
  "is_active_change agent c \<longleftrightarrow>
     prop_at c ''agentId'' = prop_at agent ''id''
     \<and> is_one_of [''config.apply'', ''config.apply-user'', ''backup.restore'', ''release.stage'', ''release.apply'', ''release.rollback''] (prop_at c ''action'')
     \<and> is_one_of [''queued'', ''leased'', ''accepted'', ''running''] (prop_at c ''state'')"

definition active_change :: "readiness_input \<Rightarrow> json option" where
  "active_change x = find (is_active_change (ri_agent x)) (ri_commands x)"

definition operational_code :: "readiness_input \<Rightarrow> json" where
  "operational_code x =
     (let agent = ri_agent x; rt = ri_runtime x; status = prop_at rt ''status''; m = effective_models (ri_models x) (ri_authorizations x) in
      if is_one_of [''deleted'', ''deleting''] (prop_at agent ''status'') \<or> is_one_of [''deleted'', ''deleting''] status
      then default status (prop_at agent ''status'')
      else if \<not> truthy rt \<or> status = JStr ''uninitialized'' \<or> prop_at agent ''initializationStatus'' = JStr ''uninitialized''
      then JStr ''uninitialized''
      else if is_one_of [''provisioning'', ''starting''] status \<or> prop_at agent ''initializationStatus'' = JStr ''provisioning''
      then JStr ''initializing''
      else if active_change x \<noteq> None then JStr ''upgrading''
      else if is_one_of [''failed'', ''suspended'', ''stopped''] status then status
      else if runtime_offline x then JStr ''offline''
      else if \<not> ma_configured m \<or> \<not> truthy (ma_default m) then JStr ''model_unconfigured''
      else if quota_exhausted x then JStr ''quota_exhausted''
      else if status = JStr ''degraded'' then JStr ''degraded''
      else JStr ''ready'')"

definition effective_status :: "readiness_input \<Rightarrow> json" where
  "effective_status x = (if runtime_offline x then JStr ''offline'' else prop_at (ri_runtime x) ''status'')"

definition requireOperationalAgent :: "readiness_input \<Rightarrow> failure + json" where
  "requireOperationalAgent x =
     (let code = operational_code x in
      if code = JStr ''quota_exhausted'' then Inl (CodedError ''quota_exhausted'' (Some 429))
      else if code = JStr ''model_unconfigured'' then Inl (CodedError ''model_not_configured'' (Some 409))
      else if code = JStr ''offline'' then Inl (CodedError ''runtime_offline'' (Some 503))
      else if \<not> is_one_of [''ready'', ''degraded''] code then Inl (CodedError ''agent_not_ready'' (Some 409))
      else Inr code)"

section \<open>Numbers of a request and of the usage\<close>

definition boundedInteger :: "json \<Rightarrow> int \<Rightarrow> int \<Rightarrow> int option" where
  "boundedInteger v minimum maximum =
     (case number_of v of None \<Rightarrow> None
      | Some x \<Rightarrow> if x = of_int \<lfloor>x\<rfloor> \<and> \<bar>\<lfloor>x\<rfloor>\<bar> \<le> MAX_SAFE_INTEGER \<and> minimum \<le> \<lfloor>x\<rfloor> \<and> \<lfloor>x\<rfloor> \<le> maximum then Some \<lfloor>x\<rfloor> else None)"

record usage_summary =
  us_inputTokens :: "rat option"
  us_outputTokens :: "rat option"
  us_estimatedCostUsd :: "rat option"
  us_runCount :: "rat option"
  us_failedRunCount :: "rat option"
  us_latencySumMs :: "rat option"

definition usageSummary :: "json list \<Rightarrow> usage_summary" where
  "usageSummary rollups =
     fold (\<lambda>r u. \<lparr>us_inputTokens = plus_number (us_inputTokens u) (amount r ''inputTokens''),
        us_outputTokens = plus_number (us_outputTokens u) (amount r ''outputTokens''),
        us_estimatedCostUsd = plus_number (us_estimatedCostUsd u) (amount r ''estimatedCostUsd''),
        us_runCount = plus_number (us_runCount u) (amount r ''runCount''),
        us_failedRunCount = plus_number (us_failedRunCount u) (amount r ''failedRunCount''),
        us_latencySumMs = plus_number (us_latencySumMs u) (amount r ''latencySumMs'')\<rparr>)
       rollups
       \<lparr>us_inputTokens = Some 0, us_outputTokens = Some 0, us_estimatedCostUsd = Some 0, us_runCount = Some 0, us_failedRunCount = Some 0,
        us_latencySumMs = Some 0\<rparr>"

section \<open>Usable agents\<close>

lemma operational_of_present:
  assumes "requireOperationalAgent x = Inr code" and "\<not> is_one_of [''deleted'', ''deleting''] (prop_at (ri_agent x) ''status'')"
  shows "truthy (ri_runtime x) \<and> \<not> runtime_offline x
    \<and> \<not> is_one_of [''deleted'', ''deleting'', ''uninitialized'', ''provisioning'', ''starting'', ''failed'', ''suspended'', ''stopped'']
          (prop_at (ri_runtime x) ''status'')
    \<and> filter (is_active_change (ri_agent x)) (ri_commands x) = []
    \<and> truthy (ma_default (effective_models (ri_models x) (ri_authorizations x)))
    \<and> \<not> reached (daily_tokens x) (ma_dailyLimit (ri_models x)) \<and> \<not> reached (monthly_cost x) (ma_monthlyBudget (ri_models x))"
proof -
  define status where "status = prop_at (ri_runtime x) ''status''"
  have code: "operational_code x \<in> {JStr ''ready'', JStr ''degraded''}"
    using assms(1) by (auto simp: requireOperationalAgent_def Let_def is_one_of_def split: if_splits json.splits)
  have fine: "\<not> is_one_of [''deleted'', ''deleting''] status"
    using code assms(2) unfolding operational_code_def Let_def status_def [symmetric]
    by (auto simp: is_one_of_def default_def nullish_def split: json.splits if_splits)
  note step = code [unfolded operational_code_def Let_def status_def [symmetric]]
  have run: "truthy (ri_runtime x)" "status \<noteq> JStr ''uninitialized''"
    using step fine assms(2) by (auto split: if_splits)
  have settled: "\<not> is_one_of [''provisioning'', ''starting''] status" "active_change x = None"
    using step fine assms(2) run by (auto split: if_splits)
  have going: "\<not> is_one_of [''failed'', ''suspended'', ''stopped''] status"
    using step fine assms(2) run settled by (auto simp: is_one_of_def split: if_splits json.splits)
  have rest: "\<not> runtime_offline x" "truthy (ma_default (effective_models (ri_models x) (ri_authorizations x)))" "\<not> quota_exhausted x"
    using step fine assms(2) run settled going by (auto split: if_splits)
  have "\<not> is_one_of [''deleted'', ''deleting'', ''uninitialized'', ''provisioning'', ''starting'', ''failed'', ''suspended'', ''stopped''] status"
    using fine run settled(1) going by (auto simp: is_one_of_def split: json.splits)
  moreover have "filter (is_active_change (ri_agent x)) (ri_commands x) = []"
    using settled(2) by (auto simp: active_change_def find_None_iff filter_empty_conv)
  ultimately show ?thesis using run(1) rest unfolding quota_exhausted_def status_def by blast
qed

text \<open>
  C16. An agent that may be used is operational, if it is not deleted or being deleted: it has a runtime that is neither
  deleted, stopped nor out of contact, no change of it is under way, a model is configured and allowed, and neither limit
  of its organization is reached. Of an agent that is deleted or being deleted none of this is checked: it may be used
  exactly if its runtime still has the status \<open>ready\<close> or \<open>degraded\<close>.
\<close>

theorem usable_agents_are_operational:
  "if is_one_of [''deleted'', ''deleting''] (prop_at (ri_agent x) ''status'')
   then (\<exists>code. requireOperationalAgent x = Inr code) = is_one_of [''ready'', ''degraded''] (prop_at (ri_runtime x) ''status'')
   else requireOperationalAgent x = Inr code \<longrightarrow>
      truthy (ri_runtime x) \<and> \<not> runtime_offline x
      \<and> \<not> is_one_of [''deleted'', ''deleting'', ''uninitialized'', ''provisioning'', ''starting'', ''failed'', ''suspended'', ''stopped'']
            (prop_at (ri_runtime x) ''status'')
      \<and> filter (is_active_change (ri_agent x)) (ri_commands x) = []
      \<and> truthy (ma_default (effective_models (ri_models x) (ri_authorizations x)))
      \<and> \<not> reached (daily_tokens x) (ma_dailyLimit (ri_models x)) \<and> \<not> reached (monthly_cost x) (ma_monthlyBudget (ri_models x))"
proof (cases "is_one_of [''deleted'', ''deleting''] (prop_at (ri_agent x) ''status'')")
  case True
  let ?s = "prop_at (ri_runtime x) ''status''"
  have code: "operational_code x = default ?s (prop_at (ri_agent x) ''status'')" using True by (simp add: operational_code_def Let_def)
  show ?thesis
    unfolding if_P [OF True] requireOperationalAgent_def code Let_def
    using True by (cases ?s) (auto simp: is_one_of_def default_def nullish_def split: json.splits if_splits)
next
  case False
  then show ?thesis using operational_of_present by simp
qed

definition ready_agent :: readiness_input where
  "ready_agent =
     \<lparr>ri_now = 0, ri_dayStart = 0, ri_monthStart = 0, ri_dates = \<lparr>parse_date = (\<lambda>_. None), iso_date = (\<lambda>_. [])\<rparr>, ri_staleAfter = 120000,
      ri_agent = JObj [(''id'', JStr ''a1''), (''status'', JStr ''active'')], ri_runtime = JObj [(''status'', JStr ''ready'')],
      ri_models = modelAccess JNull (JObj [(''apiKeyEnvelope'', JStr ''e''), (''model'', JStr ''m'')]) [],
      ri_rollups = [], ri_commands = [], ri_authorizations = []\<rparr>"

theorem usable_agents_are_operational_witness:
  "requireOperationalAgent ready_agent = Inr (JStr ''ready'') \<and> truthy (ma_default (effective_models (ri_models ready_agent) (ri_authorizations ready_agent)))"
proof -
  have run: "requireOperationalAgent ready_agent = Inr (JStr ''ready'')" by code_simp
  have "\<not> is_one_of [''deleted'', ''deleting''] (prop_at (ri_agent ready_agent) ''status'')" by code_simp
  with usable_agents_are_operational [of ready_agent "JStr ''ready''"] run show ?thesis by simp
qed

text \<open>An agent that was deleted takes the status of its runtime, so it counts as ready while that is ready.\<close>

lemma deleted_agent_counts_as_ready:
  "requireOperationalAgent (ready_agent\<lparr>ri_agent := JObj [(''id'', JStr ''a1''), (''status'', JStr ''deleted'')]\<rparr>) = Inr (JStr ''ready'')"
  by code_simp

end
