(* ===== verification/Character_Card.thy ===== *)
theory Character_Card
  imports Js_Search Supervisor_Config
begin

text \<open>
  Importing a character card, \<open>packages/character-card/tavern-card.mjs\<close>: reading it from JSON or from the text chunks of
  a PNG, bounding its fields, and composing the agent's document, the notes of the card and those of its lore book.
  The PNG libraries, \<open>JSON\<close>, the digest, the UTF-8 decoder and \<open>String\<close> of a value that is neither a text nor an
  integer are parameters.
\<close>

section \<open>Bounded fields\<close>

record card_env =
  ca_parse :: "string \<Rightarrow> json option"
  ca_stringify :: "json \<Rightarrow> string"
  ca_show :: "json \<Rightarrow> string"
  ca_sha :: "string \<Rightarrow> string"
  ca_utf8_length :: "string \<Rightarrow> nat"
  ca_utf8 :: "bytes \<Rightarrow> string"
  ca_chunks :: "bytes \<Rightarrow> (string \<times> bytes) list option"
  ca_chunk_text :: "bytes \<Rightarrow> (string \<times> string) option"

definition MAX_CARD_BYTES :: nat where
  "MAX_CARD_BYTES = 8 * 1024 * 1024"

definition MAX_SOUL_CHARS :: nat where
  "MAX_SOUL_CHARS = 50000"

definition shown_text :: "card_env \<Rightarrow> json \<Rightarrow> string" where
  "shown_text e v = (case v of JNull \<Rightarrow> [] | JUndefined \<Rightarrow> [] | JStr s \<Rightarrow> s | JNum (Integer i) \<Rightarrow> show_int i | _ \<Rightarrow> ca_show e v)"

definition kept_char :: "char \<Rightarrow> bool" where
  "kept_char c \<longleftrightarrow> \<not> (code_of c \<le> 8 \<or> code_of c \<in> {11, 12} \<or> 14 \<le> code_of c \<and> code_of c \<le> 31 \<or> code_of c = 127)"

definition boundedText :: "card_env \<Rightarrow> json \<Rightarrow> nat \<Rightarrow> string" where
  "boundedText e v maximum = take maximum (trim (filter kept_char (unix_text (shown_text e v))))"

definition is_text :: "json \<Rightarrow> bool" where
  "is_text v \<longleftrightarrow> (case v of JStr _ \<Rightarrow> True | _ \<Rightarrow> False)"

definition elements_of :: "json \<Rightarrow> json list" where
  "elements_of v = (case v of JArr vs \<Rightarrow> vs | _ \<Rightarrow> [])"

definition stringList :: "card_env \<Rightarrow> json \<Rightarrow> nat \<Rightarrow> nat \<Rightarrow> string list" where
  "stringList e v maximumItems maximumChars =
     take maximumItems (uniq (filter (\<lambda>t. t \<noteq> []) (map (\<lambda>x. boundedText e x maximumChars) (filter is_text (elements_of v)))))"

section \<open>Reading the card\<close>

definition invalid_card :: failure where
  "invalid_card = CodedError ''invalid_character_card'' None"

definition PNG_SIGNATURE :: bytes where
  "PNG_SIGNATURE = [137, 80, 78, 71, 13, 10, 26, 10]"

text \<open>All text chunks are decoded before one is looked for, so one that cannot be decoded fails the card.\<close>

fun all_texts :: "card_env \<Rightarrow> bytes list \<Rightarrow> (string \<times> string) list option" where
  "all_texts e [] = Some []"
| "all_texts e (d # ds) =
     (case ca_chunk_text e d of None \<Rightarrow> None
      | Some kt \<Rightarrow> (case all_texts e ds of None \<Rightarrow> None | Some kts \<Rightarrow> Some (kt # kts)))"

definition text_chunks :: "card_env \<Rightarrow> bytes \<Rightarrow> (string \<times> string) list option" where
  "text_chunks e bs = Option.bind (ca_chunks e bs) (\<lambda>cs. all_texts e (map snd (filter (\<lambda>(name, _). name = ''tEXt'') cs)))"

definition chunk_named :: "string \<Rightarrow> (string \<times> string) list \<Rightarrow> string option" where
  "chunk_named k kts = map_option snd (find (\<lambda>(keyword, _). lower_case keyword = k) kts)"

definition parsed :: "card_env \<Rightarrow> string \<Rightarrow> failure + json" where
  "parsed e t = (case ca_parse e t of None \<Rightarrow> Inl (PlainError ''Unexpected token'') | Some v \<Rightarrow> Inr v)"

definition decodePngCard :: "card_env \<Rightarrow> json \<Rightarrow> failure + json" where
  "decodePngCard e content =
     (case content of
        JStr s \<Rightarrow>
          (let bs = from_base64url (or_else (expect_ci ''data:image/png;base64,'' s) s) in
           if s = [] \<or> bs = [] \<or> MAX_CARD_BYTES < length bs \<or> take 8 bs \<noteq> PNG_SIGNATURE then Inl invalid_card
           else case text_chunks e bs of None \<Rightarrow> Inl (PlainError ''invalid png'')
           | Some kts \<Rightarrow>
               (case or_opt (chunk_named ''ccv3'' kts) (chunk_named ''chara'' kts) of
                  None \<Rightarrow> Inl (CodedError ''character_card_metadata_missing'' None)
                | Some encoded \<Rightarrow>
                    if encoded = [] then Inl (CodedError ''character_card_metadata_missing'' None)
                    else parsed e (ca_utf8 e (from_base64url encoded))))
      | _ \<Rightarrow> Inl invalid_card)"

definition rawCard :: "card_env \<Rightarrow> json \<Rightarrow> failure + json" where
  "rawCard e input =
     (if \<not> is_object input then Inl invalid_card
      else if at input ''format'' = JStr ''png'' then decodePngCard e (at input ''content'')
      else if at input ''format'' \<noteq> JStr ''json'' then Inl (CodedError ''character_card_format_not_supported'' None)
      else case at input ''content'' of
        JStr s \<Rightarrow> if MAX_CARD_BYTES < ca_utf8_length e s then Inl (CodedError ''character_card_too_large'' None) else parsed e s
      | v \<Rightarrow> Inr v)"

section \<open>The normalized card\<close>

record lore_entry =
  le_id :: jnum
  le_name :: string
  le_keys :: "string list"
  le_secondaryKeys :: "string list"
  le_content :: string
  le_constant :: bool
  le_order :: jnum

record character_book =
  bk_name :: string
  bk_description :: string
  bk_entries :: "lore_entry list"

record character_card =
  cc_spec :: string
  cc_specVersion :: string
  cc_name :: string
  cc_description :: string
  cc_personality :: string
  cc_scenario :: string
  cc_firstMessage :: string
  cc_messageExample :: string
  cc_creatorNotes :: string
  cc_systemPrompt :: string
  cc_postHistory :: string
  cc_greetings :: "string list"
  cc_tags :: "string list"
  cc_creator :: string
  cc_version :: string
  cc_book :: "character_book option"

definition enabled_entry :: "json \<Rightarrow> bool" where
  "enabled_entry v \<longleftrightarrow> (case v of JObj _ \<Rightarrow> True | JArr _ \<Rightarrow> True | _ \<Rightarrow> False) \<and> at v ''enabled'' \<noteq> JBool False"

definition lore_entry_of :: "card_env \<Rightarrow> nat \<Rightarrow> json \<Rightarrow> lore_entry" where
  "lore_entry_of e i v =
     \<lparr>le_id = (case at v ''id'' of JNum n \<Rightarrow> if is_safe_integer n then n else Integer (int i) | _ \<Rightarrow> Integer (int i)),
      le_name = boundedText e (default (at v ''name'') (at v ''comment'')) 200,
      le_keys = stringList e (at v ''keys'') 50 200, le_secondaryKeys = stringList e (at v ''secondary_keys'') 50 200,
      le_content = boundedText e (at v ''content'') 50000, le_constant = (at v ''constant'' = JBool True),
      le_order = (case at v ''insertion_order'' of JNum n \<Rightarrow> if is_finite_num n then n else Integer (int i) | _ \<Rightarrow> Integer (int i))\<rparr>"

definition book_of :: "card_env \<Rightarrow> json \<Rightarrow> character_book" where
  "book_of e book =
     \<lparr>bk_name = boundedText e (at book ''name'') 200, bk_description = boundedText e (at book ''description'') 2000,
      bk_entries = filter (\<lambda>x. le_content x \<noteq> [])
        (map (\<lambda>(i, v). lore_entry_of e i v) (enumerate 0 (take 200 (filter enabled_entry (elements_of (at book ''entries''))))))\<rparr>"

definition card_version :: "json \<Rightarrow> int" where
  "card_version crd =
     (if at crd ''spec'' = JStr ''chara_card_v3'' then 3 else if at crd ''spec'' = JStr ''chara_card_v2'' then 2 else 1)"

definition normalizedData :: "card_env \<Rightarrow> json \<Rightarrow> failure + character_card" where
  "normalizedData e crd =
     (let version = card_version crd; source = (if 1 < version then at crd ''data'' else crd); name = boundedText e (at source ''name'') 64 in
      if \<not> is_object crd \<or> \<not> is_object source \<or> name = [] then Inl invalid_card
      else Inr
        \<lparr>cc_spec = (if version = 3 then ''chara_card_v3'' else if version = 2 then ''chara_card_v2'' else ''tavern_card_v1''),
         cc_specVersion = boundedText e (default (at crd ''spec_version'') (JNum (Integer version))) 20,
         cc_name = name,
         cc_description = boundedText e (at source ''description'') 12000,
         cc_personality = boundedText e (at source ''personality'') 12000,
         cc_scenario = boundedText e (at source ''scenario'') 12000,
         cc_firstMessage = boundedText e (at source ''first_mes'') 20000,
         cc_messageExample = boundedText e (at source ''mes_example'') 30000,
         cc_creatorNotes = boundedText e (default (at source ''creator_notes'') (at source ''creatorcomment'')) 12000,
         cc_systemPrompt = boundedText e (at source ''system_prompt'') 20000,
         cc_postHistory = boundedText e (at source ''post_history_instructions'') 12000,
         cc_greetings = stringList e (at source ''alternate_greetings'') 20 20000,
         cc_tags = stringList e (at source ''tags'') 50 100,
         cc_creator = boundedText e (at source ''creator'') 200,
         cc_version = boundedText e (at source ''character_version'') 100,
         cc_book = (if is_object (at source ''character_book'') then Some (book_of e (at source ''character_book'')) else None)\<rparr>)"

section \<open>The documents\<close>

text \<open>
  \<open>replaceAll(w, r)\<close> with texts: in \<open>r\<close>, two dollar signs stand for one, \<open>$&\<close> for the match, \<open>$`\<close> for what is before
  it in the text and \<open>$'\<close> for what is after it.
\<close>

fun expanded :: "string \<Rightarrow> string \<Rightarrow> string \<Rightarrow> string \<Rightarrow> string" where
  "expanded before w after [] = []"
| "expanded before w after [c] = [c]"
| "expanded before w after (c # d # r) =
     (if c = CHR ''$'' \<and> d = CHR ''$'' then CHR ''$'' # expanded before w after r
      else if c = CHR ''$'' \<and> d = CHR ''&'' then w @ expanded before w after r
      else if c = CHR ''$'' \<and> d = CHR 0x60 then before @ expanded before w after r
      else if c = CHR ''$'' \<and> d = CHR 0x27 then after @ expanded before w after r
      else c # expanded before w after (d # r))"

function replaced :: "string \<Rightarrow> string \<Rightarrow> string \<Rightarrow> string \<Rightarrow> string" where
  "replaced w r before [] = []"
| "replaced w r before (c # cs) =
     (if w \<noteq> [] \<and> take (length w) (c # cs) = w
      then expanded before w (drop (length w) (c # cs)) r @ replaced w r (before @ w) (drop (length w) (c # cs))
      else c # replaced w r (before @ [c]) cs)"
  by pat_completeness auto
termination by (relation "measure (\<lambda>(w, r, before, s). length s)") auto

definition replaceMacros :: "string \<Rightarrow> string \<Rightarrow> string" where
  "replaceMacros v name = replaced ''{{user}}'' ''the user'' [] (replaced ''{{char}}'' name [] v)"

definition blank_line :: string where
  "blank_line = [LF, LF]"

definition section_text :: "string \<Rightarrow> string \<Rightarrow> string \<Rightarrow> string" where
  "section_text title v name =
     (let content = trim (replaceMacros v name) in if content = [] then [] else ''## '' @ title @ blank_line @ content)"

definition soulMarkdown :: "character_card \<Rightarrow> string" where
  "soulMarkdown crd =
     (let name = cc_name crd in
      take MAX_SOUL_CHARS (join blank_line (filter (\<lambda>t. t \<noteq> [])
        [''# Identity'' @ blank_line @ ''## Name'' @ blank_line @ name,
         section_text ''Description'' (cc_description crd) name, section_text ''Personality'' (cc_personality crd) name,
         section_text ''Scenario'' (cc_scenario crd) name, section_text ''System Guidance'' (cc_systemPrompt crd) name,
         section_text ''Conversation Guidance'' (cc_postHistory crd) name])))"

definition text_or_word :: "string \<Rightarrow> string \<Rightarrow> string" where
  "text_or_word t w = (if t = [] then w else t)"

definition source_part :: "string \<times> string \<Rightarrow> string list" where
  "source_part p = (if snd p = [] then [] else [[], ''## '' @ fst p, [], snd p])"

definition sourceMarkdown :: "character_card \<Rightarrow> string" where
  "sourceMarkdown crd =
     take 200000 (join [LF]
       ([''# Character Card Source - '' @ cc_name crd, [], ''- Spec: '' @ cc_spec crd @ '' '' @ cc_specVersion crd,
         ''- Creator: '' @ text_or_word (cc_creator crd) ''unknown'', ''- Character version: '' @ text_or_word (cc_version crd) ''unknown'',
         ''- Tags: '' @ text_or_word (join '', '' (cc_tags crd)) ''none'']
        @ concat (map source_part
            [(''First Message'', cc_firstMessage crd),
             (''Alternate Greetings'', join (blank_line @ ''---'' @ blank_line) (cc_greetings crd)),
             (''Example Dialogue'', cc_messageExample crd), (''Creator Notes'', cc_creatorNotes crd)])))"

section \<open>The import\<close>

definition lore_json :: "lore_entry \<Rightarrow> json" where
  "lore_json x =
     JObj [(''id'', JNum (le_id x)), (''name'', JStr (le_name x)), (''keys'', JArr (map JStr (le_keys x))),
       (''secondaryKeys'', JArr (map JStr (le_secondaryKeys x))), (''content'', JStr (le_content x)), (''constant'', JBool (le_constant x)),
       (''insertionOrder'', JNum (le_order x))]"

definition card_json :: "character_card \<Rightarrow> json" where
  "card_json c =
     JObj [(''spec'', JStr (cc_spec c)), (''specVersion'', JStr (cc_specVersion c)), (''name'', JStr (cc_name c)),
       (''description'', JStr (cc_description c)), (''personality'', JStr (cc_personality c)), (''scenario'', JStr (cc_scenario c)),
       (''firstMessage'', JStr (cc_firstMessage c)), (''messageExample'', JStr (cc_messageExample c)),
       (''creatorNotes'', JStr (cc_creatorNotes c)), (''systemPrompt'', JStr (cc_systemPrompt c)),
       (''postHistoryInstructions'', JStr (cc_postHistory c)), (''alternateGreetings'', JArr (map JStr (cc_greetings c))),
       (''tags'', JArr (map JStr (cc_tags c))), (''creator'', JStr (cc_creator c)), (''characterVersion'', JStr (cc_version c)),
       (''characterBook'', case cc_book c of None \<Rightarrow> JNull | Some b \<Rightarrow>
          JObj [(''name'', JStr (bk_name b)), (''description'', JStr (bk_description b)), (''entries'', JArr (map lore_json (bk_entries b)))])]"

record card_note =
  cn_title :: string
  cn_body :: string
  cn_tags :: "string list"
  cn_importance :: nat
  cn_sourceRef :: string

record imported_card =
  ic_card :: character_card
  ic_digest :: string
  ic_name :: string
  ic_description :: string
  ic_soul :: string
  ic_provenance :: json
  ic_sourceNote :: card_note
  ic_loreNotes :: "card_note list"

definition lore_note :: "character_card \<Rightarrow> string \<Rightarrow> nat \<Rightarrow> lore_entry \<Rightarrow> card_note" where
  "lore_note crd ref i x =
     \<lparr>cn_title = (if le_name x \<noteq> [] then le_name x
        else case le_keys x of k # _ \<Rightarrow> k
        | [] \<Rightarrow> text_or_word (case cc_book crd of None \<Rightarrow> [] | Some b \<Rightarrow> bk_name b) (cc_name crd) @ '' Lore '' @ show_int (int i + 1)),
      cn_body = le_content x, cn_tags = take 50 (uniq ([''character-card'', ''lore''] @ le_keys x @ le_secondaryKeys x)),
      cn_importance = (if le_constant x then 4 else 3), cn_sourceRef = ref\<rparr>"

definition imported :: "card_env \<Rightarrow> string \<Rightarrow> character_card \<Rightarrow> imported_card" where
  "imported e now crd =
     (let digest = ca_sha e (ca_stringify e (card_json crd)); ref = ''character-card:'' @ digest in
      \<lparr>ic_card = crd, ic_digest = digest, ic_name = cc_name crd, ic_description = take 500 (cc_description crd),
       ic_soul = soulMarkdown crd,
       ic_provenance = JObj [(''spec'', JStr (cc_spec crd)), (''specVersion'', JStr (cc_specVersion crd)), (''creator'', JStr (cc_creator crd)),
         (''characterVersion'', JStr (cc_version crd)), (''tags'', JArr (map JStr (cc_tags crd))), (''digest'', JStr digest), (''importedAt'', JStr now)],
       ic_sourceNote = \<lparr>cn_title = ''Character Card Source - '' @ cc_name crd, cn_body = sourceMarkdown crd,
         cn_tags = take 50 ([''character-card'', ''source''] @ cc_tags crd), cn_importance = 2, cn_sourceRef = ref\<rparr>,
       ic_loreNotes = map (\<lambda>(i, x). lore_note crd ref i x) (enumerate 0 (case cc_book crd of None \<Rightarrow> [] | Some b \<Rightarrow> bk_entries b))\<rparr>)"

text \<open>An error without a code is reported as an invalid card.\<close>

definition parseTavernCharacterCard :: "card_env \<Rightarrow> string \<Rightarrow> json \<Rightarrow> failure + imported_card" where
  "parseTavernCharacterCard e now input =
     (case (case rawCard e input of Inl err \<Rightarrow> Inl err | Inr crd \<Rightarrow> normalizedData e crd) of
        Inl err \<Rightarrow> Inl (if failure_code err = None then invalid_card else err)
      | Inr crd \<Rightarrow> Inr (imported e now crd))"

section \<open>What an imported card is\<close>

lemma kept_soul: "kept_char c \<longleftrightarrow> soul_char c"
  by (auto simp: kept_char_def soul_char_def control_char_def)

text \<open>The characters of every text: those the supervisor accepts in a document, without carriage returns.\<close>

definition document_text :: "string \<Rightarrow> bool" where
  "document_text t \<longleftrightarrow> (\<forall>c\<in>set t. soul_char c \<and> c \<noteq> CR)"

lemma document_text_simps [simp]: "document_text []" "document_text (c # t) \<longleftrightarrow> soul_char c \<and> c \<noteq> CR \<and> document_text t"
  "document_text (s @ t) \<longleftrightarrow> document_text s \<and> document_text t"
  by (auto simp: document_text_def)

lemma document_text_subset: "set s \<subseteq> set t \<Longrightarrow> document_text t \<Longrightarrow> document_text s"
  by (auto simp: document_text_def)

lemma document_text_take: "document_text t \<Longrightarrow> document_text (take n t)"
  by (rule document_text_subset [OF set_take_subset])

lemma document_text_trim: "document_text t \<Longrightarrow> document_text (trim t)"
  by (rule document_text_subset [OF set_trim])

lemma unix_text_no_return: "CR \<notin> set (unix_text t)"
  by (auto simp: unix_text_def)

lemma boundedText_plain: "document_text (boundedText e v n)"
  unfolding boundedText_def
  by (intro document_text_take document_text_trim) (use unix_text_no_return in \<open>auto simp: document_text_def kept_soul\<close>)

lemma boundedText_length: "length (boundedText e v n) \<le> n"
  by (simp add: boundedText_def)

lemma trim_starts: "trim t \<noteq> [] \<Longrightarrow> \<not> is_space (hd (trim t))"
proof -
  assume "trim t \<noteq> []"
  let ?u = "dropWhile is_space t"
  have u: "?u \<noteq> []" using \<open>trim t \<noteq> []\<close> unfolding trim_def by (metis dropWhile.simps(1) rev.simps(1))
  then have h: "\<not> is_space (hd ?u)" by (simp add: hd_dropWhile)
  have "prefix (trim t) ?u" unfolding trim_def
    by (metis suffix_to_prefix suffix_dropWhile rev_rev_ident)
  then have "hd (trim t) = hd ?u" using \<open>trim t \<noteq> []\<close> by (metis prefix_def hd_append2)
  then show ?thesis using h by simp
qed

lemma trim_not_empty:
  assumes "c \<in> set t" and "\<not> is_space c"
  shows "trim t \<noteq> []"
proof -
  have "dropWhile is_space t \<noteq> []" using assms unfolding dropWhile_eq_Nil_conv by blast
  then have "hd (dropWhile is_space t) \<in> set (rev (dropWhile is_space t))" "\<not> is_space (hd (dropWhile is_space t))"
    by (simp_all add: hd_dropWhile)
  then have "dropWhile is_space (rev (dropWhile is_space t)) \<noteq> []" by (metis dropWhile_eq_Nil_conv)
  then show ?thesis by (simp add: trim_def)
qed

lemma boundedText_trimmed:
  assumes "boundedText e v n \<noteq> []"
  shows "trim (boundedText e v n) \<noteq> []"
proof -
  define t where "t = trim (filter kept_char (unix_text (shown_text e v)))"
  have t: "t \<noteq> []" "0 < n" using assms by (auto simp: boundedText_def t_def)
  then have "hd t \<in> set (take n t)" by (cases t; cases n) auto
  moreover have "\<not> is_space (hd t)" using t trim_starts unfolding t_def by blast
  ultimately have "trim (take n t) \<noteq> []" by (rule trim_not_empty)
  then show ?thesis by (simp add: boundedText_def t_def)
qed

lemma expanded_plain: "document_text before \<Longrightarrow> document_text w \<Longrightarrow> document_text after \<Longrightarrow> document_text r \<Longrightarrow> document_text (expanded before w after r)"
  by (induction before w after r rule: expanded.induct) auto

lemma replaced_plain: "document_text w \<Longrightarrow> document_text r \<Longrightarrow> document_text before \<Longrightarrow> document_text s \<Longrightarrow> document_text (replaced w r before s)"
proof (induction w r before s rule: replaced.induct)
  case (2 w r before c cs)
  have "document_text (drop (length w) (c # cs))" by (rule document_text_subset [OF set_drop_subset "2.prems"(4)])
  then show ?case using 2 by (auto intro!: expanded_plain)
qed simp

lemma soul_chars [simp]: "soul_char c \<longleftrightarrow> 32 \<le> code_of c \<and> code_of c \<noteq> 127 \<or> code_of c \<in> {9, 10, 13}"
  by (auto simp: soul_char_def control_char_def)

lemma section_plain: "document_text v \<Longrightarrow> document_text name \<Longrightarrow> document_text title \<Longrightarrow> document_text (section_text title v name)"
  by (auto simp: section_text_def Let_def replaceMacros_def blank_line_def code_of_def intro!: document_text_trim replaced_plain)

lemma join_document_text: "document_text sep \<Longrightarrow> (\<And>x. x \<in> set xs \<Longrightarrow> document_text x) \<Longrightarrow> document_text (join sep xs)"
  by (induction sep xs rule: join.induct) auto

lemma soul_plain: "document_text (soulMarkdown c)" if "document_text (cc_name c)" "document_text (cc_description c)" "document_text (cc_personality c)"
  "document_text (cc_scenario c)" "document_text (cc_systemPrompt c)" "document_text (cc_postHistory c)"
  unfolding soulMarkdown_def Let_def
  by (intro document_text_take join_document_text) (use that in \<open>auto simp: blank_line_def code_of_def simp del: filter.simps intro!: section_plain\<close>)

lemma unix_text_plain: "CR \<notin> set t \<Longrightarrow> unix_text t = t"
proof -
  assume t: "CR \<notin> set t"
  then have "unix_lines t = t" by (induction t) auto
  then show ?thesis using t by (auto simp: unix_text_def intro: map_idI)
qed

lemma normalized_fields:
  assumes "normalizedData e v = Inr c"
  shows "cc_name c \<noteq> [] \<and> trim (cc_name c) \<noteq> [] \<and> length (cc_name c) \<le> 64 \<and> document_text (cc_name c) \<and> document_text (soulMarkdown c)"
  using assms boundedText_trimmed
  by (auto simp: normalizedData_def Let_def boundedText_length boundedText_plain intro!: soul_plain split: if_splits)

lemma imported_fields:
  assumes "parseTavernCharacterCard e now input = Inr x"
  shows "\<exists>v. normalizedData e v = Inr (ic_card x) \<and> x = imported e now (ic_card x)"
  using assms by (auto simp: parseTavernCharacterCard_def imported_def Let_def split: sum.splits if_splits)

text \<open>
  A card that was imported can be applied: the supervisor takes the name and the document of the card, when the
  owner's configuration carries them, as they are, for every card whose name has no control characters. The
  document it writes is the one that was composed, to the character.
\<close>

theorem imported_cards_are_applied:
  assumes "parseTavernCharacterCard e now input = Inr x"
    and "ownerChange doc ''identity'' = Inr change"
    and "at doc ''agent'' = JObj [(''id'', JStr agentId), (''name'', JStr (ic_name x)), (''soul_markdown'', JStr (ic_soul x))]"
    and "\<forall>c\<in>set (ic_name x). \<not> control_char c"
  shows "identityDocument doc agentId = Inr (trim (ic_name x), ic_soul x)"
proof -
  obtain v where v: "normalizedData e v = Inr (ic_card x)" "x = imported e now (ic_card x)"
    using imported_fields [OF assms(1)] by blast
  have parts: "ic_name x = cc_name (ic_card x)" "ic_soul x = soulMarkdown (ic_card x)"
    by (subst v(2), simp add: imported_def Let_def)+
  note fields = normalized_fields [OF v(1), folded parts]
  have "length (ic_soul x) \<le> 50000" unfolding parts soulMarkdown_def MAX_SOUL_CHARS_def Let_def by simp
  moreover have "unix_text (ic_soul x) = ic_soul x" using fields by (intro unix_text_plain) (auto simp: document_text_def)
  moreover have "\<forall>c\<in>set (ic_soul x). soul_char c" using fields by (auto simp: document_text_def simp del: soul_chars)
  ultimately show ?thesis
    using assms(2-4) fields by (auto simp: identityDocument_def Let_def is_object_def only_keys_def own_fields_def at_def prop_of_def simp del: soul_chars)
qed

section \<open>Instances\<close>

definition still_cards :: card_env where
  "still_cards =
     \<lparr>ca_parse = (\<lambda>_. None), ca_stringify = (\<lambda>_. ''{}''), ca_show = (\<lambda>_. []), ca_sha = (\<lambda>_. ''00''), ca_utf8_length = length,
      ca_utf8 = map char_of, ca_chunks = (\<lambda>_. None), ca_chunk_text = (\<lambda>_. None)\<rparr>"

definition card_input :: "string \<Rightarrow> json" where
  "card_input name = JObj [(''format'', JStr ''json''), (''content'', JObj [(''name'', JStr name), (''description'', JStr ''I am {{char}}.'')])]"

definition identity_change :: "string \<Rightarrow> string \<Rightarrow> json" where
  "identity_change name soul =
     JObj [(''agent'', JObj [(''id'', JStr ''a1''), (''name'', JStr name), (''soul_markdown'', JStr soul)]),
       (''owner_change'', JObj [(''scope'', JStr ''identity''), (''generation'', JNum (Integer 1))])]"

lemma identity_change_parts:
  "ownerChange (identity_change name soul) ''identity'' = Inr (JObj [(''scope'', JStr ''identity''), (''generation'', JNum (Integer 1))])"
  "at (identity_change name soul) ''agent'' = JObj [(''id'', JStr ''a1''), (''name'', JStr name), (''soul_markdown'', JStr soul)]"
  by (auto simp: ownerChange_def identity_change_def at_def prop_of_def is_object_def is_safe_integer_def MAX_SAFE_INTEGER_def
      only_keys_def own_fields_def Let_def)

lemma first_version_is_normalized:
  assumes "card_version v = 1" and "is_object v" and "boundedText e (at v ''name'') 64 = name" and "name \<noteq> []"
  shows "\<exists>c. normalizedData e v = Inr c \<and> cc_name c = name"
  using assms by (simp add: normalizedData_def Let_def)

theorem imported_cards_are_applied_witness:
  "\<exists>x. parseTavernCharacterCard still_cards ''now'' (card_input ''Ann'') = Inr x \<and>
     identityDocument (identity_change (ic_name x) (ic_soul x)) ''a1'' = Inr (''Ann'', ic_soul x)"
proof -
  let ?v = "JObj [(''name'', JStr ''Ann''), (''description'', JStr ''I am {{char}}.'')]"
  have "rawCard still_cards (card_input ''Ann'') = Inr ?v" by code_simp
  moreover have "\<exists>c. normalizedData still_cards ?v = Inr c \<and> cc_name c = ''Ann''"
    by (rule first_version_is_normalized) code_simp+
  ultimately obtain x where x: "parseTavernCharacterCard still_cards ''now'' (card_input ''Ann'') = Inr x" "ic_name x = ''Ann''"
    by (auto simp: parseTavernCharacterCard_def imported_def Let_def)
  have "\<forall>c\<in>set (ic_name x). \<not> control_char c" unfolding x(2) by (simp add: control_char_def code_of_def)
  from imported_cards_are_applied [OF x(1) identity_change_parts this] x show ?thesis
    by (auto simp: trim_def is_space_def code_of_def)
qed

text \<open>A line break is kept in a name, and the supervisor refuses every document with such a name.\<close>

lemma broken_names_are_refused:
  "boundedText e (JStr (''A'' @ [LF] @ ''B'')) 64 = ''A'' @ [LF] @ ''B''"
  "identityDocument (identity_change (''A'' @ [LF] @ ''B'') soul) ''a1'' = Inl bad_scope"
  subgoal by (simp add: boundedText_def shown_text_def unix_text_def kept_char_def code_of_def trim_def is_space_def)
  subgoal unfolding identityDocument_def identity_change_parts Let_def by (simp add: control_char_def code_of_def at_def prop_of_def)
  done

text \<open>A name is taken for a replacement pattern, so its dollar signs disappear or pull in other parts of the text.\<close>

lemma dollar_names_are_expanded:
  "replaceMacros ''I am {{char}}.'' ''Ca$$h'' = ''I am Ca$h.''"
  "replaceMacros ''I am {{char}}.'' (''$'' @ [CHR 0x60]) = ''I am I am .''"
  by code_simp+

end
