(* ===== verification/Display_Projection.thy ===== *)
theory Display_Projection
  imports Js_Number Js_Search Control_Service
begin

text \<open>
  The projections for the display of the user interface, \<open>packages/bailongma-ui/compatibility.mjs\<close>: the notes of an agent
  as a graph of memories, and the current items of the news sources in the four slots of the display. Records are JSON
  values; \<open>fold\<close> is \<open>toLocaleLowerCase\<close>, \<open>show\<close> is \<open>String\<close> of a value, \<open>epoch\<close> the text of the instant zero.
\<close>

section \<open>Memories\<close>

definition text_or_show :: "(json \<Rightarrow> string) \<Rightarrow> json \<Rightarrow> string" where
  "text_or_show show v = (case v of JStr s \<Rightarrow> s | _ \<Rightarrow> show v)"

definition either :: "json \<Rightarrow> json \<Rightarrow> json" where
  "either v d = (if truthy v then v else d)"

definition title_key :: "(string \<Rightarrow> string) \<Rightarrow> (json \<Rightarrow> string) \<Rightarrow> json \<Rightarrow> string" where
  "title_key locale show v = locale (trim (text_or_show show v))"

text \<open>A \<open>Map\<close> from titles to notes: the last note of a title wins.\<close>

definition ids_by_title :: "(string \<Rightarrow> string) \<Rightarrow> (json \<Rightarrow> string) \<Rightarrow> json list \<Rightarrow> (string \<times> json) list" where
  "ids_by_title locale show notes = fold (\<lambda>n m. AList.update (title_key locale show (prop_at n ''title'')) (prop_at n ''id'') m) notes []"

definition relation_to :: "string \<Rightarrow> json \<Rightarrow> json" where
  "relation_to kind i = JObj [(''target_id'', i), (''relation'', JStr kind)]"

definition list_or_empty :: "json \<Rightarrow> json list" where
  "list_or_empty v = (case v of JArr vs \<Rightarrow> vs | _ \<Rightarrow> [])"

definition linked_ids :: "(string \<Rightarrow> string) \<Rightarrow> (json \<Rightarrow> string) \<Rightarrow> (string \<times> json) list \<Rightarrow> json \<Rightarrow> json list" where
  "linked_ids locale show byTitle note =
     filter truthy (List.map_filter (\<lambda>t. map_of byTitle (title_key locale show t)) (list_or_empty (prop_at note ''wikilinks'')))"

definition importance_of :: "json \<Rightarrow> rat" where
  "importance_of v = (case number_of v of Some x \<Rightarrow> if x = 0 then 3 else x | None \<Rightarrow> 3)"

record memory_node =
  mn_id :: json
  mn_kind :: json
  mn_content :: json
  mn_detail :: json
  mn_salience :: rat
  mn_importance :: rat
  mn_created :: json
  mn_updated :: json
  mn_entities :: "string list"
  mn_concepts :: "json list"
  mn_tags :: "json list"
  mn_links :: "json list"
  mn_parent :: "string option"
  mn_source :: json

definition root_id :: "(json \<Rightarrow> string) \<Rightarrow> json \<Rightarrow> string" where
  "root_id show agent = ''agent:'' @ text_or_show show (either (prop_at agent ''id'') (JStr ''bairui''))"

definition root_node :: "(json \<Rightarrow> string) \<Rightarrow> string \<Rightarrow> json list \<Rightarrow> json \<Rightarrow> memory_node" where
  "root_node show epoch notes agent =
     (let name = either (prop_at agent ''name'') (JStr ''bairui-agent'') in
      \<lparr>mn_id = JStr (root_id show agent), mn_kind = JStr ''self'', mn_content = name, mn_detail = JStr ''Hermes Runtime memory projection'',
       mn_salience = 5, mn_importance = 1, mn_created = default (prop_at agent ''createdAt'') (JStr epoch),
       mn_updated = default (prop_at agent ''updatedAt'') (JStr epoch), mn_entities = [''agent:jarvis'', ''agent:bairui''],
       mn_concepts = map JStr [''hermes'', ''obsidian''], mn_tags = map JStr [''runtime:hermes'', ''memory:obsidian''],
       mn_links = map (\<lambda>n. relation_to ''parent_of'' (prop_at n ''id'')) (take 100 notes), mn_parent = None,
       mn_source = JStr ''bairui-memory-projection''\<rparr>)"

definition note_node :: "(string \<Rightarrow> string) \<Rightarrow> (json \<Rightarrow> string) \<Rightarrow> (string \<times> json) list \<Rightarrow> json \<Rightarrow> json \<Rightarrow> memory_node" where
  "note_node locale show byTitle agent n =
     (let tags = list_or_empty (prop_at (prop_at n ''frontmatter'') ''tags''); weight = importance_of (prop_at n ''importance'') in
      \<lparr>mn_id = prop_at n ''id'', mn_kind = either (prop_at n ''memoryKind'') (JStr ''knowledge''), mn_content = prop_at n ''title'',
       mn_detail = prop_at n ''markdown'', mn_salience = weight, mn_importance = weight / 5, mn_created = prop_at n ''createdAt'',
       mn_updated = prop_at n ''updatedAt'',
       mn_entities = [''agent:'' @ text_or_show show (either (prop_at n ''agentId'') (either (prop_at agent ''id'') (JStr ''bairui'')))],
       mn_concepts = tags,
       mn_tags = tags @ [JStr (''sync:'' @ text_or_show show (either (prop_at n ''hermesSyncStatus'') (JStr ''pending'')))],
       mn_links = map (relation_to ''related_to'') (linked_ids locale show byTitle n), mn_parent = Some (root_id show agent),
       mn_source = either (prop_at n ''sourceRef'') (JStr ''bairui-user'')\<rparr>)"

definition toBailongmaMemories :: "(string \<Rightarrow> string) \<Rightarrow> (json \<Rightarrow> string) \<Rightarrow> string \<Rightarrow> json list \<Rightarrow> json \<Rightarrow> memory_node list" where
  "toBailongmaMemories locale show epoch notes agent =
     root_node show epoch notes agent # map (note_node locale show (ids_by_title locale show notes) agent) notes"

section \<open>News in slots\<close>

definition HOTSPOT_SLOTS :: "string list" where
  "HOTSPOT_SLOTS = [''douyin'', ''xiaohongshu'', ''wechat'', ''weibo'']"

definition preferredSlot :: "(json \<Rightarrow> string) \<Rightarrow> json \<Rightarrow> string option" where
  "preferredSlot show v =
     (let s = lower_case (text_or_show show (either v (JStr []))) in
      if contains_ci ''douyin'' s then Some ''douyin''
      else if contains_ci ''xiaohongshu'' s \<or> s = ''xhs'' then Some ''xiaohongshu''
      else if contains_ci ''wechat'' s \<or> contains_ci ''weixin'' s then Some ''wechat''
      else if contains_ci ''weibo'' s then Some ''weibo''
      else None)"

definition add_source :: "json \<Rightarrow> (json \<times> json) list \<Rightarrow> (json \<times> json) list" where
  "add_source item sources =
     (let i = prop_at item ''sourceId'' in
      if i \<in> fst ` set sources then sources else sources @ [(i, either (prop_at item ''sourceName'') i)])"

definition hotspot_sources :: "json list \<Rightarrow> (json \<times> json) list" where
  "hotspot_sources items = fold add_source items []"

text \<open>First the sources that name a slot, then the others in the slots left; the assignment grows at its end.\<close>

definition assign_preferred :: "(json \<Rightarrow> string) \<Rightarrow> json \<Rightarrow> (json \<times> string) list \<Rightarrow> (json \<times> string) list" where
  "assign_preferred show i m =
     (case preferredSlot show i of
        Some slot \<Rightarrow> if slot \<in> snd ` set m then m else m @ [(i, slot)]
      | None \<Rightarrow> m)"

definition assign_free :: "json \<Rightarrow> (json \<times> string) list \<Rightarrow> (json \<times> string) list" where
  "assign_free i m =
     (if i \<in> fst ` set m then m
      else case find (\<lambda>slot. slot \<notin> snd ` set m) HOTSPOT_SLOTS of Some slot \<Rightarrow> m @ [(i, slot)] | None \<Rightarrow> m)"

definition slot_assignment :: "(json \<Rightarrow> string) \<Rightarrow> json list \<Rightarrow> (json \<times> string) list" where
  "slot_assignment show ids = fold assign_free ids (fold (assign_preferred show) ids [])"

record hotspot_item =
  hs_rank :: rat
  hs_text :: json
  hs_heat :: json
  hs_url :: json

definition hotspot_of :: "nat \<Rightarrow> json \<Rightarrow> hotspot_item" where
  "hotspot_of n item =
     \<lparr>hs_rank = (case number_of (prop_at item ''rank'') of Some x \<Rightarrow> if x = 0 then of_nat (n + 1) else x | None \<Rightarrow> of_nat (n + 1)),
      hs_text = prop_at item ''title'', hs_heat = either (prop_at item ''heat'') (either (prop_at item ''category'') (JStr [])),
      hs_url = either (prop_at item ''url'') (JStr [])\<rparr>"

definition place_item :: "(json \<times> string) list \<Rightarrow> json \<Rightarrow> (string \<times> hotspot_item list) list \<Rightarrow> (string \<times> hotspot_item list) list" where
  "place_item m item platforms =
     (case map_of m (prop_at item ''sourceId'') of None \<Rightarrow> platforms
      | Some slot \<Rightarrow> map (\<lambda>(s, hs). (s, if s = slot \<and> length hs < 10 then hs @ [hotspot_of (length hs) item] else hs)) platforms)"

record hotspots =
  hp_platforms :: "(string \<times> hotspot_item list) list"
  hp_labels :: "(string \<times> json) list"
  hp_fetchedAt :: json
  hp_stale :: bool

definition toBailongmaHotspots :: "(json \<Rightarrow> string) \<Rightarrow> json \<Rightarrow> hotspots" where
  "toBailongmaHotspots show latest =
     (let items = list_or_empty (prop_at latest ''items''); sources = hotspot_sources items; m = slot_assignment show (map fst sources);
          run = prop_at latest ''run'' in
      \<lparr>hp_platforms = fold (place_item m) items (map (\<lambda>s. (s, [])) HOTSPOT_SLOTS),
       hp_labels = List.map_filter (\<lambda>(i, name). map_option (\<lambda>slot. (slot, name)) (map_of m i)) sources,
       hp_fetchedAt = default (prop_at run ''completedAt'') JNull,
       hp_stale = (\<not> truthy run \<or> prop_at run ''status'' \<noteq> JStr ''completed'')\<rparr>)"

section \<open>The display\<close>

definition assignment_ok :: "(json \<times> string) list \<Rightarrow> bool" where
  "assignment_ok m \<longleftrightarrow> distinct (map fst m) \<and> distinct (map snd m) \<and> snd ` set m \<subseteq> set HOTSPOT_SLOTS"

lemma preferred_slots: "preferredSlot show v = Some slot \<Longrightarrow> slot \<in> set HOTSPOT_SLOTS"
  by (auto simp: preferredSlot_def HOTSPOT_SLOTS_def Let_def split: if_splits)

lemma assign_free_ok: "assignment_ok m \<Longrightarrow> assignment_ok (assign_free i m)"
  by (auto simp: assign_free_def assignment_ok_def find_Some_iff in_set_conv_nth split: option.splits)

lemma assign_preferred_ok: "assignment_ok m \<Longrightarrow> i \<notin> fst ` set m \<Longrightarrow> assignment_ok (assign_preferred show i m)"
  by (auto simp: assign_preferred_def assignment_ok_def dest: preferred_slots split: option.splits)

lemma preferred_ok:
  "assignment_ok m \<Longrightarrow> distinct ids \<Longrightarrow> fst ` set m \<inter> set ids = {} \<Longrightarrow> assignment_ok (fold (assign_preferred show) ids m)"
proof (induction ids arbitrary: m)
  case (Cons i ids)
  have "fst ` set (assign_preferred show i m) \<subseteq> insert i (fst ` set m)" by (auto simp: assign_preferred_def split: option.splits)
  then have "fst ` set (assign_preferred show i m) \<inter> set ids = {}" using Cons.prems by (auto simp: disjoint_iff)
  moreover have "assignment_ok (assign_preferred show i m)" using Cons.prems by (intro assign_preferred_ok) auto
  ultimately show ?case using Cons.prems(2) by (simp add: Cons.IH)
qed simp

lemma free_ok: "assignment_ok m \<Longrightarrow> assignment_ok (fold assign_free ids m)"
  by (induction ids arbitrary: m) (auto simp: assign_free_ok)

lemma slot_assignment_ok: "distinct ids \<Longrightarrow> assignment_ok (slot_assignment show ids)"
  unfolding slot_assignment_def by (intro free_ok preferred_ok) (simp_all add: assignment_ok_def)

lemma sources_distinct: "distinct (map fst (hotspot_sources items))"
proof -
  have "distinct (map fst s) \<Longrightarrow> distinct (map fst (fold add_source items s))" for s
    by (induction items arbitrary: s) (auto simp: add_source_def Let_def)
  then show ?thesis by (simp add: hotspot_sources_def)
qed

definition platforms_ok :: "(string \<times> hotspot_item list) list \<Rightarrow> bool" where
  "platforms_ok ps \<longleftrightarrow> map fst ps = HOTSPOT_SLOTS \<and> list_all (\<lambda>p. length (snd p) \<le> 10) ps"

lemma place_item_ok: "platforms_ok ps \<Longrightarrow> platforms_ok (place_item m item ps)"
  by (force simp: platforms_ok_def place_item_def list_all_iff o_def case_prod_unfold split: option.splits)

lemma labels_of_slots:
  assumes "assignment_ok m" and "distinct (map fst sources)"
  shows "distinct (map fst (List.map_filter (\<lambda>(i, name). map_option (\<lambda>slot. (slot, name)) (map_of m i)) sources))"
  using assms(2)
proof (induction sources)
  case (Cons p sources)
  obtain i name where p: "p = (i, name)" by (cases p)
  have "slot \<notin> fst ` set (List.map_filter (\<lambda>(i, name). map_option (\<lambda>slot. (slot, name)) (map_of m i)) sources)" if "map_of m i = Some slot" for slot
  proof
    assume "slot \<in> fst ` set (List.map_filter (\<lambda>(i, name). map_option (\<lambda>slot. (slot, name)) (map_of m i)) sources)"
    then obtain j nm where j: "(j, nm) \<in> set sources" "map_of m j = Some slot" by (auto simp: List.map_filter_def)
    have "inj_on snd (set m)" using assms(1) by (simp add: assignment_ok_def distinct_map)
    then have "j = i" using map_of_SomeD [OF that] map_of_SomeD [OF j(2)] inj_onD [of snd "set m" "(j, slot)" "(i, slot)"] by simp
    then show False using Cons.prems j(1) p by force
  qed
  then show ?case using Cons p by (auto simp: List.map_filter_simps split: option.splits)
qed (simp add: List.map_filter_def)

text \<open>
  The display has its four slots, whatever the news are: no slot shows more than ten items or is given to two sources.
\<close>

theorem news_fit_their_slots:
  "platforms_ok (hp_platforms (toBailongmaHotspots show latest)) \<and> distinct (map fst (hp_labels (toBailongmaHotspots show latest)))"
proof -
  have start: "platforms_ok (map (\<lambda>s. (s, [])) HOTSPOT_SLOTS)" by (simp add: platforms_ok_def list_all_iff o_def)
  have fill: "platforms_ok (fold (place_item m) xs ps)" if "platforms_ok ps" for m xs ps
    using that by (induction xs arbitrary: ps) (simp_all add: place_item_ok)
  show ?thesis
    unfolding toBailongmaHotspots_def Let_def
    using fill [OF start] labels_of_slots [OF slot_assignment_ok [OF sources_distinct] sources_distinct] by simp
qed

end
