(* ===== verification/Internal_Control.thy ===== *)
theory Internal_Control
  imports Control_Client
begin

text \<open>
  The endpoints that the agents' servers call for leases and receipts, \<open>apps/web/routes/internal-control.mjs\<close>, and
  that a lease granted by the one passes the checks of the agent that asked for it.

  The validators of the contracts return a rejection, an error with the keyword of its first issue, or nothing. The
  control authority is a function of the document it is given; the answer says what it was given, if anything.
\<close>

section \<open>Answers\<close>

type_synonym rejection = "failure \<times> string option"

record control_endpoint =
  ep_crypto :: crypto
  ep_stringify :: "json \<Rightarrow> string"
  ep_dates :: dates
  ep_now :: instant
  ep_fresh :: "string \<Rightarrow> string"
  ep_errorCodes :: "string list"
  ep_leaseRequest :: "json \<Rightarrow> rejection option"
  ep_lease :: "json \<Rightarrow> rejection option"
  ep_receipt :: "json \<Rightarrow> rejection option"
  ep_authorityLease :: "(json \<Rightarrow> rejection + json) option"
  ep_authorityReceipt :: "(json \<Rightarrow> (rejection \<times> bool) option) option"

record control_answer =
  an_status :: int
  an_body :: json
  an_asked :: "json option"

definition controlIdentifier :: "control_endpoint \<Rightarrow> json \<Rightarrow> string \<Rightarrow> json" where
  "controlIdentifier e v kind =
     (case v of JStr s \<Rightarrow> if matches IDENTIFIER s then v else JStr (kind @ ''_'' @ ep_fresh e kind) | _ \<Rightarrow> JStr (kind @ ''_'' @ ep_fresh e kind))"

text \<open>The details of a refusal: whether to try again, and the field or the hint it names.\<close>

definition controlErrorSurface :: "control_endpoint \<Rightarrow> json \<Rightarrow> string \<Rightarrow> bool \<Rightarrow> (string \<times> json) list \<Rightarrow> json" where
  "controlErrorSurface e body code retryable details =
     JObj ([(''schema_version'', JStr ''1.0''), (''error_code'', JStr code), (''retryable'', JBool retryable),
       (''request_id'', controlIdentifier e (at body ''request_id'') ''request''),
       (''correlation_id'', controlIdentifier e (at body ''correlation_id'') ''correlation'')]
       @ details @ [(''occurred_at'', JStr (iso_date (ep_dates e) (ep_now e)))])"

definition INTERNAL_CONTROL_ERROR_MAP :: "(string \<times> string) list" where
  "INTERNAL_CONTROL_ERROR_MAP =
     [(''invalid_schema'', ''verification_failed''), (''invalid_reference'', ''invalid_identifier''), (''invalid_digest'', ''invalid_identifier''),
      (''invalid_timestamp'', ''verification_failed''), (''invalid_sequence'', ''sequence_conflict''), (''invalid_cursor'', ''invalid_identifier'')]"

definition wireControlErrorCode :: "control_endpoint \<Rightarrow> rejection \<Rightarrow> string \<Rightarrow> string" where
  "wireControlErrorCode e r fallback =
     (case failure_code (fst r) of None \<Rightarrow> fallback
      | Some code \<Rightarrow>
          if code \<in> set (ep_errorCodes e) then code
          else if code = ''invalid_contract'' \<and> snd r = Some ''required'' then ''missing_field''
          else if code = ''invalid_contract'' \<and> snd r = Some ''additionalProperties'' then ''unknown_field''
          else or_else (map_of INTERNAL_CONTROL_ERROR_MAP code) fallback)"

definition status_or :: "failure \<Rightarrow> int \<Rightarrow> int" where
  "status_or err d = (case err of CodedError _ (Some st) \<Rightarrow> if st = 0 then d else st | _ \<Rightarrow> d)"

definition control_refusal :: "control_endpoint \<Rightarrow> int \<Rightarrow> json \<Rightarrow> string \<Rightarrow> bool \<Rightarrow> (string \<times> string) list \<Rightarrow> control_answer" where
  "control_refusal e st body code retryable details =
     \<lparr>an_status = st, an_body = controlErrorSurface e body code retryable (map (\<lambda>(k, v). (k, JStr v)) details), an_asked = None\<rparr>"

definition asking :: "json \<Rightarrow> control_answer \<Rightarrow> control_answer" where
  "asking v a = a\<lparr>an_asked := Some v\<rparr>"

section \<open>The lease that is granted\<close>

definition SCOPE_FIELDS :: "string list" where
  "SCOPE_FIELDS = [''organization_id'', ''user_id'', ''agent_id'', ''server_id'', ''request_id'', ''correlation_id'']"

definition matchingControlScope :: "json \<Rightarrow> json \<Rightarrow> bool" where
  "matchingControlScope a b \<longleftrightarrow> list_all (\<lambda>k. at a k = at b k) SCOPE_FIELDS"

definition lease_content :: "json \<Rightarrow> json list" where
  "lease_content v = (case at v ''commands'' of JArr cs \<Rightarrow> cs | _ \<Rightarrow> [])"

definition placed_for :: "json \<Rightarrow> json \<Rightarrow> bool" where
  "placed_for asked c \<longleftrightarrow>
     (let p = at c ''placement'' in
      \<not> nullish p \<and> at p ''organization_id'' = at asked ''organization_id'' \<and> at p ''agent_id'' = at asked ''agent_id''
      \<and> at p ''server_id'' = at asked ''server_id'' \<and> (\<not> truthy (at p ''user_id'') \<or> at p ''user_id'' = at asked ''user_id''))"

definition matchingLeasePlacement :: "json \<Rightarrow> json \<Rightarrow> bool" where
  "matchingLeasePlacement lease asked \<longleftrightarrow> list_all (placed_for asked) (lease_content lease)"

text \<open>Numbers of a request are integers, which its contract requires.\<close>

definition integer_or :: "json \<Rightarrow> int \<Rightarrow> int" where
  "integer_or v d = (case v of JNum (Integer i) \<Rightarrow> if i = 0 then d else i | _ \<Rightarrow> d)"

definition next_number :: "json \<Rightarrow> json" where
  "next_number v = (case v of JNum (Integer i) \<Rightarrow> JNum (Integer (i + 1)) | _ \<Rightarrow> JNum NaN)"

definition lease_expiry :: "control_endpoint \<Rightarrow> json \<Rightarrow> json list \<Rightarrow> instant" where
  "lease_expiry e asked cs =
     (let wanted = ep_now e + max 15 (min (integer_or (at asked ''lease_seconds'') 60) 300) * 1000 in
      fold min (List.map_filter (\<lambda>c. instant_of (ep_dates e) (at c ''lease_expires_at'')) cs) wanted)"

definition lease_identity :: "control_endpoint \<Rightarrow> json \<Rightarrow> json list \<Rightarrow> json" where
  "lease_identity e v cs =
     (case at v ''lease_id'' of JStr i \<Rightarrow> JStr i
      | _ \<Rightarrow> default (case cs of [] \<Rightarrow> JUndefined | c # _ \<Rightarrow> at c ''lease_id'') (JStr (''lease_batch_'' @ ep_fresh e ''lease'')))"

definition grant_fields :: "control_endpoint \<Rightarrow> json \<Rightarrow> json \<Rightarrow> string \<Rightarrow> json list \<Rightarrow> (string \<times> json) list" where
  "grant_fields e v asked idem cs =
     (let issued = JStr (iso_date (ep_dates e) (ep_now e)) in
      [(''schema_version'', JStr ''1.0'')] @ map (\<lambda>k. (k, at asked k)) SCOPE_FIELDS @
      [(''idempotency_key'', JStr (''lease_grant_'' @ to_hex (sha256 (ep_crypto e) idem))), (''created_at'', issued),
       (''revision'', at asked ''revision''), (''sequence'', next_number (at asked ''sequence'')), (''lease_id'', lease_identity e v cs),
       (''lease_expires_at'', JStr (iso_date (ep_dates e) (lease_expiry e asked cs))), (''issued_at'', issued), (''commands'', JArr cs)])"

definition canonicalLeaseEnvelope :: "control_endpoint \<Rightarrow> json \<Rightarrow> json \<Rightarrow> string \<Rightarrow> string \<Rightarrow> failure + json" where
  "canonicalLeaseEnvelope e v asked machineId keyHash =
     (if truthy (at v ''signature'') then Inr v
      else case (case v of JArr cs \<Rightarrow> JArr cs | _ \<Rightarrow> at v ''commands'') of
        JArr cs \<Rightarrow>
          if 1 < length cs then Inl (TypeError ''A canonical lease envelope may contain only one per-command lease identity'')
          else if list_ex nullish cs then Inl (TypeError ''property of null'')
          else (case at asked ''idempotency_key'' of
              JStr idem \<Rightarrow>
                signControlMutation (ep_crypto e) (ep_stringify e) (Some keyHash) None machineId (iso_date (ep_dates e) (ep_now e))
                       (JObj (grant_fields e v asked idem cs))
            | _ \<Rightarrow> Inl (TypeError ''data must be a string''))
      | _ \<Rightarrow> Inl (TypeError ''Control Authority lease result must be an envelope or command array''))"

section \<open>The endpoints\<close>

definition verified_by :: "control_endpoint \<Rightarrow> string \<times> string \<Rightarrow> json \<Rightarrow> bool" where
  "verified_by e m v \<longleftrightarrow>
     verifyControlMutationSignature (ep_crypto e) (ep_stringify e) (instant_of (ep_dates e)) (Some (snd m)) None (Some (fst m)) (ep_now e)
       MAX_SIGNATURE_AGE_MS v = Inr True"

definition owned_server :: "fleet_state \<Rightarrow> string \<Rightarrow> json \<Rightarrow> bool" where
  "owned_server fleet i v \<longleftrightarrow>
     (case find (\<lambda>x. sv_id x = i) (listServers None fleet) of None \<Rightarrow> False | Some x \<Rightarrow> at v ''organization_id'' = JStr (sv_org x))"

text \<open>What is checked of a signed document of a server, in order, before the authority sees it.\<close>

definition signed_refusal :: "control_endpoint \<Rightarrow> fleet_state \<Rightarrow> string \<times> string \<Rightarrow> json \<Rightarrow> string list \<Rightarrow> control_answer option" where
  "signed_refusal e fleet m v own =
     (case find (\<lambda>k. at v k \<noteq> JStr (fst m)) own of
        Some k \<Rightarrow> Some (control_refusal e 403 v ''server_mismatch'' False [(''field'', CHR ''/'' # k)])
      | None \<Rightarrow>
          if \<not> verified_by e m v then Some (control_refusal e 401 v ''invalid_signature'' False [(''field'', ''/signature'')])
          else if \<not> owned_server fleet (fst m) v then Some (control_refusal e 403 v ''owner_mismatch'' False [(''field'', ''/organization_id'')])
          else None)"

definition migration_required :: "control_endpoint \<Rightarrow> json \<Rightarrow> control_answer" where
  "migration_required e v = control_refusal e 503 v ''verification_failed'' True [(''ref'', ''hint:control-authority-migration-required'')]"

definition granted_lease :: "control_endpoint \<Rightarrow> string \<times> string \<Rightarrow> (json \<Rightarrow> rejection + json) \<Rightarrow> json \<Rightarrow> rejection + json" where
  "granted_lease e m authority asked =
     (case authority asked of Inl r \<Rightarrow> Inl r
      | Inr v \<Rightarrow> (case canonicalLeaseEnvelope e v asked (fst m) (snd m) of Inl err \<Rightarrow> Inl (err, None)
          | Inr lease \<Rightarrow> (case ep_lease e lease of Some r \<Rightarrow> Inl r | None \<Rightarrow> Inr lease)))"

definition checked_lease :: "control_endpoint \<Rightarrow> string \<times> string \<Rightarrow> json \<Rightarrow> json \<Rightarrow> control_answer" where
  "checked_lease e m asked lease =
     (if \<not> matchingControlScope lease asked \<or> \<not> matchingLeasePlacement lease asked
      then control_refusal e 502 asked ''owner_mismatch'' False [(''ref'', ''hint:authority-lease-scope'')]
      else if \<not> verified_by e m lease
      then control_refusal e 502 asked ''invalid_signature'' False [(''field'', ''/signature''), (''ref'', ''hint:authority-lease-signature'')]
      else \<lparr>an_status = 200, an_body = lease, an_asked = None\<rparr>)"

definition lease_failure :: "control_endpoint \<Rightarrow> json \<Rightarrow> rejection \<Rightarrow> control_answer" where
  "lease_failure e asked r =
     (let st = status_or (fst r) 502;
          code = (if failure_code (fst r) = Some ''invalid_contract'' then ''verification_failed'' else wireControlErrorCode e r ''verification_failed'')
      in control_refusal e st asked code (500 \<le> st) [(''ref'', ''hint:invalid-authority-lease'')])"

definition unauthorized_server :: control_answer where
  "unauthorized_server = \<lparr>an_status = 401, an_body = JObj [(''error'', JStr ''invalid_server_credential'')], an_asked = None\<rparr>"

text \<open>\<open>machine\<close> is the identity and the key of the server that signed the request, if it did.\<close>

definition route_control_lease :: "control_endpoint \<Rightarrow> fleet_state \<Rightarrow> (string \<times> string) option \<Rightarrow> json \<Rightarrow> control_answer" where
  "route_control_lease e fleet machine body =
     (case machine of None \<Rightarrow> unauthorized_server
      | Some m \<Rightarrow>
          (case ep_leaseRequest e body of
             Some r \<Rightarrow> control_refusal e 400 body (wireControlErrorCode e r ''unknown_field'') False []
           | None \<Rightarrow> (case signed_refusal e fleet m body [''server_id''] of
               Some a \<Rightarrow> a
             | None \<Rightarrow> (case ep_authorityLease e of
                 None \<Rightarrow> migration_required e body
               | Some authority \<Rightarrow> asking body
                   (case granted_lease e m authority body of Inl r \<Rightarrow> lease_failure e body r | Inr lease \<Rightarrow> checked_lease e m body lease)))))"

definition route_control_receipt :: "control_endpoint \<Rightarrow> fleet_state \<Rightarrow> (string \<times> string) option \<Rightarrow> json \<Rightarrow> control_answer" where
  "route_control_receipt e fleet machine body =
     (case machine of None \<Rightarrow> unauthorized_server
      | Some m \<Rightarrow>
          (case ep_receipt e body of
             Some r \<Rightarrow> control_refusal e 400 body (wireControlErrorCode e r ''unknown_field'') False []
           | None \<Rightarrow> (case signed_refusal e fleet m body [''server_id'', ''source_identity''] of
               Some a \<Rightarrow> a
             | None \<Rightarrow> (case ep_authorityReceipt e of
                 None \<Rightarrow> migration_required e body
               | Some authority \<Rightarrow> asking body
                   (case authority body of
                      Some (r, retryable) \<Rightarrow> control_refusal e (status_or (fst r) 409) body (wireControlErrorCode e r ''verification_failed'') retryable
                        [(''ref'', ''hint:control-authority-receipt-rejected'')]
                    | None \<Rightarrow> \<lparr>an_status = 202, an_body = JObj [(''accepted'', JBool True), (''receipt_id'', at body ''receipt_id''),
                        (''state'', at body ''state'')], an_asked = None\<rparr>)))))"

section \<open>What reaches the authority\<close>

lemma signed_refusal_none:
  assumes "signed_refusal e fleet m v own = None"
  shows "list_all (\<lambda>k. at v k = JStr (fst m)) own \<and> verified_by e m v \<and> owned_server fleet (fst m) v"
  using assms by (auto simp: signed_refusal_def list_all_iff find_None_iff split: option.splits if_splits)

lemma asked_simps [simp]:
  "an_asked (control_refusal e st body code retryable details) = None" "an_asked (migration_required e body) = None"
  "an_asked (asking v a) = Some v" "an_asked unauthorized_server = None"
  by (simp_all add: control_refusal_def migration_required_def asking_def unauthorized_server_def)

lemma signed_refusal_asks_nothing: "signed_refusal e fleet m v own = Some a \<Longrightarrow> an_asked a = None"
  by (auto simp: signed_refusal_def split: option.splits if_splits)

lemma lease_asks:
  assumes "an_asked (route_control_lease e fleet machine body) = Some v"
  shows "\<exists>m. machine = Some m \<and> v = body \<and> signed_refusal e fleet m body [''server_id''] = None"
  using assms by (auto simp: route_control_lease_def signed_refusal_asks_nothing split: option.splits)

lemma receipt_asks:
  assumes "an_asked (route_control_receipt e fleet machine body) = Some v"
  shows "\<exists>m. machine = Some m \<and> v = body \<and> signed_refusal e fleet m body [''server_id'', ''source_identity''] = None"
  using assms by (auto simp: route_control_receipt_def signed_refusal_asks_nothing split: option.splits)

text \<open>
  C32. A lease request or a receipt reaches the control authority only when a server signed the call, and the
  document names that server, carries its valid signature and belongs to the organization the server is registered for.
\<close>

theorem authority_sees_only_verified_documents:
  assumes "an_asked (route_control_lease e fleet machine body) = Some v \<or> an_asked (route_control_receipt e fleet machine body) = Some v"
  shows "\<exists>i key srv. machine = Some (i, key) \<and> v = body \<and> at v ''server_id'' = JStr i \<and> verified_by e (i, key) v
    \<and> find (\<lambda>x. sv_id x = i) (listServers None fleet) = Some srv \<and> at v ''organization_id'' = JStr (sv_org srv)"
proof -
  obtain m own where m: "machine = Some m" "v = body" "signed_refusal e fleet m body (''server_id'' # own) = None"
    using assms lease_asks receipt_asks by blast
  then show ?thesis
    using signed_refusal_none [OF m(3)] by (cases m) (auto simp: owned_server_def split: option.splits)
qed

section \<open>Leases are taken\<close>

lemma keyBuffer_of_token:
  assumes "deriveMachineKey cr token = Inr keyHash" and "token \<noteq> []"
  shows "keyBuffer cr None (Some token) = keyBuffer cr (Some keyHash) None"
  using assms by (simp add: keyBuffer_def)

lemma sign_envelope:
  assumes "signControlMutation cr stringify keyHash token keyId signedAt (JObj kvs) = Inr w"
  shows "\<exists>sig. w = JObj (pending_envelope keyId signedAt sig kvs)"
  using assms by (auto simp: signControlMutation_def split: if_splits sum.splits)

lemma envelope_field: "k \<noteq> ''signature'' \<Longrightarrow> at (JObj (pending_envelope keyId signedAt sig kvs)) k = at (JObj kvs) k"
  by (simp add: at_def prop_of_def pending_envelope_def)

lemma canonical_lease:
  assumes "canonicalLeaseEnvelope e v asked i keyHash = Inr lease" and "\<not> truthy (at v ''signature'')"
  shows "\<exists>cs idem sig. lease = JObj (pending_envelope i (iso_date (ep_dates e) (ep_now e)) sig (grant_fields e v asked idem cs))"
proof -
  obtain cs idem where "signControlMutation (ep_crypto e) (ep_stringify e) (Some keyHash) None i (iso_date (ep_dates e) (ep_now e))
      (JObj (grant_fields e v asked idem cs)) = Inr lease"
    using assms by (simp add: canonicalLeaseEnvelope_def split: if_split_asm json.split_asm)
  then show ?thesis using sign_envelope by blast
qed

lemma at_object: "at (JObj kvs) k = (case map_of kvs k of None \<Rightarrow> JUndefined | Some x \<Rightarrow> x)"
  by (simp add: at_def prop_of_def)

lemma grant_field_values:
  "at (JObj (grant_fields e v asked idem cs)) ''commands'' = JArr cs"
  "at (JObj (grant_fields e v asked idem cs)) ''revision'' = at asked ''revision''"
  "at (JObj (grant_fields e v asked idem cs)) ''sequence'' = next_number (at asked ''sequence'')"
  "at (JObj (grant_fields e v asked idem cs)) ''created_at'' = JStr (iso_date (ep_dates e) (ep_now e))"
  "at (JObj (grant_fields e v asked idem cs)) ''lease_expires_at'' = JStr (iso_date (ep_dates e) (lease_expiry e asked cs))"
  by (simp_all add: at_object grant_fields_def Let_def SCOPE_FIELDS_def)

text \<open>The facts of a granted lease that its reader checks.\<close>

lemma granted_lease_facts:
  assumes "granted_lease e m authority asked = Inr lease" and "authority asked = Inr v" and "\<not> truthy (at v ''signature'')"
    and "at asked ''sequence'' = JNum (Integer n)"
  shows "at lease ''revision'' = at asked ''revision''" and "at lease ''sequence'' = JNum (Integer (n + 1))"
    and "at lease ''lease_expires_at'' = JStr (iso_date (ep_dates e) (lease_expiry e asked (lease_content lease)))"
    and "at (at lease ''signature'') ''signed_at'' = JStr (iso_date (ep_dates e) (ep_now e))"
proof -
  have "canonicalLeaseEnvelope e v asked (fst m) (snd m) = Inr lease"
    using assms(1,2) by (simp add: granted_lease_def split: sum.split_asm option.split_asm)
  then obtain cs idem sig where lease:
    "lease = JObj (pending_envelope (fst m) (iso_date (ep_dates e) (ep_now e)) sig (grant_fields e v asked idem cs))"
    using canonical_lease assms(3) by blast
  then have cs: "lease_content lease = cs" by (simp add: lease_content_def envelope_field grant_field_values)
  show "at lease ''revision'' = at asked ''revision''" "at lease ''sequence'' = JNum (Integer (n + 1))"
    by (simp_all add: lease envelope_field grant_field_values assms(4) next_number_def)
  show "at lease ''lease_expires_at'' = JStr (iso_date (ep_dates e) (lease_expiry e asked (lease_content lease)))"
    by (simp add: cs) (simp add: lease envelope_field grant_field_values)
  show "at (at lease ''signature'') ''signed_at'' = JStr (iso_date (ep_dates e) (ep_now e))"
    by (simp add: lease at_def prop_of_def pending_envelope_def)
qed

text \<open>A verified document stays verified for a holder of the token, as long as it is young enough.\<close>

lemma verified_for_token:
  assumes "verifyControlMutationSignature cr stringify date (Some keyHash) None expected now maxAge v = Inr True"
    and "deriveMachineKey cr token = Inr keyHash" and "token \<noteq> []"
    and "date (at (at v ''signature'') ''signed_at'') = Some signed" and "\<bar>t - signed\<bar> \<le> maxAge"
  shows "verifyControlMutationSignature cr stringify date None (Some token) expected t maxAge v = Inr True"
  using assms(1,4,5) keyBuffer_of_token [OF assms(2,3)]
  by (simp add: verifyControlMutationSignature_def Let_def split: json.split_asm if_split_asm option.split_asm sum.split_asm)

lemma checked_lease_grants:
  assumes "an_status (checked_lease e m asked lease) = 200"
  shows "matchingControlScope lease asked \<and> matchingLeasePlacement lease asked \<and> verified_by e m lease
    \<and> an_body (checked_lease e m asked lease) = lease"
  using assms by (auto simp: checked_lease_def control_refusal_def split: if_splits)

text \<open>
  C31. A lease that the endpoint makes of the authority's commands and grants passes the checks of the agent that asked
  for it: an agent that holds the token of the server's key takes it and remembers it, if its clock is within the allowed
  age of the platform's, the lease has not expired and it has not seen the lease before.
\<close>

theorem granted_leases_are_taken:
  assumes authority: "ep_authorityLease ep = Some authority" "authority asked = Inr v" "\<not> truthy (at v ''signature'')"
    and granted: "granted_lease ep (server_of opts, keyHash) authority asked = Inr lease"
      "route_control_lease ep fleet (Some (server_of opts, keyHash)) asked = answer" "an_status answer = 200"
      "an_asked answer = Some asked"
    and asked: "at asked ''sequence'' = JNum (Integer n)"
    and key: "deriveMachineKey (ep_crypto ep) (op_token opts) = Inr keyHash" "op_token opts \<noteq> []" "op_platformKey opts = None"
    and same: "en_crypto e = ep_crypto ep" "en_stringify e = ep_stringify ep" "en_dates e = ep_dates ep"
    and dates: "instant_of (ep_dates ep) (JStr (iso_date (ep_dates ep) (ep_now ep))) = Some (ep_now ep)"
      "instant_of (ep_dates ep) (at lease ''lease_expires_at'') = Some (lease_expiry ep asked (lease_content lease))"
    and clock: "en_time e (ag_step s) = Some t1" "\<bar>t1 - ep_now ep\<bar> \<le> MAX_SIGNATURE_AGE_MS"
      "en_time e (ag_step s + 1) = Some t2" "t2 < lease_expiry ep asked (lease_content lease)"
    and fresh: "at lease ''lease_id'' \<notin> set (ag_seen s)"
  shows "an_body answer = lease \<and> assertLeaseBinding e opts lease asked s =
    (Inr (), s\<lparr>ag_step := ag_step s + 2, ag_seen := at lease ''lease_id'' # ag_seen s\<rparr>)"
proof -
  let ?m = "(server_of opts, keyHash)"
  have answer: "answer = asking asked (checked_lease ep ?m asked lease)"
    using granted authority(1) by (auto simp: route_control_lease_def signed_refusal_asks_nothing split: option.split_asm)
  then have "an_status (checked_lease ep ?m asked lease) = 200" using granted(3) by (simp add: asking_def)
  note checked = checked_lease_grants [OF this]
  note facts = granted_lease_facts [OF granted(1) authority(2,3) asked]
  have "verifyControlMutationSignature (en_crypto e) (en_stringify e) (instant_of (en_dates e)) None (Some (op_token opts))
      (Some (or_else (op_platformKey opts) (server_of opts))) t1 MAX_SIGNATURE_AGE_MS lease = Inr True"
    using checked verified_for_token [OF _ key(1,2)] facts(4) dates(1) clock(2) by (auto simp: verified_by_def same key(3))
  moreover have "first_failure (map (binding_error lease asked)
      [''organization_id'', ''user_id'', ''agent_id'', ''server_id'', ''request_id'', ''correlation_id'']) = None"
    using checked by (simp add: first_failure_map_None matchingControlScope_def SCOPE_FIELDS_def binding_error_def)
  moreover have "\<not> is_past e (at lease ''lease_expires_at'') t2"
    using dates(2) clock(4) by (simp add: is_past_def same)
  ultimately have "assertLeaseBinding e opts lease asked s =
      (Inr (), s\<lparr>ag_step := ag_step s + 2, ag_seen := at lease ''lease_id'' # ag_seen s\<rparr>)"
    using clock(1,3) fresh facts(1,2) asked
    by (simp add: assertLeaseBinding_def and_then_def demand_def returns_def nowMs_def outside_def lifted_def json_at_most_def)
  then show ?thesis using checked answer by (simp add: asking_def)
qed

section \<open>A concrete call\<close>

definition registered_server :: server where
  "registered_server = \<lparr>sv_id = ''s'', sv_org = ''o'', sv_name = [], sv_status = ''healthy'', sv_version = None, sv_seenAt = None, sv_createdAt = 0\<rparr>"

definition placement_command :: json where
  "placement_command = JObj [(''lease_id'', JStr ''l''),
     (''placement'', JObj [(''organization_id'', JStr ''o''), (''agent_id'', JStr ''a''), (''server_id'', JStr ''s'')])]"

definition sample_endpoint :: control_endpoint where
  "sample_endpoint =
     \<lparr>ep_crypto = flat_crypto, ep_stringify = (\<lambda>_. ''x''), ep_dates = sample_dates, ep_now = 1000, ep_fresh = (\<lambda>_. ''f''), ep_errorCodes = [],
      ep_leaseRequest = (\<lambda>_. None), ep_lease = (\<lambda>_. None), ep_receipt = (\<lambda>_. None),
      ep_authorityLease = Some (\<lambda>_. Inr (JArr [placement_command])), ep_authorityReceipt = None\<rparr>"

definition sample_asked :: json where
  "sample_asked = JObj [(''organization_id'', JStr ''o''), (''user_id'', JStr ''u''), (''agent_id'', JStr ''a''), (''server_id'', JStr ''s''),
     (''request_id'', JStr ''r''), (''correlation_id'', JStr ''c''), (''idempotency_key'', JStr ''i''), (''created_at'', JStr []),
     (''revision'', JNum (Integer 1)), (''sequence'', JNum (Integer 5)), (''signature'', demo_signature)]"

definition sample_keyHash :: string where
  "sample_keyHash = to_hex (replicate 32 7)"

definition sample_fleet :: fleet_state where
  "sample_fleet = empty_fleet\<lparr>servers := [registered_server]\<rparr>"

definition sample_env :: agent_env where
  "sample_env = demo_env\<lparr>en_dates := sample_dates\<rparr>"

lemma sample_key: "deriveMachineKey flat_crypto sample_token = Inr sample_keyHash" "sample_token \<noteq> []"
  "keyBuffer flat_crypto (Some sample_keyHash) None = Inr (replicate 32 7)"
proof -
  show token: "deriveMachineKey flat_crypto sample_token = Inr sample_keyHash" "sample_token \<noteq> []"
    by (simp_all add: deriveMachineKey_def sample_token_def flat_crypto_def sample_keyHash_def)
  show "keyBuffer flat_crypto (Some sample_keyHash) None = Inr (replicate 32 7)"
    using keyBuffer_of_token [OF token] demo_key by simp
qed

lemma sample_instant: "0 \<le> t \<Longrightarrow> instant_of sample_dates (JStr (iso_date sample_dates t)) = Some t"
  by (simp add: instant_of_def sample_dates_def)

lemma sample_asked_verified: "verified_by sample_endpoint (''s'', sample_keyHash) sample_asked"
proof -
  have "from_base64url (to_base64url demo_mac) = demo_mac" by (rule base64url_roundtrip) (simp add: demo_mac_def is_bytes_def)
  then show ?thesis
    by (simp add: verified_by_def sample_endpoint_def verifyControlMutationSignature_def Let_def sample_asked_def demo_signature_def at_object
        instant_of_def sample_dates_def sample_key MAX_SIGNATURE_AGE_MS_def controlMutationCanonical_def)
      (simp add: demo_mac_def flat_crypto_def)
qed

lemma sample_answer:
  "route_control_lease sample_endpoint sample_fleet (Some (''s'', sample_keyHash)) sample_asked =
     asking sample_asked (case granted_lease sample_endpoint (''s'', sample_keyHash) (\<lambda>_. Inr (JArr [placement_command])) sample_asked of
       Inl r \<Rightarrow> lease_failure sample_endpoint sample_asked r
     | Inr lease \<Rightarrow> checked_lease sample_endpoint (''s'', sample_keyHash) sample_asked lease)"
proof -
  have "signed_refusal sample_endpoint sample_fleet (''s'', sample_keyHash) sample_asked [''server_id''] = None"
    using sample_asked_verified
    by (simp add: signed_refusal_def owned_server_def listServers_def sample_fleet_def registered_server_def in_org_def)
      (simp add: sample_asked_def at_object)
  moreover have "ep_leaseRequest sample_endpoint sample_asked = None"
    "ep_authorityLease sample_endpoint = Some (\<lambda>_. Inr (JArr [placement_command]))" by (simp_all add: sample_endpoint_def)
  ultimately show ?thesis by (simp add: route_control_lease_def)
qed

theorem authority_sees_only_verified_documents_witness:
  "\<exists>srv. verified_by sample_endpoint (''s'', sample_keyHash) sample_asked
    \<and> find (\<lambda>x. sv_id x = ''s'') (listServers None sample_fleet) = Some srv
    \<and> at sample_asked ''organization_id'' = JStr (sv_org srv)"
  using authority_sees_only_verified_documents
    [of sample_endpoint sample_fleet "Some (''s'', sample_keyHash)" sample_asked sample_asked] sample_answer by auto

lemma endpoint_grant:
  "\<exists>lease. granted_lease sample_endpoint (''s'', sample_keyHash) (\<lambda>_. Inr (JArr [placement_command])) sample_asked = Inr lease
    \<and> checked_lease sample_endpoint (''s'', sample_keyHash) sample_asked lease = \<lparr>an_status = 200, an_body = lease, an_asked = None\<rparr>
    \<and> lease_content lease = [placement_command]"
proof -
  let ?e = sample_endpoint and ?m = "(''s'', sample_keyHash)"
  let ?fields = "grant_fields ?e (JArr [placement_command]) sample_asked ''i'' [placement_command]"
  let ?signed = "signControlMutation flat_crypto (ep_stringify ?e) (Some sample_keyHash) None ''s'' (iso_date sample_dates 1000)"
  have e: "ep_crypto ?e = flat_crypto" "ep_dates ?e = sample_dates" "ep_now ?e = 1000" "ep_lease ?e l = None" for l
    by (simp_all add: sample_endpoint_def)
  obtain w where w: "?signed (JObj ?fields) = Inr w"
    by (simp add: signControlMutation_def sample_key canonical_of_envelope)
  obtain sig where env: "w = JObj (pending_envelope ''s'' (iso_date sample_dates 1000) sig ?fields)" using sign_envelope [OF w] by blast
  have unsigned: "at (JArr [placement_command]) ''signature'' = JUndefined" "\<not> truthy JUndefined" "\<not> nullish placement_command"
    "at sample_asked ''idempotency_key'' = JStr ''i''"
    by (simp_all add: at_def prop_of_def truthy_def nullish_def placement_command_def sample_asked_def)
  have "granted_lease ?e ?m (\<lambda>_. Inr (JArr [placement_command])) sample_asked = Inr w"
    using w unsigned by (simp add: granted_lease_def canonicalLeaseEnvelope_def e)
  moreover have commands: "lease_content w = [placement_command]"
    by (simp add: lease_content_def env envelope_field grant_field_values)
  moreover have "matchingControlScope w sample_asked"
    by (simp add: matchingControlScope_def SCOPE_FIELDS_def env envelope_field)
      (simp add: at_object grant_fields_def SCOPE_FIELDS_def Let_def)
  moreover have "matchingLeasePlacement w sample_asked"
    by (simp add: matchingLeasePlacement_def commands placed_for_def Let_def)
      (simp add: placement_command_def sample_asked_def at_object nullish_def truthy_def)
  moreover have "verified_by ?e ?m w"
    using signed_mutation_is_accepted [OF flat_crypto_lawful w, of "instant_of sample_dates" 1000 1000 1000 MAX_SIGNATURE_AGE_MS]
    by (simp add: verified_by_def e sample_instant grant_field_values MAX_SIGNATURE_AGE_MS_def)
  ultimately show ?thesis by (auto simp: checked_lease_def)
qed

theorem granted_leases_are_taken_witness:
  "\<exists>lease. an_body (route_control_lease sample_endpoint sample_fleet (Some (''s'', sample_keyHash)) sample_asked) = lease
    \<and> fst (assertLeaseBinding sample_env demo_options lease sample_asked demo_start) = Inr ()"
proof -
  obtain lease where lease:
    "granted_lease sample_endpoint (''s'', sample_keyHash) (\<lambda>_. Inr (JArr [placement_command])) sample_asked = Inr lease"
    "checked_lease sample_endpoint (''s'', sample_keyHash) sample_asked lease = \<lparr>an_status = 200, an_body = lease, an_asked = None\<rparr>"
    "lease_content lease = [placement_command]"
    using endpoint_grant by blast
  have e: "ep_crypto sample_endpoint = flat_crypto" "ep_dates sample_endpoint = sample_dates" "ep_now sample_endpoint = 1000"
    "ep_authorityLease sample_endpoint = Some (\<lambda>_. Inr (JArr [placement_command]))"
    "ep_stringify sample_endpoint = en_stringify sample_env" "en_crypto sample_env = flat_crypto" "en_dates sample_env = sample_dates"
    "server_of demo_options = ''s''" "op_token demo_options = sample_token" "op_platformKey demo_options = None"
    by (simp_all add: sample_endpoint_def sample_env_def demo_env_def demo_options_def server_of_def)
  have expiry: "lease_expiry sample_endpoint sample_asked [placement_command] = 61000"
    by (simp add: lease_expiry_def e instant_of_def placement_command_def sample_asked_def at_object integer_or_def map_filter_def Let_def)
  have times: "en_time sample_env n = Some 1000" for n by (simp add: sample_env_def demo_env_def)
  have asked: "at sample_asked ''sequence'' = JNum (Integer 5)" by (simp add: sample_asked_def at_object)
  have unsigned: "\<not> truthy (at (JArr [placement_command]) ''signature'')" by (simp add: at_def prop_of_def truthy_def)
  note facts = granted_lease_facts [OF lease(1) refl unsigned asked]
  have "instant_of sample_dates (at lease ''lease_expires_at'') = Some 61000"
    using facts(3) by (simp add: lease(3) expiry e sample_instant)
  then show ?thesis
    using granted_leases_are_taken [OF e(4) refl unsigned, of demo_options sample_keyHash sample_asked lease sample_fleet _ 5 sample_env
        demo_start 1000 1000] lease sample_answer asked sample_key times
    by (simp add: e expiry sample_instant MAX_SIGNATURE_AGE_MS_def demo_start_def asking_def)
qed

end
