(* ===== verification/Resource_Reports.thy ===== *)
theory Resource_Reports
  imports Js_Number Fleet_Alerts Internal_Control
begin

text \<open>
  The resource reports of the agents' servers, as the platform reads them: \<open>resourceSample\<close> and the endpoint
  \<open>/api/internal/control-plane/resources\<close> of \<open>apps/web/routes/internal-control.mjs\<close>, with the repository operations it calls.

  A sample that is kept is within bounds; the store that keeps it is the one of \<open>Fleet_Telemetry\<close>, where the details of a
  sample are a value that nothing looks at: the function \<open>details\<close> makes it.
\<close>

section \<open>Numbers and texts\<close>

definition RESOURCE_STATUSES :: "string list" where
  "RESOURCE_STATUSES = [''running'', ''degraded'', ''offline'', ''unknown'']"

definition CONTAINER_RESOURCE_ROLES :: "string list" where
  "CONTAINER_RESOURCE_ROLES = [''hermes'', ''hermes-dashboard'', ''runtime-boundary'']"

definition CONTAINER_RESOURCE_STATUSES :: "string list" where
  "CONTAINER_RESOURCE_STATUSES = [''running'', ''paused'', ''restarting'', ''exited'', ''dead'', ''created'', ''removing'', ''unknown'']"

text \<open>The inner value is \<open>null\<close> or a number; there is none when the number is out of bounds.\<close>

definition optionalResourceNumber :: "json \<Rightarrow> int \<Rightarrow> bool \<Rightarrow> rat option option" where
  "optionalResourceNumber v maximum whole =
     (if nullish v then Some None
      else case number_of v of
        None \<Rightarrow> None
      | Some x \<Rightarrow>
          if x < 0 \<or> of_int maximum < x \<or> whole \<and> (x \<noteq> of_int \<lfloor>x\<rfloor> \<or> MAX_SAFE_INTEGER < \<bar>\<lfloor>x\<rfloor>\<bar>) then None else Some (Some x))"

definition resource_numbers :: "json \<Rightarrow> (string \<times> int \<times> bool) list \<Rightarrow> rat option list option" where
  "resource_numbers v ks =
     (let xs = map (\<lambda>(k, maximum, whole). optionalResourceNumber (prop_at v k) maximum whole) ks
      in if None \<in> set xs then None else Some (map the xs))"

definition resourceText :: "json \<Rightarrow> nat \<Rightarrow> string option" where
  "resourceText v maximum =
     (case v of
        JStr s \<Rightarrow> if trim s = [] then None
                  else Some (take maximum (trim (map (\<lambda>c. if c \<in> {CHR 0x00, CR, LF} then CHR '' '' else c) s)))
      | _ \<Rightarrow> None)"

definition RESOURCE_IDENTIFIER :: rexp where
  "RESOURCE_IDENTIFIER = Sq (Cls is_alnum) (Rep (Cls (\<lambda>c. is_alnum c \<or> one_of ''._:-'' c)) 0 (Some 127))"

definition resource_identifier :: "json \<Rightarrow> string option" where
  "resource_identifier v = (case v of JStr s \<Rightarrow> if matches RESOURCE_IDENTIFIER s then Some s else None | _ \<Rightarrow> None)"

definition one_of_texts :: "string list \<Rightarrow> json \<Rightarrow> string option" where
  "one_of_texts ws v = (case v of JStr s \<Rightarrow> if s \<in> set ws then Some s else None | _ \<Rightarrow> None)"

definition started_text :: "dates \<Rightarrow> json \<Rightarrow> string option" where
  "started_text dt v = map_option (iso_date dt) (instant_of dt v)"

section \<open>Samples\<close>

record container_sample =
  cs_role :: string
  cs_status :: string
  cs_id :: "string option"
  cs_name :: "string option"
  cs_image :: "string option"
  cs_version :: "string option"
  cs_numbers :: "rat option list" \<comment> \<open>processor percentage, memory used, memory limit, writable bytes\<close>
  cs_startedAt :: "string option"

definition CONTAINER_NUMBERS :: "(string \<times> int \<times> bool) list" where
  "CONTAINER_NUMBERS = [(''cpuPercent'', 100000, False), (''memoryUsedBytes'', MAX_SAFE_INTEGER, True),
     (''memoryLimitBytes'', MAX_SAFE_INTEGER, True), (''writableBytes'', MAX_SAFE_INTEGER, True)]"

definition container_sample :: "dates \<Rightarrow> json \<Rightarrow> container_sample option" where
  "container_sample dt c =
     (case (one_of_texts CONTAINER_RESOURCE_ROLES (prop_at c ''role''), one_of_texts CONTAINER_RESOURCE_STATUSES (prop_at c ''status''),
            resource_numbers c CONTAINER_NUMBERS) of
        (Some role, Some status, Some xs) \<Rightarrow>
          Some \<lparr>cs_role = role, cs_status = status, cs_id = resourceText (prop_at c ''containerId'') 128,
            cs_name = resourceText (prop_at c ''containerName'') 128, cs_image = resourceText (prop_at c ''imageRef'') 500,
            cs_version = resourceText (prop_at c ''version'') 200, cs_numbers = xs, cs_startedAt = started_text dt (prop_at c ''startedAt'')\<rparr>
      | _ \<Rightarrow> None)"

definition container_samples :: "dates \<Rightarrow> json \<Rightarrow> container_sample list option" where
  "container_samples dt v =
     (let xs = map (container_sample dt) (case prop_at v ''containers'' of JArr cs \<Rightarrow> take 16 cs | _ \<Rightarrow> [])
      in if None \<in> set xs \<or> \<not> distinct (map (cs_role \<circ> the) xs) then None else Some (map the xs))"

record sample_details =
  sd_status :: string
  sd_agentStorage :: "rat option"
  sd_uptime :: "rat option"
  sd_osType :: "string option"
  sd_architecture :: "string option"
  sd_system :: "string option"
  sd_docker :: "string option"
  sd_startedAt :: "string option"
  sd_containers :: "container_sample list"

definition RESOURCE_NUMBERS :: "(string \<times> int \<times> bool) list" where
  "RESOURCE_NUMBERS =
     [(''cpuPercent'', 100000, False), (''memoryUsedBytes'', MAX_SAFE_INTEGER, True), (''memoryLimitBytes'', MAX_SAFE_INTEGER, True),
      (''agentStorageUsedBytes'', MAX_SAFE_INTEGER, True), (''hostStorageUsedBytes'', MAX_SAFE_INTEGER, True),
      (''hostStorageLimitBytes'', MAX_SAFE_INTEGER, True), (''cpuCount'', 1000000, True), (''uptimeSeconds'', MAX_SAFE_INTEGER, True)]"

definition sample_sequence :: "json \<Rightarrow> int option" where
  "sample_sequence v = (case v of JNum (Integer n) \<Rightarrow> if is_safe_integer (Integer n) \<and> 1 \<le> n then Some n else None | _ \<Rightarrow> None)"

definition details_of :: "dates \<Rightarrow> json \<Rightarrow> string \<Rightarrow> rat option list \<Rightarrow> container_sample list \<Rightarrow> sample_details" where
  "details_of dt v status xs cs =
     \<lparr>sd_status = status, sd_agentStorage = xs ! 3, sd_uptime = xs ! 7, sd_osType = resourceText (prop_at v ''osType'') 80,
      sd_architecture = resourceText (prop_at v ''architecture'') 80, sd_system = resourceText (prop_at v ''operatingSystem'') 300,
      sd_docker = resourceText (prop_at v ''dockerVersion'') 100, sd_startedAt = started_text dt (prop_at v ''startedAt''), sd_containers = cs\<rparr>"

definition sample_of :: "string \<times> string \<times> string \<Rightarrow> int \<Rightarrow> rat option list \<Rightarrow> instant \<Rightarrow> json \<Rightarrow> sample_input" where
  "sample_of ids n xs observed details =
     \<lparr>sm_agent = fst ids, sm_runtime = fst (snd ids), sm_deployment = snd (snd ids), sm_sequence = n, sm_cpuPercent = xs ! 0,
      sm_cpuCount = xs ! 6, sm_memoryUsed = xs ! 1, sm_memoryLimit = xs ! 2, sm_hostUsed = xs ! 4, sm_hostLimit = xs ! 5,
      sm_observedAt = observed, sm_details = details\<rparr>"

definition sample_ids :: "json \<Rightarrow> (string \<times> string \<times> string) option" where
  "sample_ids v =
     (case (resource_identifier (prop_at v ''agentId''), resource_identifier (prop_at v ''runtimeId''), resource_identifier (prop_at v ''deploymentId'')) of
        (Some a, Some r, Some d) \<Rightarrow> Some (a, r, d) | _ \<Rightarrow> None)"

definition resourceSample :: "dates \<Rightarrow> (sample_details \<Rightarrow> json) \<Rightarrow> json \<Rightarrow> (sample_input \<times> sample_details) option" where
  "resourceSample dt details v =
     (case (sample_ids v, sample_sequence (prop_at v ''sequence''), one_of_texts RESOURCE_STATUSES (prop_at v ''status''),
            instant_of dt (prop_at v ''observedAt'')) of
        (Some ids, Some n, Some status, Some observed) \<Rightarrow>
          (case (resource_numbers v RESOURCE_NUMBERS, container_samples dt v) of
             (Some xs, Some cs) \<Rightarrow> (let d = details_of dt v status xs cs in Some (sample_of ids n xs observed (details d), d))
           | _ \<Rightarrow> None)
      | _ \<Rightarrow> None)"

section \<open>The endpoint\<close>

type_synonym resource_answer = "failure + (int \<times> ident list)"

definition heartbeat_of_server :: "server \<Rightarrow> sample_details list \<Rightarrow> server_input" where
  "heartbeat_of_server v ds =
     \<lparr>svi_id = sv_id v, svi_org = sv_org v, svi_name = None, svi_status = ''healthy'',
      svi_version = (case ds of [] \<Rightarrow> sv_version v | d # _ \<Rightarrow> (case sd_docker d of Some w \<Rightarrow> Some w | None \<Rightarrow> sv_version v))\<rparr>"

text \<open>\<open>machine\<close> is the server that signed the report, \<open>valid\<close> the contract of the report.\<close>

definition route_resources ::
  "env \<Rightarrow> dates \<Rightarrow> (sample_details \<Rightarrow> json) \<Rightarrow> (json \<Rightarrow> bool) \<Rightarrow> ident option \<Rightarrow> json \<Rightarrow> fleet_state \<Rightarrow> telemetry_state \<Rightarrow>
     resource_answer \<times> fleet_state \<times> telemetry_state" where
  "route_resources e dt details valid machine body s t =
     (case machine of None \<Rightarrow> (Inr (401, []), s, t)
      | Some i \<Rightarrow>
          if prop_at body ''serverId'' \<noteq> JStr i then (Inr (401, []), s, t)
          else if \<not> valid body then (Inr (400, []), s, t)
          else (let xs = map (resourceSample dt details) (case prop_at body ''samples'' of JArr vs \<Rightarrow> vs | _ \<Rightarrow> [])
            in if None \<in> set xs then (Inr (400, []), s, t)
               else (case find (\<lambda>v. sv_id v = i) (listServers None s) of
                   None \<Rightarrow> (Inr (404, []), s, t)
                 | Some v \<Rightarrow>
                     (case saveAgentResourceSamples e i (map (fst \<circ> the) xs) s t of
                        (Inl err, t') \<Rightarrow> (Inl err, s, t')
                      | (Inr saved, t') \<Rightarrow>
                          (Inr (202, map sm_id saved), snd (recordServerHeartbeat e (heartbeat_of_server v (map (snd \<circ> the) xs)) s), t')))))"

section \<open>What is kept\<close>

definition number_within :: "int \<Rightarrow> bool \<Rightarrow> rat option \<Rightarrow> bool" where
  "number_within maximum whole v \<longleftrightarrow>
     (case v of None \<Rightarrow> True | Some x \<Rightarrow> 0 \<le> x \<and> x \<le> of_int maximum \<and> (whole \<longrightarrow> x = of_int \<lfloor>x\<rfloor>))"

definition sample_within :: "'a sample_input_scheme \<Rightarrow> bool" where
  "sample_within r \<longleftrightarrow>
     1 \<le> sm_sequence r \<and> sm_sequence r \<le> MAX_SAFE_INTEGER \<and> number_within 100000 False (sm_cpuPercent r)
     \<and> number_within 1000000 True (sm_cpuCount r)
     \<and> list_all (number_within MAX_SAFE_INTEGER True) [sm_memoryUsed r, sm_memoryLimit r, sm_hostUsed r, sm_hostLimit r]"

lemma optional_number_within: "optionalResourceNumber v maximum whole = Some x \<Longrightarrow> number_within maximum whole x"
  by (auto simp: optionalResourceNumber_def number_within_def not_less split: if_splits option.splits)

lemma resource_numbers_within:
  assumes "resource_numbers v ks = Some xs"
  shows "list_all2 (\<lambda>(k, maximum, whole) x. number_within maximum whole x) ks xs"
proof -
  let ?f = "\<lambda>(k, maximum, whole). optionalResourceNumber (prop_at v k) maximum whole"
  have xs: "None \<notin> ?f ` set ks" "xs = map (the \<circ> ?f) ks" using assms by (auto simp: resource_numbers_def Let_def split: if_splits)
  have "(\<lambda>(k, maximum, whole) x. number_within maximum whole x) kmw (the (?f kmw))" if "kmw \<in> set ks" for kmw
  proof -
    obtain k maximum whole where kmw: "kmw = (k, maximum, whole)" by (cases kmw)
    have "?f kmw \<noteq> None" using xs(1) that by force
    then show ?thesis using optional_number_within by (auto simp: kmw)
  qed
  then show ?thesis by (auto simp: xs(2) list_all2_conv_all_nth)
qed

lemma resource_sample_within:
  assumes "resourceSample dt details v = Some (r, d)"
  shows "sample_within r"
proof -
  obtain ids n xs observed w where r: "r = sample_of ids n xs observed w" "sample_sequence (prop_at v ''sequence'') = Some n"
    "resource_numbers v RESOURCE_NUMBERS = Some xs"
    using assms by (auto simp: resourceSample_def Let_def split: option.splits)
  have "list_all2 (\<lambda>(k, maximum, whole) x. number_within maximum whole x) RESOURCE_NUMBERS xs"
    using r(3) by (rule resource_numbers_within)
  moreover have "1 \<le> n \<and> n \<le> MAX_SAFE_INTEGER"
    using r(2) by (auto simp: sample_sequence_def is_safe_integer_def split: json.splits jnum.splits if_splits)
  ultimately show ?thesis
    by (auto simp: r(1) sample_of_def sample_within_def RESOURCE_NUMBERS_def list_all2_Cons1)
qed

text \<open>A sample that the store takes from a server: of an agent deployed on it, of the organization the server belongs to.\<close>

definition sample_placed :: "fleet_state \<Rightarrow> ident \<Rightarrow> resource_sample \<Rightarrow> bool" where
  "sample_placed s i r \<longleftrightarrow>
     sm_server r = i \<and> (\<exists>d\<in>set (deployments s). dp_id d = sm_deployment r \<and> dp_server d = i \<and> dp_agent d = sm_agent r)
     \<and> (\<exists>a. map_of (agents s) (sm_agent r) = Some a \<and> sm_org r = ag_org a \<and> (\<exists>v\<in>set (servers s). sv_id v = i \<and> sv_org v = ag_org a))"

lemma sample_owner_placed:
  assumes "sample_owner i x s = Some (d, a)"
  shows "d \<in> set (deployments s) \<and> dp_id d = sm_deployment x \<and> dp_server d = i \<and> dp_agent d = sm_agent x
    \<and> map_of (agents s) (sm_agent x) = Some a \<and> (\<exists>v\<in>set (servers s). sv_id v = i \<and> sv_org v = ag_org a)"
  using assms by (auto simp: sample_owner_def find_Some_iff split: option.splits if_splits)

lemma stored_samples:
  assumes "x \<in> set (snd (store_sample r rs))"
  shows "x \<in> set rs \<or> (\<exists>i. x = r\<lparr>sm_id := i\<rparr>)"
proof (cases "List.find (\<lambda>x. sm_runtime x = sm_runtime r \<and> sm_sequence x = sm_sequence r) rs")
  case None
  have same: "r = r\<lparr>sm_id := sm_id r\<rparr>" by simp
  have "x = r \<or> x \<in> set rs" using assms None by (auto simp: store_sample_def)
  then show ?thesis using same by blast
next
  case (Some y)
  then have "x \<in> set (upd_first (\<lambda>x. sm_runtime x = sm_runtime r \<and> sm_sequence x = sm_sequence r) (\<lambda>x. r\<lparr>sm_id := sm_id x\<rparr>) rs)"
    using assms by (simp add: store_sample_def)
  from subsetD [OF set_upd_first_subset this] show ?thesis by auto
qed

definition new_sample_ok :: "fleet_state \<Rightarrow> ident \<Rightarrow> resource_sample \<Rightarrow> bool" where
  "new_sample_ok s i r \<longleftrightarrow> sample_within r \<and> sample_placed s i r"

lemma extended_sample_ok:
  assumes "sample_within x" and "sample_owner i x s = Some (d, a)"
  shows "new_sample_ok s i (sample_input.extend x (resource_sample.fields n (ag_org a) u i env t))"
  using assms(1) sample_owner_placed [OF assms(2)]
  by (auto simp: new_sample_ok_def sample_within_def sample_placed_def sample_input.defs resource_sample.defs)

lemma renamed_sample_ok: "new_sample_ok s i (r\<lparr>sm_id := n\<rparr>) \<longleftrightarrow> new_sample_ok s i r"
  by (simp add: new_sample_ok_def sample_within_def sample_placed_def)

lemma save_samples_ok:
  assumes "\<forall>x\<in>set is. sample_within x" and "r \<in> set (samples (snd (save_samples e n i is saved s t)))"
  shows "r \<in> set (samples t) \<or> new_sample_ok s i r"
  using assms
proof (induction e n i "is" saved s t rule: save_samples.induct)
  case (2 e n i x "is" saved s t)
  show ?case
  proof (cases "sample_owner i x s")
    case None
    then show ?thesis using "2.prems" by simp
  next
    case (Some da)
    obtain d a where da: "da = (d, a)" by (cases da)
    let ?r = "sample_input.extend x (resource_sample.fields (uuid e n) (ag_org a) (ag_owner a) i (dp_environment d) (clock e))"
    obtain stored rs where st: "store_sample ?r (samples t) = (stored, rs)" by (cases "store_sample ?r (samples t)")
    have "r \<in> set rs \<or> new_sample_ok s i r"
      using "2.IH" [OF Some da [symmetric] refl refl st [symmetric]] "2.prems" by (simp add: Some da st)
    moreover have "new_sample_ok s i ?r" using extended_sample_ok Some "2.prems"(1) by (simp add: da)
    ultimately show ?thesis
      using stored_samples [of r ?r "samples t"] renamed_sample_ok st by auto
  qed
qed simp

lemma parsed_samples_within:
  assumes "None \<notin> set (map (resourceSample dt details) vs)"
  shows "\<forall>x\<in>set (map (fst \<circ> the) (map (resourceSample dt details) vs)). sample_within x"
proof
  fix x assume "x \<in> set (map (fst \<circ> the) (map (resourceSample dt details) vs))"
  then obtain v where v: "v \<in> set vs" "x = fst (the (resourceSample dt details v))" by auto
  then have "resourceSample dt details v \<noteq> None" using assms by (metis image_eqI set_map)
  then show "sample_within x" using v(2) resource_sample_within by force
qed

text \<open>The samples of a report, as they are read.\<close>

definition reported_samples :: "dates \<Rightarrow> (sample_details \<Rightarrow> json) \<Rightarrow> json \<Rightarrow> sample_input list" where
  "reported_samples dt details body =
     map (fst \<circ> the \<circ> resourceSample dt details) (case prop_at body ''samples'' of JArr vs \<Rightarrow> vs | _ \<Rightarrow> [])"

text \<open>The store stops at the first sample that belongs to no deployment of the server, and keeps those before it.\<close>

lemma save_samples_stop:
  assumes "save_samples e n i is saved s t = (Inl err, t')"
  shows "\<exists>good bad rest kept. is = good @ bad # rest \<and> sample_owner i bad s = None \<and> save_samples e n i good saved s t = (Inr kept, t')
    \<and> err = CodedError ''resource_identity_mismatch'' (Some 404)"
  using assms
proof (induction e n i "is" saved s t rule: save_samples.induct)
  case (2 e n i x "is" saved s t)
  show ?case
  proof (cases "sample_owner i x s")
    case None
    then show ?thesis using "2.prems" by (auto intro!: exI [of _ "[]"])
  next
    case (Some da)
    obtain d a where da: "da = (d, a)" by (cases da)
    let ?r = "sample_input.extend x (resource_sample.fields (uuid e n) (ag_org a) (ag_owner a) i (dp_environment d) (clock e))"
    obtain stored rs where st: "store_sample ?r (samples t) = (stored, rs)" by (cases "store_sample ?r (samples t)")
    obtain good bad rest kept where "is = good @ bad # rest" "sample_owner i bad s = None"
      "save_samples e (n + 4) i good (saved @ [stored]) s (t\<lparr>samples := rs, alerts := evaluateResourceAlerts e (n + 1) stored (alerts t)\<rparr>)
         = (Inr kept, t')" "err = CodedError ''resource_identity_mismatch'' (Some 404)"
      using "2.IH" [OF Some da [symmetric] refl refl st [symmetric]] "2.prems" by (auto simp: Some da st)
    then show ?thesis by (intro exI [of _ "x # good"]) (auto simp: Some da st)
  qed
qed simp

lemma save_samples_owned:
  "save_samples e n i is saved s t = (Inr kept, t') \<Longrightarrow> x \<in> set is \<Longrightarrow> sample_owner i x s \<noteq> None"
  by (induction e n i "is" saved s t arbitrary: kept t' rule: save_samples.induct) (auto simp: Let_def split: option.splits prod.splits)

text \<open>
  C33. A resource report leaves in the store only samples that were there and samples of the server that signed it:
  within the bounds, of an agent that is deployed on that server and whose organization owns it. A report that is refused
  with a status changes neither the samples nor the servers. A report is accepted only if each of its samples belongs to a
  deployment of the server. Otherwise it ends with the error \<open>resource_identity_mismatch\<close>, the servers are not marked
  healthy, and the samples and alerts are exactly those of the report of the samples before the first foreign one: these
  stay in the store.
\<close>

theorem resource_reports_are_bounded_and_placed:
  assumes "route_resources e dt details valid machine body s t = (a, s', t')"
  shows "(\<forall>r. r \<in> set (samples t') \<longrightarrow> r \<in> set (samples t) \<or> (\<exists>i. machine = Some i \<and> sample_within r \<and> sample_placed s i r))
    \<and> (\<forall>st ids. a = Inr (st, ids) \<longrightarrow> st \<noteq> 202 \<longrightarrow> s' = s \<and> t' = t)
    \<and> (\<forall>ids. a = Inr (202, ids) \<longrightarrow> (\<exists>i. machine = Some i \<and> (\<forall>x\<in>set (reported_samples dt details body). sample_owner i x s \<noteq> None)))
    \<and> (\<forall>err. a = Inl err \<longrightarrow> err = CodedError ''resource_identity_mismatch'' (Some 404) \<and> s' = s \<and>
        (\<exists>i good bad rest kept. machine = Some i \<and> reported_samples dt details body = good @ bad # rest \<and> sample_owner i bad s = None
          \<and> saveAgentResourceSamples e i good s t = (Inr kept, t')))"
proof (cases machine)
  case (Some i)
  let ?vs = "case prop_at body ''samples'' of JArr vs \<Rightarrow> vs | _ \<Rightarrow> []"
  let ?xs = "map (resourceSample dt details) ?vs"
  have reported: "map (fst \<circ> the) ?xs = reported_samples dt details body" by (simp add: reported_samples_def)
  have kept: "r \<in> set (samples t) \<or> new_sample_ok s i r"
    if "r \<in> set (samples (snd (saveAgentResourceSamples e i (map (fst \<circ> the) ?xs) s t)))" "None \<notin> set ?xs" for r
    using save_samples_ok [OF parsed_samples_within [OF that(2)]] that(1) by (simp only: saveAgentResourceSamples_def)
  have stop: "err = CodedError ''resource_identity_mismatch'' (Some 404) \<and> (\<exists>good bad rest saved. reported_samples dt details body = good @ bad # rest
      \<and> sample_owner i bad s = None \<and> saveAgentResourceSamples e i good s t = (Inr saved, u))"
    if "saveAgentResourceSamples e i (map (fst \<circ> the) ?xs) s t = (Inl err, u)" for err u
    using save_samples_stop [OF that [unfolded reported saveAgentResourceSamples_def]] by (auto simp: saveAgentResourceSamples_def)
  have owned: "\<forall>x\<in>set (reported_samples dt details body). sample_owner i x s \<noteq> None"
    if "saveAgentResourceSamples e i (map (fst \<circ> the) ?xs) s t = (Inr saved, u)" for saved u
    using save_samples_owned [OF that [unfolded reported saveAgentResourceSamples_def]] by blast
  show ?thesis
    using assms kept stop owned Some
    by (cases "saveAgentResourceSamples e i (map (fst \<circ> the) ?xs) s t")
      (auto simp: route_resources_def Let_def new_sample_ok_def simp del: set_map split: if_split_asm option.split_asm sum.split_asm)
next
  case None
  then show ?thesis using assms by (auto simp: route_resources_def)
qed

lemma matches_RESOURCE_IDENTIFIER:
  "matches RESOURCE_IDENTIFIER s \<longleftrightarrow>
    s \<noteq> [] \<and> is_alnum (hd s) \<and> (\<forall>c\<in>set (tl s). is_alnum c \<or> one_of ''._:-'' c) \<and> length s \<le> 128"
  unfolding matches_iff RESOURCE_IDENTIFIER_def lang_Sq_Cls lang_Rep_Cls by (cases s) auto

definition reported_sample :: json where
  "reported_sample = JObj [(''agentId'', JStr ''a''), (''runtimeId'', JStr ''r''), (''deploymentId'', JStr ''d''),
     (''sequence'', JNum (Integer 1)), (''status'', JStr ''running''), (''observedAt'', JStr []), (''cpuPercent'', JNum (Integer 95))]"

definition sample_report :: json where
  "sample_report = JObj [(''serverId'', JStr ''s''), (''samples'', JArr [reported_sample])]"

definition report_agent :: agent where
  "report_agent = \<lparr>ag_id = ''a'', ag_org = ''o'', ag_owner = ''u'', ag_name = [], ag_description = [], ag_avatar = None,
     ag_soul = [], ag_status = [], ag_init = [], ag_desired = [], ag_settings = JNull, ag_errorCode = None,
     ag_errorDetail = None, ag_createdAt = 0, ag_updatedAt = 0\<rparr>"

definition report_fleet :: fleet_state where
  "report_fleet = (beat_fleet\<lparr>servers := [registered_server], agents := [(''a'', report_agent)],
     runtimes := map (\<lambda>(i, r). (i, r\<lparr>rt_deployment := Some ''d''\<rparr>)) (runtimes beat_fleet),
     deployments := [\<lparr>dp_id = ''d'', dp_org = ''o'', dp_agent = ''a'', dp_environment = ''production'', dp_observed = 0,
       dp_desired = 0, dp_server = ''s'', dp_name = [], dp_status = ''active'', dp_createdAt = 0\<rparr>]\<rparr>)"

lemma reported_sample_kept:
  "\<exists>r d. resourceSample sample_dates (\<lambda>_. JNull) reported_sample = Some (r, d) \<and> sm_agent r = ''a'' \<and> sm_runtime r = ''r'' \<and> sm_deployment r = ''d''"
proof -
  have "sample_ids reported_sample = Some (''a'', ''r'', ''d'')"
    by (simp add: sample_ids_def resource_identifier_def reported_sample_def at_object matches_RESOURCE_IDENTIFIER) code_simp
  moreover have "sample_sequence (prop_at reported_sample ''sequence'') = Some 1"
    by (simp add: sample_sequence_def reported_sample_def at_object is_safe_integer_def MAX_SAFE_INTEGER_def)
  moreover have "one_of_texts RESOURCE_STATUSES (prop_at reported_sample ''status'') = Some ''running''"
    by (simp add: one_of_texts_def reported_sample_def at_object RESOURCE_STATUSES_def)
  moreover have "instant_of sample_dates (prop_at reported_sample ''observedAt'') = Some 0"
    by (simp add: reported_sample_def at_object instant_of_def sample_dates_def)
  moreover have "\<exists>xs. resource_numbers reported_sample RESOURCE_NUMBERS = Some xs"
    by (simp add: resource_numbers_def RESOURCE_NUMBERS_def reported_sample_def at_object optionalResourceNumber_def nullish_def Let_def)
  moreover have "container_samples sample_dates reported_sample = Some []"
    by (simp add: container_samples_def reported_sample_def at_object)
  ultimately show ?thesis by (auto simp: resourceSample_def sample_of_def Let_def)
qed

theorem resource_reports_are_bounded_and_placed_witness:
  "\<exists>r s' t'. route_resources beat_env sample_dates (\<lambda>_. JNull) (\<lambda>_. True) (Some ''s'') sample_report report_fleet empty_telemetry =
     (Inr (202, [''h'']), s', t') \<and> samples t' = [r] \<and> sample_within r \<and> sample_placed report_fleet ''s'' r"
proof -
  let ?run = "route_resources beat_env sample_dates (\<lambda>_. JNull) (\<lambda>_. True) (Some ''s'') sample_report report_fleet empty_telemetry"
  obtain x d where x: "resourceSample sample_dates (\<lambda>_. JNull) reported_sample = Some (x, d)" "sm_agent x = ''a''" "sm_runtime x = ''r''"
    "sm_deployment x = ''d''"
    using reported_sample_kept by blast
  have owner: "\<exists>d a. sample_owner ''s'' x report_fleet = Some (d, a)"
    by (simp add: sample_owner_def x(2-4) report_fleet_def report_agent_def registered_server_def beat_fleet_def createAgentRuntime_def
        getAgentRuntimeByAgent_def createAgent_def empty_fleet_def Let_def)
  have server: "find (\<lambda>v. sv_id v = ''s'') (listServers None report_fleet) = Some registered_server"
    by (simp add: listServers_def report_fleet_def registered_server_def in_org_def)
  have "\<exists>r s' t'. ?run = (Inr (202, [''h'']), s', t') \<and> samples t' = [r]"
    using owner by (auto simp: route_resources_def sample_report_def at_object x(1) server saveAgentResourceSamples_def store_sample_def
        empty_telemetry_def beat_env_def sample_input.defs resource_sample.defs Let_def)
  then obtain r s' t' where run: "?run = (Inr (202, [''h'']), s', t')" "samples t' = [r]" by blast
  then show ?thesis
    using resource_reports_are_bounded_and_placed [OF run(1)] by (auto simp: empty_telemetry_def)
qed

end
