(* ===== verification/Agent_Initialization.thy ===== *)
theory Agent_Initialization
  imports Tenant_Records Authorization Sessions Control_Service Js_Object
begin

text \<open>
  Which model provider a new agent gets, \<open>apps/web/services/agent-initialization.mjs\<close>: the organization's, or one of
  the owner's with a key of the owner, which is stored as an authorization of the agent.

  The vault of the platform is an optional pair of functions, and \<open>new URL\<close> is a function from a text to the parts
  the code looks at. Texts have one character per code unit, as everywhere, so their lengths are the lengths the code
  looks at; the label of an authorization, which nothing looks into, is given by its bytes.
\<close>

section \<open>Endpoints and texts\<close>

record web_url =
  wu_protocol :: string
  wu_username :: string
  wu_password :: string
  wu_text :: string

record vault =
  va_seal :: "string \<Rightarrow> failure + json"
  va_open :: "json \<Rightarrow> failure + string"

record init_env =
  ie_vault :: "vault option"
  ie_url :: "string \<Rightarrow> web_url option"
  ie_show :: "json \<Rightarrow> string"
  ie_stringify :: "json \<Rightarrow> string"
  ie_parse :: "string \<Rightarrow> json option"

definition PROVIDER_ID :: rexp where
  "PROVIDER_ID = Sq (Cls (\<lambda>c. is_lower c \<or> is_digit c)) (Rep (Cls (\<lambda>c. is_lower c \<or> is_digit c \<or> one_of ''._-'' c)) 0 (Some 79))"

definition AUTHORIZATION_TYPES :: "string list" where
  "AUTHORIZATION_TYPES = [''api_key'', ''bearer_token'']"

definition AUTHORIZATION_LABEL :: string where
  "AUTHORIZATION_LABEL = ''Hermes '' @ map char_of [0xE6, 0x8E, 0xA8, 0xE7, 0x90, 0x86, 0xE6, 0xA8, 0xA1, 0xE5, 0x9E, 0x8B :: nat]"

definition providerEndpoint :: "init_env \<Rightarrow> json \<Rightarrow> string option" where
  "providerEndpoint ie v =
     (if nullish v \<or> v = JStr [] \<or> 2000 < length (ie_show ie v) then None
      else case ie_url ie (ie_show ie v) of
        None \<Rightarrow> None
      | Some u \<Rightarrow> if wu_protocol u \<noteq> ''https:'' \<or> wu_username u \<noteq> [] \<or> wu_password u \<noteq> [] then None
                  else Some (without_last_slash (wu_text u)))"

definition exposedError :: "string \<Rightarrow> int \<Rightarrow> failure" where
  "exposedError code st = CodedError code (Some st)"

definition one_line :: "string \<Rightarrow> bool" where
  "one_line s \<longleftrightarrow> set s \<inter> {CHR 0x00, CR, LF} = {}"

definition bare_text :: "json \<Rightarrow> string" where
  "bare_text v = (case v of JStr s \<Rightarrow> trim s | _ \<Rightarrow> [])"

text \<open>\<open>String(a || b || ...).trim()\<close>\<close>

fun first_truthy :: "json list \<Rightarrow> json" where
  "first_truthy [] = JUndefined"
| "first_truthy [v] = v"
| "first_truthy (v # vs) = (if truthy v then v else first_truthy vs)"

definition shown_first :: "init_env \<Rightarrow> json list \<Rightarrow> string" where
  "shown_first ie vs = trim (ie_show ie (first_truthy vs))"

section \<open>Authorizations\<close>

record opaque_provider =
  ov_provider :: string
  ov_baseUrl :: string
  ov_model :: string
  ov_hint :: "string option"
  ov_envelope :: json

definition opaqueProvider :: "string \<Rightarrow> string \<Rightarrow> string \<Rightarrow> string option \<Rightarrow> json \<Rightarrow> opaque_provider" where
  "opaqueProvider provider baseUrl model hint envelope =
     \<lparr>ov_provider = provider, ov_baseUrl = baseUrl, ov_model = model, ov_hint = (if hint = Some [] then None else hint), ov_envelope = envelope\<rparr>"

definition opaqueAuthorization :: "authorization \<Rightarrow> json" where
  "opaqueAuthorization a =
     JObj [(''id'', JStr (az_id a)), (''service'', JStr (az_service a)), (''label'', JStr (az_label a)), (''authType'', JStr (az_authType a)),
       (''endpointUrl'', case az_endpoint a of Some u \<Rightarrow> JStr u | None \<Rightarrow> JNull), (''metadata'', default (az_metadata a) (JObj [])),
       (''status'', JStr (az_status a)), (''configured'', JBool (case az_envelope a of Some v \<Rightarrow> truthy v | None \<Rightarrow> False)),
       (''credentialMasked'', case az_hint a of Some h \<Rightarrow> if h = [] then JNull else JStr (''****'' @ h) | None \<Rightarrow> JNull)]"

definition usable_authorization :: "authorization \<Rightarrow> bool" where
  "usable_authorization a \<longleftrightarrow>
     az_service a = ''model-provider'' \<and> az_status a = ''stored'' \<and> (case az_envelope a of Some v \<Rightarrow> truthy v | None \<Rightarrow> False)"

text \<open>The secret of a stored authorization; the parsed value may be anything.\<close>

definition secret_of :: "init_env \<Rightarrow> vault \<Rightarrow> json \<Rightarrow> failure + string" where
  "secret_of ie va envelope =
     (let bad = Inl (exposedError ''model_provider_credential_invalid'' 409)
      in case va_open va envelope of
        Inl _ \<Rightarrow> bad
      | Inr t \<Rightarrow> (case ie_parse ie t of
          None \<Rightarrow> bad
        | Some v \<Rightarrow> if bare_text (at v ''secret'') = [] then bad else Inr (bare_text (at v ''secret''))))"

definition resolveAgentAuthorization ::
  "init_env \<Rightarrow> principal \<Rightarrow> agent \<Rightarrow> ident \<Rightarrow> tenant_state \<Rightarrow> failure + (authorization \<times> string) option" where
  "resolveAgentAuthorization ie p a i s =
     (case (if i = [] then None else ie_vault ie) of
        None \<Rightarrow> Inr None
      | Some va \<Rightarrow> (case getAgentAuthorization (pr_org p) (pr_user p) (ag_id a) i s of
          None \<Rightarrow> Inr None
        | Some z \<Rightarrow>
            if \<not> usable_authorization z then Inr None
            else (case secret_of ie va (or_else (az_envelope z) JUndefined) of Inl err \<Rightarrow> Inl err | Inr secret \<Rightarrow> Inr (Some (z, secret)))))"

section \<open>The provider\<close>

record initialization =
  in_provider :: opaque_provider
  in_source :: string
  in_authorization :: "json option"

definition body_of :: "json \<Rightarrow> json" where
  "body_of body = (if is_object body then body else JObj [])"

definition hasInlineProvider :: "json \<Rightarrow> bool" where
  "hasInlineProvider input \<longleftrightarrow> list_ex (\<lambda>k. bare_text (at input k) \<noteq> []) [''provider'', ''baseUrl'', ''model'', ''apiKey'']"

definition authorization_id :: "json \<Rightarrow> string" where
  "authorization_id input = (case at input ''authorizationId'' of JStr i \<Rightarrow> i | _ \<Rightarrow> [])"

definition platform_provider :: "principal \<Rightarrow> fleet_state \<Rightarrow> failure + initialization" where
  "platform_provider p fleet =
     (case getProviderConfiguration (pr_org p) fleet of
        Some c \<Rightarrow>
          (case lp_envelope c of
             Some v \<Rightarrow> if truthy v \<and> lp_provider c \<noteq> [] \<and> lp_model c \<noteq> []
                         then Inr \<lparr>in_provider = opaqueProvider (lp_provider c) (lp_baseUrl c) (lp_model c) (lp_hint c) v,
                                in_source = ''platform'', in_authorization = None\<rparr>
                         else Inl (exposedError ''model_provider_not_configured'' 409)
           | None \<Rightarrow> Inl (exposedError ''model_provider_not_configured'' 409))
      | None \<Rightarrow> Inl (exposedError ''model_provider_not_configured'' 409))"

definition metadata_field :: "authorization option \<Rightarrow> string \<Rightarrow> json" where
  "metadata_field z k = (case z of Some a \<Rightarrow> at (az_metadata a) k | None \<Rightarrow> JUndefined)"

definition given_key :: "json \<Rightarrow> (authorization \<times> string) option \<Rightarrow> string" where
  "given_key input requested = (case requested of Some (_, secret) \<Rightarrow> secret | None \<Rightarrow> bare_text (at input ''apiKey''))"

text \<open>The key that is used: the requested or given one, or the one that is stored.\<close>

definition chosen_key ::
  "init_env \<Rightarrow> principal \<Rightarrow> agent \<Rightarrow> json \<Rightarrow> (authorization \<times> string) option \<Rightarrow> authorization option \<Rightarrow> tenant_state \<Rightarrow> failure + string" where
  "chosen_key ie p a input requested existing s =
     (case existing of
        Some z \<Rightarrow>
          if given_key input requested = [] \<and> (case az_envelope z of Some v \<Rightarrow> truthy v | None \<Rightarrow> False) then
            (case resolveAgentAuthorization ie p a (az_id z) s of Inl err \<Rightarrow> Inl err
             | Inr None \<Rightarrow> Inr [] | Inr (Some (_, secret)) \<Rightarrow> Inr secret)
          else Inr (given_key input requested)
      | None \<Rightarrow> Inr (given_key input requested))"

record owner_provider =
  wp_provider :: string
  wp_baseUrl :: "string option"
  wp_model :: string
  wp_authType :: string

definition owner_provider_of :: "init_env \<Rightarrow> agent \<Rightarrow> json \<Rightarrow> authorization option \<Rightarrow> owner_provider" where
  "owner_provider_of ie a input z =
     \<lparr>wp_provider = lower_case (shown_first ie [at input ''provider'', metadata_field z ''provider'', JStr ''custom'']),
      wp_baseUrl = providerEndpoint ie (default (at input ''baseUrl'')
        (case z of None \<Rightarrow> JUndefined | Some x \<Rightarrow> (case az_endpoint x of Some u \<Rightarrow> JStr u | None \<Rightarrow> JNull))),
      wp_model = shown_first ie [at input ''model'', metadata_field z ''model'', at (ag_settings a) ''preferredModel'', JStr []],
      wp_authType = shown_first ie [at input ''authType'', case z of Some x \<Rightarrow> JStr (az_authType x) | None \<Rightarrow> JUndefined, JStr ''api_key'']\<rparr>"

definition owner_provider_error :: "model_policy option \<Rightarrow> owner_provider \<Rightarrow> failure option" where
  "owner_provider_error policy w =
     (if \<not> matches PROVIDER_ID (wp_provider w) \<or> wp_baseUrl w \<in> {None, Some []} \<or> wp_model w = [] \<or> 200 < length (wp_model w) \<or> \<not> one_line (wp_model w)
         \<or> wp_authType w \<notin> set AUTHORIZATION_TYPES
      then Some (exposedError ''invalid_hermes_provider_configuration'' 400)
      else case policy of
        Some m \<Rightarrow> if mp_allowed m \<noteq> [] \<and> wp_model w \<notin> set (mp_allowed m) then Some (exposedError ''model_not_allowed'' 400) else None
      | None \<Rightarrow> None)"

definition store_key ::
  "env \<Rightarrow> init_env \<Rightarrow> vault \<Rightarrow> principal \<Rightarrow> agent \<Rightarrow> authorization option \<Rightarrow> owner_provider \<Rightarrow> string \<Rightarrow> string \<Rightarrow> tenant_state \<Rightarrow>
     (failure + initialization) \<times> tenant_state" where
  "store_key e ie va p a existing w baseUrl key s =
     (case va_seal va (ie_stringify ie (JObj [(''secret'', JStr key)])) of
        Inl err \<Rightarrow> (Inl err, s)
      | Inr envelope \<Rightarrow>
          (let (z, s1) = upsertAgentAuthorization e
                 \<lparr>azi_id = map_option az_id existing, azi_org = pr_org p, azi_user = pr_user p, azi_agent = ag_id a,
                  azi_service = ''model-provider'',
                  azi_label = (case existing of Some x \<Rightarrow> if az_label x = [] then AUTHORIZATION_LABEL else az_label x | None \<Rightarrow> AUTHORIZATION_LABEL),
                  azi_authType = wp_authType w, azi_endpoint = Some baseUrl, azi_envelope = envelope, azi_hint = secretHint (Some key),
                  azi_metadata = Some (JObj [(''provider'', JStr (wp_provider w)), (''model'', JStr (wp_model w))])\<rparr> s;
               s2 = snd (markAgentAuthorizationUsed e (az_id z) s1)
           in case va_seal va key of
                Inl err \<Rightarrow> (Inl err, s2)
              | Inr sealed \<Rightarrow>
                  (Inr \<lparr>in_provider = opaqueProvider (wp_provider w) baseUrl (wp_model w) (Some (secretHint (Some key))) sealed,
                     in_source = ''agent'', in_authorization = Some (opaqueAuthorization z)\<rparr>, s2)))"

definition owner_initialization ::
  "env \<Rightarrow> init_env \<Rightarrow> principal \<Rightarrow> agent \<Rightarrow> json \<Rightarrow> (authorization \<times> string) option \<Rightarrow> authorization option \<Rightarrow> tenant_state \<Rightarrow>
     (failure + initialization) \<times> tenant_state" where
  "owner_initialization e ie p a input requested existing s =
     (let policy = getModelPolicy (pr_org p) s; w = owner_provider_of ie a input existing
      in if (case policy of Some m \<Rightarrow> \<not> mp_customKeys m | None \<Rightarrow> False) then (Inl (exposedError ''user_custom_keys_disabled'' 403), s)
         else case ie_vault ie of
           None \<Rightarrow> (Inl (exposedError ''secret_storage_unavailable'' 503), s)
         | Some va \<Rightarrow>
             if (case existing of Some z \<Rightarrow> \<not> usable_authorization z | None \<Rightarrow> False)
             then (Inl (exposedError ''model_provider_authorization_unavailable'' 409), s)
             else (case (owner_provider_error policy w, wp_baseUrl w) of
                 (None, Some baseUrl) \<Rightarrow>
                   (case chosen_key ie p a input requested existing s of
                      Inl err \<Rightarrow> (Inl err, s)
                    | Inr key \<Rightarrow>
                        if key = [] \<or> 64000 < length key \<or> \<not> one_line key then (Inl (exposedError ''provider_api_key_required'' 400), s)
                        else store_key e ie va p a existing w baseUrl key s)
               | (Some err, _) \<Rightarrow> (Inl err, s)
               | (None, None) \<Rightarrow> (Inl (exposedError ''invalid_hermes_provider_configuration'' 400), s)))"

definition request_error :: "principal \<Rightarrow> agent \<Rightarrow> json \<Rightarrow> string \<Rightarrow> failure option" where
  "request_error p a input mode =
     (let named = hasInlineProvider input \<or> authorization_id input \<noteq> []
      in if pr_org p \<noteq> ag_org a \<or> pr_user p \<noteq> ag_owner a then Some (exposedError ''agent_not_found'' 404)
         else if mode \<notin> {[], ''agent'', ''platform''} then Some (exposedError ''invalid_provider_mode'' 400)
         else if ag_init a = ''ready'' \<and> named then Some (exposedError ''agent_already_initialized'' 409)
         else if ag_init a = ''provisioning'' \<and> named then Some (exposedError ''agent_initialization_in_progress'' 409)
         else if mode = ''platform'' \<and> named then Some (exposedError ''invalid_provider_mode'' 400)
         else None)"

definition existing_authorization :: "principal \<Rightarrow> agent \<Rightarrow> (authorization \<times> string) option \<Rightarrow> tenant_state \<Rightarrow> authorization option" where
  "existing_authorization p a requested s =
     (case requested of Some (z, _) \<Rightarrow> Some z
      | None \<Rightarrow> List.find usable_authorization (listAgentAuthorizations (Some (pr_org p)) (Some (pr_user p)) (Some (ag_id a)) s))"

definition provider_mode :: "json \<Rightarrow> string \<Rightarrow> authorization option \<Rightarrow> string" where
  "provider_mode input mode existing =
     (if mode \<noteq> [] then mode else if hasInlineProvider input \<or> existing \<noteq> None then ''agent'' else ''platform'')"

definition agentInitializationProvider ::
  "env \<Rightarrow> init_env \<Rightarrow> principal \<Rightarrow> agent \<Rightarrow> json \<Rightarrow> fleet_state \<Rightarrow> tenant_state \<Rightarrow> (failure + initialization) \<times> tenant_state" where
  "agentInitializationProvider e ie p a body fleet s =
     (let input = body_of body; mode = bare_text (at input ''mode'')
      in case request_error p a input mode of
        Some err \<Rightarrow> (Inl err, s)
      | None \<Rightarrow>
          (case resolveAgentAuthorization ie p a (authorization_id input) s of
             Inl err \<Rightarrow> (Inl err, s)
           | Inr requested \<Rightarrow>
               if authorization_id input \<noteq> [] \<and> requested = None then (Inl (exposedError ''authorization_not_found'' 404), s)
               else (let existing = existing_authorization p a requested s
                 in if provider_mode input mode existing = ''platform'' then (platform_provider p fleet, s)
                    else owner_initialization e ie p a input requested existing s)))"

section \<open>What an initialization uses\<close>

definition vault_lawful :: "vault \<Rightarrow> bool" where
  "vault_lawful va \<longleftrightarrow> (\<forall>t v. va_seal va t = Inr v \<longrightarrow> va_open va v = Inr t)"

lemma request_error_none: "request_error p a input mode = None \<Longrightarrow> pr_org p = ag_org a \<and> pr_user p = ag_owner a"
  by (simp add: request_error_def Let_def split: if_splits)

lemma endpoint_is_https:
  "providerEndpoint ie v = Some u \<Longrightarrow> \<exists>t w. ie_url ie t = Some w \<and> wu_protocol w = ''https:'' \<and> wu_username w = [] \<and> wu_password w = []
    \<and> u = without_last_slash (wu_text w)"
  by (auto simp: providerEndpoint_def split: if_splits option.splits)

lemma upserted_member:
  assumes "upsert same put rs = (r, rs')"
  shows "r \<in> set rs'"
proof (cases "List.find same rs")
  case None
  then show ?thesis using assms by (auto simp: upsert_def)
next
  case (Some x)
  then show ?thesis using assms mem_upd_first [OF Some, of "\<lambda>r. put (Some r)"] by (auto simp: upsert_def)
qed

definition stored_for :: "authorization_input \<Rightarrow> authorization \<Rightarrow> bool" where
  "stored_for i z \<longleftrightarrow> az_org z = azi_org i \<and> az_user z = azi_user i \<and> az_agent z = azi_agent i \<and> az_service z = azi_service i
     \<and> az_status z = ''stored'' \<and> az_envelope z = Some (azi_envelope i)"

lemma upserted_authorization:
  assumes "upsertAgentAuthorization e i s = (z, s1)"
  shows "stored_for i z \<and> z \<in> set (authorizations s1)"
proof -
  obtain as where up: "upsert (\<lambda>a. authorization_key a = authorization_request_key i) (put_authorization e i) (authorizations s) = (z, as)"
    and s1: "s1 = s\<lparr>authorizations := as\<rparr>"
    using assms by (auto simp: upsertAgentAuthorization_def split: prod.splits)
  have "\<exists>old. z = put_authorization e i old" using up by (auto simp: upsert_def split: option.splits)
  then show ?thesis using upserted_member [OF up] s1 by (auto simp: stored_for_def put_authorization_def)
qed

lemma marked_authorization:
  assumes "z \<in> set (authorizations s)" and "stored_for i z"
  shows "\<exists>y\<in>set (authorizations (snd (markAgentAuthorizationUsed e n s))). stored_for i y"
proof (cases "List.find (\<lambda>a. az_id a = n) (authorizations s)")
  case None
  then show ?thesis using assms by (auto simp: markAgentAuthorizationUsed_def)
next
  case (Some a)
  let ?f = "\<lambda>a. a\<lparr>az_usedAt := Some (clock e)\<rparr>"
  have "\<exists>y\<in>set (upd_first (\<lambda>a. az_id a = n) ?f xs). stored_for i y" if "z \<in> set xs" for xs
    using that assms(2) by (induction xs) (auto simp: stored_for_def)
  then show ?thesis using Some assms(1) by (simp add: markAgentAuthorizationUsed_def Let_def)
qed

text \<open>The key is kept for the agent: an authorization of its owner opens to a document with the key.\<close>

definition key_is_kept :: "init_env \<Rightarrow> vault \<Rightarrow> agent \<Rightarrow> string \<Rightarrow> tenant_state \<Rightarrow> bool" where
  "key_is_kept ie va a key s \<longleftrightarrow>
     (\<exists>z\<in>set (authorizations s). az_org z = ag_org a \<and> az_user z = ag_owner a \<and> az_agent z = ag_id a \<and> az_service z = ''model-provider''
        \<and> az_status z = ''stored''
        \<and> (\<exists>v. az_envelope z = Some v \<and> va_open va v = Inr (ie_stringify ie (JObj [(''secret'', JStr key)]))))"

lemma stored_key:
  assumes "store_key e ie va p a existing w baseUrl key s = (Inr r, s')" and "vault_lawful va"
    and "pr_org p = ag_org a" and "pr_user p = ag_owner a"
  shows "in_source r = ''agent'' \<and> va_open va (ov_envelope (in_provider r)) = Inr key \<and> ov_model (in_provider r) = wp_model w
    \<and> ov_baseUrl (in_provider r) = baseUrl \<and> key_is_kept ie va a key s'"
proof -
  obtain i z s1 sealed where up: "upsertAgentAuthorization e i s = (z, s1)"
    and i: "azi_org i = pr_org p" "azi_user i = pr_user p" "azi_agent i = ag_id a" "azi_service i = ''model-provider''"
      "va_seal va (ie_stringify ie (JObj [(''secret'', JStr key)])) = Inr (azi_envelope i)"
    and s': "s' = snd (markAgentAuthorizationUsed e (az_id z) s1)" "va_seal va key = Inr sealed"
    and r: "r = \<lparr>in_provider = opaqueProvider (wp_provider w) baseUrl (wp_model w) (Some (secretHint (Some key))) sealed,
      in_source = ''agent'', in_authorization = Some (opaqueAuthorization z)\<rparr>"
    using assms(1) by (fastforce simp: store_key_def Let_def split: sum.splits prod.splits)
  obtain y where y: "y \<in> set (authorizations s')" "stored_for i y"
    using upserted_authorization [OF up] marked_authorization s'(1) by blast
  have "key_is_kept ie va a key s'"
    using y i assms(2-4) unfolding key_is_kept_def by (intro bexI [OF _ y(1)]) (simp add: stored_for_def vault_lawful_def)
  then show ?thesis using s'(2) assms(2) by (simp add: r opaqueProvider_def vault_lawful_def)
qed

definition policy_permits :: "model_policy option \<Rightarrow> string \<Rightarrow> bool" where
  "policy_permits policy model \<longleftrightarrow>
     (case policy of None \<Rightarrow> True | Some m \<Rightarrow> mp_customKeys m \<and> (mp_allowed m = [] \<or> model \<in> set (mp_allowed m)))"

text \<open>
  C35. An initialization is made only for the owner of the agent. It uses either the provider of the organization, which
  changes nothing, or one of the owner: then the policy allows keys of owners and the model, the endpoint is an HTTPS address
  without credentials, and the key it hands over is a line of text that is also kept for the agent, sealed.
\<close>

theorem initialized_providers_are_permitted:
  assumes "agentInitializationProvider e ie p a body fleet s = (Inr r, s')" and "\<And>va. ie_vault ie = Some va \<Longrightarrow> vault_lawful va"
  shows "pr_org p = ag_org a \<and> pr_user p = ag_owner a \<and>
    (in_source r = ''platform'' \<and> s' = s \<and> (\<exists>c. getProviderConfiguration (ag_org a) fleet = Some c
         \<and> lp_envelope c = Some (ov_envelope (in_provider r)) \<and> lp_model c = ov_model (in_provider r))
     \<or> in_source r = ''agent'' \<and> policy_permits (getModelPolicy (ag_org a) s) (ov_model (in_provider r))
         \<and> (\<exists>t u. ie_url ie t = Some u \<and> wu_protocol u = ''https:'' \<and> wu_username u = [] \<and> wu_password u = []
              \<and> ov_baseUrl (in_provider r) = without_last_slash (wu_text u))
         \<and> (\<exists>va key. ie_vault ie = Some va \<and> va_open va (ov_envelope (in_provider r)) = Inr key \<and> key \<noteq> [] \<and> one_line key
              \<and> key_is_kept ie va a key s'))"
proof -
  let ?input = "body_of body"
  let ?mode = "bare_text (at ?input ''mode'')"
  have "request_error p a ?input ?mode = None" using assms(1) by (auto simp: agentInitializationProvider_def Let_def split: option.splits)
  then have owner: "pr_org p = ag_org a" "pr_user p = ag_owner a" using request_error_none by blast+
  obtain requested where requested: "(if provider_mode ?input ?mode (existing_authorization p a requested s) = ''platform''
      then (platform_provider p fleet, s)
      else owner_initialization e ie p a ?input requested (existing_authorization p a requested s) s) = (Inr r, s')"
    using assms(1) by (auto simp: agentInitializationProvider_def Let_def split: option.splits sum.splits if_splits)
  show ?thesis
  proof (cases "provider_mode ?input ?mode (existing_authorization p a requested s) = ''platform''")
    case True
    then show ?thesis
      using requested owner by (auto simp: platform_provider_def opaqueProvider_def split: option.splits if_splits)
  next
    case False
    let ?existing = "existing_authorization p a requested s"
    let ?w = "owner_provider_of ie a ?input ?existing"
    have run: "owner_initialization e ie p a ?input requested ?existing s = (Inr r, s')" using requested False by simp
    obtain va baseUrl key where va: "ie_vault ie = Some va" "wp_baseUrl ?w = Some baseUrl" "owner_provider_error (getModelPolicy (pr_org p) s) ?w = None"
      "key \<noteq> []" "one_line key" "store_key e ie va p a ?existing ?w baseUrl key s = (Inr r, s')"
      "\<not> (case getModelPolicy (pr_org p) s of Some m \<Rightarrow> \<not> mp_customKeys m | None \<Rightarrow> False)"
      using run by (auto simp: owner_initialization_def Let_def split: option.split_asm sum.split_asm if_split_asm)
    have "policy_permits (getModelPolicy (ag_org a) s) (wp_model ?w)"
      using va(3,7) owner by (auto simp: policy_permits_def owner_provider_error_def split: option.splits if_splits)
    moreover have "\<exists>t u. ie_url ie t = Some u \<and> wu_protocol u = ''https:'' \<and> wu_username u = [] \<and> wu_password u = [] \<and> baseUrl = without_last_slash (wu_text u)"
      using va(2) endpoint_is_https by (simp add: owner_provider_of_def)
    ultimately show ?thesis
      using stored_key [OF va(6) assms(2) [OF va(1)] owner] va(1,4,5) owner by auto
  qed
qed

lemma matches_PROVIDER_ID:
  "matches PROVIDER_ID s \<longleftrightarrow>
    s \<noteq> [] \<and> (is_lower (hd s) \<or> is_digit (hd s)) \<and> (\<forall>c\<in>set (tl s). is_lower c \<or> is_digit c \<or> one_of ''._-'' c) \<and> length s \<le> 80"
  unfolding matches_iff PROVIDER_ID_def lang_Sq_Cls lang_Rep_Cls by (cases s) auto

definition plain_vault :: vault where
  "plain_vault = \<lparr>va_seal = (\<lambda>t. Inr (JStr t)), va_open = (\<lambda>v. case v of JStr t \<Rightarrow> Inr t | _ \<Rightarrow> Inl (TypeError []))\<rparr>"

definition plain_init :: init_env where
  "plain_init = \<lparr>ie_vault = Some plain_vault, ie_url = (\<lambda>t. Some \<lparr>wu_protocol = ''https:'', wu_username = [], wu_password = [], wu_text = t\<rparr>),
     ie_show = (\<lambda>v. case v of JStr t \<Rightarrow> t | _ \<Rightarrow> []), ie_stringify = (\<lambda>_. ''doc''), ie_parse = (\<lambda>_. None)\<rparr>"

definition new_agent :: agent where
  "new_agent = \<lparr>ag_id = ''a'', ag_org = ''o'', ag_owner = ''u'', ag_name = [], ag_description = [], ag_avatar = None,
     ag_soul = [], ag_status = [], ag_init = ''pending'', ag_desired = [], ag_settings = JObj [], ag_errorCode = None,
     ag_errorDetail = None, ag_createdAt = 0, ag_updatedAt = 0\<rparr>"

definition init_body :: json where
  "init_body = JObj [(''baseUrl'', JStr ''https://x/''), (''model'', JStr ''m''), (''apiKey'', JStr ''key'')]"

lemma plain_store_key: "\<exists>r s'. store_key e ie plain_vault p a z w u k s = (Inr r, s')"
  by (simp add: store_key_def plain_vault_def Let_def split_beta)

theorem initialized_providers_are_permitted_witness:
  "\<exists>r s'. agentInitializationProvider \<lparr>clock = 1, uuid = (\<lambda>_. ''i'')\<rparr> plain_init \<lparr>pr_user = ''u'', pr_org = ''o'', pr_role = ''user''\<rparr>
     new_agent init_body empty_fleet empty_tenant = (Inr r, s') \<and> in_source r = ''agent''
     \<and> key_is_kept plain_init plain_vault new_agent ''key'' s'"
proof -
  let ?e = "\<lparr>clock = 1, uuid = (\<lambda>_. ''i'')\<rparr>" and ?p = "\<lparr>pr_user = ''u'', pr_org = ''o'', pr_role = ''user''\<rparr>"
  let ?run = "agentInitializationProvider ?e plain_init ?p new_agent init_body empty_fleet empty_tenant"
  have lawful: "vault_lawful va" if "ie_vault plain_init = Some va" for va
    using that by (auto simp: plain_init_def plain_vault_def vault_lawful_def)
  have texts: "trim ''m'' = ''m''" "trim ''key'' = ''key''" "trim ''https://x/'' = ''https://x/''" "trim ''custom'' = ''custom''" "trim ''api_key'' = ''api_key''"
    "lower_case ''custom'' = ''custom''" "trim [] = []" by code_simp+
  have id: "matches PROVIDER_ID ''custom''" by (simp add: matches_PROVIDER_ID) code_simp
  let ?w = "owner_provider_of plain_init new_agent init_body None"
  have w: "wp_provider ?w = ''custom''" "wp_baseUrl ?w = Some ''https://x''" "wp_model ?w = ''m''" "wp_authType ?w = ''api_key''"
    by (simp_all add: owner_provider_of_def shown_first_def init_body_def metadata_field_def new_agent_def at_def prop_of_def truthy_def
        plain_init_def texts providerEndpoint_def default_def nullish_def without_last_slash_def)
  have "owner_provider_error None ?w = None"
    by (simp add: owner_provider_error_def w id one_line_def AUTHORIZATION_TYPES_def)
  moreover have "ie_vault plain_init = Some plain_vault" by (simp add: plain_init_def)
  moreover have "request_error ?p new_agent init_body [] = None"
    by (simp add: request_error_def new_agent_def authorization_id_def init_body_def at_def prop_of_def Let_def)
  moreover have "bare_text (at init_body ''mode'') = []" "body_of init_body = init_body" "authorization_id init_body = []"
    by (simp_all add: bare_text_def init_body_def at_def prop_of_def body_of_def is_object_def authorization_id_def)
  moreover have "existing_authorization ?p new_agent None empty_tenant = None" "getModelPolicy ''o'' empty_tenant = None"
    by (simp_all add: existing_authorization_def listAgentAuthorizations_def empty_tenant_def getModelPolicy_def)
  moreover have "hasInlineProvider init_body"
    by (simp add: hasInlineProvider_def init_body_def bare_text_def at_def prop_of_def texts)
  moreover have "given_key init_body None = ''key''"
    by (simp add: given_key_def init_body_def bare_text_def at_def prop_of_def texts)
  ultimately have run: "?run = store_key ?e plain_init plain_vault ?p new_agent None ?w ''https://x'' ''key'' empty_tenant"
    by (simp add: agentInitializationProvider_def resolveAgentAuthorization_def provider_mode_def owner_initialization_def chosen_key_def w
        one_line_def Let_def)
  obtain r s' where rs: "?run = (Inr r, s')" using plain_store_key unfolding run by blast
  have "in_source r = ''agent'' \<and> key_is_kept plain_init plain_vault new_agent ''key'' s'"
    using stored_key [of ?e plain_init plain_vault ?p new_agent None ?w "''https://x''" "''key''" empty_tenant r s'] rs lawful
    unfolding run by (simp add: new_agent_def plain_init_def)
  then show ?thesis using rs initialized_providers_are_permitted [OF rs lawful] by blast
qed

end
