(* ===== verification/Runtime_Client.thy ===== *)
theory Runtime_Client
  imports Internal_Channels Authorization Byte_Codec Control_Service Js_Object
begin

text \<open>
  How the platform calls the runtime of an agent, \<open>packages/server-protocol/runtime-client.mjs\<close>: the scope of the owner that
  every request carries, the signed post, messages, integrations and operations.

  A call returns its result or throws, and the list of the requests it sent. The clock, the identifiers, \<open>fetch\<close>, the
  resolver of routes and the contract validators are the fields of \<open>runtime_env\<close>.
\<close>

section \<open>The client\<close>

record runtime_post =
  rq_url :: string
  rq_timestamp :: string
  rq_nonce :: string
  rq_signature :: string
  rq_body :: string

datatype runtime_reply = Parsed json | Streamed

record runtime_env =
  re_crypto :: crypto
  re_stringify :: "json \<Rightarrow> string"
  re_show :: "json \<Rightarrow> string"
  re_now :: int
  re_created :: string
  re_uuid :: "nat \<Rightarrow> string"
  re_fetch :: "runtime_post \<Rightarrow> failure + bool \<times> json option"
  re_resolve :: "json \<Rightarrow> failure + json"
  re_request :: "json \<Rightarrow> failure option"
  re_integration :: "json \<Rightarrow> failure option"
  re_operation :: "json \<Rightarrow> failure option"
  re_stream :: "json \<Rightarrow> failure option"
  re_runtimeProtocol :: string
  re_dataProtocol :: string

record runtime_client =
  rc_baseUrl :: string
  rc_sharedSecret :: string
  rc_systemScope :: json
  rc_timeout :: json

definition text_hash :: "runtime_env \<Rightarrow> string \<Rightarrow> string" where
  "text_hash re s = to_hex (sha256 (re_crypto re) s)"

definition client_workspace :: "runtime_env \<Rightarrow> json \<Rightarrow> failure + string" where
  "client_workspace re ref = workspaceIdFromRef (text_hash re) (if nullish ref then [] else re_show re ref)"

definition runtimeClient :: "runtime_env \<Rightarrow> json \<Rightarrow> failure + runtime_client" where
  "runtimeClient re opts =
     (case (if nullish (at opts ''systemOwnerScope'') \<and> nullish (at opts ''workspaceId'')
            then client_workspace re (default (at opts ''workspaceRef'') (JStr ''hermes:system'')) else Inr []) of
        Inl err \<Rightarrow> Inl err
      | Inr ws \<Rightarrow>
          (case at opts ''sharedSecret'' of
             JStr secret \<Rightarrow>
               if length secret < 32 then Inl (TypeError ''Runtime shared secret must contain at least 32 characters'')
               else Inr \<lparr>rc_baseUrl = without_last_slash (re_show re (default (at opts ''baseUrl'') (JStr ''http://127.0.0.1:8787''))),
                      rc_sharedSecret = secret,
                      rc_systemScope = default (at opts ''systemOwnerScope'')
                        (JObj [(''organization_id'', default (at opts ''organizationId'') (JStr ''org_bairui'')),
                           (''user_id'', default (at opts ''userId'') (JStr ''system'')), (''agent_id'', default (at opts ''agentId'') (JStr ''agent_bairui'')),
                           (''runtime_id'', default (at opts ''runtimeId'') (JStr ''runtime:system'')),
                           (''workspace_id'', default (at opts ''workspaceId'') (JStr ws))]),
                      rc_timeout = default (at opts ''timeoutMs'') (JNum (Integer 125000))\<rparr>
           | _ \<Rightarrow> Inl (TypeError ''Runtime shared secret must contain at least 32 characters'')))"

section \<open>Scopes\<close>

definition validateAgent :: "principal \<Rightarrow> json \<Rightarrow> failure option" where
  "validateAgent p a =
     (if \<not> truthy (at a ''id'') \<or> at a ''ownerUserId'' \<noteq> JStr (pr_user p) \<or> at a ''organizationId'' \<noteq> JStr (pr_org p)
      then Some (CodedError ''agent_ownership_mismatch'' (Some 403)) else None)"

text \<open>\<open>a ?? b ?? ... ?? z\<close>\<close>

definition first_given :: "json list \<Rightarrow> json \<Rightarrow> json" where
  "first_given vs z = foldr default vs z"

definition runtime_workspace :: "runtime_env \<Rightarrow> principal \<Rightarrow> json \<Rightarrow> json \<Rightarrow> failure + json" where
  "runtime_workspace re p a runtime =
     (let known = default (at runtime ''workspaceId'') (at runtime ''workspace_id'');
          ref = first_given [at runtime ''workspaceRef'', at runtime ''workspace_ref'', at (at runtime ''runtime'') ''workspaceRef'', at a ''workspaceRef'']
            (JStr (''hermes:'' @ pr_org p @ '':'' @ pr_user p @ '':'' @ re_show re (at a ''id'')))
      in if nullish known then map_sum id JStr (client_workspace re ref) else Inr known)"

definition owner_fields :: "runtime_env \<Rightarrow> principal \<Rightarrow> json \<Rightarrow> json \<Rightarrow> json \<Rightarrow> json \<Rightarrow> (string \<times> json) list" where
  "owner_fields re p a runtime ws conversation =
     [(''organization_id'', JStr (pr_org p)), (''user_id'', JStr (pr_user p)), (''agent_id'', at a ''id''),
      (''runtime_id'', first_given [at runtime ''runtimeId'', at runtime ''runtime_id'', at (at runtime ''runtime'') ''id'', at a ''runtimeId'']
         (JStr (''runtime:'' @ re_show re (at a ''id'')))),
      (''workspace_id'', ws)] @ (if truthy conversation then [(''conversation_id'', conversation)] else [])"

definition scope_of_owner :: "runtime_env \<Rightarrow> principal \<Rightarrow> json \<Rightarrow> json \<Rightarrow> json \<Rightarrow> failure + json" where
  "scope_of_owner re p a runtime conversation =
     (case validateAgent p a of Some err \<Rightarrow> Inl err
      | None \<Rightarrow>
          if runtime = JNull then Inl (TypeError ''Cannot read properties of null'')
          else (case runtime_workspace re p a runtime of Inl err \<Rightarrow> Inl err
            | Inr ws \<Rightarrow> Inr (JObj (owner_fields re p a runtime ws conversation))))"

section \<open>The signed post\<close>

definition runtime_signature :: "runtime_env \<Rightarrow> string \<Rightarrow> string \<Rightarrow> string \<Rightarrow> string \<Rightarrow> string" where
  "runtime_signature re body timestamp nonce secret =
     to_base64url (hmac (re_crypto re) (map of_char secret) (timestamp @ ''.'' @ nonce @ ''.'' @ body))"

type_synonym 'a sending = "(failure + 'a) \<times> runtime_post list"

definition unavailable_route :: failure where
  "unavailable_route = CodedError ''runtime_route_unavailable'' (Some 503)"

definition own_route :: "runtime_client \<Rightarrow> json" where
  "own_route rc = JObj [(''baseUrl'', JStr (rc_baseUrl rc)), (''sharedSecret'', JStr (rc_sharedSecret rc))]"

definition answer_of :: "runtime_env \<Rightarrow> bool \<Rightarrow> bool \<times> json option \<Rightarrow> failure + runtime_reply" where
  "answer_of re stream a =
     (let v = or_else (snd a) (JObj [])
      in if stream \<and> fst a then Inr Streamed
         else if fst a then Inr (Parsed v)
         else if nullish v then Inl (TypeError ''Cannot read properties of null'')
         else Inl (CodedError (re_show re (default (at v ''error'') (JStr ''runtime_unavailable''))) (Some 503)))"

definition signedPost :: "runtime_env \<Rightarrow> runtime_client \<Rightarrow> string \<Rightarrow> json \<Rightarrow> json \<Rightarrow> bool \<Rightarrow> runtime_reply sending" where
  "signedPost re rc path payload route stream =
     (let r = default route (own_route rc)
      in if \<not> truthy (at r ''baseUrl'') \<or> \<not> truthy (at r ''sharedSecret'') then (Inl unavailable_route, [])
         else (case at r ''sharedSecret'' of
             JStr secret \<Rightarrow>
               (let body = re_stringify re payload; timestamp = show_int (re_now re); nonce = re_uuid re 0;
                    q = \<lparr>rq_url = without_last_slash (re_show re (at r ''baseUrl'')) @ path, rq_timestamp = timestamp, rq_nonce = nonce,
                          rq_signature = runtime_signature re body timestamp nonce secret, rq_body = body\<rparr>
                in (case re_fetch re q of Inl err \<Rightarrow> Inl err | Inr a \<Rightarrow> answer_of re stream a, [q]))
           | _ \<Rightarrow> (Inl (TypeError ''The key argument must be of type string''), [])))"

section \<open>Messages\<close>

definition given_fields :: "json \<Rightarrow> (string \<times> string) list \<Rightarrow> (string \<times> json) list" where
  "given_fields v ks = List.map_filter (\<lambda>(k, from). if truthy (at v from) then Some (k, at v from) else None) ks"

definition channel_fields :: "json \<Rightarrow> json \<Rightarrow> json" where
  "channel_fields context conversation =
     JObj ([(''channel'', case at context ''channel'' of JStr c \<Rightarrow> if c = [] then JStr ''web'' else JStr c | _ \<Rightarrow> JStr ''web''),
        (''conversation_id'', at conversation ''id'')]
       @ given_fields context [(''binding_id'', ''bindingId''), (''channel_account_id'', ''channelAccountId''), (''external_sender_id'', ''externalSenderId''),
           (''external_message_id'', ''externalMessageId''), (''conversation_kind'', ''conversationKind'')])"

definition actor_of :: "principal \<Rightarrow> json" where
  "actor_of p = JObj [(''user_id'', JStr (pr_user p)), (''roles'', JArr [JStr (pr_role p)])]"

definition message_payload :: "runtime_env \<Rightarrow> principal \<Rightarrow> json \<Rightarrow> json \<Rightarrow> json \<Rightarrow> json \<Rightarrow> json \<Rightarrow> json \<Rightarrow> json" where
  "message_payload re p a osc conversation content model context =
     (let config = JStr (''config:'' @ pr_org p @ '':'' @ re_show re (at a ''id'')); i = JStr (re_uuid re 1); cs = channel_fields context conversation
      in JObj [(''schema_version'', JStr (re_runtimeProtocol re)),
           (''request'', JObj [(''request_id'', i), (''request_type'', JStr ''message''), (''owner_scope'', osc), (''actor'', actor_of p),
              (''channel_context'', cs), (''input'', JObj [(''content'', content)]), (''runtime_config_ref'', config),
              (''trace'', JObj [(''correlation_id'', i)]), (''created_at'', JStr (re_created re))]),
           (''config'', JObj [(''config_id'', config), (''model_policy'', JObj (if truthy model then [(''model'', model)] else [])),
              (''tool_policy'', JObj []), (''memory_policy'', JObj [(''scope'', JStr ''agent'')]),
              (''approval_policy'', JObj [(''mode'', JStr ''required-for-risky-actions'')]), (''storage_policy'', JObj []),
              (''integration_policy'', JObj []), (''channel_policy'', JObj [(''channel'', at cs ''channel'')])])])"

definition message_result :: "runtime_env \<Rightarrow> json \<Rightarrow> failure + json" where
  "message_result re response =
     (let r = at response ''result''; metadata = [(''requestId'', JStr (re_uuid re 1)), (''runId'', at r ''run_id''), (''status'', at r ''status'')]
      in if at r ''status'' = JStr ''completed'' then
           Inr (JObj [(''content'', default (at (at r ''reply'') ''content'') (JStr [])), (''metadata'', JObj metadata)])
         else if at r ''status'' = JStr ''requires_approval'' then
           Inr (JObj [(''content'', JStr ''This action requires administrator approval.''),
             (''metadata'', JObj (metadata @ [(''approval'', at r ''approval_request'')]))])
         else Inl (CodedError (re_show re (first_given [at (at r ''error'') ''code'', at r ''status''] (JStr ''runtime_failed''))) (Some 503)))"

definition reply_value :: "runtime_reply \<Rightarrow> json" where
  "reply_value r = (case r of Parsed v \<Rightarrow> v | Streamed \<Rightarrow> JOther)"

definition invoke :: "runtime_env \<Rightarrow> runtime_client \<Rightarrow> principal \<Rightarrow> json \<Rightarrow> json \<Rightarrow> json \<Rightarrow> json \<Rightarrow> json \<Rightarrow> json sending" where
  "invoke re rc p a conversation content model context =
     (case validateAgent p a of Some err \<Rightarrow> (Inl err, [])
      | None \<Rightarrow> (case re_resolve re a of Inl err \<Rightarrow> (Inl err, [])
          | Inr runtime \<Rightarrow> (case scope_of_owner re p a runtime (at conversation ''id'') of Inl err \<Rightarrow> (Inl err, [])
              | Inr osc \<Rightarrow>
                  if context = JNull \<or> nullish conversation then (Inl (TypeError ''Cannot read properties of null''), [])
                  else (let payload = message_payload re p a osc conversation content model context
                    in case re_request re payload of Some err \<Rightarrow> (Inl err, [])
                      | None \<Rightarrow> (case signedPost re rc ''/v1/runtime/requests'' payload runtime False of
                          (Inl err, posts) \<Rightarrow> (Inl err, posts)
                        | (Inr reply, posts) \<Rightarrow> if nullish (reply_value reply) then (Inl (TypeError ''Cannot read properties of null''), posts)
                                                else (message_result re (reply_value reply), posts))))))"

section \<open>Integrations and operations\<close>

definition integration_payload :: "runtime_env \<Rightarrow> runtime_client \<Rightarrow> json \<Rightarrow> json \<Rightarrow> json \<Rightarrow> json \<Rightarrow> json \<Rightarrow> json" where
  "integration_payload re rc osc integration capability input authorization =
     JObj [(''schema_version'', JStr (re_dataProtocol re)),
       (''request'', JObj ([(''request_id'', JStr (re_uuid re 1)), (''owner_scope'', osc), (''integration_id'', integration),
          (''capability'', capability), (''input'', input)]
          @ (if truthy authorization then [(''options'', JObj [(''authorization_id'', authorization)])] else [])
          @ [(''timeout_ms'', rc_timeout rc), (''trace'', JObj [(''correlation_id'', JStr (re_uuid re 1))])]))]"

definition post_integration :: "runtime_env \<Rightarrow> runtime_client \<Rightarrow> json \<Rightarrow> json \<Rightarrow> runtime_reply sending" where
  "post_integration re rc payload route =
     (case re_integration re payload of Some err \<Rightarrow> (Inl err, [])
      | None \<Rightarrow> signedPost re rc ''/v1/integrations/requests'' payload route False)"

text \<open>Without a principal and an agent the request is the platform's own.\<close>

definition invokeIntegration ::
  "runtime_env \<Rightarrow> runtime_client \<Rightarrow> (principal \<times> json) option \<Rightarrow> json \<Rightarrow> json \<Rightarrow> json \<Rightarrow> json \<Rightarrow> runtime_reply sending" where
  "invokeIntegration re rc owner integration capability input authorization =
     (case owner of
        None \<Rightarrow> post_integration re rc (integration_payload re rc (rc_systemScope rc) integration capability input authorization) JUndefined
      | Some (p, a) \<Rightarrow>
          (case validateAgent p a of Some err \<Rightarrow> (Inl err, [])
           | None \<Rightarrow> (case re_resolve re a of Inl err \<Rightarrow> (Inl err, [])
               | Inr runtime \<Rightarrow> (case scope_of_owner re p a runtime JUndefined of Inl err \<Rightarrow> (Inl err, [])
                   | Inr osc \<Rightarrow> post_integration re rc (integration_payload re rc osc integration capability input authorization) runtime))))"

definition operationEnvelope :: "runtime_env \<Rightarrow> principal \<Rightarrow> json \<Rightarrow> json \<Rightarrow> json \<Rightarrow> json \<Rightarrow> failure + json" where
  "operationEnvelope re p a operation input runtime =
     (case validateAgent p a of Some err \<Rightarrow> Inl err
      | None \<Rightarrow>
          if input = JNull then Inl (TypeError ''Cannot read properties of null'')
          else (case scope_of_owner re p a runtime (default (at input ''session_id'') (at input ''conversation_id'')) of Inl err \<Rightarrow> Inl err
          | Inr osc \<Rightarrow>
              Inr (JObj [(''schema_version'', JStr (re_runtimeProtocol re)), (''operation'', operation), (''owner_scope'', osc), (''actor'', actor_of p),
                (''channel_context'', JObj [(''channel'', JStr ''web''), (''conversation_id'', at input ''session_id'')]), (''input'', input),
                (''trace'', JObj [(''correlation_id'', JStr (re_uuid re 1))]), (''created_at'', JStr (re_created re))])))"

definition runtime_call ::
  "(json \<Rightarrow> failure option) \<Rightarrow> string \<Rightarrow> bool \<Rightarrow> runtime_env \<Rightarrow> runtime_client \<Rightarrow> principal \<Rightarrow> json \<Rightarrow> json \<Rightarrow> json \<Rightarrow> runtime_reply sending" where
  "runtime_call contract path stream re rc p a operation input =
     (case re_resolve re a of Inl err \<Rightarrow> (Inl err, [])
      | Inr runtime \<Rightarrow> (case operationEnvelope re p a operation input runtime of Inl err \<Rightarrow> (Inl err, [])
          | Inr payload \<Rightarrow> (case contract payload of Some err \<Rightarrow> (Inl err, []) | None \<Rightarrow> signedPost re rc path payload runtime stream)))"

definition operation_call :: "runtime_env \<Rightarrow> runtime_client \<Rightarrow> principal \<Rightarrow> json \<Rightarrow> json \<Rightarrow> json \<Rightarrow> runtime_reply sending" where
  "operation_call re = runtime_call (re_operation re) ''/v1/runtime/operations'' False re"

definition streamOperation :: "runtime_env \<Rightarrow> runtime_client \<Rightarrow> principal \<Rightarrow> json \<Rightarrow> json \<Rightarrow> json \<Rightarrow> runtime_reply sending" where
  "streamOperation re = runtime_call (re_stream re) ''/v1/runtime/streams'' True re"

section \<open>What is sent\<close>

text \<open>
  A request sent for an owner: the document names the principal and the agent, which is the principal's, and the
  signature is the one under the secret of the route of that agent.
\<close>

definition sent_for :: "runtime_env \<Rightarrow> runtime_client \<Rightarrow> principal \<Rightarrow> json \<Rightarrow> (json \<Rightarrow> json) \<Rightarrow> runtime_post \<Rightarrow> bool" where
  "sent_for re rc p a scope_in q \<longleftrightarrow>
     at a ''ownerUserId'' = JStr (pr_user p) \<and> at a ''organizationId'' = JStr (pr_org p)
     \<and> (\<exists>payload. rq_body q = re_stringify re payload \<and> at (scope_in payload) ''organization_id'' = JStr (pr_org p)
          \<and> at (scope_in payload) ''user_id'' = JStr (pr_user p) \<and> at (scope_in payload) ''agent_id'' = at a ''id'')
     \<and> (\<exists>runtime secret. re_resolve re a = Inr runtime \<and> at (default runtime (own_route rc)) ''sharedSecret'' = JStr secret
          \<and> rq_signature q = runtime_signature re (rq_body q) (rq_timestamp q) (rq_nonce q) secret)"

definition names_owner :: "principal \<Rightarrow> json \<Rightarrow> json \<Rightarrow> bool" where
  "names_owner p a osc \<longleftrightarrow>
     at osc ''organization_id'' = JStr (pr_org p) \<and> at osc ''user_id'' = JStr (pr_user p) \<and> at osc ''agent_id'' = at a ''id''"

lemma scope_names_owner:
  assumes "scope_of_owner re p a runtime conversation = Inr osc"
  shows "validateAgent p a = None \<and> names_owner p a osc"
proof -
  have valid: "validateAgent p a = None" using assms by (simp add: scope_of_owner_def split: option.split_asm)
  obtain ws where "osc = JObj (owner_fields re p a runtime ws conversation)"
    using assms by (auto simp: scope_of_owner_def split: option.split_asm if_split_asm sum.split_asm)
  then show ?thesis using valid by (simp add: names_owner_def owner_fields_def at_def prop_of_def)
qed

lemma valid_agent: "validateAgent p a = None \<Longrightarrow> at a ''ownerUserId'' = JStr (pr_user p) \<and> at a ''organizationId'' = JStr (pr_org p)"
  by (simp add: validateAgent_def split: if_splits)

lemma signed_post_sends:
  assumes "q \<in> set (snd (signedPost re rc path payload route stream))"
  shows "rq_body q = re_stringify re payload \<and> (\<exists>secret. at (default route (own_route rc)) ''sharedSecret'' = JStr secret
    \<and> rq_signature q = runtime_signature re (rq_body q) (rq_timestamp q) (rq_nonce q) secret)"
  using assms by (auto simp: signedPost_def Let_def split: if_split_asm json.split_asm)

text \<open>A call that posts a document with the scope of the owner under the agent's route.\<close>

lemma post_is_sent_for:
  assumes "q \<in> set (snd (signedPost re rc path payload runtime stream))" and "re_resolve re a = Inr runtime"
    and "validateAgent p a = None" and "names_owner p a (scope_in payload)"
  shows "sent_for re rc p a scope_in q"
  using signed_post_sends [OF assms(1)] valid_agent [OF assms(3)] assms(2,4) unfolding sent_for_def names_owner_def by blast

definition request_scope :: "json \<Rightarrow> json" where
  "request_scope v = at (at v ''request'') ''owner_scope''"

definition operation_scope :: "json \<Rightarrow> json" where
  "operation_scope v = at v ''owner_scope''"

lemma payload_scopes:
  "request_scope (message_payload re p a osc conversation content model context) = osc"
  "request_scope (integration_payload re rc osc integration capability input authorization) = osc"
  "operationEnvelope re p a operation input runtime = Inr v \<Longrightarrow>
     \<exists>c. scope_of_owner re p a runtime c = Inr (operation_scope v)"
  by (auto simp: request_scope_def message_payload_def integration_payload_def operationEnvelope_def operation_scope_def at_def prop_of_def Let_def
      split: option.split_asm if_split_asm sum.split_asm)

lemma invoke_sends:
  assumes "q \<in> set (snd (invoke re rc p a conversation content model context))"
  shows "sent_for re rc p a request_scope q"
proof -
  obtain runtime osc where r: "re_resolve re a = Inr runtime" "scope_of_owner re p a runtime (at conversation ''id'') = Inr osc"
    and q: "q \<in> set (snd (signedPost re rc ''/v1/runtime/requests'' (message_payload re p a osc conversation content model context) runtime False))"
    using assms by (fastforce simp: invoke_def Let_def split: option.split_asm sum.split_asm if_split_asm prod.split_asm)
  show ?thesis using post_is_sent_for [OF q r(1)] scope_names_owner [OF r(2)] payload_scopes(1) by simp
qed

lemma integration_sends:
  assumes "q \<in> set (snd (invokeIntegration re rc (Some (p, a)) integration capability input authorization))"
  shows "sent_for re rc p a request_scope q"
proof -
  obtain runtime osc where r: "re_resolve re a = Inr runtime" "scope_of_owner re p a runtime JUndefined = Inr osc"
    and q: "q \<in> set (snd (signedPost re rc ''/v1/integrations/requests'' (integration_payload re rc osc integration capability input authorization) runtime False))"
    using assms by (auto simp: invokeIntegration_def post_integration_def split: option.split_asm sum.split_asm)
  show ?thesis using post_is_sent_for [OF q r(1)] scope_names_owner [OF r(2)] payload_scopes(2) by simp
qed

lemma runtime_call_sends:
  assumes "q \<in> set (snd (runtime_call contract path stream re rc p a operation input))"
  shows "sent_for re rc p a operation_scope q"
proof -
  obtain runtime v where r: "re_resolve re a = Inr runtime" "operationEnvelope re p a operation input runtime = Inr v"
    and q: "q \<in> set (snd (signedPost re rc path v runtime stream))"
    using assms by (auto simp: runtime_call_def split: option.split_asm sum.split_asm)
  obtain c where "scope_of_owner re p a runtime c = Inr (operation_scope v)" using payload_scopes(3) [OF r(2)] by blast
  then show ?thesis using post_is_sent_for [OF q r(1)] scope_names_owner by blast
qed

text \<open>
  C34. Every message, integration request, operation and stream that the platform sends for a principal and an agent is
  about an agent of that principal, says so in its scope, and is signed under the secret of the route of that agent, or under
  that of the client where the resolver gives no route. Nothing is sent for an agent of someone else.
\<close>

theorem runtime_requests_are_scoped:
  "list_all (sent_for re rc p a request_scope) (snd (invoke re rc p a conversation content model context))
    \<and> list_all (sent_for re rc p a request_scope) (snd (invokeIntegration re rc (Some (p, a)) integration capability input authorization))
    \<and> list_all (sent_for re rc p a operation_scope) (snd (operation_call re rc p a operation input))
    \<and> list_all (sent_for re rc p a operation_scope) (snd (streamOperation re rc p a operation input))"
  using invoke_sends integration_sends runtime_call_sends
  by (auto simp: list_all_iff operation_call_def streamOperation_def)

end
