(* ===== verification/Delivery_Bundle.thy ===== *)
theory Delivery_Bundle
  imports Host_Files Byte_Codec Control_Service Js_Object
begin

text \<open>
  The bundle that installs a server, \<open>packages/deployment/bundle.mjs\<close>: the files that are written, the manifest with
  their digests, and the check of a bundle. A text is its bytes in UTF-8; JSON and the digest are parameters.
\<close>

section \<open>Contents\<close>

record bundle_env =
  be_crypto :: crypto
  be_stringify :: "json \<Rightarrow> string" \<comment> \<open>indented by two spaces\<close>
  be_parse :: "string \<Rightarrow> json option"
  be_show :: "json \<Rightarrow> string"
  be_now :: string

definition bundle_hash :: "bundle_env \<Rightarrow> string \<Rightarrow> string" where
  "bundle_hash be content = to_hex (sha256 (be_crypto be) content)"

definition createDeploymentConfig :: "bundle_env \<Rightarrow> json \<Rightarrow> failure + json" where
  "createDeploymentConfig be input =
     (if list_ex (\<lambda>k. \<not> truthy (at input k)) [''organizationId'', ''licenseId'', ''serverId'', ''platformUrl'']
      then Inl (TypeError ''organizationId, licenseId, serverId, and platformUrl are required'')
      else Inr (JObj [(''schemaVersion'', JStr ''1.0''), (''organizationId'', at input ''organizationId''), (''licenseId'', at input ''licenseId''),
        (''serverId'', at input ''serverId''), (''platformUrl'', JStr (without_last_slash (be_show be (at input ''platformUrl'')))),
        (''agentRef'', default (at input ''agentRef'') (JStr ''main'')), (''generatedAt'', default (at input ''generatedAt'') (JStr (be_now be)))]))"

definition bundle_text :: "bundle_env \<Rightarrow> json \<Rightarrow> string" where
  "bundle_text be v = be_stringify be v @ [LF]"

definition bundle_files :: "bundle_env \<Rightarrow> json \<Rightarrow> json \<Rightarrow> (string \<times> string) list" where
  "bundle_files be input config =
     [(''deployment.json'', bundle_text be config)] @
     (if truthy (at input ''licenseDocument'') then [(''license.json'', bundle_text be (at input ''licenseDocument''))] else [])"

definition bundle_manifest :: "bundle_env \<Rightarrow> (string \<times> string) list \<Rightarrow> json" where
  "bundle_manifest be files =
     JObj [(''schemaVersion'', JStr ''1.0''),
       (''files'', JObj (map (\<lambda>(name, content). (name, JObj [(''sha256'', JStr (bundle_hash be content)),
          (''bytes'', JNum (Integer (int (length content))))])) files))]"

section \<open>Writing and checking\<close>

text \<open>The files that were written before a failure stay.\<close>

fun write_files :: "path \<Rightarrow> (string \<times> string) list \<Rightarrow> files \<Rightarrow> failure option \<times> files" where
  "write_files p [] fs = (None, fs)"
| "write_files p ((name, content) # rest) fs =
     (case writeFileSync (join_path p name) content fs of Inl err \<Rightarrow> (Some err, fs) | Inr fs' \<Rightarrow> write_files p rest fs')"

definition writeDeliveryBundle :: "bundle_env \<Rightarrow> path \<Rightarrow> json \<Rightarrow> files \<Rightarrow> (failure + json) \<times> files" where
  "writeDeliveryBundle be p input fs =
     (case mkdirSync p fs of Inl err \<Rightarrow> (Inl err, fs)
      | Inr fs1 \<Rightarrow> (case createDeploymentConfig be input of Inl err \<Rightarrow> (Inl err, fs1)
          | Inr config \<Rightarrow>
              (let files = bundle_files be input config; manifest = bundle_manifest be files
               in case write_files p (files @ [(''manifest.json'', bundle_text be manifest)]) fs1 of
                    (Some err, fs2) \<Rightarrow> (Inl err, fs2)
                  | (None, fs2) \<Rightarrow> (Inr manifest, fs2))))"

text \<open>\<open>Object.entries\<close>: strings and arrays list their elements by index.\<close>

definition entries_of :: "json \<Rightarrow> failure + (string \<times> json) list" where
  "entries_of v =
     (case v of JObj kvs \<Rightarrow> Inr kvs
      | JArr vs \<Rightarrow> Inr (zip (map (show_int \<circ> int) [0..<length vs]) vs)
      | JStr s \<Rightarrow> Inr (zip (map (show_int \<circ> int) [0..<length s]) (map (\<lambda>c. JStr [c]) s))
      | JNull \<Rightarrow> Inl (TypeError ''Cannot convert undefined or null to object'')
      | JUndefined \<Rightarrow> Inl (TypeError ''Cannot convert undefined or null to object'')
      | _ \<Rightarrow> Inr [])"

definition check_file :: "bundle_env \<Rightarrow> path \<Rightarrow> files \<Rightarrow> string \<times> json \<Rightarrow> failure + string \<times> bool" where
  "check_file be p fs entry =
     (let target = join_path p (fst entry)
      in if \<not> existsSync fs target then Inr (fst entry, False)
         else (case readFileSync fs target of Inl err \<Rightarrow> Inl err
           | Inr content \<Rightarrow>
               if nullish (snd entry) then Inl (TypeError ''Cannot read properties of null'')
               else Inr (fst entry, JStr (bundle_hash be content) = at (snd entry) ''sha256''
                      \<and> JNum (Integer (int (length content))) = at (snd entry) ''bytes'')))"

fun check_files :: "bundle_env \<Rightarrow> path \<Rightarrow> files \<Rightarrow> (string \<times> json) list \<Rightarrow> failure + (string \<times> bool) list" where
  "check_files be p fs [] = Inr []"
| "check_files be p fs (x # xs) =
     (case check_file be p fs x of Inl err \<Rightarrow> Inl err
      | Inr c \<Rightarrow> (case check_files be p fs xs of Inl err \<Rightarrow> Inl err | Inr cs \<Rightarrow> Inr (c # cs)))"

definition verifyDeliveryBundle :: "bundle_env \<Rightarrow> path \<Rightarrow> files \<Rightarrow> failure + bool \<times> (string \<times> bool) list" where
  "verifyDeliveryBundle be p fs =
     (case readFileSync fs (join_path p ''manifest.json'') of Inl err \<Rightarrow> Inl err
      | Inr t \<Rightarrow> (case be_parse be t of None \<Rightarrow> Inl (PlainError ''Unexpected token in JSON'')
          | Some v \<Rightarrow>
              if nullish v then Inl (TypeError ''Cannot read properties of null'')
              else (case entries_of (at v ''files'') of Inl err \<Rightarrow> Inl err
                | Inr es \<Rightarrow> (case check_files be p fs es of Inl err \<Rightarrow> Inl err | Inr cs \<Rightarrow> Inr (list_all snd cs, cs)))))"

section \<open>What a check says\<close>

definition reads_as :: "files \<Rightarrow> path \<Rightarrow> (string \<times> string) list \<Rightarrow> bool" where
  "reads_as fs p files \<longleftrightarrow> list_all (\<lambda>(name, content). readFileSync fs (join_path p name) = Inr content) files"

lemma readFileSync_exists: "readFileSync fs p = Inr t \<Longrightarrow> existsSync fs p"
  by (auto simp: readFileSync_def existsSync_def stat_of_def split: option.splits)

definition manifest_entries :: "bundle_env \<Rightarrow> (string \<times> string) list \<Rightarrow> (string \<times> json) list" where
  "manifest_entries be files = map (\<lambda>(name, content). (name, JObj [(''sha256'', JStr (bundle_hash be content)),
     (''bytes'', JNum (Integer (int (length content))))])) files"

lemma entry_fields:
  "at (JObj [(''sha256'', x), (''bytes'', y)]) ''sha256'' = x" "at (JObj [(''sha256'', x), (''bytes'', y)]) ''bytes'' = y"
  "\<not> nullish (JObj kvs)"
  by (simp_all add: at_def prop_of_def nullish_def)

text \<open>What the manifest says of a file: its content has the length and the digest that were written.\<close>

definition recorded :: "bundle_env \<Rightarrow> files \<Rightarrow> path \<Rightarrow> string \<times> string \<Rightarrow> bool" where
  "recorded be fs p f \<longleftrightarrow>
     (\<exists>t. readFileSync fs (join_path p (fst f)) = Inr t \<and> length t = length (snd f) \<and> bundle_hash be t = bundle_hash be (snd f))"

lemma checked_files:
  "check_files be p fs (manifest_entries be files) = Inr cs \<and> list_all snd cs \<longleftrightarrow>
    cs = map (\<lambda>f. (fst f, True)) files \<and> (\<forall>f\<in>set files. recorded be fs p f)"
proof (induction files arbitrary: cs)
  case (Cons f files)
  obtain name content where f: "f = (name, content)" by (cases f)
  let ?x = "(name, JObj [(''sha256'', JStr (bundle_hash be content)), (''bytes'', JNum (Integer (int (length content))))])"
  have one: "check_file be p fs ?x = Inr (name, True) \<longleftrightarrow> recorded be fs p f"
    using readFileSync_exists by (auto simp: check_file_def Let_def entry_fields f recorded_def split: sum.splits)
  have named: "check_file be p fs ?x = Inr c \<Longrightarrow> snd c \<Longrightarrow> c = (name, True)" for c
    by (auto simp: check_file_def Let_def split: sum.splits if_splits)
  have entries: "manifest_entries be (f # files) = ?x # manifest_entries be files" by (simp add: manifest_entries_def f)
  have split: "check_files be p fs (manifest_entries be (f # files)) = Inr cs \<and> list_all snd cs \<longleftrightarrow>
    (\<exists>cs'. cs = (name, True) # cs' \<and> check_file be p fs ?x = Inr (name, True) \<and> check_files be p fs (manifest_entries be files) = Inr cs' \<and> list_all snd cs')"
    unfolding entries check_files.simps using named by (auto split: sum.splits)
  show ?case unfolding split one Cons.IH by (auto simp: f)
qed (auto simp: manifest_entries_def)

definition writable :: "files \<Rightarrow> path \<Rightarrow> bool" where
  "writable fs q \<longleftrightarrow> \<not> is_link (node_at fs q) \<and> node_at fs q \<noteq> Some Special"

text \<open>Files with names of their own that could be written are read as they were given.\<close>

lemma write_files_other:
  assumes "write_files p files fs = (None, fs')" and "\<forall>f\<in>set files. plain_name (fst f)"
    and "\<forall>f\<in>set files. writable fs (p @ [fst f])" and "q \<notin> (\<lambda>f. p @ [fst f]) ` set files"
  shows "node_at fs' q = node_at fs q"
  using assms
proof (induction p files fs rule: write_files.induct)
  case (2 p name content rest fs)
  obtain fs1 where one: "writeFileSync (p @ [name]) content fs = Inr fs1" and rest: "write_files p rest fs1 = (None, fs')"
    using "2.prems"(1,2) by (auto simp: join_plain split: sum.splits)
  have stores: "node_at fs1 r = (if r = p @ [name] then Some (File content) else node_at fs r)" for r
    using writeFileSync_stores [OF one] "2.prems"(3) by (simp add: writable_def)
  then have "\<forall>f\<in>set rest. writable fs1 (p @ [fst f])" using "2.prems"(3) by (auto simp: writable_def is_link_def)
  then have "node_at fs' q = node_at fs1 q"
    using "2.IH" [of fs1] one rest "2.prems"(2,4) by (simp add: join_plain)
  then show ?case using stores "2.prems"(4) by simp
qed simp

lemma write_files_read:
  assumes "write_files p files fs = (None, fs')" and "distinct (map fst files)" and "\<forall>f\<in>set files. plain_name (fst f)"
    and "\<forall>f\<in>set files. writable fs (p @ [fst f])"
  shows "\<forall>f\<in>set files. node_at fs' (p @ [fst f]) = Some (File (snd f))"
  using assms
proof (induction p files fs rule: write_files.induct)
  case (2 p name content rest fs)
  obtain fs1 where one: "writeFileSync (p @ [name]) content fs = Inr fs1" and rest: "write_files p rest fs1 = (None, fs')"
    using "2.prems"(1,3) by (auto simp: join_plain split: sum.splits)
  have stores: "node_at fs1 r = (if r = p @ [name] then Some (File content) else node_at fs r)" for r
    using writeFileSync_stores [OF one] "2.prems"(4) by (simp add: writable_def)
  then have writable: "\<forall>f\<in>set rest. writable fs1 (p @ [fst f])" using "2.prems"(4) by (auto simp: writable_def is_link_def)
  then have "\<forall>f\<in>set rest. node_at fs' (p @ [fst f]) = Some (File (snd f))"
    using "2.IH" [of fs1] one rest "2.prems"(2,3) by (simp add: join_plain)
  moreover have "node_at fs' (p @ [name]) = node_at fs1 (p @ [name])"
    using write_files_other [OF rest _ writable, of "p @ [name]"] "2.prems"(2,3) by (auto simp: image_iff)
  ultimately show ?case using stores by simp
qed simp

lemma bundle_names: "set (map fst (bundle_files be input config)) \<subseteq> {''deployment.json'', ''license.json''}"
  "distinct (map fst (bundle_files be input config))"
  by (auto simp: bundle_files_def)

text \<open>
  C36. A bundle that was written is found valid, file by file. And whatever happens to its folder as long as the manifest
  stays: the check finds it valid exactly if every file of the bundle has the length and the digest of the content that was
  written. So a bundle whose files are unchanged stays valid, and one that is found valid has all its files unchanged or
  holds a collision: another text of the same length and digest. The folder must not hold links in the place of the files.
\<close>

theorem written_bundles_are_verified:
  assumes "writeDeliveryBundle be p input fs = (Inr m, fs1)" and "createDeploymentConfig be input = Inr config"
    and "\<And>n. n \<in> {''deployment.json'', ''license.json'', ''manifest.json''} \<Longrightarrow> writable fs (p @ [n])"
    and "be_parse be (bundle_text be m) = Some m"
    and "node_at fs2 (p @ [''manifest.json'']) = node_at fs1 (p @ [''manifest.json''])"
  shows "verifyDeliveryBundle be p fs1 = Inr (True, map (\<lambda>f. (fst f, True)) (bundle_files be input config)) \<and>
    ((\<exists>cs. verifyDeliveryBundle be p fs2 = Inr (True, cs)) \<longleftrightarrow> (\<forall>f\<in>set (bundle_files be input config). recorded be fs2 p f)) \<and>
    (reads_as fs2 p (bundle_files be input config) \<longrightarrow> (\<exists>cs. verifyDeliveryBundle be p fs2 = Inr (True, cs))) \<and>
    ((\<exists>cs. verifyDeliveryBundle be p fs2 = Inr (True, cs)) \<longrightarrow> reads_as fs2 p (bundle_files be input config) \<or>
      (\<exists>(name, content)\<in>set (bundle_files be input config). \<exists>t. readFileSync fs2 (join_path p name) = Inr t \<and> t \<noteq> content \<and>
         length t = length content \<and> bundle_hash be t = bundle_hash be content))"
proof -
  let ?files = "bundle_files be input config"
  let ?all = "?files @ [(''manifest.json'', bundle_text be m)]"
  obtain fs0 where fs0: "mkdirSync p fs = Inr fs0" and m: "m = bundle_manifest be ?files" and run: "write_files p ?all fs0 = (None, fs1)"
    using assms(1,2) by (auto simp: writeDeliveryBundle_def Let_def split: sum.splits prod.splits option.splits)
  have plain: "plain_name ''deployment.json''" "plain_name ''license.json''" "plain_name ''manifest.json''"
    by (simp_all add: plain_name_def)
  have "writable fs0 (p @ [n])" if "n \<in> {''deployment.json'', ''license.json'', ''manifest.json''}" for n
    using assms(3) [OF that] mkdirSync_elsewhere [OF fs0, of "p @ [n]"] by (simp add: writable_def)
  then have "\<forall>f\<in>set ?all. writable fs0 (p @ [fst f])" "\<forall>f\<in>set ?all. plain_name (fst f)" "distinct (map fst ?all)"
    using plain by (auto simp: bundle_files_def)
  then have read: "\<forall>f\<in>set ?all. node_at fs1 (p @ [fst f]) = Some (File (snd f))" using write_files_read [OF run] by blast
  have check: "verifyDeliveryBundle be p gs = Inr (True, cs) \<longleftrightarrow> cs = map (\<lambda>f. (fst f, True)) ?files \<and> (\<forall>f\<in>set ?files. recorded be gs p f)"
    if "node_at gs (p @ [''manifest.json'']) = Some (File (bundle_text be m))" for gs cs
  proof -
    have "verifyDeliveryBundle be p gs = (case check_files be p gs (manifest_entries be ?files) of Inl err \<Rightarrow> Inl err | Inr cs \<Rightarrow> Inr (list_all snd cs, cs))"
      using readFileSync_File [OF that] assms(4)
      by (simp add: verifyDeliveryBundle_def join_plain plain entry_fields)
        (simp add: m bundle_manifest_def at_def prop_of_def nullish_def entries_of_def manifest_entries_def)
    then have "verifyDeliveryBundle be p gs = Inr (True, cs) \<longleftrightarrow> check_files be p gs (manifest_entries be ?files) = Inr cs \<and> list_all snd cs"
      by (auto split: sum.splits)
    then show ?thesis by (simp only: checked_files)
  qed
  have same: "reads_as gs p ?files \<Longrightarrow> \<forall>f\<in>set ?files. recorded be gs p f" for gs
    by (auto simp: reads_as_def list_all_iff recorded_def split_beta)
  have "reads_as fs1 p ?files"
    using read plain by (auto simp: reads_as_def list_all_iff bundle_files_def join_plain readFileSync_File)
  then have "verifyDeliveryBundle be p fs1 = Inr (True, map (\<lambda>f. (fst f, True)) ?files)" using check [of fs1] read same by simp
  moreover have two: "(\<exists>cs. verifyDeliveryBundle be p fs2 = Inr (True, cs)) \<longleftrightarrow> (\<forall>f\<in>set ?files. recorded be fs2 p f)"
    using check [of fs2] read assms(5) by simp
  moreover have "reads_as fs2 p ?files \<or> (\<exists>(name, content)\<in>set ?files. \<exists>t. readFileSync fs2 (join_path p name) = Inr t \<and> t \<noteq> content \<and>
      length t = length content \<and> bundle_hash be t = bundle_hash be content)" if "\<forall>f\<in>set ?files. recorded be fs2 p f"
    using that unfolding reads_as_def list_all_iff recorded_def by fastforce
  ultimately show ?thesis using same [of fs2] by blast
qed

section \<open>A concrete bundle\<close>

definition bundle_input :: json where
  "bundle_input = JObj [(''organizationId'', JStr ''o''), (''licenseId'', JStr ''l''), (''serverId'', JStr ''s''), (''platformUrl'', JStr ''u'')]"

definition text_env :: "json \<Rightarrow> bundle_env" where
  "text_env m = \<lparr>be_crypto = flat_crypto, be_stringify = (\<lambda>_. ''x''), be_parse = (\<lambda>_. Some m), be_show = (\<lambda>_. ''u''), be_now = []\<rparr>"

definition written_manifest :: json where
  "written_manifest = bundle_manifest (text_env JNull) [(''deployment.json'', [CHR ''x'', LF])]"

theorem written_bundles_are_verified_witness:
  "\<exists>fs. fst (writeDeliveryBundle (text_env written_manifest) [''d''] bundle_input []) = Inr written_manifest
    \<and> verifyDeliveryBundle (text_env written_manifest) [''d''] fs = Inr (True, [(''deployment.json'', True)])"
proof -
  let ?be = "text_env written_manifest" and ?p = "[''d'']"
  obtain config where config: "createDeploymentConfig ?be bundle_input = Inr config"
    by (simp add: createDeploymentConfig_def bundle_input_def at_def prop_of_def truthy_def)
  have files: "bundle_files ?be bundle_input config = [(''deployment.json'', [CHR ''x'', LF])]"
    by (simp add: bundle_files_def bundle_text_def text_env_def bundle_input_def at_def prop_of_def truthy_def)
  have manifest: "bundle_manifest ?be [(''deployment.json'', [CHR ''x'', LF])] = written_manifest"
    by (simp add: written_manifest_def bundle_manifest_def bundle_hash_def text_env_def)
  have root: "stat_of [] [] = Some Folder" by (simp add: stat_of_plain is_link_def)
  have none: "node_at [] (a # q) = None" for a q by (simp add: node_at_def)
  then have folder: "mkdirSync ?p [] = Inr (put_node ?p Folder [])" by (simp add: mkdirSync_def make_folder_def root)
  have "\<exists>fs. writeDeliveryBundle ?be ?p bundle_input [] = (Inr written_manifest, fs)"
    by (simp add: writeDeliveryBundle_def folder config files manifest Let_def join_plain plain_name_def writeFileSync_def real_path_plain
        is_link_def none)
  then obtain fs where fs: "writeDeliveryBundle ?be ?p bundle_input [] = (Inr written_manifest, fs)" ..
  have "writable [] (?p @ [n])" for n by (simp add: writable_def node_at_def is_link_def)
  moreover have "be_parse ?be t = Some written_manifest" for t by (simp add: text_env_def)
  ultimately show ?thesis
    using written_bundles_are_verified [OF fs config _ _ refl] fs by (auto simp: files)
qed

end
