(* ===== verification/Release_Manifest.thy ===== *)
theory Release_Manifest
  imports Control_Service Js_Object
begin

text \<open>
  The manifest of a release, \<open>distribution/release-manifest.mjs\<close>: how it is made from the versions, commits and images of a
  build, and the checks an installer makes on it.
\<close>

section \<open>Patterns\<close>

definition DIGITS :: rexp where
  "DIGITS = Rep (Cls is_digit) 1 None"

definition RELEASE_VERSION :: rexp where
  "RELEASE_VERSION = seqs [DIGITS, literal ''.'', DIGITS, literal ''.'', DIGITS,
     Rep (Sq (literal ''-'') (Rep (Cls (\<lambda>c. is_alnum c \<or> one_of ''.-'' c)) 1 None)) 0 (Some 1)]"

definition RELEASE_COMMIT :: rexp where
  "RELEASE_COMMIT = Rep (Cls (\<lambda>c. one_of ''abcdef'' c \<or> is_digit c)) 40 (Some 40)"

definition RELEASE_IMAGE :: rexp where
  "RELEASE_IMAGE = seqs [Alt (literal ''ghcr.io'') (literal ''docker.io''), literal ''/'', Rep (Cls (\<lambda>c. is_alnum c \<or> one_of ''._/-'' c)) 1 None,
     Rep (Sq (literal '':'') (Rep (Cls (\<lambda>c. is_alnum c \<or> one_of ''._-'' c)) 1 None)) 0 (Some 1),
     literal ''@sha256:'', Rep (Cls (\<lambda>c. one_of ''abcdef'' c \<or> is_digit c)) 64 (Some 64)]"

definition MIGRATION :: rexp where
  "MIGRATION = seqs [Rep (Cls is_digit) 3 (Some 3), literal ''_'', Rep (Cls (\<lambda>c. is_alnum c \<or> one_of ''_-'' c)) 1 None, literal ''.sql'']"

definition matching_text :: "rexp \<Rightarrow> json \<Rightarrow> bool" where
  "matching_text r v \<longleftrightarrow> (case v of JStr s \<Rightarrow> s \<noteq> [] \<and> matches r s | _ \<Rightarrow> False)"

definition requiredString :: "json \<Rightarrow> string \<Rightarrow> rexp \<Rightarrow> failure option" where
  "requiredString v name r = (if matching_text r v then None else Some (TypeError (name @ '' is invalid'')))"

section \<open>Checks\<close>

definition text_has :: "char \<Rightarrow> json \<Rightarrow> bool" where
  "text_has c v \<longleftrightarrow> (case v of JStr s \<Rightarrow> c \<in> set s | _ \<Rightarrow> False)"

definition channel_of :: "json \<Rightarrow> json" where
  "channel_of version = JStr (if text_has CHR ''-'' version then ''prerelease'' else ''stable'')"

definition failing :: "bool \<Rightarrow> string \<Rightarrow> failure option" where
  "failing b message = (if b then Some (TypeError message) else None)"

definition begins_with :: "string \<Rightarrow> json \<Rightarrow> bool" where
  "begins_with w v \<longleftrightarrow> (case v of JStr s \<Rightarrow> starts_with w s | _ \<Rightarrow> False)"

definition COMMIT_NAMES :: "string list" where
  "COMMIT_NAMES = [''platform'', ''agent'', ''hermes'', ''bailongma'']"

definition IMAGE_NAMES :: "string list" where
  "IMAGE_NAMES = [''platform'', ''runtime'', ''hermes'', ''postgres'', ''caddy'']"

definition OWN_IMAGES :: "(string \<times> string \<times> string) list" where
  "OWN_IMAGES =
     [(''platform'', ''ghcr.io/lutao581314/bairui-platform@'', ''Platform image repository is invalid''),
      (''runtime'', ''ghcr.io/lutao581314/bairui-runtime@'', ''Runtime image repository is invalid''),
      (''hermes'', ''ghcr.io/lutao581314/bairui-hermes@'', ''Hermes image repository is invalid'')]"

definition docker_major_ok :: "json \<Rightarrow> bool" where
  "docker_major_ok v \<longleftrightarrow> (case v of JNum (Integer n) \<Rightarrow> 27 \<le> n | _ \<Rightarrow> False)"

definition has_amd64 :: "json \<Rightarrow> bool" where
  "has_amd64 v \<longleftrightarrow> (case v of JArr xs \<Rightarrow> JStr ''amd64'' \<in> set xs | _ \<Rightarrow> False)"

text \<open>The commits of a manifest that is read may be more than the four, and every one must be a commit.\<close>

definition manifest_checks :: "string option \<Rightarrow> json \<Rightarrow> failure option list" where
  "manifest_checks expected v =
     [failing (at v ''schemaVersion'' \<noteq> JStr ''1.0'' \<or> at v ''product'' \<noteq> JStr ''bairui-agent'') ''Release manifest identity is invalid'',
      requiredString (at v ''version'') ''version'' RELEASE_VERSION,
      failing (expected \<notin> {None, Some []} \<and> at v ''version'' \<noteq> JStr (or_else expected [])) ''Release manifest version does not match the requested version'',
      failing (at v ''channel'' \<noteq> channel_of (at v ''version'')) ''Release channel does not match the version'',
      requiredString (at v ''contractsVersion'') ''contractsVersion'' RELEASE_VERSION] @
     map (\<lambda>(name, c). requiredString c (''commits.'' @ name) RELEASE_COMMIT) (own_fields (at v ''commits'')) @
     map (\<lambda>name. requiredString (at (at v ''commits'') name) (''commits.'' @ name) RELEASE_COMMIT) COMMIT_NAMES @
     map (\<lambda>name. requiredString (at (at v ''images'') name) (''images.'' @ name) RELEASE_IMAGE) IMAGE_NAMES @
     map (\<lambda>(name, before, message). failing (\<not> begins_with before (at (at v ''images'') name)) message) OWN_IMAGES @
     [failing (at (at v ''database'') ''engine'' \<noteq> JStr ''postgresql'' \<or> \<not> matching_text MIGRATION (at (at v ''database'') ''migration''))
        ''Database release metadata is invalid'',
      failing (\<not> docker_major_ok (at (at v ''install'') ''minimumDockerMajor'')) ''Docker minimum version is invalid'',
      failing (\<not> has_amd64 (at (at v ''install'') ''supportedArchitectures'')) ''Release architecture inventory is invalid'']"

definition validateReleaseManifest :: "string option \<Rightarrow> json \<Rightarrow> failure + json" where
  "validateReleaseManifest expected v = (case first_failure (manifest_checks expected v) of Some err \<Rightarrow> Inl err | None \<Rightarrow> Inr v)"

section \<open>Making a manifest\<close>

definition manifest_inputs :: "json \<Rightarrow> failure option list" where
  "manifest_inputs input =
     map (\<lambda>(k, r). requiredString (at input k) k r)
       ([(''version'', RELEASE_VERSION), (''contractsVersion'', RELEASE_VERSION)] @
        map (\<lambda>name. (name @ ''Commit'', RELEASE_COMMIT)) COMMIT_NAMES @ map (\<lambda>name. (name @ ''Image'', RELEASE_IMAGE)) IMAGE_NAMES @
        [(''migration'', MIGRATION)])"

definition manifest_of :: "string \<Rightarrow> json \<Rightarrow> json" where
  "manifest_of now input =
     JObj [(''schemaVersion'', JStr ''1.0''), (''product'', JStr ''bairui-agent''), (''version'', at input ''version''),
       (''channel'', channel_of (at input ''version'')), (''generatedAt'', default (at input ''generatedAt'') (JStr now)),
       (''contractsVersion'', at input ''contractsVersion''),
       (''commits'', JObj (map (\<lambda>name. (name, at input (name @ ''Commit''))) COMMIT_NAMES)),
       (''images'', JObj (map (\<lambda>name. (name, at input (name @ ''Image''))) IMAGE_NAMES)),
       (''database'', JObj [(''engine'', JStr ''postgresql''), (''migration'', at input ''migration'')]),
       (''install'', JObj [(''composeProject'', JStr ''bairui-agent''), (''minimumDockerMajor'', JNum (Integer 27)),
          (''supportedArchitectures'', JArr [JStr ''amd64''])])]"

definition buildReleaseManifest :: "string \<Rightarrow> json \<Rightarrow> failure + json" where
  "buildReleaseManifest now input =
     (case first_failure (manifest_inputs input) of Some err \<Rightarrow> Inl err | None \<Rightarrow> validateReleaseManifest None (manifest_of now input))"

section \<open>Which manifests are made\<close>

definition well_formed_inputs :: "json \<Rightarrow> bool" where
  "well_formed_inputs input \<longleftrightarrow>
     matching_text RELEASE_VERSION (at input ''version'') \<and> matching_text RELEASE_VERSION (at input ''contractsVersion'')
     \<and> (\<forall>name\<in>set COMMIT_NAMES. matching_text RELEASE_COMMIT (at input (name @ ''Commit'')))
     \<and> (\<forall>name\<in>set IMAGE_NAMES. matching_text RELEASE_IMAGE (at input (name @ ''Image'')))
     \<and> matching_text MIGRATION (at input ''migration'')"

lemma inputs_checked: "first_failure (manifest_inputs input) = None \<longleftrightarrow> well_formed_inputs input"
  unfolding manifest_inputs_def first_failure_map_None by (auto simp: requiredString_def well_formed_inputs_def ball_Un)

lemma manifest_fields [simp]:
  "at (manifest_of now input) ''schemaVersion'' = JStr ''1.0''" "at (manifest_of now input) ''product'' = JStr ''bairui-agent''"
  "at (manifest_of now input) ''version'' = at input ''version''" "at (manifest_of now input) ''channel'' = channel_of (at input ''version'')"
  "at (manifest_of now input) ''contractsVersion'' = at input ''contractsVersion''"
  "at (manifest_of now input) ''commits'' = JObj (map (\<lambda>name. (name, at input (name @ ''Commit''))) COMMIT_NAMES)"
  "at (manifest_of now input) ''images'' = JObj (map (\<lambda>name. (name, at input (name @ ''Image''))) IMAGE_NAMES)"
  "at (at (manifest_of now input) ''database'') ''engine'' = JStr ''postgresql''"
  "at (at (manifest_of now input) ''database'') ''migration'' = at input ''migration''"
  "docker_major_ok (at (at (manifest_of now input) ''install'') ''minimumDockerMajor'')"
  "has_amd64 (at (at (manifest_of now input) ''install'') ''supportedArchitectures'')"
  by (simp_all add: manifest_of_def at_def prop_of_def docker_major_ok_def has_amd64_def)

lemma mapped_field: "name \<in> set names \<Longrightarrow> at (JObj (map (\<lambda>name. (name, f name)) names)) name = f name"
  by (simp add: at_def prop_of_def map_of_map_restrict restrict_map_def)

lemma first_failure_append: "first_failure (xs @ ys) = None \<longleftrightarrow> first_failure xs = None \<and> first_failure ys = None"
  by (auto simp: first_failure_None)

text \<open>
  A release manifest is made exactly from well-formed inputs whose own images come from the platform's repositories,
  and an installer that expects the version of the inputs accepts it as it is.
\<close>

theorem manifests_are_made_and_accepted:
  "(buildReleaseManifest now input = Inr v \<longleftrightarrow>
      v = manifest_of now input \<and> well_formed_inputs input
      \<and> list_all (\<lambda>(name, before, _). begins_with before (at input (name @ ''Image''))) OWN_IMAGES)
    \<and> (buildReleaseManifest now input = Inr v \<longleftrightarrow>
      v = manifest_of now input \<and> well_formed_inputs input
      \<and> (\<exists>w. at input ''version'' = JStr w \<and> validateReleaseManifest (Some w) v = Inr v))"
proof -
  have own: "at (JObj (map (\<lambda>name. (name, f name)) IMAGE_NAMES)) ''platform'' = f ''platform''"
    "at (JObj (map (\<lambda>name. (name, f name)) IMAGE_NAMES)) ''runtime'' = f ''runtime''"
    "at (JObj (map (\<lambda>name. (name, f name)) IMAGE_NAMES)) ''hermes'' = f ''hermes''" for f :: "string \<Rightarrow> json"
    by (simp_all add: at_def prop_of_def IMAGE_NAMES_def)
  have checks: "first_failure (manifest_checks expected (manifest_of now input)) = None \<longleftrightarrow>
      list_all (\<lambda>(name, before, _). begins_with before (at input (name @ ''Image''))) OWN_IMAGES"
    if "well_formed_inputs input" "expected \<in> {None, Some []} \<or> at input ''version'' = JStr (or_else expected [])" for expected
    using that
    by (auto simp: manifest_checks_def first_failure_append first_failure_map_None failing_def requiredString_def well_formed_inputs_def
        own_fields_def mapped_field OWN_IMAGES_def own)
  have made: "buildReleaseManifest now input = Inr v \<longleftrightarrow> v = manifest_of now input \<and> well_formed_inputs input
      \<and> list_all (\<lambda>(name, before, _). begins_with before (at input (name @ ''Image''))) OWN_IMAGES"
    using checks [of None] inputs_checked [of input]
    by (auto simp: buildReleaseManifest_def validateReleaseManifest_def split: option.splits)
  have "\<exists>w. at input ''version'' = JStr w" if "well_formed_inputs input"
    using that by (auto simp: well_formed_inputs_def matching_text_def split: json.splits)
  then show ?thesis
    using made checks [of "Some w" for w] by (auto simp: validateReleaseManifest_def split: option.splits)
qed

end
