(* ===== verification/Spec2Isabelle.thy ===== *)
theory Spec2Isabelle
  imports Control_Plane Control_Service Authorization Channel_Workers Internal_Channels Memory_Worker
    Fleet_Tenancy Fleet_Alerts Retention Scene_Stream Panels Sign_In License Js_Search
    Wechat_Adapter Qq_Adapter Feishu_Adapter Agent_Daemon Supervisor Resource_Collector
    Web_Operations Agent_Readiness Character_Card Display_Projection Internal_Control Resource_Reports
    Agent_Initialization Runtime_Client Delivery_Bundle Release_Manifest
begin

text \<open>
  A verification library for the BaiRui cloud agent platform.

  The platform runs personal agents for tenants. A web application and the agents' servers call one
  repository that owns all durable state. Three kinds of workers poll it: channel workers (messages
  from and to vendors such as Feishu or WeChat), the memory projection worker (notes of a user that
  become files an agent reads), and the control client on each server (commands that provision, start,
  back up or upgrade agents). The repository exists twice, over PostgreSQL and in memory; the model is
  the in-memory one, \<open>packages/db/memory-repository.mjs\<close>, in which the decisions are JavaScript and
  not SQL. The modules around it (policy, authorization, sessions, machine requests, licenses, workers,
  endpoints, scene streams and panels) are modelled beside it, over the same states.

  Theories: the language.

  \<^item> \<open>Js_Prelude\<close>: clock and identifiers, failures as values, the array and map idioms (\<open>find\<close>, in-place
    assignment, stable sort and slice, clamps) and their lemmas.
  \<^item> \<open>Js_Regex\<close>: the regular expressions of the source as terms, a matcher by derivatives and the proof
    that it decides the language.
  \<^item> \<open>Js_Value\<close>, \<open>Js_Text\<close>, \<open>Js_Search\<close>, \<open>Js_Object\<close>, \<open>Js_Number\<close>: JSON-like values, text, searching and
    replacing, the fields of objects, and \<open>Number\<close> of a value.
  \<^item> \<open>Byte_Codec\<close>: hexadecimal and base64url with their round trips, and the cryptographic functions as a
    record of parameters with the laws the code relies on.
  \<^item> \<open>Effects\<close>: computations that change a state and may throw, with \<open>try\<close>, \<open>catch\<close>, \<open>finally\<close> and loops over
    them, and the triples the proofs about them use.
  \<^item> \<open>Host_Files\<close>: a tree of files, folders and links, and the calls of \<open>node:fs\<close> on it.
  \<^item> \<open>Keyed_Store\<close>: maps with a key per record, as the repository keeps them.

  Theories: the durable state.

  \<^item> \<open>Lease_Queue\<close>: what the durable queues share: the life cycle of an item as an abstract step relation,
    and the locales \<open>lease_queue\<close>, \<open>bounded_lease_queue\<close> and \<open>counted_lease_queue\<close>, in which exclusive leases,
    final states and bounded attempts are proved once, the last over the answers of the calls: an item is handed out
    exactly as often as its attempts say.
  \<^item> \<open>Channel_Store\<close>, \<open>Channel_Invariants\<close>, \<open>Channel_Bridge\<close>: channel bindings, worker credentials, inbox,
    outbox, delivery receipts, dead letters and health reports; the invariant of the store; inbox and outbox
    as interpretations of the bounded queue and the properties of the bridge.
  \<^item> \<open>Projection_Store\<close>, \<open>Projection_Queue\<close>: notes and the coalescing projection queue; an abstract queue
    that allows one waiting and one running job per agent, and the refinement of the store to it.
  \<^item> \<open>Fleet_Store\<close>, \<open>Fleet_Tenancy\<close>: organizations, users, agents, runtimes, servers, credentials, nonces.
  \<^item> \<open>Fleet_Telemetry\<close>, \<open>Fleet_Alerts\<close>: heartbeats, resource samples, usage and alerts; when an alert is active.
  \<^item> \<open>Tenant_Records\<close>, \<open>Retention\<close>: conversations, audit, licenses, providers, skills, integrations, grants; what
    the retention policies delete and which backups they expire.
  \<^item> \<open>Scene_Store\<close>: the revisioned scene of an agent and the log of patches clients resume from.
  \<^item> \<open>Control_Store\<close>, \<open>Control_Commands\<close>, \<open>Control_Receipts\<close>, \<open>Control_Plane\<close>: provisioning, owner
    configuration, lifecycle requests, operations with approvals, command leases, and receipts with their
    effects on the fleet; the properties of commands and approvals.

  Theories: what stands between the state and its callers.

  \<^item> \<open>Control_Policy\<close>, \<open>Control_Service\<close>: \<open>packages/control-authority/\<close>: action table, payload checks,
    redaction, and every operation of the service from its document to the repository request.
  \<^item> \<open>Authorization\<close>, \<open>Sessions\<close>, \<open>Sign_In\<close>: roles and the tenant check, session tokens, cookies, passwords and
    sealed secrets, the sign-in routes (\<open>packages/auth/\<close>, \<open>packages/security/secret-envelope.mjs\<close>,
    \<open>apps/web/routes/auth.mjs\<close>).
  \<^item> \<open>Machine_Requests\<close>: signed requests of machines and signed control documents (\<open>packages/security/\<close>).
  \<^item> \<open>License\<close>: issuing and checking licenses (\<open>packages/license/\<close>).
  \<^item> \<open>Memory_Documents\<close>, \<open>Memory_Worker\<close>: note documents, the projection that fits the limits of the memory files,
    synchronization with an agent's runtime and the worker (\<open>packages/memory/\<close>).
  \<^item> \<open>Channel_Workers\<close>, \<open>Internal_Channels\<close>: the ingress worker, the delivery worker and the endpoints they call
    (\<open>packages/channels/\<close>, \<open>apps/web/routes/internal-channels.mjs\<close>).
  \<^item> \<open>Vendor_Api\<close>, \<open>Wechat_Adapter\<close>, \<open>Qq_Adapter\<close>, \<open>Feishu_Adapter\<close>: the adapters in
    \<open>packages/channels/adapters/\<close> between a worker and a vendor: tokens and HTTP answers, callbacks with
    their signatures and replays, the QQ gateway as a step relation over frames, sockets, timers and
    pending connects, and the deliveries.
  \<^item> \<open>Control_Client\<close>, \<open>Control_Cycle\<close>, \<open>Agent_Daemon\<close>: the agent on a server (\<open>server-agent/control-client.mjs\<close>,
    \<open>daemon.mjs\<close>): signed documents, the lease and its checks, receipts, the cycle over the leased
    commands with the trace of what it runs and sends, and the loop over cycles.
  \<^item> \<open>Supervisor_Host\<close>, \<open>Supervisor_Config\<close>, \<open>Supervisor_Containers\<close>, \<open>Supervisor_Updates\<close>, \<open>Supervisor_Backups\<close>,
    \<open>Supervisor_Rollback\<close>, \<open>Supervisor\<close>: what the agent on a server does with a command
    (\<open>server-agent/supervisor.mjs\<close>). The state is the host: its files and the record of the programs that ran. The
    theories hold the parsers and environment files, the options, names, ports and documents, the containers with
    provisioning and life cycle, the configuration and release updates, encrypted backups, the proof that a
    failed owner change is undone, and the dispatch over all actions.
  \<^item> \<open>Resource_Collector\<close>: the sizes and percentages \<open>docker\<close> prints, the size of a folder and the samples
    (\<open>server-agent/resource-collector.mjs\<close>).
  \<^item> \<open>Internal_Control\<close>, \<open>Resource_Reports\<close>: the endpoints those agents call for leases, receipts and resource reports
    (\<open>apps/web/routes/internal-control.mjs\<close>), with the agent that takes the granted lease and the store that keeps the samples.
  \<^item> \<open>Agent_Initialization\<close>, \<open>Runtime_Client\<close>: the model provider of a new agent and its key
    (\<open>apps/web/services/agent-initialization.mjs\<close>), and the requests the platform sends to the runtime of an agent
    (\<open>packages/server-protocol/runtime-client.mjs\<close>).
  \<^item> \<open>Delivery_Bundle\<close>, \<open>Release_Manifest\<close>: the bundle that installs a server (\<open>packages/deployment/bundle.mjs\<close>) and the
    manifest of a release (\<open>distribution/release-manifest.mjs\<close>), how they are made and checked.
  \<^item> \<open>Scene_Stream\<close>: documents, messages and event streams of a scene, with the client that follows them.
  \<^item> \<open>Panels\<close>, \<open>Display_Projection\<close>: the panel table and the manifest of the user interface, and what its display shows
    of notes and news (\<open>packages/bailongma-ui/\<close>).
  \<^item> \<open>Public_Surface\<close>, \<open>Agent_Readiness\<close>: the helpers of \<open>apps/web/app.mjs\<close>: secret fields and views, the documents and
    arguments of requests, and whether an agent can be used.
  \<^item> \<open>Character_Card\<close>: importing a character card (\<open>packages/character-card/\<close>), and that the supervisor takes it.
  \<^item> \<open>Web_Operations\<close>: what the web application accepts the supervisor accepts.

  State and operations. The private fields of the repository class are the fields of records
  (\<open>channel_state\<close>, \<open>projection_state\<close>, \<open>fleet_state\<close>, \<open>telemetry_state\<close>, \<open>tenant_state\<close>, \<open>scene_state\<close>); the
  operations of one group touch no field of another one, except where the theory says so. A method is a
  function from its environment (the clock and the
  identifiers \<open>randomUUID\<close> returns), its input object and the state to its result and the next state. An
  array of objects the code mutates is a list, and the object that \<open>find\<close> returned is replaced at its
  position. A \<open>throw\<close> is an \<open>Inl\<close> with the code and status of the error; an early \<open>return null\<close>
  is \<open>None\<close>. The methods are \<open>async\<close> but wait for nothing outside the class (the few that have an \<open>await\<close> call another
  method of it, which has ended when it returns), so each is modelled as running to its end before
  another starts: an execution is a sequence of operations, which is what the step relations say. A worker
  or a stream does await: what others do to the state in between is a parameter (\<open>between\<close>) or a run of the
  step relation, and the properties hold for every one.

  Parameters. Code that is not in the repository is an argument of the definitions that use it: hashes,
  ciphers and signatures, the contract validators, JSON text and URI encodings, the runtimes of the agents,
  the vendors' servers (\<open>vendor_runtime\<close>), the platform and the executor as an agent sees them (\<open>agent_env\<close>), and what
  \<open>docker\<close>, \<open>tar\<close> and the YAML and JSON libraries answer the supervisor (\<open>sup_env\<close>), a run of a program being any
  function on the files. Hypotheses about them are laws of the functions (a cipher decrypts what it encrypted), and each
  property with one has a witness with a concrete instance.

  Text. A \<open>string\<close> of the model has one character per unit of the text the code counts: a UTF-16 code unit where the code
  takes the length of a JavaScript string, a byte of the UTF-8 form where it writes, hashes or reads back a file (environment
  files, backups and bundles).

  Bounds and termination. Recursion is structural or has a measure that is proved, so no fuel is used; the loop
  that measures a folder is a partial function that is proved to end on every file tree. Numbers
  are counters, limits and instants far below \<open>2 ^ 53\<close> and are \<open>int\<close> or \<open>nat\<close>; percentages are \<open>rat\<close>.

  Not modelled. SQL (the PostgreSQL repositories decide in queries this library does not interpret), HTTP
  parsing and routing, the browser's user interface, what goes on inside containers, the sockets and timers
  themselves (their events are steps), the vendors' SDK. The file tree has no permissions and no faults of a
  disk, and a link is followed at the end of a path only.
\<close>

end
